(* ===== verification/Prelude.thy ===== *)
theory Prelude
  imports Main "HOL-Library.Word" "HOL-Library.Signed_Division"
begin

text \<open>
  Shared vocabulary of the development: the machine integers of the Go sources, the way a Go
  function can end (a value, an error value or a panic), the pieces of the Go run time the sources use (\<open>make\<close>, slice expressions,
  \<open>copy\<close>, map reads with the zero value as default, the \<open>math/big\<close> operations), and the
  lemmas about them that the components share.
\<close>

unbundle bit_operations_syntax

subsection \<open>Machine integers and byte strings\<close>

type_synonym byte = "8 word"
type_synonym bytes = "byte list"
type_synonym u64 = "64 word"

text \<open>\<open>len\<close> of a Go slice, converted to \<open>uint64\<close>.\<close>

abbreviation ulen :: "'a list \<Rightarrow> u64" where
  "ulen xs \<equiv> of_nat (length xs)"

text \<open>\<open>^uint64(0)\<close>, also \<open>math.MaxUint64\<close>.\<close>

abbreviation maxU64 :: u64 where
  "maxU64 \<equiv> 18446744073709551615"

named_theorems go_defs \<open>definitions of the Go run-time helpers\<close>

subsection \<open>How a Go function ends\<close>

text \<open>The engine's sentinel errors (\<open>internal/engine/result.go\<close>); every other error value, made by
  \<open>fmt.Errorf\<close> or by a library, is \<open>ErrOther\<close> with its text.\<close>

datatype evm_error =
    ErrOutOfGas | ErrStackOverflow | ErrStackUnderflow | ErrInvalidJump | ErrInvalidOpcode
  | ErrCallDepthExceeded | ErrInsufficientBalance | ErrAddressCollision | ErrCodeStoreOutOfGas
  | ErrMaxCodeSizeExceeded | ErrInvalidContractPrefix | ErrWriteProtection
  | ErrReturnDataOutOfBounds | ErrExecutionReverted | ErrHalt
  | ErrInvalidPrecompileInput | ErrOther string
  | ErrRecovered go_panic   \<comment> \<open>\<open>fmt.Errorf("%v", r)\<close> of a recovered panic \<open>r\<close>\<close>
and go_panic =
    PanicErr evm_error      \<comment> \<open>\<open>panic(err)\<close> of the engine itself\<close>
  | PanicSliceBounds        \<comment> \<open>slice or index expression out of range\<close>
  | PanicMakeLen            \<comment> \<open>\<open>makeslice: len out of range\<close>\<close>
  | PanicNil                \<comment> \<open>nil pointer dereference\<close>

datatype 'a outcome = Ok 'a | Fail evm_error | Panic go_panic

fun obind :: "'a outcome \<Rightarrow> ('a \<Rightarrow> 'b outcome) \<Rightarrow> 'b outcome" where
  "obind (Ok x) f = f x"
| "obind (Fail r) f = Fail r"
| "obind (Panic p) f = Panic p"

lemma obind_eq_Ok [simp]: "obind m f = Ok y \<longleftrightarrow> (\<exists>x. m = Ok x \<and> f x = Ok y)"
  by (cases m) auto

subsection \<open>Slices\<close>

text \<open>\<open>make([]byte, n)\<close>: \<open>lim\<close> is the run time's allocation limit (\<open>maxAlloc\<close>), above which
  \<open>make\<close> panics.\<close>

definition make_bytes :: "nat \<Rightarrow> u64 \<Rightarrow> bytes outcome" where
  "make_bytes lim n = (if unat n \<le> lim then Ok (replicate (unat n) 0) else Panic PanicMakeLen)"

text \<open>\<open>xs[lo:hi]\<close> and \<open>xs[lo:]\<close>.\<close>

definition goslice :: "'a list \<Rightarrow> u64 \<Rightarrow> u64 \<Rightarrow> 'a list outcome" where
  "goslice xs lo hi =
     (if lo \<le> hi \<and> unat hi \<le> length xs then Ok (take (unat hi - unat lo) (drop (unat lo) xs))
      else Panic PanicSliceBounds)"

definition gofrom :: "'a list \<Rightarrow> u64 \<Rightarrow> 'a list outcome" where
  "gofrom xs lo = (if unat lo \<le> length xs then Ok (drop (unat lo) xs) else Panic PanicSliceBounds)"

text \<open>\<open>copy(dst, src)\<close> on whole slices, and \<open>copy(dst[off:], src)\<close> with its bounds check.\<close>

definition gocopy :: "'a list \<Rightarrow> 'a list \<Rightarrow> 'a list" where
  "gocopy dst src = take (length dst) src @ drop (length src) dst"

definition gocopy_at :: "'a list \<Rightarrow> u64 \<Rightarrow> 'a list \<Rightarrow> 'a list outcome" where
  "gocopy_at dst off src =
     (if unat off \<le> length dst
      then Ok (take (unat off) dst @ gocopy (drop (unat off) dst) src)
      else Panic PanicSliceBounds)"

lemmas [go_defs] = make_bytes_def goslice_def gofrom_def gocopy_def gocopy_at_def

lemma length_gocopy [simp]: "length (gocopy dst src) = length dst"
  by (simp add: gocopy_def)

lemma gocopy_nil [simp]: "gocopy dst [] = dst"
  by (simp add: gocopy_def)

lemma gocopy_at_Ok_length: "gocopy_at dst off src = Ok out \<Longrightarrow> length out = length dst"
  by (auto simp: gocopy_at_def split: if_splits)

lemma make_bytes_OkD: "make_bytes lim n = Ok bs \<Longrightarrow> bs = replicate (unat n) 0 \<and> unat n \<le> lim"
  by (auto simp: make_bytes_def split: if_splits)

subsection \<open>Maps\<close>

text \<open>\<open>m[k]\<close> on a Go map: the zero value \<open>d\<close> when the key is absent.\<close>

definition mget :: "'v \<Rightarrow> ('k \<rightharpoonup> 'v) \<Rightarrow> 'k \<Rightarrow> 'v" where
  "mget d m k = (case m k of None \<Rightarrow> d | Some v \<Rightarrow> v)"

lemma mget_upd [simp]: "mget d (m(k \<mapsto> v)) k' = (if k' = k then v else mget d m k')"
  by (simp add: mget_def)

lemma mget_empty [simp]: "mget d Map.empty k = d"
  by (simp add: mget_def)

subsection \<open>\<open>math/big\<close>\<close>

text \<open>
  A \<open>*big.Int\<close> that may be nil is an \<open>int option\<close>. \<open>Quo\<close> and \<open>Rem\<close> truncate towards
  zero; \<open>Div\<close> and \<open>Mod\<close> are Euclidean (the remainder is never negative).
\<close>

definition bigQuo :: "int \<Rightarrow> int \<Rightarrow> int" where
  "bigQuo x y = x sdiv y"

definition bigRem :: "int \<Rightarrow> int \<Rightarrow> int" where
  "bigRem x y = x smod y"

definition bigMod :: "int \<Rightarrow> int \<Rightarrow> int" where
  "bigMod x y = x mod \<bar>y\<bar>"

definition bigDiv :: "int \<Rightarrow> int \<Rightarrow> int" where
  "bigDiv x y = (x - bigMod x y) div y"

text \<open>\<open>Exp(b, e, m)\<close> for \<open>m > 0\<close>, by repeated squaring.\<close>

fun bigExp :: "int \<Rightarrow> nat \<Rightarrow> int \<Rightarrow> int" where
  "bigExp b e m =
     (if e = 0 then 1 mod m
      else let r = bigExp (b * b mod m) (e div 2) m
           in if even e then r mod m else b * r mod m)"

declare bigExp.simps [simp del]

lemma bigExp_eq: "bigExp b e m = b ^ e mod m"
proof (induction b e m rule: bigExp.induct)
  case (1 b e m)
  show ?case
  proof (cases "e = 0")
    case True
    then show ?thesis by (simp add: bigExp.simps [of b 0 m])
  next
    case False
    then have IH: "bigExp (b * b mod m) (e div 2) m = (b * b) ^ (e div 2) mod m"
      using 1 by (simp add: power_mod)
    show ?thesis
    proof (cases "even e")
      case True
      then have "b ^ e = (b * b) ^ (e div 2)"
        by (metis dvd_mult_div_cancel power2_eq_square power_mult)
      with True False IH show ?thesis by (simp add: bigExp.simps [of b e m])
    next
      case odd: False
      then have "b ^ e = b * (b * b) ^ (e div 2)"
        by (metis odd_two_times_div_two_succ power2_eq_square power_Suc power_mult Suc_eq_plus1)
      with odd False IH show ?thesis
        by (simp add: bigExp.simps [of b e m] Let_def mod_mult_right_eq)
    qed
  qed
qed

lemma bigDiv_nonneg: "0 \<le> x \<Longrightarrow> 0 < y \<Longrightarrow> bigDiv x y = x div y"
  by (simp add: bigDiv_def bigMod_def minus_mod_eq_mult_div)

lemma bigMod_pos: "0 < y \<Longrightarrow> bigMod x y = x mod y"
  by (simp add: bigMod_def)

subsection \<open>Words\<close>

lemma unat_le_nat: "(a \<le> b) = (unat a \<le> unat (b::'a::len word))"
  by (rule word_le_nat_alt)

lemma unat_lt_nat: "(a < b) = (unat a < unat (b::'a::len word))"
  by (rule word_less_nat_alt)

lemma unat_add_no_wrap: "unat a + unat b < 2 ^ LENGTH('a) \<Longrightarrow> unat (a + b) = unat a + unat (b::'a::len word)"
  by (simp add: unat_word_ariths)

lemma unat_sub_le: "b \<le> a \<Longrightarrow> unat (a - b) = unat a - unat (b::'a::len word)"
  by (simp add: unat_sub)

lemma unat_u64_lt: "unat (x::u64) < 18446744073709551616"
  using unsigned_less [of x] by simp

end
