(* ===== verification/GoMaps.thy ===== *)
theory GoMaps
  imports Prelude "HOL-Library.AList"
begin

text \<open>
  Go maps that the program iterates over. A map is its list of entries with distinct keys, in the order a
  \<open>range\<close> loop meets them; that order is arbitrary in Go, and no result below depends on it. \<open>mput\<close> is the assignment
  \<open>m[k] = v\<close>; reads are \<open>map_of\<close>, with the zero value for a missing key where the code relies on it.
\<close>

type_synonym ('k, 'v) gomap = "('k \<times> 'v) list"

definition mput :: "'k \<Rightarrow> 'v \<Rightarrow> ('k, 'v) gomap \<Rightarrow> ('k, 'v) gomap" where
  "mput k v m = AList.update k v m"

definition mread :: "'v \<Rightarrow> ('k, 'v) gomap \<Rightarrow> 'k \<Rightarrow> 'v" where
  "mread d m k = (case map_of m k of None \<Rightarrow> d | Some v \<Rightarrow> v)"

definition mapOK :: "('k, 'v) gomap \<Rightarrow> bool" where
  "mapOK m \<longleftrightarrow> distinct (map fst m)"

lemma map_of_mput [simp]: "map_of (mput k v m) = (map_of m)(k \<mapsto> v)"
  by (simp add: mput_def update_conv')

lemma mapOK_mput [simp]: "mapOK m \<Longrightarrow> mapOK (mput k v m)"
  by (simp add: mput_def mapOK_def distinct_update)

lemma mapOK_Nil [simp]: "mapOK []"
  by (simp add: mapOK_def)

lemma keys_mput [simp]: "fst ` set (mput k v m) = insert k (fst ` set m)"
  by (simp add: mput_def update_conv' flip: dom_map_of_conv_image_fst)

lemma set_mput: "mapOK m \<Longrightarrow> set (mput k v m) = insert (k, v) {e \<in> set m. fst e \<noteq> k}"
proof -
  assume "mapOK m"
  then have "mapOK (mput k v m)" by simp
  then have "(a, b) \<in> set (mput k v m) \<longleftrightarrow> map_of (mput k v m) a = Some b" for a b
    by (metis map_of_eq_Some_iff mapOK_def)
  moreover have "(a, b) \<in> set m \<longleftrightarrow> map_of m a = Some b" for a b
    using \<open>mapOK m\<close> by (metis map_of_eq_Some_iff mapOK_def)
  ultimately show ?thesis by (auto split: if_splits)
qed

lemma mread_mput [simp]: "mread d (mput k v m) k' = (if k' = k then v else mread d m k')"
  by (simp add: mread_def)

lemma mread_Nil [simp]: "mread d [] k = d"
  by (simp add: mread_def)

text \<open>A loop that assigns entry after entry.\<close>

lemma map_of_fold_mput:
  "mapOK m \<Longrightarrow> map_of (fold (\<lambda>(k, v). mput k v) m m') k =
     (case map_of m k of Some v \<Rightarrow> Some v | None \<Rightarrow> map_of m' k)"
  by (induction m arbitrary: m') (auto simp: mapOK_def rev_image_eqI split: option.splits dest: map_of_SomeD)

lemma mapOK_fold_mput: "mapOK m' \<Longrightarrow> mapOK (fold (\<lambda>(k, v). mput k v) m m')"
  by (induction m arbitrary: m') (auto split: prod.splits)

text \<open>Injectively renamed keys.\<close>

lemma mapOK_rename: "mapOK m \<Longrightarrow> inj_on f (fst ` set m) \<Longrightarrow> mapOK (map (\<lambda>(k, v). (f k, v)) m)"
  by (simp add: mapOK_def distinct_map case_prod_unfold comp_def inj_on_def)

text \<open>A map to \<open>struct{}\<close> is a set, kept as the list of its keys; \<open>s[x] = struct{}{}\<close>.\<close>

definition setAdd :: "'a \<Rightarrow> 'a list \<Rightarrow> 'a list" where
  "setAdd x xs = (if x \<in> set xs then xs else xs @ [x])"

lemma set_setAdd [simp]: "set (setAdd x xs) = insert x (set xs)"
  by (auto simp: setAdd_def)

lemma distinct_setAdd [simp]: "distinct xs \<Longrightarrow> distinct (setAdd x xs)"
  by (simp add: setAdd_def)

lemma fold_setAdd: "distinct (ys @ xs) \<Longrightarrow> fold setAdd xs ys = ys @ xs"
  by (induction xs arbitrary: ys) (auto simp: setAdd_def)

end
