(* ===== verification/EvmTypes.thy ===== *)
theory EvmTypes
  imports GoMaps
begin

text \<open>
  The core types of \<open>internal/engine/types.go\<close> and \<open>result.go\<close>: words, addresses, hashes and
  their byte and \<open>big.Int\<close> conversions, the hard-fork names with their order
  (\<open>interpreter.go\<close>, \<open>forkOrder\<close>), the execution status and the execution result with its
  builder.
\<close>

subsection \<open>Words, addresses, hashes\<close>

text \<open>A \<open>[32]byte\<close> or \<open>[20]byte\<close> value is the number it spells in big-endian order.\<close>

type_synonym Word = "256 word"
type_synonym Address = "160 word"
type_synonym Hash = "256 word"

text \<open>\<open>new(big.Int).SetBytes(b)\<close>, and the \<open>n\<close> low bytes of a number, most significant first.\<close>

definition be_int :: "bytes \<Rightarrow> int" where
  "be_int bs = horner_sum uint 256 (rev bs)"

fun int_bytes :: "nat \<Rightarrow> int \<Rightarrow> bytes" where
  "int_bytes 0 v = []"
| "int_bytes (Suc n) v = int_bytes n (v div 256) @ [word_of_int v]"

definition word_bytes :: "Word \<Rightarrow> bytes" where
  "word_bytes w = int_bytes 32 (uint w)"

definition addr_bytes :: "Address \<Rightarrow> bytes" where
  "addr_bytes a = int_bytes 20 (uint a)"

definition BytesToWord :: "bytes \<Rightarrow> Word outcome" where
  "BytesToWord b = (if length b \<le> 32 then Ok (word_of_int (be_int b)) else Panic PanicSliceBounds)"

definition WordToHash :: "Word \<Rightarrow> Hash" where
  "WordToHash w = w"

definition HashToWord :: "Hash \<Rightarrow> Word" where
  "HashToWord h = h"

definition ToBig :: "Word \<Rightarrow> int" where
  "ToBig w = uint w"

text \<open>\<open>BigToWord\<close> copies the bytes of the absolute value: more than 32 of them make the slice
  bound \<open>32-len(b)\<close> negative, and a nil argument is dereferenced.\<close>

definition BigToWord :: "int \<Rightarrow> Word outcome" where
  "BigToWord i = (if \<bar>i\<bar> < 2 ^ 256 then Ok (word_of_int \<bar>i\<bar>) else Panic PanicSliceBounds)"

definition BigPtrToWord :: "int option \<Rightarrow> Word outcome" where
  "BigPtrToWord p = (case p of None \<Rightarrow> Panic PanicNil | Some i \<Rightarrow> BigToWord i)"

text \<open>\<open>copy(w[12:], addr[:])\<close> and \<open>copy(addr[:], w[12:])\<close>.\<close>

definition wordFromAddress :: "Address \<Rightarrow> Word" where
  "wordFromAddress a = ucast a"

definition addressFromWord :: "Word \<Rightarrow> Address" where
  "addressFromWord w = ucast w"

text \<open>\<open>wordToUint64\<close> caps at the largest \<open>uint64\<close>.\<close>

definition wordToUint64 :: "Word \<Rightarrow> u64" where
  "wordToUint64 w = (if uint w < 2 ^ 64 then word_of_int (uint w) else maxU64)"

text \<open>\<open>big.NewInt(int64(x))\<close> of an unsigned 64-bit value.\<close>

definition int64_of :: "u64 \<Rightarrow> int" where
  "int64_of x = sint x"

lemmas [go_defs] = WordToHash_def HashToWord_def ToBig_def

lemma length_int_bytes [simp]: "length (int_bytes n v) = n"
  by (induction n arbitrary: v) auto

lemma length_word_bytes [simp]: "length (word_bytes w) = 32"
  by (simp add: word_bytes_def)

lemma length_addr_bytes [simp]: "length (addr_bytes a) = 20"
  by (simp add: addr_bytes_def)

lemma be_int_snoc: "be_int (bs @ [b]) = uint b + 256 * be_int bs"
  by (simp add: be_int_def)

lemma be_int_nil [simp]: "be_int [] = 0"
  by (simp add: be_int_def)

lemma be_int_nonneg: "0 \<le> be_int bs"
  by (induction bs rule: rev_induct) (auto simp: be_int_snoc)

lemma be_int_bound: "be_int bs < 256 ^ length bs"
proof (induction bs rule: rev_induct)
  case Nil
  then show ?case by simp
next
  case (snoc b bs)
  have "uint b < 256" using uint_lt2p [of b] by simp
  with snoc show ?case by (simp add: be_int_snoc)
qed

lemma be_int_int_bytes: "be_int (int_bytes n v) = v mod 256 ^ n"
proof (induction n arbitrary: v)
  case 0
  then show ?case by simp
next
  case (Suc n)
  have "v mod 256 ^ Suc n = 256 * (v div 256 mod 256 ^ n) + v mod 256"
    by (simp add: mod_mult2_eq' zmod_zmult2_eq)
  then show ?case
    by (simp add: be_int_snoc Suc uint_word_of_int)
qed

lemma int_bytes_be_int: "length bs = n \<Longrightarrow> int_bytes n (be_int bs) = bs"
proof (induction n arbitrary: bs)
  case 0
  then show ?case by simp
next
  case (Suc n)
  then obtain cs c where bs: "bs = cs @ [c]" "length cs = n"
    by (metis length_Suc_conv_rev)
  have "uint c < 256" "0 \<le> uint c" using uint_lt2p [of c] by simp_all
  then have "be_int bs div 256 = be_int cs"
    by (simp add: bs be_int_snoc)
  moreover have "(256 :: 8 word) * x = 0" for x
  proof -
    have "(256 :: 8 word) = 0" by simp
    then show ?thesis by (simp only: mult_zero_left)
  qed
  then have "(word_of_int (be_int bs) :: 8 word) = c"
    by (simp add: bs be_int_snoc)
  ultimately show ?case
    using Suc.IH [OF bs(2)] by (simp add: bs)
qed

lemma be_int_word_bytes [simp]: "be_int (word_bytes w) = uint w"
  using uint_lt2p [of w] by (simp add: word_bytes_def be_int_int_bytes)

lemma BytesToWord_word_bytes [simp]: "BytesToWord (word_bytes w) = Ok w"
  by (simp add: BytesToWord_def)

lemma word_bytes_BytesToWord: "length b = 32 \<Longrightarrow> BytesToWord b = Ok w \<Longrightarrow> word_bytes w = b"
  using be_int_bound [of b] be_int_nonneg [of b]
  by (auto simp: BytesToWord_def word_bytes_def uint_word_of_int int_bytes_be_int)

lemma BigToWord_uint [simp]: "BigToWord (uint (w::Word)) = Ok w"
  using uint_lt2p [of w] by (simp add: BigToWord_def)

lemma BigToWord_range: "0 \<le> i \<Longrightarrow> i < 2 ^ 256 \<Longrightarrow> BigToWord i = Ok (word_of_int i)"
  by (simp add: BigToWord_def)

lemma addressFromWord_wordFromAddress [simp]: "addressFromWord (wordFromAddress a) = a"
  unfolding addressFromWord_def wordFromAddress_def by transfer simp

lemma uint_less_2p64_iff: "uint (w::Word) < 2 ^ 64 \<longleftrightarrow> unat w < 2 ^ 64"
proof -
  have "uint w = int (unat w)" by simp
  then have "uint w < 2 ^ 64 \<longleftrightarrow> int (unat w) < int (2 ^ 64)" by (simp only: of_nat_power of_nat_numeral)
  then show ?thesis by (simp only: of_nat_less_iff)
qed

lemma unat_wordToUint64: "unat (wordToUint64 w) = min (unat w) (unat maxU64)"
proof (cases "unat w < 2 ^ 64")
  case True
  then have "unat (ucast w :: u64) = unat w"
    by (simp add: unsigned_ucast_eq take_bit_nat_eq_self_iff)
  with True show ?thesis
    by (simp add: wordToUint64_def uint_less_2p64_iff [simplified])
next
  case False
  then have "\<not> uint w < 2 ^ 64" by (simp only: uint_less_2p64_iff not_False_eq_True)
  with False show ?thesis
    by (simp add: wordToUint64_def)
qed

subsection \<open>Hard forks\<close>

text \<open>A \<open>Fork\<close> is a Go string; the seven names the package knows are constructors, any other
  string is \<open>ForkOther\<close>. \<open>forkOrder\<close> is a map read, so an unknown fork ranks like London.\<close>

datatype Fork = ForkLondon | ForkParis | ForkShanghai | ForkCancun | ForkPrague
  | ForkAmsterdam | ForkOsaka | ForkOther string

fun forkOrder :: "Fork \<Rightarrow> nat" where
  "forkOrder ForkLondon = 0"
| "forkOrder ForkParis = 1"
| "forkOrder ForkShanghai = 2"
| "forkOrder ForkCancun = 3"
| "forkOrder ForkPrague = 4"
| "forkOrder ForkAmsterdam = 5"
| "forkOrder ForkOsaka = 6"
| "forkOrder (ForkOther s) = 0"

definition forkGTE :: "Fork \<Rightarrow> Fork \<Rightarrow> bool" where
  "forkGTE a b = (forkOrder a \<ge> forkOrder b)"

definition SupportedForks :: "Fork list" where
  "SupportedForks = [ForkLondon, ForkParis, ForkShanghai, ForkCancun, ForkPrague, ForkAmsterdam, ForkOsaka]"

lemma forkGTE_refl [simp]: "forkGTE a a"
  by (simp add: forkGTE_def)

lemma forkGTE_London [simp]: "forkGTE a ForkLondon"
  by (simp add: forkGTE_def)

lemma forkGTE_trans: "forkGTE a b \<Longrightarrow> forkGTE b c \<Longrightarrow> forkGTE a c"
  by (simp add: forkGTE_def)

subsection \<open>Execution results\<close>

datatype ExecutionStatus =
    StatusSuccess | StatusRevert | StatusHalt | StatusOutOfGas | StatusInvalidJump
  | StatusStackOverflow | StatusStackUnderflow | StatusInvalidOpcode | StatusCallDepthExceeded
  | StatusInsufficientBalance | StatusAddressCollision | StatusCodeStoreOutOfGas
  | StatusMaxCodeSizeExceeded | StatusInvalidContractPrefix

record Log =
  logAddress :: Address
  logTopics :: "Hash list"
  logData :: bytes

record StateDiff =
  BalanceChanges :: "(Address, int option) gomap"
  NonceChanges :: "(Address, u64) gomap"
  CodeChanges :: "(Address, bytes) gomap"
  StorageChanges :: "(Address, (Hash, Hash) gomap) gomap"
  CreatedAccounts :: "Address list"
  DeletedAccounts :: "Address list"

record ExecutionResult =
  Status :: ExecutionStatus
  GasUsed :: u64
  GasRemaining :: u64
  GasRefund :: u64
  ReturnData :: bytes
  Logs :: "Log list"
  CreatedAddress :: "Address option"
  StateChanges :: "StateDiff option"
  ResErr :: "evm_error option"

definition zeroResult :: ExecutionResult where
  "zeroResult = \<lparr>Status = StatusSuccess, GasUsed = 0, GasRemaining = 0, GasRefund = 0, ReturnData = [],
     Logs = [], CreatedAddress = None, StateChanges = None, ResErr = None\<rparr>"

definition emptyStateDiff :: StateDiff where
  "emptyStateDiff = \<lparr>BalanceChanges = [], NonceChanges = [], CodeChanges = [],
     StorageChanges = [], CreatedAccounts = [], DeletedAccounts = []\<rparr>"

text \<open>The builder's setters are the record updates of the result it holds.\<close>

definition NewExecutionResultBuilder :: ExecutionResult where
  "NewExecutionResultBuilder = zeroResult\<lparr>StateChanges := Some emptyStateDiff\<rparr>"

fun classifyError :: "evm_error \<Rightarrow> ExecutionStatus" where
  "classifyError ErrOutOfGas = StatusOutOfGas"
| "classifyError ErrStackOverflow = StatusStackOverflow"
| "classifyError ErrStackUnderflow = StatusStackUnderflow"
| "classifyError ErrInvalidJump = StatusInvalidJump"
| "classifyError ErrInvalidOpcode = StatusInvalidOpcode"
| "classifyError ErrCallDepthExceeded = StatusCallDepthExceeded"
| "classifyError ErrExecutionReverted = StatusRevert"
| "classifyError ErrHalt = StatusSuccess"
| "classifyError _ = StatusHalt"

lemma classifyError_Success [simp]: "classifyError e = StatusSuccess \<longleftrightarrow> e = ErrHalt"
  by (cases e) auto

lemma classifyError_Revert [simp]: "classifyError e = StatusRevert \<longleftrightarrow> e = ErrExecutionReverted"
  by (cases e) auto

subsection \<open>Reading a result\<close>

text \<open>The \<open>ResultAccessor\<close> of \<open>result.go\<close>.\<close>

definition ResultSuccess :: "ExecutionResult \<Rightarrow> bool" where
  "ResultSuccess r = (Status r = StatusSuccess)"

definition ResultReverted :: "ExecutionResult \<Rightarrow> bool" where
  "ResultReverted r = (Status r = StatusRevert)"

definition ResultFailed :: "ExecutionResult \<Rightarrow> bool" where
  "ResultFailed r = (Status r \<noteq> StatusSuccess)"

definition OutputAsBigInt :: "ExecutionResult \<Rightarrow> int" where
  "OutputAsBigInt r = be_int (ReturnData r)"

definition OutputAsAddr :: "ExecutionResult \<Rightarrow> Address" where
  "OutputAsAddr r =
     (let dat = ReturnData r
      in if length dat < 20 then word_of_int (be_int dat)
         else word_of_int (be_int (drop (length dat - 20) dat)))"

definition GasInfo :: "ExecutionResult \<Rightarrow> u64 \<times> u64 \<times> u64" where
  "GasInfo r = (GasUsed r, GasRemaining r, GasRefund r)"

definition CreatedContract :: "ExecutionResult \<Rightarrow> Address option \<times> bool" where
  "CreatedContract r = (case CreatedAddress r of None \<Rightarrow> (None, False) | Some a \<Rightarrow> (Some a, True))"

end
