(* ===== verification/EvmStack.thy ===== *)
theory EvmStack
  imports EvmTypes
begin

text \<open>
  The operand stack of \<open>internal/engine/stack.go\<close>. The Go slice grows at its end; the model keeps
  the same items top first, so \<open>data[len-1-n]\<close> is item \<open>n\<close> and \<open>StackData\<close>, which the Go code
  returns bottom first, is the reversed list. The operations that panic in Go end in \<open>Panic\<close>.
\<close>

type_synonym EVMStack = "Word list"

definition maxStackSize :: nat where
  "maxStackSize = 1024"

definition NewStack :: EVMStack where
  "NewStack = []"

definition StackPush :: "Word \<Rightarrow> EVMStack \<Rightarrow> EVMStack outcome" where
  "StackPush w s = (if length s \<ge> maxStackSize then Panic (PanicErr ErrStackOverflow) else Ok (w # s))"

definition StackPop :: "EVMStack \<Rightarrow> (Word \<times> EVMStack) outcome" where
  "StackPop s = (case s of [] \<Rightarrow> Panic (PanicErr ErrStackUnderflow) | w # s' \<Rightarrow> Ok (w, s'))"

definition StackPeek :: "EVMStack \<Rightarrow> Word outcome" where
  "StackPeek s = (case s of [] \<Rightarrow> Panic (PanicErr ErrStackUnderflow) | w # s' \<Rightarrow> Ok w)"

definition StackPeekN :: "int \<Rightarrow> EVMStack \<Rightarrow> Word outcome" where
  "StackPeekN n s =
     (if n < 0 \<or> n \<ge> int (length s) then Panic (PanicErr ErrStackUnderflow) else Ok (s ! nat n))"

definition StackSwap :: "int \<Rightarrow> EVMStack \<Rightarrow> EVMStack outcome" where
  "StackSwap n s =
     (if n < 1 \<or> n \<ge> int (length s) then Panic (PanicErr ErrStackUnderflow)
      else Ok (s[0 := s ! nat n, nat n := s ! 0]))"

definition StackDup :: "int \<Rightarrow> EVMStack \<Rightarrow> EVMStack outcome" where
  "StackDup n s =
     (if n < 1 \<or> n > int (length s) then Panic (PanicErr ErrStackUnderflow)
      else if length s \<ge> maxStackSize then Panic (PanicErr ErrStackOverflow)
      else Ok (s ! nat (n - 1) # s))"

definition StackRequire :: "int \<Rightarrow> EVMStack \<Rightarrow> evm_error option" where
  "StackRequire n s = (if int (length s) < n then Some ErrStackUnderflow else None)"

definition StackData :: "EVMStack \<Rightarrow> Word list" where
  "StackData s = rev s"

lemmas stack_defs = StackPush_def StackPop_def StackPeek_def StackPeekN_def StackSwap_def StackDup_def

text \<open>The size limit: no operation leaves more than \<open>maxStackSize\<close> items.\<close>

definition stack_ok :: "EVMStack \<Rightarrow> bool" where
  "stack_ok s = (length s \<le> maxStackSize)"

lemma stack_ok_push: "StackPush w s = Ok t \<Longrightarrow> stack_ok t"
  by (auto simp: stack_defs stack_ok_def split: if_splits)

lemma stack_ok_pop: "stack_ok s \<Longrightarrow> StackPop s = Ok (w, t) \<Longrightarrow> stack_ok t"
  by (auto simp: stack_defs stack_ok_def split: list.splits)

lemma stack_ok_swap: "stack_ok s \<Longrightarrow> StackSwap n s = Ok t \<Longrightarrow> stack_ok t"
  by (auto simp: stack_defs stack_ok_def split: if_splits)

lemma stack_ok_dup: "StackDup n s = Ok t \<Longrightarrow> stack_ok t"
  by (auto simp: stack_defs stack_ok_def split: if_splits)

lemma pop_push: "StackPush w s = Ok t \<Longrightarrow> StackPop t = Ok (w, s)"
  by (auto simp: stack_defs split: if_splits)

lemma swap_swap:
  assumes "StackSwap n s = Ok t"
  shows "StackSwap n t = Ok s"
proof -
  from assms have n: "1 \<le> n" "nat n < length s" and t: "t = s[0 := s ! nat n, nat n := s ! 0]"
    by (auto simp: stack_defs split: if_splits)
  obtain a r where s: "s = a # r" using n by (cases s) auto
  obtain m where m: "nat n = Suc m" using n by (metis nat_0_iff not_one_le_zero not0_implies_Suc
      less_le_not_le linorder_not_less order_trans zle_add1_eq_le)
  have "t[0 := t ! nat n, nat n := t ! 0] = s"
    using n by (simp add: t s m)
  with n t show ?thesis by (simp add: stack_defs)
qed

lemma swap_length: "StackSwap n s = Ok t \<Longrightarrow> length t = length s"
  by (auto simp: stack_defs split: if_splits)

end
