(* ===== verification/EvmMemory.thy ===== *)
theory EvmMemory
  imports EvmTypes
begin

text \<open>
  \<open>internal/engine/memory.go\<close> and the guarded \<open>uint64\<close> arithmetic of \<open>interpreter.go\<close>. The
  memory is the Go slice \<open>store\<close>; \<open>lim\<close> is the allocation limit of \<open>make\<close>. All sizes are
  \<open>uint64\<close> and wrap around where the code lets them.
\<close>

type_synonym EVMMemory = bytes

definition ceil32 :: "u64 \<Rightarrow> u64" where
  "ceil32 sz = (if sz = 0 then 0 else ((sz + 31) div 32) * 32)"

definition NewMemory :: EVMMemory where
  "NewMemory = []"

definition MemGet :: "nat \<Rightarrow> u64 \<Rightarrow> u64 \<Rightarrow> EVMMemory \<Rightarrow> bytes outcome" where
  "MemGet lim offset sz m =
     (if sz = 0 then Ok []
      else if offset \<ge> ulen m then make_bytes lim sz
      else let end = offset + sz in
        if end > ulen m
        then obind (make_bytes lim sz) (\<lambda>out. obind (gofrom m offset) (\<lambda>src. Ok (gocopy out src)))
        else goslice m offset end)"

definition MemResize :: "nat \<Rightarrow> u64 \<Rightarrow> EVMMemory \<Rightarrow> EVMMemory outcome" where
  "MemResize lim sz m =
     (let sz = ceil32 sz in
      if ulen m < sz
      then obind (make_bytes lim sz) (\<lambda>newStore. Ok (gocopy newStore m))
      else Ok m)"

definition MemSet :: "nat \<Rightarrow> u64 \<Rightarrow> bytes \<Rightarrow> EVMMemory \<Rightarrow> EVMMemory outcome" where
  "MemSet lim offset dat m =
     (if dat = [] then Ok m
      else let end = offset + ulen dat in
        obind (if end > ulen m then MemResize lim end m else Ok m) (\<lambda>m'. gocopy_at m' offset dat))"

definition MemWord :: "u64 \<Rightarrow> EVMMemory \<Rightarrow> Word outcome" where
  "MemWord offset m =
     (if offset \<ge> ulen m then Ok 0
      else if offset + 32 > ulen m
      then obind (gofrom m offset) (\<lambda>src. BytesToWord (gocopy (replicate 32 0) src))
      else obind (goslice m offset (offset + 32)) BytesToWord)"

definition MemoryGasCost :: "u64 \<Rightarrow> u64" where
  "MemoryGasCost sz =
     (if sz = 0 then 0
      else let words = (sz + 31) div 32; linear = words * 3; quadratic = (words * words) div 512
           in linear + quadratic)"

definition MemoryExpansionGas :: "u64 \<Rightarrow> u64 \<Rightarrow> u64" where
  "MemoryExpansionGas currentSize newSize =
     (if newSize \<le> currentSize then 0 else MemoryGasCost newSize - MemoryGasCost currentSize)"

definition ExpandSize :: "u64 \<Rightarrow> u64 \<Rightarrow> EVMMemory \<Rightarrow> u64 \<times> u64" where
  "ExpandSize offset sz m =
     (if sz = 0 then (0, ulen m)
      else let end = offset + sz in
        if end < offset then (maxU64, maxU64)
        else let end = ceil32 end; currentSize = ulen m in
          if end > currentSize then (MemoryExpansionGas currentSize end, end)
          else (0, currentSize))"

subsection \<open>Guarded arithmetic\<close>

fun safeAddUint64_from :: "u64 \<Rightarrow> u64 list \<Rightarrow> u64 \<times> bool" where
  "safeAddUint64_from acc [] = (acc, True)"
| "safeAddUint64_from acc (v # vs) =
     (if v > maxU64 - acc then (0, False) else safeAddUint64_from (acc + v) vs)"

definition safeAddUint64 :: "u64 list \<Rightarrow> u64 \<times> bool" where
  "safeAddUint64 vs = safeAddUint64_from 0 vs"

definition safeMulUint64 :: "u64 \<Rightarrow> u64 \<Rightarrow> u64 \<times> bool" where
  "safeMulUint64 a b =
     (if a = 0 \<or> b = 0 then (0, True)
      else if a > maxU64 div b then (0, False)
      else (a * b, True))"

definition wordCount :: "u64 \<Rightarrow> u64" where
  "wordCount sz =
     (if sz = 0 then 0 else if sz > maxU64 - 31 then maxU64 else (sz + 31) div 32)"

lemma safeAdd_from:
  "safeAddUint64_from acc vs =
     (let t = unat acc + sum_list (map unat vs) in if t < 2 ^ 64 then (of_nat t, True) else (0, False))"
proof (induction vs arbitrary: acc)
  case Nil
  then show ?case using unat_u64_lt [of acc] by simp
next
  case (Cons v vs)
  have fits: "v > maxU64 - acc \<longleftrightarrow> \<not> unat acc + unat v < 2 ^ 64"
    using unat_u64_lt [of acc] by (auto simp: unat_lt_nat unat_sub_le unat_le_nat)
  show ?case
    by (cases "unat acc + unat v < 2 ^ 64") (simp_all add: fits Cons.IH unat_add_no_wrap Let_def add.assoc)
qed

text \<open>\<open>safeAddUint64\<close> is the sum, when the sum fits; \<open>safeMulUint64\<close> is the product, when it fits.\<close>

lemma safeAddUint64_exact:
  "safeAddUint64 vs =
     (if sum_list (map unat vs) < 2 ^ 64 then (of_nat (sum_list (map unat vs)), True) else (0, False))"
  by (simp add: safeAddUint64_def safeAdd_from Let_def)

lemma safeMulUint64_exact:
  "safeMulUint64 a b = (if unat a * unat b < 2 ^ 64 then (of_nat (unat a * unat b), True) else (0, False))"
proof (cases "a = 0 \<or> b = 0")
  case False
  then have b: "0 < unat b" by (simp add: unat_eq_0 word_neq_0_conv [symmetric] unat_gt_0)
  have "a > maxU64 div b \<longleftrightarrow> (2 ^ 64 - 1) div unat b < unat a"
    by (simp add: unat_lt_nat unat_div)
  also have "\<dots> \<longleftrightarrow> \<not> unat a * unat b < 2 ^ 64"
    using div_less_iff_less_mult [OF b, of "2 ^ 64 - 1" "unat a"] by auto
  finally show ?thesis using False by (auto simp: safeMulUint64_def)
qed (auto simp: safeMulUint64_def)

subsection \<open>Wrap-around of the size arithmetic\<close>

lemma unat_ceil32_nat: "unat (ceil32 n) = (if unat n \<le> 2 ^ 64 - 32 then (unat n + 31) div 32 * 32 else 0)"
proof (cases "n = 0")
  case True
  then show ?thesis by (simp add: ceil32_def)
next
  case False
  have lt: "unat n < 18446744073709551616" by (rule unat_u64_lt)
  have s: "unat (n + 31) = (unat n + 31) mod 18446744073709551616"
    by (simp add: unat_word_ariths)
  have d: "unat ((n + 31) div 32) = unat (n + 31) div 32"
    by (simp add: unat_div)
  have "unat ((n + 31) div 32 * 32) = (unat (n + 31) div 32 * 32) mod 18446744073709551616"
    by (simp add: unat_word_ariths d)
  also have "\<dots> = unat (n + 31) div 32 * 32"
    using unat_u64_lt [of "n + 31"] by (intro mod_less) (simp add: le_less_trans [OF div_times_less_eq_dividend])
  finally have e: "unat ((n + 31) div 32 * 32) = unat (n + 31) div 32 * 32" .
  show ?thesis
  proof (cases "unat n \<le> 2 ^ 64 - 32")
    case True
    then have "unat (n + 31) = unat n + 31" using s by simp
    with True False e show ?thesis by (simp add: ceil32_def)
  next
    case big: False
    then have "(unat n + 31) mod 18446744073709551616 = unat n + 31 - 18446744073709551616"
      using lt by (simp add: mod_if)
    then have "unat (n + 31) < 32" using s lt by simp
    then have "unat (n + 31) div 32 = 0" by simp
    with big False e show ?thesis by (simp add: ceil32_def)
  qed
qed

lemma ceil32_ge: "unat n \<le> 2 ^ 64 - 32 \<Longrightarrow> unat n \<le> unat (ceil32 n)"
  unfolding unat_ceil32_nat by simp

lemma ceil32_dvd: "32 dvd unat (ceil32 n)"
  by (simp add: unat_ceil32_nat)

lemma ceil32_wraps: "2 ^ 64 - 32 < unat n \<Longrightarrow> ceil32 n = 0"
  using unat_ceil32_nat [of n] by (simp add: unat_eq_zero)

subsection \<open>The memory as an endless zero-initialised byte array\<close>

text \<open>Slices of a process are far below \<open>2 ^ 63\<close> bytes; \<open>mem_ok\<close> states it together with the
  word granularity \<open>Resize\<close> keeps.\<close>

definition mem_at :: "EVMMemory \<Rightarrow> nat \<Rightarrow> byte" where
  "mem_at m i = (if i < length m then m ! i else 0)"

definition mem_ok :: "EVMMemory \<Rightarrow> bool" where
  "mem_ok m \<longleftrightarrow> length m mod 32 = 0 \<and> length m < 2 ^ 63"

lemma mem_ok_nil [simp]: "mem_ok []"
  by (simp add: mem_ok_def)

lemma unat_ulen: "length m < 2 ^ 64 \<Longrightarrow> unat (ulen m) = length m"
  by (simp add: unat_of_nat)

lemma mem_ok_ulen: "mem_ok m \<Longrightarrow> unat (ulen m) = length m"
  by (rule unat_ulen) (simp add: mem_ok_def)

lemma MemResize_Ok:
  assumes "MemResize lim n m = Ok m'" "mem_ok m" "lim < 2 ^ 63"
  shows "mem_ok m'" "mem_at m' = mem_at m" "length m' = max (length m) (unat (ceil32 n))"
proof -
  have u: "unat (ulen m) = length m" using assms(2) by (rule mem_ok_ulen)
  have "mem_ok m' \<and> mem_at m' = mem_at m \<and> length m' = max (length m) (unat (ceil32 n))"
  proof (cases "ulen m < ceil32 n")
    case True
    then have l: "length m < unat (ceil32 n)" by (simp add: unat_lt_nat u)
    with True assms have m': "m' = gocopy (replicate (unat (ceil32 n)) 0) m" "unat (ceil32 n) \<le> lim"
      by (auto simp: MemResize_def Let_def dest!: make_bytes_OkD)
    have "mem_at m' = mem_at m"
      using l by (auto simp: m' mem_at_def gocopy_def fun_eq_iff nth_append)
    with l m' assms(3) ceil32_dvd [of n] show ?thesis
      by (simp add: mem_ok_def mod_eq_0_iff_dvd)
  next
    case False
    then have "unat (ceil32 n) \<le> length m" by (simp add: unat_lt_nat u not_less)
    with False assms show ?thesis
      by (auto simp: MemResize_def Let_def)
  qed
  then show "mem_ok m'" "mem_at m' = mem_at m" "length m' = max (length m) (unat (ceil32 n))"
    by simp_all
qed

text \<open>Resizing to a size whose rounding wraps to 0 does nothing.\<close>

lemma MemResize_wraps: "2 ^ 64 - 32 < unat n \<Longrightarrow> MemResize lim n m = Ok m"
  by (simp add: MemResize_def Let_def ceil32_wraps)

lemma gocopy_at_Ok:
  assumes "gocopy_at dst off src = Ok out" "unat off + length src \<le> length dst"
  shows "out = take (unat off) dst @ src @ drop (unat off + length src) dst"
  using assms by (auto simp: gocopy_at_def gocopy_def split: if_splits) (simp add: add.commute)

lemma MemSet_Ok:
  assumes "MemSet lim off dat m = Ok m'" "mem_ok m" "lim < 2 ^ 63" "dat \<noteq> []"
    "unat off + length dat \<le> 2 ^ 64 - 32"
  shows "mem_ok m'" "length m \<le> length m'" "unat off + length dat \<le> length m'"
    "mem_at m' i = (if unat off \<le> i \<and> i < unat off + length dat then dat ! (i - unat off) else mem_at m i)"
proof -
  let ?stop = "off + ulen dat"
  have u: "unat (ulen m) = length m" using assms(2) by (rule mem_ok_ulen)
  have e: "unat ?stop = unat off + length dat"
    using assms(5) by (subst unat_add_no_wrap) (simp_all add: unat_ulen)
  obtain m1 where m1: "(if ?stop > ulen m then MemResize lim ?stop m else Ok m) = Ok m1"
    and c: "gocopy_at m1 off dat = Ok m'"
    using assms(1,4) by (auto simp: MemSet_def Let_def)
  have "mem_ok m1 \<and> mem_at m1 = mem_at m \<and> length m \<le> length m1 \<and> unat off + length dat \<le> length m1"
  proof (cases "?stop > ulen m")
    case True
    with m1 have r: "MemResize lim ?stop m = Ok m1" by simp
    from MemResize_Ok [OF r assms(2,3)] ceil32_ge [of ?stop] assms(5) e show ?thesis
      by simp
  next
    case False
    with m1 assms(2) e u show ?thesis
      by (simp add: unat_lt_nat not_less)
  qed
  then have m1_props: "mem_ok m1" "mem_at m1 = mem_at m" "length m \<le> length m1"
      "unat off + length dat \<le> length m1" by simp_all
  have m': "m' = take (unat off) m1 @ dat @ drop (unat off + length dat) m1"
    using c m1_props(4) by (rule gocopy_at_Ok)
  then have len: "length m' = length m1" using m1_props(4) by simp
  show "mem_ok m'" "length m \<le> length m'" "unat off + length dat \<le> length m'"
    using m1_props len by (simp_all add: mem_ok_def)
  have "mem_at m' i = (if unat off \<le> i \<and> i < unat off + length dat then dat ! (i - unat off) else mem_at m1 i)"
    using m1_props(4) len by (auto simp: mem_at_def m' nth_append)
  then show "mem_at m' i = (if unat off \<le> i \<and> i < unat off + length dat then dat ! (i - unat off) else mem_at m i)"
    using m1_props(2) by simp
qed

lemma MemSet_mem_ok:
  assumes "MemSet lim off dat m = Ok m'" "mem_ok m" "lim < 2 ^ 63"
  shows "mem_ok m' \<and> length m \<le> length m'"
proof (cases "dat = []")
  case True
  with assms show ?thesis by (simp add: MemSet_def)
next
  case False
  then obtain m1 where m1: "(if off + ulen dat > ulen m then MemResize lim (off + ulen dat) m else Ok m) = Ok m1"
    and c: "gocopy_at m1 off dat = Ok m'"
    using assms(1) by (auto simp: MemSet_def Let_def)
  have "mem_ok m1 \<and> length m \<le> length m1"
  proof (cases "off + ulen dat > ulen m")
    case True
    with m1 have "MemResize lim (off + ulen dat) m = Ok m1" by simp
    from MemResize_Ok [OF this assms(2,3)] show ?thesis by simp
  qed (use m1 assms in simp)
  then show ?thesis using gocopy_at_Ok_length [OF c] by (simp add: mem_ok_def)
qed

lemma MemGet_Ok:
  assumes "MemGet lim off n m = Ok bs" "mem_ok m" "unat off + unat n < 2 ^ 64"
  shows "bs = map (mem_at m) [unat off ..< unat off + unat n]"
proof (cases "n = 0")
  case True
  with assms(1) show ?thesis by (simp add: MemGet_def)
next
  case False
  have u: "unat (ulen m) = length m" using assms(2) by (rule mem_ok_ulen)
  have e: "unat (off + n) = unat off + unat n" using assms(3) by (simp add: unat_add_no_wrap)
  consider (out) "ulen m \<le> off" | (part) "\<not> ulen m \<le> off" "off + n > ulen m"
    | (inside) "\<not> ulen m \<le> off" "\<not> off + n > ulen m" by blast
  then show ?thesis
  proof cases
    case out
    with False assms(1) have "bs = replicate (unat n) 0" by (auto simp: MemGet_def dest: make_bytes_OkD)
    moreover have "length m \<le> unat off" using out by (simp add: unat_le_nat u)
    ultimately show ?thesis by (intro nth_equalityI) (auto simp: mem_at_def)
  next
    case part
    with False assms(1) have "bs = gocopy (replicate (unat n) 0) (drop (unat off) m)"
      by (auto simp: MemGet_def Let_def gofrom_def dest!: make_bytes_OkD split: if_splits)
    moreover have "unat off < length m" "length m < unat off + unat n"
      using part by (simp_all add: unat_le_nat unat_lt_nat u e not_le)
    ultimately show ?thesis
      by (intro nth_equalityI) (auto simp: mem_at_def gocopy_def nth_append)
  next
    case inside
    with False assms(1) have "bs = take (unat n) (drop (unat off) m)"
      by (auto simp: MemGet_def Let_def goslice_def e split: if_splits)
    moreover have "unat off + unat n \<le> length m"
      using inside by (simp add: unat_lt_nat u e not_less)
    ultimately show ?thesis by (intro nth_equalityI) (auto simp: mem_at_def)
  qed
qed

subsection \<open>The memory gas formula\<close>

definition mem_words :: "nat \<Rightarrow> nat" where
  "mem_words n = (n + 31) div 32"

definition mem_cost :: "nat \<Rightarrow> nat" where
  "mem_cost w = 3 * w + w * w div 512"

lemma mem_cost_mono: "v \<le> w \<Longrightarrow> mem_cost v \<le> mem_cost w"
  by (simp add: mem_cost_def add_le_mono div_le_mono mult_le_mono)

lemma mem_cost_strict_mono: "v < w \<Longrightarrow> mem_cost v < mem_cost w"
  by (simp add: mem_cost_def add_less_le_mono div_le_mono mult_le_mono)

lemma mem_cost_bound: "w < 2 ^ 32 \<Longrightarrow> mem_cost w < 2 ^ 56"
proof -
  assume h: "w < 2 ^ 32"
  then have "w * w \<le> 2 ^ 32 * 2 ^ 32" by (intro mult_le_mono) simp_all
  then have "w * w div 512 \<le> 2 ^ 64 div 512" by (intro div_le_mono) simp
  with h show ?thesis by (simp add: mem_cost_def)
qed

text \<open>Up to \<open>2 ^ 37 - 32\<close> bytes (just under 128 GiB) the square does not wrap and the code computes the formula.\<close>

lemma MemoryGasCost_exact:
  assumes "unat n \<le> 2 ^ 37 - 32"
  shows "unat (MemoryGasCost n) = mem_cost (mem_words (unat n))"
proof (cases "n = 0")
  case True
  then show ?thesis by (simp add: MemoryGasCost_def mem_cost_def mem_words_def)
next
  case False
  let ?w = "(n + 31) div 32"
  have w: "unat ?w = mem_words (unat n)"
    using assms by (simp add: unat_div unat_add_no_wrap mem_words_def)
  have 1: "mem_words (unat n) < 2 ^ 32"
    using assms by (simp add: mem_words_def)
  have "mem_words (unat n) * mem_words (unat n) < 2 ^ 32 * 2 ^ 32"
    using 1 by (intro mult_strict_mono) simp_all
  then have q: "unat (?w * ?w) = mem_words (unat n) * mem_words (unat n)"
    by (simp only: unat_word_ariths(2) w) simp
  have l: "unat (?w * 3) = 3 * mem_words (unat n)"
    using 1 by (simp only: unat_word_ariths(2) w) simp
  have qd: "unat (?w * ?w div 512) = mem_words (unat n) * mem_words (unat n) div 512"
    by (simp add: unat_div q)
  have "unat (?w * 3 + ?w * ?w div 512) = mem_cost (mem_words (unat n))"
    using mem_cost_bound [OF 1]
    by (subst unat_add_no_wrap) (simp_all add: l qd mem_cost_def)
  with False show ?thesis by (simp add: MemoryGasCost_def Let_def)
qed

end
