(* ===== verification/EvmGas.thy ===== *)
theory EvmGas
  imports EvmTypes
begin

text \<open>
  \<open>internal/engine/gas.go\<close>: the gas meter, the gas constants, the per-opcode base costs, the fork
  an opcode needs and the declared stack effect of an opcode.
\<close>

subsection \<open>The gas meter\<close>

record EVMGasMeter =
  gas :: u64
  refund :: u64

definition NewGasMeter :: "u64 \<Rightarrow> EVMGasMeter" where
  "NewGasMeter g = \<lparr>gas = g, refund = 0\<rparr>"

definition ConsumeGas :: "u64 \<Rightarrow> EVMGasMeter \<Rightarrow> EVMGasMeter \<times> evm_error option" where
  "ConsumeGas amount g =
     (if gas g < amount then (g\<lparr>gas := 0\<rparr>, Some ErrOutOfGas)
      else (g\<lparr>gas := gas g - amount\<rparr>, None))"

definition RefundGas :: "u64 \<Rightarrow> EVMGasMeter \<Rightarrow> EVMGasMeter" where
  "RefundGas amount g = g\<lparr>refund := refund g + amount\<rparr>"

definition DeductRefund :: "u64 \<Rightarrow> EVMGasMeter \<Rightarrow> EVMGasMeter" where
  "DeductRefund amount g =
     (if refund g > amount then g\<lparr>refund := refund g - amount\<rparr> else g\<lparr>refund := 0\<rparr>)"

definition ReturnGas :: "u64 \<Rightarrow> EVMGasMeter \<Rightarrow> EVMGasMeter" where
  "ReturnGas amount g = g\<lparr>gas := gas g + amount\<rparr>"

lemma ConsumeGas_None:
  "ConsumeGas a g = (g', None) \<Longrightarrow> unat (gas g') + unat a = unat (gas g) \<and> refund g' = refund g"
  by (auto simp: ConsumeGas_def unat_sub_le not_less unat_le_nat split: if_splits)

lemma ConsumeGas_le: "ConsumeGas a g = (g', r) \<Longrightarrow> unat (gas g') \<le> unat (gas g)"
  by (auto simp: ConsumeGas_def unat_sub_le not_less split: if_splits)

lemma ReturnGas_no_wrap:
  "unat (gas g) + unat a < 2 ^ 64 \<Longrightarrow> unat (gas (ReturnGas a g)) = unat (gas g) + unat a"
  by (simp add: ReturnGas_def unat_add_no_wrap)

subsection \<open>Constants\<close>

abbreviation GasJumpdest :: u64 where "GasJumpdest \<equiv> 1"
abbreviation GasBase :: u64 where "GasBase \<equiv> 2"
abbreviation GasVeryLow :: u64 where "GasVeryLow \<equiv> 3"
abbreviation GasLow :: u64 where "GasLow \<equiv> 5"
abbreviation GasMid :: u64 where "GasMid \<equiv> 8"
abbreviation GasHigh :: u64 where "GasHigh \<equiv> 10"
abbreviation GasExp :: u64 where "GasExp \<equiv> 10"
abbreviation GasExpByte :: u64 where "GasExpByte \<equiv> 50"
abbreviation GasKeccak256 :: u64 where "GasKeccak256 \<equiv> 30"
abbreviation GasKeccak256Word :: u64 where "GasKeccak256Word \<equiv> 6"
abbreviation GasCopy :: u64 where "GasCopy \<equiv> 3"
abbreviation GasBlockHash :: u64 where "GasBlockHash \<equiv> 20"
abbreviation GasLog :: u64 where "GasLog \<equiv> 375"
abbreviation GasLogData :: u64 where "GasLogData \<equiv> 8"
abbreviation GasLogTopic :: u64 where "GasLogTopic \<equiv> 375"
abbreviation GasCreate :: u64 where "GasCreate \<equiv> 32000"
abbreviation GasCodeDeposit :: u64 where "GasCodeDeposit \<equiv> 200"
abbreviation GasInitCodeWord :: u64 where "GasInitCodeWord \<equiv> 2"
abbreviation GasCallValue :: u64 where "GasCallValue \<equiv> 9000"
abbreviation GasCallStipend :: u64 where "GasCallStipend \<equiv> 2300"
abbreviation GasNewAccount :: u64 where "GasNewAccount \<equiv> 25000"
abbreviation GasSelfDestruct :: u64 where "GasSelfDestruct \<equiv> 5000"
abbreviation GasColdAccountAccess :: u64 where "GasColdAccountAccess \<equiv> 2600"
abbreviation GasColdSload :: u64 where "GasColdSload \<equiv> 2100"
abbreviation GasWarmAccess :: u64 where "GasWarmAccess \<equiv> 100"
abbreviation GasFastStep :: u64 where "GasFastStep \<equiv> 5"
abbreviation GasSstoreSet :: u64 where "GasSstoreSet \<equiv> 20000"
abbreviation GasSstoreReset :: u64 where "GasSstoreReset \<equiv> 2900"
abbreviation RefundSstoreClear :: u64 where "RefundSstoreClear \<equiv> 4800"

subsection \<open>Base cost per opcode\<close>

text \<open>The 256 entries of \<open>GasCosts\<close> in opcode order, sixteen to a row; an entry the Go array
  literal leaves out is 0.\<close>

definition GasCostTable :: "u64 list" where
  "GasCostTable =
     [0, GasVeryLow, GasLow, GasVeryLow, GasLow, GasLow, GasLow, GasLow,
      GasMid, GasMid, GasExp, GasLow, 0, 0, 0, 0] @
     [GasVeryLow, GasVeryLow, GasVeryLow, GasVeryLow, GasVeryLow, GasVeryLow, GasVeryLow, GasVeryLow,
      GasVeryLow, GasVeryLow, GasVeryLow, GasVeryLow, GasVeryLow, GasVeryLow, GasLow, 0] @
     [GasKeccak256, 0, 0, 0, 0, 0, 0, 0, 0, 0, 0, 0, 0, 0, 0, 0] @
     [GasBase, 0, GasBase, GasBase, GasBase, GasVeryLow, GasBase, GasVeryLow,
      GasBase, GasVeryLow, GasBase, 0, 0, GasBase, GasVeryLow, 0] @
     [GasBlockHash, GasBase, GasBase, GasBase, GasBase, GasBase, GasBase, GasFastStep,
      GasBase, GasVeryLow, GasBase, 0, 0, 0, 0, 0] @
     [GasBase, GasVeryLow, GasVeryLow, GasVeryLow, 0, 0, GasMid, GasHigh,
      GasBase, GasBase, GasBase, GasJumpdest, GasWarmAccess, GasWarmAccess, GasVeryLow, GasBase] @
     replicate 64 GasVeryLow @
     [GasLog, GasLog, GasLog, GasLog, GasLog, 0, 0, 0, 0, 0, 0, 0, 0, 0, 0, 0] @
     replicate 64 0 @
     [GasCreate, 0, 0, 0, 0, GasCreate, 0, 0, 0, 0, 0, 0, 0, 0, 0, 0]"

definition GasCosts :: "byte \<Rightarrow> u64" where
  "GasCosts opc = GasCostTable ! unat opc"

lemma length_GasCostTable: "length GasCostTable = 256"
  by (simp add: GasCostTable_def)

subsection \<open>The fork an opcode needs\<close>

definition MinForkForOpcode :: "byte \<Rightarrow> Fork" where
  "MinForkForOpcode opc =
     (if opc \<in> {0x3D, 0x3E, 0xFA, 0xFD} then ForkLondon
      else if opc \<in> {0x1B, 0x1C, 0x1D, 0x3F, 0xF5} then ForkLondon
      else if opc \<in> {0x46, 0x47} then ForkLondon
      else if opc = 0x48 then ForkLondon
      else if opc = 0x44 then ForkParis
      else if opc = 0x5F then ForkShanghai
      else if opc \<in> {0x5C, 0x5D, 0x5E, 0x49, 0x4A} then ForkCancun
      else if opc = 0x1E then ForkAmsterdam
      else ForkLondon)"

subsection \<open>Declared stack effect\<close>

definition StackDelta :: "byte \<Rightarrow> int" where
  "StackDelta opc =
     (if opc = 0x00 then 0
      else if opc \<ge> 0x01 \<and> opc \<le> 0x0B then (if opc = 0x0B then -1 else -1)
      else if opc \<ge> 0x10 \<and> opc \<le> 0x1E then (if opc = 0x15 \<or> opc = 0x19 then 0 else -1)
      else if opc = 0x20 then -1
      else if opc \<ge> 0x30 \<and> opc \<le> 0x48 then
        (if opc = 0x31 \<or> opc = 0x3B \<or> opc = 0x3F then 0
         else if opc = 0x35 then 0
         else if opc = 0x37 \<or> opc = 0x39 then -3
         else if opc = 0x3C then -4
         else 1)
      else if opc = 0x49 \<or> opc = 0x4A then (if opc = 0x49 then 0 else 1)
      else if opc = 0x3D then 1
      else if opc = 0x3E then -3
      else if opc = 0x40 then 0
      else if opc = 0x50 then -1
      else if opc = 0x51 \<or> opc = 0x54 \<or> opc = 0x5C then 0
      else if opc = 0x52 \<or> opc = 0x53 \<or> opc = 0x55 \<or> opc = 0x5D then -2
      else if opc = 0x56 then -1
      else if opc = 0x57 then -2
      else if opc = 0x58 \<or> opc = 0x59 \<or> opc = 0x5A \<or> opc = 0x5B then 1
      else if opc = 0x5E then -3
      else if opc = 0x5F then 1
      else if opc \<ge> 0x60 \<and> opc \<le> 0x7F then 1
      else if opc \<ge> 0x80 \<and> opc \<le> 0x8F then 1
      else if opc \<ge> 0x90 \<and> opc \<le> 0x9F then 0
      else if opc \<ge> 0xA0 \<and> opc \<le> 0xA4 then - (2 + uint (opc - 0xA0))
      else if opc = 0xF0 \<or> opc = 0xF5 then -2
      else if opc = 0xF1 \<or> opc = 0xF2 then -6
      else if opc = 0xF3 \<or> opc = 0xFD then -2
      else if opc = 0xF4 \<or> opc = 0xFA then -5
      else if opc = 0xFF then -1
      else 0)"

end
