(* ===== verification/WorldState.thy ===== *)
theory WorldState
  imports EvmTypes "HOL-Library.Sublist"
begin

text \<open>
  The world state of \<open>internal/engine/state_impl.go\<close>: accounts, persistent storage, transient
  storage and the warm-access list, each as the maps the Go code keeps, and the contract, block and
  transaction contexts. Accounts and storage carry a list of snapshots; the contract of
  \<open>Snapshot\<close> and \<open>RevertToSnapshot\<close> is the locale \<open>snapshot_store\<close>, interpreted on both.
  The mutexes serialise whole operations and have no counterpart here.
\<close>

subsection \<open>The contract of a store with snapshots\<close>

locale snapshot_store =
  fixes snap :: "'s \<Rightarrow> int \<times> 's" and revert :: "int \<Rightarrow> 's \<Rightarrow> 's"
    and view :: "'s \<Rightarrow> 'v" and saved :: "'s \<Rightarrow> 'v list"
  assumes snap_id: "fst (snap s) = int (length (saved s))"
    and snap_view: "view (snd (snap s)) = view s"
    and snap_saved: "saved (snd (snap s)) = saved s @ [view s]"
    and revert_view: "0 \<le> i \<Longrightarrow> nat i < length (saved s) \<Longrightarrow> view (revert i s) = saved s ! nat i"
    and revert_saved: "0 \<le> i \<Longrightarrow> nat i < length (saved s) \<Longrightarrow> saved (revert i s) = take (nat i) (saved s)"
    and revert_unknown: "i < 0 \<or> length (saved s) \<le> nat i \<Longrightarrow> revert i s = s"
begin

text \<open>A later state still holds a snapshot when its list extends the one the snapshot left.\<close>

lemma revert_snap:
  assumes "prefix (saved (snd (snap s))) (saved t)"
  shows "view (revert (fst (snap s)) t) = view s" "saved (revert (fst (snap s)) t) = saved s"
proof -
  obtain ys where t: "saved t = saved s @ [view s] @ ys"
    using assms by (auto simp: prefix_def snap_saved)
  then show "view (revert (fst (snap s)) t) = view s"
    by (simp add: revert_view snap_id nth_append)
  from t show "saved (revert (fst (snap s)) t) = saved s"
    by (simp add: revert_saved snap_id)
qed

lemma revert_keeps_older:
  assumes "prefix (saved s) (saved t)" "int (length (saved s)) \<le> i"
  shows "prefix (saved s) (saved (revert i t))"
proof (cases "nat i < length (saved t)")
  case True
  have "length (saved s) \<le> nat i" using assms(2) by simp
  with True assms show ?thesis
    by (auto simp: revert_saved prefix_def)
next
  case False
  with assms show ?thesis by (simp add: revert_unknown)
qed

lemma snap_extends: "prefix (saved s) (saved (snd (snap s)))"
  by (simp add: snap_saved)

end

subsection \<open>Accounts\<close>

record accountSnapshot =
  balances :: "Address \<rightharpoonup> int"
  nonces :: "Address \<rightharpoonup> u64"
  codes :: "Address \<rightharpoonup> bytes"
  codeHash :: "Address \<rightharpoonup> Hash"
  existsMap :: "Address \<rightharpoonup> bool"
  deletedMap :: "Address \<rightharpoonup> bool"

record InMemoryAccountState = accountSnapshot +
  snapshots :: "accountSnapshot list"

definition NewInMemoryAccountState :: InMemoryAccountState where
  "NewInMemoryAccountState =
     \<lparr>balances = Map.empty, nonces = Map.empty, codes = Map.empty, codeHash = Map.empty,
      existsMap = Map.empty, deletedMap = Map.empty, snapshots = []\<rparr>"

definition accSnapshot :: "InMemoryAccountState \<Rightarrow> int \<times> InMemoryAccountState" where
  "accSnapshot s =
     (let s' = s\<lparr>snapshots := snapshots s @ [accountSnapshot.truncate s]\<rparr>
      in (int (length (snapshots s')) - 1, s'))"

definition accRevertToSnapshot :: "int \<Rightarrow> InMemoryAccountState \<Rightarrow> InMemoryAccountState" where
  "accRevertToSnapshot revid s =
     (if revid < 0 \<or> revid \<ge> int (length (snapshots s)) then s
      else let snap = snapshots s ! nat revid
           in \<lparr>balances = balances snap, nonces = nonces snap, codes = codes snap,
               codeHash = codeHash snap, existsMap = existsMap snap, deletedMap = deletedMap snap,
               snapshots = take (nat revid) (snapshots s)\<rparr>)"

definition Balance :: "Address \<Rightarrow> InMemoryAccountState \<Rightarrow> int" where
  "Balance addr s = mget 0 (balances s) addr"

definition Nonce :: "Address \<Rightarrow> InMemoryAccountState \<Rightarrow> u64" where
  "Nonce addr s = mget 0 (nonces s) addr"

definition accCode :: "Address \<Rightarrow> InMemoryAccountState \<Rightarrow> bytes" where
  "accCode addr s = mget [] (codes s) addr"

definition CodeHash :: "Address \<Rightarrow> InMemoryAccountState \<Rightarrow> Hash" where
  "CodeHash addr s = mget 0 (codeHash s) addr"

definition CodeSize :: "Address \<Rightarrow> InMemoryAccountState \<Rightarrow> nat" where
  "CodeSize addr s = length (mget [] (codes s) addr)"

definition Exists :: "Address \<Rightarrow> InMemoryAccountState \<Rightarrow> bool" where
  "Exists addr s = mget False (existsMap s) addr"

definition IsEmpty :: "Address \<Rightarrow> InMemoryAccountState \<Rightarrow> bool" where
  "IsEmpty addr s =
     ((case balances s addr of None \<Rightarrow> True | Some bal \<Rightarrow> bal = 0) \<and>
      mget 0 (nonces s) addr = 0 \<and> mget [] (codes s) addr = [])"

definition HasCodeOrNonce :: "Address \<Rightarrow> InMemoryAccountState \<Rightarrow> bool" where
  "HasCodeOrNonce addr s = (mget 0 (nonces s) addr > 0 \<or> mget [] (codes s) addr \<noteq> [])"

definition SetBalance :: "Address \<Rightarrow> int \<Rightarrow> InMemoryAccountState \<Rightarrow> InMemoryAccountState" where
  "SetBalance addr balance s =
     s\<lparr>balances := (balances s)(addr \<mapsto> balance), existsMap := (existsMap s)(addr \<mapsto> True)\<rparr>"

definition AddBalance :: "Address \<Rightarrow> int \<Rightarrow> InMemoryAccountState \<Rightarrow> InMemoryAccountState" where
  "AddBalance addr amount s =
     s\<lparr>balances := (balances s)(addr \<mapsto> mget 0 (balances s) addr + amount),
       existsMap := (existsMap s)(addr \<mapsto> True)\<rparr>"

definition SubBalance :: "Address \<Rightarrow> int \<Rightarrow> InMemoryAccountState \<Rightarrow> InMemoryAccountState" where
  "SubBalance addr amount s =
     s\<lparr>balances := (balances s)(addr \<mapsto> mget 0 (balances s) addr - amount),
       existsMap := (existsMap s)(addr \<mapsto> True)\<rparr>"

definition SetNonce :: "Address \<Rightarrow> u64 \<Rightarrow> InMemoryAccountState \<Rightarrow> InMemoryAccountState" where
  "SetNonce addr nonce s =
     s\<lparr>nonces := (nonces s)(addr \<mapsto> nonce), existsMap := (existsMap s)(addr \<mapsto> True)\<rparr>"

definition IncrementNonce :: "Address \<Rightarrow> InMemoryAccountState \<Rightarrow> InMemoryAccountState" where
  "IncrementNonce addr s =
     s\<lparr>nonces := (nonces s)(addr \<mapsto> mget 0 (nonces s) addr + 1),
       existsMap := (existsMap s)(addr \<mapsto> True)\<rparr>"

text \<open>The Keccak hash is a library function and a parameter.\<close>

definition hashCode :: "(bytes \<Rightarrow> Hash) \<Rightarrow> bytes \<Rightarrow> Hash" where
  "hashCode keccak256 code = keccak256 code"

definition SetCode :: "(bytes \<Rightarrow> Hash) \<Rightarrow> Address \<Rightarrow> bytes \<Rightarrow> InMemoryAccountState \<Rightarrow> InMemoryAccountState" where
  "SetCode keccak256 addr code s =
     s\<lparr>codes := (codes s)(addr \<mapsto> code), codeHash := (codeHash s)(addr \<mapsto> hashCode keccak256 code),
       existsMap := (existsMap s)(addr \<mapsto> True)\<rparr>"

definition SelfDestruct :: "Address \<Rightarrow> InMemoryAccountState \<Rightarrow> InMemoryAccountState" where
  "SelfDestruct addr s = s\<lparr>deletedMap := (deletedMap s)(addr \<mapsto> True)\<rparr>"

definition SelfDestructed :: "Address \<Rightarrow> InMemoryAccountState \<Rightarrow> bool" where
  "SelfDestructed addr s = mget False (deletedMap s) addr"

definition CreateAccount :: "Address \<Rightarrow> InMemoryAccountState \<Rightarrow> InMemoryAccountState" where
  "CreateAccount addr s =
     s\<lparr>existsMap := (existsMap s)(addr \<mapsto> True), balances := (balances s)(addr \<mapsto> 0)\<rparr>"

lemmas account_reads = Balance_def Nonce_def accCode_def CodeHash_def CodeSize_def Exists_def
  IsEmpty_def HasCodeOrNonce_def SelfDestructed_def

lemmas account_writes = SetBalance_def AddBalance_def SubBalance_def SetNonce_def IncrementNonce_def
  SetCode_def SelfDestruct_def CreateAccount_def

text \<open>What a snapshot stores.\<close>

definition accView :: "InMemoryAccountState \<Rightarrow> accountSnapshot" where
  "accView s = accountSnapshot.truncate s"

interpretation acc: snapshot_store accSnapshot accRevertToSnapshot accView snapshots
  by unfold_locales
    (auto simp: accSnapshot_def accRevertToSnapshot_def accView_def Let_def accountSnapshot.truncate_def
      InMemoryAccountState.defs)

lemma account_writes_keep_snapshots [simp]:
  "snapshots (SetBalance a v s) = snapshots s"
  "snapshots (AddBalance a v s) = snapshots s"
  "snapshots (SubBalance a v s) = snapshots s"
  "snapshots (SetNonce a n s) = snapshots s"
  "snapshots (IncrementNonce a s) = snapshots s"
  "snapshots (SetCode k a c s) = snapshots s"
  "snapshots (SelfDestruct a s) = snapshots s"
  "snapshots (CreateAccount a s) = snapshots s"
  by (simp_all add: account_writes)

lemma Balance_writes [simp]:
  "Balance b (SetBalance a v s) = (if b = a then v else Balance b s)"
  "Balance b (AddBalance a v s) = (if b = a then Balance a s + v else Balance b s)"
  "Balance b (SubBalance a v s) = (if b = a then Balance a s - v else Balance b s)"
  "Balance b (SetNonce a n s) = Balance b s"
  "Balance b (IncrementNonce a s) = Balance b s"
  "Balance b (SetCode k a c s) = Balance b s"
  "Balance b (SelfDestruct a s) = Balance b s"
  "Balance b (CreateAccount a s) = (if b = a then 0 else Balance b s)"
  "Balance b (snd (accSnapshot s)) = Balance b s"
  by (simp_all add: account_writes account_reads accSnapshot_def)

lemma Exists_writes [simp]:
  "Exists b (SetBalance a v s) = (b = a \<or> Exists b s)"
  "Exists b (AddBalance a v s) = (b = a \<or> Exists b s)"
  "Exists b (SubBalance a v s) = (b = a \<or> Exists b s)"
  "Exists b (SetNonce a n s) = (b = a \<or> Exists b s)"
  "Exists b (IncrementNonce a s) = (b = a \<or> Exists b s)"
  "Exists b (SetCode k a c s) = (b = a \<or> Exists b s)"
  "Exists b (SelfDestruct a s) = Exists b s"
  "Exists b (CreateAccount a s) = (b = a \<or> Exists b s)"
  "Exists b (snd (accSnapshot s)) = Exists b s"
  by (simp_all add: account_writes account_reads accSnapshot_def)

lemma Balance_accView: "accView s = accView t \<Longrightarrow> Balance a s = Balance a t"
  by (simp add: accView_def accountSnapshot.truncate_def Balance_def)

lemma Exists_accView: "accView s = accView t \<Longrightarrow> Exists a s = Exists a t"
  by (simp add: accView_def accountSnapshot.truncate_def Exists_def)

subsection \<open>Persistent storage\<close>

record storageSnapshot =
  stoData :: "Address \<rightharpoonup> (Hash \<rightharpoonup> Hash)"
  stoOriginal :: "Address \<rightharpoonup> (Hash \<rightharpoonup> Hash)"

record InMemoryStorage = storageSnapshot +
  stoSnapshots :: "storageSnapshot list"

definition NewInMemoryStorage :: InMemoryStorage where
  "NewInMemoryStorage = \<lparr>stoData = Map.empty, stoOriginal = Map.empty, stoSnapshots = []\<rparr>"

definition stoSnapshot :: "InMemoryStorage \<Rightarrow> int \<times> InMemoryStorage" where
  "stoSnapshot s =
     (let s' = s\<lparr>stoSnapshots := stoSnapshots s @ [storageSnapshot.truncate s]\<rparr>
      in (int (length (stoSnapshots s')) - 1, s'))"

definition stoRevertToSnapshot :: "int \<Rightarrow> InMemoryStorage \<Rightarrow> InMemoryStorage" where
  "stoRevertToSnapshot revid s =
     (if revid < 0 \<or> revid \<ge> int (length (stoSnapshots s)) then s
      else let snap = stoSnapshots s ! nat revid
           in \<lparr>stoData = stoData snap, stoOriginal = stoOriginal snap,
               stoSnapshots = take (nat revid) (stoSnapshots s)\<rparr>)"

text \<open>The Go maps are two levels deep; a missing inner map reads as zero and is made on a write.\<close>

definition get2 :: "'v \<Rightarrow> (Address \<rightharpoonup> (Hash \<rightharpoonup> 'v)) \<Rightarrow> Address \<Rightarrow> Hash \<Rightarrow> 'v" where
  "get2 d m addr slot = (case m addr of Some slots \<Rightarrow> mget d slots slot | None \<Rightarrow> d)"

definition inner :: "(Address \<rightharpoonup> (Hash \<rightharpoonup> 'v)) \<Rightarrow> Address \<Rightarrow> (Hash \<rightharpoonup> 'v)" where
  "inner m addr = (case m addr of Some slots \<Rightarrow> slots | None \<Rightarrow> Map.empty)"

definition set2 :: "(Address \<rightharpoonup> (Hash \<rightharpoonup> 'v)) \<Rightarrow> Address \<Rightarrow> Hash \<Rightarrow> 'v \<Rightarrow> (Address \<rightharpoonup> (Hash \<rightharpoonup> 'v))" where
  "set2 m addr slot v = m(addr \<mapsto> (inner m addr)(slot \<mapsto> v))"

lemma get2_set2 [simp]: "get2 d (set2 m a k v) a' k' = (if a' = a \<and> k' = k then v else get2 d m a' k')"
  by (auto simp: get2_def set2_def inner_def split: option.splits)

lemma get2_empty [simp]: "get2 d Map.empty a k = d"
  by (simp add: get2_def)

definition StorageGet :: "Address \<Rightarrow> Hash \<Rightarrow> InMemoryStorage \<Rightarrow> Hash" where
  "StorageGet addr slot s = get2 0 (stoData s) addr slot"

definition StorageSet :: "Address \<Rightarrow> Hash \<Rightarrow> Hash \<Rightarrow> InMemoryStorage \<Rightarrow> InMemoryStorage" where
  "StorageSet addr slot v s =
     (let original =
        (case inner (stoOriginal s) addr slot of
           None \<Rightarrow> set2 (stoOriginal s) addr slot (get2 0 (stoData s) addr slot)
         | Some x \<Rightarrow> stoOriginal s)
      in s\<lparr>stoData := set2 (stoData s) addr slot v, stoOriginal := original\<rparr>)"

definition StorageSeed :: "Address \<Rightarrow> Hash \<Rightarrow> Hash \<Rightarrow> InMemoryStorage \<Rightarrow> InMemoryStorage" where
  "StorageSeed addr slot v s =
     s\<lparr>stoData := set2 (stoData s) addr slot v, stoOriginal := set2 (stoOriginal s) addr slot v\<rparr>"

definition StorageOriginal :: "Address \<Rightarrow> Hash \<Rightarrow> InMemoryStorage \<Rightarrow> Hash" where
  "StorageOriginal addr slot s = get2 0 (stoOriginal s) addr slot"

definition stoView :: "InMemoryStorage \<Rightarrow> storageSnapshot" where
  "stoView s = storageSnapshot.truncate s"

interpretation sto: snapshot_store stoSnapshot stoRevertToSnapshot stoView stoSnapshots
  by unfold_locales
    (auto simp: stoSnapshot_def stoRevertToSnapshot_def stoView_def Let_def storageSnapshot.truncate_def
      InMemoryStorage.defs)

lemma StorageSet_keeps_snapshots [simp]: "stoSnapshots (StorageSet a k v s) = stoSnapshots s"
  by (simp add: StorageSet_def Let_def)

lemma StorageGet_Set: "StorageGet a' k' (StorageSet a k v s) = (if a' = a \<and> k' = k then v else StorageGet a' k' s)"
  by (simp add: StorageGet_def StorageSet_def Let_def)

lemma StorageOriginal_Set:
  "StorageOriginal a' k' (StorageSet a k v s) =
     (if a' = a \<and> k' = k \<and> inner (stoOriginal s) a k = None then StorageGet a k s
      else StorageOriginal a' k' s)"
  by (auto simp: StorageOriginal_def StorageGet_def StorageSet_def Let_def split: option.splits)

lemma inner_StorageSet:
  "inner (stoOriginal (StorageSet a k v s)) a' k' = None \<longleftrightarrow>
     inner (stoOriginal s) a' k' = None \<and> \<not> (a' = a \<and> k' = k)"
  by (auto simp: StorageSet_def Let_def set2_def inner_def split: option.splits)

subsection \<open>Transient storage and the access list\<close>

type_synonym InMemoryTransientStorage = "Address \<rightharpoonup> (Hash \<rightharpoonup> Hash)"

definition NewInMemoryTransientStorage :: InMemoryTransientStorage where
  "NewInMemoryTransientStorage = Map.empty"

definition TransientGet :: "Address \<Rightarrow> Hash \<Rightarrow> InMemoryTransientStorage \<Rightarrow> Hash" where
  "TransientGet addr slot s = get2 0 s addr slot"

definition TransientSet :: "Address \<Rightarrow> Hash \<Rightarrow> Hash \<Rightarrow> InMemoryTransientStorage \<Rightarrow> InMemoryTransientStorage" where
  "TransientSet addr slot v s = set2 s addr slot v"

record SimpleAccessList =
  alAddrs :: "Address \<rightharpoonup> bool"
  alStorage :: "Address \<rightharpoonup> (Hash \<rightharpoonup> bool)"

definition NewSimpleAccessList :: SimpleAccessList where
  "NewSimpleAccessList = \<lparr>alAddrs = Map.empty, alStorage = Map.empty\<rparr>"

definition IsAddressWarmed :: "Address \<Rightarrow> SimpleAccessList \<Rightarrow> bool" where
  "IsAddressWarmed addr a = mget False (alAddrs a) addr"

definition WarmAddress :: "Address \<Rightarrow> SimpleAccessList \<Rightarrow> SimpleAccessList" where
  "WarmAddress addr a = a\<lparr>alAddrs := (alAddrs a)(addr \<mapsto> True)\<rparr>"

definition IsSlotWarmed :: "Address \<Rightarrow> Hash \<Rightarrow> SimpleAccessList \<Rightarrow> bool" where
  "IsSlotWarmed addr slot a = get2 False (alStorage a) addr slot"

definition WarmSlot :: "Address \<Rightarrow> Hash \<Rightarrow> SimpleAccessList \<Rightarrow> SimpleAccessList" where
  "WarmSlot addr slot a = a\<lparr>alStorage := set2 (alStorage a) addr slot True\<rparr>"

subsection \<open>Contexts\<close>

text \<open>A \<open>*big.Int\<close> field may be nil; a nil \<open>BlockHashFn\<close> or \<open>BlobHashFn\<close> yields the zero hash.\<close>

record SimpleBlockContext =
  CoinbaseVal :: Address
  TimestampVal :: u64
  NumberVal :: "int option"
  DifficultyVal :: "int option"
  GasLimitVal :: u64
  BlockHashFn :: "(u64 \<Rightarrow> Hash) option"
  BaseFeeVal :: "int option"
  BlobBaseFeeVal :: "int option"
  BlobHashFn :: "(u64 \<Rightarrow> Hash) option"
  RandomVal :: Hash
  ChainIDVal :: "int option"

definition BlockHash :: "SimpleBlockContext \<Rightarrow> u64 \<Rightarrow> Hash" where
  "BlockHash b n = (case BlockHashFn b of Some f \<Rightarrow> f n | None \<Rightarrow> 0)"

definition BlobHash :: "SimpleBlockContext \<Rightarrow> u64 \<Rightarrow> Hash" where
  "BlobHash b idx = (case BlobHashFn b of Some f \<Rightarrow> f idx | None \<Rightarrow> 0)"

definition defaultBlockContext :: SimpleBlockContext where
  "defaultBlockContext =
     \<lparr>CoinbaseVal = 0, TimestampVal = 0, NumberVal = Some 0, DifficultyVal = None, GasLimitVal = 0,
      BlockHashFn = None, BaseFeeVal = None, BlobBaseFeeVal = None, BlobHashFn = None,
      RandomVal = 0, ChainIDVal = Some 1\<rparr>"

record SimpleTxContext =
  OriginVal :: Address
  GasPriceVal :: "int option"
  BlobHashesVal :: "Hash list"
  BlobGasFeeVal :: "int option"

record SimpleContract =
  AddressVal :: Address
  CallerVal :: Address
  CallValueVal :: "int option"
  CallInputVal :: bytes
  CodeVal :: bytes
  CodeHashVal :: Hash
  CodeAddrVal :: Address
  IsStaticVal :: bool

end
