(* ===== verification/EvmState.thy ===== *)
theory EvmState
  imports EvmStack EvmMemory EvmGas WorldState
begin

text \<open>
  The state of one call frame, \<open>evmState\<close> of \<open>internal/engine/state_impl.go\<close>, and its creation by
  \<open>NewEVMState\<close>. The field \<open>hookState\<close> holds what the hooks of an embedding keep for themselves
  (their closures' variables); the engine never reads it.
\<close>

record 'h evmState =
  stack :: EVMStack
  memory :: EVMMemory
  storage :: InMemoryStorage
  transientStorage :: InMemoryTransientStorage
  account :: InMemoryAccountState
  gasMeter :: EVMGasMeter
  blockCtx :: SimpleBlockContext
  txCtx :: SimpleTxContext
  contract :: SimpleContract
  accessList :: SimpleAccessList
  pcVal :: u64
  stReturnData :: bytes
  callDepth :: int
  logs :: "Log list"
  hookState :: 'h

definition NewEVMState ::
  "EVMStack \<Rightarrow> EVMMemory \<Rightarrow> InMemoryStorage \<Rightarrow> InMemoryTransientStorage \<Rightarrow> InMemoryAccountState \<Rightarrow>
   EVMGasMeter \<Rightarrow> SimpleBlockContext \<Rightarrow> SimpleTxContext \<Rightarrow> SimpleContract \<Rightarrow> SimpleAccessList \<Rightarrow> 'h \<Rightarrow>
   'h evmState" where
  "NewEVMState st mem sto tra acc gm bc tc con al h =
     \<lparr>stack = st, memory = mem, storage = sto, transientStorage = tra, account = acc, gasMeter = gm,
      blockCtx = bc, txCtx = tc, contract = con, accessList = al, pcVal = 0, stReturnData = [],
      callDepth = 0, logs = [], hookState = h\<rparr>"

definition SetReturnData :: "bytes \<Rightarrow> 'h evmState \<Rightarrow> 'h evmState" where
  "SetReturnData dat s = s\<lparr>stReturnData := dat\<rparr>"

definition AddLog :: "Log \<Rightarrow> 'h evmState \<Rightarrow> 'h evmState" where
  "AddLog l s = s\<lparr>logs := logs s @ [l]\<rparr>"

text \<open>The part of the state a child frame shares with its parent: in Go the two frames hold the same
  pointers. \<open>adoptShared\<close> is the parent after the child has run.\<close>

definition adoptShared :: "'h evmState \<Rightarrow> 'h evmState \<Rightarrow> 'h evmState" where
  "adoptShared parent child =
     parent\<lparr>storage := storage child, transientStorage := transientStorage child,
            account := account child, accessList := accessList child, hookState := hookState child\<rparr>"

end
