(* ===== verification/Hooks.thy ===== *)
theory Hooks
  imports EvmState "HOL-Library.Countable"
begin

text \<open>
  The hook interface of \<open>internal/engine/hook.go\<close> and the registry of \<open>hook_registry.go\<close>. A hook's
  \<open>Fire\<close> reads the frame's state and may change it through \<open>Inner()\<close>, so it maps a context and a
  state to a verdict and a state; \<open>Ok None\<close> is Go's \<open>nil, nil\<close>. What every client of a registry may
  rely on is the locale \<open>hook_registry\<close>, interpreted on \<open>SimpleHookRegistry\<close>.
\<close>

subsection \<open>Hook types, in the order of their \<open>iota\<close> constants\<close>

datatype HookType =
    HookTypeOpcode | HookTypeExternalCall | HookTypeDelegateCall | HookTypeStaticCall
  | HookTypeCallCode | HookTypeCreate | HookTypeStorageRead | HookTypeStorageWrite
  | HookTypeTransientLoad | HookTypeTransientStore | HookTypeMemoryRead | HookTypeMemoryWrite
  | HookTypeLog | HookTypeSelfDestruct | HookTypeReturn | HookTypeStep

fun hookTypeNum :: "HookType \<Rightarrow> nat" where
  "hookTypeNum HookTypeOpcode = 0"
| "hookTypeNum HookTypeExternalCall = 1"
| "hookTypeNum HookTypeDelegateCall = 2"
| "hookTypeNum HookTypeStaticCall = 3"
| "hookTypeNum HookTypeCallCode = 4"
| "hookTypeNum HookTypeCreate = 5"
| "hookTypeNum HookTypeStorageRead = 6"
| "hookTypeNum HookTypeStorageWrite = 7"
| "hookTypeNum HookTypeTransientLoad = 8"
| "hookTypeNum HookTypeTransientStore = 9"
| "hookTypeNum HookTypeMemoryRead = 10"
| "hookTypeNum HookTypeMemoryWrite = 11"
| "hookTypeNum HookTypeLog = 12"
| "hookTypeNum HookTypeSelfDestruct = 13"
| "hookTypeNum HookTypeReturn = 14"
| "hookTypeNum HookTypeStep = 15"

lemma hookTypeNum_inj: "hookTypeNum a = hookTypeNum b \<Longrightarrow> a = b"
  by (cases a; cases b) simp_all

instantiation HookType :: linorder
begin

definition less_eq_HookType :: "HookType \<Rightarrow> HookType \<Rightarrow> bool" where
  "less_eq_HookType a b = (hookTypeNum a \<le> hookTypeNum b)"

definition less_HookType :: "HookType \<Rightarrow> HookType \<Rightarrow> bool" where
  "less_HookType a b = (hookTypeNum a < hookTypeNum b)"

instance
  by standard (auto simp: less_eq_HookType_def less_HookType_def intro: hookTypeNum_inj)

end

subsection \<open>Contexts, results, hooks\<close>

datatype HookAction = ActionContinue | ActionReplaceResult | ActionHalt | ActionRevert

text \<open>The dynamic types the engine distinguishes in \<open>ResultData interface{}\<close>.\<close>

datatype ResultData = RdNil | RdWords "Word list" | RdBytes bytes | RdHash Hash | RdOther string

record HookResult =
  Action :: HookAction
  ResData :: ResultData
  HookErr :: "evm_error option"

definition continueResult :: HookResult where
  "continueResult = \<lparr>Action = ActionContinue, ResData = RdNil, HookErr = None\<rparr>"

record OpcodeInfo =
  oiPC :: u64
  oiOp :: byte
  oiGasRemaining :: u64
  oiGasCost :: u64

record CallInfo =
  ciKind :: HookType
  ciCaller :: Address
  ciCallee :: Address
  ciInput :: bytes
  ciValue :: int
  ciGas :: u64
  ciCodeAddr :: Address

record StorageAccessInfo =
  saAddr :: Address
  saSlot :: Hash
  saValue :: Hash
  saIsWrite :: bool

record MemoryAccessInfo =
  maOffset :: u64
  maSize :: u64
  maData :: bytes
  maIsWrite :: bool

record HookContext =
  ctxOpcode :: "OpcodeInfo option"
  ctxCall :: "CallInfo option"
  ctxStorage :: "StorageAccessInfo option"
  ctxMemory :: "MemoryAccessInfo option"

type_synonym 'h fire = "HookContext \<Rightarrow> 'h evmState \<Rightarrow> HookResult option outcome \<times> 'h evmState"

record 'h Hook =
  hookType :: HookType
  hookFire :: "'h fire"
  hookOneTime :: bool
  hookID :: string

type_synonym 'h HookCondition = "HookContext \<Rightarrow> 'h evmState \<Rightarrow> bool"

text \<open>\<open>ConditionalHook\<close>: a nil condition always fires.\<close>

definition ConditionalHook :: "'h Hook \<Rightarrow> 'h HookCondition option \<Rightarrow> 'h Hook" where
  "ConditionalHook h cond =
     h\<lparr>hookFire := (\<lambda>ctx s.
        if (case cond of None \<Rightarrow> False | Some c \<Rightarrow> \<not> c ctx s) then (Ok (Some continueResult), s)
        else hookFire h ctx s)\<rparr>"

subsection \<open>The contract of a registry\<close>

locale hook_registry =
  fixes ok :: "'r \<Rightarrow> bool" and empty :: "'r"
    and register :: "'k \<Rightarrow> 'r \<Rightarrow> 'r \<times> evm_error option"
    and unregister :: "string \<Rightarrow> 'r \<Rightarrow> 'r \<times> evm_error option"
    and hooksFor :: "HookType \<Rightarrow> 'r \<Rightarrow> 'k list"
    and ident :: "'k \<Rightarrow> string" and kind :: "'k \<Rightarrow> HookType"
  assumes ok_empty: "ok empty" and hooksFor_empty: "hooksFor t empty = []"
    and kind_hooksFor: "ok r \<Longrightarrow> h \<in> set (hooksFor t r) \<Longrightarrow> kind h = t"
    and ident_unique: "ok r \<Longrightarrow> h \<in> set (hooksFor t r) \<Longrightarrow> k \<in> set (hooksFor u r) \<Longrightarrow>
      ident h = ident k \<Longrightarrow> h = k"
    and register_known: "ok r \<Longrightarrow> (\<exists>t. \<exists>k\<in>set (hooksFor t r). ident k = ident h) \<Longrightarrow>
      fst (register h r) = r \<and> snd (register h r) \<noteq> None"
    and register_new: "ok r \<Longrightarrow> (\<forall>t. \<forall>k\<in>set (hooksFor t r). ident k \<noteq> ident h) \<Longrightarrow>
      snd (register h r) = None \<and> ok (fst (register h r)) \<and>
      hooksFor t (fst (register h r)) = (if t = kind h then hooksFor t r @ [h] else hooksFor t r)"
    and unregister_known: "ok r \<Longrightarrow> (\<exists>t. \<exists>k\<in>set (hooksFor t r). ident k = i) \<Longrightarrow>
      snd (unregister i r) = None \<and> ok (fst (unregister i r)) \<and>
      hooksFor t (fst (unregister i r)) = filter (\<lambda>h. ident h \<noteq> i) (hooksFor t r)"
    and unregister_unknown: "ok r \<Longrightarrow> (\<forall>t. \<forall>k\<in>set (hooksFor t r). ident k \<noteq> i) \<Longrightarrow>
      fst (unregister i r) = r \<and> snd (unregister i r) \<noteq> None"
begin

lemma ok_register: "ok r \<Longrightarrow> ok (fst (register h r))"
  using register_known [of r h] register_new [of r h] by fastforce

lemma ok_unregister: "ok r \<Longrightarrow> ok (fst (unregister i r))"
  using unregister_known [of r i] unregister_unknown [of r i] by fastforce

text \<open>Registering a new hook and removing it again is the identity on what clients see.\<close>

lemma unregister_register:
  assumes "ok r" "snd (register h r) = None"
  shows "snd (unregister (ident h) (fst (register h r))) = None"
    "hooksFor t (fst (unregister (ident h) (fst (register h r)))) = hooksFor t r"
proof -
  have new: "\<forall>t. \<forall>k\<in>set (hooksFor t r). ident k \<noteq> ident h"
    using register_known [OF assms(1)] assms(2) by metis
  note reg = register_new [OF assms(1) new]
  have "h \<in> set (hooksFor (kind h) (fst (register h r)))" using reg by simp
  then have "\<exists>t. \<exists>k\<in>set (hooksFor t (fst (register h r))). ident k = ident h" by blast
  note un = unregister_known [OF conjunct1 [OF conjunct2 [OF reg]] this]
  show "snd (unregister (ident h) (fst (register h r))) = None" using un by blast
  have "filter (\<lambda>k. ident k \<noteq> ident h) (hooksFor t r) = hooksFor t r" for t
    using new by (intro filter_True) blast
  then show "hooksFor t (fst (unregister (ident h) (fst (register h r)))) = hooksFor t r"
    using un reg by simp
qed

lemma unregister_gone:
  "ok r \<Longrightarrow> k \<in> set (hooksFor t (fst (unregister i r))) \<Longrightarrow> ident k \<noteq> i"
  using unregister_known [of r i t] unregister_unknown [of r i] by fastforce

end

subsection \<open>\<open>SimpleHookRegistry\<close>\<close>

record 'h SimpleHookRegistry =
  regHooks :: "string \<rightharpoonup> 'h Hook"
  regByType :: "HookType \<rightharpoonup> 'h Hook list"

definition NewSimpleHookRegistry :: "'h SimpleHookRegistry" where
  "NewSimpleHookRegistry = \<lparr>regHooks = Map.empty, regByType = Map.empty\<rparr>"

definition Register :: "'h Hook \<Rightarrow> 'h SimpleHookRegistry \<Rightarrow> 'h SimpleHookRegistry \<times> evm_error option" where
  "Register hook r =
     (if regHooks r (hookID hook) \<noteq> None
      then (r, Some (ErrOther (''hook with ID '' @ hookID hook @ '' already registered'')))
      else (r\<lparr>regHooks := (regHooks r)(hookID hook \<mapsto> hook),
              regByType := (regByType r)(hookType hook \<mapsto> mget [] (regByType r) (hookType hook) @ [hook])\<rparr>,
            None))"

definition Unregister :: "string \<Rightarrow> 'h SimpleHookRegistry \<Rightarrow> 'h SimpleHookRegistry \<times> evm_error option" where
  "Unregister i r =
     (case regHooks r i of
        None \<Rightarrow> (r, Some (ErrOther (''hook with ID '' @ i @ '' not found'')))
      | Some hook \<Rightarrow>
          (r\<lparr>regHooks := (regHooks r)(i := None),
             regByType := (regByType r)(hookType hook \<mapsto>
               filter (\<lambda>h. hookID h \<noteq> i) (mget [] (regByType r) (hookType hook)))\<rparr>, None))"

definition HooksFor :: "HookType \<Rightarrow> 'h SimpleHookRegistry \<Rightarrow> 'h Hook list" where
  "HooksFor t r = mget [] (regByType r) t"

definition RegistryClear :: "'h SimpleHookRegistry \<Rightarrow> 'h SimpleHookRegistry" where
  "RegistryClear r = \<lparr>regHooks = Map.empty, regByType = Map.empty\<rparr>"

text \<open>The two maps of a registry hold the same hooks, each listed once under its own type.\<close>

definition registry_ok :: "'h SimpleHookRegistry \<Rightarrow> bool" where
  "registry_ok r \<longleftrightarrow>
     (\<forall>i h. regHooks r i = Some h \<longrightarrow> hookID h = i \<and> h \<in> set (HooksFor (hookType h) r)) \<and>
     (\<forall>t. \<forall>h\<in>set (HooksFor t r). hookType h = t \<and> regHooks r (hookID h) = Some h) \<and>
     (\<forall>t. distinct (HooksFor t r))"

lemma registry_okD:
  assumes "registry_ok r"
  shows "regHooks r i = Some h \<Longrightarrow> hookID h = i \<and> h \<in> set (HooksFor (hookType h) r)"
    and "h \<in> set (HooksFor t r) \<Longrightarrow> hookType h = t \<and> regHooks r (hookID h) = Some h"
  using assms unfolding registry_ok_def by blast+

lemma registered_iff:
  "registry_ok r \<Longrightarrow> (\<exists>t. \<exists>k\<in>set (HooksFor t r). hookID k = i) \<longleftrightarrow> regHooks r i \<noteq> None"
  by (metis not_None_eq registry_okD)

lemma Register_new:
  assumes "registry_ok r" "regHooks r (hookID h) = None"
  shows "snd (Register h r) = None" "registry_ok (fst (Register h r))"
    "HooksFor t (fst (Register h r)) = (if t = hookType h then HooksFor t r @ [h] else HooksFor t r)"
proof -
  show hf: "HooksFor t (fst (Register h r)) = (if t = hookType h then HooksFor t r @ [h] else HooksFor t r)"
    for t using assms(2) by (simp add: Register_def HooksFor_def)
  show "snd (Register h r) = None" using assms(2) by (simp add: Register_def)
  have rh: "regHooks (fst (Register h r)) = (regHooks r)(hookID h \<mapsto> h)"
    using assms(2) by (simp add: Register_def)
  have neq: "k \<in> set (HooksFor t r) \<Longrightarrow> hookID k \<noteq> hookID h" for k t
    using registry_okD(2) [OF assms(1)] assms(2) by fastforce
  have mem: "regHooks r i = Some k \<Longrightarrow> hookType k = t \<Longrightarrow> hookID k = i \<and> k \<in> set (HooksFor t r)" for i k t
    using registry_okD(1) [OF assms(1)] by blast
  have dist: "distinct (HooksFor t r)" for t using assms(1) by (simp add: registry_ok_def)
  have "h \<notin> set (HooksFor t r)" for t using neq by blast
  with neq mem dist show "registry_ok (fst (Register h r))"
    unfolding registry_ok_def hf rh
    by (auto split: if_splits dest: registry_okD(2) [OF assms(1)])
qed

lemma Unregister_known:
  assumes "registry_ok r" "regHooks r i \<noteq> None"
  shows "snd (Unregister i r) = None" "registry_ok (fst (Unregister i r))"
    "HooksFor t (fst (Unregister i r)) = filter (\<lambda>h. hookID h \<noteq> i) (HooksFor t r)"
proof -
  obtain h where h: "regHooks r i = Some h" using assms(2) by blast
  have other: "k \<in> set (HooksFor t r) \<Longrightarrow> hookID k = i \<Longrightarrow> t = hookType h" for t k
    using registry_okD [OF assms(1)] h by (metis option.inject)
  show hf: "HooksFor t (fst (Unregister i r)) = filter (\<lambda>h. hookID h \<noteq> i) (HooksFor t r)" for t
  proof (cases "t = hookType h")
    case True
    then show ?thesis using h by (simp add: Unregister_def HooksFor_def)
  next
    case False
    then have "filter (\<lambda>h. hookID h \<noteq> i) (HooksFor t r) = HooksFor t r"
      using other by (intro filter_True) blast
    with False show ?thesis using h by (simp add: Unregister_def HooksFor_def)
  qed
  show "snd (Unregister i r) = None" using h by (simp add: Unregister_def)
  have rh: "regHooks (fst (Unregister i r)) = (regHooks r)(i := None)"
    using h by (simp add: Unregister_def)
  show "registry_ok (fst (Unregister i r))"
    using assms(1) unfolding registry_ok_def hf rh by auto
qed

interpretation reg: hook_registry registry_ok NewSimpleHookRegistry Register Unregister HooksFor hookID hookType
proof
  show "registry_ok NewSimpleHookRegistry" "HooksFor t NewSimpleHookRegistry = []" for t
    by (simp_all add: registry_ok_def NewSimpleHookRegistry_def HooksFor_def)
next
  fix r :: "'h SimpleHookRegistry" and h k t u i
  assume ok: "registry_ok r"
  show "h \<in> set (HooksFor t r) \<Longrightarrow> hookType h = t"
    using registry_okD(2) [OF ok] by blast
  show "h \<in> set (HooksFor t r) \<Longrightarrow> k \<in> set (HooksFor u r) \<Longrightarrow> hookID h = hookID k \<Longrightarrow> h = k"
    using registry_okD(2) [OF ok] by (metis option.inject)
  show "\<exists>t. \<exists>k\<in>set (HooksFor t r). hookID k = hookID h \<Longrightarrow>
      fst (Register h r) = r \<and> snd (Register h r) \<noteq> None"
    unfolding registered_iff [OF ok] by (simp add: Register_def)
  show "\<forall>t. \<forall>k\<in>set (HooksFor t r). hookID k \<noteq> hookID h \<Longrightarrow>
      snd (Register h r) = None \<and> registry_ok (fst (Register h r)) \<and>
      HooksFor t (fst (Register h r)) = (if t = hookType h then HooksFor t r @ [h] else HooksFor t r)"
    using registered_iff [OF ok, of "hookID h"] Register_new [OF ok, of h] by metis
  show "\<exists>t. \<exists>k\<in>set (HooksFor t r). hookID k = i \<Longrightarrow>
      snd (Unregister i r) = None \<and> registry_ok (fst (Unregister i r)) \<and>
      HooksFor t (fst (Unregister i r)) = filter (\<lambda>h. hookID h \<noteq> i) (HooksFor t r)"
    unfolding registered_iff [OF ok] using Unregister_known [OF ok, of i] by blast
  show "\<forall>t. \<forall>k\<in>set (HooksFor t r). hookID k \<noteq> i \<Longrightarrow>
      fst (Unregister i r) = r \<and> snd (Unregister i r) \<noteq> None"
    using registered_iff [OF ok, of i] by (auto simp: Unregister_def split: option.splits)
qed

text \<open>A registry filled with hooks of distinct identifiers lists those of each type in their order.\<close>

lemma registered_hooks:
  assumes "distinct (map hookID hs)"
  shows "registry_ok (fold (\<lambda>h r. fst (Register h r)) hs NewSimpleHookRegistry) \<and>
    (\<forall>t. HooksFor t (fold (\<lambda>h r. fst (Register h r)) hs NewSimpleHookRegistry) = filter (\<lambda>h. hookType h = t) hs)"
  using assms
proof (induction hs rule: rev_induct)
  case Nil
  show ?case by (simp add: reg.ok_empty reg.hooksFor_empty)
next
  case (snoc h hs)
  let ?r = "fold (\<lambda>h r. fst (Register h r)) hs NewSimpleHookRegistry"
  have IH: "registry_ok ?r" "\<And>t. HooksFor t ?r = filter (\<lambda>h. hookType h = t) hs" using snoc by simp_all
  have "\<forall>t. \<forall>k\<in>set (HooksFor t ?r). hookID k \<noteq> hookID h" using IH(2) snoc.prems by (fastforce simp: image_iff)
  from reg.register_new [OF IH(1) this] IH(2) show ?case by simp
qed

end
