(* ===== verification/Machine.thy ===== *)
theory Machine
  imports Hooks
begin

text \<open>
  The \<open>EVM\<close> struct of \<open>internal/engine/interpreter.go\<close> and the state monad its handlers are written
  in: a computation maps an \<open>EVM\<close> to an outcome (a value, a returned \<open>error\<close>, a panic) and the \<open>EVM\<close> it
  leaves, or to \<open>None\<close> when the fuel of the recursive interpreter is used up. The access-hook
  dispatchers of \<open>access_hooks.go\<close> and the library functions the engine calls (\<open>Lib\<close>) are here too.
\<close>

subsection \<open>Precompiles and library functions\<close>

record Precompile =
  preRequiredGas :: "bytes \<Rightarrow> Fork \<Rightarrow> u64 outcome"
  preRun :: "bytes \<Rightarrow> Fork \<Rightarrow> bytes outcome"

type_synonym PrecompileRegistry = "Address \<rightharpoonup> Precompile"

text \<open>Keccak-256, go-ethereum's two address derivations (the second takes the hash of the init
  code), and the largest length \<open>make\<close> accepts.\<close>

record Lib =
  keccak256 :: "bytes \<Rightarrow> Hash"
  gethCreateAddress :: "Address \<Rightarrow> u64 \<Rightarrow> Address"
  gethCreateAddress2 :: "Address \<Rightarrow> Hash \<Rightarrow> Hash \<Rightarrow> Address"
  maxAlloc :: nat

subsection \<open>The EVM\<close>

text \<open>\<open>gasMeter\<close>, \<open>stack\<close> and \<open>memory\<close> of the Go struct are pointers into \<open>state\<close>. \<open>hooks\<close> is nil or
  \<open>HooksFor\<close> of the registry, which may depend on what the hooks did so far.\<close>

type_synonym 'h hooksFor = "'h \<Rightarrow> HookType \<Rightarrow> 'h Hook list"

record 'h EVM =
  state :: "'h evmState"
  fork :: Fork
  precompiles :: PrecompileRegistry
  pc :: u64
  returnData :: bytes
  outputData :: bytes
  jumpdests :: "bool list"
  hooks :: "'h hooksFor option"

definition NewEVM :: "'h evmState \<Rightarrow> Fork \<Rightarrow> PrecompileRegistry \<Rightarrow> 'h EVM" where
  "NewEVM s f registry =
     \<lparr>state = s, fork = f, precompiles = registry, pc = 0, returnData = [], outputData = [],
      jumpdests = [], hooks = None\<rparr>"

definition SetHooks :: "'h hooksFor option \<Rightarrow> 'h EVM \<Rightarrow> 'h EVM" where
  "SetHooks h e = e\<lparr>hooks := h\<rparr>"

subsection \<open>The monad\<close>

type_synonym ('h, 'a) M = "'h EVM \<Rightarrow> ('a outcome \<times> 'h EVM) option"

definition ret :: "'a \<Rightarrow> ('h, 'a) M" where
  "ret x e = Some (Ok x, e)"

definition throw :: "evm_error \<Rightarrow> ('h, 'a) M" where
  "throw err e = Some (Fail err, e)"

definition seq :: "('h, 'a) M \<Rightarrow> ('a \<Rightarrow> ('h, 'b) M) \<Rightarrow> ('h, 'b) M" where
  "seq m f e =
     (case m e of
        None \<Rightarrow> None
      | Some (Ok x, e') \<Rightarrow> f x e'
      | Some (Fail err, e') \<Rightarrow> Some (Fail err, e')
      | Some (Panic p, e') \<Rightarrow> Some (Panic p, e'))"

definition thn :: "('h, 'a) M \<Rightarrow> ('h, 'b) M \<Rightarrow> ('h, 'b) M" where
  "thn m k = seq m (\<lambda>_. k)"

definition gets :: "('h EVM \<Rightarrow> 'a) \<Rightarrow> ('h, 'a) M" where
  "gets f e = Some (Ok (f e), e)"

definition modify :: "('h EVM \<Rightarrow> 'h EVM) \<Rightarrow> ('h, unit) M" where
  "modify f e = Some (Ok (), f e)"

definition lift :: "'a outcome \<Rightarrow> ('h, 'a) M" where
  "lift r e = Some (r, e)"

text \<open>An operation on the frame's state; one that panics leaves it as it was.\<close>

definition onState :: "('h evmState \<Rightarrow> ('a \<times> 'h evmState) outcome) \<Rightarrow> ('h, 'a) M" where
  "onState f e =
     (case f (state e) of
        Ok (x, s) \<Rightarrow> Some (Ok x, e\<lparr>state := s\<rparr>)
      | Fail err \<Rightarrow> Some (Fail err, e)
      | Panic p \<Rightarrow> Some (Panic p, e))"

named_theorems monad_defs \<open>definitions of the monad\<close>

lemmas [monad_defs] = ret_def throw_def thn_def seq_def gets_def modify_def lift_def onState_def

subsection \<open>The operations the handlers use\<close>

definition popW :: "('h, Word) M" where
  "popW = onState (\<lambda>s. obind (StackPop (stack s)) (\<lambda>(w, st). Ok (w, s\<lparr>stack := st\<rparr>)))"

definition pushW :: "Word \<Rightarrow> ('h, unit) M" where
  "pushW w = onState (\<lambda>s. obind (StackPush w (stack s)) (\<lambda>st. Ok ((), s\<lparr>stack := st\<rparr>)))"

definition swapM :: "int \<Rightarrow> ('h, unit) M" where
  "swapM n = onState (\<lambda>s. obind (StackSwap n (stack s)) (\<lambda>st. Ok ((), s\<lparr>stack := st\<rparr>)))"

definition dupM :: "int \<Rightarrow> ('h, unit) M" where
  "dupM n = onState (\<lambda>s. obind (StackDup n (stack s)) (\<lambda>st. Ok ((), s\<lparr>stack := st\<rparr>)))"

definition peekN :: "int \<Rightarrow> ('h, Word) M" where
  "peekN n = onState (\<lambda>s. obind (StackPeekN n (stack s)) (\<lambda>w. Ok (w, s)))"

definition popBig :: "('h, int) M" where
  "popBig = seq popW (\<lambda>w. ret (ToBig w))"

definition popU64 :: "('h, u64) M" where
  "popU64 = seq popW (\<lambda>w. ret (wordToUint64 w))"

definition pushBig :: "int \<Rightarrow> ('h, unit) M" where
  "pushBig i = seq (lift (BigToWord i)) pushW"

definition pushBigPtr :: "int option \<Rightarrow> ('h, unit) M" where
  "pushBigPtr p = seq (lift (BigPtrToWord p)) pushW"

definition incPc :: "('h, unit) M" where
  "incPc = modify (\<lambda>e. e\<lparr>pc := pc e + 1\<rparr>)"

definition consume :: "u64 \<Rightarrow> ('h, unit) M" where
  "consume amount e =
     (let (g, r) = ConsumeGas amount (gasMeter (state e))
      in Some (case r of None \<Rightarrow> Ok () | Some err \<Rightarrow> Fail err, e\<lparr>state := (state e)\<lparr>gasMeter := g\<rparr>\<rparr>))"

definition modGas :: "(EVMGasMeter \<Rightarrow> EVMGasMeter) \<Rightarrow> ('h, unit) M" where
  "modGas f = onState (\<lambda>s. Ok ((), s\<lparr>gasMeter := f (gasMeter s)\<rparr>))"

definition memResize :: "Lib \<Rightarrow> u64 \<Rightarrow> ('h, unit) M" where
  "memResize L n = onState (\<lambda>s. obind (MemResize (maxAlloc L) n (memory s)) (\<lambda>m. Ok ((), s\<lparr>memory := m\<rparr>)))"

definition memSet :: "Lib \<Rightarrow> u64 \<Rightarrow> bytes \<Rightarrow> ('h, unit) M" where
  "memSet L off dat = onState (\<lambda>s. obind (MemSet (maxAlloc L) off dat (memory s)) (\<lambda>m. Ok ((), s\<lparr>memory := m\<rparr>)))"

definition memGet :: "Lib \<Rightarrow> u64 \<Rightarrow> u64 \<Rightarrow> ('h, bytes) M" where
  "memGet L off n = onState (\<lambda>s. obind (MemGet (maxAlloc L) off n (memory s)) (\<lambda>bs. Ok (bs, s)))"

definition modAccount :: "(InMemoryAccountState \<Rightarrow> InMemoryAccountState) \<Rightarrow> ('h, unit) M" where
  "modAccount f = onState (\<lambda>s. Ok ((), s\<lparr>account := f (account s)\<rparr>))"

definition modStorage :: "(InMemoryStorage \<Rightarrow> InMemoryStorage) \<Rightarrow> ('h, unit) M" where
  "modStorage f = onState (\<lambda>s. Ok ((), s\<lparr>storage := f (storage s)\<rparr>))"

definition modTransient :: "(InMemoryTransientStorage \<Rightarrow> InMemoryTransientStorage) \<Rightarrow> ('h, unit) M" where
  "modTransient f = onState (\<lambda>s. Ok ((), s\<lparr>transientStorage := f (transientStorage s)\<rparr>))"

definition modAccessList :: "(SimpleAccessList \<Rightarrow> SimpleAccessList) \<Rightarrow> ('h, unit) M" where
  "modAccessList f = onState (\<lambda>s. Ok ((), s\<lparr>accessList := f (accessList s)\<rparr>))"

definition addLogM :: "Log \<Rightarrow> ('h, unit) M" where
  "addLogM l = onState (\<lambda>s. Ok ((), AddLog l s))"

definition getState :: "('h evmState \<Rightarrow> 'a) \<Rightarrow> ('h, 'a) M" where
  "getState f = gets (\<lambda>e. f (state e))"

definition getContract :: "('h, SimpleContract) M" where
  "getContract = gets (\<lambda>e. contract (state e))"

lemmas [monad_defs] = popW_def pushW_def swapM_def dupM_def peekN_def popBig_def popU64_def pushBig_def
  pushBigPtr_def incPc_def consume_def modGas_def memResize_def memSet_def memGet_def modAccount_def
  modStorage_def modTransient_def modAccessList_def addLogM_def getState_def getContract_def

subsection \<open>Firing hooks\<close>

definition fireHook :: "'h Hook \<Rightarrow> HookContext \<Rightarrow> ('h, HookResult option) M" where
  "fireHook h ctx e =
     (case hookFire h ctx (state e) of (r, s) \<Rightarrow> Some (r, e\<lparr>state := s\<rparr>))"

text \<open>The loop every dispatcher runs over its hooks: a nil result and \<open>ActionContinue\<close> go on to the
  next hook, \<open>react\<close> decides what any other result means, and \<open>d\<close> is returned when no hook reacts.\<close>

fun fireAll :: "HookContext \<Rightarrow> (HookResult \<Rightarrow> ('h, 'a) M) \<Rightarrow> 'a \<Rightarrow> 'h Hook list \<Rightarrow> ('h, 'a) M" where
  "fireAll ctx react d [] = ret d"
| "fireAll ctx react d (h # hs) =
     seq (fireHook h ctx) (\<lambda>res.
       case res of
         None \<Rightarrow> fireAll ctx react d hs
       | Some r \<Rightarrow> if Action r = ActionContinue then fireAll ctx react d hs else react r)"

definition hooksForM :: "HookType \<Rightarrow> ('h, 'h Hook list) M" where
  "hooksForM t = gets (\<lambda>e. case hooks e of None \<Rightarrow> [] | Some f \<Rightarrow> f (hookState (state e)) t)"

text \<open>\<open>ActionHalt\<close> returns the hook's \<open>Err\<close> field; when it is nil the dispatcher reports no error.\<close>

definition haltWith :: "evm_error option \<Rightarrow> 'a \<Rightarrow> ('h, 'a) M" where
  "haltWith err d = (case err of None \<Rightarrow> ret d | Some x \<Rightarrow> throw x)"

definition hookContextForOpcode :: "byte \<Rightarrow> 'h EVM \<Rightarrow> HookContext" where
  "hookContextForOpcode opc e =
     \<lparr>ctxOpcode = Some \<lparr>oiPC = pc e, oiOp = opc, oiGasRemaining = gas (gasMeter (state e)), oiGasCost = GasCosts opc\<rparr>,
      ctxCall = None, ctxStorage = None, ctxMemory = None\<rparr>"

text \<open>\<open>%T\<close> of a result's data.\<close>

fun dynType :: "ResultData \<Rightarrow> string" where
  "dynType RdNil = ''<nil>''"
| "dynType (RdWords ws) = ''[]engine.Word''"
| "dynType (RdBytes bs) = ''[]uint8''"
| "dynType (RdHash h) = ''engine.Hash''"
| "dynType (RdOther t) = t"

fun memoryReact :: "HookResult \<Rightarrow> ('h, bytes \<times> bool) M" where
  "memoryReact r =
     (case Action r of
        ActionReplaceResult \<Rightarrow>
          (case ResData r of
             RdBytes d \<Rightarrow> ret (d, True)
           | _ \<Rightarrow> throw (ErrOther (''memory hook replacement must be []byte, got '' @ dynType (ResData r))))
      | ActionHalt \<Rightarrow> haltWith (HookErr r) ([], False)
      | ActionRevert \<Rightarrow> throw ErrExecutionReverted
      | ActionContinue \<Rightarrow> ret ([], False))"

definition dispatchMemoryAccessHook :: "byte \<Rightarrow> HookType \<Rightarrow> MemoryAccessInfo \<Rightarrow> ('h, bytes \<times> bool) M" where
  "dispatchMemoryAccessHook opc t access =
     seq (gets (hookContextForOpcode opc)) (\<lambda>ctx.
     seq (hooksForM t) (\<lambda>hs.
     fireAll (ctx\<lparr>ctxMemory := Some access\<rparr>) memoryReact ([], False) hs))"

fun storageReact :: "HookResult \<Rightarrow> ('h, Hash \<times> bool) M" where
  "storageReact r =
     (case Action r of
        ActionReplaceResult \<Rightarrow>
          (case ResData r of
             RdHash v \<Rightarrow> ret (v, True)
           | _ \<Rightarrow> throw (ErrOther (''storage hook replacement must be Hash, got '' @ dynType (ResData r))))
      | ActionHalt \<Rightarrow> haltWith (HookErr r) (0, False)
      | ActionRevert \<Rightarrow> throw ErrExecutionReverted
      | ActionContinue \<Rightarrow> ret (0, False))"

definition dispatchStorageAccessHook :: "byte \<Rightarrow> HookType \<Rightarrow> StorageAccessInfo \<Rightarrow> ('h, Hash \<times> bool) M" where
  "dispatchStorageAccessHook opc t access =
     seq (gets (hookContextForOpcode opc)) (\<lambda>ctx.
     seq (hooksForM t) (\<lambda>hs.
     fireAll (ctx\<lparr>ctxStorage := Some access\<rparr>) storageReact (0, False) hs))"

fun callReact :: "HookResult \<Rightarrow> ('h, unit) M" where
  "callReact r =
     (case Action r of
        ActionHalt \<Rightarrow> haltWith (HookErr r) ()
      | ActionReplaceResult \<Rightarrow> throw (ErrOther ''call hook replacement is not supported'')
      | ActionRevert \<Rightarrow> throw ErrExecutionReverted
      | ActionContinue \<Rightarrow> ret ())"

definition dispatchCallHook :: "byte \<Rightarrow> HookType \<Rightarrow> CallInfo \<Rightarrow> ('h, unit) M" where
  "dispatchCallHook opc t call =
     seq (gets (hookContextForOpcode opc)) (\<lambda>ctx.
     seq (hooksForM t) (\<lambda>hs.
     fireAll (ctx\<lparr>ctxCall := Some call\<rparr>) callReact () hs))"

definition normalizeAccessData :: "nat \<Rightarrow> bytes \<Rightarrow> u64 \<Rightarrow> bytes outcome" where
  "normalizeAccessData lim dat n =
     (if n = 0 then Ok []
      else if ulen dat = n then Ok dat
      else obind (make_bytes lim n) (\<lambda>out. Ok (gocopy out dat)))"

text \<open>With no registry attached the dispatchers do nothing.\<close>

lemma fireAll_nil [simp]: "fireAll ctx react d [] e = Some (Ok d, e)"
  by (simp add: ret_def)

lemma dispatch_no_hooks [simp]:
  "hooks e = None \<Longrightarrow> dispatchMemoryAccessHook opc t ma e = Some (Ok ([], False), e)"
  "hooks e = None \<Longrightarrow> dispatchStorageAccessHook opc t sa e = Some (Ok (0, False), e)"
  "hooks e = None \<Longrightarrow> dispatchCallHook opc t ci e = Some (Ok (), e)"
  by (simp_all add: dispatchMemoryAccessHook_def dispatchStorageAccessHook_def dispatchCallHook_def
      monad_defs hooksForM_def)

subsection \<open>Running a handler on a known stack\<close>

definition setStack :: "EVMStack \<Rightarrow> 'h EVM \<Rightarrow> 'h EVM" where
  "setStack st e = e\<lparr>state := (state e)\<lparr>stack := st\<rparr>\<rparr>"

text \<open>The \<open>EVM\<close> after an instruction that only replaced the stack.\<close>

definition stepped :: "EVMStack \<Rightarrow> 'h EVM \<Rightarrow> 'h EVM" where
  "stepped st e = (setStack st e)\<lparr>pc := pc e + 1\<rparr>"

lemma stack_setStack [simp]: "stack (state (setStack st e)) = st"
  by (simp add: setStack_def)

lemma setStack_setStack [simp]: "setStack st (setStack st' e) = setStack st e"
  by (simp add: setStack_def)

named_theorems run_simps \<open>symbolic execution of the primitives\<close>

lemma run_popW [run_simps]: "stack (state e) = w # r \<Longrightarrow> seq popW f e = f w (setStack r e)"
  by (simp add: monad_defs stack_defs setStack_def)

lemma run_popBig [run_simps]: "stack (state e) = w # r \<Longrightarrow> seq popBig f e = f (uint w) (setStack r e)"
  by (simp add: monad_defs stack_defs setStack_def ToBig_def)

lemma run_popU64 [run_simps]: "stack (state e) = w # r \<Longrightarrow> seq popU64 f e = f (wordToUint64 w) (setStack r e)"
  by (simp add: monad_defs stack_defs setStack_def)

lemma run_pushW [run_simps]:
  "length (stack (state e)) < 1024 \<Longrightarrow> thn (pushW w) m e = m (setStack (w # stack (state e)) e)"
  by (simp add: monad_defs stack_defs setStack_def maxStackSize_def)

lemma pushBig_word: "0 \<le> i \<Longrightarrow> i < 2 ^ 256 \<Longrightarrow> pushBig i = pushW (word_of_int i)"
  by (rule ext) (simp add: BigToWord_range monad_defs)

lemma run_incPc [run_simps]: "incPc (setStack st e) = Some (Ok (), stepped st e)"
  by (simp add: monad_defs stepped_def setStack_def)

text \<open>Popping an empty stack and pushing on a full one.\<close>

lemma run_pop_empty [run_simps]:
  "stack (state e) = [] \<Longrightarrow> seq popBig f e = Some (Panic (PanicErr ErrStackUnderflow), e)"
  "stack (state e) = [] \<Longrightarrow> seq popW g e = Some (Panic (PanicErr ErrStackUnderflow), e)"
  "stack (state e) = [] \<Longrightarrow> seq popU64 h e = Some (Panic (PanicErr ErrStackUnderflow), e)"
  by (simp_all add: monad_defs stack_defs)

lemma run_push_full [run_simps]:
  "length (stack (state e)) \<ge> 1024 \<Longrightarrow> thn (pushW w) m e = Some (Panic (PanicErr ErrStackOverflow), e)"
  by (simp add: monad_defs stack_defs maxStackSize_def)

text \<open>\<open>computes\<^sub>n op f\<close>: with \<open>n\<close> operands and room for the result, \<open>op\<close> replaces them by \<open>f\<close> of them,
  steps the program counter and changes nothing else; with fewer operands it panics.\<close>

definition computes1 :: "('h, unit) M \<Rightarrow> (Word \<Rightarrow> Word) \<Rightarrow> bool" where
  "computes1 opr f \<longleftrightarrow>
     (\<forall>e x r. stack (state e) = x # r \<longrightarrow> length r < maxStackSize \<longrightarrow> opr e = Some (Ok (), stepped (f x # r) e)) \<and>
     (\<forall>e. stack (state e) = [] \<longrightarrow> (\<exists>e'. opr e = Some (Panic (PanicErr ErrStackUnderflow), e')))"

definition computes2 :: "('h, unit) M \<Rightarrow> (Word \<Rightarrow> Word \<Rightarrow> Word) \<Rightarrow> bool" where
  "computes2 opr f \<longleftrightarrow>
     (\<forall>e x y r. stack (state e) = x # y # r \<longrightarrow> length r < maxStackSize \<longrightarrow>
        opr e = Some (Ok (), stepped (f x y # r) e)) \<and>
     (\<forall>e. length (stack (state e)) < 2 \<longrightarrow> (\<exists>e'. opr e = Some (Panic (PanicErr ErrStackUnderflow), e')))"

definition computes3 :: "('h, unit) M \<Rightarrow> (Word \<Rightarrow> Word \<Rightarrow> Word \<Rightarrow> Word) \<Rightarrow> bool" where
  "computes3 opr f \<longleftrightarrow>
     (\<forall>e x y z r. stack (state e) = x # y # z # r \<longrightarrow> length r < maxStackSize \<longrightarrow>
        opr e = Some (Ok (), stepped (f x y z # r) e)) \<and>
     (\<forall>e. length (stack (state e)) < 3 \<longrightarrow> (\<exists>e'. opr e = Some (Panic (PanicErr ErrStackUnderflow), e')))"

lemma stepped_setStack [simp]: "stepped st (setStack st' e) = stepped st e"
  by (simp add: stepped_def setStack_def)

lemma computes1I:
  assumes "(opr :: ('h, unit) M) = seq popBig k"
    "\<And>x r e. length r < 1024 \<Longrightarrow> k (uint x) (setStack r e) = Some (Ok (), stepped (f x # r) e)"
  shows "computes1 opr f"
  using assms by (simp add: computes1_def run_simps maxStackSize_def)

lemma computes2I:
  assumes op: "(opr :: ('h, unit) M) = seq popBig (\<lambda>x. seq popBig (\<lambda>y. k x y))"
    and k: "\<And>x y r e. length r < 1024 \<Longrightarrow>
      k (uint x) (uint y) (setStack r e) = Some (Ok (), stepped (f x y # r) e)"
  shows "computes2 opr f"
proof -
  have "\<exists>e'. opr e = Some (Panic (PanicErr ErrStackUnderflow), e')" if "length (stack (state e)) < 2" for e
    using that by (cases "stack (state e)") (simp_all add: op run_simps)
  then show ?thesis
    using k by (simp add: computes2_def op run_simps maxStackSize_def)
qed

lemma computes3I:
  assumes op: "(opr :: ('h, unit) M) = seq popBig (\<lambda>x. seq popBig (\<lambda>y. seq popBig (\<lambda>z. k x y z)))"
    and k: "\<And>x y z r e. length r < 1024 \<Longrightarrow>
      k (uint x) (uint y) (uint z) (setStack r e) = Some (Ok (), stepped (f x y z # r) e)"
  shows "computes3 opr f"
proof -
  have "\<exists>e'. opr e = Some (Panic (PanicErr ErrStackUnderflow), e')" if "length (stack (state e)) < 3" for e
    using that by (cases "stack (state e)"; cases "tl (stack (state e))") (simp_all add: op run_simps)
  then show ?thesis
    using k by (simp add: computes3_def op run_simps maxStackSize_def)
qed

end
