(* ===== verification/OpsArith.thy ===== *)
theory OpsArith
  imports Machine
begin

text \<open>
  The arithmetic, comparison and bitwise handlers (\<open>op_arith.go\<close>, \<open>op_cmp.go\<close>) with the 256-bit
  helpers of \<open>interpreter.go\<close>. The handlers work on unbounded \<open>big.Int\<close> values, as the code does; the
  theory ends with the lemmas that relate them to the operations of \<open>256 word\<close>.
\<close>

subsection \<open>256-bit helpers\<close>

definition uint256Max :: int where
  "uint256Max = push_bit 256 1 - 1"

definition int256Max :: int where
  "int256Max = push_bit 255 1 - 1"

definition u256 :: "int \<Rightarrow> int" where
  "u256 x = x AND uint256Max"

definition s256 :: "int \<Rightarrow> int" where
  "s256 x = (if x > int256Max then x - push_bit 256 1 else x)"

definition toSigned :: "int \<Rightarrow> int" where
  "toSigned x = (if bit x 255 then x - push_bit 256 1 else x)"

definition toUnsigned :: "int \<Rightarrow> int" where
  "toUnsigned x = (if x < 0 then x + push_bit 256 1 else x)"

text \<open>\<open>big.Int.IsUint64\<close>.\<close>

definition IsUint64 :: "int \<Rightarrow> bool" where
  "IsUint64 x = (0 \<le> x \<and> x < 2 ^ 64)"

subsection \<open>Arithmetic\<close>

definition opStop :: "('h, unit) M" where
  "opStop = throw ErrHalt"

definition opAdd :: "('h, unit) M" where
  "opAdd =
     seq popBig (\<lambda>x. seq popBig (\<lambda>y.
     thn (pushBig (u256 (x + y))) incPc))"

definition opMul :: "('h, unit) M" where
  "opMul =
     seq popBig (\<lambda>x. seq popBig (\<lambda>y.
     thn (pushBig (u256 (x * y))) incPc))"

definition opSub :: "('h, unit) M" where
  "opSub =
     seq popBig (\<lambda>x. seq popBig (\<lambda>y.
     thn (pushBig (u256 (x - y))) incPc))"

definition opDiv :: "('h, unit) M" where
  "opDiv =
     seq popBig (\<lambda>x. seq popBig (\<lambda>y.
     thn (if y = 0 then pushW 0 else pushBig (u256 (bigDiv x y))) incPc))"

definition opSdiv :: "('h, unit) M" where
  "opSdiv =
     seq popBig (\<lambda>x'. seq popBig (\<lambda>y'.
     let x = toSigned x'; y = toSigned y' in
     thn (if y = 0 then pushW 0 else pushBig (toUnsigned (bigQuo x y))) incPc))"

definition opMod :: "('h, unit) M" where
  "opMod =
     seq popBig (\<lambda>x. seq popBig (\<lambda>y.
     thn (if y = 0 then pushW 0 else pushBig (u256 (bigMod x y))) incPc))"

definition opSmod :: "('h, unit) M" where
  "opSmod =
     seq popBig (\<lambda>x'. seq popBig (\<lambda>y'.
     let x = toSigned x'; y = toSigned y' in
     thn (if y = 0 then pushW 0 else pushBig (toUnsigned (bigRem x y))) incPc))"

definition opAddmod :: "('h, unit) M" where
  "opAddmod =
     seq popBig (\<lambda>x. seq popBig (\<lambda>y. seq popBig (\<lambda>z.
     thn (if z = 0 then pushW 0 else pushBig (u256 (bigMod (x + y) z))) incPc)))"

definition opMulmod :: "('h, unit) M" where
  "opMulmod =
     seq popBig (\<lambda>x. seq popBig (\<lambda>y. seq popBig (\<lambda>z.
     thn (if z = 0 then pushW 0 else pushBig (u256 (bigMod (x * y) z))) incPc)))"

definition opExp :: "('h, unit) M" where
  "opExp =
     seq popBig (\<lambda>base. seq popBig (\<lambda>ex.
     let m = push_bit 256 1 in
     thn (pushBig (bigExp base (nat ex) m)) incPc))"

definition opSignextend :: "('h, unit) M" where
  "opSignextend =
     seq popBig (\<lambda>back. seq popBig (\<lambda>x.
     if back > 31 then thn (pushBig x) incPc
     else
       let bitpos = nat back * 8 + 7;
           mask = push_bit bitpos 1 - 1;
           x' = (if bit x bitpos then (x OR NOT mask) AND uint256Max else x AND mask)
       in thn (pushBig (u256 x')) incPc))"

subsection \<open>Comparison and bitwise\<close>

definition pushBool :: "bool \<Rightarrow> ('h, unit) M" where
  "pushBool b = (if b then pushBig 1 else pushW 0)"

definition opLt :: "('h, unit) M" where
  "opLt = seq popBig (\<lambda>x. seq popBig (\<lambda>y. thn (pushBool (x < y)) incPc))"

definition opGt :: "('h, unit) M" where
  "opGt = seq popBig (\<lambda>x. seq popBig (\<lambda>y. thn (pushBool (x > y)) incPc))"

definition opSlt :: "('h, unit) M" where
  "opSlt = seq popBig (\<lambda>x. seq popBig (\<lambda>y. thn (pushBool (toSigned x < toSigned y)) incPc))"

definition opSgt :: "('h, unit) M" where
  "opSgt = seq popBig (\<lambda>x. seq popBig (\<lambda>y. thn (pushBool (toSigned x > toSigned y)) incPc))"

definition opEq :: "('h, unit) M" where
  "opEq = seq popBig (\<lambda>x. seq popBig (\<lambda>y. thn (pushBool (x = y)) incPc))"

definition opIszero :: "('h, unit) M" where
  "opIszero = seq popBig (\<lambda>x. thn (pushBool (x = 0)) incPc)"

definition opAnd :: "('h, unit) M" where
  "opAnd = seq popBig (\<lambda>x. seq popBig (\<lambda>y. thn (pushBig (u256 (x AND y))) incPc))"

definition opOr :: "('h, unit) M" where
  "opOr = seq popBig (\<lambda>x. seq popBig (\<lambda>y. thn (pushBig (u256 (x OR y))) incPc))"

definition opXor :: "('h, unit) M" where
  "opXor = seq popBig (\<lambda>x. seq popBig (\<lambda>y. thn (pushBig (u256 (x XOR y))) incPc))"

definition opNot :: "('h, unit) M" where
  "opNot = seq popBig (\<lambda>x. let mask = push_bit 256 1 - 1 in thn (pushBig (u256 (x XOR mask))) incPc)"

text \<open>\<open>x[n]\<close> of the 32-byte array, stored in the last byte of a zero word.\<close>

definition opByte :: "('h, unit) M" where
  "opByte =
     seq popBig (\<lambda>nBig. seq popW (\<lambda>x.
     thn (if \<not> IsUint64 nBig \<or> nBig \<ge> 32 then pushW 0
          else pushW (ucast (word_bytes x ! nat nBig))) incPc))"

definition opShl :: "('h, unit) M" where
  "opShl =
     seq popBig (\<lambda>shift. seq popBig (\<lambda>x.
     thn (if \<not> IsUint64 shift \<or> shift \<ge> 256 then pushW 0
          else pushBig (u256 (push_bit (nat shift) x))) incPc))"

definition opShr :: "('h, unit) M" where
  "opShr =
     seq popBig (\<lambda>shift. seq popBig (\<lambda>x.
     thn (if \<not> IsUint64 shift \<or> shift \<ge> 256 then pushW 0
          else pushBig (u256 (drop_bit (nat shift) x))) incPc))"

definition opSar :: "('h, unit) M" where
  "opSar =
     seq popBig (\<lambda>shift. seq popBig (\<lambda>x.
     thn (if \<not> IsUint64 shift \<or> shift \<ge> 256
          then (if bit x 255 then pushBig uint256Max else pushW 0)
          else pushBig (toUnsigned (drop_bit (nat shift) (toSigned x)))) incPc))"

text \<open>The loop of \<open>opClz\<close>, with \<open>n\<close> bits still to look at.\<close>

fun clzLoop :: "int \<Rightarrow> nat \<Rightarrow> nat \<Rightarrow> nat" where
  "clzLoop x 0 count = count"
| "clzLoop x (Suc i) count = (if bit x i then count else clzLoop x i (count + 1))"

definition opClz :: "('h, unit) M" where
  "opClz = seq popBig (\<lambda>x. thn (pushBig (int (clzLoop x 256 0))) incPc)"

subsection \<open>The helpers as modular arithmetic\<close>

lemma uint256Max_mask: "uint256Max = mask 256"
  by (simp add: uint256Max_def mask_eq_exp_minus_1)

lemma u256_take_bit: "u256 x = take_bit 256 x"
  by (simp only: u256_def uint256Max_mask take_bit_eq_mask)

lemma u256_range: "0 \<le> u256 x" "u256 x < 2 ^ 256"
  by (simp_all only: u256_take_bit take_bit_nonnegative take_bit_int_less_exp)

lemma word_of_int_u256: "(word_of_int (u256 i) :: Word) = word_of_int i"
  unfolding u256_take_bit by transfer simp

lemma pushBig_u256: "pushBig (u256 i) = pushW (word_of_int i)"
  by (simp only: pushBig_word u256_range word_of_int_u256)

lemma bit_uint_255: "bit (uint (w::Word)) 255 \<longleftrightarrow> 2 ^ 255 \<le> uint w"
proof -
  have "bit (uint w) 255 \<longleftrightarrow> odd (uint w div 2 ^ 255)" by (simp only: bit_iff_odd)
  also have "uint w div 2 ^ 255 = (if 2 ^ 255 \<le> uint w then 1 else 0)"
    using uint_lt2p [of w] by auto
  finally show ?thesis by simp
qed

lemma sint_Word: "sint (w::Word) = (if 2 ^ 255 \<le> uint w then uint w - 2 ^ 256 else uint w)"
proof -
  have "sint w = signed_take_bit 255 (uint w)" by (simp add: sint_uint)
  also have "\<dots> = take_bit (Suc 255) (uint w) - 2 ^ Suc 255 * of_bool (bit (uint w) 255)"
    by (rule signed_take_bit_eq_take_bit_minus)
  also have "take_bit (Suc 255) (uint w) = uint w"
    using uint_lt2p [of w] by (intro take_bit_int_eq_self) simp_all
  finally show ?thesis by (simp add: bit_uint_255)
qed

lemma toSigned_uint: "toSigned (uint (w::Word)) = sint w"
  using bit_uint_255 [of w] by (simp add: toSigned_def sint_Word)

lemma sint_range: "- (2 ^ 255) \<le> sint (w::Word)" "sint (w::Word) < 2 ^ 255"
  using sint_ge [of w] sint_lt [of w] by simp_all

lemma pushBig_toUnsigned:
  assumes "- (2 ^ 256) < i" "i < 2 ^ 256"
  shows "pushBig (toUnsigned i) = pushW (word_of_int i)"
proof (cases "i < 0")
  case True
  have "(word_of_int (2 ^ 256) :: Word) = 0" by transfer simp
  then have "(word_of_int (i + 2 ^ 256) :: Word) = word_of_int i"
    by (simp only: wi_hom_add [symmetric] add_0_right)
  with True assms show ?thesis by (simp add: toUnsigned_def pushBig_word del: of_int_add)
next
  case False
  with assms show ?thesis by (simp add: toUnsigned_def pushBig_word)
qed

lemma pushBig_uint: "pushBig (uint w) = pushW w"
  by (simp add: pushBig_def monad_defs fun_eq_iff)

lemma pushBool_word: "pushBool b = pushW (of_bool b)"
  by (simp add: pushBool_def pushBig_word)

subsection \<open>The handlers compute the 256-bit operations\<close>

lemma opAdd_computes: "computes2 opAdd (+)"
  by (rule computes2I [OF opAdd_def]) (simp add: pushBig_u256 run_simps)

lemma opSub_computes: "computes2 opSub (-)"
  by (rule computes2I [OF opSub_def]) (simp add: pushBig_u256 run_simps)

lemma opMul_computes: "computes2 opMul (*)"
  by (rule computes2I [OF opMul_def]) (simp add: pushBig_u256 run_simps)

lemma uint_pos: "(y :: Word) \<noteq> 0 \<Longrightarrow> 0 < uint y"
  using uint_ge_0 [of y] by (metis order_le_less uint_0_iff)

lemma opDiv_computes: "computes2 opDiv (div)"
proof (rule computes2I [OF opDiv_def])
  fix x y :: Word and r :: EVMStack and e :: "'h EVM"
  assume r: "length r < 1024"
  have "word_of_int (bigDiv (uint x) (uint y)) = x div y" if "y \<noteq> 0"
    using uint_pos [OF that] by (simp only: bigDiv_nonneg uint_ge_0 word_div_def)
  with r show "thn (if uint y = 0 then pushW 0 else pushBig (u256 (bigDiv (uint x) (uint y)))) incPc (setStack r e) =
      Some (Ok (), stepped (x div y # r) e)"
    by (cases "y = 0") (simp_all add: pushBig_u256 run_simps uint_0_iff)
qed

lemma opMod_computes: "computes2 opMod (\<lambda>x y. if y = 0 then 0 else x mod y)"
proof (rule computes2I [OF opMod_def])
  fix x y :: Word and r :: EVMStack and e :: "'h EVM"
  assume r: "length r < 1024"
  have "word_of_int (bigMod (uint x) (uint y)) = x mod y" if "y \<noteq> 0"
    using uint_pos [OF that] by (simp only: bigMod_pos word_mod_def)
  with r show "thn (if uint y = 0 then pushW 0 else pushBig (u256 (bigMod (uint x) (uint y)))) incPc (setStack r e) =
      Some (Ok (), stepped ((if y = 0 then 0 else x mod y) # r) e)"
    by (cases "y = 0") (simp_all add: pushBig_u256 run_simps uint_0_iff)
qed

lemma sint_eq_0: "sint (y :: Word) = 0 \<longleftrightarrow> y = 0"
  by (rule signed_eq_0_iff)

lemma opSdiv_computes: "computes2 opSdiv (\<lambda>x y. word_of_int (sint x sdiv sint y))"
proof (rule computes2I [OF opSdiv_def])
  fix x y :: Word and r :: EVMStack and e :: "'h EVM"
  assume r: "length r < 1024"
  have "- (2 ^ 256) < sint x sdiv sint y" "sint x sdiv sint y < 2 ^ 256"
    using sdiv_int_range [of "sint x" "sint y"] sint_range [of x] by auto
  note p = pushBig_toUnsigned [OF this]
  show "(let x = toSigned (uint x); y = toSigned (uint y)
       in thn (if y = 0 then pushW 0 else pushBig (toUnsigned (bigQuo x y))) incPc) (setStack r e) =
      Some (Ok (), stepped (word_of_int (sint x sdiv sint y) # r) e)"
    using r by (simp add: toSigned_uint bigQuo_def p run_simps sint_eq_0)
qed

lemma opSmod_computes: "computes2 opSmod (\<lambda>x y. if y = 0 then 0 else word_of_int (sint x smod sint y))"
proof (rule computes2I [OF opSmod_def])
  fix x y :: Word and r :: EVMStack and e :: "'h EVM"
  assume r: "length r < 1024"
  have p: "pushBig (toUnsigned (sint x smod sint y)) = pushW (word_of_int (sint x smod sint y))" if "y \<noteq> 0"
    using smod_int_range [of "sint y" "sint x"] sint_range [of y] that
    by (intro pushBig_toUnsigned) (auto simp: sint_eq_0)
  show "(let x = toSigned (uint x); y = toSigned (uint y)
       in thn (if y = 0 then pushW 0 else pushBig (toUnsigned (bigRem x y))) incPc) (setStack r e) =
      Some (Ok (), stepped ((if y = 0 then 0 else word_of_int (sint x smod sint y)) # r) e)"
    unfolding Let_def toSigned_uint sint_eq_0 bigRem_def
    using r by (cases "y = 0") (simp_all add: p run_simps)
qed

lemma opAddmod_computes:
  "computes3 opAddmod (\<lambda>x y z. if z = 0 then 0 else word_of_int ((uint x + uint y) mod uint z))"
  by (rule computes3I [OF opAddmod_def])
    (auto simp: pushBig_u256 run_simps uint_0_iff bigMod_pos uint_pos)

lemma opMulmod_computes:
  "computes3 opMulmod (\<lambda>x y z. if z = 0 then 0 else word_of_int ((uint x * uint y) mod uint z))"
  by (rule computes3I [OF opMulmod_def])
    (auto simp: pushBig_u256 run_simps uint_0_iff bigMod_pos uint_pos)

lemma opExp_computes: "computes2 opExp (\<lambda>b n. b ^ unat n)"
proof (rule computes2I [OF opExp_def])
  fix x y :: Word and r :: EVMStack and e :: "'h EVM"
  assume r: "length r < 1024"
  have "bigExp (uint x) (nat (uint y)) (push_bit 256 1) = u256 (uint x ^ unat y)"
    by (simp add: bigExp_eq u256_take_bit take_bit_eq_mod)
  with r show "(let m = push_bit 256 1 in thn (pushBig (bigExp (uint x) (nat (uint y)) m)) incPc) (setStack r e) =
      Some (Ok (), stepped (x ^ unat y # r) e)"
    by (simp only: Let_def pushBig_u256) (simp add: run_simps)
qed

text \<open>\<open>SIGNEXTEND\<close> replicates the sign bit of the low \<open>k + 1\<close> bytes.\<close>

definition signextend_spec :: "Word \<Rightarrow> Word \<Rightarrow> Word" where
  "signextend_spec k x =
     (if unat k > 31 then x else word_of_int (signed_take_bit (unat k * 8 + 7) (uint x)))"

lemma opSignextend_computes: "computes2 opSignextend signextend_spec"
proof (rule computes2I [OF opSignextend_def])
  fix x y :: Word and r :: EVMStack and e :: "'h EVM"
  assume r: "length r < 1024"
  let ?b = "unat x * 8 + 7"
  have b: "nat (uint x) = unat x" by simp
  have "uint x = int (unat x)" by simp
  then have gt: "uint x > 31 \<longleftrightarrow> unat x > 31" by linarith
  have eq: "(if bit (uint y) ?b then (uint y OR NOT (push_bit ?b 1 - 1)) AND uint256Max else uint y AND (push_bit ?b 1 - 1)) =
      u256 (signed_take_bit ?b (uint y))" if "\<not> unat x > 31"
  proof -
    have m: "push_bit ?b 1 - 1 = (mask ?b :: int)" by (simp add: mask_eq_exp_minus_1)
    have "(uint y OR NOT (mask ?b)) AND mask 256 = take_bit 256 (take_bit ?b (uint y) OR NOT (mask ?b))"
      by (rule bit_eqI) (auto simp: bit_simps)
    moreover have "uint y AND mask ?b = take_bit 256 (take_bit ?b (uint y))"
      using that by (simp add: take_bit_eq_mask [symmetric])
    ultimately show ?thesis
      unfolding m uint256Max_mask u256_take_bit
      by (simp add: signed_take_bit_eq_if_negative signed_take_bit_eq_if_positive)
  qed
  show "(if 31 < uint x then thn (pushBig (uint y)) incPc
      else let bitpos = nat (uint x) * 8 + 7; mask = push_bit bitpos 1 - 1;
               x' = if bit (uint y) bitpos then (uint y OR NOT mask) AND uint256Max else uint y AND mask
           in thn (pushBig (u256 x')) incPc) (setStack r e) =
      Some (Ok (), stepped (signextend_spec x y # r) e)"
  proof (cases "unat x > 31")
    case True
    with r show ?thesis by (simp add: gt signextend_spec_def pushBig_uint run_simps)
  next
    case False
    then show ?thesis
      unfolding gt Let_def b eq [OF False] pushBig_u256 word_of_int_u256 signextend_spec_def
      using r by (simp add: run_simps)
  qed
qed

lemma opLt_computes: "computes2 opLt (\<lambda>x y. of_bool (x < y))"
  by (rule computes2I [OF opLt_def]) (simp add: pushBool_word run_simps word_less_def)

lemma opGt_computes: "computes2 opGt (\<lambda>x y. of_bool (x > y))"
  by (rule computes2I [OF opGt_def]) (simp add: pushBool_word run_simps word_less_def)

lemma opSlt_computes: "computes2 opSlt (\<lambda>x y. of_bool (x <s y))"
  by (rule computes2I [OF opSlt_def]) (simp add: pushBool_word run_simps toSigned_uint word_sless_alt)

lemma opSgt_computes: "computes2 opSgt (\<lambda>x y. of_bool (y <s x))"
  by (rule computes2I [OF opSgt_def]) (simp add: pushBool_word run_simps toSigned_uint word_sless_alt)

lemma opEq_computes: "computes2 opEq (\<lambda>x y. of_bool (x = y))"
  by (rule computes2I [OF opEq_def]) (auto simp: pushBool_word run_simps dest: unsigned_word_eqI)

lemma opIszero_computes: "computes1 opIszero (\<lambda>x. of_bool (x = 0))"
  by (rule computes1I [OF opIszero_def]) (simp add: pushBool_word run_simps uint_0_iff)

lemma opAnd_computes: "computes2 opAnd (AND)"
  by (rule computes2I [OF opAnd_def])
    (simp add: pushBig_u256 run_simps flip: uint_and word_and_def unsigned_and_eq)

lemma opOr_computes: "computes2 opOr (OR)"
  by (rule computes2I [OF opOr_def]) (simp add: pushBig_u256 run_simps flip: unsigned_or_eq)

lemma opXor_computes: "computes2 opXor (XOR)"
  by (rule computes2I [OF opXor_def]) (simp add: pushBig_u256 run_simps flip: unsigned_xor_eq)

lemma word_of_int_xor_mask: "word_of_int (uint (x :: Word) XOR mask 256) = NOT x"
  by (rule bit_word_eqI) (simp add: bit_simps)

lemma opNot_computes: "computes1 opNot (NOT)"
  by (rule computes1I [OF opNot_def],
      simp only: Let_def uint256Max_def [symmetric] uint256Max_mask pushBig_u256 word_of_int_xor_mask)
    (simp add: run_simps)

lemma shift_guard:
  "(\<not> IsUint64 (uint (x :: Word)) \<or> 256 \<le> uint x) = (256 \<le> unat x)"
  "(\<not> IsUint64 (uint (x :: Word)) \<or> 32 \<le> uint x) = (32 \<le> unat x)"
proof -
  have x: "uint x = int (unat x)" by simp
  have p: "(2::int) ^ 64 = 18446744073709551616" by simp
  show "(\<not> IsUint64 (uint x) \<or> 256 \<le> uint x) = (256 \<le> unat x)"
    "(\<not> IsUint64 (uint x) \<or> 32 \<le> uint x) = (32 \<le> unat x)"
    unfolding IsUint64_def p using x by linarith+
qed

lemma opShl_computes: "computes2 opShl (\<lambda>n x. push_bit (unat n) x)"
proof (rule computes2I [OF opShl_def])
  fix x y :: Word and r :: EVMStack and e :: "'h EVM"
  assume r: "length r < 1024"
  have "push_bit (unat x) y = 0" if "unat x \<ge> 256"
    using that by (simp add: push_bit_word_beyond)
  moreover have "word_of_int (push_bit (unat x) (uint y)) = push_bit (unat x) y"
    by (rule bit_word_eqI) (auto simp: bit_simps)
  ultimately show "thn (if \<not> IsUint64 (uint x) \<or> 256 \<le> uint x then pushW 0
        else pushBig (u256 (push_bit (nat (uint x)) (uint y)))) incPc (setStack r e) =
      Some (Ok (), stepped (push_bit (unat x) y # r) e)"
    unfolding shift_guard using r by (simp add: pushBig_u256 run_simps)
qed

lemma opShr_computes: "computes2 opShr (\<lambda>n x. drop_bit (unat n) x)"
proof (rule computes2I [OF opShr_def])
  fix x y :: Word and r :: EVMStack and e :: "'h EVM"
  assume r: "length r < 1024"
  have "drop_bit (unat x) y = 0" if "unat x \<ge> 256"
    using that by (simp add: drop_bit_word_beyond)
  moreover have "word_of_int (drop_bit (unat x) (uint y)) = drop_bit (unat x) y"
    by (rule bit_word_eqI) (auto simp: bit_simps dest: bit_imp_le_length)
  ultimately show "thn (if \<not> IsUint64 (uint x) \<or> 256 \<le> uint x then pushW 0
        else pushBig (u256 (drop_bit (nat (uint x)) (uint y)))) incPc (setStack r e) =
      Some (Ok (), stepped (drop_bit (unat x) y # r) e)"
    unfolding shift_guard using r by (simp add: pushBig_u256 run_simps)
qed

lemma opSar_computes: "computes2 opSar (\<lambda>n x. signed_drop_bit (unat n) x)"
proof (rule computes2I [OF opSar_def])
  fix x y :: Word and r :: EVMStack and e :: "'h EVM"
  assume r: "length r < 1024"
  have big: "signed_drop_bit (unat x) y = (if bit (uint y) 255 then -1 else 0)" if "unat x \<ge> 256"
    using that by (simp add: signed_drop_bit_beyond bit_unsigned_iff)
  have max: "uint256Max = u256 (-1)"
    by (simp only: uint256Max_mask u256_take_bit take_bit_minus_one_eq_mask)
  have m: "pushBig uint256Max = pushW (-1)"
    unfolding max pushBig_u256 by simp
  have w: "word_of_int (drop_bit (unat x) (sint y)) = signed_drop_bit (unat x) y"
    by (simp flip: sint_signed_drop_bit_eq)
  have "- (2 ^ 256) < drop_bit (unat x) (sint y)" "drop_bit (unat x) (sint y) < 2 ^ 256"
    using sint_range [of "signed_drop_bit (unat x) y"] by (simp_all add: sint_signed_drop_bit_eq)
  note t = pushBig_toUnsigned [OF this]
  show "thn (if \<not> IsUint64 (uint x) \<or> 256 \<le> uint x then if bit (uint y) 255 then pushBig uint256Max else pushW 0
        else pushBig (toUnsigned (drop_bit (nat (uint x)) (toSigned (uint y))))) incPc (setStack r e) =
      Some (Ok (), stepped (signed_drop_bit (unat x) y # r) e)"
    unfolding shift_guard using r big by (simp add: m t w toSigned_uint run_simps)
qed

text \<open>Byte \<open>n\<close> of a word, counted from the most significant.\<close>

lemma nth_int_bytes: "i < n \<Longrightarrow> int_bytes n v ! i = word_of_int (v div 256 ^ (n - 1 - i))"
proof (induction n arbitrary: v)
  case 0
  then show ?case by simp
next
  case (Suc n)
  show ?case
  proof (cases "i = n")
    case True
    then show ?thesis by (simp add: nth_append)
  next
    case False
    then have "i < n" using Suc.prems by simp
    moreover have "v div 256 div 256 ^ (n - 1 - i) = v div 256 ^ (n - i)"
      using \<open>i < n\<close> by (simp add: zdiv_zmult2_eq [symmetric] power_Suc [symmetric] Suc_diff_Suc del: power_Suc)
    ultimately show ?thesis by (simp add: nth_append Suc.IH)
  qed
qed

lemma opByte_computes:
  "computes2 opByte (\<lambda>n x. if unat n < 32 then word_of_int (uint x div 256 ^ (31 - unat n) mod 256) else 0)"
  unfolding computes2_def
proof (intro conjI allI impI)
  fix e :: "'h EVM" and x y r
  assume st: "stack (state e) = x # y # r" and r: "length r < maxStackSize"
  have "(ucast (word_of_int v :: byte) :: Word) = word_of_int (v mod 256)" for v
    by (rule bit_word_eqI) (auto simp: bit_simps take_bit_eq_mod [of 8, symmetric, simplified])
  then show "opByte e = Some (Ok (), stepped
      ((if unat x < 32 then word_of_int (uint y div 256 ^ (31 - unat x) mod 256) else 0) # r) e)"
    unfolding opByte_def using st r
    by (simp only: run_popBig run_popW stack_setStack shift_guard maxStackSize_def)
      (simp add: run_simps word_bytes_def nth_int_bytes)
next
  fix e :: "'h EVM"
  assume "length (stack (state e)) < 2"
  then show "\<exists>e'. opByte e = Some (Panic (PanicErr ErrStackUnderflow), e')"
    by (cases "stack (state e)") (simp_all add: opByte_def run_simps)
qed

text \<open>\<open>CLZ\<close> counts the leading zeros of 256 bits.\<close>

lemma clzLoop_le: "clzLoop x n c \<le> c + n"
proof (induction n arbitrary: c)
  case (Suc n)
  then show ?case using Suc.IH [of "Suc c"] by simp
qed simp

lemma clzLoop_bits:
  "0 \<le> x \<Longrightarrow> x < 2 ^ n \<Longrightarrow> \<exists>k \<le> n. clzLoop x n c = c + k \<and> x < 2 ^ (n - k) \<and> (k < n \<longrightarrow> 2 ^ (n - k - 1) \<le> x)"
proof (induction n arbitrary: c)
  case 0
  then show ?case by simp
next
  case (Suc n)
  show ?case
  proof (cases "bit x n")
    case True
    then have "2 ^ n \<le> x" using Suc.prems(1) by (metis bit_take_bit_iff linorder_not_less take_bit_int_eq_self order_less_irrefl)
    with True Suc.prems show ?thesis by (intro exI [of _ 0]) simp
  next
    case False
    have "x = take_bit n x"
      using False Suc.prems by (intro bit_eqI) (metis bit_take_bit_iff less_antisym take_bit_int_eq_self)
    then have "x < 2 ^ n" by (metis take_bit_int_less_exp)
    from Suc.IH [OF Suc.prems(1) this, of "c + 1"] obtain k where
      "k \<le> n" "clzLoop x n (c + 1) = c + 1 + k" "x < 2 ^ (n - k)" "k < n \<longrightarrow> 2 ^ (n - k - 1) \<le> x" by blast
    with False show ?thesis by (intro exI [of _ "k + 1"]) simp
  qed
qed

lemma opClz_computes: "computes1 opClz (\<lambda>x. of_nat (clzLoop (uint x) 256 0))"
proof (rule computes1I [OF opClz_def])
  fix x :: Word and r :: EVMStack and e :: "'h EVM"
  assume "length r < 1024"
  moreover have "int (clzLoop (uint x) 256 0) < 2 ^ 256"
    using clzLoop_le [of "uint x" 256 0] by (simp add: order_le_less_trans [of _ 256])
  ultimately show "thn (pushBig (int (clzLoop (uint x) 256 0))) incPc (setStack r e) =
      Some (Ok (), stepped (of_nat (clzLoop (uint x) 256 0) # r) e)"
    by (simp add: pushBig_word run_simps)
qed

lemma clzLoop_takeWhile:
  "clzLoop x n c = c + length (takeWhile Not (rev (map (bit x) [0..<n])))"
  by (induction n arbitrary: c) simp_all

lemma opClz_leading:
  "computes1 opClz (\<lambda>x. of_nat (length (takeWhile Not (rev (map (bit x) [0..<256])))))"
proof -
  have "map (bit (uint x)) [0..<256] = map (bit x) [0..<256]" for x :: Word
    by (simp add: bit_unsigned_iff)
  then show ?thesis using opClz_computes by (simp only: clzLoop_takeWhile add_0)
qed

end
