(* ===== verification/OpsEnv.thy ===== *)
theory OpsEnv
  imports OpsArith
begin

text \<open>
  The environment handlers of \<open>op_env.go\<close>, in the order of the file. \<open>popAddress\<close> and \<open>pushAddress\<close>
  are the conversions every one of them writes out.
\<close>

definition resolvePrecompile :: "Address \<Rightarrow> 'h EVM \<Rightarrow> Precompile option" where
  "resolvePrecompile addr e = precompiles e addr"

definition isPrecompileAddress :: "Address \<Rightarrow> 'h EVM \<Rightarrow> bool" where
  "isPrecompileAddress addr e = (resolvePrecompile addr e \<noteq> None)"

definition popAddress :: "('h, Address) M" where
  "popAddress = seq popW (\<lambda>w. ret (addressFromWord w))"

definition pushAddress :: "Address \<Rightarrow> ('h, unit) M" where
  "pushAddress addr = pushW (wordFromAddress addr)"

text \<open>\<open>big.NewInt(int64(n))\<close> of a length and of a \<open>uint64\<close>.\<close>

definition pushLen :: "nat \<Rightarrow> ('h, unit) M" where
  "pushLen n = pushBig (int n)"

definition pushInt64 :: "u64 \<Rightarrow> ('h, unit) M" where
  "pushInt64 n = pushBig (int64_of n)"

definition opAddress :: "('h, unit) M" where
  "opAddress = seq getContract (\<lambda>c. thn (pushAddress (AddressVal c)) incPc)"

definition opBalance :: "('h, unit) M" where
  "opBalance =
     seq popAddress (\<lambda>addr.
     seq (getState (\<lambda>s. Balance addr (account s))) (\<lambda>bal.
     thn (pushBig bal) incPc))"

definition opOrigin :: "('h, unit) M" where
  "opOrigin = seq (getState (\<lambda>s. OriginVal (txCtx s))) (\<lambda>addr. thn (pushAddress addr) incPc)"

definition opCaller :: "('h, unit) M" where
  "opCaller = seq getContract (\<lambda>c. thn (pushAddress (CallerVal c)) incPc)"

definition opCallvalue :: "('h, unit) M" where
  "opCallvalue = seq getContract (\<lambda>c. thn (pushBigPtr (CallValueVal c)) incPc)"

text \<open>\<open>copy(w[0:end-offset], input[offset:end])\<close>: the slice \<open>w[0:end-offset]\<close> is in range because
  \<open>end - offset\<close> is at most 32 whenever \<open>offset + 32\<close> does not wrap.\<close>

definition calldataWord :: "bytes \<Rightarrow> u64 \<Rightarrow> Word outcome" where
  "calldataWord input offset =
     (if offset < ulen input
      then let end = offset + 32;
               end = (if end > ulen input then ulen input else end)
           in obind (goslice (replicate 32 0 :: bytes) 0 (end - offset)) (\<lambda>dst.
              obind (goslice input offset end) (\<lambda>src.
              BytesToWord (gocopy dst src @ drop (length dst) (replicate 32 0))))
      else Ok 0)"

definition opCalldataload :: "('h, unit) M" where
  "opCalldataload =
     seq popU64 (\<lambda>offset. seq getContract (\<lambda>c.
     seq (lift (calldataWord (CallInputVal c) offset)) (\<lambda>w.
     thn (pushW w) incPc)))"

definition opCalldatasize :: "('h, unit) M" where
  "opCalldatasize = seq getContract (\<lambda>c. thn (pushLen (length (CallInputVal c))) incPc)"

text \<open>The body the three copy handlers share: \<open>length\<close> zero bytes, overwritten by what the source has
  at \<open>dataOffset\<close>.\<close>

definition copyPadded :: "nat \<Rightarrow> bytes \<Rightarrow> u64 \<Rightarrow> u64 \<Rightarrow> bytes outcome" where
  "copyPadded lim src dataOffset len =
     obind (make_bytes lim len) (\<lambda>dat.
       if dataOffset < ulen src
       then let end = dataOffset + len;
                end = (if end > ulen src then ulen src else end)
            in obind (goslice src dataOffset end) (\<lambda>s. Ok (gocopy dat s))
       else Ok dat)"

definition opCalldatacopy :: "Lib \<Rightarrow> ('h, unit) M" where
  "opCalldatacopy L =
     seq popU64 (\<lambda>memOffset. seq popU64 (\<lambda>dataOffset. seq popU64 (\<lambda>len.
     seq getContract (\<lambda>c.
     seq (lift (copyPadded (maxAlloc L) (CallInputVal c) dataOffset len)) (\<lambda>dat.
     thn (memSet L memOffset dat) incPc)))))"

definition opCodesize :: "('h, unit) M" where
  "opCodesize = seq getContract (\<lambda>c. thn (pushLen (length (CodeVal c))) incPc)"

definition opCodecopy :: "Lib \<Rightarrow> ('h, unit) M" where
  "opCodecopy L =
     seq popU64 (\<lambda>memOffset. seq popU64 (\<lambda>codeOffset. seq popU64 (\<lambda>len.
     seq getContract (\<lambda>c.
     seq (lift (copyPadded (maxAlloc L) (CodeVal c) codeOffset len)) (\<lambda>dat.
     thn (memSet L memOffset dat) incPc)))))"

definition opGasprice :: "('h, unit) M" where
  "opGasprice = seq (getState (\<lambda>s. GasPriceVal (txCtx s))) (\<lambda>p. thn (pushBigPtr p) incPc)"

definition opExtcodesize :: "('h, unit) M" where
  "opExtcodesize =
     seq popAddress (\<lambda>addr.
     seq (gets (\<lambda>e. isPrecompileAddress addr e \<and> \<not> Exists addr (account (state e)))) (\<lambda>hidden.
     if hidden then thn (pushW 0) incPc
     else seq (getState (\<lambda>s. CodeSize addr (account s))) (\<lambda>n. thn (pushLen n) incPc)))"

definition opExtcodecopy :: "Lib \<Rightarrow> ('h, unit) M" where
  "opExtcodecopy L =
     seq popAddress (\<lambda>addr. seq popU64 (\<lambda>memOffset. seq popU64 (\<lambda>codeOffset. seq popU64 (\<lambda>len.
     seq (getState (\<lambda>s. accCode addr (account s))) (\<lambda>code.
     seq (lift (copyPadded (maxAlloc L) code codeOffset len)) (\<lambda>dat.
     thn (memSet L memOffset dat) incPc))))))"

definition opReturndatasize :: "('h, unit) M" where
  "opReturndatasize = seq (gets (\<lambda>e. length (returnData e))) (\<lambda>n. thn (pushLen n) incPc)"

definition opReturndatacopy :: "Lib \<Rightarrow> ('h, unit) M" where
  "opReturndatacopy L =
     seq popU64 (\<lambda>memOffset. seq popU64 (\<lambda>dataOffset. seq popU64 (\<lambda>len.
     seq (gets returnData) (\<lambda>rd.
     if dataOffset + len > ulen rd then throw ErrReturnDataOutOfBounds
     else
       seq (lift (make_bytes (maxAlloc L) len)) (\<lambda>dat.
       seq (lift (goslice rd dataOffset (dataOffset + len))) (\<lambda>src.
       thn (memSet L memOffset (gocopy dat src)) incPc))))))"

definition opExtcodehash :: "('h, unit) M" where
  "opExtcodehash =
     seq popAddress (\<lambda>addr.
     seq (gets (\<lambda>e. isPrecompileAddress addr e \<and> \<not> Exists addr (account (state e)))) (\<lambda>hidden.
     if hidden then thn (pushW 0) incPc
     else
       seq (getState account) (\<lambda>acc.
       thn (if \<not> Exists addr acc then pushW 0 else pushW (HashToWord (CodeHash addr acc))) incPc)))"

definition opBlockhash :: "('h, unit) M" where
  "opBlockhash =
     seq popBig (\<lambda>n.
     if \<not> IsUint64 n then thn (pushW 0) incPc
     else seq (getState (\<lambda>s. BlockHash (blockCtx s) (word_of_int n))) (\<lambda>h.
       thn (pushW (HashToWord h)) incPc))"

definition opCoinbase :: "('h, unit) M" where
  "opCoinbase = seq (getState (\<lambda>s. CoinbaseVal (blockCtx s))) (\<lambda>addr. thn (pushAddress addr) incPc)"

definition opTimestamp :: "('h, unit) M" where
  "opTimestamp = seq (getState (\<lambda>s. TimestampVal (blockCtx s))) (\<lambda>ts. thn (pushInt64 ts) incPc)"

definition opNumber :: "('h, unit) M" where
  "opNumber = seq (getState (\<lambda>s. NumberVal (blockCtx s))) (\<lambda>n. thn (pushBigPtr n) incPc)"

definition opPrevrandao :: "('h, unit) M" where
  "opPrevrandao = seq (getState (\<lambda>s. RandomVal (blockCtx s))) (\<lambda>r. thn (pushW (HashToWord r)) incPc)"

definition opGaslimit :: "('h, unit) M" where
  "opGaslimit = seq (getState (\<lambda>s. GasLimitVal (blockCtx s))) (\<lambda>l. thn (pushInt64 l) incPc)"

definition opChainid :: "('h, unit) M" where
  "opChainid = seq (getState (\<lambda>s. ChainIDVal (blockCtx s))) (\<lambda>i. thn (pushBigPtr i) incPc)"

definition opSelfbalance :: "('h, unit) M" where
  "opSelfbalance =
     seq getContract (\<lambda>c.
     seq (getState (\<lambda>s. Balance (AddressVal c) (account s))) (\<lambda>bal.
     thn (pushBig bal) incPc))"

definition opBasefee :: "('h, unit) M" where
  "opBasefee = seq (getState (\<lambda>s. BaseFeeVal (blockCtx s))) (\<lambda>f. thn (pushBigPtr f) incPc)"

definition opBlobhash :: "('h, unit) M" where
  "opBlobhash =
     seq popU64 (\<lambda>idx. seq (getState (\<lambda>s. BlobHashesVal (txCtx s))) (\<lambda>hashes.
     thn (if idx < ulen hashes then pushW (HashToWord (hashes ! unat idx)) else pushW 0) incPc))"

definition opBlobbasefee :: "('h, unit) M" where
  "opBlobbasefee = seq (getState (\<lambda>s. BlobBaseFeeVal (blockCtx s))) (\<lambda>f. thn (pushBigPtr f) incPc)"

lemmas env_defs = opAddress_def opBalance_def opOrigin_def opCaller_def opCallvalue_def
  opCalldataload_def opCalldatasize_def opCalldatacopy_def opCodesize_def opCodecopy_def
  opGasprice_def opExtcodesize_def opExtcodecopy_def opReturndatasize_def opReturndatacopy_def
  opExtcodehash_def opBlockhash_def opCoinbase_def opTimestamp_def opNumber_def opPrevrandao_def
  opGaslimit_def opChainid_def opSelfbalance_def opBasefee_def opBlobhash_def opBlobbasefee_def

subsection \<open>What the copy helpers return\<close>

text \<open>Byte \<open>i\<close> of a padded read: the source's byte, or 0 past its end.\<close>

definition padded_at :: "bytes \<Rightarrow> nat \<Rightarrow> byte" where
  "padded_at src i = (if i < length src then src ! i else 0)"

lemma copyPadded_Ok:
  assumes "copyPadded lim src off len = Ok bs" "length src < 2 ^ 63" "unat off + unat len < 2 ^ 64"
  shows "bs = map (\<lambda>i. padded_at src (unat off + i)) [0 ..< unat len]"
proof -
  have u: "unat (ulen src) = length src" using assms(2) by (intro unat_ulen) simp
  have e: "unat (off + len) = unat off + unat len" using assms(3) by (simp add: unat_add_no_wrap)
  show ?thesis
  proof (cases "off < ulen src")
    case False
    then have "length src \<le> unat off" by (simp add: unat_lt_nat u)
    moreover have "bs = replicate (unat len) 0"
      using assms(1) False by (auto simp: copyPadded_def dest: make_bytes_OkD)
    ultimately show ?thesis by (intro nth_equalityI) (auto simp: padded_at_def)
  next
    case True
    then have l: "unat off < length src" by (simp add: unat_lt_nat u)
    obtain s where s: "goslice src off (if off + len > ulen src then ulen src else off + len) = Ok s"
      and bs: "bs = gocopy (replicate (unat len) 0) s"
      using assms(1) True by (auto simp: copyPadded_def Let_def dest!: make_bytes_OkD split: if_splits)
    have "s = take (unat len) (drop (unat off) src)"
      using s l by (auto simp: goslice_def u e unat_lt_nat split: if_splits)
    with l show ?thesis
      by (intro nth_equalityI) (auto simp: bs padded_at_def gocopy_def nth_append)
  qed
qed

end
