(* ===== verification/OpsData.thy ===== *)
theory OpsData
  imports OpsEnv
begin

text \<open>
  The handlers for memory (\<open>op_memory.go\<close>), storage (\<open>op_storage.go\<close>), hashing (\<open>op_crypto.go\<close>),
  control flow (\<open>op_control.go\<close>), the stack (\<open>op_stack.go\<close>) and logs (\<open>op_log.go\<close>). The memory and
  storage handlers pass their accesses to the hooks and use the hooks' replacements.
\<close>

subsection \<open>Memory\<close>

definition opMload :: "Lib \<Rightarrow> ('h, unit) M" where
  "opMload L =
     seq popU64 (\<lambda>offset.
     let access = \<lparr>maOffset = offset, maSize = 32, maData = [], maIsWrite = False\<rparr> in
     seq (dispatchMemoryAccessHook 0x51 HookTypeMemoryRead access) (\<lambda>(replaced, handled).
     seq (lift (normalizeAccessData (maxAlloc L) replaced 32)) (\<lambda>dat.
     seq (if \<not> handled
          then thn (memResize L (offset + 32))
                 (seq (memGet L offset 32) (\<lambda>bs. lift (normalizeAccessData (maxAlloc L) bs 32)))
          else ret dat) (\<lambda>dat.
     seq (lift (BytesToWord (gocopy (replicate 32 0) dat))) (\<lambda>w.
     thn (pushW w) incPc)))))"

definition opMstore :: "Lib \<Rightarrow> ('h, unit) M" where
  "opMstore L =
     seq popU64 (\<lambda>offset. seq popW (\<lambda>v.
     seq (lift (normalizeAccessData (maxAlloc L) (word_bytes v) 32)) (\<lambda>dat.
     let access = \<lparr>maOffset = offset, maSize = 32, maData = dat, maIsWrite = True\<rparr> in
     seq (dispatchMemoryAccessHook 0x52 HookTypeMemoryWrite access) (\<lambda>(replaced, handled).
     seq (if handled then lift (normalizeAccessData (maxAlloc L) replaced 32) else ret dat) (\<lambda>dat.
     thn (memSet L offset dat) incPc)))))"

definition opMstore8 :: "Lib \<Rightarrow> ('h, unit) M" where
  "opMstore8 L =
     seq popU64 (\<lambda>offset. seq popW (\<lambda>v.
     let dat = [word_bytes v ! 31];
         access = \<lparr>maOffset = offset, maSize = 1, maData = dat, maIsWrite = True\<rparr> in
     seq (dispatchMemoryAccessHook 0x53 HookTypeMemoryWrite access) (\<lambda>(replaced, handled).
     seq (if handled then lift (normalizeAccessData (maxAlloc L) replaced 1) else ret dat) (\<lambda>dat.
     thn (memSet L offset dat) incPc))))"

definition opMsize :: "('h, unit) M" where
  "opMsize = seq (getState (\<lambda>s. length (memory s))) (\<lambda>n. thn (pushLen n) incPc)"

definition opMcopy :: "Lib \<Rightarrow> ('h, unit) M" where
  "opMcopy L =
     seq popU64 (\<lambda>dst. seq popU64 (\<lambda>src. seq popU64 (\<lambda>len.
     let readAccess = \<lparr>maOffset = src, maSize = len, maData = [], maIsWrite = False\<rparr> in
     seq (dispatchMemoryAccessHook 0x5E HookTypeMemoryRead readAccess) (\<lambda>(replaced, handled).
     seq (lift (normalizeAccessData (maxAlloc L) replaced len)) (\<lambda>dat.
     seq (if \<not> handled
          then seq (memGet L src len) (\<lambda>bs. lift (normalizeAccessData (maxAlloc L) bs len))
          else ret dat) (\<lambda>dat.
     let writeAccess = \<lparr>maOffset = dst, maSize = len, maData = dat, maIsWrite = True\<rparr> in
     seq (dispatchMemoryAccessHook 0x5E HookTypeMemoryWrite writeAccess) (\<lambda>(replaced, handled).
     seq (if handled then lift (normalizeAccessData (maxAlloc L) replaced len) else ret dat) (\<lambda>dat.
     thn (memSet L dst dat) incPc))))))))"

subsection \<open>Storage\<close>

definition opSload :: "('h, unit) M" where
  "opSload =
     seq popW (\<lambda>w. let slot = WordToHash w in
     seq getContract (\<lambda>c. let addr = AddressVal c in
     seq (getState (\<lambda>s. StorageGet addr slot (storage s))) (\<lambda>v.
     let access = \<lparr>saAddr = addr, saSlot = slot, saValue = v, saIsWrite = False\<rparr> in
     seq (dispatchStorageAccessHook 0x54 HookTypeStorageRead access) (\<lambda>(replaced, handled).
     thn (pushW (HashToWord (if handled then replaced else v))) incPc))))"

text \<open>Base cost of a write, without the surcharge for a cold slot.\<close>

definition sstoreCost :: "Hash \<Rightarrow> Hash \<Rightarrow> Hash \<Rightarrow> u64" where
  "sstoreCost original current v =
     (if original = current
      then if current \<noteq> v then (if original = 0 then GasSstoreSet else GasSstoreReset) else GasWarmAccess
      else GasWarmAccess)"

text \<open>The changes to the refund counter, in the order the code makes them.\<close>

definition sstoreRefund :: "Hash \<Rightarrow> Hash \<Rightarrow> Hash \<Rightarrow> EVMGasMeter \<Rightarrow> EVMGasMeter" where
  "sstoreRefund original current v g =
     (if current \<noteq> v then
        let g = (if original \<noteq> 0 \<and> current \<noteq> 0 \<and> v = 0 then RefundGas RefundSstoreClear g else g);
            g = (if original \<noteq> 0 \<and> current = 0 then DeductRefund RefundSstoreClear g else g)
        in if v = original
           then (if original = 0 then RefundGas (GasSstoreSet - GasWarmAccess) g
                 else RefundGas (GasSstoreReset - GasWarmAccess) g)
           else g
      else g)"

definition opSstore :: "('h, unit) M" where
  "opSstore =
     seq popW (\<lambda>w. let slot = WordToHash w in
     seq popW (\<lambda>w'. let v = WordToHash w' in
     seq getContract (\<lambda>c. let addr = AddressVal c in
     if IsStaticVal c then throw ErrWriteProtection
     else
       let access = \<lparr>saAddr = addr, saSlot = slot, saValue = v, saIsWrite = True\<rparr> in
       seq (dispatchStorageAccessHook 0x55 HookTypeStorageWrite access) (\<lambda>(replaced, handled).
       let v = (if handled then replaced else v) in
       seq (getState (\<lambda>s. gas (gasMeter s))) (\<lambda>g.
       if g \<le> GasCallStipend then throw ErrOutOfGas
       else
         seq (getState storage) (\<lambda>sto.
         let current = StorageGet addr slot sto; original = StorageOriginal addr slot sto in
         seq (getState (\<lambda>s. IsSlotWarmed addr slot (accessList s))) (\<lambda>warm.
         thn (if \<not> warm then modAccessList (WarmSlot addr slot) else ret ())
         (thn (consume ((if \<not> warm then GasColdSload else 0) + sstoreCost original current v))
         (thn (modGas (sstoreRefund original current v))
         (thn (modStorage (StorageSet addr slot v)) incPc))))))))))"

definition opTload :: "('h, unit) M" where
  "opTload =
     seq popW (\<lambda>w. let slot = WordToHash w in
     seq getContract (\<lambda>c. let addr = AddressVal c in
     seq (getState (\<lambda>s. TransientGet addr slot (transientStorage s))) (\<lambda>v.
     let access = \<lparr>saAddr = addr, saSlot = slot, saValue = v, saIsWrite = False\<rparr> in
     seq (dispatchStorageAccessHook 0x5C HookTypeTransientLoad access) (\<lambda>(replaced, handled).
     thn (pushW (HashToWord (if handled then replaced else v))) incPc))))"

definition opTstore :: "('h, unit) M" where
  "opTstore =
     seq popW (\<lambda>w. let slot = WordToHash w in
     seq popW (\<lambda>w'. let v = WordToHash w' in
     seq getContract (\<lambda>c. let addr = AddressVal c in
     if IsStaticVal c then throw ErrWriteProtection
     else
       let access = \<lparr>saAddr = addr, saSlot = slot, saValue = v, saIsWrite = True\<rparr> in
       seq (dispatchStorageAccessHook 0x5D HookTypeTransientStore access) (\<lambda>(replaced, handled).
       let v = (if handled then replaced else v) in
       thn (modTransient (TransientSet addr slot v)) incPc))))"

subsection \<open>Hashing\<close>

definition opKeccak256 :: "Lib \<Rightarrow> ('h, unit) M" where
  "opKeccak256 L =
     seq popU64 (\<lambda>offset. seq popU64 (\<lambda>n.
     thn (memResize L (offset + n))
     (seq (memGet L offset n) (\<lambda>dat.
     thn (pushW (HashToWord (keccak256 L dat))) incPc))))"

subsection \<open>Control flow\<close>

definition isJumpdest :: "u64 \<Rightarrow> 'h EVM \<Rightarrow> bool" where
  "isJumpdest dest e = (dest < ulen (jumpdests e) \<and> jumpdests e ! unat dest)"

definition opJump :: "('h, unit) M" where
  "opJump =
     seq popU64 (\<lambda>dest. seq (gets (isJumpdest dest)) (\<lambda>ok.
     if \<not> ok then throw ErrInvalidJump else modify (\<lambda>e. e\<lparr>pc := dest\<rparr>)))"

definition opJumpi :: "('h, unit) M" where
  "opJumpi =
     seq popU64 (\<lambda>dest. seq popBig (\<lambda>cond.
     if cond \<noteq> 0
     then seq (gets (isJumpdest dest)) (\<lambda>ok.
       if \<not> ok then throw ErrInvalidJump else modify (\<lambda>e. e\<lparr>pc := dest\<rparr>))
     else incPc))"

definition opPc :: "('h, unit) M" where
  "opPc = seq (gets pc) (\<lambda>p. thn (pushInt64 p) incPc)"

definition opGas :: "('h, unit) M" where
  "opGas = seq (getState (\<lambda>s. gas (gasMeter s))) (\<lambda>g. thn (pushInt64 g) incPc)"

definition opJumpdest :: "('h, unit) M" where
  "opJumpdest = incPc"

subsection \<open>Stack\<close>

definition opPop :: "('h, unit) M" where
  "opPop = seq popW (\<lambda>_. incPc)"

definition opPush0 :: "('h, unit) M" where
  "opPush0 = thn (pushW 0) incPc"

text \<open>\<open>copy(w[32-n:], code[start:end])\<close>: the operand bytes, padded with zeros on the right when the
  code ends inside them.\<close>

definition pushOperand :: "bytes \<Rightarrow> u64 \<Rightarrow> nat \<Rightarrow> Word outcome" where
  "pushOperand code p n =
     (let start = p + 1; end = start + of_nat n in
      if start < ulen code
      then let end = (if end > ulen code then ulen code else end)
           in obind (goslice code start end) (\<lambda>src.
              BytesToWord (replicate (32 - n) 0 @ gocopy (replicate n 0) src))
      else Ok 0)"

definition opPush :: "bytes \<Rightarrow> nat \<Rightarrow> ('h, unit) M" where
  "opPush code n =
     seq (gets pc) (\<lambda>p. seq (lift (pushOperand code p n)) (\<lambda>w.
     thn (pushW w) (modify (\<lambda>e. e\<lparr>pc := pc e + of_nat (1 + n)\<rparr>))))"

definition opDup :: "int \<Rightarrow> ('h, unit) M" where
  "opDup n = thn (dupM n) incPc"

definition opSwap :: "int \<Rightarrow> ('h, unit) M" where
  "opSwap n = thn (swapM n) incPc"

subsection \<open>Logs\<close>

fun popTopics :: "nat \<Rightarrow> ('h, Hash list) M" where
  "popTopics 0 = ret []"
| "popTopics (Suc n) = seq popW (\<lambda>t. seq (popTopics n) (\<lambda>ts. ret (WordToHash t # ts)))"

definition opLog :: "Lib \<Rightarrow> nat \<Rightarrow> ('h, unit) M" where
  "opLog L nTopics =
     seq popU64 (\<lambda>offset. seq popU64 (\<lambda>n.
     seq (getState (\<lambda>s. length (StackData (stack s)))) (\<lambda>len.
     if len < nTopics then throw ErrStackUnderflow
     else
       seq (popTopics nTopics) (\<lambda>topics.
       seq (memGet L offset n) (\<lambda>dat.
       seq getContract (\<lambda>c.
       thn (addLogM \<lparr>logAddress = AddressVal c, logTopics = topics, logData = dat\<rparr>) incPc))))))"

lemmas data_defs = opMload_def opMstore_def opMstore8_def opMsize_def opMcopy_def opSload_def
  opTload_def opKeccak256_def opJump_def opJumpi_def opPc_def opGas_def opJumpdest_def opPop_def
  opPush0_def opPush_def opDup_def opSwap_def opLog_def

end
