(* ===== verification/OpsSystem.thy ===== *)
theory OpsSystem
  imports OpsData
begin

text \<open>
  Message calls (\<open>message.go\<close>) and the system handlers (\<open>op_system.go\<close>). The recursion through
  \<open>EVM.Run\<close> is opened: \<open>ExecuteMessage\<close> takes the function that runs a child frame, and the CALL and
  CREATE handlers take the function that executes a message, as arguments; \<open>Interpreter\<close> closes the
  loop. \<open>Run\<close> and \<open>executePrecompileMessage\<close> never return a nil result, so the branches of the callers that test
  for one do not appear.
\<close>

subsection \<open>Messages\<close>

datatype CallKind = CallKindCall | CallKindCallCode | CallKindDelegateCall | CallKindStaticCall

record Message =
  msgCaller :: Address
  msgCallee :: Address
  msgValue :: "int option"
  msgGas :: u64
  msgInput :: bytes
  msgCode :: bytes
  msgCodeAddr :: Address
  msgIsStatic :: bool
  msgCallDepth :: int
  msgKind :: CallKind
  msgIsCreate :: bool
  msgSalt :: Hash

type_synonym runResult = "ExecutionResult \<times> evm_error option"
type_synonym 'h runner = "'h EVM \<Rightarrow> bytes \<Rightarrow> (runResult \<times> 'h EVM) option"
type_synonym 'h caller = "Message \<Rightarrow> ('h, runResult) M"

definition maxMessageCallGas :: "u64 \<Rightarrow> u64" where
  "maxMessageCallGas g = g - (g div 64)"

definition callGas :: "u64 \<Rightarrow> u64 \<Rightarrow> u64" where
  "callGas availableGas requestedGas =
     (let m = maxMessageCallGas availableGas in if requestedGas > m then m else requestedGas)"

text \<open>\<open>msg.Value != nil && msg.Value.Sign() > 0\<close>.\<close>

definition msgPays :: "Message \<Rightarrow> bool" where
  "msgPays msg = (case msgValue msg of None \<Rightarrow> False | Some v \<Rightarrow> v > 0)"

definition msgAmount :: "Message \<Rightarrow> int" where
  "msgAmount msg = (case msgValue msg of None \<Rightarrow> 0 | Some v \<Rightarrow> v)"

definition newChildState :: "Lib \<Rightarrow> Message \<Rightarrow> 'h evmState \<Rightarrow> 'h evmState" where
  "newChildState L msg parent =
     (let (calleeAddr, callerAddr, v) =
        (case msgKind msg of
           CallKindDelegateCall \<Rightarrow>
             (AddressVal (contract parent), CallerVal (contract parent), CallValueVal (contract parent))
         | CallKindCallCode \<Rightarrow> (AddressVal (contract parent), AddressVal (contract parent), msgValue msg)
         | _ \<Rightarrow> (msgCallee msg, msgCaller msg, msgValue msg));
        v = (case v of None \<Rightarrow> Some 0 | Some x \<Rightarrow> Some x);
        con = \<lparr>AddressVal = calleeAddr, CallerVal = callerAddr, CallValueVal = v,
               CallInputVal = msgInput msg, CodeVal = msgCode msg,
               CodeHashVal = hashCode (keccak256 L) (msgCode msg), CodeAddrVal = msgCodeAddr msg,
               IsStaticVal = msgIsStatic msg\<rparr>
      in (NewEVMState NewStack NewMemory (storage parent) (transientStorage parent) (account parent)
            (NewGasMeter (msgGas msg)) (blockCtx parent) (txCtx parent) con (accessList parent)
            (hookState parent))\<lparr>callDepth := msgCallDepth msg\<rparr>)"

definition executePrecompileMessage :: "Fork \<Rightarrow> Message \<Rightarrow> Precompile \<Rightarrow> runResult outcome" where
  "executePrecompileMessage f msg p =
     (case preRequiredGas p (msgInput msg) f of
        Fail err \<Rightarrow> Ok (zeroResult\<lparr>Status := StatusHalt, GasUsed := msgGas msg, ResErr := Some err\<rparr>, Some err)
      | Panic q \<Rightarrow> Panic q
      | Ok requiredGas \<Rightarrow>
          if requiredGas > msgGas msg
          then Ok (zeroResult\<lparr>Status := StatusOutOfGas, GasUsed := msgGas msg, ResErr := Some ErrOutOfGas\<rparr>,
                   Some ErrOutOfGas)
          else
            case preRun p (msgInput msg) f of
              Fail err \<Rightarrow> Ok (zeroResult\<lparr>Status := StatusHalt, GasUsed := msgGas msg, ResErr := Some err\<rparr>, Some err)
            | Panic q \<Rightarrow> Panic q
            | Ok output \<Rightarrow>
                Ok (zeroResult\<lparr>Status := StatusSuccess, GasUsed := requiredGas,
                      GasRemaining := msgGas msg - requiredGas, ReturnData := output\<rparr>, None))"

subsection \<open>Executing a message\<close>

text \<open>The callee of a creation, before the transfer.\<close>

definition prepareCallee :: "Message \<Rightarrow> InMemoryAccountState \<Rightarrow> InMemoryAccountState" where
  "prepareCallee msg acc =
     (if msgIsCreate msg then
        let acc = (if \<not> Exists (msgCallee msg) acc then CreateAccount (msgCallee msg) acc else acc)
        in if Nonce (msgCallee msg) acc = 0 \<and> accCode (msgCallee msg) acc = []
           then SetNonce (msgCallee msg) 1 acc else acc
      else acc)"

definition transferValue :: "Message \<Rightarrow> InMemoryAccountState \<Rightarrow> InMemoryAccountState" where
  "transferValue msg acc =
     (if msgPays msg
      then AddBalance (msgCallee msg) (msgAmount msg) (SubBalance (msgCaller msg) (msgAmount msg) acc)
      else acc)"

text \<open>The frame's state with both snapshots taken and the message's own effects applied.\<close>

definition enterMessage :: "Message \<Rightarrow> 'h evmState \<Rightarrow> 'h evmState" where
  "enterMessage msg s =
     s\<lparr>account := transferValue msg (prepareCallee msg (snd (accSnapshot (account s)))),
       storage := snd (stoSnapshot (storage s))\<rparr>"

definition revertMessage :: "int \<Rightarrow> int \<Rightarrow> 'h evmState \<Rightarrow> 'h evmState" where
  "revertMessage accSnap stoSnap s =
     s\<lparr>account := accRevertToSnapshot accSnap (account s),
       storage := stoRevertToSnapshot stoSnap (storage s)\<rparr>"

definition childEVM :: "Lib \<Rightarrow> Message \<Rightarrow> 'h EVM \<Rightarrow> 'h EVM" where
  "childEVM L msg e =
     SetHooks (hooks e) (NewEVM (newChildState L msg (state e)) (fork e) (precompiles e))"

definition ExecuteMessage :: "Lib \<Rightarrow> 'h runner \<Rightarrow> 'h caller" where
  "ExecuteMessage L run msg e =
     (if msgCallDepth msg \<ge> 1024
      then Some (Ok (zeroResult\<lparr>Status := StatusCallDepthExceeded, GasRemaining := msgGas msg\<rparr>, None), e)
      else if msgIsStatic msg \<and> msgPays msg
      then Some (Ok (zeroResult\<lparr>Status := StatusHalt, ResErr := Some ErrWriteProtection\<rparr>, None), e)
      else if msgPays msg \<and> Balance (msgCaller msg) (account (state e)) < msgAmount msg
      then Some (Ok (zeroResult\<lparr>Status := StatusInsufficientBalance, GasRemaining := msgGas msg\<rparr>, None), e)
      else
        let accSnap = fst (accSnapshot (account (state e)));
            stoSnap = fst (stoSnapshot (storage (state e)));
            e1 = e\<lparr>state := enterMessage msg (state e)\<rparr>
        in case resolvePrecompile (msgCodeAddr msg) e1 of
             Some p \<Rightarrow>
               (case executePrecompileMessage (fork e1) msg p of
                  Ok (res, err) \<Rightarrow>
                    if Status res \<noteq> StatusSuccess
                    then Some (Ok (res\<lparr>GasRemaining := 0\<rparr>, err), e1\<lparr>state := revertMessage accSnap stoSnap (state e1)\<rparr>)
                    else Some (Ok (res, err), e1)
                | Fail err \<Rightarrow> Some (Fail err, e1)
                | Panic q \<Rightarrow> Some (Panic q, e1))
           | None \<Rightarrow>
               let code = (if msgCode msg = [] then accCode (msgCodeAddr msg) (account (state e1)) else msgCode msg);
                   msg = msg\<lparr>msgCode := code\<rparr>
               in case run (childEVM L msg e1) code of
                    None \<Rightarrow> None
                  | Some ((res, err), c) \<Rightarrow>
                      let s2 = adoptShared (state e1) (state c)
                      in if Status res = StatusSuccess
                         then Some (Ok (res, err), e1\<lparr>state := fold AddLog (logs (state c)) s2\<rparr>)
                         else Some (Ok (if Status res \<noteq> StatusRevert then res\<lparr>GasRemaining := 0\<rparr> else res, err),
                                    e1\<lparr>state := revertMessage accSnap stoSnap s2\<rparr>))"

subsection \<open>The CALL family\<close>

definition callHook :: "CallKind \<Rightarrow> HookType \<times> byte" where
  "callHook kind =
     (case kind of
        CallKindCallCode \<Rightarrow> (HookTypeCallCode, 0xF2)
      | CallKindDelegateCall \<Rightarrow> (HookTypeDelegateCall, 0xF4)
      | CallKindStaticCall \<Rightarrow> (HookTypeStaticCall, 0xFA)
      | CallKindCall \<Rightarrow> (HookTypeExternalCall, 0xF1))"

text \<open>Everything \<open>opCallCommon\<close> charges besides the child's gas; \<open>memGas\<close> is added without a check.\<close>

definition callExtraGas :: "CallKind \<Rightarrow> bool \<Rightarrow> int \<Rightarrow> bool \<Rightarrow> u64 \<Rightarrow> u64" where
  "callExtraGas kind warm v isEmpty memGas =
     (let g = (if warm then GasWarmAccess else GasColdAccountAccess);
          g = (if kind \<noteq> CallKindDelegateCall \<and> kind \<noteq> CallKindStaticCall
               then g + (if v > 0 then GasCallValue else 0) + (if isEmpty \<and> v > 0 then GasNewAccount else 0)
               else g)
      in g + memGas)"

text \<open>What the caller does with the result of the call.\<close>

definition finishCall :: "Lib \<Rightarrow> u64 \<Rightarrow> u64 \<Rightarrow> ExecutionResult \<Rightarrow> ('h, unit) M" where
  "finishCall L outOffset outSize res =
     thn (modGas (ReturnGas (GasRemaining res)))
     (thn (if Status res = StatusSuccess then modGas (RefundGas (GasRefund res)) else ret ())
     (thn (modify (\<lambda>e. e\<lparr>returnData := ReturnData res\<rparr>))
     (thn (if ReturnData res \<noteq> []
           then let toCopy = (if outSize > ulen (ReturnData res) then ulen (ReturnData res) else outSize)
                in memSet L outOffset (take (unat toCopy) (ReturnData res))
           else ret ())
     (thn (if Status res = StatusSuccess then pushBig 1 else pushW 0) incPc))))"

text \<open>The last part of \<open>opCallCommon\<close>, once the charges are known: pay for the call and the child's
  gas, grow the memory, tell the hooks, execute the message.\<close>

definition callSend :: "Lib \<Rightarrow> 'h caller \<Rightarrow> CallKind \<Rightarrow> SimpleContract \<Rightarrow> int \<Rightarrow> Address \<Rightarrow> int \<Rightarrow> bytes \<Rightarrow>
    u64 \<Rightarrow> u64 \<Rightarrow> u64 \<Rightarrow> u64 \<Rightarrow> u64 \<Rightarrow> ('h, unit) M" where
  "callSend L call kind c depth addr v input memSize extraGas chargedChildGas outOffset outSize =
     (let caller = AddressVal c;
          callee = (if kind = CallKindCallCode \<or> kind = CallKindDelegateCall then caller else addr);
          childGas = (if (kind = CallKindCall \<or> kind = CallKindCallCode) \<and> v > 0
                      then chargedChildGas + GasCallStipend else chargedChildGas);
          msg = \<lparr>msgCaller = caller, msgCallee = callee, msgValue = Some v, msgGas = childGas,
                msgInput = input, msgCode = [], msgCodeAddr = addr,
                msgIsStatic = (kind = CallKindStaticCall \<or> IsStaticVal c),
                msgCallDepth = depth + 1, msgKind = kind, msgIsCreate = False, msgSalt = 0\<rparr> in
      thn (consume (extraGas + chargedChildGas))
      (thn (memResize L memSize)
      (thn (dispatchCallHook (snd (callHook kind)) (fst (callHook kind))
            \<lparr>ciKind = fst (callHook kind), ciCaller = caller, ciCallee = callee, ciInput = input,
             ciValue = v, ciGas = childGas, ciCodeAddr = addr\<rparr>)
      (seq (call msg) (\<lambda>(res, err). finishCall L outOffset outSize res)))))"

definition opCallCommon :: "Lib \<Rightarrow> 'h caller \<Rightarrow> CallKind \<Rightarrow> ('h, unit) M" where
  "opCallCommon L call kind =
     seq popU64 (\<lambda>g. seq popAddress (\<lambda>addr.
     seq (if kind = CallKindCall \<or> kind = CallKindCallCode then popBig else ret 0) (\<lambda>v.
     seq popU64 (\<lambda>inOffset. seq popU64 (\<lambda>inSize. seq popU64 (\<lambda>outOffset. seq popU64 (\<lambda>outSize.
     seq getContract (\<lambda>c.
     if IsStaticVal c \<and> v > 0 then throw ErrWriteProtection
     else
       seq (memGet L inOffset inSize) (\<lambda>input.
       seq (getState (\<lambda>s. IsAddressWarmed addr (accessList s))) (\<lambda>warm.
       thn (if warm then ret () else modAccessList (WarmAddress addr))
       (seq (getState id) (\<lambda>s.
       let (memGasIn, memSizeIn) = ExpandSize inOffset inSize (memory s);
           (memGasOut, memSizeOut) = ExpandSize outOffset outSize (memory s);
           (memGas, memSize) = (if memSizeIn > memSizeOut then (memGasIn, memSizeIn) else (memGasOut, memSizeOut));
           extraGas = callExtraGas kind warm v (IsEmpty addr (account s)) memGas;
           availableGas = gas (gasMeter s) in
       if availableGas < extraGas then throw ErrOutOfGas
       else callSend L call kind c (callDepth s) addr v input memSize extraGas
              (callGas (availableGas - extraGas) g) outOffset outSize))))))))))))"

definition opCall :: "Lib \<Rightarrow> 'h caller \<Rightarrow> bool \<Rightarrow> bool \<Rightarrow> ('h, unit) M" where
  "opCall L call static callcode =
     opCallCommon L call
       (if static then CallKindStaticCall else if callcode then CallKindCallCode else CallKindCall)"

definition opCallcode :: "Lib \<Rightarrow> 'h caller \<Rightarrow> ('h, unit) M" where
  "opCallcode L call = opCall L call False True"

definition opDelegatecall :: "Lib \<Rightarrow> 'h caller \<Rightarrow> ('h, unit) M" where
  "opDelegatecall L call = opCallCommon L call CallKindDelegateCall"

subsection \<open>Creation\<close>

definition createAddress :: "Lib \<Rightarrow> Address \<Rightarrow> u64 \<Rightarrow> Address" where
  "createAddress L caller nonce = gethCreateAddress L caller nonce"

definition create2Address :: "Lib \<Rightarrow> Address \<Rightarrow> Hash \<Rightarrow> bytes \<Rightarrow> Address" where
  "create2Address L caller salt initCode = gethCreateAddress2 L caller salt (keccak256 L initCode)"

abbreviation MAX_CODE_SIZE :: nat where "MAX_CODE_SIZE \<equiv> 24576"
abbreviation MAX_INIT_CODE_SIZE :: u64 where "MAX_INIT_CODE_SIZE \<equiv> 49152"

definition finishCreate :: "Lib \<Rightarrow> Fork \<Rightarrow> Address \<Rightarrow> ExecutionResult \<Rightarrow> ('h, unit) M" where
  "finishCreate L f addr res =
     thn (modGas (ReturnGas (GasRemaining res)))
     (thn (if Status res = StatusSuccess then modGas (RefundGas (GasRefund res)) else ret ())
     (if Status res = StatusSuccess then
        let code = ReturnData res;
            reject = thn (modAccount (SetCode (keccak256 L) addr [])) (thn (pushW 0) incPc) in
        thn (modAccount (SetCode (keccak256 L) addr code))
        (if code \<noteq> [] \<and> hd code = 0xEF \<and> forkGTE f ForkLondon then reject
         else if length code > MAX_CODE_SIZE then reject
         else
           let depositGas = ulen code * GasCodeDeposit in
           seq (getState (\<lambda>s. gas (gasMeter s))) (\<lambda>g.
           if g < depositGas then reject
           else
             thn (modGas (\<lambda>gm. fst (ConsumeGas depositGas gm)))
             (thn (pushW (wordFromAddress addr)) incPc)))
      else thn (pushW 0) incPc))"

text \<open>Charges of \<open>opCreate\<close> beside the base cost the loop has taken.\<close>

definition createGas :: "Fork \<Rightarrow> bool \<Rightarrow> u64 \<Rightarrow> u64 \<Rightarrow> u64" where
  "createGas f create2 memGas n =
     (let g = (if create2 then memGas + (n + 31) div 32 * 6 else memGas)
      in if forkGTE f ForkShanghai then g + (n + 31) div 32 * GasInitCodeWord else g)"

text \<open>The last part of \<open>opCreate\<close>: all but a 64th of the remaining gas goes to the new frame.\<close>

definition createSend :: "Lib \<Rightarrow> 'h caller \<Rightarrow> Fork \<Rightarrow> Address \<Rightarrow> Address \<Rightarrow> int \<Rightarrow> bytes \<Rightarrow> ('h, unit) M" where
  "createSend L call f caller addr v initCode =
     seq (getState (\<lambda>s. gas (gasMeter s))) (\<lambda>availableGas.
     let childGas = maxMessageCallGas availableGas in
     thn (consume childGas)
     (seq (getState callDepth) (\<lambda>d.
     let msg = \<lparr>msgCaller = caller, msgCallee = addr, msgValue = Some v, msgGas = childGas,
            msgInput = initCode, msgCode = initCode, msgCodeAddr = addr, msgIsStatic = False,
            msgCallDepth = d + 1, msgKind = CallKindCall, msgIsCreate = True, msgSalt = 0\<rparr> in
     seq (call msg) (\<lambda>(res, err). finishCreate L f addr res))))"

definition opCreate :: "Lib \<Rightarrow> 'h caller \<Rightarrow> bool \<Rightarrow> ('h, unit) M" where
  "opCreate L call create2 =
     seq popBig (\<lambda>v. seq popU64 (\<lambda>offset. seq popU64 (\<lambda>n.
     seq (if create2 then seq popW (\<lambda>w. ret (WordToHash w)) else ret 0) (\<lambda>salt.
     seq getContract (\<lambda>c.
     if IsStaticVal c then throw ErrWriteProtection
     else
       let caller = AddressVal c in
       seq (getState account) (\<lambda>acc.
       if v > 0 \<and> Balance caller acc < v then thn (pushW 0) incPc
       else
         seq (memGet L offset n) (\<lambda>initCode.
         seq (getState (\<lambda>s. fst (ExpandSize offset n (memory s)))) (\<lambda>memGas.
         seq (gets fork) (\<lambda>f.
         if forkGTE f ForkShanghai \<and> n > MAX_INIT_CODE_SIZE then thn (pushW 0) incPc
         else
           thn (consume (createGas f create2 memGas n))
           (let addr = (if create2 then create2Address L caller salt initCode
                        else createAddress L caller (Nonce caller acc)) in
           thn (modAccount (IncrementNonce caller))
           (seq (getState (\<lambda>s. HasCodeOrNonce addr (account s))) (\<lambda>collision.
           if collision then thn (pushW 0) incPc
           else
             createSend L call f caller addr v initCode))))))))))))"

subsection \<open>Leaving a frame\<close>

definition leaveWith :: "Lib \<Rightarrow> evm_error \<Rightarrow> ('h, unit) M" where
  "leaveWith L err =
     seq popU64 (\<lambda>offset. seq popU64 (\<lambda>n.
     seq (memGet L offset n) (\<lambda>dat.
     thn (modify (\<lambda>e. e\<lparr>outputData := dat, returnData := dat\<rparr>)) (throw err))))"

definition opReturn :: "Lib \<Rightarrow> ('h, unit) M" where
  "opReturn L = leaveWith L ErrHalt"

definition opRevert :: "Lib \<Rightarrow> ('h, unit) M" where
  "opRevert L = leaveWith L ErrExecutionReverted"

definition opInvalid :: "('h, unit) M" where
  "opInvalid = throw ErrInvalidOpcode"

text \<open>The two balance writes and the mark of SELFDESTRUCT.\<close>

definition selfdestructAccount :: "Address \<Rightarrow> Address \<Rightarrow> InMemoryAccountState \<Rightarrow> InMemoryAccountState" where
  "selfdestructAccount addr originator acc =
     (let balance = Balance originator acc;
          acc = (if addr \<noteq> originator \<and> balance > 0
                 then SetBalance originator 0 (AddBalance addr balance acc) else acc)
      in SelfDestruct originator acc)"

definition opSelfdestruct :: "('h, unit) M" where
  "opSelfdestruct =
     seq popAddress (\<lambda>addr. seq getContract (\<lambda>c.
     if IsStaticVal c then throw ErrWriteProtection
     else
       seq (getState (\<lambda>s. IsAddressWarmed addr (accessList s))) (\<lambda>warm.
       thn (if warm then ret () else modAccessList (WarmAddress addr))
       (let originator = AddressVal c in
       seq (getState account) (\<lambda>acc.
       let cost = GasSelfDestruct + (if warm then 0 else GasColdAccountAccess)
                  + (if addr \<noteq> originator \<and> \<not> Exists addr acc \<and> Balance originator acc > 0
                     then GasNewAccount else 0) in
       thn (consume cost)
       (thn (modAccount (selfdestructAccount addr originator)) incPc))))))"

end
