(* ===== verification/Interpreter.thy ===== *)
theory Interpreter
  imports OpsSystem
begin

text \<open>
  The interpreter loop of \<open>internal/engine/interpreter.go\<close>: jump-destination analysis, dynamic gas,
  the opcode hooks, the dispatch table and \<open>Run\<close> with its recovery of panics. \<open>Run\<close> and
  \<open>ExecuteMessage\<close> call each other; the model cuts the recursion with fuel, one unit for each
  iteration of a loop, and returns \<open>None\<close> when it is used up. \<open>Termination\<close> shows how much is enough.
\<close>

subsection \<open>Jump destinations\<close>

function jumpdestLoop :: "bytes \<Rightarrow> nat \<Rightarrow> bool list \<Rightarrow> bool list" where
  "jumpdestLoop code i dests =
     (if i < length code then
        let opc = code ! i in
        if opc = 0x5B then jumpdestLoop code (i + 1) (dests[i := True])
        else if opc \<ge> 0x60 \<and> opc \<le> 0x7F then jumpdestLoop code (i + unat (opc - 0x60) + 2) dests
        else jumpdestLoop code (i + 1) dests
      else dests)"
  by pat_completeness auto
termination
  by (relation "measure (\<lambda>(code, i, dests). length code - i)") auto

declare jumpdestLoop.simps [simp del]

definition analyzeJumpdests :: "bytes \<Rightarrow> bool list" where
  "analyzeJumpdests code = (if code = [] then [] else jumpdestLoop code 0 (replicate (length code) False))"

subsection \<open>Dynamic gas\<close>

definition accessCostAddress :: "Address \<Rightarrow> ('h, u64) M" where
  "accessCostAddress addr =
     seq (gets fork) (\<lambda>f.
     if \<not> forkGTE f ForkLondon then ret 0
     else
       seq (getState (\<lambda>s. IsAddressWarmed addr (accessList s))) (\<lambda>warm.
       if warm then ret GasWarmAccess
       else thn (modAccessList (WarmAddress addr)) (ret GasColdAccountAccess)))"

definition accessCostStorage :: "Address \<Rightarrow> Hash \<Rightarrow> ('h, u64) M" where
  "accessCostStorage addr slot =
     seq (gets fork) (\<lambda>f.
     if \<not> forkGTE f ForkLondon then ret 0
     else
       seq (getState (\<lambda>s. IsSlotWarmed addr slot (accessList s))) (\<lambda>warm.
       if warm then ret GasWarmAccess
       else thn (modAccessList (WarmSlot addr slot)) (ret GasColdSload)))"

text \<open>\<open>big.Int.BitLen\<close>.\<close>

fun bitLenLoop :: "int \<Rightarrow> nat \<Rightarrow> nat" where
  "bitLenLoop x 0 = 0"
| "bitLenLoop x (Suc n) = (if bit x n then Suc n else bitLenLoop x n)"

text \<open>The memory part plus \<open>per\<close> gas for each word of \<open>n\<close> bytes, all ones on overflow.\<close>

definition copyGasTotal :: "u64 \<Rightarrow> u64 \<Rightarrow> u64 \<Rightarrow> u64" where
  "copyGasTotal memGas n per =
     (case safeMulUint64 (wordCount n) per of
        (copyGas, True) \<Rightarrow> (case safeAddUint64 [memGas, copyGas] of (t, True) \<Rightarrow> t | _ \<Rightarrow> maxU64)
      | _ \<Rightarrow> maxU64)"

definition needStack :: "nat \<Rightarrow> ('h, u64) M \<Rightarrow> ('h, u64) M" where
  "needStack k m = seq (getState (\<lambda>s. length (stack s))) (\<lambda>n. if n < k then ret 0 else m)"

definition expandGas :: "u64 \<Rightarrow> u64 \<Rightarrow> ('h, u64) M" where
  "expandGas offset n = getState (\<lambda>s. fst (ExpandSize offset n (memory s)))"

definition peekU64 :: "int \<Rightarrow> ('h, u64) M" where
  "peekU64 n = seq (peekN n) (\<lambda>w. ret (wordToUint64 w))"

definition calcDynamicGas :: "byte \<Rightarrow> ('h, u64) M" where
  "calcDynamicGas opc =
     (if opc = 0x0A then
        needStack 2 (seq (peekN 1) (\<lambda>ex.
          ret (of_nat ((bitLenLoop (ToBig ex) 256 + 7) div 8) * GasExpByte)))
      else if opc = 0x20 then
        needStack 2 (seq (peekU64 0) (\<lambda>offset. seq (peekU64 1) (\<lambda>n.
          seq (expandGas offset n) (\<lambda>memGas. ret (copyGasTotal memGas n GasKeccak256Word)))))
      else if opc \<in> {0x31, 0x3B, 0x3F} then
        needStack 1 (seq (peekN 0) (\<lambda>w. accessCostAddress (addressFromWord w)))
      else if opc = 0x3C then
        needStack 4 (seq (peekN 0) (\<lambda>w. seq (peekU64 1) (\<lambda>dstOffset. seq (peekU64 3) (\<lambda>n.
          seq (expandGas dstOffset n) (\<lambda>memGas.
          case safeMulUint64 (wordCount n) GasCopy of
            (copyGas, True) \<Rightarrow>
              seq (accessCostAddress (addressFromWord w)) (\<lambda>access.
              case safeAddUint64 [memGas, copyGas, access] of (t, True) \<Rightarrow> ret t | _ \<Rightarrow> ret maxU64)
          | _ \<Rightarrow> ret maxU64)))))
      else if opc \<in> {0x37, 0x39, 0x3E, 0x5E} then
        needStack 3 (seq (peekU64 0) (\<lambda>dstOffset. seq (peekU64 2) (\<lambda>n.
          seq (expandGas dstOffset n) (\<lambda>memGas. ret (copyGasTotal memGas n GasCopy)))))
      else if opc = 0x51 then
        needStack 1 (seq (peekU64 0) (\<lambda>offset. expandGas offset 32))
      else if opc = 0x52 then
        needStack 2 (seq (peekU64 0) (\<lambda>offset. expandGas offset 32))
      else if opc = 0x54 then
        needStack 1 (seq (peekN 0) (\<lambda>w. seq getContract (\<lambda>c.
          accessCostStorage (AddressVal c) (WordToHash w))))
      else if opc = 0x53 then
        needStack 2 (seq (peekU64 0) (\<lambda>offset. expandGas offset 1))
      else if opc \<in> {0xA0, 0xA1, 0xA2, 0xA3, 0xA4} then
        needStack 2 (seq (peekU64 0) (\<lambda>offset. seq (peekU64 1) (\<lambda>n.
          seq (expandGas offset n) (\<lambda>memGas.
          case (safeMulUint64 n GasLogData, safeMulUint64 (ucast (opc - 0xA0)) GasLogTopic) of
            ((dataGas, True), (topicGas, True)) \<Rightarrow>
              (case safeAddUint64 [memGas, dataGas, topicGas] of (t, True) \<Rightarrow> ret t | _ \<Rightarrow> ret maxU64)
          | _ \<Rightarrow> ret maxU64))))
      else if opc \<in> {0xF3, 0xFD} then
        needStack 2 (seq (peekU64 0) (\<lambda>offset. seq (peekU64 1) (\<lambda>n. expandGas offset n)))
      else ret 0)"

subsection \<open>Opcode hooks\<close>

fun pushAll :: "Word list \<Rightarrow> ('h, unit) M" where
  "pushAll [] = ret ()"
| "pushAll (w # ws) = thn (pushW w) (pushAll ws)"

text \<open>\<open>True\<close> when the instruction is to be skipped.\<close>

definition opcodeReact :: "HookResult \<Rightarrow> ('h, bool) M" where
  "opcodeReact r =
     (case Action r of
        ActionReplaceResult \<Rightarrow>
          thn (case ResData r of RdWords ws \<Rightarrow> pushAll ws | _ \<Rightarrow> ret ()) (thn incPc (ret True))
      | ActionHalt \<Rightarrow> haltWith (HookErr r) False
      | ActionRevert \<Rightarrow> throw ErrExecutionReverted
      | ActionContinue \<Rightarrow> ret False)"

definition dispatchHooks :: "byte \<Rightarrow> u64 \<Rightarrow> u64 \<Rightarrow> ('h, bool) M" where
  "dispatchHooks opc gasRemaining gasCost =
     seq (hooksForM HookTypeOpcode) (\<lambda>opcodeHooks. seq (hooksForM HookTypeStep) (\<lambda>stepHooks.
     seq (gets pc) (\<lambda>p.
     fireAll \<lparr>ctxOpcode = Some \<lparr>oiPC = p, oiOp = opc, oiGasRemaining = gasRemaining, oiGasCost = gasCost\<rparr>,
              ctxCall = None, ctxStorage = None, ctxMemory = None\<rparr>
       opcodeReact False (opcodeHooks @ stepHooks))))"

subsection \<open>Dispatch\<close>

definition execute :: "Lib \<Rightarrow> 'h caller \<Rightarrow> byte \<Rightarrow> bytes \<Rightarrow> ('h, unit) M" where
  "execute L call opc code =
     (if opc = 0x00 then opStop
      else if opc = 0x01 then opAdd
      else if opc = 0x02 then opMul
      else if opc = 0x03 then opSub
      else if opc = 0x04 then opDiv
      else if opc = 0x05 then opSdiv
      else if opc = 0x06 then opMod
      else if opc = 0x07 then opSmod
      else if opc = 0x08 then opAddmod
      else if opc = 0x09 then opMulmod
      else if opc = 0x0A then opExp
      else if opc = 0x0B then opSignextend
      else if opc = 0x10 then opLt
      else if opc = 0x11 then opGt
      else if opc = 0x12 then opSlt
      else if opc = 0x13 then opSgt
      else if opc = 0x14 then opEq
      else if opc = 0x15 then opIszero
      else if opc = 0x16 then opAnd
      else if opc = 0x17 then opOr
      else if opc = 0x18 then opXor
      else if opc = 0x19 then opNot
      else if opc = 0x1A then opByte
      else if opc = 0x1B then opShl
      else if opc = 0x1C then opShr
      else if opc = 0x1D then opSar
      else if opc = 0x1E then opClz
      else if opc = 0x20 then opKeccak256 L
      else if opc = 0x30 then opAddress
      else if opc = 0x31 then opBalance
      else if opc = 0x32 then opOrigin
      else if opc = 0x33 then opCaller
      else if opc = 0x34 then opCallvalue
      else if opc = 0x35 then opCalldataload
      else if opc = 0x36 then opCalldatasize
      else if opc = 0x37 then opCalldatacopy L
      else if opc = 0x38 then opCodesize
      else if opc = 0x39 then opCodecopy L
      else if opc = 0x3A then opGasprice
      else if opc = 0x3B then opExtcodesize
      else if opc = 0x3C then opExtcodecopy L
      else if opc = 0x3D then opReturndatasize
      else if opc = 0x3E then opReturndatacopy L
      else if opc = 0x3F then opExtcodehash
      else if opc = 0x40 then opBlockhash
      else if opc = 0x41 then opCoinbase
      else if opc = 0x42 then opTimestamp
      else if opc = 0x43 then opNumber
      else if opc = 0x44 then opPrevrandao
      else if opc = 0x45 then opGaslimit
      else if opc = 0x46 then opChainid
      else if opc = 0x47 then opSelfbalance
      else if opc = 0x48 then opBasefee
      else if opc = 0x49 then opBlobhash
      else if opc = 0x4A then opBlobbasefee
      else if opc = 0x50 then opPop
      else if opc = 0x5F then opPush0
      else if opc = 0x51 then opMload L
      else if opc = 0x52 then opMstore L
      else if opc = 0x53 then opMstore8 L
      else if opc = 0x59 then opMsize
      else if opc = 0x5E then opMcopy L
      else if opc = 0x54 then opSload
      else if opc = 0x55 then opSstore
      else if opc = 0x5C then opTload
      else if opc = 0x5D then opTstore
      else if opc = 0x56 then opJump
      else if opc = 0x57 then opJumpi
      else if opc = 0x58 then opPc
      else if opc = 0x5A then opGas
      else if opc = 0x5B then opJumpdest
      else if opc \<in> {0xA0, 0xA1, 0xA2, 0xA3, 0xA4} then opLog L (unat (opc - 0xA0))
      else if opc = 0xF0 then opCreate L call False
      else if opc = 0xF1 then opCall L call False False
      else if opc = 0xF2 then opCallcode L call
      else if opc = 0xF3 then opReturn L
      else if opc = 0xF4 then opDelegatecall L call
      else if opc = 0xF5 then opCreate L call True
      else if opc = 0xFA then opCall L call True False
      else if opc = 0xFD then opRevert L
      else if opc = 0xFE then opInvalid
      else if opc = 0xFF then opSelfdestruct
      else if opc \<ge> 0x60 \<and> opc \<le> 0x7F then opPush code (unat (opc - 0x60) + 1)
      else if opc \<ge> 0x80 \<and> opc \<le> 0x8F then opDup (int (unat (opc - 0x80)) + 1)
      else if opc \<ge> 0x90 \<and> opc \<le> 0x9F then opSwap (int (unat (opc - 0x90)) + 1)
      else throw ErrInvalidOpcode)"

subsection \<open>The loop\<close>

text \<open>An error value becomes a result; a panic goes on unwinding.\<close>

definition attempt :: "('h, 'a) M \<Rightarrow> ('h, evm_error + 'a) M" where
  "attempt m e =
     (case m e of
        None \<Rightarrow> None
      | Some (Ok x, e') \<Rightarrow> Some (Ok (Inr x), e')
      | Some (Fail err, e') \<Rightarrow> Some (Ok (Inl err), e')
      | Some (Panic p, e') \<Rightarrow> Some (Panic p, e'))"

text \<open>The results \<open>Run\<close> builds: at the end of the code, after an error of a hook, after an error of a
  handler.\<close>

definition endResult :: "'h EVM \<Rightarrow> ExecutionResult" where
  "endResult e = NewExecutionResultBuilder
     \<lparr>Status := StatusSuccess, GasRemaining := gas (gasMeter (state e)),
      GasRefund := refund (gasMeter (state e)), ReturnData := outputData e, Logs := logs (state e)\<rparr>"

definition errResult :: "ExecutionStatus \<Rightarrow> evm_error \<Rightarrow> ExecutionResult" where
  "errResult st err = NewExecutionResultBuilder\<lparr>Status := st, ResErr := Some err\<rparr>"

definition hookErrResult :: "evm_error \<Rightarrow> 'h EVM \<Rightarrow> ExecutionResult" where
  "hookErrResult err e =
     (let r = (errResult (classifyError err) err)\<lparr>ReturnData := outputData e\<rparr>
      in if classifyError err = StatusRevert then r\<lparr>GasRemaining := gas (gasMeter (state e))\<rparr> else r)"

definition handlerResult :: "evm_error \<Rightarrow> 'h EVM \<Rightarrow> runResult" where
  "handlerResult err e =
     (let r = (errResult (classifyError err) err)\<lparr>ReturnData := outputData e\<rparr>;
          full = r\<lparr>GasRemaining := gas (gasMeter (state e)), GasRefund := refund (gasMeter (state e)),
                   Logs := logs (state e)\<rparr>
      in if classifyError err = StatusRevert then (full, Some err)
         else if classifyError err = StatusSuccess then (full, None)
         else (r, Some err))"

text \<open>One iteration of the loop, from its last step to its first; \<open>None\<close> goes on with the next one.\<close>

definition handlerStep :: "Lib \<Rightarrow> 'h caller \<Rightarrow> bytes \<Rightarrow> byte \<Rightarrow> ('h, runResult option) M" where
  "handlerStep L call code opc =
     seq (attempt (execute L call opc code)) (\<lambda>r.
     case r of
       Inl err \<Rightarrow> seq (gets (handlerResult err)) (\<lambda>res. ret (Some res))
     | Inr _ \<Rightarrow> ret None)"

definition hookStep :: "Lib \<Rightarrow> 'h caller \<Rightarrow> bytes \<Rightarrow> byte \<Rightarrow> u64 \<Rightarrow> u64 \<Rightarrow> ('h, runResult option) M" where
  "hookStep L call code opc gasBefore totalGas =
     seq (attempt (dispatchHooks opc gasBefore totalGas)) (\<lambda>r.
     case r of
       Inl err \<Rightarrow> seq (gets (hookErrResult err)) (\<lambda>res. ret (Some (res, Some err)))
     | Inr skip \<Rightarrow> if skip then ret None else handlerStep L call code opc)"

definition chargeStep :: "Lib \<Rightarrow> 'h caller \<Rightarrow> bytes \<Rightarrow> byte \<Rightarrow> u64 \<Rightarrow> u64 \<Rightarrow> ('h, runResult option) M" where
  "chargeStep L call code opc gasBefore totalGas =
     seq (attempt (consume totalGas)) (\<lambda>r.
     case r of
       Inl err \<Rightarrow> ret (Some (errResult StatusOutOfGas err, Some err))
     | Inr _ \<Rightarrow> hookStep L call code opc gasBefore totalGas)"

definition loopIter :: "Lib \<Rightarrow> 'h caller \<Rightarrow> bytes \<Rightarrow> ('h, runResult option) M" where
  "loopIter L call code =
     seq (gets id) (\<lambda>e.
     if pc e \<ge> ulen code then ret (Some (endResult e, None))
     else
       let opc = code ! unat (pc e) in
       if \<not> forkGTE (fork e) (MinForkForOpcode opc)
       then ret (Some (errResult StatusInvalidOpcode ErrInvalidOpcode, Some ErrInvalidOpcode))
       else
         let gasBefore = gas (gasMeter (state e)); gasCost = GasCosts opc in
         seq (calcDynamicGas opc) (\<lambda>dynamicGas.
         if dynamicGas > maxU64 - gasCost
         then ret (Some (errResult StatusOutOfGas ErrOutOfGas, Some ErrOutOfGas))
         else chargeStep L call code opc gasBefore (gasCost + dynamicGas)))"

lemmas loopIter_defs = loopIter_def chargeStep_def hookStep_def handlerStep_def

subsection \<open>\<open>Run\<close>\<close>

definition panicStatus :: "go_panic \<Rightarrow> ExecutionStatus" where
  "panicStatus p =
     (if p = PanicErr ErrStackUnderflow then StatusStackUnderflow
      else if p = PanicErr ErrStackOverflow then StatusStackOverflow
      else StatusHalt)"

definition recovered :: "go_panic \<Rightarrow> 'h EVM \<Rightarrow> runResult" where
  "recovered p e =
     ((errResult (panicStatus p) (ErrRecovered p))\<lparr>ReturnData := outputData e\<rparr>, Some (ErrRecovered p))"

text \<open>\<open>Run\<close> around its loop. No loop ends in \<open>Fail\<close> (\<open>loop_never_fails\<close>).\<close>

definition runWith :: "(bytes \<Rightarrow> ('h, runResult) M) \<Rightarrow> 'h runner" where
  "runWith loop e code =
     (case loop code (e\<lparr>jumpdests := analyzeJumpdests code\<rparr>) of
        None \<Rightarrow> None
      | Some (Ok r, e') \<Rightarrow> Some (r, e')
      | Some (Panic p, e') \<Rightarrow> Some (recovered p e', e')
      | Some (Fail err, e') \<Rightarrow> Some ((errResult StatusHalt err, Some err), e'))"

primrec runLoop :: "nat \<Rightarrow> Lib \<Rightarrow> bytes \<Rightarrow> ('h, runResult) M" where
  "runLoop 0 = (\<lambda>L code e. None)"
| "runLoop (Suc n) = (\<lambda>L code.
     seq (loopIter L (ExecuteMessage L (runWith (runLoop n L))) code) (\<lambda>r.
       case r of Some res \<Rightarrow> ret res | None \<Rightarrow> runLoop n L code))"

definition Run :: "Lib \<Rightarrow> nat \<Rightarrow> 'h runner" where
  "Run L n = runWith (runLoop n L)"

end
