(* ===== verification/Precompiles.thy ===== *)
theory Precompiles
  imports Interpreter
begin

text \<open>
  \<open>internal/engine/precompile.go\<close>: the registry, the precompiles the package implements itself
  (identity, the modular exponentiation used when go-ethereum offers none, the BLAKE2b compression
  function), their gas, and the padding and length helpers. What the file takes from libraries
  (go-ethereum's contracts, SHA-256, RIPEMD-160, the curves, KZG) is a field of \<open>Crypto\<close>.
\<close>

subsection \<open>The registry\<close>

definition NewPrecompileRegistry :: PrecompileRegistry where
  "NewPrecompileRegistry = Map.empty"

definition PreRegister :: "Address \<Rightarrow> Precompile option \<Rightarrow> PrecompileRegistry \<Rightarrow> PrecompileRegistry" where
  "PreRegister addr p r = (case p of None \<Rightarrow> r | Some q \<Rightarrow> r(addr \<mapsto> q))"

definition PreUnregister :: "Address \<Rightarrow> PrecompileRegistry \<Rightarrow> PrecompileRegistry" where
  "PreUnregister addr r = r(addr := None)"

definition PreResolve :: "Address \<Rightarrow> PrecompileRegistry \<Rightarrow> Precompile option" where
  "PreResolve addr r = r addr"

text \<open>\<open>Addresses\<close> lists the keys in the order of a map iteration, which Go leaves open; the model
  lists them in increasing order (\<open>warm_order\<close> in \<open>EngineRun\<close> shows that the caller does not care).\<close>

definition PreAddresses :: "PrecompileRegistry \<Rightarrow> Address list" where
  "PreAddresses r = sorted_list_of_set (dom r)"

subsection \<open>Library functions\<close>

text \<open>\<open>None\<close> stands for an error of the library, which the code maps to its own result.\<close>

datatype gethSet = GethIstanbul | GethBerlin | GethCancun | GethPrague

record ('g1, 'g2, 'gt) Crypto =
  gethGas :: "gethSet \<Rightarrow> Address \<Rightarrow> (bytes \<Rightarrow> u64) option"
  gethRun :: "gethSet \<Rightarrow> Address \<Rightarrow> bytes \<Rightarrow> bytes outcome"
  sha256Sum :: "bytes \<Rightarrow> bytes"
  ripemd160Sum :: "bytes \<Rightarrow> bytes"
  recoverCompact :: "bytes \<Rightarrow> bytes \<Rightarrow> bytes option"
  g1Unmarshal :: "bytes \<Rightarrow> 'g1 option"
  g1Marshal :: "'g1 \<Rightarrow> bytes"
  g1Add :: "'g1 \<Rightarrow> 'g1 \<Rightarrow> 'g1"
  g1ScalarMult :: "'g1 \<Rightarrow> int \<Rightarrow> 'g1"
  g2Unmarshal :: "bytes \<Rightarrow> 'g2 option"
  bnPair :: "'g1 \<Rightarrow> 'g2 \<Rightarrow> 'gt"
  gtAdd :: "'gt \<Rightarrow> 'gt \<Rightarrow> 'gt"
  gtMarshal :: "'gt \<Rightarrow> bytes"
  kzgContextErr :: "evm_error option"
  kzgVerifyProof :: "bytes \<Rightarrow> bytes \<Rightarrow> bytes \<Rightarrow> bytes \<Rightarrow> bool"
  blsModulus :: bytes
  p256OnCurve :: "int \<Rightarrow> int \<Rightarrow> bool"
  p256Verify :: "int \<Rightarrow> int \<Rightarrow> bytes \<Rightarrow> int \<Rightarrow> int \<Rightarrow> bool"

subsection \<open>Padding and lengths\<close>

definition rightPadBytes :: "bytes \<Rightarrow> nat \<Rightarrow> bytes" where
  "rightPadBytes input sz =
     (if length input \<ge> sz then take sz input else gocopy (replicate sz 0) input)"

definition leftPadBytes :: "bytes \<Rightarrow> nat \<Rightarrow> bytes" where
  "leftPadBytes input sz =
     (if length input \<ge> sz then drop (length input - sz) input
      else replicate (sz - length input) 0 @ input)"

definition maxUint64 :: "u64 \<Rightarrow> u64 \<Rightarrow> u64" where
  "maxUint64 a b = (if a > b then a else b)"

definition minUint64 :: "u64 \<Rightarrow> u64 \<Rightarrow> u64" where
  "minUint64 a b = (if a < b then a else b)"

definition wordCountBy :: "u64 \<Rightarrow> u64 \<Rightarrow> u64" where
  "wordCountBy sz divisor = (if sz = 0 then 0 else (sz + divisor - 1) div divisor)"

text \<open>\<open>!length.IsUint64()\<close> caps the length at the largest \<open>uint64\<close>.\<close>

definition readLengthWord :: "bytes \<Rightarrow> nat \<Rightarrow> u64" where
  "readLengthWord input offset =
     (if length input < offset + 32 then 0
      else let v = be_int (take 32 (drop offset input))
           in if v < 2 ^ 64 then word_of_int v else maxU64)"

definition readInputSegment :: "nat \<Rightarrow> bytes \<Rightarrow> u64 \<Rightarrow> u64 \<Rightarrow> bytes outcome" where
  "readInputSegment lim input offset sz =
     (if sz = 0 then Ok []
      else if offset \<ge> ulen input then make_bytes lim sz
      else let end = offset + sz in
        if end \<le> ulen input
        then obind (make_bytes lim sz) (\<lambda>segment. obind (goslice input offset end) (\<lambda>src. Ok (gocopy segment src)))
        else obind (make_bytes lim sz) (\<lambda>segment. obind (gofrom input offset) (\<lambda>src. Ok (gocopy segment src))))"

function bitsLen8 :: "byte \<Rightarrow> nat" where
  "bitsLen8 v = (if v > 0 then Suc (bitsLen8 (v div 2)) else 0)"
  by pat_completeness auto
termination
  by (relation "measure unat") (auto simp: unat_div unat_gt_0)

declare bitsLen8.simps [simp del]

text \<open>\<open>(len(data)-i-1)*8\<close> at the first byte that is not 0.\<close>

fun bitLen :: "bytes \<Rightarrow> nat" where
  "bitLen [] = 0"
| "bitLen (b # bs) = (if b = 0 then bitLen bs else length bs * 8 + bitsLen8 b)"

definition adjustedExponentLength :: "u64 \<Rightarrow> bytes \<Rightarrow> u64" where
  "adjustedExponentLength expLen head =
     (if expLen = 0 then 0
      else let bits = bitLen head in
        if bits = 0 then (if expLen \<le> 32 then 0 else 8 * (expLen - 32))
        else if expLen \<le> 32 then of_nat (bits - 1)
        else 8 * (expLen - 32) + of_nat (bits - 1))"

subsection \<open>Gas\<close>

definition gasSha256 :: "bytes \<Rightarrow> u64 outcome" where
  "gasSha256 input = Ok (60 + 12 * wordCount (ulen input))"

definition gasRipemd160 :: "bytes \<Rightarrow> u64 outcome" where
  "gasRipemd160 input = Ok (600 + 120 * wordCount (ulen input))"

definition gasIdentity :: "bytes \<Rightarrow> u64 outcome" where
  "gasIdentity input = Ok (15 + 3 * wordCount (ulen input))"

definition gasModExp :: "nat \<Rightarrow> bytes \<Rightarrow> u64 outcome" where
  "gasModExp lim input =
     (let baseLen = readLengthWord input 0;
          expLen = readLengthWord input 32;
          modLen = readLengthWord input 64;
          maxLen = maxUint64 baseLen modLen;
          words = wordCountBy maxLen 8 in
      obind (readInputSegment lim input (96 + baseLen) (minUint64 expLen 32)) (\<lambda>head.
      let adjExpLen = adjustedExponentLength expLen head;
          adjExpLen = (if adjExpLen = 0 then 1 else adjExpLen) in
      if words = 0 then Ok 200
      else case safeMulUint64 words words of
        (_, False) \<Rightarrow> Ok maxU64
      | (product, True) \<Rightarrow>
          (case safeMulUint64 product adjExpLen of
             (_, False) \<Rightarrow> Ok maxU64
           | (product2, True) \<Rightarrow> Ok (let g = product2 div 3 in if g < 200 then 200 else g))))"

definition gasBn256Pairing :: "bytes \<Rightarrow> u64 outcome" where
  "gasBn256Pairing input =
     (if length input mod 192 \<noteq> 0 then Fail ErrInvalidPrecompileInput
      else Ok (45000 + of_nat (length input div 192) * 34000))"

definition gasBlake2F :: "bytes \<Rightarrow> u64 outcome" where
  "gasBlake2F input =
     (if length input \<noteq> 213 then Fail ErrInvalidPrecompileInput
      else Ok (word_of_int (be_int (take 4 input))))"

subsection \<open>Bodies\<close>

definition runIdentity :: "bytes \<Rightarrow> bytes outcome" where
  "runIdentity input = Ok (gocopy (replicate (length input) 0) input)"

definition runSha256 :: "('g1, 'g2, 'gt) Crypto \<Rightarrow> bytes \<Rightarrow> bytes outcome" where
  "runSha256 C input = Ok (sha256Sum C input)"

definition runRipemd160 :: "('g1, 'g2, 'gt) Crypto \<Rightarrow> bytes \<Rightarrow> bytes outcome" where
  "runRipemd160 C input = Ok (replicate 12 0 @ gocopy (replicate 20 0) (ripemd160Sum C input))"

text \<open>A nil output is the empty slice.\<close>

definition runECRecover :: "Lib \<Rightarrow> ('g1, 'g2, 'gt) Crypto \<Rightarrow> bytes \<Rightarrow> bytes outcome" where
  "runECRecover L C input =
     (let dat = rightPadBytes input 128;
          hash = take 32 dat;
          vWord = be_int (take 32 (drop 32 dat));
          r = take 32 (drop 64 dat);
          s = take 32 (drop 96 dat) in
      if \<not> vWord < 2 ^ 64 then Ok []
      else
        let v = (word_of_int vWord :: u64);
            v = (if v = 27 \<or> v = 28 then v - 27 else v) in
        if v > 1 then Ok []
        else
          let compactSig = [ucast (27 + v)] @ r @ s in
          case recoverCompact C compactSig hash of
            None \<Rightarrow> Ok []
          | Some serialized \<Rightarrow>
              obind (gofrom serialized 1) (\<lambda>pub.
              Ok (replicate 12 0 @ drop 12 (word_bytes (keccak256 L pub)))))"

text \<open>\<open>(*big.Int).Bytes\<close>: no leading zero byte.\<close>

function bigBytes :: "int \<Rightarrow> bytes" where
  "bigBytes v = (if v \<le> 0 then [] else bigBytes (v div 256) @ [word_of_int v])"
  by pat_completeness auto
termination
  by (relation "measure nat") auto

declare bigBytes.simps [simp del]

definition runModExp :: "nat \<Rightarrow> bytes \<Rightarrow> bytes outcome" where
  "runModExp lim input =
     (let baseLen = readLengthWord input 0;
          expLen = readLengthWord input 32;
          modLen = readLengthWord input 64 in
      obind (readInputSegment lim input 96 baseLen) (\<lambda>base.
      obind (readInputSegment lim input (96 + baseLen) expLen) (\<lambda>ex.
      obind (readInputSegment lim input (96 + baseLen + expLen) modLen) (\<lambda>modulusBytes.
      if modLen = 0 then Ok []
      else
        let modulus = be_int modulusBytes in
        if modulus = 0 then make_bytes lim modLen
        else Ok (leftPadBytes (bigBytes (bigExp (be_int base) (nat (be_int ex)) modulus)) (unat modLen))))))"

definition runBn256Add :: "('g1, 'g2, 'gt) Crypto \<Rightarrow> bytes \<Rightarrow> bytes outcome" where
  "runBn256Add C input =
     (let dat = rightPadBytes input 128 in
      case g1Unmarshal C (take 64 dat) of
        None \<Rightarrow> Fail ErrInvalidPrecompileInput
      | Some p1 \<Rightarrow>
          (case g1Unmarshal C (take 64 (drop 64 dat)) of
             None \<Rightarrow> Fail ErrInvalidPrecompileInput
           | Some p2 \<Rightarrow> Ok (g1Marshal C (g1Add C p1 p2))))"

definition runBn256ScalarMul :: "('g1, 'g2, 'gt) Crypto \<Rightarrow> bytes \<Rightarrow> bytes outcome" where
  "runBn256ScalarMul C input =
     (let dat = rightPadBytes input 96 in
      case g1Unmarshal C (take 64 dat) of
        None \<Rightarrow> Fail ErrInvalidPrecompileInput
      | Some p \<Rightarrow> Ok (g1Marshal C (g1ScalarMult C p (be_int (take 32 (drop 64 dat))))))"

text \<open>\<open>newGTIdentity\<close> ignores whether the two zero points unmarshal; a nil point is dereferenced.\<close>

definition newGTIdentity :: "('g1, 'g2, 'gt) Crypto \<Rightarrow> 'gt outcome" where
  "newGTIdentity C =
     (case (g1Unmarshal C (replicate 64 0), g2Unmarshal C (replicate 128 0)) of
        (Some a, Some b) \<Rightarrow> Ok (bnPair C a b)
      | _ \<Rightarrow> Panic PanicNil)"

text \<open>The loop over the 192-byte pairs; the length is a multiple of 192 when it is entered.\<close>

function pairingLoop :: "('g1, 'g2, 'gt) Crypto \<Rightarrow> bytes \<Rightarrow> 'gt \<Rightarrow> 'gt outcome" where
  "pairingLoop C input accum =
     (if length input < 192 then Ok accum
      else case g1Unmarshal C (take 64 input) of
        None \<Rightarrow> Fail ErrInvalidPrecompileInput
      | Some g1 \<Rightarrow>
          (case g2Unmarshal C (take 128 (drop 64 input)) of
             None \<Rightarrow> Fail ErrInvalidPrecompileInput
           | Some g2 \<Rightarrow> pairingLoop C (drop 192 input) (gtAdd C accum (bnPair C g1 g2))))"
  by pat_completeness auto
termination
  by (relation "measure (\<lambda>(C, input, accum). length input)") auto

declare pairingLoop.simps [simp del]

definition runBn256Pairing :: "('g1, 'g2, 'gt) Crypto \<Rightarrow> bytes \<Rightarrow> bytes outcome" where
  "runBn256Pairing C input =
     (if length input mod 192 \<noteq> 0 then Fail ErrInvalidPrecompileInput
      else obind (newGTIdentity C) (\<lambda>one.
        obind (pairingLoop C input one) (\<lambda>accum.
        Ok (replicate 31 0 @ [if gtMarshal C accum = gtMarshal C one then 1 else 0]))))"

definition kzgVersionedHash :: "('g1, 'g2, 'gt) Crypto \<Rightarrow> bytes \<Rightarrow> bytes" where
  "kzgVersionedHash C commitment = (sha256Sum C commitment)[0 := 0x01]"

definition verifyPointEvaluation :: "('g1, 'g2, 'gt) Crypto \<Rightarrow> bytes \<Rightarrow> bytes outcome" where
  "verifyPointEvaluation C input =
     (if length input \<noteq> 192 then Fail ErrInvalidPrecompileInput
      else
        let versionedHash = take 32 input;
            z = take 32 (drop 32 input);
            y = take 32 (drop 64 input);
            commitment = take 48 (drop 96 input);
            proof_bytes = take 48 (drop 144 input) in
        if kzgVersionedHash C commitment \<noteq> versionedHash then Fail ErrInvalidPrecompileInput
        else if \<not> kzgVerifyProof C commitment z y proof_bytes then Fail ErrInvalidPrecompileInput
        else Ok (replicate 30 0 @ [0x10, 0x00] @ gocopy (replicate 32 0) (blsModulus C)))"

definition runP256Verify :: "('g1, 'g2, 'gt) Crypto \<Rightarrow> bytes \<Rightarrow> bytes outcome" where
  "runP256Verify C input =
     (if length input \<noteq> 160 then Ok []
      else
        let hash = take 32 input;
            r = be_int (take 32 (drop 32 input));
            s = be_int (take 32 (drop 64 input));
            qx = be_int (take 32 (drop 96 input));
            qy = be_int (take 32 (drop 128 input)) in
        Ok (replicate 31 0 @ [if p256OnCurve C qx qy \<and> p256Verify C qx qy hash r s then 1 else 0]))"

subsection \<open>BLAKE2b\<close>

definition blake2IV :: "u64 list" where
  "blake2IV =
     [0x6A09E667F3BCC908, 0xBB67AE8584CAA73B, 0x3C6EF372FE94F82B, 0xA54FF53A5F1D36F1,
      0x510E527FADE682D1, 0x9B05688C2B3E6C1F, 0x1F83D9ABFB41BD6B, 0x5BE0CD19137E2179]"

definition blake2Sigma :: "nat list list" where
  "blake2Sigma =
     [[0, 1, 2, 3, 4, 5, 6, 7, 8, 9, 10, 11, 12, 13, 14, 15],
      [14, 10, 4, 8, 9, 15, 13, 6, 1, 12, 0, 2, 11, 7, 5, 3],
      [11, 8, 12, 0, 5, 2, 15, 13, 10, 14, 3, 6, 7, 1, 9, 4],
      [7, 9, 3, 1, 13, 12, 11, 14, 2, 6, 5, 10, 4, 0, 15, 8],
      [9, 0, 5, 7, 2, 4, 10, 15, 14, 1, 11, 12, 6, 8, 3, 13],
      [2, 12, 6, 10, 0, 11, 8, 3, 4, 13, 7, 5, 15, 14, 1, 9],
      [12, 5, 1, 15, 14, 13, 4, 10, 0, 7, 6, 3, 9, 2, 8, 11],
      [13, 11, 7, 14, 12, 1, 3, 9, 5, 0, 15, 4, 8, 6, 2, 10],
      [6, 15, 14, 9, 11, 3, 0, 8, 12, 2, 13, 7, 1, 4, 10, 5],
      [10, 2, 8, 4, 7, 6, 1, 5, 15, 11, 9, 14, 3, 12, 13, 0]]"

text \<open>\<open>bits.RotateLeft64\<close> by a negative amount rotates right.\<close>

definition blake2G :: "nat \<Rightarrow> nat \<Rightarrow> nat \<Rightarrow> nat \<Rightarrow> u64 \<Rightarrow> u64 \<Rightarrow> u64 list \<Rightarrow> u64 list" where
  "blake2G a b c d x y v =
     (let v = v[a := v ! a + v ! b + x];
          v = v[d := word_rotr 32 (xor (v ! d) (v ! a))];
          v = v[c := v ! c + v ! d];
          v = v[b := word_rotr 24 (xor (v ! b) (v ! c))];
          v = v[a := v ! a + v ! b + y];
          v = v[d := word_rotr 16 (xor (v ! d) (v ! a))];
          v = v[c := v ! c + v ! d]
      in v[b := word_rotr 63 (xor (v ! b) (v ! c))])"

definition blake2Round :: "u64 list \<Rightarrow> nat \<Rightarrow> u64 list \<Rightarrow> u64 list" where
  "blake2Round m i v =
     (let s = blake2Sigma ! (i mod 10);
          v = blake2G 0 4 8 12 (m ! (s ! 0)) (m ! (s ! 1)) v;
          v = blake2G 1 5 9 13 (m ! (s ! 2)) (m ! (s ! 3)) v;
          v = blake2G 2 6 10 14 (m ! (s ! 4)) (m ! (s ! 5)) v;
          v = blake2G 3 7 11 15 (m ! (s ! 6)) (m ! (s ! 7)) v;
          v = blake2G 0 5 10 15 (m ! (s ! 8)) (m ! (s ! 9)) v;
          v = blake2G 1 6 11 12 (m ! (s ! 10)) (m ! (s ! 11)) v;
          v = blake2G 2 7 8 13 (m ! (s ! 12)) (m ! (s ! 13)) v
      in blake2G 3 4 9 14 (m ! (s ! 14)) (m ! (s ! 15)) v)"

definition blake2Compress :: "u64 list \<Rightarrow> u64 list \<Rightarrow> u64 \<Rightarrow> u64 \<Rightarrow> bool \<Rightarrow> nat \<Rightarrow> u64 list" where
  "blake2Compress h m t0 t1 final rounds =
     (let v = h @ blake2IV;
          v = v[12 := xor (v ! 12) t0];
          v = v[13 := xor (v ! 13) t1];
          v = (if final then v[14 := not (v ! 14)] else v);
          v = fold (blake2Round m) [0..<rounds] v
      in map (\<lambda>i. xor (h ! i) (xor (v ! i) (v ! (i + 8)))) [0..<8])"

text \<open>\<open>binary.LittleEndian.Uint64\<close> and \<open>PutUint64\<close>.\<close>

definition leUint64 :: "bytes \<Rightarrow> u64" where
  "leUint64 bs = word_of_int (be_int (rev (take 8 bs)))"

definition putLeUint64 :: "u64 \<Rightarrow> bytes" where
  "putLeUint64 w = rev (int_bytes 8 (uint w))"

definition runBlake2F :: "bytes \<Rightarrow> bytes outcome" where
  "runBlake2F input =
     (if length input \<noteq> 213 then Fail ErrInvalidPrecompileInput
      else if input ! 212 \<noteq> 0 \<and> input ! 212 \<noteq> 1 then Fail ErrInvalidPrecompileInput
      else
        let rounds = nat (be_int (take 4 input));
            h = map (\<lambda>i. leUint64 (drop (4 + i * 8) input)) [0..<8];
            m = map (\<lambda>i. leUint64 (drop (68 + i * 8) input)) [0..<16];
            t0 = leUint64 (drop 196 input);
            t1 = leUint64 (drop 204 input)
        in Ok (concat (map putLeUint64 (blake2Compress h m t0 t1 (input ! 212 = 1) rounds))))"

subsection \<open>The active set\<close>

definition fixedGasPrecompile :: "u64 \<Rightarrow> (bytes \<Rightarrow> bytes outcome) \<Rightarrow> Precompile" where
  "fixedGasPrecompile g run = \<lparr>preRequiredGas = (\<lambda>_ _. Ok g), preRun = (\<lambda>input _. run input)\<rparr>"

definition dynamicGasPrecompile :: "(bytes \<Rightarrow> u64 outcome) \<Rightarrow> (bytes \<Rightarrow> bytes outcome) \<Rightarrow> Precompile" where
  "dynamicGasPrecompile g run = \<lparr>preRequiredGas = (\<lambda>input _. g input), preRun = (\<lambda>input _. run input)\<rparr>"

definition newPointEvaluationPrecompile :: "('g1, 'g2, 'gt) Crypto \<Rightarrow> Precompile" where
  "newPointEvaluationPrecompile C =
     (case kzgContextErr C of
        Some err \<Rightarrow> \<lparr>preRequiredGas = (\<lambda>_ _. Fail err), preRun = (\<lambda>_ _. Fail err)\<rparr>
      | None \<Rightarrow> \<lparr>preRequiredGas = (\<lambda>_ _. Ok 50000), preRun = (\<lambda>input _. verifyPointEvaluation C input)\<rparr>)"

definition gethContractsForFork :: "Fork \<Rightarrow> gethSet" where
  "gethContractsForFork f =
     (if forkGTE f ForkPrague then GethPrague
      else if forkGTE f ForkCancun then GethCancun
      else if forkGTE f ForkLondon then GethBerlin
      else GethIstanbul)"

definition resolveGethPrecompile :: "('g1, 'g2, 'gt) Crypto \<Rightarrow> Fork \<Rightarrow> Address \<Rightarrow> Precompile option" where
  "resolveGethPrecompile C f addr =
     (let contracts = gethContractsForFork f in
      case gethGas C contracts addr of
        None \<Rightarrow> None
      | Some g \<Rightarrow> Some \<lparr>preRequiredGas = (\<lambda>input _. Ok (g input)),
                      preRun = (\<lambda>input _. gethRun C contracts addr input)\<rparr>)"

definition registerGethOr ::
  "('g1, 'g2, 'gt) Crypto \<Rightarrow> Fork \<Rightarrow> Address \<Rightarrow> Precompile \<Rightarrow> PrecompileRegistry \<Rightarrow> PrecompileRegistry" where
  "registerGethOr C f addr fallback r =
     (case resolveGethPrecompile C f addr of
        Some p \<Rightarrow> PreRegister addr (Some p) r
      | None \<Rightarrow> PreRegister addr (Some fallback) r)"

definition MainnetPrecompilesForFork :: "Lib \<Rightarrow> ('g1, 'g2, 'gt) Crypto \<Rightarrow> Fork \<Rightarrow> PrecompileRegistry" where
  "MainnetPrecompilesForFork L C f =
     (let r = NewPrecompileRegistry;
          r = PreRegister 1 (Some (fixedGasPrecompile 3000 (runECRecover L C))) r;
          r = PreRegister 2 (Some (dynamicGasPrecompile gasSha256 (runSha256 C))) r;
          r = PreRegister 3 (Some (dynamicGasPrecompile gasRipemd160 (runRipemd160 C))) r;
          r = PreRegister 4 (Some (dynamicGasPrecompile gasIdentity runIdentity)) r;
          r = registerGethOr C f 5 (dynamicGasPrecompile (gasModExp (maxAlloc L)) (runModExp (maxAlloc L))) r;
          r = registerGethOr C f 6 (fixedGasPrecompile 150 (runBn256Add C)) r;
          r = registerGethOr C f 7 (fixedGasPrecompile 6000 (runBn256ScalarMul C)) r;
          r = registerGethOr C f 8 (dynamicGasPrecompile gasBn256Pairing (runBn256Pairing C)) r;
          r = registerGethOr C f 9 (dynamicGasPrecompile gasBlake2F runBlake2F) r;
          r = (if forkGTE f ForkCancun then PreRegister 0x0A (Some (newPointEvaluationPrecompile C)) r else r)
      in if forkGTE f ForkAmsterdam then PreRegister 0x100 (Some (fixedGasPrecompile 6900 (runP256Verify C))) r else r)"

definition MainnetPrecompileAddresses :: "Lib \<Rightarrow> ('g1, 'g2, 'gt) Crypto \<Rightarrow> Fork \<Rightarrow> Address list" where
  "MainnetPrecompileAddresses L C f = PreAddresses (MainnetPrecompilesForFork L C f)"

subsection \<open>Bit lengths\<close>

lemma bitsLen8_bounds: "v \<noteq> 0 \<Longrightarrow> 0 < bitsLen8 v \<and> 2 ^ (bitsLen8 v - 1) \<le> unat v \<and> unat v < 2 ^ bitsLen8 v"
proof (induction v rule: bitsLen8.induct)
  case (1 v)
  have pos: "v > 0" using 1(2) by (simp add: word_gt_0)
  have d: "unat (v div 2) = unat v div 2" by (simp add: unat_div)
  show ?case
  proof (cases "v div 2 = 0")
    case True
    then have "bitsLen8 v = 1" using pos by (simp add: bitsLen8.simps [of v] bitsLen8.simps [of 0])
    moreover have "unat v div 2 = 0" using True d by simp
    moreover have "0 < unat v" using pos by (simp add: unat_gt_0 word_gt_0)
    ultimately show ?thesis by simp
  next
    case False
    with 1(1) [OF pos] have IH: "0 < bitsLen8 (v div 2)" "2 ^ (bitsLen8 (v div 2) - 1) \<le> unat v div 2"
      "unat v div 2 < 2 ^ bitsLen8 (v div 2)" by (simp_all add: d)
    have s: "bitsLen8 v = Suc (bitsLen8 (v div 2))" using pos by (simp add: bitsLen8.simps [of v])
    obtain k where k: "bitsLen8 (v div 2) = Suc k" using IH(1) by (cases "bitsLen8 (v div 2)") auto
    have "2 * (unat v div 2) \<le> unat v" "unat v < 2 * (unat v div 2) + 2" by simp_all
    then show ?thesis using IH(2,3) by (simp add: s k)
  qed
qed

lemma be_int_append: "be_int (xs @ ys) = be_int xs * 256 ^ length ys + be_int ys"
proof (induction ys rule: rev_induct)
  case (snoc y ys)
  have "be_int ((xs @ ys) @ [y]) = uint y + 256 * be_int (xs @ ys)" by (rule be_int_snoc)
  then show ?case by (simp add: snoc be_int_snoc algebra_simps)
qed simp

lemma be_int_Cons: "be_int (b # bs) = uint b * 256 ^ length bs + be_int bs"
  using be_int_append [of "[b]" bs] by (simp add: be_int_def)

lemma bitLen_bounds:
  "be_int bs < 2 ^ bitLen bs \<and> (bs = [] \<or> be_int bs = 0 \<or> 0 < bitLen bs \<and> 2 ^ (bitLen bs - 1) \<le> be_int bs)"
proof (induction bs)
  case (Cons b bs)
  show ?case
  proof (cases "b = 0")
    case False
    then obtain k where k: "bitsLen8 b = Suc k" "2 ^ k \<le> unat b" "unat b < 2 ^ Suc k"
      using bitsLen8_bounds [of b] by (cases "bitsLen8 b") auto
    have u: "2 ^ k \<le> uint b" "uint b + 1 \<le> 2 ^ Suc k"
    proof -
      have "int (2 ^ k) \<le> int (unat b)" "int (unat b) < int (2 ^ Suc k)"
        using k(2,3) by (simp_all only: of_nat_le_iff of_nat_less_iff)
      then show "2 ^ k \<le> uint b" "uint b + 1 \<le> 2 ^ Suc k" by simp_all
    qed
    have p: "(256::int) ^ n = 2 ^ (n * 8)" for n
      by (subst mult.commute, subst power_mult) simp
    have lt: "be_int bs < 256 ^ length bs" by (rule be_int_bound)
    have "uint b * 256 ^ length bs + be_int bs < (uint b + 1) * 256 ^ length bs" using lt by (simp add: algebra_simps)
    also have "\<dots> \<le> 2 ^ Suc k * 256 ^ length bs" using u(2) by (intro mult_right_mono) simp_all
    finally have up: "be_int (b # bs) < 2 ^ (length bs * 8 + Suc k)"
      unfolding be_int_Cons p power_add by (simp only: mult.commute)
    have "2 ^ k * 256 ^ length bs \<le> uint b * 256 ^ length bs" using u(1) by (intro mult_right_mono) simp_all
    then have "2 ^ (length bs * 8 + k) \<le> uint b * 256 ^ length bs"
      unfolding p power_add by (simp only: mult.commute)
    then have "2 ^ (length bs * 8 + k) \<le> be_int (b # bs)"
      using be_int_nonneg [of bs] unfolding be_int_Cons by linarith
    with up False k(1) show ?thesis by (simp del: power_Suc)
  qed (use Cons in \<open>auto simp: be_int_Cons\<close>)
qed simp

subsection \<open>Padding\<close>

lemma be_int_zeros [simp]: "be_int (replicate n 0 @ bs) = be_int bs"
  by (induction n) (simp_all add: be_int_Cons)

lemma be_int_bigBytes: "0 \<le> v \<Longrightarrow> be_int (bigBytes v) = v"
proof (induction v rule: bigBytes.induct)
  case (1 v)
  then show ?case
    by (cases "v \<le> 0") (simp_all add: bigBytes.simps [of v] bigBytes.simps [of 0] be_int_snoc uint_word_of_int)
qed

lemma length_bigBytes: "v < 256 ^ n \<Longrightarrow> length (bigBytes v) \<le> n"
proof (induction v arbitrary: n rule: bigBytes.induct)
  case (1 v)
  show ?case
  proof (cases "v \<le> 0")
    case False
    then obtain k where n: "n = Suc k" using 1(2) by (cases n) auto
    have "v div 256 < 256 ^ k" using 1(2) by (simp add: n div_less_iff_less_mult algebra_simps)
    then show ?thesis using 1(1) [OF False] False by (simp add: n bigBytes.simps [of v])
  qed (simp add: bigBytes.simps [of v])
qed

lemma leftPad_bigBytes:
  assumes "0 \<le> v" "v < 256 ^ n"
  shows "leftPadBytes (bigBytes v) n = int_bytes n v"
proof -
  have len: "length (bigBytes v) \<le> n" by (rule length_bigBytes [OF assms(2)])
  have l: "length (leftPadBytes (bigBytes v) n) = n"
    and v: "be_int (leftPadBytes (bigBytes v) n) = v"
    using len assms(1) by (auto simp: leftPadBytes_def be_int_bigBytes)
  show ?thesis using int_bytes_be_int [OF l] by (simp add: v)
qed

subsection \<open>The operands of MODEXP\<close>

lemma readLengthWord_at:
  assumes "length pre = off" "n < 2 ^ 64"
  shows "readLengthWord (pre @ word_bytes (word_of_nat n) @ post) off = word_of_nat n"
proof -
  have "unat (word_of_nat n :: Word) = n"
    using assms(2) by (simp add: unat_of_nat)
  then have u: "uint (word_of_nat n :: Word) = int n" by (metis of_nat_unat)
  have "int n < 2 ^ 64" using assms(2) by (metis of_nat_less_iff of_nat_numeral of_nat_power)
  then show ?thesis using assms(1) by (simp add: readLengthWord_def Let_def u)
qed

lemma readInputSegment_at:
  assumes "length (pre @ seg @ post) < 2 ^ 63" "length seg \<le> lim" "off = ulen pre" "n = ulen seg"
  shows "readInputSegment lim (pre @ seg @ post) off n = Ok seg"
proof (cases "seg = []")
  case False
  have u: "unat (ulen pre) = length pre" "unat (ulen seg) = length seg"
    "unat (ulen (pre @ seg @ post)) = length (pre @ seg @ post)"
    using assms(1) by (intro unat_ulen; simp)+
  have e: "unat (ulen pre + ulen seg) = length pre + length seg"
    using assms(1) by (subst unat_add_no_wrap) (simp_all only: u, simp_all)
  have n0: "ulen seg \<noteq> 0" using False u(2) by (metis length_0_conv unat_0)
  have lt: "\<not> ulen pre \<ge> ulen (pre @ seg @ post)" using False by (simp only: unat_le_nat u) simp
  have le: "ulen pre + ulen seg \<le> ulen (pre @ seg @ post)" by (simp only: unat_le_nat u e) simp
  have le2: "ulen pre \<le> ulen pre + ulen seg" by (simp only: unat_le_nat u e)
  show ?thesis
    unfolding readInputSegment_def assms(3,4) Let_def
    using assms(2) n0 lt le le2 by (simp only: if_False if_True make_bytes_def goslice_def u e) (simp add: gocopy_def)
qed (simp add: readInputSegment_def assms(4))

lemma readInputSegment_0 [simp]: "readInputSegment lim input off 0 = Ok []"
  by (simp add: readInputSegment_def)

lemma runModExp_exact:
  assumes len: "96 + length b + length e + length m < 2 ^ 63" and lim: "length b \<le> lim" "length e \<le> lim" "length m \<le> lim"
    and input: "input = word_bytes (word_of_nat (length b)) @ word_bytes (word_of_nat (length e)) @
      word_bytes (word_of_nat (length m)) @ b @ e @ m"
  shows "runModExp lim input =
    Ok (if be_int m = 0 then replicate (length m) 0
        else int_bytes (length m) (be_int b ^ nat (be_int e) mod be_int m))"
proof -
  let ?w = "\<lambda>xs :: bytes. word_bytes (word_of_nat (length xs))"
  have lt: "length b < 2 ^ 64" "length e < 2 ^ 64" "length m < 2 ^ 64" using len by simp_all
  have L: "readLengthWord input 0 = ulen b" "readLengthWord input 32 = ulen e" "readLengthWord input 64 = ulen m"
    using readLengthWord_at [of "[]" 0 "length b"] readLengthWord_at [of "?w b" 32 "length e"]
      readLengthWord_at [of "?w b @ ?w e" 64 "length m"] lt by (simp_all add: input)
  have B: "readInputSegment lim input 96 (ulen b) = Ok b"
    using readInputSegment_at [of "?w b @ ?w e @ ?w m" b "e @ m" lim 96 "ulen b"] len lim by (simp add: input)
  have E: "readInputSegment lim input (96 + ulen b) (ulen e) = Ok e"
    using readInputSegment_at [of "?w b @ ?w e @ ?w m @ b" e m lim "96 + ulen b" "ulen e"] len lim by (simp add: input)
  have M: "readInputSegment lim input (96 + ulen b + ulen e) (ulen m) = Ok m"
    using readInputSegment_at [of "?w b @ ?w e @ ?w m @ b @ e" m "[]" lim "96 + ulen b + ulen e" "ulen m"] len lim
    by (simp add: input add.assoc)
  have um: "unat (ulen m) = length m" using lt(3) by (rule unat_ulen)
  have "ulen m = 0 \<longleftrightarrow> unat (ulen m) = 0" by (rule unat_eq_0 [symmetric])
  then have m0: "ulen m = 0 \<longleftrightarrow> m = []" unfolding um by simp
  have le: "be_int b ^ nat (be_int e) mod be_int m < 256 ^ length m" if "be_int m \<noteq> 0"
  proof -
    have "be_int b ^ nat (be_int e) mod be_int m < be_int m"
      using that be_int_nonneg [of m] by (intro pos_mod_bound) simp
    then show ?thesis using be_int_bound [of m] by simp
  qed
  have nn: "0 \<le> be_int b ^ nat (be_int e) mod be_int m" if "be_int m \<noteq> 0"
    using that be_int_nonneg [of m] by (intro pos_mod_sign) simp
  show ?thesis
    using leftPad_bigBytes [OF nn le] lim(3)
    by (cases "m = []") (simp_all add: runModExp_def L B E M m0 um bigExp_eq make_bytes_def Let_def)
qed

subsection \<open>What a precompile costs and returns\<close>

lemma registerGethOr_dom: "dom (registerGethOr C f addr p r) = insert addr (dom r)"
  by (auto simp: registerGethOr_def PreRegister_def split: option.splits if_splits)

lemma PreRegister_dom: "dom (PreRegister addr (Some p) r) = insert addr (dom r)"
  by (auto simp: PreRegister_def)

lemma Mainnet_dom:
  "dom (MainnetPrecompilesForFork L C f) =
     {1, 2, 3, 4, 5, 6, 7, 8, 9} \<union> (if forkGTE f ForkCancun then {0x0A} else {}) \<union>
     (if forkGTE f ForkAmsterdam then {0x100} else {})"
  by (auto simp: MainnetPrecompilesForFork_def Let_def NewPrecompileRegistry_def PreRegister_dom registerGethOr_dom)

lemma length_blake2G [simp]: "length (blake2G a b c d x y v) = length v"
  by (simp add: blake2G_def Let_def)

lemma length_blake2Compress [simp]: "length (blake2Compress h m t0 t1 final rounds) = 8"
  by (simp add: blake2Compress_def Let_def)

lemma length_putLeUint64 [simp]: "length (putLeUint64 w) = 8"
  by (simp add: putLeUint64_def)

lemma leUint64_put: "leUint64 (putLeUint64 w @ bs) = w"
  using uint_lt2p [of w] by (simp add: leUint64_def putLeUint64_def be_int_int_bytes)

lemma executePrecompile_outcome:
  assumes "preRequiredGas p (msgInput msg) f = Ok g" "preRun p (msgInput msg) f = Ok out"
  shows "executePrecompileMessage f msg p =
    (if g \<le> msgGas msg
     then Ok (zeroResult\<lparr>Status := StatusSuccess, GasUsed := g, GasRemaining := msgGas msg - g, ReturnData := out\<rparr>, None)
     else Ok (zeroResult\<lparr>Status := StatusOutOfGas, GasUsed := msgGas msg, ResErr := Some ErrOutOfGas\<rparr>, Some ErrOutOfGas))"
  using assms by (auto simp: executePrecompileMessage_def not_less)

lemma executePrecompile_balanced:
  assumes "executePrecompileMessage f msg p = Ok (res, err)"
  shows "unat (GasUsed res) + unat (GasRemaining res) = unat (msgGas msg)" "Status res = StatusSuccess \<longleftrightarrow> err = None"
  using assms
  by (auto simp: executePrecompileMessage_def zeroResult_def unat_sub_le not_less unat_le_nat
      split: outcome.splits if_splits)

end
