(* ===== verification/Preserve.thy ===== *)
theory Preserve
  imports Interpreter
begin

text \<open>
  How an invariant is carried through the interpreter. \<open>keeps R P m\<close>: from a frame whose fixed part
  satisfies \<open>P\<close>, whatever \<open>m\<close> does (return, error, panic) leaves a state \<open>R\<close>-related to the one it
  started in, and the fixed part unchanged. The locale \<open>frame_relation\<close> lists what \<open>R\<close> must allow for
  every handler but CALL and CREATE to keep it; \<open>message_relation\<close> adds what calls need and proves
  that \<open>ExecuteMessage\<close> and \<open>Run\<close> keep it. \<open>Invariants\<close> interprets both.
\<close>

named_theorems keeps_intros \<open>compositional rules for \<open>keeps\<close>\<close>

subsection \<open>The fixed part of a frame\<close>

record 'h Cfg =
  cfgContract :: SimpleContract
  cfgDepth :: int
  cfgFork :: Fork
  cfgPrecompiles :: PrecompileRegistry
  cfgHooks :: "'h hooksFor option"

definition cfg :: "'h EVM \<Rightarrow> 'h Cfg" where
  "cfg e = \<lparr>cfgContract = contract (state e), cfgDepth = callDepth (state e), cfgFork = fork e,
     cfgPrecompiles = precompiles e, cfgHooks = hooks e\<rparr>"

definition keeps :: "('h evmState \<Rightarrow> 'h evmState \<Rightarrow> bool) \<Rightarrow> ('h Cfg \<Rightarrow> bool) \<Rightarrow> ('h, 'a) M \<Rightarrow> bool" where
  "keeps R P m \<longleftrightarrow>
     (\<forall>e r e'. P (cfg e) \<longrightarrow> m e = Some (r, e') \<longrightarrow> R (state e) (state e') \<and> cfg e' = cfg e)"

text \<open>Hooks that change nothing but what \<open>R\<close> allows.\<close>

definition hook_respects :: "('h evmState \<Rightarrow> 'h evmState \<Rightarrow> bool) \<Rightarrow> 'h Hook \<Rightarrow> bool" where
  "hook_respects R k \<longleftrightarrow>
     (\<forall>ctx s r s'. hookFire k ctx s = (r, s') \<longrightarrow> R s s' \<and> contract s' = contract s \<and> callDepth s' = callDepth s)"

definition hooks_respect :: "('h evmState \<Rightarrow> 'h evmState \<Rightarrow> bool) \<Rightarrow> 'h hooksFor option \<Rightarrow> bool" where
  "hooks_respect R hs \<longleftrightarrow> (\<forall>f a t. \<forall>k\<in>set (f a t). hs = Some f \<longrightarrow> hook_respects R k)"

lemma hooks_respect_None [simp]: "hooks_respect R None"
  by (simp add: hooks_respect_def)

lemma keepsI: "(\<And>e r e'. P (cfg e) \<Longrightarrow> m e = Some (r, e') \<Longrightarrow> R (state e) (state e') \<and> cfg e' = cfg e) \<Longrightarrow> keeps R P m"
  by (simp add: keeps_def)

lemma keepsD: "keeps R P m \<Longrightarrow> P (cfg e) \<Longrightarrow> m e = Some (r, e') \<Longrightarrow> R (state e) (state e') \<and> cfg e' = cfg e"
  by (simp add: keeps_def)

lemma keeps_if [keeps_intros]:
  "(b \<Longrightarrow> keeps R P m) \<Longrightarrow> (\<not> b \<Longrightarrow> keeps R P k) \<Longrightarrow> keeps R P (if b then m else k)"
  by simp

lemma keeps_case_option [keeps_intros]:
  "(x = None \<Longrightarrow> keeps R P m) \<Longrightarrow> (\<And>y. x = Some y \<Longrightarrow> keeps R P (f y)) \<Longrightarrow>
   keeps R P (case x of None \<Rightarrow> m | Some y \<Rightarrow> f y)"
  by (cases x) simp_all

lemma keeps_case_prod [keeps_intros]:
  "(\<And>y z. x = (y, z) \<Longrightarrow> keeps R P (f y z)) \<Longrightarrow> keeps R P (case x of (y, z) \<Rightarrow> f y z)"
  by (cases x) simp_all

lemma keeps_case_sum [keeps_intros]:
  "(\<And>y. x = Inl y \<Longrightarrow> keeps R P (f y)) \<Longrightarrow> (\<And>y. x = Inr y \<Longrightarrow> keeps R P (g y)) \<Longrightarrow>
   keeps R P (case x of Inl y \<Rightarrow> f y | Inr y \<Rightarrow> g y)"
  by (cases x) simp_all

lemma keeps_case_bool [keeps_intros]:
  "keeps R P m \<Longrightarrow> keeps R P k \<Longrightarrow> keeps R P (case b of True \<Rightarrow> m | False \<Rightarrow> k)"
  by (cases b) simp_all

lemma keeps_Let [keeps_intros]: "(\<And>x. x = v \<Longrightarrow> keeps R P (f x)) \<Longrightarrow> keeps R P (let x = v in f x)"
  by simp

lemma keeps_weaken: "keeps R Q m \<Longrightarrow> (\<And>g. P g \<Longrightarrow> Q g) \<Longrightarrow> keeps R P m"
  by (rule keepsI, rule keepsD)

text \<open>Reading the contract makes it known to what follows.\<close>

lemma keeps_getContract [keeps_intros]:
  assumes "\<And>c. keeps R (\<lambda>g. P g \<and> cfgContract g = c) (f c)"
  shows "keeps R P (seq getContract f)"
proof (rule keepsI)
  fix e r e'
  assume "P (cfg e)" "seq getContract f e = Some (r, e')"
  then show "R (state e) (state e') \<and> cfg e' = cfg e"
    by (intro keepsD [OF assms [of "contract (state e)"], of e r])
      (simp_all add: getContract_def gets_def seq_def cfg_def)
qed

lemma keeps_gets_seq [keeps_intros]:
  assumes "\<And>x. keeps R P (f x)"
  shows "keeps R P (seq (gets h) f)"
proof (rule keepsI)
  fix e r e'
  assume "P (cfg e)" "seq (gets h) f e = Some (r, e')"
  then show "R (state e) (state e') \<and> cfg e' = cfg e"
    by (intro keepsD [OF assms [of "h e"], of e r]) (simp_all add: gets_def seq_def)
qed

lemma keeps_getState_seq [keeps_intros]:
  "(\<And>x. keeps R P (f x)) \<Longrightarrow> keeps R P (seq (getState h) f)"
  unfolding getState_def by (rule keeps_gets_seq)

lemma keeps_onState:
  assumes "\<And>e x s'. P (cfg e) \<Longrightarrow> f (state e) = Ok (x, s') \<Longrightarrow>
      R (state e) s' \<and> contract s' = contract (state e) \<and> callDepth s' = callDepth (state e)"
    "\<And>s. R s s"
  shows "keeps R P (onState f)"
proof (rule keepsI)
  fix e r e'
  assume "P (cfg e)" "onState f e = Some (r, e')"
  then show "R (state e) (state e') \<and> cfg e' = cfg e"
  proof (cases "f (state e)")
    case (Ok a)
    obtain x s' where a: "a = (x, s')" by fastforce
    show ?thesis
      using assms(1) [OF \<open>P (cfg e)\<close> Ok [unfolded a]] \<open>onState f e = Some (r, e')\<close>
      by (auto simp: onState_def Ok a cfg_def)
  qed (use \<open>onState f e = Some (r, e')\<close> assms(2) in \<open>simp_all add: onState_def\<close>)
qed

subsection \<open>Handlers that make no call\<close>

locale frame_relation =
  fixes R :: "'h evmState \<Rightarrow> 'h evmState \<Rightarrow> bool" and L :: Lib
  assumes R_refl: "R s s" and R_trans: "R s t \<Longrightarrow> R t u \<Longrightarrow> R s u"
    and R_stack: "(stack_ok (stack s) \<Longrightarrow> stack_ok st) \<Longrightarrow> R s (s\<lparr>stack := st\<rparr>)"
    and R_memory: "(mem_ok (memory s) \<Longrightarrow> maxAlloc L < 2 ^ 63 \<Longrightarrow> mem_ok m \<and> length (memory s) \<le> length m) \<Longrightarrow>
      R s (s\<lparr>memory := m\<rparr>)"
    and R_gas: "unat (gas g) \<le> unat (gas (gasMeter s)) \<Longrightarrow> R s (s\<lparr>gasMeter := g\<rparr>)"
    and R_log: "R s (AddLog l s)"
    and R_warm: "R s (s\<lparr>accessList := WarmAddress a (accessList s)\<rparr>)"
      "R s (s\<lparr>accessList := WarmSlot a k (accessList s)\<rparr>)"
    and R_storage: "\<not> IsStaticVal (contract s) \<Longrightarrow>
      R s (s\<lparr>storage := StorageSet (AddressVal (contract s)) k v (storage s)\<rparr>)"
    and R_transient: "\<not> IsStaticVal (contract s) \<Longrightarrow>
      R s (s\<lparr>transientStorage := TransientSet (AddressVal (contract s)) k v (transientStorage s)\<rparr>)"
    and R_selfdestruct: "\<not> IsStaticVal (contract s) \<Longrightarrow>
      R s (s\<lparr>account := selfdestructAccount a (AddressVal (contract s)) (account s)\<rparr>)"
begin

lemma keeps_seq [keeps_intros]:
  assumes "keeps R P m" "\<And>x. keeps R P (f x)"
  shows "keeps R P (seq m f)"
proof (rule keepsI)
  fix e r e'
  assume P: "P (cfg e)" and run: "seq m f e = Some (r, e')"
  obtain q e1 where m: "m e = Some (q, e1)" using run by (auto simp: seq_def split: option.splits)
  from keepsD [OF assms(1) P m] have e1: "R (state e) (state e1)" "cfg e1 = cfg e" by blast+
  show "R (state e) (state e') \<and> cfg e' = cfg e"
  proof (cases q)
    case (Ok x)
    then have "f x e1 = Some (r, e')" using run m by (simp add: seq_def)
    with keepsD [OF assms(2), of e1] e1 P show ?thesis by (metis R_trans)
  qed (use run m e1 in \<open>auto simp: seq_def\<close>)
qed

lemma keeps_thn [keeps_intros]: "keeps R P m \<Longrightarrow> keeps R P k \<Longrightarrow> keeps R P (thn m k)"
  unfolding thn_def by (rule keeps_seq)

lemma keeps_pure [keeps_intros]:
  "keeps R P (ret x)" "keeps R P (throw err)" "keeps R P (gets f)" "keeps R P (lift oc)"
  "keeps R P (getState h)"
  by (rule keepsI; simp add: ret_def throw_def gets_def lift_def getState_def R_refl)+

lemma keeps_attempt [keeps_intros]: "keeps R P m \<Longrightarrow> keeps R P (attempt m)"
proof (rule keepsI)
  fix e r e'
  assume m: "keeps R P m" "P (cfg e)" and run: "attempt m e = Some (r, e')"
  obtain q where "m e = Some (q, e')"
    using run by (cases "m e") (auto simp: attempt_def split: outcome.splits)
  with m show "R (state e) (state e') \<and> cfg e' = cfg e" by (rule keepsD)
qed

lemma keeps_modify_frame [keeps_intros]:
  "keeps R P (modify (\<lambda>e. e\<lparr>pc := f e\<rparr>))" "keeps R P (modify (\<lambda>e. e\<lparr>returnData := g e\<rparr>))"
  "keeps R P (modify (\<lambda>e. e\<lparr>outputData := h e, returnData := k e\<rparr>))" "keeps R P incPc"
  unfolding incPc_def by (rule keepsI; clarsimp simp: modify_def cfg_def R_refl)+

lemma keeps_stack [keeps_intros]:
  "keeps R P popW" "keeps R P (pushW w)" "keeps R P (swapM n)" "keeps R P (dupM n)" "keeps R P (peekN n)"
  unfolding popW_def pushW_def swapM_def dupM_def peekN_def
  by (rule keeps_onState; auto simp: R_refl intro!: R_stack dest: stack_ok_pop stack_ok_push stack_ok_swap stack_ok_dup)+

lemma keeps_stack_derived [keeps_intros]:
  "keeps R P popBig" "keeps R P popU64" "keeps R P popAddress" "keeps R P (pushBig i)" "keeps R P (pushBigPtr p)"
  "keeps R P (pushAddress a)" "keeps R P (pushLen n)" "keeps R P (pushInt64 u)" "keeps R P (pushBool b)"
  "keeps R P (peekU64 j)"
  unfolding popBig_def popU64_def popAddress_def pushBig_def pushBigPtr_def pushAddress_def pushLen_def
    pushInt64_def pushBool_def peekU64_def
  by (intro keeps_intros)+

lemma keeps_gas [keeps_intros]: "keeps R P (consume amount)"
proof (rule keepsI)
  fix e :: "'h EVM" and r e'
  assume "consume amount e = Some (r, e')"
  then obtain g q where c: "ConsumeGas amount (gasMeter (state e)) = (g, q)"
    and e': "e' = e\<lparr>state := (state e)\<lparr>gasMeter := g\<rparr>\<rparr>"
    by (cases "ConsumeGas amount (gasMeter (state e))") (auto simp: consume_def)
  from R_gas [OF ConsumeGas_le [OF c]] show "R (state e) (state e') \<and> cfg e' = cfg e"
    by (simp add: e' cfg_def)
qed

lemma keeps_modGas: "(\<And>g. unat (gas (f g)) \<le> unat (gas g)) \<Longrightarrow> keeps R P (modGas f)"
  unfolding modGas_def by (rule keeps_onState) (auto intro: R_gas R_refl)

lemma keeps_memory [keeps_intros]:
  "keeps R P (memResize L n)" "keeps R P (memSet L off dat)" "keeps R P (memGet L off n)"
  unfolding memResize_def memSet_def memGet_def
  by (rule keeps_onState; auto simp: R_refl intro!: R_memory dest: MemResize_Ok MemSet_mem_ok)+

lemma keeps_log [keeps_intros]: "keeps R P (addLogM l)"
  unfolding addLogM_def by (rule keeps_onState) (auto simp: R_refl AddLog_def intro: R_log [unfolded AddLog_def])

lemma keeps_warm [keeps_intros]:
  "keeps R P (modAccessList (WarmAddress a))" "keeps R P (modAccessList (WarmSlot a k))"
  unfolding modAccessList_def by (rule keeps_onState; auto simp: R_refl R_warm)+

subsubsection \<open>Hooks\<close>

text \<open>The frames whose hooks respect \<open>R\<close>.\<close>

lemma keeps_fireHook: "hook_respects R h \<Longrightarrow> keeps R P (fireHook h ctx)"
  by (rule keepsI) (auto simp: fireHook_def hook_respects_def cfg_def split: prod.splits)

lemma keeps_fireAll:
  "(\<And>h. h \<in> set hs \<Longrightarrow> hook_respects R h) \<Longrightarrow> (\<And>r. keeps R P (react r)) \<Longrightarrow> keeps R P (fireAll ctx react d hs)"
  by (induction hs) (auto intro!: keeps_seq keeps_pure keeps_fireHook split: option.splits)

lemma keeps_hooksForM:
  assumes "\<And>g. P g \<Longrightarrow> hooks_respect R (cfgHooks g)"
    "\<And>hs. (\<And>h. h \<in> set hs \<Longrightarrow> hook_respects R h) \<Longrightarrow> keeps R P (f hs)"
  shows "keeps R P (seq (hooksForM t) f)"
proof (rule keepsI)
  fix e :: "'h EVM" and r e'
  assume P: "P (cfg e)" and run: "seq (hooksForM t) f e = Some (r, e')"
  let ?hs = "case hooks e of None \<Rightarrow> [] | Some g \<Rightarrow> g (hookState (state e)) t"
  have "hooks_respect R (hooks e)" using assms(1) [OF P] by (simp add: cfg_def)
  then have "\<And>h. h \<in> set ?hs \<Longrightarrow> hook_respects R h"
    by (cases "hooks e") (simp_all add: hooks_respect_def)
  then have k: "keeps R P (f ?hs)" by (rule assms(2))
  have "f ?hs e = Some (r, e')" using run by (simp add: hooksForM_def gets_def seq_def)
  with k P show "R (state e) (state e') \<and> cfg e' = cfg e" by (rule keepsD)
qed

lemma keeps_haltWith [keeps_intros]: "keeps R P (haltWith err d)"
  unfolding haltWith_def by (intro keeps_intros)

lemma keeps_react [keeps_intros]:
  "keeps R P (memoryReact r)" "keeps R P (storageReact r)" "keeps R P (callReact r)"
  by (cases "Action r"; cases "ResData r"; auto intro: keeps_intros)+

lemma keeps_pushAll [keeps_intros]: "keeps R P (pushAll ws)"
  by (induction ws) (auto intro: keeps_intros)

lemma keeps_opcodeReact [keeps_intros]: "keeps R P (opcodeReact r)"
  unfolding opcodeReact_def by (cases "Action r"; cases "ResData r"; auto intro!: keeps_intros)

lemma keeps_dispatch:
  assumes "\<And>g. P g \<Longrightarrow> hooks_respect R (cfgHooks g)"
  shows "keeps R P (dispatchMemoryAccessHook opc t ma)" "keeps R P (dispatchStorageAccessHook opc t sa)"
    "keeps R P (dispatchCallHook opc t ci)" "keeps R P (dispatchHooks opc g c)"
  unfolding dispatchMemoryAccessHook_def dispatchStorageAccessHook_def dispatchCallHook_def dispatchHooks_def
  using assms by (auto intro!: keeps_gets_seq keeps_hooksForM keeps_fireAll keeps_react keeps_opcodeReact)

subsubsection \<open>Handlers\<close>

text \<open>A state change allowed to a contract that is not static, in a frame whose contract is known.\<close>

lemma keeps_guarded:
  assumes "\<And>s. \<not> IsStaticVal (contract s) \<Longrightarrow> R s (f (AddressVal (contract s)) s)"
    "\<And>s a. contract (f a s) = contract s \<and> callDepth (f a s) = callDepth s"
    "\<not> IsStaticVal c" "\<And>g. P g \<Longrightarrow> cfgContract g = c"
  shows "keeps R P (onState (\<lambda>s. Ok ((), f (AddressVal c) s)))"
proof (rule keeps_onState)
  fix e :: "'h EVM" and x s'
  assume "P (cfg e)" "Ok ((), f (AddressVal c) (state e)) = Ok (x, s')"
  then show "R (state e) s' \<and> contract s' = contract (state e) \<and> callDepth s' = callDepth (state e)"
    using assms(1) [of "state e"] assms(2,3) assms(4) [of "cfg e"] by (auto simp: cfg_def)
qed (rule R_refl)

lemma keeps_modStorage:
  "\<not> IsStaticVal c \<Longrightarrow> (\<And>g. P g \<Longrightarrow> cfgContract g = c) \<Longrightarrow>
   keeps R P (modStorage (StorageSet (AddressVal c) k v))"
  unfolding modStorage_def
  by (rule keeps_guarded [where f = "\<lambda>a s. s\<lparr>storage := StorageSet a k v (storage s)\<rparr>"]) (simp_all add: R_storage)

lemma keeps_modTransient:
  "\<not> IsStaticVal c \<Longrightarrow> (\<And>g. P g \<Longrightarrow> cfgContract g = c) \<Longrightarrow>
   keeps R P (modTransient (TransientSet (AddressVal c) k v))"
  unfolding modTransient_def
  by (rule keeps_guarded [where f = "\<lambda>a s. s\<lparr>transientStorage := TransientSet a k v (transientStorage s)\<rparr>"])
    (simp_all add: R_transient)

lemma keeps_selfdestructAccount:
  "\<not> IsStaticVal c \<Longrightarrow> (\<And>g. P g \<Longrightarrow> cfgContract g = c) \<Longrightarrow>
   keeps R P (modAccount (selfdestructAccount a (AddressVal c)))"
  unfolding modAccount_def
  by (rule keeps_guarded [where f = "\<lambda>b s. s\<lparr>account := selfdestructAccount a b (account s)\<rparr>"])
    (simp_all add: R_selfdestruct)

lemma gas_sstoreRefund: "gas (sstoreRefund original current v g) = gas g"
  by (simp add: sstoreRefund_def RefundGas_def DeductRefund_def Let_def)

lemma keeps_arith [keeps_intros]:
  "keeps R P opStop" "keeps R P opAdd" "keeps R P opMul" "keeps R P opSub" "keeps R P opDiv"
  "keeps R P opSdiv" "keeps R P opMod" "keeps R P opSmod" "keeps R P opAddmod" "keeps R P opMulmod"
  "keeps R P opExp" "keeps R P opSignextend"
  unfolding opStop_def opAdd_def opMul_def opSub_def opDiv_def opSdiv_def opMod_def opSmod_def
    opAddmod_def opMulmod_def opExp_def opSignextend_def
  by (intro keeps_intros)+

lemma keeps_cmp [keeps_intros]:
  "keeps R P opLt" "keeps R P opGt" "keeps R P opSlt" "keeps R P opSgt" "keeps R P opEq"
  "keeps R P opIszero" "keeps R P opAnd" "keeps R P opOr" "keeps R P opXor" "keeps R P opNot"
  "keeps R P opByte" "keeps R P opShl" "keeps R P opShr" "keeps R P opSar" "keeps R P opClz"
  unfolding opLt_def opGt_def opSlt_def opSgt_def opEq_def opIszero_def opAnd_def opOr_def opXor_def
    opNot_def opByte_def opShl_def opShr_def opSar_def opClz_def
  by (intro keeps_intros)+

lemma keeps_env [keeps_intros]:
  "keeps R P opAddress" "keeps R P opBalance" "keeps R P opOrigin" "keeps R P opCaller"
  "keeps R P opCallvalue" "keeps R P opCalldataload" "keeps R P opCalldatasize"
  "keeps R P (opCalldatacopy L)" "keeps R P opCodesize" "keeps R P (opCodecopy L)" "keeps R P opGasprice"
  "keeps R P opExtcodesize" "keeps R P (opExtcodecopy L)" "keeps R P opReturndatasize"
  "keeps R P (opReturndatacopy L)" "keeps R P opExtcodehash"
  unfolding env_defs by (intro keeps_intros)+

lemma keeps_block [keeps_intros]:
  "keeps R P opBlockhash" "keeps R P opCoinbase" "keeps R P opTimestamp" "keeps R P opNumber"
  "keeps R P opPrevrandao" "keeps R P opGaslimit" "keeps R P opChainid" "keeps R P opSelfbalance"
  "keeps R P opBasefee" "keeps R P opBlobhash" "keeps R P opBlobbasefee"
  unfolding env_defs by (intro keeps_intros)+

lemma keeps_popTopics [keeps_intros]: "keeps R P (popTopics n)"
  by (induction n) (auto intro!: keeps_intros)

lemma keeps_data [keeps_intros]:
  "keeps R P opMsize" "keeps R P (opKeccak256 L)" "keeps R P opJump" "keeps R P opJumpi" "keeps R P opPc"
  "keeps R P opGas" "keeps R P opJumpdest" "keeps R P opPop" "keeps R P opPush0" "keeps R P (opPush code n)"
  "keeps R P (opDup i)" "keeps R P (opSwap i)" "keeps R P (opLog L n)"
  unfolding data_defs by (intro keeps_intros)+

lemma keeps_hooked:
  assumes "\<And>g. P g \<Longrightarrow> hooks_respect R (cfgHooks g)"
  shows "keeps R P (opMload L)" "keeps R P (opMstore L)" "keeps R P (opMstore8 L)" "keeps R P (opMcopy L)"
    "keeps R P opSload" "keeps R P opTload"
  unfolding data_defs
  by (intro keeps_intros keeps_dispatch; simp add: assms)+

lemma keeps_opSstore:
  assumes "\<And>g. P g \<Longrightarrow> hooks_respect R (cfgHooks g)"
  shows "keeps R P opSstore"
  unfolding opSstore_def
  by (intro keeps_intros keeps_dispatch keeps_modGas)
    (auto simp: gas_sstoreRefund intro!: keeps_modStorage dest: assms)

lemma keeps_opTstore:
  assumes "\<And>g. P g \<Longrightarrow> hooks_respect R (cfgHooks g)"
  shows "keeps R P opTstore"
  unfolding opTstore_def
  by (intro keeps_intros keeps_dispatch) (auto intro!: keeps_modTransient dest: assms)

lemma keeps_leave [keeps_intros]:
  "keeps R P (opReturn L)" "keeps R P (opRevert L)" "keeps R P opInvalid"
  unfolding opReturn_def opRevert_def opInvalid_def leaveWith_def by (intro keeps_intros)+

lemma keeps_opSelfdestruct [keeps_intros]: "keeps R P opSelfdestruct"
  unfolding opSelfdestruct_def
  by (intro keeps_intros) (auto intro!: keeps_selfdestructAccount)

subsubsection \<open>The loop's own steps\<close>

lemma keeps_accessCost [keeps_intros]: "keeps R P (accessCostAddress a)" "keeps R P (accessCostStorage a k)"
  unfolding accessCostAddress_def accessCostStorage_def by (intro keeps_intros)+

lemma keeps_calcDynamicGas [keeps_intros]: "keeps R P (calcDynamicGas opc)"
  unfolding calcDynamicGas_def needStack_def expandGas_def by (intro keeps_intros)

text \<open>The dispatch table, given that the calls it makes keep \<open>R\<close>.\<close>

lemma keeps_execute:
  assumes "\<And>g. P g \<Longrightarrow> hooks_respect R (cfgHooks g)"
    and "\<And>kind. keeps R P (opCallCommon L call kind)" "\<And>b. keeps R P (opCreate L call b)"
  shows "keeps R P (execute L call opc code)"
  unfolding execute_def opCall_def opCallcode_def opDelegatecall_def
  by (intro keeps_intros keeps_hooked keeps_opSstore keeps_opTstore assms)

lemma keeps_loopIter:
  assumes "\<And>g. P g \<Longrightarrow> hooks_respect R (cfgHooks g)"
    and "\<And>kind. keeps R P (opCallCommon L call kind)" "\<And>b. keeps R P (opCreate L call b)"
  shows "keeps R P (loopIter L call code)"
  unfolding loopIter_defs
  by (intro keeps_intros keeps_dispatch keeps_execute assms)

end

subsection \<open>Calls\<close>

text \<open>A static frame sends only static messages that create nothing.\<close>

definition msgAllowed :: "SimpleContract \<Rightarrow> Message \<Rightarrow> bool" where
  "msgAllowed c msg \<longleftrightarrow> (IsStaticVal c \<longrightarrow> msgIsStatic msg \<and> \<not> msgIsCreate msg)"

text \<open>What holds when \<open>ExecuteMessage\<close> has passed its checks.\<close>

definition enters :: "'h evmState \<Rightarrow> Message \<Rightarrow> bool" where
  "enters s msg \<longleftrightarrow>
     msgAllowed (contract s) msg \<and> \<not> (msgIsStatic msg \<and> msgPays msg) \<and>
     (msgPays msg \<longrightarrow> msgAmount msg \<le> Balance (msgCaller msg) (account s))"

definition rolledBack :: "'h evmState \<Rightarrow> 'h evmState \<Rightarrow> 'h evmState" where
  "rolledBack s t = revertMessage (fst (accSnapshot (account s))) (fst (stoSnapshot (storage s))) t"

lemma contract_message [simp]:
  "contract (enterMessage msg s) = contract s" "callDepth (enterMessage msg s) = callDepth s"
  "contract (adoptShared s c) = contract s" "callDepth (adoptShared s c) = callDepth s"
  "contract (revertMessage i j s) = contract s" "callDepth (revertMessage i j s) = callDepth s"
  "contract (AddLog l s) = contract s" "callDepth (AddLog l s) = callDepth s"
  by (simp_all add: enterMessage_def adoptShared_def revertMessage_def AddLog_def)

lemma contract_fold_AddLog [simp]:
  "contract (fold AddLog ls s) = contract s" "callDepth (fold AddLog ls s) = callDepth s"
  by (induction ls arbitrary: s) simp_all

locale message_relation = frame_relation R L
  for R :: "'h evmState \<Rightarrow> 'h evmState \<Rightarrow> bool" and L :: Lib +
  assumes R_gas_any: "R s (s\<lparr>gasMeter := g\<rparr>)"
    and R_nonce: "\<not> IsStaticVal (contract s) \<Longrightarrow>
      R s (s\<lparr>account := IncrementNonce (AddressVal (contract s)) (account s)\<rparr>)"
    and R_code: "\<not> IsStaticVal (contract s) \<Longrightarrow> R s (s\<lparr>account := SetCode (keccak256 L) a code (account s)\<rparr>)"
    and R_enter: "enters s msg \<Longrightarrow> R s (enterMessage msg s)"
    and R_child: "(IsStaticVal (contract s) \<longrightarrow> msgIsStatic msg) \<Longrightarrow>
      R (newChildState L msg s) c \<Longrightarrow> R s (adoptShared s c)"
    and R_rollback: "enters s msg \<Longrightarrow> R (enterMessage msg s) t \<Longrightarrow> R s (rolledBack s t)"
begin

lemma keeps_modGas_any: "keeps R P (modGas f)"
  unfolding modGas_def by (rule keeps_onState) (auto intro: R_gas_any R_refl)

lemma R_logs: "R s (fold AddLog ls s)"
  by (induction ls arbitrary: s) (auto intro: R_refl R_log R_trans)

lemma keeps_finishCall: "keeps R P (finishCall L off n res)"
  unfolding finishCall_def by (intro keeps_intros keeps_modGas_any)

lemma keeps_IncrementNonce:
  "\<not> IsStaticVal c \<Longrightarrow> (\<And>g. P g \<Longrightarrow> cfgContract g = c) \<Longrightarrow> keeps R P (modAccount (IncrementNonce (AddressVal c)))"
  unfolding modAccount_def
  by (rule keeps_guarded [where f = "\<lambda>b s. s\<lparr>account := IncrementNonce b (account s)\<rparr>"])
    (simp_all add: R_nonce)

lemma keeps_SetCode:
  "\<not> IsStaticVal c \<Longrightarrow> (\<And>g. P g \<Longrightarrow> cfgContract g = c) \<Longrightarrow> keeps R P (modAccount (SetCode (keccak256 L) a code))"
  unfolding modAccount_def
  by (rule keeps_guarded [where f = "\<lambda>b s. s\<lparr>account := SetCode (keccak256 L) a code (account s)\<rparr>"])
    (simp_all add: R_code)

lemma keeps_finishCreate:
  "\<not> IsStaticVal c \<Longrightarrow> (\<And>g. P g \<Longrightarrow> cfgContract g = c) \<Longrightarrow> keeps R P (finishCreate L f a res)"
  unfolding finishCreate_def Let_def by (intro keeps_intros keeps_modGas_any keeps_SetCode)

lemma keeps_opCallCommon:
  assumes "\<And>g. P g \<Longrightarrow> hooks_respect R (cfgHooks g)"
    and "\<And>msg. keeps R (\<lambda>g. P g \<and> msgAllowed (cfgContract g) msg) (call msg)"
  shows "keeps R P (opCallCommon L call kind)"
  unfolding opCallCommon_def callSend_def
  by (intro keeps_intros keeps_dispatch keeps_finishCall keeps_weaken [OF assms(2)])
    (auto simp: msgAllowed_def dest: assms(1))

lemma keeps_opCreate:
  assumes "\<And>msg. keeps R (\<lambda>g. P g \<and> msgAllowed (cfgContract g) msg) (call msg)"
  shows "keeps R P (opCreate L call b)"
  unfolding opCreate_def createSend_def
  by (intro keeps_intros keeps_weaken [OF assms])
    (auto simp: msgAllowed_def intro!: keeps_IncrementNonce keeps_finishCreate)

text \<open>Executing a message, given that running a frame keeps \<open>R\<close>.\<close>

lemma R_enter_child:
  assumes en: "enters s msg" and child: "R (newChildState L msg' (enterMessage msg s)) c"
    and st: "msgIsStatic msg' = msgIsStatic msg"
  shows "R (enterMessage msg s) (adoptShared (enterMessage msg s) c)"
  by (rule R_child [OF _ child]) (use en in \<open>simp add: enters_def msgAllowed_def st\<close>)

lemma keeps_ExecuteMessage:
  assumes run: "\<And>e code res e'. hooks_respect R (hooks e) \<Longrightarrow> run e code = Some (res, e') \<Longrightarrow> R (state e) (state e')"
  shows "keeps R (\<lambda>g. hooks_respect R (cfgHooks g) \<and> msgAllowed (cfgContract g) msg) (ExecuteMessage L run msg)"
proof (rule keepsI)
  fix e :: "'h EVM" and r e'
  let ?s = "state e" and ?e1 = "e\<lparr>state := enterMessage msg (state e)\<rparr>"
  assume P: "hooks_respect R (cfgHooks (cfg e)) \<and> msgAllowed (cfgContract (cfg e)) msg"
    and ex: "ExecuteMessage L run msg e = Some (r, e')"
  have hk: "hooks_respect R (hooks e)" and ma: "msgAllowed (contract ?s) msg"
    using P by (simp_all add: cfg_def)
  show "R (state e) (state e') \<and> cfg e' = cfg e"
  proof (cases "msgCallDepth msg \<ge> 1024 \<or> msgIsStatic msg \<and> msgPays msg \<or>
      msgPays msg \<and> Balance (msgCaller msg) (account ?s) < msgAmount msg")
    case True
    then have "e' = e" using ex by (auto simp: ExecuteMessage_def split: if_splits)
    then show ?thesis by (simp add: R_refl)
  next
    case False
    then have en: "enters ?s msg" using ma by (auto simp: enters_def)
    note in1 = R_enter [OF en]
    show ?thesis
    proof (cases "resolvePrecompile (msgCodeAddr msg) ?e1")
      case (Some p)
      have "state e' = enterMessage msg ?s \<or> state e' = rolledBack ?s (enterMessage msg ?s)"
        "cfg e' = cfg e"
        using ex False Some
        by (auto simp: ExecuteMessage_def Let_def rolledBack_def cfg_def split: outcome.splits if_splits)
      then show ?thesis using in1 R_rollback [OF en R_refl] by auto
    next
      case None
      define code where "code = (if msgCode msg = [] then accCode (msgCodeAddr msg) (account (state ?e1)) else msgCode msg)"
      obtain res err c where c: "run (childEVM L (msg\<lparr>msgCode := code\<rparr>) ?e1) code = Some ((res, err), c)"
        using ex False None by (auto simp: ExecuteMessage_def Let_def code_def split: option.splits prod.splits)
      let ?s2 = "adoptShared (enterMessage msg ?s) (state c)"
      have "R (newChildState L (msg\<lparr>msgCode := code\<rparr>) (enterMessage msg ?s)) (state c)"
        using run [OF _ c] hk by (simp add: childEVM_def SetHooks_def NewEVM_def)
      then have adopt: "R (enterMessage msg ?s) ?s2" by (rule R_enter_child [OF en]) simp
      have "state e' = fold AddLog (logs (state c)) ?s2 \<or> state e' = rolledBack ?s ?s2" "cfg e' = cfg e"
        using ex False None c [unfolded code_def]
        by (auto simp: ExecuteMessage_def Let_def code_def rolledBack_def cfg_def split: if_splits)
      moreover have "R ?s (fold AddLog (logs (state c)) ?s2)"
        using in1 adopt R_logs R_trans by metis
      ultimately show ?thesis using R_rollback [OF en adopt] by auto
    qed
  qed
qed

lemma keeps_runLoop: "keeps R (\<lambda>g. hooks_respect R (cfgHooks g)) (runLoop n L code)"
proof (induction n arbitrary: code)
  case 0
  show ?case by (rule keepsI) simp
next
  case (Suc n)
  have run: "R (state e) (state e')"
    if hk: "hooks_respect R (hooks e)" and rw: "runWith (runLoop n L) e code = Some (res, e')" for e code res e'
  proof -
    obtain q where "runLoop n L code (e\<lparr>jumpdests := analyzeJumpdests code\<rparr>) = Some (q, e')"
      using rw by (auto simp: runWith_def split: option.splits outcome.splits)
    from keepsD [OF Suc.IH _ this] hk show ?thesis by (simp add: cfg_def)
  qed
  show ?case
    unfolding runLoop.simps
    by (intro keeps_intros keeps_loopIter keeps_opCallCommon keeps_opCreate keeps_ExecuteMessage Suc.IH run) assumption+
qed

text \<open>Running a frame keeps \<open>R\<close>, and so does executing a message.\<close>

lemma Run_keeps:
  assumes "Run L n e code = Some (res, e')" "hooks_respect R (hooks e)"
  shows "R (state e) (state e')"
proof -
  obtain q where "runLoop n L code (e\<lparr>jumpdests := analyzeJumpdests code\<rparr>) = Some (q, e')"
    using assms(1) by (auto simp: Run_def runWith_def split: option.splits outcome.splits)
  from keepsD [OF keeps_runLoop _ this] assms(2) show ?thesis by (simp add: cfg_def)
qed

lemma ExecuteMessage_keeps:
  assumes "ExecuteMessage L (Run L n) msg e = Some (res, e')" "hooks_respect R (hooks e)"
    "msgAllowed (contract (state e)) msg"
  shows "R (state e) (state e')"
proof -
  note k = keeps_ExecuteMessage [of "Run L n" msg, OF Run_keeps]
  have "hooks_respect R (cfgHooks (cfg e)) \<and> msgAllowed (cfgContract (cfg e)) msg"
    using assms by (simp add: cfg_def)
  from keepsD [OF k this assms(1)] show ?thesis by simp
qed

end

end
