(* ===== verification/Invariants.thy ===== *)
theory Invariants
  imports Preserve
begin

text \<open>
  The invariants of the interpreter, each a relation between the state a frame starts in and the state
  it leaves, interpreted in the locales of \<open>Preserve\<close>: the stack and memory bounds, the growth of the
  snapshot lists and the access list, what a static frame may not change, the atomicity of failed
  messages, and the conservation of ether.
\<close>

subsection \<open>Stack and memory shape\<close>

definition shape_rel :: "Lib \<Rightarrow> 'h evmState \<Rightarrow> 'h evmState \<Rightarrow> bool" where
  "shape_rel L s t \<longleftrightarrow>
     (stack_ok (stack s) \<longrightarrow> stack_ok (stack t)) \<and>
     (maxAlloc L < 2 ^ 63 \<longrightarrow> mem_ok (memory s) \<longrightarrow> mem_ok (memory t) \<and> length (memory s) \<le> length (memory t))"

lemma msg_frame [simp]:
  "stack (enterMessage msg s) = stack s" "memory (enterMessage msg s) = memory s"
  "stack (adoptShared s c) = stack s" "memory (adoptShared s c) = memory s"
  "stack (rolledBack s t) = stack t" "memory (rolledBack s t) = memory t"
  "stack (AddLog l s) = stack s" "memory (AddLog l s) = memory s"
  by (simp_all add: enterMessage_def adoptShared_def rolledBack_def revertMessage_def AddLog_def)

interpretation shape: message_relation "shape_rel L" L for L
  by unfold_locales (auto simp: shape_rel_def)

subsection \<open>Snapshots and warm entries only accumulate\<close>

definition grow_rel :: "'h evmState \<Rightarrow> 'h evmState \<Rightarrow> bool" where
  "grow_rel s t \<longleftrightarrow>
     prefix (snapshots (account s)) (snapshots (account t)) \<and>
     prefix (stoSnapshots (storage s)) (stoSnapshots (storage t)) \<and>
     (\<forall>a. IsAddressWarmed a (accessList s) \<longrightarrow> IsAddressWarmed a (accessList t)) \<and>
     (\<forall>a k. IsSlotWarmed a k (accessList s) \<longrightarrow> IsSlotWarmed a k (accessList t))"

lemma snapshots_selfdestruct [simp]: "snapshots (selfdestructAccount a b acc) = snapshots acc"
  by (simp add: selfdestructAccount_def Let_def)

lemma snapshots_enter [simp]:
  "snapshots (transferValue msg acc) = snapshots acc" "snapshots (prepareCallee msg acc) = snapshots acc"
  by (simp_all add: transferValue_def prepareCallee_def Let_def)

lemma snapshots_enterMessage:
  "snapshots (account (enterMessage msg s)) = snapshots (snd (accSnapshot (account s)))"
  "stoSnapshots (storage (enterMessage msg s)) = stoSnapshots (snd (stoSnapshot (storage s)))"
  by (simp_all add: enterMessage_def)

lemma shared_child [simp]:
  "account (newChildState L msg s) = account s" "storage (newChildState L msg s) = storage s"
  "transientStorage (newChildState L msg s) = transientStorage s"
  "accessList (newChildState L msg s) = accessList s"
  by (simp_all add: newChildState_def NewEVMState_def Let_def split: prod.splits)

lemma contract_child [simp]: "IsStaticVal (contract (newChildState L msg s)) = msgIsStatic msg"
  by (simp add: newChildState_def NewEVMState_def Let_def split: prod.splits CallKind.splits)

lemma shared_adopt [simp]:
  "account (adoptShared s c) = account c" "storage (adoptShared s c) = storage c"
  "transientStorage (adoptShared s c) = transientStorage c" "accessList (adoptShared s c) = accessList c"
  by (simp_all add: adoptShared_def)

lemma shared_AddLog [simp]:
  "account (AddLog l s) = account s" "storage (AddLog l s) = storage s"
  "transientStorage (AddLog l s) = transientStorage s" "accessList (AddLog l s) = accessList s"
  by (simp_all add: AddLog_def)

lemma other_enter [simp]:
  "transientStorage (enterMessage msg s) = transientStorage s" "accessList (enterMessage msg s) = accessList s"
  "transientStorage (rolledBack s t) = transientStorage t" "accessList (rolledBack s t) = accessList t"
  by (simp_all add: enterMessage_def rolledBack_def revertMessage_def)

text \<open>Rolling back after any growth restores what the accounts and the storage held, and the snapshot
  lists.\<close>

lemma rolledBack_restores:
  assumes "grow_rel (enterMessage msg s) t"
  shows "accView (account (rolledBack s t)) = accView (account s)"
    "stoView (storage (rolledBack s t)) = stoView (storage s)"
    "snapshots (account (rolledBack s t)) = snapshots (account s)"
    "stoSnapshots (storage (rolledBack s t)) = stoSnapshots (storage s)"
proof -
  have a: "prefix (snapshots (snd (accSnapshot (account s)))) (snapshots (account t))"
    and b: "prefix (stoSnapshots (snd (stoSnapshot (storage s)))) (stoSnapshots (storage t))"
    using assms by (simp_all add: grow_rel_def snapshots_enterMessage)
  show "accView (account (rolledBack s t)) = accView (account s)"
    "snapshots (account (rolledBack s t)) = snapshots (account s)"
    using acc.revert_snap [OF a] by (simp_all add: rolledBack_def revertMessage_def)
  show "stoView (storage (rolledBack s t)) = stoView (storage s)"
    "stoSnapshots (storage (rolledBack s t)) = stoSnapshots (storage s)"
    using sto.revert_snap [OF b] by (simp_all add: rolledBack_def revertMessage_def)
qed

lemma grow_rel_enter: "grow_rel s (enterMessage msg s)"
  using acc.snap_extends sto.snap_extends by (simp add: grow_rel_def snapshots_enterMessage)

lemma grow_rel_warm:
  "IsAddressWarmed b al \<Longrightarrow> IsAddressWarmed b (WarmAddress a al)"
  "IsSlotWarmed b k al \<Longrightarrow> IsSlotWarmed b k (WarmSlot a j al)"
  "IsSlotWarmed b k (WarmAddress a al) = IsSlotWarmed b k al"
  "IsAddressWarmed b (WarmSlot a j al) = IsAddressWarmed b al"
  by (simp_all add: IsAddressWarmed_def WarmAddress_def IsSlotWarmed_def WarmSlot_def)

lemma grow_rel_rollback: "grow_rel (enterMessage msg s) t \<Longrightarrow> grow_rel s (rolledBack s t)"
  using rolledBack_restores [of msg s t] by (simp add: grow_rel_def)

interpretation grow: message_relation grow_rel L for L
proof unfold_locales
  fix s t u :: "'h evmState"
  show "grow_rel s t \<Longrightarrow> grow_rel t u \<Longrightarrow> grow_rel s u"
    unfolding grow_rel_def by (blast intro: prefix_order.trans)
qed (simp_all add: grow_rel_enter grow_rel_rollback, simp_all add: grow_rel_def grow_rel_warm)

subsection \<open>Static frames\<close>

definition static_rel :: "'h evmState \<Rightarrow> 'h evmState \<Rightarrow> bool" where
  "static_rel s t \<longleftrightarrow>
     grow_rel s t \<and> contract t = contract s \<and>
     (IsStaticVal (contract s) \<longrightarrow>
        accView (account t) = accView (account s) \<and> stoView (storage t) = stoView (storage s) \<and>
        transientStorage t = transientStorage s)"

lemma static_rel_enter: "enters s msg \<Longrightarrow> static_rel s (enterMessage msg s)"
  using grow_rel_enter [of s msg] acc.snap_view [of "account s"] sto.snap_view [of "storage s"]
  by (auto simp: static_rel_def enters_def msgAllowed_def enterMessage_def transferValue_def prepareCallee_def)

lemma static_rel_child:
  assumes "IsStaticVal (contract s) \<longrightarrow> msgIsStatic msg" "static_rel (newChildState L msg s) c"
  shows "static_rel s (adoptShared s c)"
  using assms by (simp add: static_rel_def grow_rel_def)

lemma static_rel_rollback:
  assumes "enters s msg" "static_rel (enterMessage msg s) t"
  shows "static_rel s (rolledBack s t)"
  using assms rolledBack_restores [of msg s t] grow_rel_rollback [of msg s t]
  by (simp add: static_rel_def) (simp add: rolledBack_def)

interpretation static: message_relation static_rel L for L
proof unfold_locales
  fix s t u :: "'h evmState"
  show "static_rel s t \<Longrightarrow> static_rel t u \<Longrightarrow> static_rel s u"
    unfolding static_rel_def by (metis grow.R_trans)
qed (simp_all add: static_rel_enter static_rel_child static_rel_rollback,
    simp_all add: static_rel_def grow_rel_def grow_rel_warm)

subsection \<open>Ether\<close>

definition etherTotal :: "InMemoryAccountState \<Rightarrow> int" where
  "etherTotal acc = (\<Sum>a\<in>UNIV. Balance a acc)"

definition ledger_ok :: "InMemoryAccountState \<Rightarrow> bool" where
  "ledger_ok acc \<longleftrightarrow> (\<forall>a. 0 \<le> Balance a acc \<and> (Balance a acc \<noteq> 0 \<longrightarrow> Exists a acc))"

lemma sum_update:
  fixes f :: "Address \<Rightarrow> int"
  shows "(\<Sum>b\<in>UNIV. if b = a then v else f b) = (\<Sum>b\<in>UNIV. f b) - f a + v"
proof -
  have "(\<Sum>b\<in>UNIV. if b = a then v else f b) = (\<Sum>b\<in>UNIV. f b + (if b = a then v - f a else 0))"
    by (intro sum.cong) auto
  then show ?thesis by (simp add: sum.distrib)
qed

lemma etherTotal_writes:
  "etherTotal (AddBalance a v acc) = etherTotal acc + v"
  "etherTotal (SubBalance a v acc) = etherTotal acc - v"
  "etherTotal (SetBalance a v acc) = etherTotal acc - Balance a acc + v"
  "etherTotal (CreateAccount a acc) = etherTotal acc - Balance a acc"
  by (simp_all add: etherTotal_def sum_update)

lemma etherTotal_other [simp]:
  "etherTotal (SetNonce a n acc) = etherTotal acc" "etherTotal (IncrementNonce a acc) = etherTotal acc"
  "etherTotal (SetCode k a c acc) = etherTotal acc" "etherTotal (SelfDestruct a acc) = etherTotal acc"
  "etherTotal (snd (accSnapshot acc)) = etherTotal acc"
  by (simp_all add: etherTotal_def)

lemma ledger_view: "accView acc = accView acc' \<Longrightarrow> ledger_ok acc = ledger_ok acc' \<and> etherTotal acc = etherTotal acc'"
  by (simp add: ledger_ok_def etherTotal_def Balance_accView [of acc acc'] Exists_accView [of acc acc'])

lemma ledger_selfdestruct:
  "ledger_ok acc \<Longrightarrow> ledger_ok (selfdestructAccount a b acc) \<and> etherTotal (selfdestructAccount a b acc) = etherTotal acc"
  by (auto simp: selfdestructAccount_def Let_def etherTotal_writes ledger_ok_def)

lemma ledger_prepare: "ledger_ok acc \<Longrightarrow> ledger_ok (prepareCallee msg acc) \<and> etherTotal (prepareCallee msg acc) = etherTotal acc"
  by (auto simp: prepareCallee_def Let_def etherTotal_writes ledger_ok_def)

lemma Balance_prepare: "ledger_ok acc \<Longrightarrow> Balance a (prepareCallee msg acc) = Balance a acc"
  by (auto simp: prepareCallee_def Let_def ledger_ok_def)

lemma ledger_transfer:
  "ledger_ok acc \<Longrightarrow> (msgPays msg \<longrightarrow> msgAmount msg \<le> Balance (msgCaller msg) acc) \<Longrightarrow>
   ledger_ok (transferValue msg acc) \<and> etherTotal (transferValue msg acc) = etherTotal acc"
  by (auto simp: transferValue_def etherTotal_writes ledger_ok_def msgPays_def msgAmount_def split: option.splits)

definition money_rel :: "'h evmState \<Rightarrow> 'h evmState \<Rightarrow> bool" where
  "money_rel s t \<longleftrightarrow>
     grow_rel s t \<and> (ledger_ok (account s) \<longrightarrow> ledger_ok (account t) \<and> etherTotal (account t) = etherTotal (account s))"

lemma ledger_snapshot [simp]: "ledger_ok (snd (accSnapshot acc)) = ledger_ok acc"
  by (simp add: ledger_ok_def)

lemma money_rel_enter:
  assumes "enters s msg"
  shows "money_rel s (enterMessage msg s)"
proof -
  let ?acc = "snd (accSnapshot (account s))"
  have "ledger_ok (transferValue msg (prepareCallee msg ?acc)) \<and> etherTotal (transferValue msg (prepareCallee msg ?acc)) = etherTotal (account s)"
    if "ledger_ok (account s)"
    using ledger_prepare [of ?acc msg] ledger_transfer [of "prepareCallee msg ?acc" msg] that assms
    by (simp add: Balance_prepare enters_def)
  then show ?thesis using grow_rel_enter [of s msg] by (simp add: money_rel_def enterMessage_def)
qed

lemma money_rel_rollback:
  assumes "money_rel (enterMessage msg s) t"
  shows "money_rel s (rolledBack s t)"
  using assms rolledBack_restores(1) [of msg s t] ledger_view [of "account (rolledBack s t)" "account s"]
    grow_rel_rollback [of msg s t]
  by (simp add: money_rel_def)

interpretation money: message_relation money_rel L for L
proof unfold_locales
  fix s t u :: "'h evmState"
  show "money_rel s t \<Longrightarrow> money_rel t u \<Longrightarrow> money_rel s u"
    unfolding money_rel_def using grow.R_trans by (metis (mono_tags))
qed (simp_all add: money_rel_enter money_rel_rollback,
    simp_all add: money_rel_def grow_rel_def grow_rel_warm ledger_selfdestruct, simp_all add: ledger_ok_def)

subsection \<open>Failed messages\<close>

lemma fold_AddLog_shared [simp]:
  "account (fold AddLog ls s) = account s" "storage (fold AddLog ls s) = storage s"
  by (induction ls arbitrary: s) simp_all

text \<open>A message that does not succeed either never entered, or was rolled back.\<close>

lemma ExecuteMessage_failed:
  assumes ex: "ExecuteMessage L (Run L n) msg e = Some (Ok (res, err), e')" and fail: "Status res \<noteq> StatusSuccess"
    and hk: "hooks_respect grow_rel (hooks e)"
  shows "accView (account (state e')) = accView (account (state e)) \<and>
    stoView (storage (state e')) = stoView (storage (state e))"
proof -
  let ?s = "state e" and ?e1 = "e\<lparr>state := enterMessage msg (state e)\<rparr>"
  show ?thesis
  proof (cases "msgCallDepth msg \<ge> 1024 \<or> msgIsStatic msg \<and> msgPays msg \<or>
      msgPays msg \<and> Balance (msgCaller msg) (account ?s) < msgAmount msg")
    case True
    then have "e' = e" using ex by (auto simp: ExecuteMessage_def split: if_splits)
    then show ?thesis by simp
  next
    case False
    show ?thesis
    proof (cases "resolvePrecompile (msgCodeAddr msg) ?e1")
      case (Some p)
      have "state e' = rolledBack ?s (enterMessage msg ?s)"
        using ex False Some fail
        by (auto simp: ExecuteMessage_def Let_def rolledBack_def split: outcome.splits if_splits)
      then show ?thesis using rolledBack_restores [of msg ?s "enterMessage msg ?s", OF grow.R_refl] by simp
    next
      case None
      define code where "code = (if msgCode msg = [] then accCode (msgCodeAddr msg) (account (state ?e1)) else msgCode msg)"
      obtain res2 err2 c where c: "Run L n (childEVM L (msg\<lparr>msgCode := code\<rparr>) ?e1) code = Some ((res2, err2), c)"
        using ex False None by (auto simp: ExecuteMessage_def Let_def code_def split: option.splits prod.splits)
      have e': "state e' = rolledBack ?s (adoptShared (enterMessage msg ?s) (state c))"
        using ex False None c [unfolded code_def] fail
        by (auto simp: ExecuteMessage_def Let_def code_def rolledBack_def split: if_splits)
      have "grow_rel (newChildState L (msg\<lparr>msgCode := code\<rparr>) (enterMessage msg ?s)) (state c)"
        using grow.Run_keeps [OF c] hk by (simp add: childEVM_def SetHooks_def NewEVM_def)
      then have "grow_rel (enterMessage msg ?s) (adoptShared (enterMessage msg ?s) (state c))"
        by (simp add: grow_rel_def)
      then show ?thesis using rolledBack_restores [of msg ?s] by (simp add: e')
    qed
  qed
qed

end
