(* ===== verification/Totality.thy ===== *)
theory Totality
  imports Preserve
begin

text \<open>
  Which pieces of the interpreter always end: every one of them but the messages of CALL and CREATE.
  \<open>ends m\<close> says that \<open>m\<close> never runs out of fuel; the rules follow the structure of the code, as those
  of \<open>keeps\<close> do. Two computations agree up to fuel when whatever the first returns the second returns
  too; \<open>runLoop_mono\<close> rests on that: more fuel never changes a result.
\<close>

definition ends :: "('h, 'a) M \<Rightarrow> bool" where
  "ends m \<longleftrightarrow> (\<forall>e. m e \<noteq> None)"

named_theorems ends_intros \<open>compositional rules for \<open>ends\<close>\<close>

lemma endsI: "(\<And>e. m e \<noteq> None) \<Longrightarrow> ends m"
  by (simp add: ends_def)

lemma endsD: "ends m \<Longrightarrow> m e \<noteq> None"
  by (simp add: ends_def)

lemma endsE:
  assumes "ends m"
  obtains r e' where "m e = Some (r, e')"
  using endsD [OF assms, of e] by auto

lemma ends_seq [ends_intros]:
  assumes "ends m" "\<And>x. ends (f x)"
  shows "ends (seq m f)"
proof (rule endsI)
  fix e
  obtain q e1 where "m e = Some (q, e1)" using assms(1) by (rule endsE)
  then show "seq m f e \<noteq> None"
    using endsD [OF assms(2)] by (cases q) (simp_all add: seq_def del: not_None_eq)
qed

lemma ends_thn [ends_intros]: "ends m \<Longrightarrow> ends k \<Longrightarrow> ends (thn m k)"
  unfolding thn_def by (rule ends_seq)

lemma ends_control [ends_intros]:
  "(b \<Longrightarrow> ends m) \<Longrightarrow> (\<not> b \<Longrightarrow> ends k) \<Longrightarrow> ends (if b then m else k)"
  "ends m \<Longrightarrow> (\<And>y. ends (f y)) \<Longrightarrow> ends (case x of None \<Rightarrow> m | Some y \<Rightarrow> f y)"
  "(\<And>y z. ends (g y z)) \<Longrightarrow> ends (case p of (y, z) \<Rightarrow> g y z)"
  "(\<And>y. ends (h y)) \<Longrightarrow> (\<And>z. ends (h' z)) \<Longrightarrow> ends (case s of Inl y \<Rightarrow> h y | Inr z \<Rightarrow> h' z)"
  "ends m \<Longrightarrow> ends k \<Longrightarrow> ends (case c of True \<Rightarrow> m | False \<Rightarrow> k)"
  "(\<And>x. x = v \<Longrightarrow> ends (l x)) \<Longrightarrow> ends (let x = v in l x)"
  by (simp_all split: option.split prod.split sum.split bool.split)

lemma ends_pure [ends_intros]:
  "ends (ret x)" "ends (throw err)" "ends (gets f)" "ends (lift oc)" "ends (modify g)" "ends (getState h)"
  "ends getContract" "ends incPc" "ends (consume amount)"
  by (rule endsI; simp add: ret_def throw_def gets_def lift_def modify_def getState_def getContract_def incPc_def
      consume_def split: prod.split)+

lemma ends_onState [ends_intros]: "ends (onState f)"
  by (rule endsI) (simp add: onState_def split: outcome.split prod.split)

lemma ends_state [ends_intros]:
  "ends popW" "ends (pushW w)" "ends (swapM n)" "ends (dupM n)" "ends (peekN n)" "ends (modGas gf)"
  "ends (memResize L sz)" "ends (memSet L off dat)" "ends (memGet L off sz)" "ends (modAccount af)"
  "ends (modStorage sf)" "ends (modTransient tf)" "ends (modAccessList lf)" "ends (addLogM lg)"
  unfolding popW_def pushW_def swapM_def dupM_def peekN_def modGas_def memResize_def memSet_def memGet_def
    modAccount_def modStorage_def modTransient_def modAccessList_def addLogM_def
  by (rule ends_onState)+

lemma ends_derived [ends_intros]:
  "ends popBig" "ends popU64" "ends popAddress" "ends (pushBig i)" "ends (pushBigPtr p)"
  "ends (pushAddress a)" "ends (pushLen n)" "ends (pushInt64 u)" "ends (pushBool b)" "ends (peekU64 j)"
  unfolding popBig_def popU64_def popAddress_def pushBig_def pushBigPtr_def pushAddress_def pushLen_def
    pushInt64_def pushBool_def peekU64_def
  by (intro ends_intros)+

lemma ends_attempt [ends_intros]: "ends m \<Longrightarrow> ends (attempt m)"
  by (rule endsI) (auto simp: ends_def attempt_def split: outcome.split option.split)

subsection \<open>Hooks\<close>

lemma ends_fireHook [ends_intros]: "ends (fireHook h ctx)"
  by (rule endsI) (simp add: fireHook_def split: prod.split)

lemma ends_fireAll [ends_intros]: "(\<And>r. ends (react r)) \<Longrightarrow> ends (fireAll ctx react d hs)"
  by (induction hs) (auto intro!: ends_intros)

lemma ends_react [ends_intros]:
  "ends (memoryReact r)" "ends (storageReact r)" "ends (callReact r)" "ends (haltWith err d)"
  by (auto simp: haltWith_def intro!: ends_intros split: HookAction.split ResultData.split)

lemma ends_pushAll [ends_intros]: "ends (pushAll ws)"
  by (induction ws) (auto intro: ends_intros)

lemma ends_opcodeReact [ends_intros]: "ends (opcodeReact r)"
  by (auto simp: opcodeReact_def intro!: ends_intros split: HookAction.split ResultData.split)

lemma ends_dispatch [ends_intros]:
  "ends (hooksForM t)" "ends (dispatchMemoryAccessHook opc t ma)" "ends (dispatchStorageAccessHook opc t sa)"
  "ends (dispatchCallHook opc t ci)" "ends (dispatchHooks opc g c)"
  unfolding hooksForM_def dispatchMemoryAccessHook_def dispatchStorageAccessHook_def dispatchCallHook_def
    dispatchHooks_def
  by (intro ends_intros)+

subsection \<open>Handlers\<close>

lemma ends_arith [ends_intros]:
  "ends opStop" "ends opAdd" "ends opMul" "ends opSub" "ends opDiv" "ends opSdiv" "ends opMod"
  "ends opSmod" "ends opAddmod" "ends opMulmod" "ends opExp" "ends opSignextend"
  unfolding opStop_def opAdd_def opMul_def opSub_def opDiv_def opSdiv_def opMod_def opSmod_def
    opAddmod_def opMulmod_def opExp_def opSignextend_def
  by (intro ends_intros)+

lemma ends_cmp [ends_intros]:
  "ends opLt" "ends opGt" "ends opSlt" "ends opSgt" "ends opEq" "ends opIszero" "ends opAnd"
  "ends opOr" "ends opXor" "ends opNot" "ends opByte" "ends opShl" "ends opShr" "ends opSar" "ends opClz"
  unfolding opLt_def opGt_def opSlt_def opSgt_def opEq_def opIszero_def opAnd_def opOr_def opXor_def
    opNot_def opByte_def opShl_def opShr_def opSar_def opClz_def
  by (intro ends_intros)+

lemma ends_env [ends_intros]:
  "ends opAddress" "ends opBalance" "ends opOrigin" "ends opCaller" "ends opCallvalue"
  "ends opCalldataload" "ends opCalldatasize" "ends (opCalldatacopy L)" "ends opCodesize"
  "ends (opCodecopy L)" "ends opGasprice" "ends opExtcodesize" "ends (opExtcodecopy L)"
  "ends opReturndatasize" "ends (opReturndatacopy L)" "ends opExtcodehash"
  unfolding env_defs by (intro ends_intros)+

lemma ends_block [ends_intros]:
  "ends opBlockhash" "ends opCoinbase" "ends opTimestamp" "ends opNumber" "ends opPrevrandao"
  "ends opGaslimit" "ends opChainid" "ends opSelfbalance" "ends opBasefee" "ends opBlobhash" "ends opBlobbasefee"
  unfolding env_defs by (intro ends_intros)+

lemma ends_popTopics [ends_intros]: "ends (popTopics n)"
  by (induction n) (auto intro!: ends_intros)

lemma ends_data [ends_intros]:
  "ends opMsize" "ends (opKeccak256 L)" "ends opJump" "ends opJumpi" "ends opPc" "ends opGas"
  "ends opJumpdest" "ends opPop" "ends opPush0" "ends (opPush code n)" "ends (opDup i)" "ends (opSwap i)"
  "ends (opLog L n)"
  unfolding data_defs by (intro ends_intros)+

lemma ends_hooked [ends_intros]:
  "ends (opMload L)" "ends (opMstore L)" "ends (opMstore8 L)" "ends (opMcopy L)" "ends opSload"
  "ends opTload" "ends opSstore" "ends opTstore"
  unfolding data_defs opSstore_def opTstore_def by (intro ends_intros)+

lemma ends_leave [ends_intros]:
  "ends (opReturn L)" "ends (opRevert L)" "ends opInvalid" "ends opSelfdestruct"
  unfolding opReturn_def opRevert_def opInvalid_def leaveWith_def opSelfdestruct_def by (intro ends_intros)+

lemma ends_finish [ends_intros]: "ends (finishCall L off n res)" "ends (finishCreate L f a res)"
  unfolding finishCall_def finishCreate_def Let_def by (intro ends_intros)+

lemma ends_calcDynamicGas [ends_intros]: "ends (calcDynamicGas opc)"
  unfolding calcDynamicGas_def needStack_def expandGas_def accessCostAddress_def accessCostStorage_def
  by (intro ends_intros)

subsection \<open>More fuel\<close>

definition fuel_le :: "('h, 'a) M \<Rightarrow> ('h, 'a) M \<Rightarrow> bool" where
  "fuel_le m m' \<longleftrightarrow> (\<forall>e x. m e = Some x \<longrightarrow> m' e = Some x)"

named_theorems fuel_intros \<open>compositional rules for \<open>fuel_le\<close>\<close>

lemma fuel_leD: "fuel_le m m' \<Longrightarrow> m e = Some x \<Longrightarrow> m' e = Some x"
  unfolding fuel_le_def by blast

lemma fuel_seq [fuel_intros]:
  assumes "fuel_le m m'" "\<And>x. fuel_le (f x) (f' x)"
  shows "fuel_le (seq m f) (seq m' f')"
  unfolding fuel_le_def
proof (intro allI impI)
  fix e x
  assume run: "seq m f e = Some x"
  then obtain q e1 where m: "m e = Some (q, e1)" by (auto simp: seq_def split: option.splits)
  then show "seq m' f' e = Some x"
    using run fuel_leD [OF assms(1) m] fuel_leD [OF assms(2)] by (cases q) (simp_all add: seq_def)
qed

lemma fuel_thn [fuel_intros]: "fuel_le m m' \<Longrightarrow> fuel_le k k' \<Longrightarrow> fuel_le (thn m k) (thn m' k')"
  unfolding thn_def by (rule fuel_seq)

lemma fuel_control [fuel_intros]:
  "fuel_le m m' \<Longrightarrow> fuel_le k k' \<Longrightarrow> fuel_le (if b then m else k) (if b then m' else k')"
  "(\<And>y z. fuel_le (g y z) (g' y z)) \<Longrightarrow> fuel_le (case p of (y, z) \<Rightarrow> g y z) (case p of (y, z) \<Rightarrow> g' y z)"
  "(\<And>y. fuel_le (h y) (h' y)) \<Longrightarrow> (\<And>z. fuel_le (j z) (j' z)) \<Longrightarrow>
   fuel_le (case s of Inl y \<Rightarrow> h y | Inr z \<Rightarrow> j z) (case s of Inl y \<Rightarrow> h' y | Inr z \<Rightarrow> j' z)"
  "fuel_le m m' \<Longrightarrow> (\<And>y. fuel_le (f y) (f' y)) \<Longrightarrow>
   fuel_le (case x of None \<Rightarrow> m | Some y \<Rightarrow> f y) (case x of None \<Rightarrow> m' | Some y \<Rightarrow> f' y)"
  by (simp_all split: option.split prod.split sum.split)

lemma fuel_attempt [fuel_intros]: "fuel_le m m' \<Longrightarrow> fuel_le (attempt m) (attempt m')"
  unfolding fuel_le_def attempt_def by (auto split: option.splits)

lemma fuel_refl [fuel_intros]: "fuel_le m m"
  by (simp add: fuel_le_def)

lemma fuel_opCallCommon [fuel_intros]:
  "(\<And>msg. fuel_le (call msg) (call' msg)) \<Longrightarrow> fuel_le (opCallCommon L call kind) (opCallCommon L call' kind)"
  unfolding opCallCommon_def callSend_def Let_def by (intro fuel_intros)

lemma fuel_opCreate [fuel_intros]:
  "(\<And>msg. fuel_le (call msg) (call' msg)) \<Longrightarrow> fuel_le (opCreate L call b) (opCreate L call' b)"
  unfolding opCreate_def createSend_def Let_def by (intro fuel_intros)

lemma fuel_loopIter [fuel_intros]:
  assumes "\<And>msg. fuel_le (call msg) (call' msg)"
  shows "fuel_le (loopIter L call code) (loopIter L call' code)"
  unfolding loopIter_defs execute_def opCall_def opCallcode_def opDelegatecall_def Let_def
  by (intro fuel_intros assms)

lemma fuel_runWith:
  "fuel_le (loop code) (loop' code) \<Longrightarrow> runWith loop e code = Some x \<Longrightarrow> runWith loop' e code = Some x"
  unfolding runWith_def fuel_le_def by (auto split: option.splits)

lemma fuel_ExecuteMessage:
  fixes run run' :: "'h runner"
  assumes "\<And>e code x. run e code = Some x \<Longrightarrow> run' e code = Some x"
  shows "fuel_le (ExecuteMessage L run msg) (ExecuteMessage L run' msg)"
proof -
  let ?code = "\<lambda>e. if msgCode msg = [] then accCode (msgCodeAddr msg) (account (enterMessage msg (state e))) else msgCode msg"
  let ?child = "\<lambda>e. childEVM L (msg\<lparr>msgCode := ?code e\<rparr>) (e\<lparr>state := enterMessage msg (state e)\<rparr>)"
  have cases: "run (?child e) (?code e) = None \<or> run' (?child e) (?code e) = run (?child e) (?code e)" for e
    by (cases "run (?child e) (?code e)") (simp_all add: assms)
  show ?thesis
    unfolding fuel_le_def
  proof (intro allI impI)
    fix e :: "'h EVM" and x
    assume ex: "ExecuteMessage L run msg e = Some x"
    show "ExecuteMessage L run' msg e = Some x"
    proof (cases "resolvePrecompile (msgCodeAddr msg) (e\<lparr>state := enterMessage msg (state e)\<rparr>)")
      case None
      from cases [of e] show ?thesis
      proof
        assume "run (?child e) (?code e) = None"
        with ex None show ?thesis by (simp add: ExecuteMessage_def Let_def split: if_splits)
      qed (use ex None in \<open>simp add: ExecuteMessage_def Let_def cong: if_cong option.case_cong\<close>)
    qed (use ex in \<open>simp add: ExecuteMessage_def Let_def cong: if_cong option.case_cong\<close>)
  qed
qed

lemma runLoop_step: "fuel_le (runLoop n L code :: ('h, runResult) M) (runLoop (Suc n) L code)"
proof (induction n arbitrary: code)
  case 0
  show ?case by (simp add: fuel_le_def)
next
  case (Suc n)
  have run: "runWith (runLoop n L) e c = Some x \<Longrightarrow> runWith (runLoop (Suc n) L) e c = Some x" for e :: "'h EVM" and c x
    by (rule fuel_runWith [where loop = "runLoop n L", OF Suc.IH])
  show ?case
    by (subst (1 2) runLoop.simps(2)) (intro fuel_intros Suc.IH fuel_ExecuteMessage run)
qed

lemma runLoop_mono: "n \<le> k \<Longrightarrow> fuel_le (runLoop n L code) (runLoop k L code)"
proof (induction k)
  case (Suc k)
  then show ?case
    by (cases "n = Suc k") (auto simp: le_Suc_eq fuel_le_def intro: fuel_refl dest: fuel_leD [OF runLoop_step] simp del: runLoop.simps)
qed (simp add: fuel_le_def)

lemma Run_mono: "n \<le> k \<Longrightarrow> Run L n e code = Some x \<Longrightarrow> Run L k e code = Some x"
  unfolding Run_def by (rule fuel_runWith [OF runLoop_mono])

end
