(* ===== verification/CallGas.thy ===== *)
theory CallGas
  imports Invariants Totality
begin

text \<open>
  The gas of the CALL and CREATE handlers. No other handler gives gas back, and these give back at most
  what they took (\<open>opCallCommon_gas\<close>, \<open>opCreate_gas\<close>). Two facts bound the results: the run has no hooks
  attached, and the memory a process can allocate (\<open>maxAlloc\<close>) is at most \<open>2 ^ 37 - 32\<close> bytes, up to
  which the square in the memory price does not wrap.
\<close>

abbreviation gasOf :: "'h EVM \<Rightarrow> nat" where
  "gasOf e \<equiv> unat (gas (gasMeter (state e)))"

subsection \<open>Gas in the handlers that make no call\<close>

definition gas_rel :: "'h evmState \<Rightarrow> 'h evmState \<Rightarrow> bool" where
  "gas_rel s t \<longleftrightarrow> unat (gas (gasMeter t)) \<le> unat (gas (gasMeter s))"

interpretation gas: frame_relation gas_rel L for L
  by unfold_locales (simp_all add: gas_rel_def AddLog_def)

subsection \<open>Memory prices\<close>

lemma ceil32_ceil32: "ceil32 (ceil32 n) = ceil32 n"
proof -
  have "unat (ceil32 (ceil32 n)) = unat (ceil32 n)"
    using unat_ceil32_nat [of "ceil32 n"] unat_ceil32_nat [of n] by (auto split: if_splits)
  then show ?thesis by (rule unsigned_word_eqI)
qed

lemma MemoryExpansionGas_bound:
  assumes "cur < new" "unat new \<le> 2 ^ 37 - 32"
  shows "unat (MemoryExpansionGas cur new) < 2 ^ 56"
proof -
  have cur: "unat cur \<le> 2 ^ 37 - 32" and le: "unat cur \<le> unat new" using assms by (simp_all add: unat_lt_nat)
  have w: "mem_words (unat new) < 2 ^ 32" using assms(2) by (simp add: mem_words_def)
  have "unat (MemoryGasCost cur) \<le> unat (MemoryGasCost new)"
    unfolding MemoryGasCost_exact [OF cur] MemoryGasCost_exact [OF assms(2)]
    using le by (intro mem_cost_mono) (simp add: mem_words_def div_le_mono)
  then have "unat (MemoryGasCost new - MemoryGasCost cur) \<le> unat (MemoryGasCost new)"
    by (simp add: unat_sub_le unat_le_nat)
  also have "\<dots> < 2 ^ 56" using mem_cost_bound [OF w] by (simp only: MemoryGasCost_exact [OF assms(2)])
  finally show ?thesis using assms(1) by (simp add: MemoryExpansionGas_def)
qed

text \<open>When the expansion a price was computed for succeeds, the price was 0, a sentinel, or small.\<close>

lemma ExpandSize_price:
  assumes "ExpandSize off n m = (g, sz)" "MemResize lim sz m = Ok m'" "lim \<le> 2 ^ 37 - 32"
  shows "g = maxU64 \<or> unat g < 2 ^ 56"
proof -
  consider "g = 0" | "g = maxU64" | (grow) e where "ulen m < ceil32 e" "g = MemoryExpansionGas (ulen m) (ceil32 e)" "sz = ceil32 e"
    using assms(1) by (auto simp: ExpandSize_def Let_def split: if_splits)
  then show ?thesis
  proof cases
    case grow
    then have "unat (ceil32 e) \<le> lim"
      using assms(2) by (auto simp: MemResize_def Let_def ceil32_ceil32 dest!: make_bytes_OkD)
    with grow MemoryExpansionGas_bound [of "ulen m" "ceil32 e"] assms(3) show ?thesis by simp
  qed simp_all
qed

subsection \<open>Weakest preconditions\<close>

text \<open>\<open>wp m e Q\<close>: from \<open>e\<close>, \<open>m\<close> ends within its fuel and what it ends in satisfies \<open>Q\<close>.\<close>

definition wp :: "('h, 'a) M \<Rightarrow> 'h EVM \<Rightarrow> ('a outcome \<Rightarrow> 'h EVM \<Rightarrow> bool) \<Rightarrow> bool" where
  "wp m e Q \<longleftrightarrow> (case m e of None \<Rightarrow> False | Some (r, e') \<Rightarrow> Q r e')"

lemma wpI: "m e \<noteq> None \<Longrightarrow> (\<And>r e'. m e = Some (r, e') \<Longrightarrow> Q r e') \<Longrightarrow> wp m e Q"
  by (auto simp: wp_def split: option.splits)

lemma wpE:
  assumes "wp m e Q"
  obtains r e' where "m e = Some (r, e')" "Q r e'"
  using assms by (auto simp: wp_def split: option.splits)

lemma wpD: "wp m e Q \<Longrightarrow> m e = Some (r, e') \<Longrightarrow> Q r e'"
  by (simp add: wp_def)

lemma wp_mono: "wp m e Q \<Longrightarrow> (\<And>r e'. Q r e' \<Longrightarrow> Q' r e') \<Longrightarrow> wp m e Q'"
  by (auto simp: wp_def split: option.splits)

lemma wp_seq:
  assumes "wp m e (\<lambda>r e1. case r of Ok x \<Rightarrow> wp (f x) e1 Q | Fail err \<Rightarrow> Q (Fail err) e1 | Panic p \<Rightarrow> Q (Panic p) e1)"
  shows "wp (seq m f) e Q"
  using assms by (elim wpE) (auto simp: wp_def seq_def split: outcome.splits)

text \<open>The parts of a frame that decide about gas, memory and hooks, as one stretch of code keeps them.\<close>

lemma cfg_hooks: "cfg e' = cfg e \<Longrightarrow> hooks e' = hooks e"
  by (metis cfg_def Cfg.select_convs(5))

definition sameRun :: "'h EVM \<Rightarrow> 'h EVM \<Rightarrow> bool" where
  "sameRun e e' \<longleftrightarrow>
     gasMeter (state e') = gasMeter (state e) \<and> memory (state e') = memory (state e) \<and> cfg e' = cfg e"

lemma sameRun_refl [simp]: "sameRun e e"
  by (simp add: sameRun_def)

lemma sameRun_trans: "sameRun e e1 \<Longrightarrow> sameRun e1 e2 \<Longrightarrow> sameRun e e2"
  by (simp add: sameRun_def)

definition quiet :: "('h, 'a) M \<Rightarrow> bool" where
  "quiet m \<longleftrightarrow> ends m \<and> (\<forall>e r e'. m e = Some (r, e') \<longrightarrow> sameRun e e')"

lemma quietI: "ends m \<Longrightarrow> (\<And>e r e'. m e = Some (r, e') \<Longrightarrow> sameRun e e') \<Longrightarrow> quiet m"
  by (simp add: quiet_def)

lemma quiet_ends: "quiet m \<Longrightarrow> ends m"
  by (simp add: quiet_def)

lemma quietD: "quiet m \<Longrightarrow> m e = Some (r, e') \<Longrightarrow> sameRun e e'"
  by (simp add: quiet_def)

lemma quiet_seq:
  assumes "quiet m" "\<And>x. quiet (f x)"
  shows "quiet (seq m f)"
proof (rule quietI, intro ends_intros quiet_ends assms)
  fix e r e'
  assume run: "seq m f e = Some (r, e')"
  then obtain q e1 where m: "m e = Some (q, e1)" by (auto simp: seq_def split: option.splits)
  have "sameRun e e1" using assms(1) m by (rule quietD)
  moreover have "sameRun e1 e'"
    using run m by (cases q) (auto simp: seq_def dest: quietD [OF assms(2)])
  ultimately show "sameRun e e'" by (rule sameRun_trans)
qed

lemma quiet_prims:
  "quiet (ret x)" "quiet (throw err)" "quiet popW" "quiet (pushW w)" "quiet (memGet L off n)" "quiet (modAccount f)"
  "quiet (modAccessList g)" "quiet incPc" "quiet (lift oc)"
  by (rule quietI, intro ends_intros; auto simp: monad_defs sameRun_def cfg_def split: outcome.splits prod.splits)+

lemma quiet_derived:
  "quiet popU64" "quiet popBig" "quiet popAddress" "quiet (pushBig i)"
  unfolding popU64_def popBig_def popAddress_def pushBig_def by (intro quiet_seq quiet_prims)+

lemma wp_quiet:
  assumes "quiet m" "\<And>x e1. sameRun e e1 \<Longrightarrow> wp (f x) e1 Q"
    "\<And>r e1. sameRun e e1 \<Longrightarrow> (\<forall>x. r \<noteq> Ok x) \<Longrightarrow> Q r e1"
  shows "wp (seq m f) e Q"
proof (rule wp_seq, rule wpI, rule endsD [OF quiet_ends [OF assms(1)]])
  fix r e'
  assume "m e = Some (r, e')"
  then have "sameRun e e'" using assms(1) by (rule quietD [rotated])
  then show "case r of Ok x \<Rightarrow> wp (f x) e' Q | Fail err \<Rightarrow> Q (Fail err) e' | Panic p \<Rightarrow> Q (Panic p) e'"
    using assms(2,3) by (cases r) simp_all
qed

subsection \<open>The CALL family\<close>

text \<open>What the callers rely on: executing a message with less than \<open>k\<close> gas ends, leaves the frame's meter
  alone and reports at most the gas it was given.\<close>

definition call_gas_ok :: "nat \<Rightarrow> 'h caller \<Rightarrow> bool" where
  "call_gas_ok k call \<longleftrightarrow>
     (\<forall>msg e. hooks e = None \<longrightarrow> unat (msgGas msg) < k \<longrightarrow>
        wp (call msg) e (\<lambda>r e'. gasMeter (state e') = gasMeter (state e) \<and> cfg e' = cfg e \<and>
          (\<forall>res err. r = Ok (res, err) \<longrightarrow> unat (GasRemaining res) \<le> unat (msgGas msg))))"

lemma call_gas_okD:
  assumes "call_gas_ok k call" "hooks e = None" "unat (msgGas msg) < k"
  shows "wp (call msg) e (\<lambda>r e'. gasMeter (state e') = gasMeter (state e) \<and> cfg e' = cfg e \<and>
          (\<forall>res err. r = Ok (res, err) \<longrightarrow> unat (GasRemaining res) \<le> unat (msgGas msg)))"
  using assms unfolding call_gas_ok_def by blast

text \<open>After the call: the meter ends at what it had plus what came back.\<close>

lemma wp_finishCall:
  assumes "unat (gas (gasMeter (state e))) + unat (GasRemaining res) < 2 ^ 64"
    "\<And>r e'. cfg e' = cfg e \<Longrightarrow> gasOf e' = gasOf e + unat (GasRemaining res) \<Longrightarrow> Q r e'"
  shows "wp (finishCall L off n res) e Q"
proof (rule wpI, rule endsD, rule ends_intros)
  fix r e'
  assume run: "finishCall L off n res e = Some (r, e')"
  have "gas (gasMeter (state e')) = gas (gasMeter (state e)) + GasRemaining res \<and> cfg e' = cfg e"
    using run
    by (auto simp: finishCall_def monad_defs cfg_def ReturnGas_def RefundGas_def Let_def
        split: if_splits outcome.splits prod.splits option.splits)
  then show "Q r e'" using assms(1) by (intro assms(2)) (simp_all add: unat_add_no_wrap)
qed

lemma callGas_le: "unat (callGas a g) \<le> unat a"
proof -
  have "unat (a - a div 64) = unat a - unat (a div 64)"
    by (intro unat_sub_le) (simp add: unat_le_nat unat_div)
  then show ?thesis
    by (auto simp: callGas_def maxMessageCallGas_def Let_def unat_lt_nat)
qed

lemma callExtraGas_ge:
  assumes "memGas = maxU64 \<or> unat memGas < 2 ^ 56"
  shows "99 \<le> unat (callExtraGas kind warm v em memGas)"
    "(kind = CallKindCall \<or> kind = CallKindCallCode) \<and> v > 0 \<Longrightarrow> 9099 \<le> unat (callExtraGas kind warm v em memGas)"
proof -
  have add: "99 + k \<le> unat (b + memGas)" if "100 + k \<le> unat b" "unat b \<le> 100000" for b k
  proof (cases "memGas = maxU64")
    case True
    then have "unat (b - 1) = unat b - 1" using that by (subst unat_sub_le) (simp_all add: unat_le_nat)
    moreover have "b + maxU64 = b - 1" by simp
    ultimately have "unat (b + memGas) = unat b - 1" by (simp only: True)
    then show ?thesis using that by simp
  next
    case False
    then show ?thesis using assms that by (subst unat_add_no_wrap) simp_all
  qed
  show "99 \<le> unat (callExtraGas kind warm v em memGas)"
    unfolding callExtraGas_def Let_def by (rule order_trans [OF _ add [of 0]]) simp_all
  show "9099 \<le> unat (callExtraGas kind warm v em memGas)" if "(kind = CallKindCall \<or> kind = CallKindCallCode) \<and> v > 0"
    unfolding callExtraGas_def Let_def by (rule order_trans [OF _ add [of 9000]]) (use that in auto)
qed

lemma wp_consume:
  assumes "\<And>e1. amount \<le> gas (gasMeter (state e)) \<Longrightarrow> gasOf e1 = gasOf e - unat amount \<Longrightarrow>
      cfg e1 = cfg e \<Longrightarrow> memory (state e1) = memory (state e) \<Longrightarrow> wp k e1 Q"
    "\<And>e1. gasOf e1 = 0 \<Longrightarrow> cfg e1 = cfg e \<Longrightarrow> Q (Fail ErrOutOfGas) e1"
  shows "wp (thn (consume amount) k) e Q"
proof (cases "gas (gasMeter (state e)) < amount")
  case True
  then have "thn (consume amount) k e = Some (Fail ErrOutOfGas, e\<lparr>state := (state e)\<lparr>gasMeter := (gasMeter (state e))\<lparr>gas := 0\<rparr>\<rparr>\<rparr>)"
    by (simp add: thn_def seq_def consume_def ConsumeGas_def)
  then show ?thesis by (auto simp: cfg_def intro!: wpI assms(2))
next
  case False
  let ?e1 = "e\<lparr>state := (state e)\<lparr>gasMeter := (gasMeter (state e))\<lparr>gas := gas (gasMeter (state e)) - amount\<rparr>\<rparr>\<rparr>"
  have run: "thn (consume amount) k e = k ?e1"
    using False by (simp add: thn_def seq_def consume_def ConsumeGas_def)
  have "wp k ?e1 Q" using False by (intro assms(1)) (simp_all add: unat_sub_le cfg_def)
  then show ?thesis by (simp add: wp_def run)
qed

lemma wp_memResize:
  assumes "\<And>e1 m. MemResize (maxAlloc L) n (memory (state e)) = Ok m \<Longrightarrow> gasMeter (state e1) = gasMeter (state e) \<Longrightarrow>
      cfg e1 = cfg e \<Longrightarrow> wp k e1 Q"
    "\<And>p. Q (Panic p) e"
  shows "wp (thn (memResize L n) k) e Q"
proof (cases "MemResize (maxAlloc L) n (memory (state e))")
  case (Ok m)
  let ?e1 = "e\<lparr>state := (state e)\<lparr>memory := m\<rparr>\<rparr>"
  have run: "thn (memResize L n) k e = k ?e1"
    by (simp add: thn_def seq_def memResize_def onState_def Ok)
  have "wp k ?e1 Q" by (rule assms(1) [OF Ok]) (simp_all add: cfg_def)
  then show ?thesis by (simp add: wp_def run)
next
  case (Panic p)
  then have "thn (memResize L n) k e = Some (Panic p, e)"
    by (simp add: thn_def seq_def memResize_def onState_def)
  then show ?thesis using assms(2) by (auto intro: wpI)
next
  case (Fail err)
  then show ?thesis by (auto simp: MemResize_def Let_def make_bytes_def split: if_splits)
qed

text \<open>What a handler does to the gas: it never grows, and a handler that succeeds has spent at least \<open>k\<close>.\<close>

definition spends :: "nat \<Rightarrow> 'h EVM \<Rightarrow> 'a outcome \<Rightarrow> 'h EVM \<Rightarrow> bool" where
  "spends k e r e' \<longleftrightarrow>
     gasOf e' \<le> gasOf e \<and> (\<forall>x. r = Ok x \<longrightarrow> gasOf e' + k \<le> gasOf e) \<and> cfg e' = cfg e"

text \<open>The message and what follows it, for a caller that has \<open>paid\<close> at least what can come back plus 1.\<close>

lemma callSend_tail:
  fixes e e2 :: "'h EVM"
  assumes call: "call_gas_ok k call" "gasOf e \<le> k" and nh: "hooks e = None" "cfg e2 = cfg e"
    and paid: "gasOf e2 + unat (msgGas msg) + 1 \<le> gasOf e"
  shows "wp (thn (dispatchCallHook opc ht ci) (seq (call msg) (\<lambda>(res, err). finishCall L outOff outSize res))) e2 (spends 1 e)"
proof -
  have h2: "hooks e2 = None" using nh cfg_hooks by metis
  have "unat (msgGas msg) < k" using paid call(2) by simp
  note ok = call_gas_okD [OF call(1) h2 this]
  have "wp (seq (call msg) (\<lambda>(res, err). finishCall L outOff outSize res)) e2 (spends 1 e)"
  proof (rule wp_seq, rule wp_mono [OF ok])
    fix q :: "runResult outcome" and e3 :: "'h EVM"
    assume o: "gasMeter (state e3) = gasMeter (state e2) \<and> cfg e3 = cfg e2 \<and>
      (\<forall>res err. q = Ok (res, err) \<longrightarrow> unat (GasRemaining res) \<le> unat (msgGas msg))"
    then have g3: "gasOf e3 = gasOf e2" "cfg e3 = cfg e" using nh by simp_all
    show "case q of Ok x \<Rightarrow> wp (case x of (res, err) \<Rightarrow> finishCall L outOff outSize res) e3 (spends 1 e)
        | Fail err \<Rightarrow> spends 1 e (Fail err) e3 | Panic p \<Rightarrow> spends 1 e (Panic p) e3"
    proof (cases q)
      case (Ok x)
      obtain res err where x: "x = (res, err)" by (metis surj_pair)
      have le: "gasOf e3 + unat (GasRemaining res) + 1 \<le> gasOf e"
        using o paid g3 by (simp add: Ok x)
      then have "wp (finishCall L outOff outSize res) e3 (spends 1 e)"
        using unat_u64_lt [of "gas (gasMeter (state e))"] g3 by (intro wp_finishCall) (auto simp: spends_def)
      with Ok x show ?thesis by simp
    qed (use g3 paid in \<open>simp_all add: spends_def\<close>)
  qed
  then show ?thesis using h2 by (simp add: wp_def thn_def seq_def)
qed

lemma callSend_gas:
  fixes e :: "'h EVM"
  assumes call: "call_gas_ok k call" "gasOf e \<le> k" and nh: "hooks e = None" and lim: "maxAlloc L \<le> 2 ^ 37 - 32"
    and sz: "ExpandSize off n (memory (state e)) = (memGas, memSize)"
    and extra: "extraGas = callExtraGas kind warm v em memGas" "extraGas \<le> gas (gasMeter (state e))"
    and charged: "unat charged \<le> gasOf e - unat extraGas"
  shows "wp (callSend L call kind c d addr v input memSize extraGas charged outOff outSize) e (spends 1 e)"
proof -
  let ?pays = "(kind = CallKindCall \<or> kind = CallKindCallCode) \<and> v > 0"
  let ?child = "if ?pays then charged + GasCallStipend else charged"
  have le: "unat extraGas + unat charged \<le> gasOf e"
    using charged extra(2) by (simp add: unat_le_nat)
  have sum: "unat (extraGas + charged) = unat extraGas + unat charged"
    using le unat_u64_lt [of "gas (gasMeter (state e))"] by (intro unat_add_no_wrap) simp
  have child: "unat ?child \<le> unat charged + (if ?pays then 2300 else 0)"
    using unat_word_ariths(1) [of charged GasCallStipend] by (simp add: mod_less_eq_dividend)
  have paid: "gasOf e2 + unat ?child + 1 \<le> gasOf e"
    if "gasOf e2 = gasOf e - unat (extraGas + charged)" "MemResize (maxAlloc L) memSize (memory (state e)) = Ok m" for e2 :: "'h EVM" and m
  proof -
    have price: "memGas = maxU64 \<or> unat memGas < 2 ^ 56"
      using ExpandSize_price [OF sz that(2) lim] .
    have "99 \<le> unat extraGas" "?pays \<Longrightarrow> 9099 \<le> unat extraGas"
      unfolding extra(1) using callExtraGas_ge [OF price, where kind = kind and warm = warm and v = v and em = em] by blast+
    with that(1) child le sum show ?thesis by (auto split: if_splits)
  qed
  show ?thesis
    unfolding callSend_def Let_def
    by (rule wp_consume, rule wp_memResize, rule callSend_tail [OF call nh])
      (use nh paid in \<open>auto simp: spends_def\<close>)
qed

text \<open>Stretches of code that touch neither gas nor memory, seen from the state \<open>e0\<close> they started in.\<close>

lemma wp_quiet_from:
  assumes "quiet m" "sameRun e0 e" "\<And>x e1. sameRun e0 e1 \<Longrightarrow> wp (f x) e1 Q"
    "\<And>r e1. sameRun e0 e1 \<Longrightarrow> (\<forall>x. r \<noteq> Ok x) \<Longrightarrow> Q r e1"
  shows "wp (seq m f) e Q"
  by (rule wp_quiet [OF assms(1)]) (auto intro: assms(3,4) sameRun_trans [OF assms(2)])

lemma wp_quiet_then:
  assumes "quiet m" "sameRun e0 e" "\<And>e1. sameRun e0 e1 \<Longrightarrow> wp k e1 Q"
    "\<And>r e1. sameRun e0 e1 \<Longrightarrow> (\<forall>x. r \<noteq> Ok x) \<Longrightarrow> Q r e1"
  shows "wp (thn m k) e Q"
  unfolding thn_def by (rule wp_quiet_from [OF assms(1,2)]) (auto intro: assms(3,4))

lemma wp_gets: "wp (f (h e)) e Q \<Longrightarrow> wp (seq (gets h) f) e Q"
  by (simp add: wp_def seq_def gets_def)

lemma wp_getState: "wp (f (h (state e))) e Q \<Longrightarrow> wp (seq (getState h) f) e Q"
  by (simp add: getState_def wp_gets)

lemma wp_getContract: "(\<And>c. wp (f c) e Q) \<Longrightarrow> wp (seq getContract f) e Q"
  by (simp add: getContract_def wp_gets)

lemma wp_throw: "Q (Fail err) e \<Longrightarrow> wp (throw err) e Q"
  by (simp add: wp_def throw_def)

lemma spends_same: "sameRun e e1 \<Longrightarrow> (\<forall>x. r \<noteq> Ok x) \<Longrightarrow> spends k e r e1"
  by (simp add: spends_def sameRun_def)

lemma wp_spends_from:
  assumes "sameRun e e1" "wp m e1 (spends k e1)"
  shows "wp m e1 (spends k e)"
  by (rule wp_mono [OF assms(2)]) (use assms(1) in \<open>simp add: spends_def sameRun_def\<close>)

lemma spends_quiet:
  "quiet m \<Longrightarrow> sameRun e e1 \<Longrightarrow> (\<And>x e2. sameRun e e2 \<Longrightarrow> wp (f x) e2 (spends k e)) \<Longrightarrow>
   wp (seq m f) e1 (spends k e)"
  by (rule wp_quiet_from) (auto intro: spends_same)

lemma spends_quiet_then:
  "quiet m \<Longrightarrow> sameRun e e1 \<Longrightarrow> (\<And>e2. sameRun e e2 \<Longrightarrow> wp m' e2 (spends k e)) \<Longrightarrow>
   wp (thn m m') e1 (spends k e)"
  by (rule wp_quiet_then) (auto intro: spends_same)

lemma wp_if: "(b \<Longrightarrow> wp m e Q) \<Longrightarrow> (\<not> b \<Longrightarrow> wp m' e Q) \<Longrightarrow> wp (if b then m else m') e Q"
  by simp

lemma spends_throw: "sameRun e e1 \<Longrightarrow> wp (throw err) e1 (spends k e)"
  by (rule wp_throw) (rule spends_same, assumption, simp)

lemma quiet_if: "quiet m \<Longrightarrow> quiet m' \<Longrightarrow> quiet (if b then m else m')"
  by simp

lemma callCharges_gas:
  fixes e e1 :: "'h EVM"
  assumes call: "call_gas_ok k call" "gasOf e \<le> k" and nh: "hooks e = None" and lim: "maxAlloc L \<le> 2 ^ 37 - 32"
    and same: "sameRun e e1"
  shows "wp (let (memGasIn, memSizeIn) = ExpandSize io is (memory (state e1));
           (memGasOut, memSizeOut) = ExpandSize oo os (memory (state e1));
           (memGas, memSize) = (if memSizeIn > memSizeOut then (memGasIn, memSizeIn) else (memGasOut, memSizeOut));
           extraGas = callExtraGas kind warm v em memGas;
           availableGas = gas (gasMeter (state e1)) in
       if availableGas < extraGas then throw ErrOutOfGas
       else callSend L call kind c d addr v input memSize extraGas
              (callGas (availableGas - extraGas) g) oo os) e1 (spends 1 e)"
  proof (rule wp_spends_from [OF same])
    obtain gi si go so where ex: "ExpandSize io is (memory (state e1)) = (gi, si)" "ExpandSize oo os (memory (state e1)) = (go, so)"
      by (metis surj_pair)
    have nh1: "hooks e1 = None" using same nh unfolding sameRun_def by (metis cfg_hooks)
    have charged: "unat (callGas (gas (gasMeter (state e1)) - x) g) \<le> gasOf e1 - unat x" if "x \<le> gas (gasMeter (state e1))" for x
      using callGas_le [of "gas (gasMeter (state e1)) - x" g] that by (simp add: unat_sub_le)
    define mg ms where "mg = (if so < si then gi else go)" and "ms = (if so < si then si else so)"
    have sel: "(if so < si then (gi, si) else (go, so)) = (mg, ms)" by (simp add: mg_def ms_def)
    have exs: "ExpandSize (if so < si then io else oo) (if so < si then is else os) (memory (state e1)) = (mg, ms)"
      by (simp add: ex mg_def ms_def)
    have gk: "gasOf e1 \<le> k" using call(2) same by (simp add: sameRun_def)
    let ?x = "callExtraGas kind warm v em mg"
    have "wp (if gas (gasMeter (state e1)) < ?x then throw ErrOutOfGas
       else callSend L call kind c d addr v input ms ?x (callGas (gas (gasMeter (state e1)) - ?x) g) oo os) e1 (spends 1 e1)"
      by (rule wp_if, rule spends_throw, rule sameRun_refl, rule callSend_gas [OF call(1) _ nh1 lim exs refl], simp add: gk, simp, rule charged, simp)
    then show "wp (let (memGasIn, memSizeIn) = ExpandSize io is (memory (state e1));
           (memGasOut, memSizeOut) = ExpandSize oo os (memory (state e1));
           (memGas, memSize) = (if memSizeIn > memSizeOut then (memGasIn, memSizeIn) else (memGasOut, memSizeOut));
           extraGas = callExtraGas kind warm v em memGas;
           availableGas = gas (gasMeter (state e1)) in
       if availableGas < extraGas then throw ErrOutOfGas
       else callSend L call kind c d addr v input memSize extraGas
              (callGas (availableGas - extraGas) g) oo os) e1 (spends 1 e1)"
      unfolding Let_def ex prod.case sel .
  qed

lemma opCallCommon_gas:
  fixes e :: "'h EVM"
  assumes "call_gas_ok k call" "gasOf e \<le> k" "hooks e = None" "maxAlloc L \<le> 2 ^ 37 - 32"
  shows "wp (opCallCommon L call kind) e (spends 1 e)"
  unfolding opCallCommon_def
  by (rule wp_getContract wp_getState spends_quiet [OF _ sameRun_refl] wp_if spends_throw
      spends_quiet spends_quiet_then quiet_derived quiet_prims quiet_if | assumption | (simp only: id_apply, rule callCharges_gas [OF assms]))+

subsection \<open>Creation\<close>

lemma spends_mono:
  assumes "wp m e1 (spends k e1)" "gasOf e1 \<le> gasOf e" "cfg e1 = cfg e"
  shows "wp m e1 (spends k e)"
  by (rule wp_mono [OF assms(1)]) (use assms(2,3) in \<open>auto simp: spends_def\<close>)

lemma wp_finishCreate:
  assumes "gasOf e + unat (GasRemaining res) < 2 ^ 64"
    "\<And>r e'. cfg e' = cfg e \<Longrightarrow> gasOf e' \<le> gasOf e + unat (GasRemaining res) \<Longrightarrow> Q r e'"
  shows "wp (finishCreate L f a res) e Q"
proof (rule wpI, rule endsD, rule ends_intros)
  fix r e'
  assume run: "finishCreate L f a res e = Some (r, e')"
  have u: "unat (gas (gasMeter (state e)) + GasRemaining res) = gasOf e + unat (GasRemaining res)"
    using assms(1) by (simp add: unat_add_no_wrap)
  have "unat (gas (fst (ConsumeGas d g))) \<le> unat (gas g)" for d g
    by (rule ConsumeGas_le [of d g _ "snd (ConsumeGas d g)"]) simp
  then have c: "gas g = gas (gasMeter (state e)) + GasRemaining res \<Longrightarrow>
      unat (gas (fst (ConsumeGas d g))) \<le> gasOf e + unat (GasRemaining res)" for d g
    using u by metis
  have "gasOf e' \<le> gasOf e + unat (GasRemaining res) \<and> cfg e' = cfg e"
    using run
    by (auto simp: finishCreate_def monad_defs cfg_def ReturnGas_def RefundGas_def Let_def u intro!: c
        split: if_splits outcome.splits prod.splits option.splits)
  then show "Q r e'" by (intro assms(2)) simp_all
qed

lemma maxMessageCallGas_le: "unat (maxMessageCallGas a) \<le> unat a"
proof -
  have "unat (a - a div 64) = unat a - unat (a div 64)"
    by (intro unat_sub_le) (simp add: unat_le_nat unat_div)
  then show ?thesis by (simp add: maxMessageCallGas_def)
qed

lemma createSend_gas:
  fixes e :: "'h EVM"
  assumes call: "call_gas_ok k call" "gasOf e < k" and nh: "hooks e = None"
  shows "wp (createSend L call f caller addr v initCode) e (spends 0 e)"
  unfolding createSend_def Let_def
proof (rule wp_getState, rule wp_consume, rule wp_getState, rule wp_seq)
  fix e1 :: "'h EVM"
  let ?g = "maxMessageCallGas (gas (gasMeter (state e)))"
  let ?msg = "\<lparr>msgCaller = caller, msgCallee = addr, msgValue = Some v,
      msgGas = ?g, msgInput = initCode, msgCode = initCode, msgCodeAddr = addr, msgIsStatic = False,
      msgCallDepth = callDepth (state e1) + 1, msgKind = CallKindCall, msgIsCreate = True, msgSalt = 0\<rparr>"
  assume e1: "?g \<le> gas (gasMeter (state e))" "gasOf e1 = gasOf e - unat ?g" "cfg e1 = cfg e"
  then have h1: "hooks e1 = None" using nh cfg_hooks by metis
  have paid: "gasOf e1 + unat ?g \<le> gasOf e" using e1 by (simp add: unat_le_nat)
  then have "unat (msgGas ?msg) < k" using call(2) by simp
  note ok = call_gas_okD [OF call(1) h1 this]
  show "wp (call ?msg) e1 (\<lambda>r e1. case r of Ok x \<Rightarrow> wp (case x of (res, err) \<Rightarrow> finishCreate L f addr res) e1 (spends 0 e)
      | Fail err \<Rightarrow> spends 0 e (Fail err) e1 | Panic p \<Rightarrow> spends 0 e (Panic p) e1)"
  proof (rule wp_mono [OF ok])
    fix q :: "runResult outcome" and e2 :: "'h EVM"
    assume o: "gasMeter (state e2) = gasMeter (state e1) \<and> cfg e2 = cfg e1 \<and>
      (\<forall>res err. q = Ok (res, err) \<longrightarrow> unat (GasRemaining res) \<le> unat (msgGas ?msg))"
    then have g2: "gasOf e2 = gasOf e1" "cfg e2 = cfg e" using e1 by simp_all
    show "case q of Ok x \<Rightarrow> wp (case x of (res, err) \<Rightarrow> finishCreate L f addr res) e2 (spends 0 e)
        | Fail err \<Rightarrow> spends 0 e (Fail err) e2 | Panic p \<Rightarrow> spends 0 e (Panic p) e2"
    proof (cases q)
      case (Ok x)
      obtain res err where x: "x = (res, err)" by (metis surj_pair)
      have "gasOf e2 + unat (GasRemaining res) \<le> gasOf e"
        using o paid g2 by (simp add: Ok x)
      then have "wp (finishCreate L f addr res) e2 (spends 0 e)"
        using unat_u64_lt [of "gas (gasMeter (state e))"] g2 by (intro wp_finishCreate) (auto simp: spends_def)
      with Ok x show ?thesis by simp
    qed (use g2 paid in \<open>simp_all add: spends_def\<close>)
  qed
qed (simp add: spends_def)

text \<open>Code that may spend on the way, seen from the state \<open>e\<close> it started in.\<close>

definition leRun :: "'h EVM \<Rightarrow> 'h EVM \<Rightarrow> bool" where
  "leRun e e1 \<longleftrightarrow> gasOf e1 \<le> gasOf e \<and> cfg e1 = cfg e"

lemma leRun_refl: "leRun e e"
  by (simp add: leRun_def)

lemma leRun_same: "leRun e e1 \<Longrightarrow> sameRun e1 e2 \<Longrightarrow> leRun e e2"
  by (simp add: leRun_def sameRun_def)

lemma leRun_spends: "leRun e e1 \<Longrightarrow> spends 0 e r e1"
  by (simp add: leRun_def spends_def)

lemma spends0_seq:
  assumes "quiet m" "leRun e e1" "\<And>x e2. leRun e e2 \<Longrightarrow> wp (f x) e2 (spends 0 e)"
  shows "wp (seq m f) e1 (spends 0 e)"
  by (rule wp_quiet [OF assms(1)]) (auto intro: assms(3) leRun_spends leRun_same [OF assms(2)])

lemma spends0_thn:
  assumes "quiet m" "leRun e e1" "\<And>e2. leRun e e2 \<Longrightarrow> wp k e2 (spends 0 e)"
  shows "wp (thn m k) e1 (spends 0 e)"
  unfolding thn_def by (rule spends0_seq [OF assms])

lemma spends0_consume:
  assumes "leRun e e1" "\<And>e2. leRun e e2 \<Longrightarrow> wp k e2 (spends 0 e)"
  shows "wp (thn (consume a) k) e1 (spends 0 e)"
  by (rule wp_consume) (use assms in \<open>auto simp: leRun_def spends_def\<close>)

lemma spends0_quiet:
  assumes "quiet m" "leRun e e1"
  shows "wp m e1 (spends 0 e)"
proof (rule wpI, rule endsD [OF quiet_ends [OF assms(1)]])
  fix r e'
  assume "m e1 = Some (r, e')"
  with assms(1) have "sameRun e1 e'" by (rule quietD)
  then show "spends 0 e r e'" by (rule leRun_spends [OF leRun_same [OF assms(2)]])
qed

lemma quiet_thn: "quiet m \<Longrightarrow> quiet k \<Longrightarrow> quiet (thn m k)"
  unfolding thn_def by (rule quiet_seq)

lemma spends0_createSend:
  assumes "call_gas_ok k call" "gasOf e < k" "hooks e = None" "leRun e e1"
  shows "wp (createSend L call f caller addr v initCode) e1 (spends 0 e)"
proof -
  have "hooks e1 = None" using assms unfolding leRun_def by (metis cfg_hooks)
  moreover have "gasOf e1 < k" using assms(2,4) by (simp add: leRun_def)
  ultimately show ?thesis
    by (intro spends_mono [OF createSend_gas [OF assms(1)]]) (use assms(4) in \<open>simp_all add: leRun_def\<close>)
qed

lemma quiet_gets: "quiet (gets h)"
  by (rule quietI, intro ends_intros) (simp_all add: gets_def)

lemma opCreate_gas:
  fixes e :: "'h EVM"
  assumes "call_gas_ok k call" "gasOf e < k" "hooks e = None"
  shows "wp (opCreate L call b) e (spends 0 e)"
  unfolding opCreate_def Let_def
  by (rule wp_getContract wp_getState wp_gets spends0_seq [OF _ leRun_refl] wp_if
      spends0_createSend [OF assms] spends0_consume spends0_seq spends0_quiet spends0_thn
      quiet_derived quiet_prims quiet_thn quiet_if quiet_seq | assumption)+

end
