(* ===== verification/Termination.thy ===== *)
theory Termination
  imports CallGas
begin

text \<open>
  Frames end. An iteration of the loop that does not end the frame spends gas: the opcodes whose base cost is zero
  either end the frame or are charged by their handler (\<open>zeroCost\<close>), so the gas of the frame bounds the
  iterations, and with it the depth of the recursion through messages.
\<close>

definition deadCode :: "nat \<Rightarrow> bool" where
  "deadCode n \<longleftrightarrow> 12 \<le> n \<and> n \<le> 15 \<or> n = 31 \<or> 33 \<le> n \<and> n \<le> 47 \<or> 75 \<le> n \<and> n \<le> 79 \<or>
     165 \<le> n \<and> n \<le> 239 \<or> 246 \<le> n \<and> n \<le> 249 \<or> n = 251 \<or> n = 252"

definition zeroCost :: "nat \<Rightarrow> bool" where
  "zeroCost n \<longleftrightarrow> n \<in> {0x31, 0x3B, 0x3C, 0x3F, 0x54} \<or> n \<in> {0x55, 0xF1, 0xF2, 0xF4, 0xFA, 0xFF} \<or>
     n \<in> {0x00, 0xF3, 0xFD, 0xFE} \<or> deadCode n"

fun zeroFrom :: "nat \<Rightarrow> u64 list \<Rightarrow> bool" where
  "zeroFrom i [] = True"
| "zeroFrom i (g # gs) = ((g = 0 \<longrightarrow> zeroCost i) \<and> zeroFrom (i + 1) gs)"

lemma zeroFrom_nth: "zeroFrom i gs \<Longrightarrow> j < length gs \<Longrightarrow> gs ! j = 0 \<Longrightarrow> zeroCost (i + j)"
proof (induction gs arbitrary: i j)
  case (Cons g gs)
  then show ?case using Cons.IH [of "i + 1" "j - 1"] by (cases j) auto
qed simp

lemma zeroFrom_replicate: "zeroFrom i (replicate n g @ gs) \<longleftrightarrow>
    (\<forall>j<n. g = 0 \<longrightarrow> zeroCost (i + j)) \<and> zeroFrom (i + n) gs"
  by (induction n arbitrary: i) (auto simp: less_Suc_eq_0_disj)

lemma zeroFrom_table: "zeroFrom 0 GasCostTable"
  unfolding GasCostTable_def by (simp add: zeroCost_def deadCode_def zeroFrom_replicate)

lemma zero_cost_table: "GasCosts opc = 0 \<Longrightarrow> zeroCost (unat opc)"
proof -
  have "unat opc < 2 ^ LENGTH(8)" by (rule unsigned_less)
  then show "GasCosts opc = 0 \<Longrightarrow> zeroCost (unat opc)"
    using zeroFrom_nth [OF zeroFrom_table, of "unat opc"]
    by (simp add: GasCosts_def length_GasCostTable)
qed

lemma execute_dead:
  assumes "deadCode (unat opc)"
  shows "execute L call opc code = throw ErrInvalidOpcode"
proof -
  have ne: "(opc = c) = False" if "\<not> deadCode (unat c)" for c using assms that by auto
  have r: "\<not> (opc \<ge> 0x60 \<and> opc \<le> 0x7F)" "\<not> (opc \<ge> 0x80 \<and> opc \<le> 0x8F)" "\<not> (opc \<ge> 0x90 \<and> opc \<le> 0x9F)"
    using assms by (auto simp: deadCode_def unat_le_nat)
  show ?thesis unfolding execute_def by (simp add: ne deadCode_def r del: de_Morgan_conj)
qed

subsection \<open>Operands\<close>

text \<open>Code that takes \<open>n\<close> operands off the stack first does not get past them when there are fewer.\<close>

definition takes :: "nat \<Rightarrow> ('h, 'a) M \<Rightarrow> bool" where
  "takes n m \<longleftrightarrow> (\<forall>e x e'. length (stack (state e)) < n \<longrightarrow> m e \<noteq> Some (Ok x, e'))"

lemma takes_popW:
  fixes f :: "Word \<Rightarrow> ('h, 'a) M"
  assumes "\<And>x. takes n (f x)"
  shows "takes (Suc n) (seq popW f)"
  unfolding takes_def
proof (intro allI impI)
  fix e :: "'h EVM" and x e'
  assume "length (stack (state e)) < Suc n"
  then show "seq popW f e \<noteq> Some (Ok x, e')"
    using assms by (cases "stack (state e)") (auto simp: run_simps takes_def)
qed

lemma seq_assoc: "seq (seq m f) g = seq m (\<lambda>x. seq (f x) g)"
  by (rule ext) (simp add: seq_def split: option.splits outcome.splits prod.splits)

lemma seq_ret: "seq (ret x) f = f x"
  by (rule ext) (simp add: seq_def ret_def)

lemma takes_pops:
  "(\<And>x. takes n (f x)) \<Longrightarrow> takes (Suc n) (seq popU64 f)"
  "(\<And>x. takes n (g x)) \<Longrightarrow> takes (Suc n) (seq popAddress g)"
  unfolding popU64_def popAddress_def seq_assoc seq_ret by (rule takes_popW; blast)+

lemma takes_0: "takes 0 m"
  by (simp add: takes_def)

lemma takes_free:
  "takes (Suc 0) opBalance" "takes (Suc 0) opExtcodesize" "takes (Suc 0) opExtcodehash"
  "takes (Suc (Suc (Suc (Suc 0)))) (opExtcodecopy L)" "takes (Suc 0) opSload"
  unfolding opBalance_def opExtcodesize_def opExtcodehash_def opExtcodecopy_def opSload_def Let_def
  by (intro takes_popW takes_pops takes_0)+

definition freeOperands :: "byte \<Rightarrow> nat" where
  "freeOperands opc = (if opc = 0x3C then Suc (Suc (Suc (Suc 0))) else Suc 0)"

lemma takes_execute_free:
  "opc \<in> {0x31, 0x3B, 0x3C, 0x3F, 0x54} \<Longrightarrow> takes (freeOperands opc) (execute L call opc code)"
  by (elim insertE emptyE; simp add: execute_def freeOperands_def takes_free)

subsection \<open>Dynamic gas\<close>

lemma quiet_access: "quiet (accessCostAddress a)" "quiet (accessCostStorage a k)"
  unfolding accessCostAddress_def accessCostStorage_def getState_def
  by (intro quiet_seq quiet_thn quiet_if quiet_prims quiet_gets)+

lemma quiet_reads: "quiet (peekN n)" "quiet (peekU64 n)" "quiet (expandGas a b)" "quiet (getState h)" "quiet getContract"
proof -
  show p: "quiet (peekN n)" for n
    by (rule quietI, intro ends_intros) (auto simp: monad_defs sameRun_def split: outcome.splits prod.splits)
  show "quiet (peekU64 n)" unfolding peekU64_def by (intro quiet_seq p quiet_prims)
qed (simp_all add: expandGas_def getState_def getContract_def quiet_gets)

lemma quiet_control:
  "(\<And>y z. quiet (g y z)) \<Longrightarrow> quiet (case p of (y, z) \<Rightarrow> g y z)"
  "quiet m \<Longrightarrow> quiet k \<Longrightarrow> quiet (case c of True \<Rightarrow> m | False \<Rightarrow> k)"
  by (simp_all split: prod.split bool.split)

lemma quiet_calcDynamicGas: "quiet (calcDynamicGas opc)"
  unfolding calcDynamicGas_def needStack_def
  by (intro quiet_seq quiet_if quiet_prims quiet_reads quiet_control quiet_access)

text \<open>It panics on a short stack, or returns a number.\<close>

definition never_fails :: "('h, 'a) M \<Rightarrow> bool" where
  "never_fails m \<longleftrightarrow> (\<forall>e err e'. m e \<noteq> Some (Fail err, e'))"

lemma never_fails_seq: "never_fails m \<Longrightarrow> (\<And>x. never_fails (f x)) \<Longrightarrow> never_fails (seq m f)"
  unfolding never_fails_def seq_def by (auto split: option.splits outcome.splits)

lemma never_fails_prims:
  "never_fails (ret x)" "never_fails (gets h)" "never_fails (getState g)" "never_fails getContract"
  "never_fails (peekN n)" "never_fails (modAccessList l)" "never_fails (peekU64 n)" "never_fails (expandGas a b)"
proof -
  show "never_fails (ret x)" "never_fails (gets h)" "never_fails (getState g)" "never_fails getContract"
    "never_fails (modAccessList l)" "never_fails (expandGas a b)"
    by (simp_all add: never_fails_def monad_defs expandGas_def)
  show p: "never_fails (peekN n)" for n
    by (auto simp: never_fails_def monad_defs stack_defs split: outcome.splits if_splits)
  show "never_fails (peekU64 n)" unfolding peekU64_def
    by (intro never_fails_seq p) (simp add: never_fails_def ret_def)
qed

lemma never_fails_control:
  "never_fails m \<Longrightarrow> never_fails k \<Longrightarrow> never_fails (if b then m else k)"
  "never_fails j \<Longrightarrow> never_fails k \<Longrightarrow> never_fails (thn j k)"
  "(\<And>y z. never_fails (g y z)) \<Longrightarrow> never_fails (case p of (y, z) \<Rightarrow> g y z)"
  "never_fails m \<Longrightarrow> never_fails k \<Longrightarrow> never_fails (case c of True \<Rightarrow> m | False \<Rightarrow> k)"
  by (simp_all add: thn_def never_fails_seq split: prod.split bool.split)

lemma never_fails_calcDynamicGas: "never_fails (calcDynamicGas opc)"
  unfolding calcDynamicGas_def needStack_def accessCostAddress_def accessCostStorage_def
  by (intro never_fails_seq never_fails_prims never_fails_control)

definition returns :: "('a \<Rightarrow> bool) \<Rightarrow> ('h, 'a) M \<Rightarrow> bool" where
  "returns P m \<longleftrightarrow> (\<forall>e x e'. m e = Some (Ok x, e') \<longrightarrow> P x)"

lemma returns_seq: "(\<And>x. returns P (f x)) \<Longrightarrow> returns P (seq m f)"
  unfolding returns_def seq_def by (auto split: option.splits outcome.splits)

lemma returns_seq_val: "returns Q m \<Longrightarrow> (\<And>x. Q x \<Longrightarrow> returns P (f x)) \<Longrightarrow> returns P (seq m f)"
  unfolding returns_def seq_def by (fastforce split: option.splits outcome.splits)

lemma returns_basic:
  "P x \<Longrightarrow> returns P (ret x)" "returns P m \<Longrightarrow> returns P k \<Longrightarrow> returns P (if b then m else k)"
  "returns P m \<Longrightarrow> returns P (thn j m)"
  by (auto simp: returns_def ret_def thn_def seq_def split: option.splits outcome.splits)

lemma returns_access: "returns (\<lambda>d. 0 < d) (accessCostAddress a)" "returns (\<lambda>d. 0 < d) (accessCostStorage a k)"
  unfolding accessCostAddress_def accessCostStorage_def
  by (simp_all, intro returns_seq returns_basic) (simp_all add: returns_seq returns_basic)

text \<open>With its operands on the stack, an opcode of this group pays for the access.\<close>

lemma needStack_positive:
  assumes "returns (\<lambda>d. 0 < d) m" "needStack k m e = Some (Ok d, e')"
  shows "length (stack (state e')) < k \<or> 0 < d"
  using assms by (auto simp: needStack_def getState_def gets_def seq_def returns_def ret_def split: if_splits)

lemma safeAdd_positive:
  assumes "safeAddUint64 [a, b, c] = (t, True)" "0 < c"
  shows "0 < t"
proof -
  have le: "unat c \<le> sum_list (map unat [a, b, c])" by simp
  have s: "sum_list (map unat [a, b, c]) < 2 ^ LENGTH(64)" "t = of_nat (sum_list (map unat [a, b, c]))"
    using assms(1) unfolding safeAddUint64_exact by (simp_all split: if_splits)
  have "unat t = sum_list (map unat [a, b, c])"
    unfolding s(2) unat_of_nat by (rule mod_less [OF s(1)])
  with le assms(2) show ?thesis by (simp add: unat_lt_nat)
qed

lemma free_dynamic_gas:
  assumes "opc \<in> {0x31, 0x3B, 0x3C, 0x3F, 0x54}" "calcDynamicGas opc e = Some (Ok d, e')"
  shows "length (stack (state e')) < freeOperands opc \<or> 0 < d"
proof (cases "opc = 0x3C")
  case True
  let ?m = "seq (peekN 0) (\<lambda>w. seq (peekU64 1) (\<lambda>dstOffset. seq (peekU64 3) (\<lambda>n.
          seq (expandGas dstOffset n) (\<lambda>memGas.
          case safeMulUint64 (wordCount n) GasCopy of
            (copyGas, True) \<Rightarrow>
              seq (accessCostAddress (addressFromWord w)) (\<lambda>access.
              case safeAddUint64 [memGas, copyGas, access] of (t, True) \<Rightarrow> ret t | _ \<Rightarrow> ret maxU64)
          | _ \<Rightarrow> ret maxU64))))"
  have m: "returns (\<lambda>d. 0 < d) ?m"
    by (intro returns_seq)
      (auto intro!: returns_seq_val [OF returns_access(1)] returns_basic dest: safeAdd_positive
        split: prod.split bool.split)
  have c: "calcDynamicGas opc = needStack 4 ?m" by (simp add: True calcDynamicGas_def)
  have "freeOperands opc = 4" by (simp add: True freeOperands_def)
  with needStack_positive [OF m assms(2) [unfolded c]] show ?thesis by simp
next
  case False
  then consider "opc \<in> {0x31, 0x3B, 0x3F}" | "opc = 0x54" using assms(1) by auto
  then show ?thesis
  proof cases
    case 1
    then have c: "calcDynamicGas opc = needStack 1 (seq (peekN 0) (\<lambda>w. accessCostAddress (addressFromWord w)))"
      by (auto simp: calcDynamicGas_def)
    show ?thesis
      using needStack_positive [OF returns_seq [OF returns_access(1)] assms(2) [unfolded c]] False
      by (simp add: freeOperands_def)
  next
    case 2
    then have c: "calcDynamicGas opc = needStack 1 (seq (peekN 0) (\<lambda>w. seq getContract (\<lambda>c.
          accessCostStorage (AddressVal c) (WordToHash w))))"
      by (simp add: calcDynamicGas_def)
    show ?thesis
      using needStack_positive [OF returns_seq [OF returns_seq [OF returns_access(2)]] assms(2) [unfolded c]] False
      by (simp add: freeOperands_def)
  qed
qed

subsection \<open>What an instruction costs\<close>

lemma wp_gas_frame:
  assumes "ends m" "keeps gas_rel (\<lambda>g. hooks_respect gas_rel (cfgHooks g)) m" "hooks e = None"
  shows "wp m e (spends 0 e)"
proof (rule wpI, rule endsD [OF assms(1)])
  fix r e'
  assume "m e = Some (r, e')"
  from keepsD [OF assms(2) _ this] assms(3) show "spends 0 e r e'"
    by (simp add: spends_def gas_rel_def cfg_def)
qed

lemma wp_no_Ok:
  assumes "wp m e (spends 0 e)" "\<And>x e'. m e \<noteq> Some (Ok x, e')"
  shows "wp m e (spends 1 e)"
  using assms by (auto simp: wp_def spends_def split: option.splits)

lemma spends_1_0: "wp m e (spends 1 e) \<Longrightarrow> wp m e (spends 0 e)"
  by (erule wp_mono) (auto simp: spends_def)

text \<open>Code that charges at least 1 and then gives nothing back.\<close>

lemma gas_modify [simp]:
  "keeps gas_rel P (modStorage f)" "keeps gas_rel P (modAccount g)" "keeps gas_rel P (modGas (sstoreRefund a b c))"
  unfolding modStorage_def modAccount_def
  by (rule keeps_onState; auto simp: gas_rel_def) (rule keeps_onState | auto simp: gas_rel_def gas.gas_sstoreRefund intro: gas.keeps_modGas)+

lemma spends_consume:
  assumes "0 < cost" "ends m" "keeps gas_rel (\<lambda>g. True) m" "sameRun e e1"
  shows "wp (thn (consume cost) m) e1 (spends 1 e)"
proof (rule wp_consume)
  fix e2
  assume c: "cost \<le> gas (gasMeter (state e1))" "gasOf e2 = gasOf e1 - unat cost" "cfg e2 = cfg e1"
  have "0 < unat cost" "unat cost \<le> gasOf e1" using assms(1) c(1) by (simp_all add: unat_lt_nat unat_le_nat)
  then have lt: "gasOf e2 + 1 \<le> gasOf e1" using c(2) by simp
  show "wp m e2 (spends 1 e)"
  proof (rule wpI, rule endsD [OF assms(2)])
    fix r e'
    assume "m e2 = Some (r, e')"
    from keepsD [OF assms(3) _ this] lt assms(4) c(3) show "spends 1 e r e'"
      by (simp add: spends_def gas_rel_def sameRun_def)
  qed
next
  fix e2
  assume "gasOf e2 = 0" "cfg e2 = cfg e1"
  then show "spends 1 e (Fail ErrOutOfGas) e2" using assms(4) by (simp add: spends_def sameRun_def)
qed

lemma wp_storageHook:
  assumes "hooks e = None" "sameRun e e1" "wp (f (0, False)) e1 Q"
  shows "wp (seq (dispatchStorageAccessHook opc t sa) f) e1 Q"
proof -
  have "hooks e1 = None" using assms(1,2) unfolding sameRun_def by (metis cfg_hooks)
  then show ?thesis using assms(3) by (simp add: wp_def seq_def)
qed

lemma sstoreCost_pos: "0 < (if \<not> warm then GasColdSload else 0) + sstoreCost original current v"
  by (simp add: sstoreCost_def)

lemma opSstore_gas: "hooks e = None \<Longrightarrow> wp opSstore e (spends 1 e)"
  unfolding opSstore_def Let_def
  apply (rule spends_quiet [OF quiet_prims(3) sameRun_refl])
  apply (rule wp_getContract wp_if spends_throw spends_quiet [OF quiet_prims(3)] | assumption)+
  apply (rule wp_storageHook, assumption+)
  apply (simp only: prod.case if_False)
  by (rule wp_getState wp_if spends_throw spends_consume sstoreCost_pos ends_intros gas_modify keeps_intros
      spends_quiet_then quiet_prims quiet_if | assumption)+

lemma selfdestruct_pos: "0 < GasSelfDestruct + (if warm then 0 else GasColdAccountAccess) + (if b then GasNewAccount else 0)"
  by simp

lemma opSelfdestruct_gas: "wp opSelfdestruct e (spends 1 e)"
  unfolding opSelfdestruct_def Let_def
  by (rule spends_quiet [OF quiet_derived(3) sameRun_refl] wp_getContract wp_if spends_throw wp_getState
      spends_consume selfdestruct_pos ends_intros gas_modify keeps_intros
      spends_quiet_then quiet_prims quiet_if | assumption)+

lemma execute_gas:
  fixes e :: "'h EVM"
  assumes "call_gas_ok k call" "gasOf e \<le> k" "hooks e = None" "maxAlloc L \<le> 2 ^ 37 - 32"
    "opc = 0xF0 \<or> opc = 0xF5 \<longrightarrow> gasOf e < k"
  shows "wp (execute L call opc code) e (spends 0 e)"
  unfolding execute_def opCall_def opCallcode_def opDelegatecall_def
  by (rule wp_if | rule spends_1_0 [OF opCallCommon_gas], rule assms, rule assms, rule assms, rule assms
      | rule opCreate_gas, rule assms, use assms in blast, rule assms
      | rule wp_gas_frame, intro ends_intros, intro keeps_intros gas.keeps_hooked gas.keeps_opSstore gas.keeps_opTstore, (assumption+)?, rule assms)+

text \<open>The opcodes that end the frame.\<close>

lemma halting_no_Ok:
  "opStop e \<noteq> Some (Ok x, e')" "opReturn L e \<noteq> Some (Ok x, e')" "opRevert L e \<noteq> Some (Ok x, e')"
  "opInvalid e \<noteq> Some (Ok x, e')"
  by (auto simp: opStop_def opReturn_def opRevert_def opInvalid_def leaveWith_def monad_defs
      split: option.splits outcome.splits prod.splits)

lemma execute_halting:
  assumes "opc \<in> {0x00, 0xF3, 0xFD, 0xFE} \<or> deadCode (unat opc)"
  shows "execute L call opc code e \<noteq> Some (Ok x, e')"
proof (cases "deadCode (unat opc)")
  case True
  then show ?thesis by (simp add: execute_dead throw_def)
next
  case False
  then have "opc \<in> {0x00, 0xF3, 0xFD, 0xFE}" using assms by blast
  then show ?thesis by (elim insertE emptyE; simp add: execute_def halting_no_Ok)
qed

lemma zeroCost_byte:
  "zeroCost (unat (opc::byte)) \<longleftrightarrow> opc \<in> {0x31, 0x3B, 0x3C, 0x3F, 0x54} \<or> opc \<in> {0x55, 0xF1, 0xF2, 0xF4, 0xFA, 0xFF} \<or>
     opc \<in> {0x00, 0xF3, 0xFD, 0xFE} \<or> deadCode (unat opc)"
proof -
  have "unat opc = unat c \<longleftrightarrow> opc = c" for c by (metis unsigned_word_eqI)
  from this [of "0x31"] this [of "0x3B"] this [of "0x3C"] this [of "0x3F"] this [of "0x54"] this [of "0x55"]
    this [of "0xF1"] this [of "0xF2"] this [of "0xF4"] this [of "0xFA"] this [of "0xFF"] this [of "0x00"]
    this [of "0xF3"] this [of "0xFD"] this [of "0xFE"]
  show ?thesis by (simp add: zeroCost_def)
qed

text \<open>Whatever the table has as 0, and the dynamic cost too, ends the frame or charges on its own.\<close>

lemma execute_zero_gas:
  fixes e :: "'h EVM"
  assumes call: "call_gas_ok k call" "gasOf e \<le> k" "hooks e = None" "maxAlloc L \<le> 2 ^ 37 - 32"
    and zero: "GasCosts opc = 0"
    and short: "opc \<in> {0x31, 0x3B, 0x3C, 0x3F, 0x54} \<Longrightarrow> length (stack (state e)) < freeOperands opc"
  shows "wp (execute L call opc code) e (spends 1 e)"
proof -
  consider (free) "opc \<in> {0x31, 0x3B, 0x3C, 0x3F, 0x54}" | (sstore) "opc = 0x55" | (selfdestruct) "opc = 0xFF"
    | (calls) "opc \<in> {0xF1, 0xF2, 0xF4, 0xFA}" | (halt) "opc \<in> {0x00, 0xF3, 0xFD, 0xFE} \<or> deadCode (unat opc)"
    using zero_cost_table [OF zero] unfolding zeroCost_byte by blast
  then show ?thesis
  proof cases
    case free
    have "wp (execute L call opc code) e (spends 0 e)" by (rule execute_gas [OF call]) (use free in auto)
    then show ?thesis
      by (rule wp_no_Ok) (use takes_execute_free [OF free, of L call code] short [OF free] in \<open>auto simp: takes_def\<close>)
  next
    case sstore
    then show ?thesis using opSstore_gas [OF call(3)] by (simp add: execute_def)
  next
    case selfdestruct
    then show ?thesis using opSelfdestruct_gas by (simp add: execute_def)
  next
    case calls
    have "execute L call opc code \<in> range (opCallCommon L call)"
      using calls by (elim insertE emptyE; simp add: execute_def opCall_def opCallcode_def opDelegatecall_def)
    then show ?thesis using opCallCommon_gas [OF call] by auto
  next
    case halt
    have "wp (execute L call opc code) e (spends 0 e)"
      by (rule execute_gas [OF call]) (use halt in \<open>auto simp: deadCode_def\<close>)
    then show ?thesis by (rule wp_no_Ok) (rule execute_halting [OF halt])
  qed
qed

subsection \<open>The loop\<close>

text \<open>What one iteration leaves: the frame's configuration, no more gas, and less of it when the loop
  goes on; a result never reports more gas than the frame had.\<close>

definition iterPost :: "'h EVM \<Rightarrow> runResult option outcome \<Rightarrow> 'h EVM \<Rightarrow> bool" where
  "iterPost e r e' \<longleftrightarrow>
     cfg e' = cfg e \<and> gasOf e' \<le> gasOf e \<and> (\<forall>err. r \<noteq> Fail err) \<and> (r = Ok None \<longrightarrow> gasOf e' < gasOf e) \<and>
     (\<forall>res err. r = Ok (Some (res, err)) \<longrightarrow> unat (GasRemaining res) \<le> gasOf e)"

lemma wp_ret: "Q (Ok x) e \<Longrightarrow> wp (ret x) e Q"
  by (simp add: wp_def ret_def)

lemma handlerResult_gas:
  "unat (GasRemaining (fst (handlerResult err e))) \<le> gasOf e"
  by (simp add: handlerResult_def errResult_def NewExecutionResultBuilder_def zeroResult_def Let_def)

lemma wp_attempt:
  assumes "wp m e (\<lambda>r e1. case r of Ok x \<Rightarrow> wp (f (Inr x)) e1 Q | Fail err \<Rightarrow> wp (f (Inl err)) e1 Q | Panic p \<Rightarrow> Q (Panic p) e1)"
  shows "wp (seq (attempt m) f) e Q"
  using assms by (elim wpE) (auto simp: wp_def seq_def attempt_def split: outcome.splits)

text \<open>The handler's part of an iteration.\<close>

lemma wp_handler:
  assumes "wp (execute L call opc code) e1 (spends j e1)" "gasOf e1 + i \<le> gasOf e" "cfg e1 = cfg e" "0 < i + j"
  shows "wp (handlerStep L call code opc) e1 (iterPost e)"
  unfolding handlerStep_def
proof (rule wp_attempt, rule wp_mono [OF assms(1)])
  fix r e2
  assume s: "spends j e1 r e2"
  have "gasOf e2 \<le> gasOf e" using s assms(2) by (simp add: spends_def)
  then have g: "unat (GasRemaining (fst (handlerResult err e2))) \<le> gasOf e" for err
    using handlerResult_gas [of err e2] by simp
  show "case r of Ok x \<Rightarrow> wp (case Inr x of Inl err \<Rightarrow> seq (gets (handlerResult err)) (\<lambda>res. ret (Some res)) | Inr _ \<Rightarrow> ret None) e2 (iterPost e)
    | Fail err \<Rightarrow> wp (case Inl err of Inl err \<Rightarrow> seq (gets (handlerResult err)) (\<lambda>res. ret (Some res)) | Inr _ \<Rightarrow> ret None) e2 (iterPost e)
    | Panic p \<Rightarrow> iterPost e (Panic p) e2"
  proof (cases r)
    case (Ok x)
    then show ?thesis using s assms(2-4) by (auto simp: spends_def iterPost_def intro!: wp_ret)
  next
    case (Fail err)
    then show ?thesis using s assms(2,3) g [of err] \<open>gasOf e2 \<le> gasOf e\<close>
      by (auto simp: spends_def iterPost_def intro!: wp_gets wp_ret)
  next
    case (Panic p)
    then show ?thesis using s assms(2,3) by (simp add: spends_def iterPost_def)
  qed
qed

lemma iterPost_leaves:
  "sameRun e e1 \<Longrightarrow> unat (GasRemaining (fst res)) \<le> gasOf e \<Longrightarrow> wp (ret (Some res)) e1 (iterPost e)"
  by (cases res) (auto simp: iterPost_def sameRun_def intro!: wp_ret)

lemma dispatchHooks_none: "hooks e = None \<Longrightarrow> dispatchHooks opc g c e = Some (Ok False, e)"
  by (simp add: dispatchHooks_def hooksForM_def gets_def seq_def ret_def)

lemma execute_paid:
  fixes e e2 :: "'h EVM"
  assumes call: "call_gas_ok k call" "gasOf e \<le> k" and nh: "hooks e2 = None" and lim: "maxAlloc L \<le> 2 ^ 37 - 32"
    and paid: "gasOf e2 + unat (GasCosts opc) + unat d = gasOf e" "cfg e2 = cfg e"
    and short: "opc \<in> {0x31, 0x3B, 0x3C, 0x3F, 0x54} \<Longrightarrow> length (stack (state e2)) < freeOperands opc \<or> 0 < d"
  shows "wp (handlerStep L call code opc) e2 (iterPost e)"
proof (cases "unat (GasCosts opc) + unat d = 0")
  case True
  then have z: "GasCosts opc = 0" "d = 0" by (simp_all add: unat_eq_0)
  have "gasOf e2 \<le> k" using paid(1) call(2) by simp
  from execute_zero_gas [OF call(1) this nh lim z(1)] short z(2)
  have "wp (execute L call opc code) e2 (spends 1 e2)" by simp
  then show ?thesis by (rule wp_handler [where i = 0]) (use paid in simp_all)
next
  case False
  then have "gasOf e2 < gasOf e" using paid(1) by linarith
  then have "wp (execute L call opc code) e2 (spends 0 e2)"
    using call(2) by (intro execute_gas [OF call(1) _ nh lim]) simp_all
  then show ?thesis by (rule wp_handler [where i = 1]) (use paid False in \<open>simp, linarith, simp_all\<close>)
qed

lemma wp_attempt_consume:
  assumes "\<And>err e2. gasOf e2 = 0 \<Longrightarrow> cfg e2 = cfg e1 \<Longrightarrow> wp (f (Inl err)) e2 Q"
    "\<And>e2. gasOf e2 + unat amount = gasOf e1 \<Longrightarrow> cfg e2 = cfg e1 \<Longrightarrow> stack (state e2) = stack (state e1) \<Longrightarrow> wp (f (Inr ())) e2 Q"
  shows "wp (seq (attempt (consume amount)) f) e1 Q"
proof (cases "gas (gasMeter (state e1)) < amount")
  case True
  let ?e2 = "e1\<lparr>state := (state e1)\<lparr>gasMeter := (gasMeter (state e1))\<lparr>gas := 0\<rparr>\<rparr>\<rparr>"
  have "seq (attempt (consume amount)) f e1 = f (Inl ErrOutOfGas) ?e2"
    using True by (simp add: seq_def attempt_def consume_def ConsumeGas_def)
  moreover have "wp (f (Inl ErrOutOfGas)) ?e2 Q" by (rule assms(1)) (simp_all add: cfg_def)
  ultimately show ?thesis by (simp add: wp_def)
next
  case False
  let ?e2 = "e1\<lparr>state := (state e1)\<lparr>gasMeter := (gasMeter (state e1))\<lparr>gas := gas (gasMeter (state e1)) - amount\<rparr>\<rparr>\<rparr>"
  have "seq (attempt (consume amount)) f e1 = f (Inr ()) ?e2"
    using False by (simp add: seq_def attempt_def consume_def ConsumeGas_def)
  moreover have "wp (f (Inr ())) ?e2 Q"
    using False by (intro assms(2)) (simp_all add: cfg_def unat_sub_le unat_le_nat not_less)
  ultimately show ?thesis by (simp add: wp_def)
qed

lemma wp_dispatchHooks:
  "hooks e = None \<Longrightarrow> wp (f (Inr False)) e Q \<Longrightarrow> wp (seq (attempt (dispatchHooks opc g c)) f) e Q"
  by (simp add: wp_def seq_def attempt_def dispatchHooks_none)

lemma errResult_gas [simp]: "GasRemaining (errResult st err) = 0"
  by (simp add: errResult_def NewExecutionResultBuilder_def zeroResult_def)

lemma chargeStep_gas:
  fixes e :: "'h EVM"
  assumes call: "call_gas_ok k call" "gasOf e \<le> k" and nh: "hooks e = None" and lim: "maxAlloc L \<le> 2 ^ 37 - 32"
    and run: "calcDynamicGas opc e = Some (Ok d, e1)" and fits: "\<not> d > maxU64 - GasCosts opc"
  shows "wp (chargeStep L call code opc g (GasCosts opc + d)) e1 (iterPost e)"
  unfolding chargeStep_def
proof -
  have s: "sameRun e e1" by (rule quietD [OF quiet_calcDynamicGas run])
  have "unat (maxU64 - GasCosts opc) = unat maxU64 - unat (GasCosts opc)" using unat_u64_lt [of "GasCosts opc"] by (intro unat_sub_le) (simp add: unat_le_nat)
  then have sum: "unat (GasCosts opc + d) = unat (GasCosts opc) + unat d"
    using fits unat_u64_lt [of "GasCosts opc"] by (intro unat_add_no_wrap) (simp add: unat_lt_nat)
  show "wp (seq (attempt (consume (GasCosts opc + d))) (\<lambda>r. case r of
       Inl err \<Rightarrow> ret (Some (errResult StatusOutOfGas err, Some err))
     | Inr _ \<Rightarrow> hookStep L call code opc g (GasCosts opc + d))) e1 (iterPost e)"
  proof (rule wp_attempt_consume; simp only: sum.case)
    fix err and e2 :: "'h EVM"
    assume "gasOf e2 = 0" "cfg e2 = cfg e1"
    then show "wp (ret (Some (errResult StatusOutOfGas err, Some err))) e2 (iterPost e)"
      using s by (auto simp: iterPost_def sameRun_def intro!: wp_ret)
  next
    fix e2 :: "'h EVM"
    assume p: "gasOf e2 + unat (GasCosts opc + d) = gasOf e1" "cfg e2 = cfg e1" "stack (state e2) = stack (state e1)"
    have h2: "hooks e2 = None" using nh s p(2) unfolding sameRun_def by (metis cfg_hooks)
    have "wp (handlerStep L call code opc) e2 (iterPost e)"
      by (rule execute_paid [OF call h2 lim, where d = d])
        (use p s sum free_dynamic_gas [OF _ run] in \<open>simp_all add: sameRun_def\<close>)
    then show "wp (hookStep L call code opc g (GasCosts opc + d)) e2 (iterPost e)"
      unfolding hookStep_def by (intro wp_dispatchHooks [OF h2]) simp
  qed
qed

lemma loopIter_gas:
  fixes e :: "'h EVM"
  assumes call: "call_gas_ok k call" "gasOf e \<le> k" "hooks e = None" "maxAlloc L \<le> 2 ^ 37 - 32"
  shows "wp (loopIter L call code) e (iterPost e)"
proof -
  let ?opc = "code ! unat (pc e)"
  have "wp (seq (calcDynamicGas ?opc) (\<lambda>d.
         if d > maxU64 - GasCosts ?opc
         then ret (Some (errResult StatusOutOfGas ErrOutOfGas, Some ErrOutOfGas))
         else chargeStep L call code ?opc (gas (gasMeter (state e))) (GasCosts ?opc + d))) e (iterPost e)"
  proof (rule wp_seq, rule wpI, rule endsD [OF ends_calcDynamicGas])
    fix r e1
    assume run: "calcDynamicGas ?opc e = Some (r, e1)"
    have s: "sameRun e e1" by (rule quietD [OF quiet_calcDynamicGas run])
    show "case r of Ok d \<Rightarrow> wp (if d > maxU64 - GasCosts ?opc
         then ret (Some (errResult StatusOutOfGas ErrOutOfGas, Some ErrOutOfGas))
         else chargeStep L call code ?opc (gas (gasMeter (state e))) (GasCosts ?opc + d)) e1 (iterPost e)
      | Fail err \<Rightarrow> iterPost e (Fail err) e1 | Panic p \<Rightarrow> iterPost e (Panic p) e1"
    proof (cases r)
      case (Ok d)
      show ?thesis
        unfolding Ok outcome.case
        by (rule wp_if, rule iterPost_leaves [OF s], simp, rule chargeStep_gas [OF call run [unfolded Ok]])
    next
      case (Fail err)
      then show ?thesis using run never_fails_calcDynamicGas unfolding never_fails_def by blast
    qed (use s in \<open>simp add: iterPost_def sameRun_def\<close>)
  qed
  then show ?thesis
    unfolding loopIter_def Let_def
    by (intro wp_gets, unfold id_apply) (simp add: iterPost_leaves endResult_def)
qed

text \<open>The loop, by induction on the fuel: gas less than the fuel is enough.\<close>

definition runPost :: "'h EVM \<Rightarrow> runResult outcome \<Rightarrow> 'h EVM \<Rightarrow> bool" where
  "runPost e r e' \<longleftrightarrow>
     cfg e' = cfg e \<and> gasOf e' \<le> gasOf e \<and> (\<forall>err. r \<noteq> Fail err) \<and>
     (\<forall>res err. r = Ok (res, err) \<longrightarrow> unat (GasRemaining res) \<le> gasOf e)"

lemma cfg_jumpdests [simp]: "cfg (e\<lparr>jumpdests := d\<rparr>) = cfg e"
  by (simp add: cfg_def)

lemma runWith_gas:
  assumes "\<And>e. hooks e = None \<Longrightarrow> gasOf e < n \<Longrightarrow> wp (loop code) e (runPost e)" "hooks e = None" "gasOf e < n"
  obtains res err e' where "runWith loop e code = Some ((res, err), e')" "unat (GasRemaining res) \<le> gasOf e"
proof -
  have "wp (loop code) (e\<lparr>jumpdests := analyzeJumpdests code\<rparr>) (runPost (e\<lparr>jumpdests := analyzeJumpdests code\<rparr>))"
    by (rule assms(1)) (simp_all add: assms(2,3))
  then obtain r e' where run: "loop code (e\<lparr>jumpdests := analyzeJumpdests code\<rparr>) = Some (r, e')"
    and post: "runPost (e\<lparr>jumpdests := analyzeJumpdests code\<rparr>) r e'" by (rule wpE)
  show thesis
  proof (cases r)
    case (Ok x)
    obtain res err where "x = (res, err)" by (metis surj_pair)
    with Ok run post show thesis by (intro that [of res err e']) (simp_all add: runWith_def runPost_def)
  next
    case (Panic p)
    with run show thesis
      by (intro that [of "fst (recovered p e')" "snd (recovered p e')" e']) (simp_all add: runWith_def recovered_def)
  next
    case (Fail err)
    with post show thesis by (simp add: runPost_def)
  qed
qed

lemma executePrecompile_gas:
  assumes "executePrecompileMessage f msg p = Ok (res, err)"
  shows "unat (GasRemaining res) \<le> unat (msgGas msg)"
  using assms
  by (auto simp: executePrecompileMessage_def zeroResult_def unat_sub_le not_less split: outcome.splits if_splits)

lemma executePrecompile_no_Fail: "executePrecompileMessage f msg p \<noteq> Fail err"
  by (auto simp: executePrecompileMessage_def split: outcome.splits if_splits)

lemma message_meter:
  "gasMeter (enterMessage msg s) = gasMeter s" "gasMeter (adoptShared s c) = gasMeter s"
  "gasMeter (revertMessage i j s) = gasMeter s" "gasMeter (fold AddLog ls s) = gasMeter s"
proof -
  show "gasMeter (fold AddLog ls s) = gasMeter s" by (induction ls arbitrary: s) (simp_all add: AddLog_def)
qed (simp_all add: enterMessage_def adoptShared_def revertMessage_def)

lemma childEVM_simps [simp]: "hooks (childEVM L msg e) = hooks e" "gasOf (childEVM L msg e) = unat (msgGas msg)"
  by (simp_all add: childEVM_def SetHooks_def NewEVM_def newChildState_def NewEVMState_def NewGasMeter_def Let_def
      split: prod.split)

lemma call_gas_ok_ExecuteMessage:
  fixes run :: "'h runner"
  assumes run: "\<And>e code. hooks e = None \<Longrightarrow> gasOf e < n \<Longrightarrow>
      \<exists>res err e'. run e code = Some ((res, err), e') \<and> unat (GasRemaining res) \<le> gasOf e"
  shows "call_gas_ok n (ExecuteMessage L run)"
  unfolding call_gas_ok_def
proof (intro allI impI)
  fix msg :: Message and e :: "'h EVM"
  assume nh: "hooks e = None" and lt: "unat (msgGas msg) < n"
  let ?Q = "\<lambda>r e'. gasMeter (state e') = gasMeter (state e) \<and> cfg e' = cfg e \<and>
          (\<forall>res err. r = Ok (res, err) \<longrightarrow> unat (GasRemaining res) \<le> unat (msgGas msg))"
  let ?e1 = "e\<lparr>state := enterMessage msg (state e)\<rparr>"
  show "wp (ExecuteMessage L run msg) e ?Q"
  proof (cases "resolvePrecompile (msgCodeAddr msg) ?e1")
    case (Some p)
    then show ?thesis
      by (auto simp: wp_def ExecuteMessage_def Let_def cfg_def message_meter zeroResult_def executePrecompile_no_Fail
          dest!: executePrecompile_gas split: outcome.splits)
  next
    case None
    let ?code = "if msgCode msg = [] then accCode (msgCodeAddr msg) (account (state ?e1)) else msgCode msg"
    obtain res err c where c: "run (childEVM L (msg\<lparr>msgCode := ?code\<rparr>) ?e1) ?code = Some ((res, err), c)"
      and g: "unat (GasRemaining res) \<le> unat (msgGas msg)"
      using run [of "childEVM L (msg\<lparr>msgCode := ?code\<rparr>) ?e1" ?code] nh lt by auto
    note ex = None c [simplified] g message_meter
    show ?thesis
    proof (cases "msgCallDepth msg \<ge> 1024 \<or> msgIsStatic msg \<and> msgPays msg \<or>
        msgPays msg \<and> Balance (msgCaller msg) (account (state e)) < msgAmount msg")
      case True
      then show ?thesis by (auto simp: wp_def ExecuteMessage_def zeroResult_def)
    next
      case False
      have "ExecuteMessage L run msg e =
          (let s2 = adoptShared (state ?e1) (state c)
           in if Status res = StatusSuccess
              then Some (Ok (res, err), ?e1\<lparr>state := fold AddLog (logs (state c)) s2\<rparr>)
              else Some (Ok (if Status res \<noteq> StatusRevert then res\<lparr>GasRemaining := 0\<rparr> else res, err),
                 ?e1\<lparr>state := revertMessage (fst (accSnapshot (account (state e)))) (fst (stoSnapshot (storage (state e)))) s2\<rparr>))"
        using False None c by (auto simp: ExecuteMessage_def Let_def)
      then show ?thesis using g by (auto simp: wp_def Let_def cfg_def message_meter)
    qed
  qed
qed

lemma runLoop_gas:
  fixes e :: "'h EVM"
  assumes lim: "maxAlloc L \<le> 2 ^ 37 - 32"
  shows "hooks e = None \<Longrightarrow> gasOf e < n \<Longrightarrow> wp (runLoop n L code) e (runPost e)"
proof (induction n arbitrary: e code)
  case (Suc n)
  have call: "call_gas_ok n (ExecuteMessage L (runWith (runLoop n L)) :: 'h caller)"
  proof (rule call_gas_ok_ExecuteMessage)
    fix e :: "'h EVM" and code
    assume "hooks e = None" "gasOf e < n"
    then show "\<exists>res err e'. runWith (runLoop n L) e code = Some ((res, err), e') \<and> unat (GasRemaining res) \<le> gasOf e"
      by (metis runWith_gas [where loop = "runLoop n L", OF Suc.IH])
  qed
  have "gasOf e \<le> n" using Suc.prems(2) by simp
  from loopIter_gas [OF call this Suc.prems(1) lim, of code]
  show ?case
    unfolding runLoop.simps
  proof (intro wp_seq, elim wp_mono)
    fix r and e1 :: "'h EVM"
    assume post: "iterPost e r e1"
    show "case r of Ok x \<Rightarrow> wp (case x of None \<Rightarrow> runLoop n L code | Some res \<Rightarrow> ret res) e1 (runPost e)
      | Fail err \<Rightarrow> runPost e (Fail err) e1 | Panic p \<Rightarrow> runPost e (Panic p) e1"
    proof (cases r)
      case (Ok x)
      show ?thesis
      proof (cases x)
        case None
        have h1: "hooks e1 = None" using post Suc.prems(1) unfolding iterPost_def by (metis cfg_hooks)
        have lt: "gasOf e1 < gasOf e" using post Ok None by (simp add: iterPost_def)
        have "wp (runLoop n L code) e1 (runPost e1)"
          by (rule Suc.IH [OF h1]) (use lt Suc.prems(2) in simp)
        then have "wp (runLoop n L code) e1 (runPost e)"
          by (rule wp_mono) (use post lt in \<open>auto simp: runPost_def iterPost_def dest!: spec\<close>)
        then show ?thesis by (simp add: Ok None)
      next
        case (Some res)
        then show ?thesis using post Ok by (cases res) (auto simp: iterPost_def runPost_def intro!: wp_ret)
      qed
    qed (use post in \<open>simp_all add: iterPost_def runPost_def\<close>)
  qed
qed simp

text \<open>A run with more fuel than gas ends, and reports no more gas than it was given.\<close>

lemma Run_result:
  assumes "maxAlloc L \<le> 2 ^ 37 - 32" "hooks e = None" "gasOf e < n"
  obtains res err e' where "Run L n e code = Some ((res, err), e')" "unat (GasRemaining res) \<le> gasOf e"
  unfolding Run_def
  by (rule runWith_gas [where loop = "runLoop n L", OF runLoop_gas [OF assms(1)] assms(2,3)])

lemma ExecuteMessage_result:
  fixes e :: "'h EVM"
  assumes "maxAlloc L \<le> 2 ^ 37 - 32" "hooks e = None" "unat (msgGas msg) < n"
  shows "wp (ExecuteMessage L (Run L n) msg) e (\<lambda>r e'. gasMeter (state e') = gasMeter (state e) \<and> cfg e' = cfg e \<and>
          (\<forall>res err. r = Ok (res, err) \<longrightarrow> unat (GasRemaining res) \<le> unat (msgGas msg)))"
proof (rule call_gas_okD [OF call_gas_ok_ExecuteMessage assms(2,3)])
  fix e :: "'h EVM" and code
  assume "hooks e = None" "gasOf e < n"
  then show "\<exists>res err e'. Run L n e code = Some ((res, err), e') \<and> unat (GasRemaining res) \<le> gasOf e"
    by (metis Run_result [OF assms(1)])
qed

end
