(* ===== verification/EngineRun.thy ===== *)
theory EngineRun
  imports Precompiles Termination
begin

text \<open>
  \<open>internal/engine/engine_impl.go\<close>: a run from its configuration. An optional interface or pointer of
  \<open>ExecutionConfig\<close> that may be nil is an \<open>option\<close>; the state, storage, transient storage and access list
  of the configuration are the in-memory ones, which is what the constructors of the package build.
\<close>

subsection \<open>Configuration\<close>

record 'h ExecutionConfig =
  cFork :: Fork
  cPrecompiles :: "PrecompileRegistry option"
  cWarmAddresses :: "Address list"
  cGasLimit :: u64
  cValue :: "int option"
  cInput :: bytes
  cOrigin :: Address
  cCaller :: Address
  cContractAddress :: Address
  cCode :: "bytes option"
  cCodeHash :: Hash
  cBlockContext :: "SimpleBlockContext option"
  cTxContext :: "SimpleTxContext option"
  cState :: "InMemoryAccountState option"
  cStorage :: "InMemoryStorage option"
  cTransientStorage :: "InMemoryTransientStorage option"
  cAccessList :: "SimpleAccessList option"
  cHooks :: "'h hooksFor option"
  cHookState :: 'h
  cCallDepth :: int
  cIsStatic :: bool

definition ValidateConfig :: "'h ExecutionConfig \<Rightarrow> evm_error option" where
  "ValidateConfig conf =
     (if cCode conf = None then Some (ErrOther ''code is nil'')
      else if cGasLimit conf = 0 then Some (ErrOther ''gas limit is zero'')
      else None)"

definition cfgCode :: "'h ExecutionConfig \<Rightarrow> bytes" where
  "cfgCode conf = (case cCode conf of None \<Rightarrow> [] | Some code \<Rightarrow> code)"

subsection \<open>The warm set\<close>

text \<open>\<open>appendUnique\<close>: an address already seen is not appended again.\<close>

fun appendUnique :: "Address list \<Rightarrow> Address list \<Rightarrow> Address list" where
  "appendUnique addrs [] = addrs"
| "appendUnique addrs (a # as) = appendUnique (if a \<in> set addrs then addrs else addrs @ [a]) as"

definition warmAddressesForConfig :: "Lib \<Rightarrow> ('g1, 'g2, 'gt) Crypto \<Rightarrow> 'h ExecutionConfig \<Rightarrow> Address list" where
  "warmAddressesForConfig L C conf =
     (let addrs = (case cPrecompiles conf of
                     Some r \<Rightarrow> appendUnique [] (PreAddresses r)
                   | None \<Rightarrow> appendUnique [] (MainnetPrecompileAddresses L C (cFork conf)))
      in appendUnique addrs (cWarmAddresses conf))"

definition warmInitialAccessList ::
  "Lib \<Rightarrow> ('g1, 'g2, 'gt) Crypto \<Rightarrow> 'h ExecutionConfig \<Rightarrow> SimpleAccessList \<Rightarrow> SimpleAccessList" where
  "warmInitialAccessList L C conf al =
     (let al = WarmAddress (cOrigin conf) al;
          al = WarmAddress (cCaller conf) al;
          al = WarmAddress (cContractAddress conf) al;
          al = (case cBlockContext conf of
                  Some b \<Rightarrow> if forkGTE (cFork conf) ForkShanghai then WarmAddress (CoinbaseVal b) al else al
                | None \<Rightarrow> al)
      in fold WarmAddress (warmAddressesForConfig L C conf) al)"

subsection \<open>The initial state\<close>

definition orElse :: "'a option \<Rightarrow> 'a \<Rightarrow> 'a" where
  "orElse x d = (case x of None \<Rightarrow> d | Some y \<Rightarrow> y)"

definition NewState :: "Lib \<Rightarrow> ('g1, 'g2, 'gt) Crypto \<Rightarrow> 'h ExecutionConfig \<Rightarrow> 'h evmState" where
  "NewState L C conf =
     (let con = \<lparr>AddressVal = cContractAddress conf, CallerVal = cCaller conf, CallValueVal = cValue conf,
                CallInputVal = cInput conf, CodeVal = cfgCode conf, CodeHashVal = cCodeHash conf,
                CodeAddrVal = cContractAddress conf, IsStaticVal = cIsStatic conf\<rparr>;
          tc = orElse (cTxContext conf)
                 \<lparr>OriginVal = cOrigin conf, GasPriceVal = Some 0, BlobHashesVal = [], BlobGasFeeVal = None\<rparr>
      in (NewEVMState NewStack NewMemory
            (orElse (cStorage conf) NewInMemoryStorage)
            (orElse (cTransientStorage conf) NewInMemoryTransientStorage)
            (orElse (cState conf) NewInMemoryAccountState)
            (NewGasMeter (cGasLimit conf))
            (orElse (cBlockContext conf) defaultBlockContext) tc con
            (warmInitialAccessList L C conf (orElse (cAccessList conf) NewSimpleAccessList))
            (cHookState conf))\<lparr>callDepth := cCallDepth conf\<rparr>)"

subsection \<open>The value of the outermost call\<close>

text \<open>The snapshots are \<open>-1\<close> when none were taken; a result ends the run before it starts.\<close>

definition applyTopLevelCallValue ::
  "'h ExecutionConfig \<Rightarrow> 'h evmState \<Rightarrow> (int \<times> int \<times> ExecutionResult option) \<times> 'h evmState" where
  "applyTopLevelCallValue conf s =
     (case cValue conf of
        None \<Rightarrow> ((-1, -1, None), s)
      | Some v \<Rightarrow>
          if v = 0 \<or> cCaller conf = cContractAddress conf then ((-1, -1, None), s)
          else if Balance (cCaller conf) (account s) < v
          then ((-1, -1, Some (zeroResult\<lparr>Status := StatusInsufficientBalance, GasRemaining := cGasLimit conf\<rparr>)), s)
          else
            let (accSnap, acc) = accSnapshot (account s);
                (stoSnap, sto) = stoSnapshot (storage s)
            in ((accSnap, stoSnap, None),
                s\<lparr>account := AddBalance (cContractAddress conf) v (SubBalance (cCaller conf) v acc), storage := sto\<rparr>))"

definition revertTopLevelCallValue :: "int \<Rightarrow> int \<Rightarrow> ExecutionResult \<Rightarrow> 'h evmState \<Rightarrow> 'h evmState" where
  "revertTopLevelCallValue accSnap stoSnap res s =
     (if accSnap < 0 \<or> stoSnap < 0 then s
      else if Status res = StatusSuccess then s
      else s\<lparr>account := accRevertToSnapshot accSnap (account s), storage := stoRevertToSnapshot stoSnap (storage s)\<rparr>)"

subsection \<open>Gas of the transaction and the burnt base fee\<close>

definition intrinsicTxGas :: "bytes \<Rightarrow> u64" where
  "intrinsicTxGas dat = foldl (\<lambda>g b. if b = 0 then g + 4 else g + 16) 21000 dat"

definition applyBaseFeeBurn :: "'h ExecutionConfig \<Rightarrow> ExecutionResult \<Rightarrow> 'h evmState \<Rightarrow> 'h evmState" where
  "applyBaseFeeBurn conf res s =
     (if \<not> forkGTE (cFork conf) ForkLondon then s
      else case cBlockContext conf of
        None \<Rightarrow> s
      | Some b \<Rightarrow>
          (case BaseFeeVal b of
             None \<Rightarrow> s
           | Some baseFee \<Rightarrow>
               if baseFee = 0 then s
               else
                 let chargedGas = intrinsicTxGas (cInput conf) + (cGasLimit conf - GasRemaining res);
                     maxRefund = chargedGas div 5;
                     refundGas = (if GasRefund res > maxRefund then maxRefund else GasRefund res) in
                 if refundGas \<ge> chargedGas then s
                 else
                   let burn = uint (chargedGas - refundGas) * baseFee in
                   if burn = 0 then s
                   else s\<lparr>account := SubBalance (CoinbaseVal b) burn (account s)\<rparr>))"

subsection \<open>Running\<close>

text \<open>The empty fork name means London; the registry of the configuration, or the mainnet one.\<close>

definition runFork :: "Fork \<Rightarrow> Fork" where
  "runFork f = (if f = ForkOther [] then ForkLondon else f)"

definition registryFor :: "Lib \<Rightarrow> ('g1, 'g2, 'gt) Crypto \<Rightarrow> Fork \<Rightarrow> PrecompileRegistry option \<Rightarrow> PrecompileRegistry" where
  "registryFor L C f r = orElse r (MainnetPrecompilesForFork L C f)"

definition withGasUsed :: "u64 \<Rightarrow> ExecutionResult \<Rightarrow> ExecutionResult" where
  "withGasUsed gasLimit res =
     (if gasLimit \<ge> GasRemaining res then res\<lparr>GasUsed := gasLimit - GasRemaining res\<rparr> else res)"

definition runWithConfig ::
  "Lib \<Rightarrow> ('g1, 'g2, 'gt) Crypto \<Rightarrow> nat \<Rightarrow> 'h ExecutionConfig \<Rightarrow> 'h evmState \<Rightarrow> (runResult \<times> 'h evmState) option" where
  "runWithConfig L C n conf s =
     (let f = runFork (cFork conf);
          evm = NewEVM s f (registryFor L C f (cPrecompiles conf));
          evm = (case cHooks conf of None \<Rightarrow> evm | Some h \<Rightarrow> SetHooks (Some h) evm)
      in case Run L n evm (cfgCode conf) of
           None \<Rightarrow> None
         | Some ((res, err), e) \<Rightarrow> Some ((withGasUsed (cGasLimit conf) res, err), state e))"

definition runWithFork ::
  "Lib \<Rightarrow> ('g1, 'g2, 'gt) Crypto \<Rightarrow> nat \<Rightarrow> 'h evmState \<Rightarrow> bytes \<Rightarrow> Fork \<Rightarrow> PrecompileRegistry option \<Rightarrow>
   (runResult \<times> 'h evmState) option" where
  "runWithFork L C n s code f r =
     (let f = runFork f
      in case Run L n (NewEVM s f (registryFor L C f r)) code of
           None \<Rightarrow> None
         | Some ((res, err), e) \<Rightarrow>
             Some ((withGasUsed (gas (gasMeter (state e)) + GasUsed res) res, err), state e))"

definition RunWithState ::
  "Lib \<Rightarrow> ('g1, 'g2, 'gt) Crypto \<Rightarrow> nat \<Rightarrow> 'h evmState \<Rightarrow> bytes \<Rightarrow> (runResult \<times> 'h evmState) option" where
  "RunWithState L C n s code = runWithFork L C n s code ForkLondon None"

text \<open>\<open>Run\<close>: a nil result next to an error when the configuration is refused. The state is returned too:
  the caller sees what happened to the accounts and the storage it passed in.\<close>

definition EngineRun ::
  "Lib \<Rightarrow> ('g1, 'g2, 'gt) Crypto \<Rightarrow> nat \<Rightarrow> 'h ExecutionConfig \<Rightarrow>
   ((ExecutionResult option \<times> evm_error option) \<times> 'h evmState option) option" where
  "EngineRun L C n conf =
     (case ValidateConfig conf of
        Some err \<Rightarrow> Some ((None, Some err), None)
      | None \<Rightarrow>
          (case applyTopLevelCallValue conf (NewState L C conf) of
             ((_, _, Some res), s) \<Rightarrow> Some ((Some res, None), Some s)
           | ((accSnap, stoSnap, None), s) \<Rightarrow>
               (case runWithConfig L C n conf s of
                  None \<Rightarrow> None
                | Some ((res, err), s') \<Rightarrow>
                    Some ((Some res, err),
                          Some (applyBaseFeeBurn conf res (revertTopLevelCallValue accSnap stoSnap res s'))))))"

subsection \<open>Intrinsic gas\<close>

lemma intrinsic_fold:
  "foldl (\<lambda>g b. if b = 0 then g + 4 else g + 16) (g0 :: u64) dat =
     g0 + of_nat (4 * length (filter (\<lambda>b. b = 0) dat) + 16 * length (filter (\<lambda>b. b \<noteq> 0) dat))"
  by (induction dat arbitrary: g0) (simp_all add: algebra_simps)

lemma length_filter_zero: "length (filter (\<lambda>b::byte. b = 0) dat) + length (filter (\<lambda>b. b \<noteq> 0) dat) = length dat"
  by (rule sum_length_filter_compl)

lemma intrinsicTxGas_exact:
  assumes "length dat < 2 ^ 59"
  shows "unat (intrinsicTxGas dat) =
    21000 + 4 * length (filter (\<lambda>b. b = 0) dat) + 16 * length (filter (\<lambda>b. b \<noteq> 0) dat)"
proof -
  let ?k = "4 * length (filter (\<lambda>b. b = 0) dat) + 16 * length (filter (\<lambda>b. b \<noteq> 0) dat)"
  have "?k < 2 ^ 63" using assms length_filter_zero [of dat] by simp
  then have "unat (of_nat (21000 + ?k) :: u64) = 21000 + ?k" by (subst unat_of_nat) simp
  moreover have "intrinsicTxGas dat = of_nat (21000 + ?k)" by (simp only: intrinsicTxGas_def intrinsic_fold of_nat_add of_nat_numeral)
  ultimately show ?thesis by simp
qed

subsection \<open>The warm set\<close>

lemma set_appendUnique [simp]: "set (appendUnique addrs as) = set addrs \<union> set as"
  by (induction addrs as rule: appendUnique.induct) auto

lemma distinct_appendUnique: "distinct addrs \<Longrightarrow> distinct (appendUnique addrs as)"
  by (induction addrs as rule: appendUnique.induct) auto

lemma IsAddressWarmed_fold [simp]:
  "IsAddressWarmed a (fold WarmAddress as al) \<longleftrightarrow> a \<in> set as \<or> IsAddressWarmed a al"
  by (induction as arbitrary: al) (auto simp: IsAddressWarmed_def WarmAddress_def)

lemma IsAddressWarmed_Warm [simp]: "IsAddressWarmed a (WarmAddress b al) \<longleftrightarrow> a = b \<or> IsAddressWarmed a al"
  by (simp add: IsAddressWarmed_def WarmAddress_def)

text \<open>The order of the addresses does not matter.\<close>

lemma warm_order: "set as = set bs \<Longrightarrow> fold WarmAddress as al = fold WarmAddress bs al"
proof -
  have f: "fold WarmAddress as al = al\<lparr>alAddrs := (\<lambda>a. if a \<in> set as then Some True else alAddrs al a)\<rparr>" for as
  proof (induction as arbitrary: al)
    case (Cons a as)
    show ?case unfolding fold_Cons comp_apply Cons.IH
      by (rule SimpleAccessList.equality) (auto simp: WarmAddress_def)
  qed simp
  show "set as = set bs \<Longrightarrow> fold WarmAddress as al = fold WarmAddress bs al" by (simp add: f)
qed

lemma warm_NewState:
  assumes "case cPrecompiles conf of None \<Rightarrow> True | Some r \<Rightarrow> finite (dom r)"
  shows "IsAddressWarmed a (accessList (NewState L C conf)) \<longleftrightarrow>
    IsAddressWarmed a (orElse (cAccessList conf) NewSimpleAccessList) \<or>
    a \<in> {cOrigin conf, cCaller conf, cContractAddress conf} \<or>
    (\<exists>b. cBlockContext conf = Some b \<and> forkGTE (cFork conf) ForkShanghai \<and> a = CoinbaseVal b) \<or>
    a \<in> dom (registryFor L C (cFork conf) (cPrecompiles conf)) \<or> a \<in> set (cWarmAddresses conf)"
proof -
  have fin: "finite (dom (MainnetPrecompilesForFork L C f))" for f by (simp add: Mainnet_dom)
  have "set (warmAddressesForConfig L C conf) =
      dom (registryFor L C (cFork conf) (cPrecompiles conf)) \<union> set (cWarmAddresses conf)"
    using assms fin by (auto simp: warmAddressesForConfig_def MainnetPrecompileAddresses_def PreAddresses_def
        registryFor_def orElse_def split: option.splits)
  then show ?thesis
    by (auto simp: NewState_def NewEVMState_def warmInitialAccessList_def Let_def split: option.splits)
qed

subsection \<open>A run from its configuration\<close>

lemma NewState_frame [simp]:
  "gasMeter (NewState L C conf) = NewGasMeter (cGasLimit conf)" "stack (NewState L C conf) = NewStack"
  "memory (NewState L C conf) = NewMemory" "account (NewState L C conf) = orElse (cState conf) NewInMemoryAccountState"
  "storage (NewState L C conf) = orElse (cStorage conf) NewInMemoryStorage"
  "IsStaticVal (contract (NewState L C conf)) = cIsStatic conf"
  by (simp_all add: NewState_def NewEVMState_def Let_def)

lemma applyTop_gas [simp]: "gasMeter (snd (applyTopLevelCallValue conf s)) = gasMeter s"
  by (simp add: applyTopLevelCallValue_def split: option.split prod.split)

text \<open>Enough fuel: the gas limit plus one. The result accounts for all the gas.\<close>

lemma runWithConfig_result:
  assumes "maxAlloc L \<le> 2 ^ 37 - 32" "cHooks conf = None" "gasMeter s = NewGasMeter (cGasLimit conf)"
    "unat (cGasLimit conf) < n"
  obtains res err s' where "runWithConfig L C n conf s = Some ((res, err), s')"
    "unat (GasUsed res) + unat (GasRemaining res) = unat (cGasLimit conf)"
proof -
  let ?e = "NewEVM s (runFork (cFork conf)) (registryFor L C (runFork (cFork conf)) (cPrecompiles conf))"
  have e: "hooks ?e = None" "gasOf ?e = unat (cGasLimit conf)"
    using assms(3) by (simp_all add: NewEVM_def NewGasMeter_def)
  obtain res err e' where run: "Run L n ?e (cfgCode conf) = Some ((res, err), e')"
    and g: "unat (GasRemaining res) \<le> gasOf ?e"
    using Run_result [OF assms(1) e(1), of n "cfgCode conf"] assms(4) e(2) by metis
  have r: "runWithConfig L C n conf s = Some ((withGasUsed (cGasLimit conf) res, err), state e')"
    using assms(2) run by (simp add: runWithConfig_def Let_def)
  have le: "GasRemaining res \<le> cGasLimit conf" using g e(2) by (simp add: unat_le_nat)
  show thesis
    by (rule that [OF r]) (use le in \<open>simp add: withGasUsed_def unat_sub_le unat_le_nat\<close>)
qed

lemma EngineRun_result:
  assumes lim: "maxAlloc L \<le> 2 ^ 37 - 32" and nh: "cHooks conf = None" and fuel: "unat (cGasLimit conf) < n"
    and ok: "ValidateConfig conf = None"
  obtains res err s where "EngineRun L C n conf = Some ((Some res, err), Some s)"
    "unat (GasUsed res) + unat (GasRemaining res) = unat (cGasLimit conf)"
proof -
  obtain accSnap stoSnap r s where top: "applyTopLevelCallValue conf (NewState L C conf) = ((accSnap, stoSnap, r), s)"
    by (metis surj_pair)
  show thesis
  proof (cases r)
    case (Some res)
    then have "GasUsed res = 0 \<and> GasRemaining res = cGasLimit conf"
      using top by (auto simp: applyTopLevelCallValue_def zeroResult_def split: option.splits if_splits prod.splits)
    then show thesis using top Some by (intro that [of res None s]) (simp_all add: EngineRun_def ok)
  next
    case None
    have "gasMeter s = NewGasMeter (cGasLimit conf)"
      using applyTop_gas [of conf "NewState L C conf"] top by simp
    from runWithConfig_result [OF lim nh this fuel] obtain res err s' where
      "runWithConfig L C n conf s = Some ((res, err), s')"
      "unat (GasUsed res) + unat (GasRemaining res) = unat (cGasLimit conf)" by blast
    then show thesis using top None by (intro that) (simp_all add: EngineRun_def ok)
  qed
qed

subsection \<open>Failed runs\<close>

lemma burn_storage [simp]: "storage (applyBaseFeeBurn conf res s) = storage s"
  by (simp add: applyBaseFeeBurn_def Let_def split: option.split)

lemma burn_Balance:
  "(\<And>b. cBlockContext conf = Some b \<Longrightarrow> a \<noteq> CoinbaseVal b) \<Longrightarrow>
   Balance a (account (applyBaseFeeBurn conf res s)) = Balance a (account s)"
  by (auto simp: applyBaseFeeBurn_def Let_def split: option.split)

lemma grow_NewEVM:
  assumes "runWithConfig L C n conf s = Some ((res, err), s')" "hooks_respect grow_rel (cHooks conf)"
  shows "grow_rel s s'"
proof -
  let ?f = "runFork (cFork conf)"
  let ?e0 = "NewEVM s ?f (registryFor L C ?f (cPrecompiles conf))"
  let ?e = "case cHooks conf of None \<Rightarrow> ?e0 | Some h \<Rightarrow> SetHooks (Some h) ?e0"
  have hk: "hooks ?e = cHooks conf" "state ?e = s"
    by (simp_all add: NewEVM_def SetHooks_def split: option.split)
  obtain res0 e' where run: "Run L n ?e (cfgCode conf) = Some ((res0, err), e')" and s': "s' = state e'"
    using assms(1) by (auto simp: runWithConfig_def Let_def split: option.splits prod.splits)
  show ?thesis using grow.Run_keeps [OF run] assms(2) unfolding hk s' .
qed

text \<open>A run that carried value and did not succeed leaves the accounts and the storage as they were,
  but for the fee taken from the coinbase.\<close>

lemma EngineRun_rolls_back:
  assumes run: "EngineRun L C n conf = Some ((Some res, err), Some s')" and fail: "Status res \<noteq> StatusSuccess"
    and hk: "hooks_respect grow_rel (cHooks conf)"
    and val: "cValue conf = Some v" "v \<noteq> 0" "cCaller conf \<noteq> cContractAddress conf"
  shows "stoView (storage s') = stoView (orElse (cStorage conf) NewInMemoryStorage)"
    "(\<And>b. cBlockContext conf = Some b \<Longrightarrow> a \<noteq> CoinbaseVal b) \<Longrightarrow>
      Balance a (account s') = Balance a (orElse (cState conf) NewInMemoryAccountState)"
proof -
  let ?s0 = "NewState L C conf"
  have ok: "ValidateConfig conf = None" using run by (auto simp: EngineRun_def split: option.splits)
  have both: "stoView (storage s') = stoView (storage ?s0) \<and>
      ((\<forall>b. cBlockContext conf = Some b \<longrightarrow> a \<noteq> CoinbaseVal b) \<longrightarrow> Balance a (account s') = Balance a (account ?s0))"
  proof (cases "Balance (cCaller conf) (account ?s0) < v")
    case True
    then have "s' = ?s0" using run ok val by (simp add: EngineRun_def applyTopLevelCallValue_def)
    then show ?thesis by simp
  next
    case False
    obtain i acc where sa: "accSnapshot (account ?s0) = (i, acc)" by (metis surj_pair)
    obtain j sto where ss: "stoSnapshot (storage ?s0) = (j, sto)" by (metis surj_pair)
    let ?s1 = "?s0\<lparr>account := AddBalance (cContractAddress conf) v (SubBalance (cCaller conf) v acc), storage := sto\<rparr>"
    have top: "applyTopLevelCallValue conf ?s0 = ((i, j, None), ?s1)"
      using val False sa ss by (simp add: applyTopLevelCallValue_def)
    obtain t where t: "runWithConfig L C n conf ?s1 = Some ((res, err), t)"
      and s': "s' = applyBaseFeeBurn conf res (revertTopLevelCallValue i j res t)"
      using run ok top by (auto simp: EngineRun_def split: option.splits prod.splits)
    have g: "grow_rel ?s1 t" by (rule grow_NewEVM [OF t hk])
    have pa: "prefix (snapshots (snd (accSnapshot (account ?s0)))) (snapshots (account t))"
      and ps: "prefix (stoSnapshots (snd (stoSnapshot (storage ?s0)))) (stoSnapshots (storage t))"
      using g sa ss by (simp_all add: grow_rel_def)
    have ij: "0 \<le> i" "0 \<le> j"
      using acc.snap_id [of "account ?s0"] sto.snap_id [of "storage ?s0"] sa ss by simp_all
    let ?r = "revertTopLevelCallValue i j res t"
    have r: "account ?r = accRevertToSnapshot i (account t)" "storage ?r = stoRevertToSnapshot j (storage t)"
      using fail ij by (simp_all add: revertTopLevelCallValue_def)
    have "accView (account ?r) = accView (account ?s0)" "stoView (storage ?r) = stoView (storage ?s0)"
      using acc.revert_snap(1) [OF pa] sto.revert_snap(1) [OF ps] sa ss by (simp_all add: r)
    then show ?thesis using s' Balance_accView [of "account ?r" "account ?s0" a] by (auto simp: burn_Balance)
  qed
  then show "stoView (storage s') = stoView (orElse (cStorage conf) NewInMemoryStorage)" by simp
  show "(\<And>b. cBlockContext conf = Some b \<Longrightarrow> a \<noteq> CoinbaseVal b) \<Longrightarrow>
      Balance a (account s') = Balance a (orElse (cState conf) NewInMemoryAccountState)"
    using both by simp
qed

end
