(* ===== verification/JumpAnalysis.thy ===== *)
theory JumpAnalysis
  imports Termination
begin

text \<open>
  What \<open>analyzeJumpdests\<close> computes (\<open>interpreter.go\<close>): the positions that hold a JUMPDEST byte and at
  which an instruction starts, instructions being read from position 0 with the operand bytes of PUSH1
  to PUSH32 skipped. And what a result of \<open>Run\<close> says about gas: a frame that neither succeeded nor
  reverted reports none.
\<close>

subsection \<open>Instruction boundaries\<close>

definition opWidth :: "byte \<Rightarrow> nat" where
  "opWidth opc = (if 0x60 \<le> opc \<and> opc \<le> 0x7F then unat (opc - 0x60) + 2 else 1)"

inductive startsFrom :: "bytes \<Rightarrow> nat \<Rightarrow> nat \<Rightarrow> bool" for code where
  here: "startsFrom code i i"
| later: "i < length code \<Longrightarrow> startsFrom code (i + opWidth (code ! i)) j \<Longrightarrow> startsFrom code i j"

inductive_cases startsFromE: "startsFrom code i j"

definition isBoundary :: "bytes \<Rightarrow> nat \<Rightarrow> bool" where
  "isBoundary code j \<longleftrightarrow> startsFrom code 0 j"

lemma opWidth_pos: "0 < opWidth opc"
  by (simp add: opWidth_def)

lemma startsFrom_ge: "startsFrom code i j \<Longrightarrow> i \<le> j"
  by (induction rule: startsFrom.induct) auto

lemma startsFrom_iff:
  "startsFrom code i j \<longleftrightarrow> i = j \<or> i < length code \<and> startsFrom code (i + opWidth (code ! i)) j"
  by (auto intro: startsFrom.intros elim: startsFromE)

lemma startsFrom_step: "startsFrom code i j \<Longrightarrow> j < length code \<Longrightarrow> startsFrom code i (j + opWidth (code ! j))"
  by (induction rule: startsFrom.induct) (auto intro: startsFrom.intros)

lemma length_jumpdestLoop [simp]: "length (jumpdestLoop code i dests) = length dests"
  by (induction code i dests rule: jumpdestLoop.induct) (subst jumpdestLoop.simps, simp add: Let_def)

lemma jumpdestLoop_next:
  "i < length code \<Longrightarrow> jumpdestLoop code i dests =
     jumpdestLoop code (i + opWidth (code ! i)) (if code ! i = 0x5B then dests[i := True] else dests)"
  by (subst jumpdestLoop.simps) (auto simp: Let_def opWidth_def add.assoc)

lemma jumpdestLoop_marks:
  "length dests = length code \<Longrightarrow> j < length code \<Longrightarrow>
   jumpdestLoop code i dests ! j \<longleftrightarrow> dests ! j \<or> startsFrom code i j \<and> code ! j = 0x5B"
proof (induction "length code - i" arbitrary: i dests rule: less_induct)
  case less
  show ?case
  proof (cases "i < length code")
    case False
    then have "jumpdestLoop code i dests = dests" by (subst jumpdestLoop.simps) simp
    moreover have "\<not> startsFrom code i j" using False less.prems(2) startsFrom_ge by fastforce
    ultimately show ?thesis by simp
  next
    case True
    let ?d = "if code ! i = 0x5B then dests[i := True] else dests"
    have "length code - (i + opWidth (code ! i)) < length code - i" using True opWidth_pos [of "code ! i"] by simp
    from less.hyps [OF this, of ?d] less.prems
    have "jumpdestLoop code i dests ! j \<longleftrightarrow> ?d ! j \<or> startsFrom code (i + opWidth (code ! i)) j \<and> code ! j = 0x5B"
      by (simp add: jumpdestLoop_next [OF True])
    then show ?thesis using True less.prems by (auto simp: startsFrom_iff [of code i j] nth_list_update)
  qed
qed

lemma analyzeJumpdests_iff:
  assumes "j < length code"
  shows "analyzeJumpdests code ! j \<longleftrightarrow> isBoundary code j \<and> code ! j = 0x5B"
  using assms jumpdestLoop_marks [of "replicate (length code) False" code j 0]
  by (auto simp: analyzeJumpdests_def isBoundary_def)

lemma length_analyzeJumpdests [simp]: "length (analyzeJumpdests code) = length code"
  by (simp add: analyzeJumpdests_def)

subsection \<open>Gas of failed frames\<close>

definition gasSpent :: "runResult \<Rightarrow> bool" where
  "gasSpent r \<longleftrightarrow> Status (fst r) = StatusSuccess \<or> Status (fst r) = StatusRevert \<or> GasRemaining (fst r) = 0"

lemma gasSpent_err [simp]: "gasSpent (errResult st err, x)"
  by (simp add: gasSpent_def)

lemma gasSpent_handler: "gasSpent (handlerResult err e)" "gasSpent (hookErrResult err e, x)"
  by (simp_all add: gasSpent_def handlerResult_def hookErrResult_def Let_def errResult_def
      NewExecutionResultBuilder_def zeroResult_def)

lemma returns_case_sum:
  "(\<And>y. s = Inl y \<Longrightarrow> returns P (f y)) \<Longrightarrow> (\<And>y. s = Inr y \<Longrightarrow> returns P (g y)) \<Longrightarrow>
   returns P (case s of Inl y \<Rightarrow> f y | Inr y \<Rightarrow> g y)"
  by (cases s) simp_all

lemma returns_gets: "(\<And>e. returns P (f (h e))) \<Longrightarrow> returns P (seq (gets h) f)"
  by (simp add: returns_def seq_def gets_def)

lemma loopIter_gasSpent:
  "returns (\<lambda>r. \<forall>res. r = Some res \<longrightarrow> gasSpent res) (loopIter L call code)"
  unfolding loopIter_defs Let_def
  by (intro returns_gets returns_seq returns_basic returns_case_sum)
    (simp_all add: gasSpent_handler, simp add: gasSpent_def endResult_def NewExecutionResultBuilder_def zeroResult_def)

lemma runLoop_gasSpent: "returns gasSpent (runLoop n L code)"
proof (induction n)
  case 0
  show ?case by (simp add: returns_def)
next
  case (Suc n)
  show ?case
    unfolding runLoop.simps
    by (rule returns_seq_val [OF loopIter_gasSpent])
      (auto simp: Suc.IH returns_basic split: option.split)
qed

lemma Run_gasSpent:
  assumes "Run L n e code = Some (r, e')"
  shows "gasSpent r"
proof -
  obtain q where "runLoop n L code (e\<lparr>jumpdests := analyzeJumpdests code\<rparr>) = Some (q, e')"
    "r = (case q of Ok r \<Rightarrow> r | Panic p \<Rightarrow> recovered p e' | Fail err \<Rightarrow> (errResult StatusHalt err, Some err))"
    using assms by (auto simp: Run_def runWith_def split: option.splits outcome.splits)
  moreover from this(1) have "q = Ok x \<Longrightarrow> gasSpent x" for x
    using runLoop_gasSpent [of n L code] unfolding returns_def by blast
  ultimately show ?thesis
    by (cases q) (simp_all add: recovered_def, simp add: gasSpent_def)
qed

subsection \<open>The program counter\<close>

text \<open>\<open>still m\<close>: \<open>m\<close> leaves the program counter, the marked destinations and the hooks alone; \<open>steps m\<close>:
  only the counter changes, by one when \<open>m\<close> succeeds.\<close>

definition sameCode :: "'h EVM \<Rightarrow> 'h EVM \<Rightarrow> bool" where
  "sameCode e e' \<longleftrightarrow> jumpdests e' = jumpdests e \<and> hooks e' = hooks e"

definition still :: "('h, 'a) M \<Rightarrow> bool" where
  "still m \<longleftrightarrow> (\<forall>e r e'. m e = Some (r, e') \<longrightarrow> sameCode e e' \<and> pc e' = pc e)"

definition steps :: "('h, 'a) M \<Rightarrow> bool" where
  "steps m \<longleftrightarrow> (\<forall>e r e'. m e = Some (r, e') \<longrightarrow> sameCode e e' \<and> (\<forall>x. r = Ok x \<longrightarrow> pc e' = pc e + 1))"

named_theorems pc_intros \<open>compositional rules for \<open>still\<close> and \<open>steps\<close>\<close>

lemma stillD: "still m \<Longrightarrow> m e = Some (r, e') \<Longrightarrow> sameCode e e' \<and> pc e' = pc e"
  by (simp add: still_def)

lemma stepsD: "steps m \<Longrightarrow> m e = Some (r, e') \<Longrightarrow> sameCode e e' \<and> (\<forall>x. r = Ok x \<longrightarrow> pc e' = pc e + 1)"
  by (simp add: steps_def)

lemma sameCode_refl [simp]: "sameCode e e"
  by (simp add: sameCode_def)

lemma sameCode_trans: "sameCode e e1 \<Longrightarrow> sameCode e1 e2 \<Longrightarrow> sameCode e e2"
  by (simp add: sameCode_def)

lemma still_seq [pc_intros]:
  assumes "still m" "\<And>x. still (f x)"
  shows "still (seq m f)"
  unfolding still_def
proof (intro allI impI)
  fix e r e'
  assume run: "seq m f e = Some (r, e')"
  then obtain q e1 where m: "m e = Some (q, e1)" by (auto simp: seq_def split: option.splits)
  then have "sameCode e1 e' \<and> pc e' = pc e1" using run stillD [OF assms(2)] by (cases q) (auto simp: seq_def)
  then show "sameCode e e' \<and> pc e' = pc e" using stillD [OF assms(1) m] sameCode_trans by metis
qed

lemma steps_seq [pc_intros]:
  assumes "still m" "\<And>x. steps (f x)"
  shows "steps (seq m f)"
  unfolding steps_def
proof (intro allI impI)
  fix e r e'
  assume run: "seq m f e = Some (r, e')"
  then obtain q e1 where m: "m e = Some (q, e1)" by (auto simp: seq_def split: option.splits)
  then have "sameCode e1 e' \<and> (\<forall>x. r = Ok x \<longrightarrow> pc e' = pc e1 + 1)"
    using run stepsD [OF assms(2)] by (cases q) (auto simp: seq_def)
  then show "sameCode e e' \<and> (\<forall>x. r = Ok x \<longrightarrow> pc e' = pc e + 1)"
    using stillD [OF assms(1) m] sameCode_trans by metis
qed

lemma pc_thn [pc_intros]:
  "still m \<Longrightarrow> still k \<Longrightarrow> still (thn m k)" "still m \<Longrightarrow> steps k \<Longrightarrow> steps (thn m k)"
  unfolding thn_def by (intro still_seq steps_seq; assumption)+

lemma pc_control [pc_intros]:
  "(b \<Longrightarrow> still m) \<Longrightarrow> (\<not> b \<Longrightarrow> still k) \<Longrightarrow> still (if b then m else k)"
  "(b \<Longrightarrow> steps m) \<Longrightarrow> (\<not> b \<Longrightarrow> steps k) \<Longrightarrow> steps (if b then m else k)"
  "(\<And>y z. still (g y z)) \<Longrightarrow> still (case p of (y, z) \<Rightarrow> g y z)"
  "(\<And>y z. steps (g y z)) \<Longrightarrow> steps (case p of (y, z) \<Rightarrow> g y z)"
  "(\<And>x. x = v \<Longrightarrow> still (l x)) \<Longrightarrow> still (let x = v in l x)"
  "(\<And>x. x = v \<Longrightarrow> steps (l x)) \<Longrightarrow> steps (let x = v in l x)"
  "still m \<Longrightarrow> (\<And>y. still (f y)) \<Longrightarrow> still (case q of None \<Rightarrow> m | Some y \<Rightarrow> f y)"
  "still m \<Longrightarrow> still k \<Longrightarrow> still (case c of True \<Rightarrow> m | False \<Rightarrow> k)"
  by (simp_all split: prod.split option.split bool.split)

lemma still_pure [pc_intros]:
  "still (ret x)" "still (throw err)" "still (gets f)" "still (lift oc)" "still (getState h)" "still getContract"
  "still (consume amount)" "still (modify (\<lambda>e. e\<lparr>returnData := d e\<rparr>))"
  "still (modify (\<lambda>e. e\<lparr>outputData := h' e, returnData := k e\<rparr>))"
  by (auto simp: still_def sameCode_def ret_def throw_def gets_def lift_def getState_def getContract_def consume_def modify_def
      split: prod.splits)

lemma steps_incPc [pc_intros]: "steps incPc" "steps (throw err)"
  by (simp_all add: steps_def sameCode_def incPc_def modify_def throw_def)

lemma still_onState [pc_intros]: "still (onState f)"
  by (auto simp: still_def sameCode_def onState_def split: outcome.splits prod.splits)

lemma still_state [pc_intros]:
  "still popW" "still (pushW w)" "still (swapM n)" "still (dupM n)" "still (peekN n)" "still (modGas gf)"
  "still (memResize L sz)" "still (memSet L off dat)" "still (memGet L off sz)" "still (modAccount af)"
  "still (modStorage sf)" "still (modTransient tf)" "still (modAccessList lf)" "still (addLogM lg)"
  unfolding popW_def pushW_def swapM_def dupM_def peekN_def modGas_def memResize_def memSet_def memGet_def
    modAccount_def modStorage_def modTransient_def modAccessList_def addLogM_def
  by (rule still_onState)+

lemma still_derived [pc_intros]:
  "still popBig" "still popU64" "still popAddress" "still (pushBig i)" "still (pushBigPtr p)"
  "still (pushAddress a)" "still (pushLen n)" "still (pushInt64 u)" "still (pushBool b)" "still (peekU64 j)"
  unfolding popBig_def popU64_def popAddress_def pushBig_def pushBigPtr_def pushAddress_def pushLen_def
    pushInt64_def pushBool_def peekU64_def
  by (intro pc_intros)+

lemma still_fireHook [pc_intros]: "still (fireHook h ctx)"
  by (auto simp: still_def sameCode_def fireHook_def split: prod.splits)

lemma still_fireAll [pc_intros]: "(\<And>r. still (react r)) \<Longrightarrow> still (fireAll ctx react d hs)"
  by (induction hs) (auto intro!: pc_intros)

lemma still_react [pc_intros]:
  "still (memoryReact r)" "still (storageReact r)" "still (callReact r)" "still (haltWith err d)"
  by (auto simp: haltWith_def intro!: pc_intros split: HookAction.split ResultData.split)

lemma still_dispatch [pc_intros]:
  "still (hooksForM t)" "still (dispatchMemoryAccessHook opc t ma)" "still (dispatchStorageAccessHook opc t sa)"
  "still (dispatchCallHook opc t ci)"
  unfolding hooksForM_def dispatchMemoryAccessHook_def dispatchStorageAccessHook_def dispatchCallHook_def
  by (intro pc_intros)+

lemma still_calcDynamicGas [pc_intros]: "still (calcDynamicGas opc)"
  unfolding calcDynamicGas_def needStack_def expandGas_def accessCostAddress_def accessCostStorage_def
  by (intro pc_intros)

lemma steps_arith [pc_intros]:
  "steps opAdd" "steps opMul" "steps opSub" "steps opDiv" "steps opSdiv" "steps opMod"
  "steps opSmod" "steps opAddmod" "steps opMulmod" "steps opExp" "steps opSignextend"
  unfolding opAdd_def opMul_def opSub_def opDiv_def opSdiv_def opMod_def opSmod_def
    opAddmod_def opMulmod_def opExp_def opSignextend_def
  by (intro pc_intros)+

lemma steps_cmp [pc_intros]:
  "steps opLt" "steps opGt" "steps opSlt" "steps opSgt" "steps opEq" "steps opIszero" "steps opAnd"
  "steps opOr" "steps opXor" "steps opNot" "steps opByte" "steps opShl" "steps opShr" "steps opSar" "steps opClz"
  unfolding opLt_def opGt_def opSlt_def opSgt_def opEq_def opIszero_def opAnd_def opOr_def opXor_def
    opNot_def opByte_def opShl_def opShr_def opSar_def opClz_def
  by (intro pc_intros)+

lemma steps_env [pc_intros]:
  "steps opAddress" "steps opBalance" "steps opOrigin" "steps opCaller" "steps opCallvalue"
  "steps opCalldataload" "steps opCalldatasize" "steps (opCalldatacopy L)" "steps opCodesize"
  "steps (opCodecopy L)" "steps opGasprice" "steps opExtcodesize" "steps (opExtcodecopy L)"
  "steps opReturndatasize" "steps (opReturndatacopy L)" "steps opExtcodehash"
  unfolding env_defs by (intro pc_intros)+

lemma steps_block [pc_intros]:
  "steps opBlockhash" "steps opCoinbase" "steps opTimestamp" "steps opNumber" "steps opPrevrandao"
  "steps opGaslimit" "steps opChainid" "steps opSelfbalance" "steps opBasefee" "steps opBlobhash" "steps opBlobbasefee"
  unfolding env_defs by (intro pc_intros)+

lemma still_popTopics [pc_intros]: "still (popTopics n)"
  by (induction n) (auto intro!: pc_intros)

lemma steps_data [pc_intros]:
  "steps opMsize" "steps (opKeccak256 L)" "steps opPc" "steps opGas"
  "steps opJumpdest" "steps opPop" "steps opPush0" "steps (opDup i)" "steps (opSwap i)" "steps (opLog L n)"
  "steps (opMload L)" "steps (opMstore L)" "steps (opMstore8 L)" "steps (opMcopy L)" "steps opSload"
  "steps opTload" "steps opSstore" "steps opTstore"
  unfolding data_defs opSstore_def opTstore_def by (intro pc_intros)+

lemma steps_leave [pc_intros]: "steps opSelfdestruct" "steps opStop" "steps (opReturn L)" "steps (opRevert L)" "steps opInvalid"
  unfolding opSelfdestruct_def opStop_def opReturn_def opRevert_def opInvalid_def leaveWith_def by (intro pc_intros)+

lemma still_ExecuteMessage: "still (ExecuteMessage L run msg)"
  by (auto simp: still_def sameCode_def ExecuteMessage_def Let_def split: if_splits option.splits outcome.splits prod.splits)

lemma steps_calls:
  assumes "\<And>msg. still (call msg)"
  shows "steps (opCallCommon L call kind)" "steps (opCreate L call b)"
  unfolding opCallCommon_def callSend_def finishCall_def opCreate_def createSend_def finishCreate_def Let_def
  by (intro pc_intros assms)+

lemma opJump_pc:
  assumes "opJump e = Some (r, e')"
  shows "sameCode e e' \<and> (\<forall>x. r = Ok x \<longrightarrow> isJumpdest (pc e') e)"
proof -
  obtain q e1 where m: "popU64 e = Some (q, e1)"
    using assms by (auto simp: opJump_def seq_def split: option.splits)
  have s: "sameCode e e1" using stillD [OF still_derived(2) m] by simp
  then show ?thesis
    using assms m by (cases q) (auto simp: opJump_def seq_def gets_def throw_def modify_def sameCode_def isJumpdest_def split: if_splits)
qed

lemma opJumpi_pc:
  assumes "opJumpi e = Some (r, e')"
  shows "sameCode e e' \<and> (\<forall>x. r = Ok x \<longrightarrow> pc e' = pc e + 1 \<or> isJumpdest (pc e') e)"
proof -
  obtain q e1 where m: "popU64 e = Some (q, e1)"
    using assms by (auto simp: opJumpi_def seq_def split: option.splits)
  have s: "sameCode e e1 \<and> pc e1 = pc e" using stillD [OF still_derived(2) m] .
  show ?thesis
  proof (cases q)
    case (Ok dest)
    obtain q2 e2 where m2: "popBig e1 = Some (q2, e2)"
      using assms m Ok by (auto simp: opJumpi_def seq_def split: option.splits)
    have s2: "sameCode e1 e2 \<and> pc e2 = pc e1" using stillD [OF still_derived(1) m2] .
    show ?thesis
      using assms m m2 Ok s s2
      by (cases q2) (auto simp: opJumpi_def seq_def gets_def throw_def modify_def incPc_def sameCode_def isJumpdest_def
          split: if_splits)
  qed (use assms m s in \<open>auto simp: opJumpi_def seq_def\<close>)
qed

lemma opPush_pc:
  assumes "opPush code n e = Some (r, e')"
  shows "sameCode e e' \<and> (\<forall>x. r = Ok x \<longrightarrow> pc e' = pc e + of_nat (1 + n))"
proof -
  let ?w = "pushOperand code (pc e) n"
  show ?thesis
  proof (cases ?w)
    case (Ok w)
    obtain q e1 where m: "pushW w e = Some (q, e1)"
      using assms Ok by (auto simp: opPush_def seq_def gets_def lift_def thn_def split: option.splits)
    have "sameCode e e1 \<and> pc e1 = pc e" using stillD [OF still_state(2) m] .
    then show ?thesis
      using assms Ok m by (cases q) (auto simp: opPush_def seq_def gets_def lift_def thn_def modify_def sameCode_def)
  qed (use assms in \<open>auto simp: opPush_def seq_def gets_def lift_def\<close>)
qed

lemma execute_push:
  assumes "0x60 \<le> opc \<and> opc \<le> 0x7F"
  shows "execute L call opc code = opPush code (unat (opc - 0x60) + 1)"
proof -
  have ne: "(opc = c) = False" if "\<not> (0x60 \<le> c \<and> c \<le> 0x7F)" for c using assms that by auto
  have "opc \<noteq> 1" using assms by (auto simp: unat_le_nat)
  then show ?thesis unfolding execute_def using assms by (simp add: ne)
qed

text \<open>After any instruction the counter is behind it, or at a marked destination.\<close>

lemma execute_pc:
  assumes call: "\<And>msg. still (call msg)" and run: "execute L call opc code e = Some (r, e')"
  shows "sameCode e e' \<and> (\<forall>x. r = Ok x \<longrightarrow> pc e' = pc e + of_nat (opWidth opc) \<or> isJumpdest (pc e') e)"
proof -
  consider "opc = 0x56" | "opc = 0x57" | "0x60 \<le> opc \<and> opc \<le> 0x7F" | "opc \<noteq> 0x56" "opc \<noteq> 0x57" "\<not> (0x60 \<le> opc \<and> opc \<le> 0x7F)"
    by blast
  then show ?thesis
  proof cases
    case 1
    then show ?thesis using run opJump_pc [of e r e'] by (auto simp: execute_def)
  next
    case 2
    then show ?thesis using run opJumpi_pc [of e r e'] by (auto simp: execute_def opWidth_def)
  next
    case 3
    then have "opWidth opc = 1 + (unat (opc - 0x60) + 1)" by (simp add: opWidth_def)
    then show ?thesis using run opPush_pc [of code "unat (opc - 0x60) + 1" e r e'] unfolding execute_push [OF 3] by simp
  next
    case 4
    have st: "steps (execute L call opc code)"
      unfolding execute_def opCall_def opCallcode_def opDelegatecall_def
      by (intro pc_control pc_intros steps_calls call) (use 4 in simp_all)
    show ?thesis using stepsD [OF st run] 4 by (auto simp: opWidth_def)
  qed
qed

text \<open>One iteration without hooks that goes on leaves the counter behind the instruction, or at a marked
  destination.\<close>

lemma loopIter_pc:
  assumes call: "\<And>msg. still (call msg)" and nh: "hooks e = None"
    and run: "loopIter L call code e = Some (Ok None, e')"
  shows "sameCode e e' \<and> pc e < ulen code \<and>
    (pc e' = pc e + of_nat (opWidth (code ! unat (pc e))) \<or> isJumpdest (pc e') e)"
proof -
  let ?opc = "code ! unat (pc e)"
  have pc: "pc e < ulen code" using run by (auto simp: loopIter_def gets_def seq_def ret_def not_less split: if_splits)
  obtain d e1 where d: "calcDynamicGas ?opc e = Some (Ok d, e1)"
    and c: "chargeStep L call code ?opc (gas (gasMeter (state e))) (GasCosts ?opc + d) e1 = Some (Ok None, e')"
    using run by (auto simp: loopIter_def gets_def seq_def ret_def Let_def split: if_splits option.splits outcome.splits)
  have s1: "sameCode e e1 \<and> pc e1 = pc e" using stillD [OF still_calcDynamicGas d] .
  obtain q e2 where q: "consume (GasCosts ?opc + d) e1 = Some (q, e2)"
    using c by (auto simp: chargeStep_def seq_def attempt_def split: option.splits)
  have s2: "sameCode e1 e2 \<and> pc e2 = pc e1" by (rule stillD [OF still_pure(7) q])
  have "hookStep L call code ?opc (gas (gasMeter (state e))) (GasCosts ?opc + d) e2 = Some (Ok None, e')"
    using c q by (cases q) (auto simp: chargeStep_def seq_def attempt_def ret_def)
  moreover have h2: "hooks e2 = None" using s1 s2 nh by (simp add: sameCode_def)
  ultimately have "handlerStep L call code ?opc e2 = Some (Ok None, e')"
    by (simp add: hookStep_def seq_def attempt_def dispatchHooks_none)
  then obtain x where x: "execute L call ?opc code e2 = Some (Ok x, e')"
    by (auto simp: handlerStep_def seq_def attempt_def gets_def ret_def split: option.splits outcome.splits)
  have "sameCode e2 e' \<and> (pc e' = pc e2 + of_nat (opWidth ?opc) \<or> isJumpdest (pc e') e2)"
    using execute_pc [OF call x] by blast
  then show ?thesis using s1 s2 pc by (simp add: sameCode_def isJumpdest_def)
qed

text \<open>The states a frame goes through between its instructions.\<close>

inductive frameReach :: "Lib \<Rightarrow> 'h caller \<Rightarrow> bytes \<Rightarrow> 'h EVM \<Rightarrow> 'h EVM \<Rightarrow> bool" for L call code e where
  start: "frameReach L call code e e"
| again: "frameReach L call code e e1 \<Longrightarrow> loopIter L call code e1 = Some (Ok None, e2) \<Longrightarrow> frameReach L call code e e2"

lemma boundary_step:
  assumes "isBoundary code i" "i < length code" "length code < 2 ^ 63"
  shows "isBoundary code (unat (of_nat i + of_nat (opWidth (code ! i)) :: u64))"
proof -
  have "opWidth (code ! i) < 512"
  proof -
    have "unat (code ! i - 0x60) < 2 ^ LENGTH(8)" by (rule unsigned_less)
    then show ?thesis by (simp add: opWidth_def)
  qed
  then have "unat (of_nat i + of_nat (opWidth (code ! i)) :: u64) = i + opWidth (code ! i)"
    using assms(2,3) by (subst unat_add_no_wrap) (simp_all add: unat_of_nat)
  then show ?thesis using startsFrom_step assms(1,2) by (simp add: isBoundary_def)
qed

lemma frameReach_boundary:
  assumes "frameReach L call code e e'" "\<And>msg. still (call msg)" "hooks e = None" "length code < 2 ^ 63"
    "pc e = 0" "jumpdests e = analyzeJumpdests code"
  shows "isBoundary code (unat (pc e')) \<and> sameCode e e'"
  using assms(1)
proof induction
  case start
  show ?case using assms(5) by (simp add: isBoundary_def startsFrom.here)
next
  case (again e1 e2)
  have nh: "hooks e1 = None" and jd: "jumpdests e1 = analyzeJumpdests code"
    using again.IH assms(3,6) by (simp_all add: sameCode_def)
  from loopIter_pc [OF assms(2) nh again.hyps(2)] have s: "sameCode e1 e2" "pc e1 < ulen code"
    and p: "pc e2 = pc e1 + of_nat (opWidth (code ! unat (pc e1))) \<or> isJumpdest (pc e2) e1" by blast+
  have ul: "unat (ulen code) = length code" using assms(4) by (simp add: unat_ulen)
  have lt: "unat (pc e1) < length code" using s(2) ul by (simp add: unat_lt_nat)
  have "isBoundary code (unat (pc e2))"
    using p
  proof
    assume "pc e2 = pc e1 + of_nat (opWidth (code ! unat (pc e1)))"
    then show ?thesis using boundary_step [OF _ lt assms(4)] again.IH by simp
  next
    assume "isJumpdest (pc e2) e1"
    then show ?thesis
      using analyzeJumpdests_iff [of "unat (pc e2)" code] ul jd by (simp add: isJumpdest_def unat_lt_nat)
  qed
  then show ?case using s(1) again.IH sameCode_trans by blast
qed

end
