(* ===== verification/Breakpoints.thy ===== *)
theory Breakpoints
  imports Interpreter
begin

text \<open>
  \<open>internal/engine/breakpoint.go\<close>: conditional breakpoints, the hook a breakpoint is, and the manager
  that registers them. A handler is a function of the breakpoint's context and the frame's state; it
  returns the action it wants, what it left in the \<open>Result\<close> field of its context, and the state.
\<close>

subsection \<open>Conditions\<close>

record 'h BreakpointCondition =
  MinGas :: u64
  MaxGas :: u64
  MinDepth :: int
  MaxDepth :: int
  OpFilter :: "byte list"
  AddrFilter :: "Address list"
  SlotFilter :: "Hash list"
  Custom :: "'h HookCondition option"

text \<open>The search loops of \<open>Match\<close>.\<close>

fun found :: "'a \<Rightarrow> 'a list \<Rightarrow> bool" where
  "found x [] = False"
| "found x (y # ys) = (if y = x then True else found x ys)"

definition Match :: "'h BreakpointCondition \<Rightarrow> HookContext \<Rightarrow> 'h evmState \<Rightarrow> bool" where
  "Match bc ctx st =
     (let gasRemaining = gas (gasMeter st) in
      if MinGas bc > 0 \<and> gasRemaining < MinGas bc then False
      else if MaxGas bc > 0 \<and> gasRemaining > MaxGas bc then False
      else if MinDepth bc > 0 \<and> callDepth st < MinDepth bc then False
      else if MaxDepth bc \<ge> 0 \<and> callDepth st > MaxDepth bc then False
      else if OpFilter bc \<noteq> [] \<and> (case ctxOpcode ctx of None \<Rightarrow> False | Some oi \<Rightarrow> \<not> found (oiOp oi) (OpFilter bc)) then False
      else if AddrFilter bc \<noteq> [] \<and> \<not> found (AddressVal (contract st)) (AddrFilter bc) then False
      else if SlotFilter bc \<noteq> [] \<and> (case ctxStorage ctx of None \<Rightarrow> False | Some a \<Rightarrow> \<not> found (saSlot a) (SlotFilter bc)) then False
      else case Custom bc of None \<Rightarrow> True | Some c \<Rightarrow> c ctx st)"

subsection \<open>Breakpoints\<close>

datatype BreakpointReason = ReasonOpcode | ReasonCall | ReasonStorageRead | ReasonStorageWrite
  | ReasonMemoryRead | ReasonMemoryWrite | ReasonLog | ReasonSelfDestruct | ReasonReturn
  | ReasonStep | ReasonException | ReasonManual

datatype BreakpointAction = BreakpointContinue | BreakpointStepInto | BreakpointStepOver
  | BreakpointStepOut | BreakpointReplaceResult | BreakpointOther int

record BreakpointContext =
  bcID :: string
  bcReason :: BreakpointReason
  bcHookCtx :: HookContext
  bcResult :: "HookResult option"

type_synonym 'h handler =
  "BreakpointContext \<Rightarrow> 'h evmState \<Rightarrow> (evm_error + BreakpointAction \<times> HookResult option) \<times> 'h evmState"

record 'h Breakpoint =
  bpID :: string
  bpHookType :: HookType
  bpCondition :: "'h BreakpointCondition option"
  bpOnHit :: "'h handler option"
  bpOnce :: bool

type_synonym 'h BreakpointOption = "'h Breakpoint \<Rightarrow> 'h Breakpoint"

definition WithCondition :: "'h BreakpointCondition \<Rightarrow> 'h BreakpointOption" where
  "WithCondition c b = b\<lparr>bpCondition := Some c\<rparr>"

definition WithOneTime :: "'h BreakpointOption" where
  "WithOneTime b = b\<lparr>bpOnce := True\<rparr>"

definition WithHandler :: "'h handler \<Rightarrow> 'h BreakpointOption" where
  "WithHandler h b = b\<lparr>bpOnHit := Some h\<rparr>"

definition NewBreakpoint :: "string \<Rightarrow> HookType \<Rightarrow> 'h BreakpointOption list \<Rightarrow> 'h Breakpoint" where
  "NewBreakpoint i ht opts =
     fold (\<lambda>opt bp. opt bp) opts
       \<lparr>bpID = i, bpHookType = ht, bpCondition = None, bpOnHit = None, bpOnce = False\<rparr>"

definition breakpointReasonForType :: "HookType \<Rightarrow> BreakpointReason" where
  "breakpointReasonForType ht =
     (if ht \<in> {HookTypeOpcode, HookTypeStep} then ReasonOpcode
      else if ht \<in> {HookTypeExternalCall, HookTypeDelegateCall, HookTypeStaticCall, HookTypeCallCode, HookTypeCreate}
      then ReasonCall
      else if ht = HookTypeStorageRead then ReasonStorageRead
      else if ht = HookTypeStorageWrite then ReasonStorageWrite
      else if ht = HookTypeTransientLoad then ReasonStorageRead
      else if ht = HookTypeTransientStore then ReasonStorageWrite
      else if ht = HookTypeMemoryRead then ReasonMemoryRead
      else if ht = HookTypeMemoryWrite then ReasonMemoryWrite
      else if ht = HookTypeLog then ReasonLog
      else if ht = HookTypeSelfDestruct then ReasonSelfDestruct
      else if ht = HookTypeReturn then ReasonReturn
      else ReasonManual)"

definition haltResult :: "string \<Rightarrow> HookResult" where
  "haltResult text = \<lparr>Action = ActionHalt, ResData = RdNil, HookErr = Some (ErrOther text)\<rparr>"

fun steppingText :: "BreakpointAction \<Rightarrow> string" where
  "steppingText BreakpointStepInto = ''stepping action 1 requested''"
| "steppingText BreakpointStepOver = ''stepping action 2 requested''"
| "steppingText BreakpointStepOut = ''stepping action 3 requested''"
| "steppingText _ = ''''"

definition BreakpointFire :: "'h Breakpoint \<Rightarrow> 'h fire" where
  "BreakpointFire b ctx s =
     (if (case bpCondition b of None \<Rightarrow> False | Some c \<Rightarrow> \<not> Match c ctx s) then (Ok (Some continueResult), s)
      else case bpOnHit b of
        None \<Rightarrow> (Ok (Some (haltResult (''breakpoint '' @ bpID b @ '' hit''))), s)
      | Some onHit \<Rightarrow>
          (case onHit \<lparr>bcID = bpID b, bcReason = breakpointReasonForType (bpHookType b), bcHookCtx = ctx,
                        bcResult = Some continueResult\<rparr> s of
             (Inl err, s') \<Rightarrow> (Fail err, s')
           | (Inr (action, res), s') \<Rightarrow>
               (case action of
                  BreakpointContinue \<Rightarrow> (Ok res, s')
                | BreakpointReplaceResult \<Rightarrow>
                    (case res of
                       None \<Rightarrow> (Panic PanicNil, s')
                     | Some r \<Rightarrow> (Ok (Some (r\<lparr>Action := ActionReplaceResult\<rparr>)), s'))
                | BreakpointOther k \<Rightarrow> (Ok res, s')
                | _ \<Rightarrow> (Ok (Some (haltResult (steppingText action))), s'))))"

text \<open>The \<open>Hook\<close> a breakpoint is.\<close>

definition breakpointHook :: "'h Breakpoint \<Rightarrow> 'h Hook" where
  "breakpointHook b =
     \<lparr>hookType = bpHookType b, hookFire = BreakpointFire b, hookOneTime = bpOnce b, hookID = bpID b\<rparr>"

subsection \<open>The manager\<close>

record 'h BreakpointManager =
  bmBreakpoints :: "string \<rightharpoonup> 'h Breakpoint"
  bmRegistry :: "'h SimpleHookRegistry"
  bmStepping :: bool
  bmStepTarget :: BreakpointAction
  bmStepDepth :: int

definition NewBreakpointManager :: "'h SimpleHookRegistry \<Rightarrow> 'h BreakpointManager" where
  "NewBreakpointManager registry =
     \<lparr>bmBreakpoints = Map.empty, bmRegistry = registry, bmStepping = False,
      bmStepTarget = BreakpointContinue, bmStepDepth = 0\<rparr>"

definition SetBreakpoint :: "'h Breakpoint \<Rightarrow> 'h BreakpointManager \<Rightarrow> 'h BreakpointManager \<times> evm_error option" where
  "SetBreakpoint bp bm =
     (case Register (breakpointHook bp) (bmRegistry bm) of
        (r, err) \<Rightarrow> (bm\<lparr>bmBreakpoints := (bmBreakpoints bm)(bpID bp \<mapsto> bp), bmRegistry := r\<rparr>, err))"

definition RemoveBreakpoint :: "string \<Rightarrow> 'h BreakpointManager \<Rightarrow> 'h BreakpointManager \<times> evm_error option" where
  "RemoveBreakpoint i bm =
     (case Unregister i (bmRegistry bm) of
        (r, err) \<Rightarrow> (bm\<lparr>bmBreakpoints := (bmBreakpoints bm)(i := None), bmRegistry := r\<rparr>, err))"

definition BreakpointsClear :: "'h BreakpointManager \<Rightarrow> 'h BreakpointManager" where
  "BreakpointsClear bm = bm\<lparr>bmBreakpoints := Map.empty, bmRegistry := RegistryClear (bmRegistry bm)\<rparr>"

text \<open>\<open>Breakpoints\<close> lists the values of the map in an order Go leaves open: a set here.\<close>

definition Breakpoints :: "'h BreakpointManager \<Rightarrow> 'h Breakpoint set" where
  "Breakpoints bm = ran (bmBreakpoints bm)"

definition StepInto :: "'h BreakpointManager \<Rightarrow> 'h BreakpointManager" where
  "StepInto bm = bm\<lparr>bmStepping := True, bmStepTarget := BreakpointStepInto\<rparr>"

definition StepOver :: "int \<Rightarrow> 'h BreakpointManager \<Rightarrow> 'h BreakpointManager" where
  "StepOver d bm = bm\<lparr>bmStepping := True, bmStepTarget := BreakpointStepOver, bmStepDepth := d\<rparr>"

definition StepOut :: "int \<Rightarrow> 'h BreakpointManager \<Rightarrow> 'h BreakpointManager" where
  "StepOut d bm = bm\<lparr>bmStepping := True, bmStepTarget := BreakpointStepOut, bmStepDepth := d\<rparr>"

definition IsStepping :: "'h BreakpointManager \<Rightarrow> bool" where
  "IsStepping bm = bmStepping bm"

definition ResolveStepping :: "'h BreakpointManager \<Rightarrow> 'h BreakpointManager" where
  "ResolveStepping bm = bm\<lparr>bmStepping := False\<rparr>"

subsection \<open>What a condition means\<close>

lemma found_set [simp]: "found x ys \<longleftrightarrow> x \<in> set ys"
  by (induction ys) auto

text \<open>A field left at its neutral value matches everything.\<close>

lemma Match_iff:
  fixes st :: "'h evmState"
  shows "Match bc ctx st \<longleftrightarrow>
     (MinGas bc = 0 \<or> MinGas bc \<le> gas (gasMeter st)) \<and>
     (MaxGas bc = 0 \<or> gas (gasMeter st) \<le> MaxGas bc) \<and>
     (MinDepth bc \<le> 0 \<or> MinDepth bc \<le> callDepth st) \<and>
     (MaxDepth bc < 0 \<or> callDepth st \<le> MaxDepth bc) \<and>
     (\<forall>x. ctxOpcode ctx = Some x \<longrightarrow> OpFilter bc = [] \<or> oiOp x \<in> set (OpFilter bc)) \<and>
     (AddrFilter bc = [] \<or> AddressVal (contract st) \<in> set (AddrFilter bc)) \<and>
     (\<forall>x. ctxStorage ctx = Some x \<longrightarrow> SlotFilter bc = [] \<or> saSlot x \<in> set (SlotFilter bc)) \<and>
     (\<forall>c. Custom bc = Some c \<longrightarrow> c ctx st)"
proof -
  have gas: "\<not> (m > 0 \<and> g < m) \<longleftrightarrow> m = 0 \<or> m \<le> g" "\<not> (m > 0 \<and> g > m) \<longleftrightarrow> m = 0 \<or> g \<le> m" for m g :: u64
    by (auto simp: not_less)
  have depth: "\<not> (m > 0 \<and> d < m) \<longleftrightarrow> m \<le> 0 \<or> m \<le> d" "\<not> (m \<ge> 0 \<and> d > m) \<longleftrightarrow> m < 0 \<or> d \<le> m" for m d :: int
    by auto
  have ops: "\<not> (xs \<noteq> [] \<and> (case p of None \<Rightarrow> False | Some oi \<Rightarrow> \<not> found (h oi) xs)) \<longleftrightarrow>
      (\<forall>x. p = Some x \<longrightarrow> xs = [] \<or> h x \<in> set xs)" for p and xs :: "'a list" and h :: "'b \<Rightarrow> 'a"
    by (cases p) auto
  have addrs: "\<not> (xs \<noteq> [] \<and> \<not> found x xs) \<longleftrightarrow> xs = [] \<or> x \<in> set xs" for x :: 'a and xs by auto
  have custom: "(case p of None \<Rightarrow> True | Some c \<Rightarrow> c ctx st) \<longleftrightarrow> (\<forall>c. p = Some c \<longrightarrow> c ctx st)"
    for p :: "'h HookCondition option" by (cases p) auto
  have chain: "(if a then False else b) \<longleftrightarrow> \<not> a \<and> b" for a b by simp
  show ?thesis
    unfolding Match_def Let_def chain gas depth ops addrs custom by (rule refl)
qed

subsection \<open>The manager and its registry\<close>

text \<open>The map of the manager and the registry hold the same breakpoints.\<close>

definition manager_ok :: "'h BreakpointManager \<Rightarrow> bool" where
  "manager_ok bm \<longleftrightarrow> registry_ok (bmRegistry bm) \<and>
     (\<forall>i. regHooks (bmRegistry bm) i = map_option breakpointHook (bmBreakpoints bm i))"

lemma manager_ok_set:
  assumes "manager_ok bm" "bmBreakpoints bm (bpID bp) = None"
  shows "manager_ok (fst (SetBreakpoint bp bm)) \<and> snd (SetBreakpoint bp bm) = None"
proof -
  have new: "regHooks (bmRegistry bm) (hookID (breakpointHook bp)) = None"
    using assms by (simp add: manager_ok_def breakpointHook_def)
  have ok: "registry_ok (bmRegistry bm)" using assms(1) by (simp add: manager_ok_def)
  obtain r where R: "Register (breakpointHook bp) (bmRegistry bm) = (r, None)"
    using Register_new(1) [OF ok new] by (metis prod.collapse)
  have "registry_ok r" using Register_new(2) [OF ok new] by (simp add: R)
  moreover have "regHooks r = (regHooks (bmRegistry bm))(bpID bp \<mapsto> breakpointHook bp)"
    using new R by (auto simp: Register_def breakpointHook_def)
  ultimately show ?thesis using assms(1) by (simp add: manager_ok_def SetBreakpoint_def R)
qed

lemma manager_ok_remove:
  assumes "manager_ok bm" "bmBreakpoints bm i \<noteq> None"
  shows "manager_ok (fst (RemoveBreakpoint i bm)) \<and> snd (RemoveBreakpoint i bm) = None"
proof -
  have known: "regHooks (bmRegistry bm) i \<noteq> None" using assms by (simp add: manager_ok_def)
  have ok: "registry_ok (bmRegistry bm)" using assms(1) by (simp add: manager_ok_def)
  obtain r where R: "Unregister i (bmRegistry bm) = (r, None)"
    using Unregister_known(1) [OF ok known] by (metis prod.collapse)
  have "registry_ok r" using Unregister_known(2) [OF ok known] by (simp add: R)
  moreover have "regHooks r = (regHooks (bmRegistry bm))(i := None)"
    using known R by (auto simp: Unregister_def)
  ultimately show ?thesis using assms(1) by (simp add: manager_ok_def RemoveBreakpoint_def R)
qed

text \<open>Setting a breakpoint whose ID is taken reports an error, but replaces the breakpoint in the
  manager's map and not in the registry.\<close>

lemma SetBreakpoint_taken:
  assumes "manager_ok bm" "bmBreakpoints bm (bpID bp) = Some old"
  shows "snd (SetBreakpoint bp bm) \<noteq> None"
    "bmBreakpoints (fst (SetBreakpoint bp bm)) (bpID bp) = Some bp"
    "bmRegistry (fst (SetBreakpoint bp bm)) = bmRegistry bm"
proof -
  have "regHooks (bmRegistry bm) (hookID (breakpointHook bp)) \<noteq> None"
    using assms by (simp add: manager_ok_def breakpointHook_def)
  then show "snd (SetBreakpoint bp bm) \<noteq> None"
    "bmBreakpoints (fst (SetBreakpoint bp bm)) (bpID bp) = Some bp"
    "bmRegistry (fst (SetBreakpoint bp bm)) = bmRegistry bm"
    by (auto simp: SetBreakpoint_def Register_def split: prod.split)
qed

subsection \<open>A breakpoint in the loop\<close>

text \<open>An opcode breakpoint without handler stops the frame before the instruction runs: the gas is
  taken, nothing else changes.\<close>

lemma hookStep_breakpoint:
  assumes hk: "hooks e = Some f" "f (hookState (state e)) HookTypeOpcode = breakpointHook b # hs"
    and b: "bpOnHit b = None" "bpCondition b = None"
  shows "\<exists>res err. hookStep L call code opc g c e = Some (Ok (Some (res, Some err)), e) \<and> Status res = StatusHalt"
proof -
  have "dispatchHooks opc g c e = Some (Fail (ErrOther (''breakpoint '' @ bpID b @ '' hit'')), e)"
    using hk b
    by (simp add: dispatchHooks_def hooksForM_def gets_def seq_def fireHook_def breakpointHook_def BreakpointFire_def
        haltResult_def opcodeReact_def haltWith_def throw_def)
  then show ?thesis
    by (simp add: hookStep_def seq_def attempt_def gets_def ret_def hookErrResult_def errResult_def Let_def)
qed

end
