(* ===== verification/Sample.thy ===== *)
theory Sample
  imports EngineRun JumpAnalysis Breakpoints
begin

text \<open>
  A small concrete world for the examples: library functions that are easy to compute, an account with
  a balance, a frame with gas, a configuration. Nothing in the properties depends on these values.
\<close>

definition sampleLib :: Lib where
  "sampleLib = \<lparr>keccak256 = (\<lambda>b. word_of_int (be_int b)), gethCreateAddress = (\<lambda>a n. a + ucast n + 1),
     gethCreateAddress2 = (\<lambda>a s h. ucast h), maxAlloc = 100000\<rparr>"

definition sampleContract :: SimpleContract where
  "sampleContract = \<lparr>AddressVal = 1, CallerVal = 2, CallValueVal = Some 0, CallInputVal = [], CodeVal = [],
     CodeHashVal = 0, CodeAddrVal = 1, IsStaticVal = False\<rparr>"

definition sampleAccounts :: InMemoryAccountState where
  "sampleAccounts = AddBalance 1 500 (AddBalance 2 70 NewInMemoryAccountState)"

definition sampleTx :: SimpleTxContext where
  "sampleTx = \<lparr>OriginVal = 2, GasPriceVal = Some 0, BlobHashesVal = [], BlobGasFeeVal = None\<rparr>"

definition sampleState :: "unit evmState" where
  "sampleState = NewEVMState NewStack NewMemory NewInMemoryStorage NewInMemoryTransientStorage sampleAccounts
     (NewGasMeter 50000) defaultBlockContext sampleTx sampleContract NewSimpleAccessList ()"

definition sampleEVM :: "unit EVM" where
  "sampleEVM = NewEVM sampleState ForkCancun Map.empty"

text \<open>The same frame in a static call.\<close>

definition staticEVM :: "unit EVM" where
  "staticEVM = sampleEVM\<lparr>state := sampleState\<lparr>contract := sampleContract\<lparr>IsStaticVal := True\<rparr>\<rparr>\<rparr>"

text \<open>Elements and points are numbers here, and every library check succeeds.\<close>

definition sampleCrypto :: "(int, int, int) Crypto" where
  "sampleCrypto = \<lparr>gethGas = (\<lambda>s a. None), gethRun = (\<lambda>s a b. Ok []), sha256Sum = (\<lambda>b. replicate 32 0),
     ripemd160Sum = (\<lambda>b. replicate 20 0), recoverCompact = (\<lambda>sig h. None), g1Unmarshal = (\<lambda>b. Some (be_int b)),
     g1Marshal = (\<lambda>p. int_bytes 64 p), g1Add = (+), g1ScalarMult = (*), g2Unmarshal = (\<lambda>b. Some (be_int b)),
     bnPair = (\<lambda>p q. p * q), gtAdd = (+), gtMarshal = (\<lambda>g. int_bytes 64 g), kzgContextErr = None,
     kzgVerifyProof = (\<lambda>c z y p. True), blsModulus = replicate 32 1, p256OnCurve = (\<lambda>x y. True),
     p256Verify = (\<lambda>x y h r s. True)\<rparr>"

definition sampleConfig :: "unit ExecutionConfig" where
  "sampleConfig = \<lparr>cFork = ForkCancun, cPrecompiles = Some Map.empty, cWarmAddresses = [7], cGasLimit = 50000,
     cValue = Some 20, cInput = [], cOrigin = 2, cCaller = 2, cContractAddress = 1, cCode = Some [0x5B],
     cCodeHash = 0, cBlockContext = None, cTxContext = None, cState = Some sampleAccounts, cStorage = None,
     cTransientStorage = None, cAccessList = None, cHooks = None, cHookState = (), cCallDepth = 0,
     cIsStatic = False\<rparr>"

text \<open>A message that spends nothing and carries value.\<close>

definition sampleMessage :: Message where
  "sampleMessage = \<lparr>msgCaller = 1, msgCallee = 9, msgValue = Some 5, msgGas = 1000, msgInput = [], msgCode = [0x5B],
     msgCodeAddr = 9, msgIsStatic = False, msgCallDepth = 1, msgKind = CallKindCall, msgIsCreate = False, msgSalt = 0\<rparr>"

lemmas sample_defs = sampleEVM_def sampleState_def NewEVM_def NewEVMState_def NewGasMeter_def sampleContract_def

lemma sample_frame [simp]:
  "hooks sampleEVM = None" "gas (gasMeter (state sampleEVM)) = 50000" "stack (state sampleEVM) = []"
  "memory (state sampleEVM) = []" "maxAlloc sampleLib = 100000" "account (state sampleEVM) = sampleAccounts"
  "IsStaticVal (contract (state sampleEVM)) = False" "pc sampleEVM = 0" "jumpdests sampleEVM = []"
  "fork sampleEVM = ForkCancun" "storage (state sampleEVM) = NewInMemoryStorage" "state staticEVM = sampleState\<lparr>contract := sampleContract\<lparr>IsStaticVal := True\<rparr>\<rparr>"
  by (simp_all add: sample_defs sampleLib_def staticEVM_def NewStack_def NewMemory_def)

lemma static_frame [simp]: "hooks staticEVM = None" "gas (gasMeter sampleState) = 50000"
  by (simp_all add: staticEVM_def sample_defs)

lemma Balance_fresh [simp]: "Balance a NewInMemoryAccountState = 0"
  by (simp add: Balance_def NewInMemoryAccountState_def)

text \<open>A frame whose code is the one byte INVALID.\<close>

lemma Run_invalid:
  assumes "hooks e = None" "pc e = 0"
  shows "Run L (Suc n) e [0xFE] =
    Some (handlerResult ErrInvalidOpcode (e\<lparr>jumpdests := [False]\<rparr>), e\<lparr>jumpdests := [False]\<rparr>)"
proof -
  let ?e = "e\<lparr>jumpdests := [False]\<rparr>"
  have jd: "analyzeJumpdests [0xFE] = [False]"
    by (simp add: analyzeJumpdests_def jumpdestLoop.simps [of "[0xFE]"])
  have g: "GasCosts 0xFE = 0" by (simp add: GasCosts_def GasCostTable_def nth_append)
  have d: "calcDynamicGas 0xFE e = Some (Ok 0, e)" for e :: "'a EVM" by (simp add: calcDynamicGas_def ret_def)
  have x: "execute L call 0xFE code e = Some (Fail ErrInvalidOpcode, e)" for call code and e :: "'a EVM"
    by (simp add: execute_def opInvalid_def throw_def)
  have "loopIter L call [0xFE] ?e = Some (Ok (Some (handlerResult ErrInvalidOpcode ?e)), ?e)" for call
    using assms
    by (simp add: loopIter_defs gets_def seq_def ret_def attempt_def Let_def MinForkForOpcode_def g d x
        consume_def ConsumeGas_def dispatchHooks_none)
  then show ?thesis using assms by (simp add: Run_def runWith_def jd seq_def ret_def)
qed

text \<open>A frame about to run the one byte JUMPDEST.\<close>

definition jumpdestEVM :: "unit EVM" where
  "jumpdestEVM = sampleEVM\<lparr>jumpdests := analyzeJumpdests [0x5B]\<rparr>"

lemma loopIter_jumpdest:
  "\<exists>e'. loopIter sampleLib call [0x5B] jumpdestEVM = Some (Ok None, e') \<and> pc e' = 1"
proof -
  have g: "GasCosts 0x5B = 1" by (simp add: GasCosts_def GasCostTable_def nth_append)
  have d: "calcDynamicGas 0x5B e = Some (Ok 0, e)" for e :: "unit EVM" by (simp add: calcDynamicGas_def ret_def)
  show ?thesis
    by (simp add: loopIter_defs jumpdestEVM_def gets_def seq_def ret_def attempt_def Let_def MinForkForOpcode_def g d
        consume_def ConsumeGas_def dispatchHooks_none execute_def opJumpdest_def incPc_def modify_def)
qed

definition failingMessage :: Message where
  "failingMessage = sampleMessage\<lparr>msgCode := [0xFE]\<rparr>"

definition failingConfig :: "unit ExecutionConfig" where
  "failingConfig = sampleConfig\<lparr>cCode := Some [0xFE]\<rparr>"

lemma failingConfig_result:
  "\<exists>res s. EngineRun sampleLib sampleCrypto 1 failingConfig = Some ((Some res, Some ErrInvalidOpcode), Some s) \<and>
      Status res = StatusInvalidOpcode"
  by (simp add: EngineRun_def failingConfig_def sampleConfig_def ValidateConfig_def applyTopLevelCallValue_def
      runWithConfig_def NewEVM_def cfgCode_def Run_invalid [of _ _ 0, simplified] Let_def handlerResult_def errResult_def
      withGasUsed_def sampleAccounts_def orElse_def split: prod.split)

lemma failingMessage_result:
  "\<exists>res e'. ExecuteMessage sampleLib (Run sampleLib 1) failingMessage sampleEVM =
      Some (Ok (res, Some ErrInvalidOpcode), e') \<and> Status res = StatusInvalidOpcode"
  by (simp add: ExecuteMessage_def failingMessage_def sampleMessage_def msgPays_def msgAmount_def sampleAccounts_def
      resolvePrecompile_def sampleEVM_def NewEVM_def childEVM_def SetHooks_def Run_invalid [of _ _ 0, simplified] Let_def
      handlerResult_def errResult_def sampleState_def NewEVMState_def NewInMemoryAccountState_def Balance_def
      AddBalance_def)

text \<open>Hooks and breakpoints.\<close>

definition sampleHook :: "string \<Rightarrow> unit Hook" where
  "sampleHook i = \<lparr>hookType = HookTypeOpcode, hookFire = (\<lambda>ctx s. (Ok None, s)), hookOneTime = False, hookID = i\<rparr>"

definition sampleBreakpoint :: "HookType \<Rightarrow> unit Breakpoint" where
  "sampleBreakpoint t = \<lparr>bpID = ''b'', bpHookType = t, bpCondition = None, bpOnHit = None, bpOnce = False\<rparr>"

definition sampleManager :: "unit BreakpointManager" where
  "sampleManager = fst (SetBreakpoint (sampleBreakpoint HookTypeOpcode) (NewBreakpointManager NewSimpleHookRegistry))"

lemma sampleManager_ok:
  "manager_ok sampleManager" "bmBreakpoints sampleManager ''b'' = Some (sampleBreakpoint HookTypeOpcode)"
proof -
  have "manager_ok (NewBreakpointManager NewSimpleHookRegistry :: unit BreakpointManager)"
    using reg.ok_empty by (simp add: manager_ok_def NewBreakpointManager_def) (simp add: NewSimpleHookRegistry_def)
  from manager_ok_set [OF this, of "sampleBreakpoint HookTypeOpcode"] show "manager_ok sampleManager"
    by (simp add: sampleManager_def NewBreakpointManager_def)
  show "bmBreakpoints sampleManager ''b'' = Some (sampleBreakpoint HookTypeOpcode)"
    by (simp add: sampleManager_def SetBreakpoint_def sampleBreakpoint_def split: prod.split)
qed

end
