(* ===== verification/Text.thy ===== *)
theory Text
  imports Prelude
begin

text \<open>
  Go strings, as far as the program uses them to carry numbers and structured text: the decimal form of
  \<open>big.Int.String\<close> and \<open>strconv.Itoa\<close> with their readers \<open>SetString\<close> and \<open>Atoi\<close>, \<open>strings.Split\<close> on a
  one-byte separator, prefixes, white space (the ASCII kind) and hexadecimal digits. A string is its list
  of bytes. The \<open>int\<close> of the program's platform has 64 bits; \<open>wrap64\<close> brings a sum back into its range.
\<close>

subsection \<open>Machine \<open>int\<close>\<close>

definition wrap64 :: "int \<Rightarrow> int" where
  "wrap64 x = (x + 2 ^ 63) mod 2 ^ 64 - 2 ^ 63"

definition isInt64 :: "int \<Rightarrow> bool" where
  "isInt64 x \<longleftrightarrow> - (2 ^ 63) \<le> x \<and> x < 2 ^ 63"

lemma wrap64_id [simp]: "isInt64 x \<Longrightarrow> wrap64 x = x"
  by (simp add: wrap64_def isInt64_def)

lemma isInt64_wrap64 [simp]: "isInt64 (wrap64 x)"
proof -
  have "- (2 ^ 63) \<le> m - 2 ^ 63 \<and> m - 2 ^ 63 < 2 ^ 63" if "0 \<le> m" "m < 2 ^ 64" for m :: int
    using that by simp
  then show ?thesis unfolding wrap64_def isInt64_def by simp
qed

lemma wrap64_idem: "wrap64 (wrap64 x) = wrap64 x"
  by simp

subsection \<open>Digits\<close>

definition digitChar :: "nat \<Rightarrow> char" where
  "digitChar d = char_of (if d < 10 then 48 + d else 87 + d)"

definition digitVal :: "char \<Rightarrow> nat option" where
  "digitVal c = (let n = of_char c in
     if 48 \<le> n \<and> n \<le> 57 then Some (n - 48)
     else if 97 \<le> n \<and> n \<le> 122 then Some (n - 87)
     else if 65 \<le> n \<and> n \<le> 90 then Some (n - 55)
     else None)"

lemma digitVal_digitChar [simp]: "d < 36 \<Longrightarrow> digitVal (digitChar d) = Some d"
  by (auto simp: digitVal_def digitChar_def Let_def)

fun showNat :: "nat \<Rightarrow> string" where
  "showNat n = (if n < 10 then [digitChar n] else showNat (n div 10) @ [digitChar (n mod 10)])"

declare showNat.simps [simp del]

text \<open>\<open>(*big.Int).String\<close> and \<open>strconv.Itoa\<close>.\<close>

definition showInt :: "int \<Rightarrow> string" where
  "showInt x = (if x < 0 then CHR ''-'' # showNat (nat (- x)) else showNat (nat x))"

fun parseDigits :: "nat \<Rightarrow> nat \<Rightarrow> string \<Rightarrow> nat option" where
  "parseDigits base acc [] = Some acc"
| "parseDigits base acc (c # cs) =
     (case digitVal c of
        None \<Rightarrow> None
      | Some d \<Rightarrow> if d < base then parseDigits base (acc * base + d) cs else None)"

definition parseNat :: "nat \<Rightarrow> string \<Rightarrow> int option" where
  "parseNat base s = (if s = [] then None else map_option int (parseDigits base 0 s))"

text \<open>\<open>(*big.Int).SetString(s, base)\<close> for the bases 10 and 16; \<open>None\<close> is its \<open>false\<close>.\<close>

definition SetString :: "nat \<Rightarrow> string \<Rightarrow> int option" where
  "SetString base s =
     (case s of
        [] \<Rightarrow> None
      | c # cs \<Rightarrow> if c = CHR ''-'' then map_option uminus (parseNat base cs)
                else if c = CHR ''+'' then parseNat base cs
                else parseNat base s)"

text \<open>\<open>strconv.Atoi\<close>; \<open>None\<close> is its error.\<close>

definition Atoi :: "string \<Rightarrow> int option" where
  "Atoi s = (case SetString 10 s of
               None \<Rightarrow> None
             | Some v \<Rightarrow> if isInt64 v then Some v else None)"

subsection \<open>What is printed is read back\<close>

lemma parseDigits_append:
  "parseDigits b acc (xs @ ys) = (case parseDigits b acc xs of None \<Rightarrow> None | Some a \<Rightarrow> parseDigits b a ys)"
  by (induction xs arbitrary: acc) (simp_all split: option.split)

lemma parseDigits_showNat: "parseDigits 10 0 (showNat n) = Some n"
proof (induction n rule: showNat.induct)
  case (1 n)
  show ?case
  proof (cases "n < 10")
    case True
    then show ?thesis by (subst showNat.simps) simp
  next
    case False
    then have "parseDigits 10 0 (showNat (n div 10)) = Some (n div 10)" by (rule 1)
    moreover have "n mod 10 < 36" using mod_less_divisor [of 10 n] by linarith
    ultimately show ?thesis
      using False by (subst showNat.simps) (simp add: parseDigits_append)
  qed
qed

text \<open>The first character of a printed number is a digit, so none of the others.\<close>

definition isDigit :: "char \<Rightarrow> bool" where
  "isDigit c \<longleftrightarrow> 48 \<le> (of_char c :: nat) \<and> (of_char c :: nat) \<le> 57"

lemma isDigit_digitChar: "d < 10 \<Longrightarrow> isDigit (digitChar d)"
  by (simp add: isDigit_def digitChar_def)

lemma showNat_digits: "list_all isDigit (showNat n)"
proof (induction n rule: showNat.induct)
  case (1 n)
  show ?case
  proof (cases "n < 10")
    case True
    then show ?thesis by (subst showNat.simps) (simp add: isDigit_digitChar)
  next
    case False
    with 1 show ?thesis by (subst showNat.simps) (simp add: isDigit_digitChar)
  qed
qed

lemma showNat_not_Nil [simp]: "showNat n \<noteq> []"
  by (subst showNat.simps) simp

lemma showNat_Cons: "\<exists>c cs. showNat n = c # cs \<and> isDigit c"
  using showNat_digits [of n] by (cases "showNat n") simp_all

lemma isDigit_sign [simp]: "\<not> isDigit CHR ''-''" "\<not> isDigit CHR ''+''" "\<not> isDigit CHR '':''" "\<not> isDigit CHR '';''"
  by (simp_all add: isDigit_def)

lemma parseNat_showNat: "parseNat 10 (showNat n) = Some (int n)"
  by (simp add: parseNat_def parseDigits_showNat)

lemma SetString_showInt: "SetString 10 (showInt x) = Some x"
proof (cases "x < 0")
  case True
  then show ?thesis by (simp add: SetString_def showInt_def parseNat_showNat)
next
  case False
  obtain c cs where s: "showNat (nat x) = c # cs" "isDigit c" using showNat_Cons by blast
  then have "c \<noteq> CHR ''-''" "c \<noteq> CHR ''+''" by auto
  with False s show ?thesis using parseNat_showNat [of "nat x"] by (simp add: SetString_def showInt_def)
qed

lemma Atoi_showInt: "isInt64 x \<Longrightarrow> Atoi (showInt x) = Some x"
  by (simp add: Atoi_def SetString_showInt)

lemma showInt_inject: "showInt x = showInt y \<longleftrightarrow> x = y"
  by (metis SetString_showInt option.inject)

lemma showInt_not_Nil [simp]: "showInt x \<noteq> []"
  by (simp add: showInt_def)

lemma Atoi_Nil [simp]: "Atoi [] = None"
  by (simp add: Atoi_def SetString_def)

subsection \<open>Splitting\<close>

text \<open>\<open>strings.Split(s, sep)\<close> for a separator of one byte: \<open>n\<close> separators make \<open>n + 1\<close> parts.\<close>

fun splitOn :: "char \<Rightarrow> string \<Rightarrow> string list" where
  "splitOn sep [] = [[]]"
| "splitOn sep (c # cs) =
     (if c = sep then [] # splitOn sep cs
      else (case splitOn sep cs of p # ps \<Rightarrow> (c # p) # ps | [] \<Rightarrow> [[c]]))"

fun joinWith :: "char \<Rightarrow> string list \<Rightarrow> string" where
  "joinWith sep [] = []"
| "joinWith sep [p] = p"
| "joinWith sep (p # q # ps) = p @ sep # joinWith sep (q # ps)"

lemma splitOn_not_Nil [simp]: "splitOn sep s \<noteq> []"
  by (induction s) (simp_all split: list.split)

lemma splitOn_no_sep: "sep \<notin> set s \<Longrightarrow> splitOn sep s = [s]"
  by (induction s) auto

lemma splitOn_append: "sep \<notin> set p \<Longrightarrow> splitOn sep (p @ sep # s) = p # splitOn sep s"
  by (induction p) auto

lemma splitOn_joinWith: "ps \<noteq> [] \<Longrightarrow> \<forall>p\<in>set ps. sep \<notin> set p \<Longrightarrow> splitOn sep (joinWith sep ps) = ps"
  by (induction sep ps rule: joinWith.induct) (simp_all add: splitOn_no_sep splitOn_append)

lemma joinWith_splitOn: "joinWith sep (splitOn sep s) = s"
proof (induction s)
  case (Cons c cs)
  show ?case
  proof (cases "splitOn sep cs")
    case Nil
    then show ?thesis by simp
  next
    case (Cons p ps)
    with Cons.IH show ?thesis by (cases ps) auto
  qed
qed simp

lemma length_splitOn: "length (splitOn sep s) = Suc (length (filter (\<lambda>c. c = sep) s))"
  by (induction s) (auto split: list.split)

lemma showNat_chars: "c \<in> set (showNat n) \<Longrightarrow> isDigit c"
  using showNat_digits [of n] by (auto simp: list_all_iff)

lemma showInt_no_sep: "\<not> isDigit sep \<Longrightarrow> sep \<noteq> CHR ''-'' \<Longrightarrow> sep \<notin> set (showInt x)"
  using showNat_chars by (auto simp: showInt_def)

subsection \<open>Prefixes, white space, hexadecimal\<close>

definition HasPrefix :: "string \<Rightarrow> string \<Rightarrow> bool" where
  "HasPrefix s p \<longleftrightarrow> take (length p) s = p"

definition TrimPrefix :: "string \<Rightarrow> string \<Rightarrow> string" where
  "TrimPrefix s p = (if HasPrefix s p then drop (length p) s else s)"

definition isSpace :: "char \<Rightarrow> bool" where
  "isSpace c \<longleftrightarrow> (let n = (of_char c :: nat) in n = 32 \<or> 9 \<le> n \<and> n \<le> 13)"

definition TrimSpace :: "string \<Rightarrow> string" where
  "TrimSpace s = rev (dropWhile isSpace (rev (dropWhile isSpace s)))"

text \<open>\<open>strings.ToUpper\<close> and \<open>strings.ToLower\<close> on ASCII text.\<close>

definition upperChar :: "char \<Rightarrow> char" where
  "upperChar c = (let n = (of_char c :: nat) in if 97 \<le> n \<and> n \<le> 122 then char_of (n - 32) else c)"

definition lowerChar :: "char \<Rightarrow> char" where
  "lowerChar c = (let n = (of_char c :: nat) in if 65 \<le> n \<and> n \<le> 90 then char_of (n + 32) else c)"

definition ToUpper :: "string \<Rightarrow> string" where
  "ToUpper = map upperChar"

definition ToLower :: "string \<Rightarrow> string" where
  "ToLower = map lowerChar"

lemma HasPrefix_append [simp]: "HasPrefix (p @ s) p"
  by (simp add: HasPrefix_def)

lemma TrimSpace_id: "s = [] \<or> \<not> isSpace (hd s) \<and> \<not> isSpace (last s) \<Longrightarrow> TrimSpace s = s"
  by (cases s) (auto simp: TrimSpace_def hd_append hd_rev dropWhile_eq_self_iff)

text \<open>\<open>hex.EncodeToString\<close> and \<open>%x\<close> of a byte slice.\<close>

definition hexByte :: "byte \<Rightarrow> string" where
  "hexByte b = [digitChar (unat b div 16), digitChar (unat b mod 16)]"

definition hexEncode :: "bytes \<Rightarrow> string" where
  "hexEncode bs = concat (map hexByte bs)"

text \<open>\<open>hex.DecodeString\<close>: the bytes read and whether the whole string was well formed.\<close>

fun hexDecode :: "string \<Rightarrow> bytes option" where
  "hexDecode [] = Some []"
| "hexDecode [c] = None"
| "hexDecode (a # b # cs) =
     (case (digitVal a, digitVal b) of
        (Some x, Some y) \<Rightarrow>
          if x < 16 \<and> y < 16 then map_option ((#) (of_nat (16 * x + y))) (hexDecode cs) else None
      | _ \<Rightarrow> None)"

lemma hexDecode_hexEncode: "hexDecode (hexEncode bs) = Some bs"
proof (induction bs)
  case (Cons b bs)
  have "unat b < 256" by (rule less_le_trans [OF unsigned_less]) simp
  then have "unat b div 16 < 16" "unat b mod 16 < 16" by simp_all
  moreover have "of_nat (16 * (unat b div 16) + unat b mod 16) = b" by simp
  ultimately show ?case using Cons by (simp add: hexEncode_def hexByte_def del: of_nat_add of_nat_mult)
qed (simp add: hexEncode_def)

end
