(* ===== verification/Overlay.thy ===== *)
theory Overlay
  imports GoMaps WorldState
begin

text \<open>
  \<open>internal/forkengine/overlay/overlay.go\<close>: the local writes of a forked run, with dirty flags per account
  and snapshots of the whole overlay. \<open>Clone\<close> and the \<open>clone\<close> helpers copy values that Go would share;
  values are not shared here, and they are the identity.
\<close>

record Account =
  oaBalance :: "int option"
  oaNonce :: u64
  oaCode :: bytes
  oaExists :: bool
  oaCreated :: bool
  oaSelfDestructed :: bool
  oaBalanceDirty :: bool
  oaNonceDirty :: bool
  oaCodeDirty :: bool

definition zeroAccount :: Account where
  "zeroAccount = \<lparr>oaBalance = None, oaNonce = 0, oaCode = [], oaExists = False, oaCreated = False,
     oaSelfDestructed = False, oaBalanceDirty = False, oaNonceDirty = False, oaCodeDirty = False\<rparr>"

record overlaySnapshot =
  ovAccounts :: "(Address, Account) gomap"
  ovStorage :: "(Address, (Hash, Hash) gomap) gomap"

record OverlayState = overlaySnapshot +
  ovSnapshots :: "overlaySnapshot list"

definition ovNewState :: OverlayState where
  "ovNewState = \<lparr>ovAccounts = [], ovStorage = [], ovSnapshots = []\<rparr>"

definition ovGetAccount :: "Address \<Rightarrow> OverlayState \<Rightarrow> Account option" where
  "ovGetAccount addr s = map_of (ovAccounts s) addr"

definition ovUpsertAccount :: "Address \<Rightarrow> Account \<Rightarrow> OverlayState \<Rightarrow> OverlayState" where
  "ovUpsertAccount addr a s = s\<lparr>ovAccounts := mput addr a (ovAccounts s)\<rparr>"

text \<open>Every setter reads \<open>state.accounts[addr]\<close>, the zero account when absent, changes it and writes it back.\<close>

definition ovModify :: "(Account \<Rightarrow> Account) \<Rightarrow> Address \<Rightarrow> OverlayState \<Rightarrow> OverlayState" where
  "ovModify f addr s = s\<lparr>ovAccounts := mput addr (f (mread zeroAccount (ovAccounts s) addr)) (ovAccounts s)\<rparr>"

definition ovSetBalance :: "Address \<Rightarrow> int option \<Rightarrow> OverlayState \<Rightarrow> OverlayState" where
  "ovSetBalance addr balance = ovModify (\<lambda>a. a\<lparr>oaExists := True, oaBalanceDirty := True, oaBalance := balance\<rparr>) addr"

definition ovSetNonce :: "Address \<Rightarrow> u64 \<Rightarrow> OverlayState \<Rightarrow> OverlayState" where
  "ovSetNonce addr nonce = ovModify (\<lambda>a. a\<lparr>oaExists := True, oaNonce := nonce, oaNonceDirty := True\<rparr>) addr"

definition ovSetCode :: "Address \<Rightarrow> bytes \<Rightarrow> OverlayState \<Rightarrow> OverlayState" where
  "ovSetCode addr code = ovModify (\<lambda>a. a\<lparr>oaExists := True, oaCode := code, oaCodeDirty := True\<rparr>) addr"

definition ovMarkCreated :: "Address \<Rightarrow> OverlayState \<Rightarrow> OverlayState" where
  "ovMarkCreated addr = ovModify (\<lambda>a. a\<lparr>oaExists := True, oaCreated := True\<rparr>) addr"

definition ovSelfDestruct :: "Address \<Rightarrow> OverlayState \<Rightarrow> OverlayState" where
  "ovSelfDestruct addr = ovModify (\<lambda>a. a\<lparr>oaExists := True, oaSelfDestructed := True\<rparr>) addr"

definition ovGetStorage :: "Address \<Rightarrow> Hash \<Rightarrow> OverlayState \<Rightarrow> Hash option" where
  "ovGetStorage addr slot s = (case map_of (ovStorage s) addr of None \<Rightarrow> None | Some values \<Rightarrow> map_of values slot)"

definition ovSetStorage :: "Address \<Rightarrow> Hash \<Rightarrow> Hash \<Rightarrow> OverlayState \<Rightarrow> OverlayState" where
  "ovSetStorage addr slot v s =
     s\<lparr>ovStorage := mput addr (mput slot v (mread [] (ovStorage s) addr)) (ovStorage s)\<rparr>"

definition ovSnapshot :: "OverlayState \<Rightarrow> int \<times> OverlayState" where
  "ovSnapshot s =
     (let s' = s\<lparr>ovSnapshots := ovSnapshots s @ [overlaySnapshot.truncate s]\<rparr>
      in (int (length (ovSnapshots s')) - 1, s'))"

definition ovRevertToSnapshot :: "int \<Rightarrow> OverlayState \<Rightarrow> OverlayState" where
  "ovRevertToSnapshot i s =
     (if i < 0 \<or> i \<ge> int (length (ovSnapshots s)) then s
      else let snap = ovSnapshots s ! nat i
           in \<lparr>ovAccounts = ovAccounts snap, ovStorage = ovStorage snap,
               ovSnapshots = take (nat i) (ovSnapshots s)\<rparr>)"

definition ovView :: "OverlayState \<Rightarrow> overlaySnapshot" where
  "ovView s = overlaySnapshot.truncate s"

interpretation ov: snapshot_store ovSnapshot ovRevertToSnapshot ovView ovSnapshots
  by unfold_locales
    (auto simp: ovSnapshot_def ovRevertToSnapshot_def ovView_def Let_def overlaySnapshot.truncate_def
      OverlayState.defs)

lemmas overlay_writes = ovUpsertAccount_def ovModify_def ovSetBalance_def ovSetNonce_def ovSetCode_def
  ovMarkCreated_def ovSelfDestruct_def ovSetStorage_def

lemma overlay_writes_keep_snapshots [simp]:
  "ovSnapshots (ovUpsertAccount a x s) = ovSnapshots s"
  "ovSnapshots (ovModify f a s) = ovSnapshots s"
  "ovSnapshots (ovSetStorage a k v s) = ovSnapshots s"
  by (simp_all add: overlay_writes)

lemma ovGetAccount_modify:
  "ovGetAccount b (ovModify f a s) =
     (if b = a then Some (f (mread zeroAccount (ovAccounts s) a)) else ovGetAccount b s)"
  by (simp add: ovGetAccount_def ovModify_def)

lemma ovGetStorage_set:
  "ovGetStorage b k' (ovSetStorage a k v s) = (if b = a \<and> k' = k then Some v else ovGetStorage b k' s)"
  by (auto simp: ovGetStorage_def ovSetStorage_def mread_def split: option.splits)

text \<open>Overlays whose maps have distinct keys, as all Go maps do.\<close>

definition overlayOK :: "OverlayState \<Rightarrow> bool" where
  "overlayOK s \<longleftrightarrow> mapOK (ovAccounts s) \<and> mapOK (ovStorage s) \<and> (\<forall>(a, values) \<in> set (ovStorage s). mapOK values)"

lemma overlayOK_new: "overlayOK ovNewState"
  by (simp add: overlayOK_def ovNewState_def)

lemma overlayOK_modify: "overlayOK s \<Longrightarrow> overlayOK (ovModify f a s)"
  by (simp add: overlayOK_def ovModify_def)

lemma overlayOK_setStorage: "overlayOK s \<Longrightarrow> overlayOK (ovSetStorage a k v s)"
  by (auto simp: overlayOK_def ovSetStorage_def set_mput mread_def split: option.splits dest!: map_of_SomeD)

end
