(* ===== verification/ForkCache.thy ===== *)
theory ForkCache
  imports Text Overlay
begin

text \<open>
  Block references and account snapshots (\<open>internal/forkengine/upstream/types.go\<close>) and the cache of
  remote state keyed by them (\<open>internal/forkengine/cache/cache.go\<close>): reads and writes, the write-back of an
  overlay or a state diff with its dirty marks, export and import. The mutex serialises whole operations;
  the \<open>Clone\<close> methods are the identity on values that are not shared. A nil byte slice is the empty one:
  the cache hands out and stores \<open>append(nil, code...)\<close>, which is nil exactly when the code is empty.
\<close>

subsection \<open>Block references\<close>

record BlockRef =
  brNumber :: "int option"
  brTag :: string

definition LatestBlock :: BlockRef where
  "LatestBlock = \<lparr>brNumber = None, brTag = ''latest''\<rparr>"

definition BlockNumber :: "u64 \<Rightarrow> BlockRef" where
  "BlockNumber n = \<lparr>brNumber = Some (uint n), brTag = []\<rparr>"

definition Normalize :: "BlockRef \<Rightarrow> BlockRef" where
  "Normalize ref =
     (case brNumber ref of
        Some n \<Rightarrow> \<lparr>brNumber = Some n, brTag = []\<rparr>
      | None \<Rightarrow> if brTag ref = [] then LatestBlock else ref)"

definition ValidateRef :: "BlockRef \<Rightarrow> string option" where
  "ValidateRef ref =
     (if brNumber ref \<noteq> None \<and> brTag ref \<noteq> [] then Some ''block ref cannot contain both number and tag'' else None)"

definition IsPinned :: "BlockRef \<Rightarrow> bool" where
  "IsPinned ref = (brNumber (Normalize ref) \<noteq> None)"

definition CacheKey :: "BlockRef \<Rightarrow> string" where
  "CacheKey ref =
     (case brNumber (Normalize ref) of
        Some n \<Rightarrow> ''num:'' @ showInt n
      | None \<Rightarrow> ''tag:'' @ brTag (Normalize ref))"

text \<open>\<open>SetString\<close> fails on no key that \<open>CacheKey\<close> makes.\<close>

definition decodeBlockKey :: "string \<Rightarrow> BlockRef" where
  "decodeBlockKey key =
     (if length key > 4 \<and> take 4 key = ''num:''
      then \<lparr>brNumber = Some (case SetString 10 (drop 4 key) of Some v \<Rightarrow> v | None \<Rightarrow> 0), brTag = []\<rparr>
      else if length key > 4 \<and> take 4 key = ''tag:'' then \<lparr>brNumber = None, brTag = drop 4 key\<rparr>
      else LatestBlock)"

lemma Normalize_idem [simp]: "Normalize (Normalize r) = Normalize r"
  by (auto simp: Normalize_def LatestBlock_def split: option.splits)

lemma CacheKey_Normalize [simp]: "CacheKey (Normalize r) = CacheKey r"
  by (simp add: CacheKey_def split: option.split)

lemma decodeBlockKey_CacheKey: "decodeBlockKey (CacheKey r) = Normalize r"
  by (auto simp: decodeBlockKey_def CacheKey_def Normalize_def LatestBlock_def SetString_showInt split: option.splits)

lemma CacheKey_eq: "CacheKey r = CacheKey r' \<longleftrightarrow> Normalize r = Normalize r'"
  by (metis decodeBlockKey_CacheKey CacheKey_Normalize)

definition validKey :: "string \<Rightarrow> bool" where
  "validKey k \<longleftrightarrow> CacheKey (decodeBlockKey k) = k"

lemma validKey_CacheKey [simp]: "validKey (CacheKey r)"
  by (simp add: validKey_def decodeBlockKey_CacheKey)

subsection \<open>What is cached\<close>

record AccountSnapshot =
  asBalance :: "int option"
  asNonce :: u64
  asCode :: bytes
  asCodeHash :: Hash
  asExists :: bool

definition zeroSnapshot :: AccountSnapshot where
  "zeroSnapshot = \<lparr>asBalance = None, asNonce = 0, asCode = [], asCodeHash = 0, asExists = False\<rparr>"

record Block =
  blNumber :: "int option"
  blHash :: Hash
  blParentHash :: Hash
  blTimestamp :: u64
  blGasLimit :: u64
  blBaseFee :: "int option"
  blBlobBaseFee :: "int option"
  blCoinbase :: Address
  blPrevRandao :: Hash
  blChainID :: "int option"

record DirtyAccount =
  daBalance :: bool
  daNonce :: bool
  daCode :: bool
  daCreated :: bool
  daSelfDestructed :: bool
  daSlots :: "Hash list"

definition zeroDirty :: DirtyAccount where
  "zeroDirty = \<lparr>daBalance = False, daNonce = False, daCode = False, daCreated = False,
     daSelfDestructed = False, daSlots = []\<rparr>"

type_synonym DirtyState = "(Address, DirtyAccount) gomap"

record MemoryStore =
  msAccounts :: "(Address \<times> string, AccountSnapshot) gomap"
  msStorage :: "(Address \<times> Hash \<times> string, Hash) gomap"
  msCodes :: "(Address \<times> string, bytes) gomap"
  msBlocks :: "(string, Block) gomap"
  msDirty :: "(string, DirtyState) gomap"

definition NewMemoryStore :: MemoryStore where
  "NewMemoryStore = \<lparr>msAccounts = [], msStorage = [], msCodes = [], msBlocks = [], msDirty = []\<rparr>"

definition GetAccount :: "Address \<Rightarrow> BlockRef \<Rightarrow> MemoryStore \<Rightarrow> AccountSnapshot option" where
  "GetAccount addr ref c = map_of (msAccounts c) (addr, CacheKey ref)"

definition PutAccount :: "Address \<Rightarrow> BlockRef \<Rightarrow> AccountSnapshot \<Rightarrow> MemoryStore \<Rightarrow> MemoryStore" where
  "PutAccount addr ref snap c = c\<lparr>msAccounts := mput (addr, CacheKey ref) snap (msAccounts c)\<rparr>"

definition GetStorage :: "Address \<Rightarrow> Hash \<Rightarrow> BlockRef \<Rightarrow> MemoryStore \<Rightarrow> Hash option" where
  "GetStorage addr slot ref c = map_of (msStorage c) (addr, slot, CacheKey ref)"

definition PutStorage :: "Address \<Rightarrow> Hash \<Rightarrow> BlockRef \<Rightarrow> Hash \<Rightarrow> MemoryStore \<Rightarrow> MemoryStore" where
  "PutStorage addr slot ref v c = c\<lparr>msStorage := mput (addr, slot, CacheKey ref) v (msStorage c)\<rparr>"

definition GetCode :: "Address \<Rightarrow> BlockRef \<Rightarrow> MemoryStore \<Rightarrow> bytes option" where
  "GetCode addr ref c = map_of (msCodes c) (addr, CacheKey ref)"

definition PutCode :: "Address \<Rightarrow> BlockRef \<Rightarrow> bytes \<Rightarrow> MemoryStore \<Rightarrow> MemoryStore" where
  "PutCode addr ref code c = c\<lparr>msCodes := mput (addr, CacheKey ref) code (msCodes c)\<rparr>"

definition GetBlock :: "BlockRef \<Rightarrow> MemoryStore \<Rightarrow> Block option" where
  "GetBlock ref c = map_of (msBlocks c) (CacheKey ref)"

definition PutBlock :: "BlockRef \<Rightarrow> Block \<Rightarrow> MemoryStore \<Rightarrow> MemoryStore" where
  "PutBlock ref b c = c\<lparr>msBlocks := mput (CacheKey ref) b (msBlocks c)\<rparr>"

definition DirtyStateOf :: "BlockRef \<Rightarrow> MemoryStore \<Rightarrow> DirtyState" where
  "DirtyStateOf ref c = mread [] (msDirty c) (CacheKey ref)"

subsection \<open>Writing back\<close>

definition markAccountDirty :: "string \<Rightarrow> Address \<Rightarrow> (DirtyAccount \<Rightarrow> DirtyAccount) \<Rightarrow> MemoryStore \<Rightarrow> MemoryStore" where
  "markAccountDirty blockKey addr update c =
     (let state = mread [] (msDirty c) blockKey;
          account = update (mread zeroDirty state addr)
      in c\<lparr>msDirty := mput blockKey (mput addr account state) (msDirty c)\<rparr>)"

definition markStorageDirty :: "string \<Rightarrow> Address \<Rightarrow> Hash \<Rightarrow> MemoryStore \<Rightarrow> MemoryStore" where
  "markStorageDirty blockKey addr slot =
     markAccountDirty blockKey addr (\<lambda>a. a\<lparr>daSlots := setAdd slot (daSlots a)\<rparr>)"

text \<open>The \<open>apply\<close> and \<open>mark\<close> methods read the cached snapshot, the zero snapshot when there is none,
  change it and write it back.\<close>

definition modifySnapshot ::
  "(AccountSnapshot \<Rightarrow> AccountSnapshot) \<Rightarrow> string \<Rightarrow> Address \<Rightarrow> MemoryStore \<Rightarrow> MemoryStore" where
  "modifySnapshot f blockKey addr c =
     c\<lparr>msAccounts := mput (addr, blockKey) (f (mread zeroSnapshot (msAccounts c) (addr, blockKey))) (msAccounts c)\<rparr>"

definition applyBalance :: "string \<Rightarrow> Address \<Rightarrow> int option \<Rightarrow> MemoryStore \<Rightarrow> MemoryStore" where
  "applyBalance blockKey addr balance c =
     markAccountDirty blockKey addr (\<lambda>a. a\<lparr>daBalance := True\<rparr>)
       (modifySnapshot (\<lambda>s. s\<lparr>asExists := True, asBalance := balance\<rparr>) blockKey addr c)"

definition applyNonce :: "string \<Rightarrow> Address \<Rightarrow> u64 \<Rightarrow> MemoryStore \<Rightarrow> MemoryStore" where
  "applyNonce blockKey addr nonce c =
     markAccountDirty blockKey addr (\<lambda>a. a\<lparr>daNonce := True\<rparr>)
       (modifySnapshot (\<lambda>s. s\<lparr>asExists := True, asNonce := nonce\<rparr>) blockKey addr c)"

definition applyCode :: "(bytes \<Rightarrow> Hash) \<Rightarrow> string \<Rightarrow> Address \<Rightarrow> bytes \<Rightarrow> MemoryStore \<Rightarrow> MemoryStore" where
  "applyCode K blockKey addr code c =
     (let c = modifySnapshot (\<lambda>s. s\<lparr>asExists := True, asCode := code, asCodeHash := K code\<rparr>) blockKey addr c;
          c = c\<lparr>msCodes := mput (addr, blockKey) code (msCodes c)\<rparr>
      in markAccountDirty blockKey addr (\<lambda>a. a\<lparr>daCode := True\<rparr>) c)"

definition markCreated :: "string \<Rightarrow> Address \<Rightarrow> MemoryStore \<Rightarrow> MemoryStore" where
  "markCreated blockKey addr c =
     markAccountDirty blockKey addr (\<lambda>a. a\<lparr>daCreated := True\<rparr>)
       (modifySnapshot (\<lambda>s. s\<lparr>asExists := True\<rparr>) blockKey addr c)"

definition markSelfDestructed :: "string \<Rightarrow> Address \<Rightarrow> MemoryStore \<Rightarrow> MemoryStore" where
  "markSelfDestructed blockKey addr c =
     markAccountDirty blockKey addr (\<lambda>a. a\<lparr>daSelfDestructed := True\<rparr>)
       (modifySnapshot (\<lambda>s. s\<lparr>asExists := False\<rparr>) blockKey addr c)"

definition applyStorage :: "string \<Rightarrow> Address \<Rightarrow> Hash \<Rightarrow> Hash \<Rightarrow> MemoryStore \<Rightarrow> MemoryStore" where
  "applyStorage blockKey addr slot v c =
     markStorageDirty blockKey addr slot (c\<lparr>msStorage := mput (addr, slot, blockKey) v (msStorage c)\<rparr>)"

text \<open>The two nested loops over the written slots.\<close>

definition applySlots :: "string \<Rightarrow> (Address, (Hash, Hash) gomap) gomap \<Rightarrow> MemoryStore \<Rightarrow> MemoryStore" where
  "applySlots blockKey = fold (\<lambda>(addr, slots). fold (\<lambda>(slot, v). applyStorage blockKey addr slot v) slots)"

definition applyOverlayAccount :: "(bytes \<Rightarrow> Hash) \<Rightarrow> string \<Rightarrow> Address \<Rightarrow> Account \<Rightarrow> MemoryStore \<Rightarrow> MemoryStore" where
  "applyOverlayAccount K blockKey addr account c =
     (let c = if oaBalanceDirty account then applyBalance blockKey addr (oaBalance account) c else c;
          c = if oaNonceDirty account then applyNonce blockKey addr (oaNonce account) c else c;
          c = if oaCodeDirty account then applyCode K blockKey addr (oaCode account) c else c;
          c = if oaCreated account then markCreated blockKey addr c else c
      in if oaSelfDestructed account then markSelfDestructed blockKey addr c else c)"

definition ApplyOverlay :: "(bytes \<Rightarrow> Hash) \<Rightarrow> BlockRef \<Rightarrow> OverlayState option \<Rightarrow> MemoryStore \<Rightarrow> MemoryStore" where
  "ApplyOverlay K ref state c =
     (case state of
        None \<Rightarrow> c
      | Some s \<Rightarrow>
          applySlots (CacheKey ref) (ovStorage s)
            (fold (\<lambda>(addr, account). applyOverlayAccount K (CacheKey ref) addr account) (ovAccounts s) c))"

definition ApplyStateDiff :: "(bytes \<Rightarrow> Hash) \<Rightarrow> BlockRef \<Rightarrow> StateDiff option \<Rightarrow> MemoryStore \<Rightarrow> MemoryStore" where
  "ApplyStateDiff K ref diff c =
     (case diff of
        None \<Rightarrow> c
      | Some d \<Rightarrow>
          (let k = CacheKey ref;
               c = fold (\<lambda>(addr, balance). applyBalance k addr balance) (BalanceChanges d) c;
               c = fold (\<lambda>(addr, nonce). applyNonce k addr nonce) (NonceChanges d) c;
               c = fold (\<lambda>(addr, code). applyCode K k addr code) (CodeChanges d) c;
               c = fold (markCreated k) (CreatedAccounts d) c;
               c = fold (markSelfDestructed k) (DeletedAccounts d) c
           in applySlots k (StorageChanges d) c))"

subsection \<open>Export and import\<close>

record ExportedState =
  exAccounts :: "(Address \<times> BlockRef \<times> AccountSnapshot) list"
  exStorage :: "(Address \<times> Hash \<times> BlockRef \<times> Hash) list"
  exCodes :: "(Address \<times> BlockRef \<times> bytes) list"
  exBlocks :: "(BlockRef \<times> Block) list"
  exDirty :: "(Address \<times> BlockRef \<times> DirtyAccount) list"

definition ExportState :: "MemoryStore \<Rightarrow> ExportedState" where
  "ExportState c =
     \<lparr>exAccounts = map (\<lambda>((addr, k), snap). (addr, decodeBlockKey k, snap)) (msAccounts c),
      exStorage = map (\<lambda>((addr, slot, k), v). (addr, slot, decodeBlockKey k, v)) (msStorage c),
      exCodes = map (\<lambda>((addr, k), code). (addr, decodeBlockKey k, code)) (msCodes c),
      exBlocks = map (\<lambda>(k, b). (decodeBlockKey k, b)) (msBlocks c),
      exDirty = concat (map (\<lambda>(k, dirty). map (\<lambda>(addr, account). (addr, decodeBlockKey k, account)) dirty) (msDirty c))\<rparr>"

text \<open>The update closure of an imported dirty account.\<close>

definition importDirty :: "DirtyAccount \<Rightarrow> DirtyAccount \<Rightarrow> DirtyAccount" where
  "importDirty d account =
     account\<lparr>daBalance := daBalance d, daNonce := daNonce d, daCode := daCode d, daCreated := daCreated d,
       daSelfDestructed := daSelfDestructed d, daSlots := fold setAdd (daSlots d) (daSlots account)\<rparr>"

definition ImportState :: "ExportedState \<Rightarrow> MemoryStore \<Rightarrow> MemoryStore" where
  "ImportState e c =
     (let c = \<lparr>msAccounts = fold (\<lambda>(addr, ref, snap). mput (addr, CacheKey ref) snap) (exAccounts e) [],
               msStorage = fold (\<lambda>(addr, slot, ref, v). mput (addr, slot, CacheKey ref) v) (exStorage e) [],
               msCodes = fold (\<lambda>(addr, ref, code). mput (addr, CacheKey ref) code) (exCodes e) [],
               msBlocks = fold (\<lambda>(ref, b). mput (CacheKey ref) b) (exBlocks e) [],
               msDirty = []\<rparr>
      in fold (\<lambda>(addr, ref, d). markAccountDirty (CacheKey ref) addr (importDirty d)) (exDirty e) c)"

subsection \<open>Stores whose keys come from block references\<close>

definition dirtyOK :: "(string, DirtyState) gomap \<Rightarrow> bool" where
  "dirtyOK m \<longleftrightarrow> mapOK m \<and>
     (\<forall>(k, d) \<in> set m. validKey k \<and> mapOK d \<and> d \<noteq> [] \<and> (\<forall>(a, x) \<in> set d. distinct (daSlots x)))"

definition storeOK :: "MemoryStore \<Rightarrow> bool" where
  "storeOK c \<longleftrightarrow> mapOK (msAccounts c) \<and> (\<forall>((a, k), v) \<in> set (msAccounts c). validKey k) \<and>
     mapOK (msStorage c) \<and> (\<forall>((a, s, k), v) \<in> set (msStorage c). validKey k) \<and>
     mapOK (msCodes c) \<and> (\<forall>((a, k), v) \<in> set (msCodes c). validKey k) \<and>
     mapOK (msBlocks c) \<and> (\<forall>(k, v) \<in> set (msBlocks c). validKey k) \<and> dirtyOK (msDirty c)"

lemma mput_not_Nil [simp]: "mput k v m \<noteq> []"
  by (cases m) (auto simp: mput_def)

lemma dirtyOK_mread:
  assumes "dirtyOK m"
  shows "mapOK (mread [] m k)" "(a, x) \<in> set (mread [] m k) \<Longrightarrow> distinct (daSlots x)"
proof -
  have "mapOK (mread [] m k) \<and> (\<forall>(a, x) \<in> set (mread [] m k). distinct (daSlots x))"
  proof (cases "map_of m k")
    case (Some d)
    then have "(k, d) \<in> set m" by (rule map_of_SomeD)
    with assms Some show ?thesis by (auto simp: dirtyOK_def mread_def)
  qed (simp add: mread_def)
  then show "mapOK (mread [] m k)" "(a, x) \<in> set (mread [] m k) \<Longrightarrow> distinct (daSlots x)" by auto
qed

lemma markAccountDirty_OK:
  assumes "storeOK c" "validKey k" "\<And>x. distinct (daSlots x) \<Longrightarrow> distinct (daSlots (f x))"
  shows "storeOK (markAccountDirty k a f c)"
proof -
  let ?d = "mread [] (msDirty c) k"
  have D: "dirtyOK (msDirty c)" using assms by (simp add: storeOK_def)
  note d = dirtyOK_mread [OF D, where k = k]
  have "distinct (daSlots (mread zeroDirty ?d a))"
  proof (cases "map_of ?d a")
    case (Some x)
    then show ?thesis using d(2) [OF map_of_SomeD [OF Some]] by (simp add: mread_def [where m = ?d])
  qed (simp add: mread_def [where m = ?d] zeroDirty_def)
  then have n: "\<forall>(b, x) \<in> set (mput a (f (mread zeroDirty ?d a)) ?d). distinct (daSlots x)"
    using assms(3) d(2) by (auto simp: set_mput [OF d(1)])
  have "dirtyOK (mput k (mput a (f (mread zeroDirty ?d a)) ?d) (msDirty c))"
    using D n assms(2) d(1) by (auto simp: dirtyOK_def set_mput)
  then show ?thesis using assms(1) by (simp add: storeOK_def markAccountDirty_def Let_def)
qed

lemma modifySnapshot_OK: "storeOK c \<Longrightarrow> validKey k \<Longrightarrow> storeOK (modifySnapshot f k a c)"
  by (auto simp: storeOK_def modifySnapshot_def set_mput)

lemma storeOK_writes:
  assumes "storeOK c" "validKey k"
  shows "storeOK (applyBalance k a b c)" "storeOK (applyNonce k a n c)" "storeOK (applyCode K k a code c)"
    "storeOK (markCreated k a c)" "storeOK (markSelfDestructed k a c)" "storeOK (applyStorage k a slot v c)"
proof -
  have code: "storeOK (modifySnapshot f k a c\<lparr>msCodes := mput (a, k) code (msCodes (modifySnapshot f k a c))\<rparr>)" for f
    using modifySnapshot_OK [OF assms, of f a] assms(2) by (auto simp: storeOK_def set_mput)
  have slot: "storeOK (c\<lparr>msStorage := mput (a, slot, k) v (msStorage c)\<rparr>)"
    using assms by (auto simp: storeOK_def set_mput)
  show "storeOK (applyBalance k a b c)" "storeOK (applyNonce k a n c)" "storeOK (applyCode K k a code c)"
    "storeOK (markCreated k a c)" "storeOK (markSelfDestructed k a c)" "storeOK (applyStorage k a slot v c)"
    using assms code slot
    by (simp_all add: applyBalance_def applyNonce_def applyCode_def markCreated_def markSelfDestructed_def
        applyStorage_def markStorageDirty_def Let_def markAccountDirty_OK modifySnapshot_OK)
qed

lemma fold_OK: "(\<And>x c. x \<in> set xs \<Longrightarrow> storeOK c \<Longrightarrow> storeOK (f x c)) \<Longrightarrow> storeOK c \<Longrightarrow> storeOK (fold f xs c)"
  by (induction xs arbitrary: c) auto

lemma applySlots_OK: "storeOK c \<Longrightarrow> validKey k \<Longrightarrow> storeOK (applySlots k m c)"
  unfolding applySlots_def by (rule fold_OK) (auto intro!: fold_OK storeOK_writes split: prod.splits)

lemma applyOverlayAccount_OK: "storeOK c \<Longrightarrow> validKey k \<Longrightarrow> storeOK (applyOverlayAccount K k a x c)"
  by (simp add: applyOverlayAccount_def Let_def storeOK_writes)

lemma storeOK_New: "storeOK NewMemoryStore"
  by (simp add: storeOK_def dirtyOK_def NewMemoryStore_def)

lemma storeOK_puts:
  assumes "storeOK c"
  shows "storeOK (PutAccount a ref snap c)" "storeOK (PutStorage a slot ref v c)" "storeOK (PutCode a ref code c)"
    "storeOK (PutBlock ref b c)"
  using assms by (auto simp: storeOK_def PutAccount_def PutStorage_def PutCode_def PutBlock_def set_mput)

lemma storeOK_ApplyOverlay: "storeOK c \<Longrightarrow> storeOK (ApplyOverlay K ref s c)"
  by (auto simp: ApplyOverlay_def intro!: applySlots_OK fold_OK applyOverlayAccount_OK split: option.split)

lemma storeOK_ApplyStateDiff: "storeOK c \<Longrightarrow> storeOK (ApplyStateDiff K ref d c)"
  by (auto simp: ApplyStateDiff_def Let_def intro!: applySlots_OK fold_OK storeOK_writes split: option.split)

subsection \<open>Import after export\<close>

text \<open>Reading the entries of a map back, one assignment each, into the empty map.\<close>

lemma fold_mput_snoc:
  "distinct (map fst m' @ map fst m) \<Longrightarrow> fold (\<lambda>(k, v). mput k v) m m' = m' @ m"
proof (induction m arbitrary: m')
  case (Cons e m)
  obtain k v where e: "e = (k, v)" by (cases e)
  have "k \<notin> fst ` set m'" using Cons.prems e by auto
  then have "mput k v m' = m' @ [(k, v)]" unfolding mput_def
    by (induction m') auto
  with Cons e show ?case by simp
qed simp

lemma fold_mput_self: "mapOK m \<Longrightarrow> fold (\<lambda>(k, v). mput k v) m [] = m"
  using fold_mput_snoc [of "[]" m] by (simp add: mapOK_def)

lemma fold_mput_reencoded:
  assumes "mapOK m" "\<And>e. e \<in> set m \<Longrightarrow> f e = (\<lambda>(k, v). mput k v) e"
  shows "fold f m [] = m"
proof -
  have "fold f m [] = fold (\<lambda>(k, v). mput k v) m []" by (rule fold_cong) (auto simp: assms(2))
  then show ?thesis by (simp add: fold_mput_self assms(1))
qed

lemma importDirty_zero: "distinct (daSlots d) \<Longrightarrow> importDirty d zeroDirty = d"
  by (simp add: importDirty_def zeroDirty_def fold_setAdd)

lemma mput_snoc: "k \<notin> fst ` set m \<Longrightarrow> mput k v m = m @ [(k, v)]"
  unfolding mput_def by (induction m) auto

lemma mput_last: "k \<notin> fst ` set m \<Longrightarrow> mput k v (m @ [(k, w)]) = m @ [(k, v)]"
  unfolding mput_def by (induction m) auto

lemma mread_last: "k \<notin> fst ` set m \<Longrightarrow> mread d (m @ [(k, w)]) k = w"
  by (induction m) (auto simp: mread_def)

lemma mread_absent: "k \<notin> fst ` set m \<Longrightarrow> mread d m k = d"
  by (simp add: mread_def map_of_eq_None_iff split: option.split) (metis not_None_eq map_of_eq_None_iff)

lemma mput_Nil [simp]: "mput k v [] = [(k, v)]"
  by (simp add: mput_def)

text \<open>The dirty accounts of one block, imported after those of other blocks.\<close>

lemma import_block_step:
  assumes "msDirty c = m @ [(k, d)]" "k \<notin> fst ` set m" "a \<notin> fst ` set d" "distinct (daSlots x)"
  shows "markAccountDirty k a (importDirty x) c = c\<lparr>msDirty := m @ [(k, d @ [(a, x)])]\<rparr>"
  using assms by (simp add: markAccountDirty_def Let_def mread_last mread_absent mput_snoc mput_last importDirty_zero)

lemma import_block:
  assumes "msDirty c = m @ [(k, d)]" "k \<notin> fst ` set m" "distinct (map fst d @ map fst d')"
    "\<forall>(a, x) \<in> set d'. distinct (daSlots x)"
  shows "fold (\<lambda>(a, x). markAccountDirty k a (importDirty x)) d' c = c\<lparr>msDirty := m @ [(k, d @ d')]\<rparr>"
  using assms
proof (induction d' arbitrary: c d)
  case (Cons e d')
  obtain a x where e: "e = (a, x)" by (cases e)
  have "markAccountDirty k a (importDirty x) c = c\<lparr>msDirty := m @ [(k, d @ [(a, x)])]\<rparr>"
    using Cons.prems e by (intro import_block_step) auto
  with Cons.IH [of "c\<lparr>msDirty := m @ [(k, d @ [(a, x)])]\<rparr>" "d @ [(a, x)]"] Cons.prems e
  show ?case by simp
qed (metis MemoryStore.surjective MemoryStore.update_convs(5) append_Nil2 fold_simps(1))

lemma import_first:
  assumes "k \<notin> fst ` set (msDirty c)" "distinct (daSlots x)"
  shows "markAccountDirty k a (importDirty x) c = c\<lparr>msDirty := msDirty c @ [(k, [(a, x)])]\<rparr>"
  using assms by (simp add: markAccountDirty_def Let_def mread_absent mput_snoc importDirty_zero mput_Nil)

lemma import_dirty:
  assumes "distinct (map fst (msDirty c) @ map fst m)"
    "\<forall>(k, d) \<in> set m. mapOK d \<and> d \<noteq> [] \<and> (\<forall>(a, x) \<in> set d. distinct (daSlots x))"
  shows "fold (\<lambda>(k, d). fold (\<lambda>(a, x). markAccountDirty k a (importDirty x)) d) m c =
    c\<lparr>msDirty := msDirty c @ m\<rparr>"
  using assms
proof (induction m arbitrary: c)
  case (Cons e m)
  obtain k d' where kd: "e = (k, d')" by (cases e)
  moreover obtain a x d where "d' = (a, x) # d" using Cons.prems(2) kd by (cases d') auto
  ultimately have e: "e = (k, (a, x) # d)" by simp
  have s: "distinct (daSlots x)" "\<forall>(b, y) \<in> set d. distinct (daSlots y)" "distinct (map fst [(a, x)] @ map fst d)"
    using Cons.prems(2) e by (auto simp: mapOK_def)
  have k: "k \<notin> fst ` set (msDirty c)" using Cons.prems(1) e by auto
  have "fold (\<lambda>(a, x). markAccountDirty k a (importDirty x)) ((a, x) # d) c =
      c\<lparr>msDirty := msDirty c @ [(k, (a, x) # d)]\<rparr>"
    using import_block [where c = "c\<lparr>msDirty := msDirty c @ [(k, [(a, x)])]\<rparr>" and m = "msDirty c" and k = k
        and d = "[(a, x)]" and d' = d] s k
    by (simp add: import_first)
  with Cons.IH [of "c\<lparr>msDirty := msDirty c @ [(k, (a, x) # d)]\<rparr>"] Cons.prems e show ?case by simp
qed simp

lemmas exported_fields = ExportedState.simps

lemma fold_concat: "fold f (concat xss) c = fold (fold f) xss c"
  by (induction xss arbitrary: c) auto

lemma export_import:
  assumes "storeOK c"
  shows "ImportState (ExportState c) c' = c"
proof -
  let ?e = "ExportState c"
  have a: "fold (\<lambda>(addr, ref, snap). mput (addr, CacheKey ref) snap) (exAccounts ?e) [] = msAccounts c"
    unfolding ExportState_def exported_fields fold_map
    using assms by (intro fold_mput_reencoded) (auto simp: storeOK_def validKey_def fun_eq_iff)
  have s: "fold (\<lambda>(addr, slot, ref, v). mput (addr, slot, CacheKey ref) v) (exStorage ?e) [] = msStorage c"
    unfolding ExportState_def exported_fields fold_map
    using assms by (intro fold_mput_reencoded) (auto simp: storeOK_def validKey_def fun_eq_iff)
  have k: "fold (\<lambda>(addr, ref, code). mput (addr, CacheKey ref) code) (exCodes ?e) [] = msCodes c"
    unfolding ExportState_def exported_fields fold_map
    using assms by (intro fold_mput_reencoded) (auto simp: storeOK_def validKey_def fun_eq_iff)
  have b: "fold (\<lambda>(ref, b). mput (CacheKey ref) b) (exBlocks ?e) [] = msBlocks c"
    unfolding ExportState_def exported_fields fold_map
    using assms by (intro fold_mput_reencoded) (auto simp: storeOK_def validKey_def fun_eq_iff)
  have "fold (\<lambda>(addr, ref, d). markAccountDirty (CacheKey ref) addr (importDirty d)) (exDirty ?e) t =
      fold (\<lambda>(k, d). fold (\<lambda>(a, x). markAccountDirty k a (importDirty x)) d) (msDirty c) t" for t
    unfolding ExportState_def exported_fields fold_concat fold_map
    using assms by (intro fold_cong) (auto simp: storeOK_def dirtyOK_def validKey_def fold_map comp_def fun_eq_iff
        case_prod_unfold)
  moreover have "fold (\<lambda>(k, d). fold (\<lambda>(a, x). markAccountDirty k a (importDirty x)) d) (msDirty c) t =
      t\<lparr>msDirty := msDirty c\<rparr>" if "msDirty t = []" for t
  proof -
    have "\<forall>(k, d) \<in> set (msDirty c). mapOK d \<and> d \<noteq> [] \<and> (\<forall>(a, x) \<in> set d. distinct (daSlots x))"
      using assms by (auto simp: storeOK_def dirtyOK_def)
    then show ?thesis
      using import_dirty [of t "msDirty c"] assms that by (simp add: storeOK_def dirtyOK_def mapOK_def)
  qed
  ultimately show ?thesis unfolding ImportState_def Let_def a s k b by simp
qed

subsection \<open>What a write-back leaves in the cache\<close>

text \<open>A read of the cache at one block key.\<close>

definition snapAt :: "string \<Rightarrow> Address \<Rightarrow> MemoryStore \<Rightarrow> AccountSnapshot option" where
  "snapAt k a c = map_of (msAccounts c) (a, k)"

definition slotAt :: "string \<Rightarrow> Address \<Rightarrow> Hash \<Rightarrow> MemoryStore \<Rightarrow> Hash option" where
  "slotAt k a s c = map_of (msStorage c) (a, s, k)"

lemma markAccountDirty_reads [simp]:
  "snapAt k' a' (markAccountDirty k a f c) = snapAt k' a' c"
  "slotAt k' a' s' (markAccountDirty k a f c) = slotAt k' a' s' c"
  by (simp_all add: snapAt_def slotAt_def markAccountDirty_def Let_def)

definition orZero :: "AccountSnapshot option \<Rightarrow> AccountSnapshot" where
  "orZero s = (case s of None \<Rightarrow> zeroSnapshot | Some x \<Rightarrow> x)"

lemma modifySnapshot_reads [simp]:
  "snapAt k' a' (modifySnapshot f k a c) = (if k' = k \<and> a' = a then Some (f (orZero (snapAt k a c))) else snapAt k' a' c)"
  "slotAt k' a' s' (modifySnapshot f k a c) = slotAt k' a' s' c"
  by (auto simp: snapAt_def slotAt_def modifySnapshot_def mread_def orZero_def)

lemma store_updates_reads [simp]:
  "snapAt k a (c\<lparr>msCodes := m\<rparr>) = snapAt k a c"
  "slotAt k a s (c\<lparr>msCodes := m\<rparr>) = slotAt k a s c"
  "snapAt k a (c\<lparr>msStorage := m'\<rparr>) = snapAt k a c"
  "slotAt k a s (c\<lparr>msStorage := m'\<rparr>) = map_of m' (a, s, k)"
  by (simp_all add: snapAt_def slotAt_def)

text \<open>What an overlay account makes of a cached snapshot.\<close>

definition mergeAccount :: "(bytes \<Rightarrow> Hash) \<Rightarrow> Account \<Rightarrow> AccountSnapshot option \<Rightarrow> AccountSnapshot option" where
  "mergeAccount K x s =
     (if oaBalanceDirty x \<or> oaNonceDirty x \<or> oaCodeDirty x \<or> oaCreated x \<or> oaSelfDestructed x
      then Some \<lparr>asBalance = (if oaBalanceDirty x then oaBalance x else asBalance (orZero s)),
                 asNonce = (if oaNonceDirty x then oaNonce x else asNonce (orZero s)),
                 asCode = (if oaCodeDirty x then oaCode x else asCode (orZero s)),
                 asCodeHash = (if oaCodeDirty x then K (oaCode x) else asCodeHash (orZero s)),
                 asExists = (\<not> oaSelfDestructed x)\<rparr>
      else s)"

lemma orZero_Some [simp]: "orZero (Some x) = x"
  by (simp add: orZero_def)

lemma applyOverlayAccount_reads:
  "snapAt k' a' (applyOverlayAccount K k a x c) = (if k' = k \<and> a' = a then mergeAccount K x (snapAt k a c) else snapAt k' a' c)"
  "slotAt k' a' s' (applyOverlayAccount K k a x c) = slotAt k' a' s' c"
  by (simp_all add: applyOverlayAccount_def Let_def mergeAccount_def applyBalance_def applyNonce_def applyCode_def
      markCreated_def markSelfDestructed_def)

lemma applySlots_snapAt: "snapAt k' a' (applySlots k m c) = snapAt k' a' c"
proof -
  have "snapAt k' a' (fold (\<lambda>(slot, v). applyStorage k a slot v) sl c) = snapAt k' a' c" for a sl c
    by (induction sl arbitrary: c) (auto simp: applyStorage_def markStorageDirty_def)
  then show ?thesis unfolding applySlots_def by (induction m arbitrary: c) auto
qed

lemma applyStorage_slotAt:
  "slotAt k' a' s' (applyStorage k a s v c) = (if k' = k \<and> a' = a \<and> s' = s then Some v else slotAt k' a' s' c)"
  by (auto simp: applyStorage_def markStorageDirty_def) (auto simp: slotAt_def)

lemma fold_applyStorage_slotAt:
  "mapOK sl \<Longrightarrow> slotAt k' a' s' (fold (\<lambda>(slot, v). applyStorage k a slot v) sl c) =
     (if k' = k \<and> a' = a then (case map_of sl s' of Some v \<Rightarrow> Some v | None \<Rightarrow> slotAt k' a' s' c) else slotAt k' a' s' c)"
  by (induction sl arbitrary: c)
    (auto simp: mapOK_def applyStorage_slotAt image_iff split: option.splits dest: map_of_SomeD)

lemma applySlots_slotAt:
  assumes "mapOK m" "\<forall>(a, sl) \<in> set m. mapOK sl"
  shows "slotAt k' a' s' (applySlots k m c) =
    (if k' = k then (case map_of m a' of None \<Rightarrow> slotAt k' a' s' c
                     | Some sl \<Rightarrow> (case map_of sl s' of Some v \<Rightarrow> Some v | None \<Rightarrow> slotAt k' a' s' c))
     else slotAt k' a' s' c)"
  using assms unfolding applySlots_def
  by (induction m arbitrary: c)
    (auto simp: mapOK_def [of "_ # _"] fold_applyStorage_slotAt image_iff mapOK_def [symmetric]
      split: option.splits dest: map_of_SomeD)

lemma fold_overlayAccounts_reads:
  "mapOK m \<Longrightarrow> snapAt k' a' (fold (\<lambda>(a, x). applyOverlayAccount K k a x) m c) =
     (if k' = k then (case map_of m a' of None \<Rightarrow> snapAt k' a' c | Some x \<Rightarrow> mergeAccount K x (snapAt k' a' c))
      else snapAt k' a' c)"
  "slotAt k' a' s' (fold (\<lambda>(a, x). applyOverlayAccount K k a x) m c) = slotAt k' a' s' c"
proof -
  show "mapOK m \<Longrightarrow> snapAt k' a' (fold (\<lambda>(a, x). applyOverlayAccount K k a x) m c) =
     (if k' = k then (case map_of m a' of None \<Rightarrow> snapAt k' a' c | Some x \<Rightarrow> mergeAccount K x (snapAt k' a' c))
      else snapAt k' a' c)"
    by (induction m arbitrary: c)
      (auto simp: mapOK_def applyOverlayAccount_reads image_iff split: option.splits dest: map_of_SomeD)
  show "slotAt k' a' s' (fold (\<lambda>(a, x). applyOverlayAccount K k a x) m c) = slotAt k' a' s' c"
    by (induction m arbitrary: c) (auto simp: applyOverlayAccount_reads)
qed

lemma GetAccount_snapAt: "GetAccount a ref c = snapAt (CacheKey ref) a c"
  by (simp add: GetAccount_def snapAt_def)

lemma GetStorage_slotAt: "GetStorage a s ref c = slotAt (CacheKey ref) a s c"
  by (simp add: GetStorage_def slotAt_def)

lemma ApplyOverlay_account:
  "overlayOK s \<Longrightarrow> GetAccount a ref' (ApplyOverlay K ref (Some s) c) =
     (case ovGetAccount a s of
        Some x \<Rightarrow> if Normalize ref' = Normalize ref then mergeAccount K x (GetAccount a ref' c) else GetAccount a ref' c
      | None \<Rightarrow> GetAccount a ref' c)"
  by (simp add: ApplyOverlay_def GetAccount_snapAt applySlots_snapAt fold_overlayAccounts_reads overlayOK_def
      ovGetAccount_def CacheKey_eq split: option.split)

lemma ApplyOverlay_storage:
  "overlayOK s \<Longrightarrow> GetStorage a slot ref' (ApplyOverlay K ref (Some s) c) =
     (case ovGetStorage a slot s of
        Some v \<Rightarrow> if Normalize ref' = Normalize ref then Some v else GetStorage a slot ref' c
      | None \<Rightarrow> GetStorage a slot ref' c)"
  by (simp add: ApplyOverlay_def GetStorage_slotAt applySlots_slotAt fold_overlayAccounts_reads overlayOK_def
      ovGetStorage_def CacheKey_eq split: option.split)

end
