(* ===== verification/ForkState.thy ===== *)
theory ForkState
  imports ForkCache
begin

text \<open>
  \<open>internal/forkengine/state_adapter.go\<close>: account and storage state that is fetched from a remote node when
  it is first touched. The remote is the \<open>Provider\<close> of \<open>upstream/types.go\<close>, a parameter; what it returns depends on its
  arguments only, and the request context is dropped. The locale \<open>lazy_store\<close> states what such a state
  relies on and shows that it cannot be told apart from an in-memory state that holds everything from the
  start; it is interpreted on accounts and on storage.
\<close>

subsection \<open>The remote\<close>

record Transaction =
  txHash :: Hash
  txBlockHash :: Hash
  txBlockNumber :: "int option"
  txFrom :: Address
  txTo :: "Address option"
  txType :: u64
  txGas :: u64
  txGasPrice :: "int option"
  txBlobGasFeeCap :: "int option"
  txBlobHashes :: "Hash list"
  txAccessList :: "(Address \<times> Hash list) list"
  txInput :: bytes
  txNonce :: u64
  txTransactionIndex :: "u64 option"
  txValue :: "int option"

record Receipt =
  rcTransactionHash :: Hash
  rcTransactionIndex :: u64
  rcBlockHash :: Hash
  rcBlockNumber :: "int option"
  rcFrom :: Address
  rcTo :: "Address option"
  rcGasUsed :: u64
  rcCumulativeGasUsed :: u64
  rcEffectiveGasPrice :: "int option"
  rcContractAddress :: "Address option"
  rcStatus :: "u64 option"
  rcLogs :: "Log list"

text \<open>\<open>Inl\<close> is an error, with its text; a nil balance or code is possible. The last two fields are the interfaces
  \<open>TransactionProvider\<close> and \<open>BlockTransactionsProvider\<close>, which a provider may lack.\<close>

record Provider =
  pvChainID :: "string + int option"
  pvBalance :: "Address \<Rightarrow> BlockRef \<Rightarrow> string + int option"
  pvNonce :: "Address \<Rightarrow> BlockRef \<Rightarrow> string + u64"
  pvCode :: "Address \<Rightarrow> BlockRef \<Rightarrow> string + bytes"
  pvStorageAt :: "Address \<Rightarrow> Hash \<Rightarrow> BlockRef \<Rightarrow> string + Hash"
  pvBlock :: "BlockRef \<Rightarrow> string + Block"
  pvTransactions :: "((Hash \<Rightarrow> string + Transaction) \<times> (Hash \<Rightarrow> string + Receipt)) option"
  pvBlockTransactions :: "(BlockRef \<Rightarrow> string + Transaction list) option"

text \<open>\<open>%x\<close> of an address and of a hash.\<close>

definition hexAddr :: "Address \<Rightarrow> string" where
  "hexAddr a = hexEncode (addr_bytes a)"

definition hexHash :: "Hash \<Rightarrow> string" where
  "hexHash h = hexEncode (word_bytes h)"

subsection \<open>Accounts\<close>

record forkAccountState =
  faCacheRef :: BlockRef
  faSourceRef :: BlockRef
  faBase :: InMemoryAccountState
  faLoaded :: "Address list"
  faSnapshots :: "Address list list"

definition newForkAccountState :: "BlockRef \<Rightarrow> BlockRef \<Rightarrow> forkAccountState" where
  "newForkAccountState cacheRef sourceRef =
     \<lparr>faCacheRef = cacheRef, faSourceRef = sourceRef, faBase = NewInMemoryAccountState, faLoaded = [],
      faSnapshots = []\<rparr>"

definition seedAccount :: "(bytes \<Rightarrow> Hash) \<Rightarrow> Address \<Rightarrow> AccountSnapshot \<Rightarrow> InMemoryAccountState \<Rightarrow> InMemoryAccountState" where
  "seedAccount K addr snap s =
     (let s = if asExists snap then CreateAccount addr s else s;
          s = (case asBalance snap of Some b \<Rightarrow> SetBalance addr b s | None \<Rightarrow> s);
          s = if asNonce snap \<noteq> 0 then SetNonce addr (asNonce snap) s else s
      in if asCode snap \<noteq> [] then SetCode K addr (asCode snap) s else s)"

text \<open>What \<open>ensureLoaded\<close> fetches when the cache has no snapshot.\<close>

definition fetchAccount :: "(bytes \<Rightarrow> Hash) \<Rightarrow> Provider \<Rightarrow> BlockRef \<Rightarrow> Address \<Rightarrow> string + AccountSnapshot" where
  "fetchAccount K P ref addr =
     (case pvBalance P addr ref of
        Inl e \<Rightarrow> Inl (''forkengine: load balance for '' @ hexAddr addr @ '': '' @ e)
      | Inr balance \<Rightarrow>
     (case pvNonce P addr ref of
        Inl e \<Rightarrow> Inl (''forkengine: load nonce for '' @ hexAddr addr @ '': '' @ e)
      | Inr nonce \<Rightarrow>
     (case pvCode P addr ref of
        Inl e \<Rightarrow> Inl (''forkengine: load code for '' @ hexAddr addr @ '': '' @ e)
      | Inr code \<Rightarrow>
          Inr \<lparr>asBalance = balance, asNonce = nonce, asCode = code, asCodeHash = K code,
               asExists = ((balance \<noteq> None \<and> balance \<noteq> Some 0) \<or> nonce \<noteq> 0 \<or> code \<noteq> [])\<rparr>)))"

definition faEnsureLoaded ::
  "(bytes \<Rightarrow> Hash) \<Rightarrow> Provider \<Rightarrow> Address \<Rightarrow> forkAccountState \<Rightarrow> MemoryStore \<Rightarrow> string option \<times> forkAccountState \<times> MemoryStore" where
  "faEnsureLoaded K P addr st c =
     (if addr \<in> set (faLoaded st) then (None, st, c)
      else
        let seed = (\<lambda>snap. st\<lparr>faBase := seedAccount K addr snap (faBase st), faLoaded := setAdd addr (faLoaded st)\<rparr>)
        in case GetAccount addr (faCacheRef st) c of
             Some snap \<Rightarrow> (None, seed snap, c)
           | None \<Rightarrow>
               (case fetchAccount K P (faSourceRef st) addr of
                  Inl e \<Rightarrow> (Some e, st, c)
                | Inr snap \<Rightarrow>
                    (let c = PutAccount addr (faCacheRef st) snap c;
                         c = if asCode snap \<noteq> [] then PutCode addr (faCacheRef st) (asCode snap) c else c
                     in (None, seed snap, c))))"

text \<open>\<open>mustLoad\<close> panics with the error. Every operation on an address loads it and then works on the
  in-memory state.\<close>

type_synonym ('s, 'a) forkOp = "'s \<Rightarrow> MemoryStore \<Rightarrow> 'a outcome \<times> 's \<times> MemoryStore"

definition faMustLoad :: "(bytes \<Rightarrow> Hash) \<Rightarrow> Provider \<Rightarrow> Address \<Rightarrow> (forkAccountState, unit) forkOp" where
  "faMustLoad K P addr st c =
     (case faEnsureLoaded K P addr st c of
        (Some e, st, c) \<Rightarrow> (Panic (PanicErr (ErrOther e)), st, c)
      | (None, st, c) \<Rightarrow> (Ok (), st, c))"

definition faRead ::
  "(Address \<Rightarrow> InMemoryAccountState \<Rightarrow> 'a) \<Rightarrow> (bytes \<Rightarrow> Hash) \<Rightarrow> Provider \<Rightarrow> Address \<Rightarrow> (forkAccountState, 'a) forkOp" where
  "faRead f K P addr st c =
     (case faMustLoad K P addr st c of
        (Ok _, st, c) \<Rightarrow> (Ok (f addr (faBase st)), st, c)
      | (Fail e, st, c) \<Rightarrow> (Fail e, st, c)
      | (Panic p, st, c) \<Rightarrow> (Panic p, st, c))"

definition faWrite ::
  "(Address \<Rightarrow> InMemoryAccountState \<Rightarrow> InMemoryAccountState) \<Rightarrow> (bytes \<Rightarrow> Hash) \<Rightarrow> Provider \<Rightarrow> Address \<Rightarrow>
     (forkAccountState, unit) forkOp" where
  "faWrite f K P addr st c =
     (case faMustLoad K P addr st c of
        (Ok _, st, c) \<Rightarrow> (Ok (), st\<lparr>faBase := f addr (faBase st)\<rparr>, c)
      | (Fail e, st, c) \<Rightarrow> (Fail e, st, c)
      | (Panic p, st, c) \<Rightarrow> (Panic p, st, c))"

definition StorageRoot :: "Address \<Rightarrow> InMemoryAccountState \<Rightarrow> Hash" where
  "StorageRoot addr s = 0"

definition faBalance where "faBalance = faRead Balance"
definition faNonce where "faNonce = faRead Nonce"
definition faCode where "faCode = faRead accCode"
definition faCodeHash where "faCodeHash = faRead CodeHash"
definition faCodeSize where "faCodeSize = faRead CodeSize"
definition faStorageRoot where "faStorageRoot = faRead StorageRoot"
definition faExists where "faExists = faRead Exists"
definition faIsEmpty where "faIsEmpty = faRead IsEmpty"
definition faHasCodeOrNonce where "faHasCodeOrNonce = faRead HasCodeOrNonce"
definition faSelfDestructed where "faSelfDestructed = faRead SelfDestructed"
definition faSetBalance where "faSetBalance K P addr v = faWrite (\<lambda>a. SetBalance a v) K P addr"
definition faAddBalance where "faAddBalance K P addr v = faWrite (\<lambda>a. AddBalance a v) K P addr"
definition faSubBalance where "faSubBalance K P addr v = faWrite (\<lambda>a. SubBalance a v) K P addr"
definition faSetNonce where "faSetNonce K P addr n = faWrite (\<lambda>a. SetNonce a n) K P addr"
definition faIncrementNonce where "faIncrementNonce K P addr = faWrite IncrementNonce K P addr"
definition faSetCode where "faSetCode K P addr code = faWrite (\<lambda>a. SetCode K a code) K P addr"
definition faSelfDestruct where "faSelfDestruct K P addr = faWrite SelfDestruct K P addr"
definition faCreateAccount where "faCreateAccount K P addr = faWrite CreateAccount K P addr"

definition faSnapshot :: "forkAccountState \<Rightarrow> int outcome \<times> forkAccountState" where
  "faSnapshot st =
     (let (index, base) = accSnapshot (faBase st);
          st = st\<lparr>faBase := base\<rparr>
      in if index = int (length (faSnapshots st))
         then (Ok index, st\<lparr>faSnapshots := faSnapshots st @ [faLoaded st]\<rparr>)
         else if 0 \<le> index \<and> index < int (length (faSnapshots st))
         then (Ok index, st\<lparr>faSnapshots := (faSnapshots st)[nat index := faLoaded st]\<rparr>)
         else (Panic PanicSliceBounds, st))"

definition faRevertToSnapshot :: "int \<Rightarrow> forkAccountState \<Rightarrow> forkAccountState" where
  "faRevertToSnapshot revid st =
     (let st = st\<lparr>faBase := accRevertToSnapshot revid (faBase st)\<rparr>
      in if revid < 0 \<or> revid \<ge> int (length (faSnapshots st)) then st
         else st\<lparr>faLoaded := faSnapshots st ! nat revid, faSnapshots := take (nat revid) (faSnapshots st)\<rparr>)"

subsection \<open>Storage\<close>

record forkStorage =
  fsCacheRef :: BlockRef
  fsSourceRef :: BlockRef
  fsBase :: InMemoryStorage
  fsLoaded :: "(Address, Hash list) gomap"
  fsSnapshots :: "(Address, Hash list) gomap list"

definition newForkStorage :: "BlockRef \<Rightarrow> BlockRef \<Rightarrow> forkStorage" where
  "newForkStorage cacheRef sourceRef =
     \<lparr>fsCacheRef = cacheRef, fsSourceRef = sourceRef, fsBase = NewInMemoryStorage, fsLoaded = [], fsSnapshots = []\<rparr>"

definition fsEnsureLoaded ::
  "Provider \<Rightarrow> Address \<Rightarrow> Hash \<Rightarrow> forkStorage \<Rightarrow> MemoryStore \<Rightarrow> string option \<times> forkStorage \<times> MemoryStore" where
  "fsEnsureLoaded P addr slot st c =
     (if slot \<in> set (mread [] (fsLoaded st) addr) then (None, st, c)
      else
        let seed = (\<lambda>v. st\<lparr>fsBase := StorageSeed addr slot v (fsBase st),
                          fsLoaded := mput addr (setAdd slot (mread [] (fsLoaded st) addr)) (fsLoaded st)\<rparr>)
        in case GetStorage addr slot (fsCacheRef st) c of
             Some v \<Rightarrow> (None, seed v, c)
           | None \<Rightarrow>
               (case pvStorageAt P addr slot (fsSourceRef st) of
                  Inl e \<Rightarrow> (Some (''forkengine: load storage for '' @ hexAddr addr @ '' slot '' @ hexHash slot @ '': '' @ e), st, c)
                | Inr v \<Rightarrow> (None, seed v, PutStorage addr slot (fsCacheRef st) v c)))"

definition fsMustLoad :: "Provider \<Rightarrow> Address \<Rightarrow> Hash \<Rightarrow> (forkStorage, unit) forkOp" where
  "fsMustLoad P addr slot st c =
     (case fsEnsureLoaded P addr slot st c of
        (Some e, st, c) \<Rightarrow> (Panic (PanicErr (ErrOther e)), st, c)
      | (None, st, c) \<Rightarrow> (Ok (), st, c))"

definition fsRead :: "(Address \<Rightarrow> Hash \<Rightarrow> InMemoryStorage \<Rightarrow> 'a) \<Rightarrow> Provider \<Rightarrow> Address \<Rightarrow> Hash \<Rightarrow> (forkStorage, 'a) forkOp" where
  "fsRead f P addr slot st c =
     (case fsMustLoad P addr slot st c of
        (Ok _, st, c) \<Rightarrow> (Ok (f addr slot (fsBase st)), st, c)
      | (Fail e, st, c) \<Rightarrow> (Fail e, st, c)
      | (Panic p, st, c) \<Rightarrow> (Panic p, st, c))"

definition fsGet where "fsGet = fsRead StorageGet"
definition fsOriginal where "fsOriginal = fsRead StorageOriginal"

definition fsSet :: "Provider \<Rightarrow> Address \<Rightarrow> Hash \<Rightarrow> Hash \<Rightarrow> (forkStorage, unit) forkOp" where
  "fsSet P addr slot v st c =
     (case fsMustLoad P addr slot st c of
        (Ok _, st, c) \<Rightarrow> (Ok (), st\<lparr>fsBase := StorageSet addr slot v (fsBase st)\<rparr>, c)
      | (Fail e, st, c) \<Rightarrow> (Fail e, st, c)
      | (Panic p, st, c) \<Rightarrow> (Panic p, st, c))"

definition fsSnapshot :: "forkStorage \<Rightarrow> int outcome \<times> forkStorage" where
  "fsSnapshot st =
     (let (index, base) = stoSnapshot (fsBase st);
          st = st\<lparr>fsBase := base\<rparr>
      in if index = int (length (fsSnapshots st))
         then (Ok index, st\<lparr>fsSnapshots := fsSnapshots st @ [fsLoaded st]\<rparr>)
         else if 0 \<le> index \<and> index < int (length (fsSnapshots st))
         then (Ok index, st\<lparr>fsSnapshots := (fsSnapshots st)[nat index := fsLoaded st]\<rparr>)
         else (Panic PanicSliceBounds, st))"

definition fsRevertToSnapshot :: "int \<Rightarrow> forkStorage \<Rightarrow> forkStorage" where
  "fsRevertToSnapshot revid st =
     (let st = st\<lparr>fsBase := stoRevertToSnapshot revid (fsBase st)\<rparr>
      in if revid < 0 \<or> revid \<ge> int (length (fsSnapshots st)) then st
         else st\<lparr>fsLoaded := fsSnapshots st ! nat revid, fsSnapshots := take (nat revid) (fsSnapshots st)\<rparr>)"

subsection \<open>A lazily filled store against a full one\<close>

text \<open>
  The store holds one cell per key; a key not loaded yet has a blank cell, and loading it puts there what the
  remote holds. \<open>rel b L Ls b'\<close>: the store \<open>b\<close> with loaded keys \<open>L\<close>, and \<open>Ls\<close> at its snapshots, holds at the
  loaded keys what the full store \<open>b'\<close> holds, which at the others still holds the remote's cell.
\<close>

locale lazy_store = snapshot_store snap revert cell saved
  for snap :: "'s \<Rightarrow> int \<times> 's" and revert :: "int \<Rightarrow> 's \<Rightarrow> 's"
    and cell :: "'s \<Rightarrow> 'k \<Rightarrow> 'c" and saved :: "'s \<Rightarrow> ('k \<Rightarrow> 'c) list" +
  fixes blank :: 'c and remote :: "'k \<Rightarrow> 'c" and seed :: "'k \<Rightarrow> 's \<Rightarrow> 's"
  assumes seed_cell: "cell b k = blank \<Longrightarrow> cell (seed k b) = (cell b)(k := remote k)"
    and seed_saved: "saved (seed k b) = saved b"
begin

definition layer :: "('k \<Rightarrow> 'c) \<Rightarrow> 'k set \<Rightarrow> ('k \<Rightarrow> 'c) \<Rightarrow> bool" where
  "layer c L c' \<longleftrightarrow> (\<forall>k. if k \<in> L then c k = c' k else c k = blank \<and> c' k = remote k)"

definition rel :: "'s \<Rightarrow> 'k set \<Rightarrow> 'k set list \<Rightarrow> 's \<Rightarrow> bool" where
  "rel b L Ls b' \<longleftrightarrow> layer (cell b) L (cell b') \<and> length Ls = length (saved b) \<and>
     length (saved b') = length (saved b) \<and> (\<forall>i<length Ls. layer (saved b ! i) (Ls ! i) (saved b' ! i))"

lemma layerD: "layer c L c' \<Longrightarrow> k \<in> L \<Longrightarrow> c k = c' k" "layer c L c' \<Longrightarrow> k \<notin> L \<Longrightarrow> c k = blank"
  unfolding layer_def by metis+

lemma rel_load: "rel b L Ls b' \<Longrightarrow> k \<notin> L \<Longrightarrow> rel (seed k b) (insert k L) Ls b'"
  by (auto simp: rel_def seed_saved seed_cell layerD) (auto simp: layer_def)

lemma rel_read: "rel b L Ls b' \<Longrightarrow> k \<in> L \<Longrightarrow> cell b k = cell b' k"
  unfolding rel_def by (blast intro: layerD)

lemma rel_write:
  assumes "rel b L Ls b'" "k \<in> L" "\<And>x. cell (f x) = (cell x)(k := w (cell x k))" "\<And>x. saved (f x) = saved x"
  shows "rel (f b) L Ls (f b')"
proof -
  have "layer (cell b) L (cell b')" using assms(1) by (simp add: rel_def)
  then have "layer (cell (f b)) L (cell (f b'))" unfolding assms(3) using assms(2) by (auto simp: layer_def)
  then show ?thesis using assms(1) by (simp add: rel_def assms(4))
qed

lemma rel_snap: "rel b L Ls b' \<Longrightarrow> rel (snd (snap b)) L (Ls @ [L]) (snd (snap b')) \<and> fst (snap b) = fst (snap b')"
  by (auto simp: rel_def snap_view snap_saved snap_id nth_append less_Suc_eq)

lemma rel_snap_index: "rel b L Ls b' \<Longrightarrow> fst (snap b) = int (length Ls)"
  by (simp add: rel_def snap_id)

lemma rel_revert:
  assumes "rel b L Ls b'"
  shows "0 \<le> i \<Longrightarrow> i < int (length Ls) \<Longrightarrow> rel (revert i b) (Ls ! nat i) (take (nat i) Ls) (revert i b')"
    "i < 0 \<or> int (length Ls) \<le> i \<Longrightarrow> rel (revert i b) L Ls (revert i b')"
proof -
  have len: "length Ls = length (saved b)" "length (saved b') = length (saved b)" using assms by (simp_all add: rel_def)
  show "rel (revert i b) (Ls ! nat i) (take (nat i) Ls) (revert i b')" if "0 \<le> i" "i < int (length Ls)"
  proof -
    have "nat i < length (saved b)" "nat i < length (saved b')" "nat i < length Ls" using that len by auto
    then show ?thesis using assms that by (simp add: rel_def revert_view revert_saved)
  qed
  show "rel (revert i b) L Ls (revert i b')" if "i < 0 \<or> int (length Ls) \<le> i"
  proof -
    have "i < 0 \<or> length (saved b) \<le> nat i" "i < 0 \<or> length (saved b') \<le> nat i" using that len by auto
    then show ?thesis using assms by (simp add: revert_unknown)
  qed
qed

end

subsection \<open>Accounts are a lazily filled store\<close>

type_synonym accountCell = "int option \<times> u64 option \<times> bytes option \<times> Hash option \<times> bool option \<times> bool option"

definition accCell :: "'z accountSnapshot_scheme \<Rightarrow> Address \<Rightarrow> accountCell" where
  "accCell s a = (balances s a, nonces s a, codes s a, codeHash s a, existsMap s a, deletedMap s a)"

definition accCells :: "InMemoryAccountState \<Rightarrow> (Address \<Rightarrow> accountCell) list" where
  "accCells s = map accCell (snapshots s)"

definition blankCell :: accountCell where
  "blankCell = (None, None, None, None, None, None)"

text \<open>What seeding leaves at a blank address.\<close>

definition seedCell :: "(bytes \<Rightarrow> Hash) \<Rightarrow> AccountSnapshot \<Rightarrow> accountCell" where
  "seedCell K snap = accCell (seedAccount K 0 snap NewInMemoryAccountState) 0"

lemma accCell_eqI:
  "balances s a = balances t b \<Longrightarrow> nonces s a = nonces t b \<Longrightarrow> codes s a = codes t b \<Longrightarrow> codeHash s a = codeHash t b \<Longrightarrow>
    existsMap s a = existsMap t b \<Longrightarrow> deletedMap s a = deletedMap t b \<Longrightarrow> accCell s a = accCell t b"
  by (simp add: accCell_def)

lemma accCell_seed:
  assumes "accCell b a = blankCell"
  shows "accCell (seedAccount K a snap b) = (accCell b)(a := seedCell K snap)"
proof
  fix x
  show "accCell (seedAccount K a snap b) x = ((accCell b)(a := seedCell K snap)) x"
    using assms
    by (cases "asBalance snap")
      (simp_all add: accCell_def seedCell_def seedAccount_def blankCell_def account_writes
        NewInMemoryAccountState_def Let_def hashCode_def)
qed

lemma snapshots_seed [simp]: "snapshots (seedAccount K a snap b) = snapshots b"
  by (simp add: seedAccount_def Let_def split: option.split)

lemma accCell_snapshots:
  "accCell (accountSnapshot.truncate s) = accCell s"
  "fst (accSnapshot s) = int (length (snapshots s))"
  "accCell (snd (accSnapshot s)) = accCell s"
  "snapshots (snd (accSnapshot s)) = snapshots s @ [accountSnapshot.truncate s]"
  "0 \<le> i \<Longrightarrow> nat i < length (snapshots s) \<Longrightarrow> accCell (accRevertToSnapshot i s) = accCell (snapshots s ! nat i)"
  "0 \<le> i \<Longrightarrow> nat i < length (snapshots s) \<Longrightarrow> snapshots (accRevertToSnapshot i s) = take (nat i) (snapshots s)"
  "i < 0 \<or> length (snapshots s) \<le> nat i \<Longrightarrow> accRevertToSnapshot i s = s"
  by (auto simp: accSnapshot_def accRevertToSnapshot_def Let_def accCell_def accountSnapshot.truncate_def fun_eq_iff)

interpretation accLazy: lazy_store accSnapshot accRevertToSnapshot accCell accCells blankCell
    "\<lambda>a. seedCell K (remote a)" "\<lambda>a. seedAccount K a (remote a)" for K remote
  by unfold_locales
    (auto simp: accCells_def accCell_snapshots accCell_seed take_map)

text \<open>Every write of the in-memory state works on one cell.\<close>

fun setExists :: "accountCell \<Rightarrow> accountCell" where
  "setExists (b, n, c, h, e, d) = (b, n, c, h, Some True, d)"

fun cellBalance :: "(int \<Rightarrow> int) \<Rightarrow> accountCell \<Rightarrow> accountCell" where
  "cellBalance f (b, n, c, h, e, d) = (Some (f (case b of None \<Rightarrow> 0 | Some v \<Rightarrow> v)), n, c, h, Some True, d)"

fun cellNonce :: "(u64 \<Rightarrow> u64) \<Rightarrow> accountCell \<Rightarrow> accountCell" where
  "cellNonce f (b, n, c, h, e, d) = (b, Some (f (case n of None \<Rightarrow> 0 | Some v \<Rightarrow> v)), c, h, Some True, d)"

fun cellCode :: "bytes \<Rightarrow> Hash \<Rightarrow> accountCell \<Rightarrow> accountCell" where
  "cellCode code hash (b, n, c, h, e, d) = (b, n, Some code, Some hash, Some True, d)"

fun cellDeleted :: "accountCell \<Rightarrow> accountCell" where
  "cellDeleted (b, n, c, h, e, d) = (b, n, c, h, e, Some True)"

lemma accCell_writes:
  "accCell (SetBalance a v x) = (accCell x)(a := cellBalance (\<lambda>_. v) (accCell x a))"
  "accCell (AddBalance a v x) = (accCell x)(a := cellBalance (\<lambda>b. b + v) (accCell x a))"
  "accCell (SubBalance a v x) = (accCell x)(a := cellBalance (\<lambda>b. b - v) (accCell x a))"
  "accCell (SetNonce a n x) = (accCell x)(a := cellNonce (\<lambda>_. n) (accCell x a))"
  "accCell (IncrementNonce a x) = (accCell x)(a := cellNonce (\<lambda>n. n + 1) (accCell x a))"
  "accCell (SetCode K a code x) = (accCell x)(a := cellCode code (K code) (accCell x a))"
  "accCell (SelfDestruct a x) = (accCell x)(a := cellDeleted (accCell x a))"
  "accCell (CreateAccount a x) = (accCell x)(a := cellBalance (\<lambda>_. 0) (accCell x a))"
  by (auto simp: accCell_def account_writes mget_def hashCode_def fun_eq_iff)

text \<open>Every read depends on one cell.\<close>

lemma reads_by_cell:
  assumes "accCell s a = accCell t a"
  shows "Balance a s = Balance a t" "Nonce a s = Nonce a t" "accCode a s = accCode a t" "CodeHash a s = CodeHash a t"
    "CodeSize a s = CodeSize a t" "StorageRoot a s = StorageRoot a t" "Exists a s = Exists a t"
    "IsEmpty a s = IsEmpty a t" "HasCodeOrNonce a s = HasCodeOrNonce a t" "SelfDestructed a s = SelfDestructed a t"
  using assms by (simp_all add: accCell_def account_reads StorageRoot_def mget_def)

subsection \<open>Sequences of operations on accounts\<close>

datatype accRead = RdBalance | RdNonce | RdCode | RdCodeHash | RdCodeSize | RdStorageRoot | RdExists | RdIsEmpty
  | RdHasCodeOrNonce | RdSelfDestructed

datatype accWrite = WrSetBalance int | WrAddBalance int | WrSubBalance int | WrSetNonce u64 | WrIncrementNonce
  | WrSetCode bytes | WrSelfDestruct | WrCreateAccount

datatype accOp = AccRead accRead Address | AccWrite accWrite Address | AccSnap | AccRevert int

datatype accOut = OutInt int | OutNonce u64 | OutBytes bytes | OutHash Hash | OutLen nat | OutBool bool | OutDone

text \<open>One operation on the in-memory state.\<close>

fun memRead :: "accRead \<Rightarrow> Address \<Rightarrow> InMemoryAccountState \<Rightarrow> accOut" where
  "memRead RdBalance a s = OutInt (Balance a s)"
| "memRead RdNonce a s = OutNonce (Nonce a s)"
| "memRead RdCode a s = OutBytes (accCode a s)"
| "memRead RdCodeHash a s = OutHash (CodeHash a s)"
| "memRead RdCodeSize a s = OutLen (CodeSize a s)"
| "memRead RdStorageRoot a s = OutHash (StorageRoot a s)"
| "memRead RdExists a s = OutBool (Exists a s)"
| "memRead RdIsEmpty a s = OutBool (IsEmpty a s)"
| "memRead RdHasCodeOrNonce a s = OutBool (HasCodeOrNonce a s)"
| "memRead RdSelfDestructed a s = OutBool (SelfDestructed a s)"

fun memWrite :: "(bytes \<Rightarrow> Hash) \<Rightarrow> accWrite \<Rightarrow> Address \<Rightarrow> InMemoryAccountState \<Rightarrow> InMemoryAccountState" where
  "memWrite K (WrSetBalance v) a s = SetBalance a v s"
| "memWrite K (WrAddBalance v) a s = AddBalance a v s"
| "memWrite K (WrSubBalance v) a s = SubBalance a v s"
| "memWrite K (WrSetNonce n) a s = SetNonce a n s"
| "memWrite K WrIncrementNonce a s = IncrementNonce a s"
| "memWrite K (WrSetCode code) a s = SetCode K a code s"
| "memWrite K WrSelfDestruct a s = SelfDestruct a s"
| "memWrite K WrCreateAccount a s = CreateAccount a s"

fun memStep :: "(bytes \<Rightarrow> Hash) \<Rightarrow> accOp \<Rightarrow> InMemoryAccountState \<Rightarrow> accOut \<times> InMemoryAccountState" where
  "memStep K (AccRead r a) s = (memRead r a s, s)"
| "memStep K (AccWrite w a) s = (OutDone, memWrite K w a s)"
| "memStep K AccSnap s = (let (i, s) = accSnapshot s in (OutInt i, s))"
| "memStep K (AccRevert i) s = (OutDone, accRevertToSnapshot i s)"

fun memRun :: "(bytes \<Rightarrow> Hash) \<Rightarrow> accOp list \<Rightarrow> InMemoryAccountState \<Rightarrow> accOut list \<times> InMemoryAccountState" where
  "memRun K [] s = ([], s)"
| "memRun K (p # ps) s =
     (let (r, s) = memStep K p s; (rs, s) = memRun K ps s in (r # rs, s))"

text \<open>The same operation on the forked state.\<close>

definition mapOut :: "('a \<Rightarrow> 'b) \<Rightarrow> 'a outcome \<times> 's \<times> 'c \<Rightarrow> 'b outcome \<times> 's \<times> 'c" where
  "mapOut f x = (case x of (r, st, c) \<Rightarrow> (obind r (\<lambda>v. Ok (f v)), st, c))"

fun faReadOp :: "(bytes \<Rightarrow> Hash) \<Rightarrow> Provider \<Rightarrow> accRead \<Rightarrow> Address \<Rightarrow> (forkAccountState, accOut) forkOp" where
  "faReadOp K P RdBalance a st c = mapOut OutInt (faBalance K P a st c)"
| "faReadOp K P RdNonce a st c = mapOut OutNonce (faNonce K P a st c)"
| "faReadOp K P RdCode a st c = mapOut OutBytes (faCode K P a st c)"
| "faReadOp K P RdCodeHash a st c = mapOut OutHash (faCodeHash K P a st c)"
| "faReadOp K P RdCodeSize a st c = mapOut OutLen (faCodeSize K P a st c)"
| "faReadOp K P RdStorageRoot a st c = mapOut OutHash (faStorageRoot K P a st c)"
| "faReadOp K P RdExists a st c = mapOut OutBool (faExists K P a st c)"
| "faReadOp K P RdIsEmpty a st c = mapOut OutBool (faIsEmpty K P a st c)"
| "faReadOp K P RdHasCodeOrNonce a st c = mapOut OutBool (faHasCodeOrNonce K P a st c)"
| "faReadOp K P RdSelfDestructed a st c = mapOut OutBool (faSelfDestructed K P a st c)"

fun faWriteOp :: "(bytes \<Rightarrow> Hash) \<Rightarrow> Provider \<Rightarrow> accWrite \<Rightarrow> Address \<Rightarrow> (forkAccountState, unit) forkOp" where
  "faWriteOp K P (WrSetBalance v) a st c = faSetBalance K P a v st c"
| "faWriteOp K P (WrAddBalance v) a st c = faAddBalance K P a v st c"
| "faWriteOp K P (WrSubBalance v) a st c = faSubBalance K P a v st c"
| "faWriteOp K P (WrSetNonce n) a st c = faSetNonce K P a n st c"
| "faWriteOp K P WrIncrementNonce a st c = faIncrementNonce K P a st c"
| "faWriteOp K P (WrSetCode code) a st c = faSetCode K P a code st c"
| "faWriteOp K P WrSelfDestruct a st c = faSelfDestruct K P a st c"
| "faWriteOp K P WrCreateAccount a st c = faCreateAccount K P a st c"

fun faStep :: "(bytes \<Rightarrow> Hash) \<Rightarrow> Provider \<Rightarrow> accOp \<Rightarrow> (forkAccountState, accOut) forkOp" where
  "faStep K P (AccRead r a) st c = faReadOp K P r a st c"
| "faStep K P (AccWrite w a) st c = mapOut (\<lambda>_. OutDone) (faWriteOp K P w a st c)"
| "faStep K P AccSnap st c = (case faSnapshot st of (r, st) \<Rightarrow> (obind r (\<lambda>i. Ok (OutInt i)), st, c))"
| "faStep K P (AccRevert i) st c = (Ok OutDone, faRevertToSnapshot i st, c)"

text \<open>A panic ends the sequence.\<close>

fun faRun :: "(bytes \<Rightarrow> Hash) \<Rightarrow> Provider \<Rightarrow> accOp list \<Rightarrow> (forkAccountState, accOut list) forkOp" where
  "faRun K P [] st c = (Ok [], st, c)"
| "faRun K P (p # ps) st c =
     (case faStep K P p st c of
        (Ok r, st, c) \<Rightarrow> mapOut ((#) r) (faRun K P ps st c)
      | (Fail e, st, c) \<Rightarrow> (Fail e, st, c)
      | (Panic e, st, c) \<Rightarrow> (Panic e, st, c))"

subsection \<open>The forked accounts refine preloaded ones\<close>

text \<open>What the forked state would load for an address.\<close>

definition remoteAccount :: "(bytes \<Rightarrow> Hash) \<Rightarrow> Provider \<Rightarrow> BlockRef \<Rightarrow> BlockRef \<Rightarrow> MemoryStore \<Rightarrow> Address \<Rightarrow> string + AccountSnapshot" where
  "remoteAccount K P cacheRef sourceRef c a =
     (case GetAccount a cacheRef c of Some snap \<Rightarrow> Inr snap | None \<Rightarrow> fetchAccount K P sourceRef a)"

definition answered :: "'e + AccountSnapshot \<Rightarrow> AccountSnapshot" where
  "answered x = (case x of Inr snap \<Rightarrow> snap | Inl e \<Rightarrow> zeroSnapshot)"

lemmas fa_defs = faBalance_def faNonce_def faCode_def faCodeHash_def faCodeSize_def faStorageRoot_def faExists_def
  faIsEmpty_def faHasCodeOrNonce_def faSelfDestructed_def faSetBalance_def faAddBalance_def faSubBalance_def
  faSetNonce_def faIncrementNonce_def faSetCode_def faSelfDestruct_def faCreateAccount_def

text \<open>The in-memory state that holds every account of the remote.\<close>

definition preloaded :: "(bytes \<Rightarrow> Hash) \<Rightarrow> (Address \<Rightarrow> AccountSnapshot) \<Rightarrow> InMemoryAccountState" where
  "preloaded K remote =
     (let at = (\<lambda>a. seedAccount K a (remote a) NewInMemoryAccountState)
      in \<lparr>balances = (\<lambda>a. balances (at a) a), nonces = (\<lambda>a. nonces (at a) a), codes = (\<lambda>a. codes (at a) a),
          codeHash = (\<lambda>a. codeHash (at a) a), existsMap = (\<lambda>a. existsMap (at a) a),
          deletedMap = (\<lambda>a. deletedMap (at a) a), snapshots = []\<rparr>)"

lemma accCell_New: "accCell NewInMemoryAccountState a = blankCell"
  by (simp add: accCell_def NewInMemoryAccountState_def blankCell_def)

lemma accCell_preloaded: "accCell (preloaded K remote) a = seedCell K (remote a)"
proof -
  have "accCell (preloaded K remote) a = accCell (seedAccount K a (remote a) NewInMemoryAccountState) a"
    by (simp add: preloaded_def Let_def accCell_def)
  then show ?thesis by (simp add: accCell_seed accCell_New)
qed

definition accRel :: "(bytes \<Rightarrow> Hash) \<Rightarrow> (Address \<Rightarrow> AccountSnapshot) \<Rightarrow> forkAccountState \<Rightarrow> InMemoryAccountState \<Rightarrow> bool" where
  "accRel K remote st s = accLazy.rel K remote (faBase st) (set (faLoaded st)) (map set (faSnapshots st)) s"

lemma accRel_new: "accRel K remote (newForkAccountState r r') (preloaded K remote)"
  by (simp add: accRel_def newForkAccountState_def accLazy.rel_def accLazy.layer_def accCell_New accCell_preloaded
      accCells_def NewInMemoryAccountState_def [THEN arg_cong [where f = snapshots]])
    (simp add: preloaded_def Let_def)

text \<open>What the state relies on while it runs: the references stay, and so does what it would load.\<close>

definition sameRemote :: "(bytes \<Rightarrow> Hash) \<Rightarrow> Provider \<Rightarrow> (Address \<Rightarrow> string + AccountSnapshot) \<Rightarrow> forkAccountState \<Rightarrow> MemoryStore \<Rightarrow> bool" where
  "sameRemote K P rem st c \<longleftrightarrow> remoteAccount K P (faCacheRef st) (faSourceRef st) c = rem"

lemma GetAccount_puts [simp]:
  "GetAccount b r' (PutAccount a r snap c) = (if b = a \<and> CacheKey r' = CacheKey r then Some snap else GetAccount b r' c)"
  "GetAccount b r' (PutCode a r code c) = GetAccount b r' c"
  "GetAccount b r' (PutStorage a slot r v c) = GetAccount b r' c"
  by (simp_all add: GetAccount_def PutAccount_def PutCode_def PutStorage_def)

lemma faMustLoad_ok:
  assumes "accRel K (answered \<circ> rem) st s" "sameRemote K P rem st c" "rem a = Inr snap"
  obtains st' c' where "faMustLoad K P a st c = (Ok (), st', c')" "accRel K (answered \<circ> rem) st' s"
    "sameRemote K P rem st' c'" "a \<in> set (faLoaded st')"
proof (cases "a \<in> set (faLoaded st)")
  case True
  then show ?thesis using that assms by (simp add: faMustLoad_def faEnsureLoaded_def)
next
  case False
  let ?st = "st\<lparr>faBase := seedAccount K a snap (faBase st), faLoaded := setAdd a (faLoaded st)\<rparr>"
  have "(answered \<circ> rem) a = snap" using assms(3) by (simp add: answered_def)
  then have r: "accRel K (answered \<circ> rem) ?st s"
    using accLazy.rel_load [where k = a, OF assms(1) [unfolded accRel_def]] False by (simp add: accRel_def)
  show ?thesis
  proof (cases "GetAccount a (faCacheRef st) c")
    case (Some x)
    then have "x = snap" using assms(2,3) by (auto simp: sameRemote_def remoteAccount_def)
    then show ?thesis using that r False Some assms(2) by (simp add: faMustLoad_def faEnsureLoaded_def sameRemote_def Let_def)
  next
    case None
    then have f: "fetchAccount K P (faSourceRef st) a = Inr snap"
      using assms(2,3) by (auto simp: sameRemote_def remoteAccount_def)
    let ?c = "PutAccount a (faCacheRef st) snap c"
    let ?c' = "if asCode snap \<noteq> [] then PutCode a (faCacheRef st) (asCode snap) ?c else ?c"
    have "remoteAccount K P (faCacheRef st) (faSourceRef st) ?c' = remoteAccount K P (faCacheRef st) (faSourceRef st) c"
      using None f by (auto simp: remoteAccount_def fun_eq_iff)
    then have "sameRemote K P rem ?st ?c'" using assms(2) by (simp add: sameRemote_def)
    then show ?thesis using that r False None f by (simp add: faMustLoad_def faEnsureLoaded_def Let_def)
  qed
qed

lemma faRead_ok:
  assumes "accRel K (answered \<circ> rem) st s" "sameRemote K P rem st c" "rem a = Inr snap"
    "\<And>x y. accCell x a = accCell y a \<Longrightarrow> f a x = f a y"
  shows "\<exists>st' c'. faRead f K P a st c = (Ok (f a s), st', c') \<and> accRel K (answered \<circ> rem) st' s \<and> sameRemote K P rem st' c'"
proof -
  obtain st' c' where l: "faMustLoad K P a st c = (Ok (), st', c')" "accRel K (answered \<circ> rem) st' s"
    "sameRemote K P rem st' c'" "a \<in> set (faLoaded st')"
    using faMustLoad_ok [OF assms(1-3)] by blast
  have "accCell (faBase st') a = accCell s a"
    using accLazy.rel_read [OF l(2) [unfolded accRel_def] l(4)] .
  then have "f a (faBase st') = f a s" by (rule assms(4))
  then show ?thesis using l by (simp add: faRead_def)
qed

lemma faWrite_ok:
  assumes "accRel K (answered \<circ> rem) st s" "sameRemote K P rem st c" "rem a = Inr snap"
    "\<And>x. accCell (f a x) = (accCell x)(a := w (accCell x a))" "\<And>x. snapshots (f a x) = snapshots x"
  shows "\<exists>st' c'. faWrite f K P a st c = (Ok (), st', c') \<and> accRel K (answered \<circ> rem) st' (f a s) \<and> sameRemote K P rem st' c'"
proof -
  obtain st' c' where l: "faMustLoad K P a st c = (Ok (), st', c')" "accRel K (answered \<circ> rem) st' s"
    "sameRemote K P rem st' c'" "a \<in> set (faLoaded st')"
    using faMustLoad_ok [OF assms(1-3)] by blast
  have "accRel K (answered \<circ> rem) (st'\<lparr>faBase := f a (faBase st')\<rparr>) (f a s)"
    using accLazy.rel_write [where f = "f a" and w = w, OF l(2) [unfolded accRel_def] l(4) assms(4)] assms(5)
    by (simp add: accRel_def accCells_def)
  then show ?thesis using l by (auto simp: faWrite_def sameRemote_def)
qed

lemma faReadOp_ok:
  assumes "accRel K (answered \<circ> rem) st s" "sameRemote K P rem st c" "rem a = Inr snap"
  shows "\<exists>st' c'. faReadOp K P r a st c = (Ok (memRead r a s), st', c') \<and> accRel K (answered \<circ> rem) st' s \<and> sameRemote K P rem st' c'"
proof -
  note read = faRead_ok [OF assms]
  show ?thesis
    using read [where f = Balance, OF reads_by_cell(1)] read [where f = Nonce, OF reads_by_cell(2)]
      read [where f = accCode, OF reads_by_cell(3)] read [where f = CodeHash, OF reads_by_cell(4)]
      read [where f = CodeSize, OF reads_by_cell(5)] read [where f = StorageRoot, OF reads_by_cell(6)]
      read [where f = Exists, OF reads_by_cell(7)] read [where f = IsEmpty, OF reads_by_cell(8)]
      read [where f = HasCodeOrNonce, OF reads_by_cell(9)] read [where f = SelfDestructed, OF reads_by_cell(10)]
    by (cases r) (auto simp: mapOut_def fa_defs)
qed

lemma faWriteOp_ok:
  assumes "accRel K (answered \<circ> rem) st s" "sameRemote K P rem st c" "rem a = Inr snap"
  shows "\<exists>st' c'. faWriteOp K P w a st c = (Ok (), st', c') \<and> accRel K (answered \<circ> rem) st' (memWrite K w a s) \<and>
    sameRemote K P rem st' c'"
proof -
  note write_ok = faWrite_ok [OF assms]
  show ?thesis
  proof (cases w)
    case (WrSetBalance v)
    with write_ok [where f = "\<lambda>a. SetBalance a v" and w = "cellBalance (\<lambda>_. v)"] show ?thesis by (simp add: fa_defs accCell_writes)
  next
    case (WrAddBalance v)
    with write_ok [where f = "\<lambda>a. AddBalance a v" and w = "cellBalance (\<lambda>b. b + v)"] show ?thesis by (simp add: fa_defs accCell_writes)
  next
    case (WrSubBalance v)
    with write_ok [where f = "\<lambda>a. SubBalance a v" and w = "cellBalance (\<lambda>b. b - v)"] show ?thesis by (simp add: fa_defs accCell_writes)
  next
    case (WrSetNonce n)
    with write_ok [where f = "\<lambda>a. SetNonce a n" and w = "cellNonce (\<lambda>_. n)"] show ?thesis by (simp add: fa_defs accCell_writes)
  next
    case WrIncrementNonce
    with write_ok [where f = "IncrementNonce" and w = "cellNonce (\<lambda>n. n + 1)"] show ?thesis by (simp add: fa_defs accCell_writes)
  next
    case (WrSetCode code)
    with write_ok [where f = "\<lambda>a. SetCode K a code" and w = "cellCode code (K code)"] show ?thesis by (simp add: fa_defs accCell_writes)
  next
    case WrSelfDestruct
    with write_ok [where f = "SelfDestruct" and w = "cellDeleted"] show ?thesis by (simp add: fa_defs accCell_writes)
  next
    case WrCreateAccount
    with write_ok [where f = "CreateAccount" and w = "cellBalance (\<lambda>_. 0)"] show ?thesis by (simp add: fa_defs accCell_writes)
  qed
qed

lemma faSnapshot_ok:
  assumes "accRel K remote st s"
  shows "\<exists>st'. faSnapshot st = (Ok (fst (accSnapshot s)), st') \<and> accRel K remote st' (snd (accSnapshot s)) \<and>
    faCacheRef st' = faCacheRef st \<and> faSourceRef st' = faSourceRef st"
proof -
  let ?n = "fst (accSnapshot (faBase st))"
  have n: "?n = int (length (faSnapshots st))"
    using accLazy.rel_snap_index [OF assms [unfolded accRel_def]] by simp
  have r: "accRel K remote (st\<lparr>faBase := snd (accSnapshot (faBase st)), faSnapshots := faSnapshots st @ [faLoaded st]\<rparr>)
      (snd (accSnapshot s)) \<and> ?n = fst (accSnapshot s)"
    using accLazy.rel_snap [OF assms [unfolded accRel_def]] by (simp add: accRel_def)
  then show ?thesis using n by (simp add: faSnapshot_def Let_def case_prod_unfold)
qed

lemma faRevert_ok:
  assumes "accRel K remote st s"
  shows "accRel K remote (faRevertToSnapshot i st) (accRevertToSnapshot i s)"
proof (cases "0 \<le> i \<and> i < int (length (faSnapshots st))")
  case True
  then have "nat i < length (faSnapshots st)" by auto
  then show ?thesis
    using accLazy.rel_revert(1) [OF assms [unfolded accRel_def], of i] True
    by (simp add: accRel_def faRevertToSnapshot_def Let_def take_map)
next
  case False
  then show ?thesis
    using accLazy.rel_revert(2) [OF assms [unfolded accRel_def], of i]
    by (auto simp: accRel_def faRevertToSnapshot_def Let_def)
qed

fun accAddr :: "accOp \<Rightarrow> Address option" where
  "accAddr (AccRead r a) = Some a"
| "accAddr (AccWrite w a) = Some a"
| "accAddr AccSnap = None"
| "accAddr (AccRevert i) = None"

lemma faStep_ok:
  assumes "accRel K (answered \<circ> rem) st s" "sameRemote K P rem st c" "\<forall>a. accAddr p = Some a \<longrightarrow> (\<exists>snap. rem a = Inr snap)"
  shows "\<exists>st' c'. faStep K P p st c = (Ok (fst (memStep K p s)), st', c') \<and>
    accRel K (answered \<circ> rem) st' (snd (memStep K p s)) \<and> sameRemote K P rem st' c'"
proof (cases p)
  case (AccRead r a)
  with assms(3) obtain snap where "rem a = Inr snap" by auto
  with faReadOp_ok [OF assms(1,2)] AccRead show ?thesis by simp
next
  case (AccWrite w a)
  with assms(3) obtain snap where "rem a = Inr snap" by auto
  with faWriteOp_ok [OF assms(1,2), of a snap w] AccWrite show ?thesis by (auto simp: mapOut_def)
next
  case AccSnap
  with faSnapshot_ok [OF assms(1)] assms(2) show ?thesis by (auto simp: sameRemote_def case_prod_unfold Let_def)
next
  case (AccRevert i)
  with faRevert_ok [OF assms(1), of i] assms(2) show ?thesis
    by (auto simp: sameRemote_def faRevertToSnapshot_def Let_def)
qed

lemma faRun_ok:
  assumes "accRel K (answered \<circ> rem) st s" "sameRemote K P rem st c"
    "\<forall>p\<in>set ps. \<forall>a. accAddr p = Some a \<longrightarrow> (\<exists>snap. rem a = Inr snap)"
  shows "\<exists>st' c'. faRun K P ps st c = (Ok (fst (memRun K ps s)), st', c') \<and>
    accRel K (answered \<circ> rem) st' (snd (memRun K ps s)) \<and> sameRemote K P rem st' c'"
  using assms
proof (induction ps arbitrary: st s c)
  case (Cons p ps)
  obtain st' c' where p: "faStep K P p st c = (Ok (fst (memStep K p s)), st', c')"
    "accRel K (answered \<circ> rem) st' (snd (memStep K p s))" "sameRemote K P rem st' c'"
    using faStep_ok [OF Cons.prems(1,2), of p] Cons.prems(3) by auto
  obtain st'' c'' where ps: "faRun K P ps st' c' = (Ok (fst (memRun K ps (snd (memStep K p s)))), st'', c'')"
    "accRel K (answered \<circ> rem) st'' (snd (memRun K ps (snd (memStep K p s))))" "sameRemote K P rem st'' c''"
    using Cons.IH [OF p(2,3)] Cons.prems(3) unfolding list.set by blast
  from p ps show ?case by (simp add: mapOut_def case_prod_unfold Let_def comp_def)
qed simp

subsection \<open>The forked storage refines a preloaded one\<close>

type_synonym slotCell = "Hash option \<times> Hash option"

definition slotCell :: "'z storageSnapshot_scheme \<Rightarrow> Address \<times> Hash \<Rightarrow> slotCell" where
  "slotCell s k = (inner (stoData s) (fst k) (snd k), inner (stoOriginal s) (fst k) (snd k))"

definition slotCells :: "InMemoryStorage \<Rightarrow> (Address \<times> Hash \<Rightarrow> slotCell) list" where
  "slotCells s = map slotCell (stoSnapshots s)"

lemma inner_set2: "inner (set2 m a k v) a' k' = (if a' = a \<and> k' = k then Some v else inner m a' k')"
  by (simp add: set2_def inner_def)

lemma get2_inner: "get2 d m a k = mget d (inner m a) k"
  by (simp add: get2_def inner_def split: option.split)

lemma slotCell_Seed: "slotCell (StorageSeed a k v s) = (slotCell s)((a, k) := (Some v, Some v))"
  by (auto simp: slotCell_def StorageSeed_def inner_set2 fun_eq_iff)

fun cellSet :: "Hash \<Rightarrow> slotCell \<Rightarrow> slotCell" where
  "cellSet v (d, h) = (Some v, Some (case h of Some x \<Rightarrow> x | None \<Rightarrow> (case d of Some x \<Rightarrow> x | None \<Rightarrow> 0)))"

lemma slotCell_Set: "slotCell (StorageSet a k v s) = (slotCell s)((a, k) := cellSet v (slotCell s (a, k)))"
  by (cases "inner (stoOriginal s) a k")
    (auto simp: slotCell_def StorageSet_def inner_set2 fun_eq_iff get2_inner mget_def)

lemma slot_reads_by_cell:
  assumes "slotCell s (a, k) = slotCell t (a, k)"
  shows "StorageGet a k s = StorageGet a k t" "StorageOriginal a k s = StorageOriginal a k t"
  using assms by (simp_all add: slotCell_def StorageGet_def StorageOriginal_def get2_inner mget_def)

lemma slotCell_snapshots:
  "slotCell (storageSnapshot.truncate s) = slotCell s"
  "fst (stoSnapshot s) = int (length (stoSnapshots s))"
  "slotCell (snd (stoSnapshot s)) = slotCell s"
  "stoSnapshots (snd (stoSnapshot s)) = stoSnapshots s @ [storageSnapshot.truncate s]"
  "0 \<le> i \<Longrightarrow> nat i < length (stoSnapshots s) \<Longrightarrow> slotCell (stoRevertToSnapshot i s) = slotCell (stoSnapshots s ! nat i)"
  "0 \<le> i \<Longrightarrow> nat i < length (stoSnapshots s) \<Longrightarrow> stoSnapshots (stoRevertToSnapshot i s) = take (nat i) (stoSnapshots s)"
  "i < 0 \<or> length (stoSnapshots s) \<le> nat i \<Longrightarrow> stoRevertToSnapshot i s = s"
  by (auto simp: stoSnapshot_def stoRevertToSnapshot_def Let_def slotCell_def storageSnapshot.truncate_def fun_eq_iff)

lemma StorageSeed_keeps_snapshots: "stoSnapshots (StorageSeed a k v s) = stoSnapshots s"
  by (simp add: StorageSeed_def)

interpretation stoLazy: lazy_store stoSnapshot stoRevertToSnapshot slotCell slotCells "(None, None)"
    "\<lambda>k. (Some (remote k), Some (remote k))" "\<lambda>k. StorageSeed (fst k) (snd k) (remote k)" for remote
  by unfold_locales
    (auto simp: slotCells_def slotCell_snapshots slotCell_Seed take_map StorageSeed_keeps_snapshots)

text \<open>What the forked storage would load for a slot, and the in-memory storage that holds it all.\<close>

definition remoteSlot :: "Provider \<Rightarrow> BlockRef \<Rightarrow> BlockRef \<Rightarrow> MemoryStore \<Rightarrow> Address \<times> Hash \<Rightarrow> string + Hash" where
  "remoteSlot P cacheRef sourceRef c k =
     (case GetStorage (fst k) (snd k) cacheRef c of Some v \<Rightarrow> Inr v | None \<Rightarrow> pvStorageAt P (fst k) (snd k) sourceRef)"

definition answeredSlot :: "'e + Hash \<Rightarrow> Hash" where
  "answeredSlot x = (case x of Inr v \<Rightarrow> v | Inl e \<Rightarrow> 0)"

definition preloadedSlots :: "(Address \<times> Hash \<Rightarrow> Hash) \<Rightarrow> InMemoryStorage" where
  "preloadedSlots remote =
     \<lparr>stoData = (\<lambda>a. Some (\<lambda>k. Some (remote (a, k)))), stoOriginal = (\<lambda>a. Some (\<lambda>k. Some (remote (a, k)))),
      stoSnapshots = []\<rparr>"

text \<open>The slots a nested map of loaded slots stands for.\<close>

definition loadedSlots :: "(Address, Hash list) gomap \<Rightarrow> (Address \<times> Hash) set" where
  "loadedSlots m = {(a, k). k \<in> set (mread [] m a)}"

definition stoRel :: "(Address \<times> Hash \<Rightarrow> Hash) \<Rightarrow> forkStorage \<Rightarrow> InMemoryStorage \<Rightarrow> bool" where
  "stoRel remote st s = stoLazy.rel remote (fsBase st) (loadedSlots (fsLoaded st)) (map loadedSlots (fsSnapshots st)) s"

lemma stoRel_new: "stoRel remote (newForkStorage r r') (preloadedSlots remote)"
  by (simp add: stoRel_def newForkStorage_def stoLazy.rel_def stoLazy.layer_def loadedSlots_def slotCell_def inner_def
      slotCells_def NewInMemoryStorage_def preloadedSlots_def)

definition sameSlots :: "Provider \<Rightarrow> (Address \<times> Hash \<Rightarrow> string + Hash) \<Rightarrow> forkStorage \<Rightarrow> MemoryStore \<Rightarrow> bool" where
  "sameSlots P rem st c \<longleftrightarrow> remoteSlot P (fsCacheRef st) (fsSourceRef st) c = rem"

lemma loadedSlots_add: "loadedSlots (mput a (setAdd k (mread [] m a)) m) = insert (a, k) (loadedSlots m)"
  by (auto simp: loadedSlots_def split: if_splits)

lemma fsMustLoad_ok:
  assumes "stoRel (answeredSlot \<circ> rem) st s" "sameSlots P rem st c" "rem (a, k) = Inr v"
  obtains st' c' where "fsMustLoad P a k st c = (Ok (), st', c')" "stoRel (answeredSlot \<circ> rem) st' s"
    "sameSlots P rem st' c'" "(a, k) \<in> loadedSlots (fsLoaded st')"
proof (cases "k \<in> set (mread [] (fsLoaded st) a)")
  case True
  then show ?thesis using that assms by (simp add: fsMustLoad_def fsEnsureLoaded_def loadedSlots_def)
next
  case False
  let ?st = "st\<lparr>fsBase := StorageSeed a k v (fsBase st), fsLoaded := mput a (setAdd k (mread [] (fsLoaded st) a)) (fsLoaded st)\<rparr>"
  have "(a, k) \<notin> loadedSlots (fsLoaded st)" using False by (simp add: loadedSlots_def)
  then have r: "stoRel (answeredSlot \<circ> rem) ?st s"
    using stoLazy.rel_load [OF assms(1) [unfolded stoRel_def], of "(a, k)"] assms(3)
    by (simp add: stoRel_def answeredSlot_def loadedSlots_add)
  have l: "(a, k) \<in> loadedSlots (fsLoaded ?st)" by (simp add: loadedSlots_add)
  show ?thesis
  proof (cases "GetStorage a k (fsCacheRef st) c")
    case (Some x)
    then have "x = v" using assms(2,3) by (auto simp: sameSlots_def remoteSlot_def)
    then show ?thesis using that [of ?st c] r l False Some assms(2)
      by (simp add: fsMustLoad_def fsEnsureLoaded_def sameSlots_def Let_def)
  next
    case None
    then have f: "pvStorageAt P a k (fsSourceRef st) = Inr v"
      using assms(2,3) by (auto simp: sameSlots_def remoteSlot_def)
    let ?c = "PutStorage a k (fsCacheRef st) v c"
    have "remoteSlot P (fsCacheRef st) (fsSourceRef st) ?c = remoteSlot P (fsCacheRef st) (fsSourceRef st) c"
      using None f by (auto simp: remoteSlot_def fun_eq_iff GetStorage_def PutStorage_def)
    then have "sameSlots P rem ?st ?c" using assms(2) by (simp add: sameSlots_def)
    then show ?thesis using that [of ?st ?c] r l False None f by (simp add: fsMustLoad_def fsEnsureLoaded_def Let_def)
  qed
qed

datatype stoOp = StoGet Address Hash | StoOriginal Address Hash | StoSet Address Hash Hash | StoSnap | StoRevert int

datatype stoOut = SlotValue Hash | SnapId int | StoDone

fun memStoStep :: "stoOp \<Rightarrow> InMemoryStorage \<Rightarrow> stoOut \<times> InMemoryStorage" where
  "memStoStep (StoGet a k) s = (SlotValue (StorageGet a k s), s)"
| "memStoStep (StoOriginal a k) s = (SlotValue (StorageOriginal a k s), s)"
| "memStoStep (StoSet a k v) s = (StoDone, StorageSet a k v s)"
| "memStoStep StoSnap s = (let (i, s) = stoSnapshot s in (SnapId i, s))"
| "memStoStep (StoRevert i) s = (StoDone, stoRevertToSnapshot i s)"

fun memStoRun :: "stoOp list \<Rightarrow> InMemoryStorage \<Rightarrow> stoOut list \<times> InMemoryStorage" where
  "memStoRun [] s = ([], s)"
| "memStoRun (p # ps) s = (let (r, s) = memStoStep p s; (rs, s) = memStoRun ps s in (r # rs, s))"

fun fsStep :: "Provider \<Rightarrow> stoOp \<Rightarrow> (forkStorage, stoOut) forkOp" where
  "fsStep P (StoGet a k) st c = mapOut SlotValue (fsGet P a k st c)"
| "fsStep P (StoOriginal a k) st c = mapOut SlotValue (fsOriginal P a k st c)"
| "fsStep P (StoSet a k v) st c = mapOut (\<lambda>_. StoDone) (fsSet P a k v st c)"
| "fsStep P StoSnap st c = (case fsSnapshot st of (r, st) \<Rightarrow> (obind r (\<lambda>i. Ok (SnapId i)), st, c))"
| "fsStep P (StoRevert i) st c = (Ok StoDone, fsRevertToSnapshot i st, c)"

fun fsRun :: "Provider \<Rightarrow> stoOp list \<Rightarrow> (forkStorage, stoOut list) forkOp" where
  "fsRun P [] st c = (Ok [], st, c)"
| "fsRun P (p # ps) st c =
     (case fsStep P p st c of
        (Ok r, st, c) \<Rightarrow> mapOut ((#) r) (fsRun P ps st c)
      | (Fail e, st, c) \<Rightarrow> (Fail e, st, c)
      | (Panic e, st, c) \<Rightarrow> (Panic e, st, c))"

fun stoKey :: "stoOp \<Rightarrow> (Address \<times> Hash) option" where
  "stoKey (StoGet a k) = Some (a, k)"
| "stoKey (StoOriginal a k) = Some (a, k)"
| "stoKey (StoSet a k v) = Some (a, k)"
| "stoKey StoSnap = None"
| "stoKey (StoRevert i) = None"

lemma fsStep_ok:
  assumes "stoRel (answeredSlot \<circ> rem) st s" "sameSlots P rem st c" "\<forall>k. stoKey p = Some k \<longrightarrow> (\<exists>v. rem k = Inr v)"
  shows "\<exists>st' c'. fsStep P p st c = (Ok (fst (memStoStep p s)), st', c') \<and>
    stoRel (answeredSlot \<circ> rem) st' (snd (memStoStep p s)) \<and> sameSlots P rem st' c'"
proof -
  have load: "\<exists>st' c'. fsMustLoad P a k st c = (Ok (), st', c') \<and> stoRel (answeredSlot \<circ> rem) st' s \<and>
      sameSlots P rem st' c' \<and> slotCell (fsBase st') (a, k) = slotCell s (a, k) \<and>
      stoRel (answeredSlot \<circ> rem) (st'\<lparr>fsBase := StorageSet a k v (fsBase st')\<rparr>) (StorageSet a k v s)"
    if "stoKey p = Some (a, k)" for a k v
  proof -
    have "\<exists>u. rem (a, k) = Inr u" using assms(3) that by blast
    then obtain u where u: "rem (a, k) = Inr u" ..
    from fsMustLoad_ok [OF assms(1,2) u] obtain st' c' where l: "fsMustLoad P a k st c = (Ok (), st', c')"
      "stoRel (answeredSlot \<circ> rem) st' s" "sameSlots P rem st' c'" "(a, k) \<in> loadedSlots (fsLoaded st')" .
    have "stoRel (answeredSlot \<circ> rem) (st'\<lparr>fsBase := StorageSet a k v (fsBase st')\<rparr>) (StorageSet a k v s)"
      using stoLazy.rel_write [where f = "StorageSet a k v" and w = "cellSet v", OF l(2) [unfolded stoRel_def] l(4) slotCell_Set]
      by (simp add: stoRel_def slotCells_def)
    with l stoLazy.rel_read [OF l(2) [unfolded stoRel_def] l(4)] show ?thesis by blast
  qed
  show ?thesis
  proof (cases p)
    case (StoGet a k)
    with load [of a k 0] show ?thesis by (auto simp: fsGet_def fsRead_def mapOut_def dest: slot_reads_by_cell(1))
  next
    case (StoOriginal a k)
    with load [of a k 0] show ?thesis by (auto simp: fsOriginal_def fsRead_def mapOut_def dest: slot_reads_by_cell(2))
  next
    case (StoSet a k v)
    with load [of a k v] show ?thesis by (auto simp: fsSet_def mapOut_def sameSlots_def)
  next
    case StoSnap
    let ?n = "fst (stoSnapshot (fsBase st))"
    have "?n = int (length (fsSnapshots st))"
      using stoLazy.rel_snap_index [OF assms(1) [unfolded stoRel_def]] by simp
    with stoLazy.rel_snap [OF assms(1) [unfolded stoRel_def]] assms(2) StoSnap show ?thesis
      by (simp add: fsSnapshot_def Let_def case_prod_unfold stoRel_def sameSlots_def)
  next
    case (StoRevert i)
    have "stoRel (answeredSlot \<circ> rem) (fsRevertToSnapshot i st) (stoRevertToSnapshot i s)"
    proof (cases "0 \<le> i \<and> i < int (length (fsSnapshots st))")
      case True
      then have "nat i < length (fsSnapshots st)" by auto
      then show ?thesis
        using stoLazy.rel_revert(1) [OF assms(1) [unfolded stoRel_def], of i] True
        by (simp add: stoRel_def fsRevertToSnapshot_def Let_def take_map)
    next
      case False
      then show ?thesis
        using stoLazy.rel_revert(2) [OF assms(1) [unfolded stoRel_def], of i]
        by (auto simp: stoRel_def fsRevertToSnapshot_def Let_def)
    qed
    with StoRevert assms(2) show ?thesis by (auto simp: sameSlots_def fsRevertToSnapshot_def Let_def)
  qed
qed

lemma fsRun_ok:
  assumes "stoRel (answeredSlot \<circ> rem) st s" "sameSlots P rem st c"
    "\<forall>p\<in>set ps. \<forall>k. stoKey p = Some k \<longrightarrow> (\<exists>v. rem k = Inr v)"
  shows "\<exists>st' c'. fsRun P ps st c = (Ok (fst (memStoRun ps s)), st', c') \<and>
    stoRel (answeredSlot \<circ> rem) st' (snd (memStoRun ps s)) \<and> sameSlots P rem st' c'"
  using assms
proof (induction ps arbitrary: st s c)
  case (Cons p ps)
  obtain st' c' where p: "fsStep P p st c = (Ok (fst (memStoStep p s)), st', c')"
    "stoRel (answeredSlot \<circ> rem) st' (snd (memStoStep p s))" "sameSlots P rem st' c'"
    using fsStep_ok [OF Cons.prems(1,2), of p] Cons.prems(3) by auto
  obtain st'' c'' where ps: "fsRun P ps st' c' = (Ok (fst (memStoRun ps (snd (memStoStep p s)))), st'', c'')"
    "stoRel (answeredSlot \<circ> rem) st'' (snd (memStoRun ps (snd (memStoStep p s))))" "sameSlots P rem st'' c''"
    using Cons.IH [OF p(2,3)] Cons.prems(3) unfolding list.set by blast
  from p ps show ?case by (simp add: mapOut_def case_prod_unfold Let_def comp_def)
qed simp

subsection \<open>Failing loads\<close>

lemma faMustLoad_fail:
  assumes "a \<notin> set (faLoaded st)" "remoteAccount K P (faCacheRef st) (faSourceRef st) c a = Inl e"
  shows "faMustLoad K P a st c = (Panic (PanicErr (ErrOther e)), st, c)"
  using assms by (auto simp: faMustLoad_def faEnsureLoaded_def remoteAccount_def Let_def split: option.splits)

text \<open>An account fetched with any balance at all, zero included, counts as existing.\<close>

lemma fetched_exists:
  assumes "a \<notin> set (faLoaded st)" "GetAccount a (faCacheRef st) c = None"
    "fetchAccount K P (faSourceRef st) a = Inr snap" "asBalance snap \<noteq> None"
  shows "fst (faExists K P a st c) = Ok True"
  using assms
  by (auto simp: faExists_def faRead_def faMustLoad_def faEnsureLoaded_def Let_def seedAccount_def)

end
