(* ===== verification/ForkTrace.thy ===== *)
theory ForkTrace
  imports ForkState Hooks
begin

text \<open>
  \<open>internal/forkengine/replay_trace.go\<close>: the comparison of a local run with a receipt or with the trace of a node, the
  collector of local steps and the merged hook registry; with \<open>EncodeHex\<close> and the types of
  \<open>upstream/trace.go\<close> and the opcode names of \<open>engine/gas.go\<close>.
\<close>

subsection \<open>Texts\<close>

definition EncodeHex :: "bytes \<Rightarrow> string" where
  "EncodeHex bs = (if bs = [] then [] else ''0x'' @ hexEncode bs)"

fun statusNum :: "ExecutionStatus \<Rightarrow> nat" where
  "statusNum StatusSuccess = 0"
| "statusNum StatusRevert = 1"
| "statusNum StatusHalt = 2"
| "statusNum StatusOutOfGas = 3"
| "statusNum StatusInvalidJump = 4"
| "statusNum StatusStackOverflow = 5"
| "statusNum StatusStackUnderflow = 6"
| "statusNum StatusInvalidOpcode = 7"
| "statusNum StatusCallDepthExceeded = 8"
| "statusNum StatusInsufficientBalance = 9"
| "statusNum StatusAddressCollision = 10"
| "statusNum StatusCodeStoreOutOfGas = 11"
| "statusNum StatusMaxCodeSizeExceeded = 12"
| "statusNum StatusInvalidContractPrefix = 13"

definition executionStatusString :: "ExecutionResult option \<Rightarrow> string" where
  "executionStatusString res =
     (case res of
        None \<Rightarrow> ''unknown''
      | Some r \<Rightarrow> if Status r = StatusSuccess then ''success'' else ''failed('' @ showNat (statusNum (Status r)) @ '')'')"

definition upstreamFailureString :: "bool \<Rightarrow> string" where
  "upstreamFailureString failed = (if failed then ''failed'' else ''success'')"

definition normalizeTraceHex :: "string \<Rightarrow> string" where
  "normalizeTraceHex value =
     (let trimmed = TrimSpace value in
      if trimmed = [] \<or> trimmed = ''0x'' then []
      else if HasPrefix trimmed ''0x'' \<or> HasPrefix trimmed ''0X'' then ToLower trimmed
      else ''0x'' @ ToLower trimmed)"

definition normalizeStepError :: "string \<Rightarrow> string" where
  "normalizeStepError value = TrimSpace (ToLower value)"

definition showU64 :: "u64 \<Rightarrow> string" where
  "showU64 n = showNat (unat n)"

definition formatOptionalUint64 :: "u64 option \<Rightarrow> string" where
  "formatOptionalUint64 v = (case v of None \<Rightarrow> [] | Some n \<Rightarrow> showU64 n)"

text \<open>The names of the opcodes (\<open>opcodeNames\<close>, and the ranges that \<open>init\<close> fills in).\<close>

definition opcodeNames :: "(nat \<times> string) list" where
  "opcodeNames =
     [(0x00, ''STOP''), (0x01, ''ADD''), (0x02, ''MUL''), (0x03, ''SUB''), (0x04, ''DIV''),
      (0x05, ''SDIV''), (0x06, ''MOD''), (0x07, ''SMOD''), (0x08, ''ADDMOD''), (0x09, ''MULMOD''),
      (0x0A, ''EXP''), (0x0B, ''SIGNEXTEND''), (0x10, ''LT''), (0x11, ''GT''), (0x12, ''SLT''),
      (0x13, ''SGT''), (0x14, ''EQ''), (0x15, ''ISZERO''), (0x16, ''AND''), (0x17, ''OR''),
      (0x18, ''XOR''), (0x19, ''NOT''), (0x1A, ''BYTE''), (0x1B, ''SHL''), (0x1C, ''SHR''),
      (0x1D, ''SAR''), (0x1E, ''CLZ''), (0x20, ''KECCAK256''), (0x30, ''ADDRESS''),
      (0x31, ''BALANCE''), (0x32, ''ORIGIN''), (0x33, ''CALLER''), (0x34, ''CALLVALUE''),
      (0x35, ''CALLDATALOAD''), (0x36, ''CALLDATASIZE''), (0x37, ''CALLDATACOPY''),
      (0x38, ''CODESIZE''), (0x39, ''CODECOPY''), (0x3A, ''GASPRICE''), (0x3B, ''EXTCODESIZE''),
      (0x3C, ''EXTCODECOPY''), (0x3D, ''RETURNDATASIZE''), (0x3E, ''RETURNDATACOPY''),
      (0x3F, ''EXTCODEHASH''), (0x40, ''BLOCKHASH''), (0x41, ''COINBASE''), (0x42, ''TIMESTAMP''),
      (0x43, ''NUMBER''), (0x44, ''PREVRANDAO''), (0x45, ''GASLIMIT''), (0x46, ''CHAINID''),
      (0x47, ''SELFBALANCE''), (0x48, ''BASEFEE''), (0x49, ''BLOBHASH''), (0x4A, ''BLOBBASEFEE''),
      (0x50, ''POP''), (0x51, ''MLOAD''), (0x52, ''MSTORE''), (0x53, ''MSTORE8''), (0x54, ''SLOAD''),
      (0x55, ''SSTORE''), (0x56, ''JUMP''), (0x57, ''JUMPI''), (0x58, ''PC''), (0x59, ''MSIZE''),
      (0x5A, ''GAS''), (0x5B, ''JUMPDEST''), (0x5C, ''TLOAD''), (0x5D, ''TSTORE''), (0x5E, ''MCOPY''),
      (0x5F, ''PUSH0''),
      (0xF0, ''CREATE''), (0xF1, ''CALL''), (0xF2, ''CALLCODE''), (0xF3, ''RETURN''),
      (0xF4, ''DELEGATECALL''), (0xF5, ''CREATE2''), (0xFA, ''STATICCALL''),
      (0xFD, ''REVERT''), (0xFE, ''INVALID''), (0xFF, ''SELFDESTRUCT'')]"

definition OpcodeName :: "byte \<Rightarrow> string" where
  "OpcodeName opc =
     (let i = unat opc in
      case map_of opcodeNames i of
        Some name \<Rightarrow> name
      | None \<Rightarrow>
          if 0x60 \<le> i \<and> i \<le> 0x7F then ''PUSH'' @ showNat (i - 0x60 + 1)
          else if 0x80 \<le> i \<and> i \<le> 0x8F then ''DUP'' @ showNat (i - 0x80 + 1)
          else if 0x90 \<le> i \<and> i \<le> 0x9F then ''SWAP'' @ showNat (i - 0x90 + 1)
          else if 0xA0 \<le> i \<and> i \<le> 0xA4 then ''LOG'' @ showNat (i - 0xA0)
          else ''UNKNOWN(0x'' @ ToUpper (hexByte opc) @ '')'')"

subsection \<open>Traces\<close>

record ReplayTraceStep =
  tsPC :: u64
  tsOp :: string
  tsDepth :: int
  tsGasRemaining :: u64
  tsGasCost :: u64
  tsError :: string

record StructuredTraceStep =
  ssPC :: u64
  ssOp :: string
  ssGas :: "u64 option"
  ssGasCost :: "u64 option"
  ssDepth :: int
  ssError :: string

record StructuredTrace =
  stGas :: "u64 option"
  stFailed :: bool
  stReturnValue :: string
  stStructLogs :: "StructuredTraceStep list"

record TraceMismatch =
  mmIndex :: int
  mmField :: string
  mmLocal :: string
  mmUpstream :: string

record TraceComparison =
  tcMatch :: bool
  tcStatusMatch :: bool
  tcReturnDataMatch :: bool
  tcStepCountMatch :: bool
  tcGasMatch :: bool
  tcGasCostMatch :: bool
  tcErrorMatch :: bool
  tcFirstMismatch :: "TraceMismatch option"

record ReceiptComparison =
  rmMatch :: bool
  rmStatusMatch :: bool
  rmGasUsedMatch :: bool
  rmLogsMatch :: bool
  rmFirstMismatch :: "TraceMismatch option"

record normalizedTraceStep =
  ntPC :: u64
  ntOp :: string
  ntDepth :: int
  ntGasRemaining :: "u64 option"
  ntGasCost :: "u64 option"
  ntError :: string

text \<open>Depths are relative to the first step; the difference of two \<open>int\<close> values wraps.\<close>

definition normalizeReplayTrace :: "ReplayTraceStep list \<Rightarrow> normalizedTraceStep list" where
  "normalizeReplayTrace steps =
     (case steps of
        [] \<Rightarrow> []
      | first # rest \<Rightarrow>
          map (\<lambda>s. \<lparr>ntPC = tsPC s, ntOp = ToUpper (tsOp s), ntDepth = wrap64 (tsDepth s - tsDepth first),
                    ntGasRemaining = Some (tsGasRemaining s), ntGasCost = Some (tsGasCost s), ntError = tsError s\<rparr>) steps)"

definition normalizeUpstreamTrace :: "StructuredTraceStep list \<Rightarrow> normalizedTraceStep list" where
  "normalizeUpstreamTrace steps =
     (case steps of
        [] \<Rightarrow> []
      | first # rest \<Rightarrow>
          map (\<lambda>s. \<lparr>ntPC = ssPC s, ntOp = ToUpper (ssOp s), ntDepth = wrap64 (ssDepth s - ssDepth first),
                    ntGasRemaining = ssGas s, ntGasCost = ssGasCost s, ntError = ssError s\<rparr>) steps)"

definition matching :: TraceComparison where
  "matching = \<lparr>tcMatch = True, tcStatusMatch = True, tcReturnDataMatch = True, tcStepCountMatch = True,
     tcGasMatch = True, tcGasCostMatch = True, tcErrorMatch = True, tcFirstMismatch = None\<rparr>"

definition mismatch :: "int \<Rightarrow> string \<Rightarrow> string \<Rightarrow> string \<Rightarrow> TraceMismatch" where
  "mismatch i f l u = \<lparr>mmIndex = i, mmField = f, mmLocal = l, mmUpstream = u\<rparr>"

text \<open>The body of the loop over the steps: the first field that differs, in the order of the code.\<close>

definition compareStep :: "int \<Rightarrow> normalizedTraceStep \<Rightarrow> normalizedTraceStep \<Rightarrow> TraceComparison option" where
  "compareStep i l u =
     (if ntPC l \<noteq> ntPC u
      then Some (matching\<lparr>tcMatch := False, tcFirstMismatch := Some (mismatch i ''pc'' (showU64 (ntPC l)) (showU64 (ntPC u)))\<rparr>)
      else if ntOp l \<noteq> ntOp u
      then Some (matching\<lparr>tcMatch := False, tcFirstMismatch := Some (mismatch i ''op'' (ntOp l) (ntOp u))\<rparr>)
      else if ntDepth l \<noteq> ntDepth u
      then Some (matching\<lparr>tcMatch := False,
             tcFirstMismatch := Some (mismatch i ''depth'' (showInt (ntDepth l)) (showInt (ntDepth u)))\<rparr>)
      else if ntGasRemaining u \<noteq> None \<and> ntGasRemaining l \<noteq> ntGasRemaining u
      then Some (matching\<lparr>tcMatch := False, tcGasMatch := False,
             tcFirstMismatch := Some (mismatch i ''gas'' (formatOptionalUint64 (ntGasRemaining l))
               (formatOptionalUint64 (ntGasRemaining u)))\<rparr>)
      else if ntGasCost u \<noteq> None \<and> ntGasCost l \<noteq> ntGasCost u
      then Some (matching\<lparr>tcMatch := False, tcGasCostMatch := False,
             tcFirstMismatch := Some (mismatch i ''gasCost'' (formatOptionalUint64 (ntGasCost l))
               (formatOptionalUint64 (ntGasCost u)))\<rparr>)
      else if normalizeStepError (ntError l) \<noteq> normalizeStepError (ntError u)
      then Some (matching\<lparr>tcMatch := False, tcErrorMatch := False,
             tcFirstMismatch := Some (mismatch i ''error'' (ntError l) (ntError u))\<rparr>)
      else None)"

fun compareSteps :: "int \<Rightarrow> normalizedTraceStep list \<Rightarrow> normalizedTraceStep list \<Rightarrow> TraceComparison" where
  "compareSteps i (l # ls) (u # us) =
     (case compareStep i l u of Some c \<Rightarrow> c | None \<Rightarrow> compareSteps (i + 1) ls us)"
| "compareSteps i _ _ = matching"

definition CompareReplayTrace :: "ReplayTraceStep list \<Rightarrow> ExecutionResult option \<Rightarrow> StructuredTrace \<Rightarrow> TraceComparison" where
  "CompareReplayTrace local res up =
     (let localFailed = (case res of None \<Rightarrow> False | Some r \<Rightarrow> Status r \<noteq> StatusSuccess);
          localReturn = (case res of None \<Rightarrow> [] | Some r \<Rightarrow> EncodeHex (ReturnData r));
          upReturn = normalizeTraceHex (stReturnValue up);
          ls = normalizeReplayTrace local;
          us = normalizeUpstreamTrace (stStructLogs up)
      in if localFailed \<noteq> stFailed up
         then matching\<lparr>tcStatusMatch := False, tcMatch := False,
                tcFirstMismatch := Some (mismatch (-1) ''status'' (executionStatusString res) (upstreamFailureString (stFailed up)))\<rparr>
         else if localReturn \<noteq> upReturn
         then matching\<lparr>tcReturnDataMatch := False, tcMatch := False,
                tcFirstMismatch := Some (mismatch (-1) ''returnData'' localReturn upReturn)\<rparr>
         else if length ls \<noteq> length us
         then matching\<lparr>tcStepCountMatch := False, tcMatch := False,
                tcFirstMismatch := Some (mismatch (-1) ''step-count'' (showNat (length ls)) (showNat (length us)))\<rparr>
         else compareSteps 0 ls us)"

subsection \<open>Receipts\<close>

text \<open>All sums are of \<open>uint64\<close> and wrap.\<close>

definition replayIntrinsic :: "Transaction \<Rightarrow> u64" where
  "replayIntrinsic tx =
     (let g = fold (\<lambda>item g. if item = 0 then g + 4 else g + 16) (txInput tx) (21000 :: u64)
      in fold (\<lambda>(addr, keys) g. g + 2400 + 1900 * ulen keys) (txAccessList tx) g)"

definition replayGasUsed :: "Transaction \<Rightarrow> ExecutionResult \<Rightarrow> u64" where
  "replayGasUsed tx r =
     (let spent = replayIntrinsic tx + GasUsed r;
          refundCap = spent div 5;
          refund = if GasRefund r > refundCap then refundCap else GasRefund r
      in spent - refund)"

fun equalTopics :: "Hash list \<Rightarrow> Hash list \<Rightarrow> bool" where
  "equalTopics [] [] = True"
| "equalTopics (x # xs) (y # ys) = (length xs = length ys \<and> x = y \<and> equalTopics xs ys)"
| "equalTopics _ _ = False"

definition rmMatching :: ReceiptComparison where
  "rmMatching = \<lparr>rmMatch = True, rmStatusMatch = True, rmGasUsedMatch = True, rmLogsMatch = True, rmFirstMismatch = None\<rparr>"

definition logMismatch :: "TraceMismatch \<Rightarrow> ReceiptComparison" where
  "logMismatch m = rmMatching\<lparr>rmMatch := False, rmLogsMatch := False, rmFirstMismatch := Some m\<rparr>"

fun compareLogs :: "int \<Rightarrow> Log list \<Rightarrow> Log list \<Rightarrow> ReceiptComparison" where
  "compareLogs i (l # ls) (u # us) =
     (if logAddress l \<noteq> logAddress u
      then logMismatch (mismatch i ''log-address'' (hexAddr (logAddress l)) (hexAddr (logAddress u)))
      else if \<not> equalTopics (logTopics l) (logTopics u)
      then logMismatch (mismatch i ''log-topics'' (showNat (length (logTopics l))) (showNat (length (logTopics u))))
      else if EncodeHex (logData l) \<noteq> EncodeHex (logData u)
      then logMismatch (mismatch i ''log-data'' (EncodeHex (logData l)) (EncodeHex (logData u)))
      else compareLogs (i + 1) ls us)"
| "compareLogs i _ _ = rmMatching"

definition CompareReplayToReceipt :: "Transaction \<Rightarrow> Receipt \<Rightarrow> ExecutionResult option \<Rightarrow> ReceiptComparison" where
  "CompareReplayToReceipt tx receipt res =
     (case res of
        None \<Rightarrow> rmMatching\<lparr>rmMatch := False, rmFirstMismatch := Some (mismatch (-1) ''result'' ''nil'' ''non-nil receipt'')\<rparr>
      | Some r \<Rightarrow>
          (let localSuccess = (Status r = StatusSuccess);
               upSuccess = (case rcStatus receipt of None \<Rightarrow> True | Some s \<Rightarrow> s = 1);
               localGasUsed = replayGasUsed tx r
           in if localSuccess \<noteq> upSuccess
              then rmMatching\<lparr>rmMatch := False, rmStatusMatch := False,
                     rmFirstMismatch := Some (mismatch (-1) ''status'' (executionStatusString res) (upstreamFailureString (\<not> upSuccess)))\<rparr>
              else if localGasUsed \<noteq> rcGasUsed receipt
              then rmMatching\<lparr>rmMatch := False, rmGasUsedMatch := False,
                     rmFirstMismatch := Some (mismatch (-1) ''gasUsed'' (showU64 localGasUsed) (showU64 (rcGasUsed receipt)))\<rparr>
              else if length (Logs r) \<noteq> length (rcLogs receipt)
              then logMismatch (mismatch (-1) ''logs-count'' (showNat (length (Logs r))) (showNat (length (rcLogs receipt))))
              else compareLogs 0 (Logs r) (rcLogs receipt)))"

subsection \<open>The collector and merged registries\<close>

text \<open>The collected steps are the hook's own state. A context without opcode adds nothing.\<close>

definition traceCaptureFire :: "HookContext \<Rightarrow> ReplayTraceStep list evmState \<Rightarrow>
    HookResult option outcome \<times> ReplayTraceStep list evmState" where
  "traceCaptureFire ctx s =
     (case ctxOpcode ctx of
        None \<Rightarrow> (Ok (Some continueResult), s)
      | Some info \<Rightarrow>
          (Ok (Some continueResult),
           s\<lparr>hookState := hookState s @
             [\<lparr>tsPC = oiPC info, tsOp = ToUpper (OpcodeName (oiOp info)), tsDepth = callDepth s,
               tsGasRemaining = oiGasRemaining info, tsGasCost = oiGasCost info, tsError = []\<rparr>]\<rparr>))"

definition traceCaptureHook :: "ReplayTraceStep list Hook" where
  "traceCaptureHook = \<lparr>hookType = HookTypeStep, hookFire = traceCaptureFire, hookOneTime = False,
     hookID = ''forkengine-replay-trace''\<rparr>"

definition newReplayTraceCollector :: "ReplayTraceStep list SimpleHookRegistry" where
  "newReplayTraceCollector = fst (Register traceCaptureHook NewSimpleHookRegistry)"

text \<open>\<open>applyResult\<close> puts the error of a failed run on the last step; \<open>errText\<close> is \<open>err.Error()\<close>.\<close>

definition applyResult :: "(evm_error \<Rightarrow> string) \<Rightarrow> ExecutionResult option \<Rightarrow> ReplayTraceStep list \<Rightarrow> ReplayTraceStep list" where
  "applyResult errText res steps =
     (case res of
        None \<Rightarrow> steps
      | Some r \<Rightarrow>
          if steps = [] \<or> Status r = StatusSuccess then steps
          else butlast steps @ [last steps\<lparr>tsError :=
                 (case ResErr r of Some e \<Rightarrow> errText e | None \<Rightarrow> executionStatusString res)\<rparr>])"

datatype 'h AnyRegistry = SimpleReg "'h SimpleHookRegistry" | MergedReg "'h AnyRegistry list"

fun anyHooksFor :: "HookType \<Rightarrow> 'h AnyRegistry \<Rightarrow> 'h Hook list" where
  "anyHooksFor t (SimpleReg r) = HooksFor t r"
| "anyHooksFor t (MergedReg rs) = concat (map (anyHooksFor t) rs)"

lemma size_last [termination_simp]: "rs \<noteq> [] \<Longrightarrow> size (last rs) < Suc (size_list size rs)"
  using size_list_estimation' [OF last_in_set, of rs "size (last rs)" size] by (simp add: less_Suc_eq_le)

text \<open>\<open>Register\<close> goes to the last child.\<close>

fun anyRegister :: "'h Hook \<Rightarrow> 'h AnyRegistry \<Rightarrow> 'h AnyRegistry \<times> evm_error option" where
  "anyRegister h (SimpleReg r) = (case Register h r of (r, e) \<Rightarrow> (SimpleReg r, e))"
| "anyRegister h (MergedReg rs) =
     (if rs = [] then (MergedReg rs, Some (ErrOther ''forkengine: no hook registry available''))
      else case anyRegister h (last rs) of (r, e) \<Rightarrow> (MergedReg (butlast rs @ [r]), e))"

text \<open>\<open>Unregister\<close> tries the children in order, until one succeeds; without children it reports no error.\<close>

fun anyUnregister :: "string \<Rightarrow> 'h AnyRegistry \<Rightarrow> 'h AnyRegistry \<times> evm_error option"
  and unregisterFirst :: "string \<Rightarrow> evm_error option \<Rightarrow> 'h AnyRegistry list \<Rightarrow> 'h AnyRegistry list \<times> evm_error option" where
  "anyUnregister i (SimpleReg r) = (case Unregister i r of (r, e) \<Rightarrow> (SimpleReg r, e))"
| "anyUnregister i (MergedReg rs) = (case unregisterFirst i None rs of (rs, e) \<Rightarrow> (MergedReg rs, e))"
| "unregisterFirst i lastErr [] = ([], lastErr)"
| "unregisterFirst i lastErr (r # rs) =
     (case anyUnregister i r of
        (r, None) \<Rightarrow> (r # rs, None)
      | (r, Some e) \<Rightarrow> (case unregisterFirst i (Some e) rs of (rs, e) \<Rightarrow> (r # rs, e)))"

fun anyClear :: "'h AnyRegistry \<Rightarrow> 'h AnyRegistry" where
  "anyClear (SimpleReg r) = SimpleReg (RegistryClear r)"
| "anyClear (MergedReg rs) = MergedReg (map anyClear rs)"

definition mergeHookRegistries :: "'h AnyRegistry option \<Rightarrow> 'h AnyRegistry option \<Rightarrow> 'h AnyRegistry option" where
  "mergeHookRegistries base extra =
     (case (base, extra) of
        (None, _) \<Rightarrow> extra
      | (_, None) \<Rightarrow> base
      | (Some b, Some x) \<Rightarrow> Some (MergedReg [b, x]))"

subsection \<open>What the comparisons decide\<close>

lemma hexEncode_inject: "hexEncode a = hexEncode b \<longleftrightarrow> a = b"
  by (metis hexDecode_hexEncode option.inject)

lemma EncodeHex_inject: "EncodeHex a = EncodeHex b \<longleftrightarrow> a = b"
  by (auto simp: EncodeHex_def hexEncode_inject)

lemma equalTopics_eq: "equalTopics xs ys \<longleftrightarrow> xs = ys"
  by (induction xs ys rule: equalTopics.induct) auto

lemma compareLogs_match:
  "length ls = length us \<Longrightarrow> rmMatch (compareLogs i ls us) \<longleftrightarrow> ls = us"
proof (induction i ls us rule: compareLogs.induct)
  case (1 i l ls u us)
  have "l = u \<longleftrightarrow> logAddress l = logAddress u \<and> logTopics l = logTopics u \<and> logData l = logData u"
    by (cases l, cases u) simp
  with 1 show ?case by (simp add: logMismatch_def equalTopics_eq EncodeHex_inject)
qed (simp_all add: rmMatching_def)

lemma compareLogs_first: "rmFirstMismatch (compareLogs i ls us) = None \<longleftrightarrow> rmMatch (compareLogs i ls us)"
  by (induction i ls us rule: compareLogs.induct) (simp_all add: logMismatch_def rmMatching_def)

definition upstreamSucceeded :: "Receipt \<Rightarrow> bool" where
  "upstreamSucceeded receipt = (case rcStatus receipt of None \<Rightarrow> True | Some s \<Rightarrow> s = 1)"

lemma receipt_match:
  "rmMatch (CompareReplayToReceipt tx receipt (Some r)) \<longleftrightarrow>
     (Status r = StatusSuccess) = upstreamSucceeded receipt \<and> replayGasUsed tx r = rcGasUsed receipt \<and>
     Logs r = rcLogs receipt"
  by (auto simp: CompareReplayToReceipt_def Let_def upstreamSucceeded_def rmMatching_def logMismatch_def
      compareLogs_match [unfolded rmMatching_def])

lemma receipt_first_mismatch:
  "rmFirstMismatch (CompareReplayToReceipt tx receipt res) = None \<longleftrightarrow> rmMatch (CompareReplayToReceipt tx receipt res)"
  by (cases res) (simp_all add: CompareReplayToReceipt_def Let_def logMismatch_def compareLogs_first rmMatching_def)

text \<open>A local step agrees with an upstream step; gas is only compared where the node reports it.\<close>

definition agree :: "normalizedTraceStep \<Rightarrow> normalizedTraceStep \<Rightarrow> bool" where
  "agree l u \<longleftrightarrow> ntPC l = ntPC u \<and> ntOp l = ntOp u \<and> ntDepth l = ntDepth u \<and>
     (ntGasRemaining u = None \<or> ntGasRemaining l = ntGasRemaining u) \<and>
     (ntGasCost u = None \<or> ntGasCost l = ntGasCost u) \<and>
     normalizeStepError (ntError l) = normalizeStepError (ntError u)"

lemma compareStep_agree: "compareStep i l u = None \<longleftrightarrow> agree l u"
  by (auto simp: compareStep_def agree_def)

lemma compareStep_mismatch: "compareStep i l u = Some c \<Longrightarrow> \<not> tcMatch c \<and> tcFirstMismatch c \<noteq> None"
  by (auto simp: compareStep_def split: if_splits)

lemma compareSteps_match:
  "length ls = length us \<Longrightarrow> tcMatch (compareSteps i ls us) \<longleftrightarrow> list_all2 agree ls us"
proof (induction i ls us rule: compareSteps.induct)
  case (1 i l ls u us)
  then show ?case
    using compareStep_agree [of i l u] compareStep_mismatch [of i l u]
    by (cases "compareStep i l u") auto
qed (simp_all add: matching_def)

lemma trace_match:
  "tcMatch (CompareReplayTrace local res up) \<longleftrightarrow>
     (case res of None \<Rightarrow> False | Some r \<Rightarrow> Status r \<noteq> StatusSuccess) = stFailed up \<and>
     (case res of None \<Rightarrow> [] | Some r \<Rightarrow> EncodeHex (ReturnData r)) = normalizeTraceHex (stReturnValue up) \<and>
     list_all2 agree (normalizeReplayTrace local) (normalizeUpstreamTrace (stStructLogs up))"
proof -
  have "list_all2 agree ls us \<longrightarrow> length ls = length us" for ls us by (simp add: list_all2_lengthD)
  then show ?thesis by (auto simp: CompareReplayTrace_def Let_def compareSteps_match matching_def)
qed

text \<open>The gas a replay counts is at least four fifths of what was spent.\<close>

lemma replayGasUsed_bounds:
  "unat (replayGasUsed tx r) \<le> unat (replayIntrinsic tx + GasUsed r)"
  "4 * unat (replayIntrinsic tx + GasUsed r) \<le> 5 * unat (replayGasUsed tx r)"
proof -
  let ?s = "replayIntrinsic tx + GasUsed r"
  let ?f = "if GasRefund r > ?s div 5 then ?s div 5 else GasRefund r"
  have f: "unat ?f \<le> unat ?s div 5" by (auto simp: unat_div word_less_nat_alt not_less)
  then have "unat ?f \<le> unat ?s" by linarith
  then have u: "unat (replayGasUsed tx r) = unat ?s - unat ?f"
    by (simp add: replayGasUsed_def Let_def unat_sub word_le_nat_alt)
  show "unat (replayGasUsed tx r) \<le> unat ?s" unfolding u by simp
  show "4 * unat ?s \<le> 5 * unat (replayGasUsed tx r)" unfolding u using f by linarith
qed

end
