(* ===== verification/ForkEngine.thy ===== *)
theory ForkEngine
  imports ForkTrace EngineRun
begin

text \<open>
  \<open>internal/forkengine/engine.go\<close> with \<open>context.go\<close> and the readers of \<open>adapter.go\<close>: a fork of a remote chain at a
  block, the calls and replays it prepares, the reconstruction of the transactions before a replayed one, and what
  it writes to its cache. An operation maps the engine to an outcome and the engine it leaves. Running a
  prepared call is an argument (\<open>exec\<close>) of the operations that do it: it is the run of the \<open>EngineRun\<close> theory over the
  forked state, which \<open>ForkState\<close> relates to the in-memory one.
\<close>

subsection \<open>The engine\<close>

definition ModeDiff :: string where "ModeDiff = ''diff''"
definition ModePinned :: string where "ModePinned = ''pinned''"

record CachePolicy =
  cpDiff :: bool
  cpPinned :: bool

record ReplayState =
  rsTarget :: Hash
  rsExecutionRef :: BlockRef
  rsStateRef :: BlockRef
  rsSourceRef :: BlockRef
  rsApplied :: "Hash list"
  rsExact :: bool
  rsLimitation :: string

record ForkConfig =
  fcMode :: string
  fcFork :: Fork
  fcChainIDOverride :: "int option"
  fcProvider :: "Provider option"
  fcCache :: "MemoryStore option"
  fcBlock :: BlockRef
  fcPolicy :: CachePolicy

record ForkEngine =
  feMode :: string
  feFork :: Fork
  feChainID :: "int option"
  feProvider :: Provider
  feCache :: MemoryStore
  feBlock :: BlockRef
  fePolicy :: CachePolicy
  feReplayStates :: "(string, ReplayState) gomap"

abbreviation failure :: "string \<Rightarrow> 'a outcome" where
  "failure e \<equiv> Fail (ErrOther e)"

definition isZeroBlockRef :: "BlockRef \<Rightarrow> bool" where
  "isZeroBlockRef ref \<longleftrightarrow> brNumber ref = None \<and> brTag ref = []"

definition ForkNew :: "ForkConfig \<Rightarrow> ForkEngine outcome" where
  "ForkNew conf =
     (case fcProvider conf of
        None \<Rightarrow> failure ''forkengine: provider is required''
      | Some provider \<Rightarrow>
     (let mode = (if fcMode conf = [] then ModeDiff else fcMode conf) in
      if mode \<noteq> ModeDiff \<and> mode \<noteq> ModePinned then failure (''forkengine: unsupported mode '' @ mode)
      else
     (case ValidateRef (fcBlock conf) of
        Some e \<Rightarrow> failure (''forkengine: invalid block ref: '' @ e)
      | None \<Rightarrow>
     (let block = (if isZeroBlockRef (fcBlock conf) then LatestBlock else fcBlock conf) in
      if mode = ModePinned \<and> \<not> IsPinned block then failure ''forkengine: pinned mode requires a pinned block number''
      else
        Ok \<lparr>feMode = mode, feFork = fcFork conf, feChainID = fcChainIDOverride conf, feProvider = provider,
            feCache = (case fcCache conf of Some c \<Rightarrow> c | None \<Rightarrow> NewMemoryStore), feBlock = Normalize block,
            fePolicy = (if \<not> cpDiff (fcPolicy conf) \<and> \<not> cpPinned (fcPolicy conf)
                        then (fcPolicy conf)\<lparr>cpPinned := True\<rparr> else fcPolicy conf),
            feReplayStates = []\<rparr>))))"

definition resolveBlockRef :: "ForkEngine \<Rightarrow> BlockRef \<Rightarrow> BlockRef outcome" where
  "resolveBlockRef fe ref =
     (case ValidateRef ref of
        Some e \<Rightarrow> failure e
      | None \<Rightarrow>
          if feMode fe = ModePinned
          then if isZeroBlockRef ref \<or> brTag (Normalize ref) = ''latest'' then Ok (feBlock fe)
               else if CacheKey (Normalize ref) \<noteq> CacheKey (feBlock fe)
               then failure ''forkengine: pinned mode cannot resolve a different block''
               else Ok (feBlock fe)
          else if isZeroBlockRef ref then Ok (feBlock fe)
          else Ok (Normalize ref))"

type_synonym 'a feM = "ForkEngine \<Rightarrow> 'a outcome \<times> ForkEngine"

definition feBind :: "'a feM \<Rightarrow> ('a \<Rightarrow> 'b feM) \<Rightarrow> 'b feM" where
  "feBind m f fe =
     (case m fe of
        (Ok x, fe) \<Rightarrow> f x fe
      | (Fail e, fe) \<Rightarrow> (Fail e, fe)
      | (Panic p, fe) \<Rightarrow> (Panic p, fe))"

definition feRet :: "'a \<Rightarrow> 'a feM" where
  "feRet x fe = (Ok x, fe)"

definition feLift :: "(ForkEngine \<Rightarrow> 'a outcome) \<Rightarrow> 'a feM" where
  "feLift f fe = (f fe, fe)"

definition feModify :: "(ForkEngine \<Rightarrow> ForkEngine) \<Rightarrow> unit feM" where
  "feModify f fe = (Ok (), f fe)"

text \<open>The outcome of a provider call.\<close>

definition fromRemote :: "string + 'a \<Rightarrow> 'a outcome" where
  "fromRemote x = (case x of Inl e \<Rightarrow> failure e | Inr v \<Rightarrow> Ok v)"

definition putBlock :: "BlockRef \<Rightarrow> Block \<Rightarrow> unit feM" where
  "putBlock ref b = feModify (\<lambda>fe. fe\<lparr>feCache := PutBlock ref b (feCache fe)\<rparr>)"

definition populateBlockChainID :: "BlockRef \<Rightarrow> Block \<Rightarrow> Block feM" where
  "populateBlockChainID ref b =
     (if blChainID b \<noteq> None then feBind (putBlock ref b) (\<lambda>_. feRet b)
      else
        feBind (feLift (\<lambda>fe. case feChainID fe of Some i \<Rightarrow> Ok (Some i) | None \<Rightarrow> fromRemote (pvChainID (feProvider fe))))
          (\<lambda>chainID.
             let b = (case chainID of Some i \<Rightarrow> b\<lparr>blChainID := Some i\<rparr> | None \<Rightarrow> b)
             in feBind (putBlock ref b) (\<lambda>_. feRet b)))"

definition ResolveBlock :: "BlockRef \<Rightarrow> Block feM" where
  "ResolveBlock ref =
     feBind (feLift (\<lambda>fe. resolveBlockRef fe ref)) (\<lambda>resolved.
     feBind (feLift (\<lambda>fe. Ok (GetBlock resolved (feCache fe)))) (\<lambda>cached.
       case cached of
         Some b \<Rightarrow> populateBlockChainID resolved b
       | None \<Rightarrow>
           feBind (feLift (\<lambda>fe. fromRemote (pvBlock (feProvider fe) resolved))) (populateBlockChainID resolved)))"

subsection \<open>Contexts\<close>

text \<open>The answers of \<open>forkBlockContext\<close> and \<open>forkTxContext\<close>; what is nil reads as zero.\<close>

definition orZeroBig :: "int option \<Rightarrow> int" where
  "orZeroBig v = (case v of None \<Rightarrow> 0 | Some n \<Rightarrow> n)"

definition isUint64 :: "int \<Rightarrow> bool" where
  "isUint64 n \<longleftrightarrow> 0 \<le> n \<and> n < 2 ^ 64"

definition newBlockContext :: "Block \<Rightarrow> SimpleBlockContext" where
  "newBlockContext b =
     \<lparr>CoinbaseVal = blCoinbase b, TimestampVal = blTimestamp b, NumberVal = Some (orZeroBig (blNumber b)),
      DifficultyVal = Some 0, GasLimitVal = blGasLimit b,
      BlockHashFn = Some (\<lambda>number.
        case blNumber b of
          Some n \<Rightarrow> if isUint64 n \<and> word_of_int n = number then blHash b else 0
        | None \<Rightarrow> 0),
      BaseFeeVal = Some (orZeroBig (blBaseFee b)), BlobBaseFeeVal = Some (orZeroBig (blBlobBaseFee b)),
      BlobHashFn = Some (\<lambda>index. 0), RandomVal = blPrevRandao b, ChainIDVal = Some (orZeroBig (blChainID b))\<rparr>"

definition newTxContext :: "Address \<Rightarrow> int option \<Rightarrow> Hash list \<Rightarrow> int option \<Rightarrow> SimpleTxContext" where
  "newTxContext origin gasPrice blobHashes blobGasFee =
     \<lparr>OriginVal = origin, GasPriceVal = Some (orZeroBig gasPrice), BlobHashesVal = blobHashes,
      BlobGasFeeVal = Some (orZeroBig blobGasFee)\<rparr>"

definition buildPrewarmedAccessList :: "(Address \<times> Hash list) list \<Rightarrow> SimpleAccessList" where
  "buildPrewarmedAccessList entries =
     fold (\<lambda>(addr, keys) al. fold (WarmSlot addr) keys (WarmAddress addr al)) entries NewSimpleAccessList"

subsection \<open>Preparing calls\<close>

record CallRequest =
  crFrom :: Address
  crTo :: Address
  crInput :: bytes
  crValue :: "int option"
  crGasLimit :: u64
  crGasPrice :: "int option"
  crBlobGasFeeCap :: "int option"
  crBlobHashes :: "Hash list"
  crAccessList :: "(Address \<times> Hash list) list"
  crBlock :: BlockRef

text \<open>The execution configuration of a prepared call, over forked states.\<close>

record PreparedConfig =
  pfFork :: Fork
  pfGasLimit :: u64
  pfValue :: "int option"
  pfInput :: bytes
  pfCode :: bytes
  pfCodeHash :: Hash
  pfOrigin :: Address
  pfCaller :: Address
  pfContractAddress :: Address
  pfBlockContext :: SimpleBlockContext
  pfTxContext :: SimpleTxContext
  pfState :: forkAccountState
  pfStorage :: forkStorage
  pfTransientStorage :: InMemoryTransientStorage
  pfAccessList :: SimpleAccessList

record PreparedCall =
  pcBlock :: Block
  pcBlockRef :: BlockRef
  pcStateRef :: BlockRef
  pcSourceRef :: BlockRef
  pcOverlay :: OverlayState
  pcCreate :: bool
  pcTarget :: "Address option"
  pcReplayState :: "ReplayState option"
  pcConfig :: PreparedConfig

record preparedStateView =
  svCacheRef :: BlockRef
  svSourceRef :: BlockRef

definition resolveCode :: "Address \<Rightarrow> preparedStateView \<Rightarrow> bytes feM" where
  "resolveCode addr view =
     feBind (feLift (\<lambda>fe. Ok (GetCode addr (svCacheRef view) (feCache fe)))) (\<lambda>cached.
       case cached of
         Some code \<Rightarrow> feRet code
       | None \<Rightarrow>
           feBind (feLift (\<lambda>fe. fromRemote (pvCode (feProvider fe) addr (svSourceRef view)))) (\<lambda>code.
           feBind (feModify (\<lambda>fe. fe\<lparr>feCache := PutCode addr (svCacheRef view) code (feCache fe)\<rparr>)) (\<lambda>_.
           feRet code)))"

definition cloneReplay :: "ReplayState \<Rightarrow> ReplayState" where
  "cloneReplay rs = rs\<lparr>rsExecutionRef := Normalize (rsExecutionRef rs), rsStateRef := Normalize (rsStateRef rs),
     rsSourceRef := Normalize (rsSourceRef rs)\<rparr>"

definition prepareCallAgainstState ::
  "(bytes \<Rightarrow> Hash) \<Rightarrow> CallRequest \<Rightarrow> preparedStateView \<Rightarrow> ReplayState option \<Rightarrow> PreparedCall feM" where
  "prepareCallAgainstState K req view replayState =
     feBind (ResolveBlock (crBlock req)) (\<lambda>block.
     feBind (feLift (\<lambda>fe. resolveBlockRef fe (crBlock req))) (\<lambda>resolved.
     feBind (resolveCode (crTo req) view) (\<lambda>code.
     feLift (\<lambda>fe. Ok
       \<lparr>pcBlock = block, pcBlockRef = resolved, pcStateRef = svCacheRef view, pcSourceRef = svSourceRef view,
        pcOverlay = ovNewState, pcCreate = False, pcTarget = Some (crTo req),
        pcReplayState = map_option cloneReplay replayState,
        pcConfig =
          \<lparr>pfFork = feFork fe, pfGasLimit = (if crGasLimit req = 0 then blGasLimit block else crGasLimit req),
           pfValue = crValue req, pfInput = crInput req, pfCode = code, pfCodeHash = K code,
           pfOrigin = crFrom req, pfCaller = crFrom req, pfContractAddress = crTo req,
           pfBlockContext = newBlockContext block,
           pfTxContext = newTxContext (crFrom req) (crGasPrice req) (crBlobHashes req) (crBlobGasFeeCap req),
           pfState = newForkAccountState (svCacheRef view) (svSourceRef view),
           pfStorage = newForkStorage (svCacheRef view) (svSourceRef view),
           pfTransientStorage = NewInMemoryTransientStorage,
           pfAccessList = buildPrewarmedAccessList (crAccessList req)\<rparr>\<rparr>))))"

definition PrepareCall :: "(bytes \<Rightarrow> Hash) \<Rightarrow> CallRequest \<Rightarrow> PreparedCall feM" where
  "PrepareCall K req =
     feBind (feLift (\<lambda>fe. resolveBlockRef fe (crBlock req))) (\<lambda>resolved.
     prepareCallAgainstState K req \<lparr>svCacheRef = resolved, svSourceRef = resolved\<rparr> None)"

text \<open>The readers of \<open>adapter.go\<close>: the cache first, then the remote, whose answer is cached.\<close>

definition GetCodeAt :: "Address \<Rightarrow> BlockRef \<Rightarrow> bytes feM" where
  "GetCodeAt addr block =
     feBind (feLift (\<lambda>fe. Ok (if isZeroBlockRef block then feBlock fe else block))) (\<lambda>ref.
     feBind (feLift (\<lambda>fe. Ok (GetCode addr ref (feCache fe)))) (\<lambda>cached.
       if cached \<noteq> None \<and> cached \<noteq> Some [] then feRet (the cached)
       else
         feBind (feLift (\<lambda>fe. fromRemote (pvCode (feProvider fe) addr ref))) (\<lambda>code.
         feBind (feModify (\<lambda>fe. fe\<lparr>feCache := PutCode addr ref code (feCache fe)\<rparr>)) (\<lambda>_.
         feRet code))))"

definition GetStorageSlot :: "Address \<Rightarrow> Hash \<Rightarrow> BlockRef \<Rightarrow> Hash feM" where
  "GetStorageSlot addr slot block =
     feBind (feLift (\<lambda>fe. Ok (if isZeroBlockRef block then feBlock fe else block))) (\<lambda>ref.
     feBind (feLift (\<lambda>fe. Ok (GetStorage addr slot ref (feCache fe)))) (\<lambda>cached.
       case cached of
         Some v \<Rightarrow> feRet v
       | None \<Rightarrow>
           feBind (feLift (\<lambda>fe. fromRemote (pvStorageAt (feProvider fe) addr slot ref))) (\<lambda>v.
           feBind (feModify (\<lambda>fe. fe\<lparr>feCache := PutStorage addr slot ref v (feCache fe)\<rparr>)) (\<lambda>_.
           feRet v))))"

subsection \<open>Preparing replays\<close>

definition replayStateBlockRef :: "Transaction \<Rightarrow> BlockRef" where
  "replayStateBlockRef tx =
     (case txBlockNumber tx of
        None \<Rightarrow> LatestBlock
      | Some n \<Rightarrow>
          if n > 0 \<and> isUint64 (n - 1) then BlockNumber (word_of_int (n - 1))
          else if isUint64 n then BlockNumber (word_of_int n)
          else LatestBlock)"

definition syntheticReplayStateBlockRef :: "Transaction \<Rightarrow> BlockRef" where
  "syntheticReplayStateBlockRef tx =
     \<lparr>brNumber = None,
      brTag = ''replay:'' @ (case txBlockNumber tx of Some n \<Rightarrow> showInt n | None \<Rightarrow> ''latest'') @ '':'' @
        hexHash (txHash tx) @ '':'' @ showU64 (case txTransactionIndex tx of Some i \<Rightarrow> i | None \<Rightarrow> 0)\<rparr>"

definition replayStateKey :: "Hash \<Rightarrow> string" where
  "replayStateKey = hexHash"

definition recordReplayState :: "ReplayState \<Rightarrow> unit feM" where
  "recordReplayState rs =
     feModify (\<lambda>fe. fe\<lparr>feReplayStates := mput (replayStateKey (rsTarget rs)) (cloneReplay rs) (feReplayStates fe)\<rparr>)"

definition lookupReplayState :: "Hash \<Rightarrow> ForkEngine \<Rightarrow> ReplayState option" where
  "lookupReplayState txh fe = map_option cloneReplay (map_of (feReplayStates fe) (replayStateKey txh))"

text \<open>The execution block of a replay.\<close>

definition executionRef :: "ForkEngine \<Rightarrow> Transaction \<Rightarrow> BlockRef" where
  "executionRef fe tx =
     (case txBlockNumber tx of
        Some n \<Rightarrow> if isUint64 n then BlockNumber (word_of_int n) else feBlock fe
      | None \<Rightarrow> feBlock fe)"

definition callOfTx :: "Transaction \<Rightarrow> Address \<Rightarrow> BlockRef \<Rightarrow> CallRequest" where
  "callOfTx tx to_addr block =
     \<lparr>crFrom = txFrom tx, crTo = to_addr, crInput = txInput tx, crValue = txValue tx, crGasLimit = txGas tx,
      crGasPrice = txGasPrice tx, crBlobGasFeeCap = txBlobGasFeeCap tx, crBlobHashes = txBlobHashes tx,
      crAccessList = txAccessList tx, crBlock = block\<rparr>"

text \<open>The prepared call of a creation, which both replay paths build.\<close>

definition createCall ::
  "(bytes \<Rightarrow> Hash) \<Rightarrow> Transaction \<Rightarrow> Address \<Rightarrow> Block \<Rightarrow> BlockRef \<Rightarrow> preparedStateView \<Rightarrow> ReplayState option \<Rightarrow> ForkEngine \<Rightarrow> PreparedCall" where
  "createCall K tx created block resolved view replayState fe =
     \<lparr>pcBlock = block, pcBlockRef = resolved, pcStateRef = svCacheRef view, pcSourceRef = svSourceRef view,
      pcOverlay = ovNewState, pcCreate = True, pcTarget = Some created,
      pcReplayState = map_option cloneReplay replayState,
      pcConfig =
        \<lparr>pfFork = feFork fe, pfGasLimit = txGas tx, pfValue = txValue tx, pfInput = txInput tx, pfCode = txInput tx,
         pfCodeHash = K (txInput tx), pfOrigin = txFrom tx, pfCaller = txFrom tx, pfContractAddress = txFrom tx,
         pfBlockContext = newBlockContext block,
         pfTxContext = newTxContext (txFrom tx) (txGasPrice tx) (txBlobHashes tx) (txBlobGasFeeCap tx),
         pfState = newForkAccountState (svCacheRef view) (svSourceRef view),
         pfStorage = newForkStorage (svCacheRef view) (svSourceRef view),
         pfTransientStorage = NewInMemoryTransientStorage,
         pfAccessList = buildPrewarmedAccessList (txAccessList tx)\<rparr>\<rparr>"

text \<open>A creation reads the contract address of its receipt, which may be nil.\<close>

definition prepareReplayTransactionWithState ::
  "(bytes \<Rightarrow> Hash) \<Rightarrow> Transaction \<Rightarrow> Receipt \<Rightarrow> BlockRef \<Rightarrow> preparedStateView \<Rightarrow> ReplayState option \<Rightarrow> PreparedCall feM" where
  "prepareReplayTransactionWithState K tx receipt execRef view replayState =
     (case txTo tx of
        None \<Rightarrow>
          feBind (ResolveBlock execRef) (\<lambda>block.
          feBind (feLift (\<lambda>fe. resolveBlockRef fe execRef)) (\<lambda>resolved.
            case rcContractAddress receipt of
              None \<Rightarrow> feLift (\<lambda>fe. Panic PanicNil)
            | Some created \<Rightarrow> feLift (\<lambda>fe. Ok (createCall K tx created block resolved view replayState fe))))
      | Some to_addr \<Rightarrow> prepareCallAgainstState K (callOfTx tx to_addr execRef) view replayState)"

subsection \<open>Writing back\<close>

definition shouldCacheLocalWrites :: "ForkEngine \<Rightarrow> bool" where
  "shouldCacheLocalWrites fe = (if feMode fe = ModePinned then cpPinned (fePolicy fe) else cpDiff (fePolicy fe))"

text \<open>The diff that deploys the code a creation returned.\<close>

definition createDiff :: "Address \<Rightarrow> ExecutionResult \<Rightarrow> StateDiff" where
  "createDiff target r = emptyStateDiff\<lparr>CodeChanges := [(target, ReturnData r)], CreatedAccounts := [target]\<rparr>"

definition cacheWrites ::
  "(bytes \<Rightarrow> Hash) \<Rightarrow> PreparedCall \<Rightarrow> ExecutionResult option \<Rightarrow> MemoryStore \<Rightarrow> MemoryStore" where
  "cacheWrites K prepared res c =
     (let c = (case (pcTarget prepared, res) of
                 (Some target, Some r) \<Rightarrow>
                   if pcCreate prepared \<and> Status r = StatusSuccess
                   then ApplyStateDiff K (pcStateRef prepared) (Some (createDiff target r)) c else c
               | _ \<Rightarrow> c);
          c = ApplyOverlay K (pcStateRef prepared) (Some (pcOverlay prepared)) c
      in case res of Some r \<Rightarrow> ApplyStateDiff K (pcStateRef prepared) (StateChanges r) c | None \<Rightarrow> c)"

definition CommitLocalWrites :: "(bytes \<Rightarrow> Hash) \<Rightarrow> PreparedCall \<Rightarrow> ExecutionResult option \<Rightarrow> unit feM" where
  "CommitLocalWrites K prepared res =
     feModify (\<lambda>fe. if shouldCacheLocalWrites fe then fe\<lparr>feCache := cacheWrites K prepared res (feCache fe)\<rparr> else fe)"

definition baseSnapshot :: "(bytes \<Rightarrow> Hash) \<Rightarrow> InMemoryAccountState \<Rightarrow> Address \<Rightarrow> AccountSnapshot" where
  "baseSnapshot K base a =
     \<lparr>asBalance = Some (Balance a base), asNonce = Nonce a base, asCode = accCode a base,
      asCodeHash = (if accCode a base \<noteq> [] then K (accCode a base) else CodeHash a base),
      asExists = Exists a base\<rparr>"

definition writeBackAccount :: "(bytes \<Rightarrow> Hash) \<Rightarrow> BlockRef \<Rightarrow> InMemoryAccountState \<Rightarrow> Address \<Rightarrow> MemoryStore \<Rightarrow> MemoryStore" where
  "writeBackAccount K ref base a c =
     (let c = PutAccount a ref (baseSnapshot K base a) c
      in if accCode a base \<noteq> [] then PutCode a ref (accCode a base) c else c)"

definition writeBackPreparedState :: "(bytes \<Rightarrow> Hash) \<Rightarrow> PreparedCall \<Rightarrow> MemoryStore \<Rightarrow> MemoryStore" where
  "writeBackPreparedState K prepared c =
     (let accs = pfState (pcConfig prepared); sto = pfStorage (pcConfig prepared);
          c = fold (writeBackAccount K (pcStateRef prepared) (faBase accs)) (faLoaded accs) c
      in fold (\<lambda>(a, slots). fold (\<lambda>k. PutStorage a k (pcStateRef prepared) (StorageGet a k (fsBase sto))) slots)
           (fsLoaded sto) c)"

definition commitReplayReconstructionWrites ::
  "(bytes \<Rightarrow> Hash) \<Rightarrow> PreparedCall \<Rightarrow> ExecutionResult option \<Rightarrow> unit feM" where
  "commitReplayReconstructionWrites K prepared res =
     feModify (\<lambda>fe. fe\<lparr>feCache := cacheWrites K prepared res (writeBackPreparedState K prepared (feCache fe))\<rparr>)"

subsection \<open>Reconstructing the transactions before a replayed one\<close>

text \<open>What running a prepared call yields: the result (possibly nil), the error's text, and the call with the state it
  left.\<close>

record execResult =
  xrResult :: "ExecutionResult option"
  xrErr :: "string option"
  xrCall :: PreparedCall

type_synonym executor = "PreparedCall \<Rightarrow> execResult feM"

definition limited :: "string \<Rightarrow> ReplayState \<Rightarrow> ReplayState" where
  "limited why rs = rs\<lparr>rsExact := False, rsLimitation := why\<rparr>"

text \<open>An error a callee returns becomes a limitation; only a panic passes through.\<close>

definition feTry :: "'a feM \<Rightarrow> ('a \<Rightarrow> 'b feM) \<Rightarrow> (string \<Rightarrow> 'b feM) \<Rightarrow> (evm_error \<Rightarrow> string) \<Rightarrow> 'b feM" where
  "feTry m f g errText fe =
     (case m fe of
        (Ok x, fe) \<Rightarrow> f x fe
      | (Fail e, fe) \<Rightarrow> g (errText e) fe
      | (Panic p, fe) \<Rightarrow> (Panic p, fe))"

text \<open>The loop: \<open>Inl\<close> is a state with a limitation, returned early; \<open>Inr\<close> tells whether the target was found, and
  the transactions applied before it.\<close>

fun priorTransactions ::
  "(bytes \<Rightarrow> Hash) \<Rightarrow> (evm_error \<Rightarrow> string) \<Rightarrow> executor \<Rightarrow> (Hash \<Rightarrow> string + Receipt) \<Rightarrow> BlockRef \<Rightarrow> Hash \<Rightarrow> preparedStateView \<Rightarrow>
     ReplayState \<Rightarrow> Hash list \<Rightarrow> Transaction list \<Rightarrow> (ReplayState + bool \<times> Hash list) feM" where
  "priorTransactions K errText exec receiptOf execRef target view rs applied [] = feRet (Inr (False, applied))"
| "priorTransactions K errText exec receiptOf execRef target view rs applied (tx # txs) =
     (if txHash tx = target then feRet (Inr (True, applied))
      else case receiptOf (txHash tx) of
        Inl e \<Rightarrow> feRet (Inl (limited (''failed to load receipt for prior transaction '' @ hexHash (txHash tx) @ '': '' @ e) rs))
      | Inr receipt \<Rightarrow>
          feTry (prepareReplayTransactionWithState K tx receipt execRef view None)
            (\<lambda>prepared.
               feBind (exec prepared) (\<lambda>x.
                 if xrErr x \<noteq> None \<and> xrResult x = None
                 then feRet (Inl (limited (''failed to execute prior transaction '' @ hexHash (txHash tx) @ '': '' @ the (xrErr x)) rs))
                 else
                   feBind (commitReplayReconstructionWrites K (xrCall x) (xrResult x)) (\<lambda>_.
                     let comparison = CompareReplayToReceipt tx receipt (xrResult x) in
                     if \<not> rmMatch comparison
                     then feRet (Inl (limited (''prior transaction '' @ hexHash (txHash tx) @ '' replay mismatch on '' @
                            (case rmFirstMismatch comparison of Some m \<Rightarrow> mmField m | None \<Rightarrow> [])) rs))
                     else priorTransactions K errText exec receiptOf execRef target view rs (applied @ [txHash tx]) txs)))
            (\<lambda>e. feRet (Inl (limited (''failed to prepare prior transaction '' @ hexHash (txHash tx) @ '': '' @ e) rs)))
            errText)"

definition reconstructPriorTransactions ::
  "(bytes \<Rightarrow> Hash) \<Rightarrow> (evm_error \<Rightarrow> string) \<Rightarrow> executor \<Rightarrow> (Hash \<Rightarrow> string + Receipt) \<Rightarrow> BlockRef \<Rightarrow> Transaction \<Rightarrow>
     ReplayState \<Rightarrow> ReplayState feM" where
  "reconstructPriorTransactions K errText exec receiptOf execRef target rs fe =
     (case pvBlockTransactions (feProvider fe) of
        None \<Rightarrow> feRet (limited ''provider does not expose block transaction lists for prior-transaction reconstruction'' rs) fe
      | Some blockTxs \<Rightarrow>
          (case blockTxs execRef of
             Inl e \<Rightarrow> feRet (limited (''failed to load block transactions: '' @ e) rs) fe
           | Inr txs \<Rightarrow>
               feBind (priorTransactions K errText exec receiptOf execRef (txHash target)
                    \<lparr>svCacheRef = syntheticReplayStateBlockRef target, svSourceRef = rsSourceRef rs\<rparr> rs [] txs)
                 (\<lambda>res.
                    case res of
                      Inl rs \<Rightarrow> feRet rs
                    | Inr (found, applied) \<Rightarrow>
                        if \<not> found
                        then feRet (limited ''target transaction was not found in the fetched block transaction list'' rs)
                        else feRet (rs\<lparr>rsStateRef := syntheticReplayStateBlockRef target, rsApplied := applied\<rparr>)) fe))"

definition prepareReplayState ::
  "(bytes \<Rightarrow> Hash) \<Rightarrow> (evm_error \<Rightarrow> string) \<Rightarrow> executor \<Rightarrow> (Hash \<Rightarrow> string + Receipt) \<Rightarrow> Transaction \<Rightarrow> BlockRef \<Rightarrow>
     (ReplayState \<times> preparedStateView) feM" where
  "prepareReplayState K errText exec receiptOf tx execRef fe =
     (case lookupReplayState (txHash tx) fe of
        Some rs \<Rightarrow> feRet (rs, \<lparr>svCacheRef = rsStateRef rs, svSourceRef = rsSourceRef rs\<rparr>) fe
      | None \<Rightarrow>
          feBind (feLift (\<lambda>fe. resolveBlockRef fe (replayStateBlockRef tx))) (\<lambda>sourceRef.
            let rs = \<lparr>rsTarget = txHash tx, rsExecutionRef = Normalize execRef, rsStateRef = sourceRef,
                      rsSourceRef = sourceRef, rsApplied = [], rsExact = True, rsLimitation = []\<rparr>
            in if txTransactionIndex tx = None \<or> txTransactionIndex tx = Some 0
               then feRet (rs, \<lparr>svCacheRef = sourceRef, svSourceRef = sourceRef\<rparr>)
               else
                 feBind (reconstructPriorTransactions K errText exec receiptOf execRef tx rs) (\<lambda>rs.
                 feRet (rs, \<lparr>svCacheRef = rsStateRef rs, svSourceRef = rsSourceRef rs\<rparr>))) fe)"

definition PrepareReplay ::
  "(bytes \<Rightarrow> Hash) \<Rightarrow> (evm_error \<Rightarrow> string) \<Rightarrow> executor \<Rightarrow> Hash \<Rightarrow> (PreparedCall \<times> Transaction \<times> Receipt) feM" where
  "PrepareReplay K errText exec txh fe =
     (case pvTransactions (feProvider fe) of
        None \<Rightarrow> (failure ''forkengine: provider does not implement transaction replay capabilities'', fe)
      | Some (txByHash, receiptOf) \<Rightarrow>
          (case txByHash txh of
             Inl e \<Rightarrow> (failure e, fe)
           | Inr tx \<Rightarrow>
          (case receiptOf txh of
             Inl e \<Rightarrow> (failure e, fe)
           | Inr receipt \<Rightarrow>
               (let execRef = executionRef fe tx in
                case txTo tx of
                  None \<Rightarrow>
                    (case rcContractAddress receipt of
                       None \<Rightarrow> (failure ''forkengine: contract-creation replay requires receipt contract address'', fe)
                     | Some created \<Rightarrow>
                         feBind (ResolveBlock execRef) (\<lambda>block.
                         feBind (feLift (\<lambda>fe. resolveBlockRef fe execRef)) (\<lambda>resolved.
                         feBind (prepareReplayState K errText exec receiptOf tx execRef) (\<lambda>(rs, view).
                         feBind (feLift (\<lambda>fe. Ok (createCall K tx created block resolved view (Some rs) fe))) (\<lambda>prepared.
                         feBind (recordReplayState rs) (\<lambda>_. feRet (prepared, tx, receipt)))))) fe)
                | Some to_addr \<Rightarrow>
                    feBind (prepareReplayState K errText exec receiptOf tx execRef) (\<lambda>(rs, view).
                    feBind (prepareCallAgainstState K (callOfTx tx to_addr execRef) view (Some rs)) (\<lambda>prepared.
                    feBind (recordReplayState rs) (\<lambda>_. feRet (prepared, tx, receipt)))) fe))))"

record ReplayExecution =
  rxPrepared :: PreparedCall
  rxTransaction :: Transaction
  rxReceipt :: Receipt
  rxResult :: "ExecutionResult option"
  rxExact :: bool
  rxLimitation :: string
  rxApplied :: "Hash list"

definition ReplayTransaction ::
  "(bytes \<Rightarrow> Hash) \<Rightarrow> (evm_error \<Rightarrow> string) \<Rightarrow> executor \<Rightarrow> Hash \<Rightarrow> ReplayExecution feM" where
  "ReplayTransaction K errText exec txh =
     feBind (PrepareReplay K errText exec txh) (\<lambda>(prepared, tx, receipt).
     feBind (exec prepared) (\<lambda>x.
       case (xrErr x, xrResult x) of
         (Some e, None) \<Rightarrow> feLift (\<lambda>fe. failure e)
       | _ \<Rightarrow>
           feBind (CommitLocalWrites K (xrCall x) (xrResult x)) (\<lambda>_.
           feRet (let rs = map_option cloneReplay (pcReplayState (xrCall x)) in
             \<lparr>rxPrepared = xrCall x, rxTransaction = tx, rxReceipt = receipt, rxResult = xrResult x,
              rxExact = (case rs of Some r \<Rightarrow> rsExact r | None \<Rightarrow> True),
              rxLimitation = (case rs of Some r \<Rightarrow> rsLimitation r | None \<Rightarrow> []),
              rxApplied = (case rs of Some r \<Rightarrow> rsApplied r | None \<Rightarrow> [])\<rparr>))))"

text \<open>\<open>ExecuteCall\<close> hands the result and the error of the run to its caller, after the writes are cached.\<close>

definition ExecuteCall :: "(bytes \<Rightarrow> Hash) \<Rightarrow> executor \<Rightarrow> CallRequest \<Rightarrow> execResult feM" where
  "ExecuteCall K exec req =
     feBind (PrepareCall K req) (\<lambda>prepared.
     feBind (exec prepared) (\<lambda>x.
     feBind (CommitLocalWrites K (xrCall x) (xrResult x)) (\<lambda>_. feRet x)))"

definition EthCall :: "(bytes \<Rightarrow> Hash) \<Rightarrow> executor \<Rightarrow> CallRequest \<Rightarrow> bytes feM" where
  "EthCall K exec req =
     feBind (ExecuteCall K exec req) (\<lambda>x.
       case (xrErr x, xrResult x) of
         (Some e, _) \<Rightarrow> feLift (\<lambda>fe. failure e)
       | (None, None) \<Rightarrow> feLift (\<lambda>fe. failure ''forkengine: eth_call returned no execution result'')
       | (None, Some r) \<Rightarrow> feRet (ReturnData r))"

definition EstimateGas :: "(bytes \<Rightarrow> Hash) \<Rightarrow> executor \<Rightarrow> CallRequest \<Rightarrow> u64 feM" where
  "EstimateGas K exec req =
     feBind (ExecuteCall K exec req) (\<lambda>x.
       case (xrErr x, xrResult x) of
         (Some e, _) \<Rightarrow> feLift (\<lambda>fe. failure e)
       | (None, None) \<Rightarrow> feLift (\<lambda>fe. failure ''forkengine: estimateGas returned no execution result'')
       | (None, Some r) \<Rightarrow> feRet (GasUsed r))"

record ExportedSnapshot =
  esCache :: ExportedState
  esReplayStates :: "ReplayState list"

definition ExportSnapshot :: "ForkEngine \<Rightarrow> ExportedSnapshot" where
  "ExportSnapshot fe =
     \<lparr>esCache = ExportState (feCache fe), esReplayStates = map (\<lambda>(k, rs). cloneReplay rs) (feReplayStates fe)\<rparr>"

definition ImportSnapshot :: "ExportedSnapshot \<Rightarrow> ForkEngine \<Rightarrow> ForkEngine" where
  "ImportSnapshot snap fe =
     fe\<lparr>feCache := ImportState (esCache snap) (feCache fe),
       feReplayStates := fold (\<lambda>rs. mput (replayStateKey (rsTarget rs)) (cloneReplay rs)) (esReplayStates snap) []\<rparr>"

subsection \<open>Creations\<close>

text \<open>What \<open>executePreparedCreate\<close> makes of the result of its message: the result it returns, and the code it sets
  at the target. A creation that deploys nothing leaves the result of its message.\<close>

definition finishPreparedCreate :: "u64 \<Rightarrow> Address \<Rightarrow> ExecutionResult \<Rightarrow> ExecutionResult \<times> bytes option" where
  "finishPreparedCreate gasLimit target r =
     (let code = ReturnData r;
          depositGas = ulen code * GasCodeDeposit;
          (r, deployed) =
            (if Status r \<noteq> StatusSuccess then (r, None)
             else if code \<noteq> [] \<and> hd code = 0xEF
             then (r\<lparr>Status := StatusInvalidContractPrefix, ResErr := Some ErrInvalidOpcode, GasRemaining := 0\<rparr>, None)
             else if length code > 0x6000 then (r\<lparr>Status := StatusMaxCodeSizeExceeded, GasRemaining := 0\<rparr>, None)
             else if GasRemaining r < depositGas then (r\<lparr>Status := StatusCodeStoreOutOfGas, GasRemaining := 0\<rparr>, None)
             else (r\<lparr>GasRemaining := GasRemaining r - depositGas, CreatedAddress := Some target\<rparr>, Some code))
      in (r\<lparr>GasUsed := gasLimit - GasRemaining r\<rparr>, deployed))"

lemma finishPreparedCreate_deploys:
  assumes "finishPreparedCreate gasLimit target r = (r', Some code)"
  shows "Status r' = StatusSuccess" "code = ReturnData r" "length code \<le> 0x6000" "code = [] \<or> hd code \<noteq> 0xEF"
    "unat (GasRemaining r') + 200 * length code = unat (GasRemaining r)" "GasUsed r' = gasLimit - GasRemaining r'"
proof -
  have a: "Status r = StatusSuccess" "code = ReturnData r" "\<not> (code \<noteq> [] \<and> hd code = 0xEF)" "\<not> length code > 0x6000"
    "\<not> GasRemaining r < ulen code * GasCodeDeposit"
    "r' = r\<lparr>GasRemaining := GasRemaining r - ulen code * GasCodeDeposit, CreatedAddress := Some target,
        GasUsed := gasLimit - (GasRemaining r - ulen code * GasCodeDeposit)\<rparr>"
    using assms by (auto simp: finishPreparedCreate_def Let_def split: if_splits)
  then show "Status r' = StatusSuccess" "code = ReturnData r" "length code \<le> 0x6000" "code = [] \<or> hd code \<noteq> 0xEF"
    "GasUsed r' = gasLimit - GasRemaining r'" by auto
  have u: "unat (ulen code * GasCodeDeposit) = 200 * length code"
  proof -
    have "unat (ulen code :: u64) = length code" using a(4) by (simp add: unat_of_nat take_bit_nat_eq_self_iff)
    then show ?thesis using a(4) by (simp add: unat_word_ariths)
  qed
  have "unat (GasRemaining r - ulen code * GasCodeDeposit) = unat (GasRemaining r) - 200 * length code"
    using a(5) u by (simp add: unat_sub_le not_less)
  moreover have "200 * length code \<le> unat (GasRemaining r)" using a(5) u by (simp add: word_less_nat_alt not_less)
  ultimately show "unat (GasRemaining r') + 200 * length code = unat (GasRemaining r)" using a(6) by simp
qed

subsection \<open>What holds of the engine\<close>

lemma fe_simps [simp]:
  "feBind (feRet x) f fe = f x fe"
  "feRet x fe = (Ok x, fe)"
  "feLift g fe = (g fe, fe)"
  "feModify h fe = (Ok (), h fe)"
  by (simp_all add: feBind_def feRet_def feLift_def feModify_def)

definition feOK :: "ForkEngine \<Rightarrow> bool" where
  "feOK fe \<longleftrightarrow> Normalize (feBlock fe) = feBlock fe \<and> (feMode fe = ModeDiff \<or> feMode fe = ModePinned) \<and>
     (feMode fe = ModePinned \<longrightarrow> brNumber (feBlock fe) \<noteq> None)"

lemma brNumber_Normalize [simp]: "brNumber (Normalize r) = brNumber r"
  by (auto simp: Normalize_def LatestBlock_def split: option.split)

lemma ForkNew_OK:
  assumes "ForkNew conf = Ok fe"
  shows "feOK fe" "shouldCacheLocalWrites fe \<or> (cpDiff (fePolicy fe) \<or> cpPinned (fePolicy fe))"
  using assms
  by (auto simp: ForkNew_def feOK_def IsPinned_def shouldCacheLocalWrites_def Let_def split: option.splits if_splits)

lemma resolveBlockRef_pinned:
  "feMode fe = ModePinned \<Longrightarrow> resolveBlockRef fe ref = Ok r \<Longrightarrow> r = feBlock fe"
  by (auto simp: resolveBlockRef_def split: option.splits if_splits)

lemma resolveBlockRef_diff:
  "feMode fe \<noteq> ModePinned \<Longrightarrow> resolveBlockRef fe ref =
     (if brNumber ref \<noteq> None \<and> brTag ref \<noteq> [] then failure ''block ref cannot contain both number and tag''
      else if brNumber ref = None \<and> brTag ref = [] then Ok (feBlock fe) else Ok (Normalize ref))"
  by (simp add: resolveBlockRef_def ValidateRef_def isZeroBlockRef_def)

lemma resolveBlockRef_number:
  assumes "feOK fe" "feMode fe = ModePinned" "brNumber (feBlock fe) = Some b" "uint n \<noteq> b"
  shows "resolveBlockRef fe (BlockNumber n) = failure ''forkengine: pinned mode cannot resolve a different block''"
proof -
  have "CacheKey (BlockNumber n) \<noteq> CacheKey (feBlock fe)"
    using assms by (auto simp: CacheKey_eq BlockNumber_def Normalize_def split: option.splits)
  then show ?thesis using assms by (simp add: resolveBlockRef_def ValidateRef_def isZeroBlockRef_def BlockNumber_def
        Normalize_def)
qed

lemma replayStateBlockRef_number:
  "txBlockNumber tx = Some n \<Longrightarrow> 0 < n \<Longrightarrow> n < 2 ^ 64 \<Longrightarrow> replayStateBlockRef tx = BlockNumber (word_of_int (n - 1))"
  by (simp add: replayStateBlockRef_def isUint64_def)

lemma executionRef_number:
  "txBlockNumber tx = Some n \<Longrightarrow> 0 < n \<Longrightarrow> n < 2 ^ 64 \<Longrightarrow> executionRef fe tx = BlockNumber (word_of_int n)"
  by (simp add: executionRef_def isUint64_def)

text \<open>An engine pinned to a block resolves only that block. The state a transaction of the block starts from is that of the parent, so
  without a recorded replay state the transaction, call or creation, cannot be prepared.\<close>

lemma fetch_no_panic: "fst (feLift (\<lambda>fe. fromRemote (f fe)) fe) \<noteq> Panic q" "fst (ResolveBlock ref fe) \<noteq> Panic q"
  by (auto simp: ResolveBlock_def feLift_def feBind_def fromRemote_def populateBlockChainID_def putBlock_def feModify_def feRet_def resolveBlockRef_def
      Let_def split: option.splits sum.splits prod.splits outcome.splits if_splits)

lemma pinned_source:
  assumes "feOK fe" "feMode fe = ModePinned" "brNumber (feBlock fe) = Some n" "0 < n" "n < 2 ^ 64" "txBlockNumber tx = Some n"
  shows "resolveBlockRef fe (replayStateBlockRef tx) = failure ''forkengine: pinned mode cannot resolve a different block''"
proof -
  have "uint (word_of_int (n - 1) :: u64) = n - 1" unfolding uint_word_of_int using assms(4,5) by simp
  then have "uint (word_of_int (n - 1) :: u64) \<noteq> n" by simp
  then show ?thesis using resolveBlockRef_number [OF assms(1-3)] replayStateBlockRef_number [OF assms(6,4,5)] by simp
qed

text \<open>The engine a call leaves behind is the one of its mode and block.\<close>

lemma ResolveBlock_frame:
  "ResolveBlock ref fe = (r, fe') \<Longrightarrow> feMode fe' = feMode fe \<and> feBlock fe' = feBlock fe \<and> feReplayStates fe' = feReplayStates fe"
  by (auto simp: ResolveBlock_def feLift_def feBind_def populateBlockChainID_def putBlock_def feModify_def feRet_def Let_def
      split: option.splits prod.splits outcome.splits if_splits)

lemma resolveBlockRef_cong: "feMode fe' = feMode fe \<Longrightarrow> feBlock fe' = feBlock fe \<Longrightarrow> resolveBlockRef fe' ref = resolveBlockRef fe ref"
  by (simp add: resolveBlockRef_def split: option.split)

lemma lookupReplayState_cong: "feReplayStates fe' = feReplayStates fe \<Longrightarrow> lookupReplayState h fe' = lookupReplayState h fe"
  by (simp add: lookupReplayState_def)

lemma prepareReplayState_pinned:
  assumes "feOK fe" "feMode fe = ModePinned" "brNumber (feBlock fe) = Some n" "0 < n" "n < 2 ^ 64" "txBlockNumber tx = Some n"
    "lookupReplayState (txHash tx) fe = None"
  shows "prepareReplayState K errText exec receiptOf tx execRef fe = (failure ''forkengine: pinned mode cannot resolve a different block'', fe)"
  using assms(7) pinned_source [OF assms(1-6)] by (simp add: prepareReplayState_def feBind_def feLift_def)

lemma pinned_replay:
  assumes "feOK fe" "feMode fe = ModePinned" "brNumber (feBlock fe) = Some n" "0 < n" "n < 2 ^ 64"
    "pvTransactions (feProvider fe) = Some (txByHash, receiptOf)" "txByHash h = Inr tx" "txBlockNumber tx = Some n"
    "lookupReplayState (txHash tx) fe = None"
  shows "\<exists>e fe'. PrepareReplay K errText exec h fe = (Fail e, fe') \<and>
    (\<forall>receipt. receiptOf h = Inr receipt \<and> (txTo tx \<noteq> None \<or>
        rcContractAddress receipt \<noteq> None \<and> (\<exists>block. fst (ResolveBlock (executionRef fe tx) fe) = Ok block)) \<longrightarrow>
      e = ErrOther ''forkengine: pinned mode cannot resolve a different block'')"
proof (cases "receiptOf h")
  case (Inl e)
  then show ?thesis using assms(6,7) by (simp add: PrepareReplay_def)
next
  case (Inr receipt)
  let ?pinned = "failure ''forkengine: pinned mode cannot resolve a different block''"
  show ?thesis
  proof (cases "txTo tx")
    case (Some a)
    then show ?thesis using assms(6,7) Inr prepareReplayState_pinned [OF assms(1-5,8,9)]
      by (simp add: PrepareReplay_def Let_def feBind_def)
  next
    case None
    show ?thesis
    proof (cases "rcContractAddress receipt")
      case None
      then show ?thesis using assms(6,7) Inr \<open>txTo tx = None\<close> by (simp add: PrepareReplay_def Let_def)
    next
      case (Some created)
      obtain r fe1 where res: "ResolveBlock (executionRef fe tx) fe = (r, fe1)" by fastforce
      note frame = ResolveBlock_frame [OF res]
      have ok: "feOK fe1" "feMode fe1 = ModePinned" "brNumber (feBlock fe1) = Some n" "lookupReplayState (txHash tx) fe1 = None"
        using frame assms(1-3,9) lookupReplayState_cong [of fe1 fe] by (simp_all add: feOK_def)
      have prep: "prepareReplayState K errText exec receiptOf tx (executionRef fe tx) fe1 = (?pinned, fe1)"
        by (rule prepareReplayState_pinned [OF ok(1-3) assms(4,5,8) ok(4)])
      show ?thesis
      proof (cases r)
        case (Ok block)
        have "resolveBlockRef fe (executionRef fe tx) \<noteq> failure e \<and> resolveBlockRef fe (executionRef fe tx) \<noteq> Panic q" for e q
          using res Ok by (cases "resolveBlockRef fe (executionRef fe tx)") (auto simp: ResolveBlock_def feBind_def feLift_def)
        then obtain resolved where "resolveBlockRef fe1 (executionRef fe tx) = Ok resolved"
          using res Ok resolveBlockRef_cong [of fe1 fe] frame
          by (cases "resolveBlockRef fe (executionRef fe tx)") (auto simp: ResolveBlock_def feBind_def feLift_def)
        then show ?thesis using assms(6,7) Inr \<open>txTo tx = None\<close> Some res Ok prep
          by (simp add: PrepareReplay_def Let_def feBind_def feLift_def)
      next
        case (Fail e)
        then show ?thesis using assms(6,7) Inr \<open>txTo tx = None\<close> Some res by (simp add: PrepareReplay_def Let_def feBind_def)
      next
        case (Panic q)
        then show ?thesis using fetch_no_panic(2) [of "executionRef fe tx" fe q] res by simp
      qed
    qed
  qed
qed

text \<open>With a recorded state, of an imported snapshot for one, the replay of a call is prepared on it.\<close>

lemma pinned_replay_recorded:
  assumes "pvTransactions (feProvider fe) = Some (txByHash, receiptOf)" "txByHash h = Inr tx" "receiptOf h = Inr receipt" "txTo tx = Some a"
    "lookupReplayState (txHash tx) fe = Some rs"
    "ResolveBlock (executionRef fe tx) fe = (Ok block, fe1)"
    "resolveCode a \<lparr>svCacheRef = rsStateRef rs, svSourceRef = rsSourceRef rs\<rparr> fe1 = (Ok code, fe2)"
  shows "\<exists>prepared fe'. PrepareReplay K errText exec h fe = (Ok (prepared, tx, receipt), fe') \<and>
    pcStateRef prepared = rsStateRef rs \<and> pcSourceRef prepared = rsSourceRef rs \<and> pcReplayState prepared = Some rs"
proof -
  obtain resolved where "resolveBlockRef fe (executionRef fe tx) = Ok resolved"
    using assms(6) by (cases "resolveBlockRef fe (executionRef fe tx)") (auto simp: ResolveBlock_def feBind_def feLift_def)
  moreover have "cloneReplay rs = rs" using assms(5) by (auto simp: lookupReplayState_def cloneReplay_def)
  moreover have "feMode fe1 = feMode fe" "feBlock fe1 = feBlock fe" using ResolveBlock_frame [OF assms(6)] by simp_all
  ultimately show ?thesis using assms resolveBlockRef_cong [of fe1 fe]
    by (simp add: PrepareReplay_def Let_def prepareReplayState_def prepareCallAgainstState_def callOfTx_def feBind_def feLift_def feRet_def
        recordReplayState_def feModify_def)
qed

subsection \<open>Recorded replay states\<close>

lemma cloneReplay_idem [simp]: "cloneReplay (cloneReplay rs) = cloneReplay rs"
  by (simp add: cloneReplay_def)

lemma hexHash_inject [simp]: "hexHash a = hexHash b \<longleftrightarrow> a = b"
proof
  assume "hexHash a = hexHash b"
  then have "word_bytes a = word_bytes b" by (simp add: hexHash_def hexEncode_inject)
  then show "a = b" by (metis BytesToWord_word_bytes outcome.inject(1))
qed simp

lemma lookup_record:
  "lookupReplayState h (snd (recordReplayState rs fe)) =
     (if h = rsTarget rs then Some (cloneReplay rs) else lookupReplayState h fe)"
  by (simp add: lookupReplayState_def recordReplayState_def replayStateKey_def)

subsection \<open>Reconstruction\<close>

text \<open>The transactions a loop applies: each is prepared on the state the one before it left, executed, written back, and what the
  execution returned is matched by its receipt.\<close>

inductive appliedPriors ::
  "(bytes \<Rightarrow> Hash) \<Rightarrow> executor \<Rightarrow> (Hash \<Rightarrow> string + Receipt) \<Rightarrow> BlockRef \<Rightarrow> preparedStateView \<Rightarrow> Transaction list \<Rightarrow> ForkEngine \<Rightarrow> ForkEngine \<Rightarrow> bool"
  for K exec receiptOf execRef view where
  nothing: "appliedPriors K exec receiptOf execRef view [] fe fe"
| applied: "\<lbrakk> receiptOf (txHash tx) = Inr receipt;
     prepareReplayTransactionWithState K tx receipt execRef view None fe = (Ok prepared, fe1);
     exec prepared fe1 = (Ok x, fe2); xrErr x = None \<or> xrResult x \<noteq> None;
     commitReplayReconstructionWrites K (xrCall x) (xrResult x) fe2 = (Ok u, fe3);
     rmMatch (CompareReplayToReceipt tx receipt (xrResult x));
     appliedPriors K exec receiptOf execRef view txs fe3 fe' \<rbrakk> \<Longrightarrow>
     appliedPriors K exec receiptOf execRef view (tx # txs) fe fe'"

inductive_simps appliedPriors_simps:
  "appliedPriors K exec receiptOf execRef view [] fe fe'"
  "appliedPriors K exec receiptOf execRef view (tx # txs) fe fe'"

lemma feBind_Ok: "feBind m f fe = (Ok y, fe') \<Longrightarrow> \<exists>x fe1. m fe = (Ok x, fe1) \<and> f x fe1 = (Ok y, fe')"
  by (auto simp: feBind_def split: prod.splits outcome.splits)

lemma feBind_OkE:
  assumes "feBind m f fe = (Ok y, fe')"
  obtains x fe1 where "m fe = (Ok x, fe1)" "f x fe1 = (Ok y, fe')"
  using feBind_Ok [OF assms] by blast

lemma feTry_Ok: "feTry m f g errText fe = (Ok y, fe') \<Longrightarrow>
    (\<exists>x fe1. m fe = (Ok x, fe1) \<and> f x fe1 = (Ok y, fe')) \<or> (\<exists>e fe1. m fe = (Fail e, fe1) \<and> g (errText e) fe1 = (Ok y, fe'))"
  by (auto simp: feTry_def split: prod.splits outcome.splits)

lemma priorTransactions_Cons:
  assumes "priorTransactions K errText exec receiptOf execRef target view rs applied (tx # txs) fe = (Ok r, fe')"
    "txHash tx \<noteq> target"
  shows "(\<exists>why. r = Inl (limited why rs)) \<or>
    (\<exists>fe3. priorTransactions K errText exec receiptOf execRef target view rs (applied @ [txHash tx]) txs fe3 = (Ok r, fe') \<and>
       (\<forall>before fe''. appliedPriors K exec receiptOf execRef view before fe3 fe'' \<longrightarrow>
         appliedPriors K exec receiptOf execRef view (tx # before) fe fe''))"
proof (cases "receiptOf (txHash tx)")
  case (Inl e)
  with assms show ?thesis by auto
next
  case (Inr receipt)
  let ?rest = "priorTransactions K errText exec receiptOf execRef target view rs (applied @ [txHash tx]) txs"
  let ?follow = "\<lambda>x. feBind (commitReplayReconstructionWrites K (xrCall x) (xrResult x)) (\<lambda>_.
      let comparison = CompareReplayToReceipt tx receipt (xrResult x) in
      if \<not> rmMatch comparison
      then feRet (Inl (limited (''prior transaction '' @ hexHash (txHash tx) @ '' replay mismatch on '' @
             (case rmFirstMismatch comparison of Some m \<Rightarrow> mmField m | None \<Rightarrow> [])) rs))
      else ?rest)"
  let ?run = "\<lambda>prepared. feBind (exec prepared) (\<lambda>x.
         if xrErr x \<noteq> None \<and> xrResult x = None
         then feRet (Inl (limited (''failed to execute prior transaction '' @ hexHash (txHash tx) @ '': '' @ the (xrErr x)) rs))
         else ?follow x)"
  from assms Inr consider
      (prepared) prepared fe1 where "prepareReplayTransactionWithState K tx receipt execRef view None fe = (Ok prepared, fe1)"
        "?run prepared fe1 = (Ok r, fe')"
    | (unprepared) why where "r = Inl (limited why rs)"
    by (auto dest!: feTry_Ok)
  then show ?thesis
  proof cases
    case prepared
    obtain x fe2 where x: "exec prepared fe1 = (Ok x, fe2)" and
      run: "(if xrErr x \<noteq> None \<and> xrResult x = None
         then feRet (Inl (limited (''failed to execute prior transaction '' @ hexHash (txHash tx) @ '': '' @ the (xrErr x)) rs))
         else ?follow x) fe2 = (Ok r, fe')"
      by (rule feBind_OkE [OF prepared(2)])
    show ?thesis
    proof (cases "xrErr x \<noteq> None \<and> xrResult x = None")
      case True
      with run show ?thesis by auto
    next
      case False
      with run have f: "?follow x fe2 = (Ok r, fe')" by auto
      obtain u fe3 where u: "commitReplayReconstructionWrites K (xrCall x) (xrResult x) fe2 = (Ok u, fe3)" and
        last: "(let comparison = CompareReplayToReceipt tx receipt (xrResult x) in
            if \<not> rmMatch comparison
            then feRet (Inl (limited (''prior transaction '' @ hexHash (txHash tx) @ '' replay mismatch on '' @
                   (case rmFirstMismatch comparison of Some m \<Rightarrow> mmField m | None \<Rightarrow> [])) rs))
            else ?rest) fe3 = (Ok r, fe')"
        by (rule feBind_OkE [OF f])
      show ?thesis
      proof (cases "rmMatch (CompareReplayToReceipt tx receipt (xrResult x))")
        case True
        then have "?rest fe3 = (Ok r, fe')" using last by simp
        moreover have "appliedPriors K exec receiptOf execRef view (tx # before) fe fe''"
          if "appliedPriors K exec receiptOf execRef view before fe3 fe''" for before fe''
          by (rule appliedPriors.applied [OF Inr prepared(1) x _ u True that]) (use False in simp)
        ultimately show ?thesis by blast
      next
        case False
        with last show ?thesis by auto
      qed
    qed
  next
    case unprepared
    then show ?thesis by blast
  qed
qed

lemma priorTransactions_found:
  assumes "priorTransactions K errText exec receiptOf execRef target view rs applied txs fe = (Ok (Inr (True, out)), fe')"
  shows "\<exists>before tx after. txs = before @ tx # after \<and> txHash tx = target \<and>
    (\<forall>t\<in>set before. txHash t \<noteq> target) \<and> out = applied @ map txHash before \<and>
    appliedPriors K exec receiptOf execRef view before fe fe'"
  using assms
proof (induction txs arbitrary: applied fe)
  case (Cons tx txs)
  show ?case
  proof (cases "txHash tx = target")
    case True
    with Cons.prems have "out = applied" "fe' = fe" by (simp_all add: feRet_def)
    with True have "tx # txs = [] @ tx # txs \<and> txHash tx = target \<and> (\<forall>t\<in>set []. txHash t \<noteq> target) \<and>
        out = applied @ map txHash [] \<and> appliedPriors K exec receiptOf execRef view [] fe fe'" by (simp add: appliedPriors.nothing)
    then show ?thesis by blast
  next
    case False
    obtain fe3 where rest: "priorTransactions K errText exec receiptOf execRef target view rs (applied @ [txHash tx]) txs fe3 =
        (Ok (Inr (True, out)), fe')"
      and more: "\<forall>before fe''. appliedPriors K exec receiptOf execRef view before fe3 fe'' \<longrightarrow>
         appliedPriors K exec receiptOf execRef view (tx # before) fe fe''"
      using priorTransactions_Cons [OF Cons.prems False] by blast
    obtain before t after where ih: "txs = before @ t # after" "txHash t = target"
      "\<forall>t\<in>set before. txHash t \<noteq> target" "out = (applied @ [txHash tx]) @ map txHash before"
      "appliedPriors K exec receiptOf execRef view before fe3 fe'"
      using Cons.IH [OF rest] by blast
    have "tx # txs = (tx # before) @ t # after \<and> txHash t = target \<and> (\<forall>t\<in>set (tx # before). txHash t \<noteq> target) \<and>
        out = applied @ map txHash (tx # before) \<and> appliedPriors K exec receiptOf execRef view (tx # before) fe fe'"
      using ih False more by auto
    then show ?thesis by blast
  qed
qed (simp add: feRet_def)

lemma priorTransactions_limited:
  "priorTransactions K errText exec receiptOf execRef target view rs applied txs fe = (Ok (Inl rs'), fe') \<Longrightarrow>
     \<exists>why. rs' = limited why rs"
proof (induction txs arbitrary: applied fe)
  case (Cons tx txs)
  then have "txHash tx \<noteq> target" by auto
  with priorTransactions_Cons [OF Cons.prems] Cons.IH show ?case by blast
qed simp

lemma reconstruct_result:
  assumes "reconstructPriorTransactions K errText exec receiptOf execRef target rs fe = (Ok rs', fe')" "rsExact rs"
  shows "rsExact rs' \<Longrightarrow> \<exists>blockTxs before tx after. pvBlockTransactions (feProvider fe) = Some blockTxs \<and>
      blockTxs execRef = Inr (before @ tx # after) \<and> txHash tx = txHash target \<and>
      (\<forall>t\<in>set before. txHash t \<noteq> txHash target) \<and> rsApplied rs' = map txHash before \<and>
      rsStateRef rs' = syntheticReplayStateBlockRef target \<and>
      appliedPriors K exec receiptOf execRef \<lparr>svCacheRef = syntheticReplayStateBlockRef target, svSourceRef = rsSourceRef rs\<rparr> before fe fe'"
    "\<not> rsExact rs' \<Longrightarrow> rsStateRef rs' = rsStateRef rs \<and> rsApplied rs' = rsApplied rs"
proof -
  let ?view = "\<lparr>svCacheRef = syntheticReplayStateBlockRef target, svSourceRef = rsSourceRef rs\<rparr>"
  from assms have *: "(\<exists>why. rs' = limited why rs) \<or>
    (\<exists>blockTxs txs applied. pvBlockTransactions (feProvider fe) = Some blockTxs \<and> blockTxs execRef = Inr txs \<and>
       rs' = rs\<lparr>rsStateRef := syntheticReplayStateBlockRef target, rsApplied := applied\<rparr> \<and>
       priorTransactions K errText exec receiptOf execRef (txHash target) ?view rs [] txs fe = (Ok (Inr (True, applied)), fe'))"
    by (auto simp: reconstructPriorTransactions_def feRet_def dest!: feBind_Ok dest: priorTransactions_limited
        split: option.splits sum.splits if_splits prod.splits)
  show "rsExact rs' \<Longrightarrow> \<exists>blockTxs before tx after. pvBlockTransactions (feProvider fe) = Some blockTxs \<and>
      blockTxs execRef = Inr (before @ tx # after) \<and> txHash tx = txHash target \<and>
      (\<forall>t\<in>set before. txHash t \<noteq> txHash target) \<and> rsApplied rs' = map txHash before \<and>
      rsStateRef rs' = syntheticReplayStateBlockRef target \<and> appliedPriors K exec receiptOf execRef ?view before fe fe'"
  proof -
    assume "rsExact rs'"
    with * obtain blockTxs txs applied where b: "pvBlockTransactions (feProvider fe) = Some blockTxs"
      "blockTxs execRef = Inr txs" "rs' = rs\<lparr>rsStateRef := syntheticReplayStateBlockRef target, rsApplied := applied\<rparr>"
      and p: "priorTransactions K errText exec receiptOf execRef (txHash target) ?view rs [] txs fe = (Ok (Inr (True, applied)), fe')"
      by (auto simp: limited_def)
    from b(3) have "rsApplied rs' = applied" "rsStateRef rs' = syntheticReplayStateBlockRef target" by simp_all
    with priorTransactions_found [OF p] b(1,2) show ?thesis by fastforce
  qed
  show "\<not> rsExact rs' \<Longrightarrow> rsStateRef rs' = rsStateRef rs \<and> rsApplied rs' = rsApplied rs"
    using * assms(2) by (auto simp: limited_def)
qed

subsection \<open>What a call leaves in the cache\<close>

lemma ApplyOverlay_empty [simp]: "ApplyOverlay K ref (Some ovNewState) c = c"
  by (simp add: ApplyOverlay_def ovNewState_def applySlots_def)

lemma cacheWrites_call:
  assumes "pcOverlay prepared = ovNewState" "\<not> pcCreate prepared" "\<forall>r. res = Some r \<longrightarrow> StateChanges r = None"
  shows "cacheWrites K prepared res c = c"
  using assms by (auto simp: cacheWrites_def ApplyStateDiff_def split: option.split)

lemma prepareCall_shape:
  assumes "prepareCallAgainstState K req view rs fe = (Ok prepared, fe')"
  shows "pcOverlay prepared = ovNewState" "\<not> pcCreate prepared" "pcStateRef prepared = svCacheRef view"
    "pfState (pcConfig prepared) = newForkAccountState (svCacheRef view) (svSourceRef view)"
    "pfCodeHash (pcConfig prepared) = K (pfCode (pcConfig prepared))"
  using assms by (auto simp: prepareCallAgainstState_def elim!: feBind_OkE)

lemma writeBack_account:
  "GetAccount a ref (writeBackAccount K ref base b c) = (if a = b then Some (baseSnapshot K base b) else GetAccount a ref c)"
  by (auto simp: writeBackAccount_def Let_def)

lemma writeBack_accounts:
  "GetAccount a ref (fold (writeBackAccount K ref base) xs c) =
     (if a \<in> set xs then Some (baseSnapshot K base a) else GetAccount a ref c)"
  by (induction xs arbitrary: c) (auto simp: writeBack_account)

lemma writeBack_slots_accounts:
  "GetAccount a ref (fold (\<lambda>(b, slots). fold (\<lambda>k. PutStorage b k ref' (f b k)) slots) m c) = GetAccount a ref c"
proof -
  have "GetAccount a ref (fold (\<lambda>k. PutStorage b k ref' (f b k)) slots c) = GetAccount a ref c" for b slots c
    by (induction slots arbitrary: c) auto
  then show ?thesis by (induction m arbitrary: c) auto
qed

lemma writeBack_GetAccount:
  "GetAccount a (pcStateRef p) (writeBackPreparedState K p c) =
     (if a \<in> set (faLoaded (pfState (pcConfig p))) then Some (baseSnapshot K (faBase (pfState (pcConfig p))) a)
      else GetAccount a (pcStateRef p) c)"
  by (simp add: writeBackPreparedState_def Let_def writeBack_slots_accounts writeBack_accounts)

text \<open>What a forked state seeds from a snapshot.\<close>

lemma reads_of_seed:
  assumes "accCell s a = seedCell K snap"
  shows "Balance a s = (case asBalance snap of Some b \<Rightarrow> b | None \<Rightarrow> 0)" "Nonce a s = asNonce snap" "accCode a s = asCode snap"
proof -
  have c: "accCell s a = accCell (seedAccount K a snap NewInMemoryAccountState) a"
    using assms by (simp add: accCell_seed accCell_New)
  show "Balance a s = (case asBalance snap of Some b \<Rightarrow> b | None \<Rightarrow> 0)" "Nonce a s = asNonce snap" "accCode a s = asCode snap"
    unfolding reads_by_cell [OF c]
    by (auto simp: seedAccount_def Let_def account_writes account_reads NewInMemoryAccountState_def split: option.split)
qed

text \<open>The next transaction starts from the accounts the previous one left.\<close>

lemma handover:
  assumes rel: "accRel K (answered \<circ> rem) st s" and same: "sameRemote K P rem st c"
    and p: "pfState (pcConfig p) = st" "pcStateRef p = faCacheRef st"
    and t: "t = preloaded K (answered \<circ> remoteAccount K P (faCacheRef st) (faSourceRef st) (writeBackPreparedState K p c))"
  shows "Balance a t = Balance a s \<and> Nonce a t = Nonce a s \<and> accCode a t = accCode a s"
proof (cases "a \<in> set (faLoaded st)")
  case True
  have "accCell (faBase st) a = accCell s a" using accLazy.rel_read [OF rel [unfolded accRel_def] True] .
  note base = reads_by_cell [OF this]
  have "accCell t a = seedCell K (baseSnapshot K (faBase st) a)"
    using True p by (simp add: t accCell_preloaded remoteAccount_def writeBack_GetAccount [where p = p, unfolded p] answered_def)
  from reads_of_seed [OF this] show ?thesis by (simp add: baseSnapshot_def base)
next
  case False
  have "accLazy.layer K (answered \<circ> rem) (accCell (faBase st)) (set (faLoaded st)) (accCell s)"
    using rel by (simp add: accRel_def accLazy.rel_def)
  then have s: "accCell s a = seedCell K (answered (rem a))" using False by (simp add: accLazy.layer_def)
  have "remoteAccount K P (faCacheRef st) (faSourceRef st) (writeBackPreparedState K p c) a = rem a"
    using False p same by (auto simp: remoteAccount_def sameRemote_def writeBack_GetAccount [where p = p, unfolded p])
  then have "accCell t a = accCell s a" by (simp add: t accCell_preloaded s)
  from reads_by_cell [OF this] show ?thesis by simp
qed

text \<open>A run keeps its references.\<close>

definition refsOf :: "forkAccountState \<Rightarrow> BlockRef \<times> BlockRef" where
  "refsOf st = (faCacheRef st, faSourceRef st)"

lemma refsOf_updates [simp]:
  "refsOf (st\<lparr>faBase := b\<rparr>) = refsOf st" "refsOf (st\<lparr>faLoaded := l\<rparr>) = refsOf st" "refsOf (st\<lparr>faSnapshots := x\<rparr>) = refsOf st"
  by (simp_all add: refsOf_def)

lemma faMustLoad_refs: "faMustLoad K P a st c = (r, st', c') \<Longrightarrow> refsOf st' = refsOf st"
  by (auto simp: faMustLoad_def faEnsureLoaded_def Let_def split: option.splits sum.splits if_splits)

lemma faRead_refs: "faRead f K P a st c = (r, st', c') \<Longrightarrow> refsOf st' = refsOf st"
  by (auto simp: faRead_def dest: faMustLoad_refs split: prod.splits outcome.splits)

lemma faWrite_refs: "faWrite f K P a st c = (r, st', c') \<Longrightarrow> refsOf st' = refsOf st"
  by (auto simp: faWrite_def dest: faMustLoad_refs split: prod.splits outcome.splits)

lemma mapOut_refs: "mapOut f x = (r, st', c') \<Longrightarrow> \<exists>r. x = (r, st', c')"
  by (cases x) (simp add: mapOut_def)

lemma faStep_refs:
  assumes "faStep K P p st c = (r, st', c')"
  shows "refsOf st' = refsOf st"
proof (cases p)
  case (AccRead rd a)
  with assms show ?thesis
    by (cases rd) (auto simp: fa_defs dest!: mapOut_refs dest: faRead_refs)
next
  case (AccWrite w a)
  with assms show ?thesis
    by (cases w) (auto simp: fa_defs dest!: mapOut_refs dest: faWrite_refs)
next
  case AccSnap
  with assms show ?thesis
    by (auto simp: faSnapshot_def Let_def split: prod.splits if_splits)
next
  case (AccRevert i)
  with assms show ?thesis by (auto simp: faRevertToSnapshot_def Let_def)
qed

lemma faRun_refs: "faRun K P ps st c = (r, st', c') \<Longrightarrow> refsOf st' = refsOf st"
proof (induction ps arbitrary: st c r)
  case (Cons p ps)
  obtain r1 st1 c1 where p: "faStep K P p st c = (r1, st1, c1)" by (cases "faStep K P p st c")
  have "refsOf st' = refsOf st1"
    using Cons.prems p Cons.IH by (cases r1) (auto dest!: mapOut_refs)
  with faStep_refs [OF p] show ?case by simp
qed simp

end
