(* ===== verification/SourceMap.thy ===== *)
theory SourceMap
  imports Text GoMaps JumpAnalysis
begin

text \<open>
  Solidity source maps (\<open>internal/srcmap/source_map.go\<close>, the source ranges and line tables of \<open>types.go\<close> and
  \<open>metadata.go\<close>): the instructions of a bytecode, the decoding of a compressed source map, positions in a
  source file. Go's \<open>int\<close> has 64 bits; sums are brought back into its range with \<open>wrap64\<close>.
\<close>

subsection \<open>Source ranges\<close>

record SourceRange =
  srcID :: int
  srcStart :: int
  srcLength :: int

definition rangeEnd :: "SourceRange \<Rightarrow> int" where
  "rangeEnd r = wrap64 (srcStart r + srcLength r)"

definition ContainsOffset :: "SourceRange \<Rightarrow> int \<Rightarrow> bool" where
  "ContainsOffset r offset = (offset \<ge> srcStart r \<and> offset < rangeEnd r)"

definition Overlaps :: "SourceRange \<Rightarrow> SourceRange \<Rightarrow> bool" where
  "Overlaps r other =
     (if srcID r \<noteq> srcID other then False
      else srcStart r < rangeEnd other \<and> srcStart other < rangeEnd r)"

definition rangeString :: "SourceRange \<Rightarrow> string" where
  "rangeString r = showInt (srcStart r) @ '':'' @ showInt (srcLength r) @ '':'' @ showInt (srcID r)"

text \<open>\<open>parseSourceRange\<close> of \<open>ast.go\<close>; \<open>None\<close> is its error.\<close>

definition parseSourceRange :: "string \<Rightarrow> SourceRange option" where
  "parseSourceRange value =
     (case splitOn CHR '':'' value of
        a # b # c # rest \<Rightarrow>
          (case (Atoi a, Atoi b, Atoi c) of
             (Some start, Some len, Some fileID) \<Rightarrow> Some \<lparr>srcID = fileID, srcStart = start, srcLength = len\<rparr>
           | _ \<Rightarrow> None)
      | _ \<Rightarrow> None)"

subsection \<open>Instructions\<close>

text \<open>The loop of \<open>decodeInstructionPCs\<close>.\<close>

function instructionPCs :: "bytes \<Rightarrow> nat \<Rightarrow> nat list" where
  "instructionPCs code p =
     (if p < length code
      then p # (let opc = code ! p in
             if opc \<ge> 0x60 \<and> opc \<le> 0x7F then instructionPCs code (p + 1 + unat (opc - 0x5F))
             else instructionPCs code (p + 1))
      else [])"
  by pat_completeness auto
termination
  by (relation "measure (\<lambda>(code, p). length code - p)") auto

declare instructionPCs.simps [simp del]

definition decodeInstructionPCs :: "bytes \<Rightarrow> nat list" where
  "decodeInstructionPCs code = instructionPCs code 0"

text \<open>What \<open>encoding/json\<close> puts into an \<open>any\<close>; of a number the whole part, which is all that is read of it. A syntax
  node keeps the document it was built from.\<close>

datatype AnyVal = AnyNil | AnyBool bool | AnyNum int | AnyString string | AnyList "AnyVal list" |
  AnyMap "(string \<times> AnyVal) list"

datatype ASTNode = ASTNode (nodeID: int) (nodeType: string) (nodeName: string) (nodeSrc: SourceRange)
  (nodeParent: int) (nodeChildren: "ASTNode list") (nodeRaw: "(string \<times> AnyVal) list")

record InstructionMapping =
  imIndex :: nat
  imPC :: u64
  imOpcode :: byte
  imPushBytes :: nat
  imSource :: SourceRange
  imJump :: string
  imModifierDepth :: int
  imAST :: "ASTNode option"

subsection \<open>Decoding a source map\<close>

record sourceMapState =
  smStart :: int
  smLength :: int
  smFileID :: int
  smJump :: string
  smModifierDepth :: int

definition JumpNone :: string where "JumpNone = ''-''"
definition JumpInto :: string where "JumpInto = ''i''"
definition JumpOut :: string where "JumpOut = ''o''"

definition initialSourceMapState :: sourceMapState where
  "initialSourceMapState = \<lparr>smStart = 0, smLength = 0, smFileID = -1, smJump = JumpNone, smModifierDepth = 0\<rparr>"

text \<open>The errors: more entries than instructions, and the field of an entry that is no number.\<close>

datatype srcmapError = TooManyEntries nat nat | BadNumber string | BadEntry nat srcmapError

text \<open>A numeric field: absent or empty keeps the previous value.\<close>

definition numField :: "string list \<Rightarrow> nat \<Rightarrow> int \<Rightarrow> srcmapError + int" where
  "numField parts k prev =
     (if k < length parts \<and> parts ! k \<noteq> []
      then case Atoi (parts ! k) of Some v \<Rightarrow> Inr v | None \<Rightarrow> Inl (BadNumber (parts ! k))
      else Inr prev)"

definition decodeSourceMapEntry :: "string \<Rightarrow> sourceMapState \<Rightarrow> srcmapError + sourceMapState" where
  "decodeSourceMapEntry entry prev =
     (if entry = [] then Inr prev
      else
        let parts = splitOn CHR '':'' entry in
        case numField parts 0 (smStart prev) of Inl e \<Rightarrow> Inl e | Inr start \<Rightarrow>
        (case numField parts 1 (smLength prev) of Inl e \<Rightarrow> Inl e | Inr len \<Rightarrow>
        (case numField parts 2 (smFileID prev) of Inl e \<Rightarrow> Inl e | Inr fileID \<Rightarrow>
        (let jump = (if length parts > 3 \<and> parts ! 3 \<noteq> [] then parts ! 3 else smJump prev) in
         case numField parts 4 (smModifierDepth prev) of Inl e \<Rightarrow> Inl e | Inr depth \<Rightarrow>
           Inr \<lparr>smStart = start, smLength = len, smFileID = fileID, smJump = jump, smModifierDepth = depth\<rparr>))))"

text \<open>Empty entries after the last instruction are dropped.\<close>

fun trimEntries :: "nat \<Rightarrow> string list \<Rightarrow> string list" where
  "trimEntries n parts =
     (if length parts > n \<and> parts \<noteq> [] \<and> last parts = [] then trimEntries n (butlast parts) else parts)"

declare trimEntries.simps [simp del]

definition pushBytes :: "byte \<Rightarrow> nat" where
  "pushBytes opc = (if opc \<ge> 0x60 \<and> opc \<le> 0x7F then unat (opc - 0x5F) else 0)"

definition mappingOf :: "nat \<Rightarrow> nat \<Rightarrow> byte \<Rightarrow> sourceMapState \<Rightarrow> InstructionMapping" where
  "mappingOf index p opc s =
     \<lparr>imIndex = index, imPC = of_nat p, imOpcode = opc, imPushBytes = pushBytes opc,
      imSource = \<lparr>srcID = smFileID s, srcStart = smStart s, srcLength = smLength s\<rparr>, imJump = smJump s,
      imModifierDepth = smModifierDepth s, imAST = None\<rparr>"

text \<open>The loop over the instructions: \<open>parts\<close> are the entries not read yet.\<close>

fun mapInstructions :: "bytes \<Rightarrow> nat \<Rightarrow> nat list \<Rightarrow> string list \<Rightarrow> sourceMapState \<Rightarrow> srcmapError + InstructionMapping list" where
  "mapInstructions code index [] parts s = Inr []"
| "mapInstructions code index (p # pcs) parts s =
     (case (case parts of [] \<Rightarrow> Inr s | entry # _ \<Rightarrow> decodeSourceMapEntry entry s) of
        Inl e \<Rightarrow> Inl (BadEntry index e)
      | Inr s \<Rightarrow>
          (case mapInstructions code (index + 1) pcs (tl parts) s of
             Inl e \<Rightarrow> Inl e
           | Inr ms \<Rightarrow> Inr (mappingOf index p (code ! p) s # ms)))"

definition ParseInstructionMappings :: "bytes \<Rightarrow> string \<Rightarrow> srcmapError + InstructionMapping list" where
  "ParseInstructionMappings code sourceMap =
     (let pcs = decodeInstructionPCs code in
      if sourceMap = []
      then Inr (map (\<lambda>(i, p).
             \<lparr>imIndex = i, imPC = of_nat p, imOpcode = code ! p, imPushBytes = 0,
              imSource = \<lparr>srcID = -1, srcStart = 0, srcLength = 0\<rparr>, imJump = JumpNone, imModifierDepth = 0, imAST = None\<rparr>)
             (enumerate 0 pcs))
      else
        let parts = trimEntries (length pcs) (splitOn CHR '';'' sourceMap) in
        if length parts > length pcs then Inl (TooManyEntries (length parts) (length pcs))
        else mapInstructions code 0 pcs parts initialSourceMapState)"

subsection \<open>Lines and columns\<close>

text \<open>A Go \<open>range\<close> over a string meets its runes with their byte offsets; the content of a file is given as the
  list of its runes, each with the number of bytes it takes.\<close>

type_synonym runes = "(nat \<times> nat) list"

definition contentLength :: "runes \<Rightarrow> nat" where
  "contentLength rs = sum_list (map snd rs)"

definition newline :: nat where "newline = 10"

fun offsetLoop :: "runes \<Rightarrow> nat \<Rightarrow> int \<Rightarrow> int \<Rightarrow> int \<Rightarrow> int \<Rightarrow> (int \<times> bool)" where
  "offsetLoop [] index line column currentLine currentColumn =
     (if currentLine = line \<and> currentColumn = column then (int index, True) else (0, False))"
| "offsetLoop ((r, width) # rs) index line column currentLine currentColumn =
     (if currentLine = line \<and> currentColumn = column then (int index, True)
      else if r = newline then offsetLoop rs (index + width) line column (currentLine + 1) 1
      else offsetLoop rs (index + width) line column currentLine (currentColumn + 1))"

definition OffsetForLineColumn :: "runes option \<Rightarrow> int \<Rightarrow> int \<Rightarrow> int \<times> bool" where
  "OffsetForLineColumn content line column =
     (case content of
        None \<Rightarrow> (0, False)
      | Some rs \<Rightarrow> if line \<le> 0 \<or> column \<le> 0 then (0, False) else offsetLoop rs 0 line column 1 1)"

fun positionLoop :: "runes \<Rightarrow> nat \<Rightarrow> int \<Rightarrow> int \<Rightarrow> int \<Rightarrow> int \<times> int" where
  "positionLoop [] index offset line column = (line, column)"
| "positionLoop ((r, width) # rs) index offset line column =
     (if int index \<ge> offset then (line, column)
      else if r = newline then positionLoop rs (index + width) offset (line + 1) 1
      else positionLoop rs (index + width) offset line (column + 1))"

definition LineColumnForOffset :: "runes option \<Rightarrow> int \<Rightarrow> int \<times> int" where
  "LineColumnForOffset content offset =
     (case content of
        None \<Rightarrow> (1, 1)
      | Some rs \<Rightarrow>
          if offset \<le> 0 then (1, 1)
          else positionLoop rs 0 (if offset > int (contentLength rs) then int (contentLength rs) else offset) 1 1)"

subsection \<open>The instructions of a bytecode are its instruction boundaries\<close>

lemma instructionPCs_width: "instructionPCs code p =
    (if p < length code then p # instructionPCs code (p + opWidth (code ! p)) else [])"
proof -
  have "unat (opc - 0x5F) + 1 = unat (opc - 0x60) + 2" if le: "0x60 \<le> opc" for opc :: byte
  proof -
    have "unat (0x60 :: byte) \<le> unat opc" using le by (simp add: word_le_nat_alt)
    then have n: "96 \<le> unat opc" by simp
    then have "(0x5F :: byte) \<le> opc" by (simp add: word_le_nat_alt)
    then have "unat (opc - 0x5F) = unat opc - 95" by (simp add: unat_sub)
    moreover have "unat (opc - 0x60) = unat opc - 96" using le by (simp add: unat_sub)
    ultimately show ?thesis using n by simp
  qed
  then show ?thesis by (subst instructionPCs.simps) (auto simp: Let_def opWidth_def algebra_simps)
qed

lemma instructionPCs_set: "set (instructionPCs code p) = {j. startsFrom code p j \<and> j < length code}"
proof (induction "length code - p" arbitrary: p rule: less_induct)
  case less
  show ?case
  proof (cases "p < length code")
    case True
    then have "set (instructionPCs code (p + opWidth (code ! p))) =
        {j. startsFrom code (p + opWidth (code ! p)) j \<and> j < length code}"
      using opWidth_pos [of "code ! p"] by (intro less.hyps) auto
    then show ?thesis using True
      by (subst instructionPCs_width) (auto simp: startsFrom_iff [of code p])
  next
    case False
    then show ?thesis by (subst instructionPCs_width) (auto dest: startsFrom_ge)
  qed
qed

lemma instructionPCs_sorted: "sorted_wrt (<) (instructionPCs code p)"
proof (induction "length code - p" arbitrary: p rule: less_induct)
  case less
  show ?case
  proof (cases "p < length code")
    case True
    then have "sorted_wrt (<) (instructionPCs code (p + opWidth (code ! p)))"
      using opWidth_pos [of "code ! p"] by (intro less.hyps) auto
    moreover have "p < j" if "j \<in> set (instructionPCs code (p + opWidth (code ! p)))" for j
      using that opWidth_pos [of "code ! p"] by (auto simp: instructionPCs_set dest!: startsFrom_ge)
    ultimately show ?thesis using True by (subst instructionPCs_width) auto
  qed (subst instructionPCs_width, simp)
qed

lemma decodeInstructionPCs_boundaries:
  "decodeInstructionPCs code = filter (isBoundary code) [0..<length code]"
proof (rule sorted_distinct_set_unique)
  show "sorted (decodeInstructionPCs code)" "distinct (decodeInstructionPCs code)"
    using instructionPCs_sorted [of code 0] by (auto simp: decodeInstructionPCs_def strict_sorted_iff)
  show "sorted (filter (isBoundary code) [0..<length code])" by (simp add: sorted_wrt_filter)
  show "distinct (filter (isBoundary code) [0..<length code])" by simp
  show "set (decodeInstructionPCs code) = set (filter (isBoundary code) [0..<length code])"
    by (auto simp: decodeInstructionPCs_def instructionPCs_set isBoundary_def)
qed

subsection \<open>Compressed entries\<close>

text \<open>How a compiler writes an entry: a field that repeats the previous instruction's is left out, and so are the
  separators after the last field written.\<close>

definition writeField :: "'a \<Rightarrow> 'a \<Rightarrow> string \<Rightarrow> string" where
  "writeField prev cur text = (if prev = cur then [] else text)"

definition entryFields :: "sourceMapState \<Rightarrow> sourceMapState \<Rightarrow> string list" where
  "entryFields prev s =
     [writeField (smStart prev) (smStart s) (showInt (smStart s)), writeField (smLength prev) (smLength s) (showInt (smLength s)),
      writeField (smFileID prev) (smFileID s) (showInt (smFileID s)), writeField (smJump prev) (smJump s) (smJump s),
      writeField (smModifierDepth prev) (smModifierDepth s) (showInt (smModifierDepth s))]"

definition dropTrailing :: "string list \<Rightarrow> string list" where
  "dropTrailing fs = rev (dropWhile (\<lambda>f. f = []) (rev fs))"

definition compressEntry :: "sourceMapState \<Rightarrow> sourceMapState \<Rightarrow> string" where
  "compressEntry prev s = joinWith CHR '':'' (dropTrailing (entryFields prev s))"

fun compressAll :: "sourceMapState \<Rightarrow> sourceMapState list \<Rightarrow> string list" where
  "compressAll prev [] = []"
| "compressAll prev (s # ss) = compressEntry prev s # compressAll s ss"

definition compress :: "sourceMapState list \<Rightarrow> string" where
  "compress ss = joinWith CHR '';'' (compressAll initialSourceMapState ss)"

text \<open>The states a source map can hold: 64-bit numbers, and a jump marker without separators.\<close>

definition writable :: "sourceMapState \<Rightarrow> bool" where
  "writable s \<longleftrightarrow> isInt64 (smStart s) \<and> isInt64 (smLength s) \<and> isInt64 (smFileID s) \<and> isInt64 (smModifierDepth s) \<and>
     smJump s \<noteq> [] \<and> CHR '':'' \<notin> set (smJump s) \<and> CHR '';'' \<notin> set (smJump s)"

lemma dropTrailing_append: "\<exists>k. fs = dropTrailing fs @ replicate k []"
proof -
  have "rev fs = takeWhile (\<lambda>f. f = []) (rev fs) @ dropWhile (\<lambda>f. f = []) (rev fs)" by simp
  then have "fs = dropTrailing fs @ rev (takeWhile (\<lambda>f. f = []) (rev fs))"
    by (metis dropTrailing_def rev_append rev_rev_ident)
  moreover have "rev (takeWhile (\<lambda>f. f = []) (rev fs)) = replicate (length (takeWhile (\<lambda>f. f = []) (rev fs))) []"
    by (metis (mono_tags, lifting) length_rev replicate_eqI set_rev set_takeWhileD)
  ultimately show ?thesis by metis
qed

lemma dropTrailing_nth:
  "(if i < length (dropTrailing fs) then dropTrailing fs ! i else []) = (if i < length fs then fs ! i else [])"
proof -
  obtain k where k: "fs = dropTrailing fs @ replicate k []" using dropTrailing_append by blast
  show ?thesis by (subst (3 4) k) (auto simp: nth_append)
qed

lemma set_dropTrailing: "set (dropTrailing fs) \<subseteq> set fs"
  by (auto simp: dropTrailing_def dest: set_dropWhileD)

definition fieldAt :: "string list \<Rightarrow> nat \<Rightarrow> string" where
  "fieldAt fs k = (if k < length fs then fs ! k else [])"

lemma numField_fieldAt:
  "numField fs k prev = (if fieldAt fs k = [] then Inr prev
     else case Atoi (fieldAt fs k) of Some v \<Rightarrow> Inr v | None \<Rightarrow> Inl (BadNumber (fieldAt fs k)))"
proof (cases "k < length fs \<and> fs ! k \<noteq> []")
  case True
  then have e: "fieldAt fs k = fs ! k" by (simp add: fieldAt_def)
  show ?thesis unfolding e using True by (simp add: numField_def)
qed (auto simp: numField_def fieldAt_def)

lemma writeField_Nil_iff: "text \<noteq> [] \<Longrightarrow> writeField prev cur text = [] \<longleftrightarrow> prev = cur"
  by (simp add: writeField_def)

lemma writeField_num:
  "isInt64 cur \<Longrightarrow> fieldAt fs k = writeField prev cur (showInt cur) \<Longrightarrow> numField fs k prev = Inr cur"
  by (simp add: numField_fieldAt writeField_def Atoi_showInt)

lemma fields_no_sep:
  assumes "writable s" "f \<in> set (entryFields prev s)"
  shows "CHR '':'' \<notin> set f" "CHR '';'' \<notin> set f"
  using assms by (auto simp: entryFields_def writeField_def writable_def showInt_no_sep split: if_splits)

lemma joinWith_Nil_iff: "joinWith sep fs = [] \<longleftrightarrow> fs = [] \<or> fs = [[]]"
  by (induction sep fs rule: joinWith.induct) auto

lemma last_dropTrailing: "dropTrailing fs \<noteq> [] \<Longrightarrow> last (dropTrailing fs) \<noteq> []"
  unfolding dropTrailing_def using hd_dropWhile [of "\<lambda>f. f = []" "rev fs"] by (auto simp: last_rev)

lemma decode_compress:
  assumes "writable s"
  shows "decodeSourceMapEntry (compressEntry prev s) prev = Inr s"
proof -
  let ?fs = "dropTrailing (entryFields prev s)"
  have at: "fieldAt ?fs k = fieldAt (entryFields prev s) k" for k
    using dropTrailing_nth by (simp add: fieldAt_def)
  have f0: "fieldAt ?fs 0 = writeField (smStart prev) (smStart s) (showInt (smStart s))"
    and f1: "fieldAt ?fs 1 = writeField (smLength prev) (smLength s) (showInt (smLength s))"
    and f2: "fieldAt ?fs 2 = writeField (smFileID prev) (smFileID s) (showInt (smFileID s))"
    and f3: "fieldAt ?fs 3 = writeField (smJump prev) (smJump s) (smJump s)"
    and f4: "fieldAt ?fs 4 = writeField (smModifierDepth prev) (smModifierDepth s) (showInt (smModifierDepth s))"
    unfolding at by (simp_all add: fieldAt_def entryFields_def)
  have jump: "(if length ?fs > 3 \<and> ?fs ! 3 \<noteq> [] then ?fs ! 3 else smJump prev) = smJump s"
    using f3 assms by (auto simp: fieldAt_def writeField_def writable_def split: if_splits)
  show ?thesis
  proof (cases "?fs = []")
    case True
    then have all: "fieldAt ?fs k = []" for k by (simp add: fieldAt_def)
    have "prev = s"
      using f0 f1 f2 f3 f4 assms unfolding all writable_def
      by (metis (full_types) sourceMapState.equality old.unit.exhaust showInt_not_Nil writeField_Nil_iff)
    then show ?thesis using True by (simp add: decodeSourceMapEntry_def compressEntry_def)
  next
    case False
    have "?fs \<noteq> [[]]" using last_dropTrailing [OF False] by auto
    then have ne: "compressEntry prev s \<noteq> []" using False by (simp add: compressEntry_def joinWith_Nil_iff)
    have parts: "splitOn CHR '':'' (compressEntry prev s) = ?fs"
      unfolding compressEntry_def using False fields_no_sep [OF assms] set_dropTrailing
      by (intro splitOn_joinWith) blast+
    have nums: "numField ?fs 0 (smStart prev) = Inr (smStart s)" "numField ?fs 1 (smLength prev) = Inr (smLength s)"
      "numField ?fs 2 (smFileID prev) = Inr (smFileID s)" "numField ?fs 4 (smModifierDepth prev) = Inr (smModifierDepth s)"
      using assms f0 f1 f2 f4 by (auto simp: writable_def intro: writeField_num)
    show ?thesis
      by (simp only: decodeSourceMapEntry_def parts ne Let_def if_False jump nums sum.case) simp
  qed
qed

lemma compressEntry_no_sep: "writable s \<Longrightarrow> CHR '';'' \<notin> set (compressEntry prev s)"
proof -
  assume w: "writable s"
  have "sep \<notin> set (joinWith CHR '':'' fs)" if "\<forall>f\<in>set fs. sep \<notin> set f" "sep \<noteq> CHR '':''" for sep fs
    using that by (induction "CHR '':''" fs rule: joinWith.induct) auto
  then show ?thesis unfolding compressEntry_def
    using fields_no_sep(2) [OF w] set_dropTrailing by blast
qed

lemma compressAll_no_sep: "\<forall>s\<in>set ss. writable s \<Longrightarrow> \<forall>p\<in>set (compressAll prev ss). CHR '';'' \<notin> set p"
  by (induction prev ss rule: compressAll.induct) (auto simp: compressEntry_no_sep)

lemma length_compressAll [simp]: "length (compressAll prev ss) = length ss"
  by (induction prev ss rule: compressAll.induct) auto

lemma mapInstructions_compressAll:
  "length ss = length ps \<Longrightarrow> \<forall>s\<in>set ss. writable s \<Longrightarrow>
   mapInstructions code index ps (compressAll prev ss) prev =
     Inr (map2 (\<lambda>(i, p) s. mappingOf i p (code ! p) s) (enumerate index ps) ss)"
proof (induction ss arbitrary: index ps prev)
  case (Cons s ss)
  then obtain p qs where ps: "ps = p # qs" "length ss = length qs" by (cases ps) auto
  with Cons.prems(2) show ?case by (simp add: decode_compress Cons.IH)
qed simp

lemma compress_round_trip:
  assumes "length ss = length (decodeInstructionPCs code)" "\<forall>s\<in>set ss. writable s" "compress ss \<noteq> []"
  shows "ParseInstructionMappings code (compress ss) =
    Inr (map2 (\<lambda>(i, p) s. mappingOf i p (code ! p) s) (enumerate 0 (decodeInstructionPCs code)) ss)"
proof -
  have "compressAll initialSourceMapState ss \<noteq> []" using assms(3) by (auto simp: compress_def)
  then have "splitOn CHR '';'' (compress ss) = compressAll initialSourceMapState ss"
    unfolding compress_def using compressAll_no_sep [OF assms(2)] by (intro splitOn_joinWith) auto
  moreover have "trimEntries (length ss) (compressAll initialSourceMapState ss) = compressAll initialSourceMapState ss"
    by (subst trimEntries.simps) simp
  ultimately show ?thesis
    using assms mapInstructions_compressAll [OF assms(1,2)]
    by (simp add: ParseInstructionMappings_def Let_def)
qed

subsection \<open>Positions and offsets\<close>

lemma positionLoop_mono:
  "positionLoop rs index offset line column = (l, c) \<Longrightarrow> line < l \<or> line = l \<and> column \<le> c"
  by (induction rs index offset line column rule: positionLoop.induct) (fastforce split: if_splits)+

lemma positionLoop_pos:
  "positionLoop rs index offset line column = (l, c) \<Longrightarrow> 0 < line \<Longrightarrow> 0 < column \<Longrightarrow> 0 < l \<and> 0 < c"
  by (induction rs index offset line column rule: positionLoop.induct) (auto split: if_splits)

lemma offsetLoop_positionLoop:
  "\<forall>r\<in>set rs. 0 < snd r \<Longrightarrow> k \<le> length rs \<Longrightarrow>
   positionLoop rs index (int (index + contentLength (take k rs))) line column = (l, c) \<Longrightarrow>
   offsetLoop rs index l c line column = (int (index + contentLength (take k rs)), True)"
proof (induction rs arbitrary: k index line column)
  case Nil
  then show ?case by (simp add: contentLength_def)
next
  case (Cons r rs)
  obtain ch w where r: "r = (ch, w)" by (cases r)
  show ?case
  proof (cases k)
    case 0
    with Cons.prems show ?thesis by (simp add: contentLength_def r)
  next
    case (Suc k')
    let ?line = "if ch = newline then line + 1 else line" and ?column = "if ch = newline then 1 else column + 1"
    have w: "0 < w" using Cons.prems(1) by (simp add: r)
    have off: "index + contentLength (take k (r # rs)) = index + w + contentLength (take k' rs)"
      by (simp add: Suc contentLength_def r)
    have pos: "positionLoop rs (index + w) (int (index + w + contentLength (take k' rs))) ?line ?column = (l, c)"
      using Cons.prems(3) w unfolding off by (simp add: r split: if_splits)
    have "\<not> (line = l \<and> column = c)" using positionLoop_mono [OF pos] by (auto split: if_splits)
    moreover have "offsetLoop rs (index + w) l c ?line ?column = (int (index + w + contentLength (take k' rs)), True)"
      using Cons.prems by (intro Cons.IH pos) (auto simp: Suc)
    ultimately show ?thesis unfolding off by (auto simp: r split: if_splits)
  qed
qed

lemma line_column_round_trip:
  assumes widths: "\<forall>r\<in>set rs. 0 < snd r" and k: "k \<le> length rs"
    and pos: "LineColumnForOffset (Some rs) (int (contentLength (take k rs))) = (l, c)"
  shows "OffsetForLineColumn (Some rs) l c = (int (contentLength (take k rs)), True)"
proof -
  have le: "contentLength (take k rs) \<le> contentLength rs"
    by (metis append_take_drop_id contentLength_def le_add1 map_append sum_list_append)
  have "positionLoop rs 0 (int (0 + contentLength (take k rs))) 1 1 = (l, c)"
    using pos le by (cases rs; cases k) (auto simp: LineColumnForOffset_def contentLength_def split: if_splits)
  then show ?thesis
    using offsetLoop_positionLoop [OF widths k] positionLoop_pos
    by (fastforce simp: OffsetForLineColumn_def)
qed

subsection \<open>The parsed instructions\<close>

lemma mapInstructions_shape:
  "mapInstructions code index ps parts s = Inr ms \<Longrightarrow>
   map imPC ms = map of_nat ps \<and> map imOpcode ms = map ((!) code) ps \<and> map imIndex ms = [index..<index + length ps]"
proof (induction code index ps parts s arbitrary: ms rule: mapInstructions.induct)
  case (2 code index p pcs parts s)
  then show ?case
    by (fastforce simp: mappingOf_def upt_conv_Cons simp del: upt_Suc split: sum.splits)
qed simp

lemma ParseInstructionMappings_shape:
  assumes "ParseInstructionMappings code sourceMap = Inr ms"
  shows "map imPC ms = map of_nat (decodeInstructionPCs code)" "map imOpcode ms = map ((!) code) (decodeInstructionPCs code)"
    "map imIndex ms = [0..<length (decodeInstructionPCs code)]"
proof -
  have "map imPC ms = map of_nat (decodeInstructionPCs code) \<and> map imOpcode ms = map ((!) code) (decodeInstructionPCs code) \<and>
    map imIndex ms = [0..<length (decodeInstructionPCs code)]"
    using assms mapInstructions_shape [of code 0 "decodeInstructionPCs code" _ initialSourceMapState ms]
    by (auto simp: ParseInstructionMappings_def Let_def case_prod_unfold comp_def enumerate_eq_zip map_snd_zip_take
          split: if_splits simp flip: map_map [of of_nat snd, unfolded comp_def] map_map [of "(!) code" snd, unfolded comp_def])
  then show "map imPC ms = map of_nat (decodeInstructionPCs code)" "map imOpcode ms = map ((!) code) (decodeInstructionPCs code)"
    "map imIndex ms = [0..<length (decodeInstructionPCs code)]" by simp_all
qed

end
