(* ===== verification/SourceIndex.thy ===== *)
theory SourceIndex
  imports SourceMap "HOL-Library.Product_Lexorder" "HOL-Library.Multiset"
begin

text \<open>
  The source index (\<open>internal/srcmap\<close>: \<open>types.go\<close>, \<open>ast.go\<close>, \<open>index.go\<close>, \<open>metadata.go\<close>, \<open>solc.go\<close>, \<open>runtime.go\<close>): the
  syntax trees and tables built from a compiler's output, the lookups in them, and the annotation of memory and
  storage accesses. The output is taken decoded: \<open>standardJSON\<close> is the structure \<open>encoding/json\<close> fills. Pointers to
  files, nodes and entries stand for what they point to, which is never changed once the index is built.
\<close>

subsection \<open>Syntax trees\<close>

definition anyField :: "(string, AnyVal) gomap \<Rightarrow> string \<Rightarrow> AnyVal" where
  "anyField raw k = mread AnyNil raw k"

fun asString :: "AnyVal \<Rightarrow> string" where
  "asString (AnyString s) = s"
| "asString _ = []"

fun asInt :: "AnyVal \<Rightarrow> int option" where
  "asInt (AnyNum n) = Some n"
| "asInt (AnyString s) = Atoi s"
| "asInt _ = None"

fun firstNonEmptyString :: "(string, AnyVal) gomap \<Rightarrow> string list \<Rightarrow> string" where
  "firstNonEmptyString raw [] = []"
| "firstNonEmptyString raw (k # ks) =
     (let value = asString (anyField raw k) in if value \<noteq> [] then value else firstNonEmptyString raw ks)"

definition hasID :: "(string, AnyVal) gomap \<Rightarrow> bool" where
  "hasID m = (map_of m ''id'' \<noteq> None)"

fun objectsWithID :: "AnyVal list \<Rightarrow> (string, AnyVal) gomap list" where
  "objectsWithID [] = []"
| "objectsWithID (AnyMap m # vs) = (if hasID m then m # objectsWithID vs else objectsWithID vs)"
| "objectsWithID (v # vs) = objectsWithID vs"

fun childrenOfValue :: "AnyVal \<Rightarrow> (string, AnyVal) gomap list" where
  "childrenOfValue (AnyMap m) = (if hasID m then [m] else [])"
| "childrenOfValue (AnyList vs) = objectsWithID vs"
| "childrenOfValue _ = []"

definition collectChildObjects :: "(string, AnyVal) gomap \<Rightarrow> (string, AnyVal) gomap list" where
  "collectChildObjects raw = concat (map (\<lambda>(k, v). childrenOfValue v) raw)"

lemma size_objectsWithID: "m \<in> set (objectsWithID vs) \<Longrightarrow> AnyMap m \<in> set vs"
  by (induction vs rule: objectsWithID.induct) (auto split: if_splits)

lemma size_child:
  assumes "m \<in> set (collectChildObjects raw)"
  shows "size (AnyMap m) < size (AnyMap raw)"
proof -
  obtain k v where kv: "(k, v) \<in> set raw" "m \<in> set (childrenOfValue v)"
    using assms by (auto simp: collectChildObjects_def)
  have "size (AnyMap m) \<le> size v"
  proof (cases v)
    case (AnyList vs)
    with kv(2) have "AnyMap m \<in> set vs" by (simp add: size_objectsWithID)
    from size_list_estimation' [OF this order_refl, of size] show ?thesis by (simp add: AnyList)
  qed (use kv(2) in \<open>simp_all split: if_splits\<close>)
  moreover have "size v < size (AnyMap raw)"
    using size_list_estimation' [OF kv(1) order_refl, of "\<lambda>p. size_prod (\<lambda>x. 0) size p"] by simp
  ultimately show ?thesis by simp
qed

function buildASTNode :: "(string, AnyVal) gomap \<Rightarrow> int \<Rightarrow> ASTNode option" where
  "buildASTNode raw parentID =
     (case asInt (anyField raw ''id'') of
        None \<Rightarrow> None
      | Some nid \<Rightarrow>
          Some (ASTNode nid (asString (anyField raw ''nodeType'')) (firstNonEmptyString raw [''name'', ''canonicalName'', ''memberName''])
            (case parseSourceRange (asString (anyField raw ''src'')) of
               None \<Rightarrow> \<lparr>srcID = -1, srcStart = 0, srcLength = 0\<rparr>
             | Some src \<Rightarrow> src)
            parentID
            (concat (map (\<lambda>child. case buildASTNode child nid of None \<Rightarrow> [] | Some n \<Rightarrow> [n]) (collectChildObjects raw)))
            raw))"
  by pat_completeness auto
termination
  by (relation "measure (\<lambda>(raw, p). size (AnyMap raw))") (auto dest: size_child simp del: AnyVal.size)

declare buildASTNode.simps [simp del]

definition parseAST :: "(string, AnyVal) gomap \<Rightarrow> ASTNode option" where
  "parseAST raw = (if raw = [] then None else buildASTNode raw 0)"

text \<open>\<open>walkAST\<close>: the nodes in the order they are visited.\<close>

fun walkAST :: "ASTNode \<Rightarrow> ASTNode list" where
  "walkAST (ASTNode i ty nm src par cs raw) = ASTNode i ty nm src par cs raw # concat (map walkAST cs)"

subsection \<open>Sources and storage layouts\<close>

record SourceFile =
  sfID :: int
  sfName :: string
  sfContent :: runes
  sfGenerated :: bool
  sfLanguage :: string
  sfAST :: "ASTNode option"

record StorageEntry =
  seASTID :: int
  seContract :: string
  seLabel :: string
  seOffset :: int
  seSlot :: string
  seType :: string

record StorageType =
  stEncoding :: string
  stLabel :: string
  stNumberOfBytes :: string
  stBase :: string
  stKey :: string
  stValue :: string
  stMembers :: "StorageEntry list"

record StorageLayout =
  slStorage :: "StorageEntry list"
  slTypes :: "(string, StorageType) gomap"

datatype StorageScope = StorageScopePersistent | StorageScopeTransient

record StorageVariableMapping =
  svEntry :: StorageEntry
  svType :: StorageType
  svAST :: "ASTNode option"
  svRoot :: SourceRange
  svScope :: StorageScope

definition zeroStorageType :: StorageType where
  "zeroStorageType = \<lparr>stEncoding = [], stLabel = [], stNumberOfBytes = [], stBase = [], stKey = [], stValue = [], stMembers = []\<rparr>"

definition parseSlotValue :: "string \<Rightarrow> int" where
  "parseSlotValue slot =
     (let trimmed = TrimSpace slot in
      if trimmed = [] then 0
      else
        let (digits, base) = (if HasPrefix trimmed ''0x'' \<or> HasPrefix trimmed ''0X'' then (drop 2 trimmed, 16) else (trimmed, 10)) in
        case SetString base digits of None \<Rightarrow> 0 | Some v \<Rightarrow> v)"

subsection \<open>Contract metadata\<close>

record BuildConfig =
  bcSourceName :: string
  bcContractName :: string
  bcRuntime :: bool

datatype ABIParameter = ABIParameter (apName: string) (apType: string) (apInternalType: string)
  (apComponents: "ABIParameter list") (apIndexed: bool)

record ABIEntry =
  aeType :: string
  aeName :: string
  aeStateMutability :: string
  aeAnonymous :: bool
  aeInputs :: "ABIParameter list"
  aeOutputs :: "ABIParameter list"

record EventDefinition =
  edName :: string
  edAnonymous :: bool
  edInputs :: "ABIParameter list"

record FunctionDefinition =
  fdType :: string
  fdName :: string
  fdStateMutability :: string
  fdInputs :: "ABIParameter list"
  fdOutputs :: "ABIParameter list"

record FunctionDebugInfo =
  fiName :: string
  fiEntryPoint :: u64
  fiHasEntryPoint :: bool
  fiID :: int
  fiParameterSlots :: int
  fiReturnSlots :: int

record ImmutableReferenceSegment =
  irStart :: u64
  irLength :: u64

record ContractMetadata =
  cmBuild :: BuildConfig
  cmPersistentStorage :: "StorageVariableMapping list"
  cmTransientStorage :: "StorageVariableMapping list"
  cmABI :: "ABIEntry list"
  cmFunctions :: "FunctionDefinition list"
  cmEvents :: "EventDefinition list"

definition isFunctionEntry :: "ABIEntry \<Rightarrow> bool" where
  "isFunctionEntry e = (ToLower (aeType e) \<in> {''function'', ''constructor'', ''fallback'', ''receive'', ''error''})"

definition isEventEntry :: "ABIEntry \<Rightarrow> bool" where
  "isEventEntry e = (ToLower (aeType e) = ''event'')"

fun deriveABIMetadata :: "ABIEntry list \<Rightarrow> FunctionDefinition list \<times> EventDefinition list" where
  "deriveABIMetadata [] = ([], [])"
| "deriveABIMetadata (e # es) =
     (let (functions, events) = deriveABIMetadata es in
      if isFunctionEntry e
      then (\<lparr>fdType = aeType e, fdName = aeName e, fdStateMutability = aeStateMutability e, fdInputs = aeInputs e,
             fdOutputs = aeOutputs e\<rparr> # functions, events)
      else if isEventEntry e
      then (functions, \<lparr>edName = aeName e, edAnonymous = aeAnonymous e, edInputs = aeInputs e\<rparr> # events)
      else (functions, events))"

subsection \<open>The index\<close>

record SourceIndex =
  ixBuild :: BuildConfig
  ixSources :: "(int, SourceFile) gomap"
  ixInstructions :: "InstructionMapping list"
  ixInstructionByPC :: "(u64, InstructionMapping) gomap"
  ixNodesByID :: "(int, ASTNode) gomap"
  ixNodesBySourceID :: "(int, ASTNode list) gomap"
  ixStorageVariables :: "StorageVariableMapping list"
  ixTransientVariables :: "StorageVariableMapping list"
  ixPersistentLayout :: StorageLayout
  ixTransientLayout :: StorageLayout
  ixABI :: "ABIEntry list"
  ixFunctions :: "FunctionDefinition list"
  ixEvents :: "EventDefinition list"
  ixCreationBytecode :: bytes
  ixRuntimeBytecode :: bytes
  ixGeneratedSourceIDs :: "int list"
  ixFunctionDebugData :: "(string, FunctionDebugInfo) gomap"
  ixFunctionDebugByID :: "(int, FunctionDebugInfo) gomap"
  ixFunctionDebugByEntry :: "(u64, FunctionDebugInfo) gomap"
  ixImmutableReferences :: "(string, ImmutableReferenceSegment list) gomap"

text \<open>The two assignments of \<open>indexASTs\<close> for one node, and its loops.\<close>

definition indexNode :: "ASTNode \<Rightarrow> SourceIndex \<Rightarrow> SourceIndex" where
  "indexNode node idx =
     (let sid = srcID (nodeSrc node) in
      idx\<lparr>ixNodesByID := mput (nodeID node) node (ixNodesByID idx),
          ixNodesBySourceID := mput sid (mread [] (ixNodesBySourceID idx) sid @ [node]) (ixNodesBySourceID idx)\<rparr>)"

definition indexASTs :: "SourceIndex \<Rightarrow> SourceIndex" where
  "indexASTs idx =
     fold (\<lambda>(i, file) idx. case sfAST file of None \<Rightarrow> idx | Some root \<Rightarrow> fold indexNode (walkAST root) idx) (ixSources idx) idx"

definition covers :: "ASTNode \<Rightarrow> SourceRange \<Rightarrow> bool" where
  "covers node src = (srcID (nodeSrc node) = srcID src \<and> \<not> (srcStart (nodeSrc node) > srcStart src \<or> rangeEnd (nodeSrc node) < rangeEnd src))"

fun deepestLoop :: "SourceRange \<Rightarrow> ASTNode list \<Rightarrow> ASTNode option \<Rightarrow> ASTNode option" where
  "deepestLoop src [] best = best"
| "deepestLoop src (node # nodes) best =
     (if \<not> covers node src then deepestLoop src nodes best
      else case best of
        None \<Rightarrow> deepestLoop src nodes (Some node)
      | Some b \<Rightarrow> if srcLength (nodeSrc node) < srcLength (nodeSrc b) then deepestLoop src nodes (Some node) else deepestLoop src nodes best)"

definition deepestNodeAt :: "SourceIndex \<Rightarrow> SourceRange \<Rightarrow> ASTNode option" where
  "deepestNodeAt idx src = deepestLoop src (mread [] (ixNodesBySourceID idx) (srcID src)) None"

text \<open>\<open>sort.Slice\<close> orders by the slot; it leaves the order of entries with the same slot open, here they keep theirs.\<close>

definition storageVariable :: "SourceIndex \<Rightarrow> StorageLayout \<Rightarrow> StorageScope \<Rightarrow> StorageEntry \<Rightarrow> StorageVariableMapping" where
  "storageVariable idx layout scope entry =
     (let ast = map_of (ixNodesByID idx) (seASTID entry) in
      \<lparr>svEntry = entry, svType = mread zeroStorageType (slTypes layout) (seType entry), svAST = ast,
       svRoot = (case ast of None \<Rightarrow> \<lparr>srcID = -1, srcStart = 0, srcLength = 0\<rparr> | Some n \<Rightarrow> nodeSrc n), svScope = scope\<rparr>)"

definition variableSlot :: "StorageVariableMapping \<Rightarrow> int" where
  "variableSlot v = parseSlotValue (seSlot (svEntry v))"

definition buildStorageVariables :: "SourceIndex \<Rightarrow> StorageLayout \<Rightarrow> StorageScope \<Rightarrow> StorageVariableMapping list" where
  "buildStorageVariables idx layout scope = sort_key variableSlot (map (storageVariable idx layout scope) (slStorage layout))"

definition InstructionAtPC :: "SourceIndex \<Rightarrow> u64 \<Rightarrow> InstructionMapping option" where
  "InstructionAtPC idx p = map_of (ixInstructionByPC idx) p"

definition sourceTarget :: "int \<Rightarrow> int \<Rightarrow> int \<Rightarrow> SourceRange" where
  "sourceTarget sourceID start stop = \<lparr>srcID = sourceID, srcStart = start, srcLength = wrap64 (stop - start)\<rparr>"

definition InstructionsForSource :: "SourceIndex \<Rightarrow> int \<Rightarrow> int \<Rightarrow> int \<Rightarrow> InstructionMapping list" where
  "InstructionsForSource idx sourceID start stop =
     filter (\<lambda>ins. Overlaps (imSource ins) (sourceTarget sourceID start stop)) (ixInstructions idx)"

definition NodesForSource :: "SourceIndex \<Rightarrow> int \<Rightarrow> int \<Rightarrow> int \<Rightarrow> ASTNode list" where
  "NodesForSource idx sourceID start stop =
     filter (\<lambda>node. Overlaps (nodeSrc node) (sourceTarget sourceID start stop)) (mread [] (ixNodesBySourceID idx) sourceID)"

definition StorageByASTID :: "SourceIndex \<Rightarrow> int \<Rightarrow> StorageVariableMapping list" where
  "StorageByASTID idx astID =
     filter (\<lambda>v. seASTID (svEntry v) = astID) (ixStorageVariables idx) @
     filter (\<lambda>v. seASTID (svEntry v) = astID) (ixTransientVariables idx)"

definition StorageBySlot :: "SourceIndex \<Rightarrow> string \<Rightarrow> StorageScope \<Rightarrow> StorageVariableMapping list" where
  "StorageBySlot idx slot scope =
     filter (\<lambda>v. variableSlot v = parseSlotValue slot)
       (if scope = StorageScopeTransient then ixTransientVariables idx else ixStorageVariables idx)"

definition SourceName :: "SourceIndex option \<Rightarrow> int \<Rightarrow> string" where
  "SourceName idx sourceID =
     (case idx of None \<Rightarrow> [] | Some idx \<Rightarrow> (case map_of (ixSources idx) sourceID of None \<Rightarrow> [] | Some file \<Rightarrow> sfName file))"

definition SourceFileByName :: "SourceIndex option \<Rightarrow> string \<Rightarrow> SourceFile option" where
  "SourceFileByName idx name =
     (case idx of None \<Rightarrow> None | Some idx \<Rightarrow> find (\<lambda>file. sfName file = name) (map snd (ixSources idx)))"

definition Metadata :: "SourceIndex option \<Rightarrow> ContractMetadata" where
  "Metadata idx =
     (case idx of
        None \<Rightarrow> \<lparr>cmBuild = \<lparr>bcSourceName = [], bcContractName = [], bcRuntime = False\<rparr>, cmPersistentStorage = [],
          cmTransientStorage = [], cmABI = [], cmFunctions = [], cmEvents = []\<rparr>
      | Some idx \<Rightarrow> \<lparr>cmBuild = ixBuild idx, cmPersistentStorage = ixStorageVariables idx,
          cmTransientStorage = ixTransientVariables idx, cmABI = ixABI idx, cmFunctions = ixFunctions idx, cmEvents = ixEvents idx\<rparr>)"

subsection \<open>Building the index\<close>

record standardJSONSource =
  jsID :: int
  jsAST :: "(string, AnyVal) gomap"
  jsContent :: runes

record generatedSource =
  gsID :: int
  gsName :: string
  gsLanguage :: string
  gsContents :: runes
  gsAST :: "(string, AnyVal) gomap"

record standardJSONBytecode =
  jbObject :: string
  jbSourceMap :: string
  jbGeneratedSources :: "generatedSource list"
  jbFunctionDebugData :: "(string, FunctionDebugInfo) gomap"
  jbImmutableReferences :: "(string, ImmutableReferenceSegment list) gomap"

record standardJSONContract =
  jcABI :: "ABIEntry list"
  jcStorageLayout :: StorageLayout
  jcTransientStorageLayout :: StorageLayout
  jcBytecode :: standardJSONBytecode
  jcDeployedBytecode :: standardJSONBytecode

record standardJSON =
  jdSources :: "(string, standardJSONSource) gomap"
  jdContracts :: "(string, (string, standardJSONContract) gomap) gomap"

datatype indexError = SourceNotFound string | ContractNotFound string string | SourceMapError srcmapError

definition decodeHexBytecode :: "string \<Rightarrow> bytes" where
  "decodeHexBytecode value =
     (let trimmed = TrimPrefix value ''0x'' in
      if trimmed = [] then [] else (case hexDecode trimmed of None \<Rightarrow> [] | Some bs \<Rightarrow> bs))"

definition addGeneratedSource :: "generatedSource \<Rightarrow> SourceIndex \<Rightarrow> SourceIndex" where
  "addGeneratedSource g idx =
     idx\<lparr>ixGeneratedSourceIDs := setAdd (gsID g) (ixGeneratedSourceIDs idx),
         ixSources := mput (gsID g) \<lparr>sfID = gsID g, sfName = gsName g, sfContent = gsContents g, sfGenerated = True,
           sfLanguage = gsLanguage g, sfAST = parseAST (gsAST g)\<rparr> (ixSources idx)\<rparr>"

definition newIndex :: "BuildConfig \<Rightarrow> standardJSONContract \<Rightarrow> SourceIndex" where
  "newIndex conf artifact =
     \<lparr>ixBuild = conf, ixSources = [], ixInstructions = [], ixInstructionByPC = [], ixNodesByID = [], ixNodesBySourceID = [],
      ixStorageVariables = [], ixTransientVariables = [], ixPersistentLayout = jcStorageLayout artifact,
      ixTransientLayout = jcTransientStorageLayout artifact, ixABI = jcABI artifact, ixFunctions = [], ixEvents = [],
      ixCreationBytecode = [], ixRuntimeBytecode = [], ixGeneratedSourceIDs = [], ixFunctionDebugData = [],
      ixFunctionDebugByID = [], ixFunctionDebugByEntry = [], ixImmutableReferences = []\<rparr>"

definition addSource :: "string \<Rightarrow> standardJSONSource \<Rightarrow> SourceIndex \<Rightarrow> SourceIndex" where
  "addSource name src idx =
     idx\<lparr>ixSources := mput (jsID src) \<lparr>sfID = jsID src, sfName = name, sfContent = jsContent src, sfGenerated = False,
           sfLanguage = [], sfAST = parseAST (jsAST src)\<rparr> (ixSources idx)\<rparr>"

definition addFunctionDebug :: "standardJSONBytecode \<Rightarrow> SourceIndex \<Rightarrow> SourceIndex" where
  "addFunctionDebug selected idx =
     (let data = fold (\<lambda>(name, info). mput name (info\<lparr>fiName := name\<rparr>)) (jbFunctionDebugData selected) (ixFunctionDebugData idx) in
      idx\<lparr>ixFunctionDebugData := data,
          ixFunctionDebugByID := fold (\<lambda>(name, entry) m. if fiID entry \<noteq> 0 then mput (fiID entry) entry m else m) data (ixFunctionDebugByID idx),
          ixFunctionDebugByEntry := fold (\<lambda>(name, entry) m. if fiHasEntryPoint entry then mput (fiEntryPoint entry) entry m else m)
            data (ixFunctionDebugByEntry idx),
          ixImmutableReferences := fold (\<lambda>(key, segments). mput key segments) (jbImmutableReferences selected) (ixImmutableReferences idx)\<rparr>)"

definition addInstructions :: "InstructionMapping list \<Rightarrow> SourceIndex \<Rightarrow> SourceIndex" where
  "addInstructions instructions idx =
     (let entries = map (\<lambda>entry. entry\<lparr>imAST := deepestNodeAt idx (imSource entry)\<rparr>) instructions in
      idx\<lparr>ixInstructions := entries,
          ixInstructionByPC := fold (\<lambda>entry. mput (imPC entry) entry) entries (ixInstructionByPC idx)\<rparr>)"

definition nodeBefore :: "ASTNode \<Rightarrow> int \<times> int" where
  "nodeBefore node = (srcStart (nodeSrc node), srcLength (nodeSrc node))"

definition sortNodes :: "SourceIndex \<Rightarrow> SourceIndex" where
  "sortNodes idx = idx\<lparr>ixNodesBySourceID := map (\<lambda>(sourceID, nodes). (sourceID, sort_key nodeBefore nodes)) (ixNodesBySourceID idx)\<rparr>"

text \<open>The part of \<open>BuildIndexFromStandardJSON\<close> before the instructions, and the whole of it.\<close>

definition indexSources :: "standardJSON \<Rightarrow> BuildConfig \<Rightarrow> standardJSONContract \<Rightarrow> SourceIndex" where
  "indexSources doc conf artifact =
     (let idx = fold (\<lambda>(name, src). addSource name src) (jdSources doc) (newIndex conf artifact);
          idx = fold addGeneratedSource (jbGeneratedSources (jcBytecode artifact)) idx;
          idx = fold addGeneratedSource (jbGeneratedSources (jcDeployedBytecode artifact)) idx;
          idx = indexASTs idx
      in idx\<lparr>ixCreationBytecode := decodeHexBytecode (jbObject (jcBytecode artifact)),
             ixRuntimeBytecode := decodeHexBytecode (jbObject (jcDeployedBytecode artifact))\<rparr>)"

definition selectedBytecode :: "BuildConfig \<Rightarrow> standardJSONContract \<Rightarrow> standardJSONBytecode" where
  "selectedBytecode conf artifact = (if bcRuntime conf then jcDeployedBytecode artifact else jcBytecode artifact)"

definition selectedCode :: "BuildConfig \<Rightarrow> SourceIndex \<Rightarrow> bytes" where
  "selectedCode conf idx = (if bcRuntime conf then ixRuntimeBytecode idx else ixCreationBytecode idx)"

definition indexTables :: "standardJSONContract \<Rightarrow> SourceIndex \<Rightarrow> SourceIndex" where
  "indexTables artifact idx =
     (let idx = idx\<lparr>ixStorageVariables := buildStorageVariables idx (jcStorageLayout artifact) StorageScopePersistent\<rparr>;
          idx = idx\<lparr>ixTransientVariables := buildStorageVariables idx (jcTransientStorageLayout artifact) StorageScopeTransient\<rparr>;
          (functions, events) = deriveABIMetadata (ixABI idx)
      in sortNodes (idx\<lparr>ixFunctions := functions, ixEvents := events\<rparr>))"

definition BuildIndexFromStandardJSON :: "standardJSON \<Rightarrow> BuildConfig \<Rightarrow> indexError + SourceIndex" where
  "BuildIndexFromStandardJSON doc conf =
     (case map_of (jdContracts doc) (bcSourceName conf) of
        None \<Rightarrow> Inl (SourceNotFound (bcSourceName conf))
      | Some contractsByName \<Rightarrow>
          (case map_of contractsByName (bcContractName conf) of
             None \<Rightarrow> Inl (ContractNotFound (bcContractName conf) (bcSourceName conf))
           | Some artifact \<Rightarrow>
               let selected = selectedBytecode conf artifact;
                   idx = addFunctionDebug selected (indexSources doc conf artifact)
               in case ParseInstructionMappings (selectedCode conf idx) (jbSourceMap selected) of
                    Inl e \<Rightarrow> Inl (SourceMapError e)
                  | Inr instructions \<Rightarrow> Inr (indexTables artifact (addInstructions instructions idx))))"

subsection \<open>What the index holds\<close>

text \<open>The nodes of all files, in the order \<open>indexASTs\<close> visits them.\<close>

definition allNodes :: "SourceIndex \<Rightarrow> ASTNode list" where
  "allNodes idx = concat (map (\<lambda>(i, file). case sfAST file of None \<Rightarrow> [] | Some root \<Rightarrow> walkAST root) (ixSources idx))"

definition inSource :: "int \<Rightarrow> ASTNode \<Rightarrow> bool" where
  "inSource sid node \<longleftrightarrow> srcID (nodeSrc node) = sid"

lemma indexASTs_eq: "indexASTs idx = fold indexNode (allNodes idx) idx"
proof -
  have "fold (\<lambda>(i, file) idx. case sfAST file of None \<Rightarrow> idx | Some root \<Rightarrow> fold indexNode (walkAST root) idx) fs idx =
    fold indexNode (concat (map (\<lambda>(i, file). case sfAST file of None \<Rightarrow> [] | Some root \<Rightarrow> walkAST root) fs)) idx" for fs
    by (induction fs arbitrary: idx) (auto split: option.split)
  then show ?thesis by (simp add: indexASTs_def allNodes_def)
qed

lemma nodes_fold_indexNode:
  "mread [] (ixNodesBySourceID (fold indexNode nodes idx)) sid =
   mread [] (ixNodesBySourceID idx) sid @ filter (inSource sid) nodes"
  by (induction nodes arbitrary: idx) (auto simp: indexNode_def inSource_def Let_def)

lemma other_fold_indexNode [simp]:
  "ixSources (fold indexNode nodes idx) = ixSources idx" "ixInstructions (fold indexNode nodes idx) = ixInstructions idx"
  "ixInstructionByPC (fold indexNode nodes idx) = ixInstructionByPC idx"
  by (induction nodes arbitrary: idx) (auto simp: indexNode_def Let_def)

lemma nodes_added [simp]:
  "ixNodesBySourceID (fold (\<lambda>(name, src). addSource name src) srcs idx) = ixNodesBySourceID idx"
  "ixInstructionByPC (fold (\<lambda>(name, src). addSource name src) srcs idx) = ixInstructionByPC idx"
  by (induction srcs arbitrary: idx) (auto simp: addSource_def)

lemma nodes_generated [simp]:
  "ixNodesBySourceID (fold addGeneratedSource gs idx) = ixNodesBySourceID idx"
  "ixInstructionByPC (fold addGeneratedSource gs idx) = ixInstructionByPC idx"
  by (induction gs arbitrary: idx) (auto simp: addGeneratedSource_def)

lemma indexSources_tables:
  "mread [] (ixNodesBySourceID (indexSources doc conf artifact)) sid =
     filter (inSource sid) (allNodes (indexSources doc conf artifact))"
  "ixInstructionByPC (indexSources doc conf artifact) = []"
  by (simp_all add: indexSources_def Let_def indexASTs_eq nodes_fold_indexNode newIndex_def allNodes_def)

lemma deepestLoop_None: "deepestLoop src nodes best = None \<longleftrightarrow> best = None \<and> (\<forall>n\<in>set nodes. \<not> covers n src)"
  by (induction src nodes best rule: deepestLoop.induct) (auto split: option.splits)

lemma deepestLoop_Some:
  "deepestLoop src nodes best = Some n \<Longrightarrow>
   (best = Some n \<or> n \<in> set nodes \<and> covers n src) \<and>
   (\<forall>b. best = Some b \<longrightarrow> srcLength (nodeSrc n) \<le> srcLength (nodeSrc b)) \<and>
   (\<forall>m\<in>set nodes. covers m src \<longrightarrow> srcLength (nodeSrc n) \<le> srcLength (nodeSrc m))"
proof (induction src nodes best rule: deepestLoop.induct)
  case (2 src node nodes best)
  show ?case
  proof (cases "covers node src")
    case False
    with 2 show ?thesis by auto
  next
    case True
    show ?thesis
    proof (cases best)
      case None
      with 2 True show ?thesis by fastforce
    next
      case (Some b)
      with 2 True show ?thesis by (cases "srcLength (nodeSrc node) < srcLength (nodeSrc b)") fastforce+
    qed
  qed
qed simp

text \<open>The smallest node of a list that covers a range.\<close>

definition smallestCover :: "ASTNode list \<Rightarrow> SourceRange \<Rightarrow> ASTNode option \<Rightarrow> bool" where
  "smallestCover nodes src r \<longleftrightarrow>
     (case r of
        None \<Rightarrow> (\<forall>n\<in>set nodes. \<not> covers n src)
      | Some n \<Rightarrow> n \<in> set nodes \<and> covers n src \<and> (\<forall>m\<in>set nodes. covers m src \<longrightarrow> srcLength (nodeSrc n) \<le> srcLength (nodeSrc m)))"

lemma deepestNodeAt_smallest:
  assumes "mread [] (ixNodesBySourceID idx) (srcID src) = filter (inSource (srcID src)) nodes"
  shows "smallestCover nodes src (deepestNodeAt idx src)"
proof -
  have c: "covers n src \<Longrightarrow> inSource (srcID src) n" for n by (simp add: covers_def inSource_def)
  show ?thesis
  proof (cases "deepestNodeAt idx src")
    case None
    then have "\<forall>n\<in>set (filter (inSource (srcID src)) nodes). \<not> covers n src"
      unfolding deepestNodeAt_def assms deepestLoop_None by simp
    then show ?thesis using c None by (auto simp: smallestCover_def)
  next
    case (Some n)
    then show ?thesis
      using deepestLoop_Some [of src "filter (inSource (srcID src)) nodes" None n] c
      by (auto simp: deepestNodeAt_def assms smallestCover_def)
  qed
qed

lemma map_of_fold_entries:
  "distinct (map f xs) \<Longrightarrow> map_of (fold (\<lambda>x. mput (f x) x) xs m) k = (case find (\<lambda>x. f x = k) xs of Some x \<Rightarrow> Some x | None \<Rightarrow> map_of m k)"
proof (induction xs arbitrary: m)
  case (Cons x xs)
  then have "find (\<lambda>y. f y = f x) xs = None" by (simp add: find_None_iff) (metis image_eqI)
  with Cons show ?case by (auto split: option.split)
qed simp

lemma find_distinct: "distinct (map f xs) \<Longrightarrow> find (\<lambda>x. f x = k) xs = Some x \<longleftrightarrow> x \<in> set xs \<and> f x = k"
  by (induction xs) (auto simp: image_iff)

lemma length_decodeInstructionPCs: "p \<in> set (decodeInstructionPCs code) \<Longrightarrow> p < length code"
  by (simp add: decodeInstructionPCs_boundaries)

lemma distinct_pcs:
  assumes "length code \<le> 2 ^ 64"
  shows "distinct (map (of_nat :: nat \<Rightarrow> u64) (decodeInstructionPCs code))"
proof -
  have "inj_on (of_nat :: nat \<Rightarrow> u64) (set (decodeInstructionPCs code))"
  proof (rule inj_onI)
    fix x y assume "x \<in> set (decodeInstructionPCs code)" "y \<in> set (decodeInstructionPCs code)" "(of_nat x :: u64) = of_nat y"
    moreover from this have "x < 2 ^ 64" "y < 2 ^ 64" using assms length_decodeInstructionPCs by fastforce+
    then have "unat (of_nat x :: u64) = x" "unat (of_nat y :: u64) = y" by (simp_all add: unsigned_of_nat take_bit_nat_eq_self)
    ultimately show "x = y" by metis
  qed
  then show ?thesis by (simp add: distinct_map decodeInstructionPCs_boundaries)
qed

lemma addFunctionDebug_other [simp]:
  "ixSources (addFunctionDebug selected idx) = ixSources idx" "ixInstructionByPC (addFunctionDebug selected idx) = ixInstructionByPC idx"
  "ixNodesBySourceID (addFunctionDebug selected idx) = ixNodesBySourceID idx" "allNodes (addFunctionDebug selected idx) = allNodes idx"
  by (simp_all add: addFunctionDebug_def Let_def allNodes_def)

lemma indexTables_other [simp]:
  "ixInstructions (indexTables artifact idx) = ixInstructions idx" "ixInstructionByPC (indexTables artifact idx) = ixInstructionByPC idx"
  "allNodes (indexTables artifact idx) = allNodes idx" "ixCreationBytecode (indexTables artifact idx) = ixCreationBytecode idx"
  "ixRuntimeBytecode (indexTables artifact idx) = ixRuntimeBytecode idx"
  by (simp_all add: indexTables_def Let_def sortNodes_def allNodes_def split: prod.split)

lemma addInstructions_other [simp]:
  "allNodes (addInstructions ms idx) = allNodes idx" "ixCreationBytecode (addInstructions ms idx) = ixCreationBytecode idx"
  "ixRuntimeBytecode (addInstructions ms idx) = ixRuntimeBytecode idx"
  by (simp_all add: addInstructions_def Let_def allNodes_def)

lemma selectedCode_other [simp]:
  "selectedCode conf (indexTables artifact idx) = selectedCode conf idx" "selectedCode conf (addInstructions ms idx) = selectedCode conf idx"
  by (simp_all add: selectedCode_def)

lemma built_index:
  assumes "BuildIndexFromStandardJSON doc conf = Inr idx" "length (selectedCode conf idx) \<le> 2 ^ 64"
  shows built_pcs: "map imPC (ixInstructions idx) = map of_nat (filter (isBoundary (selectedCode conf idx)) [0..<length (selectedCode conf idx)])"
    and built_lookup: "InstructionAtPC idx p = Some m \<longleftrightarrow> m \<in> set (ixInstructions idx) \<and> imPC m = p"
    and built_nodes: "m \<in> set (ixInstructions idx) \<Longrightarrow> smallestCover (allNodes idx) (imSource m) (imAST m)"
proof -
  from assms(1) obtain artifact sel base ms where sel: "sel = selectedBytecode conf artifact"
    and base: "base = addFunctionDebug sel (indexSources doc conf artifact)"
    and ms: "ParseInstructionMappings (selectedCode conf base) (jbSourceMap sel) = Inr ms"
    and idx: "idx = indexTables artifact (addInstructions ms base)"
    by (auto simp: BuildIndexFromStandardJSON_def Let_def split: option.splits sum.splits)
  have code: "selectedCode conf idx = selectedCode conf base" by (simp add: idx)
  let ?es = "map (\<lambda>e. e\<lparr>imAST := deepestNodeAt base (imSource e)\<rparr>) ms"
  have ins: "ixInstructions idx = ?es" by (simp add: idx addInstructions_def Let_def)
  have pcs: "map imPC ?es = map of_nat (decodeInstructionPCs (selectedCode conf base))"
    using ParseInstructionMappings_shape(1) [OF ms] by (simp add: comp_def)
  then show "map imPC (ixInstructions idx) =
      map of_nat (filter (isBoundary (selectedCode conf idx)) [0..<length (selectedCode conf idx)])"
    unfolding ins code by (simp only: decodeInstructionPCs_boundaries)
  have d: "distinct (map imPC ?es)" unfolding pcs using distinct_pcs assms(2) code by simp
  have "ixInstructionByPC idx = fold (\<lambda>e. mput (imPC e) e) ?es []"
    by (simp add: idx addInstructions_def Let_def base indexSources_tables)
  then have "InstructionAtPC idx p = find (\<lambda>e. imPC e = p) ?es"
    unfolding InstructionAtPC_def using map_of_fold_entries [OF d, of "[]" p] by (simp split: option.splits)
  then show "InstructionAtPC idx p = Some m \<longleftrightarrow> m \<in> set (ixInstructions idx) \<and> imPC m = p"
    unfolding ins using find_distinct [OF d, of p m] by simp
  have nodes: "allNodes idx = allNodes base" by (simp add: idx)
  have "mread [] (ixNodesBySourceID base) sid = filter (inSource sid) (allNodes base)" for sid
    by (simp add: base indexSources_tables)
  then show "m \<in> set (ixInstructions idx) \<Longrightarrow> smallestCover (allNodes idx) (imSource m) (imAST m)"
    unfolding ins nodes using deepestNodeAt_smallest by auto
qed

subsection \<open>Storage tables\<close>

lemma indexTables_storage:
  "ixStorageVariables (indexTables artifact idx) = buildStorageVariables idx (jcStorageLayout artifact) StorageScopePersistent"
  "ixTransientVariables (indexTables artifact idx) = buildStorageVariables idx (jcTransientStorageLayout artifact) StorageScopeTransient"
  by (simp_all add: indexTables_def Let_def sortNodes_def buildStorageVariables_def storageVariable_def [abs_def] split: prod.split)

lemma buildStorageVariables_sorted: "sorted (map variableSlot (buildStorageVariables idx layout scope))"
  by (simp add: buildStorageVariables_def)

lemma buildStorageVariables_entries: "mset (map svEntry (buildStorageVariables idx layout scope)) = mset (slStorage layout)"
proof -
  have "map svEntry (map (storageVariable idx layout scope) es) = es" for es
    by (induction es) (simp_all add: storageVariable_def Let_def)
  then show ?thesis by (metis buildStorageVariables_def mset_map mset_sort)
qed

lemma set_buildStorageVariables:
  "set (buildStorageVariables idx layout scope) = storageVariable idx layout scope ` set (slStorage layout)"
  by (simp add: buildStorageVariables_def)

text \<open>A slot written in hexadecimal and one written in decimal name the same slot.\<close>

lemma parseSlotValue_decimal: "parseSlotValue (showInt (int n)) = int n"
proof -
  obtain c cs where c: "showNat n = c # cs" "isDigit c" using showNat_Cons by blast
  have digits: "\<not> isSpace (hd (showNat n))" "\<not> isSpace (last (showNat n))"
    using showNat_chars [of "hd (showNat n)" n] showNat_chars [of "last (showNat n)" n] by (auto simp: isDigit_def isSpace_def Let_def)
  have "x \<notin> set (showNat n)" if "\<not> isDigit x" for x using that showNat_chars by blast
  then have "CHR ''x'' \<notin> set (showNat n)" "CHR ''X'' \<notin> set (showNat n)" by (simp_all add: isDigit_def)
  then have "\<not> HasPrefix (showNat n) ''0x''" "\<not> HasPrefix (showNat n) ''0X''"
    using set_take_subset [of 2 "showNat n"] unfolding HasPrefix_def by (force simp: numeral_2_eq_2 dest: arg_cong [where f = set])+
  moreover have "TrimSpace (showNat n) = showNat n" using digits by (intro TrimSpace_id) simp
  ultimately show ?thesis
    using SetString_showInt [of "int n"] by (simp add: parseSlotValue_def Let_def showInt_def)
qed

end
