(* ===== verification/SourceRuntime.thy ===== *)
theory SourceRuntime
  imports SourceIndex
begin

text \<open>
  Runtime annotations (\<open>internal/srcmap/runtime.go\<close>): what a memory or storage access of a running contract means in
  terms of its sources. A bridge is the index it was made with, \<open>None\<close> for \<open>nil\<close>.
\<close>

datatype MemoryRegionKind = MemoryRegionScratch | MemoryRegionFreePtr | MemoryRegionZeroSlot | MemoryRegionHeap |
  MemoryRegionTemporary | MemoryRegionUnknown

datatype MemoryConfidence = MemoryConfidenceHigh | MemoryConfidenceMedium | MemoryConfidenceLow

record MemoryRegion =
  mrKind :: MemoryRegionKind
  mrOffset :: u64
  mrSize :: u64
  mrLabel :: string

record MemoryAccess =
  meacPC :: u64
  meacOpcode :: byte
  meacOffset :: u64
  meacSize :: u64
  meacIsWrite :: bool
  meacData :: bytes

record StorageAccess =
  stacPC :: u64
  stacOpcode :: byte
  stacSlot :: string
  stacIsWrite :: bool
  stacValue :: string
  stacScope :: StorageScope

record MemoryAnnotation =
  manAccess :: MemoryAccess
  manInstruction :: "InstructionMapping option"
  manNode :: "ASTNode option"
  manRegion :: MemoryRegion
  manConfidence :: MemoryConfidence
  manReason :: string

record StorageAnnotation =
  sanAccess :: StorageAccess
  sanInstruction :: "InstructionMapping option"
  sanVariables :: "StorageVariableMapping list"
  sanReason :: string

definition classifyMemoryRegion :: "u64 \<Rightarrow> u64 \<Rightarrow> MemoryRegion" where
  "classifyMemoryRegion offset len =
     (if len = 0 then \<lparr>mrKind = MemoryRegionUnknown, mrOffset = offset, mrSize = len, mrLabel = ''empty access''\<rparr>
      else
        let stop = offset + len in
        if offset < 0x40 \<and> stop \<le> 0x40
        then \<lparr>mrKind = MemoryRegionScratch, mrOffset = offset, mrSize = len, mrLabel = ''scratch space''\<rparr>
        else if offset < 0x60 \<and> stop \<le> 0x60
        then \<lparr>mrKind = MemoryRegionFreePtr, mrOffset = offset, mrSize = len, mrLabel = ''free memory pointer''\<rparr>
        else if offset < 0x80 \<and> stop \<le> 0x80
        then \<lparr>mrKind = MemoryRegionZeroSlot, mrOffset = offset, mrSize = len, mrLabel = ''zero slot''\<rparr>
        else if offset \<ge> 0x80
        then \<lparr>mrKind = MemoryRegionHeap, mrOffset = offset, mrSize = len, mrLabel = ''heap or ABI buffer''\<rparr>
        else \<lparr>mrKind = MemoryRegionTemporary, mrOffset = offset, mrSize = len, mrLabel = ''mixed reserved region''\<rparr>)"

definition memoryConfidenceForRegion :: "MemoryRegion \<Rightarrow> MemoryConfidence" where
  "memoryConfidenceForRegion region =
     (case mrKind region of
        MemoryRegionScratch \<Rightarrow> MemoryConfidenceHigh
      | MemoryRegionFreePtr \<Rightarrow> MemoryConfidenceHigh
      | MemoryRegionZeroSlot \<Rightarrow> MemoryConfidenceHigh
      | MemoryRegionHeap \<Rightarrow> MemoryConfidenceMedium
      | _ \<Rightarrow> MemoryConfidenceLow)"

definition memoryReason :: "InstructionMapping option \<Rightarrow> MemoryRegion \<Rightarrow> string" where
  "memoryReason instruction region =
     (case instruction of
        None \<Rightarrow> ''no matching instruction for PC''
      | Some ins \<Rightarrow>
          if imAST ins = None then ''matched instruction, but no AST node covers the source range''
          else if mrKind region = MemoryRegionHeap
          then ''matched instruction source range; heap mapping remains dynamic and best-effort''
          else ''matched instruction source range and reserved Solidity memory region'')"

definition AnnotateMemoryAccess :: "SourceIndex option \<Rightarrow> MemoryAccess \<Rightarrow> MemoryAnnotation" where
  "AnnotateMemoryAccess b access =
     (let annotation = \<lparr>manAccess = access, manInstruction = None, manNode = None,
            manRegion = classifyMemoryRegion (meacOffset access) (meacSize access), manConfidence = MemoryConfidenceLow,
            manReason = ''no matching instruction for PC''\<rparr>
      in case b of
           None \<Rightarrow> annotation
         | Some idx \<Rightarrow>
             (case InstructionAtPC idx (meacPC access) of
                None \<Rightarrow> annotation
              | Some ins \<Rightarrow>
                  annotation\<lparr>manInstruction := Some ins, manNode := imAST ins,
                    manConfidence := memoryConfidenceForRegion (manRegion annotation),
                    manReason := memoryReason (Some ins) (manRegion annotation)\<rparr>))"

definition AnnotateStorageAccess :: "SourceIndex option \<Rightarrow> StorageAccess \<Rightarrow> StorageAnnotation" where
  "AnnotateStorageAccess b access =
     (let annotation = \<lparr>sanAccess = access, sanInstruction = None, sanVariables = [], sanReason = ''no matching declared storage root''\<rparr>
      in case b of
           None \<Rightarrow> annotation
         | Some idx \<Rightarrow>
             let annotation = annotation\<lparr>sanInstruction := InstructionAtPC idx (stacPC access)\<rparr>;
                 annotation = annotation\<lparr>sanVariables := StorageBySlot idx (stacSlot access) (stacScope access)\<rparr>
             in if sanVariables annotation \<noteq> [] then annotation\<lparr>sanReason := ''matched declared storage root slot''\<rparr> else annotation)"

text \<open>
  The region of an access that stays below \<open>2 ^ 64\<close> is the first one whose end the access does not pass: scratch space
  up to \<open>0x40\<close>, the free memory pointer up to \<open>0x60\<close>, the zero slot up to \<open>0x80\<close>. An access that starts in one
  reserved region and ends in another takes the name of the last.
\<close>

lemma classify_no_wrap:
  assumes "len \<noteq> 0" "unat offset + unat len < 2 ^ 64"
  shows "mrKind (classifyMemoryRegion offset len) =
    (if unat offset + unat len \<le> 0x40 then MemoryRegionScratch
     else if unat offset + unat len \<le> 0x60 then MemoryRegionFreePtr
     else if unat offset + unat len \<le> 0x80 then MemoryRegionZeroSlot
     else if 0x80 \<le> unat offset then MemoryRegionHeap
     else MemoryRegionTemporary)"
proof -
  have "unat (offset + len) = unat offset + unat len" using assms(2) by (subst unat_add_no_wrap) simp_all
  moreover have "0 < unat len" using assms(1) by (simp add: unat_gt_0)
  ultimately show ?thesis
    using assms(1) by (auto simp: classifyMemoryRegion_def Let_def word_le_nat_alt word_less_nat_alt)
qed

text \<open>Past that the end wraps: a read of nearly the whole address space counts as scratch space.\<close>

lemma classify_wrap: "mrKind (classifyMemoryRegion 1 0xFFFFFFFFFFFFFFFF) = MemoryRegionScratch"
  by (simp add: classifyMemoryRegion_def)

text \<open>Variables reported for a storage access are those the layout declares at the slot.\<close>

lemma annotated_variables:
  "sanVariables (AnnotateStorageAccess (Some idx) access) =
     filter (\<lambda>v. parseSlotValue (seSlot (svEntry v)) = parseSlotValue (stacSlot access))
       (if stacScope access = StorageScopeTransient then ixTransientVariables idx else ixStorageVariables idx)"
  by (simp add: AnnotateStorageAccess_def Let_def StorageBySlot_def variableSlot_def)

end
