(* ===== verification/SampleFork.thy ===== *)
theory SampleFork
  imports ForkEngine SourceRuntime
begin

text \<open>
  A small concrete world for the examples of the fork engine: a provider that answers every request with the same
  balance, nonce, code, slot and block, and knows two transactions. Nothing in the properties depends on these values.
\<close>

definition sampleHash :: "bytes \<Rightarrow> Hash" where
  "sampleHash b = word_of_int (be_int b)"

definition sampleTransaction :: "Hash \<Rightarrow> u64 \<Rightarrow> Transaction" where
  "sampleTransaction h i =
     \<lparr>txHash = h, txBlockHash = 0, txBlockNumber = Some 100, txFrom = 2, txTo = Some 3, txType = 0, txGas = 50000,
      txGasPrice = Some 1, txBlobGasFeeCap = None, txBlobHashes = [], txAccessList = [], txInput = [], txNonce = 0,
      txTransactionIndex = Some i, txValue = Some 0\<rparr>"

definition sampleReceipt :: "Hash \<Rightarrow> Receipt" where
  "sampleReceipt h =
     \<lparr>rcTransactionHash = h, rcTransactionIndex = 0, rcBlockHash = 0, rcBlockNumber = Some 100, rcFrom = 2, rcTo = Some 3,
      rcGasUsed = 21000, rcCumulativeGasUsed = 21000, rcEffectiveGasPrice = Some 1, rcContractAddress = None,
      rcStatus = Some 1, rcLogs = []\<rparr>"

definition sampleBlock :: Block where
  "sampleBlock = \<lparr>blNumber = Some 100, blHash = 5, blParentHash = 4, blTimestamp = 1000, blGasLimit = 30000000,
     blBaseFee = Some 1, blBlobBaseFee = None, blCoinbase = 9, blPrevRandao = 0, blChainID = Some 1\<rparr>"

definition sampleProvider :: Provider where
  "sampleProvider =
     \<lparr>pvChainID = Inr (Some 1), pvBalance = (\<lambda>a r. Inr (Some 70)), pvNonce = (\<lambda>a r. Inr 0), pvCode = (\<lambda>a r. Inr []),
      pvStorageAt = (\<lambda>a k r. Inr 6), pvBlock = (\<lambda>r. Inr sampleBlock),
      pvTransactions = Some (\<lambda>h. Inr (sampleTransaction h 1), \<lambda>h. Inr (sampleReceipt h)),
      pvBlockTransactions = Some (\<lambda>r. Inr [sampleTransaction 11 0, sampleTransaction 12 1])\<rparr>"

definition samplePinned :: ForkEngine where
  "samplePinned =
     \<lparr>feMode = ModePinned, feFork = ForkCancun, feChainID = None, feProvider = sampleProvider, feCache = NewMemoryStore,
      feBlock = BlockNumber 100, fePolicy = \<lparr>cpDiff = True, cpPinned = False\<rparr>, feReplayStates = []\<rparr>"

lemma sample_remote: "remoteAccount sampleHash sampleProvider r r' NewMemoryStore a =
    Inr \<lparr>asBalance = Some 70, asNonce = 0, asCode = [], asCodeHash = sampleHash [], asExists = True\<rparr>"
  by (simp add: remoteAccount_def GetAccount_def NewMemoryStore_def fetchAccount_def sampleProvider_def)

lemma sample_slot: "remoteSlot sampleProvider r r' NewMemoryStore k = Inr 6"
  by (simp add: remoteSlot_def GetStorage_def NewMemoryStore_def sampleProvider_def)

text \<open>Running a call yields a success that used no gas beyond the intrinsic cost; the second transaction of the block
  is then reconstructed by running the first.\<close>

definition sampleExec :: executor where
  "sampleExec prepared =
     feRet \<lparr>xrResult = Some (NewExecutionResultBuilder\<lparr>Status := StatusSuccess\<rparr>), xrErr = None, xrCall = prepared\<rparr>"

lemma samplePinned_fields [simp]:
  "feProvider samplePinned = sampleProvider" "feCache samplePinned = NewMemoryStore" "feMode samplePinned = ModePinned"
  "feBlock samplePinned = BlockNumber 100"
  by (simp_all add: samplePinned_def)

lemma sample_resolve [simp]: "resolveBlockRef (samplePinned\<lparr>feCache := c\<rparr>) (BlockNumber 100) = Ok (BlockNumber 100)"
  "resolveBlockRef samplePinned (BlockNumber 100) = Ok (BlockNumber 100)"
  by (simp_all add: resolveBlockRef_def ValidateRef_def BlockNumber_def Normalize_def isZeroBlockRef_def)

lemmas fe_eval = feBind_def feLift_def feModify_def feRet_def

lemma sample_prepared: "\<exists>prepared c. prepareReplayTransactionWithState sampleHash (sampleTransaction h i) r (BlockNumber 100) v None samplePinned =
   (Ok prepared, samplePinned\<lparr>feCache := c\<rparr>)"
proof -
  have b: "blChainID sampleBlock = Some 1" by (simp add: sampleBlock_def)
  have p: "pvBlock sampleProvider r = Inr sampleBlock" "pvCode sampleProvider a r = Inr []" for a r by (simp_all add: sampleProvider_def)
  have "ResolveBlock (BlockNumber 100) samplePinned = (Ok sampleBlock, samplePinned\<lparr>feCache := PutBlock (BlockNumber 100) sampleBlock NewMemoryStore\<rparr>)"
    by (simp add: ResolveBlock_def fe_eval p fromRemote_def populateBlockChainID_def b putBlock_def GetBlock_def NewMemoryStore_def)
  then show ?thesis
    by (simp add: prepareReplayTransactionWithState_def sampleTransaction_def prepareCallAgainstState_def callOfTx_def fe_eval
       resolveCode_def p fromRemote_def GetCode_def PutBlock_def NewMemoryStore_def) blast
qed

lemma sample_reconstruct:
  assumes "rsExact rs"
  shows "\<exists>rs' fe'. reconstructPriorTransactions sampleHash (\<lambda>e. []) sampleExec (\<lambda>h. Inr (sampleReceipt h)) (BlockNumber 100)
      (sampleTransaction 12 1) rs samplePinned = (Ok rs', fe') \<and> rsExact rs' \<and> rsApplied rs' = [11]"
proof -
  have txs: "pvBlockTransactions sampleProvider = Some (\<lambda>r. Inr [sampleTransaction 11 0, sampleTransaction 12 1])"
    by (simp add: sampleProvider_def)
  have h: "txHash (sampleTransaction h i) = h" for h i by (simp add: sampleTransaction_def)
  have m: "rmMatch (CompareReplayToReceipt (sampleTransaction h i) (sampleReceipt h) (Some (NewExecutionResultBuilder\<lparr>Status := StatusSuccess\<rparr>)))" for h i
    by (simp add: receipt_match sampleReceipt_def sampleTransaction_def upstreamSucceeded_def replayGasUsed_def replayIntrinsic_def NewExecutionResultBuilder_def zeroResult_def Let_def)
  let ?v = "\<lparr>svCacheRef = syntheticReplayStateBlockRef (sampleTransaction 12 1), svSourceRef = rsSourceRef rs\<rparr>"
  obtain prepared c where p: "prepareReplayTransactionWithState sampleHash (sampleTransaction 11 0) (sampleReceipt 11) (BlockNumber 100) ?v None samplePinned =
      (Ok prepared, samplePinned\<lparr>feCache := c\<rparr>)"
    using sample_prepared by blast
  show ?thesis
    using assms by (simp add: reconstructPriorTransactions_def txs h feTry_def p sampleExec_def fe_eval commitReplayReconstructionWrites_def m)
qed
text \<open>A configuration whose engine is pinned to the block of the transactions.\<close>

definition sampleForkConfig :: ForkConfig where
  "sampleForkConfig =
     \<lparr>fcMode = ModePinned, fcFork = ForkCancun, fcChainIDOverride = None, fcProvider = Some sampleProvider, fcCache = None,
      fcBlock = BlockNumber 100, fcPolicy = \<lparr>cpDiff = True, cpPinned = False\<rparr>\<rparr>"

lemma sample_ForkNew: "ForkNew sampleForkConfig = Ok samplePinned"
  by (simp add: ForkNew_def sampleForkConfig_def samplePinned_def ModePinned_def ModeDiff_def ValidateRef_def BlockNumber_def
      isZeroBlockRef_def IsPinned_def Normalize_def)

text \<open>A compiler's output for a contract of one instruction.\<close>

definition sampleJSON :: standardJSON where
  "sampleJSON =
     \<lparr>jdSources = [(''a.sol'', \<lparr>jsID = 0, jsAST = [(''id'', AnyNum 4), (''src'', AnyString ''0:1:0'')], jsContent = [(97, 1)]\<rparr>)],
      jdContracts = [(''a.sol'', [(''A'',
        \<lparr>jcABI = [], jcStorageLayout = \<lparr>slStorage = [], slTypes = []\<rparr>, jcTransientStorageLayout = \<lparr>slStorage = [], slTypes = []\<rparr>,
         jcBytecode = \<lparr>jbObject = [], jbSourceMap = [], jbGeneratedSources = [], jbFunctionDebugData = [], jbImmutableReferences = []\<rparr>,
         jcDeployedBytecode = \<lparr>jbObject = ''5b'', jbSourceMap = [], jbGeneratedSources = [], jbFunctionDebugData = [],
           jbImmutableReferences = []\<rparr>\<rparr>)])]\<rparr>"

lemma sample_built:
  "\<exists>idx. BuildIndexFromStandardJSON sampleJSON \<lparr>bcSourceName = ''a.sol'', bcContractName = ''A'', bcRuntime = True\<rparr> = Inr idx \<and>
     ixRuntimeBytecode idx = [0x5B]"
proof -
  have hex: "decodeHexBytecode ''5b'' = [0x5B]"
    by (simp add: decodeHexBytecode_def TrimPrefix_def HasPrefix_def digitVal_def)
  have run: "ixRuntimeBytecode (indexSources doc conf a) = decodeHexBytecode (jbObject (jcDeployedBytecode a))" for doc conf a
    by (simp add: indexSources_def Let_def)
  have keep: "ixRuntimeBytecode (addFunctionDebug sel idx) = ixRuntimeBytecode idx" for sel idx
    by (simp add: addFunctionDebug_def Let_def)
  show ?thesis
    by (simp add: BuildIndexFromStandardJSON_def sampleJSON_def Let_def selectedBytecode_def selectedCode_def run keep hex
        ParseInstructionMappings_def)
qed

text \<open>The same engine with the state a snapshot brought for its transaction.\<close>

definition samplePinnedState :: ReplayState where
  "samplePinnedState = \<lparr>rsTarget = 12, rsExecutionRef = BlockNumber 100, rsStateRef = BlockNumber 99, rsSourceRef = BlockNumber 99,
     rsApplied = [11], rsExact = True, rsLimitation = []\<rparr>"

definition samplePinnedReplay :: ForkEngine where
  "samplePinnedReplay = samplePinned\<lparr>feReplayStates := [(replayStateKey 12, samplePinnedState)]\<rparr>"

lemma samplePinnedReplay_fields [simp]:
  "feProvider samplePinnedReplay = sampleProvider" "feCache samplePinnedReplay = NewMemoryStore" "feMode samplePinnedReplay = ModePinned"
  "feBlock samplePinnedReplay = BlockNumber 100"
  by (simp_all add: samplePinnedReplay_def)

lemma samplePinned_OK: "feOK samplePinned" "feOK samplePinnedReplay"
  by (simp_all add: feOK_def BlockNumber_def Normalize_def)

lemma sample_lookup: "lookupReplayState 12 samplePinned = None" "lookupReplayState 12 samplePinnedReplay = Some samplePinnedState"
  by (simp_all add: lookupReplayState_def samplePinned_def samplePinnedReplay_def cloneReplay_def samplePinnedState_def BlockNumber_def Normalize_def)

lemma sample_pinned_fetches:
  "\<exists>a block fe1 code fe2. txTo (sampleTransaction 12 1) = Some a \<and>
     ResolveBlock (executionRef samplePinnedReplay (sampleTransaction 12 1)) samplePinnedReplay = (Ok block, fe1) \<and>
     resolveCode a \<lparr>svCacheRef = BlockNumber 99, svSourceRef = BlockNumber 99\<rparr> fe1 = (Ok code, fe2)"
proof -
  have b: "blChainID sampleBlock = Some 1" by (simp add: sampleBlock_def)
  have p: "pvBlock sampleProvider r = Inr sampleBlock" "pvCode sampleProvider a r = Inr []" for a r by (simp_all add: sampleProvider_def)
  have e: "executionRef samplePinnedReplay (sampleTransaction 12 1) = BlockNumber 100"
    by (simp add: executionRef_def sampleTransaction_def isUint64_def)
  have r: "resolveBlockRef samplePinnedReplay (BlockNumber 100) = Ok (BlockNumber 100)"
    by (simp add: resolveBlockRef_def ValidateRef_def BlockNumber_def isZeroBlockRef_def Normalize_def)
  have "ResolveBlock (BlockNumber 100) samplePinnedReplay =
      (Ok sampleBlock, samplePinnedReplay\<lparr>feCache := PutBlock (BlockNumber 100) sampleBlock NewMemoryStore\<rparr>)"
    by (simp add: ResolveBlock_def fe_eval r p fromRemote_def populateBlockChainID_def b putBlock_def GetBlock_def NewMemoryStore_def)
  then show ?thesis
    unfolding e
    by (intro exI [of _ 3] exI conjI)
      (assumption | simp add: sampleTransaction_def resolveCode_def fe_eval p fromRemote_def GetCode_def PutBlock_def NewMemoryStore_def)+
qed

end
