(* ===== verification/VarPeek.thy ===== *)
theory VarPeek
  imports SourceIndex ForkTrace Precompiles
begin

text \<open>
  The decoding of Solidity values (\<open>internal/varpeeker\<close>: \<open>types.go\<close>, \<open>decode.go\<close>, \<open>storage.go\<close>, \<open>immutable.go\<close>): stack words,
  memory strings, storage variables with their elements, immutables in the run-time code. The state is read
  through the \<open>ReadOnlyState\<close> view of a frame. \<open>PeekLib\<close> holds what comes from outside: Keccak and \<open>strconv.Quote\<close>.
\<close>

record PeekLib =
  plKeccak :: "bytes \<Rightarrow> Hash"
  plQuote :: "bytes \<Rightarrow> string"
  plMaxAlloc :: nat

subsection \<open>Reading a state\<close>

definition StackLen :: "'h evmState \<Rightarrow> int" where
  "StackLen s = int (length (stack s))"

definition MemoryLen :: "'h evmState \<Rightarrow> nat" where
  "MemoryLen s = length (memory s)"

text \<open>\<open>MemoryGet\<close> panics only where \<open>make\<close> does, for more bytes than can be allocated; that part is left out here.\<close>

definition MemoryGet :: "PeekLib \<Rightarrow> u64 \<Rightarrow> u64 \<Rightarrow> 'h evmState \<Rightarrow> bytes" where
  "MemoryGet P offset n s = (case MemGet (plMaxAlloc P) offset n (memory s) of Ok bs \<Rightarrow> bs | _ \<Rightarrow> [])"

definition loadStorage :: "'h evmState \<Rightarrow> Address \<Rightarrow> Hash \<Rightarrow> StorageScope \<Rightarrow> Hash" where
  "loadStorage s addr slot scope =
     (if scope = StorageScopeTransient then TransientGet addr slot (transientStorage s) else StorageGet addr slot (storage s))"

subsection \<open>Variables\<close>

datatype Confidence = ConfidenceHigh | ConfidenceMedium | ConfidenceLow | ConfidenceUnavailable

datatype VariableKind = KindParameter | KindReturn | KindLocal | KindStorage | KindTransient | KindImmutable | KindConstant

text \<open>\<open>LocationUnset\<close> is the zero value, the empty string.\<close>

datatype LocationKind = LocationUnset | LocationStack | LocationMemory | LocationStorage | LocationTransient
  | LocationCalldata | LocationCode | LocationNone

record Location =
  loKind :: LocationKind
  loSlot :: string
  loOffset :: u64
  loLength :: u64
  loStackIndex :: int

definition noLocation :: Location where
  "noLocation = \<lparr>loKind = LocationUnset, loSlot = [], loOffset = 0, loLength = 0, loStackIndex = 0\<rparr>"

text \<open>The fields of a \<open>Variable\<close> but its children, and the variable.\<close>

record VariableHead =
  vaName :: string
  vaKind :: VariableKind
  vaType :: string
  vaStorageLoc :: string
  vaDeclaredAtLine :: int
  vaSourceID :: int
  vaValue :: string
  vaConfidence :: Confidence
  vaLocation :: Location
  vaNote :: string

datatype Variable = Variable (vaHead: VariableHead) (vaChildren: "Variable list")

record Snapshot =
  snFunction :: string
  snContract :: string
  snPC :: u64
  snLocals :: "Variable list"
  snStorage :: "Variable list"
  snTransient :: "Variable list"
  snImmutables :: "Variable list"
  snNotes :: "string list"

definition emptySnapshot :: Snapshot where
  "emptySnapshot = \<lparr>snFunction = [], snContract = [], snPC = 0, snLocals = [], snStorage = [], snTransient = [],
     snImmutables = [], snNotes = []\<rparr>"

subsection \<open>Words as values\<close>

definition hexWord :: "Word \<Rightarrow> string" where
  "hexWord w = ''0x'' @ hexEncode (word_bytes w)"

definition hexTail :: "nat \<Rightarrow> Word \<Rightarrow> string" where
  "hexTail n w = ''0x'' @ hexEncode (drop n (word_bytes w))"

definition hexHead :: "nat \<Rightarrow> Word \<Rightarrow> string" where
  "hexHead n w = ''0x'' @ hexEncode (take n (word_bytes w))"

definition parseIntBits :: "string \<Rightarrow> int" where
  "parseIntBits t =
     (let rest = TrimPrefix t ''int'' in
      if rest = [] then 256
      else case Atoi rest of None \<Rightarrow> 256 | Some n \<Rightarrow> if n \<le> 0 \<or> n > 256 then 256 else n)"

definition parseBytesN :: "string \<Rightarrow> int" where
  "parseBytesN t = (case Atoi (TrimPrefix t ''bytes'') of None \<Rightarrow> 0 | Some n \<Rightarrow> n)"

definition signedFromWord :: "Word \<Rightarrow> int \<Rightarrow> int" where
  "signedFromWord w bits =
     (let v = uint w; bits = nat (if bits \<le> 0 \<or> bits > 256 then 256 else bits)
      in if v \<ge> 2 ^ (bits - 1) then v - 2 ^ bits else v)"

definition boolText :: "Word \<Rightarrow> string" where
  "boolText w = (if w \<noteq> 0 then ''true'' else ''false'')"

definition decimalAndHex :: "int \<Rightarrow> Word \<Rightarrow> string" where
  "decimalAndHex v w = showInt v @ '' ('' @ hexWord w @ '')''"

text \<open>\<open>fmt.Sprintf(" (len=%d)", length)\<close> and the mark of a text cut short, with its three-byte ellipsis.\<close>

definition lenText :: "u64 \<Rightarrow> string" where
  "lenText n = '' (len='' @ showU64 n @ '')''"

definition moreText :: "u64 \<Rightarrow> string" where
  "moreText n = [CHR 0xE2, CHR 0x80, CHR 0xA6] @ ''(+'' @ showU64 n @ '' bytes)''"

definition maxRead :: u64 where "maxRead = 4096"

definition decodeMemoryDynamic :: "PeekLib \<Rightarrow> 'h evmState option \<Rightarrow> u64 \<Rightarrow> bool \<Rightarrow> string \<times> u64 \<times> string" where
  "decodeMemoryDynamic P st offset isString =
     (case st of
        None \<Rightarrow> ([], offset, [])
      | Some s \<Rightarrow>
          let memLen = ulen (memory s) in
          if offset + 32 > memLen then ([], offset, ''pointer beyond memory'')
          else
            let len = (word_of_int (be_int (MemoryGet P offset 32 s)) :: u64);
                n = (if len > maxRead then maxRead else len);
                n = (if offset + 32 + n > memLen then (if memLen > offset + 32 then memLen - (offset + 32) else 0) else n);
                dat = MemoryGet P (offset + 32) n s
            in if isString
               then (plQuote P (dat @ (if len > n then map of_char (moreText (len - n)) else [])) @ lenText len, offset, ''memory string'')
               else (''0x'' @ hexEncode dat @ lenText len, offset, ''memory bytes''))"

definition decodeStackValue :: "PeekLib \<Rightarrow> Word \<Rightarrow> string \<Rightarrow> string \<Rightarrow> 'h evmState option \<Rightarrow> string \<times> u64 \<times> string" where
  "decodeStackValue P w typeStr storageLoc st =
     (let t = TrimSpace (ToLower typeStr) in
      if storageLoc = ''memory''
      then if t = ''bytes'' \<or> HasPrefix t ''bytes '' \<or> HasPrefix t ''string''
           then decodeMemoryDynamic P st (ucast w) (HasPrefix t ''string'')
           else (hexWord w, ucast w, ''memory pointer'')
      else if storageLoc \<in> {''storage'', ''storage pointer'', ''storage ref''} then (hexWord w, 0, ''storage slot'')
      else if storageLoc = ''calldata'' then (hexWord w, 0, ''calldata offset'')
      else if HasPrefix t ''address'' then (hexTail 12 w, 0, [])
      else if t = ''bool'' then (boolText w, 0, [])
      else if HasPrefix t ''uint'' then (decimalAndHex (uint w) w, 0, [])
      else if HasPrefix t ''int'' then (decimalAndHex (signedFromWord w (parseIntBits t)) w, 0, [])
      else if HasPrefix t ''bytes'' \<and> length t > 5
      then if parseBytesN t > 0 \<and> parseBytesN t \<le> 32 then (hexHead (nat (parseBytesN t)) w, 0, [])
           else (hexWord w, 0, ''raw stack word'')
      else if HasPrefix t ''contract'' then (hexTail 12 w, 0, ''contract reference'')
      else if HasPrefix t ''function'' then (hexWord w, 0, ''function pointer'')
      else if HasPrefix t ''enum'' then (showInt (uint w), 0, [])
      else (hexWord w, 0, ''raw stack word''))"

text \<open>The word \<open>decodeBytesValue\<close> pads its data to, or takes from their end.\<close>

definition wordOfBytes :: "bytes \<Rightarrow> Word" where
  "wordOfBytes dat = word_of_int (be_int (drop (length dat - 32) dat))"

definition decodeBytesValue :: "bytes \<Rightarrow> string \<Rightarrow> string" where
  "decodeBytesValue dat typeStr =
     (if dat = [] then []
      else
        let t = TrimSpace (ToLower typeStr); w = wordOfBytes dat in
        if HasPrefix t ''address'' \<or> HasPrefix t ''contract'' then hexTail 12 w
        else if t = ''bool'' then boolText w
        else if HasPrefix t ''uint'' then decimalAndHex (uint w) w
        else if HasPrefix t ''int'' then decimalAndHex (signedFromWord w (parseIntBits t)) w
        else if HasPrefix t ''bytes'' \<and> length t > 5
        then if parseBytesN t > 0 \<and> parseBytesN t \<le> 32
             then ''0x'' @ hexEncode (if length dat = 32 then take (nat (parseBytesN t)) dat else dat)
             else hexWord w
        else if HasPrefix t ''enum'' then showInt (uint w)
        else hexWord w)"

definition Contains :: "string \<Rightarrow> string \<Rightarrow> bool" where
  "Contains s p = list_ex (\<lambda>i. HasPrefix (drop i s) p) [0..<Suc (length s)]"

definition isReferenceTypeString :: "string \<Rightarrow> bool" where
  "isReferenceTypeString t =
     (let low = TrimSpace (ToLower t) in
      low \<noteq> [] \<and>
      (low = ''bytes'' \<or> HasPrefix low ''string'' \<or> HasPrefix low ''struct '' \<or> HasPrefix low ''mapping'' \<or>
       Contains low ''[]'' \<or> Contains low ''[''))"


subsection \<open>Slots\<close>

text \<open>\<open>(*big.Int).Bytes\<close>, which leaves the sign out.\<close>

definition absBytes :: "int \<Rightarrow> bytes" where
  "absBytes v = bigBytes \<bar>v\<bar>"

definition slotFromString :: "string \<Rightarrow> int" where
  "slotFromString s =
     (let trimmed = TrimSpace s in
      if trimmed = [] then 0
      else
        let (digits, base) = (if HasPrefix trimmed ''0x'' \<or> HasPrefix trimmed ''0X'' then (drop 2 trimmed, 16) else (trimmed, 10)) in
        case SetString base digits of None \<Rightarrow> 0 | Some v \<Rightarrow> v)"

definition slotHex :: "int \<Rightarrow> string" where
  "slotHex v = (if absBytes v = [] then ''0x0'' else ''0x'' @ hexEncode (absBytes v))"

definition bigIntToHash :: "int \<Rightarrow> Hash" where
  "bigIntToHash v = wordOfBytes (absBytes v)"

definition padTo32 :: "bytes \<Rightarrow> bytes" where
  "padTo32 b = (if length b \<ge> 32 then b else replicate (32 - length b) 0 @ b)"

definition keccakBig :: "PeekLib \<Rightarrow> int \<Rightarrow> int" where
  "keccakBig P slot = uint (plKeccak P (padTo32 (absBytes slot)))"

definition parseUint :: "string \<Rightarrow> u64" where
  "parseUint s = (if s = [] then 0 else case SetString 10 s of None \<Rightarrow> 0 | Some v \<Rightarrow> word_of_int \<bar>v\<bar>)"

definition locationKindForScope :: "StorageScope \<Rightarrow> LocationKind" where
  "locationKindForScope scope = (if scope = StorageScopeTransient then LocationTransient else LocationStorage)"

fun scopeText :: "StorageScope \<Rightarrow> string" where
  "scopeText StorageScopePersistent = ''storage''"
| "scopeText StorageScopeTransient = ''transient''"

subsection \<open>Storage variables\<close>

definition decodeSlotPrimitive :: "Hash \<Rightarrow> StorageType \<Rightarrow> u64 \<Rightarrow> string" where
  "decodeSlotPrimitive w t offsetInSlot =
     (let n = parseUint (stNumberOfBytes t); n = (if n = 0 \<or> n > 32 then 32 else n) in
      if offsetInSlot + n > 32 then hexWord w
      else
        let start = 32 - offsetInSlot - n; stop = 32 - offsetInSlot
        in decodeBytesValue (take (unat stop - unat start) (drop (unat start) (word_bytes w))) (stLabel t))"

type_synonym decoded = "string \<times> Variable list \<times> string"
type_synonym typeDecoder = "int \<Rightarrow> u64 \<Rightarrow> StorageType \<Rightarrow> decoded option"

definition typeIn :: "SourceIndex \<Rightarrow> StorageScope \<Rightarrow> string \<Rightarrow> StorageType" where
  "typeIn idx scope nm =
     mread zeroStorageType (slTypes (if scope = StorageScopeTransient then ixTransientLayout idx else ixPersistentLayout idx)) nm"

text \<open>A child as the three loops build it, decoded by \<open>rec\<close>.\<close>

definition childVariable :: "typeDecoder \<Rightarrow> StorageScope \<Rightarrow> string \<Rightarrow> int \<Rightarrow> u64 \<Rightarrow> StorageType \<Rightarrow> Variable option" where
  "childVariable rec scope nm slot offset t =
     map_option (\<lambda>(v, children, remark).
         Variable \<lparr>vaName = nm, vaKind = KindLocal, vaType = stLabel t, vaStorageLoc = scopeText scope, vaDeclaredAtLine = 0,
             vaSourceID = 0, vaValue = v, vaConfidence = ConfidenceMedium,
             vaLocation = noLocation\<lparr>loKind := locationKindForScope scope, loSlot := slotHex slot\<rparr>, vaNote = remark\<rparr> children)
       (rec slot offset t)"

text \<open>\<open>big.NewInt(int64(i*slotsPerElement))\<close>.\<close>

definition elementSlot :: "int \<Rightarrow> nat \<Rightarrow> u64 \<Rightarrow> int" where
  "elementSlot base i slotsPerElement = base + int64_of (of_nat i * slotsPerElement)"

definition elements :: "typeDecoder \<Rightarrow> StorageScope \<Rightarrow> int \<Rightarrow> nat \<Rightarrow> u64 \<Rightarrow> StorageType \<Rightarrow> Variable list option" where
  "elements rec scope base num slotsPerElement t =
     those (map (\<lambda>i. childVariable rec scope (''['' @ showNat i @ '']'') (elementSlot base i slotsPerElement) 0 t) [0..<num])"

definition decodeInplace :: "typeDecoder \<Rightarrow> SourceIndex \<Rightarrow> 'h evmState \<Rightarrow> Address \<Rightarrow> int \<Rightarrow> u64 \<Rightarrow> StorageType \<Rightarrow> StorageScope \<Rightarrow> decoded option" where
  "decodeInplace rec idx s addr rootSlot offsetInSlot t scope =
     (if stMembers t \<noteq> []
      then map_option (\<lambda>children. ([], children, ''struct''))
             (those (map (\<lambda>m. childVariable rec scope (seLabel m) (rootSlot + slotFromString (seSlot m)) (word_of_int (seOffset m))
                               (typeIn idx scope (seType m))) (stMembers t)))
      else if stBase t \<noteq> []
      then let baseType = typeIn idx scope (stBase t); baseSize = parseUint (stNumberOfBytes baseType);
               total = parseUint (stNumberOfBytes t) in
           if baseSize = 0 then Some ([], [], ''fixed array: unknown element size'')
           else let num = total div baseSize
                in map_option (\<lambda>children. ([], children, ''fixed array len='' @ showU64 num))
                     (elements rec scope rootSlot (unat num) ((baseSize + 31) div 32) baseType)
      else Some (decodeSlotPrimitive (loadStorage s addr (bigIntToHash rootSlot) scope) t offsetInSlot, [], []))"

text \<open>The loop over the slots of a long value.\<close>

definition storageChunks :: "'h evmState \<Rightarrow> Address \<Rightarrow> StorageScope \<Rightarrow> int \<Rightarrow> nat \<Rightarrow> bytes" where
  "storageChunks s addr scope chunkBase n =
     concat (map (\<lambda>k. take (min 32 (n - 32 * k)) (word_bytes (loadStorage s addr (bigIntToHash (chunkBase + int k)) scope)))
       [0..<(n + 31) div 32])"

definition decodeStorageBytes :: "PeekLib \<Rightarrow> 'h evmState \<Rightarrow> Address \<Rightarrow> int \<Rightarrow> StorageType \<Rightarrow> StorageScope \<Rightarrow> decoded" where
  "decodeStorageBytes P s addr rootSlot t scope =
     (let w = loadStorage s addr (bigIntToHash rootSlot) scope; lst = word_bytes w ! 31;
          isString = HasPrefix (ToLower (stLabel t)) ''string'' in
      if lst AND 1 = 0
      then let len = (ucast lst :: u64) div 2; len = (if len > 31 then 31 else len); dat = take (unat len) (word_bytes w)
           in ((if isString then plQuote P dat else ''0x'' @ hexEncode dat) @ lenText len, [], ''short bytes'')
      else let len = ((ucast w :: u64) - 1) div 2; n = (if len > maxRead then maxRead else len);
               suffix = (if len > maxRead then moreText (len - n) else []);
               buf = storageChunks s addr scope (keccakBig P rootSlot) (unat n)
           in ((if isString then plQuote P buf else ''0x'' @ hexEncode buf) @ suffix @ lenText len, [], ''long bytes''))"

definition decodeDynamicArray :: "typeDecoder \<Rightarrow> PeekLib \<Rightarrow> SourceIndex \<Rightarrow> 'h evmState \<Rightarrow> Address \<Rightarrow> int \<Rightarrow> StorageType \<Rightarrow> StorageScope \<Rightarrow> decoded option" where
  "decodeDynamicArray rec P idx s addr rootSlot t scope =
     (let len = (ucast (loadStorage s addr (bigIntToHash rootSlot) scope) :: u64) in
      if len = 0 then Some (''len=0'', [], [])
      else
        let shown = (if len > 256 then 256 else len); baseType = typeIn idx scope (stBase t);
            baseSize = parseUint (stNumberOfBytes baseType); baseSize = (if baseSize = 0 then 32 else baseSize);
            remark = ''dynamic array len='' @ showU64 len @
              (if len > 256 then '' (showing first '' @ showU64 shown @ '')'' else [])
        in map_option (\<lambda>children. (remark, children, []))
             (elements rec scope (keccakBig P rootSlot) (unat shown) ((baseSize + 31) div 32) baseType))"

text \<open>Types refer to each other by name, so that the nesting of a value is bounded by the storage, not by the type: \<open>None\<close>
  means that it is deeper than the fuel.\<close>

primrec decodeStorageType :: "nat \<Rightarrow> PeekLib \<Rightarrow> SourceIndex \<Rightarrow> 'h evmState \<Rightarrow> Address \<Rightarrow> StorageScope \<Rightarrow> typeDecoder" where
  "decodeStorageType 0 P idx s addr scope = (\<lambda>rootSlot offsetInSlot t. None)"
| "decodeStorageType (Suc n) P idx s addr scope =
     (\<lambda>rootSlot offsetInSlot t.
        let rec = decodeStorageType n P idx s addr scope in
        if stEncoding t = ''inplace'' then decodeInplace rec idx s addr rootSlot offsetInSlot t scope
        else if stEncoding t = ''bytes'' then Some (decodeStorageBytes P s addr rootSlot t scope)
        else if stEncoding t = ''mapping''
        then Some ([], [], ''mapping('' @ stKey t @ '' => '' @ stValue t @ ''); use peekStorageKey'')
        else if stEncoding t = ''dynamic_array'' then decodeDynamicArray rec P idx s addr rootSlot t scope
        else Some ([], [], ''unknown encoding: '' @ stEncoding t))"

definition decodeStorageVariable :: "nat \<Rightarrow> PeekLib \<Rightarrow> SourceIndex \<Rightarrow> 'h evmState \<Rightarrow> Address \<Rightarrow> StorageScope \<Rightarrow> VariableKind \<Rightarrow>
    StorageVariableMapping \<Rightarrow> Variable option" where
  "decodeStorageVariable n P idx s addr scope kind m =
     (let rootSlot = slotFromString (seSlot (svEntry m));
          place = (case svAST m of
              None \<Rightarrow> (0, 0)
            | Some _ \<Rightarrow> (case map_of (ixSources idx) (srcID (svRoot m)) of
                None \<Rightarrow> (0, 0)
              | Some file \<Rightarrow> (fst (LineColumnForOffset (Some (sfContent file)) (srcStart (svRoot m))), srcID (svRoot m))))
      in map_option (\<lambda>(v, children, remark).
           Variable \<lparr>vaName = seLabel (svEntry m), vaKind = kind, vaType = stLabel (svType m), vaStorageLoc = scopeText scope,
               vaDeclaredAtLine = fst place, vaSourceID = snd place, vaValue = v, vaConfidence = ConfidenceMedium,
               vaLocation = noLocation\<lparr>loKind := locationKindForScope scope, loSlot := slotHex rootSlot\<rparr>, vaNote = remark\<rparr> children)
         (decodeStorageType n P idx s addr scope rootSlot (word_of_int (seOffset (svEntry m))) (svType m)))"

definition peekStorageVars :: "nat \<Rightarrow> PeekLib \<Rightarrow> SourceIndex option \<Rightarrow> 'h evmState option \<Rightarrow> Address \<Rightarrow> StorageScope \<Rightarrow> Variable list option" where
  "peekStorageVars n P index st addr scope =
     (case (index, st) of
        (Some idx, Some s) \<Rightarrow>
          those (map (decodeStorageVariable n P idx s addr scope (if scope = StorageScopeTransient then KindTransient else KindStorage))
            (if scope = StorageScopeTransient then ixTransientVariables idx else ixStorageVariables idx))
      | _ \<Rightarrow> Some [])"

text \<open>The slot of \<open>m[key]\<close>, and \<open>PeekStorageKey\<close>: \<open>Some None\<close> is its \<open>false\<close>.\<close>

definition mappingSlot :: "PeekLib \<Rightarrow> int \<Rightarrow> bytes \<Rightarrow> int" where
  "mappingSlot P root key =
     uint (plKeccak P ((if length key > 32 then key else replicate (32 - length key) 0 @ key) @ padTo32 (absBytes root)))"

definition PeekStorageKey :: "nat \<Rightarrow> PeekLib \<Rightarrow> SourceIndex option \<Rightarrow> 'h evmState \<Rightarrow> Address \<Rightarrow> string \<Rightarrow> bytes \<Rightarrow> Variable option option" where
  "PeekStorageKey n P index s addr varName key =
     (case index of
        None \<Rightarrow> Some None
      | Some idx \<Rightarrow>
          (case find (\<lambda>m. seLabel (svEntry m) = varName) (ixStorageVariables idx) of
             None \<Rightarrow> Some None
           | Some m \<Rightarrow>
               if stEncoding (svType m) \<noteq> ''mapping'' then Some None
               else
                 let valueType = typeIn idx StorageScopePersistent (stValue (svType m));
                     slot = mappingSlot P (slotFromString (seSlot (svEntry m))) key
                 in map_option (\<lambda>(v, children, remark). Some (
                      Variable \<lparr>vaName = varName @ ''[0x'' @ hexEncode key @ '']'', vaKind = KindStorage, vaType = stLabel valueType,
                        vaStorageLoc = ''storage'', vaDeclaredAtLine = 0, vaSourceID = 0, vaValue = v, vaConfidence = ConfidenceMedium,
                        vaLocation = noLocation\<lparr>loKind := LocationStorage, loSlot := slotHex slot\<rparr>, vaNote = remark\<rparr> children))
                    (decodeStorageType n P idx s addr StorageScopePersistent slot 0 valueType)))"

subsection \<open>Immutables\<close>

definition rawString :: "(string, AnyVal) gomap \<Rightarrow> string \<Rightarrow> string" where
  "rawString raw k = asString (anyField raw k)"

definition rawTypeString :: "(string, AnyVal) gomap \<Rightarrow> string" where
  "rawTypeString raw = (case anyField raw ''typeDescriptions'' of AnyMap td \<Rightarrow> rawString td ''typeString'' | _ \<Rightarrow> [])"

text \<open>One round of the loop: no variable when there is no segment, the key is no number, or the segment leaves the code;
  \<open>Panic\<close> when its bounds wrap.\<close>

definition peekImmutable :: "SourceIndex \<Rightarrow> bytes \<Rightarrow> string \<Rightarrow> ImmutableReferenceSegment list \<Rightarrow> Variable option outcome" where
  "peekImmutable idx runtimeCode key segments =
     (case (segments, Atoi key) of
        (seg # _, Some astID) \<Rightarrow>
          let node = map_of (ixNodesByID idx) astID;
              nm = (case node of None \<Rightarrow> [] | Some nd \<Rightarrow> rawString (nodeRaw nd) ''name'');
              ty = (case node of None \<Rightarrow> [] | Some nd \<Rightarrow> rawTypeString (nodeRaw nd));
              place = (case node of
                  None \<Rightarrow> (0, 0)
                | Some nd \<Rightarrow> (case map_of (ixSources idx) (srcID (nodeSrc nd)) of
                    None \<Rightarrow> (0, 0)
                  | Some file \<Rightarrow> (fst (LineColumnForOffset (Some (sfContent file)) (srcStart (nodeSrc nd))), srcID (nodeSrc nd))));
              stop = irStart seg + irLength seg in
          if stop > ulen runtimeCode then Ok None
          else obind (goslice runtimeCode (irStart seg) stop) (\<lambda>raw.
            Ok (Some (Variable
              \<lparr>vaName = (if nm = [] then ''immutable_'' @ key else nm), vaKind = KindImmutable, vaType = ty, vaStorageLoc = [],
               vaDeclaredAtLine = fst place, vaSourceID = snd place,
               vaValue = (if ty \<noteq> [] then decodeBytesValue raw ty else ''0x'' @ hexEncode raw), vaConfidence = ConfidenceMedium,
               vaLocation = noLocation\<lparr>loKind := LocationCode, loOffset := irStart seg, loLength := irLength seg\<rparr>, vaNote = []\<rparr> [])))
      | _ \<Rightarrow> Ok None)"

fun peekImmutablesLoop :: "SourceIndex \<Rightarrow> bytes \<Rightarrow> (string \<times> ImmutableReferenceSegment list) list \<Rightarrow> Variable list outcome" where
  "peekImmutablesLoop idx code [] = Ok []"
| "peekImmutablesLoop idx code ((key, segments) # refs) =
     obind (peekImmutable idx code key segments) (\<lambda>v. obind (peekImmutablesLoop idx code refs) (\<lambda>vs.
       Ok (case v of None \<Rightarrow> vs | Some x \<Rightarrow> x # vs)))"

definition peekImmutables :: "SourceIndex option \<Rightarrow> bytes \<Rightarrow> Variable list outcome" where
  "peekImmutables index runtimeCode =
     (case index of
        None \<Rightarrow> Ok []
      | Some idx \<Rightarrow> if runtimeCode = [] then Ok [] else peekImmutablesLoop idx runtimeCode (ixImmutableReferences idx))"

end
