(* ===== verification/DebugText.thy ===== *)
theory DebugText
  imports VarPeek
begin

text \<open>
  The texts of the debug server (\<open>internal/jsonrpc\<close>: the decoders and encoders of \<open>server.go\<close>, the parsers of addresses,
  slots, access modes and signatures of \<open>gdb.go\<close>), with its error responses. An error value of a decoder is kept as what it
  says; the texts of \<open>encoding/hex\<close> and of the ABI library stay opaque.
\<close>

subsection \<open>Errors\<close>

datatype textError =
    HexError string | SizeError nat nat | HexQuantityError string | QuantityError string | Uint64Error | BlockNumberError
  | AccessError string | SignatureError string | TupleError | MethodError string | AbiError string | JsonError string

text \<open>The message of a response: a fixed text or the text of an error value.\<close>

datatype rpcText = RpcText string | RpcError textError | RpcEngineError evm_error

record respError =
  reCode :: int
  reMessage :: rpcText
  reData :: "(string, AnyVal) gomap"

definition invalidParams :: "string \<Rightarrow> respError" where
  "invalidParams msg = \<lparr>reCode = -32602, reMessage = RpcText msg, reData = []\<rparr>"

definition invalidText :: "textError \<Rightarrow> respError" where
  "invalidText err = \<lparr>reCode = -32602, reMessage = RpcError err, reData = []\<rparr>"

definition internalError :: "evm_error \<Rightarrow> respError" where
  "internalError err = \<lparr>reCode = -32000, reMessage = RpcEngineError err, reData = []\<rparr>"

text \<open>\<open>%q\<close> of a text of printable ASCII characters other than the quote and the backslash.\<close>

definition quoted :: "string \<Rightarrow> string" where
  "quoted s = CHR 0x22 # s @ [CHR 0x22]"

text \<open>A Go result next to an error value: the first error ends the function.\<close>

fun sbind :: "'e + 'a \<Rightarrow> ('a \<Rightarrow> 'e + 'b) \<Rightarrow> 'e + 'b" where
  "sbind (Inl e) f = Inl e"
| "sbind (Inr x) f = f x"

lemma sbind_Inr [simp]: "sbind m f = Inr y \<longleftrightarrow> (\<exists>x. m = Inr x \<and> f x = Inr y)"
  by (cases m) auto

fun mapErr :: "('e \<Rightarrow> 'd) \<Rightarrow> 'e + 'a \<Rightarrow> 'd + 'a" where
  "mapErr f (Inl e) = Inl (f e)"
| "mapErr f (Inr x) = Inr x"

lemma mapErr_Inr [simp]: "mapErr f m = Inr y \<longleftrightarrow> m = Inr y"
  by (cases m) auto

subsection \<open>Bytes\<close>

definition decodeBytes :: "string \<Rightarrow> textError + bytes" where
  "decodeBytes input =
     (let input = TrimPrefix (TrimSpace input) ''0x'' in
      if input = [] then Inr []
      else
        let input = (if odd (length input) then CHR ''0'' # input else input)
        in case hexDecode input of None \<Rightarrow> Inl (HexError input) | Some bs \<Rightarrow> Inr bs)"

definition decodeFixedBytes :: "string \<Rightarrow> nat \<Rightarrow> textError + bytes" where
  "decodeFixedBytes input n =
     sbind (decodeBytes input) (\<lambda>decoded. if length decoded \<noteq> n then Inl (SizeError n (length decoded)) else Inr decoded)"

definition decodeAddress :: "string \<Rightarrow> textError + Address" where
  "decodeAddress input = sbind (decodeFixedBytes input 20) (\<lambda>bs. Inr (word_of_int (be_int bs)))"

definition encodeBytes :: "bytes \<Rightarrow> string" where
  "encodeBytes dat = (if dat = [] then ''0x'' else EncodeHex dat)"

definition addressHex :: "Address \<Rightarrow> string" where
  "addressHex addr = EncodeHex (addr_bytes addr)"

definition hashHex :: "Hash \<Rightarrow> string" where
  "hashHex h = EncodeHex (word_bytes h)"

definition encodeHash :: "Hash \<Rightarrow> string" where
  "encodeHash h = ''0x'' @ hexEncode (word_bytes h)"

definition normalizeHex32 :: "string \<Rightarrow> string" where
  "normalizeHex32 input =
     (let trimmed = TrimPrefix input ''0x'' in
      ''0x'' @ (if length trimmed < 64 then replicate (64 - length trimmed) (CHR ''0'') @ trimmed else trimmed))"

definition decodeHashString :: "string \<Rightarrow> textError + Hash" where
  "decodeHashString input = sbind (decodeFixedBytes (normalizeHex32 input) 32) (\<lambda>bs. Inr (word_of_int (be_int bs)))"

definition decodeHashText :: "string \<Rightarrow> textError + Hash" where
  "decodeHashText input = sbind (decodeFixedBytes input 32) (\<lambda>bs. Inr (word_of_int (be_int bs)))"

definition parseAddress :: "string \<Rightarrow> Address option" where
  "parseAddress input =
     (if TrimSpace input = [] then None else case decodeAddress input of Inl _ \<Rightarrow> None | Inr addr \<Rightarrow> Some addr)"

definition cmpOrString :: "string \<Rightarrow> string \<Rightarrow> string" where
  "cmpOrString left right = (if TrimSpace left \<noteq> [] then left else right)"

subsection \<open>Quantities\<close>

definition decodeBig :: "string \<Rightarrow> textError + int" where
  "decodeBig input =
     (let input = TrimSpace input in
      if input = [] then Inr 0
      else if HasPrefix input ''0x'' \<or> HasPrefix input ''0X''
      then (case SetString 16 (TrimPrefix (TrimPrefix input ''0x'') ''0X'') of None \<Rightarrow> Inl (HexQuantityError input) | Some v \<Rightarrow> Inr v)
      else (case SetString 10 input of None \<Rightarrow> Inl (QuantityError input) | Some v \<Rightarrow> Inr v))"

definition decodeUint64 :: "string \<Rightarrow> textError + u64" where
  "decodeUint64 input =
     sbind (decodeBig input) (\<lambda>v. if v < 0 \<or> v \<ge> 2 ^ 64 then Inl Uint64Error else Inr (word_of_int v))"

text \<open>\<open>(*big.Int).Text(16)\<close>.\<close>

fun showHexNat :: "nat \<Rightarrow> string" where
  "showHexNat n = (if n < 16 then [digitChar n] else showHexNat (n div 16) @ [digitChar (n mod 16)])"

declare showHexNat.simps [simp del]

definition showHexInt :: "int \<Rightarrow> string" where
  "showHexInt v = (if v < 0 then CHR ''-'' # showHexNat (nat (- v)) else showHexNat (nat v))"

definition encodeQuantity :: "int option \<Rightarrow> string" where
  "encodeQuantity v =
     (case v of
        None \<Rightarrow> ''0x0''
      | Some n \<Rightarrow> if n = 0 then ''0x0'' else ''0x'' @ dropWhile (\<lambda>c. c = CHR ''0'') (showHexInt n))"

subsection \<open>Modes, signatures, ranges\<close>

datatype accessMode = accessModeRead | accessModeWrite | accessModeBoth

fun accessText :: "accessMode \<Rightarrow> string" where
  "accessText accessModeRead = ''read''"
| "accessText accessModeWrite = ''write''"
| "accessText accessModeBoth = ''rw''"

definition parseAccessMode :: "string \<Rightarrow> textError + accessMode" where
  "parseAccessMode v =
     (let t = ToLower (TrimSpace v) in
      if t \<in> {'''', ''rw'', ''both'', ''readwrite''} then Inr accessModeBoth
      else if t \<in> {''read'', ''r''} then Inr accessModeRead
      else if t \<in> {''write'', ''w''} then Inr accessModeWrite
      else Inl (AccessError v))"

text \<open>\<open>strings.IndexByte\<close> and \<open>strings.LastIndexByte\<close>, \<open>None\<close> for -1.\<close>

fun IndexByte :: "string \<Rightarrow> char \<Rightarrow> nat option" where
  "IndexByte [] c = None"
| "IndexByte (x # xs) c = (if x = c then Some 0 else map_option Suc (IndexByte xs c))"

definition LastIndexByte :: "string \<Rightarrow> char \<Rightarrow> nat option" where
  "LastIndexByte s c = map_option (\<lambda>i. length s - 1 - i) (IndexByte (rev s) c)"

definition normalizeFunctionSignature :: "string \<Rightarrow> string" where
  "normalizeFunctionSignature signature =
     (let trimmed = TrimSpace signature;
          trimmed = (if HasPrefix (ToLower trimmed) ''function '' then TrimSpace (drop 9 trimmed) else trimmed);
          trimmed = (if HasPrefix (ToLower trimmed) ''sig '' then TrimSpace (drop 4 trimmed) else trimmed)
      in case IndexByte trimmed (CHR ''('') of
          None \<Rightarrow> trimmed
        | Some open \<Rightarrow>
            if open = 0 then trimmed
            else case LastIndexByte (take open trimmed) (CHR ''.'') of
                None \<Rightarrow> trimmed
              | Some dot \<Rightarrow> drop (dot + 1) (take open trimmed) @ drop open trimmed)"

text \<open>The loop of \<open>splitSignatureArguments\<close>: \<open>cur\<close> is the piece since \<open>start\<close>.\<close>

fun splitLoop :: "string \<Rightarrow> int \<Rightarrow> string \<Rightarrow> string list" where
  "splitLoop [] depth cur = [cur]"
| "splitLoop (c # cs) depth cur =
     (if c = CHR ''('' then splitLoop cs (depth + 1) (cur @ [c])
      else if c = CHR '')'' then splitLoop cs (depth - 1) (cur @ [c])
      else if c = CHR '','' \<and> depth = 0 then cur # splitLoop cs depth []
      else splitLoop cs depth (cur @ [c]))"

definition splitSignatureArguments :: "string \<Rightarrow> string list" where
  "splitSignatureArguments v = splitLoop v 0 []"

definition parseSignature :: "string \<Rightarrow> textError + (string \<times> string list)" where
  "parseSignature signature =
     (case (IndexByte signature (CHR ''(''), LastIndexByte signature (CHR '')'')) of
        (Some open, Some close) \<Rightarrow>
          if open = 0 \<or> close \<le> open then Inl (SignatureError signature)
          else
            let name = TrimSpace (take open signature);
                inside = drop (open + 1) (take close signature)
            in Inr (name, if TrimSpace inside = [] then [] else map TrimSpace (splitSignatureArguments inside))
      | _ \<Rightarrow> Inl (SignatureError signature))"

text \<open>The ABI library: the selector and the canonical signature of a method given its name and argument types, no method of
  that name, or an error.\<close>

record AbiMethod =
  amID :: bytes
  amSig :: string

type_synonym abiLibrary = "string \<Rightarrow> string list \<Rightarrow> string + AbiMethod option"

definition buildMethodFromSignature :: "abiLibrary \<Rightarrow> string \<Rightarrow> textError + (AbiMethod \<times> string)" where
  "buildMethodFromSignature abi signature =
     sbind (parseSignature (normalizeFunctionSignature signature)) (\<lambda>(name, types).
       if list_ex (\<lambda>t. Contains t ''tuple'') types then Inl TupleError
       else case abi name types of
           Inl err \<Rightarrow> Inl (AbiError err)
         | Inr None \<Rightarrow> Inl (MethodError name)
         | Inr (Some m) \<Rightarrow> Inr (m, amSig m))"

definition selectorMatches :: "bytes \<Rightarrow> bytes \<Rightarrow> bool" where
  "selectorMatches input selector = (length selector = 4 \<and> length input \<ge> 4 \<and> take 4 input = selector)"

definition rangesOverlap :: "u64 \<Rightarrow> u64 \<Rightarrow> u64 \<Rightarrow> u64 \<Rightarrow> bool" where
  "rangesOverlap offsetA sizeA offsetB sizeB =
     (offsetA < offsetB + max sizeB 1 \<and> offsetB < offsetA + max sizeA 1)"

definition containsPC :: "u64 list \<Rightarrow> u64 \<Rightarrow> bool" where
  "containsPC pcs p = list_ex (\<lambda>c. c = p) pcs"

definition hookTypeLabel :: "HookType \<Rightarrow> string" where
  "hookTypeLabel t =
     (case t of
        HookTypeExternalCall \<Rightarrow> ''call''
      | HookTypeDelegateCall \<Rightarrow> ''delegatecall''
      | HookTypeStaticCall \<Rightarrow> ''staticcall''
      | HookTypeCallCode \<Rightarrow> ''callcode''
      | _ \<Rightarrow> ''hook-'' @ showNat (hookTypeNum t))"


subsection \<open>What is encoded is decoded\<close>

lemma hex_not_space: "d < 16 \<Longrightarrow> \<not> isSpace (digitChar d)"
  by (auto simp: isSpace_def digitChar_def)

lemma hexEncode_chars: "c \<in> set (hexEncode bs) \<Longrightarrow> \<exists>d<16. c = digitChar d"
proof -
  assume "c \<in> set (hexEncode bs)"
  then obtain b :: byte where b: "c = digitChar (unat b div 16) \<or> c = digitChar (unat b mod 16)"
    unfolding hexEncode_def hexByte_def by auto
  have "unat b < 256" by (rule less_le_trans [OF unsigned_less]) simp
  then have "unat b div 16 < 16" "unat b mod 16 < 16" by simp_all
  with b show ?thesis by blast
qed

lemma length_hexEncode [simp]: "length (hexEncode bs) = 2 * length bs"
  by (induction bs) (simp_all add: hexEncode_def hexByte_def)

lemma TrimSpace_hex: "TrimSpace (''0x'' @ hexEncode bs) = ''0x'' @ hexEncode bs"
proof (rule TrimSpace_id, rule disjI2, rule conjI)
  show "\<not> isSpace (hd (''0x'' @ hexEncode bs))" by (simp add: isSpace_def)
  show "\<not> isSpace (last (''0x'' @ hexEncode bs))"
  proof (cases "hexEncode bs = []")
    case False
    then have "last (hexEncode bs) \<in> set (hexEncode bs)" by simp
    then obtain d where "d < 16" "last (hexEncode bs) = digitChar d" using hexEncode_chars by blast
    with False show ?thesis using hex_not_space by simp
  qed (simp add: isSpace_def)
qed

lemma TrimPrefix_append [simp]: "TrimPrefix (p @ s) p = s"
  by (simp add: TrimPrefix_def)

lemma decodeBytes_hex: "decodeBytes (''0x'' @ hexEncode bs) = Inr bs"
proof -
  have "hexEncode bs = [] \<longleftrightarrow> bs = []" by (cases bs) (simp_all add: hexEncode_def hexByte_def)
  then show ?thesis
    unfolding decodeBytes_def TrimSpace_hex TrimPrefix_append Let_def by (simp add: hexDecode_hexEncode)
qed

lemma encodeBytes_hex: "encodeBytes bs = ''0x'' @ hexEncode bs"
  by (simp add: encodeBytes_def EncodeHex_def hexEncode_def)

lemma decodeBytes_encodeBytes: "decodeBytes (encodeBytes bs) = Inr bs"
  unfolding encodeBytes_hex by (rule decodeBytes_hex)

lemma word_bytes_nonempty [simp]: "word_bytes w \<noteq> []" "addr_bytes a \<noteq> []"
  by (metis length_word_bytes list.size(3) zero_neq_numeral) (metis length_addr_bytes list.size(3) zero_neq_numeral)

lemma addressHex_hex: "addressHex a = ''0x'' @ hexEncode (addr_bytes a)"
  by (simp add: addressHex_def EncodeHex_def)

lemma hashHex_encodeHash: "hashHex h = encodeHash h"
  by (simp add: hashHex_def encodeHash_def EncodeHex_def)

lemma be_int_addr_bytes [simp]: "be_int (addr_bytes a) = uint a"
  using uint_lt2p [of a] by (simp add: addr_bytes_def be_int_int_bytes)

lemma decodeAddress_addressHex: "decodeAddress (addressHex a) = Inr a"
  unfolding decodeAddress_def decodeFixedBytes_def addressHex_hex decodeBytes_hex by simp

lemma parseAddress_addressHex: "parseAddress (addressHex a) = Some a"
proof -
  have "TrimSpace (addressHex a) = addressHex a" unfolding addressHex_hex by (rule TrimSpace_hex)
  moreover have "addressHex a \<noteq> []" unfolding addressHex_hex by simp
  ultimately show ?thesis unfolding parseAddress_def decodeAddress_addressHex by simp
qed

text \<open>A slot may be written with fewer than 32 bytes; zeros are put in front.\<close>

lemma digitChar_0: "digitChar 0 = CHR ''0''"
  by code_simp

lemma hexEncode_zeros: "replicate (2 * n) (CHR ''0'') @ hexEncode bs = hexEncode (replicate n 0 @ bs)"
  by (induction n) (simp_all add: hexEncode_def hexByte_def digitChar_0)

lemma normalizeHex32_hex:
  assumes "length bs \<le> 32"
  shows "normalizeHex32 (''0x'' @ hexEncode bs) = ''0x'' @ hexEncode (replicate (32 - length bs) 0 @ bs)"
proof -
  have "64 - 2 * length bs = 2 * (32 - length bs)" by simp
  then show ?thesis
    using assms unfolding normalizeHex32_def TrimPrefix_append Let_def
    by (simp add: hexEncode_zeros [symmetric])
qed

lemma decodeHashString_hex:
  assumes "length bs \<le> 32"
  shows "decodeHashString (''0x'' @ hexEncode bs) = Inr (word_of_int (be_int bs))"
  unfolding decodeHashString_def decodeFixedBytes_def normalizeHex32_hex [OF assms] decodeBytes_hex
  using assms by simp

lemma decodeHashString_encodeHash: "decodeHashString (encodeHash h) = Inr h"
  using decodeHashString_hex [of "word_bytes h"] unfolding encodeHash_def by (simp only: length_word_bytes be_int_word_bytes) simp

lemma parseAccessMode_accessText: "parseAccessMode (accessText m) = Inr m"
  by (cases m) (simp_all only: accessText.simps, code_simp+)

subsection \<open>Quantities\<close>

lemma parseDigits_showHexNat: "parseDigits 16 0 (showHexNat n) = Some n"
proof (induction n rule: showHexNat.induct)
  case (1 n)
  show ?case
  proof (cases "n < 16")
    case False
    then have "parseDigits 16 0 (showHexNat (n div 16)) = Some (n div 16)" by (rule 1)
    moreover have "n mod 16 < 16" by simp
    ultimately show ?thesis
      using False by (subst showHexNat.simps) (simp add: parseDigits_append)
  qed (subst showHexNat.simps, simp)
qed

lemma showHexNat_chars: "c \<in> set (showHexNat n) \<Longrightarrow> \<exists>d<16. c = digitChar d"
proof (induction n rule: showHexNat.induct)
  case (1 n)
  have m: "n mod 16 < 16" by simp
  from 1 show ?case
    by (subst (asm) (2) showHexNat.simps) (auto split: if_splits intro: m exI [of _ "n mod 16"])
qed

lemma digit_not_sign: "d < 16 \<Longrightarrow> digitChar d \<noteq> CHR ''-'' \<and> digitChar d \<noteq> CHR ''+'' \<and> digitChar d \<noteq> CHR ''x'' \<and> digitChar d \<noteq> CHR ''X''"
proof -
  have "\<forall>d\<in>set [0..<16]. digitChar d \<noteq> CHR ''-'' \<and> digitChar d \<noteq> CHR ''+'' \<and> digitChar d \<noteq> CHR ''x'' \<and> digitChar d \<noteq> CHR ''X''"
    by code_simp
  then show "d < 16 \<Longrightarrow> digitChar d \<noteq> CHR ''-'' \<and> digitChar d \<noteq> CHR ''+'' \<and> digitChar d \<noteq> CHR ''x'' \<and> digitChar d \<noteq> CHR ''X''"
    by simp
qed

lemma showHexNat_nonempty [simp]: "showHexNat n \<noteq> []"
  by (subst showHexNat.simps) simp

lemma showHexNat_hd: "0 < n \<Longrightarrow> hd (showHexNat n) \<noteq> CHR ''0''"
proof (induction n rule: showHexNat.induct)
  case (1 n)
  show ?case
  proof (cases "n < 16")
    case True
    have "\<forall>d\<in>set [1..<16]. digitChar d \<noteq> CHR ''0''" by code_simp
    with 1(2) True show ?thesis by (subst showHexNat.simps) auto
  next
    case False
    then have "0 < n div 16" by (simp add: div_greater_zero_iff)
    from 1(1) [OF False this] False show ?thesis by (subst showHexNat.simps) simp
  qed
qed

lemma SetString_showHexNat: "SetString 16 (showHexNat n) = Some (int n)"
proof -
  obtain c cs where c: "showHexNat n = c # cs" by (cases "showHexNat n") simp_all
  then have "c \<noteq> CHR ''-''" "c \<noteq> CHR ''+''"
    using showHexNat_chars [of c n] digit_not_sign by auto
  then show ?thesis using parseDigits_showHexNat [of n] by (simp add: SetString_def parseNat_def c)
qed

lemma encodeQuantity_hex: "0 < v \<Longrightarrow> encodeQuantity (Some v) = ''0x'' @ showHexNat (nat v)"
  using showHexNat_hd [of "nat v"] showHexNat_nonempty [of "nat v"]
  by (cases "showHexNat (nat v)") (simp_all add: encodeQuantity_def showHexInt_def)

lemma TrimSpace_quantity: "TrimSpace (''0x'' @ showHexNat n) = ''0x'' @ showHexNat n"
proof (rule TrimSpace_id, rule disjI2, rule conjI)
  show "\<not> isSpace (hd (''0x'' @ showHexNat n))" by (simp add: isSpace_def)
  have "last (showHexNat n) \<in> set (showHexNat n)" by simp
  then obtain d where "d < 16" "last (showHexNat n) = digitChar d" using showHexNat_chars by blast
  then show "\<not> isSpace (last (''0x'' @ showHexNat n))" using hex_not_space by simp
qed

lemma TrimPrefix_other: "\<not> HasPrefix s p \<Longrightarrow> TrimPrefix s p = s"
  by (simp add: TrimPrefix_def)

lemma showHexNat_no_0X: "\<not> HasPrefix (showHexNat n) ''0X''"
proof -
  have "CHR ''X'' \<notin> set (showHexNat n)" using showHexNat_chars digit_not_sign by metis
  then show ?thesis
    by (cases "showHexNat n"; cases "tl (showHexNat n)") (auto simp: HasPrefix_def)
qed

lemma decodeBig_hex: "decodeBig (''0x'' @ showHexNat n) = Inr (int n)"
  unfolding decodeBig_def TrimSpace_quantity Let_def TrimPrefix_append TrimPrefix_other [OF showHexNat_no_0X] SetString_showHexNat
  using HasPrefix_append [of "''0x''" "showHexNat n"] by simp

lemma decodeBig_encodeQuantity:
  assumes "0 \<le> v"
  shows "decodeBig (encodeQuantity (Some v)) = Inr v"
proof (cases "v = 0")
  case True
  have "showHexNat 0 = ''0''" by code_simp
  then show ?thesis using decodeBig_hex [of 0] True by (simp add: encodeQuantity_def)
next
  case False
  then show ?thesis using assms by (simp only: encodeQuantity_hex decodeBig_hex) simp
qed

lemma decodeUint64_encodeQuantity: "decodeUint64 (encodeQuantity (Some (uint n))) = Inr n"
  using uint_lt2p [of n] by (simp add: decodeUint64_def decodeBig_encodeQuantity)

subsection \<open>Ranges and lists of arguments\<close>

lemma rangesOverlap_exact:
  assumes "unat offsetA + max (unat sizeA) 1 < 2 ^ 64" "unat offsetB + max (unat sizeB) 1 < 2 ^ 64"
  shows "rangesOverlap offsetA sizeA offsetB sizeB \<longleftrightarrow>
    (\<exists>b. unat offsetA \<le> b \<and> b < unat offsetA + max (unat sizeA) 1 \<and> unat offsetB \<le> b \<and> b < unat offsetB + max (unat sizeB) 1)"
proof -
  have m: "unat (max x (1::u64)) = max (unat x) 1" for x by (simp add: max_def word_le_nat_alt)
  have e: "unat (x + max y 1) = unat x + max (unat y) 1" if "unat x + max (unat y) 1 < 2 ^ 64" for x y :: u64
    using unat_add_no_wrap [of x "max y 1"] that by (simp only: m) simp
  have "rangesOverlap offsetA sizeA offsetB sizeB \<longleftrightarrow>
      unat offsetA < unat offsetB + max (unat sizeB) 1 \<and> unat offsetB < unat offsetA + max (unat sizeA) 1"
    by (simp only: rangesOverlap_def word_less_nat_alt e assms)
  then show ?thesis by (auto intro: exI [of _ "max (unat offsetA) (unat offsetB)"])
qed

text \<open>Of a range that reaches the end of the address space nothing is seen.\<close>

lemma rangesOverlap_wraps: "\<not> rangesOverlap (- 1) 1 (- 1) 1"
  by (simp add: rangesOverlap_def)

lemma splitLoop_nonempty: "splitLoop s depth cur \<noteq> []"
  by (induction s depth cur rule: splitLoop.induct) auto

lemma joinWith_Cons: "ps \<noteq> [] \<Longrightarrow> joinWith sep (p # ps) = p @ sep # joinWith sep ps"
  by (cases ps) auto

lemma joinWith_splitLoop: "joinWith (CHR '','') (splitLoop s depth cur) = cur @ s"
  by (induction s depth cur rule: splitLoop.induct) (auto simp: joinWith_Cons splitLoop_nonempty)

lemma joinWith_splitSignatureArguments: "joinWith (CHR '','') (splitSignatureArguments v) = v"
  by (simp add: splitSignatureArguments_def joinWith_splitLoop)

end
