(* ===== verification/VarLocals.thy ===== *)
theory VarLocals
  imports VarPeek
begin

text \<open>
  Locals, the tracker of memory writes and the snapshot (\<open>internal/varpeeker\<close>: \<open>locals.go\<close>, \<open>tracker.go\<close>, \<open>peeker.go\<close>). The
  tracker is an engine hook; here it is the state it keeps and what one firing does to it.
\<close>

subsection \<open>The tracker\<close>

record TrackedRegion =
  trOffset :: u64
  trSize :: u64
  trPC :: u64
  trStepIndex :: int
  trSrc :: SourceRange

record Tracker =
  tkIndex :: "SourceIndex option"
  tkStepIndex :: int
  tkBySource :: "(SourceRange, TrackedRegion) gomap"
  tkByOffset :: "(u64, TrackedRegion) gomap"
  tkAllRegions :: "TrackedRegion list"

definition NewTracker :: "SourceIndex option \<Rightarrow> Tracker" where
  "NewTracker index = \<lparr>tkIndex = index, tkStepIndex = 0, tkBySource = [], tkByOffset = [], tkAllRegions = []\<rparr>"

abbreviation maxRetained :: nat where "maxRetained \<equiv> 4096"

definition TrackerFire :: "HookContext \<Rightarrow> 'h evmState \<Rightarrow> Tracker \<Rightarrow> Tracker" where
  "TrackerFire ctx s t =
     (case ctxMemory ctx of
        None \<Rightarrow> t
      | Some m \<Rightarrow>
          if \<not> maIsWrite m \<or> maSize m = 0 then t
          else
            let stp = tkStepIndex t + 1; p = pcVal s;
                src = (case Option.bind (tkIndex t) (\<lambda>idx. InstructionAtPC idx p) of
                    None \<Rightarrow> \<lparr>srcID = -1, srcStart = 0, srcLength = 0\<rparr>
                  | Some mapping \<Rightarrow> imSource mapping);
                region = \<lparr>trOffset = maOffset m, trSize = maSize m, trPC = p, trStepIndex = stp, trSrc = src\<rparr>;
                regions = tkAllRegions t @ [region]
            in t\<lparr>tkStepIndex := stp,
                 tkBySource := (if srcID src \<ge> 0 then mput src region (tkBySource t) else tkBySource t),
                 tkByOffset := mput (trOffset region) region (tkByOffset t),
                 tkAllRegions := (if length regions > maxRetained then drop (length regions - maxRetained) regions else regions)\<rparr>)"

text \<open>The fallback loop keeps the region of the latest step among those whose source contains \<open>src\<close>.\<close>

fun latestRegion :: "SourceRange \<Rightarrow> (SourceRange \<times> TrackedRegion) list \<Rightarrow> TrackedRegion option \<Rightarrow> TrackedRegion option" where
  "latestRegion src [] best = best"
| "latestRegion src ((recorded, region) # rs) best =
     (if srcID recorded \<noteq> srcID src \<or> srcStart recorded > srcStart src \<or> rangeEnd recorded < rangeEnd src
      then latestRegion src rs best
      else case best of
          None \<Rightarrow> latestRegion src rs (Some region)
        | Some b \<Rightarrow> latestRegion src rs (Some (if trStepIndex region > trStepIndex b then region else b)))"

definition MemoryRegionForSource :: "Tracker option \<Rightarrow> SourceRange \<Rightarrow> TrackedRegion option" where
  "MemoryRegionForSource tracker src =
     (case tracker of
        None \<Rightarrow> None
      | Some t \<Rightarrow> (case map_of (tkBySource t) src of Some region \<Rightarrow> Some region | None \<Rightarrow> latestRegion src (tkBySource t) None))"

definition MemoryRegionAt :: "Tracker option \<Rightarrow> u64 \<Rightarrow> TrackedRegion option" where
  "MemoryRegionAt tracker offset = Option.bind tracker (\<lambda>t. map_of (tkByOffset t) offset)"

definition TrackerReset :: "Tracker \<Rightarrow> Tracker" where
  "TrackerReset t = t\<lparr>tkStepIndex := 0, tkBySource := [], tkByOffset := [], tkAllRegions := []\<rparr>"

definition Regions :: "Tracker option \<Rightarrow> TrackedRegion list" where
  "Regions tracker = (case tracker of None \<Rightarrow> [] | Some t \<Rightarrow> tkAllRegions t)"

subsection \<open>The syntax tree\<close>

definition functionLike :: "ASTNode \<Rightarrow> bool" where
  "functionLike node = (nodeType node = ''FunctionDefinition'' \<or> nodeType node = ''ModifierDefinition'')"

text \<open>The way up through the parents. In a tree with repeated identifiers it may go round for ever: \<open>None\<close> is the end of the fuel.\<close>

primrec enclosingLoop :: "nat \<Rightarrow> SourceIndex \<Rightarrow> ASTNode \<Rightarrow> ASTNode option option" where
  "enclosingLoop 0 idx current = None"
| "enclosingLoop (Suc n) idx current =
     (if functionLike current then Some (Some current)
      else if nodeParent current = 0 then Some None
      else case map_of (ixNodesByID idx) (nodeParent current) of
          None \<Rightarrow> Some None
        | Some parent \<Rightarrow> if parent = current then Some None else enclosingLoop n idx parent)"

definition findEnclosingFunctionLikeNode :: "nat \<Rightarrow> SourceIndex \<Rightarrow> ASTNode option \<Rightarrow> ASTNode option option" where
  "findEnclosingFunctionLikeNode n idx node = (case node of None \<Rightarrow> Some None | Some nd \<Rightarrow> enclosingLoop n idx nd)"

fun smallestLoop :: "SourceRange \<Rightarrow> ASTNode list \<Rightarrow> ASTNode option \<Rightarrow> ASTNode option" where
  "smallestLoop src [] best = best"
| "smallestLoop src (node # nodes) best =
     (if \<not> functionLike node then smallestLoop src nodes best
      else if srcStart (nodeSrc node) > srcStart src \<or> rangeEnd (nodeSrc node) < rangeEnd src then smallestLoop src nodes best
      else case best of
          None \<Rightarrow> smallestLoop src nodes (Some node)
        | Some b \<Rightarrow> if srcLength (nodeSrc node) < srcLength (nodeSrc b) then smallestLoop src nodes (Some node)
                    else smallestLoop src nodes best)"

definition findEnclosingFunctionLikeBySource :: "SourceIndex \<Rightarrow> SourceRange \<Rightarrow> ASTNode option" where
  "findEnclosingFunctionLikeBySource idx src = smallestLoop src (mread [] (ixNodesBySourceID idx) (srcID src)) None"

definition findEnclosingFunction :: "nat \<Rightarrow> SourceIndex \<Rightarrow> InstructionMapping \<Rightarrow> ASTNode option option" where
  "findEnclosingFunction n idx mapping =
     map_option (\<lambda>r. case r of Some node \<Rightarrow> Some node | None \<Rightarrow> findEnclosingFunctionLikeBySource idx (imSource mapping))
       (findEnclosingFunctionLikeNode n idx (imAST mapping))"

type_synonym raw = "(string, AnyVal) gomap"

fun asMap :: "AnyVal \<Rightarrow> raw option" where
  "asMap (AnyMap m) = Some m"
| "asMap _ = None"

fun asList :: "AnyVal \<Rightarrow> AnyVal list option" where
  "asList (AnyList vs) = Some vs"
| "asList _ = None"

text \<open>\<open>raw[key]["parameters"]\<close> as a list, where the document has that shape.\<close>

definition parameterItems :: "raw \<Rightarrow> string \<Rightarrow> AnyVal list" where
  "parameterItems raw key =
     (case Option.bind (asMap (anyField raw key)) (\<lambda>list. asList (anyField list ''parameters'')) of None \<Rightarrow> [] | Some vs \<Rightarrow> vs)"

definition paramListFrom :: "raw \<Rightarrow> string \<Rightarrow> raw list" where
  "paramListFrom raw key = List.map_filter asMap (parameterItems raw key)"

fun parseSrcAttr :: "AnyVal \<Rightarrow> SourceRange option" where
  "parseSrcAttr (AnyString str) =
     (case splitOn (CHR '':'') str of
        a # b # c # rest \<Rightarrow>
          (case (Atoi a, Atoi b, Atoi c) of
             (Some start, Some len, Some fileID) \<Rightarrow> Some \<lparr>srcID = fileID, srcStart = start, srcLength = len\<rparr>
           | _ \<Rightarrow> None)
      | _ \<Rightarrow> None)"
| "parseSrcAttr _ = None"

fun asJSONNumber :: "AnyVal \<Rightarrow> int option" where
  "asJSONNumber (AnyNum n) = Some n"
| "asJSONNumber _ = None"

fun reflectSameMap :: "AnyVal \<Rightarrow> raw \<Rightarrow> bool" where
  "reflectSameMap (AnyMap m) b =
     (asJSONNumber (anyField m ''id'') \<noteq> None \<and> asJSONNumber (anyField m ''id'') = asJSONNumber (anyField b ''id''))"
| "reflectSameMap _ b = False"

definition isInsideParameterList :: "raw \<Rightarrow> raw \<Rightarrow> bool" where
  "isInsideParameterList funcRaw target =
     list_ex (\<lambda>key. list_ex (\<lambda>item. reflectSameMap item target) (parameterItems funcRaw key)) [''parameters'', ''returnParameters'']"

text \<open>\<open>walkASTRaw\<close>: the documents visited, in order; below one where \<open>descend\<close> (the result of \<open>visit\<close>) is false nothing is visited.\<close>

function walkASTRaw :: "(raw \<Rightarrow> bool) \<Rightarrow> raw \<Rightarrow> raw list" where
  "walkASTRaw descend node =
     node # (if descend node then concat (map (walkASTRaw descend) (collectChildObjects node)) else [])"
  by pat_completeness auto
termination
  by (relation "measure (\<lambda>(d, node). size (AnyMap node))") (auto dest: size_child simp del: AnyVal.size)

declare walkASTRaw.simps [simp del]

subsection \<open>Declarations\<close>

definition declType :: "raw \<Rightarrow> string" where
  "declType decl =
     (let typeStr = rawTypeString decl in
      if typeStr \<noteq> [] then typeStr
      else case anyField decl ''typeName'' of AnyMap tn \<Rightarrow> rawTypeString tn | _ \<Rightarrow> [])"

definition declStorageLoc :: "raw \<Rightarrow> string" where
  "declStorageLoc decl = (let loc = rawString decl ''storageLocation'' in if loc = [] \<or> loc = ''default'' then ''stack'' else loc)"

definition buildDeclaration :: "raw \<Rightarrow> VariableKind \<Rightarrow> SourceFile option \<Rightarrow> VariableHead" where
  "buildDeclaration decl kind file =
     (let place = (case (file, parseSrcAttr (anyField decl ''src'')) of
          (Some f, Some src) \<Rightarrow> (fst (LineColumnForOffset (Some (sfContent f)) (srcStart src)), srcID src)
        | _ \<Rightarrow> (0, -1))
      in \<lparr>vaName = rawString decl ''name'', vaKind = kind, vaType = declType decl, vaStorageLoc = declStorageLoc decl,
          vaDeclaredAtLine = fst place, vaSourceID = snd place, vaValue = [], vaConfidence = ConfidenceUnavailable,
          vaLocation = noLocation, vaNote = []\<rparr>)"

definition decodeIfStackResolvable :: "PeekLib \<Rightarrow> VariableHead \<Rightarrow> 'h evmState option \<Rightarrow> int \<Rightarrow> Tracker option \<Rightarrow> VariableHead" where
  "decodeIfStackResolvable P v st depth tracker =
     (case st of
        None \<Rightarrow> v
      | Some s \<Rightarrow>
          if depth < 0 \<or> depth \<ge> StackLen s then v
          else
            let (decoded, ptr, remark) = decodeStackValue P (stack s ! nat depth) (vaType v) (vaStorageLoc v) st;
                v = v\<lparr>vaLocation := noLocation\<lparr>loKind := LocationStack, loStackIndex := depth + 1\<rparr>\<rparr>;
                v = (if decoded \<noteq> [] then v\<lparr>vaValue := decoded, vaConfidence := ConfidenceLow\<rparr> else v);
                v = (if ptr \<noteq> 0
                     then v\<lparr>vaLocation := noLocation\<lparr>loKind := LocationMemory, loOffset := ptr, loStackIndex := depth + 1\<rparr>\<rparr> else v);
                v = (if remark \<noteq> [] then v\<lparr>vaNote := remark\<rparr> else v)
            in if ptr \<noteq> 0
               then (case MemoryRegionAt tracker ptr of
                   None \<Rightarrow> v
                 | Some region \<Rightarrow> if trSize region > 0
                     then v\<lparr>vaLocation := (vaLocation v)\<lparr>loLength := trSize region\<rparr>, vaConfidence := ConfidenceHigh\<rparr> else v)
               else v)"

definition raiseLow :: "Confidence \<Rightarrow> VariableHead \<Rightarrow> VariableHead" where
  "raiseLow c v = (if vaConfidence v = ConfidenceLow then v\<lparr>vaConfidence := c\<rparr> else v)"

text \<open>Slot counts: those of the function's debug data when it has any, else one per declaration.\<close>

definition slotCounts :: "SourceIndex \<Rightarrow> ASTNode \<Rightarrow> int \<times> int \<times> Confidence" where
  "slotCounts idx node =
     (case map_of (ixFunctionDebugByID idx) (nodeID node) of
        Some dbg \<Rightarrow> if fiParameterSlots dbg > 0 \<or> fiReturnSlots dbg > 0 then (fiParameterSlots dbg, fiReturnSlots dbg, ConfidenceMedium)
          else (int (length (paramListFrom (nodeRaw node) ''parameters'')), int (length (paramListFrom (nodeRaw node) ''returnParameters'')), ConfidenceLow)
      | None \<Rightarrow> (int (length (paramListFrom (nodeRaw node) ''parameters'')), int (length (paramListFrom (nodeRaw node) ''returnParameters'')), ConfidenceLow))"

definition parameterLocals :: "PeekLib \<Rightarrow> SourceIndex \<Rightarrow> Tracker option \<Rightarrow> 'h evmState \<Rightarrow> ASTNode \<Rightarrow> SourceFile option \<Rightarrow> VariableHead list" where
  "parameterLocals P idx tracker s node file =
     (let (paramCount, returnCount, confidence) = slotCounts idx node
      in map (\<lambda>(i, decl). raiseLow confidence
             (decodeIfStackResolvable P (buildDeclaration decl KindParameter file) (Some s) (returnCount + (paramCount - 1 - int i)) tracker))
           (enumerate 0 (paramListFrom (nodeRaw node) ''parameters'')))"

definition returnLocals :: "PeekLib \<Rightarrow> SourceIndex \<Rightarrow> Tracker option \<Rightarrow> 'h evmState \<Rightarrow> ASTNode \<Rightarrow> SourceFile option \<Rightarrow> VariableHead list" where
  "returnLocals P idx tracker s node file =
     (let (paramCount, returnCount, confidence) = slotCounts idx node
      in map (\<lambda>(i, decl). raiseLow confidence
             (decodeIfStackResolvable P (buildDeclaration decl KindReturn file) (Some s) (returnCount - 1 - int i) tracker))
           (filter (\<lambda>(i, decl). rawString decl ''name'' \<noteq> []) (enumerate 0 (paramListFrom (nodeRaw node) ''returnParameters''))))"

text \<open>Body declarations: \<open>declaredBefore\<close> is the source of a variable declaration, \<open>descendLocals\<close> the result of the visitor.\<close>

definition declSource :: "raw \<Rightarrow> SourceRange option" where
  "declSource node = (if rawString node ''nodeType'' \<noteq> ''VariableDeclaration'' then None else parseSrcAttr (anyField node ''src''))"

definition descendLocals :: "int \<Rightarrow> raw \<Rightarrow> bool" where
  "descendLocals currentStart node = (case declSource node of None \<Rightarrow> True | Some src \<Rightarrow> srcStart src < currentStart)"

definition bodyLocal :: "Tracker option \<Rightarrow> raw \<Rightarrow> int \<Rightarrow> SourceFile option \<Rightarrow> raw \<Rightarrow> VariableHead option" where
  "bodyLocal tracker funcRaw currentStart file node =
     (case declSource node of
        None \<Rightarrow> None
      | Some src \<Rightarrow>
          if srcStart src \<ge> currentStart \<or> isInsideParameterList funcRaw node then None
          else
            let v = buildDeclaration node KindLocal file in
            if vaName v = [] then None
            else case MemoryRegionForSource tracker src of
                None \<Rightarrow> Some v
              | Some region \<Rightarrow>
                  let v = v\<lparr>vaLocation := noLocation\<lparr>loKind := LocationMemory, loOffset := trOffset region, loLength := trSize region\<rparr>\<rparr>
                  in Some (if vaConfidence v = ConfidenceUnavailable then v\<lparr>vaConfidence := ConfidenceHigh\<rparr> else v))"

definition bodyLocals :: "Tracker option \<Rightarrow> raw \<Rightarrow> int \<Rightarrow> SourceFile option \<Rightarrow> VariableHead list" where
  "bodyLocals tracker funcRaw currentStart file =
     List.map_filter (bodyLocal tracker funcRaw currentStart file) (walkASTRaw (descendLocals currentStart) funcRaw)"

text \<open>\<open>None\<close> only where the search for the enclosing function runs out of fuel.\<close>

definition peekLocals :: "nat \<Rightarrow> PeekLib \<Rightarrow> SourceIndex option \<Rightarrow> Tracker option \<Rightarrow> 'h evmState option \<Rightarrow> u64 \<Rightarrow> VariableHead list option" where
  "peekLocals n P index tracker st p =
     (case (index, st) of
        (Some idx, Some s) \<Rightarrow>
          (case InstructionAtPC idx p of
             None \<Rightarrow> Some []
           | Some mapping \<Rightarrow>
               if srcID (imSource mapping) < 0 then Some []
               else map_option (\<lambda>enclosing. case enclosing of
                     None \<Rightarrow> []
                   | Some node \<Rightarrow>
                       let file = map_of (ixSources idx) (srcID (imSource mapping)) in
                       parameterLocals P idx tracker s node file @ returnLocals P idx tracker s node file @
                       bodyLocals tracker (nodeRaw node) (srcStart (imSource mapping)) file)
                 (findEnclosingFunction n idx mapping))
      | _ \<Rightarrow> Some [])"

subsection \<open>The snapshot\<close>

definition peekSnapshot :: "nat \<Rightarrow> PeekLib \<Rightarrow> SourceIndex option \<Rightarrow> Tracker option \<Rightarrow> 'h evmState option \<Rightarrow> Address \<Rightarrow> bytes \<Rightarrow> Snapshot outcome option" where
  "peekSnapshot n P index tracker st contractAddr runtimeCode =
     (case (index, st) of
        (Some idx, Some s) \<Rightarrow>
          let p = pcVal s in
          Option.bind (case InstructionAtPC idx p of None \<Rightarrow> Some None | Some mapping \<Rightarrow> findEnclosingFunction n idx mapping) (\<lambda>fn.
          Option.bind (peekLocals n P index tracker st p) (\<lambda>locals.
          Option.bind (peekStorageVars n P index st contractAddr StorageScopePersistent) (\<lambda>sto.
          Option.bind (peekStorageVars n P index st contractAddr StorageScopeTransient) (\<lambda>tra.
          Some (obind (if runtimeCode = [] then Ok [] else peekImmutables index runtimeCode) (\<lambda>imm.
            Ok (emptySnapshot\<lparr>snPC := p, snFunction := (case fn of None \<Rightarrow> [] | Some node \<Rightarrow> nodeName node),
                  snContract := bcContractName (ixBuild idx), snLocals := map (\<lambda>v. Variable v []) locals, snStorage := sto,
                  snTransient := tra, snImmutables := imm\<rparr>)))))))
      | _ \<Rightarrow> Some (Ok emptySnapshot))"

end
