(* ===== verification/DebugState.thy ===== *)
theory DebugState
  imports DebugText VarLocals ForkEngine
begin

text \<open>
  What the debug server keeps (\<open>internal/jsonrpc\<close>: the types of \<open>gdb.go\<close>, \<open>server.go\<close>, \<open>gdb_state_patch.go\<close>,
  \<open>gdb_sequence.go\<close>, and \<open>Bundle\<close> of \<open>contractmeta/types.go\<close>), and what lies outside of it (\<open>DebugEnv\<close>).
\<close>

subsection \<open>Bundles and the ABI library\<close>

record ProxyInfo =
  piProxyAddress :: "Address option"
  piImplementationAddress :: "Address option"
  piBeaconAddress :: "Address option"
  piDetectedBy :: "string list"

record Bundle =
  buSourceName :: string
  buContractName :: string
  buCompilerVersion :: string
  buAddress :: "Address option"
  buCodeAddress :: "Address option"
  buStandardJSON :: string
  buABIJSON :: string
  buMetadata :: ContractMetadata
  buProxy :: "ProxyInfo option"
  buIndex :: "SourceIndex option"

text \<open>A method of a parsed ABI and the values its library unpacks, by the Go type \<open>formatArgumentValue\<close> tells apart.\<close>

record AbiInput =
  aiName :: string
  aiType :: string

record AbiFunction = AbiMethod +
  afInputs :: "AbiInput list"

datatype AbiValue = AbiNil | AbiString string | AbiBool bool | AbiBig "int option" | AbiAddress Address | AbiBytes bytes
  | AbiFixed bytes | AbiOther string

record BundleSelectorIndex =
  bsSignatures :: "(string, string) gomap"
  bsMethods :: "(string, AbiFunction) gomap"

subsection \<open>A pause\<close>

record MemoryRegionInfo =
  miKind :: string
  miLabel :: string
  miOffset :: u64
  miLength :: u64

record LocalVariable =
  lvName :: string
  lvType :: string
  lvStorageLocation :: string
  lvKind :: string
  lvDeclaredAtLine :: int
  lvValue :: string
  lvConfidence :: string
  lvStackIndex :: int
  lvMemoryPointer :: u64
  lvNote :: string

record VariableValue =
  vvScope :: string
  vvName :: string
  vvSlot :: string
  vvValue :: string
  vvType :: string

record CallArgument =
  caName :: string
  caType :: string
  caValue :: string

record CallFrameInfo =
  cfDepth :: int
  cfContractAddress :: string
  cfCodeAddress :: string
  cfCallerAddress :: string
  cfCallType :: string
  cfSelector :: string
  cfInputSize :: int
  cfInput :: string
  cfValue :: string
  cfContractName :: string
  cfFunctionSignature :: string
  cfFunctionName :: string
  cfFunctionSource :: string
  cfArguments :: "CallArgument list"
  cfArgumentsError :: string

record StepPayload =
  spPC :: u64
  spOp :: string
  spDepth :: int
  spGasRemaining :: u64
  spGasCost :: u64

record RpcCallAccess =
  rcaKind :: string
  rcaCaller :: string
  rcaCallee :: string
  rcaCodeAddr :: string
  rcaInput :: string
  rcaValue :: string
  rcaGas :: u64

record RpcStorageAccess =
  rsaAddress :: string
  rsaScope :: string
  rsaSlot :: string
  rsaValue :: string
  rsaIsWrite :: bool

record RpcMemoryAccess =
  rmaOffset :: u64
  rmaSize :: u64
  rmaIsWrite :: bool
  rmaData :: string

record ReplayPause =
  rpReason :: string
  rpBreakpoint :: string
  rpStepIndex :: int
  rpContractAddress :: string
  rpCodeAddress :: string
  rpMemory :: string
  rpMemoryTruncated :: bool
  rpMemorySize :: int
  rpMemoryRegions :: "MemoryRegionInfo list"
  rpFreeMemoryPointer :: u64
  rpStack :: "string list"
  rpLocals :: "LocalVariable list"
  rpSource :: "(string, AnyVal) gomap"
  rpStorage :: "VariableValue list"
  rpTransient :: "VariableValue list"
  rpCallAccess :: "RpcCallAccess option"
  rpStorageAccess :: "RpcStorageAccess option"
  rpMemoryAccess :: "RpcMemoryAccess option"
  rpMetadata :: "ContractMetadata option"
  rpStep :: StepPayload
  rpCallStack :: "CallFrameInfo list"
  rpPeek :: "Snapshot option"

subsection \<open>A session\<close>

record DebugBreakpoint =
  dbID :: string
  dbKind :: string
  dbDisplay :: string
  dbCodeAddress :: string
  dbSourceName :: string
  dbLine :: int
  dbColumn :: int
  dbPCs :: "u64 list"
  dbSignature :: string
  dbAddress :: string
  dbSlot :: string
  dbSlotLabel :: string
  dbOffset :: u64
  dbSize :: u64
  dbAccess :: string
  dbSelector :: bytes
  dbAddressFilter :: "Address option"
  dbSlotFilter :: "Hash option"

definition zeroBreakpoint :: DebugBreakpoint where
  "zeroBreakpoint = \<lparr>dbID = [], dbKind = [], dbDisplay = [], dbCodeAddress = [], dbSourceName = [], dbLine = 0, dbColumn = 0,
     dbPCs = [], dbSignature = [], dbAddress = [], dbSlot = [], dbSlotLabel = [], dbOffset = 0, dbSize = 0, dbAccess = [],
     dbSelector = [], dbAddressFilter = None, dbSlotFilter = None\<rparr>"

record ReplayMutation =
  muKind :: string
  muStepIndex :: int
  muAddress :: string
  muScope :: string
  muSlot :: string
  muValue :: string
  muOffset :: u64
  muData :: string

definition storageMutation :: "int \<Rightarrow> string \<Rightarrow> string \<Rightarrow> string \<Rightarrow> string \<Rightarrow> ReplayMutation" where
  "storageMutation stp addr scope slot v = \<lparr>muKind = ''storage'', muStepIndex = stp, muAddress = addr, muScope = scope,
     muSlot = slot, muValue = v, muOffset = 0, muData = []\<rparr>"

definition memoryMutation :: "int \<Rightarrow> u64 \<Rightarrow> string \<Rightarrow> ReplayMutation" where
  "memoryMutation stp offset dat = \<lparr>muKind = ''memory'', muStepIndex = stp, muAddress = [], muScope = [], muSlot = [],
     muValue = [], muOffset = offset, muData = dat\<rparr>"

record ReplaySession =
  seKind :: string
  seID :: string
  seTargetTx :: string
  seExact :: bool
  seLimitation :: string
  sePosition :: int
  seDone :: bool
  seResult :: "ExecutionResult option"
  seTrace :: "ReplayTraceStep list"
  seCurrent :: "ReplayPause option"
  seBreakpoints :: "DebugBreakpoint list"
  seMutations :: "ReplayMutation list"
  seBundles :: "(string, Bundle) gomap"
  seTxHash :: Hash
  seCodeAddr :: "Address option"
  seTargetAddr :: "Address option"
  seCallRequest :: "CallRequest option"
  seRootInput :: bytes
  seLastStep :: int
  sePendingPause :: "ReplayPause option"
  seMemorySnapshot :: bytes
  seCallFrames :: "CallFrameInfo list"
  seMatchedAddresses :: "string list"
  seAutoMatch :: bool
  seSelectorIndex :: "(string, BundleSelectorIndex) gomap"
  seOpenchainCache :: "(string, string) gomap"
  sePauseRequested :: bool
  seExecutionRunning :: bool
  seVarTrackers :: "(string, Tracker) gomap"

definition newSession :: "string \<Rightarrow> string \<Rightarrow> ReplaySession" where
  "newSession kind sid = \<lparr>seKind = kind, seID = sid, seTargetTx = [], seExact = False, seLimitation = [], sePosition = -1,
     seDone = False, seResult = None, seTrace = [], seCurrent = None, seBreakpoints = [], seMutations = [], seBundles = [],
     seTxHash = 0, seCodeAddr = None, seTargetAddr = None, seCallRequest = None, seRootInput = [], seLastStep = 0,
     sePendingPause = None, seMemorySnapshot = [], seCallFrames = [], seMatchedAddresses = [], seAutoMatch = False,
     seSelectorIndex = [], seOpenchainCache = [], sePauseRequested = False, seExecutionRunning = False, seVarTrackers = []\<rparr>"

subsection \<open>Outside of the server\<close>

text \<open>
  \<open>deParseABI\<close> and \<open>deUnpack\<close> are the ABI library on a contract's ABI and on the arguments of a call, \<open>deMethod\<close> the same
  library on one signature, \<open>deOpenchain\<close> the signature service, \<open>deAutoMatch\<close> what \<open>AutoMatchBundle\<close> finds on disk or at an
  explorer. \<open>deFuel\<close> bounds the searches of the variable peeker.
\<close>

record DebugEnv =
  dePeek :: PeekLib
  deFuel :: nat
  deMethod :: abiLibrary
  deFunction :: "string \<Rightarrow> string list \<Rightarrow> AbiFunction option"
  deParseABI :: "string \<Rightarrow> AbiFunction list option"
  deUnpack :: "AbiInput list \<Rightarrow> bytes \<Rightarrow> string + AbiValue list"
  deOpenchain :: "string \<Rightarrow> string list option"
  deAutoMatch :: "Address \<Rightarrow> Bundle option"

text \<open>What the hooks of one run share: the session, the variables of the step hook, and when a pause request of another
  goroutine is first seen.\<close>

record DebugHost =
  dhSession :: ReplaySession
  dhContinue :: bool
  dhSeen :: int
  dhPauseArrives :: "int \<Rightarrow> bool"

definition onSession :: "(ReplaySession \<Rightarrow> ReplaySession) \<Rightarrow> DebugHost \<Rightarrow> DebugHost" where
  "onSession f h = h\<lparr>dhSession := f (dhSession h)\<rparr>"

lemma onSession_simps [simp]:
  "dhSession (onSession f h) = f (dhSession h)" "dhContinue (onSession f h) = dhContinue h"
  "dhSeen (onSession f h) = dhSeen h" "dhPauseArrives (onSession f h) = dhPauseArrives h"
  by (simp_all add: onSession_def)

end
