(* ===== verification/DebugRequest.thy ===== *)
theory DebugRequest
  imports DebugState
begin

text \<open>
  The parameters of a request (\<open>internal/jsonrpc\<close>: the request types of \<open>gdb.go\<close> and \<open>server.go\<close>, \<open>decodeStringParam\<close>,
  \<open>decodeHashParam\<close>, \<open>decodeEthCall\<close>, \<open>decodeBlockRef\<close>). A parameter is the document it holds; \<open>encoding/json\<close> puts its
  fields, in the order of the document, into the fields of a struct whose name they match without regard to case. \<open>null\<close>
  leaves a field alone. The numbers of a request are whole; which text an error of the library has is left open.
\<close>

subsection \<open>Documents into structs\<close>

type_synonym 'r jsonField = "string \<times> (AnyVal \<Rightarrow> 'r \<Rightarrow> textError + 'r)"

fun setFields :: "'r jsonField list \<Rightarrow> (string \<times> AnyVal) list \<Rightarrow> 'r \<Rightarrow> textError + 'r" where
  "setFields fs [] r = Inr r"
| "setFields fs ((key, v) # kvs) r =
     (case find (\<lambda>(name, field). ToLower name = ToLower key) fs of
        None \<Rightarrow> setFields fs kvs r
      | Some (name, field) \<Rightarrow> sbind (field v r) (setFields fs kvs))"

definition decodeObject :: "'r jsonField list \<Rightarrow> 'r \<Rightarrow> AnyVal \<Rightarrow> textError + 'r" where
  "decodeObject fs zero v =
     (case v of AnyMap kvs \<Rightarrow> setFields fs kvs zero | AnyNil \<Rightarrow> Inr zero | _ \<Rightarrow> Inl (JsonError ''object''))"

definition textField :: "((string \<Rightarrow> string) \<Rightarrow> 'r \<Rightarrow> 'r) \<Rightarrow> AnyVal \<Rightarrow> 'r \<Rightarrow> textError + 'r" where
  "textField upd v r =
     (case v of AnyString s \<Rightarrow> Inr (upd (\<lambda>_. s) r) | AnyNil \<Rightarrow> Inr r | _ \<Rightarrow> Inl (JsonError ''string''))"

definition intField :: "((int \<Rightarrow> int) \<Rightarrow> 'r \<Rightarrow> 'r) \<Rightarrow> AnyVal \<Rightarrow> 'r \<Rightarrow> textError + 'r" where
  "intField upd v r =
     (case v of
        AnyNum n \<Rightarrow> if isInt64 n then Inr (upd (\<lambda>_. n) r) else Inl (JsonError ''int'')
      | AnyNil \<Rightarrow> Inr r
      | _ \<Rightarrow> Inl (JsonError ''int''))"

definition uintField :: "((u64 \<Rightarrow> u64) \<Rightarrow> 'r \<Rightarrow> 'r) \<Rightarrow> AnyVal \<Rightarrow> 'r \<Rightarrow> textError + 'r" where
  "uintField upd v r =
     (case v of
        AnyNum n \<Rightarrow> if 0 \<le> n \<and> n < 2 ^ 64 then Inr (upd (\<lambda>_. word_of_int n) r) else Inl (JsonError ''uint64'')
      | AnyNil \<Rightarrow> Inr r
      | _ \<Rightarrow> Inl (JsonError ''uint64''))"

definition boolField :: "((bool \<Rightarrow> bool) \<Rightarrow> 'r \<Rightarrow> 'r) \<Rightarrow> AnyVal \<Rightarrow> 'r \<Rightarrow> textError + 'r" where
  "boolField upd v r =
     (case v of AnyBool b \<Rightarrow> Inr (upd (\<lambda>_. b) r) | AnyNil \<Rightarrow> Inr r | _ \<Rightarrow> Inl (JsonError ''bool''))"

text \<open>A pointer to a bool: \<open>null\<close> makes it nil.\<close>

definition boolPtrField :: "((bool option \<Rightarrow> bool option) \<Rightarrow> 'r \<Rightarrow> 'r) \<Rightarrow> AnyVal \<Rightarrow> 'r \<Rightarrow> textError + 'r" where
  "boolPtrField upd v r =
     (case v of
        AnyBool b \<Rightarrow> Inr (upd (\<lambda>_. Some b) r)
      | AnyNil \<Rightarrow> Inr (upd (\<lambda>_. None) r)
      | _ \<Rightarrow> Inl (JsonError ''bool''))"

definition anyField :: "((AnyVal \<Rightarrow> AnyVal) \<Rightarrow> 'r \<Rightarrow> 'r) \<Rightarrow> AnyVal \<Rightarrow> 'r \<Rightarrow> textError + 'r" where
  "anyField upd v r = Inr (upd (\<lambda>_. v) r)"

text \<open>A slice: each element is decoded from its zero value.\<close>

fun decodeItems :: "(AnyVal \<Rightarrow> textError + 'a) \<Rightarrow> AnyVal list \<Rightarrow> textError + 'a list" where
  "decodeItems dec [] = Inr []"
| "decodeItems dec (v # vs) = sbind (dec v) (\<lambda>x. sbind (decodeItems dec vs) (\<lambda>xs. Inr (x # xs)))"

definition listField :: "(AnyVal \<Rightarrow> textError + 'a) \<Rightarrow> (('a list \<Rightarrow> 'a list) \<Rightarrow> 'r \<Rightarrow> 'r) \<Rightarrow> AnyVal \<Rightarrow> 'r \<Rightarrow> textError + 'r" where
  "listField dec upd v r =
     (case v of
        AnyList vs \<Rightarrow> sbind (decodeItems dec vs) (\<lambda>xs. Inr (upd (\<lambda>_. xs) r))
      | AnyNil \<Rightarrow> Inr (upd (\<lambda>_. []) r)
      | _ \<Rightarrow> Inl (JsonError ''slice''))"

definition decodeText :: "AnyVal \<Rightarrow> textError + string" where
  "decodeText v = (case v of AnyString s \<Rightarrow> Inr s | AnyNil \<Rightarrow> Inr [] | _ \<Rightarrow> Inl (JsonError ''string''))"

subsection \<open>Parameters\<close>

definition decodeStringParam :: "AnyVal list \<Rightarrow> respError + string" where
  "decodeStringParam params =
     (case params of [] \<Rightarrow> Inl (invalidParams ''missing parameter'') | v # vs \<Rightarrow> mapErr invalidText (decodeText v))"

definition decodeHashParam :: "AnyVal list \<Rightarrow> respError + Hash" where
  "decodeHashParam params = sbind (decodeStringParam params) (\<lambda>text. mapErr invalidText (decodeHashText text))"

record callArgs =
  gaFrom :: string
  gaTo :: string
  gaInput :: string
  gaData :: string
  gaValue :: string
  gaGas :: string
  gaGasPrice :: string

definition callArgsOf :: "AnyVal \<Rightarrow> textError + callArgs" where
  "callArgsOf =
     decodeObject [(''from'', textField gaFrom_update), (''to'', textField gaTo_update), (''input'', textField gaInput_update),
         (''data'', textField gaData_update), (''value'', textField gaValue_update), (''gas'', textField gaGas_update),
         (''gasPrice'', textField gaGasPrice_update)]
       \<lparr>gaFrom = [], gaTo = [], gaInput = [], gaData = [], gaValue = [], gaGas = [], gaGasPrice = []\<rparr>"

definition decodeBlockRef :: "AnyVal list \<Rightarrow> textError + BlockRef" where
  "decodeBlockRef params =
     (case params of
        p # AnyNil # ps \<Rightarrow> Inr LatestBlock
      | p # v # ps \<Rightarrow>
          sbind (decodeText v) (\<lambda>raw.
            let raw = TrimSpace raw in
            if raw \<in> {''latest'', ''pending'', ''earliest'', ''safe'', ''finalized''} then Inr \<lparr>brNumber = None, brTag = raw\<rparr>
            else sbind (decodeBig raw) (\<lambda>v.
              if isUint64 v then Inr (BlockNumber (word_of_int v)) else Inl BlockNumberError))
      | _ \<Rightarrow> Inr LatestBlock)"

definition decodeEthCall :: "AnyVal list \<Rightarrow> respError + CallRequest" where
  "decodeEthCall params =
     (case params of
        [] \<Rightarrow> Inl (invalidParams ''missing call object'')
      | v # vs \<Rightarrow>
          mapErr invalidText
            (sbind (callArgsOf v) (\<lambda>args.
             sbind (decodeAddress (gaFrom args)) (\<lambda>from_addr.
             sbind (decodeAddress (gaTo args)) (\<lambda>to_addr.
             sbind (decodeBytes (cmpOrString (gaInput args) (gaData args))) (\<lambda>input.
             sbind (decodeBig (gaValue args)) (\<lambda>v.
             sbind (decodeUint64 (gaGas args)) (\<lambda>gasLimit.
             sbind (decodeBlockRef params) (\<lambda>block.
               Inr \<lparr>crFrom = from_addr, crTo = to_addr, crInput = input, crValue = Some v, crGasLimit = gasLimit, crGasPrice = None,
                 crBlobGasFeeCap = None, crBlobHashes = [], crAccessList = [], crBlock = block\<rparr>))))))))) "

subsection \<open>Requests\<close>

record sourceBundleRequest =
  blKind :: string
  blProjectRoot :: string
  blStandardJSONPath :: string
  blABIPath :: string
  blSourceName :: string
  blContractName :: string
  blRuntime :: "bool option"
  blAddress :: string
  blCodeAddress :: string
  blAPIBase :: string
  blAPIKey :: string
  blRPCURL :: string
  blChainIDText :: string

definition sourceBundleRequestOf :: "AnyVal \<Rightarrow> textError + sourceBundleRequest" where
  "sourceBundleRequestOf =
     decodeObject [(''kind'', textField blKind_update), (''projectRoot'', textField blProjectRoot_update),
         (''standardJsonPath'', textField blStandardJSONPath_update), (''abiPath'', textField blABIPath_update),
         (''sourceName'', textField blSourceName_update), (''contractName'', textField blContractName_update),
         (''runtime'', boolPtrField blRuntime_update), (''address'', textField blAddress_update),
         (''codeAddress'', textField blCodeAddress_update), (''apiBase'', textField blAPIBase_update),
         (''apiKey'', textField blAPIKey_update), (''rpcUrl'', textField blRPCURL_update), (''chainId'', textField blChainIDText_update)]
       \<lparr>blKind = [], blProjectRoot = [], blStandardJSONPath = [], blABIPath = [], blSourceName = [], blContractName = [],
        blRuntime = None, blAddress = [], blCodeAddress = [], blAPIBase = [], blAPIKey = [], blRPCURL = [], blChainIDText = []\<rparr>"

record sourceBreakpointRequest =
  sbID :: string
  sbAddress :: string
  sbSourceName :: string
  sbLine :: int
  sbColumn :: int

definition sourceBreakpointRequestOf :: "AnyVal \<Rightarrow> textError + sourceBreakpointRequest" where
  "sourceBreakpointRequestOf =
     decodeObject [(''id'', textField sbID_update), (''address'', textField sbAddress_update),
         (''sourceName'', textField sbSourceName_update), (''line'', intField sbLine_update), (''column'', intField sbColumn_update)]
       \<lparr>sbID = [], sbAddress = [], sbSourceName = [], sbLine = 0, sbColumn = 0\<rparr>"

record functionBreakpointRequest =
  fbID :: string
  fbSignature :: string
  fbAddress :: string

definition functionBreakpointRequestOf :: "AnyVal \<Rightarrow> textError + functionBreakpointRequest" where
  "functionBreakpointRequestOf =
     decodeObject [(''id'', textField fbID_update), (''signature'', textField fbSignature_update), (''address'', textField fbAddress_update)]
       \<lparr>fbID = [], fbSignature = [], fbAddress = []\<rparr>"

record callBreakpointRequest =
  cbID :: string
  cbAddress :: string
  cbSignature :: string

definition callBreakpointRequestOf :: "AnyVal \<Rightarrow> textError + callBreakpointRequest" where
  "callBreakpointRequestOf =
     decodeObject [(''id'', textField cbID_update), (''address'', textField cbAddress_update), (''signature'', textField cbSignature_update)]
       \<lparr>cbID = [], cbAddress = [], cbSignature = []\<rparr>"

record storageBreakpointRequest =
  tbID :: string
  tbAddress :: string
  tbSlot :: string
  tbName :: string
  tbAccess :: string

definition storageBreakpointRequestOf :: "AnyVal \<Rightarrow> textError + storageBreakpointRequest" where
  "storageBreakpointRequestOf =
     decodeObject [(''id'', textField tbID_update), (''address'', textField tbAddress_update), (''slot'', textField tbSlot_update),
         (''name'', textField tbName_update), (''access'', textField tbAccess_update)]
       \<lparr>tbID = [], tbAddress = [], tbSlot = [], tbName = [], tbAccess = []\<rparr>"

record memoryBreakpointRequest =
  mbID :: string
  mbAddress :: string
  mbOffset :: u64
  mbSize :: u64
  mbAccess :: string
  mbSourceName :: string
  mbLine :: int
  mbColumn :: int

definition memoryBreakpointRequestOf :: "AnyVal \<Rightarrow> textError + memoryBreakpointRequest" where
  "memoryBreakpointRequestOf =
     decodeObject [(''id'', textField mbID_update), (''address'', textField mbAddress_update), (''offset'', uintField mbOffset_update),
         (''size'', uintField mbSize_update), (''access'', textField mbAccess_update), (''sourceName'', textField mbSourceName_update),
         (''line'', intField mbLine_update), (''column'', intField mbColumn_update)]
       \<lparr>mbID = [], mbAddress = [], mbOffset = 0, mbSize = 0, mbAccess = [], mbSourceName = [], mbLine = 0, mbColumn = 0\<rparr>"

record writeStorageRequest =
  wsAddress :: string
  wsScope :: string
  wsSlot :: string
  wsValue :: string

definition writeStorageRequestOf :: "AnyVal \<Rightarrow> textError + writeStorageRequest" where
  "writeStorageRequestOf =
     decodeObject [(''address'', textField wsAddress_update), (''scope'', textField wsScope_update), (''slot'', textField wsSlot_update),
         (''value'', textField wsValue_update)]
       \<lparr>wsAddress = [], wsScope = [], wsSlot = [], wsValue = []\<rparr>"

record writeMemoryRequest =
  wmOffset :: u64
  wmData :: string

definition writeMemoryRequestOf :: "AnyVal \<Rightarrow> textError + writeMemoryRequest" where
  "writeMemoryRequestOf =
     decodeObject [(''offset'', uintField wmOffset_update), (''data'', textField wmData_update)] \<lparr>wmOffset = 0, wmData = []\<rparr>"

record deleteBreakpointRequest =
  dlID :: string

definition deleteBreakpointRequestOf :: "AnyVal \<Rightarrow> textError + deleteBreakpointRequest" where
  "deleteBreakpointRequestOf = decodeObject [(''id'', textField dlID_update)] \<lparr>dlID = []\<rparr>"

record readMemoryRequest =
  rdOffset :: u64
  rdLength :: u64

definition readMemoryRequestOf :: "AnyVal \<Rightarrow> textError + readMemoryRequest" where
  "readMemoryRequestOf =
     decodeObject [(''offset'', uintField rdOffset_update), (''length'', uintField rdLength_update)] \<lparr>rdOffset = 0, rdLength = 0\<rparr>"

record autoMatchConfigRequest =
  acProjectRoot :: string
  acExplorerEnabled :: bool
  acAPIBase :: string
  acAPIKey :: string
  acRPCURL :: string
  acChainID :: string

definition autoMatchConfigRequestOf :: "AnyVal \<Rightarrow> textError + autoMatchConfigRequest" where
  "autoMatchConfigRequestOf =
     decodeObject [(''projectRoot'', textField acProjectRoot_update), (''explorerEnabled'', boolField acExplorerEnabled_update),
         (''apiBase'', textField acAPIBase_update), (''apiKey'', textField acAPIKey_update), (''rpcUrl'', textField acRPCURL_update),
         (''chainId'', textField acChainID_update)]
       \<lparr>acProjectRoot = [], acExplorerEnabled = False, acAPIBase = [], acAPIKey = [], acRPCURL = [], acChainID = []\<rparr>"

record statePatchImportRequest =
  piPatches :: "string list"
  piMerge :: string

definition statePatchImportRequestOf :: "AnyVal \<Rightarrow> textError + statePatchImportRequest" where
  "statePatchImportRequestOf =
     decodeObject [(''patches'', listField decodeText piPatches_update), (''merge'', textField piMerge_update)]
       \<lparr>piPatches = [], piMerge = []\<rparr>"

record statePatchExportRequest =
  pxScope :: string

definition statePatchExportRequestOf :: "AnyVal \<Rightarrow> textError + statePatchExportRequest" where
  "statePatchExportRequestOf = decodeObject [(''scope'', textField pxScope_update)] \<lparr>pxScope = []\<rparr>"

subsection \<open>Sequences\<close>

record SequenceStepSpec =
  stpKind :: string
  stpRequest :: "(string \<times> AnyVal) list"
  stpBlock :: AnyVal
  stpTxHash :: string
  stpLabel :: string
  stpMeta :: "(string \<times> AnyVal) list"

definition mapField :: "(((string \<times> AnyVal) list \<Rightarrow> (string \<times> AnyVal) list) \<Rightarrow> 'r \<Rightarrow> 'r) \<Rightarrow> AnyVal \<Rightarrow> 'r \<Rightarrow> textError + 'r" where
  "mapField upd v r =
     (case v of
        AnyMap kvs \<Rightarrow> Inr (upd (\<lambda>m. fold (\<lambda>(k, v). mput k v) kvs m) r)
      | AnyNil \<Rightarrow> Inr (upd (\<lambda>_. []) r)
      | _ \<Rightarrow> Inl (JsonError ''object''))"

definition sequenceStepOf :: "AnyVal \<Rightarrow> textError + SequenceStepSpec" where
  "sequenceStepOf =
     decodeObject [(''kind'', textField stpKind_update), (''request'', mapField stpRequest_update), (''block'', anyField stpBlock_update),
         (''txHash'', textField stpTxHash_update), (''label'', textField stpLabel_update), (''meta'', mapField stpMeta_update)]
       \<lparr>stpKind = [], stpRequest = [], stpBlock = AnyNil, stpTxHash = [], stpLabel = [], stpMeta = []\<rparr>"

record sequenceStartRequest =
  sqSteps :: "SequenceStepSpec list"
  sqStateCarry :: string

definition sequenceStartRequestOf :: "AnyVal \<Rightarrow> textError + sequenceStartRequest" where
  "sequenceStartRequestOf =
     decodeObject [(''steps'', listField sequenceStepOf sqSteps_update), (''stateCarry'', textField sqStateCarry_update)]
       \<lparr>sqSteps = [], sqStateCarry = []\<rparr>"

end
