(* ===== verification/DebugViews.thy ===== *)
theory DebugViews
  imports DebugState SourceRuntime "HOL-Library.List_Lexorder"
begin

text \<open>
  What a pause shows of a frame (\<open>internal/jsonrpc/gdb.go\<close>): memory, stack, storage variables, source position, locals, and the
  names and arguments of the frames on the call stack. The helpers that \<open>gdb.go\<close> has in common with \<open>varpeeker\<close>, word for
  word, are those of \<open>VarPeek\<close> and \<open>VarLocals\<close>.
\<close>

subsection \<open>Memory and stack\<close>

definition encodeMemoryCapped :: "PeekLib \<Rightarrow> 'h evmState \<Rightarrow> nat \<Rightarrow> string \<times> bool" where
  "encodeMemoryCapped P s cap =
     (if MemoryLen s = 0 then (''0x'', False)
      else if cap > 0 \<and> MemoryLen s > cap then (encodeBytes (MemoryGet P 0 (of_nat cap) s), True)
      else (encodeBytes (MemoryGet P 0 (ulen (memory s)) s), False))"

definition encodeMemory :: "PeekLib \<Rightarrow> 'h evmState \<Rightarrow> string" where
  "encodeMemory P s = fst (encodeMemoryCapped P s 0)"

abbreviation pauseInlineMemoryCap :: nat where "pauseInlineMemoryCap \<equiv> 4096"

definition encodeStackSnapshot :: "'h evmState \<Rightarrow> string list" where
  "encodeStackSnapshot s = map (\<lambda>i. encodeHash (stack s ! i)) [0..<length (stack s)]"

text \<open>The low eight bytes of the word at 0x40.\<close>

definition readFreeMemoryPointer :: "PeekLib \<Rightarrow> 'h evmState \<Rightarrow> u64" where
  "readFreeMemoryPointer P s =
     (if MemoryLen s < 0x60 then 0
      else let dat = MemoryGet P 0x40 32 s in
        if length dat \<noteq> 32 then 0
        else foldl (\<lambda>v b. push_bit 8 v OR ucast b) 0 (drop 24 dat))"

fun regionKindText :: "MemoryRegionKind \<Rightarrow> string" where
  "regionKindText MemoryRegionScratch = ''scratch''"
| "regionKindText MemoryRegionFreePtr = ''free_memory_pointer''"
| "regionKindText MemoryRegionZeroSlot = ''zero_slot''"
| "regionKindText MemoryRegionHeap = ''heap''"
| "regionKindText MemoryRegionTemporary = ''temporary''"
| "regionKindText MemoryRegionUnknown = ''unknown''"

fun memoryRegionLabel :: "MemoryRegionKind \<Rightarrow> string" where
  "memoryRegionLabel MemoryRegionScratch = ''scratch space''"
| "memoryRegionLabel MemoryRegionFreePtr = ''free memory pointer''"
| "memoryRegionLabel MemoryRegionZeroSlot = ''zero slot''"
| "memoryRegionLabel MemoryRegionHeap = ''heap''"
| "memoryRegionLabel MemoryRegionTemporary = ''temporary (above free ptr)''"
| "memoryRegionLabel k = regionKindText k"

definition appendRegion :: "u64 \<Rightarrow> MemoryRegionKind \<Rightarrow> u64 \<Rightarrow> u64 \<Rightarrow> MemoryRegionInfo list \<Rightarrow> MemoryRegionInfo list" where
  "appendRegion memSize kind start stop regions =
     (if stop \<le> start \<or> start \<ge> memSize then regions
      else let stop = (if stop > memSize then memSize else stop) in
        regions @ [\<lparr>miKind = regionKindText kind, miLabel = memoryRegionLabel kind, miOffset = start, miLength = stop - start\<rparr>])"

definition regionsFor :: "u64 \<Rightarrow> u64 \<Rightarrow> MemoryRegionInfo list" where
  "regionsFor memSize freePtr =
     (let regions = appendRegion memSize MemoryRegionZeroSlot 0x60 0x80 (appendRegion memSize MemoryRegionFreePtr 0x40 0x60
            (appendRegion memSize MemoryRegionScratch 0 0x40 [])) in
      if freePtr > 0x80 \<and> freePtr \<le> memSize
      then let regions = appendRegion memSize MemoryRegionHeap 0x80 freePtr regions
           in if freePtr < memSize then appendRegion memSize MemoryRegionTemporary freePtr memSize regions else regions
      else appendRegion memSize MemoryRegionHeap 0x80 memSize regions)"

definition describeMemoryRegions :: "PeekLib \<Rightarrow> 'h evmState \<Rightarrow> MemoryRegionInfo list" where
  "describeMemoryRegions P s =
     (if MemoryLen s = 0 then [] else regionsFor (ulen (memory s)) (readFreeMemoryPointer P s))"

subsection \<open>Variables and source positions\<close>

definition scopePersistent :: string where "scopePersistent = scopeText StorageScopePersistent"
definition scopeTransient :: string where "scopeTransient = scopeText StorageScopeTransient"

text \<open>\<open>sort.Slice\<close> by scope and name; all entries have the same scope.\<close>

definition variablesForScope :: "'h evmState \<Rightarrow> Address \<Rightarrow> StorageVariableMapping list \<Rightarrow> string \<Rightarrow> VariableValue list" where
  "variablesForScope s addr mappings scope =
     sort_key (\<lambda>v. map (of_char :: char \<Rightarrow> nat) (vvName v)) (List.map_filter (\<lambda>m.
       case decodeHashString (seSlot (svEntry m)) of
         Inl _ \<Rightarrow> None
       | Inr slot \<Rightarrow>
           let v = (if scope = scopeTransient then TransientGet addr slot (transientStorage s) else StorageGet addr slot (storage s))
           in Some \<lparr>vvScope = scope, vvName = seLabel (svEntry m), vvSlot = encodeHash slot, vvValue = encodeHash v,
                    vvType = stLabel (svType m)\<rparr>) mappings)"

definition sourceForPC :: "SourceIndex option \<Rightarrow> u64 \<Rightarrow> (string, AnyVal) gomap" where
  "sourceForPC index p =
     (case index of
        None \<Rightarrow> []
      | Some idx \<Rightarrow>
          (case InstructionAtPC idx p of
             None \<Rightarrow> []
           | Some m \<Rightarrow>
               [(''pc'', AnyNum (uint (imPC m))), (''sourceName'', AnyString (SourceName index (srcID (imSource m)))),
                (''start'', AnyNum (srcStart (imSource m))), (''length'', AnyNum (srcLength (imSource m)))] @
               (case map_of (ixSources idx) (srcID (imSource m)) of
                  None \<Rightarrow> [(''generated'', AnyBool False)]
                | Some file \<Rightarrow>
                    let (line, column) = LineColumnForOffset (Some (sfContent file)) (srcStart (imSource m))
                    in [(''line'', AnyNum line), (''column'', AnyNum column), (''generated'', AnyBool (sfGenerated file))]) @
               (case imAST m of
                  None \<Rightarrow> []
                | Some node \<Rightarrow> [(''nodeType'', AnyString (nodeType node)), (''nodeName'', AnyString (nodeName node))])))"

subsection \<open>Locals\<close>

definition decodeValueByType :: "PeekLib \<Rightarrow> Word \<Rightarrow> string \<Rightarrow> string \<Rightarrow> 'h evmState option \<Rightarrow> string \<times> u64 \<times> string" where
  "decodeValueByType P w typeStr storageLoc st =
     (let lower = ToLower (TrimSpace typeStr); wordHex = ''0x'' @ hexEncode (word_bytes w) in
      if storageLoc = ''memory''
      then let offset = ucast w in
           if HasPrefix lower ''string'' \<or> HasPrefix lower ''bytes '' \<or> lower = ''bytes''
           then decodeMemoryDynamic P st offset (HasPrefix lower ''string'')
           else (wordHex, offset, ''memory pointer'')
      else if storageLoc = ''storage'' \<or> storageLoc = ''storage pointer'' \<or> storageLoc = ''storage ref'' then (wordHex, 0, ''storage slot'')
      else if storageLoc = ''calldata'' then (wordHex, 0, ''calldata offset'')
      else if HasPrefix lower ''address'' then (''0x'' @ hexEncode (drop 12 (word_bytes w)), 0, [])
      else if lower = ''bool'' then (if list_ex (\<lambda>b. b \<noteq> 0) (word_bytes w) then (''true'', 0, []) else (''false'', 0, []))
      else if HasPrefix lower ''uint'' then (showInt (uint w) @ '' ('' @ wordHex @ '')'', 0, [])
      else if HasPrefix lower ''int''
      then (showInt (signedFromWord w (parseIntBits lower)) @ '' ('' @ wordHex @ '')'', 0, [])
      else if HasPrefix lower ''bytes'' \<and> length lower > length ''bytes''
      then (let n = parseBytesN lower in
            if n > 0 \<and> n \<le> 32 then (''0x'' @ hexEncode (take (nat n) (word_bytes w)), 0, []) else (wordHex, 0, ''raw stack word''))
      else if HasPrefix lower ''contract '' \<or> HasPrefix lower ''contract''
      then (''0x'' @ hexEncode (drop 12 (word_bytes w)), 0, ''contract reference'')
      else if HasPrefix lower ''function'' then (wordHex, 0, ''function pointer'')
      else if HasPrefix lower ''enum'' then (showInt (uint w), 0, [])
      else (wordHex, 0, ''raw stack word''))"

definition buildLocalDecl :: "raw \<Rightarrow> string \<Rightarrow> SourceFile option \<Rightarrow> LocalVariable" where
  "buildLocalDecl decl kind file =
     \<lparr>lvName = rawString decl ''name'', lvType = declType decl, lvStorageLocation = declStorageLoc decl, lvKind = kind,
      lvDeclaredAtLine = (case (file, parseSrcAttr (anyField decl ''src'')) of
          (Some f, Some src) \<Rightarrow> fst (LineColumnForOffset (Some (sfContent f)) (srcStart src))
        | _ \<Rightarrow> 0),
      lvValue = [], lvConfidence = ''unavailable'', lvStackIndex = 0, lvMemoryPointer = 0, lvNote = []\<rparr>"

definition resolveLocal :: "PeekLib \<Rightarrow> LocalVariable \<Rightarrow> 'h evmState option \<Rightarrow> int \<Rightarrow> LocalVariable" where
  "resolveLocal P l st depth =
     (case st of
        None \<Rightarrow> l
      | Some s \<Rightarrow>
          if depth < 0 \<or> depth \<ge> StackLen s then l
          else
            let (v, ptr, remark) = decodeValueByType P (stack s ! nat depth) (lvType l) (lvStorageLocation l) st;
                l = l\<lparr>lvStackIndex := depth + 1\<rparr>;
                l = (if v \<noteq> [] then l\<lparr>lvValue := v, lvConfidence := ''low''\<rparr> else l);
                l = (if ptr \<noteq> 0 then l\<lparr>lvMemoryPointer := ptr\<rparr> else l)
            in if remark \<noteq> [] then l\<lparr>lvNote := remark\<rparr> else l)"

definition confidenceText :: "Confidence \<Rightarrow> string" where
  "confidenceText c = (case c of ConfidenceHigh \<Rightarrow> ''high'' | ConfidenceMedium \<Rightarrow> ''medium'' | ConfidenceLow \<Rightarrow> ''low'' | ConfidenceUnavailable \<Rightarrow> ''unavailable'')"

definition raiseLowLocal :: "Confidence \<Rightarrow> LocalVariable \<Rightarrow> LocalVariable" where
  "raiseLowLocal c l = (if lvConfidence l = ''low'' \<or> lvConfidence l = [] then l\<lparr>lvConfidence := confidenceText c\<rparr> else l)"

text \<open>The visitor of the body declarations.\<close>

definition bodyLocalVariable :: "raw \<Rightarrow> int \<Rightarrow> SourceFile option \<Rightarrow> raw \<Rightarrow> LocalVariable option" where
  "bodyLocalVariable funcRaw currentStart file node =
     (case declSource node of
        None \<Rightarrow> None
      | Some src \<Rightarrow>
          if srcStart src \<ge> currentStart \<or> isInsideParameterList funcRaw node then None
          else let l = buildLocalDecl node ''local'' file in if lvName l = [] then None else Some l)"

definition functionLocals :: "PeekLib \<Rightarrow> SourceIndex \<Rightarrow> 'h evmState \<Rightarrow> ASTNode \<Rightarrow> InstructionMapping \<Rightarrow> LocalVariable list" where
  "functionLocals P idx s node mapping =
     (let file = map_of (ixSources idx) (srcID (imSource mapping)); currentStart = srcStart (imSource mapping);
          (paramCount, returnCount, confidence) = slotCounts idx node
      in map (\<lambda>(i, decl). raiseLowLocal confidence
             (resolveLocal P (buildLocalDecl decl ''parameter'' file) (Some s) (returnCount + (paramCount - 1 - int i))))
           (enumerate 0 (paramListFrom (nodeRaw node) ''parameters'')) @
         map (\<lambda>(i, decl). raiseLowLocal confidence
             (resolveLocal P (buildLocalDecl decl ''return'' file) (Some s) (returnCount - 1 - int i)))
           (filter (\<lambda>(i, decl). rawString decl ''name'' \<noteq> []) (enumerate 0 (paramListFrom (nodeRaw node) ''returnParameters''))) @
         List.map_filter (bodyLocalVariable (nodeRaw node) currentStart file) (walkASTRaw (descendLocals currentStart) (nodeRaw node)))"

definition collectLocalsAtPC :: "nat \<Rightarrow> PeekLib \<Rightarrow> SourceIndex option \<Rightarrow> 'h evmState \<Rightarrow> u64 \<Rightarrow> LocalVariable list option" where
  "collectLocalsAtPC n P index s p =
     (case index of
        None \<Rightarrow> Some []
      | Some idx \<Rightarrow>
          (case InstructionAtPC idx p of
             None \<Rightarrow> Some []
           | Some mapping \<Rightarrow>
               if srcID (imSource mapping) < 0 then Some []
               else map_option (\<lambda>enclosing. case enclosing of None \<Rightarrow> [] | Some node \<Rightarrow> functionLocals P idx s node mapping)
                 (findEnclosingFunction n idx mapping)))"

subsection \<open>Names and arguments of the frames\<close>

definition assignFunctionSignature :: "string \<Rightarrow> string \<Rightarrow> CallFrameInfo \<Rightarrow> CallFrameInfo" where
  "assignFunctionSignature signature source frame =
     (let signature = TrimSpace signature in
      if signature = [] then frame
      else frame\<lparr>cfFunctionSignature := signature, cfFunctionSource := source,
          cfFunctionName := (case IndexByte signature (CHR ''('') of
              Some i \<Rightarrow> if i > 0 then take i signature else signature
            | None \<Rightarrow> signature)\<rparr>)"

definition buildSelectorIndex :: "DebugEnv \<Rightarrow> Bundle \<Rightarrow> BundleSelectorIndex" where
  "buildSelectorIndex E bundle =
     (case (if buABIJSON bundle = [] then None else deParseABI E (buABIJSON bundle)) of
        None \<Rightarrow> \<lparr>bsSignatures = [], bsMethods = []\<rparr>
      | Some methods \<Rightarrow>
          fold (\<lambda>m ix. if length (amID m) < 4 then ix
              else ix\<lparr>bsSignatures := mput (hexEncode (take 4 (amID m))) (amSig m) (bsSignatures ix),
                      bsMethods := mput (hexEncode (take 4 (amID m))) m (bsMethods ix)\<rparr>)
            methods \<lparr>bsSignatures = [], bsMethods = []\<rparr>)"

definition lookupSelectorInBundle :: "DebugEnv \<Rightarrow> string \<Rightarrow> Bundle \<Rightarrow> string \<Rightarrow> ReplaySession \<Rightarrow> (string \<times> AbiFunction option) option \<times> ReplaySession" where
  "lookupSelectorInBundle E codeKey bundle selector ss =
     (let (index, ss) = (case map_of (seSelectorIndex ss) codeKey of
            Some index \<Rightarrow> (index, ss)
          | None \<Rightarrow> let index = buildSelectorIndex E bundle in (index, ss\<lparr>seSelectorIndex := mput codeKey index (seSelectorIndex ss)\<rparr>));
          key = ToLower (TrimPrefix selector ''0x'')
      in (case map_of (bsSignatures index) key of
            None \<Rightarrow> None
          | Some signature \<Rightarrow> if signature = [] then None else Some (signature, map_of (bsMethods index) key), ss))"

definition lookupSelectorInOpenchain :: "DebugEnv \<Rightarrow> string \<Rightarrow> ReplaySession \<Rightarrow> string option \<times> ReplaySession" where
  "lookupSelectorInOpenchain E selector ss =
     (let normalized = ''0x'' @ ToLower (TrimPrefix selector ''0x'') in
      if length normalized \<noteq> 10 then (None, ss)
      else case map_of (seOpenchainCache ss) normalized of
          Some cached \<Rightarrow> (if cached \<noteq> [] then Some cached else None, ss)
        | None \<Rightarrow>
            let signature = (case deOpenchain E normalized of Some (x # xs) \<Rightarrow> TrimSpace x | _ \<Rightarrow> [])
            in (if signature = [] then None else Some signature,
                ss\<lparr>seOpenchainCache := mput normalized signature (seOpenchainCache ss)\<rparr>))"

definition synthesiseMethodFromSignature :: "DebugEnv \<Rightarrow> string \<Rightarrow> AbiFunction option" where
  "synthesiseMethodFromSignature E signature =
     (case (IndexByte signature (CHR ''(''), LastIndexByte signature (CHR '')'')) of
        (Some openIdx, Some closeIdx) \<Rightarrow>
          if openIdx = 0 \<or> closeIdx \<le> openIdx then None
          else
            let inner = drop (openIdx + 1) (take closeIdx signature);
                types = map TrimSpace (if TrimSpace inner = [] then [] else splitOn (CHR '','') inner)
            in if list_ex (\<lambda>t. Contains t ''tuple'' \<or> Contains t ''('') types then None
               else deFunction E (take openIdx signature) types
      | _ \<Rightarrow> None)"

definition formatArgumentValue :: "AbiValue \<Rightarrow> string" where
  "formatArgumentValue v =
     (case v of
        AbiNil \<Rightarrow> []
      | AbiString s \<Rightarrow> s
      | AbiBool b \<Rightarrow> if b then ''true'' else ''false''
      | AbiBig i \<Rightarrow> (case i of None \<Rightarrow> ''0'' | Some n \<Rightarrow> showInt n)
      | AbiAddress a \<Rightarrow> addressHex a
      | AbiBytes bs \<Rightarrow> ''0x'' @ hexEncode bs
      | AbiFixed bs \<Rightarrow> ''0x'' @ hexEncode bs
      | AbiOther s \<Rightarrow> s)"

definition decodeCallArguments :: "DebugEnv \<Rightarrow> AbiFunction \<Rightarrow> string \<Rightarrow> textError + CallArgument list" where
  "decodeCallArguments E m inputHex =
     sbind (decodeBytes inputHex) (\<lambda>raw.
       if length raw < 4 then Inl (AbiError ''calldata shorter than selector'')
       else case deUnpack E (afInputs m) (drop 4 raw) of
           Inl err \<Rightarrow> Inl (AbiError err)
         | Inr vs \<Rightarrow> Inr (map (\<lambda>(i, input).
             \<lparr>caName = (if aiName input = [] then ''arg'' @ showNat i else aiName input), caType = aiType input,
              caValue = formatArgumentValue (if i < length vs then vs ! i else AbiNil)\<rparr>) (enumerate 0 (afInputs m))))"

text \<open>The text of an error of \<open>decodeCallArguments\<close>; that of \<open>encoding/hex\<close> is kept short.\<close>

fun argumentErrorText :: "textError \<Rightarrow> string" where
  "argumentErrorText (AbiError t) = t"
| "argumentErrorText _ = ''encoding/hex: invalid byte''"

text \<open>The body of the loop of \<open>enrichCallStack\<close>, part by part: the bundle of the frame's code, the signature service, the name of a
  constructor, the arguments.\<close>

definition frameFromBundle :: "DebugEnv \<Rightarrow> CallFrameInfo \<Rightarrow> ReplaySession \<Rightarrow> (CallFrameInfo \<times> AbiFunction option) \<times> ReplaySession" where
  "frameFromBundle E frame ss =
     (let codeKey = ToLower (cfCodeAddress frame) in
      case map_of (seBundles ss) codeKey of
        None \<Rightarrow> ((frame, None), ss)
      | Some bundle \<Rightarrow>
          let frame = (if cfContractName frame = [] then frame\<lparr>cfContractName := buContractName bundle\<rparr> else frame) in
          if cfSelector frame = [] then ((frame, None), ss)
          else (case lookupSelectorInBundle E codeKey bundle (cfSelector frame) ss of
              (None, ss') \<Rightarrow> ((frame, None), ss')
            | (Some (signature, m), ss') \<Rightarrow>
                ((if cfFunctionSignature frame = [] then assignFunctionSignature signature ''abi'' frame else frame, m), ss')))"

definition frameFromOpenchain :: "DebugEnv \<Rightarrow> CallFrameInfo \<Rightarrow> ReplaySession \<Rightarrow> CallFrameInfo \<times> ReplaySession" where
  "frameFromOpenchain E frame ss =
     (if cfFunctionSignature frame = [] \<and> cfSelector frame \<noteq> []
      then case lookupSelectorInOpenchain E (cfSelector frame) ss of
          (None, ss) \<Rightarrow> (frame, ss)
        | (Some signature, ss) \<Rightarrow> (assignFunctionSignature signature ''openchain'' frame, ss)
      else (frame, ss))"

definition nameConstructor :: "CallFrameInfo \<Rightarrow> CallFrameInfo" where
  "nameConstructor frame =
     (if cfFunctionSignature frame = [] \<and> (cfCallType frame = ''create'' \<or> cfCallType frame = ''create2'')
      then assignFunctionSignature ''constructor'' [] frame else frame)"

definition frameArguments :: "DebugEnv \<Rightarrow> AbiFunction option \<Rightarrow> CallFrameInfo \<Rightarrow> CallFrameInfo" where
  "frameArguments E m frame =
     (if cfArguments frame = [] \<and> cfArgumentsError frame = [] \<and> cfFunctionSignature frame \<noteq> [] \<and>
        cfInput frame \<noteq> [] \<and> cfInputSize frame > 4
      then case (case m of Some f \<Rightarrow> Some f | None \<Rightarrow> synthesiseMethodFromSignature E (cfFunctionSignature frame)) of
          None \<Rightarrow> frame
        | Some f \<Rightarrow> (case decodeCallArguments E f (cfInput frame) of
            Inl err \<Rightarrow> frame\<lparr>cfArgumentsError := argumentErrorText err\<rparr>
          | Inr args \<Rightarrow> frame\<lparr>cfArguments := args\<rparr>)
      else frame)"

definition enrichFrame :: "DebugEnv \<Rightarrow> CallFrameInfo \<Rightarrow> ReplaySession \<Rightarrow> CallFrameInfo \<times> ReplaySession" where
  "enrichFrame E frame ss =
     (case frameFromBundle E frame ss of
        ((frame, m), ss) \<Rightarrow>
          (case frameFromOpenchain E frame ss of
             (frame, ss) \<Rightarrow> (frameArguments E m (nameConstructor frame), ss)))"

fun enrichCallStack :: "DebugEnv \<Rightarrow> CallFrameInfo list \<Rightarrow> ReplaySession \<Rightarrow> CallFrameInfo list \<times> ReplaySession" where
  "enrichCallStack E [] ss = ([], ss)"
| "enrichCallStack E (frame # frames) ss =
     (let (frame, ss) = enrichFrame E frame ss; (frames, ss) = enrichCallStack E frames ss in (frame # frames, ss))"

end
