(* ===== verification/DebugSource.thy ===== *)
theory DebugSource
  imports DebugState
begin

text \<open>
  From source lines to program counters (\<open>internal/jsonrpc/gdb.go\<close>: \<open>resolveSourceBreakpointPCs\<close>, \<open>resyncBreakpointsForBundle\<close>,
  \<open>resolveBundleForBreakpoint\<close>, \<open>resolveStorageIdentifier\<close>), and what a resolved breakpoint satisfies.
\<close>

subsection \<open>The instructions of a line\<close>

record candidate =
  cdPC :: u64
  cdStart :: int
  cdLength :: int

definition candidateOf :: "InstructionMapping \<Rightarrow> candidate" where
  "candidateOf ins = \<lparr>cdPC = imPC ins, cdStart = srcStart (imSource ins), cdLength = srcLength (imSource ins)\<rparr>"

definition onLine :: "int \<Rightarrow> int \<Rightarrow> int \<Rightarrow> InstructionMapping \<Rightarrow> bool" where
  "onLine fileID lineStart lineEnd ins =
     (let src = imSource ins in
      srcID src = fileID \<and> \<not> (srcStart src < lineStart \<or> srcStart src \<ge> lineEnd) \<and> \<not> rangeEnd src > lineEnd)"

definition matchesOnLine :: "SourceIndex \<Rightarrow> int \<Rightarrow> int \<Rightarrow> int \<Rightarrow> candidate list" where
  "matchesOnLine idx fileID lineStart lineEnd = map candidateOf (filter (onLine fileID lineStart lineEnd) (ixInstructions idx))"

text \<open>The two loops for the smallest span, the first of them with a condition on its start.\<close>

definition tighter :: "candidate \<Rightarrow> candidate \<Rightarrow> bool" where
  "tighter c b = (cdLength c < cdLength b \<or> cdLength c = cdLength b \<and> cdStart c < cdStart b)"

fun bestLoop :: "(candidate \<Rightarrow> bool) \<Rightarrow> candidate list \<Rightarrow> candidate option \<Rightarrow> candidate option" where
  "bestLoop ok [] best = best"
| "bestLoop ok (c # cs) best =
     (if \<not> ok c then bestLoop ok cs best
      else case best of
          None \<Rightarrow> bestLoop ok cs (Some c)
        | Some b \<Rightarrow> bestLoop ok cs (Some (if tighter c b then c else b)))"

definition bestMatch :: "int \<Rightarrow> candidate list \<Rightarrow> candidate option" where
  "bestMatch requestedOffset cs =
     (case bestLoop (\<lambda>c. \<not> cdStart c < requestedOffset) cs None of
        Some b \<Rightarrow> Some b
      | None \<Rightarrow> bestLoop (\<lambda>c. True) cs None)"

text \<open>The first instruction at or after the line, when nothing on the line matches.\<close>

fun fallbackLoop :: "int \<Rightarrow> int \<Rightarrow> InstructionMapping list \<Rightarrow> InstructionMapping option \<Rightarrow> InstructionMapping option" where
  "fallbackLoop fileID lineStart [] best = best"
| "fallbackLoop fileID lineStart (ins # is) best =
     (if srcID (imSource ins) \<noteq> fileID \<or> srcStart (imSource ins) < lineStart then fallbackLoop fileID lineStart is best
      else case best of
          None \<Rightarrow> fallbackLoop fileID lineStart is (Some ins)
        | Some b \<Rightarrow> fallbackLoop fileID lineStart is (Some (if srcStart (imSource ins) < srcStart (imSource b) then ins else b)))"

definition pcsOfSpan :: "candidate \<Rightarrow> candidate list \<Rightarrow> u64 list" where
  "pcsOfSpan b cs =
     sort (fold setAdd (map cdPC (filter (\<lambda>c. cdStart c = cdStart b \<and> cdLength c = cdLength b) cs)) [])"

definition lineRange :: "SourceFile \<Rightarrow> int \<Rightarrow> (int \<times> int) option" where
  "lineRange file line =
     (case OffsetForLineColumn (Some (sfContent file)) line 1 of
        (lineStart, ok) \<Rightarrow>
          if \<not> ok then None
          else
            let (lineEnd, ok) = OffsetForLineColumn (Some (sfContent file)) (wrap64 (line + 1)) 1;
                lineEnd = (if ok then lineEnd else int (contentLength (sfContent file)))
            in Some (lineStart, if lineEnd \<le> lineStart then wrap64 (lineStart + 1) else lineEnd))"

definition resolveSourceBreakpointPCs :: "Bundle option \<Rightarrow> string \<Rightarrow> int \<Rightarrow> int \<Rightarrow> respError + u64 list" where
  "resolveSourceBreakpointPCs bundle sourceName line column =
     (case Option.bind bundle buIndex of
        None \<Rightarrow> Inl (invalidParams ''source bundle does not contain source maps'')
      | Some idx \<Rightarrow>
          if line \<le> 0 then Inl (invalidParams ''line must be >= 1'')
          else case SourceFileByName (Some idx) sourceName of
              None \<Rightarrow> Inl (invalidParams (''source '' @ quoted sourceName @ '' not found''))
            | Some file \<Rightarrow>
                let column = (if column \<le> 0 then 1 else column) in
                (case lineRange file line of
                   None \<Rightarrow> Inl (invalidParams (''invalid line '' @ showInt line))
                 | Some (lineStart, lineEnd) \<Rightarrow>
                     let cs = matchesOnLine idx (sfID file) lineStart lineEnd;
                         requested = wrap64 (lineStart + column - 1);
                         requested = (if requested < lineStart then lineStart else requested)
                     in case bestMatch requested cs of
                         None \<Rightarrow>
                           (case fallbackLoop (sfID file) lineStart (ixInstructions idx) None of
                              None \<Rightarrow> Inl (invalidParams ''no instruction mapping found for requested source location'')
                            | Some ins \<Rightarrow> Inr [imPC ins])
                       | Some b \<Rightarrow> Inr (pcsOfSpan b cs)))"

subsection \<open>Breakpoints of a newly loaded bundle\<close>

definition resyncBreakpoint :: "Bundle \<Rightarrow> DebugBreakpoint \<Rightarrow> DebugBreakpoint" where
  "resyncBreakpoint bundle bp =
     (if dbKind bp \<noteq> ''source'' \<or> dbSourceName bp = [] then bp
      else case resolveSourceBreakpointPCs (Some bundle) (dbSourceName bp) (dbLine bp) (dbColumn bp) of
          Inl _ \<Rightarrow> bp
        | Inr pcs \<Rightarrow>
            if pcs = [] then bp
            else bp\<lparr>dbPCs := pcs,
                dbCodeAddress := (case buCodeAddress bundle of
                    Some a \<Rightarrow> if dbCodeAddress bp = [] then addressHex a else dbCodeAddress bp
                  | None \<Rightarrow> dbCodeAddress bp)\<rparr>)"

definition resyncBreakpointsForBundle :: "Bundle \<Rightarrow> ReplaySession \<Rightarrow> ReplaySession" where
  "resyncBreakpointsForBundle bundle ss =
     (if buIndex bundle = None then ss else ss\<lparr>seBreakpoints := map (resyncBreakpoint bundle) (seBreakpoints ss)\<rparr>)"

subsection \<open>Choosing a bundle, naming a slot\<close>

definition resolveBundleForBreakpoint :: "ReplaySession \<Rightarrow> string \<Rightarrow> respError + (Bundle \<times> string)" where
  "resolveBundleForBreakpoint ss requestedAddress =
     (if seBundles ss = [] then Inl (invalidParams ''no source bundles loaded'')
      else case parseAddress requestedAddress of
          Some parsed \<Rightarrow>
            (case map_of (seBundles ss) (addressHex parsed) of
               None \<Rightarrow> Inl (invalidParams ''source bundle for requested address not found'')
             | Some bundle \<Rightarrow> Inr (bundle, addressHex parsed))
        | None \<Rightarrow>
            (case seBundles ss of
               [(key, bundle)] \<Rightarrow> Inr (bundle, key)
             | _ \<Rightarrow>
                 (case Option.bind (seCodeAddr ss) (\<lambda>a. map_option (\<lambda>b. (b, addressHex a)) (map_of (seBundles ss) (addressHex a))) of
                    Some r \<Rightarrow> Inr r
                  | None \<Rightarrow> Inl (invalidParams ''multiple source bundles loaded; address is required''))))"

definition slotOfLabel :: "string \<Rightarrow> StorageVariableMapping list \<Rightarrow> (respError + Hash) option" where
  "slotOfLabel name mappings =
     map_option (\<lambda>m. mapErr invalidText (decodeHashString (seSlot (svEntry m))))
       (find (\<lambda>m. seLabel (svEntry m) = name) mappings)"

definition resolveStorageIdentifier :: "ReplaySession \<Rightarrow> string \<Rightarrow> string \<Rightarrow> string \<Rightarrow> respError + (Hash option \<times> string)" where
  "resolveStorageIdentifier ss requestedAddress slotText name =
     (if TrimSpace slotText \<noteq> []
      then sbind (mapErr invalidText (decodeHashString slotText)) (\<lambda>slot. Inr (Some slot, encodeHash slot))
      else if TrimSpace name = [] then Inr (None, [])
      else sbind (resolveBundleForBreakpoint ss requestedAddress) (\<lambda>(bundle, key).
        case slotOfLabel name (cmPersistentStorage (buMetadata bundle)) of
          Some r \<Rightarrow> sbind r (\<lambda>slot. Inr (Some slot, name))
        | None \<Rightarrow>
            (case slotOfLabel name (cmTransientStorage (buMetadata bundle)) of
               Some r \<Rightarrow> sbind r (\<lambda>slot. Inr (Some slot, name))
             | None \<Rightarrow> Inl (invalidParams (''storage variable '' @ quoted name @ '' not found'')))))"

subsection \<open>What resolving yields\<close>

lemma bestLoop_mem: "bestLoop ok cs best = Some b \<Longrightarrow> best = Some b \<or> b \<in> set cs \<and> ok b"
  by (induction ok cs best rule: bestLoop.induct) (auto split: if_splits option.splits)

lemma bestLoop_None: "bestLoop ok cs best = None \<longleftrightarrow> best = None \<and> (\<forall>c\<in>set cs. \<not> ok c)"
  by (induction ok cs best rule: bestLoop.induct) (auto split: option.splits)

lemma tighter_trans: "tighter a b \<Longrightarrow> \<not> tighter c b \<Longrightarrow> \<not> tighter c a"
  by (auto simp: tighter_def)

lemma tighter_asym: "tighter a b \<Longrightarrow> \<not> tighter b a"
  by (auto simp: tighter_def)

text \<open>No candidate that the loop may take is tighter than the one it returns.\<close>

lemma bestLoop_tightest:
  "bestLoop ok cs best = Some b \<Longrightarrow>
   (\<forall>c\<in>set cs. ok c \<longrightarrow> \<not> tighter c b) \<and> (\<forall>a. best = Some a \<longrightarrow> \<not> tighter a b)"
proof (induction ok cs best rule: bestLoop.induct)
  case (2 ok c cs best)
  show ?case
  proof (cases "ok c")
    case True
    show ?thesis
    proof (cases best)
      case (Some a)
      have *: "bestLoop ok cs (Some (if tighter c a then c else a)) = Some b" using 2(4) True Some by simp
      have IH: "(\<forall>x\<in>set cs. ok x \<longrightarrow> \<not> tighter x b) \<and> \<not> tighter (if tighter c a then c else a) b"
        using 2(3) [of a] True Some * by simp
      then show ?thesis
        using Some by (auto split: if_splits simp: tighter_def)
    qed (use 2 True in auto)
  qed (use 2 in auto)
qed (auto simp: tighter_def)

lemma bestMatch_mem: "bestMatch r cs = Some b \<Longrightarrow> b \<in> set cs"
  by (auto simp: bestMatch_def split: option.splits dest: bestLoop_mem)

lemma bestMatch_None: "bestMatch r cs = None \<longleftrightarrow> cs = []"
proof -
  have "bestLoop (\<lambda>c. True) cs None = None \<longleftrightarrow> cs = []" by (cases cs) (auto simp: bestLoop_None)
  then show ?thesis by (auto simp: bestMatch_def bestLoop_None split: option.splits)
qed

lemma set_fold_setAdd: "set (fold setAdd xs ys) = set xs \<union> set ys"
  by (induction xs arbitrary: ys) auto

lemma distinct_fold_setAdd: "distinct ys \<Longrightarrow> distinct (fold setAdd xs ys)"
  by (induction xs arbitrary: ys) auto

lemma pcsOfSpan_facts:
  "sorted (pcsOfSpan b cs)" "distinct (pcsOfSpan b cs)"
  "set (pcsOfSpan b cs) = cdPC ` {c \<in> set cs. cdStart c = cdStart b \<and> cdLength c = cdLength b}"
  by (simp_all add: pcsOfSpan_def distinct_fold_setAdd set_fold_setAdd)

lemma fallbackLoop_mem:
  "fallbackLoop f l is best = Some i \<Longrightarrow>
   best = Some i \<or> i \<in> set is \<and> srcID (imSource i) = f \<and> l \<le> srcStart (imSource i)"
  by (induction f l "is" best rule: fallbackLoop.induct) (auto split: if_splits option.splits)

lemma fallbackLoop_first:
  "fallbackLoop f l is best = Some i \<Longrightarrow>
   (\<forall>j\<in>set is. srcID (imSource j) = f \<longrightarrow> l \<le> srcStart (imSource j) \<longrightarrow> srcStart (imSource i) \<le> srcStart (imSource j)) \<and>
   (\<forall>b. best = Some b \<longrightarrow> srcStart (imSource i) \<le> srcStart (imSource b))"
proof (induction f l "is" best rule: fallbackLoop.induct)
  case (2 f l j "is" best)
  show ?case
  proof (cases "srcID (imSource j) \<noteq> f \<or> srcStart (imSource j) < l")
    case False
    show ?thesis
    proof (cases best)
      case (Some b)
      have *: "fallbackLoop f l is (Some (if srcStart (imSource j) < srcStart (imSource b) then j else b)) = Some i"
        using 2(4) False Some by simp
      from 2(3) [OF False Some *] show ?thesis using Some by (auto split: if_splits)
    qed (use 2 False in auto)
  qed (use 2 in auto)
qed auto

end
