(* ===== verification/DebugHooks.thy ===== *)
theory DebugHooks
  imports DebugViews DebugSource
begin

text \<open>
  The hooks of a debugging run and the run itself (\<open>internal/jsonrpc/gdb.go\<close>): the step hook with its mutations and call
  frames, the access hooks, the hook that loads sources of called contracts, \<open>replaySession\<close>. A hook of the engine model
  works on the state of the frame it fires in; what the Go hooks keep behind their pointers is the field \<open>hookState\<close> of that
  state, a \<open>DebugHost\<close>.
\<close>

definition errReplayPause :: evm_error where
  "errReplayPause = ErrOther ''jsonrpc: replay pause''"

definition haltPause :: HookResult where
  "haltPause = \<lparr>Action = ActionHalt, ResData = RdNil, HookErr = Some errReplayPause\<rparr>"

subsection \<open>Call frames\<close>

definition emptyFrame :: "int \<Rightarrow> string \<Rightarrow> CallFrameInfo" where
  "emptyFrame depth callType = \<lparr>cfDepth = depth, cfContractAddress = [], cfCodeAddress = [], cfCallerAddress = [],
     cfCallType = callType, cfSelector = [], cfInputSize = 0, cfInput = [], cfValue = [], cfContractName = [],
     cfFunctionSignature = [], cfFunctionName = [], cfFunctionSource = [], cfArguments = [], cfArgumentsError = []\<rparr>"

definition newFrame :: "'h evmState \<Rightarrow> int \<Rightarrow> string \<Rightarrow> CallFrameInfo" where
  "newFrame s depth callType =
     (let c = contract s; input = CallInputVal c in
      (emptyFrame depth callType)
        \<lparr>cfContractAddress := addressHex (AddressVal c), cfCodeAddress := addressHex (CodeAddrVal c),
         cfCallerAddress := addressHex (CallerVal c),
         cfValue := (case CallValueVal c of None \<Rightarrow> [] | Some v \<Rightarrow> if v \<noteq> 0 then showInt v else []),
         cfInputSize := int (length input),
         cfInput := (if input \<noteq> [] then ''0x'' @ hexEncode input else []),
         cfSelector := (if length input \<ge> 4 then ''0x'' @ hexEncode (take 4 input) else [])\<rparr>)"

definition orOld :: "string list \<Rightarrow> string \<Rightarrow> string \<Rightarrow> string" where
  "orOld absent new old = (if new \<in> set absent then old else new)"

definition zeroAddressText :: string where
  "zeroAddressText = ''0x0000000000000000000000000000000000000000''"

definition mergeFrame :: "CallFrameInfo \<Rightarrow> 'h evmState \<Rightarrow> int \<Rightarrow> CallFrameInfo" where
  "mergeFrame prev s depth =
     (let new = newFrame s depth (cfCallType prev) in
      new\<lparr>cfCallType := orOld [[], ''unknown''] (cfCallType new) (cfCallType prev),
          cfContractAddress := orOld [[], zeroAddressText] (cfContractAddress new) (cfContractAddress prev),
          cfCodeAddress := orOld [[], zeroAddressText] (cfCodeAddress new) (cfCodeAddress prev),
          cfCallerAddress := orOld [[], zeroAddressText] (cfCallerAddress new) (cfCallerAddress prev),
          cfSelector := orOld [[]] (cfSelector new) (cfSelector prev),
          cfInputSize := (if cfInputSize new = 0 then cfInputSize prev else cfInputSize new),
          cfInput := orOld [[]] (cfInput new) (cfInput prev),
          cfValue := orOld [[]] (cfValue new) (cfValue prev)\<rparr>)"

definition classifyCallType :: "HookContext \<Rightarrow> string" where
  "classifyCallType ctx =
     (case ctxOpcode ctx of
        None \<Rightarrow> ''call''
      | Some opc \<Rightarrow>
          let name = ToUpper (OpcodeName (oiOp opc)) in
          if name = ''CALL'' then ''call''
          else if name = ''STATICCALL'' then ''staticcall''
          else if name = ''DELEGATECALL'' then ''delegatecall''
          else if name = ''CALLCODE'' then ''callcode''
          else if name = ''CREATE'' then ''create''
          else if name = ''CREATE2'' then ''create2''
          else ''call'')"

text \<open>The frames are indexed from the root, and \<open>depth\<close> is that of the frame that executes.\<close>

definition updateCallFrames :: "HookContext \<Rightarrow> 'h evmState \<Rightarrow> CallFrameInfo list \<Rightarrow> CallFrameInfo list" where
  "updateCallFrames ctx s frames =
     (let depth = callDepth s; top = int (length frames) - 1 in
      if frames = [] then newFrame s 0 ''root'' # map (\<lambda>d. newFrame s d ''unknown'') [1..depth]
      else if depth = top then frames[nat top := mergeFrame (frames ! nat top) s depth]
      else if depth > top then frames @ map (\<lambda>d. newFrame s d (classifyCallType ctx)) [top + 1..depth]
      else
        let depth = (if depth < 0 then 0 else depth);
            frames = (if depth + 1 \<le> int (length frames) then take (nat (depth + 1)) frames else frames)
        in frames[nat depth := mergeFrame (frames ! nat depth) s depth])"

subsection \<open>Mutations\<close>

text \<open>Writes that fail are skipped; only a panic of the memory ends the loop, with what was written before it.\<close>

definition applyMutation :: "nat \<Rightarrow> ReplayMutation \<Rightarrow> 'h evmState \<Rightarrow> unit outcome \<times> 'h evmState" where
  "applyMutation lim m s =
     (if muKind m = ''storage''
      then (case (parseAddress (muAddress m), decodeHashString (muSlot m), decodeHashString (muValue m)) of
          (Some addr, Inr slot, Inr v) \<Rightarrow>
            if muScope m = scopeTransient
            then (Ok (), s\<lparr>transientStorage := TransientSet addr slot v (transientStorage s)\<rparr>)
            else (Ok (), s\<lparr>storage := StorageSet addr slot v (storage s)\<rparr>)
        | _ \<Rightarrow> (Ok (), s))
      else if muKind m = ''memory''
      then (case decodeBytes (muData m) of
          Inl _ \<Rightarrow> (Ok (), s)
        | Inr dat \<Rightarrow>
            (case MemSet lim (muOffset m) dat (memory s) of
               Ok mem \<Rightarrow> (Ok (), s\<lparr>memory := mem\<rparr>)
             | Fail e \<Rightarrow> (Ok (), s)
             | Panic p \<Rightarrow> (Panic p, s)))
      else (Ok (), s))"

fun applyMutations :: "nat \<Rightarrow> int \<Rightarrow> ReplayMutation list \<Rightarrow> 'h evmState \<Rightarrow> unit outcome \<times> 'h evmState" where
  "applyMutations lim stp [] s = (Ok (), s)"
| "applyMutations lim stp (m # ms) s =
     (if muStepIndex m \<noteq> stp then applyMutations lim stp ms s
      else case applyMutation lim m s of
          (Ok _, s) \<Rightarrow> applyMutations lim stp ms s
        | (r, s) \<Rightarrow> (r, s))"

subsection \<open>Matching\<close>

definition matchSourceBreakpoint :: "HookContext \<Rightarrow> 'h evmState \<Rightarrow> DebugBreakpoint list \<Rightarrow> DebugBreakpoint option" where
  "matchSourceBreakpoint ctx s bps =
     (case ctxOpcode ctx of
        None \<Rightarrow> None
      | Some opc \<Rightarrow>
          find (\<lambda>b. dbKind b = ''source'' \<and> (dbCodeAddress b = [] \<or> dbCodeAddress b = addressHex (CodeAddrVal (contract s))) \<and>
                    containsPC (dbPCs b) (oiPC opc)) bps)"

definition matchRootFunctionBreakpoint :: "HookContext \<Rightarrow> 'h evmState \<Rightarrow> ReplaySession \<Rightarrow> DebugBreakpoint option" where
  "matchRootFunctionBreakpoint ctx s ss =
     (case ctxOpcode ctx of
        None \<Rightarrow> None
      | Some opc \<Rightarrow>
          if oiPC opc \<noteq> 0 then None
          else
            let input = (if callDepth s = 0 then seRootInput ss else CallInputVal (contract s)) in
            find (\<lambda>b. dbKind b = ''function'' \<and> (dbCodeAddress b = [] \<or> dbCodeAddress b = addressHex (CodeAddrVal (contract s))) \<and>
                      selectorMatches input (dbSelector b)) (seBreakpoints ss))"

definition callMatcher :: "HookContext \<Rightarrow> DebugBreakpoint \<Rightarrow> bool" where
  "callMatcher ctx b =
     (case ctxCall ctx of
        None \<Rightarrow> False
      | Some c \<Rightarrow>
          (dbKind b = ''call'' \<or> dbKind b = ''function'') \<and>
          (case dbAddressFilter b of None \<Rightarrow> True | Some a \<Rightarrow> a = ciCallee c \<or> a = ciCodeAddr c) \<and>
          (dbSelector b = [] \<or> selectorMatches (ciInput c) (dbSelector b)))"

definition storageMatcher :: "HookContext \<Rightarrow> DebugBreakpoint \<Rightarrow> bool" where
  "storageMatcher ctx b =
     (case ctxStorage ctx of
        None \<Rightarrow> False
      | Some a \<Rightarrow>
          dbKind b = ''storage'' \<and>
          (case dbAddressFilter b of None \<Rightarrow> True | Some addr \<Rightarrow> addr = saAddr a) \<and>
          \<not> (dbAccess b = ''read'' \<and> saIsWrite a) \<and> \<not> (dbAccess b = ''write'' \<and> \<not> saIsWrite a) \<and>
          (case dbSlotFilter b of None \<Rightarrow> True | Some slot \<Rightarrow> slot = saSlot a))"

definition memoryMatcher :: "HookContext \<Rightarrow> 'h evmState \<Rightarrow> DebugBreakpoint \<Rightarrow> bool" where
  "memoryMatcher ctx s b =
     (case ctxMemory ctx of
        None \<Rightarrow> False
      | Some m \<Rightarrow>
          dbKind b = ''memory'' \<and>
          (dbCodeAddress b = [] \<or> dbCodeAddress b = addressHex (CodeAddrVal (contract s))) \<and>
          (dbPCs b = [] \<or> (case ctxOpcode ctx of None \<Rightarrow> False | Some opc \<Rightarrow> containsPC (dbPCs b) (oiPC opc))) \<and>
          \<not> (dbAccess b = ''read'' \<and> maIsWrite m) \<and> \<not> (dbAccess b = ''write'' \<and> \<not> maIsWrite m) \<and>
          (dbOffset b = 0 \<and> dbSize b = 0 \<or> rangesOverlap (dbOffset b) (dbSize b) (maOffset m) (maSize m)))"

subsection \<open>Taking a pause\<close>

definition bundleForCodeAddress :: "ReplaySession \<Rightarrow> Address \<Rightarrow> Bundle option" where
  "bundleForCodeAddress ss codeAddr =
     (case map_of (seBundles ss) (addressHex codeAddr) of
        Some b \<Rightarrow> Some b
      | None \<Rightarrow>
          (case Option.bind (seCodeAddr ss) (\<lambda>a. map_of (seBundles ss) (addressHex a)) of
             Some b \<Rightarrow> Some b
           | None \<Rightarrow> (case seBundles ss of [(key, b)] \<Rightarrow> Some b | _ \<Rightarrow> None)))"

definition sessionTracker :: "ReplaySession \<Rightarrow> Address \<Rightarrow> Tracker option" where
  "sessionTracker ss codeAddr =
     (case map_of (seVarTrackers ss) (addressHex codeAddr) of
        Some t \<Rightarrow> Some t
      | None \<Rightarrow>
          (case Option.bind (seCodeAddr ss) (\<lambda>a. map_of (seVarTrackers ss) (addressHex a)) of
             Some t \<Rightarrow> Some t
           | None \<Rightarrow> (case seVarTrackers ss of [(key, t)] \<Rightarrow> Some t | _ \<Rightarrow> None)))"

definition stepPayload :: "ReplayTraceStep list \<Rightarrow> HookContext \<Rightarrow> 'h evmState \<Rightarrow> int \<Rightarrow> StepPayload" where
  "stepPayload trace ctx s stepIndex =
     (if 0 \<le> stepIndex \<and> stepIndex < int (length trace)
      then let t = trace ! nat stepIndex
           in \<lparr>spPC = tsPC t, spOp = tsOp t, spDepth = tsDepth t, spGasRemaining = tsGasRemaining t, spGasCost = tsGasCost t\<rparr>
      else case ctxOpcode ctx of
          None \<Rightarrow> \<lparr>spPC = 0, spOp = [], spDepth = 0, spGasRemaining = 0, spGasCost = 0\<rparr>
        | Some opc \<Rightarrow> \<lparr>spPC = oiPC opc, spOp = ToUpper (OpcodeName (oiOp opc)), spDepth = callDepth s,
            spGasRemaining = oiGasRemaining opc, spGasCost = oiGasCost opc\<rparr>)"

text \<open>The part of a pause that comes from the bundle of the code: a panic of the peeker passes through; a search that does not
  end leaves the locals or the snapshot out.\<close>

definition withBundle :: "DebugEnv \<Rightarrow> HookContext \<Rightarrow> 'h evmState \<Rightarrow> ReplaySession \<Rightarrow> ReplayPause \<Rightarrow> ReplayPause outcome" where
  "withBundle E ctx s ss pause =
     (let codeAddr = CodeAddrVal (contract s); contractAddr = AddressVal (contract s) in
      case bundleForCodeAddress ss codeAddr of
        None \<Rightarrow> Ok pause
      | Some bundle \<Rightarrow>
          let pause = pause\<lparr>rpMetadata := Some (buMetadata bundle)\<rparr>;
              pause = (case ctxOpcode ctx of
                  None \<Rightarrow> pause
                | Some opc \<Rightarrow> pause\<lparr>rpSource := sourceForPC (buIndex bundle) (oiPC opc),
                    rpLocals := (case collectLocalsAtPC (deFuel E) (dePeek E) (buIndex bundle) s (oiPC opc) of None \<Rightarrow> [] | Some ls \<Rightarrow> ls)\<rparr>);
              pause = pause\<lparr>rpStorage := variablesForScope s contractAddr (cmPersistentStorage (buMetadata bundle)) scopePersistent,
                rpTransient := variablesForScope s contractAddr (cmTransientStorage (buMetadata bundle)) scopeTransient\<rparr>
          in (case peekSnapshot (deFuel E) (dePeek E) (buIndex bundle) (sessionTracker ss codeAddr) (Some s) contractAddr (accCode codeAddr (account s)) of
              None \<Rightarrow> Ok pause
            | Some snap \<Rightarrow> obind snap (\<lambda>snap. Ok (pause\<lparr>rpPeek := Some snap\<rparr>))))"

definition zeroPause :: "string \<Rightarrow> string \<Rightarrow> int \<Rightarrow> StepPayload \<Rightarrow> ReplayPause" where
  "zeroPause reason display stepIndex payload =
     \<lparr>rpReason = reason, rpBreakpoint = display, rpStepIndex = stepIndex, rpContractAddress = [], rpCodeAddress = [],
      rpMemory = ''0x'', rpMemoryTruncated = False, rpMemorySize = 0, rpMemoryRegions = [], rpFreeMemoryPointer = 0,
      rpStack = [], rpLocals = [], rpSource = [], rpStorage = [], rpTransient = [], rpCallAccess = None,
      rpStorageAccess = None, rpMemoryAccess = None, rpMetadata = None, rpStep = payload, rpCallStack = [], rpPeek = None\<rparr>"

definition capturePause :: "DebugEnv \<Rightarrow> HookContext \<Rightarrow> 'h evmState \<Rightarrow> int \<Rightarrow> string \<Rightarrow> string \<Rightarrow> ReplaySession \<Rightarrow> ReplayPause outcome \<times> ReplaySession" where
  "capturePause E ctx s stepIndex reason display ss =
     (let P = dePeek E; pause = zeroPause reason display stepIndex (stepPayload (seTrace ss) ctx s stepIndex);
          ss = ss\<lparr>seMemorySnapshot := MemoryGet P 0 (ulen (memory s)) s\<rparr>;
          pause = pause\<lparr>rpContractAddress := addressHex (AddressVal (contract s)), rpCodeAddress := addressHex (CodeAddrVal (contract s)),
            rpMemorySize := int (MemoryLen s), rpMemory := fst (encodeMemoryCapped P s pauseInlineMemoryCap),
            rpMemoryTruncated := snd (encodeMemoryCapped P s pauseInlineMemoryCap),
            rpMemoryRegions := describeMemoryRegions P s, rpFreeMemoryPointer := readFreeMemoryPointer P s,
            rpStack := encodeStackSnapshot s\<rparr>;
          (frames, ss) = enrichCallStack E (seCallFrames ss) ss
      in (withBundle E ctx s ss (pause\<lparr>rpCallStack := frames\<rparr>), ss))"


subsection \<open>The step hook\<close>

type_synonym dbgState = "DebugHost evmState"
type_synonym dbgFire = "HookContext \<Rightarrow> dbgState \<Rightarrow> HookResult option outcome \<times> dbgState"

definition withHost :: "DebugHost \<Rightarrow> dbgState \<Rightarrow> dbgState" where
  "withHost h s = s\<lparr>hookState := h\<rparr>"

definition goOn :: "dbgState \<Rightarrow> HookResult option outcome \<times> dbgState" where
  "goOn s = (Ok (Some continueResult), s)"

text \<open>A pause is captured, completed by \<open>fill\<close>, stored in the session, and the frame is halted.\<close>

definition pauseWith :: "DebugEnv \<Rightarrow> (ReplayPause \<Rightarrow> ReplayPause) \<Rightarrow> HookContext \<Rightarrow> int \<Rightarrow> string \<Rightarrow> string \<Rightarrow> dbgState \<Rightarrow> HookResult option outcome \<times> dbgState" where
  "pauseWith E fill ctx stepIndex reason display s =
     (let h = hookState s; (pause, ss) = capturePause E ctx s stepIndex reason display (dhSession h) in
      case pause of
        Ok p \<Rightarrow> (Ok (Some haltPause), withHost (h\<lparr>dhSession := ss\<lparr>sePendingPause := Some (fill p)\<rparr>\<rparr>) s)
      | Fail e \<Rightarrow> (Fail e, withHost (h\<lparr>dhSession := ss\<rparr>) s)
      | Panic q \<Rightarrow> (Panic q, withHost (h\<lparr>dhSession := ss\<rparr>) s))"

text \<open>Where the step hook stops: the decision after mutations and frames are up to date.\<close>

definition stepDecision :: "DebugHost \<Rightarrow> int \<Rightarrow> HookContext \<Rightarrow> 'h evmState \<Rightarrow> (string \<times> string) option" where
  "stepDecision h stepIndex ctx s =
     (let ss = dhSession h in
      if stepIndex \<le> sePosition ss then None
      else if \<not> dhContinue h \<and> stepIndex = sePosition ss + 1 then Some (''step'', [])
      else if dhContinue h \<and> sePauseRequested ss then Some (''pause'', [])
      else case matchRootFunctionBreakpoint ctx s ss of
          Some b \<Rightarrow> Some (''function_breakpoint'', dbDisplay b)
        | None \<Rightarrow>
            (case matchSourceBreakpoint ctx s (seBreakpoints ss) of
               Some b \<Rightarrow> Some (''source_breakpoint'', dbDisplay b)
             | None \<Rightarrow> None))"

definition enterStep :: "DebugHost \<Rightarrow> DebugHost" where
  "enterStep h =
     (let stepIndex = dhSeen h; arrived = sePauseRequested (dhSession h) \<or> dhPauseArrives h stepIndex in
      h\<lparr>dhSeen := stepIndex + 1,
        dhSession := (dhSession h)\<lparr>seLastStep := stepIndex, sePauseRequested := arrived\<rparr>\<rparr>)"

definition debugStepFire :: "DebugEnv \<Rightarrow> dbgFire" where
  "debugStepFire E ctx s =
     (let stepIndex = dhSeen (hookState s); s = withHost (enterStep (hookState s)) s in
      case applyMutations (plMaxAlloc (dePeek E)) stepIndex (seMutations (dhSession (hookState s))) s of
        (Ok _, s) \<Rightarrow>
          let s = withHost (onSession (\<lambda>ss. ss\<lparr>seCallFrames := updateCallFrames ctx s (seCallFrames ss)\<rparr>) (hookState s)) s in
          (case stepDecision (hookState s) stepIndex ctx s of
             None \<Rightarrow> goOn s
           | Some (reason, display) \<Rightarrow> pauseWith E id ctx stepIndex reason display s)
      | (Fail e, s) \<Rightarrow> (Fail e, s)
      | (Panic p, s) \<Rightarrow> (Panic p, s))"

subsection \<open>The access hooks\<close>

definition debugAccessFire :: "DebugEnv \<Rightarrow> string \<Rightarrow> (HookContext \<Rightarrow> dbgState \<Rightarrow> DebugBreakpoint \<Rightarrow> bool) \<Rightarrow>
    (HookContext \<Rightarrow> ReplayPause \<Rightarrow> ReplayPause) \<Rightarrow> dbgFire" where
  "debugAccessFire E reason matcher builder ctx s =
     (let ss = dhSession (hookState s) in
      if seLastStep ss \<le> sePosition ss then goOn s
      else case find (matcher ctx s) (seBreakpoints ss) of
          None \<Rightarrow> goOn s
        | Some b \<Rightarrow> pauseWith E (builder ctx) ctx (seLastStep ss) reason (dbDisplay b) s)"

definition callBuilder :: "HookType \<Rightarrow> HookContext \<Rightarrow> ReplayPause \<Rightarrow> ReplayPause" where
  "callBuilder t ctx pause =
     (case ctxCall ctx of
        None \<Rightarrow> pause
      | Some c \<Rightarrow> pause\<lparr>rpCallAccess := Some \<lparr>rcaKind = hookTypeLabel t, rcaCaller = addressHex (ciCaller c),
          rcaCallee = addressHex (ciCallee c), rcaCodeAddr = addressHex (ciCodeAddr c), rcaInput = encodeBytes (ciInput c),
          rcaValue = showInt (ciValue c), rcaGas = ciGas c\<rparr>\<rparr>)"

text \<open>The scope is taken from the two hook types the hook was made with, not from the access.\<close>

definition isTransientType :: "HookType \<Rightarrow> bool" where
  "isTransientType t = (t = HookTypeTransientLoad \<or> t = HookTypeTransientStore)"

definition storageBuilder :: "HookType \<Rightarrow> HookType \<Rightarrow> HookContext \<Rightarrow> ReplayPause \<Rightarrow> ReplayPause" where
  "storageBuilder t alternate ctx pause =
     (case ctxStorage ctx of
        None \<Rightarrow> pause
      | Some a \<Rightarrow> pause\<lparr>rpStorageAccess := Some \<lparr>rsaAddress = addressHex (saAddr a),
          rsaScope = (if isTransientType t \<or> isTransientType alternate then scopeTransient else scopePersistent),
          rsaSlot = encodeHash (saSlot a), rsaValue = encodeHash (saValue a), rsaIsWrite = saIsWrite a\<rparr>\<rparr>)"

definition memoryBuilder :: "HookContext \<Rightarrow> ReplayPause \<Rightarrow> ReplayPause" where
  "memoryBuilder ctx pause =
     (case ctxMemory ctx of
        None \<Rightarrow> pause
      | Some m \<Rightarrow> pause\<lparr>rpMemoryAccess := Some \<lparr>rmaOffset = maOffset m, rmaSize = maSize m, rmaIsWrite = maIsWrite m,
          rmaData = encodeBytes (maData m)\<rparr>\<rparr>)"

definition mkHook :: "HookType \<Rightarrow> string \<Rightarrow> dbgFire \<Rightarrow> DebugHost Hook" where
  "mkHook t i f = \<lparr>hookType = t, hookFire = f, hookOneTime = False, hookID = i\<rparr>"

definition newCallHook :: "DebugEnv \<Rightarrow> HookType \<Rightarrow> string \<Rightarrow> DebugHost Hook" where
  "newCallHook E t i = mkHook t i (debugAccessFire E ''call_breakpoint'' (\<lambda>ctx s. callMatcher ctx) (callBuilder t))"

definition newStorageHook :: "DebugEnv \<Rightarrow> HookType \<Rightarrow> HookType \<Rightarrow> string \<Rightarrow> bool \<Rightarrow> DebugHost Hook" where
  "newStorageHook E t alternate i isWrite =
     mkHook t i (debugAccessFire E (if isWrite then ''storage_write_breakpoint'' else ''storage_read_breakpoint'')
       (\<lambda>ctx s. storageMatcher ctx) (storageBuilder t alternate))"

definition newMemoryHook :: "DebugEnv \<Rightarrow> HookType \<Rightarrow> string \<Rightarrow> bool \<Rightarrow> DebugHost Hook" where
  "newMemoryHook E t i isWrite =
     mkHook t i (debugAccessFire E (if isWrite then ''memory_write_breakpoint'' else ''memory_read_breakpoint'')
       memoryMatcher memoryBuilder)"

subsection \<open>Sources of called contracts\<close>

definition preloadSession :: "DebugEnv \<Rightarrow> CallInfo \<Rightarrow> ReplaySession \<Rightarrow> ReplaySession" where
  "preloadSession E c ss =
     (let calleeKey = addressHex (ciCallee c); codeKey = addressHex (ciCodeAddr c) in
      if \<not> seAutoMatch ss \<or> calleeKey \<in> set (seMatchedAddresses ss) then ss
      else
        let ss = ss\<lparr>seMatchedAddresses := setAdd codeKey (setAdd calleeKey (seMatchedAddresses ss))\<rparr> in
        if map_of (seBundles ss) codeKey \<noteq> None then ss
        else case deAutoMatch E (ciCallee c) of
            None \<Rightarrow> ss
          | Some bundle \<Rightarrow>
              let key = (case buCodeAddress bundle of Some a \<Rightarrow> addressHex a | None \<Rightarrow> codeKey)
              in resyncBreakpointsForBundle bundle (ss\<lparr>seBundles := mput key bundle (seBundles ss)\<rparr>))"

definition contractPreloadFire :: "DebugEnv \<Rightarrow> dbgFire" where
  "contractPreloadFire E ctx s =
     (case ctxCall ctx of
        None \<Rightarrow> goOn s
      | Some c \<Rightarrow> goOn (withHost (onSession (preloadSession E c) (hookState s)) s))"

text \<open>The tracker stored under \<open>key\<close>, as a hook. Its identifier in the code is made of the address of the bundle's index; here it is
  made of the key, which is as unique.\<close>

definition trackerFire :: "string \<Rightarrow> dbgFire" where
  "trackerFire key ctx s =
     goOn (withHost (onSession (\<lambda>ss. case map_of (seVarTrackers ss) key of
         None \<Rightarrow> ss
       | Some t \<Rightarrow> ss\<lparr>seVarTrackers := mput key (TrackerFire ctx s t) (seVarTrackers ss)\<rparr>) (hookState s)) s)"

subsection \<open>The hooks of a run\<close>

abbreviation callHookTypes :: "HookType list" where
  "callHookTypes \<equiv> [HookTypeExternalCall, HookTypeDelegateCall, HookTypeStaticCall, HookTypeCallCode]"

definition stepHook :: "DebugEnv \<Rightarrow> DebugHost Hook" where
  "stepHook E = mkHook HookTypeStep ''jsonrpc-gdb-step'' (debugStepFire E)"

definition trackerKeys :: "ReplaySession \<Rightarrow> string list" where
  "trackerKeys ss = map (\<lambda>(key, b). ToLower key) (filter (\<lambda>(key, b). buIndex b \<noteq> None) (seBundles ss))"

definition debugHookList :: "DebugEnv \<Rightarrow> string list \<Rightarrow> DebugHost Hook list" where
  "debugHookList E keys =
     [stepHook E,
      newCallHook E HookTypeExternalCall ''jsonrpc-call'', newCallHook E HookTypeDelegateCall ''jsonrpc-delegatecall'',
      newCallHook E HookTypeStaticCall ''jsonrpc-staticcall'', newCallHook E HookTypeCallCode ''jsonrpc-callcode'',
      newStorageHook E HookTypeStorageRead HookTypeTransientLoad ''jsonrpc-storage-read'' False,
      newStorageHook E HookTypeStorageWrite HookTypeTransientStore ''jsonrpc-storage-write'' True,
      newMemoryHook E HookTypeMemoryRead ''jsonrpc-memory-read'' False,
      newMemoryHook E HookTypeMemoryWrite ''jsonrpc-memory-write'' True] @
     map (\<lambda>(i, t). mkHook t (''auto-match-'' @ showNat i) (contractPreloadFire E)) (enumerate 0 callHookTypes) @
     map (\<lambda>key. mkHook HookTypeMemoryWrite (''varpeeker-tracker-'' @ key) (trackerFire key)) keys"

definition debugRegistry :: "DebugEnv \<Rightarrow> string list \<Rightarrow> DebugHost SimpleHookRegistry" where
  "debugRegistry E keys = fold (\<lambda>h r. fst (Register h r)) (debugHookList E keys) NewSimpleHookRegistry"

definition debugHooksFor :: "DebugEnv \<Rightarrow> string list \<Rightarrow> DebugHost hooksFor" where
  "debugHooksFor E keys = (\<lambda>h t. HooksFor t (debugRegistry E keys))"

subsection \<open>The run\<close>

definition prepareTrackers :: "ReplaySession \<Rightarrow> ReplaySession" where
  "prepareTrackers ss =
     fold (\<lambda>(key, b) ss. if buIndex b = None then ss
         else ss\<lparr>seVarTrackers := mput (ToLower key) (case map_of (seVarTrackers ss) (ToLower key) of
             None \<Rightarrow> NewTracker (buIndex b)
           | Some t \<Rightarrow> TrackerReset t) (seVarTrackers ss)\<rparr>) (seBundles ss) ss"

definition resetSession :: "Address option \<Rightarrow> Address option \<Rightarrow> bytes \<Rightarrow> ReplaySession \<Rightarrow> ReplaySession" where
  "resetSession target code input ss =
     prepareTrackers (ss\<lparr>seTargetAddr := target, seCodeAddr := code, seRootInput := input, seLastStep := -1,
       sePendingPause := None, seCurrent := None, seCallFrames := [], sePauseRequested := False\<rparr>)"

text \<open>What \<open>ExecutePreparedCall\<close> returns with the hooks attached, what they left behind, and the rest of the world;
  \<open>None\<close> when it does not return.\<close>

type_synonym ('h, 'w) hookRunner =
  "'h hooksFor \<Rightarrow> 'h \<Rightarrow> 'w \<Rightarrow> ((ExecutionResult option \<times> evm_error option) \<times> 'h \<times> 'w) option"

type_synonym 'w debugRunner = "(DebugHost, 'w) hookRunner"

definition pausesOnly :: "evm_error option \<Rightarrow> bool" where
  "pausesOnly err = (err = None \<or> err = Some errReplayPause)"

definition errorOr :: "evm_error option \<Rightarrow> evm_error" where
  "errorOr err = (case err of Some e \<Rightarrow> e | None \<Rightarrow> errReplayPause)"

definition finishRun :: "ExecutionResult option \<Rightarrow> evm_error option \<Rightarrow> ReplaySession \<Rightarrow> respError option \<times> ReplaySession" where
  "finishRun result execErr ss =
     (if \<not> pausesOnly execErr \<and> result = None then (Some (internalError (errorOr execErr)), ss)
      else case sePendingPause ss of
          Some pause \<Rightarrow>
            (None, ss\<lparr>seCurrent := Some pause, sePosition := rpStepIndex pause, seDone := False, seResult := None,
               seCodeAddr := (case parseAddress (rpCodeAddress pause) of Some a \<Rightarrow> Some a | None \<Rightarrow> seCodeAddr ss)\<rparr>)
        | None \<Rightarrow>
            if \<not> pausesOnly execErr then (Some (internalError (errorOr execErr)), ss)
            else (None, ss\<lparr>seCurrent := None, sePosition := seLastStep ss, seDone := True, seResult := result\<rparr>))"

definition startHost :: "(int \<Rightarrow> bool) \<Rightarrow> bool \<Rightarrow> ReplaySession \<Rightarrow> DebugHost" where
  "startHost arrives continueMode ss =
     \<lparr>dhSession = ss\<lparr>seExecutionRunning := True\<rparr>, dhContinue = continueMode, dhSeen = 0, dhPauseArrives = arrives\<rparr>"

definition replayPrepared :: "DebugEnv \<Rightarrow> 'w debugRunner \<Rightarrow> (int \<Rightarrow> bool) \<Rightarrow> bool \<Rightarrow> Address option \<Rightarrow> Address option \<Rightarrow> bytes \<Rightarrow>
    ReplaySession \<Rightarrow> 'w \<Rightarrow> ((respError option \<times> ReplaySession) \<times> 'w) option" where
  "replayPrepared E run arrives continueMode target code input ss w =
     (let ss = resetSession target code input ss in
      case run (debugHooksFor E (trackerKeys ss)) (startHost arrives continueMode ss) w of
        None \<Rightarrow> None
      | Some ((result, execErr), host, w) \<Rightarrow> Some (finishRun result execErr ((dhSession host)\<lparr>seExecutionRunning := False\<rparr>), w))"

text \<open>The engine as the runner: \<open>EngineRun\<close> on the prepared configuration, with \<open>n\<close> steps of fuel. A runner of the
  server may also shape the result, as the creation of a contract does, and change the cache of the fork.\<close>

definition engineRunner :: "Lib \<Rightarrow> ('g1, 'g2, 'gt) Crypto \<Rightarrow> nat \<Rightarrow> 'h ExecutionConfig \<Rightarrow> 'h hooksFor \<Rightarrow> 'h \<Rightarrow>
    ((ExecutionResult option \<times> evm_error option) \<times> 'h) option" where
  "engineRunner L C n conf hs host =
     (case EngineRun L C n (conf\<lparr>cHooks := Some hs, cHookState := host\<rparr>) of
        None \<Rightarrow> None
      | Some (res, None) \<Rightarrow> Some (res, host)
      | Some (res, Some s) \<Rightarrow> Some (res, hookState s))"

definition ofEngine :: "Lib \<Rightarrow> ('g1, 'g2, 'gt) Crypto \<Rightarrow> ('h, 'w) hookRunner \<Rightarrow> bool" where
  "ofEngine L C run \<longleftrightarrow>
     (\<forall>hs h w res h' w'. run hs h w = Some (res, h', w') \<longrightarrow> (\<exists>n conf res'. engineRunner L C n conf hs h = Some (res', h')))"

end
