(* ===== verification/DebugRun.thy ===== *)
theory DebugRun
  imports DebugHooks Invariants
begin

text \<open>
  What a debugging run does to its session, for every program the engine model can run: each hook changes the session only in
  a few fields, and the relations of \<open>host_relation\<close> are carried through the interpreter by the locales of \<open>Preserve\<close>.
\<close>

subsection \<open>Relations between what hooks keep\<close>

definition hostRel :: "('h \<Rightarrow> 'h \<Rightarrow> bool) \<Rightarrow> 'h evmState \<Rightarrow> 'h evmState \<Rightarrow> bool" where
  "hostRel Q s t \<longleftrightarrow> Q (hookState s) (hookState t)"

lemma hookState_frame [simp]:
  "hookState (AddLog l s) = hookState s" "hookState (enterMessage msg s) = hookState s"
  "hookState (adoptShared s c) = hookState c" "hookState (rolledBack s t) = hookState t"
  "hookState (newChildState L msg s) = hookState s"
  by (simp_all add: AddLog_def enterMessage_def adoptShared_def rolledBack_def revertMessage_def newChildState_def
      NewEVMState_def Let_def split: prod.splits)

locale host_relation =
  fixes Q :: "'h \<Rightarrow> 'h \<Rightarrow> bool"
  assumes Q_refl: "Q h h" and Q_trans: "Q g h \<Longrightarrow> Q h k \<Longrightarrow> Q g k"
begin

sublocale msg: message_relation "hostRel Q" L for L
  by unfold_locales (auto simp: hostRel_def Q_refl elim: Q_trans)

lemma run_keeps:
  assumes "Run L n e code = Some (res, e')" "hooks_respect (hostRel Q) (hooks e)"
  shows "Q (hookState (state e)) (hookState (state e'))"
  using msg.Run_keeps [OF assms] by (simp add: hostRel_def)

end

lemma hookState_config [simp]:
  "hookState (NewState L C conf) = cHookState conf"
  "hookState (snd (applyTopLevelCallValue conf s)) = hookState s"
  "hookState (revertTopLevelCallValue i j res s) = hookState s"
  "hookState (applyBaseFeeBurn conf res s) = hookState s"
  by (simp_all add: NewState_def NewEVMState_def applyTopLevelCallValue_def revertTopLevelCallValue_def applyBaseFeeBurn_def
      Let_def split: option.split prod.split)

context host_relation begin

lemma engine_keeps:
  assumes "EngineRun L C n conf = Some (r, Some s)" "hooks_respect (hostRel Q) (cHooks conf)"
  shows "Q (cHookState conf) (hookState s)"
proof -
  obtain i j res s0 where top: "applyTopLevelCallValue conf (NewState L C conf) = ((i, j, res), s0)"
    by (metis surj_pair)
  have s0: "hookState s0 = cHookState conf"
    using hookState_config(2) [of conf "NewState L C conf"] top by simp
  have v: "ValidateConfig conf = None" using assms(1) by (auto simp: EngineRun_def split: option.splits)
  show ?thesis
  proof (cases res)
    case (Some x)
    then have "s = s0" using assms(1) by (simp add: EngineRun_def v top)
    then show ?thesis by (simp add: s0 Q_refl)
  next
    case None
    obtain res' err s' where rw: "runWithConfig L C n conf s0 = Some ((res', err), s')"
      and s: "s = applyBaseFeeBurn conf res' (revertTopLevelCallValue i j res' s')"
      using assms(1) None by (auto simp: EngineRun_def v top split: option.splits)
    let ?e = "case cHooks conf of None \<Rightarrow> NewEVM s0 (runFork (cFork conf)) (registryFor L C (runFork (cFork conf)) (cPrecompiles conf))
        | Some h \<Rightarrow> SetHooks (Some h) (NewEVM s0 (runFork (cFork conf)) (registryFor L C (runFork (cFork conf)) (cPrecompiles conf)))"
    obtain q e' where run: "Run L n ?e (cfgCode conf) = Some (q, e')" and s': "s' = state e'"
      using rw by (auto simp: runWithConfig_def Let_def split: option.splits prod.splits)
    have "hooks ?e = cHooks conf" "state ?e = s0" by (simp_all add: NewEVM_def SetHooks_def split: option.split)
    then show ?thesis using run_keeps [OF run] assms(2) by (simp add: s s' s0)
  qed
qed

lemma engineRunner_keeps:
  assumes "engineRunner L C n conf hs h = Some (res, h')" "hooks_respect (hostRel Q) (Some hs)"
  shows "Q h h'"
proof -
  let ?conf = "conf\<lparr>cHooks := Some hs, cHookState := h\<rparr>"
  consider r where "EngineRun L C n ?conf = Some (r, None)" "h' = h"
    | r s where "EngineRun L C n ?conf = Some (r, Some s)" "h' = hookState s"
    using assms(1) by (auto simp: engineRunner_def split: option.splits prod.splits)
  then show ?thesis
  proof cases
    case 1
    then show ?thesis by (simp add: Q_refl)
  next
    case 2
    then show ?thesis using engine_keeps [OF 2(1)] assms(2) by simp
  qed
qed

end

subsection \<open>What capturing a pause changes\<close>

definition sessionCore :: "ReplaySession \<Rightarrow> ReplaySession" where
  "sessionCore ss = ss\<lparr>seMemorySnapshot := [], seSelectorIndex := [], seOpenchainCache := []\<rparr>"

definition captureOnly :: "ReplaySession \<Rightarrow> ReplaySession \<Rightarrow> bool" where
  "captureOnly ss ss' \<longleftrightarrow> sessionCore ss' = sessionCore ss"

lemma captureOnly_refl [simp]: "captureOnly ss ss"
  by (simp add: captureOnly_def)

lemma captureOnly_trans: "captureOnly a b \<Longrightarrow> captureOnly b c \<Longrightarrow> captureOnly a c"
  by (simp add: captureOnly_def)

lemma sessionCore_fields:
  "sePosition (sessionCore ss) = sePosition ss" "seBreakpoints (sessionCore ss) = seBreakpoints ss"
  "seLastStep (sessionCore ss) = seLastStep ss" "sePendingPause (sessionCore ss) = sePendingPause ss"
  "seMutations (sessionCore ss) = seMutations ss" "seCallFrames (sessionCore ss) = seCallFrames ss"
  "seBundles (sessionCore ss) = seBundles ss" "sePauseRequested (sessionCore ss) = sePauseRequested ss"
  "seID (sessionCore ss) = seID ss" "seKind (sessionCore ss) = seKind ss" "seTrace (sessionCore ss) = seTrace ss"
  "seCurrent (sessionCore ss) = seCurrent ss" "seDone (sessionCore ss) = seDone ss"
  by (simp_all add: sessionCore_def)

lemma captureOnly_same:
  assumes "captureOnly ss ss'"
  shows "sePosition ss' = sePosition ss" "seBreakpoints ss' = seBreakpoints ss" "seLastStep ss' = seLastStep ss"
    "sePendingPause ss' = sePendingPause ss" "seMutations ss' = seMutations ss" "seCallFrames ss' = seCallFrames ss"
    "seBundles ss' = seBundles ss" "sePauseRequested ss' = sePauseRequested ss"
    "seID ss' = seID ss" "seKind ss' = seKind ss" "seTrace ss' = seTrace ss"
    "seCurrent ss' = seCurrent ss" "seDone ss' = seDone ss"
  using assms sessionCore_fields [of ss] sessionCore_fields [of ss'] by (simp_all add: captureOnly_def)

lemma captureOnly_updates [simp]:
  "captureOnly ss (ss\<lparr>seMemorySnapshot := m\<rparr>)" "captureOnly ss (ss\<lparr>seSelectorIndex := i\<rparr>)" "captureOnly ss (ss\<lparr>seOpenchainCache := c\<rparr>)"
  by (simp_all add: captureOnly_def sessionCore_def)

lemma lookupSelectorInBundle_only: "captureOnly ss (snd (lookupSelectorInBundle E k b sel ss))"
  by (simp add: lookupSelectorInBundle_def Let_def split: option.split prod.split)

lemma lookupSelectorInOpenchain_only: "captureOnly ss (snd (lookupSelectorInOpenchain E sel ss))"
  by (simp add: lookupSelectorInOpenchain_def Let_def split: option.split)

lemma frameFromBundle_only: "captureOnly ss (snd (frameFromBundle E frame ss))"
  using lookupSelectorInBundle_only [of ss E]
  by (auto simp: frameFromBundle_def Let_def split: option.split prod.split) (metis snd_conv)+

lemma frameFromOpenchain_only: "captureOnly ss (snd (frameFromOpenchain E frame ss))"
  using lookupSelectorInOpenchain_only [of ss E]
  by (auto simp: frameFromOpenchain_def split: option.split prod.split) (metis snd_conv)+

lemma enrichFrame_only: "captureOnly ss (snd (enrichFrame E frame ss))"
  using frameFromBundle_only [of ss E frame] frameFromOpenchain_only [of _ E]
  by (auto simp: enrichFrame_def split: prod.split intro: captureOnly_trans) (metis captureOnly_trans snd_conv)

lemma enrichCallStack_only: "captureOnly ss (snd (enrichCallStack E frames ss))"
proof (induction E frames ss rule: enrichCallStack.induct)
  case (2 E frame frames ss)
  obtain f t where f: "enrichFrame E frame ss = (f, t)" by fastforce
  obtain fs u where fs: "enrichCallStack E frames t = (fs, u)" by fastforce
  have "captureOnly ss t" using enrichFrame_only [of ss E frame] by (simp add: f)
  moreover have "captureOnly t u" using 2 f fs by fastforce
  ultimately show ?case by (auto simp: f fs intro: captureOnly_trans)
qed simp

lemma withBundle_pause:
  assumes "withBundle E ctx s ss pause = Ok p"
  shows "rpStepIndex p = rpStepIndex pause" "rpReason p = rpReason pause" "rpBreakpoint p = rpBreakpoint pause"
    "rpCodeAddress p = rpCodeAddress pause"
  using assms by (auto simp: withBundle_def Let_def split: option.splits)

lemma capturePause_only: "captureOnly ss (snd (capturePause E ctx s i r d ss))"
proof -
  obtain fs u where fs: "enrichCallStack E (seCallFrames ss) (ss\<lparr>seMemorySnapshot := MemoryGet (dePeek E) 0 (ulen (memory s)) s\<rparr>) = (fs, u)"
    by fastforce
  have "captureOnly (ss\<lparr>seMemorySnapshot := MemoryGet (dePeek E) 0 (ulen (memory s)) s\<rparr>) u"
    using enrichCallStack_only [of "ss\<lparr>seMemorySnapshot := MemoryGet (dePeek E) 0 (ulen (memory s)) s\<rparr>" E "seCallFrames ss"]
    by (simp add: fs)
  then show ?thesis by (auto simp: capturePause_def Let_def fs intro: captureOnly_trans [OF captureOnly_updates(1)])
qed

lemma capturePause_pause:
  assumes "capturePause E ctx s i r d ss = (Ok p, ss')"
  shows "rpStepIndex p = i" "rpReason p = r" "rpBreakpoint p = d" "rpCodeAddress p = addressHex (CodeAddrVal (contract s))"
  using assms
  by (auto simp: capturePause_def Let_def zeroPause_def split: prod.splits dest: withBundle_pause)


subsection \<open>Nothing that panics\<close>

text \<open>Immutable segments whose bounds do not wrap, and memory writes that fit into memory: what loaded sources and the user's
  own writes have to satisfy for the hooks not to panic.\<close>

definition segmentsOK :: "SourceIndex \<Rightarrow> bool" where
  "segmentsOK idx \<longleftrightarrow> (\<forall>(key, segments)\<in>set (ixImmutableReferences idx). \<forall>seg\<in>set segments. irStart seg \<le> irStart seg + irLength seg)"

definition bundleOK :: "Bundle \<Rightarrow> bool" where
  "bundleOK b \<longleftrightarrow> (\<forall>idx. buIndex b = Some idx \<longrightarrow> segmentsOK idx)"

definition mutationOK :: "nat \<Rightarrow> ReplayMutation \<Rightarrow> bool" where
  "mutationOK lim m \<longleftrightarrow> (muKind m = ''memory'' \<longrightarrow>
     (\<forall>dat. decodeBytes (muData m) = Inr dat \<longrightarrow> unat (muOffset m) + length dat + 32 \<le> lim))"

definition sessionSafe :: "DebugEnv \<Rightarrow> ReplaySession \<Rightarrow> bool" where
  "sessionSafe E ss \<longleftrightarrow>
     (\<forall>(key, b)\<in>set (seBundles ss). bundleOK b) \<and> (\<forall>m\<in>set (seMutations ss). mutationOK (plMaxAlloc (dePeek E)) m)"

definition envSafe :: "DebugEnv \<Rightarrow> bool" where
  "envSafe E \<longleftrightarrow> (\<forall>a b. deAutoMatch E a = Some b \<longrightarrow> bundleOK b) \<and> plMaxAlloc (dePeek E) < 2 ^ 63"

lemma peekImmutable_Ok:
  assumes "\<forall>seg\<in>set segments. irStart seg \<le> irStart seg + irLength seg"
  shows "\<exists>v. peekImmutable idx code key segments = Ok v"
proof -
  have "\<exists>v. (if irStart seg + irLength seg > ulen code then Ok None else obind (goslice code (irStart seg) (irStart seg + irLength seg)) (\<lambda>raw. Ok (f raw))) = Ok v"
    if "seg \<in> set segments" for seg and f :: "bytes \<Rightarrow> Variable option"
  proof (cases "irStart seg + irLength seg > ulen code")
    case False
    then have "unat (irStart seg + irLength seg) \<le> unat (ulen code)" by (simp add: word_le_nat_alt linorder_not_less)
    also have "\<dots> \<le> length code" by (simp add: unat_of_nat)
    finally show ?thesis using assms that by (simp add: goslice_def)
  qed simp
  then show ?thesis
    by (cases segments; cases "Atoi key") (simp_all add: peekImmutable_def Let_def)
qed

lemma peekImmutablesLoop_Ok:
  "\<forall>(key, segments)\<in>set refs. \<forall>seg\<in>set segments. irStart seg \<le> irStart seg + irLength seg \<Longrightarrow>
   \<exists>vs. peekImmutablesLoop idx code refs = Ok vs"
proof (induction refs)
  case (Cons r refs)
  obtain key segments where r: "r = (key, segments)" by fastforce
  obtain v where "peekImmutable idx code key segments = Ok v" using peekImmutable_Ok [of segments idx code key] Cons.prems r by auto
  moreover obtain vs where "peekImmutablesLoop idx code refs = Ok vs" using Cons by auto
  ultimately show ?case by (simp add: r)
qed simp

lemma peekSnapshot_Ok:
  assumes "\<forall>idx. index = Some idx \<longrightarrow> segmentsOK idx" "peekSnapshot n P index tracker st a code = Some r"
  shows "\<exists>snap. r = Ok snap"
proof -
  have "\<exists>vs. peekImmutables index code = Ok vs"
    using assms(1) peekImmutablesLoop_Ok by (fastforce simp: peekImmutables_def segmentsOK_def split: option.split)
  with assms(2) show ?thesis
    by (fastforce simp: peekSnapshot_def Let_def bind_eq_Some_conv split: option.splits if_splits)
qed


lemma MemSet_total:
  assumes "unat off + length dat + 32 \<le> lim" "lim < 2 ^ 63"
  shows "\<exists>m'. MemSet lim off dat m = Ok m'"
proof -
  let ?stop = "off + ulen dat"
  have lim: "lim < 9223372036854775808" using assms(2) by simp
  have "length dat < 2 ^ 64" using assms(1) lim by simp
  then have l: "unat (ulen dat) = length dat" by (rule unat_ulen)
  have "unat off + unat (ulen dat) < 2 ^ LENGTH(64)" using assms(1) lim unfolding l by simp
  from unat_add_no_wrap [OF this] have stop: "unat ?stop = unat off + length dat" unfolding l .
  have le: "unat ?stop \<le> 2 ^ 64 - 32" using assms(1) lim unfolding stop by simp
  have c: "unat ?stop \<le> unat (ceil32 ?stop)" by (rule ceil32_ge [OF le])
  have "(unat ?stop + 31) div 32 * 32 \<le> unat ?stop + 31" by simp
  then have d: "unat (ceil32 ?stop) \<le> lim" using le assms(1) unfolding unat_ceil32_nat stop by simp
  have copied: "\<exists>m'. gocopy_at m'' off dat = Ok m'" if "unat ?stop \<le> length m''" for m''
    using that unfolding stop gocopy_at_def by simp
  show ?thesis
  proof (cases "?stop > ulen m")
    case True
    then have "ulen m < ceil32 ?stop" using c unfolding word_less_nat_alt by linarith
    then have r: "MemResize lim ?stop m = Ok (gocopy (replicate (unat (ceil32 ?stop)) 0) m)"
      using d by (simp add: MemResize_def Let_def make_bytes_def)
    obtain m' where "gocopy_at (gocopy (replicate (unat (ceil32 ?stop)) 0) m) off dat = Ok m'"
      using copied c by (metis length_gocopy length_replicate)
    with True r show ?thesis by (simp add: MemSet_def)
  next
    case False
    have "unat (ulen m) \<le> length m" by (simp add: unat_of_nat)
    then have "unat ?stop \<le> length m" using False unfolding word_less_nat_alt by linarith
    then obtain m' where "gocopy_at m off dat = Ok m'" using copied by blast
    with False show ?thesis by (simp add: MemSet_def)
  qed
qed

lemma applyMutation_Ok:
  assumes "mutationOK lim m" "lim < 2 ^ 63"
  shows "\<exists>s'. applyMutation lim m s = (Ok (), s')"
proof (cases "muKind m = ''memory''")
  case True
  show ?thesis
  proof (cases "decodeBytes (muData m)")
    case (Inr dat)
    then obtain m' where "MemSet lim (muOffset m) dat (memory s) = Ok m'"
      using MemSet_total [of "muOffset m" dat lim "memory s"] assms True by (auto simp: mutationOK_def)
    with True Inr show ?thesis by (simp add: applyMutation_def)
  qed (simp add: applyMutation_def True)
qed (auto simp: applyMutation_def split: option.split sum.split)

lemma applyMutations_Ok:
  "\<forall>m\<in>set ms. mutationOK lim m \<Longrightarrow> lim < 2 ^ 63 \<Longrightarrow> \<exists>s'. applyMutations lim i ms s = (Ok (), s')"
proof (induction ms arbitrary: s)
  case (Cons m ms)
  obtain s1 where "applyMutation lim m s = (Ok (), s1)" using applyMutation_Ok [of lim m s] Cons.prems by auto
  with Cons show ?case by simp
qed simp

text \<open>Mutations leave the host, the contract and the depth of the frame alone.\<close>

lemma applyMutation_frame:
  assumes "applyMutation lim m s = (r, s')"
  shows "hookState s' = hookState s \<and> contract s' = contract s \<and> callDepth s' = callDepth s"
  using assms by (auto simp: applyMutation_def split: if_splits option.splits sum.splits outcome.splits)

lemma applyMutations_frame:
  "applyMutations lim i ms s = (r, s') \<Longrightarrow> hookState s' = hookState s \<and> contract s' = contract s \<and> callDepth s' = callDepth s"
proof (induction ms arbitrary: s)
  case (Cons m ms)
  obtain q s1 where q: "applyMutation lim m s = (q, s1)" by fastforce
  show ?case
    using Cons.prems Cons.IH [of s1] applyMutation_frame [OF q]
    by (cases q) (auto simp: q split: if_splits dest: Cons.IH)
qed simp

subsection \<open>The invariant of a run\<close>

text \<open>The parts of a session that no hook changes.\<close>

definition breakpointKey :: "DebugBreakpoint \<Rightarrow> string \<times> string \<times> string \<times> string" where
  "breakpointKey b = (dbID b, dbKind b, dbDisplay b, dbAccess b)"

definition sameSetup :: "DebugHost \<Rightarrow> DebugHost \<Rightarrow> bool" where
  "sameSetup h h' \<longleftrightarrow>
     dhContinue h' = dhContinue h \<and> sePosition (dhSession h') = sePosition (dhSession h) \<and>
     seMutations (dhSession h') = seMutations (dhSession h) \<and> seID (dhSession h') = seID (dhSession h) \<and>
     seKind (dhSession h') = seKind (dhSession h) \<and> seTrace (dhSession h') = seTrace (dhSession h) \<and>
     seCurrent (dhSession h') = seCurrent (dhSession h) \<and> seDone (dhSession h') = seDone (dhSession h) \<and>
     map breakpointKey (seBreakpoints (dhSession h')) = map breakpointKey (seBreakpoints (dhSession h))"

text \<open>Why a run may stop: a step, a request, a breakpoint of a kind that goes with the reason.\<close>

definition reasonFits :: "string \<Rightarrow> string \<Rightarrow> bool" where
  "reasonFits reason kind \<longleftrightarrow>
     reason = ''function_breakpoint'' \<and> kind = ''function'' \<or> reason = ''source_breakpoint'' \<and> kind = ''source'' \<or>
     reason = ''call_breakpoint'' \<and> (kind = ''call'' \<or> kind = ''function'') \<or>
     reason \<in> {''storage_read_breakpoint'', ''storage_write_breakpoint''} \<and> kind = ''storage'' \<or>
     reason \<in> {''memory_read_breakpoint'', ''memory_write_breakpoint''} \<and> kind = ''memory''"

definition pauseReason :: "DebugHost \<Rightarrow> ReplayPause \<Rightarrow> bool" where
  "pauseReason h p \<longleftrightarrow>
     rpReason p = ''step'' \<and> \<not> dhContinue h \<and> rpStepIndex p = sePosition (dhSession h) + 1 \<or>
     rpReason p = ''pause'' \<and> dhContinue h \<or>
     (\<exists>b\<in>set (seBreakpoints (dhSession h)). rpBreakpoint p = dbDisplay b \<and> reasonFits (rpReason p) (dbKind b))"

definition stepInv :: "DebugHost \<Rightarrow> bool" where
  "stepInv h \<longleftrightarrow>
     (let ss = dhSession h in
      0 \<le> dhSeen h \<and> dhSeen h = seLastStep ss + 1 \<and>
      (case sePendingPause ss of
         None \<Rightarrow> dhContinue h \<or> seLastStep ss \<le> sePosition ss
       | Some p \<Rightarrow> sePosition ss < rpStepIndex p \<and> rpStepIndex p \<le> seLastStep ss \<and> pauseReason h p))"

definition runRel :: "DebugEnv \<Rightarrow> DebugHost \<Rightarrow> DebugHost \<Rightarrow> bool" where
  "runRel E h h' \<longleftrightarrow>
     sameSetup h h' \<and> (sessionSafe E (dhSession h) \<longrightarrow> sessionSafe E (dhSession h') \<and> (stepInv h \<longrightarrow> stepInv h'))"

interpretation run: host_relation "runRel E" for E
  by unfold_locales (auto simp: runRel_def sameSetup_def)

lemma pauseReason_same:
  assumes "sameSetup h h'"
  shows "pauseReason h' p = pauseReason h p"
proof -
  have "map breakpointKey (seBreakpoints (dhSession h')) = map breakpointKey (seBreakpoints (dhSession h))"
    using assms by (simp add: sameSetup_def)
  then have k: "breakpointKey ` set (seBreakpoints (dhSession h')) = breakpointKey ` set (seBreakpoints (dhSession h))"
    by (metis set_map)
  have "(\<exists>b\<in>set bs. rpBreakpoint p = dbDisplay b \<and> reasonFits (rpReason p) (dbKind b)) \<longleftrightarrow>
      (\<exists>(i, kind, display, access)\<in>breakpointKey ` set bs. rpBreakpoint p = display \<and> reasonFits (rpReason p) kind)" for bs
    by (auto simp: breakpointKey_def)
  then show ?thesis using assms k by (simp only: pauseReason_def sameSetup_def)
qed

text \<open>A change that keeps the setup, the step counters and the pending pause keeps the invariant.\<close>

definition quiet :: "DebugHost \<Rightarrow> DebugHost \<Rightarrow> bool" where
  "quiet h h' \<longleftrightarrow> sameSetup h h' \<and> dhSeen h' = dhSeen h \<and> seLastStep (dhSession h') = seLastStep (dhSession h) \<and>
     sePendingPause (dhSession h') = sePendingPause (dhSession h)"

lemma quiet_stepInv: "quiet h h' \<Longrightarrow> stepInv h \<Longrightarrow> stepInv h'"
  using pauseReason_same [of h h'] by (auto simp: quiet_def stepInv_def sameSetup_def Let_def split: option.splits)

lemma quiet_runRel:
  "quiet h h' \<Longrightarrow> (sessionSafe E (dhSession h) \<Longrightarrow> sessionSafe E (dhSession h')) \<Longrightarrow> runRel E h h'"
  using quiet_stepInv [of h h'] by (auto simp: runRel_def quiet_def)


subsection \<open>Each hook keeps it\<close>

lemma withHost_simps [simp]:
  "hookState (withHost h s) = h" "contract (withHost h s) = contract s" "callDepth (withHost h s) = callDepth s"
  by (simp_all add: withHost_def)

lemma sessionSafe_same:
  "seBundles ss' = seBundles ss \<Longrightarrow> seMutations ss' = seMutations ss \<Longrightarrow> sessionSafe E ss' = sessionSafe E ss"
  by (simp add: sessionSafe_def)

lemma bundleForCodeAddress_mem: "bundleForCodeAddress ss a = Some b \<Longrightarrow> \<exists>key. (key, b) \<in> set (seBundles ss)"
  by (auto simp: bundleForCodeAddress_def bind_eq_Some_conv split: option.splits list.splits prod.splits dest: map_of_SomeD)

lemma withBundle_Ok:
  assumes "\<forall>(key, b)\<in>set (seBundles ss). bundleOK b"
  shows "\<exists>p. withBundle E ctx s ss pause = Ok p"
proof (cases "bundleForCodeAddress ss (CodeAddrVal (contract s))")
  case (Some b)
  then have b: "\<forall>idx. buIndex b = Some idx \<longrightarrow> segmentsOK idx"
    using bundleForCodeAddress_mem [OF Some] assms by (auto simp: bundleOK_def)
  have "\<exists>snap. r = Ok snap" if "peekSnapshot (deFuel E) (dePeek E) (buIndex b) t (Some s) a code = Some r" for t a code r
    by (rule peekSnapshot_Ok [OF b that])
  then show ?thesis
    by (cases "peekSnapshot (deFuel E) (dePeek E) (buIndex b) (sessionTracker ss (CodeAddrVal (contract s))) (Some s)
          (AddressVal (contract s)) (accCode (CodeAddrVal (contract s)) (account s))")
      (auto simp: withBundle_def Let_def Some)
qed (simp add: withBundle_def)

lemma capturePause_Ok:
  assumes "sessionSafe E ss"
  shows "\<exists>p. fst (capturePause E ctx s i r d ss) = Ok p"
proof -
  obtain fs u where fs: "enrichCallStack E (seCallFrames ss) (ss\<lparr>seMemorySnapshot := MemoryGet (dePeek E) 0 (ulen (memory s)) s\<rparr>) = (fs, u)"
    by fastforce
  have "captureOnly (ss\<lparr>seMemorySnapshot := MemoryGet (dePeek E) 0 (ulen (memory s)) s\<rparr>) u"
    using enrichCallStack_only [of "ss\<lparr>seMemorySnapshot := MemoryGet (dePeek E) 0 (ulen (memory s)) s\<rparr>" E "seCallFrames ss"]
    by (simp add: fs)
  then have "seBundles u = seBundles ss" by (simp add: captureOnly_same)
  then have "\<forall>(key, b)\<in>set (seBundles u). bundleOK b" using assms by (simp add: sessionSafe_def)
  then show ?thesis using withBundle_Ok by (auto simp: capturePause_def Let_def fs)
qed

text \<open>The effect of a firing that stops the run, and of one that may change nothing but the session's caches.\<close>

lemma pauseWith_frame:
  assumes "pauseWith E fill ctx i r d s = (q, s')"
  shows "contract s' = contract s \<and> callDepth s' = callDepth s"
  using assms by (auto simp: pauseWith_def Let_def split: prod.splits outcome.splits)

lemma pauseWith_host:
  assumes "pauseWith E fill ctx i r d s = (q, s')" "sessionSafe E (dhSession (hookState s))"
  obtains p ss where "capturePause E ctx s i r d (dhSession (hookState s)) = (Ok p, ss)" "q = Ok (Some haltPause)"
    "hookState s' = (hookState s)\<lparr>dhSession := ss\<lparr>sePendingPause := Some (fill p)\<rparr>\<rparr>" "captureOnly (dhSession (hookState s)) ss"
proof -
  obtain c ss where c: "capturePause E ctx s i r d (dhSession (hookState s)) = (c, ss)" by fastforce
  moreover obtain p where "c = Ok p" using capturePause_Ok [OF assms(2), of ctx s i r d] c by auto
  moreover have "captureOnly (dhSession (hookState s)) ss" using capturePause_only [of "dhSession (hookState s)" E ctx s i r d] c by simp
  ultimately show thesis using that assms(1) by (auto simp: pauseWith_def Let_def)
qed

lemma pauseWith_setup:
  assumes "pauseWith E fill ctx i r d s = (q, s')"
  shows "sameSetup (hookState s) (hookState s') \<and> seBundles (dhSession (hookState s')) = seBundles (dhSession (hookState s)) \<and>
    dhSeen (hookState s') = dhSeen (hookState s) \<and> seLastStep (dhSession (hookState s')) = seLastStep (dhSession (hookState s))"
proof -
  obtain c ss where c: "capturePause E ctx s i r d (dhSession (hookState s)) = (c, ss)" by fastforce
  have o: "captureOnly (dhSession (hookState s)) ss" using capturePause_only [of "dhSession (hookState s)" E ctx s i r d] c by simp
  show ?thesis
    using assms captureOnly_same [OF o]
    by (cases c) (auto simp: pauseWith_def Let_def c sameSetup_def)
qed

definition counted :: "DebugHost \<Rightarrow> bool" where
  "counted h \<longleftrightarrow> 0 \<le> dhSeen h \<and> dhSeen h = seLastStep (dhSession h) + 1"

lemma stepInv_counted: "stepInv h \<Longrightarrow> counted h"
  by (simp add: stepInv_def counted_def Let_def)

lemma pauseWith_stepInv:
  assumes run: "pauseWith E fill ctx i r d s = (q, s')"
    and fill: "\<And>p. rpStepIndex (fill p) = rpStepIndex p \<and> rpReason (fill p) = rpReason p \<and> rpBreakpoint (fill p) = rpBreakpoint p"
    and safe: "sessionSafe E (dhSession (hookState s))"
    and count: "counted (hookState s)" "i = seLastStep (dhSession (hookState s))" "sePosition (dhSession (hookState s)) < i"
    and why: "\<And>p. rpReason p = r \<Longrightarrow> rpBreakpoint p = d \<Longrightarrow> rpStepIndex p = i \<Longrightarrow> pauseReason (hookState s) p"
  shows "stepInv (hookState s') \<and> sessionSafe E (dhSession (hookState s'))"
proof -
  note kept = pauseWith_setup [OF run]
  obtain p ss where p: "capturePause E ctx s i r d (dhSession (hookState s)) = (Ok p, ss)"
    and h: "hookState s' = (hookState s)\<lparr>dhSession := ss\<lparr>sePendingPause := Some (fill p)\<rparr>\<rparr>"
    using pauseWith_host [OF run safe] .
  have "pauseReason (hookState s) (fill p)" using why fill capturePause_pause [OF p] by metis
  then have "pauseReason (hookState s') (fill p)" using pauseReason_same kept by blast
  moreover have "rpStepIndex (fill p) = i" using fill capturePause_pause(1) [OF p] by simp
  moreover have "sePendingPause (dhSession (hookState s')) = Some (fill p)" by (simp add: h)
  ultimately have "stepInv (hookState s')" using count kept by (simp add: stepInv_def counted_def Let_def sameSetup_def)
  moreover have "sessionSafe E (dhSession (hookState s'))" using kept safe by (simp add: sameSetup_def sessionSafe_def)
  ultimately show ?thesis ..
qed

text \<open>An access hook.\<close>

lemma debugAccessFire_runRel:
  assumes run: "debugAccessFire E r matcher builder ctx s = (q, s')"
    and fits: "\<And>b. matcher ctx s b \<Longrightarrow> reasonFits r (dbKind b)"
    and fill: "\<And>p. rpStepIndex (builder ctx p) = rpStepIndex p \<and> rpReason (builder ctx p) = rpReason p \<and>
      rpBreakpoint (builder ctx p) = rpBreakpoint p"
  shows "runRel E (hookState s) (hookState s')"
proof -
  let ?h = "hookState s"
  let ?ss = "dhSession ?h"
  consider (quiet) "s' = s" | (stop) b where "\<not> seLastStep ?ss \<le> sePosition ?ss" "find (matcher ctx s) (seBreakpoints ?ss) = Some b"
    "pauseWith E (builder ctx) ctx (seLastStep ?ss) r (dbDisplay b) s = (q, s')"
    using run by (auto simp: debugAccessFire_def goOn_def Let_def split: if_splits option.splits)
  then show ?thesis
  proof cases
    case quiet
    then show ?thesis by (simp add: run.Q_refl)
  next
    case stop
    have b: "b \<in> set (seBreakpoints ?ss)" "reasonFits r (dbKind b)"
      using stop(2) fits by (auto simp: find_Some_iff)
    have "stepInv (hookState s') \<and> sessionSafe E (dhSession (hookState s'))"
      if safe: "sessionSafe E ?ss" and inv: "stepInv ?h"
      by (rule pauseWith_stepInv [OF stop(3) fill safe stepInv_counted [OF inv] refl])
        (use stop(1) b in \<open>auto simp: pauseReason_def\<close>)
    moreover have "sameSetup ?h (hookState s') \<and> seBundles (dhSession (hookState s')) = seBundles ?ss"
      using pauseWith_setup [OF stop(3)] by simp
    ultimately show ?thesis by (auto simp: runRel_def sameSetup_def sessionSafe_def)
  qed
qed

text \<open>The step hook.\<close>

definition framesAt :: "HookContext \<Rightarrow> dbgState \<Rightarrow> dbgState" where
  "framesAt ctx s = withHost (onSession (\<lambda>ss. ss\<lparr>seCallFrames := updateCallFrames ctx s (seCallFrames ss)\<rparr>) (hookState s)) s"

lemma enterStep_simps [simp]:
  "dhSeen (enterStep h) = dhSeen h + 1" "dhContinue (enterStep h) = dhContinue h"
  "seLastStep (dhSession (enterStep h)) = dhSeen h" "sePosition (dhSession (enterStep h)) = sePosition (dhSession h)"
  "sePendingPause (dhSession (enterStep h)) = sePendingPause (dhSession h)" "seBundles (dhSession (enterStep h)) = seBundles (dhSession h)"
  "seID (dhSession (enterStep h)) = seID (dhSession h)" "seKind (dhSession (enterStep h)) = seKind (dhSession h)"
  "seTrace (dhSession (enterStep h)) = seTrace (dhSession h)"
  "seCurrent (dhSession (enterStep h)) = seCurrent (dhSession h)" "seDone (dhSession (enterStep h)) = seDone (dhSession h)"
  "seMutations (dhSession (enterStep h)) = seMutations (dhSession h)" "seBreakpoints (dhSession (enterStep h)) = seBreakpoints (dhSession h)"
  by (simp_all add: enterStep_def Let_def)

lemma debugStepFire_frames:
  "debugStepFire E ctx s =
     (case applyMutations (plMaxAlloc (dePeek E)) (dhSeen (hookState s)) (seMutations (dhSession (hookState s)))
         (withHost (enterStep (hookState s)) s) of
        (Ok _, s1) \<Rightarrow>
          (case stepDecision (hookState (framesAt ctx s1)) (dhSeen (hookState s)) ctx (framesAt ctx s1) of
             None \<Rightarrow> goOn (framesAt ctx s1)
           | Some (r, d) \<Rightarrow> pauseWith E id ctx (dhSeen (hookState s)) r d (framesAt ctx s1))
      | (Fail e, s1) \<Rightarrow> (Fail e, s1)
      | (Panic p, s1) \<Rightarrow> (Panic p, s1))"
  by (simp only: debugStepFire_def framesAt_def [symmetric] Let_def withHost_simps enterStep_simps)

lemma debugStepFire_cases:
  assumes "debugStepFire E ctx s = (q, s')"
  obtains (panic) "hookState s' = enterStep (hookState s)"
      "fst (applyMutations (plMaxAlloc (dePeek E)) (dhSeen (hookState s)) (seMutations (dhSession (hookState s))) (withHost (enterStep (hookState s)) s)) \<noteq> Ok ()"
  | (on) s1 where "hookState s1 = enterStep (hookState s)" "stepDecision (hookState (framesAt ctx s1)) (dhSeen (hookState s)) ctx (framesAt ctx s1) = None"
      "s' = framesAt ctx s1"
  | (stop) s1 r d where "hookState s1 = enterStep (hookState s)"
      "stepDecision (hookState (framesAt ctx s1)) (dhSeen (hookState s)) ctx (framesAt ctx s1) = Some (r, d)"
      "pauseWith E id ctx (dhSeen (hookState s)) r d (framesAt ctx s1) = (q, s')"
proof -
  obtain x s1 where x: "applyMutations (plMaxAlloc (dePeek E)) (dhSeen (hookState s)) (seMutations (dhSession (hookState s)))
      (withHost (enterStep (hookState s)) s) = (x, s1)" by fastforce
  have h: "hookState s1 = enterStep (hookState s)" using applyMutations_frame [OF x] by simp
  show thesis
  proof (cases x)
    case (Ok u)
    then have fire: "(case stepDecision (hookState (framesAt ctx s1)) (dhSeen (hookState s)) ctx (framesAt ctx s1) of
        None \<Rightarrow> goOn (framesAt ctx s1)
      | Some (r, d) \<Rightarrow> pauseWith E id ctx (dhSeen (hookState s)) r d (framesAt ctx s1)) = (q, s')"
      using assms x by (simp add: debugStepFire_frames)
    show thesis
      using fire h on stop by (auto simp: goOn_def split: option.splits prod.splits)
  next
    case (Fail e)
    then show thesis using assms x h panic by (auto simp: debugStepFire_def Let_def)
  next
    case (Panic e)
    then show thesis using assms x h panic by (auto simp: debugStepFire_def Let_def)
  qed
qed

lemma find_SomeD: "find P xs = Some x \<Longrightarrow> x \<in> set xs \<and> P x"
  by (auto simp: find_Some_iff)

lemma matchRootFunctionBreakpoint_kind:
  "matchRootFunctionBreakpoint ctx s ss = Some b \<Longrightarrow> b \<in> set (seBreakpoints ss) \<and> dbKind b = ''function''"
  by (auto simp: matchRootFunctionBreakpoint_def split: option.splits if_splits dest!: find_SomeD)

lemma matchSourceBreakpoint_kind: "matchSourceBreakpoint ctx s bps = Some b \<Longrightarrow> b \<in> set bps \<and> dbKind b = ''source''"
  by (auto simp: matchSourceBreakpoint_def split: option.splits dest!: find_SomeD)

lemma stepDecision_Some:
  assumes "stepDecision h i ctx s = Some (r, d)"
  shows "sePosition (dhSession h) < i"
    "rpReason p = r \<Longrightarrow> rpBreakpoint p = d \<Longrightarrow> rpStepIndex p = i \<Longrightarrow> pauseReason h p"
  using assms
  by (auto simp: stepDecision_def Let_def pauseReason_def reasonFits_def split: if_splits option.splits
      dest!: matchRootFunctionBreakpoint_kind matchSourceBreakpoint_kind)

lemma stepDecision_None:
  "stepDecision h i ctx s = None \<Longrightarrow> dhContinue h \<or> i \<le> sePosition (dhSession h) \<or> sePosition (dhSession h) + 1 < i"
  by (auto simp: stepDecision_def Let_def split: if_splits)

lemma framesAt_simps:
  "dhSeen (hookState (framesAt ctx s)) = dhSeen (hookState s)" "dhContinue (hookState (framesAt ctx s)) = dhContinue (hookState s)"
  "seLastStep (dhSession (hookState (framesAt ctx s))) = seLastStep (dhSession (hookState s))"
  "sePosition (dhSession (hookState (framesAt ctx s))) = sePosition (dhSession (hookState s))"
  "sePendingPause (dhSession (hookState (framesAt ctx s))) = sePendingPause (dhSession (hookState s))"
  "seBundles (dhSession (hookState (framesAt ctx s))) = seBundles (dhSession (hookState s))"
  "seMutations (dhSession (hookState (framesAt ctx s))) = seMutations (dhSession (hookState s))"
  "seID (dhSession (hookState (framesAt ctx s))) = seID (dhSession (hookState s))"
  "seKind (dhSession (hookState (framesAt ctx s))) = seKind (dhSession (hookState s))"
  "seTrace (dhSession (hookState (framesAt ctx s))) = seTrace (dhSession (hookState s))"
  "seCurrent (dhSession (hookState (framesAt ctx s))) = seCurrent (dhSession (hookState s))" "seDone (dhSession (hookState (framesAt ctx s))) = seDone (dhSession (hookState s))"
  "seBreakpoints (dhSession (hookState (framesAt ctx s))) = seBreakpoints (dhSession (hookState s))"
  by (simp_all add: framesAt_def)

lemma sameSetup_pauseReason_imp: "sameSetup h h' \<Longrightarrow> pauseReason h p \<Longrightarrow> pauseReason h' p"
  using pauseReason_same by blast

lemma debugStepFire_stepInv:
  assumes run: "debugStepFire E ctx s = (q, s')" and env: "envSafe E" and safe: "sessionSafe E (dhSession (hookState s))"
    and inv: "stepInv (hookState s)"
  shows "stepInv (hookState s')"
  using run
proof (cases rule: debugStepFire_cases)
  case panic
  have "\<exists>t. applyMutations (plMaxAlloc (dePeek E)) (dhSeen (hookState s)) (seMutations (dhSession (hookState s)))
      (withHost (enterStep (hookState s)) s) = (Ok (), t)"
    by (rule applyMutations_Ok) (use safe env in \<open>simp_all add: sessionSafe_def envSafe_def\<close>)
  then show ?thesis using panic(2) by auto
next
  case (on s1)
  let ?h = "hookState s'"
  have same: "sameSetup (hookState s) ?h" by (simp add: on sameSetup_def framesAt_simps)
  have none: "dhContinue (hookState s) \<or> dhSeen (hookState s) \<le> sePosition (dhSession (hookState s)) \<or>
      sePosition (dhSession (hookState s)) + 1 < dhSeen (hookState s)"
    using stepDecision_None [OF on(2)] by (simp add: on framesAt_simps)
  show ?thesis
    using inv none sameSetup_pauseReason_imp [OF same]
    by (auto simp: stepInv_def Let_def on framesAt_simps split: option.splits)
next
  case (stop s1 r d)
  let ?s = "framesAt ctx s1"
  have inv': "0 \<le> dhSeen (hookState s)" using inv by (simp add: stepInv_def Let_def)
  have "stepInv (hookState s') \<and> sessionSafe E (dhSession (hookState s'))"
    by (rule pauseWith_stepInv [OF stop(3)])
      (use stepDecision_Some [OF stop(2)] safe inv' in \<open>auto simp: stop(1) framesAt_simps sessionSafe_def counted_def\<close>)
  then show ?thesis ..
qed

lemma debugStepFire_runRel:
  assumes run: "debugStepFire E ctx s = (q, s')" and env: "envSafe E"
  shows "runRel E (hookState s) (hookState s')"
proof -
  have "sameSetup (hookState s) (hookState s') \<and> seBundles (dhSession (hookState s')) = seBundles (dhSession (hookState s))"
    using run
  proof (cases rule: debugStepFire_cases)
    case (stop s1 r d)
    then show ?thesis using pauseWith_setup [OF stop(3)] by (simp add: sameSetup_def framesAt_simps)
  qed (simp_all add: sameSetup_def framesAt_simps)
  then show ?thesis
    using debugStepFire_stepInv [OF run env] by (auto simp: runRel_def sameSetup_def sessionSafe_def)
qed

text \<open>The hooks that only load sources or follow memory.\<close>

lemma resyncBreakpoint_key [simp]: "breakpointKey (resyncBreakpoint b bp) = breakpointKey bp"
  by (auto simp: resyncBreakpoint_def breakpointKey_def split: sum.split option.split)

lemma resync_simps [simp]:
  "seBundles (resyncBreakpointsForBundle b ss) = seBundles ss" "seMutations (resyncBreakpointsForBundle b ss) = seMutations ss"
  "sePosition (resyncBreakpointsForBundle b ss) = sePosition ss" "seLastStep (resyncBreakpointsForBundle b ss) = seLastStep ss"
  "sePendingPause (resyncBreakpointsForBundle b ss) = sePendingPause ss" "seID (resyncBreakpointsForBundle b ss) = seID ss"
  "seKind (resyncBreakpointsForBundle b ss) = seKind ss" "seTrace (resyncBreakpointsForBundle b ss) = seTrace ss"
  "seCurrent (resyncBreakpointsForBundle b ss) = seCurrent ss" "seDone (resyncBreakpointsForBundle b ss) = seDone ss"
  "map breakpointKey (seBreakpoints (resyncBreakpointsForBundle b ss)) = map breakpointKey (seBreakpoints ss)"
  by (simp_all add: resyncBreakpointsForBundle_def comp_def)

lemma preloadSession_frame:
  "seMutations (preloadSession E c ss) = seMutations ss" "sePosition (preloadSession E c ss) = sePosition ss"
  "seLastStep (preloadSession E c ss) = seLastStep ss" "sePendingPause (preloadSession E c ss) = sePendingPause ss"
  "seID (preloadSession E c ss) = seID ss" "seKind (preloadSession E c ss) = seKind ss" "seTrace (preloadSession E c ss) = seTrace ss"
  "seCurrent (preloadSession E c ss) = seCurrent ss" "seDone (preloadSession E c ss) = seDone ss"
  "map breakpointKey (seBreakpoints (preloadSession E c ss)) = map breakpointKey (seBreakpoints ss)"
  by (simp_all add: preloadSession_def Let_def split: option.split)

lemma mput_all: "\<forall>(k, v)\<in>set m. P v \<Longrightarrow> P v' \<Longrightarrow> \<forall>(k, v)\<in>set (mput k' v' m). P v"
  by (induction m) (auto simp: mput_def split: if_splits)

lemma preloadSession_safe:
  assumes "envSafe E" "sessionSafe E ss"
  shows "sessionSafe E (preloadSession E c ss)"
  using assms mput_all [of "seBundles ss" bundleOK]
  by (simp add: preloadSession_def Let_def sessionSafe_def envSafe_def split: option.split) blast

lemma contractPreloadFire_runRel:
  assumes "contractPreloadFire E ctx s = (q, s')" "envSafe E"
  shows "runRel E (hookState s) (hookState s')"
  using assms
  by (auto simp: contractPreloadFire_def goOn_def quiet_def sameSetup_def preloadSession_frame run.Q_refl
      intro!: quiet_runRel preloadSession_safe split: option.splits)

lemma trackerFire_runRel:
  assumes "trackerFire key ctx s = (q, s')"
  shows "runRel E (hookState s) (hookState s')"
  using assms
  by (auto simp: trackerFire_def goOn_def quiet_def sameSetup_def sessionSafe_def intro!: quiet_runRel split: option.splits)

subsection \<open>The whole run\<close>

lemma HooksFor_Register: "set (HooksFor t (fst (Register h r))) \<subseteq> insert h (set (HooksFor t r))"
  by (auto simp: Register_def HooksFor_def mget_def split: if_splits option.splits)

lemma HooksFor_fold: "set (HooksFor t (fold (\<lambda>h r. fst (Register h r)) hs r)) \<subseteq> set hs \<union> set (HooksFor t r)"
proof (induction hs arbitrary: r)
  case (Cons h hs)
  show ?case using Cons.IH [of "fst (Register h r)"] HooksFor_Register [of t h r] by auto
qed simp

lemma debugRegistry_hooks: "h \<in> set (HooksFor t (debugRegistry E keys)) \<Longrightarrow> h \<in> set (debugHookList E keys)"
  using HooksFor_fold [of t "debugHookList E keys" NewSimpleHookRegistry]
  by (auto simp: debugRegistry_def HooksFor_def NewSimpleHookRegistry_def mget_def)

lemma fires_frame:
  "debugAccessFire E r matcher builder ctx s = (q, s') \<Longrightarrow> contract s' = contract s \<and> callDepth s' = callDepth s"
  "contractPreloadFire E ctx s = (q, s') \<Longrightarrow> contract s' = contract s \<and> callDepth s' = callDepth s"
  "trackerFire key ctx s = (q, s') \<Longrightarrow> contract s' = contract s \<and> callDepth s' = callDepth s"
  by (auto simp: debugAccessFire_def contractPreloadFire_def trackerFire_def goOn_def Let_def
      split: if_splits option.splits dest: pauseWith_frame)

lemma debugStepFire_frame:
  assumes "debugStepFire E ctx s = (q, s')"
  shows "contract s' = contract s \<and> callDepth s' = callDepth s"
proof -
  obtain x s1 where x: "applyMutations (plMaxAlloc (dePeek E)) (dhSeen (hookState s)) (seMutations (dhSession (hookState s)))
      (withHost (enterStep (hookState s)) s) = (x, s1)" by fastforce
  have "contract s1 = contract s \<and> callDepth s1 = callDepth s" using applyMutations_frame [OF x] by simp
  moreover have "contract s' = contract s1 \<and> callDepth s' = callDepth s1"
    using assms by (cases x) (auto simp: debugStepFire_frames x goOn_def framesAt_def split: option.splits dest: pauseWith_frame)
  ultimately show ?thesis by simp
qed

lemma hook_respects_runRel:
  assumes "\<And>ctx s q s'. f ctx s = (q, s') \<Longrightarrow> runRel E (hookState s) (hookState s')"
    and "\<And>ctx s q s'. f ctx s = (q, s') \<Longrightarrow> contract s' = contract s \<and> callDepth s' = callDepth s"
  shows "hook_respects (hostRel (runRel E)) (mkHook t i f)"
  using assms by (auto simp: hook_respects_def mkHook_def hostRel_def)

lemma builder_simps:
  "rpStepIndex (callBuilder t ctx p) = rpStepIndex p \<and> rpReason (callBuilder t ctx p) = rpReason p \<and> rpBreakpoint (callBuilder t ctx p) = rpBreakpoint p"
  "rpStepIndex (storageBuilder t u ctx p) = rpStepIndex p \<and> rpReason (storageBuilder t u ctx p) = rpReason p \<and> rpBreakpoint (storageBuilder t u ctx p) = rpBreakpoint p"
  "rpStepIndex (memoryBuilder ctx p) = rpStepIndex p \<and> rpReason (memoryBuilder ctx p) = rpReason p \<and> rpBreakpoint (memoryBuilder ctx p) = rpBreakpoint p"
  by (simp_all add: callBuilder_def storageBuilder_def memoryBuilder_def split: option.split)

lemma matcher_fits:
  "callMatcher ctx b \<Longrightarrow> reasonFits ''call_breakpoint'' (dbKind b)"
  "storageMatcher ctx b \<Longrightarrow> reasonFits (if w then ''storage_write_breakpoint'' else ''storage_read_breakpoint'') (dbKind b)"
  "memoryMatcher ctx s b \<Longrightarrow> reasonFits (if w then ''memory_write_breakpoint'' else ''memory_read_breakpoint'') (dbKind b)"
  by (auto simp: callMatcher_def storageMatcher_def memoryMatcher_def reasonFits_def split: option.splits)

lemma access_hooks:
  "hook_respects (hostRel (runRel E)) (newCallHook E t i)"
  "hook_respects (hostRel (runRel E)) (newStorageHook E t u i w)"
  "hook_respects (hostRel (runRel E)) (newMemoryHook E t i w)"
  unfolding newCallHook_def newStorageHook_def newMemoryHook_def
  by (rule hook_respects_runRel, erule debugAccessFire_runRel, erule matcher_fits, rule builder_simps, erule fires_frame)+

lemma debugHookList_respects:
  assumes "envSafe E" "h \<in> set (debugHookList E keys)"
  shows "hook_respects (hostRel (runRel E)) h"
proof -
  have "hook_respects (hostRel (runRel E)) (stepHook E)"
    unfolding stepHook_def by (rule hook_respects_runRel, erule debugStepFire_runRel, rule assms(1), erule debugStepFire_frame)
  moreover have "hook_respects (hostRel (runRel E)) (mkHook t i (contractPreloadFire E))" for t i
    by (rule hook_respects_runRel, erule contractPreloadFire_runRel, rule assms(1), erule fires_frame)
  moreover have "hook_respects (hostRel (runRel E)) (mkHook t i (trackerFire key))" for t i key
    by (rule hook_respects_runRel, erule trackerFire_runRel, erule fires_frame)
  ultimately show ?thesis using assms(2) access_hooks by (auto simp: debugHookList_def)
qed

lemma debugHooks_respect: "envSafe E \<Longrightarrow> hooks_respect (hostRel (runRel E)) (Some (debugHooksFor E keys))"
  using debugHookList_respects debugRegistry_hooks by (fastforce simp: hooks_respect_def debugHooksFor_def)

lemma engineRunner_runRel:
  assumes "engineRunner L C n conf (debugHooksFor E keys) h = Some (res, h')" "envSafe E"
  shows "runRel E h h'"
  by (rule run.engineRunner_keeps [OF assms(1) debugHooks_respect [OF assms(2)]])

text \<open>The session a run starts from, and what it leaves.\<close>

lemma prepareTrackers_frame:
  "seBundles (prepareTrackers ss) = seBundles ss \<and> seMutations (prepareTrackers ss) = seMutations ss \<and>
   sePosition (prepareTrackers ss) = sePosition ss \<and> seBreakpoints (prepareTrackers ss) = seBreakpoints ss \<and>
   seLastStep (prepareTrackers ss) = seLastStep ss \<and> sePendingPause (prepareTrackers ss) = sePendingPause ss \<and>
   seCurrent (prepareTrackers ss) = seCurrent ss \<and> seDone (prepareTrackers ss) = seDone ss \<and>
   seID (prepareTrackers ss) = seID ss \<and> seKind (prepareTrackers ss) = seKind ss \<and> seTrace (prepareTrackers ss) = seTrace ss"
proof -
  define f where "f = (\<lambda>(key, b :: Bundle) (ss :: ReplaySession). if buIndex b = None then ss
      else ss\<lparr>seVarTrackers := mput (ToLower key) (case map_of (seVarTrackers ss) (ToLower key) of
        None \<Rightarrow> NewTracker (buIndex b) | Some t \<Rightarrow> TrackerReset t) (seVarTrackers ss)\<rparr>)"
  have "seBundles (fold f bs ss) = seBundles ss \<and> seMutations (fold f bs ss) = seMutations ss \<and>
     sePosition (fold f bs ss) = sePosition ss \<and> seBreakpoints (fold f bs ss) = seBreakpoints ss \<and>
     seLastStep (fold f bs ss) = seLastStep ss \<and> sePendingPause (fold f bs ss) = sePendingPause ss \<and>
     seCurrent (fold f bs ss) = seCurrent ss \<and> seDone (fold f bs ss) = seDone ss \<and>
     seID (fold f bs ss) = seID ss \<and> seKind (fold f bs ss) = seKind ss \<and> seTrace (fold f bs ss) = seTrace ss" for bs ss
    by (induction bs arbitrary: ss) (auto simp: f_def split: prod.split)
  then show ?thesis unfolding prepareTrackers_def f_def .
qed

lemma replayPrepared_result:
  assumes "replayPrepared E run arrives continueMode target code input ss w = Some ((err, ss'), w')" "ofEngine L C run" "envSafe E"
  obtains result execErr h where "(err, ss') = finishRun result execErr ((dhSession h)\<lparr>seExecutionRunning := False\<rparr>)"
    "runRel E (startHost arrives continueMode (resetSession target code input ss)) h"
proof -
  obtain result execErr h where r: "run (debugHooksFor E (trackerKeys (resetSession target code input ss)))
       (startHost arrives continueMode (resetSession target code input ss)) w = Some ((result, execErr), h, w')"
      "(err, ss') = finishRun result execErr ((dhSession h)\<lparr>seExecutionRunning := False\<rparr>)"
    using assms(1) by (auto simp: replayPrepared_def Let_def split: option.splits prod.splits)
  then show thesis using that engineRunner_runRel assms(2,3) unfolding ofEngine_def by metis
qed

lemma resetSession_frame:
  "seBundles (resetSession target code input ss) = seBundles ss" "seMutations (resetSession target code input ss) = seMutations ss"
  "sePosition (resetSession target code input ss) = sePosition ss" "seBreakpoints (resetSession target code input ss) = seBreakpoints ss"
  "seLastStep (resetSession target code input ss) = -1" "sePendingPause (resetSession target code input ss) = None"
  "seCurrent (resetSession target code input ss) = None" "seDone (resetSession target code input ss) = seDone ss"
  "seID (resetSession target code input ss) = seID ss" "seKind (resetSession target code input ss) = seKind ss"
  "seTrace (resetSession target code input ss) = seTrace ss"
  by (simp_all add: resetSession_def prepareTrackers_frame)

lemma startHost_stepInv: "continueMode \<or> -1 \<le> sePosition ss \<Longrightarrow> stepInv (startHost arrives continueMode (resetSession target code input ss))"
  by (simp add: stepInv_def startHost_def resetSession_frame)

definition stopReason :: "bool \<Rightarrow> ReplaySession \<Rightarrow> ReplayPause \<Rightarrow> bool" where
  "stopReason continueMode ss p \<longleftrightarrow>
     rpReason p = ''step'' \<and> \<not> continueMode \<and> rpStepIndex p = sePosition ss + 1 \<or>
     rpReason p = ''pause'' \<and> continueMode \<or>
     (\<exists>b\<in>set (seBreakpoints ss). rpBreakpoint p = dbDisplay b \<and> reasonFits (rpReason p) (dbKind b))"

lemma replayPrepared_stops:
  assumes run: "replayPrepared E run arrives continueMode target code input ss w = Some ((None, ss'), w')"
    and eng: "ofEngine L C run" and env: "envSafe E" and safe: "sessionSafe E ss" and pos: "continueMode \<or> -1 \<le> sePosition ss"
  shows "case seCurrent ss' of
      Some p \<Rightarrow> \<not> seDone ss' \<and> seResult ss' = None \<and> sePosition ss' = rpStepIndex p \<and> sePosition ss < sePosition ss' \<and>
        sePosition ss' \<le> seLastStep ss' \<and> stopReason continueMode ss p
    | None \<Rightarrow> seDone ss' \<and> sePosition ss' = seLastStep ss' \<and> -1 \<le> sePosition ss' \<and> (continueMode \<or> sePosition ss' \<le> sePosition ss)"
proof -
  let ?start = "startHost arrives continueMode (resetSession target code input ss)"
  obtain result execErr h where fin: "(None, ss') = finishRun result execErr ((dhSession h)\<lparr>seExecutionRunning := False\<rparr>)"
    and rel: "runRel E ?start h" using replayPrepared_result [OF run eng env] by metis
  have "sessionSafe E (dhSession ?start)" using safe by (simp add: sessionSafe_def startHost_def resetSession_frame)
  then have inv: "stepInv h" and same: "sameSetup ?start h"
    using rel startHost_stepInv [OF pos] by (auto simp: runRel_def)
  have kept: "dhContinue h = continueMode" "sePosition (dhSession h) = sePosition ss"
    using same by (simp_all add: sameSetup_def startHost_def resetSession_frame)
  show ?thesis
  proof (cases "sePendingPause (dhSession h)")
    case None
    then show ?thesis
      using fin inv kept by (auto simp: finishRun_def stepInv_def Let_def split: if_splits)
  next
    case (Some p)
    have "pauseReason h p" using inv Some by (simp add: stepInv_def Let_def)
    then have "stopReason continueMode ss p"
      using pauseReason_same [OF same, of p] by (simp add: pauseReason_def stopReason_def startHost_def resetSession_frame)
    then show ?thesis
      using fin inv kept Some by (auto simp: finishRun_def stepInv_def Let_def split: if_splits)
  qed
qed

end
