(* ===== verification/ForkReport.thy ===== *)
theory ForkReport
  imports ForkEngine
begin

text \<open>
  Reports and traced runs: \<open>internal/forkengine/export.go\<close>, the tracing entry points of \<open>adapter.go\<close> and
  \<open>replay_trace.go\<close>, \<open>InspectState\<close>. A traced run hands its steps over next to its result.
\<close>

subsection \<open>Traced runs\<close>

type_synonym tracedExecutor = "PreparedCall \<Rightarrow> (execResult \<times> ReplayTraceStep list) feM"

record ReplayLocalTrace = ReplayExecution +
  rlTrace :: "ReplayTraceStep list"

definition replayFlags :: "PreparedCall \<Rightarrow> bool \<times> string \<times> Hash list" where
  "replayFlags prepared =
     (case map_option cloneReplay (pcReplayState prepared) of
        None \<Rightarrow> (True, [], [])
      | Some r \<Rightarrow> (rsExact r, rsLimitation r, rsApplied r))"

text \<open>The common part: prepare, run with the collector, cache the writes, put the error of the run on its last step.\<close>

definition tracedReplay :: "(bytes \<Rightarrow> Hash) \<Rightarrow> (evm_error \<Rightarrow> string) \<Rightarrow> executor \<Rightarrow> tracedExecutor \<Rightarrow> Hash \<Rightarrow>
    (execResult \<times> Transaction \<times> Receipt \<times> ReplayTraceStep list) feM" where
  "tracedReplay K errText exec traced txh =
     feBind (PrepareReplay K errText exec txh) (\<lambda>(prepared, tx, receipt).
     feBind (traced prepared) (\<lambda>(x, steps).
       case (xrErr x, xrResult x) of
         (Some e, None) \<Rightarrow> feLift (\<lambda>fe. failure e)
       | _ \<Rightarrow>
           feBind (CommitLocalWrites K (xrCall x) (xrResult x)) (\<lambda>_.
           feRet (x, tx, receipt, applyResult errText (xrResult x) steps))))"

definition ReplayTransactionWithLocalTrace :: "(bytes \<Rightarrow> Hash) \<Rightarrow> (evm_error \<Rightarrow> string) \<Rightarrow> executor \<Rightarrow> tracedExecutor \<Rightarrow> Hash \<Rightarrow>
    ReplayLocalTrace feM" where
  "ReplayTransactionWithLocalTrace K errText exec traced txh =
     feBind (tracedReplay K errText exec traced txh) (\<lambda>(x, tx, receipt, steps).
       case replayFlags (xrCall x) of
         (exact, limitation, applied) \<Rightarrow>
           feRet \<lparr>rxPrepared = xrCall x, rxTransaction = tx, rxReceipt = receipt, rxResult = xrResult x, rxExact = exact,
             rxLimitation = limitation, rxApplied = applied, rlTrace = steps\<rparr>)"

text \<open>\<open>TraceCall\<close> of a call does not cache its writes.\<close>

definition TraceCall :: "(bytes \<Rightarrow> Hash) \<Rightarrow> (evm_error \<Rightarrow> string) \<Rightarrow> tracedExecutor \<Rightarrow> CallRequest \<Rightarrow> ReplayTraceStep list feM" where
  "TraceCall K errText traced req =
     feBind (PrepareCall K req) (\<lambda>prepared.
     feBind (traced prepared) (\<lambda>(x, steps).
       case (xrErr x, xrResult x) of
         (Some e, None) \<Rightarrow> feLift (\<lambda>fe. failure e)
       | _ \<Rightarrow> feRet (applyResult errText (xrResult x) steps)))"

record ReplayTraceComparison =
  ccPrepared :: PreparedCall
  ccTransaction :: Transaction
  ccReceipt :: Receipt
  ccLocalResult :: "ExecutionResult option"
  ccLocalTrace :: "ReplayTraceStep list"
  ccUpstreamTrace :: StructuredTrace
  ccComparison :: TraceComparison

text \<open>\<open>upstream\<close> is \<open>DebugTraceTransaction\<close> of the provider, parsed; \<open>None\<close> for a provider without it.\<close>

definition ReplayTransactionWithTraceComparison :: "(bytes \<Rightarrow> Hash) \<Rightarrow> (evm_error \<Rightarrow> string) \<Rightarrow> executor \<Rightarrow> tracedExecutor \<Rightarrow>
    (Hash \<Rightarrow> string + StructuredTrace) option \<Rightarrow> Hash \<Rightarrow> ReplayTraceComparison feM" where
  "ReplayTransactionWithTraceComparison K errText exec traced upstream txh =
     (case upstream of
        None \<Rightarrow> feLift (\<lambda>fe. failure ''forkengine: provider does not implement debug trace capabilities'')
      | Some debugTrace \<Rightarrow>
          feBind (tracedReplay K errText exec traced txh) (\<lambda>(x, tx, receipt, steps).
          feBind (feLift (\<lambda>fe. fromRemote (debugTrace txh))) (\<lambda>structured.
          feRet \<lparr>ccPrepared = xrCall x, ccTransaction = tx, ccReceipt = receipt, ccLocalResult = xrResult x, ccLocalTrace = steps,
            ccUpstreamTrace = structured, ccComparison = CompareReplayTrace steps (xrResult x) structured\<rparr>)))"

subsection \<open>The report on the transactions before a replayed one\<close>

record ReplayCheckReport =
  ckHash :: string
  ckTransactionIndex :: u64
  ckType :: u64
  ckBlob :: bool
  ckBlobHashCount :: nat
  ckBlobGasFeeCap :: string
  ckMatch :: bool
  ckMismatch :: "TraceMismatch option"

record ReplayExportReport =
  reTarget :: string
  reExecutionBlockRef :: string
  reStateSourceBlockRef :: string
  reExact :: bool
  reLimitation :: string
  reApplied :: "string list"
  rePrior :: "ReplayCheckReport list"
  reFirstMismatch :: "ReplayCheckReport option"
  reBlobSuspicion :: bool

definition hashToHex :: "Hash \<Rightarrow> string" where
  "hashToHex h = EncodeHex (word_bytes h)"

definition bigToString :: "int option \<Rightarrow> string" where
  "bigToString v = (case v of None \<Rightarrow> [] | Some n \<Rightarrow> showInt n)"

definition derefUint64 :: "u64 option \<Rightarrow> u64" where
  "derefUint64 v = (case v of None \<Rightarrow> 0 | Some n \<Rightarrow> n)"

definition transactionIsBlob :: "Transaction \<Rightarrow> bool" where
  "transactionIsBlob tx \<longleftrightarrow> txType tx = 3 \<or> txBlobHashes tx \<noteq> [] \<or> (\<exists>v. txBlobGasFeeCap tx = Some v \<and> v > 0)"

definition replayCheckReport :: "Transaction \<Rightarrow> ReceiptComparison \<Rightarrow> ReplayCheckReport" where
  "replayCheckReport tx comparison =
     \<lparr>ckHash = hashToHex (txHash tx), ckTransactionIndex = derefUint64 (txTransactionIndex tx), ckType = txType tx,
      ckBlob = transactionIsBlob tx, ckBlobHashCount = length (txBlobHashes tx), ckBlobGasFeeCap = bigToString (txBlobGasFeeCap tx),
      ckMatch = rmMatch comparison, ckMismatch = rmFirstMismatch comparison\<rparr>"

definition reportLimited :: "string \<Rightarrow> ReplayExportReport \<Rightarrow> ReplayExportReport" where
  "reportLimited why r = r\<lparr>reExact := False, reLimitation := why\<rparr>"

text \<open>The body of the loop on a transaction that ran: what it adds to the report. Its writes go to the cache only when the
  policy of the engine says so.\<close>

definition checkPrior :: "Transaction \<Rightarrow> ReceiptComparison \<Rightarrow> ReplayExportReport \<Rightarrow> ReplayExportReport" where
  "checkPrior tx comparison r =
     (let check = replayCheckReport tx comparison; r = r\<lparr>rePrior := rePrior r @ [check]\<rparr> in
      if rmMatch comparison then r\<lparr>reApplied := reApplied r @ [ckHash check]\<rparr>
      else r\<lparr>reExact := False, reFirstMismatch := Some check, reBlobSuspicion := ckBlob check,
             reLimitation := ''prior transaction '' @ ckHash check @ '' replay mismatch on '' @
               (case rmFirstMismatch comparison of Some m \<Rightarrow> mmField m | None \<Rightarrow> [])\<rparr>)"

fun reportPrior ::
  "(bytes \<Rightarrow> Hash) \<Rightarrow> (evm_error \<Rightarrow> string) \<Rightarrow> executor \<Rightarrow> (Hash \<Rightarrow> string + Receipt) \<Rightarrow> BlockRef \<Rightarrow> Hash \<Rightarrow> preparedStateView \<Rightarrow>
     ReplayExportReport \<Rightarrow> Transaction list \<Rightarrow> ReplayExportReport feM" where
  "reportPrior K errText exec receiptOf execRef target view r [] = feRet r"
| "reportPrior K errText exec receiptOf execRef target view r (tx # txs) =
     (if txHash tx = target then feRet r
      else case receiptOf (txHash tx) of
        Inl e \<Rightarrow> feRet (reportLimited (''failed to load receipt for prior transaction '' @ hexHash (txHash tx) @ '': '' @ e) r)
      | Inr receipt \<Rightarrow>
          feTry (prepareReplayTransactionWithState K tx receipt execRef view None)
            (\<lambda>prepared.
               feBind (exec prepared) (\<lambda>x.
                 if xrErr x \<noteq> None \<and> xrResult x = None
                 then feRet (reportLimited (''failed to execute prior transaction '' @ hexHash (txHash tx) @ '': '' @ the (xrErr x)) r)
                 else
                   feBind (CommitLocalWrites K (xrCall x) (xrResult x)) (\<lambda>_.
                     let comparison = CompareReplayToReceipt tx receipt (xrResult x); r = checkPrior tx comparison r in
                     if \<not> rmMatch comparison then feRet r
                     else reportPrior K errText exec receiptOf execRef target view r txs)))
            (\<lambda>e. feRet (reportLimited (''failed to prepare prior transaction '' @ hexHash (txHash tx) @ '': '' @ e) r))
            errText)"

definition blobSuspicion :: "ReplayExportReport \<Rightarrow> ReplayExportReport" where
  "blobSuspicion r =
     (if reFirstMismatch r = None \<and> list_ex ckBlob (rePrior r) then r\<lparr>reBlobSuspicion := True\<rparr> else r)"

definition startReport :: "Transaction \<Rightarrow> BlockRef \<Rightarrow> ReplayExportReport" where
  "startReport tx execRef = \<lparr>reTarget = hashToHex (txHash tx), reExecutionBlockRef = CacheKey execRef,
     reStateSourceBlockRef = CacheKey (replayStateBlockRef tx), reExact = True, reLimitation = [], reApplied = [], rePrior = [],
     reFirstMismatch = None, reBlobSuspicion = False\<rparr>"

definition ExportReplayReport :: "(bytes \<Rightarrow> Hash) \<Rightarrow> (evm_error \<Rightarrow> string) \<Rightarrow> executor \<Rightarrow> Hash \<Rightarrow> ReplayExportReport feM" where
  "ExportReplayReport K errText exec txh fe =
     (case pvTransactions (feProvider fe) of
        None \<Rightarrow> (failure ''forkengine: provider does not implement transaction replay capabilities'', fe)
      | Some (txByHash, receiptOf) \<Rightarrow>
          (case txByHash txh of
             Inl e \<Rightarrow> (failure e, fe)
           | Inr tx \<Rightarrow>
               let execRef = executionRef fe tx; r = startReport tx execRef in
               if txTransactionIndex tx = None \<or> txTransactionIndex tx = Some 0 then (Ok r, fe)
               else case pvBlockTransactions (feProvider fe) of
                   None \<Rightarrow> (Ok (reportLimited ''provider does not expose block transaction lists for prior-transaction reconstruction'' r), fe)
                 | Some blockTxs \<Rightarrow>
                     (case blockTxs execRef of
                        Inl e \<Rightarrow> (Ok (reportLimited (''failed to load block transactions: '' @ e) r), fe)
                      | Inr txs \<Rightarrow>
                          feBind (reportPrior K errText exec receiptOf execRef (txHash tx)
                              \<lparr>svCacheRef = syntheticReplayStateBlockRef tx, svSourceRef = replayStateBlockRef tx\<rparr> r txs)
                            (\<lambda>r. feRet (blobSuspicion r)) fe)))"

record ExportedBundle =
  ebSnapshot :: ExportedSnapshot
  ebReplayReport :: "ReplayExportReport option"

definition ExportBundle :: "(bytes \<Rightarrow> Hash) \<Rightarrow> (evm_error \<Rightarrow> string) \<Rightarrow> executor \<Rightarrow> Hash option \<Rightarrow> ExportedBundle feM" where
  "ExportBundle K errText exec txh =
     feBind (feLift (\<lambda>fe. Ok (ExportSnapshot fe))) (\<lambda>snap.
       case txh of
         None \<Rightarrow> feRet \<lparr>ebSnapshot = snap, ebReplayReport = None\<rparr>
       | Some h \<Rightarrow>
           feBind (ExportReplayReport K errText exec h) (\<lambda>r. feRet \<lparr>ebSnapshot = snap, ebReplayReport = Some r\<rparr>))"

subsection \<open>Inspection\<close>

record StateInspection =
  siAddress :: Address
  siBalance :: string
  siNonce :: u64
  siCode :: string
  siSlot :: "(Hash \<times> Hash) option"

definition InspectState :: "Address \<Rightarrow> Hash option \<Rightarrow> BlockRef \<Rightarrow> StateInspection feM" where
  "InspectState addr slot block =
     feBind (feLift (\<lambda>fe. fromRemote (pvBalance (feProvider fe) addr block))) (\<lambda>balance.
     feBind (feLift (\<lambda>fe. fromRemote (pvNonce (feProvider fe) addr block))) (\<lambda>nonce.
     feBind (feLift (\<lambda>fe. fromRemote (pvCode (feProvider fe) addr block))) (\<lambda>code.
       let inspection = \<lparr>siAddress = addr, siBalance = (case balance of None \<Rightarrow> ''<nil>'' | Some n \<Rightarrow> showInt n),
             siNonce = nonce, siCode = EncodeHex code, siSlot = None\<rparr> in
       case slot of
         None \<Rightarrow> feRet inspection
       | Some k \<Rightarrow>
           feBind (feLift (\<lambda>fe. fromRemote (pvStorageAt (feProvider fe) addr k block))) (\<lambda>v.
           feRet (inspection\<lparr>siSlot := Some (k, v)\<rparr>)))))"

subsection \<open>What a report says\<close>

text \<open>A report under construction. Without a mismatch every checked transaction matched and was applied; a mismatch is the
  last check.\<close>

definition reportOK :: "ReplayExportReport \<Rightarrow> bool" where
  "reportOK r \<longleftrightarrow>
     (reExact r \<longleftrightarrow> reLimitation r = []) \<and>
     (case reFirstMismatch r of
        None \<Rightarrow> reApplied r = map ckHash (rePrior r) \<and> list_all ckMatch (rePrior r)
      | Some c \<Rightarrow> \<not> reExact r \<and> \<not> ckMatch c \<and> reBlobSuspicion r = ckBlob c \<and>
          (\<exists>cs. rePrior r = cs @ [c] \<and> list_all ckMatch cs \<and> reApplied r = map ckHash cs))"

lemma reportOK_start: "reportOK (startReport tx execRef)"
  by (simp add: reportOK_def startReport_def)

lemma reportOK_limited: "reportOK r \<Longrightarrow> reFirstMismatch r = None \<Longrightarrow> why \<noteq> [] \<Longrightarrow> reportOK (reportLimited why r)"
  by (simp add: reportOK_def reportLimited_def)

lemma checkPrior_matched:
  "reportOK r \<Longrightarrow> reFirstMismatch r = None \<Longrightarrow> rmMatch c \<Longrightarrow>
   reportOK (checkPrior tx c r) \<and> reFirstMismatch (checkPrior tx c r) = None \<and> reExact (checkPrior tx c r) = reExact r \<and>
   rePrior (checkPrior tx c r) = rePrior r @ [replayCheckReport tx c]"
  by (simp add: reportOK_def checkPrior_def Let_def) (simp add: replayCheckReport_def)

lemma checkPrior_mismatch:
  "reportOK r \<Longrightarrow> reFirstMismatch r = None \<Longrightarrow> \<not> rmMatch c \<Longrightarrow> reportOK (checkPrior tx c r) \<and> \<not> reExact (checkPrior tx c r)"
  by (simp add: reportOK_def checkPrior_def Let_def) (simp add: replayCheckReport_def)

text \<open>One turn of the loop: it stops with a limitation or a mismatch, or goes on after a match.\<close>

lemma reportPrior_Cons:
  assumes run: "reportPrior K errText exec receiptOf execRef target view r (tx # txs) fe = (Ok r', fe')" and other: "txHash tx \<noteq> target"
  obtains why where "r' = reportLimited why r" "why \<noteq> []"
  | c where "\<not> rmMatch c" "r' = checkPrior tx c r"
  | c fe1 where "rmMatch c" "reportPrior K errText exec receiptOf execRef target view (checkPrior tx c r) txs fe1 = (Ok r', fe')"
proof (cases "receiptOf (txHash tx)")
  case (Inl e)
  then show thesis using run other that(1) by (auto simp: feRet_def)
next
  case (Inr receipt)
  show thesis
    using run other Inr that
    by (auto simp: feTry_def feBind_def feRet_def Let_def split: prod.splits outcome.splits if_splits)
qed

lemma reportPrior_OK:
  assumes "reportPrior K errText exec receiptOf execRef target view r txs fe = (Ok r', fe')" "reportOK r" "reFirstMismatch r = None"
  shows "reportOK r' \<and> (reExact r' \<longrightarrow> reExact r \<and> reFirstMismatch r' = None \<and>
    map ckHash (rePrior r') = map ckHash (rePrior r) @ map (\<lambda>tx. hashToHex (txHash tx)) (takeWhile (\<lambda>tx. txHash tx \<noteq> target) txs))"
  using assms
proof (induction txs arbitrary: r fe)
  case (Cons tx txs)
  show ?case
  proof (cases "txHash tx = target")
    case True
    then show ?thesis using Cons.prems by (simp add: feRet_def)
  next
    case False
    from Cons.prems(1) False show ?thesis
    proof (cases rule: reportPrior_Cons)
      case (1 why)
      then show ?thesis using Cons.prems reportOK_limited by (simp add: reportLimited_def)
    next
      case (2 c)
      then show ?thesis using checkPrior_mismatch [OF Cons.prems(2,3)] by simp
    next
      case (3 c fe1)
      note m = checkPrior_matched [OF Cons.prems(2,3) 3(1), of tx]
      show ?thesis using Cons.IH [OF 3(2)] m False by (simp add: replayCheckReport_def)
    qed
  qed
qed (simp add: feRet_def)

lemma blobSuspicion_OK: "reportOK r \<Longrightarrow> reportOK (blobSuspicion r)"
  by (auto simp: reportOK_def blobSuspicion_def)

lemma blobSuspicion_simps [simp]:
  "reExact (blobSuspicion r) = reExact r" "rePrior (blobSuspicion r) = rePrior r" "reFirstMismatch (blobSuspicion r) = reFirstMismatch r"
  "reApplied (blobSuspicion r) = reApplied r"
  by (simp_all add: blobSuspicion_def)

text \<open>The transactions of the block before the one to replay, when it has any.\<close>

definition priorsOf :: "ForkEngine \<Rightarrow> Transaction \<Rightarrow> Transaction list option" where
  "priorsOf fe tx =
     (if txTransactionIndex tx = None \<or> txTransactionIndex tx = Some 0 then Some []
      else case pvBlockTransactions (feProvider fe) of
          None \<Rightarrow> None
        | Some blockTxs \<Rightarrow>
            (case blockTxs (executionRef fe tx) of
               Inl e \<Rightarrow> None
             | Inr txs \<Rightarrow> Some (takeWhile (\<lambda>t. txHash t \<noteq> txHash tx) txs)))"

lemma ExportReplayReport_OK:
  assumes "ExportReplayReport K errText exec txh fe = (Ok r, fe')"
  shows "reportOK r \<and> (\<exists>txByHash receiptOf tx. pvTransactions (feProvider fe) = Some (txByHash, receiptOf) \<and> txByHash txh = Inr tx \<and>
    (reExact r \<longrightarrow> (\<exists>priors. priorsOf fe tx = Some priors \<and> reApplied r = map (\<lambda>t. hashToHex (txHash t)) priors)))"
proof -
  obtain txByHash receiptOf where p: "pvTransactions (feProvider fe) = Some (txByHash, receiptOf)"
    using assms by (auto simp: ExportReplayReport_def split: option.splits)
  obtain tx where tx: "txByHash txh = Inr tx" using assms p by (auto simp: ExportReplayReport_def split: sum.splits)
  have "reportOK r \<and> (reExact r \<longrightarrow> (\<exists>priors. priorsOf fe tx = Some priors \<and> reApplied r = map (\<lambda>t. hashToHex (txHash t)) priors))"
  proof (cases "txTransactionIndex tx = None \<or> txTransactionIndex tx = Some 0")
    case True
    then have "r = startReport tx (executionRef fe tx)" using assms p tx by (auto simp: ExportReplayReport_def Let_def)
    with True show ?thesis using reportOK_start by (simp add: priorsOf_def startReport_def)
  next
    case False
    show ?thesis
    proof (cases "pvBlockTransactions (feProvider fe)")
      case None
      then have "\<exists>why. why \<noteq> [] \<and> r = reportLimited why (startReport tx (executionRef fe tx))"
        using assms p tx False by (auto simp: ExportReplayReport_def Let_def)
      then show ?thesis using reportOK_limited [OF reportOK_start] by (auto simp: startReport_def) (simp_all add: reportLimited_def)
    next
      case (Some blockTxs)
      show ?thesis
      proof (cases "blockTxs (executionRef fe tx)")
        case (Inl e)
        then have "\<exists>why. why \<noteq> [] \<and> r = reportLimited why (startReport tx (executionRef fe tx))"
          using assms p tx False Some by (auto simp: ExportReplayReport_def Let_def)
        then show ?thesis using reportOK_limited [OF reportOK_start] by (auto simp: startReport_def) (simp_all add: reportLimited_def)
      next
        case (Inr txs)
        obtain r1 fe1 where r1: "reportPrior K errText exec receiptOf (executionRef fe tx) (txHash tx)
            \<lparr>svCacheRef = syntheticReplayStateBlockRef tx, svSourceRef = replayStateBlockRef tx\<rparr> (startReport tx (executionRef fe tx)) txs fe
              = (Ok r1, fe1)" "r = blobSuspicion r1"
          using assms p tx False Some Inr by (auto simp: ExportReplayReport_def Let_def feBind_def feRet_def split: prod.splits outcome.splits)
        have fm: "reFirstMismatch (startReport tx (executionRef fe tx)) = None" by (simp add: startReport_def)
        note ok = reportPrior_OK [OF r1(1) reportOK_start fm]
        have "reApplied r = map (\<lambda>t. hashToHex (txHash t)) (takeWhile (\<lambda>t. txHash t \<noteq> txHash tx) txs)" if e: "reExact r"
        proof -
          have e1: "reExact r1" using e by (simp add: r1(2))
          have "rePrior (startReport tx (executionRef fe tx)) = []" by (simp add: startReport_def)
          then have "map ckHash (rePrior r1) = map (\<lambda>t. hashToHex (txHash t)) (takeWhile (\<lambda>t. txHash t \<noteq> txHash tx) txs)"
            and "reFirstMismatch r1 = None" using ok e1 by auto
          then show ?thesis using ok by (simp add: reportOK_def r1(2))
        qed
        moreover have "priorsOf fe tx = Some (takeWhile (\<lambda>t. txHash t \<noteq> txHash tx) txs)"
          using False Some Inr by (auto simp: priorsOf_def)
        ultimately show ?thesis using ok blobSuspicion_OK [of r1] by (simp add: r1(2))
      qed
    qed
  qed
  with p tx show ?thesis by blast
qed

end
