(* ===== verification/DebugServer.thy ===== *)
theory DebugServer
  imports DebugRequest DebugRun ForkReport
begin

text \<open>
  The debug server (\<open>internal/jsonrpc\<close>: \<open>server.go\<close> and the handlers of \<open>gdb.go\<close>): its sessions, and what each method does
  to them. A handler maps the server to a reply and the server it leaves. One method runs at a time; what another goroutine
  can do to a running session, requesting a pause, is the argument \<open>arrives\<close> of a run.
\<close>

subsection \<open>Replies\<close>

datatype 'a reply = Done 'a | Refused respError | Crashed go_panic

definition ofSum :: "respError + 'a \<Rightarrow> 'a reply" where
  "ofSum x = (case x of Inl e \<Rightarrow> Refused e | Inr v \<Rightarrow> Done v)"

text \<open>An outcome of the fork engine: its errors become internal errors.\<close>

definition ofOutcome :: "'a outcome \<Rightarrow> 'a reply" where
  "ofOutcome x = (case x of Ok v \<Rightarrow> Done v | Fail e \<Rightarrow> Refused (internalError e) | Panic p \<Rightarrow> Crashed p)"

record ResultView =
  rvStatus :: ExecutionStatus
  rvGasUsed :: u64
  rvGasRemaining :: u64
  rvGasRefund :: u64
  rvReturnData :: string
  rvCreatedAddress :: "string option"
  rvError :: "evm_error option"
  rvLogs :: "Log list"

definition encodeExecutionResult :: "ExecutionResult option \<Rightarrow> ResultView option" where
  "encodeExecutionResult =
     map_option (\<lambda>r. \<lparr>rvStatus = Status r, rvGasUsed = GasUsed r, rvGasRemaining = GasRemaining r, rvGasRefund = GasRefund r,
       rvReturnData = encodeBytes (ReturnData r), rvCreatedAddress = map_option addressHex (CreatedAddress r), rvError = ResErr r,
       rvLogs = Logs r\<rparr>)"

record CallView =
  clFrom :: string
  clTo :: string
  clInput :: string
  clValue :: string
  clGas :: u64
  clBlock :: string

record BundleView =
  bvCodeAddress :: string
  bvSourceName :: string
  bvContractName :: string
  bvCompilerVersion :: string

record SessionView =
  vwKind :: string
  vwID :: string
  vwTargetTx :: string
  vwExact :: bool
  vwLimitation :: string
  vwPosition :: int
  vwDone :: bool
  vwTraceLength :: nat
  vwResult :: "ResultView option"
  vwBreakpoints :: "DebugBreakpoint list"
  vwMutations :: "ReplayMutation list"
  vwCurrentStep :: "ReplayTraceStep option"
  vwCurrent :: "ReplayPause option"
  vwCall :: "CallView option"
  vwBundles :: "BundleView list"

definition describeSession :: "ReplaySession \<Rightarrow> SessionView" where
  "describeSession ss =
     \<lparr>vwKind = seKind ss, vwID = seID ss, vwTargetTx = seTargetTx ss, vwExact = seExact ss, vwLimitation = seLimitation ss,
      vwPosition = sePosition ss, vwDone = seDone ss, vwTraceLength = length (seTrace ss),
      vwResult = encodeExecutionResult (seResult ss), vwBreakpoints = seBreakpoints ss, vwMutations = seMutations ss,
      vwCurrentStep = (if 0 \<le> sePosition ss \<and> sePosition ss < int (length (seTrace ss)) then Some (seTrace ss ! nat (sePosition ss)) else None),
      vwCurrent = seCurrent ss,
      vwCall = (if seKind ss = ''call''
        then map_option (\<lambda>c. \<lparr>clFrom = addressHex (crFrom c), clTo = addressHex (crTo c), clInput = encodeBytes (crInput c),
          clValue = encodeQuantity (crValue c), clGas = crGasLimit c, clBlock = CacheKey (crBlock c)\<rparr>) (seCallRequest ss)
        else None),
      vwBundles = map (\<lambda>(key, b). \<lparr>bvCodeAddress = key, bvSourceName = buSourceName b, bvContractName = buContractName b,
        bvCompilerVersion = buCompilerVersion b\<rparr>) (seBundles ss)\<rparr>"

record MemoryChunk =
  mcOffset :: u64
  mcLength :: u64
  mcData :: string
  mcMemorySize :: u64
  mcTruncated :: bool

subsection \<open>Breakpoints\<close>

fun upsertBreakpoint :: "DebugBreakpoint \<Rightarrow> DebugBreakpoint list \<Rightarrow> DebugBreakpoint list" where
  "upsertBreakpoint b [] = [b]"
| "upsertBreakpoint b (x # xs) = (if dbID x = dbID b then b # xs else x # upsertBreakpoint b xs)"

definition withBreakpoint :: "DebugBreakpoint \<Rightarrow> ReplaySession \<Rightarrow> ReplaySession" where
  "withBreakpoint b ss = ss\<lparr>seBreakpoints := upsertBreakpoint b (seBreakpoints ss)\<rparr>"

text \<open>\<open>strings.ReplaceAll("bp-"+display, " ", "-")\<close>, unless the request names the breakpoint.\<close>

definition breakpointID :: "string \<Rightarrow> string \<Rightarrow> string" where
  "breakpointID requested display =
     (if requested \<noteq> [] then requested else map (\<lambda>c. if c = CHR '' '' then CHR ''-'' else c) (''bp-'' @ display))"

definition sourceDisplay :: "string \<Rightarrow> int \<Rightarrow> int \<Rightarrow> string" where
  "sourceDisplay name line column = name @ '':'' @ showInt line @ '':'' @ showInt column"

text \<open>The first loaded bundle that has instructions on the line; a breakpoint that none has stays without PCs.\<close>

fun searchBundles :: "sourceBreakpointRequest \<Rightarrow> (string, Bundle) gomap \<Rightarrow> u64 list \<times> string" where
  "searchBundles req [] = ([], [])"
| "searchBundles req ((key, b) # bs) =
     (if buIndex b = None \<or> SourceFileByName (buIndex b) (sbSourceName req) = None then searchBundles req bs
      else case resolveSourceBreakpointPCs (Some b) (sbSourceName req) (sbLine req) (sbColumn req) of
          Inl e \<Rightarrow> searchBundles req bs
        | Inr pcs \<Rightarrow> if pcs = [] then searchBundles req bs else (pcs, key))"

definition newSourceBreakpoint :: "sourceBreakpointRequest \<Rightarrow> ReplaySession \<Rightarrow> respError + DebugBreakpoint" where
  "newSourceBreakpoint req ss =
     (if TrimSpace (sbSourceName req) = [] then Inl (invalidParams ''sourceName is required'')
      else if sbLine req \<le> 0 then Inl (invalidParams ''line must be >= 1'')
      else
        sbind
          (if TrimSpace (sbAddress req) \<noteq> []
           then sbind (resolveBundleForBreakpoint ss (sbAddress req)) (\<lambda>(bundle, addr).
             sbind (resolveSourceBreakpointPCs (Some bundle) (sbSourceName req) (sbLine req) (sbColumn req)) (\<lambda>pcs. Inr (pcs, addr)))
           else Inr (searchBundles req (seBundles ss)))
          (\<lambda>(pcs, codeAddress).
             let i = (if sbID req = []
               then ''bp-source-'' @ sbSourceName req @ ''-'' @ showInt (sbLine req) @ ''-'' @ showInt (sbColumn req) else sbID req)
             in Inr (zeroBreakpoint\<lparr>dbID := i, dbKind := ''source'',
               dbDisplay := sourceDisplay (sbSourceName req) (sbLine req) (sbColumn req), dbCodeAddress := codeAddress,
               dbSourceName := sbSourceName req, dbLine := sbLine req, dbColumn := sbColumn req, dbPCs := pcs\<rparr>)))"

definition newFunctionBreakpoint :: "DebugEnv \<Rightarrow> functionBreakpointRequest \<Rightarrow> ReplaySession \<Rightarrow> respError + DebugBreakpoint" where
  "newFunctionBreakpoint E req ss =
     sbind (mapErr invalidText (buildMethodFromSignature (deMethod E) (fbSignature req))) (\<lambda>(method, canonical).
       Inr (zeroBreakpoint\<lparr>dbID := (if fbID req = [] then ''bp-function-'' @ canonical else fbID req),
         dbKind := ''function'', dbDisplay := ''function '' @ canonical, dbSignature := canonical, dbSelector := amID method,
         dbCodeAddress := (case parseAddress (fbAddress req) of Some a \<Rightarrow> addressHex a | None \<Rightarrow> [])\<rparr>))"

definition newCallBreakpoint :: "DebugEnv \<Rightarrow> callBreakpointRequest \<Rightarrow> ReplaySession \<Rightarrow> respError + DebugBreakpoint" where
  "newCallBreakpoint E req ss =
     (let filt = parseAddress (cbAddress req) in
      if filt = None \<and> TrimSpace (cbSignature req) = []
      then Inl (invalidParams ''call breakpoint requires address or signature'')
      else
        let b = zeroBreakpoint\<lparr>dbKind := ''call''\<rparr>;
            b = (case filt of
                None \<Rightarrow> b
              | Some a \<Rightarrow> b\<lparr>dbAddressFilter := Some a, dbAddress := addressHex a, dbDisplay := ''call '' @ addressHex a\<rparr>)
        in sbind
          (if cbSignature req = [] then Inr b
           else sbind (mapErr invalidText (buildMethodFromSignature (deMethod E) (cbSignature req))) (\<lambda>(method, canonical).
             Inr (b\<lparr>dbSignature := canonical, dbSelector := amID method,
               dbDisplay := (if dbDisplay b = [] then ''call '' @ canonical else dbDisplay b @ '' '' @ canonical)\<rparr>)))
          (\<lambda>b. Inr (b\<lparr>dbID := breakpointID (cbID req) (dbDisplay b)\<rparr>)))"

definition newStorageBreakpoint :: "storageBreakpointRequest \<Rightarrow> ReplaySession \<Rightarrow> respError + DebugBreakpoint" where
  "newStorageBreakpoint req ss =
     sbind (mapErr invalidText (parseAccessMode (tbAccess req))) (\<lambda>access.
       let b = zeroBreakpoint\<lparr>dbKind := ''storage'', dbAccess := accessText access\<rparr>;
           b = (case parseAddress (tbAddress req) of
               None \<Rightarrow> b
             | Some a \<Rightarrow> b\<lparr>dbAddressFilter := Some a, dbAddress := addressHex a\<rparr>);
           identifier = (if TrimSpace (tbSlot req) = [] then TrimSpace (tbName req) else TrimSpace (tbSlot req))
       in if identifier = [] then Inl (invalidParams ''storage breakpoint requires slot or name'')
          else sbind (resolveStorageIdentifier ss (tbAddress req) (tbSlot req) (tbName req)) (\<lambda>(slot, label).
            let display = ''storage '' @ label @ '' '' @ dbAccess b;
                display = (if dbAddress b = [] then display else display @ '' @ '' @ dbAddress b)
            in Inr (b\<lparr>dbSlotFilter := slot, dbSlot := (case slot of None \<Rightarrow> [] | Some h \<Rightarrow> encodeHash h),
              dbSlotLabel := label, dbDisplay := display, dbID := breakpointID (tbID req) display\<rparr>)))"

definition memoryDisplay :: "DebugBreakpoint \<Rightarrow> string" where
  "memoryDisplay b =
     (let display = ''memory 0x'' @ showHexNat (unat (dbOffset b)) @ '' '' @ showNat (unat (max (dbSize b) 1)) @ '' '' @ dbAccess b
      in if dbSourceName b = [] then display
         else display @ '' at '' @ sourceDisplay (dbSourceName b) (dbLine b) (max (dbColumn b) 1))"

definition placeMemoryBreakpoint :: "memoryBreakpointRequest \<Rightarrow> DebugBreakpoint \<Rightarrow> DebugBreakpoint" where
  "placeMemoryBreakpoint req b =
     (let b = (if dbCodeAddress b = []
           then (case parseAddress (mbAddress req) of Some a \<Rightarrow> b\<lparr>dbCodeAddress := addressHex a\<rparr> | None \<Rightarrow> b) else b)
      in b\<lparr>dbDisplay := memoryDisplay b, dbID := breakpointID (mbID req) (memoryDisplay b)\<rparr>)"

definition newMemoryBreakpoint :: "memoryBreakpointRequest \<Rightarrow> ReplaySession \<Rightarrow> respError + DebugBreakpoint" where
  "newMemoryBreakpoint req ss =
     sbind (mapErr invalidText (parseAccessMode (mbAccess req))) (\<lambda>access.
       let b = zeroBreakpoint\<lparr>dbKind := ''memory'', dbOffset := mbOffset req, dbSize := mbSize req, dbAccess := accessText access\<rparr>
       in sbind
         (if mbSourceName req \<noteq> [] \<or> mbLine req > 0
          then sbind (resolveBundleForBreakpoint ss (mbAddress req)) (\<lambda>(bundle, codeAddress).
            sbind (resolveSourceBreakpointPCs (Some bundle) (mbSourceName req) (mbLine req) (mbColumn req)) (\<lambda>pcs.
              Inr (b\<lparr>dbCodeAddress := codeAddress, dbSourceName := mbSourceName req, dbLine := mbLine req, dbColumn := mbColumn req,
                dbPCs := pcs\<rparr>)))
          else Inr b)
         (\<lambda>b. Inr (placeMemoryBreakpoint req b)))"

text \<open>The handlers store what they built, under its identifier.\<close>

definition setBreakpoint :: "('r \<Rightarrow> ReplaySession \<Rightarrow> respError + DebugBreakpoint) \<Rightarrow> 'r \<Rightarrow> ReplaySession \<Rightarrow> respError + ReplaySession" where
  "setBreakpoint build req ss = sbind (build req ss) (\<lambda>b. Inr (withBreakpoint b ss))"

definition deleteBreakpoint :: "deleteBreakpointRequest \<Rightarrow> ReplaySession \<Rightarrow> respError + ReplaySession" where
  "deleteBreakpoint req ss =
     (if TrimSpace (dlID req) = [] then Inl (invalidParams ''breakpoint id is required'')
      else if \<not> list_ex (\<lambda>b. dbID b = dlID req) (seBreakpoints ss) then Inl (invalidParams (''unknown breakpoint '' @ quoted (dlID req)))
      else Inr (ss\<lparr>seBreakpoints := filter (\<lambda>b. dbID b \<noteq> dlID req) (seBreakpoints ss)\<rparr>))"

subsection \<open>Reading and writing a paused session\<close>

text \<open>The loop over the variables of a pause: the first entry of the slot is overwritten, else one is added.\<close>

fun putVariable :: "ReplayMutation \<Rightarrow> VariableValue list \<Rightarrow> VariableValue list" where
  "putVariable m [] = [\<lparr>vvScope = muScope m, vvName = muSlot m, vvSlot = muSlot m, vvValue = muValue m, vvType = []\<rparr>]"
| "putVariable m (v # vs) = (if vvSlot v = muSlot m then v\<lparr>vvValue := muValue m\<rparr> # vs else v # putVariable m vs)"

definition applyStorageMutationToPause :: "ReplayMutation \<Rightarrow> ReplayPause \<Rightarrow> ReplayPause" where
  "applyStorageMutationToPause m pause =
     (if muScope m = scopeTransient then pause\<lparr>rpTransient := putVariable m (rpTransient pause)\<rparr>
      else pause\<lparr>rpStorage := putVariable m (rpStorage pause)\<rparr>)"

text \<open>\<open>int(offset)+len(data)\<close>, an extension of the buffer when that lies beyond it, and the copy. \<open>lim\<close> is the most that can be
  allocated.\<close>

definition patchBytes :: "nat \<Rightarrow> u64 \<Rightarrow> bytes \<Rightarrow> bytes \<Rightarrow> bytes outcome" where
  "patchBytes lim offset dat buffer =
     (let start = sint offset; stop = wrap64 (start + int (length dat)) in
      obind (if stop > int (length buffer)
             then (if stop \<le> int lim then Ok (buffer @ replicate (nat stop - length buffer) 0) else Panic PanicMakeLen)
             else Ok buffer)
        (\<lambda>buffer.
           if 0 \<le> start \<and> start \<le> int (length buffer)
           then let from_start = drop (nat start) buffer
                in Ok (take (nat start) buffer @ take (length from_start) dat @ drop (length dat) from_start)
           else Panic PanicSliceBounds))"

definition applyMemoryMutationToPause :: "nat \<Rightarrow> ReplayMutation \<Rightarrow> ReplayPause \<Rightarrow> ReplayPause outcome" where
  "applyMemoryMutationToPause lim m pause =
     (let buffer = (case decodeBytes (rpMemory pause) of Inl e \<Rightarrow> [] | Inr b \<Rightarrow> b) in
      case decodeBytes (muData m) of
        Inl e \<Rightarrow> Ok pause
      | Inr dat \<Rightarrow>
          obind (patchBytes lim (muOffset m) dat buffer) (\<lambda>buffer.
            Ok (pause\<lparr>rpMemory := encodeBytes buffer, rpMemorySize := int (length buffer)\<rparr>)))"

definition applyMemoryMutationToSnapshot :: "nat \<Rightarrow> ReplayMutation \<Rightarrow> bytes \<Rightarrow> bytes outcome" where
  "applyMemoryMutationToSnapshot lim m snapshot =
     (case decodeBytes (muData m) of
        Inl e \<Rightarrow> Ok snapshot
      | Inr dat \<Rightarrow> if dat = [] then Ok snapshot else patchBytes lim (muOffset m) dat snapshot)"

definition notPaused :: respError where
  "notPaused = invalidParams ''session is not paused''"

definition writeStorage :: "writeStorageRequest \<Rightarrow> ReplaySession \<Rightarrow> respError + ReplaySession" where
  "writeStorage req ss =
     (case seCurrent ss of
        None \<Rightarrow> Inl notPaused
      | Some pause \<Rightarrow>
          (case (case parseAddress (wsAddress req) of Some a \<Rightarrow> Some a | None \<Rightarrow> seTargetAddr ss) of
             None \<Rightarrow> Inl (invalidParams ''storage write requires an address'')
           | Some addr \<Rightarrow>
               sbind (mapErr invalidText (decodeHashString (wsSlot req))) (\<lambda>_.
               sbind (mapErr invalidText (decodeHashString (wsValue req))) (\<lambda>_.
                 let m = storageMutation (sePosition ss) (addressHex addr)
                   (if wsScope req = [] then scopePersistent else wsScope req) (normalizeHex32 (wsSlot req)) (normalizeHex32 (wsValue req))
                 in Inr (ss\<lparr>seMutations := seMutations ss @ [m], seCurrent := Some (applyStorageMutationToPause m pause)\<rparr>)))))"

text \<open>The mutation is recorded before the pause and the snapshot are rewritten, either of which may panic.\<close>

definition showMemory :: "nat \<Rightarrow> ReplayMutation \<Rightarrow> ReplayPause \<Rightarrow> ReplaySession \<Rightarrow> unit reply \<times> ReplaySession" where
  "showMemory lim m pause ss =
     (case applyMemoryMutationToPause lim m pause of
        Ok p \<Rightarrow>
          (case applyMemoryMutationToSnapshot lim m (seMemorySnapshot ss) of
             Ok snapshot \<Rightarrow> (Done (), ss\<lparr>seCurrent := Some p, seMemorySnapshot := snapshot\<rparr>)
           | Fail e \<Rightarrow> (Refused (internalError e), ss\<lparr>seCurrent := Some p\<rparr>)
           | Panic x \<Rightarrow> (Crashed x, ss\<lparr>seCurrent := Some p\<rparr>))
      | Fail e \<Rightarrow> (Refused (internalError e), ss)
      | Panic x \<Rightarrow> (Crashed x, ss))"

definition writeMemory :: "nat \<Rightarrow> writeMemoryRequest \<Rightarrow> ReplaySession \<Rightarrow> unit reply \<times> ReplaySession" where
  "writeMemory lim req ss =
     (case seCurrent ss of
        None \<Rightarrow> (Refused notPaused, ss)
      | Some pause \<Rightarrow>
          (case decodeBytes (wmData req) of
             Inl e \<Rightarrow> (Refused (invalidText e), ss)
           | Inr dat \<Rightarrow>
               let m = memoryMutation (sePosition ss) (wmOffset req) (encodeBytes dat)
               in showMemory lim m pause (ss\<lparr>seMutations := seMutations ss @ [m]\<rparr>)))"

definition readMemory :: "readMemoryRequest \<Rightarrow> ReplaySession \<Rightarrow> MemoryChunk reply" where
  "readMemory req ss =
     (let snapshot = seMemorySnapshot ss; size_total = ulen snapshot in
      if seCurrent ss = None then Refused notPaused
      else if rdOffset req > size_total
      then Done \<lparr>mcOffset = rdOffset req, mcLength = 0, mcData = ''0x'', mcMemorySize = size_total, mcTruncated = False\<rparr>
      else
        let stop = rdOffset req + rdLength req; stop = (if rdLength req = 0 \<or> stop > size_total then size_total else stop) in
        case goslice snapshot (rdOffset req) stop of
          Ok chunk \<Rightarrow> Done \<lparr>mcOffset = rdOffset req, mcLength = ulen chunk, mcData = encodeBytes chunk, mcMemorySize = size_total,
            mcTruncated = (stop < rdOffset req + rdLength req)\<rparr>
        | Fail e \<Rightarrow> Refused (internalError e)
        | Panic p \<Rightarrow> Crashed p)"

definition peekVariables :: "ReplaySession \<Rightarrow> respError + Snapshot" where
  "peekVariables ss =
     (case seCurrent ss of
        None \<Rightarrow> Inl \<lparr>reCode = -32002, reMessage = RpcText ''session is not paused'', reData = []\<rparr>
      | Some pause \<Rightarrow> Inr (case rpPeek pause of None \<Rightarrow> emptySnapshot | Some snap \<Rightarrow> snap))"

end
