(* ===== verification/DebugPatch.thy ===== *)
theory DebugPatch
  imports DebugServer
begin

text \<open>
  State patches (\<open>internal/jsonrpc/gdb_state_patch.go\<close>): the writes of a session exported as a patch, compacted, and
  turned back into mutations of another session.
\<close>

record StatePatchStorageWrite =
  pwAddress :: string
  pwScope :: string
  pwSlot :: string
  pwValue :: string

record StatePatchMemoryWrite =
  pmOffset :: u64
  pmData :: string

record StatePatch =
  paID :: string
  paBaseBlock :: string
  paStepIndex :: int
  paStorageWrites :: "StatePatchStorageWrite list"
  paTransientWrites :: "StatePatchStorageWrite list"
  paMemoryWrites :: "StatePatchMemoryWrite list"
  paMetadata :: "(string, string) gomap"

subsection \<open>Compaction\<close>

text \<open>The last write under each key, in the order of the keys. Strings are compared byte by byte.\<close>

definition keyOrder :: "string \<Rightarrow> nat list" where
  "keyOrder s = map of_char s"

definition latestBy :: "('w \<Rightarrow> 'k) \<Rightarrow> 'w list \<Rightarrow> ('k, 'w) gomap" where
  "latestBy key ws = fold (\<lambda>w. mput (key w) w) ws []"

definition storageKey :: "StatePatchStorageWrite \<Rightarrow> string" where
  "storageKey w = pwAddress w @ ''|'' @ pwSlot w"

definition compactStorageWrites :: "StatePatchStorageWrite list \<Rightarrow> StatePatchStorageWrite list" where
  "compactStorageWrites ws =
     (if length ws \<le> 1 then ws else map snd (sort_key (\<lambda>(k, w). keyOrder k) (latestBy storageKey ws)))"

definition compactMemoryWrites :: "StatePatchMemoryWrite list \<Rightarrow> StatePatchMemoryWrite list" where
  "compactMemoryWrites ws =
     (if length ws \<le> 1 then ws else map snd (sort_key fst (latestBy pmOffset ws)))"

definition compactPatchWrites :: "StatePatch \<Rightarrow> StatePatch" where
  "compactPatchWrites p =
     p\<lparr>paStorageWrites := compactStorageWrites (paStorageWrites p),
       paTransientWrites := compactStorageWrites (paTransientWrites p),
       paMemoryWrites := compactMemoryWrites (paMemoryWrites p)\<rparr>"

subsection \<open>Export\<close>

definition isSupportedPatchScope :: "string \<Rightarrow> bool" where
  "isSupportedPatchScope scope \<longleftrightarrow> scope \<in> {''all'', ''storage'', ''transient'', ''memory'', ''accesses''}"

definition sessionBaseBlock :: "ReplaySession \<Rightarrow> string" where
  "sessionBaseBlock ss = (case seCallRequest ss of Some c \<Rightarrow> CacheKey (crBlock c) | None \<Rightarrow> ''latest'')"

definition patchStepIndex :: "ReplaySession \<Rightarrow> int" where
  "patchStepIndex ss =
     (case seCurrent ss of Some p \<Rightarrow> rpStepIndex p | None \<Rightarrow> if sePosition ss \<ge> 0 then sePosition ss else -1)"

text \<open>The body of the loop over the mutations.\<close>

definition exportMutation :: "string \<Rightarrow> ReplayMutation \<Rightarrow> StatePatch \<Rightarrow> StatePatch" where
  "exportMutation scope m p =
     (if muKind m = ''storage''
      then
        if muScope m = scopeTransient
        then (if scope = ''all'' \<or> scope = ''transient''
              then p\<lparr>paTransientWrites := paTransientWrites p @
                [\<lparr>pwAddress = muAddress m, pwScope = [], pwSlot = muSlot m, pwValue = muValue m\<rparr>]\<rparr> else p)
        else (if scope = ''all'' \<or> scope = ''storage''
              then p\<lparr>paStorageWrites := paStorageWrites p @
                [\<lparr>pwAddress = muAddress m, pwScope = muScope m, pwSlot = muSlot m, pwValue = muValue m\<rparr>]\<rparr> else p)
      else if muKind m = ''memory''
      then (if scope = ''all'' \<or> scope = ''memory''
            then p\<lparr>paMemoryWrites := paMemoryWrites p @ [\<lparr>pmOffset = muOffset m, pmData = muData m\<rparr>]\<rparr> else p)
      else p)"

definition patchOf :: "string \<Rightarrow> string \<Rightarrow> ReplaySession \<Rightarrow> StatePatch" where
  "patchOf i scope ss =
     compactPatchWrites (fold (exportMutation scope) (seMutations ss)
       \<lparr>paID = i, paBaseBlock = sessionBaseBlock ss, paStepIndex = patchStepIndex ss, paStorageWrites = [], paTransientWrites = [],
        paMemoryWrites = [], paMetadata = [(''originSession'', seID ss), (''scope'', scope)]\<rparr>)"

definition patchScope :: "AnyVal list \<Rightarrow> respError + string" where
  "patchScope params =
     sbind
       (case params of
          p # v # ps \<Rightarrow>
            if v = AnyNil then Inr ''all''
            else sbind (mapErr invalidText (statePatchExportRequestOf v)) (\<lambda>req.
              let scope = ToLower (TrimSpace (pxScope req)) in Inr (if scope = [] then ''all'' else scope))
        | _ \<Rightarrow> Inr ''all'')
       (\<lambda>scope. if isSupportedPatchScope scope then Inr scope else Inl (invalidParams (''unsupported patch scope '' @ quoted scope)))"

subsection \<open>Import\<close>

text \<open>A clone shares nothing with the patch it is made of; as a value it is the patch.\<close>

definition cloneStatePatch :: "StatePatch \<Rightarrow> StatePatch" where
  "cloneStatePatch p = \<lparr>paID = paID p, paBaseBlock = paBaseBlock p, paStepIndex = paStepIndex p, paStorageWrites = paStorageWrites p,
     paTransientWrites = paTransientWrites p, paMemoryWrites = paMemoryWrites p, paMetadata = paMetadata p\<rparr>"

definition patchMutations :: "StatePatch \<Rightarrow> ReplayMutation list" where
  "patchMutations p =
     map (\<lambda>w. storageMutation 0 (pwAddress w) (let scope = TrimSpace (pwScope w) in if scope = [] then ''persistent'' else scope)
       (pwSlot w) (pwValue w)) (paStorageWrites p) @
     map (\<lambda>w. storageMutation 0 (pwAddress w) ''transient'' (pwSlot w) (pwValue w)) (paTransientWrites p) @
     map (\<lambda>w. memoryMutation 0 (pmOffset w) (pmData w)) (paMemoryWrites p)"

definition refusal :: "string \<Rightarrow> (string \<times> AnyVal) list \<Rightarrow> respError" where
  "refusal msg dat = \<lparr>reCode = -32602, reMessage = RpcText msg, reData = dat\<rparr>"

text \<open>The loop that collects the patches.\<close>

fun findPatches :: "(string, StatePatch) gomap \<Rightarrow> string \<Rightarrow> string list \<Rightarrow> respError + StatePatch list" where
  "findPatches patches baseBlock [] = Inr []"
| "findPatches patches baseBlock (i # is) =
     (case map_of patches i of
        None \<Rightarrow> Inl (refusal (''state patch '' @ quoted i @ '' not found'')
          [(''reason'', AnyString ''PATCH_NOT_FOUND''), (''patchId'', AnyString i)])
      | Some p \<Rightarrow>
          let p = cloneStatePatch p in
          if paBaseBlock p \<noteq> [] \<and> paBaseBlock p \<noteq> ''latest'' \<and> baseBlock \<noteq> [] \<and> baseBlock \<noteq> paBaseBlock p
          then Inl (refusal (''state patch '' @ quoted i @ '' base mismatch'')
            [(''reason'', AnyString ''PATCH_BASE_MISMATCH''), (''patchId'', AnyString i), (''expectedBase'', AnyString baseBlock),
             (''patchBase'', AnyString (paBaseBlock p))])
          else sbind (findPatches patches baseBlock is) (\<lambda>ps. Inr (p # ps)))"

definition importPatches :: "(string, StatePatch) gomap \<Rightarrow> statePatchImportRequest \<Rightarrow> ReplaySession \<Rightarrow> respError + ReplaySession" where
  "importPatches patches req ss =
     (let mode = ToLower (TrimSpace (piMerge req)); mode = (if mode = [] then ''append'' else mode) in
      if sePosition ss \<ge> 0
      then Inl (refusal ''state patch import is only allowed before first execution step'' [(''reason'', AnyString ''SESSION_ALREADY_STARTED'')])
      else if piPatches req = [] then Inl (invalidParams ''patches list cannot be empty'')
      else if mode \<noteq> ''append'' \<and> mode \<noteq> ''replace'' then Inl (invalidParams (''unsupported merge mode '' @ quoted (piMerge req)))
      else sbind (findPatches patches (sessionBaseBlock ss) (piPatches req)) (\<lambda>ps.
        Inr (ss\<lparr>seMutations := (if mode = ''replace'' then [] else seMutations ss) @ concat (map patchMutations ps)\<rparr>)))"

end
