(* ===== verification/DebugHandle.thy ===== *)
theory DebugHandle
  imports DebugPatch
begin

text \<open>
  The methods of the debug server (\<open>internal/jsonrpc\<close>: the rest of \<open>server.go\<close>, \<open>replaySession\<close> and \<open>loadSourceBundle\<close> of
  \<open>gdb.go\<close>, \<open>gdb_sequence.go\<close>): sessions are started, advanced and described, sequences run one step session after the other.
\<close>

subsection \<open>The server\<close>

record SequenceSession =
  sqID :: string
  sqCarry :: string
  sqRequestedCarry :: string
  sqStepSpecs :: "SequenceStepSpec list"
  sqCurrentStepIndex :: int
  sqActiveSessionID :: string
  sqLastCompletedID :: string
  sqDone :: bool
  sqExportedPatchIDs :: "string list"

datatype serverMode = serverModeFull | serverModeGDBOnly

record Server =
  svEngine :: ForkEngine
  svSessionID :: u64
  svPatchID :: u64
  svSequenceID :: u64
  svSessions :: "(string, ReplaySession) gomap"
  svPatches :: "(string, StatePatch) gomap"
  svSequences :: "(string, SequenceSession) gomap"
  svMode :: serverMode

definition newServer :: "ForkEngine \<Rightarrow> serverMode \<Rightarrow> Server" where
  "newServer fe mode = \<lparr>svEngine = fe, svSessionID = 0, svPatchID = 0, svSequenceID = 0, svSessions = [], svPatches = [],
     svSequences = [], svMode = mode\<rparr>"

text \<open>
  What the server runs on: the hash and the text of an error, the executors of the fork engine without hooks, with the trace
  collector and with the debug hooks, the error of \<open>NewSolcManager\<close>, what the loaders of source bundles find, and the pauses other requests ask for during
  the \<open>i\<close>-th run of a method.
\<close>

record ServerEnv =
  xeDebug :: DebugEnv
  xeKeccak :: "bytes \<Rightarrow> Hash"
  xeErrText :: "evm_error \<Rightarrow> string"
  xeExec :: executor
  xeTraced :: tracedExecutor
  xeRun :: "PreparedCall \<Rightarrow> ForkEngine debugRunner"
  xeArrives :: "nat \<Rightarrow> int \<Rightarrow> bool"
  xeSolcManager :: "evm_error option"
  xeLoadBundle :: "sourceBundleRequest \<Rightarrow> Address option \<Rightarrow> Address option \<Rightarrow> Address option \<Rightarrow> bool \<Rightarrow> respError + (Bundle \<times> string \<times> string list)"

subsection \<open>Running a session\<close>

definition prepareSession :: "ServerEnv \<Rightarrow> ReplaySession \<Rightarrow> ForkEngine \<Rightarrow>
    (PreparedCall \<times> Address option \<times> Address option) reply \<times> ForkEngine" where
  "prepareSession E ss fe =
     (if seKind ss = ''call''
      then (case seCallRequest ss of
          None \<Rightarrow> (Refused (invalidParams ''call session is missing request parameters''), fe)
        | Some req \<Rightarrow>
            (case PrepareCall (xeKeccak E) req fe of
               (r, fe) \<Rightarrow> (ofOutcome (obind r (\<lambda>prepared. Ok (prepared, Some (crTo req), Some (crTo req)))), fe)))
      else
        (case PrepareReplay (xeKeccak E) (xeErrText E) (xeExec E) (seTxHash ss) fe of
           (r, fe) \<Rightarrow>
             (ofOutcome (obind r (\<lambda>(prepared, tx, receipt).
                let target = (case txTo tx of Some a \<Rightarrow> Some a | None \<Rightarrow> rcContractAddress receipt)
                in Ok (prepared, target, case seCodeAddr ss of Some a \<Rightarrow> Some a | None \<Rightarrow> target))), fe)))"

definition replaySession :: "ServerEnv \<Rightarrow> nat \<Rightarrow> bool \<Rightarrow> ReplaySession \<Rightarrow> ForkEngine \<Rightarrow>
    ((unit reply \<times> ReplaySession) \<times> ForkEngine) option" where
  "replaySession E i continueMode ss fe =
     (case prepareSession E ss fe of
        (Refused e, fe) \<Rightarrow> Some ((Refused e, ss), fe)
      | (Crashed p, fe) \<Rightarrow> Some ((Crashed p, ss), fe)
      | (Done (prepared, target, code), fe) \<Rightarrow>
          map_option (\<lambda>((err, ss), fe). ((case err of None \<Rightarrow> Done () | Some e \<Rightarrow> Refused e, ss), fe))
            (replayPrepared (xeDebug E) (xeRun E prepared) (xeArrives E i) continueMode target code (pfInput (pcConfig prepared)) ss fe))"

text \<open>The loop of a continue: \<open>n\<close> attempts are left.\<close>

definition stuck :: "string \<Rightarrow> respError" where
  "stuck msg = \<lparr>reCode = -32001, reMessage = RpcText msg, reData = []\<rparr>"

fun continueLoop :: "ServerEnv \<Rightarrow> nat \<Rightarrow> nat \<Rightarrow> int \<Rightarrow> ReplaySession \<Rightarrow> ForkEngine \<Rightarrow> ((unit reply \<times> ReplaySession) \<times> ForkEngine) option" where
  "continueLoop E 0 i lastStep ss fe = Some ((Refused (stuck ''continue exceeded max step retries''), ss), fe)"
| "continueLoop E (Suc n) i lastStep ss fe =
     (case replaySession E i True ss fe of
        None \<Rightarrow> None
      | Some ((Done u, ss), fe) \<Rightarrow>
          if seDone ss then Some ((Done (), ss), fe)
          else (case seCurrent ss of
              None \<Rightarrow> Some ((Done (), ss), fe)
            | Some p \<Rightarrow>
                if rpReason p \<noteq> ''step'' then Some ((Done (), ss), fe)
                else if rpStepIndex p \<le> lastStep
                then Some ((Refused (stuck ''continue made no progress while handling step pauses''), ss), fe)
                else continueLoop E n (i + 1) (rpStepIndex p) ss fe)
      | Some r \<Rightarrow> Some r)"

definition maxContinueAttempts :: nat where
  "maxContinueAttempts = 2048"

definition advanceLoadedSession :: "ServerEnv \<Rightarrow> bool \<Rightarrow> ReplaySession \<Rightarrow> ForkEngine \<Rightarrow> ((unit reply \<times> ReplaySession) \<times> ForkEngine) option" where
  "advanceLoadedSession E all ss fe =
     (if seKind ss \<noteq> ''call'' \<and> seTrace ss = [] then Some ((Done (), ss\<lparr>seDone := True\<rparr>), fe)
      else if \<not> all then replaySession E 0 False ss fe
      else continueLoop E maxContinueAttempts 0 (-1) ss fe)"

subsection \<open>Sessions of the server\<close>

definition putSession :: "string \<Rightarrow> ReplaySession \<Rightarrow> Server \<Rightarrow> Server" where
  "putSession i ss sv = sv\<lparr>svSessions := mput i ss (svSessions sv)\<rparr>"

definition unknownSession :: respError where
  "unknownSession = invalidParams ''unknown gdb session''"

definition lookupSession :: "Server \<Rightarrow> string \<Rightarrow> respError + ReplaySession" where
  "lookupSession sv i = (case map_of (svSessions sv) i of None \<Rightarrow> Inl unknownSession | Some ss \<Rightarrow> Inr ss)"

definition decodeSessionOnly :: "AnyVal list \<Rightarrow> Server \<Rightarrow> respError + (string \<times> ReplaySession)" where
  "decodeSessionOnly params sv =
     (if params = [] then Inl (invalidParams ''expected session ID'')
      else sbind (decodeStringParam (take 1 params)) (\<lambda>i. sbind (lookupSession sv i) (\<lambda>ss. Inr (i, ss))))"

definition decodeSessionAndRequest :: "(AnyVal \<Rightarrow> textError + 'r) \<Rightarrow> AnyVal list \<Rightarrow> Server \<Rightarrow> respError + (string \<times> ReplaySession \<times> 'r)" where
  "decodeSessionAndRequest dec params sv =
     (if length params < 2 then Inl (invalidParams ''expected session ID and request object'')
      else sbind (decodeStringParam (take 1 params)) (\<lambda>i. sbind (lookupSession sv i) (\<lambda>ss.
        sbind (mapErr invalidText (dec (params ! 1))) (\<lambda>req. Inr (i, ss, req)))))"

datatype rpcValue = RvSession SessionView | RvBreakpoints "DebugBreakpoint list" | RvMemory MemoryChunk | RvSnapshot Snapshot
  | RvPatch StatePatch | RvApplied string "string list" | RvSequence "SequenceSession" "string list" "SessionView option" bool
  | RvText string | RvReplay ReplayExecution | RvExport ExportedBundle | RvReport ReplayExportReport | RvOk
  | RvLoaded SessionView string "string list" | RvMethods "string list" serverMode

type_synonym handler = "Server \<Rightarrow> (rpcValue reply \<times> Server) option"

text \<open>A method on one session that is described afterwards, and one that only reads it.\<close>

definition changeSession :: "(AnyVal \<Rightarrow> textError + 'r) \<Rightarrow> ('r \<Rightarrow> ReplaySession \<Rightarrow> unit reply \<times> ReplaySession) \<Rightarrow> AnyVal list \<Rightarrow> handler" where
  "changeSession dec f params sv =
     (case decodeSessionAndRequest dec params sv of
        Inl e \<Rightarrow> Some (Refused e, sv)
      | Inr (i, ss, req) \<Rightarrow>
          (case f req ss of
             (Done u, ss) \<Rightarrow> Some (Done (RvSession (describeSession ss)), putSession i ss sv)
           | (Refused e, ss) \<Rightarrow> Some (Refused e, putSession i ss sv)
           | (Crashed p, ss) \<Rightarrow> Some (Crashed p, putSession i ss sv)))"

definition pureChange :: "('r \<Rightarrow> ReplaySession \<Rightarrow> respError + ReplaySession) \<Rightarrow> 'r \<Rightarrow> ReplaySession \<Rightarrow> unit reply \<times> ReplaySession" where
  "pureChange f req ss = (case f req ss of Inl e \<Rightarrow> (Refused e, ss) | Inr ss \<Rightarrow> (Done (), ss))"

definition advanceAndDescribe :: "ServerEnv \<Rightarrow> bool \<Rightarrow> string \<Rightarrow> ReplaySession \<Rightarrow> handler" where
  "advanceAndDescribe E all i ss sv =
     map_option (\<lambda>((r, ss), fe).
         (case r of Done u \<Rightarrow> Done (RvSession (describeSession ss)) | Refused e \<Rightarrow> Refused e | Crashed p \<Rightarrow> Crashed p,
          putSession i ss (sv\<lparr>svEngine := fe\<rparr>)))
       (advanceLoadedSession E all ss (svEngine sv))"

definition advanceSession :: "ServerEnv \<Rightarrow> bool \<Rightarrow> AnyVal list \<Rightarrow> handler" where
  "advanceSession E all params sv =
     (case sbind (decodeStringParam params) (\<lambda>i. sbind (lookupSession sv i) (\<lambda>ss. Inr (i, ss))) of
        Inl e \<Rightarrow> Some (Refused e, sv)
      | Inr (i, ss) \<Rightarrow> advanceAndDescribe E all i ss sv)"

definition readSession :: "(ReplaySession \<Rightarrow> rpcValue reply) \<Rightarrow> AnyVal list \<Rightarrow> handler" where
  "readSession f params sv =
     (case sbind (decodeStringParam params) (lookupSession sv) of Inl e \<Rightarrow> Some (Refused e, sv) | Inr ss \<Rightarrow> Some (f ss, sv))"

subsection \<open>Starting sessions\<close>

definition callSession :: "string \<Rightarrow> CallRequest \<Rightarrow> ReplaySession" where
  "callSession i req = (newSession ''call'' i)\<lparr>seTargetAddr := Some (crTo req), seCodeAddr := Some (crTo req), seCallRequest := Some req\<rparr>"

text \<open>The session a method starts, next to the server that knows it.\<close>

definition startCallSession :: "AnyVal list \<Rightarrow> Server \<Rightarrow> (string \<times> ReplaySession) reply \<times> Server" where
  "startCallSession params sv =
     (case decodeEthCall params of
        Inl e \<Rightarrow> (Refused e, sv)
      | Inr req \<Rightarrow>
          let n = svSessionID sv + 1; i = ''call-'' @ showU64 n; ss = callSession i req
          in (Done (i, ss), putSession i ss (sv\<lparr>svSessionID := n\<rparr>)))"

definition loadedReplay :: "string \<Rightarrow> Hash \<Rightarrow> ReplayLocalTrace \<Rightarrow> ReplaySession" where
  "loadedReplay i txh replay =
     (newSession ''replay'' i)\<lparr>seTargetTx := hashHex txh, seExact := rxExact replay, seLimitation := rxLimitation replay,
       seDone := (rlTrace replay = []), seResult := rxResult replay, seTrace := rlTrace replay, seTxHash := txh,
       seTargetAddr := (case txTo (rxTransaction replay) of Some a \<Rightarrow> Some a | None \<Rightarrow> rcContractAddress (rxReceipt replay))\<rparr>"

definition startReplaySession :: "ServerEnv \<Rightarrow> Hash \<Rightarrow> Server \<Rightarrow> ((string \<times> ReplaySession) reply \<times> Server) option" where
  "startReplaySession E txh sv =
     (case ReplayTransactionWithLocalTrace (xeKeccak E) (xeErrText E) (xeExec E) (xeTraced E) txh (svEngine sv) of
        (Ok replay, fe) \<Rightarrow>
          let n = svSessionID sv + 1; i = ''replay-'' @ showU64 n; ss = loadedReplay i txh replay;
              sv = putSession i ss (sv\<lparr>svSessionID := n, svEngine := fe\<rparr>)
          in if rlTrace replay = [] then Some (Done (i, ss), sv)
             else map_option (\<lambda>((r, ss), fe).
                 (case r of Done u \<Rightarrow> Done (i, ss) | Refused e \<Rightarrow> Refused e | Crashed p \<Rightarrow> Crashed p, putSession i ss (sv\<lparr>svEngine := fe\<rparr>)))
               (advanceLoadedSession E False ss (svEngine sv))
      | (Fail e, fe) \<Rightarrow> Some (Refused (internalError e), sv\<lparr>svEngine := fe\<rparr>)
      | (Panic p, fe) \<Rightarrow> Some (Crashed p, sv\<lparr>svEngine := fe\<rparr>))"

definition described :: "(string \<times> ReplaySession) reply \<times> Server \<Rightarrow> rpcValue reply \<times> Server" where
  "described = (\<lambda>(r, sv). (case r of Done (i, ss) \<Rightarrow> Done (RvSession (describeSession ss)) | Refused e \<Rightarrow> Refused e | Crashed p \<Rightarrow> Crashed p, sv))"

subsection \<open>Source bundles\<close>

text \<open>What \<open>loadSourceBundle\<close> does around the loaders, which are \<open>xeLoadBundle\<close>: the request, its two addresses, the target
  of the session and \<open>runtime\<close> are handed to them.\<close>

definition storeBundle :: "Bundle \<Rightarrow> Address \<Rightarrow> ReplaySession \<Rightarrow> ReplaySession" where
  "storeBundle bundle key ss =
     resyncBreakpointsForBundle bundle
       (ss\<lparr>seBundles := mput (addressHex key) bundle (seBundles ss),
          seCodeAddr := (case buCodeAddress bundle of Some a \<Rightarrow> Some a | None \<Rightarrow> seCodeAddr ss),
          seTargetAddr := (case buAddress bundle of Some a \<Rightarrow> Some a | None \<Rightarrow> seTargetAddr ss)\<rparr>)"

definition bundleKey :: "Bundle \<Rightarrow> ReplaySession \<Rightarrow> Address option" where
  "bundleKey bundle ss =
     (case buCodeAddress bundle of
        Some a \<Rightarrow> Some a
      | None \<Rightarrow> (case buAddress bundle of Some a \<Rightarrow> Some a | None \<Rightarrow> seTargetAddr ss))"

definition loadKinds :: "string list" where
  "loadKinds = [''local-project'', ''standard-json'', ''manual'', ''explorer'', ''auto'']"

definition loadSourceBundle :: "ServerEnv \<Rightarrow> sourceBundleRequest \<Rightarrow> ReplaySession \<Rightarrow> (respError + (string \<times> string list)) \<times> ReplaySession" where
  "loadSourceBundle E req ss =
     (let runtime = (case blRuntime req of None \<Rightarrow> True | Some b \<Rightarrow> b); addr = parseAddress (blAddress req) in
      if blKind req \<noteq> ''auto'' \<and> blContractName req = [] then (Inl (invalidParams ''contractName is required''), ss)
      else if blKind req \<notin> set loadKinds then (Inl (invalidParams ''unsupported source bundle kind''), ss)
      else if blKind req = ''explorer'' \<and> xeSolcManager E \<noteq> None then (Inl (internalError (the (xeSolcManager E))), ss)
      else if blKind req = ''explorer'' \<and> addr = None \<and> seTargetAddr ss = None
      then (Inl (invalidParams ''explorer source bundle requires address or an active contract session''), ss)
      else if blKind req = ''auto'' \<and> addr = None \<and> seTargetAddr ss = None
      then (Inl (invalidParams ''auto source bundle requires an address or an active contract session''), ss)
      else case xeLoadBundle E req addr (parseAddress (blCodeAddress req)) (seTargetAddr ss) runtime of
          Inl e \<Rightarrow> (Inl e, ss)
        | Inr (bundle, label, diagnostics) \<Rightarrow>
            (case bundleKey bundle ss of
               None \<Rightarrow> (Inl (invalidParams ''source bundle does not resolve to an address''), ss)
             | Some key \<Rightarrow> (Inr (label, diagnostics), storeBundle bundle key ss)))"

definition handleLoad :: "ServerEnv \<Rightarrow> AnyVal list \<Rightarrow> handler" where
  "handleLoad E params sv =
     (case decodeSessionAndRequest sourceBundleRequestOf params sv of
        Inl e \<Rightarrow> Some (Refused e, sv)
      | Inr (i, ss, req) \<Rightarrow>
          (case loadSourceBundle E req ss of
             (Inl e, ss) \<Rightarrow> Some (Refused e, putSession i ss sv)
           | (Inr (label, diagnostics), ss) \<Rightarrow> Some (Done (RvLoaded (describeSession ss) label diagnostics), putSession i ss sv)))"

text \<open>The settings of the matcher go to \<open>deAutoMatch\<close>; in the session only that there are any.\<close>

definition configureAutoMatch :: "autoMatchConfigRequest \<Rightarrow> ReplaySession \<Rightarrow> ReplaySession" where
  "configureAutoMatch req ss = ss\<lparr>seAutoMatch := True\<rparr>"

definition handleConfigure :: "AnyVal list \<Rightarrow> handler" where
  "handleConfigure params sv =
     (case decodeSessionAndRequest autoMatchConfigRequestOf params sv of
        Inl e \<Rightarrow> Some (Refused e, sv)
      | Inr (i, ss, req) \<Rightarrow> Some (Done RvOk, putSession i (configureAutoMatch req ss) sv))"

subsection \<open>Patches\<close>

definition exportStatePatch :: "AnyVal list \<Rightarrow> Server \<Rightarrow> StatePatch reply \<times> Server" where
  "exportStatePatch params sv =
     (case sbind (decodeSessionOnly params sv) (\<lambda>(i, ss). sbind (patchScope params) (\<lambda>scope. Inr (ss, scope))) of
        Inl e \<Rightarrow> (Refused e, sv)
      | Inr (ss, scope) \<Rightarrow>
          let n = svPatchID sv + 1; p = patchOf (''patch-'' @ showU64 n) scope ss
          in (Done p, sv\<lparr>svPatchID := n, svPatches := mput (paID p) (cloneStatePatch p) (svPatches sv)\<rparr>))"

definition importStatePatch :: "AnyVal list \<Rightarrow> Server \<Rightarrow> (string \<times> string list) reply \<times> Server" where
  "importStatePatch params sv =
     (case decodeSessionAndRequest statePatchImportRequestOf params sv of
        Inl e \<Rightarrow> (Refused e, sv)
      | Inr (i, ss, req) \<Rightarrow>
          (case importPatches (svPatches sv) req ss of
             Inl e \<Rightarrow> (Refused e, sv)
           | Inr ss \<Rightarrow> (Done (seID ss, piPatches req), putSession i ss sv)))"

subsection \<open>Sequences\<close>

definition putSequence :: "SequenceSession \<Rightarrow> Server \<Rightarrow> Server" where
  "putSequence q sv = sv\<lparr>svSequences := mput (sqID q) q (svSequences sv)\<rparr>"

definition normalizeCarryMode :: "string \<Rightarrow> string" where
  "normalizeCarryMode mode =
     (let m = ToLower (TrimSpace mode) in
      if m = [] \<or> m = ''mutation-only'' then ''mutation-only''
      else if m = ''full'' then ''full''
      else if m = ''none'' then ''none''
      else [])"

definition normalizeSequenceSteps :: "SequenceStepSpec list \<Rightarrow> SequenceStepSpec list" where
  "normalizeSequenceSteps = map (\<lambda>st. st\<lparr>stpKind := ToLower (TrimSpace (stpKind st))\<rparr>)"

text \<open>\<open>json.Marshal\<close> of a map puts its keys in order.\<close>

definition encodeSequenceCallParams :: "SequenceStepSpec \<Rightarrow> AnyVal list" where
  "encodeSequenceCallParams st =
     (let req = stpRequest st;
          req = (if map_of req ''input'' = None
            then (case map_of req ''data'' of None \<Rightarrow> req | Some d \<Rightarrow> mput ''input'' d req) else req)
      in [AnyMap (sort_key (\<lambda>(k, v). keyOrder k) req), if stpBlock st = AnyNil then AnyString ''latest'' else stpBlock st])"

definition sequenceTxHash :: "SequenceStepSpec \<Rightarrow> string" where
  "sequenceTxHash st =
     (let text = TrimSpace (stpTxHash st) in
      if text \<noteq> [] then text
      else case map_of (stpRequest st) ''txHash'' of Some (AnyString v) \<Rightarrow> TrimSpace v | _ \<Rightarrow> text)"

definition startSequenceStep :: "ServerEnv \<Rightarrow> SequenceSession \<Rightarrow> int \<Rightarrow> Server \<Rightarrow> ((string \<times> ReplaySession) reply \<times> Server) option" where
  "startSequenceStep E q index sv =
     (if index < 0 \<or> index \<ge> int (length (sqStepSpecs q)) then Some (Refused (invalidParams ''invalid sequence step index''), sv)
      else
        let st = sqStepSpecs q ! nat index in
        if stpKind st = ''call'' then Some (startCallSession (encodeSequenceCallParams st) sv)
        else if stpKind st = ''replay''
        then (case decodeHashParam [AnyString (sequenceTxHash st)] of
            Inl e \<Rightarrow> Some (Refused e, sv)
          | Inr txh \<Rightarrow> startReplaySession E txh sv)
        else Some (Refused (invalidParams (''unsupported step kind '' @ quoted (stpKind st))), sv))"

definition stepStatus :: "SequenceSession \<Rightarrow> int \<Rightarrow> string" where
  "stepStatus q index =
     (if sqDone q then ''done''
      else if index < sqCurrentStepIndex q then ''done''
      else if index = sqCurrentStepIndex q then ''active''
      else ''pending'')"

definition describeSequence :: "Server \<Rightarrow> SequenceSession \<Rightarrow> rpcValue" where
  "describeSequence sv q =
     RvSequence q (map (\<lambda>i. stepStatus q (int i)) [0..<length (sqStepSpecs q)])
       (if sqActiveSessionID q = [] then None else map_option describeSession (map_of (svSessions sv) (sqActiveSessionID q)))
       (sqRequestedCarry q = ''full'' \<and> sqCarry q = ''mutation-only'')"

definition newSequence :: "u64 \<Rightarrow> string \<Rightarrow> SequenceStepSpec list \<Rightarrow> SequenceSession" where
  "newSequence n requested specs =
     \<lparr>sqID = ''sequence-'' @ showU64 n, sqCarry = (if requested = ''full'' then ''mutation-only'' else requested),
      sqRequestedCarry = requested, sqStepSpecs = normalizeSequenceSteps specs, sqCurrentStepIndex = 0, sqActiveSessionID = [],
      sqLastCompletedID = [], sqDone = False, sqExportedPatchIDs = []\<rparr>"

definition enterSequence :: "SequenceSession \<Rightarrow> (string \<times> ReplaySession) reply \<times> Server \<Rightarrow> rpcValue reply \<times> Server" where
  "enterSequence q = (\<lambda>(r, sv).
     case r of
       Done (i, ss) \<Rightarrow> let q = q\<lparr>sqActiveSessionID := seID ss\<rparr>; sv = putSequence q sv in (Done (describeSequence sv q), sv)
     | Refused e \<Rightarrow> (Refused e, sv)
     | Crashed p \<Rightarrow> (Crashed p, sv))"

definition startSequenceSession :: "ServerEnv \<Rightarrow> AnyVal list \<Rightarrow> handler" where
  "startSequenceSession E params sv =
     (case params of
        [] \<Rightarrow> Some (Refused (invalidParams ''missing sequence configuration''), sv)
      | v # vs \<Rightarrow>
          (case sequenceStartRequestOf v of
             Inl e \<Rightarrow> Some (Refused (invalidText e), sv)
           | Inr req \<Rightarrow>
               let requested = normalizeCarryMode (sqStateCarry req) in
               if sqSteps req = [] then Some (Refused (invalidParams ''sequence requires at least one step''), sv)
               else if requested = [] then Some (Refused (invalidParams (''unsupported stateCarry '' @ quoted (sqStateCarry req))), sv)
               else
                 let n = svSequenceID sv + 1; q = newSequence n requested (sqSteps req) in
                 map_option (enterSequence q) (startSequenceStep E q 0 (sv\<lparr>svSequenceID := n\<rparr>))))"

text \<open>What \<open>nextStepSession\<close> does once the active session is known to be done: note it, export its patch, then finish the
  sequence or start the next session and import the patch. The sequence is changed in place as far as the method got.\<close>

definition carryPatch :: "SequenceSession \<Rightarrow> ReplaySession \<Rightarrow> Server \<Rightarrow> string list reply \<times> SequenceSession \<times> Server" where
  "carryPatch q active sv =
     (if sqCarry q = ''none'' then (Done [], q, sv)
      else case exportStatePatch [AnyString (seID active), AnyMap [(''scope'', AnyString ''all'')]] sv of
          (Done p, sv) \<Rightarrow> (Done [paID p], q\<lparr>sqExportedPatchIDs := sqExportedPatchIDs q @ [paID p]\<rparr>, sv)
        | (Refused e, sv) \<Rightarrow> (Refused e, q, sv)
        | (Crashed p, sv) \<Rightarrow> (Crashed p, q, sv))"

definition importCarried :: "string \<Rightarrow> string list \<Rightarrow> Server \<Rightarrow> unit reply \<times> Server" where
  "importCarried i ids sv =
     (if ids = [] then (Done (), sv)
      else case importStatePatch [AnyString i, AnyMap [(''merge'', AnyString ''append''), (''patches'', AnyList (map AnyString ids))]] sv of
          (Done x, sv) \<Rightarrow> (Done (), sv)
        | (Refused e, sv) \<Rightarrow> (Refused e, sv)
        | (Crashed p, sv) \<Rightarrow> (Crashed p, sv))"

definition enterStepSession :: "SequenceSession \<Rightarrow> int \<Rightarrow> string list \<Rightarrow> (string \<times> ReplaySession) reply \<Rightarrow> Server \<Rightarrow> rpcValue reply \<times> Server" where
  "enterStepSession q nextIndex ids r sv =
     (case r of
        Done (i, ss) \<Rightarrow>
          (case importCarried (seID ss) ids sv of
             (Done u, sv) \<Rightarrow>
               let q = q\<lparr>sqCurrentStepIndex := nextIndex, sqActiveSessionID := seID ss\<rparr>; sv = putSequence q sv
               in (Done (describeSequence sv q), sv)
           | (Refused e, sv) \<Rightarrow> (Refused e, sv)
           | (Crashed p, sv) \<Rightarrow> (Crashed p, sv))
      | Refused e \<Rightarrow> (Refused e, sv)
      | Crashed p \<Rightarrow> (Crashed p, sv))"

definition stepAfter :: "ServerEnv \<Rightarrow> SequenceSession \<Rightarrow> ReplaySession \<Rightarrow> handler" where
  "stepAfter E q active sv =
     (case carryPatch (q\<lparr>sqLastCompletedID := seID active\<rparr>) active sv of
        (Refused e, q, sv) \<Rightarrow> Some (Refused e, putSequence q sv)
      | (Crashed p, q, sv) \<Rightarrow> Some (Crashed p, putSequence q sv)
      | (Done ids, q, sv) \<Rightarrow>
          let sv = putSequence q sv; nextIndex = sqCurrentStepIndex q + 1 in
          if nextIndex \<ge> int (length (sqStepSpecs q))
          then let q = q\<lparr>sqDone := True, sqActiveSessionID := []\<rparr>; sv = putSequence q sv in Some (Done (describeSequence sv q), sv)
          else map_option (\<lambda>(r, sv). enterStepSession q nextIndex ids r sv) (startSequenceStep E q nextIndex sv))"

definition serverFault :: "string \<Rightarrow> respError" where
  "serverFault msg = \<lparr>reCode = -32603, reMessage = RpcText msg, reData = []\<rparr>"

definition nextStepSession :: "ServerEnv \<Rightarrow> AnyVal list \<Rightarrow> handler" where
  "nextStepSession E params sv =
     (case decodeStringParam params of
        Inl e \<Rightarrow> Some (Refused e, sv)
      | Inr i \<Rightarrow>
          (case map_of (svSequences sv) i of
             None \<Rightarrow> Some (Refused (invalidParams ''unknown sequence session''), sv)
           | Some q \<Rightarrow>
               if sqDone q then Some (Refused (invalidParams ''sequence already completed''), sv)
               else if sqActiveSessionID q = [] then Some (Refused (serverFault ''sequence has no active session''), sv)
               else (case map_of (svSessions sv) (sqActiveSessionID q) of
                   None \<Rightarrow> Some (Refused (serverFault ''active sequence session not found''), sv)
                 | Some active \<Rightarrow>
                     if \<not> seDone active
                     then Some (Refused (refusal ''active step session is not completed''
                       [(''reason'', AnyString ''SEQUENCE_STEP_NOT_DONE''), (''sessionId'', AnyString (seID active))]), sv)
                     else stepAfter E q active sv)))"

subsection \<open>The methods\<close>

definition gdbMethodNames :: "string list" where
  "gdbMethodNames =
     [''gdb.startReplaySession'', ''gdb.startCallSession'', ''gdb.next'', ''gdb.continue'', ''gdb.pause'', ''gdb.state'',
      ''gdb.loadSourceBundle'', ''gdb.setSourceBreakpoint'', ''gdb.setFunctionBreakpoint'', ''gdb.setCallBreakpoint'',
      ''gdb.setStorageBreakpoint'', ''gdb.setMemoryBreakpoint'', ''gdb.listBreakpoints'', ''gdb.deleteBreakpoint'',
      ''gdb.writeStorage'', ''gdb.writeMemory'', ''gdb.readMemory'', ''gdb.exportStatePatch'', ''gdb.importStatePatch'',
      ''gdb.startSequenceSession'', ''gdb.nextStepSession'', ''gdb.configureAutoMatch'', ''gdb.peekVariables'']"

definition methodAllowed :: "serverMode \<Rightarrow> string \<Rightarrow> bool" where
  "methodAllowed mode m \<longleftrightarrow>
     mode \<noteq> serverModeGDBOnly \<or> m = ''dbgserver.capabilities'' \<or> m = ''eth_chainId'' \<or> m \<in> set gdbMethodNames"

definition notFound :: "string \<Rightarrow> respError" where
  "notFound msg = \<lparr>reCode = -32601, reMessage = RpcText msg, reData = []\<rparr>"

text \<open>A method of the fork engine, and a method whose parameters are decoded first.\<close>

definition onEngine :: "('a \<Rightarrow> rpcValue) \<Rightarrow> 'a feM \<Rightarrow> handler" where
  "onEngine enc m sv =
     (case m (svEngine sv) of (r, fe) \<Rightarrow> Some (ofOutcome (obind r (\<lambda>x. Ok (enc x))), sv\<lparr>svEngine := fe\<rparr>))"

definition refuse :: "respError \<Rightarrow> handler" where
  "refuse e sv = Some (Refused e, sv)"

definition withParam :: "respError + 'a \<Rightarrow> ('a \<Rightarrow> handler) \<Rightarrow> handler" where
  "withParam x f = (case x of Inl e \<Rightarrow> refuse e | Inr v \<Rightarrow> f v)"

definition withReply :: "('a \<Rightarrow> rpcValue) \<Rightarrow> 'a reply \<times> Server \<Rightarrow> rpcValue reply \<times> Server" where
  "withReply enc = (\<lambda>(r, sv). (case r of Done x \<Rightarrow> Done (enc x) | Refused e \<Rightarrow> Refused e | Crashed p \<Rightarrow> Crashed p, sv))"

text \<open>The chain ID of the provider, whatever the engine was configured with.\<close>

definition engineChainID :: "int option feM" where
  "engineChainID = feLift (\<lambda>fe. fromRemote (pvChainID (feProvider fe)))"

definition snapshotParam :: "AnyVal list \<Rightarrow> respError + Hash option" where
  "snapshotParam params =
     (case params of
        [] \<Rightarrow> Inr None
      | v # vs \<Rightarrow> if v = AnyNil then Inr None else sbind (decodeHashParam params) (\<lambda>h. Inr (Some h)))"

definition handle :: "ServerEnv \<Rightarrow> string \<Rightarrow> AnyVal list \<Rightarrow> handler" where
  "handle E m params sv =
     (if \<not> methodAllowed (svMode sv) m then refuse (notFound (''method '' @ m @ '' not available on dbgserver'')) sv
      else if m = ''dbgserver.capabilities'' then Some (Done (RvMethods gdbMethodNames (svMode sv)), sv)
      else if m = ''eth_chainId'' then onEngine (\<lambda>i. RvText (encodeQuantity i)) engineChainID sv
      else if m = ''eth_call''
      then withParam (decodeEthCall params) (\<lambda>req. onEngine (\<lambda>r. RvText (encodeBytes r)) (EthCall (xeKeccak E) (xeExec E) req)) sv
      else if m = ''eth_estimateGas''
      then withParam (decodeEthCall params)
        (\<lambda>req. onEngine (\<lambda>g. RvText (encodeQuantity (Some (uint g)))) (EstimateGas (xeKeccak E) (xeExec E) req)) sv
      else if m = ''debug_replayTransaction''
      then withParam (decodeHashParam params)
        (\<lambda>txh. onEngine RvReplay (ReplayTransaction (xeKeccak E) (xeErrText E) (xeExec E) txh)) sv
      else if m = ''debug_exportSnapshot''
      then withParam (snapshotParam params) (\<lambda>txh. onEngine RvExport (ExportBundle (xeKeccak E) (xeErrText E) (xeExec E) txh)) sv
      else if m = ''debug_findReplayMismatch''
      then withParam (decodeHashParam params)
        (\<lambda>txh. onEngine RvReport (ExportReplayReport (xeKeccak E) (xeErrText E) (xeExec E) txh)) sv
      else if m = ''gdb.startReplaySession''
      then withParam (decodeHashParam params) (\<lambda>txh sv. map_option described (startReplaySession E txh sv)) sv
      else if m = ''gdb.startCallSession'' then Some (described (startCallSession params sv))
      else if m = ''gdb.next'' then advanceSession E False params sv
      else if m = ''gdb.continue'' then advanceSession E True params sv
      else if m = ''gdb.pause'' \<or> m = ''gdb.state'' then readSession (\<lambda>ss. Done (RvSession (describeSession ss))) params sv
      else if m = ''gdb.loadSourceBundle'' then handleLoad E params sv
      else if m = ''gdb.setSourceBreakpoint'' then changeSession sourceBreakpointRequestOf (pureChange (setBreakpoint newSourceBreakpoint)) params sv
      else if m = ''gdb.setFunctionBreakpoint''
      then changeSession functionBreakpointRequestOf (pureChange (setBreakpoint (newFunctionBreakpoint (xeDebug E)))) params sv
      else if m = ''gdb.setCallBreakpoint''
      then changeSession callBreakpointRequestOf (pureChange (setBreakpoint (newCallBreakpoint (xeDebug E)))) params sv
      else if m = ''gdb.setStorageBreakpoint'' then changeSession storageBreakpointRequestOf (pureChange (setBreakpoint newStorageBreakpoint)) params sv
      else if m = ''gdb.setMemoryBreakpoint'' then changeSession memoryBreakpointRequestOf (pureChange (setBreakpoint newMemoryBreakpoint)) params sv
      else if m = ''gdb.listBreakpoints''
      then withParam (decodeSessionOnly params sv) (\<lambda>(i, ss) sv. Some (Done (RvBreakpoints (seBreakpoints ss)), sv)) sv
      else if m = ''gdb.deleteBreakpoint'' then changeSession deleteBreakpointRequestOf (pureChange deleteBreakpoint) params sv
      else if m = ''gdb.writeStorage'' then changeSession writeStorageRequestOf (pureChange writeStorage) params sv
      else if m = ''gdb.writeMemory''
      then changeSession writeMemoryRequestOf (writeMemory (plMaxAlloc (dePeek (xeDebug E)))) params sv
      else if m = ''gdb.readMemory''
      then withParam (decodeSessionAndRequest readMemoryRequestOf params sv)
        (\<lambda>(i, ss, req) sv. Some (withReply RvMemory (readMemory req ss, sv))) sv
      else if m = ''gdb.exportStatePatch'' then Some (withReply RvPatch (exportStatePatch params sv))
      else if m = ''gdb.importStatePatch'' then Some (withReply (\<lambda>(i, applied). RvApplied i applied) (importStatePatch params sv))
      else if m = ''gdb.startSequenceSession'' then startSequenceSession E params sv
      else if m = ''gdb.nextStepSession'' then nextStepSession E params sv
      else if m = ''gdb.configureAutoMatch'' then handleConfigure params sv
      else if m = ''gdb.peekVariables''
      then readSession (\<lambda>ss. case peekVariables ss of Inl e \<Rightarrow> Refused e | Inr snap \<Rightarrow> Done (RvSnapshot snap)) params sv
      else refuse (notFound (''method '' @ m @ '' not found'')) sv)"

end
