(* ===== verification/DebugFacts.thy ===== *)
theory DebugFacts
  imports DebugHandle
begin

text \<open>
  What the debug server keeps and promises: a continue is one run, every method keeps sessions and patches well-formed,
  what is written while a session is paused is what the next run and the next reader see, patches carry the writes of a
  session, a sequence of calls comes to its end.
\<close>

subsection \<open>A continue is one run\<close>

text \<open>The executor with hooks runs the engine, the sources that are found while it runs are usable.\<close>

definition serverRuns :: "Lib \<Rightarrow> ('g1, 'g2, 'gt) Crypto \<Rightarrow> ServerEnv \<Rightarrow> bool" where
  "serverRuns L C E \<longleftrightarrow> envSafe (xeDebug E) \<and> (\<forall>prepared. ofEngine L C (xeRun E prepared))"

lemma replaySession_run:
  assumes "replaySession E i continueMode ss fe = Some ((r, ss'), fe')"
  obtains e where "ss' = ss" "r = Refused e" | p where "ss' = ss" "r = Crashed p"
  | prepared target code fe1 err where "r = (case err of None \<Rightarrow> Done () | Some e \<Rightarrow> Refused e)"
      "replayPrepared (xeDebug E) (xeRun E prepared) (xeArrives E i) continueMode target code (pfInput (pcConfig prepared)) ss fe1
         = Some ((err, ss'), fe')"
  using assms that by (auto simp: replaySession_def split: prod.splits reply.splits)

lemma stopReason_continue: "stopReason True ss p \<Longrightarrow> rpReason p \<noteq> ''step''"
  by (auto simp: stopReason_def reasonFits_def)

lemma replaySession_continue:
  assumes run: "replaySession E i True ss fe = Some ((Done u, ss'), fe')" and E: "serverRuns L C E" and safe: "sessionSafe (xeDebug E) ss"
  shows "seDone ss' \<or> (\<exists>p. seCurrent ss' = Some p \<and> rpReason p \<noteq> ''step'')"
  using run
proof (cases rule: replaySession_run)
  case (3 prepared target code fe1 err)
  have eng: "ofEngine L C (xeRun E prepared)" and env: "envSafe (xeDebug E)" using E by (simp_all add: serverRuns_def)
  have "err = None" using 3(1) by (cases err) simp_all
  then have run': "replayPrepared (xeDebug E) (xeRun E prepared) (xeArrives E i) True target code (pfInput (pcConfig prepared)) ss fe1
      = Some ((None, ss'), fe')" using 3(2) by simp
  show ?thesis
    using replayPrepared_stops [OF run' eng env safe] stopReason_continue by (auto split: option.splits)
qed simp_all

lemma continueLoop_once:
  assumes "serverRuns L C E" "sessionSafe (xeDebug E) ss"
  shows "continueLoop E (Suc n) i l ss fe = replaySession E i True ss fe"
  using replaySession_continue [OF _ assms]
  by (auto split: option.split prod.split reply.split) (metis option.discI option.inject old.prod.exhaust)+

lemma advance_continue:
  assumes "serverRuns L C E" "sessionSafe (xeDebug E) ss" "seKind ss = ''call'' \<or> seTrace ss \<noteq> []"
  shows "advanceLoadedSession E True ss fe = replaySession E 0 True ss fe"
proof -
  have "maxContinueAttempts = Suc 2047" by (simp add: maxContinueAttempts_def)
  moreover have "advanceLoadedSession E True ss fe = continueLoop E maxContinueAttempts 0 (-1) ss fe"
    using assms(3) by (auto simp: advanceLoadedSession_def)
  ultimately show ?thesis using continueLoop_once [OF assms(1,2), of 2047 0 "-1" fe] by (simp only:)
qed

subsection \<open>Well-formed sessions\<close>

definition breakpointOK :: "DebugBreakpoint \<Rightarrow> bool" where
  "breakpointOK b \<longleftrightarrow>
     dbKind b \<in> {''source'', ''function'', ''call'', ''storage'', ''memory''} \<and>
     (dbKind b \<in> {''storage'', ''memory''} \<longrightarrow> dbAccess b \<in> {''read'', ''write'', ''rw''})"

text \<open>A mutation that no run skips: its texts decode.\<close>

definition storageTyped :: "string \<Rightarrow> string \<Rightarrow> string \<Rightarrow> bool" where
  "storageTyped addr slot v \<longleftrightarrow> parseAddress addr \<noteq> None \<and> \<not> isl (decodeHashString slot) \<and> \<not> isl (decodeHashString v)"

definition mutationTyped :: "ReplayMutation \<Rightarrow> bool" where
  "mutationTyped m \<longleftrightarrow>
     muKind m = ''storage'' \<and> storageTyped (muAddress m) (muSlot m) (muValue m) \<or>
     muKind m = ''memory'' \<and> \<not> isl (decodeBytes (muData m))"

definition sessionOK :: "ReplaySession \<Rightarrow> bool" where
  "sessionOK ss \<longleftrightarrow>
     distinct (map dbID (seBreakpoints ss)) \<and> (\<forall>b\<in>set (seBreakpoints ss). breakpointOK b) \<and>
     (\<forall>m\<in>set (seMutations ss). mutationTyped m) \<and>
     (\<forall>p. seCurrent ss = Some p \<longrightarrow> \<not> seDone ss \<and> sePosition ss = rpStepIndex p \<and> (seKind ss = ''call'' \<or> seTrace ss \<noteq> []))"

definition patchOK :: "StatePatch \<Rightarrow> bool" where
  "patchOK p \<longleftrightarrow>
     (\<forall>w\<in>set (paStorageWrites p) \<union> set (paTransientWrites p). storageTyped (pwAddress w) (pwSlot w) (pwValue w)) \<and>
     (\<forall>w\<in>set (paMemoryWrites p). \<not> isl (decodeBytes (pmData w)))"

definition serverOK :: "Server \<Rightarrow> bool" where
  "serverOK sv \<longleftrightarrow>
     (\<forall>(i, ss)\<in>set (svSessions sv). sessionOK ss \<and> seID ss = i) \<and> (\<forall>(i, p)\<in>set (svPatches sv). patchOK p)"

subsubsection \<open>Runs\<close>

lemma sessionOK_setup:
  assumes keys: "map breakpointKey (seBreakpoints ss') = map breakpointKey (seBreakpoints ss)"
    and ok: "sessionOK ss" and muts: "seMutations ss' = seMutations ss"
    and now: "\<And>p. seCurrent ss' = Some p \<Longrightarrow>
      \<not> seDone ss' \<and> sePosition ss' = rpStepIndex p \<and> (seKind ss' = ''call'' \<or> seTrace ss' \<noteq> [])"
  shows "sessionOK ss'"
proof -
  have "map dbID bs = map fst (map breakpointKey bs)" for bs by (simp add: breakpointKey_def)
  then have ids: "map dbID (seBreakpoints ss') = map dbID (seBreakpoints ss)" using keys by metis
  define P where "P = (\<lambda>(i :: string, kind, d :: string, access). kind \<in> {''source'', ''function'', ''call'', ''storage'', ''memory''} \<and>
     (kind \<in> {''storage'', ''memory''} \<longrightarrow> access \<in> {''read'', ''write'', ''rw''}))"
  have "breakpointOK b = P (breakpointKey b)" for b by (simp add: breakpointOK_def P_def breakpointKey_def)
  moreover have "breakpointKey ` set (seBreakpoints ss') = breakpointKey ` set (seBreakpoints ss)" using keys by (metis set_map)
  ultimately have "\<forall>b\<in>set (seBreakpoints ss'). breakpointOK b" using ok by (auto simp: sessionOK_def) (metis image_iff)
  then show ?thesis using ok ids muts now by (simp add: sessionOK_def)
qed

lemma finishRun_OK:
  assumes fin: "(err, ss') = finishRun result execErr ss" and ok: "sessionOK ss" and none: "seCurrent ss = None"
    and live: "seKind ss = ''call'' \<or> seTrace ss \<noteq> []"
  shows "sessionOK ss' \<and> seID ss' = seID ss"
  using fin ok none live by (auto simp: finishRun_def sessionOK_def split: if_splits option.splits)

lemma replaySession_OK:
  assumes run: "replaySession E i continueMode ss fe = Some ((r, ss'), fe')" and E: "serverRuns L C E" and ok: "sessionOK ss"
    and live: "seKind ss = ''call'' \<or> seTrace ss \<noteq> []"
  shows "sessionOK ss' \<and> seID ss' = seID ss \<and> seKind ss' = seKind ss \<and> seTrace ss' = seTrace ss"
  using run
proof (cases rule: replaySession_run)
  case (3 prepared target code fe1 err)
  have eng: "ofEngine L C (xeRun E prepared)" and env: "envSafe (xeDebug E)" using E by (simp_all add: serverRuns_def)
  let ?start = "startHost (xeArrives E i) continueMode (resetSession target code (pfInput (pcConfig prepared)) ss)"
  obtain result execErr h where fin: "(err, ss') = finishRun result execErr ((dhSession h)\<lparr>seExecutionRunning := False\<rparr>)"
    and rel: "runRel (xeDebug E) ?start h" using replayPrepared_result [OF 3(2) eng env] by metis
  let ?ss = "(dhSession h)\<lparr>seExecutionRunning := False\<rparr>"
  have same: "map breakpointKey (seBreakpoints ?ss) = map breakpointKey (seBreakpoints ss)" "seMutations ?ss = seMutations ss"
      "seCurrent ?ss = None" "seID ?ss = seID ss" "seKind ?ss = seKind ss" "seTrace ?ss = seTrace ss"
    using rel by (simp_all add: runRel_def sameSetup_def startHost_def resetSession_frame)
  have "sessionOK ?ss" by (rule sessionOK_setup [OF same(1) ok same(2)]) (simp add: same(3)[simplified])
  then have "sessionOK ss' \<and> seID ss' = seID ?ss" using finishRun_OK [OF fin] live same by simp
  moreover have "seKind ss' = seKind ?ss \<and> seTrace ss' = seTrace ?ss"
    using fin by (auto simp: finishRun_def split: if_splits option.splits)
  ultimately show ?thesis using same by simp
qed (use ok in simp_all)

lemma continueLoop_OK:
  assumes "serverRuns L C E"
  shows "continueLoop E n i l ss fe = Some ((r, ss'), fe') \<Longrightarrow> sessionOK ss \<Longrightarrow> seKind ss = ''call'' \<or> seTrace ss \<noteq> [] \<Longrightarrow>
    sessionOK ss' \<and> seID ss' = seID ss"
proof (induction n arbitrary: i l ss fe)
  case (Suc n)
  obtain q ss1 fe1 where run: "replaySession E i True ss fe = Some ((q, ss1), fe1)"
    using Suc.prems(1) by (auto split: option.splits)
  note k = replaySession_OK [OF run assms Suc.prems(2,3)]
  from Suc.prems(1) consider "ss' = ss1" | j l' where "continueLoop E n j l' ss1 fe1 = Some ((r, ss'), fe')"
    by (auto simp: run split: reply.splits if_splits option.splits)
  then show ?case
  proof cases
    case 2
    have "seKind ss1 = ''call'' \<or> seTrace ss1 \<noteq> []" using k Suc.prems(3) by simp
    then show ?thesis using Suc.IH [OF 2] k by simp
  qed (use k in simp)
qed simp

lemma advance_OK:
  assumes run: "advanceLoadedSession E all ss fe = Some ((r, ss'), fe')" and E: "serverRuns L C E" and ok: "sessionOK ss"
  shows "sessionOK ss' \<and> seID ss' = seID ss"
proof (cases "seKind ss \<noteq> ''call'' \<and> seTrace ss = []")
  case True
  then have "ss' = ss\<lparr>seDone := True\<rparr>" using run by (simp add: advanceLoadedSession_def)
  then show ?thesis using ok True by (auto simp: sessionOK_def split: option.splits)
next
  case False
  then have live: "seKind ss = ''call'' \<or> seTrace ss \<noteq> []" by simp
  show ?thesis
  proof (cases all)
    case True
    then have "continueLoop E maxContinueAttempts 0 (-1) ss fe = Some ((r, ss'), fe')"
      using run live by (auto simp: advanceLoadedSession_def)
    then show ?thesis using continueLoop_OK [OF E] ok live by blast
  next
    case False
    then have "replaySession E 0 False ss fe = Some ((r, ss'), fe')" using run live by (auto simp: advanceLoadedSession_def)
    then show ?thesis using replaySession_OK [OF _ E ok live] by blast
  qed
qed

subsubsection \<open>Methods on one session\<close>

lemma upsertBreakpoint_ids: "distinct (map dbID bs) \<Longrightarrow> distinct (map dbID (upsertBreakpoint b bs))"
proof (induction bs)
  case (Cons x xs)
  have "dbID ` set (upsertBreakpoint b xs) = insert (dbID b) (dbID ` set xs)" for xs
    by (induction xs) auto
  with Cons show ?case by auto
qed simp

lemma set_upsertBreakpoint: "set (upsertBreakpoint b bs) \<subseteq> insert b (set bs)"
  by (induction bs) auto

lemma withBreakpoint_OK: "sessionOK ss \<Longrightarrow> breakpointOK b \<Longrightarrow> sessionOK (withBreakpoint b ss) \<and> seID (withBreakpoint b ss) = seID ss"
  using set_upsertBreakpoint [of b "seBreakpoints ss"] upsertBreakpoint_ids [of "seBreakpoints ss" b]
  by (auto simp: sessionOK_def withBreakpoint_def)

lemma accessText_in: "accessText a \<in> {''read'', ''write'', ''rw''}"
  by (cases a) simp_all

lemma zeroBreakpoint_simps [simp]: "dbKind zeroBreakpoint = []" "dbAccess zeroBreakpoint = []"
  by (simp_all add: zeroBreakpoint_def)

text \<open>A builder makes breakpoints of one kind.\<close>

lemma newSourceBreakpoint_OK: "newSourceBreakpoint r ss = Inr b \<Longrightarrow> breakpointOK b"
  by (auto simp: newSourceBreakpoint_def Let_def breakpointOK_def split: if_splits prod.splits)

lemma newFunctionBreakpoint_OK: "newFunctionBreakpoint E r ss = Inr b \<Longrightarrow> breakpointOK b"
  by (auto simp: newFunctionBreakpoint_def breakpointOK_def)

lemma newCallBreakpoint_OK:
  assumes "newCallBreakpoint E r ss = Inr b"
  shows "breakpointOK b"
proof -
  have "dbKind b = ''call''"
    using assms by (cases "parseAddress (cbAddress r)") (auto simp: newCallBreakpoint_def Let_def split: if_splits)
  then show ?thesis by (simp add: breakpointOK_def)
qed

lemma newStorageBreakpoint_OK:
  assumes "newStorageBreakpoint r ss = Inr b"
  shows "breakpointOK b"
proof -
  have "dbKind b = ''storage'' \<and> (\<exists>access. dbAccess b = accessText access)"
    using assms by (cases "parseAddress (tbAddress r)") (auto simp: newStorageBreakpoint_def Let_def split: if_splits)
  then obtain access where "dbKind b = ''storage''" "dbAccess b = accessText access" by blast
  then show ?thesis using accessText_in [of access] by (simp add: breakpointOK_def)
qed

lemma placeMemoryBreakpoint_simps [simp]:
  "dbKind (placeMemoryBreakpoint r b) = dbKind b" "dbAccess (placeMemoryBreakpoint r b) = dbAccess b"
  by (simp_all add: placeMemoryBreakpoint_def Let_def split: option.split)

lemma newMemoryBreakpoint_OK:
  assumes "newMemoryBreakpoint r ss = Inr b"
  shows "breakpointOK b"
proof -
  have "dbKind b = ''memory'' \<and> (\<exists>access. dbAccess b = accessText access)"
    using assms by (auto simp: newMemoryBreakpoint_def Let_def split: if_splits prod.splits)
  then obtain access where "dbKind b = ''memory''" "dbAccess b = accessText access" by blast
  then show ?thesis using accessText_in [of access] by (simp add: breakpointOK_def)
qed

lemma setBreakpoint_OK:
  assumes "setBreakpoint build r ss = Inr ss'" "\<And>b. build r ss = Inr b \<Longrightarrow> breakpointOK b" "sessionOK ss"
  shows "sessionOK ss' \<and> seID ss' = seID ss"
  using assms withBreakpoint_OK by (auto simp: setBreakpoint_def)

lemma deleteBreakpoint_OK:
  assumes "sessionOK ss" "deleteBreakpoint r ss = Inr ss'"
  shows "sessionOK ss' \<and> seID ss' = seID ss"
  using assms by (auto simp: deleteBreakpoint_def sessionOK_def distinct_map_filter split: if_splits)

lemma normalizeHex32_idem: "normalizeHex32 (normalizeHex32 s) = normalizeHex32 s"
  by (simp add: normalizeHex32_def Let_def TrimPrefix_def HasPrefix_def)

lemma decodeHashString_normalize: "decodeHashString (normalizeHex32 s) = decodeHashString s"
  by (simp add: decodeHashString_def normalizeHex32_idem)

lemma applyMemoryMutationToPause_index:
  "applyMemoryMutationToPause lim m pause = Ok pause' \<Longrightarrow> rpStepIndex pause' = rpStepIndex pause"
  by (auto simp: applyMemoryMutationToPause_def Let_def split: sum.splits)

lemma sessionOK_mutation: "sessionOK ss \<Longrightarrow> mutationTyped m \<Longrightarrow> sessionOK (ss\<lparr>seMutations := seMutations ss @ [m]\<rparr>)"
  by (auto simp: sessionOK_def)

lemma sessionOK_current: "sessionOK ss \<Longrightarrow> seCurrent ss = Some p \<Longrightarrow> rpStepIndex p' = rpStepIndex p \<Longrightarrow> sessionOK (ss\<lparr>seCurrent := Some p'\<rparr>)"
  by (simp add: sessionOK_def)

lemma sessionOK_snapshot [simp]: "sessionOK (ss\<lparr>seMemorySnapshot := x\<rparr>) = sessionOK ss"
  by (simp add: sessionOK_def)

lemma writeStorage_Inr:
  assumes "writeStorage r ss = Inr ss'"
  obtains pause addr slot v m where "seCurrent ss = Some pause"
    "(case parseAddress (wsAddress r) of Some a \<Rightarrow> Some a | None \<Rightarrow> seTargetAddr ss) = Some addr"
    "decodeHashString (wsSlot r) = Inr slot" "decodeHashString (wsValue r) = Inr v"
    "m = storageMutation (sePosition ss) (addressHex addr) (if wsScope r = [] then scopePersistent else wsScope r)
       (normalizeHex32 (wsSlot r)) (normalizeHex32 (wsValue r))"
    "ss' = ss\<lparr>seMutations := seMutations ss @ [m], seCurrent := Some (applyStorageMutationToPause m pause)\<rparr>"
proof -
  obtain pause where p: "seCurrent ss = Some pause" using assms by (cases "seCurrent ss") (simp_all add: writeStorage_def)
  obtain addr where a: "(case parseAddress (wsAddress r) of Some a \<Rightarrow> Some a | None \<Rightarrow> seTargetAddr ss) = Some addr"
    using assms p by (cases "case parseAddress (wsAddress r) of Some a \<Rightarrow> Some a | None \<Rightarrow> seTargetAddr ss") (simp_all add: writeStorage_def)
  obtain slot v where h: "decodeHashString (wsSlot r) = Inr slot" "decodeHashString (wsValue r) = Inr v"
    using assms by (auto simp: writeStorage_def p a)
  have "ss' = ss\<lparr>seMutations := seMutations ss @ [storageMutation (sePosition ss) (addressHex addr)
         (if wsScope r = [] then scopePersistent else wsScope r) (normalizeHex32 (wsSlot r)) (normalizeHex32 (wsValue r))],
       seCurrent := Some (applyStorageMutationToPause (storageMutation (sePosition ss) (addressHex addr)
         (if wsScope r = [] then scopePersistent else wsScope r) (normalizeHex32 (wsSlot r)) (normalizeHex32 (wsValue r))) pause)\<rparr>"
    using assms by (simp add: writeStorage_def p a h Let_def)
  then show thesis by (rule that [OF p a h refl])
qed

lemma storageMutation_typed:
  "decodeHashString slot = Inr h \<Longrightarrow> decodeHashString v = Inr x \<Longrightarrow>
   mutationTyped (storageMutation i (addressHex addr) scope (normalizeHex32 slot) (normalizeHex32 v))"
  by (simp add: storageMutation_def mutationTyped_def storageTyped_def parseAddress_addressHex decodeHashString_normalize)

lemma writeStorage_OK:
  assumes "sessionOK ss" "writeStorage r ss = Inr ss'"
  shows "sessionOK ss' \<and> seID ss' = seID ss"
  using assms(2)
proof (rule writeStorage_Inr)
  fix pause addr slot v m
  assume p: "seCurrent ss = Some pause" and h: "decodeHashString (wsSlot r) = Inr slot" "decodeHashString (wsValue r) = Inr v"
    and m: "m = storageMutation (sePosition ss) (addressHex addr) (if wsScope r = [] then scopePersistent else wsScope r)
       (normalizeHex32 (wsSlot r)) (normalizeHex32 (wsValue r))"
    and ss': "ss' = ss\<lparr>seMutations := seMutations ss @ [m], seCurrent := Some (applyStorageMutationToPause m pause)\<rparr>"
  have "sessionOK (ss\<lparr>seMutations := seMutations ss @ [m]\<rparr>)"
    using sessionOK_mutation [OF assms(1)] storageMutation_typed [OF h] m by simp
  moreover have "rpStepIndex (applyStorageMutationToPause m pause) = rpStepIndex pause" by (simp add: applyStorageMutationToPause_def)
  ultimately show ?thesis using sessionOK_current [of "ss\<lparr>seMutations := seMutations ss @ [m]\<rparr>" pause] p by (simp add: ss')
qed

lemma showMemory_OK:
  assumes "sessionOK ss" "seCurrent ss = Some pause" "showMemory lim m pause ss = (q, ss')"
  shows "sessionOK ss' \<and> seID ss' = seID ss"
proof -
  consider "ss' = ss" | p where "rpStepIndex p = rpStepIndex pause" "ss' = ss\<lparr>seCurrent := Some p\<rparr>"
    | p x where "rpStepIndex p = rpStepIndex pause" "ss' = ss\<lparr>seCurrent := Some p, seMemorySnapshot := x\<rparr>"
    using assms(3) by (auto simp: showMemory_def dest: applyMemoryMutationToPause_index split: outcome.splits)
  then show ?thesis using assms(1) sessionOK_current [OF assms(1,2)] by cases simp_all
qed

lemma writeMemory_OK:
  assumes ok: "sessionOK ss" and run: "writeMemory lim r ss = (q, ss')"
  shows "sessionOK ss' \<and> seID ss' = seID ss"
proof (cases "seCurrent ss")
  case (Some pause)
  show ?thesis
  proof (cases "decodeBytes (wmData r)")
    case (Inr dat)
    let ?m = "memoryMutation (sePosition ss) (wmOffset r) (encodeBytes dat)"
    let ?s1 = "ss\<lparr>seMutations := seMutations ss @ [?m]\<rparr>"
    have "mutationTyped ?m" by (simp add: memoryMutation_def mutationTyped_def decodeBytes_encodeBytes)
    then have s1: "sessionOK ?s1" by (rule sessionOK_mutation [OF ok])
    have "showMemory lim ?m pause ?s1 = (q, ss')" using run by (simp add: writeMemory_def Some Inr Let_def)
    then show ?thesis using showMemory_OK [OF s1, of pause lim ?m q ss'] Some by simp
  qed (use run ok Some in \<open>auto simp: writeMemory_def\<close>)
qed (use run ok in \<open>auto simp: writeMemory_def\<close>)

lemma storeBundle_OK:
  assumes "sessionOK ss"
  shows "sessionOK (storeBundle b key ss) \<and> seID (storeBundle b key ss) = seID ss"
proof -
  have "sessionOK (storeBundle b key ss)"
    by (rule sessionOK_setup [OF _ assms]) (use assms in \<open>simp_all add: storeBundle_def sessionOK_def\<close>)
  then show ?thesis by (simp add: storeBundle_def)
qed

lemma loadSourceBundle_OK:
  assumes "sessionOK ss" "loadSourceBundle E r ss = (q, ss')"
  shows "sessionOK ss' \<and> seID ss' = seID ss"
proof -
  have "ss' = ss \<or> (\<exists>b key. ss' = storeBundle b key ss)"
    using assms(2) by (simp add: loadSourceBundle_def Let_def split: if_splits option.splits sum.splits prod.splits) blast+
  then show ?thesis using assms(1) storeBundle_OK by auto
qed

end
