(* ===== verification/DebugKeep.thy ===== *)
theory DebugKeep
  imports DebugFacts
begin

text \<open>
  Every method of the debug server keeps its sessions and patches well-formed: the sessions under their own identifiers, the
  breakpoints of a session distinct, every recorded write one that the next run applies.
\<close>

definition keepsOK :: "handler \<Rightarrow> bool" where
  "keepsOK h \<longleftrightarrow> (\<forall>sv r sv'. serverOK sv \<longrightarrow> h sv = Some (r, sv') \<longrightarrow> serverOK sv')"

lemma keepsOKI: "(\<And>sv r sv'. serverOK sv \<Longrightarrow> h sv = Some (r, sv') \<Longrightarrow> serverOK sv') \<Longrightarrow> keepsOK h"
  by (simp add: keepsOK_def)

lemma keepsOKD: "keepsOK h \<Longrightarrow> serverOK sv \<Longrightarrow> h sv = Some (r, sv') \<Longrightarrow> serverOK sv'"
  by (auto simp: keepsOK_def)

lemma keepsOK_if: "keepsOK f \<Longrightarrow> keepsOK g \<Longrightarrow> keepsOK (\<lambda>sv. if b sv then f sv else g sv)"
  by (rule keepsOKI) (split if_split_asm; erule (2) keepsOKD)

lemma keepsOK_same: "keepsOK (\<lambda>sv. Some (r sv, sv))" "keepsOK (refuse e)"
  by (simp_all add: keepsOK_def refuse_def)

lemma keepsOK_param: "(\<And>v. keepsOK (f v)) \<Longrightarrow> keepsOK (\<lambda>sv. withParam (x sv) f sv)"
  by (rule keepsOKI) (auto simp: withParam_def refuse_def split: sum.splits dest: keepsOKD)

subsection \<open>Stores\<close>

lemma serverOK_engine [simp]: "serverOK (sv\<lparr>svEngine := fe\<rparr>) = serverOK sv" "serverOK (sv\<lparr>svSessionID := n\<rparr>) = serverOK sv"
  "serverOK (sv\<lparr>svPatchID := n\<rparr>) = serverOK sv" "serverOK (sv\<lparr>svSequenceID := n\<rparr>) = serverOK sv"
  "serverOK (putSequence q sv) = serverOK sv"
  by (simp_all add: serverOK_def putSequence_def)

lemma mput_each: "\<forall>(k, v)\<in>set m. P k v \<Longrightarrow> P k' v' \<Longrightarrow> \<forall>(k, v)\<in>set (mput k' v' m). P k v"
  by (induction m) (auto simp: mput_def split: if_splits)

lemma serverOK_putSession: "serverOK sv \<Longrightarrow> sessionOK ss \<Longrightarrow> seID ss = i \<Longrightarrow> serverOK (putSession i ss sv)"
  using mput_each [of "svSessions sv" "\<lambda>i ss. sessionOK ss \<and> seID ss = i" i ss] by (simp add: serverOK_def putSession_def)

lemma serverOK_putPatch: "serverOK sv \<Longrightarrow> patchOK p \<Longrightarrow> serverOK (sv\<lparr>svPatches := mput i p (svPatches sv)\<rparr>)"
  using mput_each [of "svPatches sv" "\<lambda>i p. patchOK p" i p] by (simp add: serverOK_def)

lemma serverOK_newPatch: "serverOK sv \<Longrightarrow> patchOK p \<Longrightarrow> serverOK (sv\<lparr>svPatchID := n, svPatches := mput i p (svPatches sv)\<rparr>)"
  using serverOK_putPatch [of "sv\<lparr>svPatchID := n\<rparr>" p i] by simp

lemma serverOK_session: "serverOK sv \<Longrightarrow> map_of (svSessions sv) i = Some ss \<Longrightarrow> sessionOK ss \<and> seID ss = i"
  by (auto simp: serverOK_def dest!: map_of_SomeD)

lemma serverOK_patch: "serverOK sv \<Longrightarrow> map_of (svPatches sv) i = Some p \<Longrightarrow> patchOK p"
  by (auto simp: serverOK_def dest!: map_of_SomeD)

lemma lookupSession_OK: "serverOK sv \<Longrightarrow> lookupSession sv i = Inr ss \<Longrightarrow> sessionOK ss \<and> seID ss = i"
  by (auto simp: lookupSession_def serverOK_session split: option.splits)

lemma decodeSessionAndRequest_OK:
  "serverOK sv \<Longrightarrow> decodeSessionAndRequest dec params sv = Inr (i, ss, req) \<Longrightarrow> sessionOK ss \<and> seID ss = i"
  by (auto simp: decodeSessionAndRequest_def lookupSession_OK split: if_splits)

lemma decodeSessionOnly_OK: "serverOK sv \<Longrightarrow> decodeSessionOnly params sv = Inr (i, ss) \<Longrightarrow> sessionOK ss \<and> seID ss = i"
  by (auto simp: decodeSessionOnly_def lookupSession_OK split: if_splits)

subsection \<open>Methods\<close>

lemma keepsOK_change:
  assumes "\<And>req ss q ss'. sessionOK ss \<Longrightarrow> f req ss = (q, ss') \<Longrightarrow> sessionOK ss' \<and> seID ss' = seID ss"
  shows "keepsOK (changeSession dec f params)"
proof (rule keepsOKI)
  fix sv r sv'
  assume ok: "serverOK sv" and run: "changeSession dec f params sv = Some (r, sv')"
  show "serverOK sv'"
  proof (cases "decodeSessionAndRequest dec params sv")
    case (Inr d)
    obtain i ss req where d: "d = (i, ss, req)" by (cases d)
    obtain q ss' where f: "f req ss = (q, ss')" by fastforce
    have "sv' = putSession i ss' sv" using run by (cases q) (simp_all add: changeSession_def Inr d f)
    moreover have s: "sessionOK ss" "seID ss = i" using decodeSessionAndRequest_OK [OF ok, of dec params i ss req] Inr d by simp_all
    ultimately show ?thesis using assms [OF s(1) f] serverOK_putSession [OF ok, of ss'] s(2) by simp
  qed (use run ok in \<open>simp add: changeSession_def\<close>)
qed

lemma pureChange_OK:
  "(\<And>ss'. f req ss = Inr ss' \<Longrightarrow> sessionOK ss' \<and> seID ss' = seID ss) \<Longrightarrow> sessionOK ss \<Longrightarrow> pureChange f req ss = (q, ss') \<Longrightarrow>
   sessionOK ss' \<and> seID ss' = seID ss"
  by (auto simp: pureChange_def split: sum.splits)

lemma keepsOK_pure:
  "(\<And>req ss ss'. sessionOK ss \<Longrightarrow> f req ss = Inr ss' \<Longrightarrow> sessionOK ss' \<and> seID ss' = seID ss) \<Longrightarrow>
   keepsOK (changeSession dec (pureChange f) params)"
  by (rule keepsOK_change) (rule pureChange_OK)

lemma keepsOK_setBreakpoint:
  "(\<And>req ss b. build req ss = Inr b \<Longrightarrow> breakpointOK b) \<Longrightarrow> keepsOK (changeSession dec (pureChange (setBreakpoint build)) params)"
  by (rule keepsOK_pure) (rule setBreakpoint_OK)

lemma keepsOK_advance:
  assumes "serverRuns L C E"
  shows "keepsOK (advanceSession E all params)"
proof (rule keepsOKI)
  fix sv r sv'
  assume ok: "serverOK sv" and run: "advanceSession E all params sv = Some (r, sv')"
  show "serverOK sv'"
  proof (cases "sbind (decodeStringParam params) (\<lambda>i. sbind (lookupSession sv i) (\<lambda>ss. Inr (i, ss)))")
    case (Inr d)
    obtain i ss where d: "d = (i, ss)" by (cases d)
    have s: "sessionOK ss" "seID ss = i" using Inr d lookupSession_OK [OF ok] by auto
    obtain q ss' fe where a: "advanceLoadedSession E all ss (svEngine sv) = Some ((q, ss'), fe)" "sv' = putSession i ss' (sv\<lparr>svEngine := fe\<rparr>)"
      using run by (auto simp: advanceSession_def Inr d advanceAndDescribe_def)
    show ?thesis using advance_OK [OF a(1) assms s(1)] s(2) ok serverOK_putSession [of "sv\<lparr>svEngine := fe\<rparr>" ss' i] a(2) by simp
  qed (use run ok in \<open>simp add: advanceSession_def\<close>)
qed

lemma keepsOK_read: "keepsOK (readSession f params)"
  by (rule keepsOKI) (auto simp: readSession_def split: sum.splits)

lemma keepsOK_engine: "keepsOK (onEngine enc m)"
  by (rule keepsOKI) (auto simp: onEngine_def split: prod.splits)

lemma keepsOK_load: "keepsOK (handleLoad E params)"
proof (rule keepsOKI)
  fix sv r sv'
  assume ok: "serverOK sv" and run: "handleLoad E params sv = Some (r, sv')"
  show "serverOK sv'"
  proof (cases "decodeSessionAndRequest sourceBundleRequestOf params sv")
    case (Inr d)
    obtain i ss req where d: "d = (i, ss, req)" by (cases d)
    obtain q ss' where l: "loadSourceBundle E req ss = (q, ss')" by fastforce
    have "sv' = putSession i ss' sv" using run by (auto simp: handleLoad_def Inr d l split: sum.splits prod.splits)
    moreover have s: "sessionOK ss" "seID ss = i" using decodeSessionAndRequest_OK [OF ok, of sourceBundleRequestOf params i ss req] Inr d by simp_all
    ultimately show ?thesis using loadSourceBundle_OK [OF s(1) l] serverOK_putSession [OF ok, of ss'] s(2) by simp
  qed (use run ok in \<open>simp add: handleLoad_def\<close>)
qed

subsection \<open>Started sessions\<close>

lemma newSession_OK: "sessionOK (callSession i req) \<and> seID (callSession i req) = i"
  "sessionOK (loadedReplay i txh replay) \<and> seID (loadedReplay i txh replay) = i"
  by (simp_all add: sessionOK_def callSession_def loadedReplay_def newSession_def)

lemma startCallSession_OK:
  assumes "startCallSession params sv = (r, sv')" "serverOK sv"
  shows "serverOK sv'"
  using assms newSession_OK(1) serverOK_putSession
  by (auto simp: startCallSession_def Let_def split: sum.splits)

lemma startReplaySession_OK:
  assumes run: "startReplaySession E txh sv = Some (r, sv')" and E: "serverRuns L C E" and ok: "serverOK sv"
  shows "serverOK sv'"
proof -
  obtain x fe where x: "ReplayTransactionWithLocalTrace (xeKeccak E) (xeErrText E) (xeExec E) (xeTraced E) txh (svEngine sv) = (x, fe)"
    by fastforce
  show ?thesis
  proof (cases x)
    case (Ok replay)
    let ?n = "svSessionID sv + 1"
    let ?i = "''replay-'' @ showU64 ?n"
    let ?ss = "loadedReplay ?i txh replay"
    let ?sv = "putSession ?i ?ss (sv\<lparr>svSessionID := ?n, svEngine := fe\<rparr>)"
    have s: "serverOK ?sv" using newSession_OK(2) serverOK_putSession [of "sv\<lparr>svSessionID := ?n, svEngine := fe\<rparr>"] ok by simp
    show ?thesis
    proof (cases "rlTrace replay = []")
      case True
      then show ?thesis using run s x Ok by (simp add: startReplaySession_def Let_def)
    next
      case False
      obtain q ss' fe' where a: "advanceLoadedSession E False ?ss (svEngine ?sv) = Some ((q, ss'), fe')"
        "sv' = putSession ?i ss' (?sv\<lparr>svEngine := fe'\<rparr>)"
        using run x Ok False by (auto simp: startReplaySession_def Let_def)
      have "sessionOK ss'" "seID ss' = ?i" using advance_OK [OF a(1) E] newSession_OK(2) [of ?i txh replay] by auto
      then show ?thesis using a(2) s serverOK_putSession [of "?sv\<lparr>svEngine := fe'\<rparr>" ss' ?i] by (simp del: append.simps)
    qed
  qed (use run x ok in \<open>auto simp: startReplaySession_def\<close>)
qed

subsection \<open>Patches\<close>

lemma latestBy_subset: "snd ` set (latestBy key ws) \<subseteq> set ws"
proof -
  have "snd ` set (mput k v m) \<subseteq> insert v (snd ` set m)" for k and v :: 'a and m :: "('b \<times> 'a) list"
    by (induction m) (auto simp: mput_def)
  then have "snd ` set (fold (\<lambda>w. mput (key w) w) ws m) \<subseteq> set ws \<union> snd ` set m" for m
  proof (induction ws arbitrary: m)
    case (Cons w ws)
    show ?case using Cons(1) [OF Cons(2), of "mput (key w) w m"] Cons(2) [of "key w" w m] by auto
  qed simp
  then show ?thesis unfolding latestBy_def by fastforce
qed

lemma compact_subset: "set (compactStorageWrites ws) \<subseteq> set ws" "set (compactMemoryWrites ms) \<subseteq> set ms"
  using latestBy_subset [of storageKey ws] latestBy_subset [of pmOffset ms]
  by (auto simp: compactStorageWrites_def compactMemoryWrites_def)

lemma compactPatchWrites_OK: "patchOK p \<Longrightarrow> patchOK (compactPatchWrites p)"
  using compact_subset(1) [of "paStorageWrites p"] compact_subset(1) [of "paTransientWrites p"] compact_subset(2) [of "paMemoryWrites p"]
  by (auto simp: patchOK_def compactPatchWrites_def)

lemma exportMutation_OK: "mutationTyped m \<Longrightarrow> patchOK p \<Longrightarrow> patchOK (exportMutation scope m p)"
  by (auto simp: exportMutation_def patchOK_def mutationTyped_def)

lemma patchOf_OK:
  assumes "sessionOK ss"
  shows "patchOK (patchOf i scope ss)"
proof -
  have fold: "\<forall>m\<in>set ms. mutationTyped m \<Longrightarrow> patchOK p \<Longrightarrow> patchOK (fold (exportMutation scope) ms p)" for ms p
    by (induction ms arbitrary: p) (simp_all add: exportMutation_OK)
  have "\<forall>m\<in>set (seMutations ss). mutationTyped m" using assms by (simp add: sessionOK_def)
  then show ?thesis unfolding patchOf_def by (intro compactPatchWrites_OK fold) (simp_all add: patchOK_def)
qed

lemma cloneStatePatch_id [simp]: "cloneStatePatch p = p"
  by (simp add: cloneStatePatch_def)

lemma exportStatePatch_OK:
  assumes "exportStatePatch params sv = (r, sv')" "serverOK sv"
  shows "serverOK sv'"
  using assms
  by (auto simp: exportStatePatch_def Let_def dest: decodeSessionOnly_OK intro!: serverOK_newPatch patchOf_OK split: sum.splits)

lemma patchMutations_typed: "patchOK p \<Longrightarrow> m \<in> set (patchMutations p) \<Longrightarrow> mutationTyped m"
  by (auto simp: patchMutations_def patchOK_def mutationTyped_def storageMutation_def memoryMutation_def)

lemma findPatches_OK:
  "(\<And>i p. map_of patches i = Some p \<Longrightarrow> patchOK p) \<Longrightarrow> findPatches patches base is = Inr ps \<Longrightarrow> \<forall>p\<in>set ps. patchOK p"
  by (induction patches base "is" arbitrary: ps rule: findPatches.induct) (auto simp: Let_def split: option.splits if_splits)

lemma importPatches_OK:
  assumes "importPatches patches req ss = Inr ss'" "\<And>i p. map_of patches i = Some p \<Longrightarrow> patchOK p" "sessionOK ss"
  shows "sessionOK ss' \<and> seID ss' = seID ss"
proof -
  obtain ps where ps: "findPatches patches (sessionBaseBlock ss) (piPatches req) = Inr ps"
    using assms(1) by (auto simp: importPatches_def Let_def split: if_splits)
  then have "ss' = ss\<lparr>seMutations := concat (map patchMutations ps)\<rparr> \<or> ss' = ss\<lparr>seMutations := seMutations ss @ concat (map patchMutations ps)\<rparr>"
    using assms(1) by (auto simp: importPatches_def Let_def split: if_splits)
  moreover have "\<forall>m\<in>set (concat (map patchMutations ps)). mutationTyped m"
  proof -
    have "\<forall>p\<in>set ps. patchOK p" by (rule findPatches_OK [OF _ ps]) (rule assms(2))
    then show ?thesis using patchMutations_typed by auto
  qed
  ultimately show ?thesis using assms(3) by (auto simp: sessionOK_def)
qed

lemma importStatePatch_OK:
  assumes "importStatePatch params sv = (r, sv')" "serverOK sv"
  shows "serverOK sv'"
proof (cases "decodeSessionAndRequest statePatchImportRequestOf params sv")
  case (Inr d)
  obtain i ss req where d: "d = (i, ss, req)" by (cases d)
  have s: "sessionOK ss" "seID ss = i" using decodeSessionAndRequest_OK [OF assms(2), of statePatchImportRequestOf params i ss req] Inr d by simp_all
  show ?thesis
  proof (cases "importPatches (svPatches sv) req ss")
    case (Inr ss')
    have "sv' = putSession i ss' sv" using assms(1) Inr \<open>decodeSessionAndRequest _ _ _ = _\<close> d by (simp add: importStatePatch_def)
    moreover have "sessionOK ss' \<and> seID ss' = seID ss"
      by (rule importPatches_OK [OF Inr _ s(1)]) (rule serverOK_patch [OF assms(2)])
    ultimately show ?thesis using serverOK_putSession [OF assms(2)] s(2) by simp
  qed (use assms Inr d in \<open>simp add: importStatePatch_def\<close>)
qed (use assms in \<open>simp add: importStatePatch_def\<close>)

subsection \<open>Sequences\<close>

lemma startSequenceStep_OK:
  assumes "startSequenceStep E q index sv = Some (r, sv')" "serverRuns L C E" "serverOK sv"
  shows "serverOK sv'"
  using assms startCallSession_OK startReplaySession_OK [OF _ assms(2)]
  by (auto simp: startSequenceStep_def Let_def split: if_splits sum.splits)

lemma enterSequence_OK:
  assumes "enterSequence q (x, sv) = (r, sv')" "serverOK sv"
  shows "serverOK sv'"
  using assms by (auto simp: enterSequence_def Let_def split: reply.splits prod.splits)

lemma keepsOK_startSequence:
  assumes "serverRuns L C E"
  shows "keepsOK (startSequenceSession E params)"
proof (rule keepsOKI)
  fix sv r sv'
  assume ok: "serverOK sv" and run: "startSequenceSession E params sv = Some (r, sv')"
  show "serverOK sv'"
  proof (cases params)
    case (Cons v vs)
    show ?thesis
    proof (cases "sequenceStartRequestOf v")
      case (Inr req)
      let ?q = "newSequence (svSequenceID sv + 1) (normalizeCarryMode (sqStateCarry req)) (sqSteps req)"
      let ?sv = "sv\<lparr>svSequenceID := svSequenceID sv + 1\<rparr>"
      consider "sv' = sv" | x sv1 where "startSequenceStep E ?q 0 ?sv = Some (x, sv1)" "enterSequence ?q (x, sv1) = (r, sv')"
        using run by (auto simp: startSequenceSession_def Cons Inr Let_def split: if_splits)
      then show ?thesis
      proof cases
        case 2
        show ?thesis by (rule enterSequence_OK [OF 2(2) startSequenceStep_OK [OF 2(1) assms]]) (simp add: ok)
      qed (use ok in simp)
    qed (use run ok Cons in \<open>simp add: startSequenceSession_def\<close>)
  qed (use run ok in \<open>simp add: startSequenceSession_def\<close>)
qed

lemma carryPatch_OK:
  assumes "carryPatch q active sv = (r, q', sv')" "serverOK sv"
  shows "serverOK sv'"
  using assms exportStatePatch_OK by (auto simp: carryPatch_def split: if_splits prod.splits reply.splits)

lemma importCarried_OK:
  assumes "importCarried i ids sv = (r, sv')" "serverOK sv"
  shows "serverOK sv'"
  using assms importStatePatch_OK by (auto simp: importCarried_def split: if_splits prod.splits reply.splits)

lemma enterStepSession_OK:
  assumes "enterStepSession q n ids r sv = (x, sv')" "serverOK sv"
  shows "serverOK sv'"
  using assms importCarried_OK [OF _ assms(2)]
  by (auto simp: enterStepSession_def Let_def split: prod.splits reply.splits)

lemma stepAfter_OK:
  assumes run: "stepAfter E q active sv = Some (r, sv')" and E: "serverRuns L C E" and ok: "serverOK sv"
  shows "serverOK sv'"
proof -
  obtain x q1 sv1 where c: "carryPatch (q\<lparr>sqLastCompletedID := seID active\<rparr>) active sv = (x, q1, sv1)" by (metis surj_pair)
  have sv1: "serverOK (putSequence q1 sv1)" using carryPatch_OK [OF c ok] by simp
  from run consider "sv' = putSequence q1 sv1" | q2 where "sv' = putSequence q2 (putSequence q1 sv1)"
    | y sv2 n ids where "startSequenceStep E q1 n (putSequence q1 sv1) = Some (y, sv2)" "enterStepSession q1 n ids y sv2 = (r, sv')"
    by (auto simp: stepAfter_def c Let_def split: reply.splits if_splits prod.splits)
  then show ?thesis
  proof cases
    case 3
    show ?thesis by (rule enterStepSession_OK [OF 3(2) startSequenceStep_OK [OF 3(1) E sv1]])
  qed (use sv1 in simp_all)
qed

lemma keepsOK_nextStep:
  assumes "serverRuns L C E"
  shows "keepsOK (nextStepSession E params)"
  by (rule keepsOKI) (auto simp: nextStepSession_def split: sum.splits option.splits if_splits dest: stepAfter_OK [OF _ assms])

subsection \<open>All of them\<close>

lemma keepsOK_replies:
  "keepsOK (\<lambda>sv. Some (described (startCallSession params sv)))"
  "keepsOK (\<lambda>sv. Some (withReply enc1 (exportStatePatch params sv)))"
  "keepsOK (\<lambda>sv. Some (withReply enc2 (importStatePatch params sv)))"
  by (rule keepsOKI, auto simp: described_def withReply_def split: prod.splits
      dest: startCallSession_OK exportStatePatch_OK importStatePatch_OK)+

lemma keepsOK_startReplay:
  "serverRuns L C E \<Longrightarrow> keepsOK (\<lambda>sv. map_option described (startReplaySession E txh sv))"
  by (rule keepsOKI) (auto simp: described_def dest: startReplaySession_OK)

lemma keepsOK_configure: "keepsOK (handleConfigure params)"
proof (rule keepsOKI)
  fix sv r sv'
  assume ok: "serverOK sv" and run: "handleConfigure params sv = Some (r, sv')"
  show "serverOK sv'"
  proof (cases "decodeSessionAndRequest autoMatchConfigRequestOf params sv")
    case (Inr d)
    obtain i ss req where d: "d = (i, ss, req)" by (cases d)
    have "sessionOK ss" "seID ss = i" using decodeSessionAndRequest_OK [OF ok, of autoMatchConfigRequestOf params i ss req] Inr d by simp_all
    then have "sessionOK (configureAutoMatch req ss)" "seID (configureAutoMatch req ss) = i"
      by (simp_all add: sessionOK_def configureAutoMatch_def)
    then show ?thesis using run Inr d serverOK_putSession [OF ok] by (auto simp: handleConfigure_def)
  qed (use run ok in \<open>simp add: handleConfigure_def\<close>)
qed

lemma keepsOK_reader: "keepsOK (\<lambda>sv. Some (withReply enc (x, sv)))"
  by (simp add: keepsOK_def withReply_def)

lemma keepsOK_breakpoints:
  "keepsOK (changeSession sourceBreakpointRequestOf (pureChange (setBreakpoint newSourceBreakpoint)) params)"
  "keepsOK (changeSession functionBreakpointRequestOf (pureChange (setBreakpoint (newFunctionBreakpoint D))) params)"
  "keepsOK (changeSession callBreakpointRequestOf (pureChange (setBreakpoint (newCallBreakpoint D))) params)"
  "keepsOK (changeSession storageBreakpointRequestOf (pureChange (setBreakpoint newStorageBreakpoint)) params)"
  "keepsOK (changeSession memoryBreakpointRequestOf (pureChange (setBreakpoint newMemoryBreakpoint)) params)"
  by (rule keepsOK_setBreakpoint, erule newSourceBreakpoint_OK newFunctionBreakpoint_OK newCallBreakpoint_OK
      newStorageBreakpoint_OK newMemoryBreakpoint_OK)+

lemma keepsOK_writes:
  "keepsOK (changeSession deleteBreakpointRequestOf (pureChange deleteBreakpoint) params)"
  "keepsOK (changeSession writeStorageRequestOf (pureChange writeStorage) params)"
  "keepsOK (changeSession writeMemoryRequestOf (writeMemory lim) params)"
  by (rule keepsOK_pure, erule (1) deleteBreakpoint_OK) (rule keepsOK_pure, erule (1) writeStorage_OK,
      rule keepsOK_change, erule (1) writeMemory_OK)

lemma keepsOK_prod: "(\<And>a b. keepsOK (f a b)) \<Longrightarrow> keepsOK (case v of (a, b) \<Rightarrow> f a b)"
  "(\<And>a b c. keepsOK (g a b c)) \<Longrightarrow> keepsOK (case w of (a, b, c) \<Rightarrow> g a b c)"
  by (cases v, simp) (cases w, simp)

lemma handle_keepsOK:
  assumes "serverRuns L C E"
  shows "keepsOK (handle E m params)"
proof -
  have "handle E m params = (\<lambda>sv. handle E m params sv)" by simp
  then show ?thesis
    unfolding handle_def
    by (intro keepsOK_if keepsOK_breakpoints keepsOK_writes keepsOK_configure keepsOK_prod keepsOK_reader keepsOK_same keepsOK_param keepsOK_engine
        keepsOK_read keepsOK_load keepsOK_replies keepsOK_advance [OF assms] keepsOK_startReplay [OF assms]
        keepsOK_startSequence [OF assms] keepsOK_nextStep [OF assms])
qed

end
