(* ===== verification/DebugSequence.thy ===== *)
theory DebugSequence
  imports DebugKeep
begin

text \<open>
  Sequences of calls: as long as each session is run to its end, a sequence that carries nothing, or whose steps are on one block,
  is over after as many steps as it has. A carried patch is on the block of its session, so the first step on another block than
  the one before is refused. Then what one step hands to the next: the compacted writes of its patch.
\<close>

subsection \<open>The parts of a step\<close>

lemma mapErr_Inr_simp [simp]: "mapErr f (Inr x) = Inr x"
  by (simp add: mapErr_Inr)

lemma decodeStringParam_text [simp]: "decodeStringParam [AnyString i] = Inr i"
  by (simp add: decodeStringParam_def decodeText_def)

lemma patchScope_all: "patchScope [v, AnyMap [(''scope'', AnyString ''all'')]] = Inr ''all''"
proof -
  have "statePatchExportRequestOf (AnyMap [(''scope'', AnyString ''all'')]) = Inr \<lparr>pxScope = ''all''\<rparr>" by code_simp
  moreover have "ToLower (TrimSpace ''all'') = ''all''" "isSupportedPatchScope ''all''" by code_simp+
  ultimately show ?thesis by (simp add: patchScope_def Let_def)
qed

lemma import_request: "statePatchImportRequestOf (AnyMap [(''merge'', AnyString ''append''), (''patches'', AnyList (map AnyString ids))]) =
    Inr \<lparr>piPatches = ids, piMerge = ''append''\<rparr>"
proof -
  have k: "ToLower ''merge'' = ''merge''" "ToLower ''patches'' = ''patches''" by code_simp+
  have "decodeItems decodeText (map AnyString ids) = Inr ids" by (induction ids) (simp_all add: decodeText_def)
  then show ?thesis by (simp add: statePatchImportRequestOf_def decodeObject_def k textField_def listField_def)
qed

lemma exportStatePatch_all:
  assumes "map_of (svSessions sv) i = Some ss"
  shows "exportStatePatch [AnyString i, AnyMap [(''scope'', AnyString ''all'')]] sv =
    (let n = svPatchID sv + 1; p = patchOf (''patch-'' @ showU64 n) ''all'' ss
     in (Done p, sv\<lparr>svPatchID := n, svPatches := mput (paID p) (cloneStatePatch p) (svPatches sv)\<rparr>))"
  using assms by (simp add: exportStatePatch_def decodeSessionOnly_def lookupSession_def patchScope_all)

lemma fold_exportMutation_frame:
  "paID (fold (exportMutation scope) ms p) = paID p \<and> paBaseBlock (fold (exportMutation scope) ms p) = paBaseBlock p"
  by (induction ms arbitrary: p) (simp_all add: exportMutation_def)

lemma patchOf_frame [simp]: "paID (patchOf i scope ss) = i" "paBaseBlock (patchOf i scope ss) = sessionBaseBlock ss"
  by (simp_all add: patchOf_def compactPatchWrites_def fold_exportMutation_frame)

lemma importStatePatch_one:
  assumes ss: "map_of (svSessions sv) i = Some ss" "sePosition ss < 0" and p: "map_of (svPatches sv) k = Some p"
    and base: "paBaseBlock p = sessionBaseBlock ss"
  shows "importCarried i [k] sv = (Done (), putSession i (ss\<lparr>seMutations := seMutations ss @ patchMutations p\<rparr>) sv)"
proof -
  have m: "ToLower (TrimSpace ''append'') = ''append''" by code_simp
  have "importPatches (svPatches sv) \<lparr>piPatches = [k], piMerge = ''append''\<rparr> ss = Inr (ss\<lparr>seMutations := seMutations ss @ patchMutations p\<rparr>)"
    using ss(2) p base by (simp add: importPatches_def m Let_def cloneStatePatch_id)
  then show ?thesis
    using ss(1) import_request [of "[k]"] by (simp add: importCarried_def importStatePatch_def decodeSessionAndRequest_def lookupSession_def)
qed

subsection \<open>One step\<close>

text \<open>The sequence \<open>i\<close> of the server is at its step \<open>k\<close>, whose session is \<open>ss\<close>.\<close>

definition sequenceAt :: "Server \<Rightarrow> string \<Rightarrow> nat \<Rightarrow> SequenceSession \<Rightarrow> ReplaySession \<Rightarrow> bool" where
  "sequenceAt sv i k q ss \<longleftrightarrow>
     map_of (svSequences sv) i = Some q \<and> sqID q = i \<and> \<not> sqDone q \<and> sqCurrentStepIndex q = int k \<and>
     sqActiveSessionID q = seID ss \<and> seID ss \<noteq> [] \<and> map_of (svSessions sv) (seID ss) = Some ss"

text \<open>A call step whose parameters decode, and the block its session is on.\<close>

definition stepReady :: "SequenceStepSpec \<Rightarrow> bool" where
  "stepReady st \<longleftrightarrow> stpKind st = ''call'' \<and> (case decodeEthCall (encodeSequenceCallParams st) of Inl e \<Rightarrow> False | Inr c \<Rightarrow> True)"

definition stepBase :: "SequenceStepSpec \<Rightarrow> string" where
  "stepBase st = (case decodeEthCall (encodeSequenceCallParams st) of Inl e \<Rightarrow> [] | Inr c \<Rightarrow> CacheKey (crBlock c))"

lemma stepBase_keyed: "stepReady st \<Longrightarrow> stepBase st \<noteq> [] \<and> stepBase st \<noteq> ''latest''"
  by (auto simp: stepReady_def stepBase_def CacheKey_def split: sum.splits option.split)

lemma startCall_ready:
  assumes "k < length (sqStepSpecs q)" "stepReady (sqStepSpecs q ! k)"
  obtains j c sv' where "startSequenceStep E q (int k) sv = Some (Done (j, callSession j c), sv')"
    "CacheKey (crBlock c) = stepBase (sqStepSpecs q ! k)" "j \<noteq> []"
    "map_of (svSessions sv') j = Some (callSession j c)" "svPatches sv' = svPatches sv" "svSequences sv' = svSequences sv"
proof -
  obtain c where "startSequenceStep E q (int k) sv = Some (startCallSession (encodeSequenceCallParams (sqStepSpecs q ! k)) sv)"
      "decodeEthCall (encodeSequenceCallParams (sqStepSpecs q ! k)) = Inr c" "CacheKey (crBlock c) = stepBase (sqStepSpecs q ! k)"
    using assms by (auto simp: startSequenceStep_def stepReady_def stepBase_def split: sum.splits)
  then show thesis
    by (intro that [of "''call-'' @ showU64 (svSessionID sv + 1)" c "snd (startCallSession (encodeSequenceCallParams (sqStepSpecs q ! k)) sv)"])
      (simp_all add: startCallSession_def Let_def putSession_def)
qed

lemma callSession_simps [simp]:
  "seID (callSession j c) = j" "sePosition (callSession j c) = -1" "seMutations (callSession j c) = []"
  "seCallRequest (callSession j c) = Some c" "seDone (callSession j c) = False" "sessionBaseBlock (callSession j c) = CacheKey (crBlock c)"
  by (simp_all add: callSession_def newSession_def sessionBaseBlock_def)

text \<open>What the session of a step takes over: nothing, or the patch of the session before it.\<close>

definition carriedMutations :: "SequenceSession \<Rightarrow> ReplaySession \<Rightarrow> ReplayMutation list" where
  "carriedMutations q ss = (if sqCarry q = ''none'' then [] else patchMutations (patchOf [] ''all'' ss))"

lemma patchMutations_ID: "patchMutations (patchOf i scope ss) = patchMutations (patchOf j scope ss)"
proof -
  have one: "exportMutation scope m (p\<lparr>paID := j\<rparr>) = (exportMutation scope m p)\<lparr>paID := j\<rparr>" for m and p :: StatePatch
    by (simp add: exportMutation_def)
  have "fold (exportMutation scope) ms (p\<lparr>paID := j\<rparr>) = (fold (exportMutation scope) ms p)\<lparr>paID := j\<rparr>" for ms and p :: StatePatch
    by (induction ms arbitrary: p) (simp_all add: one)
  from this [of "seMutations ss" "\<lparr>paID = i, paBaseBlock = sessionBaseBlock ss, paStepIndex = patchStepIndex ss,
      paStorageWrites = [], paTransientWrites = [], paMemoryWrites = [], paMetadata = [(''originSession'', seID ss), (''scope'', scope)]\<rparr>"]
  show ?thesis by (simp add: patchOf_def compactPatchWrites_def patchMutations_def)
qed

lemma carryPatch_done:
  assumes "map_of (svSessions sv) (seID ss) = Some ss"
  obtains ids q' sv' where "carryPatch q ss sv = (Done ids, q', sv')" "svSessions sv' = svSessions sv" "svSessionID sv' = svSessionID sv"
    "svSequences sv' = svSequences sv" "sqID q' = sqID q" "sqStepSpecs q' = sqStepSpecs q" "sqDone q' = sqDone q" "sqCarry q' = sqCarry q"
    "sqCurrentStepIndex q' = sqCurrentStepIndex q"
    "ids = [] \<and> sqCarry q = ''none'' \<or>
     (\<exists>pid. ids = [pid] \<and> sqCarry q \<noteq> ''none'' \<and> map_of (svPatches sv') pid = Some (patchOf pid ''all'' ss))"
proof (cases "sqCarry q = ''none''")
  case True
  then show thesis using that [of "[]" q sv] by (simp add: carryPatch_def)
next
  case False
  let ?n = "svPatchID sv + 1"
  let ?i = "''patch-'' @ showU64 ?n"
  show thesis
    by (rule that [of "[?i]" "q\<lparr>sqExportedPatchIDs := sqExportedPatchIDs q @ [?i]\<rparr>"
          "sv\<lparr>svPatchID := ?n, svPatches := mput ?i (patchOf ?i ''all'' ss) (svPatches sv)\<rparr>"])
      (use False in \<open>simp_all add: carryPatch_def exportStatePatch_all [OF assms] Let_def cloneStatePatch_id\<close>)
qed

lemma importCarried_done:
  assumes at: "map_of (svSessions sv) j = Some (callSession j c)" and base: "sqCarry q = ''none'' \<or> CacheKey (crBlock c) = sessionBaseBlock ss"
    and ids: "ids = [] \<and> sqCarry q = ''none'' \<or>
      (\<exists>pid. ids = [pid] \<and> sqCarry q \<noteq> ''none'' \<and> map_of (svPatches sv) pid = Some (patchOf pid ''all'' ss))"
  obtains sv' where "importCarried j ids sv = (Done (), sv')" "svSequences sv' = svSequences sv"
    "map_of (svSessions sv') j = Some ((callSession j c)\<lparr>seMutations := carriedMutations q ss\<rparr>)"
proof -
  consider (none) "ids = []" "sqCarry q = ''none''"
    | (one) pid where "ids = [pid]" "sqCarry q \<noteq> ''none''" "map_of (svPatches sv) pid = Some (patchOf pid ''all'' ss)" using ids by blast
  then show thesis
  proof cases
    case none
    have same: "(callSession j c)\<lparr>seMutations := []\<rparr> = callSession j c" by (simp add: callSession_def newSession_def)
    show thesis by (rule that [of sv]) (use none at in \<open>simp_all add: importCarried_def carriedMutations_def same\<close>)
  next
    case one
    have "importCarried j [pid] sv = (Done (), putSession j ((callSession j c)\<lparr>seMutations := [] @ patchMutations (patchOf pid ''all'' ss)\<rparr>) sv)"
      using importStatePatch_one [OF at _ one(3)] base one(2) by simp
    then show thesis
      by (intro that [of "putSession j ((callSession j c)\<lparr>seMutations := carriedMutations q ss\<rparr>) sv"])
        (simp_all add: one(1,2) carriedMutations_def putSession_def patchMutations_ID [of pid _ _ "[]"])
  qed
qed

lemma nextStepSession_at:
  assumes "sequenceAt sv i k q ss" "seDone ss"
  shows "nextStepSession E [AnyString i] sv = stepAfter E q ss sv"
  using assms by (auto simp: nextStepSession_def sequenceAt_def)

lemma nextStep_last:
  assumes at: "sequenceAt sv i k q ss" "seDone ss" and "k + 1 = length (sqStepSpecs q)"
  shows "\<exists>v sv' q'. nextStepSession E [AnyString i] sv = Some (Done v, sv') \<and> map_of (svSequences sv') i = Some q' \<and> sqDone q'"
proof -
  have ss: "map_of (svSessions sv) (seID ss) = Some ss" and q: "sqCurrentStepIndex q = int k" "sqID q = i" using at by (simp_all add: sequenceAt_def)
  obtain ids q' sv' where c: "carryPatch (q\<lparr>sqLastCompletedID := seID ss\<rparr>) ss sv = (Done ids, q', sv')" "sqID q' = sqID q"
      "sqStepSpecs q' = sqStepSpecs q" "sqCurrentStepIndex q' = sqCurrentStepIndex q"
    by (rule carryPatch_done [OF ss, of "q\<lparr>sqLastCompletedID := seID ss\<rparr>"]) auto
  have "int k + 1 \<ge> int (length (sqStepSpecs q))" using assms(3) by linarith
  then show ?thesis
    by (simp add: nextStepSession_at [OF at] stepAfter_def c Let_def q putSequence_def)
qed

lemma nextStep_next:
  assumes at: "sequenceAt sv i k q ss" "seDone ss" and k: "k + 1 < length (sqStepSpecs q)"
    and ready: "stepReady (sqStepSpecs q ! (k + 1))" and base: "sqCarry q = ''none'' \<or> stepBase (sqStepSpecs q ! (k + 1)) = sessionBaseBlock ss"
  shows "\<exists>v sv' q' ss'. nextStepSession E [AnyString i] sv = Some (Done v, sv') \<and> sequenceAt sv' i (k + 1) q' ss' \<and>
    sqStepSpecs q' = sqStepSpecs q \<and> sqCarry q' = sqCarry q \<and> sessionBaseBlock ss' = stepBase (sqStepSpecs q ! (k + 1)) \<and>
    seMutations ss' = carriedMutations q ss"
proof -
  let ?q = "q\<lparr>sqLastCompletedID := seID ss\<rparr>"
  have ss: "map_of (svSessions sv) (seID ss) = Some ss" and q: "sqCurrentStepIndex q = int k" "sqID q = i" "\<not> sqDone q"
    using at by (simp_all add: sequenceAt_def)
  obtain ids q' sv1 where c: "carryPatch ?q ss sv = (Done ids, q', sv1)" "sqID q' = sqID q" "sqDone q' = sqDone q"
      "sqStepSpecs q' = sqStepSpecs q" "sqCurrentStepIndex q' = sqCurrentStepIndex q" "sqCarry q' = sqCarry q"
      "ids = [] \<and> sqCarry q = ''none'' \<or> (\<exists>pid. ids = [pid] \<and> sqCarry q \<noteq> ''none'' \<and> map_of (svPatches sv1) pid = Some (patchOf pid ''all'' ss))"
    by (rule carryPatch_done [OF ss, of ?q]) auto
  obtain j r sv2 where r: "startSequenceStep E q' (int (k + 1)) (putSequence q' sv1) = Some (Done (j, callSession j r), sv2)"
      "CacheKey (crBlock r) = stepBase (sqStepSpecs q ! (k + 1))" "j \<noteq> []" "map_of (svSessions sv2) j = Some (callSession j r)"
      "svPatches sv2 = svPatches sv1"
    by (rule startCall_ready [of "k + 1" q' E "putSequence q' sv1"]) (use k ready in \<open>simp_all add: c putSequence_def\<close>)
  obtain sv3 where imp: "importCarried j ids sv2 = (Done (), sv3)" "map_of (svSessions sv3) j = Some ((callSession j r)\<lparr>seMutations := carriedMutations q ss\<rparr>)"
    by (rule importCarried_done [of sv2 j r q ss ids]) (use r c(7) base in simp_all)
  let ?q' = "q'\<lparr>sqCurrentStepIndex := int k + 1, sqActiveSessionID := j\<rparr>"
  have "\<not> int k + 1 \<ge> int (length (sqStepSpecs q))" using k by linarith
  moreover have "startSequenceStep E q' (int k + 1) (putSequence q' sv1) = Some (Done (j, callSession j r), sv2)"
    using r(1) by (simp add: add.commute)
  ultimately have step: "nextStepSession E [AnyString i] sv = Some (Done (describeSequence (putSequence ?q' sv3) ?q'), putSequence ?q' sv3)"
    by (simp add: nextStepSession_at [OF at] stepAfter_def c q(1) Let_def enterStepSession_def imp(1))
  have "sequenceAt (putSequence ?q' sv3) i (k + 1) ?q' ((callSession j r)\<lparr>seMutations := carriedMutations q ss\<rparr>)"
    by (simp add: sequenceAt_def putSequence_def c q imp(2) r(3))
  moreover have "sessionBaseBlock ((callSession j r)\<lparr>seMutations := carriedMutations q ss\<rparr>) = stepBase (sqStepSpecs q ! (k + 1))"
    using r(2) callSession_simps(6) [of j r] by (simp add: sessionBaseBlock_def)
  ultimately show ?thesis using step by (intro exI conjI) (assumption | simp add: c)+
qed

text \<open>The carried patch of a session on another block is refused, and the sequence stays where it is.\<close>

lemma importCarried_refused:
  assumes at: "map_of (svSessions sv) j = Some (callSession j c)" and p: "map_of (svPatches sv) k = Some p"
    and base: "paBaseBlock p \<noteq> CacheKey (crBlock c)" "paBaseBlock p \<noteq> []" "paBaseBlock p \<noteq> ''latest''" "CacheKey (crBlock c) \<noteq> []"
  shows "\<exists>e. importCarried j [k] sv = (Refused e, sv) \<and> reCode e = -32602 \<and>
    map_of (reData e) ''reason'' = Some (AnyString ''PATCH_BASE_MISMATCH'')"
proof -
  have m: "ToLower (TrimSpace ''append'') = ''append''" by code_simp
  show ?thesis
    using at p base import_request [of "[k]"]
    by (simp add: importCarried_def importStatePatch_def decodeSessionAndRequest_def lookupSession_def importPatches_def m Let_def
        cloneStatePatch_id refusal_def)
qed

lemma nextStep_refused:
  assumes at: "sequenceAt sv i k q ss" "seDone ss" and k: "k + 1 < length (sqStepSpecs q)"
    and ready: "stepReady (sqStepSpecs q ! (k + 1))" "sessionBaseBlock ss \<noteq> []" "sessionBaseBlock ss \<noteq> ''latest''"
    and other: "sqCarry q \<noteq> ''none''" "stepBase (sqStepSpecs q ! (k + 1)) \<noteq> sessionBaseBlock ss"
  shows "\<exists>e sv' q'. nextStepSession E [AnyString i] sv = Some (Refused e, sv') \<and> reCode e = -32602 \<and>
    map_of (reData e) ''reason'' = Some (AnyString ''PATCH_BASE_MISMATCH'') \<and>
    map_of (svSequences sv') i = Some q' \<and> sqCurrentStepIndex q' = int k \<and> \<not> sqDone q'"
proof -
  let ?q = "q\<lparr>sqLastCompletedID := seID ss\<rparr>"
  have ss: "map_of (svSessions sv) (seID ss) = Some ss" and q: "sqCurrentStepIndex q = int k" "sqID q = i" "\<not> sqDone q"
    using at by (simp_all add: sequenceAt_def)
  obtain ids q' sv1 where c: "carryPatch ?q ss sv = (Done ids, q', sv1)" "sqID q' = sqID q" "sqDone q' = sqDone q"
      "sqStepSpecs q' = sqStepSpecs q" "sqCurrentStepIndex q' = sqCurrentStepIndex q"
      "ids = [] \<and> sqCarry q = ''none'' \<or> (\<exists>pid. ids = [pid] \<and> sqCarry q \<noteq> ''none'' \<and> map_of (svPatches sv1) pid = Some (patchOf pid ''all'' ss))"
    by (rule carryPatch_done [OF ss, of ?q]) auto
  obtain pid where pid: "ids = [pid]" "map_of (svPatches sv1) pid = Some (patchOf pid ''all'' ss)" using c(6) other(1) by auto
  obtain j r sv2 where r: "startSequenceStep E q' (int (k + 1)) (putSequence q' sv1) = Some (Done (j, callSession j r), sv2)"
      "CacheKey (crBlock r) = stepBase (sqStepSpecs q ! (k + 1))" "map_of (svSessions sv2) j = Some (callSession j r)"
      "svPatches sv2 = svPatches sv1" "svSequences sv2 = svSequences (putSequence q' sv1)"
    by (rule startCall_ready [of "k + 1" q' E "putSequence q' sv1"]) (use k ready(1) in \<open>simp_all add: c putSequence_def\<close>)
  obtain e where e: "importCarried j ids sv2 = (Refused e, sv2)" "reCode e = -32602"
      "map_of (reData e) ''reason'' = Some (AnyString ''PATCH_BASE_MISMATCH'')"
    using importCarried_refused [OF r(3), of pid "patchOf pid ''all'' ss"] pid ready(2,3) other(2) stepBase_keyed [OF ready(1)]
    by (auto simp: r(2,4))
  have "\<not> int k + 1 \<ge> int (length (sqStepSpecs q))" using k by linarith
  moreover have "startSequenceStep E q' (int k + 1) (putSequence q' sv1) = Some (Done (j, callSession j r), sv2)"
    using r(1) by (simp add: add.commute)
  ultimately have "nextStepSession E [AnyString i] sv = Some (Refused e, sv2)"
    by (simp add: nextStepSession_at [OF at] stepAfter_def c q(1) Let_def enterStepSession_def e(1))
  then show ?thesis using e(2,3) by (simp add: r(5) putSequence_def c q)
qed

subsection \<open>A whole sequence\<close>

text \<open>What a client does: it brings the session of the step to its end, \<open>finish\<close> being what that makes of the session, and
  asks for the next one; \<open>n\<close> times.\<close>

definition playStep :: "ServerEnv \<Rightarrow> (ReplaySession \<Rightarrow> ReplaySession) \<Rightarrow> string \<Rightarrow> handler" where
  "playStep E finish i sv =
     (case Option.bind (map_of (svSequences sv) i) (\<lambda>q. map_of (svSessions sv) (sqActiveSessionID q)) of
        None \<Rightarrow> None
      | Some ss \<Rightarrow> nextStepSession E [AnyString i] (putSession (seID ss) (finish ss) sv))"

fun playSequence :: "ServerEnv \<Rightarrow> (ReplaySession \<Rightarrow> ReplaySession) \<Rightarrow> string \<Rightarrow> nat \<Rightarrow> Server \<Rightarrow> Server option" where
  "playSequence E finish i 0 sv = Some sv"
| "playSequence E finish i (Suc n) sv =
     (case playStep E finish i sv of Some (Done v, sv) \<Rightarrow> playSequence E finish i n sv | _ \<Rightarrow> None)"

lemma playSequence_Suc_last:
  "playSequence E finish i n sv = Some sv1 \<Longrightarrow> playStep E finish i sv1 = Some (Done v, sv2) \<Longrightarrow> playSequence E finish i (Suc n) sv = Some sv2"
proof (induction n arbitrary: sv)
  case (Suc n)
  then obtain u sv' where one: "playStep E finish i sv = Some (Done u, sv')" "playSequence E finish i n sv' = Some sv1"
    by (auto split: option.splits reply.splits)
  from Suc.IH [OF one(2) Suc.prems(2)] show ?case
    unfolding playSequence.simps(2) [of E finish i "Suc n" sv] by (simp add: one(1) del: playSequence.simps)
qed simp

text \<open>Running a session to its end changes neither its name nor its request.\<close>

definition endsSession :: "(ReplaySession \<Rightarrow> ReplaySession) \<Rightarrow> bool" where
  "endsSession finish \<longleftrightarrow> (\<forall>ss. seDone (finish ss) \<and> seID (finish ss) = seID ss \<and> seCallRequest (finish ss) = seCallRequest ss)"

text \<open>A session of the sequence on the block of its step; after its run it still is.\<close>

definition playedTo :: "Server \<Rightarrow> string \<Rightarrow> nat \<Rightarrow> SequenceSession \<Rightarrow> ReplaySession \<Rightarrow> bool" where
  "playedTo sv i k q ss \<longleftrightarrow> sequenceAt sv i k q ss \<and> k < length (sqStepSpecs q) \<and> (\<forall>st\<in>set (sqStepSpecs q). stepReady st) \<and>
     sessionBaseBlock ss = stepBase (sqStepSpecs q ! k)"

lemma playedTo_finish:
  assumes "endsSession finish" "playedTo sv i k q ss"
  shows "playedTo (putSession (seID ss) (finish ss) sv) i k q (finish ss)" "seDone (finish ss)"
    "playStep E finish i sv = nextStepSession E [AnyString i] (putSession (seID ss) (finish ss) sv)"
  using assms by (simp_all add: playedTo_def sequenceAt_def endsSession_def putSession_def sessionBaseBlock_def playStep_def)

lemma playStep_next:
  assumes "endsSession finish" "playedTo sv i k q ss" "k + 1 < length (sqStepSpecs q)"
    "sqCarry q = ''none'' \<or> stepBase (sqStepSpecs q ! k) = stepBase (sqStepSpecs q ! (k + 1))"
  shows "\<exists>v sv' q' ss'. playStep E finish i sv = Some (Done v, sv') \<and> playedTo sv' i (k + 1) q' ss' \<and>
    sqStepSpecs q' = sqStepSpecs q \<and> sqCarry q' = sqCarry q"
proof -
  note f = playedTo_finish [OF assms(1,2)]
  have "stepReady (sqStepSpecs q ! (k + 1))" using assms(2,3) by (auto simp: playedTo_def)
  with nextStep_next [of _ i k q "finish ss" E] f assms(3,4) show ?thesis by (fastforce simp: playedTo_def)
qed

lemma playStep_refused:
  assumes "endsSession finish" "playedTo sv i k q ss" "k + 1 < length (sqStepSpecs q)"
    "sqCarry q \<noteq> ''none''" "stepBase (sqStepSpecs q ! k) \<noteq> stepBase (sqStepSpecs q ! (k + 1))"
  shows "\<exists>e sv' q'. playStep E finish i sv = Some (Refused e, sv') \<and> reCode e = -32602 \<and>
    map_of (reData e) ''reason'' = Some (AnyString ''PATCH_BASE_MISMATCH'') \<and>
    map_of (svSequences sv') i = Some q' \<and> sqCurrentStepIndex q' = int k \<and> \<not> sqDone q'"
proof -
  note f = playedTo_finish [OF assms(1,2)]
  have ready: "stepReady (sqStepSpecs q ! (k + 1))" "stepReady (sqStepSpecs q ! k)" using assms(2,3) by (auto simp: playedTo_def)
  show ?thesis
    unfolding f(3) by (rule nextStep_refused) (use f(1,2) assms(3-5) ready stepBase_keyed [OF ready(2)] in \<open>auto simp: playedTo_def\<close>)
qed

lemma playStep_last:
  assumes "endsSession finish" "playedTo sv i k q ss" "k + 1 = length (sqStepSpecs q)"
  shows "\<exists>v sv' q'. playStep E finish i sv = Some (Done v, sv') \<and> map_of (svSequences sv') i = Some q' \<and> sqDone q'"
  using nextStep_last [of _ i k q "finish ss" E] playedTo_finish [OF assms(1,2)] assms(3) by (auto simp: playedTo_def)

lemma playSequence_reaches:
  assumes "endsSession finish" "playedTo sv i 0 q ss" "n < length (sqStepSpecs q)"
    "sqCarry q = ''none'' \<or> (\<forall>j<n. stepBase (sqStepSpecs q ! j) = stepBase (sqStepSpecs q ! (j + 1)))"
  shows "\<exists>sv' q' ss'. playSequence E finish i n sv = Some sv' \<and> playedTo sv' i n q' ss' \<and> sqStepSpecs q' = sqStepSpecs q \<and> sqCarry q' = sqCarry q"
  using assms(3,4)
proof (induction n)
  case 0
  show ?case using assms(2) by auto
next
  case (Suc n)
  then obtain sv' q' ss' where at: "playSequence E finish i n sv = Some sv'" "playedTo sv' i n q' ss'" "sqStepSpecs q' = sqStepSpecs q"
      "sqCarry q' = sqCarry q" by auto
  obtain v sv'' q'' ss'' where "playStep E finish i sv' = Some (Done v, sv'')" "playedTo sv'' i (Suc n) q'' ss''"
      "sqStepSpecs q'' = sqStepSpecs q" "sqCarry q'' = sqCarry q"
    using playStep_next [OF assms(1) at(2), of E] Suc.prems at(3,4) by auto
  with playSequence_Suc_last [OF at(1)] show ?case by blast
qed

text \<open>The last step that is on the block of the first one, if another one comes behind it.\<close>

definition firstChange :: "string list \<Rightarrow> nat option" where
  "firstChange bs = find (\<lambda>k. bs ! k \<noteq> bs ! (k + 1)) [0..<length bs - 1]"

lemma firstChange_None: "firstChange bs = None \<longleftrightarrow> (\<forall>k<length bs - 1. bs ! k = bs ! (k + 1))"
  by (simp add: firstChange_def find_None_iff Ball_def)

lemma firstChange_Some:
  assumes "firstChange bs = Some k"
  shows "k + 1 < length bs" "bs ! k \<noteq> bs ! (k + 1)" "\<forall>j<k. bs ! j = bs ! (j + 1)"
  using assms by (auto simp: firstChange_def find_Some_iff simp del: One_nat_def)

definition carriesTo :: "string \<Rightarrow> SequenceStepSpec list \<Rightarrow> nat option" where
  "carriesTo carry specs = (if carry = ''none'' then None else firstChange (map stepBase specs))"

lemma carriesTo_cases:
  assumes "specs \<noteq> []"
  shows "(case carriesTo carry specs of
       None \<Rightarrow> carry = ''none'' \<or> (\<forall>j<length specs - 1. stepBase (specs ! j) = stepBase (specs ! (j + 1)))
     | Some k \<Rightarrow> carry \<noteq> ''none'' \<and> k + 1 < length specs \<and> stepBase (specs ! k) \<noteq> stepBase (specs ! (k + 1)) \<and>
         (\<forall>j<k. stepBase (specs ! j) = stepBase (specs ! (j + 1))))"
proof (cases "carriesTo carry specs")
  case None
  then show ?thesis by (auto simp: carriesTo_def firstChange_None split: if_splits)
next
  case (Some k)
  then have c: "carry \<noteq> ''none''" "firstChange (map stepBase specs) = Some k" by (auto simp: carriesTo_def split: if_splits)
  note k = firstChange_Some [OF c(2)]
  have "\<forall>j<k. stepBase (specs ! j) = stepBase (specs ! (j + 1))"
  proof (intro allI impI)
    fix j assume "j < k"
    then show "stepBase (specs ! j) = stepBase (specs ! (j + 1))" using k(1) k(3) [rule_format, of j] by simp
  qed
  then show ?thesis using Some c k(1,2) by simp
qed

lemma playSequence_outcome:
  assumes "endsSession finish" "playedTo sv i 0 q ss"
  shows "(case carriesTo (sqCarry q) (sqStepSpecs q) of
       None \<Rightarrow> (\<exists>sv' q'. playSequence E finish i (length (sqStepSpecs q)) sv = Some sv' \<and> map_of (svSequences sv') i = Some q' \<and> sqDone q')
     | Some k \<Rightarrow> (\<exists>sv' e sv'' q'. playSequence E finish i k sv = Some sv' \<and> playStep E finish i sv' = Some (Refused e, sv'') \<and>
         reCode e = -32602 \<and> map_of (reData e) ''reason'' = Some (AnyString ''PATCH_BASE_MISMATCH'') \<and>
         map_of (svSequences sv'') i = Some q' \<and> sqCurrentStepIndex q' = int k \<and> \<not> sqDone q'))"
proof -
  have some: "sqStepSpecs q \<noteq> []" using assms(2) by (auto simp: playedTo_def)
  show ?thesis
  proof (cases "carriesTo (sqCarry q) (sqStepSpecs q)")
    case None
    then have n: "length (sqStepSpecs q) - 1 < length (sqStepSpecs q)"
      and same: "sqCarry q = ''none'' \<or> (\<forall>j<length (sqStepSpecs q) - 1. stepBase (sqStepSpecs q ! j) = stepBase (sqStepSpecs q ! (j + 1)))"
      using carriesTo_cases [OF some, of "sqCarry q"] some by simp_all
    obtain sv' q' ss' where at: "playSequence E finish i (length (sqStepSpecs q) - 1) sv = Some sv'"
        "playedTo sv' i (length (sqStepSpecs q) - 1) q' ss'" "sqStepSpecs q' = sqStepSpecs q"
      using playSequence_reaches [OF assms n same, of E] by auto
    have l: "length (sqStepSpecs q) - 1 + 1 = length (sqStepSpecs q')" "Suc (length (sqStepSpecs q) - 1) = length (sqStepSpecs q)"
      using n at(3) by simp_all
    from playStep_last [OF assms(1) at(2) l(1), of E] playSequence_Suc_last [OF at(1)] show ?thesis
      unfolding None l(2) by (auto simp del: playSequence.simps)
  next
    case (Some k)
    then have k: "sqCarry q \<noteq> ''none''" "k + 1 < length (sqStepSpecs q)" "k < length (sqStepSpecs q)"
        "stepBase (sqStepSpecs q ! k) \<noteq> stepBase (sqStepSpecs q ! (k + 1))"
      and same: "sqCarry q = ''none'' \<or> (\<forall>j<k. stepBase (sqStepSpecs q ! j) = stepBase (sqStepSpecs q ! (j + 1)))"
      using carriesTo_cases [OF some, of "sqCarry q"] by simp_all
    obtain sv' q' ss' where at: "playSequence E finish i k sv = Some sv'" "playedTo sv' i k q' ss'" "sqStepSpecs q' = sqStepSpecs q"
        "sqCarry q' = sqCarry q"
      using playSequence_reaches [OF assms k(3) same, of E] by auto
    from playStep_refused [OF assms(1) at(2), of E] at(1,3,4) k show ?thesis unfolding Some by auto
  qed
qed

lemma startSequence_at:
  assumes v: "sequenceStartRequestOf v = Inr req" and carry: "normalizeCarryMode (sqStateCarry req) \<noteq> []"
    and specs: "sqSteps req \<noteq> []" and ready: "\<forall>st\<in>set (normalizeSequenceSteps (sqSteps req)). stepReady st"
  shows "\<exists>sv' q ss x xs y. startSequenceSession E [v] sv = Some (Done (RvSequence q x xs y), sv') \<and> playedTo sv' (sqID q) 0 q ss \<and>
    sqStepSpecs q = normalizeSequenceSteps (sqSteps req) \<and> (sqCarry q = ''none'' \<longleftrightarrow> normalizeCarryMode (sqStateCarry req) = ''none'')"
proof -
  let ?n = "svSequenceID sv + 1"
  let ?q = "newSequence ?n (normalizeCarryMode (sqStateCarry req)) (sqSteps req)"
  have q: "sqStepSpecs ?q = normalizeSequenceSteps (sqSteps req)" "sqID ?q = ''sequence-'' @ showU64 ?n" "\<not> sqDone ?q" "sqCurrentStepIndex ?q = 0"
    "sqCarry ?q = ''none'' \<longleftrightarrow> normalizeCarryMode (sqStateCarry req) = ''none''"
    by (simp_all add: newSequence_def)
  have l: "0 < length (sqStepSpecs ?q)" using specs q(1) by (simp add: normalizeSequenceSteps_def)
  moreover from this have "stepReady (sqStepSpecs ?q ! 0)" using ready unfolding q(1) by simp
  ultimately obtain j c sv' where r: "startSequenceStep E ?q (int 0) (sv\<lparr>svSequenceID := ?n\<rparr>) = Some (Done (j, callSession j c), sv')"
      "CacheKey (crBlock c) = stepBase (sqStepSpecs ?q ! 0)" "j \<noteq> []" "map_of (svSessions sv') j = Some (callSession j c)"
    by (rule startCall_ready)
  let ?q' = "?q\<lparr>sqActiveSessionID := j\<rparr>"
  have "startSequenceSession E [v] sv = Some (Done (describeSequence (putSequence ?q' sv') ?q'), putSequence ?q' sv')"
    using carry specs r(1) by (simp add: startSequenceSession_def v Let_def enterSequence_def)
  moreover have "sequenceAt (putSequence ?q' sv') (sqID ?q') 0 ?q' (callSession j c)"
    using r by (simp add: sequenceAt_def putSequence_def q)
  then have "playedTo (putSequence ?q' sv') (sqID ?q') 0 ?q' (callSession j c)"
    using r(2) l ready by (simp add: playedTo_def q(1))
  ultimately show ?thesis using q(1,5) by (auto simp: describeSequence_def)
qed

end
