(* ===== verification/DebugUse.thy ===== *)
theory DebugUse
  imports DebugSequence
begin

text \<open>
  What the writes of a debugging session do: to the next run, to the reader of the memory, and, carried by a patch, to another
  session. Then what the program counters of a source breakpoint are.
\<close>

subsection \<open>A write to storage\<close>

lemma scope_texts: "scopePersistent = ''storage''" "scopeTransient = ''transient''"
  by (simp_all add: scopePersistent_def scopeTransient_def)

lemma applyMutations_append:
  "applyMutations lim i (ms @ ms') s =
     (case applyMutations lim i ms s of (Ok _, s1) \<Rightarrow> applyMutations lim i ms' s1 | (r, s1) \<Rightarrow> (r, s1))"
  by (induction ms arbitrary: s) (auto split: prod.split outcome.split)

lemma applyMutation_storage:
  assumes "decodeHashString slot = Inr k" "decodeHashString x = Inr v" "scope \<noteq> scopeTransient"
  shows "applyMutation lim (storageMutation i (addressHex a) scope slot x) s = (Ok (), s\<lparr>storage := StorageSet a k v (storage s)\<rparr>)"
  using assms by (simp add: applyMutation_def storageMutation_def parseAddress_addressHex)

lemma writeStorage_effect:
  assumes w: "writeStorage r ss = Inr ss'" and scope: "wsScope r \<noteq> scopeTransient"
    and safe: "sessionSafe E ss" and lim: "plMaxAlloc (dePeek E) < 2 ^ 63"
    and addr: "(case parseAddress (wsAddress r) of Some a \<Rightarrow> Some a | None \<Rightarrow> seTargetAddr ss) = Some a"
  shows "\<exists>k v s'. decodeHashString (wsSlot r) = Inr k \<and> decodeHashString (wsValue r) = Inr v \<and>
    applyMutations (plMaxAlloc (dePeek E)) (sePosition ss) (seMutations ss') s = (Ok (), s') \<and> StorageGet a k (storage s') = v"
  using w
proof (rule writeStorage_Inr)
  fix pause addr k v m
  assume h: "decodeHashString (wsSlot r) = Inr k" "decodeHashString (wsValue r) = Inr v"
    and a: "(case parseAddress (wsAddress r) of Some a \<Rightarrow> Some a | None \<Rightarrow> seTargetAddr ss) = Some addr"
    and m: "m = storageMutation (sePosition ss) (addressHex addr) (if wsScope r = [] then scopePersistent else wsScope r)
       (normalizeHex32 (wsSlot r)) (normalizeHex32 (wsValue r))"
    and ss': "ss' = ss\<lparr>seMutations := seMutations ss @ [m], seCurrent := Some (applyStorageMutationToPause m pause)\<rparr>"
  have addr_a: "addr = a" using a addr by simp
  obtain s1 where s1: "applyMutations (plMaxAlloc (dePeek E)) (sePosition ss) (seMutations ss) s = (Ok (), s1)"
    using applyMutations_Ok [OF _ lim] safe unfolding sessionSafe_def by blast
  have "(if wsScope r = [] then scopePersistent else wsScope r) \<noteq> scopeTransient" using scope by (simp add: scope_texts)
  then have "applyMutation (plMaxAlloc (dePeek E)) m s1 = (Ok (), s1\<lparr>storage := StorageSet addr k v (storage s1)\<rparr>)"
    unfolding m by (intro applyMutation_storage) (simp_all add: decodeHashString_normalize h)
  moreover have "muStepIndex m = sePosition ss" by (simp add: m storageMutation_def)
  ultimately have "applyMutations (plMaxAlloc (dePeek E)) (sePosition ss) (seMutations ss') s =
      (Ok (), s1\<lparr>storage := StorageSet addr k v (storage s1)\<rparr>)"
    by (simp add: ss' applyMutations_append s1)
  then show ?thesis using h addr_a by (auto simp: StorageGet_Set)
qed

subsection \<open>A write to memory\<close>

lemma patchBytes_ext:
  fixes off :: u64
  defines "start \<equiv> sint off"
  assumes "patchBytes lim off dat buffer = Ok b"
  obtains ext where "0 \<le> start" "start \<le> int (length ext)"
    "length ext = max (length buffer) (nat (wrap64 (start + int (length dat))))"
    "length buffer < length ext \<Longrightarrow> length ext \<le> lim"
    "b = take (nat start) ext @ take (length (drop (nat start) ext)) dat @ drop (length dat) (drop (nat start) ext)"
proof -
  let ?stop = "wrap64 (start + int (length dat))"
  define ext where "ext = (if ?stop > int (length buffer) then buffer @ replicate (nat ?stop - length buffer) 0 else buffer)"
  have len: "length ext = max (length buffer) (nat ?stop)" by (auto simp: ext_def)
  have "length buffer < length ext \<Longrightarrow> ?stop \<le> int lim"
    using assms(2) unfolding len start_def patchBytes_def Let_def by (auto split: if_splits)
  then have fits: "length buffer < length ext \<Longrightarrow> length ext \<le> lim" unfolding len by linarith
  have "0 \<le> start \<and> start \<le> int (length ext) \<and>
      b = take (nat start) ext @ take (length (drop (nat start) ext)) dat @ drop (length dat) (drop (nat start) ext)"
  proof (cases "?stop > int (length buffer)")
    case True
    then have "obind (Ok ext) (\<lambda>buffer.
           if 0 \<le> start \<and> start \<le> int (length buffer)
           then let from_start = drop (nat start) buffer
                in Ok (take (nat start) buffer @ take (length from_start) dat @ drop (length dat) from_start)
           else Panic PanicSliceBounds) = Ok b"
      using assms(2) unfolding start_def patchBytes_def Let_def ext_def by (auto split: if_splits)
    then show ?thesis by (simp add: Let_def split: if_splits)
  next
    case False
    then have "obind (Ok ext) (\<lambda>buffer.
           if 0 \<le> start \<and> start \<le> int (length buffer)
           then let from_start = drop (nat start) buffer
                in Ok (take (nat start) buffer @ take (length from_start) dat @ drop (length dat) from_start)
           else Panic PanicSliceBounds) = Ok b"
      using assms(2) unfolding start_def patchBytes_def Let_def ext_def by (auto split: if_splits)
    then show ?thesis by (simp add: Let_def split: if_splits)
  qed
  with len fits show ?thesis using that by blast
qed

lemma patchBytes_Ok:
  assumes "patchBytes lim off dat buffer = Ok b" "length buffer \<le> lim" "length dat \<le> lim" "lim < 2 ^ 62"
  shows "unat off + length dat \<le> length b \<and> length b \<le> lim \<and> take (length dat) (drop (unat off) b) = dat"
proof (rule patchBytes_ext [OF assms(1)])
  fix ext
  assume start: "0 \<le> sint off" "sint off \<le> int (length ext)"
    and len: "length ext = max (length buffer) (nat (wrap64 (sint off + int (length dat))))"
    and fits: "length buffer < length ext \<Longrightarrow> length ext \<le> lim"
    and b: "b = take (nat (sint off)) ext @ take (length (drop (nat (sint off)) ext)) dat @
      drop (length dat) (drop (nat (sint off)) ext)"
  have ext_lim: "length ext \<le> lim" using fits assms(2) by linarith
  have lim: "int lim < 2 ^ 62" using assms(4) by (metis of_nat_less_iff of_nat_numeral of_nat_power)
  have "int (length ext) \<le> int lim" "int (length dat) \<le> int lim" using ext_lim assms(3) by simp_all
  then have "sint off + int (length dat) < 2 ^ 62 + 2 ^ 62" using start lim by linarith
  then have stop: "wrap64 (sint off + int (length dat)) = sint off + int (length dat)" using start by (simp add: wrap64_def)
  have "uint off = sint off mod 2 ^ 64" by (simp add: uint_sint take_bit_eq_mod)
  moreover have "sint off < 2 ^ 62" using start ext_lim lim by linarith
  ultimately have u: "unat off = nat (sint off)" unfolding unat_eq_nat_uint using start by simp
  have enough: "nat (sint off) + length dat \<le> length ext" using len start unfolding stop by linarith
  then have "take (length (drop (nat (sint off)) ext)) dat = dat" by simp
  with b enough u ext_lim show ?thesis by simp
qed

lemma writeMemory_readMemory:
  assumes w: "writeMemory lim r ss = (Done (), ss')" and dat: "decodeBytes (wmData r) = Inr dat" "dat \<noteq> []"
    and lim: "length (seMemorySnapshot ss) \<le> lim" "length dat \<le> lim" "lim < 2 ^ 62"
  shows "\<exists>chunk. readMemory \<lparr>rdOffset = wmOffset r, rdLength = ulen dat\<rparr> ss' = Done chunk \<and> mcData chunk = encodeBytes dat \<and>
    mcLength chunk = ulen dat \<and> \<not> mcTruncated chunk"
proof -
  let ?m = "memoryMutation (sePosition ss) (wmOffset r) (encodeBytes dat)"
  obtain pause where p: "seCurrent ss = Some pause" using w by (cases "seCurrent ss") (simp_all add: writeMemory_def)
  have "showMemory lim ?m pause (ss\<lparr>seMutations := seMutations ss @ [?m]\<rparr>) = (Done (), ss')"
    using w by (simp add: writeMemory_def p dat Let_def)
  then obtain p' snap where snap: "applyMemoryMutationToSnapshot lim ?m (seMemorySnapshot ss) = Ok snap"
    and ss': "seCurrent ss' = Some p'" "seMemorySnapshot ss' = snap"
    by (auto simp: showMemory_def split: outcome.splits)
  have "patchBytes lim (wmOffset r) dat (seMemorySnapshot ss) = Ok snap"
    using snap dat(2) by (simp add: applyMemoryMutationToSnapshot_def memoryMutation_def decodeBytes_encodeBytes)
  note b = patchBytes_Ok [OF this lim]
  have small: "length dat < 2 ^ 64" "length snap < 2 ^ 64" using b lim by simp_all
  then have ud: "unat (ulen dat) = length dat" and us: "unat (ulen snap) = length snap" by (simp_all add: unat_ulen)
  have "unat (wmOffset r) + unat (ulen dat) < 2 ^ LENGTH(64)" using b lim unfolding ud by simp
  from unat_add_no_wrap [OF this] have stop: "unat (wmOffset r + ulen dat) = unat (wmOffset r) + length dat" unfolding ud .
  have within: "\<not> wmOffset r > ulen snap" "\<not> wmOffset r + ulen dat > ulen snap"
    unfolding word_less_nat_alt us stop using b by simp_all
  have nz: "ulen dat \<noteq> 0" using dat(2) ud by (metis length_0_conv unat_0)
  have slice: "goslice snap (wmOffset r) (wmOffset r + ulen dat) = Ok dat"
    using b by (simp add: goslice_def word_le_nat_alt stop)
  show ?thesis
    using within nz by (simp add: readMemory_def Let_def ss' slice)
qed

subsection \<open>A patch\<close>

text \<open>Compaction keeps, for each key, the last write, in whatever order the result is sorted.\<close>

lemma find_distinct_keys:
  assumes "distinct (map fst kvs)" "\<forall>(k, w)\<in>set kvs. key w = k"
  shows "find (\<lambda>w. key w = \<kappa>) (map snd kvs) = map_of kvs \<kappa>"
  using assms by (induction kvs) auto

lemma latestBy_facts:
  "distinct (map fst (latestBy key ws)) \<and> (\<forall>(k, w)\<in>set (latestBy key ws). key w = k) \<and>
   map_of (latestBy key ws) \<kappa> = find (\<lambda>w. key w = \<kappa>) (rev ws)"
proof (induction ws rule: rev_induct)
  case (snoc w ws)
  have "mapOK (latestBy key ws)" using snoc by (simp add: mapOK_def)
  then have "distinct (map fst (mput (key w) w (latestBy key ws)))" "\<forall>(k, x)\<in>set (mput (key w) w (latestBy key ws)). key x = k"
    using snoc mapOK_mput [of "latestBy key ws" "key w" w] by (auto simp: mapOK_def set_mput)
  then show ?case using snoc by (simp add: latestBy_def)
qed (simp add: latestBy_def)

lemma find_rev_sorted:
  "find (\<lambda>w. key w = \<kappa>) (rev (map snd (sort_key ord (latestBy key ws)))) = find (\<lambda>w. key w = \<kappa>) (rev ws)"
proof -
  let ?kvs = "sort_key ord (latestBy key ws)"
  have d: "distinct (map fst (latestBy key ws))" "\<forall>(k, w)\<in>set (latestBy key ws). key w = k"
    "map_of (latestBy key ws) \<kappa> = find (\<lambda>w. key w = \<kappa>) (rev ws)" using latestBy_facts [of key ws] by auto
  have sorted: "distinct (map fst ?kvs)" "set ?kvs = set (latestBy key ws)"
    using d(1) by (simp_all add: distinct_map)
  have "find (\<lambda>w. key w = \<kappa>) (rev (map snd ?kvs)) = find (\<lambda>w. key w = \<kappa>) (map snd (rev ?kvs))" by (simp add: rev_map)
  also have "\<dots> = map_of (rev ?kvs) \<kappa>"
    by (rule find_distinct_keys) (use sorted d(2) in \<open>simp_all add: rev_map [symmetric]\<close>)
  also have "\<dots> = map_of (latestBy key ws) \<kappa>"
    using sorted d(1) map_of_inject_set [of "rev ?kvs" "latestBy key ws"] by (simp add: rev_map [symmetric])
  finally show ?thesis using d(3) by simp
qed

lemma compactStorageWrites_last: "find (\<lambda>w. storageKey w = \<kappa>) (rev (compactStorageWrites ws)) = find (\<lambda>w. storageKey w = \<kappa>) (rev ws)"
  by (simp add: compactStorageWrites_def find_rev_sorted)

lemma compactMemoryWrites_last: "find (\<lambda>w. pmOffset w = \<kappa>) (rev (compactMemoryWrites ws)) = find (\<lambda>w. pmOffset w = \<kappa>) (rev ws)"
  by (simp add: compactMemoryWrites_def find_rev_sorted)

text \<open>For memory that is not enough: sorting by offset lets an earlier write at a higher offset win over a later one that
  covers it.\<close>

lemma memory_patch_reorders:
  "compactMemoryWrites [\<lparr>pmOffset = 1, pmData = ''0x22''\<rparr>, \<lparr>pmOffset = 0, pmData = ''0x1111''\<rparr>] =
    [\<lparr>pmOffset = 0, pmData = ''0x1111''\<rparr>, \<lparr>pmOffset = 1, pmData = ''0x22''\<rparr>]"
  by code_simp

text \<open>What a session records: a storage write names its address in its normal form, its slot and value in any texts that decode,
  and any scope; several texts can name one slot. Then the writes that go to one persistent slot.\<close>

definition recordedMutation :: "ReplayMutation \<Rightarrow> bool" where
  "recordedMutation m \<longleftrightarrow> muKind m = ''memory'' \<or>
     (\<exists>i a scope slot x k v. m = storageMutation i (addressHex a) scope slot x \<and> decodeHashString slot = Inr k \<and> decodeHashString x = Inr v)"

definition writesTo :: "Address \<Rightarrow> Hash \<Rightarrow> ReplayMutation \<Rightarrow> bool" where
  "writesTo a k m \<longleftrightarrow> muKind m = ''storage'' \<and> muScope m \<noteq> scopeTransient \<and> muAddress m = addressHex a \<and> decodeHashString (muSlot m) = Inr k"

definition valueOf :: "string \<Rightarrow> Hash" where
  "valueOf text = (case decodeHashString text of Inl e \<Rightarrow> 0 | Inr h \<Rightarrow> h)"

lemma addressHex_inject: "addressHex a = addressHex b \<longleftrightarrow> a = b"
  by (metis option.inject parseAddress_addressHex)

lemma writeStorage_recorded:
  assumes "writeStorage r ss = Inr ss'" "\<forall>m\<in>set (seMutations ss). recordedMutation m"
  shows "\<forall>m\<in>set (seMutations ss'). recordedMutation m"
  using assms(1)
proof (rule writeStorage_Inr)
  fix pause addr k v m
  assume h: "decodeHashString (wsSlot r) = Inr k" "decodeHashString (wsValue r) = Inr v"
    and m: "m = storageMutation (sePosition ss) (addressHex addr) (if wsScope r = [] then scopePersistent else wsScope r)
       (normalizeHex32 (wsSlot r)) (normalizeHex32 (wsValue r))"
    and ss': "ss' = ss\<lparr>seMutations := seMutations ss @ [m], seCurrent := Some (applyStorageMutationToPause m pause)\<rparr>"
  have "recordedMutation m" unfolding recordedMutation_def m using h by (metis decodeHashString_normalize)
  then show ?thesis using assms(2) by (simp add: ss')
qed

lemma applyMutation_value:
  assumes "recordedMutation m" "applyMutation lim m s = (Ok (), s')"
  shows "StorageGet a k (storage s') = (if writesTo a k m then valueOf (muValue m) else StorageGet a k (storage s))"
  using assms(1) unfolding recordedMutation_def
proof (elim disjE exE conjE)
  assume "muKind m = ''memory''"
  then show ?thesis using assms(2) by (auto simp: applyMutation_def writesTo_def split: sum.splits outcome.splits)
next
  fix i b scope slot x h v
  assume m: "m = storageMutation i (addressHex b) scope slot x" "decodeHashString slot = Inr h" "decodeHashString x = Inr v"
  then show ?thesis
    using assms(2) by (auto simp: applyMutation_def writesTo_def storageMutation_def parseAddress_addressHex
        addressHex_inject valueOf_def StorageGet_Set split: if_splits)
qed

lemma applyMutations_value:
  assumes "\<forall>m\<in>set ms. recordedMutation m \<and> muStepIndex m = i" "applyMutations lim i ms s = (Ok (), s')"
  shows "StorageGet a k (storage s') =
    (case find (writesTo a k) (rev ms) of Some m \<Rightarrow> valueOf (muValue m) | None \<Rightarrow> StorageGet a k (storage s))"
  using assms
proof (induction ms arbitrary: s' rule: rev_induct)
  case (snoc m ms)
  obtain r s1 where r: "applyMutations lim i ms s = (r, s1)" by fastforce
  have ok: "r = Ok ()" using snoc.prems(2) r by (cases r) (auto simp: applyMutations_append)
  have "applyMutations lim i [m] s1 = (Ok (), s')" using snoc.prems(2) r ok by (simp add: applyMutations_append)
  then have "applyMutation lim m s1 = (Ok (), s')"
    using snoc.prems(1) by (simp split: prod.splits outcome.splits)
  from applyMutation_value [OF _ this, of a k] snoc.IH [of s1] snoc.prems(1) r ok show ?case by simp
qed simp

lemma patchOf_storage:
  "paStorageWrites (patchOf i ''all'' ss) =
    compactStorageWrites (map (\<lambda>m. \<lparr>pwAddress = muAddress m, pwScope = muScope m, pwSlot = muSlot m, pwValue = muValue m\<rparr>)
      (filter (\<lambda>m. muKind m = ''storage'' \<and> muScope m \<noteq> scopeTransient) (seMutations ss)))"
proof -
  have "paStorageWrites (fold (exportMutation ''all'') ms p) = paStorageWrites p @
     map (\<lambda>m. \<lparr>pwAddress = muAddress m, pwScope = muScope m, pwSlot = muSlot m, pwValue = muValue m\<rparr>)
      (filter (\<lambda>m. muKind m = ''storage'' \<and> muScope m \<noteq> scopeTransient) ms)" for ms p
    by (induction ms arbitrary: p) (simp_all add: exportMutation_def)
  then show ?thesis by (simp add: patchOf_def compactPatchWrites_def)
qed

lemma find_map: "find P (map f xs) = map_option f (find (\<lambda>x. P (f x)) xs)"
  by (induction xs) auto

lemma find_filter: "find P (filter Q xs) = find (\<lambda>x. Q x \<and> P x) xs"
  by (induction xs) auto

lemma find_append: "find P (xs @ ys) = (case find P xs of None \<Rightarrow> find P ys | Some x \<Rightarrow> Some x)"
  by (induction xs) auto

lemma find_none: "(\<And>x. x \<in> set xs \<Longrightarrow> \<not> P x) \<Longrightarrow> find P xs = None"
  by (simp add: find_None_iff)

text \<open>In a compacted list the writes come by their keys, so of the writes with a property that their key decides, the last is the
  last one of the greatest key.\<close>

lemma find_rev_greatest:
  fixes f :: "'w \<Rightarrow> 'k::linorder"
  shows "sorted (map f xs) \<Longrightarrow> find P (rev xs) = find (\<lambda>w. P w \<and> (\<forall>w'\<in>set xs. P w' \<longrightarrow> f w' \<le> f w)) (rev xs)"
proof (induction xs rule: rev_induct)
  case (snoc x xs)
  show ?case
  proof (cases "P x")
    case True
    then show ?thesis using snoc.prems by (auto simp: sorted_append)
  next
    case False
    then have "find P (rev (xs @ [x])) = find (\<lambda>w. P w \<and> (\<forall>w'\<in>set xs. P w' \<longrightarrow> f w' \<le> f w)) (rev xs)"
      using snoc by (simp add: sorted_append)
    also have "\<dots> = find (\<lambda>w. P w \<and> (\<forall>w'\<in>set (xs @ [x]). P w' \<longrightarrow> f w' \<le> f w)) (rev xs)"
      using False by (intro find_cong) auto
    finally show ?thesis using False by simp
  qed
qed simp

lemma keyOrder_inject: "keyOrder x = keyOrder y \<longleftrightarrow> x = y"
  by (simp add: keyOrder_def inj_map_eq_map inj_def of_char_eq_iff)

lemma compactStorageWrites_sorted: "sorted (map (\<lambda>w. keyOrder (storageKey w)) (compactStorageWrites ws))"
proof -
  have keys: "\<forall>(k, w)\<in>set (latestBy storageKey ws). storageKey w = k" using latestBy_facts [of storageKey ws] by blast
  have "sorted (map (\<lambda>(k, w). keyOrder k) (sort_key (\<lambda>(k, w). keyOrder k) (latestBy storageKey ws)))" by simp
  also have "map (\<lambda>(k, w). keyOrder k) (sort_key (\<lambda>(k, w). keyOrder k) (latestBy storageKey ws)) =
      map (\<lambda>w. keyOrder (storageKey w)) (map snd (sort_key (\<lambda>(k, w). keyOrder k) (latestBy storageKey ws)))"
    using keys by auto
  finally show ?thesis by (cases ws; cases "tl ws") (auto simp: compactStorageWrites_def)
qed

lemma compactStorageWrites_greatest:
  assumes P: "\<And>w w'. w \<in> set ws \<Longrightarrow> w' \<in> set ws \<Longrightarrow> storageKey w = storageKey w' \<Longrightarrow> P w = P w'"
  shows "find P (rev (compactStorageWrites ws)) =
    find (\<lambda>w. P w \<and> (\<forall>w'\<in>set ws. P w' \<longrightarrow> keyOrder (storageKey w') \<le> keyOrder (storageKey w))) (rev ws)"
proof -
  define Q where "Q = (\<lambda>w. P w \<and> (\<forall>w'\<in>set ws. P w' \<longrightarrow> keyOrder (storageKey w') \<le> keyOrder (storageKey w)))"
  have kept: "\<exists>w'\<in>set (compactStorageWrites ws). storageKey w' = storageKey w" if "w \<in> set ws" for w
  proof -
    have "find (\<lambda>x. storageKey x = storageKey w) (rev (compactStorageWrites ws)) \<noteq> None"
      unfolding compactStorageWrites_last using that by (simp add: find_None_iff) blast
    then show ?thesis by (simp add: find_None_iff) blast
  qed
  have "find P (rev (compactStorageWrites ws)) = find (\<lambda>w. P w \<and> (\<forall>w'\<in>set (compactStorageWrites ws). P w' \<longrightarrow>
      keyOrder (storageKey w') \<le> keyOrder (storageKey w))) (rev (compactStorageWrites ws))"
    by (rule find_rev_greatest [OF compactStorageWrites_sorted])
  also have "\<dots> = find Q (rev (compactStorageWrites ws))"
  proof (rule find_cong [OF refl])
    fix w
    assume "w \<in> set (rev (compactStorageWrites ws))"
    have "(\<forall>w'\<in>set (compactStorageWrites ws). P w' \<longrightarrow> keyOrder (storageKey w') \<le> keyOrder (storageKey w)) \<longleftrightarrow>
        (\<forall>w'\<in>set ws. P w' \<longrightarrow> keyOrder (storageKey w') \<le> keyOrder (storageKey w))"
      using kept P compact_subset(1) [of ws] by (metis subsetD)
    then show "(P w \<and> (\<forall>w'\<in>set (compactStorageWrites ws). P w' \<longrightarrow> keyOrder (storageKey w') \<le> keyOrder (storageKey w))) = Q w"
      by (simp add: Q_def)
  qed
  also have "\<dots> = find Q (rev ws)"
  proof (cases "\<exists>w\<in>set ws. Q w")
    case True
    then obtain w0 where w0: "w0 \<in> set ws" "Q w0" by blast
    have key: "Q w \<longleftrightarrow> storageKey w = storageKey w0" if "w \<in> set ws" for w
      using w0 that P [OF that w0(1)] unfolding Q_def by (metis keyOrder_inject order_antisym)
    have "find Q (rev (compactStorageWrites ws)) = find (\<lambda>w. storageKey w = storageKey w0) (rev (compactStorageWrites ws))"
      by (rule find_cong [OF refl]) (use key subsetD [OF compact_subset(1)] in force)
    also have "\<dots> = find (\<lambda>w. storageKey w = storageKey w0) (rev ws)" by (rule compactStorageWrites_last)
    also have "\<dots> = find Q (rev ws)" by (rule find_cong [OF refl]) (simp add: key)
    finally show ?thesis .
  next
    case False
    then have "find Q (rev (compactStorageWrites ws)) = None" "find Q (rev ws) = None"
      using compact_subset(1) [of ws] by (intro find_none, auto)+
    then show ?thesis by simp
  qed
  finally show ?thesis by (simp add: Q_def)
qed

text \<open>The keys of writes to one address compare as the texts of their slots, and equal keys name one slot.\<close>

lemma length_addressHex: "length (addressHex a) = length (addressHex b)"
  unfolding addressHex_hex by (simp add: length_hexEncode)

lemma storageKey_eq:
  assumes "pwAddress w = addressHex a" "pwAddress w' = addressHex b" "storageKey w = storageKey w'"
  shows "pwAddress w = pwAddress w' \<and> pwSlot w = pwSlot w'"
  using assms length_addressHex [of a b] by (simp add: storageKey_def)

lemma append_le_append: "xs @ ys \<le> xs @ zs \<longleftrightarrow> ys \<le> (zs :: nat list)"
  by (induction xs) auto

lemma storageKey_order: "pwAddress w = pwAddress w' \<Longrightarrow> keyOrder (storageKey w) \<le> keyOrder (storageKey w') \<longleftrightarrow> keyOrder (pwSlot w) \<le> keyOrder (pwSlot w')"
  by (simp add: storageKey_def keyOrder_def append_le_append)

text \<open>The write to a slot that a patch carries: the last of those that name the slot by the greatest of its texts. When they all
  name it by one text, that is the last of them.\<close>

definition carriedWrite :: "Address \<Rightarrow> Hash \<Rightarrow> ReplayMutation list \<Rightarrow> ReplayMutation option" where
  "carriedWrite a k ms =
     find (\<lambda>m. writesTo a k m \<and> (\<forall>m'\<in>set ms. writesTo a k m' \<longrightarrow> keyOrder (muSlot m') \<le> keyOrder (muSlot m))) (rev ms)"

definition namedAlike :: "Address \<Rightarrow> Hash \<Rightarrow> ReplayMutation list \<Rightarrow> bool" where
  "namedAlike a k ms \<longleftrightarrow> (\<forall>m\<in>set ms. \<forall>m'\<in>set ms. writesTo a k m \<longrightarrow> writesTo a k m' \<longrightarrow> muSlot m = muSlot m')"

lemma carriedWrite_last: "namedAlike a k ms \<Longrightarrow> carriedWrite a k ms = find (writesTo a k) (rev ms)"
  unfolding carriedWrite_def namedAlike_def by (rule find_cong [OF refl]) (metis order_refl set_rev)

text \<open>The import trims the scope, so a scope that is transient only once trimmed would move the write.\<close>

definition plainScope :: "ReplayMutation \<Rightarrow> bool" where
  "plainScope m \<longleftrightarrow> muScope m = scopeTransient \<or> TrimSpace (muScope m) \<noteq> scopeTransient"

lemma patchMutations_writes:
  fixes a k
  assumes rec: "\<forall>m\<in>set (seMutations ss). recordedMutation m \<and> plainScope m"
  shows "map_option muValue (find (writesTo a k) (rev (patchMutations (patchOf i ''all'' ss)))) =
    map_option muValue (carriedWrite a k (seMutations ss))"
proof -
  define S where "S = (\<lambda>m :: ReplayMutation. muKind m = ''storage'' \<and> muScope m \<noteq> scopeTransient)"
  define toWrite where "toWrite = (\<lambda>m :: ReplayMutation. \<lparr>pwAddress = muAddress m, pwScope = muScope m, pwSlot = muSlot m, pwValue = muValue m\<rparr>)"
  define ws where "ws = map toWrite (filter S (seMutations ss))"
  define toMutation where "toMutation = (\<lambda>w :: StatePatchStorageWrite. storageMutation 0 (pwAddress w) (let scope = TrimSpace (pwScope w) in
    if scope = [] then ''persistent'' else scope) (pwSlot w) (pwValue w))"
  define P where "P = (\<lambda>w. writesTo a k (toMutation w))"
  have p: "paStorageWrites (patchOf i ''all'' ss) = compactStorageWrites ws"
    unfolding patchOf_storage ws_def toWrite_def S_def ..
  have P: "P (toWrite m) \<longleftrightarrow> writesTo a k m" and addr: "\<exists>b. muAddress m = addressHex b" if "m \<in> set (seMutations ss)" "S m" for m
  proof -
    have "recordedMutation m" "plainScope m" using rec that(1) by blast+
    then show "\<exists>b. muAddress m = addressHex b" using that(2) by (auto simp: recordedMutation_def S_def storageMutation_def)
    show "P (toWrite m) \<longleftrightarrow> writesTo a k m"
      using that(2) \<open>plainScope m\<close> by (simp add: P_def toMutation_def toWrite_def writesTo_def storageMutation_def S_def plainScope_def Let_def scope_texts)
  qed
  have mem: "\<exists>m\<in>set (seMutations ss). S m \<and> w = toWrite m" if "w \<in> set ws" for w using that by (auto simp: ws_def)
  have cong: "P w = P w'" if w: "w \<in> set ws" "w' \<in> set ws" "storageKey w = storageKey w'" for w w'
  proof -
    obtain m m' where m: "m \<in> set (seMutations ss)" "S m" "w = toWrite m" "m' \<in> set (seMutations ss)" "S m'" "w' = toWrite m'"
      using mem [OF w(1)] mem [OF w(2)] by blast
    obtain b c where "muAddress m = addressHex b" "muAddress m' = addressHex c" using addr m by metis
    then have "muAddress m = muAddress m' \<and> muSlot m = muSlot m'" using storageKey_eq [of w b w' c] w(3) by (simp add: m(3,6) toWrite_def)
    then show ?thesis unfolding m(3,6) P [OF m(1,2)] P [OF m(4,5)] using m(2,5) by (simp add: writesTo_def S_def)
  qed
  let ?Q = "\<lambda>w. P w \<and> (\<forall>w'\<in>set ws. P w' \<longrightarrow> keyOrder (storageKey w') \<le> keyOrder (storageKey w))"
  have "find (writesTo a k) (rev (patchMutations (patchOf i ''all'' ss))) = find (writesTo a k) (rev (map toMutation (compactStorageWrites ws)))"
  proof -
    let ?transient = "map (\<lambda>w. storageMutation 0 (pwAddress w) ''transient'' (pwSlot w) (pwValue w)) (paTransientWrites (patchOf i ''all'' ss))"
    let ?mem = "map (\<lambda>w. memoryMutation 0 (pmOffset w) (pmData w)) (paMemoryWrites (patchOf i ''all'' ss))"
    have "find (writesTo a k) (rev ?transient) = None" "find (writesTo a k) (rev ?mem) = None"
      by (rule find_none, auto simp: writesTo_def storageMutation_def memoryMutation_def scope_texts)+
    moreover have "patchMutations (patchOf i ''all'' ss) = map toMutation (compactStorageWrites ws) @ ?transient @ ?mem"
      by (simp add: patchMutations_def p toMutation_def)
    ultimately show ?thesis by (simp only: rev_append find_append option.case append_assoc)
  qed
  also have "\<dots> = map_option toMutation (find P (rev (compactStorageWrites ws)))" by (simp add: rev_map find_map P_def)
  also have "find P (rev (compactStorageWrites ws)) = find ?Q (rev ws)" by (rule compactStorageWrites_greatest) (rule cong)
  also have "\<dots> = map_option toWrite (find (\<lambda>m. S m \<and> ?Q (toWrite m)) (rev (seMutations ss)))"
    unfolding ws_def by (simp add: rev_map find_map rev_filter find_filter)
  also have "find (\<lambda>m. S m \<and> ?Q (toWrite m)) (rev (seMutations ss)) = carriedWrite a k (seMutations ss)"
    unfolding carriedWrite_def
  proof (rule find_cong [OF refl])
    fix m assume "m \<in> set (rev (seMutations ss))"
    then have m: "m \<in> set (seMutations ss)" by simp
    have S: "writesTo a k x \<Longrightarrow> S x" for x by (simp add: writesTo_def S_def)
    have order: "keyOrder (storageKey (toWrite m')) \<le> keyOrder (storageKey (toWrite m)) \<longleftrightarrow> keyOrder (muSlot m') \<le> keyOrder (muSlot m)"
      if "writesTo a k m" "writesTo a k m'" for m'
      using that storageKey_order [of "toWrite m'" "toWrite m"] by (simp add: writesTo_def toWrite_def)
    have "(\<forall>w'\<in>set ws. P w' \<longrightarrow> keyOrder (storageKey w') \<le> keyOrder (storageKey (toWrite m))) \<longleftrightarrow>
        (\<forall>m'\<in>set (seMutations ss). writesTo a k m' \<longrightarrow> keyOrder (muSlot m') \<le> keyOrder (muSlot m))" if "writesTo a k m"
      using P S order [OF that] by (auto simp: ws_def)
    then show "(S m \<and> ?Q (toWrite m)) \<longleftrightarrow> (writesTo a k m \<and> (\<forall>m'\<in>set (seMutations ss). writesTo a k m' \<longrightarrow> keyOrder (muSlot m') \<le> keyOrder (muSlot m)))"
      using P [OF m] S by blast
  qed
  finally show ?thesis by (simp add: option.map_comp comp_def toMutation_def toWrite_def storageMutation_def)
qed

definition recordedPatch :: "StatePatch \<Rightarrow> bool" where
  "recordedPatch p \<longleftrightarrow> (\<forall>w\<in>set (paStorageWrites p) \<union> set (paTransientWrites p).
     \<exists>a k v. pwAddress w = addressHex a \<and> decodeHashString (pwSlot w) = Inr k \<and> decodeHashString (pwValue w) = Inr v)"

lemma exportMutation_adds:
  "set (paStorageWrites (exportMutation scope m p)) \<union> set (paTransientWrites (exportMutation scope m p)) \<subseteq>
    set (paStorageWrites p) \<union> set (paTransientWrites p) \<union>
    (if muKind m = ''storage''
     then {w. pwAddress w = muAddress m \<and> pwSlot w = muSlot m \<and> pwValue w = muValue m} else {})"
  by (auto simp: exportMutation_def)

lemma recordedPatch_export:
  assumes "recordedMutation m" "recordedPatch p"
  shows "recordedPatch (exportMutation scope m p)"
proof -
  have m: "\<exists>a k v. muAddress m = addressHex a \<and> decodeHashString (muSlot m) = Inr k \<and> decodeHashString (muValue m) = Inr v" if "muKind m = ''storage''"
    using assms(1) that unfolding recordedMutation_def by (elim disjE exE conjE) (simp_all add: storageMutation_def, blast)
  show ?thesis
    unfolding recordedPatch_def
  proof
    fix w
    assume "w \<in> set (paStorageWrites (exportMutation scope m p)) \<union> set (paTransientWrites (exportMutation scope m p))"
    then have "w \<in> set (paStorageWrites p) \<union> set (paTransientWrites p) \<or>
        muKind m = ''storage'' \<and> pwAddress w = muAddress m \<and> pwSlot w = muSlot m \<and> pwValue w = muValue m"
      using exportMutation_adds [of scope m p] by (auto split: if_splits)
    then show "\<exists>a k v. pwAddress w = addressHex a \<and> decodeHashString (pwSlot w) = Inr k \<and> decodeHashString (pwValue w) = Inr v"
      using m assms(2) unfolding recordedPatch_def by metis
  qed
qed

lemma recordedPatch_of:
  assumes "\<forall>m\<in>set (seMutations ss). recordedMutation m"
  shows "recordedPatch (patchOf i scope ss)"
proof -
  have f: "\<forall>m\<in>set ms. recordedMutation m \<Longrightarrow> recordedPatch p \<Longrightarrow> recordedPatch (fold (exportMutation scope) ms p)" for ms p
    by (induction ms arbitrary: p) (simp_all add: recordedPatch_export)
  have c: "recordedPatch p \<Longrightarrow> recordedPatch (compactPatchWrites p)" for p
    using compact_subset(1) [of "paStorageWrites p"] compact_subset(1) [of "paTransientWrites p"]
    unfolding recordedPatch_def compactPatchWrites_def by auto
  show ?thesis unfolding patchOf_def by (rule c, rule f [OF assms]) (simp add: recordedPatch_def)
qed

lemma recorded_patchMutations:
  assumes p: "recordedPatch p" and m: "m \<in> set (patchMutations p)"
  shows "recordedMutation m \<and> muStepIndex m = 0"
proof -
  have w: "recordedMutation (storageMutation 0 (pwAddress w) scope (pwSlot w) (pwValue w))"
    if "w \<in> set (paStorageWrites p) \<union> set (paTransientWrites p)" for w scope
    using p that unfolding recordedPatch_def recordedMutation_def by metis
  from m consider (stored) w scope where "w \<in> set (paStorageWrites p) \<union> set (paTransientWrites p)"
      "m = storageMutation 0 (pwAddress w) scope (pwSlot w) (pwValue w)"
    | (mem) x :: StatePatchMemoryWrite where "m = memoryMutation 0 (pmOffset x) (pmData x)"
    unfolding patchMutations_def by (simp only: set_append set_map Un_iff image_iff) blast
  then show ?thesis
  proof cases
    case stored
    then show ?thesis using w by (simp add: storageMutation_def)
  next
    case mem
    then show ?thesis by (simp add: recordedMutation_def memoryMutation_def)
  qed
qed

lemma patchOf_memory:
  "paMemoryWrites (patchOf i ''all'' ss) =
    compactMemoryWrites (map (\<lambda>m. \<lparr>pmOffset = muOffset m, pmData = muData m\<rparr>) (filter (\<lambda>m. muKind m = ''memory'') (seMutations ss)))"
proof -
  have "paMemoryWrites (fold (exportMutation ''all'') ms p) = paMemoryWrites p @
     map (\<lambda>m. \<lparr>pmOffset = muOffset m, pmData = muData m\<rparr>) (filter (\<lambda>m. muKind m = ''memory'') ms)" for ms p
    by (induction ms arbitrary: p) (simp_all add: exportMutation_def)
  then show ?thesis by (simp add: patchOf_def compactPatchWrites_def)
qed

lemma patchMutations_safe:
  assumes "\<forall>m\<in>set (seMutations ss). mutationOK lim m"
  shows "\<forall>m\<in>set (patchMutations (patchOf i ''all'' ss)). mutationOK lim m"
proof -
  have "mutationOK lim (memoryMutation 0 (pmOffset w) (pmData w))" if "w \<in> set (paMemoryWrites (patchOf i ''all'' ss))" for w
    using subsetD [OF compact_subset(2) that [unfolded patchOf_memory]] assms by (auto simp: mutationOK_def memoryMutation_def)
  then show ?thesis by (auto simp: patchMutations_def) (simp_all add: mutationOK_def storageMutation_def)
qed

lemma patch_applies:
  assumes c: "\<forall>m\<in>set (seMutations ss). recordedMutation m \<and> plainScope m \<and> mutationOK lim m" and lim: "lim < 2 ^ 63"
  shows "\<exists>s'. applyMutations lim 0 (patchMutations (patchOf i ''all'' ss)) s = (Ok (), s') \<and>
    (\<forall>a k. StorageGet a k (storage s') =
      (case carriedWrite a k (seMutations ss) of Some m \<Rightarrow> valueOf (muValue m) | None \<Rightarrow> StorageGet a k (storage s)))"
proof -
  have rec: "\<forall>m\<in>set (seMutations ss). recordedMutation m" "\<forall>m\<in>set (seMutations ss). recordedMutation m \<and> plainScope m" using c by blast+
  obtain s' where run: "applyMutations lim 0 (patchMutations (patchOf i ''all'' ss)) s = (Ok (), s')"
    using applyMutations_Ok [OF patchMutations_safe lim] c by blast
  have "\<forall>m\<in>set (patchMutations (patchOf i ''all'' ss)). recordedMutation m \<and> muStepIndex m = 0"
    using recorded_patchMutations [OF recordedPatch_of [OF rec(1)]] by blast
  from applyMutations_value [OF this run] have "StorageGet a k (storage s') =
      (case carriedWrite a k (seMutations ss) of Some m \<Rightarrow> valueOf (muValue m) | None \<Rightarrow> StorageGet a k (storage s))" for a k
    using patchMutations_writes [OF rec(2), of a k i] by (auto split: option.splits)
  with run show ?thesis by blast
qed

subsection \<open>A source breakpoint\<close>

text \<open>The offset a breakpoint asks for, and the instruction the resolution settles for: it begins there or later if any
  instruction of the line does, and among those that qualify like it none has a shorter span, nor one as short that begins earlier.\<close>

definition requestedOffset :: "int \<Rightarrow> int \<Rightarrow> int" where
  "requestedOffset lo column = max lo (wrap64 (lo + (if column \<le> 0 then 1 else column) - 1))"

definition bestOnLine :: "int \<Rightarrow> candidate list \<Rightarrow> candidate \<Rightarrow> bool" where
  "bestOnLine r cs b \<longleftrightarrow> b \<in> set cs \<and> (cdStart b \<ge> r \<or> (\<forall>c\<in>set cs. cdStart c < r)) \<and>
     (\<forall>c\<in>set cs. cdStart c \<ge> r \<or> cdStart b < r \<longrightarrow> \<not> tighter c b)"

lemma bestMatch_best: "bestMatch r cs = Some b \<Longrightarrow> bestOnLine r cs b"
proof (cases "bestLoop (\<lambda>c. \<not> cdStart c < r) cs None")
  case None
  then have less: "\<forall>c\<in>set cs. cdStart c < r" by (simp add: bestLoop_None)
  moreover assume "bestMatch r cs = Some b"
  ultimately show ?thesis
    using None bestLoop_mem [of "\<lambda>c. True" cs None b] bestLoop_tightest [of "\<lambda>c. True" cs None b]
    by (simp add: bestMatch_def bestOnLine_def)
next
  case (Some c)
  moreover assume "bestMatch r cs = Some b"
  ultimately show ?thesis
    using bestLoop_mem [OF Some] bestLoop_tightest [OF Some] by (auto simp: bestMatch_def bestOnLine_def)
qed

lemma resolved_breakpoint:
  assumes "resolveSourceBreakpointPCs (Some bundle) name line column = Inr pcs"
  shows "\<exists>idx file lo hi. buIndex bundle = Some idx \<and> SourceFileByName (Some idx) name = Some file \<and> lineRange file line = Some (lo, hi) \<and>
    sorted pcs \<and> distinct pcs \<and>
    (let cs = matchesOnLine idx (sfID file) lo hi in
     if cs \<noteq> []
     then (\<exists>b. bestOnLine (requestedOffset lo column) cs b \<and>
       set pcs = cdPC ` {c \<in> set cs. cdStart c = cdStart b \<and> cdLength c = cdLength b})
     else (\<exists>ins\<in>set (ixInstructions idx). pcs = [imPC ins] \<and> srcID (imSource ins) = sfID file \<and> lo \<le> srcStart (imSource ins) \<and>
       (\<forall>j\<in>set (ixInstructions idx). srcID (imSource j) = sfID file \<longrightarrow> lo \<le> srcStart (imSource j) \<longrightarrow>
          srcStart (imSource ins) \<le> srcStart (imSource j))))"
proof -
  obtain idx where idx: "buIndex bundle = Some idx" using assms by (auto simp: resolveSourceBreakpointPCs_def split: option.splits)
  obtain f where f: "SourceFileByName (Some idx) name = Some f"
    using assms idx by (auto simp: resolveSourceBreakpointPCs_def split: option.splits if_splits)
  obtain lo hi where range: "lineRange f line = Some (lo, hi)"
    using assms idx f by (auto simp: resolveSourceBreakpointPCs_def Let_def split: option.splits if_splits)
  let ?cs = "matchesOnLine idx (sfID f) lo hi"
  let ?r = "requestedOffset lo column"
  have res: "(case bestMatch ?r ?cs of
        None \<Rightarrow> (case fallbackLoop (sfID f) lo (ixInstructions idx) None of
            None \<Rightarrow> Inl (invalidParams ''no instruction mapping found for requested source location'') | Some ins \<Rightarrow> Inr [imPC ins])
      | Some b \<Rightarrow> Inr (pcsOfSpan b ?cs)) = Inr pcs"
    using assms idx f range
    by (simp add: resolveSourceBreakpointPCs_def Let_def requestedOffset_def max_def not_le split: if_splits)
  show ?thesis
  proof (cases "bestMatch ?r ?cs")
    case None
    then obtain ins where ins: "fallbackLoop (sfID f) lo (ixInstructions idx) None = Some ins" "pcs = [imPC ins]"
      using res by (auto split: option.splits)
    have "?cs = []" using None by (simp add: bestMatch_None)
    then show ?thesis
      using idx f range ins(2) fallbackLoop_mem [OF ins(1)] fallbackLoop_first [OF ins(1)] by (auto simp: Let_def)
  next
    case (Some b)
    then have "pcs = pcsOfSpan b ?cs" "bestOnLine ?r ?cs b" using res bestMatch_best by auto
    moreover from this have "?cs \<noteq> []" by (auto simp: bestOnLine_def)
    ultimately show ?thesis using idx f range pcsOfSpan_facts [of b ?cs] by (auto simp: Let_def)
  qed
qed

subsection \<open>A run that fails\<close>

text \<open>A run that ends with an error leaves the session where it stood: it has no pause, and is no nearer to its end.\<close>

lemma replayPrepared_fails:
  assumes run: "replayPrepared E run arrives continueMode target code input ss w = Some ((Some err, ss'), w')"
    and eng: "ofEngine L C run" and env: "envSafe E"
  shows "reCode err = -32000 \<and> sePosition ss' = sePosition ss \<and> seDone ss' = seDone ss \<and> seCurrent ss' = None \<and>
    seMutations ss' = seMutations ss \<and> map breakpointKey (seBreakpoints ss') = map breakpointKey (seBreakpoints ss)"
proof -
  obtain result execErr h where fin: "(Some err, ss') = finishRun result execErr ((dhSession h)\<lparr>seExecutionRunning := False\<rparr>)"
    and rel: "runRel E (startHost arrives continueMode (resetSession target code input ss)) h"
    using replayPrepared_result [OF run eng env] by metis
  from fin have "reCode err = -32000" "ss' = (dhSession h)\<lparr>seExecutionRunning := False\<rparr>"
    by (auto simp: finishRun_def internalError_def split: if_splits option.splits)
  with rel show ?thesis by (simp add: runRel_def sameSetup_def startHost_def resetSession_frame)
qed

end
