(* ===== verification/Bytematch.thy ===== *)
theory Bytematch
  imports GoMaps Text "HOL-Library.List_Lexorder" "HOL-Library.Product_Lexorder" "HOL-Library.Multiset"
begin

text \<open>
  Which compiled contract a deployed code is (\<open>internal/contractmeta\<close>: \<open>bytematch/matcher.go\<close> and \<open>match.go\<close>). The
  metadata at the end of a code is cut off, the bytes of immutables are masked, and the rest has to agree. The file system is a
  record of functions; a document is what \<open>encoding/json\<close> makes of it.
\<close>

subsection \<open>Sorting\<close>

text \<open>
  \<open>sort.Slice\<close> with a comparison, as an insertion sort, and the selection sort of \<open>match.go\<close>. The library does not say in
  which order equal elements come; with a total comparison there is only one result.
\<close>

fun insertBy :: "('a \<Rightarrow> 'a \<Rightarrow> bool) \<Rightarrow> 'a \<Rightarrow> 'a list \<Rightarrow> 'a list" where
  "insertBy lt x [] = [x]"
| "insertBy lt x (y # ys) = (if lt y x then y # insertBy lt x ys else x # y # ys)"

definition sortSlice :: "('a \<Rightarrow> 'a \<Rightarrow> bool) \<Rightarrow> 'a list \<Rightarrow> 'a list" where
  "sortSlice lt xs = foldr (insertBy lt) xs []"

definition selectBest :: "('a \<Rightarrow> 'a \<Rightarrow> bool) \<Rightarrow> nat \<Rightarrow> 'a list \<Rightarrow> nat" where
  "selectBest lt i xs = fold (\<lambda>j best. if lt (xs ! j) (xs ! best) then j else best) [Suc i..<length xs] i"

definition selectionStep :: "('a \<Rightarrow> 'a \<Rightarrow> bool) \<Rightarrow> nat \<Rightarrow> 'a list \<Rightarrow> 'a list" where
  "selectionStep lt i xs = (let best = selectBest lt i xs in xs[i := xs ! best, best := xs ! i])"

definition selectionSort :: "('a \<Rightarrow> 'a \<Rightarrow> bool) \<Rightarrow> 'a list \<Rightarrow> 'a list" where
  "selectionSort lt xs = fold (selectionStep lt) [0..<length xs] xs"

lemma mset_insertBy [simp]: "mset (insertBy lt x xs) = add_mset x (mset xs)"
  by (induction xs) auto

lemma mset_sortSlice [simp]: "mset (sortSlice lt xs) = mset xs"
  by (induction xs) (simp_all add: sortSlice_def)

lemma set_sortSlice [simp]: "set (sortSlice lt xs) = set xs"
  by (metis mset_sortSlice set_mset_mset)

locale weak_order =
  fixes lt :: "'a \<Rightarrow> 'a \<Rightarrow> bool"
  assumes asym: "lt a b \<Longrightarrow> \<not> lt b a"
    and not_lt_trans: "\<not> lt b a \<Longrightarrow> \<not> lt c b \<Longrightarrow> \<not> lt c a"
begin

definition ordered :: "'a list \<Rightarrow> bool" where
  "ordered xs \<longleftrightarrow> sorted_wrt (\<lambda>a b. \<not> lt b a) xs"

lemma insertBy_ordered: "ordered xs \<Longrightarrow> ordered (insertBy lt x xs)"
proof (induction xs)
  case (Cons y ys)
  have set: "set (insertBy lt x ys) = insert x (set ys)" by (metis mset_insertBy set_mset_add_mset_insert set_mset_mset)
  show ?case
  proof (cases "lt y x")
    case True
    then show ?thesis using Cons asym by (auto simp: ordered_def set)
  next
    case False
    then show ?thesis using Cons.prems not_lt_trans by (auto simp: ordered_def)
  qed
qed (simp add: ordered_def)

lemma sortSlice_ordered: "ordered (sortSlice lt xs)"
  by (induction xs) (simp_all add: sortSlice_def insertBy_ordered, simp add: ordered_def)

lemma irrefl: "\<not> lt a a"
  using asym by blast

lemma selectBest_range:
  "i < length xs \<Longrightarrow> i \<le> selectBest lt i xs \<and> selectBest lt i xs < length xs \<and>
    (\<forall>j. i \<le> j \<longrightarrow> j < length xs \<longrightarrow> \<not> lt (xs ! j) (xs ! selectBest lt i xs))"
proof -
  assume i: "i < length xs"
  let ?f = "\<lambda>j best. if lt (xs ! j) (xs ! best) then j else best"
  have "i \<le> fold ?f [Suc i..<n] i \<and> fold ?f [Suc i..<n] i < length xs \<and> (\<forall>j. i \<le> j \<longrightarrow> j < n \<longrightarrow> \<not> lt (xs ! j) (xs ! fold ?f [Suc i..<n] i))"
    if "Suc i \<le> n" "n \<le> length xs" for n
    using that
  proof (induction n rule: dec_induct)
    case base
    then show ?case using i irrefl by (auto simp: less_Suc_eq)
  next
    case (step n)
    let ?b = "fold ?f [Suc i..<n] i"
    have IH: "i \<le> ?b" "?b < length xs" "\<And>j. i \<le> j \<Longrightarrow> j < n \<Longrightarrow> \<not> lt (xs ! j) (xs ! ?b)" using step by auto
    have "\<not> lt (xs ! j) (xs ! ?f n ?b)" if "i \<le> j" "j < Suc n" for j
    proof (cases "j = n")
      case True
      then show ?thesis using irrefl by simp
    next
      case False
      then have old: "\<not> lt (xs ! j) (xs ! ?b)" using IH(3) that by simp
      then show ?thesis using not_lt_trans [OF asym old] by (cases \<open>lt (xs ! n) (xs ! ?b)\<close>) simp_all
    qed
    then show ?case using IH(1,2) step by auto
  qed
  from this [of "length xs"] i show ?thesis by (simp add: selectBest_def)
qed

lemma mset_selectionStep: "i < length xs \<Longrightarrow> mset (selectionStep lt i xs) = mset xs"
  using selectBest_range [of i xs] by (simp add: selectionStep_def Let_def mset_swap)

lemma selectionSort_ordered: "mset (selectionSort lt xs) = mset xs \<and> ordered (selectionSort lt xs)"
proof -
  let ?P = "\<lambda>n ys. length ys = length xs \<and> mset ys = mset xs \<and> (\<forall>a b. a < n \<longrightarrow> a < b \<longrightarrow> b < length xs \<longrightarrow> \<not> lt (ys ! b) (ys ! a))"
  have "?P n (fold (selectionStep lt) [0..<n] xs)" if "n \<le> length xs" for n
    using that
  proof (induction n)
    case (Suc n)
    let ?ys = "fold (selectionStep lt) [0..<n] xs"
    have IH: "?P n ?ys" using Suc by simp
    then have n: "n < length ?ys" using Suc by simp
    let ?b = "selectBest lt n ?ys"
    note best = selectBest_range [OF n]
    have at: "selectionStep lt n ?ys ! k = (if k = ?b then ?ys ! n else if k = n then ?ys ! ?b else ?ys ! k)" if "k < length xs" for k
      using that IH n best by (auto simp: selectionStep_def Let_def nth_list_update)
    have "\<not> lt (selectionStep lt n ?ys ! b) (selectionStep lt n ?ys ! a)" if ab: "a < Suc n" "a < b" "b < length xs" for a b
    proof (cases "a = n")
      case True
      obtain k where "selectionStep lt n ?ys ! b = ?ys ! k" "n \<le> k" "k < length ?ys"
        using ab True at [of b] IH n by (cases "b = ?b") auto
      moreover have "selectionStep lt n ?ys ! a = ?ys ! ?b" using at [of a] ab True by auto
      ultimately show ?thesis using best by simp
    next
      case False
      then have "a < n" using ab by simp
      moreover obtain k where "selectionStep lt n ?ys ! b = ?ys ! k" "a < k" "k < length xs"
        using ab at [of b] IH n best \<open>a < n\<close> by (cases "b = ?b"; cases "b = n") auto
      moreover have "selectionStep lt n ?ys ! a = ?ys ! a" using at [of a] ab best \<open>a < n\<close> by auto
      ultimately show ?thesis using IH by simp
    qed
    moreover have "mset (selectionStep lt n ?ys) = mset xs" "length (selectionStep lt n ?ys) = length xs"
      using mset_selectionStep [OF n] IH by (simp_all add: selectionStep_def Let_def)
    ultimately show ?case by simp
  qed simp
  from this [of "length xs"] show ?thesis by (auto simp: selectionSort_def ordered_def sorted_wrt_iff_nth_less)
qed

end

locale total_order_less = weak_order +
  assumes total: "\<not> lt a b \<Longrightarrow> \<not> lt b a \<Longrightarrow> a = b"
begin

text \<open>The result does not depend on the order of the input.\<close>

lemma ordered_unique: "ordered xs \<Longrightarrow> ordered ys \<Longrightarrow> mset xs = mset ys \<Longrightarrow> xs = ys"
proof (induction xs arbitrary: ys)
  case (Cons x xs)
  then obtain y ys' where ys: "ys = y # ys'" by (cases ys) auto
  have "x = y"
  proof (rule ccontr)
    assume "x \<noteq> y"
    moreover have "x \<in> set (y # ys')" "y \<in> set (x # xs)"
      using Cons.prems(3) ys by (metis list.set_intros(1) set_mset_mset)+
    ultimately have "\<not> lt x y" "\<not> lt y x" using Cons.prems(1,2) ys by (auto simp: ordered_def)
    then show False using total \<open>x \<noteq> y\<close> by blast
  qed
  then show ?case using Cons ys by (auto simp: ordered_def)
qed simp

lemma sortSlice_perm: "mset xs = mset ys \<Longrightarrow> sortSlice lt xs = sortSlice lt ys"
  by (rule ordered_unique) (simp_all add: sortSlice_ordered)

end

subsection \<open>The metadata at the end of a code\<close>

text \<open>The search functions of package \<open>bytes\<close>; \<open>LastIndex\<close> is -1 when there is no occurrence.\<close>

definition occursAt :: "bytes \<Rightarrow> bytes \<Rightarrow> nat \<Rightarrow> bool" where
  "occursAt s sep i \<longleftrightarrow> take (length sep) (drop i s) = sep"

definition bytesContains :: "bytes \<Rightarrow> bytes \<Rightarrow> bool" where
  "bytesContains s sep \<longleftrightarrow> list_ex (occursAt s sep) [0..<Suc (length s)]"

definition LastIndex :: "bytes \<Rightarrow> bytes \<Rightarrow> int" where
  "LastIndex s sep = (case find (occursAt s sep) (rev [0..<Suc (length s)]) of None \<Rightarrow> -1 | Some i \<Rightarrow> int i)"

definition metadataMarkers :: "bytes list" where
  "metadataMarkers = map (map of_char) [''ipfs'', ''bzzr1'', ''bzzr0'', ''solc'']"

definition containsMetadataMarker :: "bytes \<Rightarrow> bool" where
  "containsMetadataMarker footer \<longleftrightarrow> list_ex (bytesContains footer) metadataMarkers"

definition isLikelyCBORMapPrefix :: "byte \<Rightarrow> bool" where
  "isLikelyCBORMapPrefix first \<longleftrightarrow> and first 0xE0 = 0xA0"

definition footerLength :: "bytes \<Rightarrow> int" where
  "footerLength code = 256 * uint (code ! (length code - 2)) + uint (code ! (length code - 1))"

definition stripMetadataFooterStrict :: "bytes \<Rightarrow> bytes \<times> bool" where
  "stripMetadataFooterStrict code =
     (let n = int (length code); footerLen = footerLength code; start = n - 2 - footerLen in
      if n < 4 then (code, False)
      else if footerLen \<le> 0 \<or> footerLen + 2 > n then (code, False)
      else if start < 0 then (code, False)
      else if \<not> isLikelyCBORMapPrefix (code ! nat start) then (code, False)
      else if \<not> containsMetadataMarker (take (nat footerLen) (drop (nat start) code)) then (code, False)
      else (take (nat start) code, True))"

text \<open>The loop that goes back from a marker to the start of the map that holds it.\<close>

fun backtrack :: "bytes \<Rightarrow> nat list \<Rightarrow> bytes \<times> bool" where
  "backtrack code [] = (code, False)"
| "backtrack code (i # is) =
     (if \<not> isLikelyCBORMapPrefix (code ! i) then backtrack code is
      else if length code - i < 4 then backtrack code is
      else (take i code, True))"

definition markerPosition :: "bytes \<Rightarrow> int" where
  "markerPosition footer =
     fold (\<lambda>marker pos. let idx = LastIndex footer marker in if idx \<ge> 0 \<and> idx > pos then idx else pos) metadataMarkers (-1)"

definition stripMetadataFooterLoose :: "bytes \<Rightarrow> bytes \<times> bool" where
  "stripMetadataFooterLoose code =
     (let start = length code - 256; markerPos = markerPosition (drop start code); markerAbs = start + nat markerPos in
      if length code < 8 then (code, False)
      else if markerPos < 0 then (code, False)
      else backtrack code (rev [markerAbs - 24..<Suc markerAbs]))"

definition normalizeForMatch :: "bytes \<Rightarrow> bytes" where
  "normalizeForMatch code =
     (case stripMetadataFooterStrict code of
        (stripped, True) \<Rightarrow> stripped
      | (_, False) \<Rightarrow>
          (case stripMetadataFooterLoose code of
             (stripped, True) \<Rightarrow> stripped
           | (_, False) \<Rightarrow> code))"

text \<open>What is cut off is at the end.\<close>

lemma backtrack_prefix: "\<exists>n. fst (backtrack code is) = take n code"
  by (induction "is") (auto intro: exI [of _ "length code"])

lemma normalizeForMatch_prefix: "\<exists>n. normalizeForMatch code = take n code"
proof -
  have strict: "\<exists>n. fst (stripMetadataFooterStrict code) = take n code"
    by (auto simp: stripMetadataFooterStrict_def Let_def intro: exI [of _ "length code"])
  have loose: "\<exists>n. fst (stripMetadataFooterLoose code) = take n code"
    using backtrack_prefix by (auto simp: stripMetadataFooterLoose_def Let_def intro: exI [of _ "length code"])
  obtain a f b g where "stripMetadataFooterStrict code = (a, f)" "stripMetadataFooterLoose code = (b, g)" by fastforce
  then show ?thesis
    using strict loose by (cases f; cases g) (auto simp: normalizeForMatch_def intro: exI [of _ "length code"])
qed

subsection \<open>Comparing two codes\<close>

record immutableReference =
  imrStart :: int
  imrLength :: int

definition markByte :: "nat \<Rightarrow> bool list \<times> nat \<Rightarrow> bool list \<times> nat" where
  "markByte i = (\<lambda>(msk, n). if \<not> msk ! i then (msk[i := True], n + 1) else (msk, n))"

definition referenceEnd :: "immutableReference \<Rightarrow> nat \<Rightarrow> int" where
  "referenceEnd ref len = (let stop = wrap64 (imrStart ref + imrLength ref) in if stop > int len then int len else stop)"

definition maskReference :: "immutableReference \<Rightarrow> bool list \<times> nat \<Rightarrow> bool list \<times> nat" where
  "maskReference ref = (\<lambda>(msk, n).
     if imrStart ref < 0 \<or> imrLength ref \<le> 0 \<or> imrStart ref \<ge> int (length msk) then (msk, n)
     else fold markByte [nat (imrStart ref)..<nat (referenceEnd ref (length msk))] (msk, n))"

fun compareLoop :: "bool list \<Rightarrow> bytes \<Rightarrow> bytes \<Rightarrow> nat list \<Rightarrow> nat \<Rightarrow> nat \<times> bool" where
  "compareLoop msk onChain artifact [] matched = (matched, True)"
| "compareLoop msk onChain artifact (i # is) matched =
     (if msk ! i then compareLoop msk onChain artifact is (matched + 1)
      else if onChain ! i \<noteq> artifact ! i then (matched, False)
      else compareLoop msk onChain artifact is (matched + 1))"

definition strictImmutableMatch :: "bytes \<Rightarrow> bytes \<Rightarrow> immutableReference list \<Rightarrow> nat \<times> nat \<times> nat \<times> bool" where
  "strictImmutableMatch onChainNormalized artifact refs =
     (let a = normalizeForMatch artifact in
      if a = [] \<or> length onChainNormalized \<noteq> length a then (0, 0, 0, False)
      else
        let (msk, immutableBytes) = fold maskReference refs (replicate (length a) False, 0);
            (matched, ok) = compareLoop msk onChainNormalized a [0..<length a] 0
        in (matched, length a, immutableBytes, ok))"

text \<open>A byte is masked when some reference covers it; the bytes are counted once.\<close>

definition covers :: "nat \<Rightarrow> immutableReference \<Rightarrow> nat \<Rightarrow> bool" where
  "covers len ref i \<longleftrightarrow> 0 \<le> imrStart ref \<and> 0 < imrLength ref \<and> imrStart ref \<le> int i \<and> int i < referenceEnd ref len"

definition maskOf :: "nat \<Rightarrow> immutableReference list \<Rightarrow> bool list" where
  "maskOf len refs = map (\<lambda>i. \<exists>ref\<in>set refs. covers len ref i) [0..<len]"

definition masked :: "bool list \<Rightarrow> nat" where
  "masked msk = length (filter id msk)"

lemma masked_update: "i < length msk \<Longrightarrow> \<not> msk ! i \<Longrightarrow> masked (msk[i := True]) = Suc (masked msk)"
  by (induction msk arbitrary: i) (auto simp: masked_def nth_Cons split: nat.splits)

definition maskWith :: "(nat \<Rightarrow> bool) \<Rightarrow> bool list \<Rightarrow> bool list" where
  "maskWith P msk = map (\<lambda>i. msk ! i \<or> P i) [0..<length msk]"

lemma maskWith_length [simp]: "length (maskWith P msk) = length msk"
  by (simp add: maskWith_def)

lemma maskWith_maskWith [simp]: "maskWith Q (maskWith P msk) = maskWith (\<lambda>i. P i \<or> Q i) msk"
  by (rule nth_equalityI) (simp_all add: maskWith_def)

lemma maskWith_none [simp]: "maskWith (\<lambda>i. False) msk = msk"
  by (rule nth_equalityI) (simp_all add: maskWith_def)

lemma maskWith_one: "j < length msk \<Longrightarrow> msk[j := True] = maskWith (\<lambda>i. i = j) msk"
  by (rule nth_equalityI) (auto simp: maskWith_def nth_list_update)

lemma maskWith_cong: "(\<And>i. i < length msk \<Longrightarrow> P i \<longleftrightarrow> Q i) \<Longrightarrow> maskWith P msk = maskWith Q msk"
  by (rule nth_equalityI) (simp_all add: maskWith_def)

lemma markByte_masked: "j < length msk \<Longrightarrow> markByte j (msk, masked msk) = (maskWith (\<lambda>i. i = j) msk, masked (maskWith (\<lambda>i. i = j) msk))"
  using masked_update [of j msk] list_update_id [of msk j] by (cases "msk ! j") (simp_all add: markByte_def flip: maskWith_one)

lemma markBytes:
  "\<forall>i\<in>set is. i < length msk \<Longrightarrow>
   fold markByte is (msk, masked msk) = (maskWith (\<lambda>i. i \<in> set is) msk, masked (maskWith (\<lambda>i. i \<in> set is) msk))"
  by (induction "is" arbitrary: msk) (simp_all add: markByte_masked)

lemma maskReference_covers:
  "maskReference ref (msk, masked msk) = (maskWith (covers (length msk) ref) msk, masked (maskWith (covers (length msk) ref) msk))"
proof (cases "imrStart ref < 0 \<or> imrLength ref \<le> 0 \<or> imrStart ref \<ge> int (length msk)")
  case True
  then have "maskWith (covers (length msk) ref) msk = maskWith (\<lambda>i. False) msk" by (intro maskWith_cong) (auto simp: covers_def)
  then show ?thesis using True by (simp add: maskReference_def)
next
  case False
  let ?is = "[nat (imrStart ref)..<nat (referenceEnd ref (length msk))]"
  have "referenceEnd ref (length msk) \<le> int (length msk)" by (simp add: referenceEnd_def Let_def)
  then have range: "\<forall>i\<in>set ?is. i < length msk" by auto
  have "(\<lambda>i. i \<in> set ?is) = covers (length msk) ref" using False by (auto simp: covers_def fun_eq_iff)
  then show ?thesis using markBytes [OF range] False by (simp add: maskReference_def)
qed

lemma maskReferences:
  "fold maskReference refs (msk, masked msk) =
     (maskWith (\<lambda>i. \<exists>ref\<in>set refs. covers (length msk) ref i) msk, masked (maskWith (\<lambda>i. \<exists>ref\<in>set refs. covers (length msk) ref i) msk))"
  by (induction refs arbitrary: msk) (simp_all add: maskReference_covers)

lemma masks: "fold maskReference refs (replicate len False, 0) = (maskOf len refs, masked (maskOf len refs))"
proof -
  have "masked (replicate len False) = 0" by (simp add: masked_def)
  moreover have "maskWith (\<lambda>i. \<exists>ref\<in>set refs. covers len ref i) (replicate len False) = maskOf len refs"
    by (rule nth_equalityI) (simp_all add: maskWith_def maskOf_def)
  ultimately show ?thesis using maskReferences [of refs "replicate len False"] by simp
qed

lemma compareLoop_ok: "snd (compareLoop msk a b is n) \<longleftrightarrow> (\<forall>i\<in>set is. msk ! i \<or> a ! i = b ! i)"
  by (induction "is" arbitrary: n) auto

lemma compareLoop_matched: "snd (compareLoop msk a b is n) \<Longrightarrow> fst (compareLoop msk a b is n) = n + length is"
  by (induction "is" arbitrary: n) (auto split: if_splits)

text \<open>Two codes agree when, their metadata cut off, they have the same length and differ in immutables only.\<close>

definition agrees :: "bytes \<Rightarrow> bytes \<Rightarrow> immutableReference list \<Rightarrow> bool" where
  "agrees a b refs \<longleftrightarrow> b \<noteq> [] \<and> length a = length b \<and>
     (\<forall>i<length b. a ! i = b ! i \<or> (\<exists>ref\<in>set refs. covers (length b) ref i))"

lemma strictImmutableMatch_iff:
  "snd (snd (snd (strictImmutableMatch a artifact refs))) \<longleftrightarrow> agrees a (normalizeForMatch artifact) refs"
  "agrees a (normalizeForMatch artifact) refs \<Longrightarrow>
     strictImmutableMatch a artifact refs =
       (length a, length a, masked (maskOf (length a) refs), True)"
proof -
  let ?b = "normalizeForMatch artifact"
  let ?loop = "compareLoop (maskOf (length ?b) refs) a ?b [0..<length ?b] 0"
  have ok: "snd ?loop \<longleftrightarrow> (\<forall>i<length ?b. a ! i = ?b ! i \<or> (\<exists>ref\<in>set refs. covers (length ?b) ref i))"
    by (auto simp: compareLoop_ok maskOf_def)
  have m: "snd ?loop \<Longrightarrow> fst ?loop = length ?b" using compareLoop_matched by fastforce
  show "snd (snd (snd (strictImmutableMatch a artifact refs))) \<longleftrightarrow> agrees a ?b refs"
    unfolding agrees_def ok [symmetric] by (simp add: strictImmutableMatch_def masks Let_def split: prod.split)
  show "agrees a ?b refs \<Longrightarrow> strictImmutableMatch a artifact refs = (length a, length a, masked (maskOf (length a) refs), True)"
    using m unfolding agrees_def ok [symmetric] by (cases ?loop) (simp add: strictImmutableMatch_def masks Let_def)
qed

subsection \<open>Searching the build files\<close>

record deployedArtifact =
  daObject :: string
  daImmutableReferences :: "(string, immutableReference list) gomap"

text \<open>The contracts of a build file: by source and name, the document of each, or nothing when it does not decode.\<close>

type_synonym buildInfo = "(string, (string, deployedArtifact option) gomap) gomap"

record artifactCandidate =
  acSourceName :: string
  acContractName :: string
  acBytecode :: bytes
  acImmutables :: "immutableReference list"
  acBuildInfoPath :: string

record cachedBuildInfo =
  cbModTime :: int
  cbSize :: int
  cbEntries :: "artifactCandidate list"

record FileSystem =
  fsJoin :: "string list \<Rightarrow> string"
  fsGlob :: "string \<Rightarrow> string + string list"
  fsStat :: "string \<Rightarrow> string + (int \<times> int)"
  fsDocument :: "string \<Rightarrow> string + buildInfo"

definition decodeDeployedBytecode :: "deployedArtifact option \<Rightarrow> bytes \<times> immutableReference list" where
  "decodeDeployedBytecode raw =
     (case raw of
        None \<Rightarrow> ([], [])
      | Some artifact \<Rightarrow>
          let hexStr = TrimPrefix (daObject artifact) ''0x'' in
          if hexStr = [] then ([], [])
          else case hexDecode hexStr of
              None \<Rightarrow> ([], [])
            | Some code \<Rightarrow> (code, concat (map snd (daImmutableReferences artifact))))"

definition candidatesOf :: "string \<Rightarrow> buildInfo \<Rightarrow> artifactCandidate list" where
  "candidatesOf path doc =
     concat (map (\<lambda>(sourceName, contracts).
       concat (map (\<lambda>(contractName, raw).
         case decodeDeployedBytecode raw of
           (bytecode, refs) \<Rightarrow>
             if bytecode = [] then []
             else [\<lparr>acSourceName = sourceName, acContractName = contractName, acBytecode = bytecode, acImmutables = refs,
                    acBuildInfoPath = path\<rparr>]) contracts)) doc)"

definition stringLess :: "string \<Rightarrow> string \<Rightarrow> bool" where
  "stringLess a b \<longleftrightarrow> (map of_char a :: nat list) < map of_char b"

definition findBuildInfoFiles :: "FileSystem \<Rightarrow> string \<Rightarrow> string + string list" where
  "findBuildInfoFiles fs projectRoot =
     (case fsGlob fs (fsJoin fs [projectRoot, ''out'', ''build-info'', ''*.json'']) of
        Inl e \<Rightarrow> Inl e
      | Inr a \<Rightarrow>
          (case fsGlob fs (fsJoin fs [projectRoot, ''artifacts'', ''build-info'', ''*.json'']) of
             Inl e \<Rightarrow> Inl e
           | Inr b \<Rightarrow> Inr (sortSlice stringLess (a @ b))))"

type_synonym buildInfoCache = "(string, cachedBuildInfo) gomap"

definition loadBuildInfoCandidates :: "FileSystem \<Rightarrow> string \<Rightarrow> buildInfoCache \<Rightarrow> (string + artifactCandidate list) \<times> buildInfoCache" where
  "loadBuildInfoCandidates fs path cache =
     (case fsStat fs path of
        Inl e \<Rightarrow> (Inl e, cache)
      | Inr (modTime, len) \<Rightarrow>
          let fresh =
            (case fsDocument fs path of
               Inl e \<Rightarrow> (Inl e, cache)
             | Inr doc \<Rightarrow>
                 let entries = candidatesOf path doc
                 in (Inr entries, mput path \<lparr>cbModTime = modTime, cbSize = len, cbEntries = entries\<rparr> cache))
          in case map_of cache path of
               None \<Rightarrow> fresh
             | Some cached \<Rightarrow>
                 if cbModTime cached = modTime \<and> cbSize cached = len then (Inr (cbEntries cached), cache) else fresh)"

record MatchResult =
  mrsSourceName :: string
  mrsContractName :: string
  mrsBuildInfoPath :: string
  mrsMatchedBytes :: nat
  mrsTotalBytes :: nat
  mrsExact :: bool
  mrsImmutableBytes :: nat

definition resultOf :: "bytes \<Rightarrow> artifactCandidate \<Rightarrow> MatchResult list" where
  "resultOf onChainNormalized entry =
     (case strictImmutableMatch onChainNormalized (acBytecode entry) (acImmutables entry) of
        (matched, tot, immutableBytes, ok) \<Rightarrow>
          if \<not> ok \<or> tot = 0 then []
          else [\<lparr>mrsSourceName = acSourceName entry, mrsContractName = acContractName entry,
                 mrsBuildInfoPath = acBuildInfoPath entry, mrsMatchedBytes = matched, mrsTotalBytes = tot,
                 mrsExact = True, mrsImmutableBytes = immutableBytes\<rparr>])"

fun scanPaths :: "FileSystem \<Rightarrow> bytes \<Rightarrow> string list \<Rightarrow> buildInfoCache \<Rightarrow> MatchResult list \<times> buildInfoCache" where
  "scanPaths fs onChainNormalized [] cache = ([], cache)"
| "scanPaths fs onChainNormalized (path # paths) cache =
     (case loadBuildInfoCandidates fs path cache of
        (Inl e, cache) \<Rightarrow> scanPaths fs onChainNormalized paths cache
      | (Inr entries, cache) \<Rightarrow>
          (case scanPaths fs onChainNormalized paths cache of
             (results, cache) \<Rightarrow> (concat (map (resultOf onChainNormalized) entries) @ results, cache)))"

definition resultLess :: "MatchResult \<Rightarrow> MatchResult \<Rightarrow> bool" where
  "resultLess a b =
     (if mrsExact a \<noteq> mrsExact b then mrsExact a
      else if mrsTotalBytes a \<noteq> mrsTotalBytes b then mrsTotalBytes a > mrsTotalBytes b
      else if mrsImmutableBytes a \<noteq> mrsImmutableBytes b then mrsImmutableBytes a < mrsImmutableBytes b
      else if mrsMatchedBytes a \<noteq> mrsMatchedBytes b then mrsMatchedBytes a > mrsMatchedBytes b
      else if mrsSourceName a \<noteq> mrsSourceName b then stringLess (mrsSourceName a) (mrsSourceName b)
      else if mrsContractName a \<noteq> mrsContractName b then stringLess (mrsContractName a) (mrsContractName b)
      else stringLess (mrsBuildInfoPath a) (mrsBuildInfoPath b))"

definition FindMatches :: "FileSystem \<Rightarrow> string \<Rightarrow> bytes \<Rightarrow> buildInfoCache \<Rightarrow> (string + MatchResult list) \<times> buildInfoCache" where
  "FindMatches fs projectRoot onChain cache =
     (if onChain = [] then (Inr [], cache)
      else let onChainNormalized = normalizeForMatch onChain in
        if onChainNormalized = [] then (Inr [], cache)
        else case findBuildInfoFiles fs projectRoot of
            Inl e \<Rightarrow> (Inl e, cache)
          | Inr paths \<Rightarrow>
              (case scanPaths fs onChainNormalized paths cache of
                 (results, cache) \<Rightarrow> (Inr (sortSlice resultLess results), cache)))"

subsection \<open>The comparison is total\<close>

lemma of_char_inj: "(map of_char a :: nat list) = map of_char b \<longleftrightarrow> a = b"
  by (metis inj_mapD inj_onI map_injective of_char_eq_iff)

text \<open>The comparison of results is the lexicographic order of their keys.\<close>

definition resultKey :: "MatchResult \<Rightarrow> bool \<times> int \<times> nat \<times> int \<times> nat list \<times> nat list \<times> nat list" where
  "resultKey r = (\<not> mrsExact r, - int (mrsTotalBytes r), mrsImmutableBytes r, - int (mrsMatchedBytes r),
     map of_char (mrsSourceName r), map of_char (mrsContractName r), map of_char (mrsBuildInfoPath r))"

lemma pair_less_if: "(x, y) < (x' :: 'a :: linorder, y' :: 'b :: linorder) \<longleftrightarrow> (if x \<noteq> x' then x < x' else y < y')"
  by auto

lemma resultLess_key: "resultLess a b \<longleftrightarrow> resultKey a < resultKey b"
  unfolding resultKey_def pair_less_if resultLess_def stringLess_def of_char_inj by (simp add: less_bool_def)

lemma resultKey_inj: "resultKey a = resultKey b \<longleftrightarrow> a = b"
  by (auto simp: resultKey_def of_char_inj intro!: MatchResult.equality)

lemma total_order_key:
  fixes key :: "'a \<Rightarrow> 'k :: linorder"
  assumes "\<And>a b. lt a b \<longleftrightarrow> key a < key b" "\<And>a b. key a = key b \<longleftrightarrow> a = b"
  shows "total_order_less lt"
  by unfold_locales (use assms in \<open>auto simp: not_less dest: antisym\<close>)

interpretation results: total_order_less resultLess
  by (rule total_order_key [OF resultLess_key resultKey_inj])

interpretation paths: total_order_less stringLess
  by (rule total_order_key [OF stringLess_def of_char_inj])

subsection \<open>What a search finds\<close>

text \<open>The cache only saves time, as long as a file with the same date and size has the same contents.\<close>

definition cacheFresh :: "FileSystem \<Rightarrow> buildInfoCache \<Rightarrow> bool" where
  "cacheFresh fs cache \<longleftrightarrow>
     (\<forall>path c. map_of cache path = Some c \<longrightarrow> fsStat fs path = Inr (cbModTime c, cbSize c) \<longrightarrow>
        (\<exists>doc. fsDocument fs path = Inr doc \<and> cbEntries c = candidatesOf path doc))"

definition candidatesAt :: "FileSystem \<Rightarrow> string \<Rightarrow> artifactCandidate list" where
  "candidatesAt fs path =
     (case fsStat fs path of
        Inl e \<Rightarrow> []
      | Inr st \<Rightarrow> (case fsDocument fs path of Inl e \<Rightarrow> [] | Inr doc \<Rightarrow> candidatesOf path doc))"

lemma loadBuildInfoCandidates_fresh:
  assumes "cacheFresh fs cache" "loadBuildInfoCandidates fs path cache = (r, cache')"
  shows "cacheFresh fs cache' \<and> (case r of Inl e \<Rightarrow> candidatesAt fs path = [] | Inr entries \<Rightarrow> entries = candidatesAt fs path)"
proof (cases "fsStat fs path")
  case (Inl e)
  then show ?thesis using assms by (auto simp: loadBuildInfoCandidates_def candidatesAt_def)
next
  case (Inr st)
  obtain t n where st: "fsStat fs path = Inr (t, n)" using Inr by (cases st) simp
  show ?thesis
  proof (cases "\<exists>c. map_of cache path = Some c \<and> cbModTime c = t \<and> cbSize c = n")
    case True
    then obtain c where c: "map_of cache path = Some c" "fsStat fs path = Inr (cbModTime c, cbSize c)" using st by auto
    then obtain doc where "fsDocument fs path = Inr doc" "cbEntries c = candidatesOf path doc"
      using assms(1) by (auto simp: cacheFresh_def)
    then show ?thesis using assms c by (auto simp: loadBuildInfoCandidates_def candidatesAt_def)
  next
    case False
    then have "(case fsDocument fs path of Inl e \<Rightarrow> (Inl e, cache)
      | Inr doc \<Rightarrow> (Inr (candidatesOf path doc), mput path \<lparr>cbModTime = t, cbSize = n, cbEntries = candidatesOf path doc\<rparr> cache)) = (r, cache')"
      using assms(2) st unfolding loadBuildInfoCandidates_def Let_def by (auto split: option.splits if_splits)
    then show ?thesis using assms(1) st by (auto simp: cacheFresh_def candidatesAt_def split: sum.splits if_splits) (metis cachedBuildInfo.select_convs(3))
  qed
qed

lemma scanPaths_fresh:
  "cacheFresh fs cache \<Longrightarrow> scanPaths fs code paths cache = (rs, cache') \<Longrightarrow>
     cacheFresh fs cache' \<and> rs = concat (map (resultOf code) (concat (map (candidatesAt fs) paths)))"
proof (induction paths arbitrary: cache rs cache')
  case (Cons path paths)
  obtain r c1 where l: "loadBuildInfoCandidates fs path cache = (r, c1)" by fastforce
  obtain rs2 c2 where rest: "scanPaths fs code paths c1 = (rs2, c2)" by fastforce
  note fresh = loadBuildInfoCandidates_fresh [OF Cons.prems(1) l]
  then have "cacheFresh fs c2 \<and> rs2 = concat (map (resultOf code) (concat (map (candidatesAt fs) paths)))"
    using Cons.IH rest by blast
  then show ?case using fresh Cons.prems(2) l rest by (cases r) auto
qed simp

lemma resultOf_set:
  "r \<in> set (resultOf code entry) \<longleftrightarrow>
     agrees code (normalizeForMatch (acBytecode entry)) (acImmutables entry) \<and>
     r = \<lparr>mrsSourceName = acSourceName entry, mrsContractName = acContractName entry, mrsBuildInfoPath = acBuildInfoPath entry,
          mrsMatchedBytes = length code, mrsTotalBytes = length code, mrsExact = True,
          mrsImmutableBytes = masked (maskOf (length code) (acImmutables entry))\<rparr>"
proof (cases "agrees code (normalizeForMatch (acBytecode entry)) (acImmutables entry)")
  case True
  then have "length code \<noteq> 0" by (auto simp: agrees_def)
  then show ?thesis using strictImmutableMatch_iff(2) [OF True] True by (simp add: resultOf_def)
next
  case False
  then have "\<not> snd (snd (snd (strictImmutableMatch code (acBytecode entry) (acImmutables entry))))"
    by (simp add: strictImmutableMatch_iff(1))
  then show ?thesis using False
    by (cases "strictImmutableMatch code (acBytecode entry) (acImmutables entry)") (simp add: resultOf_def)
qed

lemma FindMatches_results:
  assumes "FindMatches fs root code cache = (Inr rs, cache')" "cacheFresh fs cache" "normalizeForMatch code \<noteq> []"
  shows "cacheFresh fs cache' \<and> sorted_wrt (\<lambda>a b. \<not> resultLess b a) rs \<and>
    (\<exists>paths. findBuildInfoFiles fs root = Inr paths \<and>
      (\<forall>r. r \<in> set rs \<longleftrightarrow> (\<exists>path\<in>set paths. \<exists>entry\<in>set (candidatesAt fs path).
         agrees (normalizeForMatch code) (normalizeForMatch (acBytecode entry)) (acImmutables entry) \<and>
         r = \<lparr>mrsSourceName = acSourceName entry, mrsContractName = acContractName entry, mrsBuildInfoPath = acBuildInfoPath entry,
              mrsMatchedBytes = length (normalizeForMatch code), mrsTotalBytes = length (normalizeForMatch code), mrsExact = True,
              mrsImmutableBytes = masked (maskOf (length (normalizeForMatch code)) (acImmutables entry))\<rparr>)))"
proof -
  have "code \<noteq> []" using assms(3) normalizeForMatch_prefix [of code] by auto
  then obtain paths found where p: "findBuildInfoFiles fs root = Inr paths"
    "scanPaths fs (normalizeForMatch code) paths cache = (found, cache')" "rs = sortSlice resultLess found"
    using assms(1,3) by (auto simp: FindMatches_def Let_def split: sum.splits prod.splits)
  note fresh = scanPaths_fresh [OF assms(2) p(2)]
  have "r \<in> set rs \<longleftrightarrow> (\<exists>path\<in>set paths. \<exists>entry\<in>set (candidatesAt fs path). r \<in> set (resultOf (normalizeForMatch code) entry))" for r
    using fresh p(3) by auto
  moreover have "sorted_wrt (\<lambda>a b. \<not> resultLess b a) rs"
    using results.sortSlice_ordered [of found] p(3) by (simp add: results.ordered_def)
  ultimately show ?thesis using fresh p(1) by (simp add: resultOf_set)
qed

subsection \<open>The older search\<close>

text \<open>
  \<open>match.go\<close>: similarity of prefixes, with thresholds. A ratio of two lengths is compared with the constants 0.9 and 0.6 in
  floating point; for lengths below \<open>2 ^ 50\<close> that is the comparison of the fractions.
\<close>

definition stripMetadataFooter :: "bytes \<Rightarrow> bytes \<times> bool" where
  "stripMetadataFooter code =
     (let n = int (length code); footerLen = footerLength code; footerStart = n - 2 - footerLen in
      if n < 4 then (code, False)
      else if footerLen \<le> 0 \<or> footerLen + 2 > n then (code, False)
      else if footerStart < 0 then (code, False)
      else if and (code ! nat footerStart) 0xF0 \<noteq> 0xA0 then (code, False)
      else (take (nat footerStart) code, True))"

definition normalizeBytecode :: "bytes \<Rightarrow> bytes" where
  "normalizeBytecode code = fst (stripMetadataFooter code)"

fun similarPrefix :: "bytes \<Rightarrow> bytes \<Rightarrow> nat" where
  "similarPrefix (a # as) (b # bs) = (if a = b \<or> b = 0 then Suc (similarPrefix as bs) else 0)"
| "similarPrefix _ _ = 0"

definition bytecodeSimilarity :: "bytes \<Rightarrow> bytes \<Rightarrow> nat \<times> nat" where
  "bytecodeSimilarity onChain artifact =
     (let a = normalizeBytecode onChain; b = normalizeBytecode artifact
      in (similarPrefix a b, if length b < length a then length b else length a))"

record BytecodeMatch =
  bmtSourceName :: string
  bmtContractName :: string
  bmtBuildInfoPath :: string
  bmtMatchedBytes :: nat
  bmtTotalBytes :: nat
  bmtExact :: bool

definition localMatchMinBytes :: nat where
  "localMatchMinBytes = 64"

definition extractDeployedBytecode :: "deployedArtifact option \<Rightarrow> bytes" where
  "extractDeployedBytecode raw =
     (case raw of
        None \<Rightarrow> []
      | Some artifact \<Rightarrow>
          let hexStr = TrimPrefix (daObject artifact) ''0x'' in
          if hexStr = [] then [] else case hexDecode hexStr of None \<Rightarrow> [] | Some code \<Rightarrow> code)"

definition legacyCandidate :: "bytes \<Rightarrow> string \<Rightarrow> string \<Rightarrow> string \<Rightarrow> deployedArtifact option \<Rightarrow> BytecodeMatch list" where
  "legacyCandidate target path sourceName contractName raw =
     (let artifactCode = extractDeployedBytecode raw; normalizedArtifact = normalizeBytecode artifactCode;
          a = length target; b = length normalizedArtifact; lo = (if a > b then b else a); hi = (if a > b then a else b);
          (matched, tot) = bytecodeSimilarity target artifactCode in
      if artifactCode = [] \<or> normalizedArtifact = [] then []
      else if 10 * lo < 9 * hi then []
      else if tot = 0 \<or> matched < localMatchMinBytes then []
      else if 10 * matched < 6 * tot then []
      else [\<lparr>bmtSourceName = sourceName, bmtContractName = contractName, bmtBuildInfoPath = path, bmtMatchedBytes = matched,
             bmtTotalBytes = tot, bmtExact = (matched = tot \<and> tot > 0 \<and> a = b)\<rparr>])"

definition betterMatch :: "BytecodeMatch \<Rightarrow> BytecodeMatch \<Rightarrow> bool" where
  "betterMatch a b = (if bmtExact a \<noteq> bmtExact b then bmtExact a else bmtMatchedBytes a > bmtMatchedBytes b)"

definition findLocalBytecodeMatchesLegacy :: "FileSystem \<Rightarrow> string \<Rightarrow> bytes \<Rightarrow> string + BytecodeMatch list" where
  "findLocalBytecodeMatchesLegacy fs projectRoot onChain =
     (if onChain = [] then Inr []
      else case findBuildInfoFiles fs projectRoot of
          Inl e \<Rightarrow> Inl e
        | Inr paths \<Rightarrow>
            let target = normalizeBytecode onChain in
            if target = [] then Inr []
            else Inr (selectionSort betterMatch (concat (map (\<lambda>path.
                case fsDocument fs path of
                  Inl e \<Rightarrow> []
                | Inr doc \<Rightarrow> concat (map (\<lambda>(sourceName, contracts).
                    concat (map (\<lambda>(contractName, raw). legacyCandidate target path sourceName contractName raw) contracts)) doc))
                paths))))"

definition findLocalBytecodeMatchesV2 :: "FileSystem \<Rightarrow> string \<Rightarrow> bytes \<Rightarrow> buildInfoCache \<Rightarrow> (string + BytecodeMatch list) \<times> buildInfoCache" where
  "findLocalBytecodeMatchesV2 fs projectRoot onChain cache =
     (case FindMatches fs projectRoot onChain cache of
        (Inl e, cache) \<Rightarrow> (Inl e, cache)
      | (Inr results, cache) \<Rightarrow>
          (Inr (map (\<lambda>m. \<lparr>bmtSourceName = mrsSourceName m, bmtContractName = mrsContractName m,
             bmtBuildInfoPath = mrsBuildInfoPath m, bmtMatchedBytes = mrsMatchedBytes m, bmtTotalBytes = mrsTotalBytes m,
             bmtExact = mrsExact m\<rparr>) results), cache))"

text \<open>The engine is chosen by an environment variable, whose value is an argument here.\<close>

definition FindLocalBytecodeMatches :: "FileSystem \<Rightarrow> string \<Rightarrow> string \<Rightarrow> bytes \<Rightarrow> buildInfoCache \<Rightarrow> (string + BytecodeMatch list) \<times> buildInfoCache" where
  "FindLocalBytecodeMatches fs matchEngine projectRoot onChain cache =
     (if ToLower (TrimSpace matchEngine) = ''legacy'' then (findLocalBytecodeMatchesLegacy fs projectRoot onChain, cache)
      else findLocalBytecodeMatchesV2 fs projectRoot onChain cache)"

interpretation matches: weak_order betterMatch
  by unfold_locales (auto simp: betterMatch_def split: if_splits)

text \<open>Matches come best first: the exact ones, then by the length of the prefix.\<close>

lemma legacy_sorted:
  assumes "findLocalBytecodeMatchesLegacy fs root code = Inr ms"
  shows "sorted_wrt (\<lambda>a b. \<not> betterMatch b a) ms"
proof -
  have "ms = [] \<or> (\<exists>xs. ms = selectionSort betterMatch xs)"
    using assms by (auto simp: findLocalBytecodeMatchesLegacy_def Let_def split: if_splits sum.splits)
  then show ?thesis
    using matches.selectionSort_ordered by (auto simp: matches.ordered_def)
qed

lemma similarPrefix_le: "similarPrefix a b \<le> length a \<and> similarPrefix a b \<le> length b"
  by (induction a b rule: similarPrefix.induct) auto

end
