(* ===== verification/Annotate.thy ===== *)
theory Annotate
  imports Machine SourceRuntime
begin

text \<open>
  The hooks that hand source annotations to an observer (\<open>internal/debugengine\<close>): the hooks, the registry that adds them to
  those of a frame, and the constructors. What an observer keeps is part of the state of the hooks.
\<close>

subsection \<open>Observers\<close>

record 'h AnnotationObserver =
  obsMemory :: "MemoryAnnotation \<Rightarrow> 'h \<Rightarrow> 'h"
  obsStorage :: "StorageAnnotation \<Rightarrow> 'h \<Rightarrow> 'h"

definition ObserverFuncs :: "(MemoryAnnotation \<Rightarrow> 'h \<Rightarrow> 'h) option \<Rightarrow> (StorageAnnotation \<Rightarrow> 'h \<Rightarrow> 'h) option \<Rightarrow> 'h AnnotationObserver" where
  "ObserverFuncs memoryFunc storageFunc =
     \<lparr>obsMemory = (\<lambda>annotation h. case memoryFunc of None \<Rightarrow> h | Some f \<Rightarrow> f annotation h),
      obsStorage = (\<lambda>annotation h. case storageFunc of None \<Rightarrow> h | Some f \<Rightarrow> f annotation h)\<rparr>"

subsection \<open>The hooks\<close>

definition scopeForHookType :: "HookType \<Rightarrow> evm_error + StorageScope" where
  "scopeForHookType t =
     (if t = HookTypeStorageRead \<or> t = HookTypeStorageWrite then Inr StorageScopePersistent
      else if t = HookTypeTransientLoad \<or> t = HookTypeTransientStore then Inr StorageScopeTransient
      else Inl (ErrOther (''hook type '' @ showNat (hookTypeNum t) @ '' does not map to storage scope'')))"

definition annotateHash :: "Hash \<Rightarrow> string" where
  "annotateHash h = ''0x'' @ hexEncode (word_bytes h)"

definition observeMemory :: "SourceIndex option \<Rightarrow> 'h AnnotationObserver \<Rightarrow> OpcodeInfo \<Rightarrow> MemoryAccessInfo \<Rightarrow> 'h \<Rightarrow> 'h" where
  "observeMemory index observer opc m =
     obsMemory observer (AnnotateMemoryAccess index
       \<lparr>meacPC = oiPC opc, meacOpcode = oiOp opc, meacOffset = maOffset m, meacSize = maSize m, meacIsWrite = maIsWrite m,
        meacData = maData m\<rparr>)"

definition observeStorage :: "SourceIndex option \<Rightarrow> 'h AnnotationObserver \<Rightarrow> OpcodeInfo \<Rightarrow> StorageAccessInfo \<Rightarrow> StorageScope \<Rightarrow> 'h \<Rightarrow> 'h" where
  "observeStorage index observer opc a scope =
     obsStorage observer (AnnotateStorageAccess index
       \<lparr>stacPC = oiPC opc, stacOpcode = oiOp opc, stacSlot = annotateHash (saSlot a), stacIsWrite = saIsWrite a,
        stacValue = annotateHash (saValue a), stacScope = scope\<rparr>)"

definition annotationFire :: "HookType \<Rightarrow> SourceIndex option \<Rightarrow> 'h AnnotationObserver option \<Rightarrow> 'h fire" where
  "annotationFire t index observe ctx s =
     (case (observe, ctxOpcode ctx) of
        (Some observer, Some opc) \<Rightarrow>
          let s = (case ctxMemory ctx of
                None \<Rightarrow> s
              | Some m \<Rightarrow> s\<lparr>hookState := observeMemory index observer opc m (hookState s)\<rparr>) in
          (case ctxStorage ctx of
             None \<Rightarrow> (Ok (Some continueResult), s)
           | Some a \<Rightarrow>
               (case scopeForHookType t of
                  Inl e \<Rightarrow> (Fail e, s)
                | Inr scope \<Rightarrow>
                    (Ok (Some continueResult), s\<lparr>hookState := observeStorage index observer opc a scope (hookState s)\<rparr>)))
      | _ \<Rightarrow> (Ok (Some continueResult), s))"

definition annotationHook :: "SourceIndex option \<Rightarrow> 'h AnnotationObserver option \<Rightarrow> string \<Rightarrow> HookType \<Rightarrow> 'h Hook" where
  "annotationHook index observe i t =
     \<lparr>hookType = t, hookFire = annotationFire t index observe, hookOneTime = False, hookID = i\<rparr>"

definition NewAnnotationHooks :: "string \<Rightarrow> SourceIndex option \<Rightarrow> 'h AnnotationObserver option \<Rightarrow> 'h Hook list" where
  "NewAnnotationHooks hookPrefix index observe =
     map (\<lambda>(suffix, t). annotationHook index observe (hookPrefix @ suffix) t)
       [(''.memory.read'', HookTypeMemoryRead), (''.memory.write'', HookTypeMemoryWrite),
        (''.storage.read'', HookTypeStorageRead), (''.storage.write'', HookTypeStorageWrite),
        (''.transient.read'', HookTypeTransientLoad), (''.transient.write'', HookTypeTransientStore)]"

subsection \<open>The registry\<close>

fun registerAll :: "'h Hook list \<Rightarrow> 'h SimpleHookRegistry \<Rightarrow> evm_error + 'h SimpleHookRegistry" where
  "registerAll [] r = Inr r"
| "registerAll (h # hs) r =
     (case Register h r of
        (r, Some e) \<Rightarrow> Inl e
      | (r, None) \<Rightarrow> registerAll hs r)"

definition allHookTypes :: "HookType list" where
  "allHookTypes = [HookTypeOpcode, HookTypeExternalCall, HookTypeDelegateCall, HookTypeStaticCall, HookTypeCallCode, HookTypeCreate,
     HookTypeStorageRead, HookTypeStorageWrite, HookTypeTransientLoad, HookTypeTransientStore, HookTypeMemoryRead,
     HookTypeMemoryWrite, HookTypeLog, HookTypeSelfDestruct, HookTypeReturn, HookTypeStep]"

definition NewRegistry :: "SourceIndex option \<Rightarrow> 'h AnnotationObserver option \<Rightarrow> (HookType \<Rightarrow> 'h Hook list) option \<Rightarrow>
    evm_error + 'h SimpleHookRegistry" where
  "NewRegistry index observe existing =
     (case registerAll (case existing of None \<Rightarrow> [] | Some hooksAt \<Rightarrow> concat (map hooksAt allHookTypes)) NewSimpleHookRegistry of
        Inl e \<Rightarrow> Inl e
      | Inr r \<Rightarrow> registerAll (NewAnnotationHooks ''srcmap'' index observe) r)"

text \<open>The registry of a frame is asked for its hooks at every dispatch; this one no longer changes.\<close>

definition AttachAnnotations :: "'h EVM \<Rightarrow> SourceIndex option \<Rightarrow> 'h AnnotationObserver option \<Rightarrow> (HookType \<Rightarrow> 'h Hook list) option \<Rightarrow>
    evm_error option \<times> 'h EVM" where
  "AttachAnnotations e index observe existing =
     (case NewRegistry index observe existing of
        Inl err \<Rightarrow> (Some err, e)
      | Inr r \<Rightarrow> (None, SetHooks (Some (\<lambda>h t. HooksFor t r)) e))"

definition NewAnnotatedEVM :: "'h evmState \<Rightarrow> Fork \<Rightarrow> PrecompileRegistry \<Rightarrow> SourceIndex option \<Rightarrow> 'h AnnotationObserver option \<Rightarrow>
    (HookType \<Rightarrow> 'h Hook list) option \<Rightarrow> evm_error + 'h EVM" where
  "NewAnnotatedEVM s f registry index observe existing =
     (case AttachAnnotations (NewEVM s f registry) index observe existing of
        (Some err, e) \<Rightarrow> Inl err
      | (None, e) \<Rightarrow> Inr e)"

subsection \<open>Annotating only observes\<close>

text \<open>On the events the engine sends to its type an annotation hook lets the run go on, and changes nothing but what the observer keeps.\<close>

lemma annotationHook_observes:
  assumes "ctxStorage ctx = None \<or> hookType hk \<in> {HookTypeStorageRead, HookTypeStorageWrite, HookTypeTransientLoad, HookTypeTransientStore}"
    and "hk \<in> set (NewAnnotationHooks hookPrefix index observe)"
  shows "\<exists>h. hookFire hk ctx s = (Ok (Some continueResult), s\<lparr>hookState := h\<rparr>)"
proof -
  obtain i t where hk: "hk = annotationHook index observe i t" using assms(2) by (auto simp: NewAnnotationHooks_def)
  show ?thesis
  proof (cases "\<exists>observer opc. observe = Some observer \<and> ctxOpcode ctx = Some opc")
    case True
    then obtain observer opc where o: "observe = Some observer" "ctxOpcode ctx = Some opc" by blast
    define h where "h = (case ctxMemory ctx of None \<Rightarrow> hookState s | Some m \<Rightarrow> observeMemory index observer opc m (hookState s))"
    have mem: "(case ctxMemory ctx of None \<Rightarrow> s | Some m \<Rightarrow> s\<lparr>hookState := observeMemory index observer opc m (hookState s)\<rparr>) = s\<lparr>hookState := h\<rparr>"
      by (cases "ctxMemory ctx") (simp_all add: h_def)
    have scope: "ctxStorage ctx \<noteq> None \<Longrightarrow> \<exists>sc. scopeForHookType t = Inr sc"
      using assms(1) hk by (auto simp: annotationHook_def scopeForHookType_def)
    have fire: "hookFire hk ctx s = (case ctxStorage ctx of
        None \<Rightarrow> (Ok (Some continueResult), s\<lparr>hookState := h\<rparr>)
      | Some a \<Rightarrow> (case scopeForHookType t of
            Inl e \<Rightarrow> (Fail e, s\<lparr>hookState := h\<rparr>)
          | Inr sc \<Rightarrow> (Ok (Some continueResult), s\<lparr>hookState := h\<rparr>\<lparr>hookState := observeStorage index observer opc a sc (hookState (s\<lparr>hookState := h\<rparr>))\<rparr>)))"
      unfolding hk annotationHook_def Hook.select_convs annotationFire_def o option.case prod.case Let_def mem ..
    show ?thesis
    proof (cases "ctxStorage ctx")
      case None
      show ?thesis unfolding fire None option.case by (rule exI [of _ h]) (rule refl)
    next
      case (Some a)
      then obtain sc where "scopeForHookType t = Inr sc" using scope by auto
      then show ?thesis unfolding fire Some by simp blast
    qed
  next
    case False
    then have "annotationFire t index observe ctx s = (Ok (Some continueResult), s)"
      by (cases observe; cases "ctxOpcode ctx") (simp_all add: annotationFire_def)
    then have "hookFire hk ctx s = (Ok (Some continueResult), s\<lparr>hookState := hookState s\<rparr>)" by (simp add: hk annotationHook_def)
    then show ?thesis by (rule exI)
  qed
qed

text \<open>The registry lists the hooks of the frame first, then the annotation hooks.\<close>

lemma registerAll_registers:
  "\<forall>h\<in>set hs. regHooks r (hookID h) = None \<Longrightarrow> distinct (map hookID hs) \<Longrightarrow> registerAll hs r = Inr (fold (\<lambda>h r. fst (Register h r)) hs r)"
proof (induction hs arbitrary: r)
  case (Cons h hs)
  have new: "regHooks r (hookID h) = None" using Cons.prems(1) by simp
  let ?r = "fst (Register h r)"
  have "\<forall>k\<in>set hs. hookID k \<noteq> hookID h" using Cons.prems(2) by (fastforce simp: image_iff)
  then have "\<forall>k\<in>set hs. regHooks ?r (hookID k) = None" using Cons.prems(1) new by (simp add: Register_def)
  then have "registerAll hs ?r = Inr (fold (\<lambda>h r. fst (Register h r)) hs ?r)" using Cons by simp
  moreover have "Register h r = (?r, None)" using new by (simp add: Register_def)
  ultimately show ?case by (metis (no_types, lifting) fold_simps(2) option.simps(4) prod.case registerAll.simps(2))
qed simp

lemma registerAll_append: "registerAll (hs @ ks) r = (case registerAll hs r of Inl e \<Rightarrow> Inl e | Inr r \<Rightarrow> registerAll ks r)"
  by (induction hs arbitrary: r) (auto split: prod.splits option.splits)

lemma NewRegistry_hooks:
  assumes "distinct (map hookID (concat (map hooksAt allHookTypes) @ NewAnnotationHooks ''srcmap'' index observe))"
  shows "\<exists>r. NewRegistry index observe (Some hooksAt) = Inr r \<and>
    (\<forall>t. HooksFor t r = filter (\<lambda>h. hookType h = t) (concat (map hooksAt allHookTypes)) @
       filter (\<lambda>h. hookType h = t) (NewAnnotationHooks ''srcmap'' index observe))"
proof -
  let ?hs = "concat (map hooksAt allHookTypes) @ NewAnnotationHooks ''srcmap'' index observe"
  have "NewRegistry index observe (Some hooksAt) = registerAll ?hs NewSimpleHookRegistry"
    by (simp add: NewRegistry_def registerAll_append)
  also have "\<dots> = Inr (fold (\<lambda>h r. fst (Register h r)) ?hs NewSimpleHookRegistry)"
    by (rule registerAll_registers [OF _ assms]) (simp add: NewSimpleHookRegistry_def)
  finally have reg: "NewRegistry index observe (Some hooksAt) = Inr (fold (\<lambda>h r. fst (Register h r)) ?hs NewSimpleHookRegistry)" .
  have "HooksFor t (fold (\<lambda>h r. fst (Register h r)) ?hs NewSimpleHookRegistry) = filter (\<lambda>h. hookType h = t) ?hs" for t
    using registered_hooks [OF assms] by blast
  then have "\<forall>t. HooksFor t (fold (\<lambda>h r. fst (Register h r)) ?hs NewSimpleHookRegistry) =
      filter (\<lambda>h. hookType h = t) (concat (map hooksAt allHookTypes)) @ filter (\<lambda>h. hookType h = t) (NewAnnotationHooks ''srcmap'' index observe)"
    unfolding filter_append by blast
  then show ?thesis unfolding reg by blast
qed

end
