(* ===== verification/SampleDebug.thy ===== *)
theory SampleDebug
  imports Sample SampleFork DebugUse Bytematch Annotate
begin

text \<open>
  A small concrete debugger for the examples: libraries that are easy to compute, a run of one instruction with the hooks
  attached, a server with a paused session. Nothing in the properties depends on these values.
\<close>

definition samplePeek :: PeekLib where
  "samplePeek = \<lparr>plKeccak = sampleHash, plQuote = (\<lambda>b. ''text''), plMaxAlloc = 100000\<rparr>"

definition sampleDebugEnv :: DebugEnv where
  "sampleDebugEnv = \<lparr>dePeek = samplePeek, deFuel = 10, deMethod = (\<lambda>n ts. Inr None), deFunction = (\<lambda>n ts. None),
     deParseABI = (\<lambda>t. None), deUnpack = (\<lambda>ts b. Inr []), deOpenchain = (\<lambda>t. None), deAutoMatch = (\<lambda>a. None)\<rparr>"

lemma sampleDebugEnv_safe [simp]: "envSafe sampleDebugEnv" "plMaxAlloc (dePeek sampleDebugEnv) = 100000"
  by (simp_all add: envSafe_def sampleDebugEnv_def samplePeek_def)

definition sampleSession :: ReplaySession where
  "sampleSession = callSession ''call-1'' \<lparr>crFrom = 2, crTo = 1, crInput = [], crValue = None, crGasLimit = 50000, crGasPrice = None,
     crBlobGasFeeCap = None, crBlobHashes = [], crAccessList = [], crBlock = LatestBlock\<rparr>"

definition debugConfig :: "DebugHost ExecutionConfig" where
  "debugConfig = \<lparr>cFork = ForkCancun, cPrecompiles = Some Map.empty, cWarmAddresses = [7], cGasLimit = 50000,
     cValue = None, cInput = [], cOrigin = 2, cCaller = 2, cContractAddress = 1, cCode = Some [0x5B],
     cCodeHash = 0, cBlockContext = None, cTxContext = None, cState = Some sampleAccounts, cStorage = None,
     cTransientStorage = None, cAccessList = None, cHooks = None, cHookState = startHost (\<lambda>_. False) False sampleSession,
     cCallDepth = 0, cIsStatic = False\<rparr>"

definition sampleRun :: "'w debugRunner" where
  "sampleRun hs h w = map_option (\<lambda>(r, h'). (r, h', w)) (engineRunner sampleLib sampleCrypto 1 debugConfig hs h)"

lemma sampleRun_ofEngine [simp]: "ofEngine sampleLib sampleCrypto sampleRun"
  by (auto simp: ofEngine_def sampleRun_def)

text \<open>The registry of a session without bundles holds the step hook as the only one of its type.\<close>

lemma debugHooks_IDs: "map hookID (debugHookList E []) =
    [''jsonrpc-gdb-step'', ''jsonrpc-call'', ''jsonrpc-delegatecall'', ''jsonrpc-staticcall'', ''jsonrpc-callcode'',
     ''jsonrpc-storage-read'', ''jsonrpc-storage-write'', ''jsonrpc-memory-read'', ''jsonrpc-memory-write'',
     ''auto-match-'' @ showNat 0, ''auto-match-'' @ showNat 1, ''auto-match-'' @ showNat 2, ''auto-match-'' @ showNat 3]"
  by (simp add: debugHookList_def stepHook_def mkHook_def newCallHook_def newStorageHook_def newMemoryHook_def eval_nat_numeral)

lemma debugHooks_step: "debugHooksFor E [] h HookTypeOpcode = []" "debugHooksFor E [] h HookTypeStep = [stepHook E]"
proof -
  have "distinct [''jsonrpc-gdb-step'', ''jsonrpc-call'', ''jsonrpc-delegatecall'', ''jsonrpc-staticcall'', ''jsonrpc-callcode'',
     ''jsonrpc-storage-read'', ''jsonrpc-storage-write'', ''jsonrpc-memory-read'', ''jsonrpc-memory-write'',
     ''auto-match-'' @ showNat 0, ''auto-match-'' @ showNat 1, ''auto-match-'' @ showNat 2, ''auto-match-'' @ showNat 3]"
    by code_simp
  then have "distinct (map hookID (debugHookList E []))" by (simp only: debugHooks_IDs)
  from registered_hooks [OF this] show "debugHooksFor E [] h HookTypeOpcode = []" "debugHooksFor E [] h HookTypeStep = [stepHook E]"
    by (simp_all add: debugHooksFor_def debugRegistry_def, simp_all add: debugHookList_def stepHook_def mkHook_def newCallHook_def
      newStorageHook_def newMemoryHook_def)
qed

text \<open>A frame on one JUMPDEST whose only step hook asks for a pause.\<close>

lemma Run_paused:
  assumes "hooks e = Some f" "pc e = 0" "gas (gasMeter (state e)) \<noteq> 0" "fork e = ForkCancun"
    "f (hookState (state e)) HookTypeOpcode = []" "f (hookState (state e)) HookTypeStep = [h]"
    and fire: "\<And>ctx s. hookState s = hookState (state e) \<Longrightarrow> \<exists>s'. hookFire h ctx s = (Ok (Some haltPause), s') \<and> Q (hookState s')"
  shows "\<exists>res e'. Run L (Suc n) e [0x5B] = Some ((res, Some errReplayPause), e') \<and> Q (hookState (state e'))"
proof -
  let ?e = "e\<lparr>jumpdests := analyzeJumpdests [0x5B]\<rparr>"
  let ?s = "(state e)\<lparr>gasMeter := (gasMeter (state e))\<lparr>gas := gas (gasMeter (state e)) - 1\<rparr>\<rparr>"
  have g: "GasCosts 0x5B = 1" by (simp add: GasCosts_def GasCostTable_def nth_append)
  have d: "calcDynamicGas 0x5B e = Some (Ok 0, e)" for e :: "'a EVM" by (simp add: calcDynamicGas_def ret_def)
  obtain s' where s': "hookFire h \<lparr>ctxOpcode = Some \<lparr>oiPC = 0, oiOp = 0x5B, oiGasRemaining = gas (gasMeter (state e)), oiGasCost = 1\<rparr>,
      ctxCall = None, ctxStorage = None, ctxMemory = None\<rparr> ?s = (Ok (Some haltPause), s')" "Q (hookState s')"
    using fire [of ?s] by fastforce
  have "\<not> gas (gasMeter (state e)) < 1" using assms(3) by (metis word_less_1)
  then have "\<exists>res e'. loopIter L call [0x5B] ?e = Some (Ok (Some (res, Some errReplayPause)), e') \<and> Q (hookState (state e'))" for call
    using assms(1-6) s'
    by (simp add: loopIter_defs gets_def seq_def ret_def attempt_def Let_def MinForkForOpcode_def g d consume_def ConsumeGas_def
        dispatchHooks_def hooksForM_def fireHook_def opcodeReact_def haltPause_def haltWith_def throw_def)
  then obtain res e' where "loopIter L (ExecuteMessage L (runWith (runLoop n L))) [0x5B] ?e = Some (Ok (Some (res, Some errReplayPause)), e')"
    "Q (hookState (state e'))" by blast
  then show ?thesis by (simp add: Run_def runWith_def seq_def ret_def)
qed

lemma debugConfig_paused:
  assumes "hs host HookTypeOpcode = []" "hs host HookTypeStep = [h]"
    and fire: "\<And>ctx s. hookState s = host \<Longrightarrow> \<exists>s'. hookFire h ctx s = (Ok (Some haltPause), s') \<and> Q (hookState s')"
  shows "\<exists>res s. EngineRun sampleLib sampleCrypto 1 (debugConfig\<lparr>cHooks := Some hs, cHookState := host\<rparr>) =
    Some ((Some res, Some errReplayPause), Some s) \<and> Q (hookState s)"
proof -
  let ?conf = "debugConfig\<lparr>cHooks := Some hs, cHookState := host\<rparr>"
  let ?e = "SetHooks (Some hs) (NewEVM (NewState sampleLib sampleCrypto ?conf) ForkCancun (registryFor sampleLib sampleCrypto ForkCancun (Some Map.empty)))"
  have frame: "hooks ?e = Some hs" "pc ?e = 0" "gas (gasMeter (state ?e)) = 50000" "fork ?e = ForkCancun" "hookState (state ?e) = host"
    by (simp_all add: SetHooks_def NewEVM_def) (simp_all add: NewState_def NewEVMState_def NewGasMeter_def debugConfig_def Let_def)
  obtain res e' where run: "Run sampleLib 1 ?e [0x5B] = Some ((res, Some errReplayPause), e')" "Q (hookState (state e'))"
    using Run_paused [of ?e hs h Q sampleLib 0] frame assms by auto
  have conf: "ValidateConfig ?conf = None" "cValue ?conf = None" "runFork (cFork ?conf) = ForkCancun" "cPrecompiles ?conf = Some Map.empty"
    "cHooks ?conf = Some hs" "cfgCode ?conf = [0x5B]"
    by (simp_all add: debugConfig_def ValidateConfig_def cfgCode_def runFork_def)
  have "runWithConfig sampleLib sampleCrypto 1 ?conf (NewState sampleLib sampleCrypto ?conf) =
      Some ((withGasUsed (cGasLimit ?conf) res, Some errReplayPause), state e')"
    unfolding runWithConfig_def conf Let_def option.case run(1) by simp
  then show ?thesis
    using run(2) by (simp add: EngineRun_def conf(1) applyTopLevelCallValue_def conf(2) del: One_nat_def)
qed

text \<open>One step of the session: the run stops at its first instruction.\<close>

lemma sampleSession_fields [simp]:
  "seBundles sampleSession = []" "seMutations sampleSession = []" "sePosition sampleSession = -1" "seKind sampleSession = ''call''"
  "sessionSafe E sampleSession"
  by (simp_all add: sampleSession_def callSession_def newSession_def sessionSafe_def)

lemma sampleSession_host:
  fixes host
  defines "host \<equiv> startHost (\<lambda>_. False) False (resetSession (Some 1) (Some 1) [] sampleSession)"
  shows "dhContinue host = False" "dhSeen host = 0" "sePosition (dhSession host) = -1" "seBundles (dhSession host) = []"
    "seMutations (dhSession host) = []"
  by (simp_all add: host_def startHost_def resetSession_frame)

lemma sample_pauses:
  assumes h: "dhContinue (hookState s) = False" "dhSeen (hookState s) = 0" "sePosition (dhSession (hookState s)) = -1"
        "seBundles (dhSession (hookState s)) = []" "seMutations (dhSession (hookState s)) = []"
  shows "\<exists>s'. hookFire (stepHook E) ctx s = (Ok (Some haltPause), s') \<and> sePendingPause (dhSession (hookState s')) \<noteq> None"
proof -
  obtain q s' where f: "debugStepFire E ctx s = (q, s')" by fastforce
  have d: "stepDecision (hookState (framesAt ctx s1)) (dhSeen (hookState s)) ctx (framesAt ctx s1) = Some (''step'', [])"
    if "hookState s1 = enterStep (hookState s)" for s1
    by (simp add: stepDecision_def Let_def framesAt_simps that h)
  have safe: "sessionSafe E (dhSession (hookState (framesAt ctx s1)))" if "hookState s1 = enterStep (hookState s)" for s1
    by (simp add: sessionSafe_def framesAt_simps that h)
  have hf: "hookFire (stepHook E) = debugStepFire E" by (simp add: stepHook_def mkHook_def)
  from f show ?thesis
  proof (cases rule: debugStepFire_cases)
    case (stop s1 r d')
    from stop(3) safe [OF stop(1)] show ?thesis
    proof (rule pauseWith_host)
      fix p ss
      assume "q = Ok (Some haltPause)"
        "hookState s' = (hookState (framesAt ctx s1))\<lparr>dhSession := ss\<lparr>sePendingPause := Some (id p)\<rparr>\<rparr>"
      with f show ?thesis unfolding hf by (intro exI [of _ s'] conjI) simp_all
    qed
  next
    case panic
    then show ?thesis by (simp add: h)
  next
    case (on s1)
    then show ?thesis using d by simp
  qed
qed

lemma sample_step:
  "\<exists>ss'. replayPrepared sampleDebugEnv sampleRun (\<lambda>_. False) False (Some 1) (Some 1) [] sampleSession w = Some ((None, ss'), w)"
proof -
  let ?ss = "resetSession (Some 1) (Some 1) [] sampleSession"
  let ?host = "startHost (\<lambda>_. False) False ?ss"
  have none: "trackerKeys ?ss = []" by (simp add: trackerKeys_def resetSession_frame)
  have "\<exists>s'. hookFire (stepHook sampleDebugEnv) ctx s = (Ok (Some haltPause), s') \<and> sePendingPause (dhSession (hookState s')) \<noteq> None"
    if "hookState s = ?host" for ctx s
    by (rule sample_pauses; simp only: that sampleSession_host)
  from debugConfig_paused [where hs = "debugHooksFor sampleDebugEnv []" and host = ?host, OF debugHooks_step this]
  obtain res s where "EngineRun sampleLib sampleCrypto 1 (debugConfig\<lparr>cHooks := Some (debugHooksFor sampleDebugEnv []), cHookState := ?host\<rparr>) =
      Some ((Some res, Some errReplayPause), Some s)" and p: "sePendingPause (dhSession (hookState s)) \<noteq> None" by blast
  then have run: "sampleRun (debugHooksFor sampleDebugEnv (trackerKeys ?ss)) ?host w = Some ((Some res, Some errReplayPause), hookState s, w)"
    unfolding none by (simp add: sampleRun_def engineRunner_def del: One_nat_def)
  obtain ss' where "finishRun (Some res) (Some errReplayPause) ((dhSession (hookState s))\<lparr>seExecutionRunning := False\<rparr>) = (None, ss')"
    using p by (auto simp: finishRun_def)
  then show ?thesis unfolding replayPrepared_def Let_def run by simp
qed

text \<open>A run the engine refuses: its configuration has no code.\<close>

definition failingRun :: "'w debugRunner" where
  "failingRun hs h w = map_option (\<lambda>(r, h'). (r, h', w)) (engineRunner sampleLib sampleCrypto 1 (debugConfig\<lparr>cCode := None\<rparr>) hs h)"

lemma failingRun_ofEngine [simp]: "ofEngine sampleLib sampleCrypto failingRun"
  by (auto simp: ofEngine_def failingRun_def)

lemma sample_fails:
  "\<exists>err ss'. replayPrepared sampleDebugEnv failingRun (\<lambda>_. False) True (Some 1) (Some 1) [] sampleSession w = Some ((Some err, ss'), w)"
proof -
  have "failingRun hs h w = Some ((None, Some (ErrOther ''code is nil'')), h, w)" for hs h
    by (simp add: failingRun_def engineRunner_def EngineRun_def ValidateConfig_def)
  then show ?thesis by (simp add: replayPrepared_def Let_def finishRun_def pausesOnly_def errReplayPause_def)
qed

subsection \<open>A server\<close>

definition sampleServerEnv :: ServerEnv where
  "sampleServerEnv = \<lparr>xeDebug = sampleDebugEnv, xeKeccak = sampleHash, xeErrText = (\<lambda>e. ''error''), xeExec = sampleExec,
     xeTraced = (\<lambda>p. feBind (sampleExec p) (\<lambda>x. feRet (x, []))), xeRun = (\<lambda>prepared. sampleRun), xeArrives = (\<lambda>i k. False),
     xeSolcManager = None, xeLoadBundle = (\<lambda>req a b c auto. Inl notPaused)\<rparr>"

lemma sampleServerEnv_runs [simp]: "serverRuns sampleLib sampleCrypto sampleServerEnv"
  by (simp add: serverRuns_def sampleServerEnv_def)

definition sampleServer :: Server where
  "sampleServer = newServer samplePinned serverModeFull"

lemma sampleServer_OK [simp]: "serverOK sampleServer"
  by (simp add: serverOK_def sampleServer_def newServer_def)

subsection \<open>A paused session\<close>

definition samplePause :: ReplayPause where
  "samplePause = zeroPause ''step'' [] 0 \<lparr>spPC = 0, spOp = ''JUMPDEST'', spDepth = 0, spGasRemaining = 50000, spGasCost = 1\<rparr>"

definition pausedSession :: ReplaySession where
  "pausedSession = sampleSession\<lparr>sePosition := 0, seCurrent := Some samplePause\<rparr>"

definition sampleWrite :: writeStorageRequest where
  "sampleWrite = \<lparr>wsAddress = [], wsScope = [], wsSlot = ''0x1'', wsValue = ''0x2''\<rparr>"

text \<open>A session that wrote one slot twice, under one text, and another one under two texts.\<close>

definition writtenSession :: ReplaySession where
  "writtenSession = sampleSession\<lparr>seMutations :=
     [storageMutation 3 (addressHex 1) ''persistent'' (encodeHash 2) (encodeHash 5),
      storageMutation 3 (addressHex 1) ''storage'' (normalizeHex32 ''0xab'') (encodeHash 7),
      storageMutation 7 (addressHex 1) ''storage'' (normalizeHex32 ''0xAB'') (encodeHash 8),
      storageMutation 7 (addressHex 1) ''persistent'' (encodeHash 2) (encodeHash 4)]\<rparr>"

lemma sampleWrite_fields [simp]: "wsAddress sampleWrite = []" "wsScope sampleWrite = []" "wsSlot sampleWrite = ''0x1''" "wsValue sampleWrite = ''0x2''"
  by (simp_all add: sampleWrite_def)

lemma pausedSession_fields [simp]:
  "seMemorySnapshot pausedSession = []" "sePosition pausedSession = 0" "seTargetAddr pausedSession = Some 1"
  "seMutations pausedSession = []" "seCurrent pausedSession = Some samplePause" "sessionSafe E pausedSession"
  by (simp_all add: pausedSession_def sampleSession_def callSession_def newSession_def sessionSafe_def)

lemma sampleWrite_decodes: "decodeHashString ''0x1'' = Inr 1" "decodeHashString ''0x2'' = Inr 2" "parseAddress [] = None"
  by code_simp+

lemma writtenSession_texts:
  "decodeHashString ''0xab'' = Inr 0xAB" "decodeHashString ''0xAB'' = Inr 0xAB"
  "TrimSpace ''persistent'' = ''persistent''" "TrimSpace ''storage'' = ''storage''"
  "keyOrder (normalizeHex32 ''0xAB'') \<le> keyOrder (normalizeHex32 ''0xab'')" "\<not> keyOrder (normalizeHex32 ''0xab'') \<le> keyOrder (normalizeHex32 ''0xAB'')"
  by code_simp+

lemma writtenSession_recorded: "\<forall>m\<in>set (seMutations writtenSession). recordedMutation m \<and> plainScope m \<and> mutationOK lim m"
proof -
  have "recordedMutation (storageMutation i (addressHex a) scope slot (encodeHash v))" if "decodeHashString slot = Inr k" for i a scope slot k v
    using that unfolding recordedMutation_def by (metis decodeHashString_encodeHash)
  then have "recordedMutation (storageMutation i (addressHex a) scope (encodeHash k) (encodeHash v))"
    "decodeHashString slot = Inr k \<Longrightarrow> recordedMutation (storageMutation i (addressHex a) scope (normalizeHex32 slot) (encodeHash v))" for i a scope slot k v
    by (simp_all add: decodeHashString_encodeHash decodeHashString_normalize)
  then have "\<forall>m\<in>set (seMutations writtenSession). recordedMutation m" by (simp add: writtenSession_def writtenSession_texts)
  moreover have "\<forall>m\<in>set (seMutations writtenSession). plainScope m \<and> mutationOK lim m"
    by (simp add: writtenSession_def plainScope_def mutationOK_def storageMutation_def writtenSession_texts scope_texts)
  ultimately show ?thesis by blast
qed

lemma writtenSession_carries:
  "namedAlike 1 2 (seMutations writtenSession)"
  "find (writesTo 1 2) (rev (seMutations writtenSession)) = Some (storageMutation 7 (addressHex 1) ''persistent'' (encodeHash 2) (encodeHash 4))"
  "carriedWrite 1 0xAB (seMutations writtenSession) = Some (storageMutation 3 (addressHex 1) ''storage'' (normalizeHex32 ''0xab'') (encodeHash 7))"
  by (simp_all add: namedAlike_def carriedWrite_def writtenSession_def writesTo_def storageMutation_def scope_texts decodeHashString_encodeHash
      decodeHashString_normalize writtenSession_texts)

lemma sample_writeStorage: "\<exists>ss'. writeStorage sampleWrite pausedSession = Inr ss'"
  by (simp add: writeStorage_def sampleWrite_decodes mapErr_Inr Let_def)

lemma sample_writeMemory: "\<exists>ss'. writeMemory 1000 \<lparr>wmOffset = 1, wmData = encodeBytes [7, 8]\<rparr> pausedSession = (Done (), ss')"
proof -
  let ?m = "memoryMutation 0 1 (encodeBytes [7, 8])"
  have m: "muData ?m = encodeBytes [7, 8]" "muOffset ?m = 1" by (simp_all add: memoryMutation_def)
  have mem: "decodeBytes (rpMemory samplePause) = Inr []" by (simp add: samplePause_def zeroPause_def decodeBytes_def) code_simp
  have patch: "\<exists>b. patchBytes 1000 1 [7, 8] [] = Ok b" by (simp add: patchBytes_def wrap64_def Let_def)
  have "\<exists>p. applyMemoryMutationToPause 1000 ?m samplePause = Ok p" "\<exists>b. applyMemoryMutationToSnapshot 1000 ?m [] = Ok b"
    using patch by (auto simp: applyMemoryMutationToPause_def applyMemoryMutationToSnapshot_def m decodeBytes_encodeBytes mem)
  then show ?thesis by (auto simp: writeMemory_def decodeBytes_encodeBytes Let_def showMemory_def)
qed

subsection \<open>Sequences of calls\<close>

text \<open>One step for each of the given blocks.\<close>

definition sampleStep :: "string \<Rightarrow> SequenceStepSpec" where
  "sampleStep block =
     \<lparr>stpKind = ''Call'', stpRequest = [(''to'', AnyString (addressHex 1)), (''from'', AnyString (addressHex 2)), (''gas'', AnyString (encodeQuantity (Some 50000)))],
      stpBlock = AnyString block, stpTxHash = [], stpLabel = ''step'', stpMeta = []\<rparr>"

definition stepValue :: "string \<Rightarrow> AnyVal" where
  "stepValue block =
     AnyMap [(''kind'', AnyString ''Call''),
       (''request'', AnyMap [(''to'', AnyString (addressHex 1)), (''from'', AnyString (addressHex 2)), (''gas'', AnyString (encodeQuantity (Some 50000)))]),
       (''block'', AnyString block), (''label'', AnyString ''step'')]"

definition sampleSequence :: "string list \<Rightarrow> AnyVal" where
  "sampleSequence blocks = AnyMap [(''stateCarry'', AnyString ''full''), (''steps'', AnyList (map stepValue blocks))]"

lemma sampleStep_decodes: "sequenceStepOf (stepValue block) = Inr (sampleStep block)"
proof -
  have k: "ToLower ''kind'' = ''kind''" "ToLower ''request'' = ''request''" "ToLower ''label'' = ''label''"
    "ToLower ''block'' = ''block''" "ToLower ''txHash'' = ''txhash''" "ToLower ''meta'' = ''meta''" by code_simp+
  show ?thesis
    by (simp add: sequenceStepOf_def stepValue_def decodeObject_def k textField_def mapField_def anyField_def decodeText_def sampleStep_def mput_def)
qed

lemma sampleSequence_decodes:
  "sequenceStartRequestOf (sampleSequence blocks) = Inr \<lparr>sqSteps = map sampleStep blocks, sqStateCarry = ''full''\<rparr>"
proof -
  have k: "ToLower ''stateCarry'' = ''statecarry''" "ToLower ''steps'' = ''steps''" by code_simp+
  have "decodeItems sequenceStepOf (map stepValue blocks) = Inr (map sampleStep blocks)"
    by (induction blocks) (simp_all add: sampleStep_decodes)
  then show ?thesis
    by (simp add: sequenceStartRequestOf_def sampleSequence_def decodeObject_def k listField_def textField_def decodeText_def)
qed

lemma sampleSequence_carry: "normalizeCarryMode ''full'' = ''full''"
  by code_simp

definition sampleCall :: AnyVal where
  "sampleCall = AnyMap [(''from'', AnyString (addressHex 2)), (''gas'', AnyString (encodeQuantity (Some 50000))), (''to'', AnyString (addressHex 1))]"

lemma sampleStep_params:
  "encodeSequenceCallParams ((sampleStep block)\<lparr>stpKind := ''call''\<rparr>) = [sampleCall, AnyString block]"
proof -
  have "keyOrder ''from'' \<le> keyOrder ''gas''" "\<not> keyOrder ''to'' \<le> keyOrder ''gas''" "\<not> keyOrder ''to'' \<le> keyOrder ''from''"
    by code_simp+
  then show ?thesis by (simp add: encodeSequenceCallParams_def sampleStep_def sampleCall_def Let_def)
qed

lemma sampleCall_args: "callArgsOf sampleCall =
    Inr \<lparr>gaFrom = addressHex 2, gaTo = addressHex 1, gaInput = [], gaData = [], gaValue = [], gaGas = encodeQuantity (Some 50000), gaGasPrice = []\<rparr>"
proof -
  have k: "ToLower ''gas'' = ''gas''" "ToLower ''to'' = ''to''" "ToLower ''from'' = ''from''" "ToLower ''input'' = ''input''"
    "ToLower ''data'' = ''data''" "ToLower ''value'' = ''value''" "ToLower ''gasPrice'' = ''gasprice''" by code_simp+
  show ?thesis by (simp add: callArgsOf_def sampleCall_def decodeObject_def k textField_def decodeText_def)
qed

lemma sample_texts: "decodeBytes [] = Inr []" "decodeBig [] = Inr 0" "ToLower (TrimSpace ''Call'') = ''call''"
  by code_simp+

lemma sample_gas: "decodeUint64 (encodeQuantity (Some 50000)) = Inr 50000"
  using decodeUint64_encodeQuantity [of 50000] by simp

lemma sample_blocks:
  "decodeBlockRef [sampleCall, AnyString ''latest''] = Inr \<lparr>brNumber = None, brTag = ''latest''\<rparr>"
  "decodeBlockRef [sampleCall, AnyString ''safe''] = Inr \<lparr>brNumber = None, brTag = ''safe''\<rparr>"
  "CacheKey \<lparr>brNumber = None, brTag = ''latest''\<rparr> = ''tag:latest''" "CacheKey \<lparr>brNumber = None, brTag = ''safe''\<rparr> = ''tag:safe''"
proof -
  have "TrimSpace ''latest'' = ''latest''" "TrimSpace ''safe'' = ''safe''" by code_simp+
  then show "decodeBlockRef [sampleCall, AnyString ''latest''] = Inr \<lparr>brNumber = None, brTag = ''latest''\<rparr>"
    "decodeBlockRef [sampleCall, AnyString ''safe''] = Inr \<lparr>brNumber = None, brTag = ''safe''\<rparr>"
    by (simp_all add: decodeBlockRef_def decodeText_def)
  show "CacheKey \<lparr>brNumber = None, brTag = ''latest''\<rparr> = ''tag:latest''" "CacheKey \<lparr>brNumber = None, brTag = ''safe''\<rparr> = ''tag:safe''"
    by code_simp+
qed

lemma sampleCall_decodes:
  "\<exists>c. decodeEthCall [sampleCall, AnyString ''latest''] = Inr c \<and> CacheKey (crBlock c) = ''tag:latest''"
  "\<exists>c. decodeEthCall [sampleCall, AnyString ''safe''] = Inr c \<and> CacheKey (crBlock c) = ''tag:safe''"
  by (simp_all add: decodeEthCall_def sampleCall_args sample_texts sample_gas sample_blocks cmpOrString_def decodeAddress_addressHex)

lemma sampleSteps_normalized:
  "normalizeSequenceSteps (map sampleStep blocks) = map (\<lambda>b. (sampleStep b)\<lparr>stpKind := ''call''\<rparr>) blocks"
  by (simp add: normalizeSequenceSteps_def sampleStep_def sample_texts)

lemma sampleStep_bases:
  "stepBase ((sampleStep ''latest'')\<lparr>stpKind := ''call''\<rparr>) = ''tag:latest''" "stepBase ((sampleStep ''safe'')\<lparr>stpKind := ''call''\<rparr>) = ''tag:safe''"
  using sampleCall_decodes by (auto simp: stepBase_def sampleStep_params)

lemma sampleSequence_ready:
  assumes "set blocks \<subseteq> {''latest'', ''safe''}"
  shows "\<forall>st\<in>set (normalizeSequenceSteps (sqSteps \<lparr>sqSteps = map sampleStep blocks, sqStateCarry = ''full''\<rparr>)). stepReady st"
proof
  fix st assume "st \<in> set (normalizeSequenceSteps (sqSteps \<lparr>sqSteps = map sampleStep blocks, sqStateCarry = ''full''\<rparr>))"
  then obtain b where "st = (sampleStep b)\<lparr>stpKind := ''call''\<rparr>" "b = ''latest'' \<or> b = ''safe''"
    using assms by (auto simp: sampleSteps_normalized)
  then show "stepReady st" using sampleCall_decodes by (auto simp: stepReady_def sampleStep_params)
qed

text \<open>Two calls on one block carry through; of three, the last on another block, the second is the last to be played.\<close>

lemma sampleSequence_carries:
  "carriesTo ''full'' (normalizeSequenceSteps (map sampleStep [''latest'', ''latest''])) = None"
  "carriesTo ''full'' (normalizeSequenceSteps (map sampleStep [''latest'', ''latest'', ''safe''])) = Some 1"
  unfolding sampleSteps_normalized by (simp_all add: carriesTo_def firstChange_def sampleStep_bases)

lemma sample_handle: "\<exists>r sv'. handle sampleServerEnv ''gdb.startCallSession'' [sampleCall] sampleServer = Some (r, sv')"
  by (simp add: handle_def methodAllowed_def sampleServer_def newServer_def)

subsection \<open>A report\<close>

lemma sample_report: "\<exists>r fe'. ExportReplayReport sampleHash (\<lambda>e. []) sampleExec 12 samplePinned = (Ok r, fe')"
proof -
  have txs: "pvTransactions sampleProvider = Some (\<lambda>h. Inr (sampleTransaction h 1), \<lambda>h. Inr (sampleReceipt h))"
    "pvBlockTransactions sampleProvider = Some (\<lambda>r. Inr [sampleTransaction 11 0, sampleTransaction 12 1])"
    by (simp_all add: sampleProvider_def)
  have tx: "txHash (sampleTransaction h i) = h" "txTransactionIndex (sampleTransaction h i) = Some i"
    "executionRef samplePinned (sampleTransaction h i) = BlockNumber 100" for h i
    by (simp_all add: sampleTransaction_def executionRef_def isUint64_def)
  let ?v = "\<lparr>svCacheRef = syntheticReplayStateBlockRef (sampleTransaction 12 1), svSourceRef = replayStateBlockRef (sampleTransaction 12 1)\<rparr>"
  obtain prepared c where p: "prepareReplayTransactionWithState sampleHash (sampleTransaction 11 0) (sampleReceipt 11) (BlockNumber 100) ?v None samplePinned =
      (Ok prepared, samplePinned\<lparr>feCache := c\<rparr>)"
    using sample_prepared by blast
  show ?thesis
    by (simp add: ExportReplayReport_def txs tx Let_def feTry_def p sampleExec_def fe_eval CommitLocalWrites_def)
qed

subsection \<open>A bundle\<close>

definition sampleMapping :: "u64 \<Rightarrow> int \<Rightarrow> int \<Rightarrow> InstructionMapping" where
  "sampleMapping p start len = \<lparr>imIndex = 0, imPC = p, imOpcode = 0x5B, imPushBytes = 0,
     imSource = \<lparr>srcID = 0, srcStart = start, srcLength = len\<rparr>, imJump = ''-'', imModifierDepth = 0, imAST = None\<rparr>"

definition sampleIndex :: SourceIndex where
  "sampleIndex =
     \<lparr>ixBuild = \<lparr>bcSourceName = ''a.sol'', bcContractName = ''A'', bcRuntime = True\<rparr>,
      ixSources = [(0, \<lparr>sfID = 0, sfName = ''a.sol'', sfContent = [(97, 1), (98, 1), (59, 1), (10, 1), (99, 1)], sfGenerated = False,
        sfLanguage = [], sfAST = None\<rparr>)],
      ixInstructions = [sampleMapping 0 0 3, sampleMapping 5 1 2, sampleMapping 2 1 2, sampleMapping 7 4 1],
      ixInstructionByPC = [], ixNodesByID = [], ixNodesBySourceID = [], ixStorageVariables = [], ixTransientVariables = [],
      ixPersistentLayout = \<lparr>slStorage = [], slTypes = []\<rparr>, ixTransientLayout = \<lparr>slStorage = [], slTypes = []\<rparr>,
      ixABI = [], ixFunctions = [], ixEvents = [], ixCreationBytecode = [], ixRuntimeBytecode = [], ixGeneratedSourceIDs = [],
      ixFunctionDebugData = [], ixFunctionDebugByID = [], ixFunctionDebugByEntry = [], ixImmutableReferences = []\<rparr>"

definition sampleBundle :: Bundle where
  "sampleBundle =
     \<lparr>buSourceName = ''a.sol'', buContractName = ''A'', buCompilerVersion = [], buAddress = None, buCodeAddress = None,
      buStandardJSON = [], buABIJSON = [], buMetadata = Metadata None, buProxy = None, buIndex = Some sampleIndex\<rparr>"

lemma sample_resolves: "resolveSourceBreakpointPCs (Some sampleBundle) ''a.sol'' 1 1 = Inr [2, 5]"
proof -
  have idx: "buIndex sampleBundle = Some sampleIndex" by (simp add: sampleBundle_def)
  have src: "ixSources sampleIndex = [(0, \<lparr>sfID = 0, sfName = ''a.sol'', sfContent = [(97, 1), (98, 1), (59, 1), (10, 1), (99, 1)],
      sfGenerated = False, sfLanguage = [], sfAST = None\<rparr>)]"
    "ixInstructions sampleIndex = [sampleMapping 0 0 3, sampleMapping 5 1 2, sampleMapping 2 1 2, sampleMapping 7 4 1]"
    by (simp_all add: sampleIndex_def)
  show ?thesis
    by (simp add: resolveSourceBreakpointPCs_def idx src SourceFileByName_def lineRange_def OffsetForLineColumn_def newline_def
        wrap64_def matchesOnLine_def onLine_def rangeEnd_def sampleMapping_def candidateOf_def bestMatch_def tighter_def
        pcsOfSpan_def setAdd_def Let_def)
qed

subsection \<open>A build file\<close>

definition sampleFiles :: FileSystem where
  "sampleFiles =
     \<lparr>fsJoin = concat, fsGlob = (\<lambda>p. Inr (if p = concat [''root'', ''out'', ''build-info'', ''*.json''] then [''a.json''] else [])),
      fsStat = (\<lambda>p. Inr (1, 2)),
      fsDocument = (\<lambda>p. Inr [(''a.sol'',
        [(''A'', Some \<lparr>daObject = ''0x5b00'', daImmutableReferences = [(''7'', [\<lparr>imrStart = 1, imrLength = 1\<rparr>])]\<rparr>),
         (''B'', Some \<lparr>daObject = ''0x5b5b'', daImmutableReferences = []\<rparr>)])])\<rparr>"

lemma short_code: "length code < 4 \<Longrightarrow> normalizeForMatch code = code"
  by (simp add: normalizeForMatch_def stripMetadataFooterStrict_def stripMetadataFooterLoose_def Let_def)

lemma sample_found:
  "\<exists>cache. FindMatches sampleFiles ''root'' [0x5B, 0x60] [] =
     (Inr [\<lparr>mrsSourceName = ''a.sol'', mrsContractName = ''A'', mrsBuildInfoPath = ''a.json'', mrsMatchedBytes = 2, mrsTotalBytes = 2,
            mrsExact = True, mrsImmutableBytes = 1\<rparr>], cache)"
proof -
  have paths: "findBuildInfoFiles sampleFiles ''root'' = Inr [''a.json'']"
    by (simp add: findBuildInfoFiles_def sampleFiles_def sortSlice_def)
  have doc: "candidatesOf ''a.json'' [(''a.sol'',
        [(''A'', Some \<lparr>daObject = ''0x5b00'', daImmutableReferences = [(''7'', [\<lparr>imrStart = 1, imrLength = 1\<rparr>])]\<rparr>),
         (''B'', Some \<lparr>daObject = ''0x5b5b'', daImmutableReferences = []\<rparr>)])] =
      [\<lparr>acSourceName = ''a.sol'', acContractName = ''A'', acBytecode = [0x5B, 0], acImmutables = [\<lparr>imrStart = 1, imrLength = 1\<rparr>], acBuildInfoPath = ''a.json''\<rparr>,
       \<lparr>acSourceName = ''a.sol'', acContractName = ''B'', acBytecode = [0x5B, 0x5B], acImmutables = [], acBuildInfoPath = ''a.json''\<rparr>]"
    by (simp add: candidatesOf_def decodeDeployedBytecode_def TrimPrefix_def HasPrefix_def digitVal_def)
  obtain cache where load: "loadBuildInfoCandidates sampleFiles ''a.json'' [] =
      (Inr [\<lparr>acSourceName = ''a.sol'', acContractName = ''A'', acBytecode = [0x5B, 0], acImmutables = [\<lparr>imrStart = 1, imrLength = 1\<rparr>], acBuildInfoPath = ''a.json''\<rparr>,
        \<lparr>acSourceName = ''a.sol'', acContractName = ''B'', acBytecode = [0x5B, 0x5B], acImmutables = [], acBuildInfoPath = ''a.json''\<rparr>], cache)"
    by (simp add: loadBuildInfoCandidates_def sampleFiles_def doc Let_def)
  show ?thesis
    by (simp add: FindMatches_def short_code paths load resultOf_def strictImmutableMatch_def maskReference_def markByte_def
        referenceEnd_def wrap64_def sortSlice_def Let_def upt_conv_Cons)
qed

end
