(* ===== verification/Upstream.thy ===== *)
theory Upstream
  imports DebugText ForkState
begin

text \<open>
  What a node returns (\<open>internal/forkengine/upstream/jsonrpc.go\<close>: the documents, their decoding and the texts of requests).
  A document is what \<open>encoding/json\<close> makes of it: strings, which may be missing where the code has a pointer. An error is kept
  as its text; \<open>%q\<close> of a string is \<open>quoted\<close>.
\<close>

subsection \<open>Texts of requests\<close>

definition upEncodeBlockRef :: "BlockRef \<Rightarrow> string" where
  "upEncodeBlockRef ref =
     (case brNumber (Normalize ref) of
        Some n \<Rightarrow> ''0x'' @ showHexInt n
      | None \<Rightarrow> brTag (Normalize ref))"

definition upEncodeAddress :: "Address \<Rightarrow> string" where
  "upEncodeAddress a = ''0x'' @ hexEncode (addr_bytes a)"

definition upEncodeHash :: "Hash \<Rightarrow> string" where
  "upEncodeHash h = ''0x'' @ hexEncode (word_bytes h)"

subsection \<open>Numbers and bytes\<close>

definition trimHexPrefix :: "string \<Rightarrow> string" where
  "trimHexPrefix input = TrimPrefix (TrimPrefix (TrimSpace input) ''0x'') ''0X''"

definition parseHexBig :: "string \<Rightarrow> string + int" where
  "parseHexBig input =
     (let trimmed = trimHexPrefix input in
      if trimmed = [] then Inr 0
      else case SetString 16 trimmed of
          None \<Rightarrow> Inl (''upstream: invalid hex integer '' @ quoted input)
        | Some v \<Rightarrow> Inr v)"

definition isNull :: "string \<Rightarrow> bool" where
  "isNull input \<longleftrightarrow> TrimSpace input = [] \<or> TrimSpace input = ''null''"

definition parseOptionalHexBig :: "string \<Rightarrow> string + int option" where
  "parseOptionalHexBig input = (if isNull input then Inr None else sbind (parseHexBig input) (\<lambda>v. Inr (Some v)))"

definition parseHexUint64 :: "string \<Rightarrow> string + u64" where
  "parseHexUint64 input =
     sbind (parseHexBig input) (\<lambda>v.
       if v < 0 \<or> v \<ge> 2 ^ 64 then Inl (''upstream: value '' @ quoted input @ '' overflows uint64'') else Inr (word_of_int v))"

definition parseOptionalHexUint64 :: "string option \<Rightarrow> string + u64 option" where
  "parseOptionalHexUint64 input =
     (case input of
        None \<Rightarrow> Inr None
      | Some s \<Rightarrow> if isNull s then Inr None else sbind (parseHexUint64 s) (\<lambda>v. Inr (Some v)))"

definition parseOptionalHexUint64Value :: "string \<Rightarrow> string + u64" where
  "parseOptionalHexUint64Value input = (if isNull input then Inr 0 else parseHexUint64 input)"

definition parseHexBytes :: "string \<Rightarrow> string + bytes" where
  "parseHexBytes input =
     (let trimmed = trimHexPrefix input in
      if trimmed = [] then Inr []
      else
        let trimmed = (if odd (length trimmed) then CHR ''0'' # trimmed else trimmed)
        in case hexDecode trimmed of None \<Rightarrow> Inl (''encoding/hex'') | Some bs \<Rightarrow> Inr bs)"

definition upParseHash :: "string \<Rightarrow> string + Hash" where
  "upParseHash input =
     sbind (parseHexBytes input) (\<lambda>bs.
       if length bs \<noteq> 32 then Inl (''upstream: invalid hash length '' @ showNat (length bs)) else Inr (word_of_int (be_int bs)))"

fun parseHashList :: "string list \<Rightarrow> string + Hash list" where
  "parseHashList [] = Inr []"
| "parseHashList (input # inputs) = sbind (upParseHash input) (\<lambda>h. sbind (parseHashList inputs) (\<lambda>hs. Inr (h # hs)))"

definition parseOptionalHash :: "string \<Rightarrow> string + Hash" where
  "parseOptionalHash input = (if isNull input then Inr 0 else upParseHash input)"

definition upParseAddress :: "string \<Rightarrow> string + Address" where
  "upParseAddress input =
     sbind (parseHexBytes input) (\<lambda>bs.
       if length bs \<noteq> 20 then Inl (''upstream: invalid address length '' @ showNat (length bs)) else Inr (word_of_int (be_int bs)))"

definition parseOptionalAddress :: "string option \<Rightarrow> string + Address option" where
  "parseOptionalAddress input =
     (case input of
        None \<Rightarrow> Inr None
      | Some s \<Rightarrow> if isNull s then Inr None else sbind (upParseAddress s) (\<lambda>a. Inr (Some a)))"

subsection \<open>Documents\<close>

record rpcBlock =
  rbkNumber :: string
  rbkHash :: string
  rbkParentHash :: string
  rbkTimestamp :: string
  rbkGasLimit :: string
  rbkBaseFee :: string
  rbkBlobBaseFee :: string
  rbkMiner :: string
  rbkPrevRandao :: string

record rpcAccessListEntry =
  raeAddress :: string
  raeStorageKeys :: "string list"

record rpcTransaction =
  rtxHash :: string
  rtxBlockHash :: string
  rtxBlockNumber :: string
  rtxFrom :: string
  rtxTo :: "string option"
  rtxType :: string
  rtxGas :: string
  rtxGasPrice :: string
  rtxBlobGasFeeCap :: string
  rtxBlobHashes :: "string list"
  rtxAccessList :: "rpcAccessListEntry list"
  rtxInput :: string
  rtxNonce :: string
  rtxTransactionIndex :: "string option"
  rtxValue :: string

record rpcBlockWithTransactions =
  rbtTransactions :: "rpcTransaction list"

record rpcLog =
  rlgAddress :: string
  rlgTopics :: "string list"
  rlgData :: string

record rpcReceipt =
  rrcTransactionHash :: string
  rrcTransactionIndex :: string
  rrcBlockHash :: string
  rrcBlockNumber :: string
  rrcFrom :: string
  rrcTo :: "string option"
  rrcGasUsed :: string
  rrcCumulativeGasUsed :: string
  rrcEffectiveGasPrice :: string
  rrcContractAddress :: "string option"
  rrcStatus :: "string option"
  rrcLogs :: "rpcLog list"
  rrcLogsBloom :: string

fun parseAccessList :: "rpcAccessListEntry list \<Rightarrow> string + (Address \<times> Hash list) list" where
  "parseAccessList [] = Inr []"
| "parseAccessList (entry # entries) =
     sbind (upParseAddress (raeAddress entry)) (\<lambda>a.
     sbind (parseHashList (raeStorageKeys entry)) (\<lambda>keys.
     sbind (parseAccessList entries) (\<lambda>rest. Inr ((a, keys) # rest))))"

definition intoBlock :: "rpcBlock \<Rightarrow> string + Block" where
  "intoBlock b =
     sbind (parseHexBig (rbkNumber b)) (\<lambda>number.
     sbind (upParseHash (rbkHash b)) (\<lambda>hash.
     sbind (upParseHash (rbkParentHash b)) (\<lambda>parentHash.
     sbind (parseHexUint64 (rbkTimestamp b)) (\<lambda>timestamp.
     sbind (parseHexUint64 (rbkGasLimit b)) (\<lambda>gasLimit.
     sbind (parseOptionalHexBig (rbkBaseFee b)) (\<lambda>baseFee.
     sbind (parseOptionalHexBig (rbkBlobBaseFee b)) (\<lambda>blobBaseFee.
     sbind (upParseAddress (rbkMiner b)) (\<lambda>coinbase.
     sbind (parseOptionalHash (rbkPrevRandao b)) (\<lambda>prevRandao.
       Inr \<lparr>blNumber = Some number, blHash = hash, blParentHash = parentHash, blTimestamp = timestamp, blGasLimit = gasLimit,
            blBaseFee = baseFee, blBlobBaseFee = blobBaseFee, blCoinbase = coinbase, blPrevRandao = prevRandao,
            blChainID = None\<rparr>)))))))))"

definition intoTransaction :: "rpcTransaction \<Rightarrow> string + Transaction" where
  "intoTransaction tx =
     sbind (parseOptionalHexBig (rtxBlockNumber tx)) (\<lambda>blockNumber.
     sbind (upParseHash (rtxHash tx)) (\<lambda>hash.
     sbind (parseOptionalHash (rtxBlockHash tx)) (\<lambda>blockHash.
     sbind (upParseAddress (rtxFrom tx)) (\<lambda>from_addr.
     sbind (parseOptionalAddress (rtxTo tx)) (\<lambda>to_addr.
     sbind (parseOptionalHexUint64Value (rtxType tx)) (\<lambda>typ.
     sbind (parseHexUint64 (rtxGas tx)) (\<lambda>g.
     sbind (parseHexBig (rtxGasPrice tx)) (\<lambda>gasPrice.
     sbind (parseOptionalHexBig (rtxBlobGasFeeCap tx)) (\<lambda>blobGasFeeCap.
     sbind (parseHashList (rtxBlobHashes tx)) (\<lambda>blobHashes.
     sbind (parseAccessList (rtxAccessList tx)) (\<lambda>accessList.
     sbind (parseHexBytes (rtxInput tx)) (\<lambda>input.
     sbind (parseHexUint64 (rtxNonce tx)) (\<lambda>nonce.
     sbind (parseOptionalHexUint64 (rtxTransactionIndex tx)) (\<lambda>index.
     sbind (parseHexBig (rtxValue tx)) (\<lambda>v.
       Inr \<lparr>txHash = hash, txBlockHash = blockHash, txBlockNumber = blockNumber, txFrom = from_addr, txTo = to_addr, txType = typ,
            txGas = g, txGasPrice = Some gasPrice, txBlobGasFeeCap = blobGasFeeCap, txBlobHashes = blobHashes,
            txAccessList = accessList, txInput = input, txNonce = nonce, txTransactionIndex = index, txValue = Some v\<rparr>)))))))))))))))"

definition intoLog :: "rpcLog \<Rightarrow> string + Log" where
  "intoLog entry =
     sbind (upParseAddress (rlgAddress entry)) (\<lambda>a.
     sbind (parseHashList (rlgTopics entry)) (\<lambda>topics.
     sbind (parseHexBytes (rlgData entry)) (\<lambda>dat. Inr \<lparr>logAddress = a, logTopics = topics, logData = dat\<rparr>)))"

fun intoLogs :: "rpcLog list \<Rightarrow> string + Log list" where
  "intoLogs [] = Inr []"
| "intoLogs (entry # entries) = sbind (intoLog entry) (\<lambda>l. sbind (intoLogs entries) (\<lambda>ls. Inr (l # ls)))"

definition intoReceipt :: "rpcReceipt \<Rightarrow> string + Receipt" where
  "intoReceipt receipt =
     sbind (upParseHash (rrcTransactionHash receipt)) (\<lambda>hash.
     sbind (parseHexUint64 (rrcTransactionIndex receipt)) (\<lambda>index.
     sbind (upParseHash (rrcBlockHash receipt)) (\<lambda>blockHash.
     sbind (parseHexBig (rrcBlockNumber receipt)) (\<lambda>blockNumber.
     sbind (upParseAddress (rrcFrom receipt)) (\<lambda>from_addr.
     sbind (parseOptionalAddress (rrcTo receipt)) (\<lambda>to_addr.
     sbind (parseHexUint64 (rrcGasUsed receipt)) (\<lambda>gasUsed.
     sbind (parseHexUint64 (rrcCumulativeGasUsed receipt)) (\<lambda>cumulativeGasUsed.
     sbind (parseOptionalHexBig (rrcEffectiveGasPrice receipt)) (\<lambda>effectiveGasPrice.
     sbind (parseOptionalAddress (rrcContractAddress receipt)) (\<lambda>contractAddress.
     sbind (parseOptionalHexUint64 (rrcStatus receipt)) (\<lambda>status.
     sbind (intoLogs (rrcLogs receipt)) (\<lambda>logs.
       Inr \<lparr>rcTransactionHash = hash, rcTransactionIndex = index, rcBlockHash = blockHash, rcBlockNumber = Some blockNumber,
            rcFrom = from_addr, rcTo = to_addr, rcGasUsed = gasUsed, rcCumulativeGasUsed = cumulativeGasUsed,
            rcEffectiveGasPrice = effectiveGasPrice, rcContractAddress = contractAddress, rcStatus = status, rcLogs = logs\<rparr>))))))))))))"

fun intoTransactions :: "rpcTransaction list \<Rightarrow> string + Transaction list" where
  "intoTransactions [] = Inr []"
| "intoTransactions (entry # entries) =
     sbind (intoTransaction entry) (\<lambda>tx. sbind (intoTransactions entries) (\<lambda>txs. Inr (tx # txs)))"

subsection \<open>Options of a trace\<close>

record TraceTransactionConfig =
  ttTracer :: string
  ttTimeout :: string
  ttReexec :: "u64 option"
  ttDisableStack :: bool
  ttDisableMemory :: bool
  ttDisableStorage :: bool

definition traceOptions :: "TraceTransactionConfig \<Rightarrow> (string, AnyVal) gomap" where
  "traceOptions conf =
     (let m = [];
          m = (if ttTracer conf \<noteq> [] then mput ''tracer'' (AnyString (ttTracer conf)) m else m);
          m = (if ttTimeout conf \<noteq> [] then mput ''timeout'' (AnyString (ttTimeout conf)) m else m);
          m = (case ttReexec conf of None \<Rightarrow> m | Some n \<Rightarrow> mput ''reexec'' (AnyNum (uint n)) m);
          m = (if ttDisableStack conf then mput ''disableStack'' (AnyBool True) m else m);
          m = (if ttDisableMemory conf then mput ''disableMemory'' (AnyBool True) m else m)
      in if ttDisableStorage conf then mput ''disableStorage'' (AnyBool True) m else m)"

subsection \<open>Reading back what a node encodes\<close>

text \<open>The encoding of the specification of the protocol: quantities without leading zeros, data in full length.\<close>

definition quantityText :: "int \<Rightarrow> string" where
  "quantityText n = ''0x'' @ showHexNat (nat n)"

definition dataText :: "bytes \<Rightarrow> string" where
  "dataText bs = ''0x'' @ hexEncode bs"

lemma trimHexPrefix_data: "trimHexPrefix (''0x'' @ hexEncode bs) = hexEncode bs"
proof -
  have "CHR ''X'' \<notin> set (hexEncode bs)" using hexEncode_chars digit_not_sign by metis
  then have "\<not> HasPrefix (hexEncode bs) ''0X''"
    by (cases "hexEncode bs"; cases "tl (hexEncode bs)") (auto simp: HasPrefix_def)
  then show ?thesis unfolding trimHexPrefix_def TrimSpace_hex TrimPrefix_append by (rule TrimPrefix_other)
qed

lemma trimHexPrefix_quantity: "trimHexPrefix (''0x'' @ showHexNat n) = showHexNat n"
  unfolding trimHexPrefix_def TrimSpace_quantity TrimPrefix_append by (rule TrimPrefix_other [OF showHexNat_no_0X])

lemma parseHexBig_quantity [simp]: "0 \<le> n \<Longrightarrow> parseHexBig (quantityText n) = Inr n"
  unfolding parseHexBig_def quantityText_def trimHexPrefix_quantity Let_def SetString_showHexNat by simp

lemma parseHexUint64_quantity [simp]: "parseHexUint64 (quantityText (uint n)) = Inr n"
  using uint_lt2p [of n] by (simp add: parseHexUint64_def)

lemma not_null [simp]: "\<not> isNull (quantityText n)" "\<not> isNull (upEncodeAddress a)" "\<not> isNull (upEncodeHash h)" "isNull []"
  unfolding isNull_def quantityText_def upEncodeAddress_def upEncodeHash_def TrimSpace_quantity TrimSpace_hex
  by (simp_all add: TrimSpace_def)

lemma parseHexBytes_hex: "parseHexBytes (''0x'' @ hexEncode bs) = Inr bs"
proof -
  have "hexEncode bs = [] \<longleftrightarrow> bs = []" by (cases bs) (simp_all add: hexEncode_def hexByte_def)
  then show ?thesis unfolding parseHexBytes_def trimHexPrefix_data Let_def by (simp add: hexDecode_hexEncode)
qed

lemma parse_encoded [simp]:
  "parseHexBytes (dataText bs) = Inr bs" "upParseHash (upEncodeHash h) = Inr h" "upParseAddress (upEncodeAddress a) = Inr a"
  unfolding dataText_def upEncodeHash_def upEncodeAddress_def upParseHash_def upParseAddress_def parseHexBytes_hex
  by simp_all

lemma parseHashList_encoded [simp]: "parseHashList (map upEncodeHash hs) = Inr hs"
  by (induction hs) simp_all

end
