(* ===== verification/UpstreamClient.thy ===== *)
theory UpstreamClient
  imports Upstream DebugRequest ForkTrace
begin

text \<open>
  The client of a node (\<open>internal/forkengine/upstream/jsonrpc.go\<close>: requests, retries, the limit on their rate, batches, the
  methods of the provider). The network and the clock are a record of functions on a world; the texts of JSON are the
  library's. Times are nanoseconds; a delay doubles exactly as long as it is below \<open>2 ^ 53\<close>, where the code computes it in
  floating point.
\<close>

subsection \<open>Messages\<close>

record rpcRequest =
  rqID :: u64
  rqMethod :: string
  rqParams :: AnyVal

datatype rpcPayload = SingleRequest rpcRequest | BatchRequests "rpcRequest list"

record rpcResponse =
  rspID :: u64
  rspResult :: AnyVal
  rspError :: "(int \<times> string) option"

datatype upstreamError =
    BatchUnsupported string
  | RpcError int string
  | UpstreamError string
  | UpstreamDecode string string textError

datatype httpOutcome = HttpFailed string | HttpUnread int string | HttpReply int string

text \<open>\<open>nwSingle\<close> and \<open>nwBatch\<close> decode a body; a missing result is \<open>null\<close>.\<close>

record 'w Network =
  nwHTTP :: "rpcPayload \<Rightarrow> 'w \<Rightarrow> httpOutcome \<times> 'w"
  nwNow :: "'w \<Rightarrow> int"
  nwSleep :: "int \<Rightarrow> 'w \<Rightarrow> 'w"
  nwDone :: "'w \<Rightarrow> string option"
  nwSingle :: "string \<Rightarrow> string + rpcResponse"
  nwBatch :: "string \<Rightarrow> rpcResponse list option"

subsection \<open>The client\<close>

datatype BatchMode = BatchDisabled | BatchEnabled | BatchProbe

record RetryConfig =
  rtyMaxAttempts :: int
  rtyBaseDelay :: int
  rtyMaxDelay :: int

text \<open>\<open>jcInterval\<close> is the time between two requests, when their rate is limited.\<close>

record JSONRPCConfig =
  jcEndpoint :: string
  jcRetry :: RetryConfig
  jcInterval :: "int option"
  jcBatchMode :: "BatchMode option"
  jcMaxBatchSize :: int

record JSONRPCClient =
  clRetry :: RetryConfig
  clInterval :: "int option"
  clBatchMode :: BatchMode
  clMaxBatchSize :: int
  clLastRequest :: "int option"
  clProbeDone :: bool
  clSupported :: bool
  clRequestID :: u64

definition NewJSONRPCClient :: "JSONRPCConfig \<Rightarrow> string + JSONRPCClient" where
  "NewJSONRPCClient conf =
     (if TrimSpace (jcEndpoint conf) = [] then Inl ''upstream: json-rpc endpoint is required''
      else
        let retry = jcRetry conf;
            retry = (if rtyMaxAttempts retry \<le> 0 then retry\<lparr>rtyMaxAttempts := 1\<rparr> else retry);
            retry = (if rtyBaseDelay retry \<le> 0 then retry\<lparr>rtyBaseDelay := 100000000\<rparr> else retry);
            retry = (if rtyMaxDelay retry \<le> 0 then retry\<lparr>rtyMaxDelay := wrap64 (rtyBaseDelay retry * 8)\<rparr> else retry)
        in Inr \<lparr>clRetry = retry, clInterval = jcInterval conf,
                clBatchMode = (case jcBatchMode conf of None \<Rightarrow> BatchDisabled | Some m \<Rightarrow> m),
                clMaxBatchSize = (if jcMaxBatchSize conf \<le> 0 then 20 else jcMaxBatchSize conf),
                clLastRequest = None, clProbeDone = False, clSupported = False, clRequestID = 0\<rparr>)"

definition nextID :: "JSONRPCClient \<Rightarrow> u64 \<times> JSONRPCClient" where
  "nextID cl = (clRequestID cl + 1, cl\<lparr>clRequestID := clRequestID cl + 1\<rparr>)"

definition batchIsSupported :: "JSONRPCClient \<Rightarrow> bool" where
  "batchIsSupported cl \<longleftrightarrow> clProbeDone cl \<and> clSupported cl"

definition setBatchSupported :: "bool \<Rightarrow> JSONRPCClient \<Rightarrow> JSONRPCClient" where
  "setBatchSupported supported cl = cl\<lparr>clProbeDone := True, clSupported := supported\<rparr>"

definition normalizeParams :: "AnyVal \<Rightarrow> AnyVal" where
  "normalizeParams params = (if params = AnyNil then AnyList [] else params)"

subsection \<open>One request over HTTP\<close>

definition summarizeBodyPrefix :: "string \<Rightarrow> int \<Rightarrow> string" where
  "summarizeBodyPrefix body lim =
     (let lim = (if lim \<le> 0 then 120 else lim); trimmed = TrimSpace body in
      if trimmed = [] then []
      else if int (length trimmed) > lim then take (nat lim) trimmed @ ''...''
      else trimmed)"

definition startsLike :: "char list \<Rightarrow> string \<Rightarrow> bool" where
  "startsLike cs body = (case TrimSpace body of [] \<Rightarrow> False | c # rest \<Rightarrow> c \<in> set cs)"

definition statusText :: "int \<Rightarrow> string \<Rightarrow> string" where
  "statusText status body = showInt status @ '' body_prefix='' @ quoted (summarizeBodyPrefix body 240)"

definition doHTTP :: "'w Network \<Rightarrow> rpcPayload \<Rightarrow> 'w \<Rightarrow> (string \<times> int \<times> upstreamError option) \<times> 'w" where
  "doHTTP N payload w =
     (case nwHTTP N payload w of
        (HttpFailed e, w) \<Rightarrow> (([], 0, Some (UpstreamError e)), w)
      | (HttpUnread status e, w) \<Rightarrow> (([], status, Some (UpstreamError e)), w)
      | (HttpReply status body, w) \<Rightarrow>
          if 400 \<le> status \<and> status < 500 \<and> status \<noteq> 429 \<and> TrimSpace body \<noteq> [] \<and> \<not> startsLike ''[{'' body
          then ((body, status, Some (BatchUnsupported (''status='' @ statusText status body))), w)
          else ((body, status, None), w))"

definition classifyHTTPError :: "int \<Rightarrow> string \<Rightarrow> upstreamError" where
  "classifyHTTPError status body =
     (if 400 \<le> status \<and> status < 500 \<and> \<not> startsLike ''{['' body
      then BatchUnsupported (''status='' @ statusText status body)
      else UpstreamError (''upstream: http status '' @ statusText status body))"

definition isBatchUnsupported :: "upstreamError \<Rightarrow> bool" where
  "isBatchUnsupported e = (case e of BatchUnsupported _ \<Rightarrow> True | _ \<Rightarrow> False)"

definition shouldRetry :: "int \<Rightarrow> upstreamError \<Rightarrow> bool" where
  "shouldRetry status err =
     (if isBatchUnsupported err then False
      else if status = 429 then True
      else status \<ge> 500 \<or> status = 0)"

definition retryDelay :: "RetryConfig \<Rightarrow> nat \<Rightarrow> int" where
  "retryDelay conf nth_try =
     (let delay = rtyBaseDelay conf * 2 ^ (nth_try - 1) in if delay > rtyMaxDelay conf then rtyMaxDelay conf else delay)"

definition waitRateLimit :: "'w Network \<Rightarrow> JSONRPCClient \<Rightarrow> 'w \<Rightarrow> string option \<times> JSONRPCClient \<times> 'w" where
  "waitRateLimit N cl w =
     (case clInterval cl of
        None \<Rightarrow> (None, cl, w)
      | Some interval \<Rightarrow>
          let now = nwNow N w in
          (case clLastRequest cl of
             None \<Rightarrow> (None, cl\<lparr>clLastRequest := Some now\<rparr>, w)
           | Some last_time \<Rightarrow>
               let next_time = last_time + interval in
               if next_time > now
               then (case nwDone N w of
                       Some e \<Rightarrow> (Some e, cl, w)
                     | None \<Rightarrow> (None, cl\<lparr>clLastRequest := Some next_time\<rparr>, nwSleep N (next_time - now) w))
               else (None, cl\<lparr>clLastRequest := Some now\<rparr>, w)))"

fun retryLoop :: "'w Network \<Rightarrow> rpcPayload \<Rightarrow> nat list \<Rightarrow> upstreamError option \<Rightarrow> JSONRPCClient \<Rightarrow> 'w \<Rightarrow>
    (upstreamError option + string) \<times> JSONRPCClient \<times> 'w" where
  "retryLoop N payload [] lastErr cl w = (Inl lastErr, cl, w)"
| "retryLoop N payload (nth_try # tries) lastErr cl w =
     (case waitRateLimit N cl w of
        (Some e, cl, w) \<Rightarrow> (Inl (Some (UpstreamError e)), cl, w)
      | (None, cl, w) \<Rightarrow>
          (case doHTTP N payload w of
             ((body, status, err), w) \<Rightarrow>
               if err = None \<and> status < 400 then (Inr body, cl, w)
               else
                 let lastErr = (case err of None \<Rightarrow> classifyHTTPError status body | Some e \<Rightarrow> e) in
                 if int nth_try = rtyMaxAttempts (clRetry cl) \<or> \<not> shouldRetry status lastErr then (Inl (Some lastErr), cl, w)
                 else case nwDone N w of
                     Some e \<Rightarrow> (Inl (Some (UpstreamError e)), cl, w)
                   | None \<Rightarrow> retryLoop N payload tries (Some lastErr) cl (nwSleep N (retryDelay (clRetry cl) nth_try) w)))"

text \<open>The loop over no attempt returns a nil body and a nil error.\<close>

definition doWithRetry :: "'w Network \<Rightarrow> rpcPayload \<Rightarrow> JSONRPCClient \<Rightarrow> 'w \<Rightarrow> (upstreamError + string) \<times> JSONRPCClient \<times> 'w" where
  "doWithRetry N payload cl w =
     (case retryLoop N payload [1..<Suc (nat (rtyMaxAttempts (clRetry cl)))] None cl w of
        (Inl None, s) \<Rightarrow> (Inr [], s)
      | (Inl (Some e), s) \<Rightarrow> (Inl e, s)
      | (Inr body, s) \<Rightarrow> (Inr body, s))"

definition doSingle :: "'w Network \<Rightarrow> rpcRequest \<Rightarrow> JSONRPCClient \<Rightarrow> 'w \<Rightarrow> (upstreamError + rpcResponse) \<times> JSONRPCClient \<times> 'w" where
  "doSingle N request cl w =
     (case doWithRetry N (SingleRequest request) cl w of
        (Inl e, s) \<Rightarrow> (Inl e, s)
      | (Inr body, s) \<Rightarrow>
          (if TrimSpace body = [] \<or> startsLike ''['' body then Inl (UpstreamError ''upstream: invalid single json-rpc response'')
           else case nwSingle N (TrimSpace body) of Inl e \<Rightarrow> Inl (UpstreamError e) | Inr r \<Rightarrow> Inr r, s))"

subsection \<open>Calls\<close>

text \<open>A call with the decoder of what its result points to, if it points to anything. What is written there is the result.\<close>

record 'r BatchCall =
  bcMethod :: string
  bcParams :: AnyVal
  ucResult :: "(AnyVal \<Rightarrow> textError + 'r) option"

definition takeResult :: "string \<Rightarrow> 'r BatchCall \<Rightarrow> rpcResponse \<Rightarrow> upstreamError + 'r option" where
  "takeResult what call response =
     (case rspError response of
        Some (code, message) \<Rightarrow> Inl (RpcError code message)
      | None \<Rightarrow>
          (case ucResult call of
             None \<Rightarrow> Inr None
           | Some dec \<Rightarrow>
               if rspResult response = AnyNil then Inr None
               else case dec (rspResult response) of
                   Inl e \<Rightarrow> Inl (UpstreamDecode what (bcMethod call) e)
                 | Inr r \<Rightarrow> Inr (Some r)))"

definition Call :: "'w Network \<Rightarrow> 'r BatchCall \<Rightarrow> JSONRPCClient \<Rightarrow> 'w \<Rightarrow> (upstreamError + 'r option) \<times> JSONRPCClient \<times> 'w" where
  "Call N call cl w =
     (case nextID cl of
        (i, cl) \<Rightarrow>
          (case doSingle N \<lparr>rqID = i, rqMethod = bcMethod call, rqParams = normalizeParams (bcParams call)\<rparr> cl w of
             (Inl e, s) \<Rightarrow> (Inl e, s)
           | (Inr response, s) \<Rightarrow> (takeResult ''result'' call response, s)))"

text \<open>The outcome of several calls: the error that ended them, if one did, and the results written before.\<close>

type_synonym 'r callsOutcome = "upstreamError option \<times> 'r option list"

fun callSerial :: "'w Network \<Rightarrow> 'r BatchCall list \<Rightarrow> JSONRPCClient \<Rightarrow> 'w \<Rightarrow> 'r callsOutcome \<times> JSONRPCClient \<times> 'w" where
  "callSerial N [] cl w = ((None, []), cl, w)"
| "callSerial N (call # calls) cl w =
     (case Call N call cl w of
        (Inl e, cl, w) \<Rightarrow> ((Some e, []), cl, w)
      | (Inr r, cl, w) \<Rightarrow> (case callSerial N calls cl w of ((err, rs), s) \<Rightarrow> ((err, r # rs), s)))"

fun numberCalls :: "'r BatchCall list \<Rightarrow> JSONRPCClient \<Rightarrow> rpcRequest list \<times> JSONRPCClient" where
  "numberCalls [] cl = ([], cl)"
| "numberCalls (call # calls) cl =
     (case nextID cl of
        (i, cl) \<Rightarrow>
          (case numberCalls calls cl of
             (requests, cl) \<Rightarrow>
               (\<lparr>rqID = i, rqMethod = bcMethod call, rqParams = normalizeParams (bcParams call)\<rparr> # requests, cl)))"

fun readBatch :: "(u64 \<Rightarrow> rpcResponse option) \<Rightarrow> (rpcRequest \<times> 'r BatchCall) list \<Rightarrow> 'r callsOutcome" where
  "readBatch byID [] = (None, [])"
| "readBatch byID ((request, call) # rest) =
     (case byID (rqID request) of
        None \<Rightarrow> (Some (UpstreamError (''upstream: missing batch response for id '' @ showU64 (rqID request))), [])
      | Some response \<Rightarrow>
          (case takeResult ''batch result'' call response of
             Inl e \<Rightarrow> (Some e, [])
           | Inr r \<Rightarrow> (case readBatch byID rest of (err, rs) \<Rightarrow> (err, r # rs))))"

text \<open>The responses by their number; of two with one number the later one counts.\<close>

definition responsesByID :: "rpcResponse list \<Rightarrow> u64 \<Rightarrow> rpcResponse option" where
  "responsesByID responses = map_of (rev (map (\<lambda>r. (rspID r, r)) responses))"

definition doBatchChunk :: "'w Network \<Rightarrow> 'r BatchCall list \<Rightarrow> JSONRPCClient \<Rightarrow> 'w \<Rightarrow> 'r callsOutcome \<times> JSONRPCClient \<times> 'w" where
  "doBatchChunk N calls cl w =
     (case numberCalls calls cl of
        (requests, cl) \<Rightarrow>
          (case doWithRetry N (BatchRequests requests) cl w of
             (Inl e, s) \<Rightarrow> ((Some e, []), s)
           | (Inr body, s) \<Rightarrow>
               (if \<not> startsLike ''['' body then (Some (BatchUnsupported []), [])
                else case nwBatch N (TrimSpace body) of
                    None \<Rightarrow> (Some (BatchUnsupported []), [])
                  | Some responses \<Rightarrow> readBatch (responsesByID responses) (zip requests calls), s)))"

text \<open>The slices of a loop that goes on by \<open>k\<close>, which is positive.\<close>

fun chunksOf :: "nat \<Rightarrow> 'a list \<Rightarrow> 'a list list" where
  "chunksOf k [] = []"
| "chunksOf k (x # xs) = (x # take (k - 1) xs) # chunksOf k (drop (k - 1) xs)"

fun callChunks :: "'w Network \<Rightarrow> 'r BatchCall list list \<Rightarrow> JSONRPCClient \<Rightarrow> 'w \<Rightarrow> 'r callsOutcome \<times> JSONRPCClient \<times> 'w" where
  "callChunks N [] cl w = ((None, []), cl, w)"
| "callChunks N (chunk # chunks) cl w =
     (case doBatchChunk N chunk cl w of
        ((Some e, rs), s) \<Rightarrow> ((Some e, rs), s)
      | ((None, rs), cl, w) \<Rightarrow> (case callChunks N chunks cl w of ((err, rs'), s) \<Rightarrow> ((err, rs @ rs'), s)))"

definition callBatched :: "'w Network \<Rightarrow> 'r BatchCall list \<Rightarrow> JSONRPCClient \<Rightarrow> 'w \<Rightarrow> 'r callsOutcome \<times> JSONRPCClient \<times> 'w" where
  "callBatched N calls cl w = callChunks N (chunksOf (nat (clMaxBatchSize cl)) calls) cl w"

definition BatchCalls :: "'w Network \<Rightarrow> 'r BatchCall list \<Rightarrow> JSONRPCClient \<Rightarrow> 'w \<Rightarrow> 'r callsOutcome \<times> JSONRPCClient \<times> 'w" where
  "BatchCalls N calls cl w =
     (if calls = [] then ((None, []), cl, w)
      else if length calls = 1 then
        (case Call N (hd calls) cl w of
           (Inl e, s) \<Rightarrow> ((Some e, []), s)
         | (Inr r, s) \<Rightarrow> ((None, [r]), s))
      else if clBatchMode cl = BatchDisabled then callSerial N calls cl w
      else if clBatchMode cl = BatchEnabled then callBatched N calls cl w
      else if batchIsSupported cl then callBatched N calls cl w
      else case callBatched N calls cl w of
          ((None, rs), cl, w) \<Rightarrow> ((None, rs), setBatchSupported True cl, w)
        | ((Some e, rs), cl, w) \<Rightarrow>
            if isBatchUnsupported e then callSerial N calls (setBatchSupported False cl) w
            else ((Some e, rs), cl, w))"

subsection \<open>The number of attempts\<close>

text \<open>A network that counts its requests.\<close>

definition countedNet :: "'w Network \<Rightarrow> ('w \<times> nat) Network" where
  "countedNet N =
     \<lparr>nwHTTP = (\<lambda>p (w, n). case nwHTTP N p w of (r, w) \<Rightarrow> (r, (w, Suc n))), nwNow = (\<lambda>(w, n). nwNow N w),
      nwSleep = (\<lambda>t (w, n). (nwSleep N t w, n)), nwDone = (\<lambda>(w, n). nwDone N w), nwSingle = nwSingle N, nwBatch = nwBatch N\<rparr>"

lemma waitRateLimit_counted:
  "waitRateLimit (countedNet N) cl (w, n) = (e, cl', (w', n')) \<Longrightarrow> n' = n"
  by (auto simp: waitRateLimit_def countedNet_def Let_def split: option.splits if_splits)

lemma doHTTP_counted: "doHTTP (countedNet N) p (w, n) = (r, (w', n')) \<Longrightarrow> n' = Suc n"
  by (auto simp: doHTTP_def countedNet_def split: prod.splits httpOutcome.splits if_splits)

lemma retryLoop_counted:
  "retryLoop (countedNet N) p tries lastErr cl (w, n) = (r, cl', (w', n')) \<Longrightarrow> n' \<le> n + length tries"
proof (induction tries arbitrary: lastErr cl w n)
  case (Cons k tries)
  obtain e cl1 w1 n1 where wait: "waitRateLimit (countedNet N) cl (w, n) = (e, cl1, (w1, n1))" by (metis prod.exhaust)
  obtain body status err w2 n2 where http: "doHTTP (countedNet N) p (w1, n1) = ((body, status, err), (w2, n2))" by (metis prod.exhaust)
  have n: "n1 = n" "n2 = Suc n" using waitRateLimit_counted [OF wait] doHTTP_counted [OF http] by simp_all
  have sleep: "nwSleep (countedNet N) t (w2, m) = (nwSleep N t w2, m)" for t m by (simp add: countedNet_def)
  show ?case
    using Cons.prems Cons.IH [of _ cl1 "nwSleep N (retryDelay (clRetry cl1) k) w2" n2] n(2)
    by (cases e) (auto simp: wait http [unfolded n(1)] n(1) sleep Let_def split: if_splits option.splits)
qed simp

lemma doWithRetry_counted:
  assumes "doWithRetry (countedNet N) p cl (w, n) = (r, cl', (w', n'))"
  shows "n' \<le> n + nat (rtyMaxAttempts (clRetry cl))"
proof -
  obtain q cl2 w2 n2 where loop: "retryLoop (countedNet N) p [1..<Suc (nat (rtyMaxAttempts (clRetry cl)))] None cl (w, n) = (q, cl2, (w2, n2))"
    by (metis prod.exhaust)
  have "n2 = n'"
    using assms unfolding doWithRetry_def loop by (cases q rule: sum.exhaust; simp split: option.splits)
  with retryLoop_counted [OF loop] show ?thesis by (simp del: upt_Suc)
qed

subsection \<open>Batches\<close>

text \<open>A node that answers: each request by itself, and in a batch all requests, in any order.\<close>

type_synonym nodeAnswer = "string \<Rightarrow> AnyVal \<Rightarrow> AnyVal \<times> (int \<times> string) option"

definition replyTo :: "nodeAnswer \<Rightarrow> rpcRequest \<Rightarrow> rpcResponse" where
  "replyTo answer rq = \<lparr>rspID = rqID rq, rspResult = fst (answer (rqMethod rq) (rqParams rq)), rspError = snd (answer (rqMethod rq) (rqParams rq))\<rparr>"

definition replies :: "'w Network \<Rightarrow> rpcPayload \<Rightarrow> (string \<Rightarrow> bool) \<Rightarrow> bool" where
  "replies N p P \<longleftrightarrow> (\<forall>w. \<exists>status body w'. nwHTTP N p w = (HttpReply status body, w') \<and> status < 400 \<and> P body)"

definition servesSingles :: "'w Network \<Rightarrow> nodeAnswer \<Rightarrow> bool" where
  "servesSingles N answer \<longleftrightarrow>
     (\<forall>rq. replies N (SingleRequest rq) (\<lambda>body. TrimSpace body \<noteq> [] \<and> \<not> startsLike ''['' body \<and> nwSingle N (TrimSpace body) = Inr (replyTo answer rq)))"

definition servesBatches :: "'w Network \<Rightarrow> nodeAnswer \<Rightarrow> bool" where
  "servesBatches N answer \<longleftrightarrow>
     (\<forall>rqs. replies N (BatchRequests rqs)
        (\<lambda>body. startsLike ''['' body \<and> (\<exists>rs. nwBatch N (TrimSpace body) = Some rs \<and> set rs = replyTo answer ` set rqs)))"

definition refusesBatches :: "'w Network \<Rightarrow> bool" where
  "refusesBatches N \<longleftrightarrow> (\<forall>rqs. replies N (BatchRequests rqs) (\<lambda>body. \<not> startsLike ''['' body))"

definition neverCancelled :: "'w Network \<Rightarrow> bool" where
  "neverCancelled N \<longleftrightarrow> (\<forall>w. nwDone N w = None)"

text \<open>What serial calls come to when the node answers.\<close>

fun serialOutcome :: "string \<Rightarrow> nodeAnswer \<Rightarrow> 'r BatchCall list \<Rightarrow> 'r callsOutcome" where
  "serialOutcome what answer [] = (None, [])"
| "serialOutcome what answer (call # calls) =
     (case takeResult what call (replyTo answer \<lparr>rqID = 0, rqMethod = bcMethod call, rqParams = normalizeParams (bcParams call)\<rparr>) of
        Inl e \<Rightarrow> (Some e, [])
      | Inr r \<Rightarrow> (case serialOutcome what answer calls of (err, rs) \<Rightarrow> (err, r # rs)))"

lemma takeResult_id:
  "takeResult what call (replyTo answer \<lparr>rqID = i, rqMethod = m, rqParams = ps\<rparr>) =
   takeResult what call (replyTo answer \<lparr>rqID = 0, rqMethod = m, rqParams = ps\<rparr>)"
  unfolding takeResult_def replyTo_def rpcResponse.select_convs rpcRequest.select_convs ..

lemma answered_append:
  "serialOutcome what answer (xs @ ys) =
     (case serialOutcome what answer xs of
        (Some e, rs) \<Rightarrow> (Some e, rs)
      | (None, rs) \<Rightarrow> (case serialOutcome what answer ys of (err, rs') \<Rightarrow> (err, rs @ rs')))"
  by (induction xs) (auto split: prod.splits sum.splits option.splits)

text \<open>The texts of decoding errors name the kind of call.\<close>

fun untagged :: "upstreamError \<Rightarrow> upstreamError" where
  "untagged (UpstreamDecode what m e) = UpstreamDecode [] m e"
| "untagged e = e"

lemma takeResult_tags: "takeResult a call r = Inl e \<Longrightarrow> \<exists>e'. takeResult b call r = Inl e' \<and> untagged e' = untagged e \<and> \<not> isBatchUnsupported e"
  by (auto simp: takeResult_def isBatchUnsupported_def split: option.splits if_splits sum.splits)

lemma takeResult_tags_ok: "takeResult a call r = Inr x \<Longrightarrow> takeResult b call r = Inr x"
  by (auto simp: takeResult_def split: option.splits if_splits sum.splits)

lemma answered_tags:
  "snd (serialOutcome a answer calls) = snd (serialOutcome b answer calls) \<and>
   map_option untagged (fst (serialOutcome a answer calls)) = map_option untagged (fst (serialOutcome b answer calls)) \<and>
   (\<forall>e. fst (serialOutcome a answer calls) = Some e \<longrightarrow> \<not> isBatchUnsupported e)"
proof (induction calls)
  case (Cons call calls)
  let ?r = "replyTo answer \<lparr>rqID = 0, rqMethod = bcMethod call, rqParams = normalizeParams (bcParams call)\<rparr>"
  show ?case
  proof (cases "takeResult a call ?r")
    case (Inl e)
    then show ?thesis using takeResult_tags [OF Inl, of b] by auto
  next
    case (Inr x)
    then show ?thesis using takeResult_tags_ok [OF Inr, of b] Cons by (auto split: prod.splits)
  qed
qed simp

lemma waitRateLimit_runs:
  "neverCancelled N \<Longrightarrow> \<exists>t w'. waitRateLimit N cl w = (None, cl\<lparr>clLastRequest := t\<rparr>, w')"
  by (cases "clInterval cl"; cases "clLastRequest cl")
    (auto simp: waitRateLimit_def neverCancelled_def Let_def intro: exI [of _ "clLastRequest cl"])

lemma first_try:
  assumes "neverCancelled N" "1 \<le> rtyMaxAttempts (clRetry cl)" "replies N p P"
  shows "\<exists>body t w'. doWithRetry N p cl w = (Inr body, cl\<lparr>clLastRequest := t\<rparr>, w') \<and> P body"
proof -
  obtain t w1 where wait: "waitRateLimit N cl w = (None, cl\<lparr>clLastRequest := t\<rparr>, w1)" using waitRateLimit_runs [OF assms(1)] by blast
  obtain status body w2 where http: "nwHTTP N p w1 = (HttpReply status body, w2)" "status < 400" "P body"
    using assms(3) by (fastforce simp: replies_def)
  have "[1..<Suc (nat (rtyMaxAttempts (clRetry cl)))] = 1 # [2..<Suc (nat (rtyMaxAttempts (clRetry cl)))]"
    using assms(2) upt_conv_Cons [of 1 "Suc (nat (rtyMaxAttempts (clRetry cl)))"] by (simp add: numeral_2_eq_2 del: upt_Suc)
  then have "doWithRetry N p cl w = (Inr body, cl\<lparr>clLastRequest := t\<rparr>, w2)"
    using http by (simp add: doWithRetry_def wait doHTTP_def)
  then show ?thesis using http(3) by blast
qed

lemma callSerial_answered:
  assumes "neverCancelled N" "servesSingles N answer" "1 \<le> rtyMaxAttempts (clRetry cl)"
  shows "\<exists>cl' w'. callSerial N calls cl w = (serialOutcome ''result'' answer calls, cl', w')"
  using assms(3)
proof (induction calls arbitrary: cl w)
  case (Cons call calls)
  let ?rq = "\<lparr>rqID = clRequestID cl + 1, rqMethod = bcMethod call, rqParams = normalizeParams (bcParams call)\<rparr>"
  let ?cl = "cl\<lparr>clRequestID := clRequestID cl + 1\<rparr>"
  have "replies N (SingleRequest ?rq) (\<lambda>body. TrimSpace body \<noteq> [] \<and> \<not> startsLike ''['' body \<and> nwSingle N (TrimSpace body) = Inr (replyTo answer ?rq))"
    using assms(2) unfolding servesSingles_def by blast
  from first_try [OF assms(1) _ this, of ?cl w] Cons.prems
  obtain body t w' where "doWithRetry N (SingleRequest ?rq) ?cl w = (Inr body, ?cl\<lparr>clLastRequest := t\<rparr>, w')"
    "TrimSpace body \<noteq> []" "\<not> startsLike ''['' body" "nwSingle N (TrimSpace body) = Inr (replyTo answer ?rq)" by auto
  then have call: "Call N call cl w = (takeResult ''result'' call (replyTo answer (?rq\<lparr>rqID := 0\<rparr>)), ?cl\<lparr>clLastRequest := t\<rparr>, w')"
    by (simp add: Call_def nextID_def doSingle_def takeResult_id [of _ _ _ "clRequestID cl + 1"])
  obtain cl2 w2 where "callSerial N calls (?cl\<lparr>clLastRequest := t\<rparr>) w' = (serialOutcome ''result'' answer calls, cl2, w2)"
    using Cons.IH [of "?cl\<lparr>clLastRequest := t\<rparr>" w'] Cons.prems by auto
  then show ?case by (auto simp: call split: sum.splits prod.splits)
qed simp

fun requestsFrom :: "u64 \<Rightarrow> 'r BatchCall list \<Rightarrow> rpcRequest list" where
  "requestsFrom i [] = []"
| "requestsFrom i (call # calls) =
     \<lparr>rqID = i + 1, rqMethod = bcMethod call, rqParams = normalizeParams (bcParams call)\<rparr> # requestsFrom (i + 1) calls"

lemma numberCalls_requests: "\<exists>n. numberCalls calls cl = (requestsFrom (clRequestID cl) calls, cl\<lparr>clRequestID := n\<rparr>)"
proof (induction calls arbitrary: cl)
  case Nil
  show ?case by (rule exI [of _ "clRequestID cl"]) simp
next
  case (Cons call calls)
  let ?cl = "cl\<lparr>clRequestID := clRequestID cl + 1\<rparr>"
  obtain n where "numberCalls calls ?cl = (requestsFrom (clRequestID ?cl) calls, ?cl\<lparr>clRequestID := n\<rparr>)" using Cons by blast
  then show ?case by (auto simp: nextID_def)
qed

lemma length_requestsFrom [simp]: "length (requestsFrom i calls) = length calls"
  by (induction calls arbitrary: i) simp_all

lemma requestsFrom_IDs: "map rqID (requestsFrom i calls) = map (\<lambda>k. i + 1 + of_nat k) [0..<length calls]"
proof (induction calls arbitrary: i)
  case (Cons call calls)
  have "map (\<lambda>k. i + 1 + of_nat k) [0..<Suc (length calls)] = (i + 1) # map (\<lambda>k. i + 1 + of_nat (Suc k)) [0..<length calls]"
    by (simp add: upt_conv_Cons map_Suc_upt [symmetric] comp_def del: upt_Suc)
  then show ?case using Cons [of "i + 1"] by (simp add: algebra_simps del: upt_Suc)
qed simp

lemma distinct_requestsFrom: "length calls < 2 ^ 64 \<Longrightarrow> distinct (map rqID (requestsFrom i calls))"
proof -
  assume "length calls < 2 ^ 64"
  then have "inj_on (\<lambda>k. i + 1 + of_nat k) {0..<length calls}"
    by (intro inj_onI) (simp add: word_of_nat_eq_iff take_bit_nat_eq_self)
  then show ?thesis by (simp add: requestsFrom_IDs distinct_map)
qed

lemma zip_requestsFrom:
  "(rq, call) \<in> set (zip (requestsFrom i calls) calls) \<Longrightarrow> rqMethod rq = bcMethod call \<and> rqParams rq = normalizeParams (bcParams call)"
  by (induction calls arbitrary: i) auto

lemma responsesByID_reply:
  assumes "set rs = replyTo answer ` set rqs" "distinct (map rqID rqs)" "rq \<in> set rqs"
  shows "responsesByID rs (rqID rq) = Some (replyTo answer rq)"
proof -
  have same: "r = replyTo answer rq" if r: "r \<in> set rs" "rspID r = rqID rq" for r
  proof -
    obtain rq' where rq': "rq' \<in> set rqs" "r = replyTo answer rq'" using r(1) assms(1) by blast
    then have "rqID rq' = rqID rq" using r(2) by (simp add: replyTo_def)
    then have "rq' = rq" using rq'(1) assms(2,3) by (auto simp: distinct_map dest: inj_onD)
    then show ?thesis using rq'(2) by simp
  qed
  have mem: "replyTo answer rq \<in> set rs" "rspID (replyTo answer rq) = rqID rq" using assms(1,3) by (simp_all add: replyTo_def)
  show ?thesis
  proof (cases "responsesByID rs (rqID rq)")
    case None
    then have "rqID rq \<notin> rspID ` set rs" by (simp add: responsesByID_def map_of_eq_None_iff image_image)
    then show ?thesis using mem by (metis image_eqI)
  next
    case (Some r)
    then have "(rqID rq, r) \<in> set (map (\<lambda>r. (rspID r, r)) rs)" using map_of_SomeD by (fastforce simp: responsesByID_def)
    then have "r = replyTo answer rq" using same by auto
    then show ?thesis using Some by simp
  qed
qed

lemma readBatch_answered:
  "\<forall>(rq, call)\<in>set (zip rqs calls). byID (rqID rq) = Some (replyTo answer rq) \<and> rqMethod rq = bcMethod call \<and> rqParams rq = normalizeParams (bcParams call) \<Longrightarrow>
   length rqs = length calls \<Longrightarrow> readBatch byID (zip rqs calls) = serialOutcome ''batch result'' answer calls"
proof (induction rqs calls rule: list_induct2')
  case (4 rq rqs call calls)
  have "rq = \<lparr>rqID = rqID rq, rqMethod = bcMethod call, rqParams = normalizeParams (bcParams call)\<rparr>" using 4(2) by simp
  then have "takeResult ''batch result'' call (replyTo answer rq) =
      takeResult ''batch result'' call (replyTo answer \<lparr>rqID = 0, rqMethod = bcMethod call, rqParams = normalizeParams (bcParams call)\<rparr>)"
    by (metis takeResult_id)
  then show ?case using 4 by (auto split: sum.splits prod.splits)
qed simp_all

lemma doBatchChunk_answered:
  assumes "neverCancelled N" "servesBatches N answer" "1 \<le> rtyMaxAttempts (clRetry cl)" "length calls < 2 ^ 64"
  shows "\<exists>n t w'. doBatchChunk N calls cl w = (serialOutcome ''batch result'' answer calls, cl\<lparr>clRequestID := n, clLastRequest := t\<rparr>, w')"
proof -
  let ?rqs = "requestsFrom (clRequestID cl) calls"
  obtain n where num: "numberCalls calls cl = (?rqs, cl\<lparr>clRequestID := n\<rparr>)" using numberCalls_requests by blast
  have "replies N (BatchRequests ?rqs)
      (\<lambda>body. startsLike ''['' body \<and> (\<exists>rs. nwBatch N (TrimSpace body) = Some rs \<and> set rs = replyTo answer ` set ?rqs))"
    using assms(2) unfolding servesBatches_def by blast
  from first_try [OF assms(1) _ this, of "cl\<lparr>clRequestID := n\<rparr>" w] assms(3)
  obtain body t w' rs where b: "doWithRetry N (BatchRequests ?rqs) (cl\<lparr>clRequestID := n\<rparr>) w = (Inr body, cl\<lparr>clRequestID := n, clLastRequest := t\<rparr>, w')"
    "startsLike ''['' body" "nwBatch N (TrimSpace body) = Some rs" "set rs = replyTo answer ` set ?rqs" by auto
  have "\<forall>(rq, call)\<in>set (zip ?rqs calls). responsesByID rs (rqID rq) = Some (replyTo answer rq) \<and> rqMethod rq = bcMethod call \<and>
      rqParams rq = normalizeParams (bcParams call)"
    using zip_requestsFrom responsesByID_reply [OF b(4) distinct_requestsFrom [OF assms(4)]] by (blast dest: set_zip_leftD)
  then have "readBatch (responsesByID rs) (zip ?rqs calls) = serialOutcome ''batch result'' answer calls"
    by (rule readBatch_answered) simp
  then show ?thesis using b by (simp add: doBatchChunk_def num) blast
qed

lemma concat_chunksOf [simp]: "concat (chunksOf k xs) = xs"
  by (induction k xs rule: chunksOf.induct) simp_all

lemma callChunks_answered:
  assumes "neverCancelled N" "servesBatches N answer" "1 \<le> rtyMaxAttempts (clRetry cl)" "length (concat chunks) < 2 ^ 64"
  shows "\<exists>cl' w'. callChunks N chunks cl w = (serialOutcome ''batch result'' answer (concat chunks), cl', w')"
  using assms(3,4)
proof (induction chunks arbitrary: cl w)
  case (Cons chunk chunks)
  obtain n t w' where c: "doBatchChunk N chunk cl w = (serialOutcome ''batch result'' answer chunk, cl\<lparr>clRequestID := n, clLastRequest := t\<rparr>, w')"
    using doBatchChunk_answered [OF assms(1,2) Cons.prems(1), of chunk w] Cons.prems(2) by auto
  obtain cl2 w2 where "callChunks N chunks (cl\<lparr>clRequestID := n, clLastRequest := t\<rparr>) w' = (serialOutcome ''batch result'' answer (concat chunks), cl2, w2)"
    using Cons.IH [of "cl\<lparr>clRequestID := n, clLastRequest := t\<rparr>" w'] Cons.prems by auto
  then show ?case by (cases "serialOutcome ''batch result'' answer chunk") (auto simp: c answered_append split: option.splits prod.splits)
qed simp

lemma callBatched_refused:
  assumes "neverCancelled N" "refusesBatches N" "1 \<le> rtyMaxAttempts (clRetry cl)" "calls \<noteq> []"
  shows "\<exists>n t w'. callBatched N calls cl w = ((Some (BatchUnsupported []), []), cl\<lparr>clRequestID := n, clLastRequest := t\<rparr>, w')"
proof -
  obtain chunk chunks where c: "chunksOf (nat (clMaxBatchSize cl)) calls = chunk # chunks" using assms(4) by (cases calls) auto
  obtain rqs n where num: "numberCalls chunk cl = (rqs, cl\<lparr>clRequestID := n\<rparr>)" using numberCalls_requests by blast
  have "replies N (BatchRequests rqs) (\<lambda>body. \<not> startsLike ''['' body)" using assms(2) by (simp add: refusesBatches_def)
  from first_try [OF assms(1) _ this, of "cl\<lparr>clRequestID := n\<rparr>" w] assms(3)
  obtain body t w' where "doWithRetry N (BatchRequests rqs) (cl\<lparr>clRequestID := n\<rparr>) w = (Inr body, cl\<lparr>clRequestID := n, clLastRequest := t\<rparr>, w')"
    "\<not> startsLike ''['' body" by auto
  then show ?thesis by (auto simp: callBatched_def c doBatchChunk_def num)
qed

text \<open>Whatever the mode, several calls in one method come to what they come to one after the other.\<close>

lemma BatchCalls_serial:
  assumes "neverCancelled N" "servesSingles N answer" "1 \<le> rtyMaxAttempts (clRetry cl)" "length calls < 2 ^ 64"
    and batches: "servesBatches N answer \<or> refusesBatches N \<and> clBatchMode cl \<noteq> BatchEnabled \<and> \<not> batchIsSupported cl"
  shows "\<exists>err rs cl1 w1 err' cl2 w2. BatchCalls N calls cl w = ((err, rs), cl1, w1) \<and> callSerial N calls cl w = ((err', rs), cl2, w2) \<and>
    map_option untagged err = map_option untagged err'"
proof -
  obtain cl2 w2 where serial: "callSerial N calls cl w = (serialOutcome ''result'' answer calls, cl2, w2)"
    using callSerial_answered [OF assms(1-3)] by blast
  obtain err rs where o: "serialOutcome ''result'' answer calls = (err, rs)" by fastforce
  have "\<exists>err1 cl1 w1. BatchCalls N calls cl w = ((err1, rs), cl1, w1) \<and> map_option untagged err1 = map_option untagged err"
  proof (cases "length calls \<le> 1 \<or> clBatchMode cl = BatchDisabled")
    case True
    consider "calls = []" | call where "calls = [call]" | "1 < length calls" "clBatchMode cl = BatchDisabled"
      using True by (cases calls; cases "tl calls") auto
    then show ?thesis
    proof cases
      case 2
      then show ?thesis using serial o by (auto simp: BatchCalls_def split: sum.splits prod.splits)
    qed (use serial o in \<open>auto simp: BatchCalls_def\<close>)
  next
    case False
    then have calls: "calls \<noteq> []" "length calls \<noteq> 1" and mode: "clBatchMode cl \<noteq> BatchDisabled" by auto
    show ?thesis
    proof (cases "servesBatches N answer")
      case True
      obtain err1 where b: "serialOutcome ''batch result'' answer calls = (err1, rs)" "map_option untagged err1 = map_option untagged err"
          "\<forall>e. err1 = Some e \<longrightarrow> \<not> isBatchUnsupported e"
        using answered_tags [of "''batch result''" answer calls "''result''"] o by (cases "serialOutcome ''batch result'' answer calls") auto
      have "length (concat (chunksOf (nat (clMaxBatchSize cl)) calls)) < 2 ^ 64" using assms(4) by simp
      from callChunks_answered [OF assms(1) True assms(3) this, of w]
      obtain cl1 w1 where "callBatched N calls cl w = ((err1, rs), cl1, w1)" by (auto simp: callBatched_def b(1))
      then show ?thesis using calls mode b by (cases err1) (auto simp: BatchCalls_def)
    next
      case False
      then have refused: "refusesBatches N" "clBatchMode cl \<noteq> BatchEnabled" "\<not> batchIsSupported cl" using batches by simp_all
      obtain n t w' where b: "callBatched N calls cl w = ((Some (BatchUnsupported []), []), cl\<lparr>clRequestID := n, clLastRequest := t\<rparr>, w')"
        using callBatched_refused [OF assms(1) refused(1) assms(3) calls(1)] by blast
      let ?cl = "setBatchSupported False (cl\<lparr>clRequestID := n, clLastRequest := t\<rparr>)"
      have "1 \<le> rtyMaxAttempts (clRetry ?cl)" using assms(3) by (simp add: setBatchSupported_def)
      from callSerial_answered [OF assms(1,2) this, of calls w']
      obtain cl1 w1 where "callSerial N calls ?cl w' = ((err, rs), cl1, w1)" using o by auto
      then show ?thesis using calls mode refused by (simp add: BatchCalls_def b isBatchUnsupported_def)
    qed
  qed
  then show ?thesis using serial o by auto
qed

end
