(* ===== verification/UpstreamProvider.thy ===== *)
theory UpstreamProvider
  imports UpstreamClient
begin

text \<open>
  The provider over JSON-RPC (\<open>internal/forkengine/upstream/jsonrpc.go\<close>: the methods of \<open>JSONRPCProvider\<close>), from the documents a
  node sends to the values the fork engine works with.
\<close>

subsection \<open>Documents\<close>

text \<open>A pointer to a string.\<close>

definition optionalTextField :: "((string option \<Rightarrow> string option) \<Rightarrow> 'r \<Rightarrow> 'r) \<Rightarrow> AnyVal \<Rightarrow> 'r \<Rightarrow> textError + 'r" where
  "optionalTextField upd v r =
     (case v of
        AnyString s \<Rightarrow> Inr (upd (\<lambda>_. Some s) r)
      | AnyNil \<Rightarrow> Inr (upd (\<lambda>_. None) r)
      | _ \<Rightarrow> Inl (JsonError ''string''))"

definition zeroRpcBlock :: rpcBlock where
  "zeroRpcBlock = \<lparr>rbkNumber = [], rbkHash = [], rbkParentHash = [], rbkTimestamp = [], rbkGasLimit = [], rbkBaseFee = [],
     rbkBlobBaseFee = [], rbkMiner = [], rbkPrevRandao = []\<rparr>"

definition blockFields :: "rpcBlock jsonField list" where
  "blockFields =
     [(''number'', textField rbkNumber_update), (''hash'', textField rbkHash_update),
      (''parentHash'', textField rbkParentHash_update), (''timestamp'', textField rbkTimestamp_update),
      (''gasLimit'', textField rbkGasLimit_update), (''baseFeePerGas'', textField rbkBaseFee_update),
      (''blobBaseFeePerGas'', textField rbkBlobBaseFee_update), (''miner'', textField rbkMiner_update),
      (''mixHash'', textField rbkPrevRandao_update)]"

definition rpcBlockOf :: "AnyVal \<Rightarrow> textError + rpcBlock" where
  "rpcBlockOf = decodeObject blockFields zeroRpcBlock"

definition accessFields :: "rpcAccessListEntry jsonField list" where
  "accessFields =
     [(''address'', textField raeAddress_update), (''storageKeys'', listField decodeText raeStorageKeys_update)]"

definition rpcAccessListEntryOf :: "AnyVal \<Rightarrow> textError + rpcAccessListEntry" where
  "rpcAccessListEntryOf = decodeObject accessFields \<lparr>raeAddress = [], raeStorageKeys = []\<rparr>"

definition zeroRpcTransaction :: rpcTransaction where
  "zeroRpcTransaction = \<lparr>rtxHash = [], rtxBlockHash = [], rtxBlockNumber = [], rtxFrom = [], rtxTo = None, rtxType = [], rtxGas = [],
     rtxGasPrice = [], rtxBlobGasFeeCap = [], rtxBlobHashes = [], rtxAccessList = [], rtxInput = [], rtxNonce = [],
     rtxTransactionIndex = None, rtxValue = []\<rparr>"

definition transactionFields :: "rpcTransaction jsonField list" where
  "transactionFields =
     [(''hash'', textField rtxHash_update), (''blockHash'', textField rtxBlockHash_update),
      (''blockNumber'', textField rtxBlockNumber_update), (''from'', textField rtxFrom_update),
      (''to'', optionalTextField rtxTo_update), (''type'', textField rtxType_update), (''gas'', textField rtxGas_update),
      (''gasPrice'', textField rtxGasPrice_update), (''maxFeePerBlobGas'', textField rtxBlobGasFeeCap_update),
      (''blobVersionedHashes'', listField decodeText rtxBlobHashes_update),
      (''accessList'', listField rpcAccessListEntryOf rtxAccessList_update), (''input'', textField rtxInput_update),
      (''nonce'', textField rtxNonce_update), (''transactionIndex'', optionalTextField rtxTransactionIndex_update),
      (''value'', textField rtxValue_update)]"

definition rpcTransactionOf :: "AnyVal \<Rightarrow> textError + rpcTransaction" where
  "rpcTransactionOf = decodeObject transactionFields zeroRpcTransaction"

definition rpcBlockWithTransactionsOf :: "AnyVal \<Rightarrow> textError + rpcBlockWithTransactions" where
  "rpcBlockWithTransactionsOf =
     decodeObject [(''transactions'', listField rpcTransactionOf rbtTransactions_update)] \<lparr>rbtTransactions = []\<rparr>"

definition logFields :: "rpcLog jsonField list" where
  "logFields =
     [(''address'', textField rlgAddress_update), (''topics'', listField decodeText rlgTopics_update),
      (''data'', textField rlgData_update)]"

definition rpcLogOf :: "AnyVal \<Rightarrow> textError + rpcLog" where
  "rpcLogOf = decodeObject logFields \<lparr>rlgAddress = [], rlgTopics = [], rlgData = []\<rparr>"

definition zeroRpcReceipt :: rpcReceipt where
  "zeroRpcReceipt = \<lparr>rrcTransactionHash = [], rrcTransactionIndex = [], rrcBlockHash = [], rrcBlockNumber = [], rrcFrom = [],
     rrcTo = None, rrcGasUsed = [], rrcCumulativeGasUsed = [], rrcEffectiveGasPrice = [], rrcContractAddress = None,
     rrcStatus = None, rrcLogs = [], rrcLogsBloom = []\<rparr>"

definition receiptFields :: "rpcReceipt jsonField list" where
  "receiptFields =
     [(''transactionHash'', textField rrcTransactionHash_update), (''transactionIndex'', textField rrcTransactionIndex_update),
      (''blockHash'', textField rrcBlockHash_update), (''blockNumber'', textField rrcBlockNumber_update),
      (''from'', textField rrcFrom_update), (''to'', optionalTextField rrcTo_update), (''gasUsed'', textField rrcGasUsed_update),
      (''cumulativeGasUsed'', textField rrcCumulativeGasUsed_update), (''effectiveGasPrice'', textField rrcEffectiveGasPrice_update),
      (''contractAddress'', optionalTextField rrcContractAddress_update), (''status'', optionalTextField rrcStatus_update),
      (''logs'', listField rpcLogOf rrcLogs_update), (''logsBloom'', textField rrcLogsBloom_update)]"

definition rpcReceiptOf :: "AnyVal \<Rightarrow> textError + rpcReceipt" where
  "rpcReceiptOf = decodeObject receiptFields zeroRpcReceipt"

subsection \<open>The methods\<close>

text \<open>A call, its result decoded into a variable that starts out as \<open>zero\<close>, and what the method makes of it.\<close>

definition providerCall :: "'w Network \<Rightarrow> string \<Rightarrow> AnyVal \<Rightarrow> (AnyVal \<Rightarrow> textError + 'r) \<Rightarrow> 'r \<Rightarrow> ('r \<Rightarrow> string + 'a) \<Rightarrow> JSONRPCClient \<Rightarrow> 'w \<Rightarrow>
    (upstreamError + 'a) \<times> JSONRPCClient \<times> 'w" where
  "providerCall N m params dec zero parse cl w =
     (case Call N \<lparr>bcMethod = m, bcParams = params, ucResult = Some dec\<rparr> cl w of
        (Inl e, s) \<Rightarrow> (Inl e, s)
      | (Inr r, s) \<Rightarrow>
          (case parse (case r of None \<Rightarrow> zero | Some x \<Rightarrow> x) of
             Inl e \<Rightarrow> (Inl (UpstreamError e), s)
           | Inr v \<Rightarrow> (Inr v, s)))"

definition rpcChainID :: "'w Network \<Rightarrow> JSONRPCClient \<Rightarrow> 'w \<Rightarrow> (upstreamError + int) \<times> JSONRPCClient \<times> 'w" where
  "rpcChainID N = providerCall N ''eth_chainId'' AnyNil decodeText [] parseHexBig"

definition rpcGetBalance :: "'w Network \<Rightarrow> Address \<Rightarrow> BlockRef \<Rightarrow> JSONRPCClient \<Rightarrow> 'w \<Rightarrow> (upstreamError + int) \<times> JSONRPCClient \<times> 'w" where
  "rpcGetBalance N a block =
     providerCall N ''eth_getBalance'' (AnyList [AnyString (upEncodeAddress a), AnyString (upEncodeBlockRef block)]) decodeText [] parseHexBig"

definition rpcGetNonce :: "'w Network \<Rightarrow> Address \<Rightarrow> BlockRef \<Rightarrow> JSONRPCClient \<Rightarrow> 'w \<Rightarrow> (upstreamError + u64) \<times> JSONRPCClient \<times> 'w" where
  "rpcGetNonce N a block =
     providerCall N ''eth_getTransactionCount'' (AnyList [AnyString (upEncodeAddress a), AnyString (upEncodeBlockRef block)]) decodeText []
       parseHexUint64"

definition rpcGetCode :: "'w Network \<Rightarrow> Address \<Rightarrow> BlockRef \<Rightarrow> JSONRPCClient \<Rightarrow> 'w \<Rightarrow> (upstreamError + bytes) \<times> JSONRPCClient \<times> 'w" where
  "rpcGetCode N a block =
     providerCall N ''eth_getCode'' (AnyList [AnyString (upEncodeAddress a), AnyString (upEncodeBlockRef block)]) decodeText [] parseHexBytes"

definition rpcGetStorageAt :: "'w Network \<Rightarrow> Address \<Rightarrow> Hash \<Rightarrow> BlockRef \<Rightarrow> JSONRPCClient \<Rightarrow> 'w \<Rightarrow> (upstreamError + Hash) \<times> JSONRPCClient \<times> 'w" where
  "rpcGetStorageAt N a slot block =
     providerCall N ''eth_getStorageAt''
       (AnyList [AnyString (upEncodeAddress a), AnyString (upEncodeHash slot), AnyString (upEncodeBlockRef block)]) decodeText [] upParseHash"

definition rpcGetBlock :: "'w Network \<Rightarrow> BlockRef \<Rightarrow> JSONRPCClient \<Rightarrow> 'w \<Rightarrow> (upstreamError + Block) \<times> JSONRPCClient \<times> 'w" where
  "rpcGetBlock N block =
     providerCall N ''eth_getBlockByNumber'' (AnyList [AnyString (upEncodeBlockRef block), AnyBool False]) rpcBlockOf zeroRpcBlock intoBlock"

definition rpcGetBlockTransactions :: "'w Network \<Rightarrow> BlockRef \<Rightarrow> JSONRPCClient \<Rightarrow> 'w \<Rightarrow> (upstreamError + Transaction list) \<times> JSONRPCClient \<times> 'w" where
  "rpcGetBlockTransactions N block =
     providerCall N ''eth_getBlockByNumber'' (AnyList [AnyString (upEncodeBlockRef block), AnyBool True]) rpcBlockWithTransactionsOf
       \<lparr>rbtTransactions = []\<rparr> (\<lambda>raw. intoTransactions (rbtTransactions raw))"

definition rpcGetTransactionByHash :: "'w Network \<Rightarrow> Hash \<Rightarrow> JSONRPCClient \<Rightarrow> 'w \<Rightarrow> (upstreamError + Transaction) \<times> JSONRPCClient \<times> 'w" where
  "rpcGetTransactionByHash N h =
     providerCall N ''eth_getTransactionByHash'' (AnyList [AnyString (upEncodeHash h)]) rpcTransactionOf zeroRpcTransaction intoTransaction"

definition rpcGetTransactionReceipt :: "'w Network \<Rightarrow> Hash \<Rightarrow> JSONRPCClient \<Rightarrow> 'w \<Rightarrow> (upstreamError + Receipt) \<times> JSONRPCClient \<times> 'w" where
  "rpcGetTransactionReceipt N h =
     providerCall N ''eth_getTransactionReceipt'' (AnyList [AnyString (upEncodeHash h)]) rpcReceiptOf zeroRpcReceipt intoReceipt"

definition decodeMap :: "AnyVal \<Rightarrow> textError + (string \<times> AnyVal) list" where
  "decodeMap v = (case v of AnyMap kvs \<Rightarrow> Inr (fold (\<lambda>(k, v). mput k v) kvs []) | AnyNil \<Rightarrow> Inr [] | _ \<Rightarrow> Inl (JsonError ''object''))"

definition rpcDebugTraceTransaction :: "'w Network \<Rightarrow> Hash \<Rightarrow> TraceTransactionConfig \<Rightarrow> JSONRPCClient \<Rightarrow> 'w \<Rightarrow>
    (upstreamError + (string \<times> AnyVal) list) \<times> JSONRPCClient \<times> 'w" where
  "rpcDebugTraceTransaction N h conf =
     providerCall N ''debug_traceTransaction'' (AnyList [AnyString (upEncodeHash h), AnyMap (traceOptions conf)]) decodeMap [] Inr"

subsection \<open>Reading a document\<close>

text \<open>The names of a document differ, also without regard to case, as those of the protocol do; it may hold more than the code reads. A
  member that is missing reads like \<open>null\<close>.\<close>

definition uniqueNames :: "(string \<times> AnyVal) list \<Rightarrow> bool" where
  "uniqueNames kvs \<longleftrightarrow> distinct (map (\<lambda>(k, v). ToLower k) kvs)"

definition member :: "string \<Rightarrow> (string \<times> AnyVal) list \<Rightarrow> AnyVal" where
  "member name kvs = (case find (\<lambda>(k, v). ToLower name = ToLower k) kvs of None \<Rightarrow> AnyNil | Some (k, v) \<Rightarrow> v)"

text \<open>The field of the name sets what \<open>g\<close> gets, and no other does.\<close>

definition setsField :: "('r \<Rightarrow> 'a) \<Rightarrow> (AnyVal \<Rightarrow> 'a \<Rightarrow> 'a) \<Rightarrow> (AnyVal \<Rightarrow> 'r \<Rightarrow> textError + 'r) \<Rightarrow> bool" where
  "setsField g h f \<longleftrightarrow> (\<forall>v r r'. f v r = Inr r' \<longrightarrow> g r' = h v (g r))"

definition keepsField :: "('r \<Rightarrow> 'a) \<Rightarrow> (AnyVal \<Rightarrow> 'r \<Rightarrow> textError + 'r) \<Rightarrow> bool" where
  "keepsField g f \<longleftrightarrow> (\<forall>v r r'. f v r = Inr r' \<longrightarrow> g r' = g r)"

definition readsField :: "'r jsonField list \<Rightarrow> string \<Rightarrow> ('r \<Rightarrow> 'a) \<Rightarrow> (AnyVal \<Rightarrow> 'a \<Rightarrow> 'a) \<Rightarrow> bool" where
  "readsField fs name g h \<longleftrightarrow> (\<exists>(m, f)\<in>set fs. ToLower m = ToLower name) \<and>
     (\<forall>(m, f)\<in>set fs. if ToLower m = ToLower name then setsField g h f else keepsField g f)"

lemma readsField_at:
  assumes "distinct (map (\<lambda>(m, f). ToLower m) fs)" "i < length fs" "fst (fs ! i) = name" "setsField g h (snd (fs ! i))"
    "\<forall>(m, f)\<in>set (take i fs) \<union> set (drop (Suc i) fs). keepsField g f"
  shows "readsField fs name g h"
proof -
  obtain f where f: "fs ! i = (name, f)" using assms(3) by (cases "fs ! i") simp
  have fs: "fs = take i fs @ (name, f) # drop (Suc i) fs" using id_take_nth_drop [OF assms(2)] f by simp
  have d: "ToLower m \<noteq> ToLower name" if "(m, f') \<in> set (take i fs) \<union> set (drop (Suc i) fs)" for m f'
    using assms(1) that by (subst (asm) (1) fs) (force simp: image_iff)
  have "if ToLower m = ToLower name then setsField g h f' else keepsField g f'" if m: "(m, f') \<in> set fs" for m f'
  proof -
    consider "(m, f') = (name, f)" | "(m, f') \<in> set (take i fs) \<union> set (drop (Suc i) fs)"
      using m by (subst (asm) fs) auto
    then show ?thesis
    proof cases
      case 2
      then have "keepsField g f'" using assms(5) by blast
      then show ?thesis using d [OF 2] by simp
    qed (use assms(4) f in simp)
  qed
  moreover have "(name, f) \<in> set fs" using assms(2) f nth_mem by metis
  ultimately show ?thesis unfolding readsField_def by blast
qed

lemma find_field:
  assumes "find (\<lambda>(name, field). ToLower name = ToLower k) fs = Some mf"
  obtains m f where "mf = (m, f)" "(m, f) \<in> set fs" "ToLower m = ToLower k"
  using assms by (cases mf) (auto simp: find_Some_iff dest: nth_mem)

lemma setFields_other:
  assumes "readsField fs name g h" "\<forall>(k, v)\<in>set kvs. ToLower k \<noteq> ToLower name" "setFields fs kvs r = Inr r'"
  shows "g r' = g r"
  using assms(2,3)
proof (induction kvs arbitrary: r)
  case (Cons kv kvs)
  obtain k v where kv: "kv = (k, v)" by fastforce
  show ?case
  proof (cases "find (\<lambda>(name, field). ToLower name = ToLower k) fs")
    case None
    then show ?thesis using Cons by (simp add: kv)
  next
    case (Some mf)
    then obtain m f where mf: "find (\<lambda>(name, field). ToLower name = ToLower k) fs = Some (m, f)" "(m, f) \<in> set fs" "ToLower m = ToLower k"
      by (metis find_field)
    obtain r1 where r1: "f v r = Inr r1" "setFields fs kvs r1 = Inr r'"
      using Cons.prems(2) by (cases "f v r") (simp_all add: kv mf(1))
    have "g r1 = g r" using assms(1) mf(2,3) r1(1) Cons.prems(1) by (fastforce simp: readsField_def keepsField_def kv)
    then show ?thesis using Cons.IH [of r1] Cons.prems(1) r1(2) by simp
  qed
qed simp

lemma setFields_get:
  assumes "readsField fs name g h" "uniqueNames kvs" "setFields fs kvs r = Inr r'" "h AnyNil (g r) = g r"
  shows "g r' = h (member name kvs) (g r)"
  using assms(2-4)
proof (induction kvs arbitrary: r)
  case (Cons kv kvs)
  obtain k v where kv: "kv = (k, v)" by fastforce
  have others: "\<forall>(k', v')\<in>set kvs. ToLower k' \<noteq> ToLower k" and u: "uniqueNames kvs"
    using Cons.prems(1) by (auto simp: uniqueNames_def kv image_iff)
  show ?case
  proof (cases "find (\<lambda>(name, field). ToLower name = ToLower k) fs")
    case None
    then have "ToLower name \<noteq> ToLower k" using assms(1) by (fastforce simp: readsField_def find_None_iff)
    then show ?thesis using Cons.IH [OF u] Cons.prems(2,3) None by (simp add: kv member_def)
  next
    case (Some mf)
    then obtain m f where mf: "find (\<lambda>(name, field). ToLower name = ToLower k) fs = Some (m, f)" "(m, f) \<in> set fs" "ToLower m = ToLower k"
      by (metis find_field)
    obtain r1 where r1: "f v r = Inr r1" "setFields fs kvs r1 = Inr r'"
      using Cons.prems(2) by (cases "f v r") (simp_all add: kv mf(1))
    have g1: "g r1 = (if ToLower k = ToLower name then h v (g r) else g r)" using assms(1) mf(2,3) r1(1) by (fastforce simp: readsField_def setsField_def keepsField_def)
    show ?thesis
    proof (cases "ToLower k = ToLower name")
      case True
      then show ?thesis using setFields_other [OF assms(1) _ r1(2)] others g1 by (simp add: member_def kv)
    next
      case False
      then show ?thesis using Cons.IH [OF u r1(2)] Cons.prems(3) g1 by (simp add: member_def kv)
    qed
  qed
qed (simp add: member_def)

text \<open>A document whose members all decode is read.\<close>

lemma setFields_Inr:
  assumes "uniqueNames kvs" "\<forall>(m, f)\<in>set fs. \<forall>r. \<exists>r'. f (member m kvs) r = Inr r'"
  shows "\<exists>r'. setFields fs kvs r = Inr r'"
proof -
  have "\<exists>r'. setFields fs rest r = Inr r'" if "set rest \<subseteq> set kvs" for rest r
    using that
  proof (induction rest arbitrary: r)
    case (Cons kv rest)
    obtain k v where kv: "kv = (k, v)" by fastforce
    show ?case
    proof (cases "find (\<lambda>(name, field). ToLower name = ToLower k) fs")
      case None
      then show ?thesis using Cons by (simp add: kv)
    next
      case (Some mf)
      then obtain m f where mf: "find (\<lambda>(name, field). ToLower name = ToLower k) fs = Some (m, f)" "(m, f) \<in> set fs" "ToLower m = ToLower k"
        by (metis find_field)
      have "(k, v) \<in> set kvs" using Cons.prems kv by simp
      then have "member m kvs = v"
        using assms(1) mf(3)
      proof (induction kvs)
        case (Cons a as)
        then show ?case by (cases a) (auto simp: member_def uniqueNames_def image_iff)
      qed simp
      then obtain r1 where "f v r = Inr r1" using assms(2) mf(2) by blast
      then show ?thesis using Cons by (simp add: kv mf(1))
    qed
  qed simp
  then show ?thesis by blast
qed

text \<open>What the kinds of fields take from a member.\<close>

definition takesText :: "AnyVal \<Rightarrow> string \<Rightarrow> string" where
  "takesText v old = (case v of AnyString s \<Rightarrow> s | _ \<Rightarrow> old)"

definition takesOptional :: "AnyVal \<Rightarrow> string option \<Rightarrow> string option" where
  "takesOptional v old = (case v of AnyString s \<Rightarrow> Some s | _ \<Rightarrow> None)"

definition takesList :: "(AnyVal \<Rightarrow> textError + 'a) \<Rightarrow> AnyVal \<Rightarrow> 'a list \<Rightarrow> 'a list" where
  "takesList dec v old = (case v of AnyList vs \<Rightarrow> (case decodeItems dec vs of Inr xs \<Rightarrow> xs | Inl e \<Rightarrow> old) | _ \<Rightarrow> [])"

lemma field_Inr:
  "textField upd v r = Inr r' \<longleftrightarrow> (\<exists>s. v = AnyString s \<and> r' = upd (\<lambda>_. s) r) \<or> v = AnyNil \<and> r' = r"
  "optionalTextField updo v r = Inr r' \<longleftrightarrow> (\<exists>s. v = AnyString s \<and> r' = updo (\<lambda>_. Some s) r) \<or> v = AnyNil \<and> r' = updo (\<lambda>_. None) r"
  "listField dec updl v r = Inr r' \<longleftrightarrow>
     (\<exists>vs xs. v = AnyList vs \<and> decodeItems dec vs = Inr xs \<and> r' = updl (\<lambda>_. xs) r) \<or> v = AnyNil \<and> r' = updl (\<lambda>_. []) r"
  by (auto simp: textField_def optionalTextField_def listField_def split: AnyVal.splits sum.splits)

lemma field_effects [simp]:
  "(\<And>x r. g (upd (\<lambda>_. x) r) = x) \<Longrightarrow> setsField g takesText (textField upd)"
  "(\<And>x r. go (updo (\<lambda>_. x) r) = x) \<Longrightarrow> setsField go takesOptional (optionalTextField updo)"
  "(\<And>x r. gl (updl (\<lambda>_. x) r) = x) \<Longrightarrow> setsField gl (takesList dec) (listField dec updl)"
  "(\<And>x r. g' (upd (\<lambda>_. x) r) = g' r) \<Longrightarrow> keepsField g' (textField upd)"
  "(\<And>x r. g' (updo (\<lambda>_. x) r) = g' r) \<Longrightarrow> keepsField g' (optionalTextField updo)"
  "(\<And>x r. g' (updl (\<lambda>_. x) r) = g' r) \<Longrightarrow> keepsField g' (listField dec updl)"
  by (auto simp: setsField_def keepsField_def field_Inr takesText_def takesOptional_def takesList_def)

lemma field_names:
  "ToLower ''number'' = ''number''" "ToLower ''hash'' = ''hash''" "ToLower ''parentHash'' = ''parenthash''"
  "ToLower ''timestamp'' = ''timestamp''" "ToLower ''gasLimit'' = ''gaslimit''" "ToLower ''baseFeePerGas'' = ''basefeepergas''"
  "ToLower ''blobBaseFeePerGas'' = ''blobbasefeepergas''" "ToLower ''miner'' = ''miner''" "ToLower ''mixHash'' = ''mixhash''"
  "ToLower ''address'' = ''address''" "ToLower ''storageKeys'' = ''storagekeys''" "ToLower ''blockHash'' = ''blockhash''"
  "ToLower ''blockNumber'' = ''blocknumber''" "ToLower ''from'' = ''from''" "ToLower ''to'' = ''to''" "ToLower ''type'' = ''type''"
  "ToLower ''gas'' = ''gas''" "ToLower ''gasPrice'' = ''gasprice''" "ToLower ''maxFeePerBlobGas'' = ''maxfeeperblobgas''"
  "ToLower ''blobVersionedHashes'' = ''blobversionedhashes''" "ToLower ''accessList'' = ''accesslist''" "ToLower ''input'' = ''input''"
  "ToLower ''nonce'' = ''nonce''" "ToLower ''transactionIndex'' = ''transactionindex''" "ToLower ''value'' = ''value''"
  "ToLower ''topics'' = ''topics''" "ToLower ''data'' = ''data''" "ToLower ''transactionHash'' = ''transactionhash''"
  "ToLower ''gasUsed'' = ''gasused''" "ToLower ''cumulativeGasUsed'' = ''cumulativegasused''"
  "ToLower ''effectiveGasPrice'' = ''effectivegasprice''" "ToLower ''contractAddress'' = ''contractaddress''"
  "ToLower ''status'' = ''status''" "ToLower ''logs'' = ''logs''" "ToLower ''logsBloom'' = ''logsbloom''"
  by code_simp+

lemmas takes_defs = takesText_def takesOptional_def takesList_def

lemma member_reads:
  "uniqueNames kvs \<Longrightarrow> decodeObject fs zero (AnyMap kvs) = Inr r \<Longrightarrow> readsField fs name g h \<Longrightarrow> h AnyNil (g zero) = g zero \<Longrightarrow>
    g r = h (member name kvs) (g zero)"
  using setFields_get by (fastforce simp: decodeObject_def)

subsection \<open>What a node sends\<close>

text \<open>The encodings of the protocol (\<open>QUANTITY\<close> and \<open>DATA\<close>, in lower case as nodes send them), \<open>null\<close> or nothing where there is no value.\<close>

definition sendsText :: "string \<Rightarrow> AnyVal \<Rightarrow> bool" where
  "sendsText t v \<longleftrightarrow> v = AnyString t"

definition sendsOptional :: "('a \<Rightarrow> string) \<Rightarrow> 'a option \<Rightarrow> AnyVal \<Rightarrow> bool" where
  "sendsOptional f x v \<longleftrightarrow> v = (case x of None \<Rightarrow> AnyNil | Some y \<Rightarrow> AnyString (f y))"

definition sendsOrNull :: "('a \<Rightarrow> string) \<Rightarrow> 'a \<Rightarrow> 'a \<Rightarrow> AnyVal \<Rightarrow> bool" where
  "sendsOrNull f zero x v \<longleftrightarrow> v = AnyString (f x) \<or> v = AnyNil \<and> x = zero"

definition sendsNumber :: "int option \<Rightarrow> AnyVal \<Rightarrow> bool" where
  "sendsNumber x v \<longleftrightarrow> (\<exists>n. x = Some n \<and> 0 \<le> n \<and> v = AnyString (quantityText n))"

definition sendsOptionalNumber :: "int option \<Rightarrow> AnyVal \<Rightarrow> bool" where
  "sendsOptionalNumber x v \<longleftrightarrow> sendsNumber x v \<or> x = None \<and> v = AnyNil"

definition sendsList :: "('a \<Rightarrow> AnyVal \<Rightarrow> bool) \<Rightarrow> 'a list \<Rightarrow> AnyVal \<Rightarrow> bool" where
  "sendsList sends xs v \<longleftrightarrow> (\<exists>vs. v = AnyList vs \<and> list_all2 sends xs vs) \<or> v = AnyNil \<and> xs = []"

lemmas sends_defs = sendsText_def sendsOptional_def sendsOrNull_def sendsNumber_def sendsOptionalNumber_def

abbreviation sendsHash :: "Hash \<Rightarrow> AnyVal \<Rightarrow> bool" where
  "sendsHash h \<equiv> sendsText (upEncodeHash h)"

abbreviation sendsU64 :: "u64 \<Rightarrow> AnyVal \<Rightarrow> bool" where
  "sendsU64 n \<equiv> sendsText (quantityText (uint n))"

text \<open>A header. No field of the protocol holds the blob base fee the code reads, so that a node leaves it out.\<close>

definition blockMembers :: "Block \<Rightarrow> (string \<times> AnyVal) list \<Rightarrow> bool" where
  "blockMembers b kvs \<longleftrightarrow>
       blChainID b = None \<and> uniqueNames kvs \<and>
       sendsNumber (blNumber b) (member ''number'' kvs) \<and> sendsHash (blHash b) (member ''hash'' kvs) \<and>
       sendsHash (blParentHash b) (member ''parentHash'' kvs) \<and> sendsU64 (blTimestamp b) (member ''timestamp'' kvs) \<and>
       sendsU64 (blGasLimit b) (member ''gasLimit'' kvs) \<and> sendsOptionalNumber (blBaseFee b) (member ''baseFeePerGas'' kvs) \<and>
       sendsOptionalNumber (blBlobBaseFee b) (member ''blobBaseFeePerGas'' kvs) \<and>
       sendsText (upEncodeAddress (blCoinbase b)) (member ''miner'' kvs) \<and>
       sendsOrNull upEncodeHash 0 (blPrevRandao b) (member ''mixHash'' kvs)"

definition sendsBlock :: "Block \<Rightarrow> AnyVal \<Rightarrow> bool" where
  "sendsBlock b v \<longleftrightarrow> (\<exists>kvs. v = AnyMap kvs \<and> blockMembers b kvs)"

definition accessMembers :: "Address \<times> Hash list \<Rightarrow> (string \<times> AnyVal) list \<Rightarrow> bool" where
  "accessMembers e kvs \<longleftrightarrow>
       uniqueNames kvs \<and> sendsText (upEncodeAddress (fst e)) (member ''address'' kvs) \<and>
       sendsList sendsHash (snd e) (member ''storageKeys'' kvs)"

definition sendsAccess :: "Address \<times> Hash list \<Rightarrow> AnyVal \<Rightarrow> bool" where
  "sendsAccess e v \<longleftrightarrow> (\<exists>kvs. v = AnyMap kvs \<and> accessMembers e kvs)"

text \<open>A transaction of a block, or one that is pending and has no block yet.\<close>

definition transactionMembers :: "Transaction \<Rightarrow> (string \<times> AnyVal) list \<Rightarrow> bool" where
  "transactionMembers tx kvs \<longleftrightarrow>
       uniqueNames kvs \<and>
       sendsHash (txHash tx) (member ''hash'' kvs) \<and> sendsOrNull upEncodeHash 0 (txBlockHash tx) (member ''blockHash'' kvs) \<and>
       sendsOptionalNumber (txBlockNumber tx) (member ''blockNumber'' kvs) \<and> sendsText (upEncodeAddress (txFrom tx)) (member ''from'' kvs) \<and>
       sendsOptional upEncodeAddress (txTo tx) (member ''to'' kvs) \<and>
       sendsOrNull (\<lambda>n. quantityText (uint n)) 0 (txType tx) (member ''type'' kvs) \<and> sendsU64 (txGas tx) (member ''gas'' kvs) \<and>
       sendsNumber (txGasPrice tx) (member ''gasPrice'' kvs) \<and> sendsOptionalNumber (txBlobGasFeeCap tx) (member ''maxFeePerBlobGas'' kvs) \<and>
       sendsList sendsHash (txBlobHashes tx) (member ''blobVersionedHashes'' kvs) \<and>
       sendsList sendsAccess (txAccessList tx) (member ''accessList'' kvs) \<and> sendsText (dataText (txInput tx)) (member ''input'' kvs) \<and>
       sendsU64 (txNonce tx) (member ''nonce'' kvs) \<and>
       sendsOptional (\<lambda>n. quantityText (uint n)) (txTransactionIndex tx) (member ''transactionIndex'' kvs) \<and>
       sendsNumber (txValue tx) (member ''value'' kvs)"

definition sendsTransaction :: "Transaction \<Rightarrow> AnyVal \<Rightarrow> bool" where
  "sendsTransaction tx v \<longleftrightarrow> (\<exists>kvs. v = AnyMap kvs \<and> transactionMembers tx kvs)"

definition logMembers :: "Log \<Rightarrow> (string \<times> AnyVal) list \<Rightarrow> bool" where
  "logMembers l kvs \<longleftrightarrow>
       uniqueNames kvs \<and> sendsText (upEncodeAddress (logAddress l)) (member ''address'' kvs) \<and>
       sendsList sendsHash (logTopics l) (member ''topics'' kvs) \<and> sendsText (dataText (logData l)) (member ''data'' kvs)"

definition sendsLog :: "Log \<Rightarrow> AnyVal \<Rightarrow> bool" where
  "sendsLog l v \<longleftrightarrow> (\<exists>kvs. v = AnyMap kvs \<and> logMembers l kvs)"

text \<open>A receipt, with a status or, of old blocks, without one; the bloom filter is read and dropped.\<close>

definition receiptMembers :: "Receipt \<Rightarrow> (string \<times> AnyVal) list \<Rightarrow> bool" where
  "receiptMembers r kvs \<longleftrightarrow>
       uniqueNames kvs \<and>
       sendsHash (rcTransactionHash r) (member ''transactionHash'' kvs) \<and> sendsU64 (rcTransactionIndex r) (member ''transactionIndex'' kvs) \<and>
       sendsHash (rcBlockHash r) (member ''blockHash'' kvs) \<and> sendsNumber (rcBlockNumber r) (member ''blockNumber'' kvs) \<and>
       sendsText (upEncodeAddress (rcFrom r)) (member ''from'' kvs) \<and> sendsOptional upEncodeAddress (rcTo r) (member ''to'' kvs) \<and>
       sendsU64 (rcGasUsed r) (member ''gasUsed'' kvs) \<and> sendsU64 (rcCumulativeGasUsed r) (member ''cumulativeGasUsed'' kvs) \<and>
       sendsOptionalNumber (rcEffectiveGasPrice r) (member ''effectiveGasPrice'' kvs) \<and>
       sendsOptional upEncodeAddress (rcContractAddress r) (member ''contractAddress'' kvs) \<and>
       sendsOptional (\<lambda>n. quantityText (uint n)) (rcStatus r) (member ''status'' kvs) \<and>
       sendsList sendsLog (rcLogs r) (member ''logs'' kvs) \<and> (\<exists>bloom. sendsText bloom (member ''logsBloom'' kvs))"

definition sendsReceipt :: "Receipt \<Rightarrow> AnyVal \<Rightarrow> bool" where
  "sendsReceipt r v \<longleftrightarrow> (\<exists>kvs. v = AnyMap kvs \<and> receiptMembers r kvs)"

subsection \<open>What the provider returns is what the node holds\<close>

text \<open>A text, a pointer to one and a list of texts are read.\<close>

definition isText :: "AnyVal \<Rightarrow> bool" where
  "isText v \<longleftrightarrow> v = AnyNil \<or> (\<exists>s. v = AnyString s)"

lemma fields_total:
  "(\<exists>r'. textField upd v r = Inr r') \<longleftrightarrow> isText v" "(\<exists>r'. optionalTextField updo v r = Inr r') \<longleftrightarrow> isText v"
  by (auto simp: isText_def field_Inr)

lemma sends_isText:
  "sendsText t v \<Longrightarrow> isText v" "sendsOrNull f z x v \<Longrightarrow> isText v" "sendsNumber n v \<Longrightarrow> isText v" "sendsOptionalNumber n v \<Longrightarrow> isText v"
  "sendsOptional g y v \<Longrightarrow> isText v"
  by (auto simp: isText_def sends_defs split: option.splits)

lemma decodeItems_all2:
  "list_all2 sends xs vs \<Longrightarrow> \<forall>x v. sends x v \<longrightarrow> (\<exists>y. dec v = Inr y \<and> R x y) \<Longrightarrow> \<exists>ys. decodeItems dec vs = Inr ys \<and> list_all2 R xs ys"
proof (induction xs vs rule: list_all2_induct)
  case (Cons x xs v vs)
  then obtain y ys where "dec v = Inr y" "R x y" "decodeItems dec vs = Inr ys" "list_all2 R xs ys" by blast
  then show ?case by simp
qed simp

lemma sendsList_reads:
  assumes "sendsList sends xs v" "\<forall>x v. sends x v \<longrightarrow> (\<exists>y. dec v = Inr y \<and> R x y)"
  shows "\<exists>r'. listField dec upd v r = Inr r'" "list_all2 R xs (takesList dec v [])"
proof -
  have "(\<exists>r'. listField dec upd v r = Inr r') \<and> list_all2 R xs (takesList dec v [])"
  proof (cases "v = AnyNil")
    case False
    then obtain vs where vs: "v = AnyList vs" "list_all2 sends xs vs" using assms(1) by (auto simp: sendsList_def)
    from decodeItems_all2 [OF this(2) assms(2)] show ?thesis by (auto simp: field_Inr takesList_def vs(1))
  qed (use assms(1) in \<open>auto simp: sendsList_def field_Inr takesList_def\<close>)
  then show "\<exists>r'. listField dec upd v r = Inr r'" "list_all2 R xs (takesList dec v [])" by simp_all
qed

lemma text_items: "\<forall>x v. sendsText (f x) v \<longrightarrow> (\<exists>t. decodeText v = Inr t \<and> t = f x)"
  by (simp add: sendsText_def decodeText_def)

lemma list_all2_map: "list_all2 (\<lambda>x t. t = f x) xs ts \<longleftrightarrow> ts = map f xs"
  by (induction xs arbitrary: ts) (auto simp: list_all2_Cons1)

lemma sendsHashes:
  assumes "sendsList sendsHash hs v"
  shows "\<exists>r'. listField decodeText upd v r = Inr r'" "takesList decodeText v [] = map upEncodeHash hs"
  using sendsList_reads(1) [OF assms text_items] sendsList_reads(2) [OF assms text_items] by (simp_all add: list_all2_map)

text \<open>What a field of each kind holds then, and what the code makes of it.\<close>

lemma parse_sent:
  "sendsNumber (Some i) v \<Longrightarrow> parseHexBig (takesText v []) = Inr i"
  "sendsOptionalNumber n v \<Longrightarrow> parseOptionalHexBig (takesText v []) = Inr n"
  "sendsOrNull upEncodeHash 0 h v \<Longrightarrow> parseOptionalHash (takesText v []) = Inr h"
  "sendsOrNull (\<lambda>n. quantityText (uint n)) 0 m v \<Longrightarrow> parseOptionalHexUint64Value (takesText v []) = Inr m"
  "sendsOptional upEncodeAddress ao v \<Longrightarrow> parseOptionalAddress (takesOptional v None) = Inr ao"
  "sendsOptional (\<lambda>n. quantityText (uint n)) mo v \<Longrightarrow> parseOptionalHexUint64 (takesOptional v None) = Inr mo"
  "sendsHash h v \<Longrightarrow> upParseHash (takesText v []) = Inr h" "sendsText (upEncodeAddress a) v \<Longrightarrow> upParseAddress (takesText v []) = Inr a"
  "sendsU64 m v \<Longrightarrow> parseHexUint64 (takesText v []) = Inr m" "sendsText (dataText bs) v \<Longrightarrow> parseHexBytes (takesText v []) = Inr bs"
  "sendsList sendsHash hs v \<Longrightarrow> parseHashList (takesList decodeText v []) = Inr hs"
  by (auto simp: sends_defs takesText_def takesOptional_def parseOptionalHexBig_def parseOptionalHash_def parseOptionalHexUint64Value_def parseOptionalAddress_def
      parseOptionalHexUint64_def sendsHashes split: option.splits)

lemma sendsNumber_Some: "sendsNumber n v \<Longrightarrow> \<exists>i. n = Some i"
  by (auto simp: sendsNumber_def)

lemma decodeObject_Inr:
  "uniqueNames kvs \<Longrightarrow> \<forall>(m, f)\<in>set fs. \<forall>r. \<exists>r'. f (member m kvs) r = Inr r' \<Longrightarrow> \<exists>r. decodeObject fs zero (AnyMap kvs) = Inr r"
  using setFields_Inr by (simp add: decodeObject_def)

lemma blockFields_distinct: "distinct (map (\<lambda>(m, f). ToLower m) blockFields)"
  unfolding blockFields_def by (simp add: field_names)

lemma blockFields_read:
  "readsField blockFields ''number'' rbkNumber takesText"
  "readsField blockFields ''hash'' rbkHash takesText"
  "readsField blockFields ''parentHash'' rbkParentHash takesText"
  "readsField blockFields ''timestamp'' rbkTimestamp takesText"
  "readsField blockFields ''gasLimit'' rbkGasLimit takesText"
  "readsField blockFields ''baseFeePerGas'' rbkBaseFee takesText"
  "readsField blockFields ''blobBaseFeePerGas'' rbkBlobBaseFee takesText"
  "readsField blockFields ''miner'' rbkMiner takesText"
  "readsField blockFields ''mixHash'' rbkPrevRandao takesText"
  subgoal by (rule readsField_at [OF blockFields_distinct, where i = 0]) (simp_all add: blockFields_def)
  subgoal by (rule readsField_at [OF blockFields_distinct, where i = 1]) (simp_all add: blockFields_def)
  subgoal by (rule readsField_at [OF blockFields_distinct, where i = 2]) (simp_all add: blockFields_def)
  subgoal by (rule readsField_at [OF blockFields_distinct, where i = 3]) (simp_all add: blockFields_def)
  subgoal by (rule readsField_at [OF blockFields_distinct, where i = 4]) (simp_all add: blockFields_def)
  subgoal by (rule readsField_at [OF blockFields_distinct, where i = 5]) (simp_all add: blockFields_def)
  subgoal by (rule readsField_at [OF blockFields_distinct, where i = 6]) (simp_all add: blockFields_def)
  subgoal by (rule readsField_at [OF blockFields_distinct, where i = 7]) (simp_all add: blockFields_def)
  subgoal by (rule readsField_at [OF blockFields_distinct, where i = 8]) (simp_all add: blockFields_def)
  done

lemma blockFields_members:
  assumes "uniqueNames kvs" "decodeObject blockFields zeroRpcBlock (AnyMap kvs) = Inr r"
  shows "rbkNumber r = takesText (member ''number'' kvs) []"
    "rbkHash r = takesText (member ''hash'' kvs) []"
    "rbkParentHash r = takesText (member ''parentHash'' kvs) []"
    "rbkTimestamp r = takesText (member ''timestamp'' kvs) []"
    "rbkGasLimit r = takesText (member ''gasLimit'' kvs) []"
    "rbkBaseFee r = takesText (member ''baseFeePerGas'' kvs) []"
    "rbkBlobBaseFee r = takesText (member ''blobBaseFeePerGas'' kvs) []"
    "rbkMiner r = takesText (member ''miner'' kvs) []"
    "rbkPrevRandao r = takesText (member ''mixHash'' kvs) []"
  using blockFields_read [THEN member_reads [OF assms]] by (simp_all add: zeroRpcBlock_def takesText_def takesOptional_def takesList_def)

lemma blockFields_total: "blockMembers b kvs \<Longrightarrow> \<forall>(m, f)\<in>set blockFields. \<forall>r. \<exists>r'. f (member m kvs) r = Inr r'"
  unfolding blockMembers_def by (simp add: blockFields_def fields_total) (elim conjE, intro conjI; erule sends_isText)

lemma intoBlock_members:
  assumes "blockMembers b kvs" "decodeObject blockFields zeroRpcBlock (AnyMap kvs) = Inr r"
  shows "intoBlock r = Inr b"
proof -
  have u: "uniqueNames kvs" and c: "blChainID b = None" using assms(1) by (simp_all add: blockMembers_def)
  obtain n where n: "blNumber b = Some n" using assms(1) unfolding blockMembers_def by (elim conjE) (drule sendsNumber_Some, elim exE, rule that)
  have "parseHexBig (rbkNumber r) = Inr n \<and> upParseHash (rbkHash r) = Inr (blHash b) \<and> upParseHash (rbkParentHash r) = Inr (blParentHash b) \<and>
      parseHexUint64 (rbkTimestamp r) = Inr (blTimestamp b) \<and> parseHexUint64 (rbkGasLimit r) = Inr (blGasLimit b) \<and>
      parseOptionalHexBig (rbkBaseFee r) = Inr (blBaseFee b) \<and> parseOptionalHexBig (rbkBlobBaseFee r) = Inr (blBlobBaseFee b) \<and>
      upParseAddress (rbkMiner r) = Inr (blCoinbase b) \<and> parseOptionalHash (rbkPrevRandao r) = Inr (blPrevRandao b)"
    unfolding blockFields_members [OF u assms(2)] using assms(1) n unfolding blockMembers_def
    by (elim conjE, intro conjI) (simp_all add: parse_sent)
  then show ?thesis using n c by (simp add: intoBlock_def)
qed

lemma rpcBlockOf_sent: "sendsBlock b v \<Longrightarrow> \<exists>r. rpcBlockOf v = Inr r \<and> intoBlock r = Inr b"
  unfolding sendsBlock_def rpcBlockOf_def
proof (elim exE conjE)
  fix kvs
  assume v: "v = AnyMap kvs" and m: "blockMembers b kvs"
  have u: "uniqueNames kvs" using m by (simp add: blockMembers_def)
  from decodeObject_Inr [OF u blockFields_total [OF m]] obtain r where "decodeObject blockFields zeroRpcBlock (AnyMap kvs) = Inr r" by (rule exE)
  then show "\<exists>r. decodeObject blockFields zeroRpcBlock v = Inr r \<and> intoBlock r = Inr b" using intoBlock_members [OF m] v by auto
qed

lemma decodeObject_sent:
  assumes "uniqueNames kvs" "\<forall>(m, f)\<in>set fs. \<forall>r. \<exists>r'. f (member m kvs) r = Inr r'"
    "\<And>r. decodeObject fs zero (AnyMap kvs) = Inr r \<Longrightarrow> P r"
  shows "\<exists>r. decodeObject fs zero (AnyMap kvs) = Inr r \<and> P r"
  using decodeObject_Inr [OF assms(1,2), of zero] assms(3) by (elim exE) blast

lemma hashes_total: "sendsList sendsHash hs v \<Longrightarrow> \<exists>r'. listField decodeText upd v r = Inr r'"
  by (rule sendsHashes)

text \<open>Entries of an access list, and logs.\<close>

lemma accessFields_distinct: "distinct (map (\<lambda>(m, f). ToLower m) accessFields)"
  unfolding accessFields_def by (simp add: field_names)

lemma accessFields_read:
  "readsField accessFields ''address'' raeAddress takesText"
  "readsField accessFields ''storageKeys'' raeStorageKeys (takesList decodeText)"
  subgoal by (rule readsField_at [OF accessFields_distinct, where i = 0]) (simp_all add: accessFields_def)
  subgoal by (rule readsField_at [OF accessFields_distinct, where i = 1]) (simp_all add: accessFields_def)
  done

lemma accessFields_members:
  assumes "uniqueNames kvs" "decodeObject accessFields \<lparr>raeAddress = [], raeStorageKeys = []\<rparr> (AnyMap kvs) = Inr r"
  shows "raeAddress r = takesText (member ''address'' kvs) []"
    "raeStorageKeys r = (takesList decodeText) (member ''storageKeys'' kvs) []"
  using accessFields_read [THEN member_reads [OF assms]] by (simp_all add:  takesText_def takesOptional_def takesList_def)

definition entryRead :: "Address \<times> Hash list \<Rightarrow> rpcAccessListEntry \<Rightarrow> bool" where
  "entryRead e r \<longleftrightarrow> upParseAddress (raeAddress r) = Inr (fst e) \<and> parseHashList (raeStorageKeys r) = Inr (snd e)"

lemma rpcAccessListEntryOf_sent: "\<forall>e v. sendsAccess e v \<longrightarrow> (\<exists>r. rpcAccessListEntryOf v = Inr r \<and> entryRead e r)"
  unfolding sendsAccess_def rpcAccessListEntryOf_def
proof (intro allI impI, elim exE conjE)
  fix e v kvs
  assume v: "v = AnyMap kvs" and m: "accessMembers e kvs"
  have u: "uniqueNames kvs" using m by (simp add: accessMembers_def)
  show "\<exists>r. decodeObject accessFields \<lparr>raeAddress = [], raeStorageKeys = []\<rparr> v = Inr r \<and> entryRead e r"
    unfolding v
  proof (rule decodeObject_sent [OF u])
    show "\<forall>(m, f)\<in>set accessFields. \<forall>r. \<exists>r'. f (member m kvs) r = Inr r'"
      using m unfolding accessMembers_def
      by (simp add: accessFields_def fields_total) (elim conjE, intro conjI allI; (erule sends_isText | erule hashes_total))
  next
    fix r
    assume r: "decodeObject accessFields \<lparr>raeAddress = [], raeStorageKeys = []\<rparr> (AnyMap kvs) = Inr r"
    show "entryRead e r"
      unfolding entryRead_def accessFields_members [OF u r] using m unfolding accessMembers_def by (elim conjE) (simp add: parse_sent)
  qed
qed

lemma parseAccessList_read: "list_all2 entryRead es rs \<Longrightarrow> parseAccessList rs = Inr es"
  by (induction es rs rule: list_all2_induct) (simp_all add: entryRead_def)

lemma logFields_distinct: "distinct (map (\<lambda>(m, f). ToLower m) logFields)"
  unfolding logFields_def by (simp add: field_names)

lemma logFields_read:
  "readsField logFields ''address'' rlgAddress takesText"
  "readsField logFields ''topics'' rlgTopics (takesList decodeText)"
  "readsField logFields ''data'' rlgData takesText"
  subgoal by (rule readsField_at [OF logFields_distinct, where i = 0]) (simp_all add: logFields_def)
  subgoal by (rule readsField_at [OF logFields_distinct, where i = 1]) (simp_all add: logFields_def)
  subgoal by (rule readsField_at [OF logFields_distinct, where i = 2]) (simp_all add: logFields_def)
  done

lemma logFields_members:
  assumes "uniqueNames kvs" "decodeObject logFields \<lparr>rlgAddress = [], rlgTopics = [], rlgData = []\<rparr> (AnyMap kvs) = Inr r"
  shows "rlgAddress r = takesText (member ''address'' kvs) []"
    "rlgTopics r = (takesList decodeText) (member ''topics'' kvs) []"
    "rlgData r = takesText (member ''data'' kvs) []"
  using logFields_read [THEN member_reads [OF assms]] by (simp_all add:  takesText_def takesOptional_def takesList_def)

lemma rpcLogOf_sent: "\<forall>l v. sendsLog l v \<longrightarrow> (\<exists>r. rpcLogOf v = Inr r \<and> intoLog r = Inr l)"
  unfolding sendsLog_def rpcLogOf_def
proof (intro allI impI, elim exE conjE)
  fix l v kvs
  assume v: "v = AnyMap kvs" and m: "logMembers l kvs"
  have u: "uniqueNames kvs" using m by (simp add: logMembers_def)
  show "\<exists>r. decodeObject logFields \<lparr>rlgAddress = [], rlgTopics = [], rlgData = []\<rparr> v = Inr r \<and> intoLog r = Inr l"
    unfolding v
  proof (rule decodeObject_sent [OF u])
    show "\<forall>(m, f)\<in>set logFields. \<forall>r. \<exists>r'. f (member m kvs) r = Inr r'"
      using m unfolding logMembers_def
      by (simp add: logFields_def fields_total) (elim conjE, intro conjI allI; (erule sends_isText | erule hashes_total))
  next
    fix r
    assume r: "decodeObject logFields \<lparr>rlgAddress = [], rlgTopics = [], rlgData = []\<rparr> (AnyMap kvs) = Inr r"
    show "intoLog r = Inr l"
      unfolding intoLog_def logFields_members [OF u r] using m unfolding logMembers_def by (elim conjE) (simp add: parse_sent)
  qed
qed

lemma intoLogs_read: "list_all2 (\<lambda>l r. intoLog r = Inr l) ls rs \<Longrightarrow> intoLogs rs = Inr ls"
  by (induction ls rs rule: list_all2_induct) simp_all

text \<open>Transactions.\<close>

lemma transactionFields_distinct: "distinct (map (\<lambda>(m, f). ToLower m) transactionFields)"
  unfolding transactionFields_def by (simp add: field_names)

lemma transactionFields_read:
  "readsField transactionFields ''hash'' rtxHash takesText"
  "readsField transactionFields ''blockHash'' rtxBlockHash takesText"
  "readsField transactionFields ''blockNumber'' rtxBlockNumber takesText"
  "readsField transactionFields ''from'' rtxFrom takesText"
  "readsField transactionFields ''to'' rtxTo takesOptional"
  "readsField transactionFields ''type'' rtxType takesText"
  "readsField transactionFields ''gas'' rtxGas takesText"
  "readsField transactionFields ''gasPrice'' rtxGasPrice takesText"
  "readsField transactionFields ''maxFeePerBlobGas'' rtxBlobGasFeeCap takesText"
  "readsField transactionFields ''blobVersionedHashes'' rtxBlobHashes (takesList decodeText)"
  "readsField transactionFields ''accessList'' rtxAccessList (takesList rpcAccessListEntryOf)"
  "readsField transactionFields ''input'' rtxInput takesText"
  "readsField transactionFields ''nonce'' rtxNonce takesText"
  "readsField transactionFields ''transactionIndex'' rtxTransactionIndex takesOptional"
  "readsField transactionFields ''value'' rtxValue takesText"
  subgoal by (rule readsField_at [OF transactionFields_distinct, where i = 0]) (simp_all add: transactionFields_def)
  subgoal by (rule readsField_at [OF transactionFields_distinct, where i = 1]) (simp_all add: transactionFields_def)
  subgoal by (rule readsField_at [OF transactionFields_distinct, where i = 2]) (simp_all add: transactionFields_def)
  subgoal by (rule readsField_at [OF transactionFields_distinct, where i = 3]) (simp_all add: transactionFields_def)
  subgoal by (rule readsField_at [OF transactionFields_distinct, where i = 4]) (simp_all add: transactionFields_def)
  subgoal by (rule readsField_at [OF transactionFields_distinct, where i = 5]) (simp_all add: transactionFields_def)
  subgoal by (rule readsField_at [OF transactionFields_distinct, where i = 6]) (simp_all add: transactionFields_def)
  subgoal by (rule readsField_at [OF transactionFields_distinct, where i = 7]) (simp_all add: transactionFields_def)
  subgoal by (rule readsField_at [OF transactionFields_distinct, where i = 8]) (simp_all add: transactionFields_def)
  subgoal by (rule readsField_at [OF transactionFields_distinct, where i = 9]) (simp_all add: transactionFields_def)
  subgoal by (rule readsField_at [OF transactionFields_distinct, where i = 10]) (simp_all add: transactionFields_def)
  subgoal by (rule readsField_at [OF transactionFields_distinct, where i = 11]) (simp_all add: transactionFields_def)
  subgoal by (rule readsField_at [OF transactionFields_distinct, where i = 12]) (simp_all add: transactionFields_def)
  subgoal by (rule readsField_at [OF transactionFields_distinct, where i = 13]) (simp_all add: transactionFields_def)
  subgoal by (rule readsField_at [OF transactionFields_distinct, where i = 14]) (simp_all add: transactionFields_def)
  done

lemma transactionFields_members:
  assumes "uniqueNames kvs" "decodeObject transactionFields zeroRpcTransaction (AnyMap kvs) = Inr r"
  shows "rtxHash r = takesText (member ''hash'' kvs) []"
    "rtxBlockHash r = takesText (member ''blockHash'' kvs) []"
    "rtxBlockNumber r = takesText (member ''blockNumber'' kvs) []"
    "rtxFrom r = takesText (member ''from'' kvs) []"
    "rtxTo r = takesOptional (member ''to'' kvs) None"
    "rtxType r = takesText (member ''type'' kvs) []"
    "rtxGas r = takesText (member ''gas'' kvs) []"
    "rtxGasPrice r = takesText (member ''gasPrice'' kvs) []"
    "rtxBlobGasFeeCap r = takesText (member ''maxFeePerBlobGas'' kvs) []"
    "rtxBlobHashes r = (takesList decodeText) (member ''blobVersionedHashes'' kvs) []"
    "rtxAccessList r = (takesList rpcAccessListEntryOf) (member ''accessList'' kvs) []"
    "rtxInput r = takesText (member ''input'' kvs) []"
    "rtxNonce r = takesText (member ''nonce'' kvs) []"
    "rtxTransactionIndex r = takesOptional (member ''transactionIndex'' kvs) None"
    "rtxValue r = takesText (member ''value'' kvs) []"
  using transactionFields_read [THEN member_reads [OF assms]] by (simp_all add: zeroRpcTransaction_def takesText_def takesOptional_def takesList_def)

lemma transactionFields_total: "transactionMembers tx kvs \<Longrightarrow> \<forall>(m, f)\<in>set transactionFields. \<forall>r. \<exists>r'. f (member m kvs) r = Inr r'"
  unfolding transactionMembers_def
  by (simp add: transactionFields_def fields_total)
    (elim conjE, intro conjI allI; (erule sends_isText | erule hashes_total | erule sendsList_reads(1) [OF _ rpcAccessListEntryOf_sent]))

lemma intoTransaction_members:
  assumes "transactionMembers tx kvs" "decodeObject transactionFields zeroRpcTransaction (AnyMap kvs) = Inr r"
  shows "intoTransaction r = Inr tx"
proof -
  have u: "uniqueNames kvs" using assms(1) by (simp add: transactionMembers_def)
  obtain p where p: "txGasPrice tx = Some p" using assms(1) unfolding transactionMembers_def
    by (elim conjE) (drule sendsNumber_Some [of "txGasPrice tx"], elim exE, rule that)
  obtain x where x: "txValue tx = Some x" using assms(1) unfolding transactionMembers_def
    by (elim conjE) (drule sendsNumber_Some [of "txValue tx"], elim exE, rule that)
  have "sendsList sendsAccess (txAccessList tx) (member ''accessList'' kvs)" using assms(1) unfolding transactionMembers_def by (elim conjE)
  from sendsList_reads(2) [OF this rpcAccessListEntryOf_sent]
  have a: "parseAccessList (rtxAccessList r) = Inr (txAccessList tx)"
    unfolding transactionFields_members [OF u assms(2)] by (rule parseAccessList_read)
  have "parseOptionalHexBig (rtxBlockNumber r) = Inr (txBlockNumber tx) \<and> upParseHash (rtxHash r) = Inr (txHash tx) \<and>
      parseOptionalHash (rtxBlockHash r) = Inr (txBlockHash tx) \<and> upParseAddress (rtxFrom r) = Inr (txFrom tx) \<and>
      parseOptionalAddress (rtxTo r) = Inr (txTo tx) \<and> parseOptionalHexUint64Value (rtxType r) = Inr (txType tx) \<and>
      parseHexUint64 (rtxGas r) = Inr (txGas tx) \<and> parseHexBig (rtxGasPrice r) = Inr p \<and>
      parseOptionalHexBig (rtxBlobGasFeeCap r) = Inr (txBlobGasFeeCap tx) \<and> parseHashList (rtxBlobHashes r) = Inr (txBlobHashes tx) \<and>
      parseHexBytes (rtxInput r) = Inr (txInput tx) \<and> parseHexUint64 (rtxNonce r) = Inr (txNonce tx) \<and>
      parseOptionalHexUint64 (rtxTransactionIndex r) = Inr (txTransactionIndex tx) \<and> parseHexBig (rtxValue r) = Inr x"
    unfolding transactionFields_members [OF u assms(2)] using assms(1) p x unfolding transactionMembers_def
    by (elim conjE, intro conjI) (simp_all add: parse_sent)
  then show ?thesis using p x a by (simp add: intoTransaction_def)
qed

lemma rpcTransactionOf_sent: "\<forall>tx v. sendsTransaction tx v \<longrightarrow> (\<exists>r. rpcTransactionOf v = Inr r \<and> intoTransaction r = Inr tx)"
  unfolding sendsTransaction_def rpcTransactionOf_def
proof (intro allI impI, elim exE conjE)
  fix tx v kvs
  assume v: "v = AnyMap kvs" and m: "transactionMembers tx kvs"
  have u: "uniqueNames kvs" using m by (simp add: transactionMembers_def)
  show "\<exists>r. decodeObject transactionFields zeroRpcTransaction v = Inr r \<and> intoTransaction r = Inr tx"
    unfolding v by (rule decodeObject_sent [OF u transactionFields_total [OF m] intoTransaction_members [OF m]])
qed

lemma intoTransactions_read: "list_all2 (\<lambda>tx r. intoTransaction r = Inr tx) txs rs \<Longrightarrow> intoTransactions rs = Inr txs"
  by (induction txs rs rule: list_all2_induct) simp_all

text \<open>Receipts.\<close>

lemma receiptFields_distinct: "distinct (map (\<lambda>(m, f). ToLower m) receiptFields)"
  unfolding receiptFields_def by (simp add: field_names)

lemma receiptFields_read:
  "readsField receiptFields ''transactionHash'' rrcTransactionHash takesText"
  "readsField receiptFields ''transactionIndex'' rrcTransactionIndex takesText"
  "readsField receiptFields ''blockHash'' rrcBlockHash takesText"
  "readsField receiptFields ''blockNumber'' rrcBlockNumber takesText"
  "readsField receiptFields ''from'' rrcFrom takesText"
  "readsField receiptFields ''to'' rrcTo takesOptional"
  "readsField receiptFields ''gasUsed'' rrcGasUsed takesText"
  "readsField receiptFields ''cumulativeGasUsed'' rrcCumulativeGasUsed takesText"
  "readsField receiptFields ''effectiveGasPrice'' rrcEffectiveGasPrice takesText"
  "readsField receiptFields ''contractAddress'' rrcContractAddress takesOptional"
  "readsField receiptFields ''status'' rrcStatus takesOptional"
  "readsField receiptFields ''logs'' rrcLogs (takesList rpcLogOf)"
  "readsField receiptFields ''logsBloom'' rrcLogsBloom takesText"
  subgoal by (rule readsField_at [OF receiptFields_distinct, where i = 0]) (simp_all add: receiptFields_def)
  subgoal by (rule readsField_at [OF receiptFields_distinct, where i = 1]) (simp_all add: receiptFields_def)
  subgoal by (rule readsField_at [OF receiptFields_distinct, where i = 2]) (simp_all add: receiptFields_def)
  subgoal by (rule readsField_at [OF receiptFields_distinct, where i = 3]) (simp_all add: receiptFields_def)
  subgoal by (rule readsField_at [OF receiptFields_distinct, where i = 4]) (simp_all add: receiptFields_def)
  subgoal by (rule readsField_at [OF receiptFields_distinct, where i = 5]) (simp_all add: receiptFields_def)
  subgoal by (rule readsField_at [OF receiptFields_distinct, where i = 6]) (simp_all add: receiptFields_def)
  subgoal by (rule readsField_at [OF receiptFields_distinct, where i = 7]) (simp_all add: receiptFields_def)
  subgoal by (rule readsField_at [OF receiptFields_distinct, where i = 8]) (simp_all add: receiptFields_def)
  subgoal by (rule readsField_at [OF receiptFields_distinct, where i = 9]) (simp_all add: receiptFields_def)
  subgoal by (rule readsField_at [OF receiptFields_distinct, where i = 10]) (simp_all add: receiptFields_def)
  subgoal by (rule readsField_at [OF receiptFields_distinct, where i = 11]) (simp_all add: receiptFields_def)
  subgoal by (rule readsField_at [OF receiptFields_distinct, where i = 12]) (simp_all add: receiptFields_def)
  done

lemma receiptFields_members:
  assumes "uniqueNames kvs" "decodeObject receiptFields zeroRpcReceipt (AnyMap kvs) = Inr r"
  shows "rrcTransactionHash r = takesText (member ''transactionHash'' kvs) []"
    "rrcTransactionIndex r = takesText (member ''transactionIndex'' kvs) []"
    "rrcBlockHash r = takesText (member ''blockHash'' kvs) []"
    "rrcBlockNumber r = takesText (member ''blockNumber'' kvs) []"
    "rrcFrom r = takesText (member ''from'' kvs) []"
    "rrcTo r = takesOptional (member ''to'' kvs) None"
    "rrcGasUsed r = takesText (member ''gasUsed'' kvs) []"
    "rrcCumulativeGasUsed r = takesText (member ''cumulativeGasUsed'' kvs) []"
    "rrcEffectiveGasPrice r = takesText (member ''effectiveGasPrice'' kvs) []"
    "rrcContractAddress r = takesOptional (member ''contractAddress'' kvs) None"
    "rrcStatus r = takesOptional (member ''status'' kvs) None"
    "rrcLogs r = (takesList rpcLogOf) (member ''logs'' kvs) []"
    "rrcLogsBloom r = takesText (member ''logsBloom'' kvs) []"
  using receiptFields_read [THEN member_reads [OF assms]] by (simp_all add: zeroRpcReceipt_def takesText_def takesOptional_def takesList_def)

lemma receiptFields_total: "receiptMembers rc kvs \<Longrightarrow> \<forall>(m, f)\<in>set receiptFields. \<forall>r. \<exists>r'. f (member m kvs) r = Inr r'"
  unfolding receiptMembers_def
  by (simp add: receiptFields_def fields_total)
    (elim conjE exE, intro conjI allI; (erule sends_isText | erule sendsList_reads(1) [OF _ rpcLogOf_sent]))

lemma intoReceipt_members:
  assumes "receiptMembers rc kvs" "decodeObject receiptFields zeroRpcReceipt (AnyMap kvs) = Inr r"
  shows "intoReceipt r = Inr rc"
proof -
  have u: "uniqueNames kvs" using assms(1) by (simp add: receiptMembers_def)
  obtain n where n: "rcBlockNumber rc = Some n" using assms(1) unfolding receiptMembers_def
    by (elim conjE) (drule sendsNumber_Some [of "rcBlockNumber rc"], elim exE, rule that)
  have "sendsList sendsLog (rcLogs rc) (member ''logs'' kvs)" using assms(1) unfolding receiptMembers_def by (elim conjE)
  from sendsList_reads(2) [OF this rpcLogOf_sent]
  have l: "intoLogs (rrcLogs r) = Inr (rcLogs rc)"
    unfolding receiptFields_members [OF u assms(2)] by (rule intoLogs_read)
  have "upParseHash (rrcTransactionHash r) = Inr (rcTransactionHash rc) \<and> parseHexUint64 (rrcTransactionIndex r) = Inr (rcTransactionIndex rc) \<and>
      upParseHash (rrcBlockHash r) = Inr (rcBlockHash rc) \<and> parseHexBig (rrcBlockNumber r) = Inr n \<and>
      upParseAddress (rrcFrom r) = Inr (rcFrom rc) \<and> parseOptionalAddress (rrcTo r) = Inr (rcTo rc) \<and>
      parseHexUint64 (rrcGasUsed r) = Inr (rcGasUsed rc) \<and> parseHexUint64 (rrcCumulativeGasUsed r) = Inr (rcCumulativeGasUsed rc) \<and>
      parseOptionalHexBig (rrcEffectiveGasPrice r) = Inr (rcEffectiveGasPrice rc) \<and>
      parseOptionalAddress (rrcContractAddress r) = Inr (rcContractAddress rc) \<and> parseOptionalHexUint64 (rrcStatus r) = Inr (rcStatus rc)"
    unfolding receiptFields_members [OF u assms(2)] using assms(1) n unfolding receiptMembers_def
    by (elim conjE, intro conjI) (simp_all add: parse_sent)
  then show ?thesis using n l by (simp add: intoReceipt_def)
qed

lemma rpcReceiptOf_sent: "sendsReceipt rc v \<Longrightarrow> \<exists>r. rpcReceiptOf v = Inr r \<and> intoReceipt r = Inr rc"
  unfolding sendsReceipt_def rpcReceiptOf_def
proof (elim exE conjE)
  fix kvs
  assume v: "v = AnyMap kvs" and m: "receiptMembers rc kvs"
  have u: "uniqueNames kvs" using m by (simp add: receiptMembers_def)
  show "\<exists>r. decodeObject receiptFields zeroRpcReceipt v = Inr r \<and> intoReceipt r = Inr rc"
    unfolding v by (rule decodeObject_sent [OF u receiptFields_total [OF m] intoReceipt_members [OF m]])
qed

lemma Call_answered:
  assumes "neverCancelled N" "servesSingles N answer" "1 \<le> rtyMaxAttempts (clRetry cl)"
    and "answer (bcMethod call) (normalizeParams (bcParams call)) = (v, None)" "ucResult call = Some dec" "dec v = Inr x" "v \<noteq> AnyNil"
  shows "\<exists>cl' w'. Call N call cl w = (Inr (Some x), cl', w')"
proof -
  have "serialOutcome ''result'' answer [call] = (None, [Some x])"
    using assms(4-7) by (simp add: replyTo_def takeResult_def)
  with callSerial_answered [OF assms(1-3), of "[call]" w]
  obtain cl2 w2 where serial: "callSerial N [call] cl w = ((None, [Some x]), cl2, w2)" by auto
  obtain r cl3 w3 where c: "Call N call cl w = (r, cl3, w3)" by (metis prod.exhaust)
  show ?thesis using serial by (cases r) (auto simp: c)
qed

lemma providerCall_answered:
  assumes "neverCancelled N" "servesSingles N answer" "1 \<le> rtyMaxAttempts (clRetry cl)"
    and "answer m (AnyList ps) = (v, None)" "dec v = Inr x" "v \<noteq> AnyNil" "parse x = Inr y"
  shows "\<exists>cl' w'. providerCall N m (AnyList ps) dec zero parse cl w = (Inr y, cl', w')"
proof -
  obtain cl' w' where "Call N \<lparr>bcMethod = m, bcParams = AnyList ps, ucResult = Some dec\<rparr> cl w = (Inr (Some x), cl', w')"
    using Call_answered [OF assms(1-3), of "\<lparr>bcMethod = m, bcParams = AnyList ps, ucResult = Some dec\<rparr>" v dec x w] assms(4-6)
    by (auto simp: normalizeParams_def)
  then show ?thesis using assms(7) by (simp add: providerCall_def)
qed

text \<open>The result \<open>null\<close> leaves the variable at its zero value.\<close>

lemma providerCall_null:
  assumes "neverCancelled N" "servesSingles N answer" "1 \<le> rtyMaxAttempts (clRetry cl)" "answer m (AnyList ps) = (AnyNil, None)"
    and "parse zero = Inl e"
  shows "\<exists>s. providerCall N m (AnyList ps) dec zero parse cl w = (Inl (UpstreamError e), s)"
proof -
  let ?call = "\<lparr>bcMethod = m, bcParams = AnyList ps, ucResult = Some dec\<rparr>"
  have "serialOutcome ''result'' answer [?call] = (None, [None])"
    using assms(4) by (simp add: replyTo_def takeResult_def normalizeParams_def)
  with callSerial_answered [OF assms(1-3), of "[?call]" w]
  obtain cl2 w2 where serial: "callSerial N [?call] cl w = ((None, [None]), cl2, w2)" by auto
  obtain r cl3 w3 where c: "Call N ?call cl w = (r, cl3, w3)" by (metis prod.exhaust)
  have "r = Inr None" using serial by (cases r) (auto simp: c)
  then show ?thesis using assms(5) by (simp add: providerCall_def c)
qed

subsection \<open>What the methods return\<close>

text \<open>What a node holds at an address of its interface: the block of a reference, with or without its transactions, the transaction
  and the receipt of a hash, the state of an account.\<close>

definition holdsBlock :: "nodeAnswer \<Rightarrow> BlockRef \<Rightarrow> Block \<Rightarrow> bool" where
  "holdsBlock answer ref b \<longleftrightarrow>
     (\<exists>v. answer ''eth_getBlockByNumber'' (AnyList [AnyString (upEncodeBlockRef ref), AnyBool False]) = (v, None) \<and> sendsBlock b v)"

definition holdsTransactions :: "nodeAnswer \<Rightarrow> BlockRef \<Rightarrow> Transaction list \<Rightarrow> bool" where
  "holdsTransactions answer ref txs \<longleftrightarrow>
     (\<exists>kvs. answer ''eth_getBlockByNumber'' (AnyList [AnyString (upEncodeBlockRef ref), AnyBool True]) = (AnyMap kvs, None) \<and>
       uniqueNames kvs \<and> sendsList sendsTransaction txs (member ''transactions'' kvs))"

definition holdsTransaction :: "nodeAnswer \<Rightarrow> Hash \<Rightarrow> Transaction \<Rightarrow> bool" where
  "holdsTransaction answer h tx \<longleftrightarrow>
     (\<exists>v. answer ''eth_getTransactionByHash'' (AnyList [AnyString (upEncodeHash h)]) = (v, None) \<and> sendsTransaction tx v)"

definition holdsReceipt :: "nodeAnswer \<Rightarrow> Hash \<Rightarrow> Receipt \<Rightarrow> bool" where
  "holdsReceipt answer h r \<longleftrightarrow>
     (\<exists>v. answer ''eth_getTransactionReceipt'' (AnyList [AnyString (upEncodeHash h)]) = (v, None) \<and> sendsReceipt r v)"

text \<open>A transaction the node does not know.\<close>

definition lacksTransaction :: "nodeAnswer \<Rightarrow> Hash \<Rightarrow> bool" where
  "lacksTransaction answer h \<longleftrightarrow> answer ''eth_getTransactionByHash'' (AnyList [AnyString (upEncodeHash h)]) = (AnyNil, None)"

definition holdsAccount :: "nodeAnswer \<Rightarrow> Address \<Rightarrow> BlockRef \<Rightarrow> int \<Rightarrow> u64 \<Rightarrow> bytes \<Rightarrow> bool" where
  "holdsAccount answer a ref balance nonce code \<longleftrightarrow> 0 \<le> balance \<and>
     answer ''eth_getBalance'' (AnyList [AnyString (upEncodeAddress a), AnyString (upEncodeBlockRef ref)]) = (AnyString (quantityText balance), None) \<and>
     answer ''eth_getTransactionCount'' (AnyList [AnyString (upEncodeAddress a), AnyString (upEncodeBlockRef ref)]) =
       (AnyString (quantityText (uint nonce)), None) \<and>
     answer ''eth_getCode'' (AnyList [AnyString (upEncodeAddress a), AnyString (upEncodeBlockRef ref)]) = (AnyString (dataText code), None)"

definition holdsSlot :: "nodeAnswer \<Rightarrow> Address \<Rightarrow> Hash \<Rightarrow> BlockRef \<Rightarrow> Hash \<Rightarrow> bool" where
  "holdsSlot answer a k ref v \<longleftrightarrow>
     answer ''eth_getStorageAt'' (AnyList [AnyString (upEncodeAddress a), AnyString (upEncodeHash k), AnyString (upEncodeBlockRef ref)]) =
       (AnyString (upEncodeHash v), None)"

lemma providerCall_object:
  assumes "neverCancelled N" "servesSingles N answer" "1 \<le> rtyMaxAttempts (clRetry cl)"
    and "answer m (AnyList ps) = (v, None)" "\<exists>r. dec v = Inr r \<and> parse r = Inr y" "v \<noteq> AnyNil"
  shows "\<exists>s. providerCall N m (AnyList ps) dec zero parse cl w = (Inr y, s)"
proof -
  obtain r where "dec v = Inr r" "parse r = Inr y" using assms(5) by blast
  from providerCall_answered [where dec = dec and parse = parse, OF assms(1-4) this(1) assms(6) this(2), of zero w] show ?thesis by blast
qed

lemma provider_reads_documents:
  assumes "neverCancelled N" "servesSingles N answer" "1 \<le> rtyMaxAttempts (clRetry cl)"
  shows "holdsBlock answer ref b \<Longrightarrow> \<exists>s. rpcGetBlock N ref cl w = (Inr b, s)"
    "holdsTransactions answer ref txs \<Longrightarrow> \<exists>s. rpcGetBlockTransactions N ref cl w = (Inr txs, s)"
    "holdsTransaction answer h tx \<Longrightarrow> \<exists>s. rpcGetTransactionByHash N h cl w = (Inr tx, s)"
    "holdsReceipt answer h rc \<Longrightarrow> \<exists>s. rpcGetTransactionReceipt N h cl w = (Inr rc, s)"
    "lacksTransaction answer h \<Longrightarrow> \<exists>e s. rpcGetTransactionByHash N h cl w = (Inl (UpstreamError e), s)"
proof -
  note call = providerCall_object [OF assms]
  show "\<exists>s. rpcGetBlock N ref cl w = (Inr b, s)" if held: "holdsBlock answer ref b"
  proof -
    obtain v where v: "answer ''eth_getBlockByNumber'' (AnyList [AnyString (upEncodeBlockRef ref), AnyBool False]) = (v, None)" "sendsBlock b v"
      using held unfolding holdsBlock_def by (elim exE conjE)
    have "v \<noteq> AnyNil" using v(2) by (auto simp: sendsBlock_def)
    from call [where dec = rpcBlockOf and parse = intoBlock, OF v(1) rpcBlockOf_sent [OF v(2)] this] show ?thesis by (simp add: rpcGetBlock_def)
  qed
  show "\<exists>s. rpcGetTransactionByHash N h cl w = (Inr tx, s)" if held: "holdsTransaction answer h tx"
  proof -
    obtain v where v: "answer ''eth_getTransactionByHash'' (AnyList [AnyString (upEncodeHash h)]) = (v, None)" "sendsTransaction tx v"
      using held unfolding holdsTransaction_def by (elim exE conjE)
    have n: "v \<noteq> AnyNil" using v(2) by (auto simp: sendsTransaction_def)
    have "\<exists>r. rpcTransactionOf v = Inr r \<and> intoTransaction r = Inr tx" using rpcTransactionOf_sent v(2) by simp
    from call [where dec = rpcTransactionOf and parse = intoTransaction, OF v(1) this n] show ?thesis by (simp add: rpcGetTransactionByHash_def)
  qed
  show "\<exists>s. rpcGetTransactionReceipt N h cl w = (Inr rc, s)" if held: "holdsReceipt answer h rc"
  proof -
    obtain v where v: "answer ''eth_getTransactionReceipt'' (AnyList [AnyString (upEncodeHash h)]) = (v, None)" "sendsReceipt rc v"
      using held unfolding holdsReceipt_def by (elim exE conjE)
    have "v \<noteq> AnyNil" using v(2) by (auto simp: sendsReceipt_def)
    from call [where dec = rpcReceiptOf and parse = intoReceipt, OF v(1) rpcReceiptOf_sent [OF v(2)] this] show ?thesis
      by (simp add: rpcGetTransactionReceipt_def)
  qed
  show "\<exists>s. rpcGetBlockTransactions N ref cl w = (Inr txs, s)" if held: "holdsTransactions answer ref txs"
  proof -
    obtain kvs where v: "answer ''eth_getBlockByNumber'' (AnyList [AnyString (upEncodeBlockRef ref), AnyBool True]) = (AnyMap kvs, None)"
        "uniqueNames kvs" "sendsList sendsTransaction txs (member ''transactions'' kvs)"
      using held unfolding holdsTransactions_def by (elim exE conjE)
    let ?fs = "[(''transactions'', listField rpcTransactionOf rbtTransactions_update)]"
    have "\<exists>r. decodeObject ?fs \<lparr>rbtTransactions = []\<rparr> (AnyMap kvs) = Inr r \<and> intoTransactions (rbtTransactions r) = Inr txs"
    proof (rule decodeObject_sent [OF v(2)])
      show "\<forall>(m, f)\<in>set ?fs. \<forall>r. \<exists>r'. f (member m kvs) r = Inr r'" by (simp add: sendsList_reads(1) [OF v(3) rpcTransactionOf_sent])
    next
      fix r
      assume r: "decodeObject ?fs \<lparr>rbtTransactions = []\<rparr> (AnyMap kvs) = Inr r"
      have "readsField ?fs ''transactions'' rbtTransactions (takesList rpcTransactionOf)" by (simp add: readsField_def)
      from member_reads [OF v(2) r this] have "rbtTransactions r = takesList rpcTransactionOf (member ''transactions'' kvs) []"
        by (simp add: takesList_def)
      then show "intoTransactions (rbtTransactions r) = Inr txs"
        using intoTransactions_read [OF sendsList_reads(2) [OF v(3) rpcTransactionOf_sent]] by simp
    qed
    from call [where dec = rpcBlockWithTransactionsOf and parse = "\<lambda>raw. intoTransactions (rbtTransactions raw)", OF v(1)] this show ?thesis
      by (simp add: rpcGetBlockTransactions_def rpcBlockWithTransactionsOf_def)
  qed
  show "\<exists>e s. rpcGetTransactionByHash N h cl w = (Inl (UpstreamError e), s)" if lacks: "lacksTransaction answer h"
  proof -
    obtain e where e: "intoTransaction zeroRpcTransaction = Inl e"
      by (simp add: intoTransaction_def zeroRpcTransaction_def parseOptionalHexBig_def upParseHash_def parseHexBytes_def trimHexPrefix_def
          TrimSpace_def TrimPrefix_def HasPrefix_def)
    have "\<exists>s. rpcGetTransactionByHash N h cl w = (Inl (UpstreamError e), s)"
      unfolding rpcGetTransactionByHash_def by (rule providerCall_null [where parse = intoTransaction, OF assms _ e]) (use lacks in \<open>simp add: lacksTransaction_def\<close>)
    then show ?thesis by blast
  qed
qed

lemma provider_reads_accounts:
  assumes "neverCancelled N" "servesSingles N answer" "1 \<le> rtyMaxAttempts (clRetry cl)"
  shows "holdsAccount answer a ref balance nonce code \<Longrightarrow> (\<exists>s. rpcGetBalance N a ref cl w = (Inr balance, s)) \<and>
      (\<exists>s. rpcGetNonce N a ref cl w = (Inr nonce, s)) \<and> (\<exists>s. rpcGetCode N a ref cl w = (Inr code, s))"
    "holdsSlot answer a k ref v \<Longrightarrow> \<exists>s. rpcGetStorageAt N a k ref cl w = (Inr v, s)"
proof -
  note call = providerCall_object [where dec = decodeText, OF assms]
  have text_of: "decodeText (AnyString s) = Inr s" for s by (simp add: decodeText_def)
  assume h: "holdsAccount answer a ref balance nonce code"
  have "\<exists>s. rpcGetBalance N a ref cl w = (Inr balance, s)"
    unfolding rpcGetBalance_def by (rule call) (use h text_of in \<open>auto simp: holdsAccount_def\<close>)
  moreover have "\<exists>s. rpcGetNonce N a ref cl w = (Inr nonce, s)"
    unfolding rpcGetNonce_def by (rule call) (use h text_of in \<open>auto simp: holdsAccount_def\<close>)
  moreover have "\<exists>s. rpcGetCode N a ref cl w = (Inr code, s)"
    unfolding rpcGetCode_def by (rule call) (use h text_of in \<open>auto simp: holdsAccount_def\<close>)
  ultimately show "(\<exists>s. rpcGetBalance N a ref cl w = (Inr balance, s)) \<and>
      (\<exists>s. rpcGetNonce N a ref cl w = (Inr nonce, s)) \<and> (\<exists>s. rpcGetCode N a ref cl w = (Inr code, s))" by blast
next
  note call = providerCall_object [where dec = decodeText, OF assms]
  assume "holdsSlot answer a k ref v"
  then show "\<exists>s. rpcGetStorageAt N a k ref cl w = (Inr v, s)"
    unfolding rpcGetStorageAt_def by (intro call) (auto simp: holdsSlot_def decodeText_def)
qed

end
