(* ===== verification/UpstreamTrace.thy ===== *)
theory UpstreamTrace
  imports UpstreamProvider
begin

text \<open>
  The trace a node returns for \<open>debug_traceTransaction\<close> (\<open>internal/forkengine/upstream/trace.go\<close>). A value is what
  \<open>encoding/json\<close> makes of it: its numbers are floats, of which the whole ones are modelled. Go leaves the conversion of a float
  outside the range of \<open>uint64\<close> to the processor, so that the conversion is an argument, \<open>conv\<close>. An error is kept as its text.
\<close>

subsection \<open>Scalars\<close>

text \<open>\<open>%T\<close> of a decoded value.\<close>

fun goType :: "AnyVal \<Rightarrow> string" where
  "goType AnyNil = ''<nil>''"
| "goType (AnyBool _) = ''bool''"
| "goType (AnyNum _) = ''float64''"
| "goType (AnyString _) = ''string''"
| "goType (AnyList _) = ''[]interface {}''"
| "goType (AnyMap _) = ''map[string]interface {}''"

text \<open>\<open>strconv.ParseUint(s, base, 64)\<close> for the bases 10 and 16, and \<open>strconv.ParseBool\<close>.\<close>

definition ParseUint :: "string \<Rightarrow> nat \<Rightarrow> string + u64" where
  "ParseUint s base =
     (case parseNat base s of
        None \<Rightarrow> Inl (''strconv.ParseUint: parsing '' @ quoted s @ '': invalid syntax'')
      | Some n \<Rightarrow> if n < 2 ^ 64 then Inr (word_of_int n)
                  else Inl (''strconv.ParseUint: parsing '' @ quoted s @ '': value out of range''))"

definition ParseBool :: "string \<Rightarrow> string + bool" where
  "ParseBool s =
     (if s \<in> {''1'', ''t'', ''T'', ''true'', ''TRUE'', ''True''} then Inr True
      else if s \<in> {''0'', ''f'', ''F'', ''false'', ''FALSE'', ''False''} then Inr False
      else Inl (''strconv.ParseBool: parsing '' @ quoted s @ '': invalid syntax''))"

definition optionalUint64 :: "(int \<Rightarrow> u64) \<Rightarrow> AnyVal \<Rightarrow> string + u64 option" where
  "optionalUint64 conv raw =
     (case raw of
        AnyNil \<Rightarrow> Inr None
      | AnyNum v \<Rightarrow> Inr (Some (conv v))
      | AnyString v \<Rightarrow>
          let trimmed = TrimSpace v in
          if trimmed = [] then Inr None
          else if HasPrefix trimmed ''0x'' \<or> HasPrefix trimmed ''0X''
          then sbind (ParseUint (drop 2 trimmed) 16) (\<lambda>n. Inr (Some n))
          else sbind (ParseUint trimmed 10) (\<lambda>n. Inr (Some n))
      | _ \<Rightarrow> Inl (''unsupported numeric type '' @ goType raw))"

definition uint64Value :: "(int \<Rightarrow> u64) \<Rightarrow> AnyVal \<Rightarrow> string + u64" where
  "uint64Value conv raw =
     sbind (optionalUint64 conv raw) (\<lambda>v. case v of None \<Rightarrow> Inl ''missing uint64 value'' | Some n \<Rightarrow> Inr n)"

definition intValue :: "(int \<Rightarrow> u64) \<Rightarrow> AnyVal \<Rightarrow> string + int" where
  "intValue conv raw = sbind (uint64Value conv raw) (\<lambda>n. Inr (sint n))"

definition boolValue :: "AnyVal \<Rightarrow> string + bool" where
  "boolValue raw =
     (case raw of
        AnyBool b \<Rightarrow> Inr b
      | AnyString s \<Rightarrow> ParseBool (TrimSpace s)
      | _ \<Rightarrow> Inl (''unsupported bool type '' @ goType raw))"

definition stringValue :: "AnyVal \<Rightarrow> string + string" where
  "stringValue raw = (case raw of AnyString s \<Rightarrow> Inr s | _ \<Rightarrow> Inl (''unsupported string type '' @ goType raw))"

subsection \<open>Steps\<close>

text \<open>The field of a map, nil where it is missing.\<close>

definition field :: "(string, AnyVal) gomap \<Rightarrow> string \<Rightarrow> AnyVal" where
  "field m k = (case map_of m k of None \<Rightarrow> AnyNil | Some v \<Rightarrow> v)"

definition stepError :: "nat \<Rightarrow> string \<Rightarrow> string \<Rightarrow> string" where
  "stepError i name e = ''upstream: parse structLog['' @ showNat i @ ''].'' @ name @ '': '' @ e"

definition parseStructuredTraceStep :: "(int \<Rightarrow> u64) \<Rightarrow> nat \<Rightarrow> (string, AnyVal) gomap \<Rightarrow> string + StructuredTraceStep" where
  "parseStructuredTraceStep conv i mapped =
     sbind (mapErr (stepError i ''pc'') (uint64Value conv (field mapped ''pc''))) (\<lambda>counter.
     sbind (mapErr (stepError i ''op'') (stringValue (field mapped ''op''))) (\<lambda>op.
     sbind (case map_of mapped ''depth'' of
              None \<Rightarrow> Inr 0
            | Some d \<Rightarrow> mapErr (stepError i ''depth'') (intValue conv d)) (\<lambda>depth.
     sbind (mapErr (stepError i ''gas'') (optionalUint64 conv (field mapped ''gas''))) (\<lambda>gas.
     sbind (mapErr (stepError i ''gasCost'') (optionalUint64 conv (field mapped ''gasCost''))) (\<lambda>cost.
     sbind (if field mapped ''error'' = AnyNil then Inr []
            else mapErr (stepError i ''error'') (stringValue (field mapped ''error''))) (\<lambda>err.
     Inr \<lparr>ssPC = counter, ssOp = op, ssGas = gas, ssGasCost = cost, ssDepth = depth, ssError = err\<rparr>))))))"

fun parseStepsFrom :: "(int \<Rightarrow> u64) \<Rightarrow> nat \<Rightarrow> AnyVal list \<Rightarrow> string + StructuredTraceStep list" where
  "parseStepsFrom conv i [] = Inr []"
| "parseStepsFrom conv i (entry # entries) =
     (case entry of
        AnyMap mapped \<Rightarrow>
          sbind (parseStructuredTraceStep conv i mapped) (\<lambda>s.
          sbind (parseStepsFrom conv (Suc i) entries) (\<lambda>ss. Inr (s # ss)))
      | _ \<Rightarrow> Inl (''upstream: structLog['' @ showNat i @ ''] has type '' @ goType entry @ '', want map[string]any''))"

definition parseStructuredTraceSteps :: "(int \<Rightarrow> u64) \<Rightarrow> AnyVal \<Rightarrow> string + StructuredTraceStep list" where
  "parseStructuredTraceSteps conv raw =
     (case raw of
        AnyNil \<Rightarrow> Inr []
      | AnyList entries \<Rightarrow> parseStepsFrom conv 0 entries
      | _ \<Rightarrow> Inl (''upstream: structLogs has type '' @ goType raw @ '', want []any''))"

definition ParseStructuredTrace :: "(int \<Rightarrow> u64) \<Rightarrow> (string, AnyVal) gomap \<Rightarrow> string + StructuredTrace" where
  "ParseStructuredTrace conv result =
     sbind (mapErr ((@) ''upstream: parse trace gas: '') (optionalUint64 conv (field result ''gas''))) (\<lambda>gas.
     sbind (case map_of result ''failed'' of
              None \<Rightarrow> Inr False
            | Some v \<Rightarrow> mapErr ((@) ''upstream: parse trace failed flag: '') (boolValue v)) (\<lambda>failed.
     sbind (case map_of result ''returnValue'' of
              None \<Rightarrow> Inr []
            | Some v \<Rightarrow> mapErr ((@) ''upstream: parse trace return value: '') (sbind (stringValue v) (\<lambda>t. Inr (ToLower (TrimSpace t))))) (\<lambda>ret.
     sbind (parseStructuredTraceSteps conv (field result ''structLogs'')) (\<lambda>logs.
     Inr \<lparr>stGas = gas, stFailed = failed, stReturnValue = ret, stStructLogs = logs\<rparr>))))"

subsection \<open>A trace is read as the node holds it\<close>

text \<open>What a node sends: numbers, and the gas it does not give as \<open>null\<close>; a step without error has no field for it.\<close>

definition numberValue :: "u64 option \<Rightarrow> AnyVal" where
  "numberValue v = (case v of None \<Rightarrow> AnyNil | Some n \<Rightarrow> AnyNum (uint n))"

definition stepDocument :: "StructuredTraceStep \<Rightarrow> AnyVal" where
  "stepDocument s =
     AnyMap ([(''pc'', AnyNum (uint (ssPC s))), (''op'', AnyString (ssOp s)), (''gas'', numberValue (ssGas s)),
         (''gasCost'', numberValue (ssGasCost s)), (''depth'', AnyNum (ssDepth s))] @
       (if ssError s = [] then [] else [(''error'', AnyString (ssError s))]))"

definition traceDocument :: "StructuredTrace \<Rightarrow> (string, AnyVal) gomap" where
  "traceDocument t =
     [(''gas'', numberValue (stGas t)), (''failed'', AnyBool (stFailed t)), (''returnValue'', AnyString (stReturnValue t)),
      (''structLogs'', AnyList (map stepDocument (stStructLogs t)))]"

definition convertsWhole :: "(int \<Rightarrow> u64) \<Rightarrow> bool" where
  "convertsWhole conv \<longleftrightarrow> (\<forall>n. 0 \<le> n \<and> n < 2 ^ 64 \<longrightarrow> conv n = word_of_int n)"

lemma optionalUint64_number: "convertsWhole conv \<Longrightarrow> optionalUint64 conv (numberValue v) = Inr v"
  using unsigned_less [of "the v"] by (auto simp: optionalUint64_def numberValue_def convertsWhole_def split: option.split)

lemma uint64Value_number: "convertsWhole conv \<Longrightarrow> uint64Value conv (AnyNum (uint n)) = Inr n"
  using optionalUint64_number [of conv "Some n"] by (simp add: uint64Value_def numberValue_def)

lemma intValue_number:
  assumes "convertsWhole conv" "0 \<le> d" "d < 2 ^ 63"
  shows "intValue conv (AnyNum d) = Inr d"
proof -
  have "uint (word_of_int d :: u64) = d" using assms(2,3) by (simp add: uint_word_of_int)
  then have "uint64Value conv (AnyNum d) = Inr (word_of_int d)" using uint64Value_number [OF assms(1), of "word_of_int d"] by simp
  moreover have "sint (word_of_int d :: u64) = d" using assms(2,3) by (simp add: sint_uint uint_word_of_int signed_take_bit_int_eq_self)
  ultimately show ?thesis by (simp add: intValue_def)
qed

lemma parseStructuredTraceStep_document:
  assumes "convertsWhole conv" "0 \<le> ssDepth s" "ssDepth s < 2 ^ 63" "stepDocument s = AnyMap m"
  shows "parseStructuredTraceStep conv i m = Inr s"
  using assms(4)
  by (cases "ssError s = []")
    (auto simp: stepDocument_def parseStructuredTraceStep_def field_def uint64Value_number [OF assms(1)] stringValue_def
      intValue_number [OF assms(1-3)] optionalUint64_number [OF assms(1)])

lemma parseStepsFrom_document:
  "convertsWhole conv \<Longrightarrow> \<forall>s\<in>set ss. 0 \<le> ssDepth s \<and> ssDepth s < 2 ^ 63 \<Longrightarrow> parseStepsFrom conv i (map stepDocument ss) = Inr ss"
proof (induction ss arbitrary: i)
  case (Cons s ss)
  obtain m where m: "stepDocument s = AnyMap m" by (simp add: stepDocument_def)
  then have "parseStructuredTraceStep conv i m = Inr s" using Cons.prems parseStructuredTraceStep_document by simp
  then show ?case using Cons by (simp add: m)
qed simp

lemma ParseStructuredTrace_document:
  assumes "convertsWhole conv" "\<forall>s\<in>set (stStructLogs t). 0 \<le> ssDepth s \<and> ssDepth s < 2 ^ 63"
    and "TrimSpace (stReturnValue t) = stReturnValue t" "ToLower (stReturnValue t) = stReturnValue t"
  shows "ParseStructuredTrace conv (traceDocument t) = Inr t"
  using parseStepsFrom_document [OF assms(1,2)] assms(3,4)
  by (simp add: ParseStructuredTrace_def traceDocument_def field_def optionalUint64_number [OF assms(1)] boolValue_def stringValue_def
      parseStructuredTraceSteps_def)

end
