(* ===== verification/SampleUpstream.thy ===== *)
theory SampleUpstream
  imports SampleFork UpstreamTrace
begin

text \<open>
  A node for the examples. It answers by the method alone: a block, a transaction, a receipt, an account, and an error for any other
  method. The body of a response is a letter for the method and the number of the request in unary; a batch is its responses in
  brackets.
\<close>

definition chainBlock :: Block where
  "chainBlock = sampleBlock\<lparr>blChainID := None, blBlobBaseFee := None\<rparr>"

text \<open>Its documents have members the code does not read, in an order of their own, and leave out what a legacy transaction lacks.\<close>

definition nodeTransaction :: AnyVal where
  "nodeTransaction =
     (let tx = sampleTransaction 11 0 in
      AnyMap [(''blockHash'', AnyNil), (''blockNumber'', AnyString (quantityText 100)), (''chainId'', AnyString ''0x1''),
        (''from'', AnyString (upEncodeAddress (txFrom tx))), (''gas'', AnyString (quantityText (uint (txGas tx)))),
        (''gasPrice'', AnyString (quantityText 1)), (''hash'', AnyString (upEncodeHash (txHash tx))), (''input'', AnyString ''0x''),
        (''nonce'', AnyString (quantityText 0)), (''to'', AnyString (upEncodeAddress 3)), (''transactionIndex'', AnyString (quantityText 0)),
        (''v'', AnyString ''0x25''), (''value'', AnyString (quantityText 0))])"

definition nodeBlock :: AnyVal where
  "nodeBlock =
     AnyMap [(''baseFeePerGas'', AnyString (quantityText 1)), (''extraData'', AnyString ''0x''), (''gasLimit'', AnyString (quantityText (uint (blGasLimit chainBlock)))),
       (''hash'', AnyString (upEncodeHash (blHash chainBlock))), (''miner'', AnyString (upEncodeAddress (blCoinbase chainBlock))),
       (''mixHash'', AnyString (upEncodeHash (blPrevRandao chainBlock))), (''number'', AnyString (quantityText 100)),
       (''parentHash'', AnyString (upEncodeHash (blParentHash chainBlock))), (''timestamp'', AnyString (quantityText (uint (blTimestamp chainBlock)))),
       (''transactions'', AnyList [nodeTransaction])]"

definition nodeReceipt :: AnyVal where
  "nodeReceipt =
     (let r = sampleReceipt 11 in
      AnyMap [(''blockHash'', AnyString (upEncodeHash (rcBlockHash r))), (''blockNumber'', AnyString (quantityText 100)),
        (''contractAddress'', AnyNil), (''cumulativeGasUsed'', AnyString (quantityText (uint (rcCumulativeGasUsed r)))),
        (''effectiveGasPrice'', AnyString (quantityText 1)), (''from'', AnyString (upEncodeAddress (rcFrom r))),
        (''gasUsed'', AnyString (quantityText (uint (rcGasUsed r)))), (''logs'', AnyList []), (''logsBloom'', AnyString ''0x00''),
        (''status'', AnyString (quantityText 1)), (''to'', AnyString (upEncodeAddress 3)),
        (''transactionHash'', AnyString (upEncodeHash 11)), (''transactionIndex'', AnyString (quantityText 0)), (''type'', AnyString ''0x0'')])"

definition methodTag :: "string \<Rightarrow> char" where
  "methodTag m =
     (if m = ''eth_getBlockByNumber'' then CHR ''b''
      else if m = ''eth_getTransactionByHash'' then CHR ''t''
      else if m = ''eth_getTransactionReceipt'' then CHR ''r''
      else if m = ''eth_getCode'' then CHR ''c''
      else if m = ''eth_getStorageAt'' then CHR ''s''
      else if m = ''eth_getBalance'' \<or> m = ''eth_getTransactionCount'' then CHR ''q''
      else CHR ''e'')"

definition tagAnswer :: "char \<Rightarrow> AnyVal \<times> (int \<times> string) option" where
  "tagAnswer c =
     (if c = CHR ''b'' then (nodeBlock, None)
      else if c = CHR ''t'' then (nodeTransaction, None)
      else if c = CHR ''r'' then (nodeReceipt, None)
      else if c = CHR ''c'' then (AnyString (dataText [96]), None)
      else if c = CHR ''s'' then (AnyString (upEncodeHash 6), None)
      else if c = CHR ''q'' then (AnyString (quantityText 70), None)
      else (AnyNil, Some (-32601, ''method not found'')))"

definition sampleAnswer :: nodeAnswer where
  "sampleAnswer m ps = tagAnswer (methodTag m)"

definition bodyOf :: "rpcRequest \<Rightarrow> string" where
  "bodyOf rq = methodTag (rqMethod rq) # replicate (unat (rqID rq)) (CHR ''i'')"

definition responseOf :: "string \<Rightarrow> rpcResponse" where
  "responseOf s = \<lparr>rspID = of_nat (length (tl s)), rspResult = fst (tagAnswer (hd s)), rspError = snd (tagAnswer (hd s))\<rparr>"

function responsesOf :: "string \<Rightarrow> rpcResponse list" where
  "responsesOf [] = []"
| "responsesOf (c # s) =
     responseOf (c # takeWhile (\<lambda>x. x = CHR ''i'') s) # responsesOf (dropWhile (\<lambda>x. x = CHR ''i'') s)"
  by pat_completeness auto
termination
  by (relation "measure length") (simp_all add: le_imp_less_Suc length_dropWhile_le)

definition sampleNetwork :: "unit Network" where
  "sampleNetwork =
     \<lparr>nwHTTP = (\<lambda>p w. (HttpReply 200 (case p of SingleRequest rq \<Rightarrow> bodyOf rq
                                       | BatchRequests rqs \<Rightarrow> CHR ''['' # concat (map bodyOf rqs)), w)),
      nwNow = (\<lambda>_. 0), nwSleep = (\<lambda>_ w. w), nwDone = (\<lambda>_. None),
      nwSingle = (\<lambda>s. Inr (responseOf s)), nwBatch = (\<lambda>s. Some (responsesOf (tl s)))\<rparr>"

lemma methodTag_cases: "methodTag m \<in> {CHR ''b'', CHR ''t'', CHR ''r'', CHR ''c'', CHR ''s'', CHR ''q'', CHR ''e''}"
  by (simp add: methodTag_def)

lemma methodTag_char: "\<not> isSpace (methodTag m)" "methodTag m \<noteq> CHR ''i''" "methodTag m \<noteq> CHR ''[''"
  using methodTag_cases [of m] by (auto simp: isSpace_def)

lemma responseOf_body: "responseOf (bodyOf rq) = replyTo sampleAnswer rq"
  by (simp add: responseOf_def bodyOf_def replyTo_def sampleAnswer_def)

lemma takeWhile_units:
  "takeWhile (\<lambda>x. x = c) (replicate n c @ concat (map bodyOf rqs)) = replicate n c @ takeWhile (\<lambda>x. x = c) (concat (map bodyOf rqs))"
  "dropWhile (\<lambda>x. x = c) (replicate n c @ concat (map bodyOf rqs)) = dropWhile (\<lambda>x. x = c) (concat (map bodyOf rqs))"
  by (induction n) simp_all

lemma bodies_stop:
  "takeWhile (\<lambda>x. x = CHR ''i'') (concat (map bodyOf rqs)) = []" "dropWhile (\<lambda>x. x = CHR ''i'') (concat (map bodyOf rqs)) = concat (map bodyOf rqs)"
  by (cases rqs; simp add: bodyOf_def methodTag_char)+

lemma responsesOf_bodies: "responsesOf (concat (map bodyOf rqs)) = map (replyTo sampleAnswer) rqs"
proof (induction rqs)
  case (Cons rq rqs)
  have "concat (map bodyOf (rq # rqs)) = methodTag (rqMethod rq) # (replicate (unat (rqID rq)) (CHR ''i'') @ concat (map bodyOf rqs))"
    by (simp add: bodyOf_def)
  then have "responsesOf (concat (map bodyOf (rq # rqs))) = responseOf (bodyOf rq) # responsesOf (concat (map bodyOf rqs))"
    by (simp add: takeWhile_units bodies_stop bodyOf_def)
  then show ?case using Cons by (simp add: responseOf_body)
qed simp

lemma TrimSpace_plain: "\<forall>c\<in>set s. \<not> isSpace c \<Longrightarrow> TrimSpace s = s"
  by (rule TrimSpace_id) (cases s; simp)

lemma bodyOf_chars: "\<forall>c\<in>set (bodyOf rq). \<not> isSpace c"
  by (auto simp: bodyOf_def methodTag_char) (simp add: isSpace_def)

lemma TrimSpace_body: "TrimSpace (bodyOf rq) = bodyOf rq" "TrimSpace (CHR ''['' # concat (map bodyOf rqs)) = CHR ''['' # concat (map bodyOf rqs)"
  by (rule TrimSpace_plain; use bodyOf_chars in \<open>auto simp: isSpace_def\<close>)+

lemma sampleNetwork_serves: "neverCancelled sampleNetwork" "servesSingles sampleNetwork sampleAnswer" "servesBatches sampleNetwork sampleAnswer"
proof -
  show "neverCancelled sampleNetwork" by (simp add: neverCancelled_def sampleNetwork_def)
  show "servesSingles sampleNetwork sampleAnswer"
    unfolding servesSingles_def replies_def startsLike_def
    by (simp add: sampleNetwork_def TrimSpace_body responseOf_body) (simp add: bodyOf_def methodTag_char)
  show "servesBatches sampleNetwork sampleAnswer"
    unfolding servesBatches_def replies_def startsLike_def
    by (simp add: sampleNetwork_def TrimSpace_body responsesOf_bodies)
qed

text \<open>A client that does not yet know whether the node takes batches.\<close>

definition sampleClient :: JSONRPCClient where
  "sampleClient = \<lparr>clRetry = \<lparr>rtyMaxAttempts = 3, rtyBaseDelay = 100000000, rtyMaxDelay = 800000000\<rparr>, clInterval = Some 1000000,
     clBatchMode = BatchProbe, clMaxBatchSize = 2, clLastRequest = None, clProbeDone = False, clSupported = False, clRequestID = 0\<rparr>"

lemma sampleClient_new:
  "NewJSONRPCClient \<lparr>jcEndpoint = ''http://node'', jcRetry = \<lparr>rtyMaxAttempts = 3, rtyBaseDelay = 0, rtyMaxDelay = 0\<rparr>, jcInterval = Some 1000000,
     jcBatchMode = Some BatchProbe, jcMaxBatchSize = 2\<rparr> = Inr sampleClient"
  by (simp add: NewJSONRPCClient_def sampleClient_def TrimSpace_def isSpace_def wrap64_def)

lemma sampleClient_attempts [simp]: "1 \<le> rtyMaxAttempts (clRetry sampleClient)"
  by (simp add: sampleClient_def)

text \<open>Three calls, the last of which the node refuses.\<close>

definition sampleCalls :: "string BatchCall list" where
  "sampleCalls = map (\<lambda>m. \<lparr>bcMethod = m, bcParams = AnyNil, ucResult = Some decodeText\<rparr>) [''eth_getBalance'', ''eth_getCode'', ''eth_sign'']"

lemma sample_names:
  "ToLower ''chainId'' = ''chainid''" "ToLower ''v'' = ''v''" "ToLower ''extraData'' = ''extradata''" "ToLower ''transactions'' = ''transactions''"
  by code_simp+

lemma sample_sends: "sendsBlock chainBlock nodeBlock" "sendsTransaction (sampleTransaction 11 0) nodeTransaction" "sendsReceipt (sampleReceipt 11) nodeReceipt"
proof -
  show "sendsTransaction (sampleTransaction 11 0) nodeTransaction"
    by (simp add: sendsTransaction_def nodeTransaction_def transactionMembers_def uniqueNames_def member_def field_names sample_names Let_def
        sampleTransaction_def sends_defs sendsList_def dataText_def hexEncode_def)
  show "sendsBlock chainBlock nodeBlock"
    by (simp add: sendsBlock_def nodeBlock_def blockMembers_def uniqueNames_def member_def field_names sample_names
        chainBlock_def sampleBlock_def sends_defs)
  show "sendsReceipt (sampleReceipt 11) nodeReceipt"
    by (simp add: sendsReceipt_def nodeReceipt_def receiptMembers_def uniqueNames_def member_def field_names sample_names Let_def
        sampleReceipt_def sends_defs sendsList_def)
qed

lemma sample_holds:
  "holdsBlock sampleAnswer ref chainBlock" "holdsTransaction sampleAnswer h (sampleTransaction 11 0)" "holdsReceipt sampleAnswer h (sampleReceipt 11)"
  "holdsTransactions sampleAnswer ref [sampleTransaction 11 0]" "holdsAccount sampleAnswer a ref 70 70 [96]" "holdsSlot sampleAnswer a k ref 6"
proof -
  show "holdsBlock sampleAnswer ref chainBlock" "holdsTransaction sampleAnswer h (sampleTransaction 11 0)" "holdsReceipt sampleAnswer h (sampleReceipt 11)"
    by (simp_all add: holdsBlock_def holdsTransaction_def holdsReceipt_def sampleAnswer_def methodTag_def tagAnswer_def sample_sends)
  show "holdsTransactions sampleAnswer ref [sampleTransaction 11 0]"
    by (simp add: holdsTransactions_def sampleAnswer_def methodTag_def tagAnswer_def nodeBlock_def uniqueNames_def member_def field_names sample_names
        sendsList_def sample_sends)
  show "holdsAccount sampleAnswer a ref 70 70 [96]" "holdsSlot sampleAnswer a k ref 6"
    by (simp_all add: holdsAccount_def holdsSlot_def sampleAnswer_def methodTag_def tagAnswer_def)
qed

end
