(* ===== verification/Spec2Isabelle.thy ===== *)
theory Spec2Isabelle
  imports Sample SampleFork SampleDebug SampleUpstream
begin

text \<open>
  inspethct is an Ethereum debugger: it runs contract code in an EVM of its own
  (\<open>src/internal/engine\<close>), with hooks at which breakpoints, tracers and inspectors observe the run. It can fork a
  chain: load accounts and storage from a node when they are touched, and replay transactions
  (\<open>src/internal/forkengine\<close>). And it relates bytecode to Solidity sources (\<open>src/internal/srcmap\<close>). This
  development models these parts, operation by operation, and proves what holds of them.

  \<^bold>\<open>How the parts interact.\<close> \<open>EngineRun\<close> checks a configuration, builds the state of the top frame, moves the
  value the call carries and starts \<open>Run\<close>. \<open>Run\<close> iterates the interpreter loop: it fires the opcode hooks,
  charges the base and the dynamic gas, and dispatches to a handler. A handler works on the stack, memory,
  storage, accounts and logs of its frame; SLOAD, SSTORE, MLOAD and MSTORE let hooks see and replace the
  data. CALL and CREATE build a message and a child state that shares the world state, and run it with
  \<open>ExecuteMessage\<close>, which takes snapshots and reverts them when the message fails, and which hands
  messages to precompiled addresses to \<open>executePrecompileMessage\<close>. Hooks come from a registry; a
  breakpoint is a hook made of conditions and a handler.

  \<^bold>\<open>Which theory models what\<close> (files under \<open>src/internal/engine\<close> unless said otherwise; the definitions keep the names of the Go
  functions, with the receiver's type as a prefix where two methods share a name):
  \<^item> \<open>Prelude\<close>: machine integers, byte strings, \<open>make\<close>, slices, \<open>copy\<close>, the \<open>math/big\<close> operations.
  \<^item> \<open>EvmTypes\<close>: \<open>types.go\<close>, \<open>result.go\<close>; \<open>EvmStack\<close>: \<open>stack.go\<close>; \<open>EvmGas\<close>: \<open>gas.go\<close>; \<open>EvmMemory\<close>:
    \<open>memory.go\<close>; \<open>WorldState\<close> and \<open>EvmState\<close>: \<open>state_impl.go\<close>; \<open>Hooks\<close>: \<open>hook.go\<close>, \<open>hook_registry.go\<close>;
    \<open>Machine\<close>: the \<open>EVM\<close> struct, the monad of the handlers and \<open>access_hooks.go\<close>.
  \<^item> \<open>OpsArith\<close> (\<open>op_arith.go\<close>, \<open>op_cmp.go\<close>), \<open>OpsEnv\<close> (\<open>op_env.go\<close>), \<open>OpsData\<close> (\<open>op_memory.go\<close>,
    \<open>op_storage.go\<close>, \<open>op_crypto.go\<close>, \<open>op_control.go\<close>, \<open>op_stack.go\<close>, \<open>op_log.go\<close>), \<open>OpsSystem\<close>
    (\<open>message.go\<close>, \<open>op_system.go\<close>): the handlers. \<open>Interpreter\<close>: \<open>interpreter.go\<close>.
  \<^item> \<open>Precompiles\<close>: \<open>precompile.go\<close>; \<open>EngineRun\<close>: \<open>engine.go\<close>, \<open>engine_impl.go\<close>; \<open>Breakpoints\<close>: \<open>breakpoint.go\<close>.
  \<^item> \<open>GoMaps\<close>, \<open>Text\<close>: Go maps that are iterated over, and the string functions. Under \<open>src/internal/forkengine\<close>:
    \<open>Overlay\<close> (\<open>overlay/overlay.go\<close>), \<open>ForkCache\<close> (\<open>cache/cache.go\<close>, the references of \<open>upstream/types.go\<close>),
    \<open>ForkState\<close> (\<open>state_adapter.go\<close>: accounts and storage that load from a provider when touched), \<open>ForkTrace\<close>
    (\<open>replay_trace.go\<close>), \<open>ForkEngine\<close> (\<open>engine.go\<close>, \<open>context.go\<close>, \<open>adapter.go\<close>: calls and replays of
    transactions). A provider is a record of functions, which may fail.
  \<^item> Under \<open>src/internal/srcmap\<close>: \<open>SourceMap\<close> (\<open>source_map.go\<close>, ranges, lines and columns), \<open>SourceIndex\<close>
    (\<open>ast.go\<close>, \<open>index.go\<close>, \<open>solc.go\<close>, \<open>metadata.go\<close>), \<open>SourceRuntime\<close> (\<open>runtime.go\<close>). \<open>SampleFork\<close>: a provider and
    a compiler output for the examples.
  \<^item> \<open>ForkReport\<close> (\<open>export.go\<close> and the traced replays of \<open>adapter.go\<close>): reports on replays, export bundles,
    inspection of state.
  \<^item> Under \<open>src/internal/varpeeker\<close>: \<open>VarPeek\<close> (\<open>decode.go\<close>, \<open>storage.go\<close>, \<open>immutable.go\<close>) decodes words, storage
    and immutables by their Solidity types; \<open>VarLocals\<close> (\<open>locals.go\<close>, \<open>tracker.go\<close>, \<open>peeker.go\<close>) finds the function
    that is running and its parameters and variables.
  \<^item> Under \<open>src/internal/jsonrpc\<close>, the debug server. \<open>DebugText\<close>: hexadecimal texts and quantities. \<open>DebugState\<close>: sessions,
    pauses, breakpoints and mutations (\<open>gdb.go\<close>) and source bundles (\<open>contractmeta/types.go\<close>). \<open>DebugViews\<close>: what a
    pause shows: memory regions, stack, storage, locals, call frames. \<open>DebugSource\<close>: source lines and program
    counters. \<open>DebugHooks\<close>: the hooks of a run and \<open>replaySession\<close>. \<open>DebugRequest\<close>: decoding of parameters.
    \<open>DebugServer\<close>: breakpoints, reads and writes. \<open>DebugPatch\<close> (\<open>gdb_state_patch.go\<close>): patches. \<open>DebugHandle\<close>
    (\<open>server.go\<close>, \<open>gdb_sequence.go\<close>): the methods, the stepping of sessions, sequences.
    \<open>DebugRun\<close> shows what a run does to its session for every program of the engine model, \<open>DebugFacts\<close> and \<open>DebugKeep\<close>
    that every method keeps the server well-formed, \<open>DebugSequence\<close> how far sequences get, \<open>DebugUse\<close> what writes, patches and
    source breakpoints come to.
  \<^item> \<open>Bytematch\<close> (\<open>src/internal/contractmeta\<close>: \<open>bytematch/matcher.go\<close>, \<open>match.go\<close>): which compiled contract a code is.
    \<open>Annotate\<close> (\<open>src/internal/debugengine\<close>): hooks that hand source annotations to an observer. \<open>SampleDebug\<close>: a session and
    a server for the examples.
  \<^item> Under \<open>src/internal/forkengine/upstream\<close>, the client of a node: \<open>Upstream\<close> (the documents of \<open>jsonrpc.go\<close> and their
    decoding), \<open>UpstreamClient\<close> (requests, retries, batches), \<open>UpstreamProvider\<close> (the methods of the provider) and
    \<open>UpstreamTrace\<close> (\<open>trace.go\<close>). Their lemmas show that at most as many requests are sent as attempts are allowed, that batches
    are equivalent to serial calls, and that what a node holds is read as it is. \<open>SampleUpstream\<close>: a node for the examples.
  \<^item> \<open>Preserve\<close>, \<open>Invariants\<close>, \<open>Totality\<close>, \<open>CallGas\<close>, \<open>Termination\<close>, \<open>JumpAnalysis\<close>: what holds of every handler,
    frame and message. \<open>Sample\<close>: the small world the examples are evaluated in.

  \<^bold>\<open>How state and effects are modelled.\<close> A \<open>[32]byte\<close> or \<open>[20]byte\<close> value is the word it spells; a
  \<open>uint64\<close> is a 64-bit word and wraps; a \<open>big.Int\<close> is an \<open>int\<close>. A Go function ends with a value, an error
  or a panic, and handlers are computations over the \<open>EVM\<close> record with these endings; a \<open>recover\<close> is a
  case distinction on them. A pointer that several structures share is a field that is passed along and handed back.
  Keccak-256, the address derivations and cryptographic primitives live outside the repository and are the
  fields of \<open>Lib\<close> and \<open>Crypto\<close>.

  \<^bold>\<open>Bounds and fuel.\<close> Frames call frames, so \<open>Run\<close> takes fuel. Every iteration of the loop that does not end the
  frame spends gas (\<open>Termination\<close>), and a call gives its child at most the gas it took (\<open>CallGas\<close>); with no
  hooks attached, fuel above the frame's gas is enough, and more fuel never changes a result. The
  size \<open>maxAlloc\<close> that \<open>make\<close> accepts is a parameter; up to \<open>2 ^ 37 - 32\<close> bytes, far above what a
  process gets, the memory price does not wrap, which the results on gas need.

  \<^bold>\<open>What the groups of lemmas show.\<close> The locales \<open>frame_relation\<close> and \<open>message_relation\<close> carry a relation
  between states through every handler, the loop and the messages; they are interpreted for conservation of
  ether, static frames, shapes of stack and memory, and gas. The locale \<open>snapshot_store\<close> is the contract of a store
  with snapshots, interpreted on accounts and on storage; \<open>hook_registry\<close> is what the
  dispatchers rely on. The arithmetic handlers are proved equal to the operations of 256-bit words.
  The locale \<open>lazy_store\<close> adds to \<open>snapshot_store\<close> that entries load when first touched, and shows that the result
  refines the store that holds them all; it is interpreted on the forked accounts and the forked storage. For the fork
  engine's replays the lemmas say what a reconstruction has done when it calls itself exact, for source maps that
  decoding undoes compression. The properties are the theorems of this theory.

  \<^bold>\<open>Not modelled.\<close> The names of opcodes in traces; mutexes, which serialise whole operations;
  \<open>rlpEncodeList\<close>, which nothing calls; HTTP, the clock and the text of JSON below the client of a node, which are a record of functions
  (the fork engine itself takes its provider as a record of functions); the run of a prepared call inside the fork engine, which is an argument
  there because the engine's model keeps its state in memory; the raw document of a syntax node. Of the debug server: HTTP and the
  text of JSON (parameters are decoded JSON values); requests that run at the same time, of which only the one that asks a
  running session to pause matters, and which is a function of the step; the loaders of source bundles (block explorers, files,
  compilers), the ABI decoder and the signature database, which are parameters. And the command line, which sits above these parts.
\<close>

section \<open>Frames\<close>

text \<open>C1: A frame always ends. With no hooks attached and at most \<open>2 ^ 37 - 32\<close> allocatable bytes, fuel
  above the frame's gas yields a result; it reports no more gas than the frame had, and more fuel never
  changes it.\<close>

theorem Run_terminates:
  assumes "maxAlloc L \<le> 2 ^ 37 - 32" "hooks e = None" "unat (gas (gasMeter (state e))) < n"
  shows "\<exists>res err e'. unat (GasRemaining res) \<le> unat (gas (gasMeter (state e))) \<and>
    (\<forall>k. n \<le> k \<longrightarrow> Run L k e code = Some ((res, err), e'))"
proof -
  obtain res err e' where "Run L n e code = Some ((res, err), e')" "unat (GasRemaining res) \<le> gasOf e"
    using Run_result [OF assms] by metis
  then show ?thesis using Run_mono by blast
qed

theorem Run_terminates_witness:
  "\<exists>res err e'. unat (GasRemaining res) \<le> 50000 \<and>
    (\<forall>k. 50001 \<le> k \<longrightarrow> Run sampleLib k sampleEVM [0x5B, 0x60, 0x00, 0x56] = Some ((res, err), e'))"
  using Run_terminates [of sampleLib sampleEVM 50001 "[0x5B, 0x60, 0x00, 0x56]"] by simp

text \<open>C2: The atomicity of messages. Whatever frame a message runs and however deep it calls, when its status
  is not success the accounts and the storage hold again what they held before the message.\<close>

theorem ExecuteMessage_atomic:
  assumes "ExecuteMessage L (Run L n) msg e = Some (Ok (res, err), e')" "Status res \<noteq> StatusSuccess"
    "hooks_respect grow_rel (hooks e)"
  shows "accView (account (state e')) = accView (account (state e)) \<and>
    stoView (storage (state e')) = stoView (storage (state e))"
  using ExecuteMessage_failed [OF assms(1,2,3)] .

theorem ExecuteMessage_atomic_witness:
  "\<exists>res err e'. ExecuteMessage sampleLib (Run sampleLib 1) failingMessage sampleEVM = Some (Ok (res, err), e') \<and>
    Status res = StatusInvalidOpcode \<and> accView (account (state e')) = accView sampleAccounts \<and>
    stoView (storage (state e')) = stoView NewInMemoryStorage"
proof -
  obtain res e' where "ExecuteMessage sampleLib (Run sampleLib 1) failingMessage sampleEVM =
      Some (Ok (res, Some ErrInvalidOpcode), e')" and "Status res = StatusInvalidOpcode"
    using failingMessage_result by blast
  moreover from ExecuteMessage_atomic [OF this(1)] this(2)
  have "accView (account (state e')) = accView sampleAccounts \<and> stoView (storage (state e')) = stoView NewInMemoryStorage"
    by simp
  ultimately show ?thesis by blast
qed

text \<open>C3: A static frame, and everything it calls, leaves every account, every storage slot and the
  transient storage as they were.\<close>

theorem static_Run_changes_nothing:
  assumes "Run L n e code = Some (r, e')" "IsStaticVal (contract (state e))" "hooks_respect static_rel (hooks e)"
  shows "accView (account (state e')) = accView (account (state e)) \<and>
    stoView (storage (state e')) = stoView (storage (state e)) \<and>
    transientStorage (state e') = transientStorage (state e)"
  using static.Run_keeps [OF assms(1,3)] assms(2) by (simp add: static_rel_def)

theorem static_Run_changes_nothing_witness:
  "\<exists>r e'. Run sampleLib 50001 staticEVM [0x60, 0x01, 0x60, 0x01, 0x55] = Some (r, e') \<and>
    accView (account (state e')) = accView (account (state staticEVM)) \<and>
    stoView (storage (state e')) = stoView (storage (state staticEVM)) \<and>
    transientStorage (state e') = transientStorage (state staticEVM)"
proof -
  let ?code = "[0x60, 0x01, 0x60, 0x01, 0x55]"
  obtain res err e' where run: "Run sampleLib 50001 staticEVM ?code = Some ((res, err), e')"
    by (rule Run_result [of sampleLib staticEVM 50001 ?code]) simp_all
  then show ?thesis using static_Run_changes_nothing [OF run] by simp
qed

text \<open>C4: Ether is neither made nor lost by a frame and the messages it sends: the sum of all balances stays,
  no balance becomes negative and an account with a balance exists.\<close>

theorem Run_conserves_ether:
  assumes "Run L n e code = Some (r, e')" "ledger_ok (account (state e))" "hooks_respect money_rel (hooks e)"
  shows "ledger_ok (account (state e')) \<and> etherTotal (account (state e')) = etherTotal (account (state e))"
  using money.Run_keeps [OF assms(1,3)] assms(2) by (simp add: money_rel_def)

theorem Run_conserves_ether_witness:
  "\<exists>r e'. Run sampleLib 50001 sampleEVM [0x30, 0xFF] = Some (r, e') \<and>
    ledger_ok (account (state e')) \<and> etherTotal (account (state e')) = etherTotal sampleAccounts"
proof -
  obtain res err e' where run: "Run sampleLib 50001 sampleEVM [0x30, 0xFF] = Some ((res, err), e')"
    by (rule Run_result [of sampleLib sampleEVM 50001 "[0x30, 0xFF]"]) simp_all
  have "ledger_ok sampleAccounts" by (simp add: ledger_ok_def sampleAccounts_def)
  then show ?thesis using Run_conserves_ether [OF run] run by simp
qed

text \<open>C5: A frame never leaves more than 1024 stack items, its memory is a whole number of words and never
  shrinks.\<close>

theorem Run_keeps_shape:
  assumes "Run L n e code = Some (r, e')" "stack_ok (stack (state e))" "mem_ok (memory (state e))"
    "maxAlloc L < 2 ^ 63" "hooks_respect (shape_rel L) (hooks e)"
  shows "length (stack (state e')) \<le> 1024 \<and> length (memory (state e')) mod 32 = 0 \<and>
    length (memory (state e)) \<le> length (memory (state e'))"
  using shape.Run_keeps [OF assms(1,5)] assms(2-4) by (simp add: shape_rel_def stack_ok_def mem_ok_def maxStackSize_def)

theorem Run_keeps_shape_witness:
  "\<exists>r e'. Run sampleLib 50001 sampleEVM [0x60, 0x01, 0x60, 0x40, 0x52] = Some (r, e') \<and>
    length (stack (state e')) \<le> 1024 \<and> length (memory (state e')) mod 32 = 0"
proof -
  let ?code = "[0x60, 0x01, 0x60, 0x40, 0x52]"
  obtain res err e' where run: "Run sampleLib 50001 sampleEVM ?code = Some ((res, err), e')"
    by (rule Run_result [of sampleLib sampleEVM 50001 ?code]) simp_all
  then show ?thesis using Run_keeps_shape [OF run] by (simp add: stack_ok_def)
qed

text \<open>A frame that neither succeeds nor reverts reports no remaining gas: all of it is spent.\<close>

theorem failed_frames_keep_no_gas:
  assumes "Run L n e code = Some ((res, err), e')"
  shows "Status res \<in> {StatusSuccess, StatusRevert} \<or> GasRemaining res = 0"
  using Run_gasSpent [OF assms] by (auto simp: gasSpent_def)

theorem failed_frames_keep_no_gas_witness:
  "\<exists>res err e'. Run sampleLib 50001 sampleEVM [0xFE] = Some ((res, err), e') \<and>
    (Status res \<in> {StatusSuccess, StatusRevert} \<or> GasRemaining res = 0)"
proof -
  obtain res err e' where run: "Run sampleLib 50001 sampleEVM [0xFE] = Some ((res, err), e')"
    by (rule Run_result [of sampleLib sampleEVM 50001 "[0xFE]"]) simp_all
  then show ?thesis using failed_frames_keep_no_gas [OF run] by blast
qed

text \<open>C7: CALL, CALLCODE, DELEGATECALL and STATICCALL always return, never leave the frame with more gas than it
  had before the instruction, and with strictly less when they complete.\<close>

theorem calls_create_no_gas:
  fixes e :: "'h EVM"
  assumes "maxAlloc L \<le> 2 ^ 37 - 32" "hooks e = None" "gasOf e \<le> n"
  shows "\<exists>r e'. opCallCommon L (ExecuteMessage L (Run L n)) kind e = Some (r, e') \<and> gasOf e' \<le> gasOf e \<and>
    (r = Ok () \<longrightarrow> gasOf e' < gasOf e)"
proof -
  have "call_gas_ok n (ExecuteMessage L (Run L n) :: 'h caller)"
    unfolding call_gas_ok_def by (intro allI impI ExecuteMessage_result [OF assms(1)])
  from opCallCommon_gas [OF this assms(3,2,1)] show ?thesis by (fastforce simp: spends_def elim: wpE)
qed

theorem calls_create_no_gas_witness:
  "\<exists>r e'. opCallCommon sampleLib (ExecuteMessage sampleLib (Run sampleLib 50000)) CallKindDelegateCall sampleEVM = Some (r, e') \<and>
    gasOf e' \<le> 50000 \<and> (r = Ok () \<longrightarrow> gasOf e' < 50000)"
  using calls_create_no_gas [of sampleLib sampleEVM 50000 CallKindDelegateCall] by simp

text \<open>The gas a call may pass on is what it asks for, capped at all but a 64th of what is available.\<close>

theorem all_but_one_64th:
  "unat (callGas available requested) = min (unat requested) (unat available - unat available div 64)"
proof -
  have "unat (available - available div 64) = unat available - unat available div 64"
    by (subst unat_sub_le) (simp_all add: unat_le_nat unat_div)
  then show ?thesis by (auto simp: callGas_def maxMessageCallGas_def Let_def unat_lt_nat)
qed

section \<open>Control flow\<close>

text \<open>C10: The jump-destination analysis marks exactly the JUMPDEST bytes at which an instruction starts, the
  operand bytes of PUSH1 to PUSH32 being skipped.\<close>

theorem jumpdest_analysis:
  "analyzeJumpdests code = map (\<lambda>j. isBoundary code j \<and> code ! j = 0x5B) [0..<length code]"
  by (rule nth_equalityI) (simp_all add: analyzeJumpdests_iff)

text \<open>C8: With no hooks attached, the program counter of a frame is at the start of an instruction (or at the
  end of the code) after any number of iterations of the loop: operand bytes never run as code.\<close>

theorem frames_stay_on_boundaries:
  assumes "frameReach L (ExecuteMessage L run) code e e'" "hooks e = None" "length code < 2 ^ 63"
    "pc e = 0" "jumpdests e = analyzeJumpdests code"
  shows "isBoundary code (unat (pc e'))"
  using frameReach_boundary [OF assms(1) still_ExecuteMessage assms(2-)] ..

theorem frames_stay_on_boundaries_witness:
  "\<exists>e'. frameReach sampleLib (ExecuteMessage sampleLib (Run sampleLib 0)) [0x5B] jumpdestEVM e' \<and>
    pc e' = 1 \<and> isBoundary [0x5B] (unat (pc e'))"
proof -
  let ?call = "ExecuteMessage sampleLib (Run sampleLib 0)"
  obtain e' where it: "loopIter sampleLib ?call [0x5B] jumpdestEVM = Some (Ok None, e')" "pc e' = 1"
    using loopIter_jumpdest by blast
  have reach: "frameReach sampleLib ?call [0x5B] jumpdestEVM e'"
    by (rule frameReach.again [OF frameReach.start it(1)])
  then show ?thesis using it(2) frames_stay_on_boundaries [OF reach] by (auto simp: jumpdestEVM_def)
qed

section \<open>Instructions\<close>

text \<open>C11: The arithmetic handlers, written over unbounded integers, compute the 256-bit operations: wrap-around
  sum, difference, product and power, division with quotient 0 for divisor 0, signed division towards zero,
  the modular operations over the unbounded sum and product, and sign extension. Each takes its operands, pushes the
  result, steps the program counter and changes nothing else, and underflows on a short stack.\<close>

theorem arithmetic_handlers:
  "computes2 opAdd (+) \<and> computes2 opSub (-) \<and> computes2 opMul (*) \<and> computes2 opDiv (div) \<and>
   computes2 opMod (\<lambda>x y. if y = 0 then 0 else x mod y) \<and>
   computes2 opSdiv (\<lambda>x y. word_of_int (sint x sdiv sint y)) \<and>
   computes2 opSmod (\<lambda>x y. if y = 0 then 0 else word_of_int (sint x smod sint y)) \<and>
   computes3 opAddmod (\<lambda>x y z. if z = 0 then 0 else word_of_int ((uint x + uint y) mod uint z)) \<and>
   computes3 opMulmod (\<lambda>x y z. if z = 0 then 0 else word_of_int ((uint x * uint y) mod uint z)) \<and>
   computes2 opExp (\<lambda>b n. b ^ unat n) \<and>
   computes2 opSignextend (\<lambda>k x. if unat k > 31 then x
     else word_of_int (signed_take_bit (unat k * 8 + 7) (uint x)))"
  by (intro conjI opAdd_computes opSub_computes opMul_computes opDiv_computes opMod_computes opSdiv_computes
      opSmod_computes opAddmod_computes opMulmod_computes opExp_computes
      opSignextend_computes [unfolded signextend_spec_def [abs_def]])

text \<open>The comparison handlers compute the unsigned and signed orders and equality, as 0 or 1.\<close>

theorem comparison_handlers:
  "computes2 opLt (\<lambda>x y. of_bool (x < y)) \<and> computes2 opGt (\<lambda>x y. of_bool (x > y)) \<and>
   computes2 opSlt (\<lambda>x y. of_bool (x <s y)) \<and> computes2 opSgt (\<lambda>x y. of_bool (y <s x)) \<and>
   computes2 opEq (\<lambda>x y. of_bool (x = y)) \<and> computes1 opIszero (\<lambda>x. of_bool (x = 0))"
  by (intro conjI opLt_computes opGt_computes opSlt_computes opSgt_computes opEq_computes opIszero_computes)

text \<open>C12: The bitwise handlers compute the operations of 256-bit words: shifts by 256 or more give 0 (or all
  sign bits), BYTE counts from the most significant byte, and CLZ is the number of leading zero bits.\<close>

theorem bitwise_handlers:
  "computes2 opAnd (AND) \<and> computes2 opOr (OR) \<and> computes2 opXor (XOR) \<and> computes1 opNot (NOT) \<and>
   computes2 opByte (\<lambda>n x. if unat n < 32 then word_of_int (uint x div 256 ^ (31 - unat n) mod 256) else 0) \<and>
   computes2 opShl (\<lambda>n x. push_bit (unat n) x) \<and> computes2 opShr (\<lambda>n x. drop_bit (unat n) x) \<and>
   computes2 opSar (\<lambda>n x. signed_drop_bit (unat n) x) \<and>
   computes1 opClz (\<lambda>x. of_nat (length (takeWhile Not (rev (map (bit x) [0..<256])))))"
  by (intro conjI opAnd_computes opOr_computes opXor_computes opNot_computes opByte_computes opShl_computes
      opShr_computes opSar_computes opClz_leading)

section \<open>Memory\<close>

text \<open>Up to \<open>2 ^ 37 - 32\<close> bytes the price of a memory of \<open>n\<close> bytes is three gas per word plus the square of
  the words divided by 512; nothing wraps.\<close>

theorem memory_price:
  assumes "unat n \<le> 2 ^ 37 - 32"
  shows "unat (MemoryGasCost n) = 3 * ((unat n + 31) div 32) + ((unat n + 31) div 32)\<^sup>2 div 512"
  using MemoryGasCost_exact [OF assms] by (simp add: mem_cost_def mem_words_def power2_eq_square)

theorem memory_price_witness: "unat (MemoryGasCost 32768) = 5120"
  using memory_price [of 32768] by simp

text \<open>C16: In the same range, \<open>ExpandSize\<close> returns the size the memory needs, in whole words, and the difference
  of the prices of the new and the old size.\<close>

theorem expansion_price:
  assumes "mem_ok m" "sz \<noteq> 0" "unat offset + unat sz \<le> 2 ^ 37 - 32" "length m \<le> 2 ^ 37 - 32"
    "ExpandSize offset sz m = (price, newSize)"
  shows "unat newSize = max (length m) (mem_words (unat offset + unat sz) * 32) \<and>
    unat price = mem_cost (unat newSize div 32) - mem_cost (length m div 32)"
proof -
  let ?stop = "offset + sz"
  have e: "unat ?stop = unat offset + unat sz" using assms(3) by (subst unat_add_no_wrap) simp_all
  have c: "unat (ceil32 ?stop) = mem_words (unat offset + unat sz) * 32"
    using assms(3) by (simp add: unat_ceil32_nat e mem_words_def)
  have u: "unat (ulen m) = length m" using assms(1) by (rule mem_ok_ulen)
  have nw: "\<not> ?stop < offset" by (simp add: unat_lt_nat e)
  show ?thesis
  proof (cases "ceil32 ?stop > ulen m")
    case True
    then have big: "length m < mem_words (unat offset + unat sz) * 32" by (simp add: unat_lt_nat u c)
    have res: "newSize = ceil32 ?stop" "price = MemoryGasCost (ceil32 ?stop) - MemoryGasCost (ulen m)"
      using assms(2,5) nw True by (auto simp: ExpandSize_def Let_def MemoryExpansionGas_def)
    have "mem_words (unat offset + unat sz) * 32 \<le> 2 ^ 37 - 32"
      using assms(3) by (simp add: mem_words_def)
    then have new: "unat (MemoryGasCost (ceil32 ?stop)) = mem_cost (mem_words (unat offset + unat sz))"
      by (subst MemoryGasCost_exact) (simp_all add: c mem_words_def)
    have len: "mem_words (length m) = length m div 32"
      using assms(1) by (auto simp: mem_words_def mem_ok_def)
    have old: "unat (MemoryGasCost (ulen m)) = mem_cost (length m div 32)"
      using assms(4) by (subst MemoryGasCost_exact) (simp_all add: u len)
    have "mem_cost (length m div 32) \<le> mem_cost (mem_words (unat offset + unat sz))"
      using big by (intro mem_cost_mono) simp
    then show ?thesis using big by (simp add: res c unat_sub_le unat_le_nat new old)
  next
    case False
    then have "newSize = ulen m" "price = 0"
      using assms(2,5) nw by (auto simp: ExpandSize_def Let_def)
    with False show ?thesis by (simp add: u c unat_lt_nat)
  qed
qed

theorem expansion_price_witness:
  "\<exists>price newSize. ExpandSize 70 10 (replicate 64 0) = (price, newSize) \<and> unat newSize = 96 \<and> unat price = 3"
proof -
  obtain price newSize where ex: "ExpandSize 70 10 (replicate 64 0) = (price, newSize)" by (metis surj_pair)
  have ok: "mem_ok (replicate 64 0)" by (simp add: mem_ok_def)
  from expansion_price [OF ok _ _ _ ex] ex show ?thesis by (simp add: mem_words_def mem_cost_def)
qed

text \<open>An access that ends in the last 32 bytes of the 64-bit range is free: the rounding of its end wraps
  to 0 and no expansion is charged.\<close>

theorem expansion_price_wraps:
  assumes "sz \<noteq> 0" "2 ^ 64 - 32 < unat offset + unat sz" "unat offset + unat sz < 2 ^ 64"
  shows "ExpandSize offset sz m = (0, ulen m)"
proof -
  have e: "unat (offset + sz) = unat offset + unat sz" using assms(3) by (subst unat_add_no_wrap) simp_all
  have "ceil32 (offset + sz) = 0" by (rule ceil32_wraps) (use assms(2) e in simp)
  then show ?thesis using assms(1) e by (simp add: ExpandSize_def Let_def unat_lt_nat)
qed

theorem expansion_price_wraps_witness: "ExpandSize 18446744073709551600 10 [] = (0, 0)"
  using expansion_price_wraps [of 10 18446744073709551600 "[]"] by simp

text \<open>C15: What is written to memory is read back, and every other byte keeps its value.\<close>

theorem memory_roundtrip:
  assumes "MemSet lim off dat m = Ok m'" "mem_ok m" "lim < 2 ^ 63" "dat \<noteq> []"
    "unat off + length dat \<le> 2 ^ 64 - 32"
  shows "MemGet lim off (ulen dat) m' = Ok dat \<and>
    (\<forall>i. \<not> (unat off \<le> i \<and> i < unat off + length dat) \<longrightarrow> mem_at m' i = mem_at m i)"
proof -
  note set = MemSet_Ok [OF assms]
  have ud: "unat (ulen dat) = length dat" using assms(5) by (intro unat_ulen) simp
  have um: "unat (ulen m') = length m'" using set(1) by (rule mem_ok_ulen)
  have e: "unat (off + ulen dat) = unat off + length dat"
    using assms(5) by (subst unat_add_no_wrap) (simp_all add: ud)
  have "unat off < length m'" using set(3) assms(4) by (cases dat) simp_all
  then have in_bounds: "\<not> off \<ge> ulen m'" "\<not> off + ulen dat > ulen m'" "ulen dat \<noteq> 0" "off \<le> off + ulen dat"
    using set(3) ud assms(4) by (auto simp: unat_le_nat unat_lt_nat um e)
  have "\<exists>bs. MemGet lim off (ulen dat) m' = Ok bs"
    using in_bounds set(3) by (simp add: MemGet_def Let_def goslice_def e)
  then obtain bs where bs: "MemGet lim off (ulen dat) m' = Ok bs" by blast
  have "bs = map (mem_at m') [unat off ..< unat off + length dat]"
    using MemGet_Ok [OF bs set(1)] assms(5) ud by simp
  also have "\<dots> = dat" by (rule nth_equalityI) (simp_all add: set(4))
  finally show ?thesis using bs set(4) by auto
qed

theorem memory_roundtrip_witness:
  "\<exists>m'. MemSet 1000 5 [1, 2, 3] [] = Ok m' \<and> MemGet 1000 5 3 m' = Ok [1, 2, 3]"
proof -
  have "\<exists>m'. MemSet 1000 5 [1, 2, 3] [] = Ok m'"
    by (simp add: MemSet_def MemResize_def ceil32_def make_bytes_def gocopy_at_def Let_def)
  then obtain m' where "MemSet 1000 5 [1, 2, 3] [] = Ok m'" by blast
  with memory_roundtrip [OF this] show ?thesis by simp
qed

section \<open>World state\<close>

text \<open>C14: After any sequence of writes to storage, a slot reads as its last write, and its original value is the
  one it had before its first write in the transaction.\<close>

theorem storage_writes:
  fixes ws :: "(Address \<times> Hash \<times> Hash) list"
  defines "run \<equiv> fold (\<lambda>(a, k, v). StorageSet a k v)" and "here a k \<equiv> filter (\<lambda>(b, j, v). b = a \<and> j = k)"
  assumes "inner (stoOriginal s) a k = None"
  shows "StorageGet a k (run ws s) = (if here a k ws = [] then StorageGet a k s else snd (snd (last (here a k ws)))) \<and>
    StorageOriginal a k (run ws s) = (if here a k ws = [] then 0 else StorageGet a k s)"
proof -
  have "StorageGet a k (run ws s) = (if here a k ws = [] then StorageGet a k s else snd (snd (last (here a k ws)))) \<and>
    StorageOriginal a k (run ws s) = (if here a k ws = [] then 0 else StorageGet a k s) \<and>
    (inner (stoOriginal (run ws s)) a k = None \<longleftrightarrow> here a k ws = [])"
  proof (induction ws rule: rev_induct)
    case Nil
    have "StorageOriginal a k s = 0"
      using assms(3) by (simp add: StorageOriginal_def get2_def inner_def mget_def split: option.splits)
    then show ?case using assms(3) by (simp add: run_def here_def)
  next
    case (snoc w ws)
    obtain b j v where w: "w = (b, j, v)" by (metis surj_pair)
    have r: "run (ws @ [w]) s = StorageSet b j v (run ws s)" by (simp add: run_def w)
    show ?case
      using snoc.IH unfolding r
      by (auto simp: StorageGet_Set StorageOriginal_Set inner_StorageSet here_def w)
  qed
  then show ?thesis by blast
qed

theorem storage_writes_witness:
  "StorageGet 1 5 (fold (\<lambda>(a, k, v). StorageSet a k v) [(1, 5, 7), (1, 6, 8), (1, 5, 9)] NewInMemoryStorage) = 9 \<and>
   StorageOriginal 1 5 (fold (\<lambda>(a, k, v). StorageSet a k v) [(1, 5, 7), (1, 6, 8), (1, 5, 9)] NewInMemoryStorage) = 0"
proof -
  have new: "inner (stoOriginal NewInMemoryStorage) 1 5 = None"
    by (simp add: NewInMemoryStorage_def inner_def)
  have old: "StorageGet 1 5 NewInMemoryStorage = 0" by (simp add: NewInMemoryStorage_def StorageGet_def)
  show ?thesis using storage_writes [OF new, of "[(1, 5, 7), (1, 6, 8), (1, 5, 9)]"] old by simp
qed

text \<open>C13: Reverting accounts or storage to a snapshot restores what they held when it was taken, whatever was
  written and however many snapshots were taken since, and forgets the later snapshots.\<close>

theorem revert_restores:
  assumes "prefix (snapshots (snd (accSnapshot s))) (snapshots t)"
    "prefix (stoSnapshots (snd (stoSnapshot u))) (stoSnapshots v)"
  shows "accView (accRevertToSnapshot (fst (accSnapshot s)) t) = accView s \<and>
    snapshots (accRevertToSnapshot (fst (accSnapshot s)) t) = snapshots s \<and>
    stoView (stoRevertToSnapshot (fst (stoSnapshot u)) v) = stoView u \<and>
    stoSnapshots (stoRevertToSnapshot (fst (stoSnapshot u)) v) = stoSnapshots u"
  using acc.revert_snap [OF assms(1)] sto.revert_snap [OF assms(2)] by simp

theorem revert_restores_witness:
  "accView (accRevertToSnapshot 0 (snd (accSnapshot (AddBalance 1 9 (snd (accSnapshot sampleAccounts)))))) =
     accView sampleAccounts \<and>
   stoView (stoRevertToSnapshot 0 (StorageSet 1 2 3 (snd (stoSnapshot NewInMemoryStorage)))) = stoView NewInMemoryStorage"
proof -
  have empty: "snapshots sampleAccounts = []" "stoSnapshots NewInMemoryStorage = []"
    by (simp_all add: sampleAccounts_def NewInMemoryAccountState_def NewInMemoryStorage_def)
  have ids: "fst (accSnapshot sampleAccounts) = 0" "fst (stoSnapshot NewInMemoryStorage) = 0"
    by (simp_all add: acc.snap_id sto.snap_id empty)
  show ?thesis
    using revert_restores [of sampleAccounts "snd (accSnapshot (AddBalance 1 9 (snd (accSnapshot sampleAccounts))))"
        NewInMemoryStorage "StorageSet 1 2 3 (snd (stoSnapshot NewInMemoryStorage))"]
    by (simp add: ids acc.snap_saved)
qed

section \<open>Runs\<close>

text \<open>C6: A run from a configuration is refused with an error, or returns a result whose used and remaining gas
  add up to the gas limit.\<close>

theorem EngineRun_accounts_for_gas:
  assumes "maxAlloc L \<le> 2 ^ 37 - 32" "cHooks conf = None" "unat (cGasLimit conf) < n"
  shows "case ValidateConfig conf of
      Some err \<Rightarrow> EngineRun L C n conf = Some ((None, Some err), None)
    | None \<Rightarrow> \<exists>res err s. EngineRun L C n conf = Some ((Some res, err), Some s) \<and>
        unat (GasUsed res) + unat (GasRemaining res) = unat (cGasLimit conf)"
proof (cases "ValidateConfig conf")
  case None
  obtain res err s where "EngineRun L C n conf = Some ((Some res, err), Some s)"
    "unat (GasUsed res) + unat (GasRemaining res) = unat (cGasLimit conf)"
    by (rule EngineRun_result [OF assms None])
  then show ?thesis by (simp add: None)
qed (simp add: EngineRun_def)

theorem EngineRun_accounts_for_gas_witness:
  "\<exists>res err s. EngineRun sampleLib sampleCrypto 50001 sampleConfig = Some ((Some res, err), Some s) \<and>
    unat (GasUsed res) + unat (GasRemaining res) = 50000"
  using EngineRun_accounts_for_gas [of sampleLib sampleConfig 50001 sampleCrypto]
  by (simp add: sampleConfig_def ValidateConfig_def)

text \<open>C9: A run that carries value and does not succeed leaves the storage as it was, and every balance but the
  coinbase's, which pays the burnt base fee.\<close>

theorem EngineRun_restores:
  assumes "EngineRun L C n conf = Some ((Some res, err), Some s')" "Status res \<noteq> StatusSuccess"
    "hooks_respect grow_rel (cHooks conf)" "cValue conf = Some v" "v \<noteq> 0" "cCaller conf \<noteq> cContractAddress conf"
  shows "stoView (storage s') = stoView (orElse (cStorage conf) NewInMemoryStorage) \<and>
    ((\<forall>b. cBlockContext conf = Some b \<longrightarrow> a \<noteq> CoinbaseVal b) \<longrightarrow>
      Balance a (account s') = Balance a (orElse (cState conf) NewInMemoryAccountState))"
  using EngineRun_rolls_back [OF assms] by blast

theorem EngineRun_restores_witness:
  "\<exists>res s. EngineRun sampleLib sampleCrypto 1 failingConfig = Some ((Some res, Some ErrInvalidOpcode), Some s) \<and>
    stoView (storage s) = stoView NewInMemoryStorage \<and> Balance 2 (account s) = 70"
proof -
  obtain res s where run: "EngineRun sampleLib sampleCrypto 1 failingConfig = Some ((Some res, Some ErrInvalidOpcode), Some s)"
    and st: "Status res = StatusInvalidOpcode"
    using failingConfig_result by blast
  have conf: "cHooks failingConfig = None" "cValue failingConfig = Some 20" "cCaller failingConfig = 2"
    "cContractAddress failingConfig = 1" "cBlockContext failingConfig = None" "cStorage failingConfig = None"
    "cState failingConfig = Some sampleAccounts"
    by (simp_all add: failingConfig_def sampleConfig_def)
  from EngineRun_restores [OF run, of 20 2] st run conf show ?thesis by (simp add: orElse_def sampleAccounts_def)
qed

text \<open>A run that carries no value takes no snapshot, so that what a failed run wrote to accounts and storage
  stays: the outcome is that of the frame, less the burnt fee.\<close>

theorem EngineRun_valueless_keeps_effects:
  assumes "ValidateConfig conf = None" "cValue conf = None \<or> cValue conf = Some 0"
  shows "EngineRun L C n conf =
    (case runWithConfig L C n conf (NewState L C conf) of
       None \<Rightarrow> None
     | Some ((res, err), s) \<Rightarrow> Some ((Some res, err), Some (applyBaseFeeBurn conf res s)))"
  using assms by (auto simp: EngineRun_def applyTopLevelCallValue_def revertTopLevelCallValue_def split: option.splits)

theorem EngineRun_valueless_keeps_effects_witness:
  "EngineRun sampleLib sampleCrypto 9 (sampleConfig\<lparr>cValue := None\<rparr>) =
    (case runWithConfig sampleLib sampleCrypto 9 (sampleConfig\<lparr>cValue := None\<rparr>)
        (NewState sampleLib sampleCrypto (sampleConfig\<lparr>cValue := None\<rparr>)) of
       None \<Rightarrow> None
     | Some ((res, err), s) \<Rightarrow>
         Some ((Some res, err), Some (applyBaseFeeBurn (sampleConfig\<lparr>cValue := None\<rparr>) res s)))"
  by (rule EngineRun_valueless_keeps_effects) (simp_all add: sampleConfig_def ValidateConfig_def)

text \<open>The addresses that are warm when a run starts: those of the access list it was given, the origin, the
  caller and the contract, the coinbase from Shanghai on, the precompiles in force and the addresses of the configuration.\<close>

theorem initial_warm_set:
  assumes "case cPrecompiles conf of None \<Rightarrow> True | Some r \<Rightarrow> finite (dom r)"
  shows "IsAddressWarmed a (accessList (NewState L C conf)) \<longleftrightarrow>
    IsAddressWarmed a (orElse (cAccessList conf) NewSimpleAccessList) \<or>
    a \<in> {cOrigin conf, cCaller conf, cContractAddress conf} \<or>
    (\<exists>b. cBlockContext conf = Some b \<and> forkGTE (cFork conf) ForkShanghai \<and> a = CoinbaseVal b) \<or>
    a \<in> dom (registryFor L C (cFork conf) (cPrecompiles conf)) \<or> a \<in> set (cWarmAddresses conf)"
  by (rule warm_NewState [OF assms])

theorem initial_warm_set_witness:
  "IsAddressWarmed 7 (accessList (NewState sampleLib sampleCrypto sampleConfig)) \<and>
   \<not> IsAddressWarmed 8 (accessList (NewState sampleLib sampleCrypto sampleConfig))"
  using initial_warm_set [of sampleConfig 7 sampleLib sampleCrypto] initial_warm_set [of sampleConfig 8 sampleLib sampleCrypto]
  by (simp add: sampleConfig_def orElse_def registryFor_def IsAddressWarmed_def NewSimpleAccessList_def)

text \<open>The precompiles in force: addresses 1 to 9, the point evaluation from Cancun on, and P-256 from
  Amsterdam on.\<close>

theorem mainnet_precompiles:
  "dom (MainnetPrecompilesForFork L C f) =
     {1, 2, 3, 4, 5, 6, 7, 8, 9} \<union> (if forkGTE f ForkCancun then {0x0A} else {}) \<union>
     (if forkGTE f ForkAmsterdam then {0x100} else {})"
  by (rule Mainnet_dom)

text \<open>C17: A precompile that returns uses up or returns all the gas of its message, succeeds exactly when it
  reports no error, and on success charges what it asked for and returns what it computed.\<close>

theorem precompile_charges:
  assumes "executePrecompileMessage f msg p = Ok (res, err)"
  shows "unat (GasUsed res) + unat (GasRemaining res) = unat (msgGas msg) \<and>
    (Status res = StatusSuccess \<longleftrightarrow> err = None) \<and>
    (err = None \<longrightarrow> preRequiredGas p (msgInput msg) f = Ok (GasUsed res) \<and> preRun p (msgInput msg) f = Ok (ReturnData res))"
  using executePrecompile_balanced [OF assms] assms
  by (auto simp: executePrecompileMessage_def split: outcome.splits if_splits)

theorem precompile_charges_witness:
  "\<exists>res err. executePrecompileMessage ForkCancun sampleMessage (dynamicGasPrecompile gasIdentity runIdentity) = Ok (res, err) \<and>
    unat (GasUsed res) + unat (GasRemaining res) = 1000 \<and> (Status res = StatusSuccess \<longleftrightarrow> err = None)"
proof -
  have "\<exists>res err. executePrecompileMessage ForkCancun sampleMessage (dynamicGasPrecompile gasIdentity runIdentity) = Ok (res, err)"
    by (simp add: executePrecompileMessage_def dynamicGasPrecompile_def gasIdentity_def runIdentity_def)
  then obtain res err where
    ex: "executePrecompileMessage ForkCancun sampleMessage (dynamicGasPrecompile gasIdentity runIdentity) = Ok (res, err)" by blast
  have "unat (msgGas sampleMessage) = 1000" by (simp add: sampleMessage_def)
  then show ?thesis using precompile_charges [OF ex] ex by auto
qed

section \<open>Hooks and breakpoints\<close>

text \<open>Hooks registered under distinct identifiers fire, for each type, in the order of their registration,
  and removing one keeps the order of the others.\<close>

theorem hooks_in_order:
  assumes "distinct (map hookID hs)"
  shows "HooksFor t (fold (\<lambda>h r. fst (Register h r)) hs NewSimpleHookRegistry) = filter (\<lambda>h. hookType h = t) hs \<and>
    HooksFor t (fst (Unregister i (fold (\<lambda>h r. fst (Register h r)) hs NewSimpleHookRegistry))) =
      filter (\<lambda>h. hookType h = t \<and> hookID h \<noteq> i) hs"
proof -
  let ?run = "\<lambda>hs. fold (\<lambda>h r. fst (Register h r)) hs NewSimpleHookRegistry"
  note run = registered_hooks [OF assms]
  have "HooksFor t (fst (Unregister i (?run hs))) = filter (\<lambda>h. hookID h \<noteq> i) (HooksFor t (?run hs))"
  proof (cases "\<exists>t. \<exists>k\<in>set (HooksFor t (?run hs)). hookID k = i")
    case True
    then show ?thesis using reg.unregister_known [of "?run hs" i t] run by blast
  next
    case False
    then have "\<forall>t. \<forall>k\<in>set (HooksFor t (?run hs)). hookID k \<noteq> i" by blast
    moreover from this have "filter (\<lambda>h. hookID h \<noteq> i) (HooksFor t (?run hs)) = HooksFor t (?run hs)"
      by (intro filter_True) blast
    ultimately show ?thesis using reg.unregister_unknown [of "?run hs" i] run by simp
  qed
  then show ?thesis using run by (simp add: conj_commute)
qed

theorem hooks_in_order_witness:
  "map hookID (HooksFor HookTypeOpcode (fst (Unregister ''b''
     (fold (\<lambda>h r. fst (Register h r)) [sampleHook ''a'', sampleHook ''b'', sampleHook ''c''] NewSimpleHookRegistry)))) =
   [''a'', ''c'']"
  using hooks_in_order [of "[sampleHook ''a'', sampleHook ''b'', sampleHook ''c'']" HookTypeOpcode "''b''"]
  by (simp add: sampleHook_def)

text \<open>A condition matches a state when all its filters do; a filter left at its neutral value matches
  everything, and the filters for opcodes and slots only look at events that have one.\<close>

theorem breakpoint_match:
  fixes st :: "'h evmState"
  shows "Match bc ctx st \<longleftrightarrow>
     (MinGas bc = 0 \<or> MinGas bc \<le> gas (gasMeter st)) \<and> (MaxGas bc = 0 \<or> gas (gasMeter st) \<le> MaxGas bc) \<and>
     (MinDepth bc \<le> 0 \<or> MinDepth bc \<le> callDepth st) \<and> (MaxDepth bc < 0 \<or> callDepth st \<le> MaxDepth bc) \<and>
     (case ctxOpcode ctx of None \<Rightarrow> True | Some x \<Rightarrow> OpFilter bc = [] \<or> oiOp x \<in> set (OpFilter bc)) \<and>
     (AddrFilter bc = [] \<or> AddressVal (contract st) \<in> set (AddrFilter bc)) \<and>
     (case ctxStorage ctx of None \<Rightarrow> True | Some x \<Rightarrow> SlotFilter bc = [] \<or> saSlot x \<in> set (SlotFilter bc)) \<and>
     (case Custom bc of None \<Rightarrow> True | Some c \<Rightarrow> c ctx st)"
  unfolding Match_iff by (simp split: option.splits)

text \<open>A breakpoint on opcodes without handler and condition ends the frame before the instruction runs, with
  status halt and the state it had.\<close>

theorem breakpoint_stops:
  assumes "hooks e = Some f" "f (hookState (state e)) HookTypeOpcode = breakpointHook b # hs"
    "bpOnHit b = None" "bpCondition b = None"
  shows "\<exists>res err. hookStep L call code opc g c e = Some (Ok (Some (res, Some err)), e) \<and> Status res = StatusHalt"
  by (rule hookStep_breakpoint [OF assms])

theorem breakpoint_stops_witness:
  "\<exists>res err. hookStep sampleLib (ExecuteMessage sampleLib (Run sampleLib 0)) [0x5B] 0x5B 50000 1
      (SetHooks (Some (\<lambda>_ _. [breakpointHook (sampleBreakpoint HookTypeOpcode)])) sampleEVM) =
    Some (Ok (Some (res, Some err)), SetHooks (Some (\<lambda>_ _. [breakpointHook (sampleBreakpoint HookTypeOpcode)])) sampleEVM) \<and>
    Status res = StatusHalt"
  by (rule breakpoint_stops [where b = "sampleBreakpoint HookTypeOpcode" and hs = "[]"
      and f = "\<lambda>_ _. [breakpointHook (sampleBreakpoint HookTypeOpcode)]"]) (simp_all add: SetHooks_def sampleBreakpoint_def)

text \<open>Setting a breakpoint whose identifier is taken reports an error, and yet replaces the breakpoint the
  manager lists while the old one keeps firing.\<close>

theorem taken_breakpoint_diverges:
  assumes "manager_ok bm" "bmBreakpoints bm (bpID bp) = Some old"
  shows "snd (SetBreakpoint bp bm) \<noteq> None \<and> bmBreakpoints (fst (SetBreakpoint bp bm)) (bpID bp) = Some bp \<and>
    regHooks (bmRegistry (fst (SetBreakpoint bp bm))) (bpID bp) = Some (breakpointHook old)"
  using SetBreakpoint_taken [OF assms] assms by (simp add: manager_ok_def)

theorem taken_breakpoint_diverges_witness:
  "snd (SetBreakpoint (sampleBreakpoint HookTypeStep) sampleManager) \<noteq> None \<and>
   bmBreakpoints (fst (SetBreakpoint (sampleBreakpoint HookTypeStep) sampleManager)) ''b'' = Some (sampleBreakpoint HookTypeStep) \<and>
   regHooks (bmRegistry (fst (SetBreakpoint (sampleBreakpoint HookTypeStep) sampleManager))) ''b'' =
     Some (breakpointHook (sampleBreakpoint HookTypeOpcode))"
  using taken_breakpoint_diverges [of sampleManager "sampleBreakpoint HookTypeStep" "sampleBreakpoint HookTypeOpcode"]
    sampleManager_ok by (simp add: sampleBreakpoint_def)

section \<open>Fork engine\<close>

text \<open>C18: The forked accounts refine an in-memory state: over a provider that answers, any sequence of reads,
  writes, snapshots and reverts returns what it returns on the in-memory state that holds all accounts of the remote
  from the start, whatever was loaded when and whatever a revert made the state forget.\<close>

theorem fork_accounts_refine:
  assumes "\<forall>p\<in>set ps. \<forall>a. accAddr p = Some a \<longrightarrow> (\<exists>snap. remoteAccount K P cr sr c a = Inr snap)"
  shows "fst (faRun K P ps (newForkAccountState cr sr) c) =
    Ok (fst (memRun K ps (preloaded K (answered \<circ> remoteAccount K P cr sr c))))"
proof -
  have "sameRemote K P (remoteAccount K P cr sr c) (newForkAccountState cr sr) c"
    by (simp add: sameRemote_def newForkAccountState_def)
  from faRun_ok [OF accRel_new this assms] show ?thesis by auto
qed

theorem fork_accounts_refine_witness:
  "fst (faRun sampleHash sampleProvider [AccSnap, AccWrite (WrAddBalance 5) 1, AccRead RdBalance 1, AccRevert 0, AccRead RdBalance 1]
      (newForkAccountState LatestBlock LatestBlock) NewMemoryStore) =
    Ok (fst (memRun sampleHash [AccSnap, AccWrite (WrAddBalance 5) 1, AccRead RdBalance 1, AccRevert 0, AccRead RdBalance 1]
      (preloaded sampleHash (answered \<circ> remoteAccount sampleHash sampleProvider LatestBlock LatestBlock NewMemoryStore))))"
  by (rule fork_accounts_refine) (simp add: sample_remote)

text \<open>C19: The forked storage refines an in-memory storage in the same sense, original values included.\<close>

theorem fork_storage_refine:
  assumes "\<forall>p\<in>set ps. \<forall>k. stoKey p = Some k \<longrightarrow> (\<exists>v. remoteSlot P cr sr c k = Inr v)"
  shows "fst (fsRun P ps (newForkStorage cr sr) c) =
    Ok (fst (memStoRun ps (preloadedSlots (answeredSlot \<circ> remoteSlot P cr sr c))))"
proof -
  have "sameSlots P (remoteSlot P cr sr c) (newForkStorage cr sr) c"
    by (simp add: sameSlots_def newForkStorage_def)
  from fsRun_ok [OF stoRel_new this assms] show ?thesis by auto
qed

theorem fork_storage_refine_witness:
  "fst (fsRun sampleProvider [StoSet 1 2 9, StoGet 1 2, StoOriginal 1 2] (newForkStorage LatestBlock LatestBlock) NewMemoryStore) =
    Ok (fst (memStoRun [StoSet 1 2 9, StoGet 1 2, StoOriginal 1 2]
      (preloadedSlots (answeredSlot \<circ> remoteSlot sampleProvider LatestBlock LatestBlock NewMemoryStore))))"
  by (rule fork_storage_refine) (simp add: sample_slot)

text \<open>When an account cannot be loaded, any operation on it panics with the error of the provider, and neither
  the state nor the cache changes.\<close>

theorem failed_load_panics:
  assumes "remoteAccount K P cr sr c a = Inl e" "accAddr p = Some a"
  shows "faRun K P (p # ps) (newForkAccountState cr sr) c = (Panic (PanicErr (ErrOther e)), newForkAccountState cr sr, c)"
proof -
  have load: "faMustLoad K P a (newForkAccountState cr sr) c = (Panic (PanicErr (ErrOther e)), newForkAccountState cr sr, c)"
    using assms(1) by (intro faMustLoad_fail) (simp_all add: newForkAccountState_def)
  have ops: "faRead f K P a (newForkAccountState cr sr) c = (Panic (PanicErr (ErrOther e)), newForkAccountState cr sr, c)"
    "faWrite g K P a (newForkAccountState cr sr) c = (Panic (PanicErr (ErrOther e)), newForkAccountState cr sr, c)"
    for f :: "Address \<Rightarrow> InMemoryAccountState \<Rightarrow> 'x" and g by (simp_all add: faRead_def faWrite_def load)
  show ?thesis
  proof (cases p)
    case (AccRead rd b)
    with assms(2) show ?thesis by (cases rd) (simp_all add: fa_defs ops mapOut_def)
  next
    case (AccWrite w b)
    with assms(2) show ?thesis by (cases w) (simp_all add: fa_defs ops mapOut_def)
  qed (use assms(2) in simp_all)
qed

theorem failed_load_panics_witness:
  "faRun sampleHash (sampleProvider\<lparr>pvNonce := \<lambda>a r. Inl ''timeout''\<rparr>) [AccRead RdBalance 1, AccSnap]
      (newForkAccountState LatestBlock LatestBlock) NewMemoryStore =
    (Panic (PanicErr (ErrOther (''forkengine: load nonce for '' @ hexAddr 1 @ '': '' @ ''timeout''))),
     newForkAccountState LatestBlock LatestBlock, NewMemoryStore)"
  by (rule failed_load_panics [where a = 1])
    (simp_all add: remoteAccount_def fetchAccount_def GetAccount_def NewMemoryStore_def sampleProvider_def)

text \<open>C20: After any sequence of operations, writing the touched accounts back to the cache makes a fresh forked
  state start from the balances, nonces and codes the sequence left: a replayed transaction starts where the one
  before it ended.\<close>

theorem replay_handover:
  fixes K P ps cr sr c
  defines "start \<equiv> preloaded K (answered \<circ> remoteAccount K P cr sr c)"
    and "run \<equiv> faRun K P ps (newForkAccountState cr sr) c"
  assumes "\<forall>p\<in>set ps. \<forall>a. accAddr p = Some a \<longrightarrow> (\<exists>snap. remoteAccount K P cr sr c a = Inr snap)"
    and "pfState (pcConfig prepared) = fst (snd run)" "pcStateRef prepared = cr"
  shows "Balance a (preloaded K (answered \<circ> remoteAccount K P cr sr (writeBackPreparedState K prepared (snd (snd run))))) =
      Balance a (snd (memRun K ps start)) \<and>
    Nonce a (preloaded K (answered \<circ> remoteAccount K P cr sr (writeBackPreparedState K prepared (snd (snd run))))) =
      Nonce a (snd (memRun K ps start)) \<and>
    accCode a (preloaded K (answered \<circ> remoteAccount K P cr sr (writeBackPreparedState K prepared (snd (snd run))))) =
      accCode a (snd (memRun K ps start))"
proof -
  let ?rem = "remoteAccount K P cr sr c"
  have "sameRemote K P ?rem (newForkAccountState cr sr) c"
    by (simp add: sameRemote_def newForkAccountState_def)
  from faRun_ok [OF accRel_new this assms(3)] obtain st' c' where r: "run = (Ok (fst (memRun K ps start)), st', c')"
    "accRel K (answered \<circ> ?rem) st' (snd (memRun K ps start))" "sameRemote K P ?rem st' c'"
    unfolding run_def start_def by blast
  have "faCacheRef st' = cr" "faSourceRef st' = sr"
    using faRun_refs [OF r(1) [unfolded run_def]] by (simp_all add: refsOf_def newForkAccountState_def)
  with handover [OF r(2,3), of prepared] assms(4,5) r(1) show ?thesis by simp
qed

theorem replay_handover_witness:
  "\<exists>prepared. Balance 1 (preloaded sampleHash (answered \<circ> remoteAccount sampleHash sampleProvider LatestBlock LatestBlock
      (writeBackPreparedState sampleHash prepared (snd (snd (faRun sampleHash sampleProvider [AccWrite (WrAddBalance 5) 1]
        (newForkAccountState LatestBlock LatestBlock) NewMemoryStore)))))) = 75"
proof -
  let ?ps = "[AccWrite (WrAddBalance 5) 1]"
  let ?run = "faRun sampleHash sampleProvider ?ps (newForkAccountState LatestBlock LatestBlock) NewMemoryStore"
  define p where "p = createCall sampleHash (sampleTransaction 11 0) 3 sampleBlock LatestBlock
    \<lparr>svCacheRef = LatestBlock, svSourceRef = LatestBlock\<rparr> None samplePinned"
  define prepared where "prepared = p\<lparr>pcConfig := (pcConfig p)\<lparr>pfState := fst (snd ?run)\<rparr>\<rparr>"
  have "Balance 1 (preloaded sampleHash (answered \<circ> remoteAccount sampleHash sampleProvider LatestBlock LatestBlock
      (writeBackPreparedState sampleHash prepared (snd (snd ?run))))) =
    Balance 1 (snd (memRun sampleHash ?ps (preloaded sampleHash
      (answered \<circ> remoteAccount sampleHash sampleProvider LatestBlock LatestBlock NewMemoryStore))))"
    by (rule conjunct1 [OF replay_handover]) (simp_all add: prepared_def p_def createCall_def sample_remote)
  moreover have "\<dots> = 75"
    by (simp add: preloaded_def sample_remote answered_def seedAccount_def account_writes account_reads NewInMemoryAccountState_def mget_def)
  ultimately show ?thesis by auto
qed

text \<open>C21: A reconstruction that reports itself exact found the target in the block's list and applied exactly the
  transactions before it, in order: each was prepared on the engine the one before it left, executed, its result found to match its
  receipt, and its accounts written back; the replay then starts from that state. Otherwise it stays on the state it started from.\<close>

theorem reconstruction_exact:
  assumes "reconstructPriorTransactions K errText exec receiptOf execRef target rs fe = (Ok rs', fe')" "rsExact rs"
  shows "if rsExact rs'
    then \<exists>blockTxs before tx after. pvBlockTransactions (feProvider fe) = Some blockTxs \<and>
      blockTxs execRef = Inr (before @ tx # after) \<and> txHash tx = txHash target \<and>
      (\<forall>t\<in>set before. txHash t \<noteq> txHash target) \<and> rsApplied rs' = map txHash before \<and>
      rsStateRef rs' = syntheticReplayStateBlockRef target \<and>
      appliedPriors K exec receiptOf execRef \<lparr>svCacheRef = syntheticReplayStateBlockRef target, svSourceRef = rsSourceRef rs\<rparr> before fe fe'
    else rsStateRef rs' = rsStateRef rs \<and> rsApplied rs' = rsApplied rs"
  using reconstruct_result [OF assms] by simp

theorem reconstruction_exact_witness:
  "\<exists>(rs' :: ReplayState) fe' before tx after. before @ tx # after = [sampleTransaction 11 0, sampleTransaction 12 1] \<and> txHash tx = 12 \<and>
    rsApplied rs' = map txHash before \<and> rsApplied rs' = [11] \<and>
    appliedPriors sampleHash sampleExec (\<lambda>h. Inr (sampleReceipt h)) (BlockNumber 100)
      \<lparr>svCacheRef = syntheticReplayStateBlockRef (sampleTransaction 12 1), svSourceRef = BlockNumber 99\<rparr> before samplePinned fe'"
proof -
  let ?rs = "\<lparr>rsTarget = 12, rsExecutionRef = BlockNumber 100, rsStateRef = BlockNumber 99, rsSourceRef = BlockNumber 99,
    rsApplied = [], rsExact = True, rsLimitation = []\<rparr>"
  obtain rs' fe' where r: "reconstructPriorTransactions sampleHash (\<lambda>e. []) sampleExec (\<lambda>h. Inr (sampleReceipt h)) (BlockNumber 100)
      (sampleTransaction 12 1) ?rs samplePinned = (Ok rs', fe')" "rsExact rs'" "rsApplied rs' = [11]"
    using sample_reconstruct [of ?rs] by auto
  have h: "txHash (sampleTransaction 12 1) = 12" by (simp add: sampleTransaction_def)
  have p: "pvBlockTransactions (feProvider samplePinned) = Some (\<lambda>r. Inr [sampleTransaction 11 0, sampleTransaction 12 1])"
    by (simp add: sampleProvider_def)
  have "rsExact ?rs" by simp
  from reconstruction_exact [OF r(1) this] obtain blockTxs before tx after where
    b: "Some (\<lambda>r. Inr [sampleTransaction 11 0, sampleTransaction 12 1] :: string + Transaction list) = Some blockTxs"
      "blockTxs (BlockNumber 100) = Inr (before @ tx # after)"
    and rest: "txHash tx = 12" "rsApplied rs' = map txHash before"
      "appliedPriors sampleHash sampleExec (\<lambda>h. Inr (sampleReceipt h)) (BlockNumber 100)
        \<lparr>svCacheRef = syntheticReplayStateBlockRef (sampleTransaction 12 1), svSourceRef = rsSourceRef ?rs\<rparr> before samplePinned fe'"
    unfolding if_P [OF r(2)] p h by (elim exE conjE) (rule that)
  have l: "before @ tx # after = [sampleTransaction 11 0, sampleTransaction 12 1]" using b by (metis option.inject sum.inject(2))
  show ?thesis
    by (intro exI [of _ rs'] exI [of _ fe'] exI [of _ before] exI [of _ tx] exI [of _ after] conjI l rest(1,2) r(3))
      (use rest(3) in simp)
qed

text \<open>C22: A pinned engine that holds no replay state for a transaction of its block, be it a call or a creation, refuses to
  prepare its replay, since it needs the state of the block before; the error says so as soon as the receipt and, for a creation, the
  header are there. With a replay state, one recorded or imported before, the replay of a call is prepared on that state.\<close>

theorem pinned_replay_refused:
  assumes "feOK fe" "feMode fe = ModePinned" "brNumber (feBlock fe) = Some n" "0 < n" "n < 2 ^ 64"
    "pvTransactions (feProvider fe) = Some (txByHash, receiptOf)" "txByHash h = Inr tx" "txBlockNumber tx = Some n"
  shows "case lookupReplayState (txHash tx) fe of
      None \<Rightarrow> \<exists>e fe'. PrepareReplay K errText exec h fe = (Fail e, fe') \<and>
        (\<forall>receipt. receiptOf h = Inr receipt \<and> (txTo tx \<noteq> None \<or>
            rcContractAddress receipt \<noteq> None \<and> (\<exists>block. fst (ResolveBlock (executionRef fe tx) fe) = Ok block)) \<longrightarrow>
          e = ErrOther ''forkengine: pinned mode cannot resolve a different block'')
    | Some rs \<Rightarrow> \<forall>receipt a block fe1 code fe2. receiptOf h = Inr receipt \<and> txTo tx = Some a \<and>
        ResolveBlock (executionRef fe tx) fe = (Ok block, fe1) \<and>
        resolveCode a \<lparr>svCacheRef = rsStateRef rs, svSourceRef = rsSourceRef rs\<rparr> fe1 = (Ok code, fe2) \<longrightarrow>
        (\<exists>prepared fe'. PrepareReplay K errText exec h fe = (Ok (prepared, tx, receipt), fe') \<and>
          pcStateRef prepared = rsStateRef rs \<and> pcSourceRef prepared = rsSourceRef rs \<and> pcReplayState prepared = Some rs)"
proof (cases "lookupReplayState (txHash tx) fe")
  case None
  with pinned_replay [OF assms None] show ?thesis by simp
next
  case (Some rs)
  with pinned_replay_recorded [OF assms(6,7) _ _ Some] show ?thesis by simp
qed

theorem pinned_replay_refused_witness:
  "PrepareReplay sampleHash (\<lambda>e. []) sampleExec 12 samplePinned =
     (failure ''forkengine: pinned mode cannot resolve a different block'', snd (PrepareReplay sampleHash (\<lambda>e. []) sampleExec 12 samplePinned)) \<and>
   (\<exists>prepared tx receipt fe'. PrepareReplay sampleHash (\<lambda>e. []) sampleExec 12 samplePinnedReplay = (Ok (prepared, tx, receipt), fe') \<and>
     pcStateRef prepared = BlockNumber 99)"
proof
  have t: "txTo (sampleTransaction 12 1) \<noteq> None" "txHash (sampleTransaction 12 1) = 12" "txBlockNumber (sampleTransaction 12 1) = Some 100"
    by (simp_all add: sampleTransaction_def)
  have l: "lookupReplayState 12 samplePinned = None" "lookupReplayState 12 samplePinnedReplay = Some samplePinnedState"
    by (rule sample_lookup)+
  have p: "pvTransactions (feProvider samplePinned) = Some (\<lambda>h. Inr (sampleTransaction h 1), \<lambda>h. Inr (sampleReceipt h))"
    "pvTransactions (feProvider samplePinnedReplay) = Some (\<lambda>h. Inr (sampleTransaction h 1), \<lambda>h. Inr (sampleReceipt h))"
    by (simp_all add: sampleProvider_def)
  have b: "brNumber (feBlock samplePinned) = Some 100" "brNumber (feBlock samplePinnedReplay) = Some 100" by (simp_all add: BlockNumber_def)
  show "PrepareReplay sampleHash (\<lambda>e. []) sampleExec 12 samplePinned =
     (failure ''forkengine: pinned mode cannot resolve a different block'', snd (PrepareReplay sampleHash (\<lambda>e. []) sampleExec 12 samplePinned))"
    using pinned_replay_refused [OF samplePinned_OK(1) _ b(1) _ _ p(1) refl t(3), of sampleHash "\<lambda>e. []" sampleExec] t(1)
    by (auto simp: t(2) l(1))
  show "\<exists>prepared tx receipt fe'. PrepareReplay sampleHash (\<lambda>e. []) sampleExec 12 samplePinnedReplay = (Ok (prepared, tx, receipt), fe') \<and>
     pcStateRef prepared = BlockNumber 99"
    using pinned_replay_refused [OF samplePinned_OK(2) _ b(2) _ _ p(2) refl t(3), of sampleHash "\<lambda>e. []" sampleExec]
      sample_pinned_fetches
    by (fastforce simp: t(2) l(2) samplePinnedState_def)
qed

text \<open>C25: A replay matches a receipt when status, gas and logs agree, and exactly then no mismatch is reported; it
  matches a trace when outcome, return data and all steps agree, gas where the node gives it.\<close>

theorem replay_comparison:
  "(rmMatch (CompareReplayToReceipt tx receipt (Some r)) \<longleftrightarrow>
     (Status r = StatusSuccess) = upstreamSucceeded receipt \<and> replayGasUsed tx r = rcGasUsed receipt \<and> Logs r = rcLogs receipt) \<and>
   (rmFirstMismatch (CompareReplayToReceipt tx receipt res) = None \<longleftrightarrow> rmMatch (CompareReplayToReceipt tx receipt res)) \<and>
   (tcMatch (CompareReplayTrace local (Some r) up) \<longleftrightarrow>
     (Status r \<noteq> StatusSuccess) = stFailed up \<and> EncodeHex (ReturnData r) = normalizeTraceHex (stReturnValue up) \<and>
     list_all2 agree (normalizeReplayTrace local) (normalizeUpstreamTrace (stStructLogs up)))"
  by (simp only: receipt_match receipt_first_mismatch trace_match option.case)

text \<open>C26: Importing what was exported gives the cache back, and every operation keeps the shape this relies on.\<close>

theorem cache_export_import:
  assumes "storeOK c"
  shows "ImportState (ExportState c) c' = c \<and>
    storeOK (PutAccount a ref snap c) \<and> storeOK (PutStorage a slot ref v c) \<and> storeOK (PutCode a ref code c) \<and>
    storeOK (PutBlock ref b c) \<and> storeOK (ApplyOverlay K ref s c) \<and> storeOK (ApplyStateDiff K ref d c)"
  using assms by (simp add: export_import storeOK_puts storeOK_ApplyOverlay storeOK_ApplyStateDiff)

theorem cache_export_import_witness:
  "ImportState (ExportState (PutStorage 1 2 LatestBlock 3 NewMemoryStore)) NewMemoryStore = PutStorage 1 2 LatestBlock 3 NewMemoryStore"
  using cache_export_import [OF storeOK_puts(2) [OF storeOK_New, where a = 1 and slot = 2 and ref = LatestBlock and v = 3]] by blast

text \<open>C27: Writing an overlay to the cache sets, at its block, the dirty fields of its accounts and all its slots,
  and leaves every other entry.\<close>

theorem overlay_write_back:
  assumes "overlayOK s"
  shows "GetAccount a ref' (ApplyOverlay K ref (Some s) c) =
      (case ovGetAccount a s of
         Some x \<Rightarrow> if Normalize ref' = Normalize ref then mergeAccount K x (GetAccount a ref' c) else GetAccount a ref' c
       | None \<Rightarrow> GetAccount a ref' c) \<and>
    GetStorage a slot ref' (ApplyOverlay K ref (Some s) c) =
      (case ovGetStorage a slot s of
         Some v \<Rightarrow> if Normalize ref' = Normalize ref then Some v else GetStorage a slot ref' c
       | None \<Rightarrow> GetStorage a slot ref' c)"
  using ApplyOverlay_account [OF assms] ApplyOverlay_storage [OF assms] by simp

theorem overlay_write_back_witness:
  "GetStorage 1 2 LatestBlock (ApplyOverlay sampleHash LatestBlock (Some (ovSetStorage 1 2 7 ovNewState)) NewMemoryStore) = Some 7"
proof -
  have "overlayOK (ovSetStorage 1 2 7 ovNewState)" by (rule overlayOK_setStorage [OF overlayOK_new])
  from overlay_write_back [OF this, where a = 1 and slot = 2 and ref = LatestBlock and ref' = LatestBlock and K = sampleHash
      and c = NewMemoryStore]
  show ?thesis by (simp add: ovGetStorage_def ovSetStorage_def ovNewState_def)
qed

text \<open>C23: Several calls come to what they come to one after the other, whatever the mode of the client and the size of
  its batches: over a node that answers, the same results are written and the same error ends them, whether the node serves
  batches in any order or, where the client may ask, refuses them. (The text of a decoding error names the kind of call.)\<close>

theorem batch_is_serial:
  assumes "neverCancelled N" "servesSingles N answer" "1 \<le> rtyMaxAttempts (clRetry cl)" "length calls < 2 ^ 64"
    and "servesBatches N answer \<or> refusesBatches N \<and> clBatchMode cl \<noteq> BatchEnabled \<and> \<not> batchIsSupported cl"
  shows "\<exists>err rs cl1 w1 err' cl2 w2. BatchCalls N calls cl w = ((err, rs), cl1, w1) \<and> callSerial N calls cl w = ((err', rs), cl2, w2) \<and>
    map_option untagged err = map_option untagged err'"
  by (rule BatchCalls_serial [OF assms])

theorem batch_is_serial_witness:
  "\<exists>err rs cl1 err' cl2. BatchCalls sampleNetwork sampleCalls sampleClient () = ((err, rs), cl1, ()) \<and>
    callSerial sampleNetwork sampleCalls sampleClient () = ((err', rs), cl2, ()) \<and> map_option untagged err = map_option untagged err'"
proof -
  have few: "length sampleCalls < 2 ^ 64" by (simp add: sampleCalls_def)
  note serial = batch_is_serial [OF sampleNetwork_serves(1,2) sampleClient_attempts few disjI1 [OF sampleNetwork_serves(3)], of "()"]
  then show ?thesis by simp
qed

text \<open>C24: Over a node that answers with what it holds, the provider of the fork engine returns the very blocks, transactions and
  receipts, and the balances, nonces, codes and slots of its accounts. The node writes quantities, bytes, addresses and hashes in the
  encoding of the protocol, the members of an object in any order and among any others; what a document has no value for it leaves out
  or sends as null. A transaction the node does not know is an error. (The base fee for blobs is read from a member of its own, which
  a node that follows the protocol does not send: the field of the block is then unset.)\<close>

theorem provider_reads:
  assumes "neverCancelled N" "servesSingles N answer" "1 \<le> rtyMaxAttempts (clRetry cl)"
  shows "(\<forall>b. holdsBlock answer ref b \<longrightarrow> (\<exists>s. rpcGetBlock N ref cl w = (Inr b, s))) \<and>
    (\<forall>txs. holdsTransactions answer ref txs \<longrightarrow> (\<exists>s. rpcGetBlockTransactions N ref cl w = (Inr txs, s))) \<and>
    (\<forall>tx. holdsTransaction answer h tx \<longrightarrow> (\<exists>s. rpcGetTransactionByHash N h cl w = (Inr tx, s))) \<and>
    (\<forall>r. holdsReceipt answer h r \<longrightarrow> (\<exists>s. rpcGetTransactionReceipt N h cl w = (Inr r, s))) \<and>
    (\<forall>balance nonce code. holdsAccount answer a ref balance nonce code \<longrightarrow> (\<exists>s. rpcGetBalance N a ref cl w = (Inr balance, s)) \<and>
      (\<exists>s. rpcGetNonce N a ref cl w = (Inr nonce, s)) \<and> (\<exists>s. rpcGetCode N a ref cl w = (Inr code, s))) \<and>
    (\<forall>v. holdsSlot answer a k ref v \<longrightarrow> (\<exists>s. rpcGetStorageAt N a k ref cl w = (Inr v, s))) \<and>
    (lacksTransaction answer h \<longrightarrow> (\<exists>e s. rpcGetTransactionByHash N h cl w = (Inl (UpstreamError e), s)))"
  using provider_reads_documents [OF assms] provider_reads_accounts [OF assms] by (intro conjI allI impI) metis+

theorem provider_reads_witness:
  "(\<exists>s. rpcGetBlock sampleNetwork LatestBlock sampleClient () = (Inr chainBlock, s)) \<and>
   (\<exists>s. rpcGetBlockTransactions sampleNetwork LatestBlock sampleClient () = (Inr [sampleTransaction 11 0], s)) \<and>
   (\<exists>s. rpcGetTransactionByHash sampleNetwork 11 sampleClient () = (Inr (sampleTransaction 11 0), s)) \<and>
   (\<exists>s. rpcGetTransactionReceipt sampleNetwork 11 sampleClient () = (Inr (sampleReceipt 11), s)) \<and>
   (\<exists>s. rpcGetBalance sampleNetwork 3 LatestBlock sampleClient () = (Inr 70, s)) \<and>
   (\<exists>s. rpcGetStorageAt sampleNetwork 3 1 LatestBlock sampleClient () = (Inr 6, s))"
  using provider_reads [OF sampleNetwork_serves(1,2) sampleClient_attempts, of LatestBlock "()" 11 3 1]
    sample_holds(1,4) [of LatestBlock] sample_holds(2,3) [of 11] sample_holds(5) [of 3 LatestBlock] sample_holds(6) [of 3 1 LatestBlock]
  by (elim conjE, intro conjI) blast+

text \<open>C40: A replay report is consistent: it is exact until a prior transaction does not match its receipt or
  cannot be replayed, and then gives the reason. When it is exact it lists, in order, exactly the transactions of the block before the
  target.\<close>

theorem replay_report:
  assumes "ExportReplayReport K errText exec txh fe = (Ok r, fe')"
  shows "reportOK r \<and> (\<exists>txByHash receiptOf tx. pvTransactions (feProvider fe) = Some (txByHash, receiptOf) \<and> txByHash txh = Inr tx \<and>
    (reExact r \<longrightarrow> (\<exists>priors. priorsOf fe tx = Some priors \<and> reApplied r = map (\<lambda>t. hashToHex (txHash t)) priors)))"
  by (rule ExportReplayReport_OK [OF assms])

theorem replay_report_witness:
  "\<exists>r fe'. ExportReplayReport sampleHash (\<lambda>e. []) sampleExec 12 samplePinned = (Ok r, fe') \<and> reportOK r"
proof -
  obtain r fe' where run: "ExportReplayReport sampleHash (\<lambda>e. []) sampleExec 12 samplePinned = (Ok r, fe')"
    using sample_report by blast
  with replay_report [OF run] show ?thesis by blast
qed

section \<open>Debug server\<close>

text \<open>C31: What one run of a debugging session leaves. It is paused at a step behind its old position and not behind
  the last step the run took, for a reason that goes with it (the one step asked for, a requested pause, a
  breakpoint of the session); or it is done, at the last step. The run is the engine's, with the hooks of the session.\<close>

theorem debug_run_stops:
  assumes "replayPrepared E run arrives continueMode target code input ss w = Some ((None, ss'), w')"
    and "ofEngine L C run" and "envSafe E" and "sessionSafe E ss" and "continueMode \<or> -1 \<le> sePosition ss"
  shows "case seCurrent ss' of
      Some p \<Rightarrow> \<not> seDone ss' \<and> seResult ss' = None \<and> sePosition ss' = rpStepIndex p \<and> sePosition ss < sePosition ss' \<and>
        sePosition ss' \<le> seLastStep ss' \<and> stopReason continueMode ss p
    | None \<Rightarrow> seDone ss' \<and> sePosition ss' = seLastStep ss' \<and> -1 \<le> sePosition ss' \<and> (continueMode \<or> sePosition ss' \<le> sePosition ss)"
  by (rule replayPrepared_stops [OF assms])

theorem debug_run_stops_witness:
  "\<exists>ss'. replayPrepared sampleDebugEnv sampleRun (\<lambda>_. False) False (Some 1) (Some 1) [] sampleSession (0::nat) = Some ((None, ss'), 0) \<and>
    (case seCurrent ss' of
      Some p \<Rightarrow> \<not> seDone ss' \<and> seResult ss' = None \<and> sePosition ss' = rpStepIndex p \<and> -1 < sePosition ss' \<and>
        sePosition ss' \<le> seLastStep ss' \<and> stopReason False sampleSession p
    | None \<Rightarrow> seDone ss' \<and> sePosition ss' = seLastStep ss' \<and> -1 \<le> sePosition ss' \<and> sePosition ss' \<le> -1)"
proof -
  obtain ss' where run: "replayPrepared sampleDebugEnv sampleRun (\<lambda>_. False) False (Some 1) (Some 1) [] sampleSession (0::nat) = Some ((None, ss'), 0)"
    using sample_step [of "0::nat"] by (elim exE)
  have start: "False \<or> -1 \<le> sePosition sampleSession" by simp
  note stops = debug_run_stops [OF run sampleRun_ofEngine sampleDebugEnv_safe(1) sampleSession_fields(5) start]
  show ?thesis
    by (rule exI [of _ ss'], rule conjI [OF run], cases "seCurrent ss'") (use stops in simp_all)
qed

text \<open>C39: A run that ends in an error is reported with the code -32000 and leaves the session where it stood: no pause, and
  neither position, mutations, breakpoints nor the end of the session change.\<close>

theorem failed_run_keeps_position:
  assumes "replayPrepared E run arrives continueMode target code input ss w = Some ((Some err, ss'), w')"
    and "ofEngine L C run" and "envSafe E"
  shows "reCode err = -32000 \<and> sePosition ss' = sePosition ss \<and> seDone ss' = seDone ss \<and> seCurrent ss' = None \<and>
    seMutations ss' = seMutations ss \<and> map breakpointKey (seBreakpoints ss') = map breakpointKey (seBreakpoints ss)"
  by (rule replayPrepared_fails [OF assms])

theorem failed_run_keeps_position_witness:
  "\<exists>err ss'. replayPrepared sampleDebugEnv failingRun (\<lambda>_. False) True (Some 1) (Some 1) [] sampleSession (0::nat) = Some ((Some err, ss'), 0) \<and>
    reCode err = -32000 \<and> sePosition ss' = -1 \<and> seDone ss' = seDone sampleSession \<and> seCurrent ss' = None"
proof -
  obtain err ss' where run: "replayPrepared sampleDebugEnv failingRun (\<lambda>_. False) True (Some 1) (Some 1) [] sampleSession (0::nat) = Some ((Some err, ss'), 0)"
    using sample_fails [of "0::nat"] by (elim exE)
  note keeps = failed_run_keeps_position [OF run failingRun_ofEngine sampleDebugEnv_safe(1)]
  show ?thesis by (rule exI [of _ err], rule exI [of _ ss'], rule conjI [OF run]) (use keeps in simp)
qed

text \<open>Continuing a session is one run from the start: the loop that repeats a run with another bundle never
  repeats it.\<close>

theorem continue_runs_once:
  assumes "serverRuns L C E" "sessionSafe (xeDebug E) ss" "seKind ss = ''call'' \<or> seTrace ss \<noteq> []"
  shows "advanceLoadedSession E True ss fe = replaySession E 0 True ss fe"
  by (rule advance_continue [OF assms])

theorem continue_runs_once_witness:
  "advanceLoadedSession sampleServerEnv True sampleSession samplePinned = replaySession sampleServerEnv 0 True sampleSession samplePinned"
  by (rule continue_runs_once [OF sampleServerEnv_runs]) simp_all

text \<open>C32: Every method of the server keeps its state well-formed, whatever its parameters: breakpoints of a session have
  distinct identifiers, a known kind and, for storage and memory, a known access mode, mutations have the type they say, a paused session is not done and
  stands at the step of its pause, and patches hold slots and values that decode.\<close>

theorem methods_keep_server:
  assumes "serverRuns L C E" "serverOK sv" "handle E m params sv = Some (r, sv')"
  shows "serverOK sv'"
  using handle_keepsOK [OF assms(1), of m params] assms(2,3) by (auto simp: keepsOK_def)

theorem methods_keep_server_witness:
  "\<exists>r sv'. handle sampleServerEnv ''gdb.startCallSession'' [sampleCall] sampleServer = Some (r, sv') \<and> serverOK sv'"
proof -
  obtain r sv' where run: "handle sampleServerEnv ''gdb.startCallSession'' [sampleCall] sampleServer = Some (r, sv')"
    using sample_handle by blast
  with methods_keep_server [OF sampleServerEnv_runs sampleServer_OK run] show ?thesis by blast
qed

text \<open>C34: Writing a storage slot of a paused session takes effect at the next run: once the mutations up to the
  position are applied to its state, the slot holds the value.\<close>

theorem storage_write_takes_effect:
  assumes "writeStorage r ss = Inr ss'" "wsScope r \<noteq> scopeTransient" "sessionSafe E ss" "plMaxAlloc (dePeek E) < 2 ^ 63"
    and "(case parseAddress (wsAddress r) of Some a \<Rightarrow> Some a | None \<Rightarrow> seTargetAddr ss) = Some a"
  shows "\<exists>k v s'. decodeHashString (wsSlot r) = Inr k \<and> decodeHashString (wsValue r) = Inr v \<and>
    applyMutations (plMaxAlloc (dePeek E)) (sePosition ss) (seMutations ss') s = (Ok (), s') \<and> StorageGet a k (storage s') = v"
  by (rule writeStorage_effect [OF assms])

theorem storage_write_takes_effect_witness:
  "\<exists>ss' k v s'. writeStorage sampleWrite pausedSession = Inr ss' \<and> decodeHashString (wsSlot sampleWrite) = Inr k \<and>
    decodeHashString (wsValue sampleWrite) = Inr v \<and>
    applyMutations 100000 0 (seMutations ss') sampleState = (Ok (), s') \<and> StorageGet 1 k (storage s') = v"
proof -
  obtain ss' where w: "writeStorage sampleWrite pausedSession = Inr ss'" using sample_writeStorage by blast
  from storage_write_takes_effect [OF w, of sampleDebugEnv 1 sampleState] w show ?thesis by (auto simp: sampleWrite_decodes scopeTransient_def)
qed

text \<open>C36: What a client writes to the memory of a pause, it reads back at the same offset.\<close>

theorem memory_write_read:
  assumes "writeMemory lim r ss = (Done (), ss')" "decodeBytes (wmData r) = Inr dat" "dat \<noteq> []"
    and "length (seMemorySnapshot ss) \<le> lim" "length dat \<le> lim" "lim < 2 ^ 62"
  shows "\<exists>chunk. readMemory \<lparr>rdOffset = wmOffset r, rdLength = ulen dat\<rparr> ss' = Done chunk \<and> mcData chunk = encodeBytes dat \<and>
    mcLength chunk = ulen dat \<and> \<not> mcTruncated chunk"
  by (rule writeMemory_readMemory [OF assms])

theorem memory_write_read_witness:
  "\<exists>ss' chunk. writeMemory 1000 \<lparr>wmOffset = 1, wmData = encodeBytes [7, 8]\<rparr> pausedSession = (Done (), ss') \<and>
    readMemory \<lparr>rdOffset = 1, rdLength = ulen [7, 8]\<rparr> ss' = Done chunk \<and> mcData chunk = encodeBytes [7, 8]"
proof -
  obtain ss' where w: "writeMemory 1000 \<lparr>wmOffset = 1, wmData = encodeBytes [7, 8]\<rparr> pausedSession = (Done (), ss')"
    using sample_writeMemory by blast
  from memory_write_read [OF w, of "[7, 8]"] w show ?thesis by (auto simp: decodeBytes_encodeBytes pausedSession_fields)
qed

text \<open>C35: A patch exported from one session and imported into the next carries its storage: once applied to a fresh
  state, every slot that the first session wrote under one text reads as the last of its writes, whatever their scopes are called, and
  a slot it did not write is unchanged. A slot written under several texts (the case of a digit is enough) reads as the last write
  under the greatest of them, which need not be the last. No scope may be the transient one only once it is trimmed.\<close>

theorem patch_carries_storage:
  assumes "\<forall>m\<in>set (seMutations ss). recordedMutation m \<and> plainScope m \<and> mutationOK lim m" "lim < 2 ^ 63"
  shows "\<exists>s'. applyMutations lim 0 (patchMutations (patchOf i ''all'' ss)) s = (Ok (), s') \<and>
    (\<forall>a k. StorageGet a k (storage s') =
      (case carriedWrite a k (seMutations ss) of Some m \<Rightarrow> valueOf (muValue m) | None \<Rightarrow> StorageGet a k (storage s))) \<and>
    (\<forall>a k. namedAlike a k (seMutations ss) \<longrightarrow> StorageGet a k (storage s') =
      (case find (writesTo a k) (rev (seMutations ss)) of Some m \<Rightarrow> valueOf (muValue m) | None \<Rightarrow> StorageGet a k (storage s)))"
  using patch_applies [OF assms, of i s] by (auto simp: carriedWrite_last)

theorem patch_carries_storage_witness:
  "\<exists>s'. applyMutations 1000 0 (patchMutations (patchOf ''patch-1'' ''all'' writtenSession)) sampleState = (Ok (), s') \<and>
    StorageGet 1 2 (storage s') = 4 \<and> StorageGet 1 0xAB (storage s') = 7"
proof -
  obtain s' where s': "applyMutations 1000 0 (patchMutations (patchOf ''patch-1'' ''all'' writtenSession)) sampleState = (Ok (), s')"
    and carried: "\<forall>a k. StorageGet a k (storage s') = (case carriedWrite a k (seMutations writtenSession) of
        Some m \<Rightarrow> valueOf (muValue m) | None \<Rightarrow> StorageGet a k (storage sampleState))"
    and last: "\<forall>a k. namedAlike a k (seMutations writtenSession) \<longrightarrow> StorageGet a k (storage s') =
      (case find (writesTo a k) (rev (seMutations writtenSession)) of Some m \<Rightarrow> valueOf (muValue m) | None \<Rightarrow> StorageGet a k (storage sampleState))"
    using patch_carries_storage [OF writtenSession_recorded, of 1000 "''patch-1''" sampleState] by auto
  have "StorageGet 1 2 (storage s') = 4"
    using last [rule_format, OF writtenSession_carries(1)] unfolding writtenSession_carries(2)
    by (simp add: valueOf_def storageMutation_def decodeHashString_encodeHash)
  moreover have "StorageGet 1 0xAB (storage s') = 7"
    using carried [rule_format, of 1 "0xAB"] unfolding writtenSession_carries(3)
    by (simp add: valueOf_def storageMutation_def decodeHashString_encodeHash)
  ultimately show ?thesis using s' by blast
qed

text \<open>C38: The search for the contract of a code reports exactly the artifacts that agree with it, their metadata cut
  off: same length, and different bytes only where an immutable lies. They come in the order of the comparison, and the cache of
  build files stays true to the files.\<close>

theorem bytecode_matches:
  assumes "FindMatches fs root code cache = (Inr rs, cache')" "cacheFresh fs cache" "normalizeForMatch code \<noteq> []"
  shows "cacheFresh fs cache' \<and> sorted_wrt (\<lambda>a b. \<not> resultLess b a) rs \<and>
    (\<exists>paths. findBuildInfoFiles fs root = Inr paths \<and>
      (\<forall>r. r \<in> set rs \<longleftrightarrow> (\<exists>path\<in>set paths. \<exists>entry\<in>set (candidatesAt fs path).
         agrees (normalizeForMatch code) (normalizeForMatch (acBytecode entry)) (acImmutables entry) \<and>
         r = \<lparr>mrsSourceName = acSourceName entry, mrsContractName = acContractName entry, mrsBuildInfoPath = acBuildInfoPath entry,
              mrsMatchedBytes = length (normalizeForMatch code), mrsTotalBytes = length (normalizeForMatch code), mrsExact = True,
              mrsImmutableBytes = masked (maskOf (length (normalizeForMatch code)) (acImmutables entry))\<rparr>)))"
  by (rule FindMatches_results [OF assms])

theorem bytecode_matches_witness:
  "\<exists>rs cache. FindMatches sampleFiles ''root'' [0x5B, 0x60] [] = (Inr rs, cache) \<and> cacheFresh sampleFiles cache \<and>
    sorted_wrt (\<lambda>a b. \<not> resultLess b a) rs \<and> map mrsContractName rs = [''A'']"
proof -
  obtain cache where run: "FindMatches sampleFiles ''root'' [0x5B, 0x60] [] =
     (Inr [\<lparr>mrsSourceName = ''a.sol'', mrsContractName = ''A'', mrsBuildInfoPath = ''a.json'', mrsMatchedBytes = 2, mrsTotalBytes = 2,
            mrsExact = True, mrsImmutableBytes = 1\<rparr>], cache)"
    using sample_found by blast
  have "cacheFresh sampleFiles []" "normalizeForMatch [0x5B, 0x60] \<noteq> []" by (simp_all add: cacheFresh_def short_code)
  from bytecode_matches [OF run this] run show ?thesis by simp
qed

text \<open>C37: A breakpoint on a line and column resolves, in order and without repetition, to all instructions that share the
  smallest span of those on the line that starts at the column or later (or else anywhere on the line), and when no span
  lies on the line, to the first instruction mapped behind it.\<close>

theorem source_breakpoint:
  assumes "resolveSourceBreakpointPCs (Some bundle) name line column = Inr pcs"
  shows "\<exists>idx file lo hi. buIndex bundle = Some idx \<and> SourceFileByName (Some idx) name = Some file \<and> lineRange file line = Some (lo, hi) \<and>
    sorted pcs \<and> distinct pcs \<and>
    (let cs = matchesOnLine idx (sfID file) lo hi in
     if cs \<noteq> []
     then (\<exists>b. bestOnLine (requestedOffset lo column) cs b \<and>
       set pcs = cdPC ` {c \<in> set cs. cdStart c = cdStart b \<and> cdLength c = cdLength b})
     else (\<exists>ins\<in>set (ixInstructions idx). pcs = [imPC ins] \<and> srcID (imSource ins) = sfID file \<and> lo \<le> srcStart (imSource ins) \<and>
       (\<forall>j\<in>set (ixInstructions idx). srcID (imSource j) = sfID file \<longrightarrow> lo \<le> srcStart (imSource j) \<longrightarrow>
          srcStart (imSource ins) \<le> srcStart (imSource j))))"
  by (rule resolved_breakpoint [OF assms])

theorem source_breakpoint_witness:
  "\<exists>pcs. resolveSourceBreakpointPCs (Some sampleBundle) ''a.sol'' 1 1 = Inr pcs \<and> sorted pcs \<and> distinct pcs \<and> pcs \<noteq> []"
proof -
  have run: "resolveSourceBreakpointPCs (Some sampleBundle) ''a.sol'' 1 1 = Inr [2, 5]" by (rule sample_resolves)
  from source_breakpoint [OF run] run show ?thesis by auto
qed

text \<open>C33: A sequence of calls whose parameters decode starts, and when each step session is run to its end, how far it gets
  depends on the blocks of its calls. When nothing is carried, or every call is on the block of the one before it, it steps as many
  times as it has steps without a refusal, and is done. Otherwise it steps up to the last call before the first change of block, and
  the step behind it is refused with the reason \<open>PATCH_BASE_MISMATCH\<close>: the sequence stays where it is and is not done.\<close>

theorem sequence_ends:
  assumes "sequenceStartRequestOf v = Inr req" "normalizeCarryMode (sqStateCarry req) \<noteq> []" "sqSteps req \<noteq> []"
    "\<forall>st\<in>set (normalizeSequenceSteps (sqSteps req)). stepReady st" "endsSession finish"
  shows "\<exists>q x xs y sv1. startSequenceSession E [v] sv = Some (Done (RvSequence q x xs y), sv1) \<and>
    (case carriesTo (normalizeCarryMode (sqStateCarry req)) (normalizeSequenceSteps (sqSteps req)) of
       None \<Rightarrow> \<exists>sv2 q'. playSequence E finish (sqID q) (length (sqSteps req)) sv1 = Some sv2 \<and>
         map_of (svSequences sv2) (sqID q) = Some q' \<and> sqDone q'
     | Some k \<Rightarrow> \<exists>sv2 e sv3 q'. playSequence E finish (sqID q) k sv1 = Some sv2 \<and>
         playStep E finish (sqID q) sv2 = Some (Refused e, sv3) \<and> reCode e = -32602 \<and>
         map_of (reData e) ''reason'' = Some (AnyString ''PATCH_BASE_MISMATCH'') \<and>
         map_of (svSequences sv3) (sqID q) = Some q' \<and> sqCurrentStepIndex q' = int k \<and> \<not> sqDone q')"
proof -
  obtain sv1 q ss x xs y where start: "startSequenceSession E [v] sv = Some (Done (RvSequence q x xs y), sv1)"
      "playedTo sv1 (sqID q) 0 q ss" "sqStepSpecs q = normalizeSequenceSteps (sqSteps req)"
      "sqCarry q = ''none'' \<longleftrightarrow> normalizeCarryMode (sqStateCarry req) = ''none''"
    using startSequence_at [OF assms(1-4)] by blast
  have plan: "carriesTo (sqCarry q) (sqStepSpecs q) = carriesTo (normalizeCarryMode (sqStateCarry req)) (normalizeSequenceSteps (sqSteps req))"
    "length (sqStepSpecs q) = length (sqSteps req)"
    using start(3,4) by (simp_all add: carriesTo_def normalizeSequenceSteps_def)
  show ?thesis
    by (intro exI conjI) (rule start(1), rule playSequence_outcome [OF assms(5) start(2), of E, unfolded plan])
qed

theorem sequence_ends_witness:
  "(\<exists>q x xs y sv1 sv2 q'. startSequenceSession sampleServerEnv [sampleSequence [''latest'', ''latest'']] sampleServer = Some (Done (RvSequence q x xs y), sv1) \<and>
      playSequence sampleServerEnv (\<lambda>ss. ss\<lparr>seDone := True\<rparr>) (sqID q) 2 sv1 = Some sv2 \<and>
      map_of (svSequences sv2) (sqID q) = Some q' \<and> sqDone q') \<and>
   (\<exists>q x xs y sv1 sv2 e sv3. startSequenceSession sampleServerEnv [sampleSequence [''latest'', ''latest'', ''safe'']] sampleServer =
        Some (Done (RvSequence q x xs y), sv1) \<and>
      playSequence sampleServerEnv (\<lambda>ss. ss\<lparr>seDone := True\<rparr>) (sqID q) 1 sv1 = Some sv2 \<and>
      playStep sampleServerEnv (\<lambda>ss. ss\<lparr>seDone := True\<rparr>) (sqID q) sv2 = Some (Refused e, sv3) \<and> reCode e = -32602)"
proof -
  have e: "endsSession (\<lambda>ss. ss\<lparr>seDone := True\<rparr>)" by (simp add: endsSession_def)
  have s: "set [''latest'', ''latest''] \<subseteq> {''latest'', ''safe''}" "set [''latest'', ''latest'', ''safe''] \<subseteq> {''latest'', ''safe''}" by auto
  have c: "normalizeCarryMode (sqStateCarry \<lparr>sqSteps = map sampleStep bs, sqStateCarry = ''full''\<rparr>) = ''full''"
      "sqSteps \<lparr>sqSteps = map sampleStep bs, sqStateCarry = ''full''\<rparr> = map sampleStep bs" for bs
    by (simp_all add: sampleSequence_carry)
  have n: "normalizeCarryMode (sqStateCarry \<lparr>sqSteps = map sampleStep bs, sqStateCarry = ''full''\<rparr>) \<noteq> []" for bs unfolding c by simp
  have m: "sqSteps \<lparr>sqSteps = map sampleStep (b # bs), sqStateCarry = ''full''\<rparr> \<noteq> []" for b bs by simp
  note two = sequence_ends [OF sampleSequence_decodes n m sampleSequence_ready [OF s(1)] e, of sampleServerEnv sampleServer,
      unfolded c sampleSequence_carries option.case]
  note three = sequence_ends [OF sampleSequence_decodes n m sampleSequence_ready [OF s(2)] e, of sampleServerEnv sampleServer,
      unfolded c sampleSequence_carries option.case]
  have len: "length (map sampleStep [''latest'', ''latest'']) = 2" by simp
  show ?thesis using two [unfolded len] three by blast
qed

text \<open>The texts of the protocol decode to what they encode: bytes, addresses, hashes, quantities and the modes of
  breakpoints.\<close>

theorem rpc_round_trips:
  "decodeBytes (encodeBytes bs) = Inr bs \<and> decodeAddress (addressHex a) = Inr a \<and> decodeHashString (encodeHash h) = Inr h \<and>
   decodeUint64 (encodeQuantity (Some (uint n))) = Inr n \<and> decodeBig (encodeQuantity (Some (int v))) = Inr (int v) \<and>
   parseAccessMode (accessText mode) = Inr mode"
  by (simp add: decodeBytes_encodeBytes decodeAddress_addressHex decodeHashString_encodeHash decodeUint64_encodeQuantity
      decodeBig_encodeQuantity parseAccessMode_accessText)

section \<open>Source maps\<close>

text \<open>C28: A compressed source map, in which each entry leaves out what the one before it has, is parsed back
  into the positions it was made of, one per instruction of the code.\<close>

theorem source_map_round_trip:
  assumes "length ss = length (decodeInstructionPCs code)" "\<forall>s\<in>set ss. writable s" "compress ss \<noteq> []"
  shows "ParseInstructionMappings code (compress ss) =
    Inr (map2 (\<lambda>(i, p) s. mappingOf i p (code ! p) s) (enumerate 0 (filter (isBoundary code) [0..<length code])) ss)"
  using compress_round_trip [OF assms] by (simp only: decodeInstructionPCs_boundaries)

theorem source_map_round_trip_witness:
  "\<exists>ms. ParseInstructionMappings [0x60, 1, 0x5B] (compress
       [\<lparr>smStart = 3, smLength = 9, smFileID = 0, smJump = ''i'', smModifierDepth = 0\<rparr>,
        \<lparr>smStart = 5, smLength = 9, smFileID = 0, smJump = ''i'', smModifierDepth = 1\<rparr>]) = Inr ms \<and>
     map imPC ms = [0, 2]"
proof -
  let ?ss = "[\<lparr>smStart = 3, smLength = 9, smFileID = 0, smJump = ''i'', smModifierDepth = 0\<rparr>,
        \<lparr>smStart = 5, smLength = 9, smFileID = 0, smJump = ''i'', smModifierDepth = 1\<rparr>]"
  have pcs: "decodeInstructionPCs [0x60, 1, 0x5B] = [0, 2]"
    by (simp add: decodeInstructionPCs_def instructionPCs.simps)
  have "compress ?ss \<noteq> []"
    by (simp add: compress_def compressEntry_def dropTrailing_def entryFields_def writeField_def initialSourceMapState_def JumpNone_def)
  moreover have "filter (isBoundary [0x60, 1, 0x5B]) [0..<length ([0x60, 1, 0x5B] :: bytes)] = [0, 2]"
    unfolding decodeInstructionPCs_boundaries [symmetric] by (rule pcs)
  ultimately have "ParseInstructionMappings [0x60, 1, 0x5B] (compress ?ss) =
    Inr (map2 (\<lambda>(i, p) s. mappingOf i p ([0x60, 1, 0x5B] ! p) s) (enumerate 0 [0, 2]) ?ss)"
    using source_map_round_trip [of ?ss "[0x60, 1, 0x5B]"] by (simp only: pcs) (simp add: writable_def isInt64_def)
  then show ?thesis by (simp add: mappingOf_def)
qed

text \<open>C29: A built index holds one mapping per instruction, in order; a program counter is found exactly when an
  instruction starts there; and the syntax node of a mapping is the smallest of all files that covers its range.\<close>

theorem source_index:
  assumes "BuildIndexFromStandardJSON doc conf = Inr idx" "length (selectedCode conf idx) \<le> 2 ^ 64"
  shows "map imPC (ixInstructions idx) =
      map of_nat (filter (isBoundary (selectedCode conf idx)) [0..<length (selectedCode conf idx)]) \<and>
    (InstructionAtPC idx p = Some m \<longleftrightarrow> m \<in> set (ixInstructions idx) \<and> imPC m = p) \<and>
    (m \<in> set (ixInstructions idx) \<longrightarrow> smallestCover (allNodes idx) (imSource m) (imAST m))"
  using built_index [OF assms] by blast

theorem source_index_witness:
  "\<exists>idx :: SourceIndex. map imPC (ixInstructions idx) = [0] \<and> ixRuntimeBytecode idx = [0x5B]"
proof -
  let ?conf = "\<lparr>bcSourceName = ''a.sol'', bcContractName = ''A'', bcRuntime = True\<rparr>"
  obtain idx where idx: "BuildIndexFromStandardJSON sampleJSON ?conf = Inr idx" "ixRuntimeBytecode idx = [0x5B]"
    using sample_built by blast
  then have code: "selectedCode ?conf idx = [0x5B]" by (simp add: selectedCode_def)
  have "filter (isBoundary [0x5B]) [0..<length ([0x5B] :: bytes)] = [0]"
    unfolding decodeInstructionPCs_boundaries [symmetric] by (simp add: decodeInstructionPCs_def instructionPCs.simps)
  with source_index [OF idx(1)] idx(2) show ?thesis unfolding code by (intro exI [of _ idx]) simp
qed

text \<open>C30: At every rune boundary of a file, the byte offset becomes a line and a column that lead back to it.\<close>

theorem line_column_round_trip_file:
  assumes "\<forall>r\<in>set rs. 0 < snd r" "k \<le> length rs"
  shows "(case LineColumnForOffset (Some rs) (int (contentLength (take k rs))) of (l, c) \<Rightarrow> OffsetForLineColumn (Some rs) l c) =
    (int (contentLength (take k rs)), True)"
  using line_column_round_trip [OF assms] by (simp split: prod.split)

theorem line_column_round_trip_file_witness:
  "(case LineColumnForOffset (Some [(97, 1), (233, 2), (10, 1), (98, 1)]) 4 of
     (l, c) \<Rightarrow> OffsetForLineColumn (Some [(97, 1), (233, 2), (10, 1), (98, 1)]) l c) = (4, True)"
  using line_column_round_trip_file [of "[(97, 1), (233, 2), (10, 1), (98, 1)]" 3] by (simp add: contentLength_def)

end
